(* ===== verification/Fuji_Prelude.thy ===== *)
theory Fuji_Prelude
  imports Main "HOL-Library.Word" "HOL-Library.AList" "HOL-Library.Sublist"
begin

text \<open>
  The prelude: what the component theories share.

  \<^item> \<open>Result\<close>: a fallible Rust function returns \<open>'e + 'a\<close> with \<open>Inl\<close> for \<open>Err\<close>; \<open>and_then\<close> is
    the \<open>?\<close> operator, \<open>check_all\<close> and \<open>fold_res\<close> are the \<open>for\<close> loops that leave early through \<open>?\<close>.
  \<^item> Strings: a Rust \<open>String\<close> is its list of bytes.  The operations of \<open>str\<close> that the source uses
    (\<open>split\<close>, \<open>trim\<close>, \<open>starts_with\<close>, \<open>find\<close>, \<open>join\<close>, \<open>parse\<close>, \<open>to_lowercase\<close>) are written out.  White space
    and letter case are those of ASCII.
  \<^item> Maps: a \<open>HashMap\<close> is an association list with distinct keys.  Its order stands for the
    iteration order that Rust leaves open; the locale \<open>hash_map\<close> states the laws the components
    rely on and is interpreted on this model.
  \<^item> Integers are words of the width the source gives them; \<open>DateTime<Utc>\<close> and
    \<open>Duration\<close> are integers that count nanoseconds.
\<close>

named_theorems fuji_str \<open>rewrite rules for the string operations\<close>
named_theorems fuji_eval \<open>definitions that evaluate string and map operations on literals\<close>
named_theorems fuji_res \<open>rewrite rules for results\<close>

type_synonym u8 = "8 word"
type_synonym u16 = "16 word"
type_synonym u32 = "32 word"
type_synonym u64 = "64 word"
type_synonym usize = "64 word"

type_synonym instant = int
type_synonym duration = int

text \<open>A call that waits for a lock that will not be released is \<open>Blocked\<close>, one that panics \<open>Panicked\<close>.\<close>

datatype 'a outcome = Returned 'a | Blocked | Panicked

definition secs :: "int \<Rightarrow> duration" where
  [simp]: "secs n = n * 1000000000"

definition millis :: "int \<Rightarrow> duration" where
  [simp]: "millis n = n * 1000000"

section \<open>Results\<close>

fun and_then :: "'e + 'a \<Rightarrow> ('a \<Rightarrow> 'e + 'b) \<Rightarrow> 'e + 'b" where
  "and_then (Inl e) f = Inl e"
| "and_then (Inr x) f = f x"

definition is_ok :: "'e + 'a \<Rightarrow> bool" where
  [fuji_eval]: "is_ok r = (case r of Inl _ \<Rightarrow> False | Inr _ \<Rightarrow> True)"

fun map_err :: "('e \<Rightarrow> 'f) \<Rightarrow> 'e + 'a \<Rightarrow> 'f + 'a" where
  "map_err f (Inl e) = Inl (f e)"
| "map_err f (Inr x) = Inr x"

definition ok_or :: "'a option \<Rightarrow> 'e \<Rightarrow> 'e + 'a" where
  [fuji_eval]: "ok_or r e = (case r of None \<Rightarrow> Inl e | Some x \<Rightarrow> Inr x)"

definition ensure :: "bool \<Rightarrow> 'e \<Rightarrow> 'e + unit" where
  [fuji_eval]: "ensure b e = (if b then Inr () else Inl e)"

fun check_all :: "('a \<Rightarrow> 'e + unit) \<Rightarrow> 'a list \<Rightarrow> 'e + unit" where
  "check_all f [] = Inr ()"
| "check_all f (x # xs) = and_then (f x) (\<lambda>_. check_all f xs)"

fun fold_res :: "('s \<Rightarrow> 'a \<Rightarrow> 'e + 's) \<Rightarrow> 's \<Rightarrow> 'a list \<Rightarrow> 'e + 's" where
  "fold_res f s [] = Inr s"
| "fold_res f s (x # xs) = and_then (f s x) (\<lambda>s'. fold_res f s' xs)"

lemma and_then_Inr_iff [fuji_res]:
  "and_then r f = Inr y \<longleftrightarrow> (\<exists>x. r = Inr x \<and> f x = Inr y)"
  by (cases r) auto

lemma and_then_Inl_iff [fuji_res]:
  "and_then r f = Inl e \<longleftrightarrow> r = Inl e \<or> (\<exists>x. r = Inr x \<and> f x = Inl e)"
  by (cases r) auto

lemma is_ok_simps [simp]: "is_ok (Inr x)" "\<not> is_ok (Inl e)"
  by (simp_all add: is_ok_def)

lemma is_ok_iff [fuji_res]: "is_ok r \<longleftrightarrow> (\<exists>x. r = Inr x)"
  by (cases r) auto

lemma is_ok_unit_iff: "is_ok (r :: 'e + unit) \<longleftrightarrow> r = Inr ()"
  by (cases r) auto

lemma ok_or_Inr_iff [fuji_res]: "ok_or r e = Inr x \<longleftrightarrow> r = Some x"
  by (cases r) (auto simp: ok_or_def)

lemma ok_or_Inl_iff [fuji_res]: "ok_or r e = Inl e' \<longleftrightarrow> r = None \<and> e' = e"
  by (cases r) (auto simp: ok_or_def)

lemma ok_or_simps [simp]: "ok_or None e = Inl e" "ok_or (Some x) e = Inr x"
  by (simp_all add: ok_or_def)

lemma map_err_Inr_iff [fuji_res]: "map_err f r = Inr x \<longleftrightarrow> r = Inr x"
  by (cases r) auto

lemma map_err_Inl_iff [fuji_res]: "map_err f r = Inl e \<longleftrightarrow> (\<exists>e'. r = Inl e' \<and> e = f e')"
  by (cases r) auto

lemma ensure_Inr_iff [fuji_res]: "ensure b e = Inr u \<longleftrightarrow> b"
  by (simp add: ensure_def)

lemma ensure_Inl_iff [fuji_res]: "ensure b e = Inl e' \<longleftrightarrow> \<not> b \<and> e' = e"
  by (auto simp: ensure_def)

lemma ensure_simps [simp]: "ensure True e = Inr ()" "ensure False e = Inl e"
  by (simp_all add: ensure_def)

text \<open>A validating loop succeeds exactly when every element passes, and fails with the error of
  the first element that does not.\<close>

lemma check_all_ok_iff [fuji_res]: "check_all f xs = Inr u \<longleftrightarrow> (\<forall>x \<in> set xs. f x = Inr ())"
  by (induction xs) (auto simp: and_then_Inr_iff)

lemma check_all_err_split:
  "check_all f xs = Inl e \<Longrightarrow>
     \<exists>ys x zs. xs = ys @ x # zs \<and> (\<forall>y \<in> set ys. f y = Inr ()) \<and> f x = Inl e"
proof (induction xs)
  case (Cons a xs)
  show ?case
  proof (cases "f a")
    case (Inl e')
    with Cons.prems have "a # xs = [] @ a # xs \<and> f a = Inl e" by simp
    then show ?thesis by fastforce
  next
    case (Inr u)
    with Cons obtain ys x zs
      where "xs = ys @ x # zs" and "\<forall>y \<in> set ys. f y = Inr ()" and "f x = Inl e"
      by auto
    with Inr have "a # xs = (a # ys) @ x # zs \<and> (\<forall>y \<in> set (a # ys). f y = Inr ()) \<and> f x = Inl e"
      by simp
    then show ?thesis by blast
  qed
qed simp

lemma check_all_append:
  "check_all f (xs @ ys) = and_then (check_all f xs) (\<lambda>_. check_all f ys)"
proof (induction xs)
  case (Cons x xs)
  then show ?case by (cases "f x") auto
qed simp

lemma check_all_err_intro:
  "(\<forall>y \<in> set ys. f y = Inr ()) \<Longrightarrow> f x = Inl e \<Longrightarrow> check_all f (ys @ x # zs) = Inl e"
  using check_all_ok_iff [of f ys "()"] by (simp add: check_all_append)

lemma check_all_err_iff:
  "check_all f xs = Inl e \<longleftrightarrow>
     (\<exists>ys x zs. xs = ys @ x # zs \<and> (\<forall>y \<in> set ys. f y = Inr ()) \<and> f x = Inl e)"
  (is "?l \<longleftrightarrow> ?r")
proof
  show "?l \<Longrightarrow> ?r" by (rule check_all_err_split)
  show "?r \<Longrightarrow> ?l" by (elim exE conjE) (simp add: check_all_err_intro)
qed

lemma fold_res_invariant:
  assumes "fold_res f s xs = Inr t" and "P s"
    and "\<And>s x s'. \<lbrakk>x \<in> set xs; P s; f s x = Inr s'\<rbrakk> \<Longrightarrow> P s'"
  shows "P t"
  using assms
proof (induction xs arbitrary: s)
  case Nil
  then show ?case by simp
next
  case (Cons x xs)
  from Cons.prems(1) obtain s' where s': "f s x = Inr s'" and rest: "fold_res f s' xs = Inr t"
    by (auto simp: and_then_Inr_iff)
  have "P s'" using Cons.prems(2,3) s' by auto
  then show ?case using Cons.IH [OF rest] Cons.prems(3) by auto
qed

lemma fold_res_append:
  "fold_res f s (xs @ ys) = and_then (fold_res f s xs) (\<lambda>s'. fold_res f s' ys)"
proof (induction xs arbitrary: s)
  case (Cons x xs)
  then show ?case by (cases "f s x") auto
qed simp

section \<open>Strings\<close>

fun starts_with :: "'a list \<Rightarrow> 'a list \<Rightarrow> bool" where
  "starts_with s [] = True"
| "starts_with [] (p # ps) = False"
| "starts_with (c # s) (p # ps) = (c = p \<and> starts_with s ps)"

definition ends_with :: "'a list \<Rightarrow> 'a list \<Rightarrow> bool" where
  [fuji_eval]: "ends_with s p = starts_with (rev s) (rev p)"

fun contains_str :: "'a list \<Rightarrow> 'a list \<Rightarrow> bool" where
  "contains_str [] p = (p = [])"
| "contains_str (c # s) p = (starts_with (c # s) p \<or> contains_str s p)"

lemma starts_with_prefix [fuji_str]: "starts_with s p \<longleftrightarrow> prefix p s"
  by (induction s p rule: starts_with.induct) auto

lemma ends_with_suffix [fuji_str]: "ends_with s p \<longleftrightarrow> suffix p s"
  by (simp add: ends_with_def starts_with_prefix suffix_to_prefix)

lemma contains_str_sublist [fuji_str]: "contains_str s p \<longleftrightarrow> sublist p s"
  by (induction s) (auto simp: starts_with_prefix sublist_Cons_right)

lemma starts_with_append [simp]: "starts_with (p @ s) p"
  by (induction p) auto

definition contains_char :: "string \<Rightarrow> char \<Rightarrow> bool" where
  [fuji_eval]: "contains_char s c = list_ex (\<lambda>d. d = c) s"

lemma contains_char_iff [fuji_str]: "contains_char s c \<longleftrightarrow> c \<in> set s"
  by (auto simp: contains_char_def list_ex_iff)

text \<open>\<open>s.find(c)\<close> and the two slices \<open>&s[..pos]\<close>, \<open>&s[pos + 1..]\<close> that the source takes
  with it are \<open>split_once\<close>.\<close>

fun split_once :: "char \<Rightarrow> string \<Rightarrow> (string \<times> string) option" where
  "split_once c [] = None"
| "split_once c (x # xs) =
     (if x = c then Some ([], xs)
      else map_option (\<lambda>(a, b). (x # a, b)) (split_once c xs))"

definition before_first :: "char \<Rightarrow> string \<Rightarrow> string" where
  [fuji_eval]: "before_first c s = takeWhile (\<lambda>d. d \<noteq> c) s"

lemma split_once_None_iff [fuji_str]: "split_once c s = None \<longleftrightarrow> c \<notin> set s"
  by (induction s) auto

lemma split_once_SomeD:
  "split_once c s = Some (a, b) \<Longrightarrow> s = a @ c # b \<and> c \<notin> set a"
  by (induction s arbitrary: a) (auto split: if_splits)

lemma split_once_append: "c \<notin> set a \<Longrightarrow> split_once c (a @ c # b) = Some (a, b)"
  by (induction a) auto

lemma split_once_Some_iff [fuji_str]:
  "split_once c s = Some (a, b) \<longleftrightarrow> s = a @ c # b \<and> c \<notin> set a"
  using split_once_SomeD split_once_append by blast

lemma before_first_split_once:
  "before_first c s = (case split_once c s of None \<Rightarrow> s | Some (a, b) \<Rightarrow> a)"
  by (induction s) (auto simp: before_first_def split: option.splits)

fun split_on :: "char \<Rightarrow> string \<Rightarrow> string list" where
  "split_on c [] = [[]]"
| "split_on c (x # xs) =
     (if x = c then [] # split_on c xs
      else (case split_on c xs of [] \<Rightarrow> [[x]] | w # ws \<Rightarrow> (x # w) # ws))"

fun join :: "string \<Rightarrow> string list \<Rightarrow> string" where
  "join sep [] = []"
| "join sep [x] = x"
| "join sep (x # y # zs) = x @ sep @ join sep (y # zs)"

lemma split_on_not_Nil [simp]: "split_on c s \<noteq> []"
  by (induction s) (auto split: list.splits)

lemma join_Cons: "xs \<noteq> [] \<Longrightarrow> join sep (x # xs) = x @ sep @ join sep xs"
  by (cases xs) auto

lemma join_split_on: "join [c] (split_on c s) = s"
proof (induction s)
  case (Cons x xs)
  obtain w ws where w: "split_on c xs = w # ws"
    by (cases "split_on c xs") auto
  have "join [c] ((x # w) # ws) = x # join [c] (w # ws)"
    by (cases ws) auto
  with Cons.IH w show ?case by (simp add: join_Cons)
qed simp

lemma split_on_no_sep: "c \<notin> set s \<Longrightarrow> split_on c s = [s]"
  by (induction s) auto

lemma split_on_append_sep:
  "c \<notin> set a \<Longrightarrow> split_on c (a @ c # s) = a # split_on c s"
  by (induction a) auto

lemma split_on_join:
  assumes "xs \<noteq> []" and "\<forall>x \<in> set xs. c \<notin> set x"
  shows "split_on c (join [c] xs) = xs"
  using assms
proof (induction xs)
  case (Cons x xs)
  show ?case
  proof (cases "xs = []")
    case True
    with Cons.prems show ?thesis by (simp add: split_on_no_sep)
  next
    case False
    with Cons show ?thesis by (simp add: join_Cons split_on_append_sep)
  qed
qed simp

lemma set_split_on_sep: "w \<in> set (split_on c s) \<Longrightarrow> c \<notin> set w"
  by (induction s arbitrary: w) (auto split: list.splits if_splits)

lemma set_split_on_subset: "w \<in> set (split_on c s) \<Longrightarrow> set w \<subseteq> set s"
  by (induction s arbitrary: w) (fastforce split: list.splits if_splits)+

lemma set_join: "set (join sep xs) \<subseteq> set sep \<union> (\<Union>x \<in> set xs. set x)"
proof (induction xs)
  case (Cons x xs)
  then show ?case by (cases xs) auto
qed simp

subsection \<open>Characters\<close>

definition char_code :: "char \<Rightarrow> nat" where
  [fuji_eval]: "char_code c = of_char c"

definition is_ascii_digit :: "char \<Rightarrow> bool" where
  [fuji_eval]: "is_ascii_digit c = (48 \<le> char_code c \<and> char_code c \<le> 57)"

definition is_ascii_lower :: "char \<Rightarrow> bool" where
  [fuji_eval]: "is_ascii_lower c = (97 \<le> char_code c \<and> char_code c \<le> 122)"

definition is_ascii_upper :: "char \<Rightarrow> bool" where
  [fuji_eval]: "is_ascii_upper c = (65 \<le> char_code c \<and> char_code c \<le> 90)"

definition is_ascii_alphanumeric :: "char \<Rightarrow> bool" where
  [fuji_eval]: "is_ascii_alphanumeric c = (is_ascii_digit c \<or> is_ascii_lower c \<or> is_ascii_upper c)"

definition is_whitespace :: "char \<Rightarrow> bool" where
  [fuji_eval]: "is_whitespace c = (char_code c = 32 \<or> (9 \<le> char_code c \<and> char_code c \<le> 13))"

definition char_lower :: "char \<Rightarrow> char" where
  [fuji_eval]: "char_lower c = (if is_ascii_upper c then char_of (char_code c + 32) else c)"

definition char_upper :: "char \<Rightarrow> char" where
  [fuji_eval]: "char_upper c = (if is_ascii_lower c then char_of (char_code c - 32) else c)"

definition to_lowercase :: "string \<Rightarrow> string" where
  [fuji_eval]: "to_lowercase s = map char_lower s"

definition to_uppercase :: "string \<Rightarrow> string" where
  [fuji_eval]: "to_uppercase s = map char_upper s"

subsection \<open>Trimming and replacing\<close>

definition trim_start :: "(char \<Rightarrow> bool) \<Rightarrow> string \<Rightarrow> string" where
  [fuji_eval]: "trim_start p s = dropWhile p s"

definition trim_end :: "(char \<Rightarrow> bool) \<Rightarrow> string \<Rightarrow> string" where
  [fuji_eval]: "trim_end p s = rev (dropWhile p (rev s))"

definition trim_both :: "(char \<Rightarrow> bool) \<Rightarrow> string \<Rightarrow> string" where
  [fuji_eval]: "trim_both p s = trim_end p (trim_start p s)"

definition trim :: "string \<Rightarrow> string" where
  [fuji_eval]: "trim s = trim_both is_whitespace s"

definition trim_start_matches :: "char \<Rightarrow> string \<Rightarrow> string" where
  [fuji_eval]: "trim_start_matches c s = trim_start (\<lambda>d. d = c) s"

definition trim_end_matches :: "char \<Rightarrow> string \<Rightarrow> string" where
  [fuji_eval]: "trim_end_matches c s = trim_end (\<lambda>d. d = c) s"

definition trim_matches :: "char \<Rightarrow> string \<Rightarrow> string" where
  [fuji_eval]: "trim_matches c s = trim_both (\<lambda>d. d = c) s"

definition replace_char :: "char \<Rightarrow> char \<Rightarrow> string \<Rightarrow> string" where
  [fuji_eval]: "replace_char a b s = map (\<lambda>c. if c = a then b else c) s"

lemma set_trim_start: "set (trim_start p s) \<subseteq> set s"
  by (auto simp: trim_start_def dest: set_dropWhileD)

lemma set_trim_end: "set (trim_end p s) \<subseteq> set s"
  using set_dropWhileD [of _ p "rev s"] by (auto simp: trim_end_def)

lemma set_trim_both: "set (trim_both p s) \<subseteq> set s"
  using set_trim_start set_trim_end by (fastforce simp: trim_both_def)

lemma set_trim: "set (trim s) \<subseteq> set s"
  by (simp add: trim_def set_trim_both)

lemma trim_start_sublist: "sublist (trim_start p s) s"
proof -
  have "s = takeWhile p s @ dropWhile p s" by simp
  then show ?thesis unfolding trim_start_def by (metis sublist_append_leftI)
qed

lemma trim_end_sublist: "sublist (trim_end p s) s"
proof -
  have "rev s = takeWhile p (rev s) @ dropWhile p (rev s)" by simp
  then have "s = rev (dropWhile p (rev s)) @ rev (takeWhile p (rev s))"
    by (metis rev_append rev_rev_ident)
  then show ?thesis unfolding trim_end_def by (metis sublist_append_rightI)
qed

lemma trim_both_sublist: "sublist (trim_both p s) s"
  unfolding trim_both_def
  using sublist_order.order_trans [OF trim_end_sublist trim_start_sublist] .

lemma trim_both_hd: "trim_both p s \<noteq> [] \<Longrightarrow> \<not> p (hd (trim_both p s))"
proof -
  assume ne: "trim_both p s \<noteq> []"
  let ?t = "dropWhile p s"
  have "\<exists>zs. ?t = trim_both p s @ zs"
  proof -
    have "?t = rev (dropWhile p (rev ?t)) @ rev (takeWhile p (rev ?t))"
      by (metis rev_append rev_rev_ident takeWhile_dropWhile_id)
    then show ?thesis unfolding trim_both_def trim_end_def trim_start_def by blast
  qed
  then obtain zs where zs: "?t = trim_both p s @ zs" by blast
  with ne have "hd ?t = hd (trim_both p s)" and "?t \<noteq> []" by auto
  then show ?thesis using hd_dropWhile [of p s] by simp
qed

lemma trim_both_last: "trim_both p s \<noteq> [] \<Longrightarrow> \<not> p (last (trim_both p s))"
  using hd_dropWhile [of p "rev (trim_start p s)"]
  by (simp add: trim_both_def trim_end_def last_rev)

lemma dropWhile_hd_id: "s = [] \<or> \<not> p (hd s) \<Longrightarrow> dropWhile p s = s"
  by (cases s) auto

lemma trim_both_id:
  assumes "s = [] \<or> (\<not> p (hd s) \<and> \<not> p (last s))"
  shows "trim_both p s = s"
proof -
  have "dropWhile p s = s" using assms by (auto intro: dropWhile_hd_id)
  moreover have "dropWhile p (rev s) = rev s"
    using assms by (intro dropWhile_hd_id) (auto simp: hd_rev)
  ultimately show ?thesis by (simp add: trim_both_def trim_end_def trim_start_def)
qed

lemma trim_both_idem [simp]: "trim_both p (trim_both p s) = trim_both p s"
  using trim_both_id trim_both_hd trim_both_last by metis

lemma trim_idem [simp]: "trim (trim s) = trim s"
  by (simp add: trim_def)

subsection \<open>Numbers in strings\<close>

definition digit_val :: "nat \<Rightarrow> char \<Rightarrow> nat option" where
  [fuji_eval]: "digit_val radix c =
     (let v = (if is_ascii_digit c then char_code c - 48
               else if is_ascii_lower c then char_code c - 87
               else if is_ascii_upper c then char_code c - 55 else radix)
      in if v < radix then Some v else None)"

fun digits_val :: "nat \<Rightarrow> nat \<Rightarrow> string \<Rightarrow> nat option" where
  "digits_val radix acc [] = Some acc"
| "digits_val radix acc (c # cs) =
     (case digit_val radix c of None \<Rightarrow> None | Some d \<Rightarrow> digits_val radix (acc * radix + d) cs)"

text \<open>\<open>T::from_str_radix\<close> for an unsigned type of \<open>bits\<close> bits: an optional plus sign, at least one
  digit, and a value that fits.\<close>

definition parse_radix :: "nat \<Rightarrow> nat \<Rightarrow> string \<Rightarrow> nat option" where
  [fuji_eval]: "parse_radix radix bits s =
     (let ds = (case s of [] \<Rightarrow> [] | c # r \<Rightarrow> if c = CHR ''+'' then r else s)
      in if ds = [] then None
         else (case digits_val radix 0 ds of
                 None \<Rightarrow> None
               | Some n \<Rightarrow> if n < 2 ^ bits then Some n else None))"

definition parse_u32 :: "string \<Rightarrow> u32 option" where
  [fuji_eval]: "parse_u32 s = map_option of_nat (parse_radix 10 32 s)"

definition parse_u32_radix :: "nat \<Rightarrow> string \<Rightarrow> u32 option" where
  [fuji_eval]: "parse_u32_radix radix s = map_option of_nat (parse_radix radix 32 s)"

definition parse_u16 :: "string \<Rightarrow> u16 option" where
  [fuji_eval]: "parse_u16 s = map_option of_nat (parse_radix 10 16 s)"

definition parse_u64 :: "string \<Rightarrow> u64 option" where
  [fuji_eval]: "parse_u64 s = map_option of_nat (parse_radix 10 64 s)"

fun show_nat :: "nat \<Rightarrow> string" where
  "show_nat n = (if n < 10 then [char_of (48 + n)] else show_nat (n div 10) @ [char_of (48 + n mod 10)])"

declare show_nat.simps [simp del]
declare show_nat.simps [fuji_eval]
declare char_of_eq_iff [fuji_eval]

lemma parse_radix_bound: "parse_radix radix bits s = Some n \<Longrightarrow> n < 2 ^ bits"
  by (auto simp: parse_radix_def Let_def split: option.splits if_splits list.splits)

lemma digit_val_show: "d < 10 \<Longrightarrow> digit_val 10 (char_of (48 + d)) = Some d"
  by (simp add: digit_val_def is_ascii_digit_def char_code_def of_char_of)

lemma digits_val_append:
  "digits_val radix acc (xs @ ys) =
     (case digits_val radix acc xs of None \<Rightarrow> None | Some a \<Rightarrow> digits_val radix a ys)"
  by (induction xs arbitrary: acc) (auto split: option.splits)

lemma digits_val_show_nat: "digits_val 10 0 (show_nat n) = Some n"
proof (induction n rule: show_nat.induct)
  case (1 n)
  show ?case
  proof (cases "n < 10")
    case True
    then show ?thesis by (simp add: show_nat.simps [of n] digit_val_show)
  next
    case False
    have "digit_val 10 (char_of (48 + n mod 10)) = Some (n mod 10)"
      by (rule digit_val_show) simp
    with 1 False show ?thesis
      by (simp add: show_nat.simps [of n] digits_val_append)
  qed
qed

lemma show_nat_hd: "show_nat n \<noteq> [] \<and> is_ascii_digit (hd (show_nat n))"
proof (induction n rule: show_nat.induct)
  case (1 n)
  then show ?case
    by (cases "n < 10")
      (auto simp: show_nat.simps [of n] is_ascii_digit_def char_code_def of_char_of)
qed

lemma char_code_show: "is_ascii_digit c \<Longrightarrow> \<not> is_whitespace c \<and> char_upper c = c \<and> char_lower c = c"
  by (auto simp: is_ascii_digit_def is_whitespace_def char_upper_def char_lower_def is_ascii_lower_def
      is_ascii_upper_def)

lemma show_nat_digits: "\<forall>c \<in> set (show_nat n). is_ascii_digit c"
proof (induction n rule: show_nat.induct)
  case (1 n)
  have "is_ascii_digit (char_of (48 + m mod 10))" for m :: nat
  proof -
    have "(48 + m mod 10) mod 256 = 48 + m mod 10" by simp
    then show ?thesis by (simp add: is_ascii_digit_def char_code_def)
  qed
  from this [of n] 1 show ?case
    by (cases "n < 10") (auto simp: show_nat.simps [of n] is_ascii_digit_def char_code_def)
qed

lemma trim_show_nat: "\<not> is_whitespace u \<Longrightarrow> trim (show_nat n @ [u]) = show_nat n @ [u]"
  using show_nat_hd [of n] char_code_show unfolding trim_def by (intro trim_both_id) (auto simp: hd_append)

lemma parse_show_nat:
  assumes "n < 2 ^ bits"
  shows "parse_radix 10 bits (show_nat n) = Some n"
proof -
  obtain c r where cr: "show_nat n = c # r" and dig: "is_ascii_digit c"
    using show_nat_hd [of n] by (cases "show_nat n") auto
  from dig have "c \<noteq> CHR ''+''" by (auto simp: is_ascii_digit_def char_code_def)
  with cr digits_val_show_nat [of n] assms show ?thesis
    by (simp add: parse_radix_def del: digits_val.simps)
qed

section \<open>Maps\<close>

type_synonym ('k, 'v) hashmap = "('k \<times> 'v) list"

definition hm_get :: "('k, 'v) hashmap \<Rightarrow> 'k \<Rightarrow> 'v option" where
  [fuji_eval]: "hm_get m k = map_of m k"

definition hm_insert :: "'k \<Rightarrow> 'v \<Rightarrow> ('k, 'v) hashmap \<Rightarrow> ('k, 'v) hashmap" where
  [fuji_eval]: "hm_insert k v m = AList.update k v m"

definition hm_remove :: "'k \<Rightarrow> ('k, 'v) hashmap \<Rightarrow> ('k, 'v) hashmap" where
  [fuji_eval]: "hm_remove k m = AList.delete k m"

definition hm_contains_key :: "('k, 'v) hashmap \<Rightarrow> 'k \<Rightarrow> bool" where
  [fuji_eval]: "hm_contains_key m k = (hm_get m k \<noteq> None)"

definition hm_wf :: "('k, 'v) hashmap \<Rightarrow> bool" where
  "hm_wf m = distinct (map fst m)"

text \<open>\<open>if let Some(v) = m.get_mut(k) { *v = f(v) }\<close>, and \<open>for v in m.values_mut()\<close>.\<close>

definition hm_update :: "'k \<Rightarrow> ('v \<Rightarrow> 'v) \<Rightarrow> ('k, 'v) hashmap \<Rightarrow> ('k, 'v) hashmap" where
  [fuji_eval]: "hm_update k f m = (case hm_get m k of None \<Rightarrow> m | Some v \<Rightarrow> hm_insert k (f v) m)"

definition hm_map_values :: "('v \<Rightarrow> 'w) \<Rightarrow> ('k, 'v) hashmap \<Rightarrow> ('k, 'w) hashmap" where
  [fuji_eval]: "hm_map_values f m = map (\<lambda>(k, v). (k, f v)) m"

definition hm_map_entries :: "('k \<Rightarrow> 'v \<Rightarrow> 'w) \<Rightarrow> ('k, 'v) hashmap \<Rightarrow> ('k, 'w) hashmap" where
  [fuji_eval]: "hm_map_entries f m = map (\<lambda>(k, v). (k, f k v)) m"

definition hm_retain :: "('k \<Rightarrow> 'v \<Rightarrow> bool) \<Rightarrow> ('k, 'v) hashmap \<Rightarrow> ('k, 'v) hashmap" where
  [fuji_eval]: "hm_retain p m = filter (\<lambda>(k, v). p k v) m"

text \<open>The contract of a map as the components use it.\<close>

locale hash_map =
  fixes empty :: "'m"
    and get :: "'m \<Rightarrow> 'k \<Rightarrow> 'v option"
    and insert :: "'k \<Rightarrow> 'v \<Rightarrow> 'm \<Rightarrow> 'm"
    and remove :: "'k \<Rightarrow> 'm \<Rightarrow> 'm"
    and wf :: "'m \<Rightarrow> bool"
  assumes get_empty: "get empty k = None"
    and get_insert: "get (insert k v m) k' = (if k' = k then Some v else get m k')"
    and get_remove: "wf m \<Longrightarrow> get (remove k m) k' = (if k' = k then None else get m k')"
    and wf_empty: "wf empty"
    and wf_insert: "wf m \<Longrightarrow> wf (insert k v m)"
    and wf_remove: "wf m \<Longrightarrow> wf (remove k m)"
begin

lemma get_insert_same: "get (insert k v m) k = Some v"
  by (simp add: get_insert)

lemma get_insert_other: "k' \<noteq> k \<Longrightarrow> get (insert k v m) k' = get m k'"
  by (simp add: get_insert)

lemma get_remove_same: "wf m \<Longrightarrow> get (remove k m) k = None"
  by (simp add: get_remove)

lemma get_remove_other: "wf m \<Longrightarrow> k' \<noteq> k \<Longrightarrow> get (remove k m) k' = get m k'"
  by (simp add: get_remove)

lemma insert_remove_get: "wf m \<Longrightarrow> get (remove k (insert k v m)) = (get m)(k := None)"
  by (rule ext) (simp add: get_remove get_insert wf_insert)

lemma get_fold_insert:
  "get (fold (\<lambda>x. insert (f x) (g x)) xs m) k =
     (case find (\<lambda>x. f x = k) (rev xs) of Some x \<Rightarrow> Some (g x) | None \<Rightarrow> get m k)"
proof (induction xs rule: rev_induct)
  case (snoc x xs)
  then show ?case by (simp add: get_insert)
qed simp

lemma wf_fold_insert: "wf m \<Longrightarrow> wf (fold (\<lambda>x. insert (f x) (g x)) xs m)"
  by (induction xs arbitrary: m) (simp_all add: wf_insert)

lemma wf_fold_remove: "wf m \<Longrightarrow> wf (fold remove ks m)"
  by (induction ks arbitrary: m) (simp_all add: wf_remove)

lemma get_fold_remove:
  "wf m \<Longrightarrow> get (fold remove ks m) k = (if k \<in> set ks then None else get m k)"
proof (induction ks arbitrary: m)
  case (Cons a ks)
  then show ?case by (simp add: wf_remove get_remove)
qed simp

end

interpretation hm: hash_map "[]" hm_get hm_insert hm_remove hm_wf
proof unfold_locales
  show "hm_get [] k = None" for k :: 'a by (simp add: hm_get_def)
  show "hm_get (hm_insert k v m) k' = (if k' = k then Some v else hm_get m k')"
    for k k' :: 'a and v :: 'b and m
    by (simp add: hm_get_def hm_insert_def update_conv)
  show "hm_wf m \<Longrightarrow> hm_get (hm_remove k m) k' = (if k' = k then None else hm_get m k')"
    for k k' :: 'a and m :: "('a, 'b) hashmap"
    by (simp add: hm_get_def hm_remove_def delete_conv)
  show "hm_wf []" by (simp add: hm_wf_def)
  show "hm_wf m \<Longrightarrow> hm_wf (hm_insert k v m)" for k :: 'a and v :: 'b and m
    by (simp add: hm_wf_def hm_insert_def distinct_update)
  show "hm_wf m \<Longrightarrow> hm_wf (hm_remove k m)" for k :: 'a and m :: "('a, 'b) hashmap"
    by (simp add: hm_wf_def hm_remove_def distinct_delete)
qed

lemma hm_get_update:
  "hm_get (hm_update k f m) k' = (if k' = k then map_option f (hm_get m k) else hm_get m k')"
  by (auto simp: hm_update_def hm.get_insert split: option.splits)

lemma hm_wf_update: "hm_wf m \<Longrightarrow> hm_wf (hm_update k f m)"
  by (simp add: hm_update_def hm.wf_insert split: option.splits)

lemma hm_get_map_entries: "hm_get (hm_map_entries f m) k = map_option (f k) (hm_get m k)"
  unfolding hm_get_def hm_map_entries_def by (induction m) auto

lemma hm_keys_map_entries [simp]: "map fst (hm_map_entries f m) = map fst m"
  by (induction m) (auto simp: hm_map_entries_def)

lemma hm_wf_map_entries [simp]: "hm_wf (hm_map_entries f m) = hm_wf m"
  by (simp add: hm_wf_def)

lemma hm_get_map_values: "hm_get (hm_map_values f m) k = map_option f (hm_get m k)"
  unfolding hm_get_def hm_map_values_def by (induction m) auto

lemma hm_keys_map_values [simp]: "map fst (hm_map_values f m) = map fst m"
  by (induction m) (auto simp: hm_map_values_def)

lemma hm_wf_map_values [simp]: "hm_wf (hm_map_values f m) = hm_wf m"
  by (simp add: hm_wf_def)

lemma hm_wf_retain: "hm_wf m \<Longrightarrow> hm_wf (hm_retain p m)"
  unfolding hm_wf_def hm_retain_def by (induction m) auto

lemma hm_get_retain:
  assumes "hm_wf m"
  shows "hm_get (hm_retain p m) k =
    (case hm_get m k of Some v \<Rightarrow> if p k v then Some v else None | None \<Rightarrow> None)"
  using assms unfolding hm_get_def hm_retain_def hm_wf_def
proof (induction m)
  case (Cons a m)
  obtain k' v' where [simp]: "a = (k', v')" by (cases a)
  from Cons.prems have "map_of m k' = None" by (auto simp: map_of_eq_None_iff)
  with Cons show ?case by (auto split: option.splits)
qed simp

lemma hm_get_in_set: "hm_get m k = Some v \<Longrightarrow> (k, v) \<in> set m"
  by (simp add: hm_get_def map_of_SomeD)

lemma hm_get_iff_in_set: "hm_wf m \<Longrightarrow> hm_get m k = Some v \<longleftrightarrow> (k, v) \<in> set m"
  by (simp add: hm_get_def hm_wf_def)

lemma hm_get_None_iff: "hm_get m k = None \<longleftrightarrow> k \<notin> fst ` set m"
  by (simp add: hm_get_def map_of_eq_None_iff)

section \<open>Components\<close>

text \<open>
  A stateful component is a step function on its state, one step per operation, and an
  invariant that every operation keeps.  \<open>runs\<close> is a sequence of operations; \<open>reach\<close>
  is the set of states some sequence leads to.
\<close>

locale component =
  fixes step :: "'op \<Rightarrow> 's \<Rightarrow> 's"
    and inv :: "'s \<Rightarrow> bool"
  assumes inv_step: "inv s \<Longrightarrow> inv (step op s)"
begin

lemma inv_run: "inv s \<Longrightarrow> inv (fold step ops s)"
  by (induction ops arbitrary: s) (auto intro: inv_step)

lemma run_append: "fold step (ops @ ops') s = fold step ops' (fold step ops s)"
  by simp

lemma inv_prefix: "inv s \<Longrightarrow> inv (fold step (take n ops) s)"
  by (rule inv_run)

end

text \<open>
  A guarded component refuses some operations: a step yields an error and leaves the state
  unchanged, or moves along an edge of a relation on an observable part of the state.
\<close>

locale guarded_component =
  fixes try_step :: "'op \<Rightarrow> 's \<Rightarrow> 's \<times> ('e + unit)"
    and obs :: "'s \<Rightarrow> 'o"
    and edge :: "'o \<Rightarrow> 'o \<Rightarrow> bool"
  assumes refused: "try_step op s = (s', Inl e) \<Longrightarrow> s' = s"
    and moved: "try_step op s = (s', Inr u) \<Longrightarrow> edge (obs s) (obs s')"
    and edge_refl: "edge x x"
begin

lemma edge_step: "edge (obs s) (obs (fst (try_step op s)))"
proof (cases "try_step op s")
  case (Pair s' r)
  then show ?thesis
    using refused [of op s s'] moved [of op s s'] edge_refl by (cases r) auto
qed

lemma edge_path: "edge\<^sup>*\<^sup>* (obs s) (obs (fold (\<lambda>op s. fst (try_step op s)) ops s))"
proof (induction ops arbitrary: s)
  case (Cons op ops)
  have "edge\<^sup>*\<^sup>* (obs s) (obs (fst (try_step op s)))"
    using edge_step by blast
  with Cons.IH [of "fst (try_step op s)"] show ?case by simp
qed simp

end

section \<open>Paths\<close>

text \<open>A platform path is its text; equality and prefixes are those of its components.\<close>

datatype path_component = RootDir | CurDir | ParentDir | Normal string

definition path_component_of :: "string \<Rightarrow> path_component" where
  "path_component_of w = (if w = ''..'' then ParentDir else Normal w)"

definition path_components :: "string \<Rightarrow> path_component list" where
  "path_components p =
     (let ws = filter (\<lambda>w. w \<noteq> []) (split_on CHR ''/'' p)
      in if starts_with p ''/''
         then RootDir # map path_component_of (filter (\<lambda>w. w \<noteq> ''.'') ws)
         else (case ws of
                 [] \<Rightarrow> []
               | w # ws' \<Rightarrow>
                   (if w = ''.'' then CurDir else path_component_of w)
                   # map path_component_of (filter (\<lambda>w. w \<noteq> ''.'') ws')))"

definition path_eq :: "string \<Rightarrow> string \<Rightarrow> bool" where
  "path_eq a b = (path_components a = path_components b)"

definition path_starts_with :: "string \<Rightarrow> string \<Rightarrow> bool" where
  "path_starts_with p base = starts_with (path_components p) (path_components base)"

definition path_is_absolute :: "string \<Rightarrow> bool" where
  "path_is_absolute p = starts_with p ''/''"

definition path_join :: "string \<Rightarrow> string \<Rightarrow> string" where
  "path_join base p =
     (if path_is_absolute p then p
      else if base = [] \<or> ends_with base ''/'' then base @ p
      else base @ ''/'' @ p)"

lemma path_eq_refl [simp]: "path_eq p p"
  by (simp add: path_eq_def)

lemma path_eq_sym: "path_eq p q \<Longrightarrow> path_eq q p"
  by (simp add: path_eq_def)

lemma path_eq_trans: "path_eq p q \<Longrightarrow> path_eq q r \<Longrightarrow> path_eq p r"
  by (simp add: path_eq_def)

lemma set_path_join: "set (path_join a b) \<subseteq> set a \<union> set b \<union> {CHR ''/''}"
  by (auto simp: path_join_def)

end
