(* ===== verification/Mount_State_Machine.thy ===== *)
theory Mount_State_Machine
  imports Fuji_Prelude
begin

text \<open>
  \<open>src/mount/state_machine.rs\<close>: the life cycle of a mount.

  \<open>transition\<close> reads the state under one lock, writes it under another and appends to the
  history under a third, so it is three atomic steps.  They are defined one by one
  (\<open>transition_check\<close>, \<open>transition_write\<close>, \<open>transition_record\<close>); \<open>transition\<close> runs them without
  interruption, and the relation \<open>machine_step\<close> lets several callers interleave them.
  The broadcast channel is external: what is handed to it is the list \<open>sm_sent\<close>.
\<close>

section \<open>State\<close>

datatype mount_state = Unmounted | Mounting | Mounted | Failed | Unmounting

fun show_mount_state :: "mount_state \<Rightarrow> string" where
  "show_mount_state Unmounted = ''Unmounted''"
| "show_mount_state Mounting = ''Mounting''"
| "show_mount_state Mounted = ''Mounted''"
| "show_mount_state Failed = ''Failed''"
| "show_mount_state Unmounting = ''Unmounting''"

record state_transition =
  tr_mount_id :: string
  tr_from :: mount_state
  tr_to :: mount_state
  tr_timestamp :: instant
  tr_reason :: "string option"
  tr_error :: "string option"

record mount_state_machine =
  sm_state :: mount_state
  sm_mount_id :: string
  sm_sent :: "state_transition list"
  sm_history :: "state_transition list"
  sm_max_history :: nat

datatype transition_error = InvalidTransition mount_state mount_state

definition state_machine_new :: "string \<Rightarrow> mount_state_machine" where
  "state_machine_new mount_id =
     \<lparr> sm_state = Unmounted, sm_mount_id = mount_id, sm_sent = [], sm_history = [],
       sm_max_history = 100 \<rparr>"

section \<open>Operations\<close>

definition can_transition :: "mount_state \<Rightarrow> mount_state \<Rightarrow> bool" where
  "can_transition s t =
     (if s = t then True
      else (case (s, t) of
              (Unmounted, Mounting) \<Rightarrow> True
            | (Mounting, Mounted) \<Rightarrow> True
            | (Mounting, Failed) \<Rightarrow> True
            | (Mounted, Unmounting) \<Rightarrow> True
            | (Mounted, Failed) \<Rightarrow> True
            | (Failed, Mounting) \<Rightarrow> True
            | (Failed, Unmounted) \<Rightarrow> True
            | (Unmounting, Unmounted) \<Rightarrow> True
            | (Unmounting, Failed) \<Rightarrow> True
            | _ \<Rightarrow> False))"

definition transition_check ::
    "mount_state \<Rightarrow> mount_state_machine \<Rightarrow> transition_error + mount_state" where
  "transition_check new m =
     (let current = sm_state m
      in if can_transition current new then Inr current
         else Inl (InvalidTransition current new))"

definition transition_write :: "mount_state \<Rightarrow> mount_state_machine \<Rightarrow> mount_state_machine" where
  "transition_write new m = m\<lparr>sm_state := new\<rparr>"

definition push_history ::
    "nat \<Rightarrow> state_transition \<Rightarrow> state_transition list \<Rightarrow> state_transition list" where
  "push_history limit e h = (let h' = h @ [e] in if limit < length h' then tl h' else h')"

definition transition_record ::
    "state_transition \<Rightarrow> mount_state_machine \<Rightarrow> mount_state_machine" where
  "transition_record e m =
     m\<lparr>sm_history := push_history (sm_max_history m) e (sm_history m),
       sm_sent := sm_sent m @ [e]\<rparr>"

definition mk_transition ::
    "string \<Rightarrow> mount_state \<Rightarrow> mount_state \<Rightarrow> instant \<Rightarrow> string option \<Rightarrow> string option
      \<Rightarrow> state_transition" where
  "mk_transition mount_id cur new now reason err =
     \<lparr> tr_mount_id = mount_id, tr_from = cur, tr_to = new, tr_timestamp = now,
       tr_reason = reason, tr_error = err \<rparr>"

definition transition ::
    "instant \<Rightarrow> mount_state \<Rightarrow> string option \<Rightarrow> string option \<Rightarrow> mount_state_machine
      \<Rightarrow> mount_state_machine \<times> (transition_error + unit)" where
  "transition now new reason err m =
     (case transition_check new m of
        Inl e \<Rightarrow> (m, Inl e)
      | Inr cur \<Rightarrow>
          (transition_record (mk_transition (sm_mount_id m) cur new now reason err)
             (transition_write new m), Inr ()))"

definition transition_with_reason ::
    "instant \<Rightarrow> mount_state \<Rightarrow> string \<Rightarrow> mount_state_machine
      \<Rightarrow> mount_state_machine \<times> (transition_error + unit)" where
  "transition_with_reason now new reason m = transition now new (Some reason) None m"

definition transition_with_error ::
    "instant \<Rightarrow> mount_state \<Rightarrow> string \<Rightarrow> mount_state_machine
      \<Rightarrow> mount_state_machine \<times> (transition_error + unit)" where
  "transition_with_error now new err m = transition now new (Some (''Error: '' @ err)) (Some err) m"

definition is_terminal :: "mount_state_machine \<Rightarrow> bool" where
  "is_terminal m = (case sm_state m of Mounted \<Rightarrow> True | Failed \<Rightarrow> True | Unmounted \<Rightarrow> True | _ \<Rightarrow> False)"

definition sm_is_active :: "mount_state_machine \<Rightarrow> bool" where
  "sm_is_active m = (case sm_state m of Mounted \<Rightarrow> True | Mounting \<Rightarrow> True | _ \<Rightarrow> False)"

definition get_last_n :: "nat \<Rightarrow> mount_state_machine \<Rightarrow> state_transition list" where
  "get_last_n n m =
     (let len = length (sm_history m)
      in if len \<le> n then sm_history m else drop (len - n) (sm_history m))"

definition time_in_state :: "instant \<Rightarrow> mount_state_machine \<Rightarrow> duration" where
  "time_in_state now m =
     (if sm_history m = [] then 0 else now - tr_timestamp (last (sm_history m)))"

definition reset :: "instant \<Rightarrow> mount_state_machine
      \<Rightarrow> mount_state_machine \<times> (transition_error + unit)" where
  "reset now m = transition_with_reason now Unmounted ''Resetting mount state'' m"

section \<open>Invariant of the uninterrupted machine\<close>

text \<open>The history is a chain of allowed transitions that ends in the current state, and it never
  outgrows its bound.\<close>

fun chained :: "state_transition list \<Rightarrow> bool" where
  "chained (e # f # h) = (tr_to e = tr_from f \<and> chained (f # h))"
| "chained _ = True"

definition sm_inv :: "mount_state_machine \<Rightarrow> bool" where
  "sm_inv m \<longleftrightarrow>
     chained (sm_history m)
     \<and> (\<forall>e \<in> set (sm_history m). can_transition (tr_from e) (tr_to e) \<and> tr_mount_id e = sm_mount_id m)
     \<and> (sm_history m \<noteq> [] \<longrightarrow> tr_to (last (sm_history m)) = sm_state m)
     \<and> length (sm_history m) \<le> sm_max_history m
     \<and> 0 < sm_max_history m"

lemma chained_append_single:
  "chained (h @ [e]) \<longleftrightarrow> chained h \<and> (h = [] \<or> tr_to (last h) = tr_from e)"
  by (induction h rule: chained.induct) auto

lemma chained_tl: "chained h \<Longrightarrow> chained (tl h)"
  by (cases h rule: chained.cases) auto

lemma set_push_history: "set (push_history n e h) \<subseteq> insert e (set h)"
  by (auto simp: push_history_def Let_def dest: list.set_sel(2) [rotated])

lemma last_push_history: "0 < n \<Longrightarrow> push_history n e h \<noteq> [] \<and> last (push_history n e h) = e"
  by (cases h) (auto simp: push_history_def Let_def)

lemma length_push_history:
  "length h \<le> n \<Longrightarrow> length (push_history n e h) = min n (Suc (length h))"
  by (auto simp: push_history_def Let_def)

lemma transition_check_Inr:
  "transition_check new m = Inr cur \<longleftrightarrow> cur = sm_state m \<and> can_transition (sm_state m) new"
  by (auto simp: transition_check_def Let_def)

lemma sm_inv_new: "sm_inv (state_machine_new i)"
  by (simp add: sm_inv_def state_machine_new_def)

lemma sm_inv_transition: "sm_inv m \<Longrightarrow> sm_inv (fst (transition now new reason err m))"
proof (cases "transition_check new m")
  case (Inr cur)
  assume inv: "sm_inv m"
  let ?e = "mk_transition (sm_mount_id m) cur new now reason err"
  let ?h = "push_history (sm_max_history m) ?e (sm_history m)"
  from Inr have cur: "cur = sm_state m" and ok: "can_transition (sm_state m) new"
    by (simp_all add: transition_check_Inr)
  have "chained (sm_history m @ [?e])"
    using inv cur by (auto simp: sm_inv_def chained_append_single mk_transition_def)
  then have "chained ?h" by (simp add: push_history_def Let_def chained_tl)
  moreover have "\<forall>e \<in> set ?h. can_transition (tr_from e) (tr_to e) \<and> tr_mount_id e = sm_mount_id m"
    using set_push_history [of "sm_max_history m" ?e "sm_history m"] inv ok cur
    by (fastforce simp: sm_inv_def mk_transition_def)
  moreover have "last ?h = ?e" and "?h \<noteq> []" and "length ?h \<le> sm_max_history m"
    using inv by (auto simp: sm_inv_def last_push_history length_push_history)
  ultimately show ?thesis
    using Inr inv
    by (simp add: transition_def transition_record_def transition_write_def sm_inv_def mk_transition_def)
qed (simp add: transition_def)

text \<open>The operations as one type, so that a run is a list of them.\<close>

datatype machine_op =
    Op_transition instant mount_state "string option" "string option"
  | Op_with_reason instant mount_state string
  | Op_with_error instant mount_state string
  | Op_reset instant

fun machine_try :: "machine_op \<Rightarrow> mount_state_machine
      \<Rightarrow> mount_state_machine \<times> (transition_error + unit)" where
  "machine_try (Op_transition now new r e) m = transition now new r e m"
| "machine_try (Op_with_reason now new r) m = transition_with_reason now new r m"
| "machine_try (Op_with_error now new e) m = transition_with_error now new e m"
| "machine_try (Op_reset now) m = reset now m"

definition machine_run :: "machine_op list \<Rightarrow> mount_state_machine \<Rightarrow> mount_state_machine" where
  "machine_run ops m = fold (\<lambda>op m. fst (machine_try op m)) ops m"

lemmas machine_defs = transition_with_reason_def transition_with_error_def reset_def

lemma machine_try_transition: "\<exists>now new r e. machine_try op m = transition now new r e m"
  by (cases op) (auto simp: machine_defs)

interpretation sm: component "\<lambda>op m. fst (machine_try op m)" sm_inv
  by unfold_locales (metis machine_try_transition sm_inv_transition)

lemma transition_refused: "transition now new r e m = (m', Inl err) \<Longrightarrow> m' = m"
  by (auto simp: transition_def split: sum.splits)

lemma transition_moved:
  "transition now new r e m = (m', Inr u) \<Longrightarrow> can_transition (sm_state m) (sm_state m')"
  by (auto simp: transition_def transition_check_Inr transition_record_def transition_write_def
      split: sum.splits)

interpretation smg: guarded_component machine_try sm_state can_transition
proof unfold_locales
  show "machine_try op m = (m', Inl err) \<Longrightarrow> m' = m" for op m m' err
    using machine_try_transition [of op m] transition_refused by metis
  show "machine_try op m = (m', Inr u) \<Longrightarrow> can_transition (sm_state m) (sm_state m')" for op m m' u
    using machine_try_transition [of op m] transition_moved by metis
  show "can_transition s s" for s by (simp add: can_transition_def)
qed

section \<open>Properties of the uninterrupted machine\<close>

text \<open>C3: after any sequence of calls on a new machine the history is a chain of allowed
  transitions of this mount, its last entry names the current state, and it holds at most
  \<open>max_history\<close> = 100 entries.\<close>

theorem machine_history_invariant:
  "sm_inv (machine_run ops (state_machine_new i))"
  unfolding machine_run_def by (rule sm.inv_run) (rule sm_inv_new)

text \<open>a call succeeds exactly when the transition table allows it; a refused call changes
  nothing and reports both states, a successful one enters the new state and appends one event to
  the history and to the notifications.\<close>

theorem transition_spec:
  "transition now new reason err m =
     (if can_transition (sm_state m) new
      then (m\<lparr>sm_state := new,
              sm_history := push_history (sm_max_history m)
                (mk_transition (sm_mount_id m) (sm_state m) new now reason err) (sm_history m),
              sm_sent := sm_sent m @ [mk_transition (sm_mount_id m) (sm_state m) new now reason err]\<rparr>,
            Inr ())
      else (m, Inl (InvalidTransition (sm_state m) new)))"
  by (simp add: transition_def transition_check_def transition_record_def transition_write_def Let_def)

text \<open>a mount that leaves \<open>Mounted\<close> under any sequence of calls does so through
  \<open>Unmounting\<close> or \<open>Failed\<close>: no call takes it straight to \<open>Unmounted\<close> or \<open>Mounting\<close>.\<close>

theorem mounted_exit:
  assumes "sm_state m = Mounted"
  shows "sm_state (fst (machine_try op m)) \<in> {Mounted, Unmounting, Failed}"
proof -
  have "can_transition Mounted (sm_state (fst (machine_try op m)))"
    using smg.edge_step [of m op] assms by simp
  then show ?thesis by (cases "sm_state (fst (machine_try op m))") (auto simp: can_transition_def)
qed

theorem mounted_exit_witness:
  "sm_state (fst (machine_try (Op_reset 5) ((state_machine_new ''m'')\<lparr>sm_state := Mounted\<rparr>)))
     \<in> {Mounted, Unmounting, Failed}"
  by (rule mounted_exit) simp

text \<open>the last \<open>n\<close> events are the suffix of the history of length \<open>min n len\<close>.\<close>

theorem get_last_n_suffix:
  "suffix (get_last_n n m) (sm_history m)
   \<and> length (get_last_n n m) = min n (length (sm_history m))"
  by (auto simp: get_last_n_def Let_def suffix_drop)

section \<open>Concurrent callers\<close>

text \<open>
  A task is one call of \<open>transition\<close>.  It holds no lock between its three steps, so the steps
  of several tasks interleave.
\<close>

datatype task =
    Task_idle
  | Task_called mount_state
  | Task_checked mount_state mount_state
  | Task_written mount_state mount_state

record machine_system =
  ms_machine :: mount_state_machine
  ms_tasks :: "nat \<Rightarrow> task"

inductive machine_step :: "machine_system \<Rightarrow> machine_system \<Rightarrow> bool" where
  t_call: "ms_tasks s i = Task_idle \<Longrightarrow>
    machine_step s (s\<lparr>ms_tasks := (ms_tasks s)(i := Task_called new)\<rparr>)"
| t_refuse: "ms_tasks s i = Task_called new \<Longrightarrow> transition_check new (ms_machine s) = Inl e \<Longrightarrow>
    machine_step s (s\<lparr>ms_tasks := (ms_tasks s)(i := Task_idle)\<rparr>)"
| t_check: "ms_tasks s i = Task_called new \<Longrightarrow> transition_check new (ms_machine s) = Inr cur \<Longrightarrow>
    machine_step s (s\<lparr>ms_tasks := (ms_tasks s)(i := Task_checked cur new)\<rparr>)"
| t_write: "ms_tasks s i = Task_checked cur new \<Longrightarrow>
    machine_step s (s\<lparr>ms_machine := transition_write new (ms_machine s),
                     ms_tasks := (ms_tasks s)(i := Task_written cur new)\<rparr>)"
| t_record: "ms_tasks s i = Task_written cur new \<Longrightarrow>
    machine_step s (s\<lparr>ms_machine :=
        transition_record (mk_transition (sm_mount_id (ms_machine s)) cur new now reason err)
          (ms_machine s),
      ms_tasks := (ms_tasks s)(i := Task_idle)\<rparr>)"

definition system_new :: "string \<Rightarrow> machine_system" where
  "system_new i = \<lparr>ms_machine = state_machine_new i, ms_tasks = (\<lambda>_. Task_idle)\<rparr>"

inductive machine_reachable :: "string \<Rightarrow> machine_system \<Rightarrow> bool" for i where
  start: "machine_reachable i (system_new i)"
| step: "machine_reachable i s \<Longrightarrow> machine_step s t \<Longrightarrow> machine_reachable i t"

fun task_ok :: "task \<Rightarrow> bool" where
  "task_ok (Task_checked cur new) = can_transition cur new"
| "task_ok (Task_written cur new) = can_transition cur new"
| "task_ok _ = True"

definition system_inv :: "machine_system \<Rightarrow> bool" where
  "system_inv s \<longleftrightarrow>
     (\<forall>i. task_ok (ms_tasks s i))
     \<and> (\<forall>e \<in> set (sm_history (ms_machine s)). can_transition (tr_from e) (tr_to e))
     \<and> length (sm_history (ms_machine s)) \<le> sm_max_history (ms_machine s)"

inductive_cases machine_stepE: "machine_step s t"

lemma system_inv_new: "system_inv (system_new i)"
  by (simp add: system_inv_def system_new_def state_machine_new_def)

lemma system_inv_task:
  "system_inv s \<Longrightarrow> task_ok t \<Longrightarrow> system_inv (s\<lparr>ms_tasks := (ms_tasks s)(i := t)\<rparr>)"
  by (simp add: system_inv_def)

lemma system_inv_record:
  assumes "system_inv s" and "can_transition cur new"
  shows "system_inv (s\<lparr>ms_machine :=
        transition_record (mk_transition mid cur new now reason err) (ms_machine s)\<rparr>)"
proof -
  let ?m = "ms_machine s" and ?e = "mk_transition mid cur new now reason err"
  have "set (push_history (sm_max_history ?m) ?e (sm_history ?m)) \<subseteq> insert ?e (set (sm_history ?m))"
    by (rule set_push_history)
  moreover have "length (push_history (sm_max_history ?m) ?e (sm_history ?m)) \<le> sm_max_history ?m"
    using assms(1) by (simp add: system_inv_def length_push_history)
  ultimately show ?thesis
    using assms by (auto simp: system_inv_def transition_record_def mk_transition_def)
qed

lemma system_inv_step: "machine_step s t \<Longrightarrow> system_inv s \<Longrightarrow> system_inv t"
proof (induction rule: machine_step.induct)
  case (t_write s i cur new)
  then have "can_transition cur new" by (metis system_inv_def task_ok.simps(1))
  with t_write show ?case
    by (simp add: system_inv_def transition_write_def)
next
  case (t_record s i cur new now reason err)
  then have ok: "can_transition cur new" by (metis system_inv_def task_ok.simps(2))
  have "system_inv (s\<lparr>ms_machine := transition_record
      (mk_transition (sm_mount_id (ms_machine s)) cur new now reason err) (ms_machine s)\<rparr>)"
    using t_record.prems ok by (rule system_inv_record)
  from system_inv_task [OF this, of Task_idle i] show ?case by simp
qed (auto intro!: system_inv_task simp: transition_check_Inr)

text \<open>C15: however the calls of concurrent tasks interleave, every recorded transition is one the
  table allows, and the history keeps its bound.\<close>

theorem interleaved_history_allowed:
  assumes "machine_reachable i s"
  shows "(\<forall>e \<in> set (sm_history (ms_machine s)). can_transition (tr_from e) (tr_to e))
    \<and> length (sm_history (ms_machine s)) \<le> sm_max_history (ms_machine s)"
proof -
  from assms have "system_inv s"
    by (induction rule: machine_reachable.induct) (auto intro: system_inv_new system_inv_step)
  then show ?thesis by (simp add: system_inv_def)
qed

text \<open>Two calls that both pass the check in state \<open>Mounting\<close> and then write one after the other.\<close>

definition race_state :: "mount_state \<Rightarrow> task \<Rightarrow> task \<Rightarrow> machine_system \<Rightarrow> machine_system" where
  "race_state st a b s =
     s\<lparr>ms_machine := transition_write st (ms_machine s), ms_tasks := (ms_tasks s)(0 := a, 1 := b)\<rparr>"

lemma race_moves:
  assumes "ms_tasks s 0 = Task_idle" and "ms_tasks s 1 = Task_idle"
    and "sm_state (ms_machine s) = Mounting" and "machine_reachable i s"
  shows "machine_reachable i (race_state Failed (Task_written Mounting Failed)
      (Task_checked Mounting Mounted) s)"
proof -
  have can: "can_transition Mounting Failed" "can_transition Mounting Mounted"
    by (simp_all add: can_transition_def)
  let ?s1 = "s\<lparr>ms_tasks := (ms_tasks s)(0 := Task_called Failed)\<rparr>"
  let ?s2 = "?s1\<lparr>ms_tasks := (ms_tasks ?s1)(1 := Task_called Mounted)\<rparr>"
  let ?s3 = "?s2\<lparr>ms_tasks := (ms_tasks ?s2)(0 := Task_checked Mounting Failed)\<rparr>"
  let ?s4 = "?s3\<lparr>ms_tasks := (ms_tasks ?s3)(1 := Task_checked Mounting Mounted)\<rparr>"
  have "machine_step s ?s1" and "machine_step ?s1 ?s2"
    by (rule machine_step.t_call; use assms in simp)+
  moreover have "machine_step ?s2 ?s3" and "machine_step ?s3 ?s4"
    by (rule machine_step.t_check; simp add: assms can transition_check_Inr)+
  moreover have "machine_step ?s4 (?s4\<lparr>ms_machine := transition_write Failed (ms_machine ?s4),
      ms_tasks := (ms_tasks ?s4)(0 := Task_written Mounting Failed)\<rparr>)"
    by (rule machine_step.t_write) simp
  ultimately have "machine_reachable i (?s4\<lparr>ms_machine := transition_write Failed (ms_machine ?s4),
      ms_tasks := (ms_tasks ?s4)(0 := Task_written Mounting Failed)\<rparr>)"
    using assms(4) by (meson machine_reachable.step)
  moreover have "?s4\<lparr>ms_machine := transition_write Failed (ms_machine ?s4),
      ms_tasks := (ms_tasks ?s4)(0 := Task_written Mounting Failed)\<rparr>
      = race_state Failed (Task_written Mounting Failed) (Task_checked Mounting Mounted) s"
    by (simp add: race_state_def fun_upd_twist)
  ultimately show ?thesis by simp
qed

lemma mounting_reachable:
  "\<exists>s. machine_reachable i s \<and> sm_state (ms_machine s) = Mounting \<and> ms_tasks s = (\<lambda>_. Task_idle)"
proof -
  let ?s0 = "system_new i"
  let ?s1 = "?s0\<lparr>ms_tasks := (ms_tasks ?s0)(0 := Task_called Mounting)\<rparr>"
  let ?s2 = "?s1\<lparr>ms_tasks := (ms_tasks ?s1)(0 := Task_checked Unmounted Mounting)\<rparr>"
  let ?s3 = "?s2\<lparr>ms_machine := transition_write Mounting (ms_machine ?s2),
                 ms_tasks := (ms_tasks ?s2)(0 := Task_written Unmounted Mounting)\<rparr>"
  let ?e = "mk_transition (sm_mount_id (ms_machine ?s3)) Unmounted Mounting 0 None None"
  let ?s4 = "?s3\<lparr>ms_machine := transition_record ?e (ms_machine ?s3),
                 ms_tasks := (ms_tasks ?s3)(0 := Task_idle)\<rparr>"
  have "machine_step ?s0 ?s1" by (rule machine_step.t_call) (simp add: system_new_def)
  moreover have "machine_step ?s1 ?s2"
    by (rule machine_step.t_check)
      (simp_all add: transition_check_Inr system_new_def state_machine_new_def can_transition_def)
  moreover have "machine_step ?s2 ?s3" by (rule machine_step.t_write) simp
  moreover have "machine_step ?s3 ?s4" by (rule machine_step.t_record) simp
  ultimately have "machine_reachable i ?s4"
    by (meson machine_reachable.intros)
  moreover have "sm_state (ms_machine ?s4) = Mounting"
    by (simp add: transition_record_def transition_write_def)
  moreover have "ms_tasks ?s4 = (\<lambda>_. Task_idle)" by (auto simp: system_new_def)
  ultimately show ?thesis by blast
qed

theorem interleaved_history_allowed_witness:
  "\<exists>s. machine_reachable ''m'' s \<and> sm_state (ms_machine s) = Mounting
     \<and> list_all (\<lambda>e. can_transition (tr_from e) (tr_to e)) (sm_history (ms_machine s))
     \<and> length (sm_history (ms_machine s)) \<le> sm_max_history (ms_machine s)"
proof -
  obtain s where s: "machine_reachable ''m'' s" "sm_state (ms_machine s) = Mounting"
    using mounting_reachable by blast
  from interleaved_history_allowed [OF s(1)] s show ?thesis
    by (intro exI [of _ s]) (simp add: list_all_iff)
qed

text \<open>the check and the write of \<open>transition\<close> are not one atomic step.  Two concurrent calls
  can take a machine from \<open>Failed\<close> to \<open>Mounted\<close> in one step, which the table forbids.\<close>

theorem concurrent_forbidden_transition:
  "\<exists>s t. machine_reachable i s \<and> machine_step s t
     \<and> sm_state (ms_machine s) = Failed \<and> sm_state (ms_machine t) = Mounted
     \<and> \<not> can_transition Failed Mounted"
proof -
  obtain s where s: "machine_reachable i s" "sm_state (ms_machine s) = Mounting"
      "ms_tasks s = (\<lambda>_. Task_idle)"
    using mounting_reachable by blast
  let ?s = "race_state Failed (Task_written Mounting Failed) (Task_checked Mounting Mounted) s"
  have "machine_reachable i ?s" using s by (intro race_moves) simp_all
  moreover have "machine_step ?s (?s\<lparr>ms_machine := transition_write Mounted (ms_machine ?s),
      ms_tasks := (ms_tasks ?s)(1 := Task_written Mounting Mounted)\<rparr>)"
    by (rule machine_step.t_write) (simp add: race_state_def)
  moreover have "sm_state (ms_machine ?s) = Failed" by (simp add: race_state_def transition_write_def)
  moreover have "\<not> can_transition Failed Mounted" by (simp add: can_transition_def)
  ultimately show ?thesis by (fastforce simp: transition_write_def)
qed

end
