(* ===== verification/Mount_Options.thy ===== *)
theory Mount_Options
  imports Fuji_Prelude "HOL-Library.List_Lexorder" "HOL-Library.Char_ord"
begin

text \<open>
  \<open>src/mount/options.rs\<close>: the parser of a comma separated mount option string, its
  conversion of sizes and modes, the defaults and the validation per file system type, and the
  printer of parsed options.

  \<open>usize\<close> is 64 bits wide and the release profile does not check overflow, so \<open>n * 1024\<close> wraps.
  An \<open>anyhow\<close> error is a constructor of \<open>option_error\<close>, one for each \<open>anyhow!\<close> and \<open>bail!\<close>.
\<close>

section \<open>Data\<close>

record security_options =
  so_read_only :: bool
  so_nosuid :: bool
  so_nodev :: bool
  so_noexec :: bool
  so_suid :: bool
  so_fmode :: "u32 option"
  so_dmode :: "u32 option"
  so_uid :: "u32 option"
  so_gid :: "u32 option"

record performance_options =
  po_rsize :: "usize option"
  po_wsize :: "usize option"
  po_timeo :: "u32 option"
  po_retrans :: "u32 option"
  po_soft :: bool
  po_intr :: bool
  po_nfsvers :: "u32 option"
  po_vers :: "string option"
  po_vers_smb :: "string option"

record mount_options =
  mo_raw :: "string list"
  mo_options :: "(string, string) hashmap"
  mo_fs_type :: string
  mo_security :: security_options
  mo_performance :: performance_options

record option_parser =
  op_fs_options :: "(string, string list) hashmap"
  op_global_security :: "string list"
  op_boolean_options :: "string list"

datatype option_error =
    InvalidSize string
  | InvalidUid string
  | InvalidGid string
  | InvalidFileMode string
  | InvalidDirMode string
  | InvalidTimeout string
  | InvalidRetrans string
  | InvalidNfsVersion string
  | ConflictRoRw
  | FinalConflictRoRw
  | HardZeroTimeout
  | UnsupportedNfsVersion u32
  | RsizeTooSmall usize
  | RsizeTooLarge usize
  | WsizeTooSmall usize
  | WsizeTooLarge usize
  | TimeoutOutOfRange u32

definition security_default :: security_options where
  "security_default =
     \<lparr> so_read_only = False, so_nosuid = False, so_nodev = False, so_noexec = False,
       so_suid = False, so_fmode = None, so_dmode = None, so_uid = None, so_gid = None \<rparr>"

definition performance_default :: performance_options where
  "performance_default =
     \<lparr> po_rsize = None, po_wsize = None, po_timeo = None, po_retrans = None, po_soft = False,
       po_intr = False, po_nfsvers = None, po_vers = None, po_vers_smb = None \<rparr>"

section \<open>The parser's tables\<close>

definition nfs_option_names :: "string list" where
  "nfs_option_names =
     [''rsize'', ''wsize'', ''timeo'', ''retrans'', ''soft'', ''hard'', ''intr'', ''nointr'',
      ''tcp'', ''udp'', ''vers'', ''nfsvers'', ''port'', ''proto'', ''ac'', ''noac'',
      ''acregmin'', ''acregmax'', ''acdirmin'', ''acdirmax'', ''lookupcache'', ''fsc'',
      ''local_lock'', ''fscache'', ''nolock'', ''bg'', ''fg'']"

definition cifs_option_names :: "string list" where
  "cifs_option_names =
     [''rsize'', ''wsize'', ''vers'', ''username'', ''password'', ''domain'', ''uid'', ''gid'',
      ''file_mode'', ''dir_mode'', ''iocharset'', ''codepage'', ''sec'', ''serverino'',
      ''cache'', ''unc'', ''ip'', ''port'', ''netbiosname'', ''workgroup'', ''user'', ''pass'',
      ''rw'', ''ro'', ''guest'', ''nobrl'', ''servern'', ''posix'', ''mfsymlinks'', ''dynperm'',
      ''inode64'', ''acl'', ''noperm'', ''noserverino'', ''cifsacl'']"

definition sshfs_option_names :: "string list" where
  "sshfs_option_names =
     [''port'', ''ssh_command'', ''sftp_server'', ''direct_io'', ''cache'', ''cache_timeout'',
      ''cache_link_timeout'', ''cache_dir'', ''cache_xattr_timeout'', ''follow_symlinks'',
      ''transform_symlinks'', ''noatime'', ''nodiratime'', ''readonly'', ''allow_root'',
      ''allow_other'', ''default_permissions'', ''uid'', ''gid'', ''umask'', ''fmask'',
      ''dmask'', ''idmap'', ''nomap'', ''uidfile'', ''gidfile'', ''modules'', ''modulespath'',
      ''ssh_command_known_hosts_policy'', ''reconnect'', ''ServerAliveInterval'',
      ''ServerAliveCountMax'', ''controlpath'']"

definition global_security_names :: "string list" where
  "global_security_names =
     [''nosuid'', ''nodev'', ''noexec'', ''suid'', ''exec'', ''dev'', ''ro'', ''rw'']"

definition boolean_option_names :: "string list" where
  "boolean_option_names =
     [''ro'', ''rw'', ''suid'', ''nosuid'', ''dev'', ''nodev'', ''exec'', ''noexec'', ''sync'',
      ''async'', ''dirsync'', ''nodiratime'', ''relatime'', ''norelatime'', ''noatime'',
      ''atime'', ''diratime'', ''nodiratime'', ''strictatime'', ''nostrictatime'',
      ''lazytime'', ''nolazytime'', ''soft'', ''hard'', ''intr'', ''nointr'', ''bg'', ''fg'',
      ''defaults'', ''auto'', ''noauto'', ''user'', ''nouser'', ''users'', ''nousers'',
      ''_netdev'', ''nofail'']"

definition option_parser_new :: option_parser where
  "option_parser_new =
     \<lparr> op_fs_options =
         hm_insert ''sshfs'' sshfs_option_names
           (hm_insert ''cifs'' cifs_option_names (hm_insert ''nfs'' nfs_option_names [])),
       op_global_security = global_security_names,
       op_boolean_options = boolean_option_names \<rparr>"

section \<open>Values\<close>

definition parse_usize :: "string \<Rightarrow> usize option" where
  [fuji_eval]: "parse_usize s = map_option of_nat (parse_radix 10 64 s)"

definition parse_size :: "string \<Rightarrow> option_error + usize" where
  "parse_size value0 =
     (let value = to_uppercase (trim value0)
      in if ends_with value ''K''
         then ok_or (map_option (\<lambda>n. n * 1024) (parse_usize (trim_end_matches CHR ''K'' value)))
                (InvalidSize value)
         else if ends_with value ''M''
         then ok_or (map_option (\<lambda>n. n * 1024 * 1024) (parse_usize (trim_end_matches CHR ''M'' value)))
                (InvalidSize value)
         else if ends_with value ''G''
         then ok_or (map_option (\<lambda>n. n * 1024 * 1024 * 1024)
                (parse_usize (trim_end_matches CHR ''G'' value)))
                (InvalidSize value)
         else ok_or (parse_usize value) (InvalidSize value))"

text \<open>The octal reading of a mode with a leading zero, the decimal one of any other.\<close>

definition parse_mode :: "string \<Rightarrow> option_error \<Rightarrow> option_error + u32" where
  "parse_mode v e =
     (if starts_with v ''0'' then ok_or (parse_u32_radix 8 (drop 1 v)) e
      else ok_or (parse_u32 v) e)"

section \<open>Single options\<close>

type_synonym parse_state = "(string, string) hashmap \<times> security_options \<times> performance_options"

definition security_key_value ::
    "string \<Rightarrow> string \<Rightarrow> parse_state \<Rightarrow> option_error + parse_state" where
  "security_key_value key value st =
     (case st of (opts, sec, perf) \<Rightarrow>
       if key = ''uid'' then
         and_then (ok_or (parse_u32 value) (InvalidUid value))
           (\<lambda>n. Inr (opts, sec\<lparr>so_uid := Some n\<rparr>, perf))
       else if key = ''gid'' then
         and_then (ok_or (parse_u32 value) (InvalidGid value))
           (\<lambda>n. Inr (opts, sec\<lparr>so_gid := Some n\<rparr>, perf))
       else if key = ''fmode'' \<or> key = ''file_mode'' then
         and_then (parse_mode value (InvalidFileMode value))
           (\<lambda>n. Inr (opts, sec\<lparr>so_fmode := Some n\<rparr>, perf))
       else if key = ''dmode'' \<or> key = ''dir_mode'' then
         and_then (parse_mode value (InvalidDirMode value))
           (\<lambda>n. Inr (opts, sec\<lparr>so_dmode := Some n\<rparr>, perf))
       else Inr (hm_insert key value opts, sec, perf))"

definition performance_key_value ::
    "string \<Rightarrow> string \<Rightarrow> parse_state \<Rightarrow> option_error + parse_state" where
  "performance_key_value key value st =
     (case st of (opts, sec, perf) \<Rightarrow>
       if key = ''rsize'' then
         and_then (parse_size value)
           (\<lambda>n. Inr (hm_insert key (show_nat (unat n)) opts, sec, perf\<lparr>po_rsize := Some n\<rparr>))
       else if key = ''wsize'' then
         and_then (parse_size value)
           (\<lambda>n. Inr (hm_insert key (show_nat (unat n)) opts, sec, perf\<lparr>po_wsize := Some n\<rparr>))
       else if key = ''timeo'' then
         and_then (ok_or (parse_u32 value) (InvalidTimeout value))
           (\<lambda>n. Inr (opts, sec, perf\<lparr>po_timeo := Some n\<rparr>))
       else if key = ''retrans'' then
         and_then (ok_or (parse_u32 value) (InvalidRetrans value))
           (\<lambda>n. Inr (opts, sec, perf\<lparr>po_retrans := Some n\<rparr>))
       else if key = ''nfsvers'' then
         and_then (ok_or (parse_u32 value) (InvalidNfsVersion value))
           (\<lambda>n. Inr (opts, sec, perf\<lparr>po_nfsvers := Some n\<rparr>))
       else if key = ''vers'' then
         (if starts_with value ''3'' \<or> starts_with value ''4''
          then Inr (opts, sec, perf\<lparr>po_vers := Some value\<rparr>)
          else if List.member [''1.0'', ''2.0'', ''2.1'', ''3.0''] value
          then Inr (opts, sec, perf\<lparr>po_vers_smb := Some value\<rparr>)
          else Inr (opts, sec, perf))
       else Inr (opts, sec, perf))"

definition process_key_value_option ::
    "string \<Rightarrow> string \<Rightarrow> parse_state \<Rightarrow> option_error + parse_state" where
  "process_key_value_option key value st =
     (case st of (opts, sec, perf) \<Rightarrow>
        and_then (security_key_value key value (hm_insert key value opts, sec, perf))
          (performance_key_value key value))"

definition process_boolean_option :: "string \<Rightarrow> parse_state \<Rightarrow> option_error + parse_state" where
  "process_boolean_option opt st =
     (case st of (opts, sec, perf) \<Rightarrow>
       if opt = ''ro'' then
         (if hm_contains_key opts ''rw'' then Inl ConflictRoRw
          else Inr (hm_insert opt [] opts, sec\<lparr>so_read_only := True\<rparr>, perf))
       else if opt = ''rw'' then
         (if hm_contains_key opts ''ro'' then Inl ConflictRoRw
          else Inr (hm_insert opt [] opts, sec\<lparr>so_read_only := False\<rparr>, perf))
       else if opt = ''nosuid'' then
         Inr (hm_insert opt [] opts, sec\<lparr>so_nosuid := True, so_suid := False\<rparr>, perf)
       else if opt = ''nodev'' then Inr (hm_insert opt [] opts, sec\<lparr>so_nodev := True\<rparr>, perf)
       else if opt = ''noexec'' then Inr (hm_insert opt [] opts, sec\<lparr>so_noexec := True\<rparr>, perf)
       else if opt = ''suid'' then
         Inr (hm_insert opt [] opts, sec\<lparr>so_suid := True, so_nosuid := False\<rparr>, perf)
       else if opt = ''soft'' then Inr (hm_insert opt [] opts, sec, perf\<lparr>po_soft := True\<rparr>)
       else if opt = ''hard'' then Inr (hm_insert opt [] opts, sec, perf\<lparr>po_soft := False\<rparr>)
       else if opt = ''intr'' then Inr (hm_insert opt [] opts, sec, perf\<lparr>po_intr := True\<rparr>)
       else if opt = ''nointr'' then Inr (hm_insert opt [] opts, sec, perf\<lparr>po_intr := False\<rparr>)
       else Inr (hm_insert opt [] opts, sec, perf))"

definition process_option :: "parse_state \<Rightarrow> string \<Rightarrow> option_error + parse_state" where
  "process_option st opt =
     (if opt = [] then Inr st
      else case split_once CHR ''='' opt of
             Some (key, value) \<Rightarrow> process_key_value_option key value st
           | None \<Rightarrow> process_boolean_option opt st)"

definition normalize_fs_type :: "string \<Rightarrow> string" where
  "normalize_fs_type fs_type =
     (if fs_type = ''cifs'' then ''cifs''
      else if fs_type = ''smbfs'' then ''cifs''
      else if fs_type = ''nfs4'' then ''nfs''
      else fs_type)"

section \<open>Defaults\<close>

text \<open>\<open>if !options.contains_key(k) { options.insert(k, v); f }\<close>\<close>

definition default_option ::
    "string \<Rightarrow> string \<Rightarrow> (parse_state \<Rightarrow> parse_state) \<Rightarrow> parse_state \<Rightarrow> parse_state" where
  "default_option k v f st =
     (case st of (opts, sec, perf) \<Rightarrow>
        if hm_contains_key opts k then st else f (hm_insert k v opts, sec, perf))"

definition apply_defaults_nfs :: "parse_state \<Rightarrow> parse_state" where
  "apply_defaults_nfs st0 =
     (let st1 = (case st0 of (opts, sec, perf) \<Rightarrow>
                   if \<not> hm_contains_key opts ''hard'' \<and> \<not> hm_contains_key opts ''soft''
                   then (hm_insert ''hard'' [] opts, sec, perf\<lparr>po_soft := False\<rparr>) else st0);
          st2 = (case st1 of (opts, sec, perf) \<Rightarrow>
                   if \<not> hm_contains_key opts ''intr'' \<and> \<not> hm_contains_key opts ''nointr''
                   then (hm_insert ''intr'' [] opts, sec, perf\<lparr>po_intr := True\<rparr>) else st1);
          st3 = default_option ''rsize'' ''1048576''
                  (\<lambda>(opts, sec, perf). (opts, sec, perf\<lparr>po_rsize := Some 1048576\<rparr>)) st2;
          st4 = default_option ''wsize'' ''1048576''
                  (\<lambda>(opts, sec, perf). (opts, sec, perf\<lparr>po_wsize := Some 1048576\<rparr>)) st3;
          st5 = default_option ''timeo'' ''600''
                  (\<lambda>(opts, sec, perf). (opts, sec, perf\<lparr>po_timeo := Some 600\<rparr>)) st4
      in default_option ''retrans'' ''2''
           (\<lambda>(opts, sec, perf). (opts, sec, perf\<lparr>po_retrans := Some 2\<rparr>)) st5)"

definition apply_defaults_cifs :: "parse_state \<Rightarrow> parse_state" where
  "apply_defaults_cifs st0 =
     (let st1 = (case st0 of (opts, sec, perf) \<Rightarrow>
                   if \<not> hm_contains_key opts ''rw'' \<and> \<not> hm_contains_key opts ''ro''
                   then (hm_insert ''rw'' [] opts, sec\<lparr>so_read_only := False\<rparr>, perf) else st0);
          st2 = default_option ''rsize'' ''1048576''
                  (\<lambda>(opts, sec, perf). (opts, sec, perf\<lparr>po_rsize := Some 1048576\<rparr>)) st1
      in default_option ''wsize'' ''1048576''
           (\<lambda>(opts, sec, perf). (opts, sec, perf\<lparr>po_wsize := Some 1048576\<rparr>)) st2)"

definition apply_defaults_sshfs :: "parse_state \<Rightarrow> parse_state" where
  "apply_defaults_sshfs st0 =
     default_option ''default_permissions'' [] id (default_option ''allow_other'' [] id st0)"

definition apply_defaults :: "string \<Rightarrow> parse_state \<Rightarrow> parse_state" where
  "apply_defaults fs_type st =
     (if fs_type = ''nfs'' then apply_defaults_nfs st
      else if fs_type = ''cifs'' \<or> fs_type = ''smbfs'' then apply_defaults_cifs st
      else if fs_type = ''sshfs'' then apply_defaults_sshfs st
      else st)"

section \<open>Validation\<close>

definition check_size ::
    "(usize \<Rightarrow> option_error) \<Rightarrow> (usize \<Rightarrow> option_error) \<Rightarrow> usize option \<Rightarrow> option_error + unit" where
  "check_size small large n0 =
     (case n0 of
        None \<Rightarrow> Inr ()
      | Some n \<Rightarrow> if n < 1024 then Inl (small n)
                  else if n > 104857600 then Inl (large n) else Inr ())"

definition validate_sizes :: "performance_options \<Rightarrow> option_error + unit" where
  "validate_sizes perf =
     and_then (check_size RsizeTooSmall RsizeTooLarge (po_rsize perf))
       (\<lambda>_. check_size WsizeTooSmall WsizeTooLarge (po_wsize perf))"

definition validate_nfs :: "performance_options \<Rightarrow> option_error + unit" where
  "validate_nfs perf =
     and_then (case po_nfsvers perf of
                 None \<Rightarrow> Inr ()
               | Some v \<Rightarrow> ensure (3 \<le> v \<and> v \<le> 4) (UnsupportedNfsVersion v))
       (\<lambda>_. and_then (validate_sizes perf)
       (\<lambda>_. case po_timeo perf of
              None \<Rightarrow> Inr ()
            | Some t \<Rightarrow> ensure (1 \<le> t \<and> t \<le> 3600) (TimeoutOutOfRange t)))"

definition validate_options :: "string \<Rightarrow> parse_state \<Rightarrow> option_error + unit" where
  "validate_options fs_type st =
     (case st of (opts, sec, perf) \<Rightarrow>
       if so_read_only sec \<and> hm_contains_key opts ''rw'' then Inl FinalConflictRoRw
       else if \<not> po_soft perf \<and> po_timeo perf = Some 0 then Inl HardZeroTimeout
       else and_then (if fs_type = ''nfs'' then validate_nfs perf else Inr ())
              (\<lambda>_. if fs_type = ''cifs'' then validate_sizes perf else Inr ()))"

section \<open>Parsing and printing\<close>

definition raw_options :: "string \<Rightarrow> string list" where
  "raw_options s = map trim (split_on CHR '','' s)"

definition parse_options :: "string \<Rightarrow> string \<Rightarrow> option_error + mount_options" where
  "parse_options options_str fs_type =
     (let raw = raw_options options_str
      in and_then (fold_res process_option ([], security_default, performance_default) raw)
           (\<lambda>st0. let st = apply_defaults fs_type st0
                  in and_then (validate_options fs_type st)
                       (\<lambda>_. case st of (opts, sec, perf) \<Rightarrow>
                          Inr \<lparr> mo_raw = raw, mo_options = opts,
                                mo_fs_type = normalize_fs_type fs_type,
                                mo_security = sec, mo_performance = perf \<rparr>)))"

definition format_option :: "string \<times> string \<Rightarrow> string" where
  "format_option kv = (case kv of (k, v) \<Rightarrow> if v = [] then k else k @ ''='' @ v)"

definition format_options :: "mount_options \<Rightarrow> string" where
  "format_options o' = join '','' (map format_option (sort_key fst (mo_options o')))"

definition is_supported :: "option_parser \<Rightarrow> string \<Rightarrow> string \<Rightarrow> bool" where
  "is_supported p opt fs_type =
     (List.member (op_boolean_options p) opt
      \<or> List.member (op_global_security p) opt
      \<or> (case hm_get (op_fs_options p) fs_type of
           None \<Rightarrow> False | Some opts \<Rightarrow> List.member opts opt))"

section \<open>Lemmas\<close>

lemmas option_eval = raw_options_def process_option_def process_boolean_option_def
  process_key_value_option_def security_key_value_def performance_key_value_def
  security_default_def performance_default_def apply_defaults_def apply_defaults_nfs_def
  apply_defaults_cifs_def apply_defaults_sshfs_def default_option_def validate_options_def
  validate_nfs_def validate_sizes_def check_size_def parse_size_def parse_mode_def
  normalize_fs_type_def

lemma process_option_cases:
  assumes "process_option st opt = Inr st'"
  obtains "opt = []" "st' = st"
  | k v where "split_once CHR ''='' opt = Some (k, v)" "process_key_value_option k v st = Inr st'"
  | "opt \<noteq> []" "CHR ''='' \<notin> set opt" "process_boolean_option opt st = Inr st'"
  using assms by (auto simp: process_option_def split_once_None_iff split: if_splits option.splits)

subsection \<open>The read-only and set-uid flags\<close>

text \<open>The flags of the security options agree with the option map while options are processed.\<close>

definition flags_ok :: "parse_state \<Rightarrow> bool" where
  "flags_ok st = (case st of (opts, sec, perf) \<Rightarrow>
     (so_read_only sec \<longrightarrow> hm_contains_key opts ''ro'')
     \<and> \<not> (so_suid sec \<and> so_nosuid sec))"

lemma contains_insert [simp]:
  "hm_contains_key (hm_insert k v m) k' = (k' = k \<or> hm_contains_key m k')"
  by (auto simp: hm_contains_key_def hm.get_insert)

lemma security_key_value_flags:
  "security_key_value k v (opts, sec, perf) = Inr (opts', sec', perf') \<Longrightarrow>
     so_read_only sec' = so_read_only sec \<and> so_suid sec' = so_suid sec \<and> so_nosuid sec' = so_nosuid sec
     \<and> perf' = perf \<and> (opts' = opts \<or> opts' = hm_insert k v opts)"
  unfolding security_key_value_def prod.case
  by (simp only: and_then_Inr_iff sum.inject prod.inject split: if_split_asm;
      (elim exE conjE)?; hypsubst?; simp)

lemma performance_key_value_flags:
  "performance_key_value k v (opts, sec, perf) = Inr (opts', sec', perf') \<Longrightarrow>
     sec' = sec \<and> (opts' = opts \<or> (\<exists>w. opts' = hm_insert k w opts))"
  unfolding performance_key_value_def prod.case 
  by (simp only: and_then_Inr_iff sum.inject prod.inject split: if_split_asm;
      (elim exE conjE)?; hypsubst?; blast)

lemma flags_ok_key_value:
  assumes "flags_ok st" and "process_key_value_option k v st = Inr st'"
  shows "flags_ok st'"
proof -
  obtain opts sec perf where st: "st = (opts, sec, perf)" by (cases st)
  with assms(2) obtain o1 s1 p1 where
      1: "security_key_value k v (hm_insert k v opts, sec, perf) = Inr (o1, s1, p1)"
      and 2: "performance_key_value k v (o1, s1, p1) = Inr st'"
    by (auto simp: process_key_value_option_def and_then_Inr_iff)
  obtain o2 s2 p2 where st': "st' = (o2, s2, p2)" by (cases st')
  from security_key_value_flags [OF 1] performance_key_value_flags [OF 2 [unfolded st']] assms(1)
  show ?thesis by (auto simp: st st' flags_ok_def)
qed

lemma flags_ok_boolean:
  "flags_ok st \<Longrightarrow> process_boolean_option opt st = Inr st' \<Longrightarrow> flags_ok st'"
  by (cases st; simp add: process_boolean_option_def split: if_split_asm)
    (auto simp: flags_ok_def)

lemma flags_ok_option: "flags_ok st \<Longrightarrow> process_option st opt = Inr st' \<Longrightarrow> flags_ok st'"
  by (erule process_option_cases) (auto intro: flags_ok_key_value flags_ok_boolean)

lemma flags_ok_fold:
  "fold_res process_option ([], security_default, performance_default) raw = Inr st \<Longrightarrow> flags_ok st"
  by (erule fold_res_invariant, simp add: flags_ok_def security_default_def, erule flags_ok_option)

lemma flags_ok_default:
  assumes "flags_ok st" and "\<And>o' s p. flags_ok (o', s, p) \<Longrightarrow> flags_ok (f (o', s, p))"
  shows "flags_ok (default_option k v f st)"
proof (cases st)
  case (fields opts sec perf)
  with assms(1) have "flags_ok (hm_insert k v opts, sec, perf)" by (auto simp: flags_ok_def)
  from assms(2) [OF this] show ?thesis using assms(1) fields by (simp add: default_option_def)
qed

lemma flags_ok_nfs: "flags_ok st \<Longrightarrow> flags_ok (apply_defaults_nfs st)"
  unfolding apply_defaults_nfs_def Let_def
  by (intro flags_ok_default) (auto simp: flags_ok_def split: prod.splits)

lemma flags_ok_cifs: "flags_ok st \<Longrightarrow> flags_ok (apply_defaults_cifs st)"
  unfolding apply_defaults_cifs_def Let_def
  by (intro flags_ok_default) (auto simp: flags_ok_def split: prod.splits)

lemma flags_ok_sshfs: "flags_ok st \<Longrightarrow> flags_ok (apply_defaults_sshfs st)"
  unfolding apply_defaults_sshfs_def by (intro flags_ok_default) auto

lemma flags_ok_defaults: "flags_ok st \<Longrightarrow> flags_ok (apply_defaults fs st)"
  by (simp add: apply_defaults_def flags_ok_nfs flags_ok_cifs flags_ok_sshfs)

lemma parse_options_Inr:
  assumes "parse_options s fs = Inr r"
  obtains st opts sec perf where
    "fold_res process_option ([], security_default, performance_default) (raw_options s) = Inr st"
    "apply_defaults fs st = (opts, sec, perf)"
    "validate_options fs (opts, sec, perf) = Inr ()"
    "r = \<lparr> mo_raw = raw_options s, mo_options = opts, mo_fs_type = normalize_fs_type fs,
           mo_security = sec, mo_performance = perf \<rparr>"
proof -
  from assms obtain st where
      st: "fold_res process_option ([], security_default, performance_default) (raw_options s) = Inr st"
    unfolding parse_options_def Let_def and_then_Inr_iff by blast
  moreover obtain opts sec perf where "apply_defaults fs st = (opts, sec, perf)"
    using prod_cases3 by blast
  moreover from assms st this have "validate_options fs (opts, sec, perf) = Inr ()"
      and "r = \<lparr> mo_raw = raw_options s, mo_options = opts, mo_fs_type = normalize_fs_type fs,
           mo_security = sec, mo_performance = perf \<rparr>"
    by (simp_all add: parse_options_def Let_def and_then_Inr_iff)
  ultimately show thesis by (rule that)
qed

text \<open>parsed options never hold a contradiction: a read-only mount has the option
  \<open>ro\<close> and not \<open>rw\<close>, and \<open>suid\<close> and \<open>nosuid\<close> are never both set.\<close>

theorem parse_options_consistent:
  assumes "parse_options s fs = Inr r"
  shows "(so_read_only (mo_security r) \<longrightarrow>
            hm_contains_key (mo_options r) ''ro'' \<and> \<not> hm_contains_key (mo_options r) ''rw'')
         \<and> \<not> (so_suid (mo_security r) \<and> so_nosuid (mo_security r))"
proof -
  from assms obtain st opts sec perf where
      st: "fold_res process_option ([], security_default, performance_default) (raw_options s) = Inr st"
      "apply_defaults fs st = (opts, sec, perf)" "validate_options fs (opts, sec, perf) = Inr ()"
      and r: "r = \<lparr> mo_raw = raw_options s, mo_options = opts, mo_fs_type = normalize_fs_type fs,
           mo_security = sec, mo_performance = perf \<rparr>"
    by (rule parse_options_Inr)
  from flags_ok_defaults [OF flags_ok_fold [OF st(1)], of fs] have "flags_ok (opts, sec, perf)"
    by (simp add: st(2))
  moreover have "\<not> (so_read_only sec \<and> hm_contains_key opts ''rw'')"
    using st(3) by (rule contrapos_pn) (simp add: validate_options_def)
  ultimately show ?thesis by (auto simp: flags_ok_def r)
qed

theorem parse_options_consistent_witness:
  "\<exists>r. parse_options ''ro,uid=7'' ''sshfs'' = Inr r
     \<and> \<not> (so_read_only (mo_security r) \<and> hm_contains_key (mo_options r) ''rw'')
     \<and> \<not> (so_suid (mo_security r) \<and> so_nosuid (mo_security r))"
proof -
  have "\<exists>r. parse_options ''ro,uid=7'' ''sshfs'' = Inr r"
    by (simp add: parse_options_def option_eval fuji_eval)
  then obtain r where "parse_options ''ro,uid=7'' ''sshfs'' = Inr r" by blast
  with parse_options_consistent [OF this] show ?thesis by blast
qed

subsection \<open>Bounds of an NFS or CIFS mount\<close>

lemma check_size_ok:
  "check_size a b n0 = Inr u \<Longrightarrow> n0 = Some n \<Longrightarrow> 1024 \<le> n \<and> n \<le> 104857600"
  by (simp add: check_size_def not_less split: if_split_asm)

lemma validate_sizes_ok:
  "validate_sizes perf = Inr u \<Longrightarrow>
     (\<forall>n. po_rsize perf = Some n \<longrightarrow> 1024 \<le> n \<and> n \<le> 104857600)
     \<and> (\<forall>n. po_wsize perf = Some n \<longrightarrow> 1024 \<le> n \<and> n \<le> 104857600)"
  unfolding validate_sizes_def and_then_Inr_iff using check_size_ok by blast

lemma validate_nfs_ok:
  "validate_nfs perf = Inr u \<Longrightarrow>
     validate_sizes perf = Inr ()
     \<and> (\<forall>v. po_nfsvers perf = Some v \<longrightarrow> 3 \<le> v \<and> v \<le> 4)
     \<and> (\<forall>v. po_timeo perf = Some v \<longrightarrow> 1 \<le> v \<and> v \<le> 3600)"
  by (simp add: validate_nfs_def and_then_Inr_iff ensure_Inr_iff split: option.splits)

lemma validate_options_parts:
  assumes "validate_options fs (opts, sec, perf) = Inr u"
  shows "(fs = ''nfs'' \<longrightarrow> validate_nfs perf = Inr ())"
    and "(fs = ''cifs'' \<longrightarrow> validate_sizes perf = Inr ())"
    and "po_soft perf \<or> po_timeo perf \<noteq> Some 0"
  using assms unfolding validate_options_def prod.case
  by (simp_all add: and_then_Inr_iff split: if_split_asm)

text \<open>an NFS option string that parses has its transfer sizes between 1 KiB and 100 MiB, a
  timeout of 1 to 3600 and a protocol version 3 or 4, for every combination of options and
  defaults.\<close>

theorem parse_nfs_bounds:
  assumes "parse_options s ''nfs'' = Inr r"
  shows "(\<forall>n. po_rsize (mo_performance r) = Some n \<longrightarrow> 1024 \<le> n \<and> n \<le> 104857600)
    \<and> (\<forall>n. po_wsize (mo_performance r) = Some n \<longrightarrow> 1024 \<le> n \<and> n \<le> 104857600)
    \<and> (\<forall>v. po_nfsvers (mo_performance r) = Some v \<longrightarrow> 3 \<le> v \<and> v \<le> 4)
    \<and> (\<forall>v. po_timeo (mo_performance r) = Some v \<longrightarrow> 1 \<le> v \<and> v \<le> 3600)"
  using assms
proof (rule parse_options_Inr)
  fix st opts sec perf
  assume v: "validate_options ''nfs'' (opts, sec, perf) = Inr ()"
    and r: "r = \<lparr> mo_raw = raw_options s, mo_options = opts, mo_fs_type = normalize_fs_type ''nfs'',
           mo_security = sec, mo_performance = perf \<rparr>"
  from validate_options_parts(1) [OF v] have "validate_nfs perf = Inr ()" by simp
  with validate_nfs_ok validate_sizes_ok r show ?thesis by fastforce
qed

theorem parse_nfs_bounds_witness:
  "\<exists>r n. parse_options ''rsize=8K,vers=4.1'' ''nfs'' = Inr r
     \<and> po_rsize (mo_performance r) = Some n \<and> 1024 \<le> n \<and> n \<le> 104857600"
proof -
  have "\<exists>r. parse_options ''rsize=8K,vers=4.1'' ''nfs'' = Inr r
      \<and> po_rsize (mo_performance r) = Some 8192"
    by (simp add: parse_options_def option_eval fuji_eval)
  then obtain r where r: "parse_options ''rsize=8K,vers=4.1'' ''nfs'' = Inr r"
      "po_rsize (mo_performance r) = Some 8192"
    by blast
  from parse_nfs_bounds [OF r(1)] r show ?thesis by blast
qed

text \<open>the bounds and the defaults are selected by the name of the file system type as given, while
  the result carries its normalised name: \<open>nfs4\<close> yields an \<open>nfs\<close> mount whose options were
  neither completed nor validated, and \<open>smbfs\<close> a \<open>cifs\<close> mount that skips the size bounds.\<close>

theorem aliases_skip_validation:
  "(\<exists>r. parse_options ''rsize=1'' ''nfs4'' = Inr r \<and> mo_fs_type r = ''nfs''
      \<and> po_rsize (mo_performance r) = Some 1 \<and> po_wsize (mo_performance r) = None)
   \<and> parse_options ''rsize=1'' ''nfs'' = Inl (RsizeTooSmall 1)
   \<and> (\<exists>r. parse_options ''rsize=1'' ''smbfs'' = Inr r \<and> mo_fs_type r = ''cifs''
      \<and> po_rsize (mo_performance r) = Some 1)
   \<and> parse_options ''rsize=1'' ''cifs'' = Inl (RsizeTooSmall 1)"
  by (intro conjI; simp add: parse_options_def option_eval fuji_eval)

subsection \<open>Sizes\<close>

lemma trim_upper_show_nat:
  assumes "is_ascii_lower u \<or> is_ascii_upper u"
  shows "to_uppercase (trim (show_nat n @ [u])) = show_nat n @ [char_upper u]"
proof -
  have "trim (show_nat n @ [u]) = show_nat n @ [u]"
    using assms by (intro trim_show_nat) (auto simp: is_whitespace_def is_ascii_lower_def is_ascii_upper_def)
  moreover have "map char_upper (show_nat n) = show_nat n"
    using show_nat_digits char_code_show by (simp add: map_idI)
  ultimately show ?thesis by (simp add: to_uppercase_def)
qed

lemma trim_end_matches_show_nat:
  assumes "\<not> is_ascii_digit u"
  shows "trim_end_matches u (show_nat n @ [u]) = show_nat n"
proof -
  have "last (show_nat n) \<in> set (show_nat n)" using show_nat_hd last_in_set by blast
  then have "last (show_nat n) \<noteq> u" using show_nat_digits assms by blast
  then have "dropWhile (\<lambda>d. d = u) (rev (show_nat n)) = rev (show_nat n)"
    by (intro dropWhile_hd_id) (simp add: hd_rev)
  then show ?thesis by (simp add: trim_end_matches_def trim_end_def)
qed

lemma parse_size_unit:
  assumes "n < 2 ^ 64"
  shows "parse_size (show_nat n @ ''K'') = Inr (of_nat n * 1024)"
    and "parse_size (show_nat n @ ''k'') = Inr (of_nat n * 1024)"
    and "parse_size (show_nat n @ ''M'') = Inr (of_nat n * 1024 * 1024)"
    and "parse_size (show_nat n @ ''G'') = Inr (of_nat n * 1024 * 1024 * 1024)"
proof -
  have val: "parse_usize (show_nat n) = Some (of_nat n)"
    using parse_show_nat [OF assms] by (simp add: parse_usize_def)
  have up: "to_uppercase (trim (show_nat n @ [u])) = show_nat n @ [char_upper u]"
    if "u \<in> set ''KkMG''" for u
    using that by (intro trim_upper_show_nat)
      (auto simp: is_ascii_lower_def is_ascii_upper_def char_code_def)
  have cu: "char_upper CHR ''K'' = CHR ''K''" "char_upper CHR ''k'' = CHR ''K''"
      "char_upper CHR ''M'' = CHR ''M''" "char_upper CHR ''G'' = CHR ''G''"
    by (simp_all add: char_upper_def is_ascii_lower_def char_code_def char_of_eq_iff)
  have end1: "ends_with (show_nat n @ [u]) [v] = (u = v)" for u v by (simp add: ends_with_def)
  have dig: "\<not> is_ascii_digit CHR ''K''" "\<not> is_ascii_digit CHR ''M''" "\<not> is_ascii_digit CHR ''G''"
    by (simp_all add: is_ascii_digit_def char_code_def)
  note facts = parse_size_def Let_def up cu end1 trim_end_matches_show_nat dig val
  show "parse_size (show_nat n @ ''K'') = Inr (of_nat n * 1024)" by (simp add: facts)
  show "parse_size (show_nat n @ ''k'') = Inr (of_nat n * 1024)" by (simp add: facts)
  show "parse_size (show_nat n @ ''M'') = Inr (of_nat n * 1024 * 1024)" by (simp add: facts)
  show "parse_size (show_nat n @ ''G'') = Inr (of_nat n * 1024 * 1024 * 1024)"
    by (simp add: facts)
qed

lemma unat_of_nat_mult:
  assumes "n < 2 ^ 64" and "0 < k" and "k < 2 ^ 64"
  shows "unat (of_nat n * of_nat k :: usize) = n * k \<longleftrightarrow> n * k < 2 ^ 64"
proof -
  have "unat (of_nat n * of_nat k :: usize) = (n * k) mod 2 ^ 64"
    by (simp add: unat_of_nat take_bit_eq_mod flip: of_nat_mult)
  then show ?thesis by (metis mod_less mod_less_divisor zero_less_numeral zero_less_power)
qed

text \<open>a size with a suffix is the number times the unit, computed in 64 bits: it is exact
  up to \<open>2 ^ 54 - 1\<close> for \<open>K\<close>, \<open>2 ^ 44 - 1\<close> for \<open>M\<close> and \<open>2 ^ 34 - 1\<close> for \<open>G\<close>, and wraps without an
  error from there on.\<close>

theorem parse_size_units:
  assumes "n < 2 ^ 64"
  shows "(\<exists>w. parse_size (show_nat n @ ''K'') = Inr w \<and> (unat w = n * 1024 \<longleftrightarrow> n < 2 ^ 54))
    \<and> (\<exists>w. parse_size (show_nat n @ ''M'') = Inr w \<and> (unat w = n * 1048576 \<longleftrightarrow> n < 2 ^ 44))
    \<and> (\<exists>w. parse_size (show_nat n @ ''G'') = Inr w \<and> (unat w = n * 1073741824 \<longleftrightarrow> n < 2 ^ 34))"
  using unat_of_nat_mult [OF assms, of 1024] unat_of_nat_mult [OF assms, of 1048576]
    unat_of_nat_mult [OF assms, of 1073741824]
  by (simp add: parse_size_unit [OF assms] mult.commute)

theorem parse_size_units_witness:
  "\<exists>w. parse_size (show_nat 18014398509481984 @ ''K'') = Inr w \<and> unat w \<noteq> 18014398509481984 * 1024"
  using parse_size_units [of 18014398509481984] by auto

subsection \<open>Printing\<close>

text \<open>What an option reads as again: the split at the first equals sign.\<close>

definition entry_of :: "string \<Rightarrow> string \<times> string" where
  "entry_of w = (case split_once CHR ''='' w of Some kv \<Rightarrow> kv | None \<Rightarrow> (w, []))"

definition printable :: "string \<times> string \<Rightarrow> bool" where
  "printable kv \<longleftrightarrow>
     CHR ''='' \<notin> set (fst kv) \<and> CHR '','' \<notin> set (fst kv) \<and> CHR '','' \<notin> set (snd kv)
     \<and> trim (format_option kv) = format_option kv"

lemma entry_of_format: "printable kv \<Longrightarrow> entry_of (format_option kv) = kv"
  by (cases kv)
    (auto simp: printable_def entry_of_def format_option_def split_once_None_iff [THEN iffD2]
      split_once_append)

lemma comma_free_format: "printable kv \<Longrightarrow> CHR '','' \<notin> set (format_option kv)"
  by (cases kv) (auto simp: printable_def format_option_def)

text \<open>printing options and splitting the text again gives the entries of the option map, sorted
  by key: no option is lost, merged with another or changed, as long as the keys and values hold
  no separator of their own.\<close>

theorem format_options_roundtrip:
  assumes "mo_options r \<noteq> []" and "\<forall>kv \<in> set (mo_options r). printable kv"
  shows "map entry_of (raw_options (format_options r)) = sort_key fst (mo_options r)"
proof -
  let ?kvs = "sort_key fst (mo_options r)"
  have all: "\<forall>kv \<in> set ?kvs. printable kv" using assms(2) by simp
  have "?kvs \<noteq> []" using assms(1) by (metis set_empty set_sort)
  then have "split_on CHR '','' (format_options r) = map format_option ?kvs"
    unfolding format_options_def using all comma_free_format by (intro split_on_join) auto
  moreover have "map trim (map format_option ?kvs) = map format_option ?kvs"
    using all by (simp add: printable_def)
  moreover have "map entry_of (map format_option ?kvs) = ?kvs"
    unfolding map_map by (rule map_idI) (use all in \<open>simp add: entry_of_format\<close>)
  ultimately show ?thesis unfolding raw_options_def by (simp only:)
qed

theorem format_options_roundtrip_witness:
  "\<exists>r. mo_options r = [(''rw'', []), (''port'', ''22'')]
     \<and> format_options r = ''port=22,rw''
     \<and> map entry_of (raw_options (format_options r)) = [(''port'', ''22''), (''rw'', [])]"
proof -
  let ?r = "\<lparr> mo_raw = [], mo_options = [(''rw'', []), (''port'', ''22'')], mo_fs_type = [],
      mo_security = security_default, mo_performance = performance_default \<rparr>"
  have s: "sort_key fst (mo_options ?r) = [(''port'', ''22''), (''rw'', [])]"
    by (simp add: less_char_def)
  have "format_options ?r = ''port=22,rw''"
    by (simp add: format_options_def s format_option_def)
  moreover have "map entry_of (raw_options (format_options ?r)) = sort_key fst (mo_options ?r)"
    by (rule format_options_roundtrip) (simp_all add: printable_def format_option_def fuji_eval)
  ultimately show ?thesis by (intro exI [of _ ?r]) (simp only: s, simp)
qed

lemma is_supported_alias:
  "is_supported option_parser_new opt ''nfs4'' \<longleftrightarrow>
     opt \<in> set boolean_option_names \<union> set global_security_names"
  by (simp add: is_supported_def option_parser_new_def hm.get_insert hm.get_empty
      disj_commute)

end
