(* ===== verification/Mount_Types.thy ===== *)
theory Mount_Types
  imports Fuji_Prelude
begin

text \<open>
  \<open>src/mount/mod.rs\<close>: the mount types, the mount status, the configuration entry of a mount
  with its operations, and the factory of the protocol handlers.

  A URL is parsed by the \<open>url\<close> crate, which is not part of the repository: the definitions that
  parse take the parser as an argument, of type \<open>url_parser\<close>, and \<open>parsed_url\<close> holds what the
  source reads from a parsed URL.  \<open>Utc::now()\<close> is an argument, one per call.
\<close>

section \<open>Parsed URLs\<close>

record parsed_url =
  u_scheme :: string
  u_username :: string
  u_password :: "string option"
  u_host_str :: "string option"
  u_port :: "u16 option"
  u_path :: string
  u_query :: "string option"
  u_fragment :: "string option"

type_synonym url_parser = "string \<Rightarrow> parsed_url option"

section \<open>Data\<close>

datatype mount_type =
    Nfs (nfs_host: string) (nfs_share: string) (nfs_options: "string list")
  | Smb (smb_host: string) (smb_share: string) (smb_username: "string option")
        (smb_password: "string option") (smb_domain: "string option") (smb_options: "string list")
  | Sshfs (sshfs_host: string) (sshfs_username: "string option") (sshfs_path: string)
        (sshfs_private_key: "string option") (sshfs_password: "string option")
        (sshfs_options: "string list")

datatype mount_status =
    Active
  | Reconnecting
  | Status_Failed
  | Status_Disabled
  | InProgress
  | Status_Error string

fun show_mount_status :: "mount_status \<Rightarrow> string" where
  "show_mount_status Active = ''Active''"
| "show_mount_status Reconnecting = ''Reconnecting''"
| "show_mount_status Status_Failed = ''Failed''"
| "show_mount_status Status_Disabled = ''Disabled''"
| "show_mount_status InProgress = ''InProgress''"
| "show_mount_status (Status_Error msg) = ''Error: '' @ msg"

record mount_config =
  mc_id :: string
  mc_url :: string
  mc_mount_point :: string
  mc_mount_type :: mount_type
  mc_enabled :: bool
  mc_status :: mount_status
  mc_created_at :: instant
  mc_updated_at :: instant
  mc_last_connected :: "instant option"
  mc_reconnect_attempts :: u32
  mc_metadata :: "(string, string) hashmap"

record mount_health =
  mh_accessible :: bool
  mh_last_error :: "string option"
  mh_last_health_check :: instant
  mh_health_score :: u8

text \<open>
  \<open>MountConfig\<close> derives \<open>PartialEq\<close>.  The mount point is compared as a path, by components,
  and the metadata as a map, whatever the order of its entries.
\<close>

definition hm_same :: "('k, 'v) hashmap \<Rightarrow> ('k, 'v) hashmap \<Rightarrow> bool" where
  "hm_same m n = (length m = length n \<and> list_all (\<lambda>(k, v). hm_get n k = Some v) m)"

definition mount_config_eq :: "mount_config \<Rightarrow> mount_config \<Rightarrow> bool" where
  "mount_config_eq a b =
     (mc_id a = mc_id b \<and> mc_url a = mc_url b
      \<and> path_eq (mc_mount_point a) (mc_mount_point b)
      \<and> mc_mount_type a = mc_mount_type b \<and> mc_enabled a = mc_enabled b
      \<and> mc_status a = mc_status b \<and> mc_created_at a = mc_created_at b
      \<and> mc_updated_at a = mc_updated_at b \<and> mc_last_connected a = mc_last_connected b
      \<and> mc_reconnect_attempts a = mc_reconnect_attempts b
      \<and> hm_same (mc_metadata a) (mc_metadata b))"

section \<open>Operations of a mount configuration\<close>

fun replace_str :: "string \<Rightarrow> string \<Rightarrow> string \<Rightarrow> string" where
  "replace_str pat rep [] = []"
| "replace_str pat rep (c # s) =
     (if pat \<noteq> [] \<and> starts_with (c # s) pat
      then rep @ replace_str pat rep (drop (length pat) (c # s))
      else c # replace_str pat rep s)"

definition reserved_chars :: string where
  "reserved_chars = ''/:?#[]@!$&'' @ [CHR 0x27] @ ''()*+,;=''"

definition replace_chars :: "string \<Rightarrow> char \<Rightarrow> string \<Rightarrow> string" where
  "replace_chars cs r s = map (\<lambda>c. if List.member cs c then r else c) s"

definition generate_id :: "url_parser \<Rightarrow> string \<Rightarrow> string" where
  "generate_id parse url =
     (case parse url of
        Some parsed \<Rightarrow>
          (let host = (case u_host_str parsed of Some h \<Rightarrow> h | None \<Rightarrow> ''unknown'');
               base = host @ ''_'' @ u_scheme parsed
           in if u_path parsed \<noteq> [] \<and> u_path parsed \<noteq> ''/''
              then base @ ''_''
                   @ replace_char CHR ''/'' CHR ''_'' (trim_start_matches CHR ''/'' (u_path parsed))
              else base)
      | None \<Rightarrow> replace_chars reserved_chars CHR ''_'' (replace_str ''://'' ''_'' url))"

definition mount_config_new ::
    "url_parser \<Rightarrow> instant \<Rightarrow> string \<Rightarrow> mount_type \<Rightarrow> string \<Rightarrow> mount_config" where
  "mount_config_new parse now url mtype mount_point =
     \<lparr> mc_id = generate_id parse url, mc_url = url, mc_mount_point = mount_point,
       mc_mount_type = mtype, mc_enabled = True, mc_status = Status_Disabled,
       mc_created_at = now, mc_updated_at = now, mc_last_connected = None,
       mc_reconnect_attempts = 0, mc_metadata = [] \<rparr>"

definition update_status ::
    "instant \<Rightarrow> instant \<Rightarrow> mount_status \<Rightarrow> mount_config \<Rightarrow> mount_config" where
  "update_status now now' status c =
     (let is_active = (status = Active);
          c' = c\<lparr>mc_status := status, mc_updated_at := now\<rparr>
      in if is_active then c'\<lparr>mc_last_connected := Some now', mc_reconnect_attempts := 0\<rparr> else c')"

definition increment_reconnect_attempts :: "instant \<Rightarrow> mount_config \<Rightarrow> mount_config" where
  "increment_reconnect_attempts now c =
     c\<lparr>mc_reconnect_attempts := mc_reconnect_attempts c + 1, mc_updated_at := now\<rparr>"

definition is_active :: "mount_config \<Rightarrow> bool" where
  "is_active c = (case mc_status c of Active \<Rightarrow> True | _ \<Rightarrow> False)"

definition enable :: "instant \<Rightarrow> instant \<Rightarrow> mount_config \<Rightarrow> mount_config" where
  "enable now now' c = update_status now now' Status_Disabled (c\<lparr>mc_enabled := True\<rparr>)"

definition disable :: "instant \<Rightarrow> instant \<Rightarrow> mount_config \<Rightarrow> mount_config" where
  "disable now now' c = update_status now now' Status_Disabled (c\<lparr>mc_enabled := False\<rparr>)"

datatype mount_handler = NfsHandler | SmbHandler | SshfsHandler

datatype handler_error = UnsupportedProtocol string

definition get_mount_handler :: "string \<Rightarrow> handler_error + mount_handler" where
  "get_mount_handler protocol =
     (let p = to_lowercase protocol
      in if p = ''nfs'' then Inr NfsHandler
         else if p = ''smb'' \<or> p = ''cifs'' then Inr SmbHandler
         else if p = ''sshfs'' \<or> p = ''ssh'' then Inr SshfsHandler
         else Inl (UnsupportedProtocol protocol))"

definition get_mount_base_dir :: string where
  "get_mount_base_dir = ''/mnt/fuji''"

section \<open>Lemmas\<close>

lemma hm_same_refl: "hm_wf m \<Longrightarrow> hm_same m m"
  by (auto simp: hm_same_def list_all_iff hm_get_iff_in_set)

lemma update_status_frame [simp]:
  "mc_id (update_status n n' st c) = mc_id c"
  "mc_url (update_status n n' st c) = mc_url c"
  "mc_mount_point (update_status n n' st c) = mc_mount_point c"
  "mc_mount_type (update_status n n' st c) = mc_mount_type c"
  "mc_enabled (update_status n n' st c) = mc_enabled c"
  "mc_created_at (update_status n n' st c) = mc_created_at c"
  "mc_metadata (update_status n n' st c) = mc_metadata c"
  "mc_status (update_status n n' st c) = st"
  "mc_updated_at (update_status n n' st c) = n"
  by (simp_all add: update_status_def Let_def)

lemma update_status_connected [simp]:
  "mc_last_connected (update_status n n' st c) =
     (if st = Active then Some n' else mc_last_connected c)"
  "mc_reconnect_attempts (update_status n n' st c) =
     (if st = Active then 0 else mc_reconnect_attempts c)"
  by (simp_all add: update_status_def Let_def)

lemma is_active_iff: "is_active c \<longleftrightarrow> mc_status c = Active"
  by (simp add: is_active_def split: mount_status.splits)

lemma replace_chars_none: "r \<notin> set cs \<Longrightarrow> set (replace_chars cs r s) \<inter> set cs = {}"
  by (auto simp: replace_chars_def)

lemma slash_free_replace: "CHR ''/'' \<notin> set (replace_char CHR ''/'' CHR ''_'' s)"
  by (auto simp: replace_char_def split: if_splits)

text \<open>a mount id never contains a slash, so it is one path component and one map key,
  whether the URL parses (with a host and a scheme that have none) or falls back to replacing
  the reserved characters.\<close>

theorem generate_id_slash_free:
  assumes "\<And>p. parse url = Some p \<Longrightarrow>
      CHR ''/'' \<notin> set (u_scheme p) \<and> (\<forall>h. u_host_str p = Some h \<longrightarrow> CHR ''/'' \<notin> set h)"
  shows "CHR ''/'' \<notin> set (generate_id parse url)"
proof (cases "parse url")
  case None
  have "CHR ''_'' \<notin> set reserved_chars" by (simp add: reserved_chars_def)
  moreover have "CHR ''/'' \<in> set reserved_chars" by (simp add: reserved_chars_def)
  ultimately show ?thesis
    using None replace_chars_none [of "CHR ''_''" reserved_chars] by (auto simp: generate_id_def)
next
  case (Some p)
  with assms [OF Some] show ?thesis
    using slash_free_replace by (auto simp: generate_id_def Let_def split: option.splits)
qed

definition sample_parser :: url_parser where
  "sample_parser url =
     (if url = ''nfs://server.local/export/data''
      then Some \<lparr> u_scheme = ''nfs'', u_username = [], u_password = None,
                  u_host_str = Some ''server.local'', u_port = None,
                  u_path = ''/export/data'', u_query = None, u_fragment = None \<rparr>
      else None)"

theorem generate_id_slash_free_witness:
  "generate_id sample_parser ''nfs://server.local/export/data'' = ''server.local_nfs_export_data''
   \<and> CHR ''/'' \<notin> set (generate_id sample_parser ''nfs://server.local/export/data'')"
proof
  show "generate_id sample_parser ''nfs://server.local/export/data'' = ''server.local_nfs_export_data''"
    by (simp add: generate_id_def sample_parser_def fuji_eval)
  show "CHR ''/'' \<notin> set (generate_id sample_parser ''nfs://server.local/export/data'')"
    by (rule generate_id_slash_free) (auto simp: sample_parser_def)
qed

text \<open>becoming active is the only status change that records a connection and clears the
  attempt counter; the identity of the mount and its enabled flag never change.\<close>

theorem update_status_spec:
  "mc_status (update_status now now' st c) = st
   \<and> mc_enabled (update_status now now' st c) = mc_enabled c
   \<and> mc_id (update_status now now' st c) = mc_id c
   \<and> mc_updated_at (update_status now now' st c) = now
   \<and> mc_last_connected (update_status now now' st c)
       = (if st = Active then Some now' else mc_last_connected c)
   \<and> mc_reconnect_attempts (update_status now now' st c)
       = (if st = Active then 0 else mc_reconnect_attempts c)"
  by simp

end
