(* ===== verification/Url_Validator.thy ===== *)
theory Url_Validator
  imports Mount_Types
begin

text \<open>
  \<open>src/mount/drivers/validation.rs\<close>: the validation of mount URLs and mount paths before they
  reach a mount command, and the sanitizing of the path of a URL.  The parser of the \<open>url\<close>
  crate is an argument.
\<close>

section \<open>Configuration and errors\<close>

record validation_config =
  vc_max_hostname_length :: nat
  vc_max_path_length :: nat
  vc_allowed_schemes :: "string list"
  vc_blocked_hostnames :: "string list"
  vc_blocked_paths :: "string list"

definition validation_config_default :: validation_config where
  "validation_config_default =
     \<lparr> vc_max_hostname_length = 253, vc_max_path_length = 4096,
       vc_allowed_schemes = [''nfs'', ''smb'', ''cifs'', ''sshfs'', ''sftp'', ''nfs4''],
       vc_blocked_hostnames = [''localhost'', ''127.0.0.1'', ''::1'', ''0.0.0.0''],
       vc_blocked_paths =
         [''/etc'', ''/bin'', ''/sbin'', ''/usr/bin'', ''/usr/sbin'', ''/boot'', ''/sys'',
          ''/proc'', ''/dev'', ''../'', ''~''] \<rparr>"

datatype url_error =
    ShellCharacters string
  | TraversalInUrl
  | HostnameBlocked string
  | InvalidUrlFormat string
  | UnsupportedScheme string
  | NoHostname
  | HostnameTooLong nat nat
  | InvalidHostname string
  | NoPath
  | ExcessiveTraversal nat
  | PathFailed url_error
  | BlockedPath string
  | PathTooLong nat nat
  | ComponentTraversal string
  | EmptySegments string
  | InvalidComponent string
  | DangerousComponent string
  | MountPathShell string
  | MountPathEmpty
  | MountPathBlocked string
  | MountPathFormat string
  | MountPathTooLong nat nat
  | MountPathTraversal
  | MountPathRelative

section \<open>Character and name checks\<close>

definition dangerous_chars :: string where
  "dangerous_chars = '';&|'' @ [CHR 0x60] @ ''$(){}[]'' @ [CHR 0x22, CHR 0x27] @ ''<>*?''"

definition contains_shell_injection :: "string \<Rightarrow> bool" where
  "contains_shell_injection input = list_ex (\<lambda>c. contains_char dangerous_chars c) input"

definition valid_label_char :: "char \<Rightarrow> bool" where
  "valid_label_char c = (is_ascii_alphanumeric c \<or> c = CHR ''-'')"

definition is_valid_hostname :: "string \<Rightarrow> bool" where
  "is_valid_hostname hostname =
     (if hostname = [] \<or> length hostname > 253 then False
      else list_all
             (\<lambda>label. \<not> (label = [] \<or> length label > 63)
                \<and> \<not> (starts_with label ''-'' \<or> ends_with label ''-'')
                \<and> list_all valid_label_char label)
             (split_on CHR ''.'' hostname))"

definition valid_path_char :: "char \<Rightarrow> bool" where
  "valid_path_char c = (is_ascii_alphanumeric c \<or> contains_char ''/._-@'' c)"

definition is_valid_path :: "string \<Rightarrow> bool" where
  "is_valid_path path =
     (if path = [] then False
      else if contains_str path ''../'' then False
      else list_all valid_path_char path)"

definition is_ip_address :: "string \<Rightarrow> bool" where
  "is_ip_address hostname =
     (if length (split_on CHR ''.'' hostname) = 4
         \<and> list_all (\<lambda>c. is_ascii_digit c \<or> c = CHR ''.'') hostname
      then True
      else contains_char hostname CHR '':'')"

text \<open>The result of \<open>strip_prefix\<close>.\<close>

definition strip_prefix :: "string \<Rightarrow> string \<Rightarrow> string option" where
  "strip_prefix p s = (if starts_with s p then Some (drop (length p) s) else None)"

definition after_known_scheme :: "string \<Rightarrow> string option" where
  "after_known_scheme url_str =
     (case strip_prefix ''nfs://'' url_str of
        Some r \<Rightarrow> Some r
      | None \<Rightarrow> (case strip_prefix ''smb://'' url_str of
          Some r \<Rightarrow> Some r
        | None \<Rightarrow> (case strip_prefix ''cifs://'' url_str of
            Some r \<Rightarrow> Some r
          | None \<Rightarrow> strip_prefix ''sshfs://'' url_str)))"

definition extract_hostname_from_url :: "string \<Rightarrow> string option" where
  "extract_hostname_from_url url_str =
     (case after_known_scheme url_str of
        None \<Rightarrow> None
      | Some after_scheme \<Rightarrow>
          (let hostname_part = before_first CHR ''/'' after_scheme
           in Some (if starts_with hostname_part ''[''
                    then trim_start_matches CHR ''['' (before_first CHR '']'' hostname_part)
                    else if contains_char hostname_part CHR '':'' \<and> \<not> contains_str hostname_part ''::''
                    then before_first CHR '':'' hostname_part
                    else hostname_part)))"

section \<open>Dangerous path components\<close>

definition sensitive_names :: "string list" where
  "sensitive_names =
     [''passwd'', ''shadow'', ''group'', ''hosts'', ''sudoers'', ''crontab'',
      ''.ssh'', ''gnupg'', ''.gnupg'', ''aws'', ''.aws'',
      ''.env'', ''.secret'', ''.key'', ''.pem'', ''.crt'', ''.p12'', ''.pfx'', ''.config'',
      ''.profile'', ''.bashrc'', ''.bash_profile'', ''.bash_history'', ''.zshrc'', ''.zprofile'',
      ''.vimrc'', ''.viminfo'',
      ''.htpasswd'', ''.netrc'', ''.ssh'', ''authorized_keys'', ''known_hosts'', ''id_rsa'',
      ''id_rsa.pub'', ''id_ed25519'', ''id_ed25519.pub'', ''authorized_keys2'', ''rhosts'',
      ''shosts.equiv'',
      ''sh'', ''bash'', ''zsh'', ''fish'', ''cmd'', ''powershell'', ''ps1'']"

definition windows_and_tool_names :: "string list" where
  "windows_and_tool_names =
     [''windows'', ''system32'', ''program files'', ''program files (x86)'', ''programdata'',
      ''recycler'', ''$recycle.bin'', ''system volume information'', ''users'',
      ''program files (x86)'', ''appdata'', ''roaming'', ''local'', ''microsoft'',
      ''windows powershell'', ''sam'', ''security'', ''software'', ''default'', ''ntuser.dat'',
      ''boot.ini'', ''bootmgr'', ''bcd'',
      ''cmd.exe'', ''powershell.exe'', ''wscript.exe'', ''cscript.exe'', ''rundll32.exe'',
      ''regsvr32.exe'',
      ''exe'', ''bat'', ''com'', ''pif'', ''scr'', ''vbs'', ''js'', ''jar'',
      ''.git'', ''.svn'', ''.hg'', ''node_modules'', ''.npm'', ''.cache'']"

definition is_dangerous_component :: "string \<Rightarrow> bool" where
  "is_dangerous_component name =
     (let low = to_lowercase name
      in list_ex (\<lambda>d. low = d \<or> starts_with low (d @ ''.'') \<or> ends_with low d
                      \<or> contains_str low (''.'' @ d @ ''.''))
           (sensitive_names @ windows_and_tool_names))"

section \<open>Path components\<close>

definition check_component :: "string \<Rightarrow> url_error + unit" where
  "check_component c =
     (if c = [] then Inr ()
      else if \<not> is_valid_path c then Inl (InvalidComponent c)
      else if is_dangerous_component c then Inl (DangerousComponent c)
      else Inr ())"

text \<open>The loop pushes every non-empty component that passes; the first that does not ends it.\<close>

definition sanitize_path_component :: "string \<Rightarrow> url_error + string" where
  "sanitize_path_component path =
     (if path = [] \<or> path = ''/'' then Inr []
      else let trimmed = trim_start_matches CHR ''/'' path
           in if contains_str trimmed ''..'' then Inl (ComponentTraversal path)
              else if contains_str trimmed ''//'' then Inl (EmptySegments path)
              else let components = split_on CHR ''/'' trimmed
                   in and_then (check_all check_component components)
                        (\<lambda>_. Inr (join ''/'' (filter (\<lambda>c. c \<noteq> []) components))))"

section \<open>URLs\<close>

text \<open>\<open>s.matches(pat).count()\<close>: the matches that do not overlap, from the left.\<close>

function count_matches :: "string \<Rightarrow> string \<Rightarrow> nat" where
  "count_matches pat s =
     (if pat = [] \<or> s = [] then 0
      else if starts_with s pat then Suc (count_matches pat (drop (length pat) s))
      else count_matches pat (tl s))"
  by pat_completeness auto
termination by (relation "measure (\<lambda>(pat, s). length s)") auto

definition check_blocked_path ::
    "(string \<Rightarrow> url_error) \<Rightarrow> validation_config \<Rightarrow> string \<Rightarrow> url_error + unit" where
  "check_blocked_path err cfg normalized =
     check_all (\<lambda>blocked. let b = trim_matches CHR ''/'' blocked
                          in if normalized = b \<or> starts_with normalized b then Inl (err blocked)
                             else Inr ())
       (vc_blocked_paths cfg)"

definition check_hostname_blocked :: "validation_config \<Rightarrow> string \<Rightarrow> url_error + unit" where
  "check_hostname_blocked cfg hostname =
     check_all (\<lambda>blocked. if hostname = blocked then Inl (HostnameBlocked hostname) else Inr ())
       (vc_blocked_hostnames cfg)"

definition validate_hostname :: "validation_config \<Rightarrow> string \<Rightarrow> url_error + unit" where
  "validate_hostname cfg hostname =
     (if hostname = [] then Inl NoHostname
      else if length hostname > vc_max_hostname_length cfg
      then Inl (HostnameTooLong (length hostname) (vc_max_hostname_length cfg))
      else if \<not> is_ip_address hostname \<and> \<not> is_valid_hostname hostname
      then Inl (InvalidHostname hostname)
      else check_hostname_blocked cfg hostname)"

definition validate_path :: "validation_config \<Rightarrow> string \<Rightarrow> url_error + unit" where
  "validate_path cfg path =
     (if path = [] then Inl NoPath
      else if path \<noteq> ''/'' then
        (let traversal_count = count_matches ''..'' path
         in if traversal_count > 10 then Inl (ExcessiveTraversal traversal_count)
            else and_then (map_err PathFailed (sanitize_path_component path))
              (\<lambda>_. let normalized_path = trim_matches CHR ''/'' path
                   in if normalized_path \<noteq> [] then
                        and_then (check_blocked_path BlockedPath cfg normalized_path)
                          (\<lambda>_. if length normalized_path > vc_max_path_length cfg
                               then Inl (PathTooLong (length normalized_path) (vc_max_path_length cfg))
                               else Inr ())
                      else Inr ()))
      else Inr ())"

definition validate_url ::
    "url_parser \<Rightarrow> validation_config \<Rightarrow> string \<Rightarrow> url_error + unit" where
  "validate_url parse cfg url_str =
     (if contains_shell_injection url_str then Inl (ShellCharacters url_str)
      else if contains_str url_str ''../'' \<or> contains_str url_str (''..'' @ [CHR 0x5C])
      then Inl TraversalInUrl
      else and_then (case extract_hostname_from_url url_str of
                       None \<Rightarrow> Inr ()
                     | Some hostname_part \<Rightarrow> check_hostname_blocked cfg hostname_part)
        (\<lambda>_. case parse url_str of
          None \<Rightarrow> Inl (InvalidUrlFormat url_str)
        | Some url \<Rightarrow>
            (if \<not> List.member (vc_allowed_schemes cfg) (u_scheme url)
             then Inl (UnsupportedScheme (u_scheme url))
             else and_then
                    (validate_hostname cfg (case u_host_str url of None \<Rightarrow> [] | Some h \<Rightarrow> h))
                    (\<lambda>_. validate_path cfg (u_path url)))))"

definition validate_mount_path :: "validation_config \<Rightarrow> string \<Rightarrow> url_error + unit" where
  "validate_mount_path cfg path =
     (if contains_shell_injection path then Inl (MountPathShell path)
      else let path_normalized = trim_matches CHR ''/'' path
           in if path_normalized = [] then Inl MountPathEmpty
              else and_then (check_blocked_path MountPathBlocked cfg path_normalized)
                (\<lambda>_. if \<not> is_valid_path path_normalized then Inl (MountPathFormat path_normalized)
                     else if length path_normalized > vc_max_path_length cfg
                     then Inl (MountPathTooLong (length path_normalized) (vc_max_path_length cfg))
                     else if contains_str path_normalized ''../'' then Inl MountPathTraversal
                     else if \<not> path_is_absolute path then Inl MountPathRelative
                     else Inr ()))"

definition sanitize_url :: "url_parser \<Rightarrow> string \<Rightarrow> url_error + string" where
  "sanitize_url parse url_str =
     (case parse url_str of
        None \<Rightarrow> Inl (InvalidUrlFormat url_str)
      | Some url \<Rightarrow>
          Inr (u_scheme url @ ''://''
               @ (if u_username url \<noteq> []
                  then u_username url
                       @ (case u_password url of Some p \<Rightarrow> '':'' @ p | None \<Rightarrow> []) @ ''@''
                  else [])
               @ (case u_host_str url of Some h \<Rightarrow> h | None \<Rightarrow> [])
               @ (case u_port url of Some p \<Rightarrow> '':'' @ show_nat (unat p) | None \<Rightarrow> [])
               @ (let path = trim_matches CHR ''/'' (u_path url)
                  in if path \<noteq> [] then ''/'' @ path else [])
               @ (case u_query url of Some q \<Rightarrow> ''?'' @ q | None \<Rightarrow> [])
               @ (case u_fragment url of Some f \<Rightarrow> ''#'' @ f | None \<Rightarrow> [])))"

section \<open>Lemmas\<close>

lemmas url_eval = validation_config_default_def dangerous_chars_def contains_shell_injection_def
  valid_label_char_def is_valid_hostname_def valid_path_char_def is_valid_path_def
  is_ip_address_def strip_prefix_def after_known_scheme_def extract_hostname_from_url_def
  sensitive_names_def windows_and_tool_names_def is_dangerous_component_def check_component_def
  sanitize_path_component_def check_blocked_path_def check_hostname_blocked_def
  validate_hostname_def validate_path_def validate_url_def validate_mount_path_def
  path_is_absolute_def

declare count_matches.simps [simp del]

lemma valid_path_chars: "is_valid_path w \<Longrightarrow> c \<in> set w \<Longrightarrow> valid_path_char c"
  by (auto simp: is_valid_path_def list_all_iff split: if_split_asm)

subsection \<open>Components of a path\<close>

lemma sublist_append_sep:
  assumes "c \<notin> set p"
  shows "sublist p (a @ c # b) \<longleftrightarrow> sublist p a \<or> sublist p b"
proof (cases "p = []")
  case False
  have pre: "prefix p (u @ c # b) \<longleftrightarrow> prefix p u" for u
    using assms by (induction u arbitrary: p) (auto simp: prefix_Cons False split: list.splits)
  show ?thesis
  proof (induction a)
    case Nil
    then show ?case using assms False by (auto simp: sublist_Cons_right prefix_Cons)
  next
    case (Cons x a)
    have "prefix p ((x # a) @ c # b) \<longleftrightarrow> prefix p (x # a)" by (rule pre)
    with Cons show ?case by (simp add: sublist_Cons_right)
  qed
qed simp

lemma sublist_join:
  assumes "c \<notin> set p" and "p \<noteq> []" and "sublist p (join [c] xs)"
  shows "\<exists>x \<in> set xs. sublist p x"
  using assms(3)
proof (induction xs)
  case (Cons x xs)
  then show ?case
    using assms(1) by (cases "xs = []") (auto simp: join_Cons sublist_append_sep)
qed (simp add: assms(2))

lemma sublist_split_on: "w \<in> set (split_on c s) \<Longrightarrow> sublist w s"
proof (induction "length s" arbitrary: s rule: less_induct)
  case less
  show ?case
  proof (cases "c \<in> set s")
    case False
    with less.prems show ?thesis by (simp add: split_on_no_sep)
  next
    case True
    then obtain a b where s: "s = a @ c # b" and "c \<notin> set a" by (metis split_list_first)
    with less.prems have "w = a \<or> w \<in> set (split_on c b)" by (simp add: split_on_append_sep)
    then show ?thesis
    proof
      assume "w \<in> set (split_on c b)"
      then have "sublist w b" using less.hyps s by simp
      moreover have "sublist b ((a @ [c]) @ b)" by (rule sublist_append_leftI)
      ultimately show ?thesis unfolding s using sublist_order.order_trans by fastforce
    qed (simp add: s)
  qed
qed

lemma no_double_sep_join:
  assumes "\<forall>x \<in> set xs. x \<noteq> [] \<and> c \<notin> set x"
  shows "\<not> sublist [c, c] (join [c] xs)"
  using assms
proof (induction xs)
  case (Cons x xs)
  have one: "c \<notin> set u \<Longrightarrow> \<not> sublist [c, c] u" for u
    by (metis list.set_intros(1) set_mono_sublist subset_code(1))
  have cat: "c \<notin> set u \<Longrightarrow> sublist [c, c] (u @ c # v) \<Longrightarrow> sublist [c, c] v \<or> (\<exists>v'. v = c # v')" for u v
    by (induction u) (auto simp: sublist_Cons_right prefix_Cons prefix_def)
  show ?case
  proof (cases xs)
    case Nil
    with Cons.prems one show ?thesis by simp
  next
    case (Cons y ys)
    have "\<not> (\<exists>v'. join [c] xs = c # v')"
      using Cons.prems Cons by (cases ys; cases y) (auto simp: join_Cons)
    moreover have "\<not> sublist [c, c] (join [c] xs)" using Cons.IH Cons.prems by simp
    ultimately show ?thesis
      using cat [of x "join [c] xs"] Cons.prems Cons by (auto simp: join_Cons)
  qed
qed simp

text \<open>What a sanitized path is made of.\<close>

lemma sanitize_path_Inr:
  assumes "sanitize_path_component path = Inr r"
  obtains cs where "r = join ''/'' cs"
    and "\<forall>w \<in> set cs. w \<noteq> [] \<and> CHR ''/'' \<notin> set w \<and> check_component w = Inr () \<and> \<not> sublist ''..'' w"
proof (cases "path = [] \<or> path = ''/''")
  case True
  with assms that [of "[]"] show thesis by (auto simp: sanitize_path_component_def)
next
  case False
  let ?t = "trim_start_matches CHR ''/'' path"
  let ?cs = "filter (\<lambda>c. c \<noteq> []) (split_on CHR ''/'' ?t)"
  from False assms have dd: "\<not> contains_str ?t ''..''"
      and ok: "\<forall>w \<in> set (split_on CHR ''/'' ?t). check_component w = Inr ()"
      and r: "r = join ''/'' ?cs"
    by (auto simp: sanitize_path_component_def Let_def fuji_res split: if_split_asm)
  from dd have "\<not> sublist ''..'' w" if "w \<in> set (split_on CHR ''/'' ?t)" for w
    using sublist_split_on [OF that] by (metis contains_str_sublist sublist_order.order_trans)
  with ok r that [of ?cs] set_split_on_sep show thesis by fastforce
qed

lemma sanitize_join:
  assumes "\<forall>w \<in> set cs. w \<noteq> [] \<and> CHR ''/'' \<notin> set w \<and> check_component w = Inr () \<and> \<not> sublist ''..'' w"
  shows "sanitize_path_component (join ''/'' cs) = Inr (join ''/'' cs)"
proof (cases cs)
  case Nil
  then show ?thesis by (simp add: sanitize_path_component_def)
next
  case (Cons w ws)
  let ?r = "join ''/'' cs"
  from assms Cons have "w \<noteq> []" and "hd w \<noteq> CHR ''/''" by (auto dest: hd_in_set)
  then have "?r \<noteq> []" and hd: "hd ?r \<noteq> CHR ''/''" using Cons by (cases ws; auto)+
  then have trim: "trim_start_matches CHR ''/'' ?r = ?r"
    by (simp add: trim_start_matches_def trim_start_def dropWhile_hd_id)
  have split: "split_on CHR ''/'' ?r = cs" using assms Cons by (intro split_on_join) auto
  have "\<not> contains_str ?r ''..''"
    using sublist_join [of "CHR ''/''" "''..''" cs] assms by (auto simp: contains_str_sublist)
  moreover have "\<not> contains_str ?r ''//''"
    using no_double_sep_join [of cs "CHR ''/''"] assms by (simp add: contains_str_sublist)
  moreover have "filter (\<lambda>c. c \<noteq> []) cs = cs" using assms by (intro filter_True) blast
  moreover have "check_all check_component cs = Inr ()" using assms by (simp add: check_all_ok_iff)
  moreover have "?r \<noteq> ''/''" using hd by auto
  ultimately show ?thesis
    using \<open>?r \<noteq> []\<close> by (simp add: sanitize_path_component_def trim split Let_def)
qed

lemma check_component_ok:
  "check_component w = Inr u \<Longrightarrow> w \<noteq> [] \<Longrightarrow> is_valid_path w \<and> \<not> is_dangerous_component w"
  by (simp add: check_component_def split: if_split_asm)

text \<open>a sanitized path holds no \<open>..\<close>, does not start with a slash, and each of its components
  is non-empty, made of the allowed characters and not one of the dangerous names; sanitizing
  it again changes nothing.\<close>

theorem sanitize_path_sound:
  assumes "sanitize_path_component path = Inr r"
  shows "\<not> sublist ''..'' r \<and> \<not> prefix ''/'' r
    \<and> (r \<noteq> [] \<longrightarrow> (\<forall>w \<in> set (split_on CHR ''/'' r).
          w \<noteq> [] \<and> (\<forall>c \<in> set w. valid_path_char c) \<and> \<not> is_dangerous_component w))
    \<and> sanitize_path_component r = Inr r"
proof -
  from sanitize_path_Inr [OF assms] obtain cs where r: "r = join ''/'' cs"
      and cs: "\<forall>w \<in> set cs. w \<noteq> [] \<and> CHR ''/'' \<notin> set w \<and> check_component w = Inr ()
                 \<and> \<not> sublist ''..'' w" .
  have "\<not> sublist ''..'' r"
    using sublist_join [of "CHR ''/''" "''..''" cs] cs r by auto
  moreover have "\<not> prefix ''/'' r"
    unfolding r using cs by (cases cs rule: join.cases [of "(''/'', cs)" for cs, simplified])
      (auto simp: prefix_Cons neq_Nil_conv)
  moreover have "r \<noteq> [] \<Longrightarrow> split_on CHR ''/'' r = cs"
    unfolding r using cs by (intro split_on_join) auto
  moreover have "sanitize_path_component r = Inr r" unfolding r by (rule sanitize_join [OF cs])
  moreover have "\<forall>w \<in> set cs. w \<noteq> [] \<and> (\<forall>c \<in> set w. valid_path_char c) \<and> \<not> is_dangerous_component w"
    using cs check_component_ok valid_path_chars by blast
  ultimately show ?thesis by metis
qed

theorem sanitize_path_sound_witness:
  "sanitize_path_component ''/export/data/'' = Inr ''export/data''
   \<and> sanitize_path_component ''export/data'' = Inr ''export/data''"
proof
  show ok: "sanitize_path_component ''/export/data/'' = Inr ''export/data''"
    by (simp add: url_eval fuji_eval)
  from sanitize_path_sound [OF ok] show "sanitize_path_component ''export/data'' = Inr ''export/data''"
    by blast
qed

lemma validate_path_ok:
  assumes "validate_path cfg path = Inr u" and "path \<noteq> ''/''"
  shows "\<exists>r. sanitize_path_component path = Inr r"
    and "trim_matches CHR ''/'' path \<noteq> [] \<Longrightarrow>
      (\<forall>b \<in> set (vc_blocked_paths cfg).
         \<not> prefix (trim_matches CHR ''/'' b) (trim_matches CHR ''/'' path))
      \<and> length (trim_matches CHR ''/'' path) \<le> vc_max_path_length cfg"
proof -
  from assms obtain r where "sanitize_path_component path = Inr r"
    by (auto simp: validate_path_def Let_def and_then_Inr_iff map_err_Inr_iff split: if_split_asm)
  then show "\<exists>r. sanitize_path_component path = Inr r" by blast
  assume ne: "trim_matches CHR ''/'' path \<noteq> []"
  with assms have bl: "check_blocked_path BlockedPath cfg (trim_matches CHR ''/'' path) = Inr ()"
      and len: "length (trim_matches CHR ''/'' path) \<le> vc_max_path_length cfg"
    by (simp_all add: validate_path_def Let_def and_then_Inr_iff split: if_split_asm)
  from bl have "\<forall>b \<in> set (vc_blocked_paths cfg).
      \<not> starts_with (trim_matches CHR ''/'' path) (trim_matches CHR ''/'' b)"
    by (auto simp: check_blocked_path_def check_all_ok_iff Let_def split: if_split_asm)
  with len show "(\<forall>b \<in> set (vc_blocked_paths cfg).
         \<not> prefix (trim_matches CHR ''/'' b) (trim_matches CHR ''/'' path))
      \<and> length (trim_matches CHR ''/'' path) \<le> vc_max_path_length cfg"
    by (simp add: starts_with_prefix)
qed

lemma validate_url_parts:
  assumes "validate_url parse cfg s = Inr u"
  obtains url where "\<not> contains_shell_injection s" "\<not> contains_str s ''../''"
    "parse s = Some url" "u_scheme url \<in> set (vc_allowed_schemes cfg)"
    "validate_hostname cfg (case u_host_str url of None \<Rightarrow> [] | Some h \<Rightarrow> h) = Inr ()"
    "validate_path cfg (u_path url) = Inr ()"
  using assms
  by (auto simp: validate_url_def and_then_Inr_iff split: if_split_asm option.splits)

lemma validate_hostname_ok:
  assumes "validate_hostname cfg h = Inr u"
  shows "h \<noteq> [] \<and> length h \<le> vc_max_hostname_length cfg \<and> (is_ip_address h \<or> is_valid_hostname h)
    \<and> h \<notin> set (vc_blocked_hostnames cfg)"
  using assms
  by (auto simp: validate_hostname_def check_hostname_blocked_def check_all_ok_iff split: if_split_asm)

text \<open>C26: a URL that validates has no shell metacharacter and parses; its scheme is allowed, its
  host is present, within the length limit and not blocked, and its path is the root or passes
  the path sanitizer and lies under no blocked prefix.\<close>

theorem validated_url_safe:
  assumes "validate_url parse cfg s = Inr u"
  shows "\<exists>url h. parse s = Some url \<and> u_host_str url = Some h
    \<and> set s \<inter> set dangerous_chars = {}
    \<and> u_scheme url \<in> set (vc_allowed_schemes cfg)
    \<and> h \<noteq> [] \<and> length h \<le> vc_max_hostname_length cfg \<and> h \<notin> set (vc_blocked_hostnames cfg)
    \<and> (u_path url = ''/''
       \<or> ((\<exists>r. sanitize_path_component (u_path url) = Inr r)
          \<and> (trim_matches CHR ''/'' (u_path url) \<noteq> [] \<longrightarrow>
               (\<forall>b \<in> set (vc_blocked_paths cfg).
                  \<not> prefix (trim_matches CHR ''/'' b) (trim_matches CHR ''/'' (u_path url))))))"
proof -
  from assms obtain url where u: "\<not> contains_shell_injection s" "parse s = Some url"
      "u_scheme url \<in> set (vc_allowed_schemes cfg)"
      "validate_hostname cfg (case u_host_str url of None \<Rightarrow> [] | Some h \<Rightarrow> h) = Inr ()"
      "validate_path cfg (u_path url) = Inr ()"
    by (rule validate_url_parts)
  from validate_hostname_ok [OF u(4)] obtain h where "u_host_str url = Some h" "h \<noteq> []"
      "length h \<le> vc_max_hostname_length cfg" "h \<notin> set (vc_blocked_hostnames cfg)"
    by (cases "u_host_str url") auto
  moreover have "set s \<inter> set dangerous_chars = {}"
    using u(1) by (auto simp: contains_shell_injection_def list_ex_iff contains_char_iff)
  ultimately show ?thesis using u(2,3) validate_path_ok [OF u(5)] by blast
qed

theorem validated_url_safe_witness:
  "validate_url sample_parser validation_config_default ''nfs://server.local/export/data'' = Inr ()
   \<and> set ''nfs://server.local/export/data'' \<inter> set dangerous_chars = {}"
proof
  have path: "count_matches ''..'' ''/export/data'' = 0"
    by (simp add: count_matches.simps)
  show ok: "validate_url sample_parser validation_config_default ''nfs://server.local/export/data'' = Inr ()"
    by (simp add: url_eval sample_parser_def path fuji_eval)
  from validated_url_safe [OF ok] show "set ''nfs://server.local/export/data'' \<inter> set dangerous_chars = {}"
    by blast
qed

text \<open>the checks of a mount path run on the text without its outer slashes, and only look for
  \<open>../\<close>: the path \<open>/mnt/../\<close>, which is the root directory, is accepted.\<close>

theorem mount_path_trailing_traversal:
  "validate_mount_path validation_config_default ''/mnt/../'' = Inr ()
   \<and> path_components ''/mnt/../'' = [RootDir, Normal ''mnt'', ParentDir]
   \<and> validate_mount_path validation_config_default ''/mnt/../a'' = Inl (MountPathFormat ''mnt/../a'')"
  by (intro conjI; simp add: url_eval path_components_def path_component_of_def fuji_eval)

text \<open>the blocked system directories are matched as text prefixes: unrelated shares such as
  \<open>/devices\<close>, \<open>/binaries\<close> or \<open>/system-images\<close> are refused as well.\<close>

theorem blocked_prefix_overreach:
  "check_blocked_path BlockedPath validation_config_default ''devices'' = Inl (BlockedPath ''/dev'')
   \<and> check_blocked_path BlockedPath validation_config_default ''binaries'' = Inl (BlockedPath ''/bin'')
   \<and> \<not> path_starts_with ''/devices'' ''/dev'' \<and> \<not> path_starts_with ''/binaries'' ''/bin''"
  by (intro conjI; simp add: url_eval path_starts_with_def path_components_def path_component_of_def fuji_eval)

end
