(* ===== verification/Command_Allowlist.thy ===== *)
theory Command_Allowlist
  imports Fuji_Prelude
begin

text \<open>
  \<open>src/mount/drivers/allowlist.rs\<close>: the allow list of commands.  Every command that a driver
  starts passes \<open>validate_command\<close>.  The \<open>regex\<close> crate is an argument of type \<open>regex_engine\<close>:
  it compiles a pattern, or fails, and gives the matching predicate.  \<open>serde_json\<close> is the
  argument of \<open>import_allowlist\<close> that holds the parsed entries in iteration order.
\<close>

section \<open>Data\<close>

datatype security_context =
    LocalFileSystem
  | NetworkFileSystem
  | SystemMount
  | UserFileSystem
  | Diagnostic

record allowed_command =
  ac_name :: string
  ac_path :: "string option"
  ac_description :: string
  ac_allowed_args :: "string list"
  ac_allowed_options :: "(string, string option) hashmap"
  ac_max_args :: nat
  ac_requires_root :: bool
  ac_security_context :: security_context

record allowlist_config =
  alc_strict_mode :: bool
  alc_custom_commands :: "allowed_command list"
  alc_blocked_patterns :: "string list"
  alc_max_execution_time :: u64
  alc_log_executions :: bool

record allowlist =
  al_config :: allowlist_config
  al_commands :: "(string, allowed_command) hashmap"

type_synonym regex_engine = "string \<Rightarrow> (string \<Rightarrow> bool) option"

datatype allowlist_error =
    CommandExists string
  | CommandNotFound string
  | BlockedPatterns
  | CommandNotAllowed string
  | TooManyArguments string nat nat
  | InvalidRegex string
  | OptionValueMismatch string string string
  | NameEmpty
  | NameHasSpace
  | NameDangerous char
  | EmptyAllowedArg
  | ArgumentNotAllowed string string
  | ArgumentValueMismatch string string string
  | PathDangerous char
  | PathTraversal string
  | ImportParseFailed

definition allowlist_config_default :: allowlist_config where
  "allowlist_config_default =
     \<lparr> alc_strict_mode = True, alc_custom_commands = [],
       alc_blocked_patterns =
         [''rm -rf'', ''dd if='', ''mkfs.'', ''format '', ''fdisk '', ''parted '', ''/bin/sh'',
          ''/bin/bash'', '' && '', '' || '', ''; '', '' | '', CHR 0x60 # ''rm'', ''$(rm'',
          '' > /dev'', '' >> /dev''],
       alc_max_execution_time = 300, alc_log_executions = True \<rparr>"

section \<open>The default commands\<close>

definition cmd_mount :: allowed_command where
  "cmd_mount =
     \<lparr> ac_name = ''mount'', ac_path = Some ''/bin/mount'',
       ac_description = ''Mount filesystems'',
       ac_allowed_args =
         [''-t'', ''-o'', ''-r'', ''-w'', ''-v'', ''--no-mtab'', ''--fake'', ''--fstab'',
          ''--options-mode'', ''--test-opts''],
       ac_allowed_options =
         hm_insert ''fstab'' (Some ''^[a-zA-Z0-9/_.-]+$'')
           (hm_insert ''o'' (Some ''^[a-zA-Z0-9_=,.-]+$'')
           (hm_insert ''t'' (Some ''^[a-zA-Z0-9_-]+$'') [])),
       ac_max_args = 10, ac_requires_root = True,
       ac_security_context = SystemMount \<rparr>"

definition cmd_umount :: allowed_command where
  "cmd_umount =
     \<lparr> ac_name = ''umount'', ac_path = Some ''/bin/umount'',
       ac_description = ''Unmount filesystems'',
       ac_allowed_args =
         [''-r'', ''-l'', ''-f'', ''-v'', ''-n'', ''--no-mtab'', ''--lazy'', ''--force'',
          ''--fake''],
       ac_allowed_options =
         [],
       ac_max_args = 5, ac_requires_root = True,
       ac_security_context = SystemMount \<rparr>"

definition cmd_mount_nfs :: allowed_command where
  "cmd_mount_nfs =
     \<lparr> ac_name = ''mount.nfs'', ac_path = Some ''/sbin/mount.nfs'',
       ac_description = ''Mount NFS filesystems'',
       ac_allowed_args =
         [''-r'', ''-w'', ''-v'', ''-o'', ''-t'', ''--no-mtab'', ''-n''],
       ac_allowed_options =
         hm_insert ''t'' (Some ''^nfs[4]?$'')
           (hm_insert ''o'' (Some ''^[a-zA-Z0-9_=,.-]+$'') []),
       ac_max_args = 8, ac_requires_root = True,
       ac_security_context = NetworkFileSystem \<rparr>"

definition cmd_showmount :: allowed_command where
  "cmd_showmount =
     \<lparr> ac_name = ''showmount'', ac_path = Some ''/usr/sbin/showmount'',
       ac_description = ''Show mount information for NFS server'',
       ac_allowed_args =
         [''-a'', ''-d'', ''-e'', ''-h'', ''-v'', ''--no-headers'', ''--all'',
          ''--exports''],
       ac_allowed_options =
         [],
       ac_max_args = 3, ac_requires_root = False,
       ac_security_context = Diagnostic \<rparr>"

definition cmd_mount_cifs :: allowed_command where
  "cmd_mount_cifs =
     \<lparr> ac_name = ''mount.cifs'', ac_path = Some ''/sbin/mount.cifs'',
       ac_description = ''Mount SMB/CIFS filesystems'',
       ac_allowed_args =
         [''-o'', ''-r'', ''-w'', ''-v'', ''-n'', ''--no-mtab''],
       ac_allowed_options =
         hm_insert ''o'' (Some ''^[a-zA-Z0-9_=,.-]+$'') [],
       ac_max_args = 8, ac_requires_root = True,
       ac_security_context = NetworkFileSystem \<rparr>"

definition cmd_smbclient :: allowed_command where
  "cmd_smbclient =
     \<lparr> ac_name = ''smbclient'', ac_path = Some ''/usr/bin/smbclient'',
       ac_description = ''SMB client for browsing shares'',
       ac_allowed_args =
         [''-L'', ''-N'', ''-U'', ''-W'', ''-g'', ''--list'', ''--no-pass'', ''--user'',
          ''--workgroup''],
       ac_allowed_options =
         hm_insert ''W'' (Some ''^[a-zA-Z0-9._-]+$'')
           (hm_insert ''U'' (Some ''^[a-zA-Z0-9@._%-]+$'')
           (hm_insert ''L'' (Some ''^[a-zA-Z0-9.-]+$'') [])),
       ac_max_args = 5, ac_requires_root = False,
       ac_security_context = Diagnostic \<rparr>"

definition cmd_sshfs :: allowed_command where
  "cmd_sshfs =
     \<lparr> ac_name = ''sshfs'', ac_path = Some ''/usr/bin/sshfs'',
       ac_description = ''Mount SSH filesystems'',
       ac_allowed_args =
         [''-o'', ''-p'', ''-d'', ''-f'', ''-s'', ''-h'', ''-V'', ''--debug'',
          ''--foreground'', ''--help'', ''--version'', ''--password_stdin''],
       ac_allowed_options =
         hm_insert ''p'' (Some ''^[0-9]+$'')
           (hm_insert ''o'' (Some ''^[a-zA-Z0-9_=,.-]+$'') []),
       ac_max_args = 15, ac_requires_root = False,
       ac_security_context = UserFileSystem \<rparr>"

definition cmd_fusermount :: allowed_command where
  "cmd_fusermount =
     \<lparr> ac_name = ''fusermount'', ac_path = Some ''/bin/fusermount'',
       ac_description = ''FUSE filesystem mount/umount utility'',
       ac_allowed_args =
         [''-u'', ''-q'', ''-z'', ''-v'', ''-h'', ''--unmount'', ''--quiet'', ''--lazy'',
          ''--verbose'', ''--help''],
       ac_allowed_options =
         [],
       ac_max_args = 5, ac_requires_root = False,
       ac_security_context = UserFileSystem \<rparr>"

definition cmd_which :: allowed_command where
  "cmd_which =
     \<lparr> ac_name = ''which'', ac_path = Some ''/usr/bin/which'',
       ac_description = ''Locate a command in the PATH'',
       ac_allowed_args =
         [''-a'', ''--all'', ''--read-alias'', ''--skip-alias'', ''--skip-dot'',
          ''--skip-tilde'', ''--show-dot'', ''--show-tilde'', ''--tty-only'',
          ''--version'', ''--help''],
       ac_allowed_options =
         [],
       ac_max_args = 5, ac_requires_root = False,
       ac_security_context = Diagnostic \<rparr>"

definition cmd_mkdir :: allowed_command where
  "cmd_mkdir =
     \<lparr> ac_name = ''mkdir'', ac_path = Some ''/bin/mkdir'',
       ac_description = ''Create directories'',
       ac_allowed_args =
         [''-p'', ''-m'', ''-v'', ''--parents'', ''--mode'', ''--verbose'', ''--help'',
          ''--version''],
       ac_allowed_options =
         hm_insert ''m'' (Some ''^0?[0-7]{3}$'') [],
       ac_max_args = 10, ac_requires_root = False,
       ac_security_context = LocalFileSystem \<rparr>"

definition cmd_rmdir :: allowed_command where
  "cmd_rmdir =
     \<lparr> ac_name = ''rmdir'', ac_path = Some ''/bin/rmdir'',
       ac_description = ''Remove empty directories'',
       ac_allowed_args =
         [''-p'', ''-v'', ''--ignore-fail-on-non-empty'', ''--parents'', ''--verbose'',
          ''--help'', ''--version''],
       ac_allowed_options =
         [],
       ac_max_args = 10, ac_requires_root = False,
       ac_security_context = LocalFileSystem \<rparr>"

definition default_commands :: "allowed_command list" where
  "default_commands =
     [cmd_mount, cmd_umount, cmd_mount_nfs, cmd_showmount, cmd_mount_cifs, cmd_smbclient,
      cmd_sshfs, cmd_fusermount, cmd_which, cmd_mkdir, cmd_rmdir]"

section \<open>The set of commands\<close>

definition command_dangerous_chars :: string where
  "command_dangerous_chars =
     '';&|'' @ [CHR 0x60] @ ''$(){}[]'' @ [CHR 0x22, CHR 0x27] @ ''<>*''"

text \<open>\<open>for c in s.chars() { if dangerous_chars.contains(&c) { return Err(err(c)) } }\<close>\<close>

definition check_dangerous :: "(char \<Rightarrow> allowlist_error) \<Rightarrow> string \<Rightarrow> allowlist_error + unit" where
  "check_dangerous err s =
     check_all (\<lambda>c. if contains_char command_dangerous_chars c then Inl (err c) else Inr ()) s"

definition validate_command_definition :: "allowed_command \<Rightarrow> allowlist_error + unit" where
  "validate_command_definition c =
     (if ac_name c = [] then Inl NameEmpty
      else if contains_char (ac_name c) CHR '' '' then Inl NameHasSpace
      else and_then (check_dangerous NameDangerous (ac_name c))
        (\<lambda>_. check_all (\<lambda>arg. if arg = [] then Inl EmptyAllowedArg else Inr ()) (ac_allowed_args c)))"

definition add_command :: "allowlist \<Rightarrow> allowed_command \<Rightarrow> allowlist_error + allowlist" where
  "add_command a c =
     (if hm_contains_key (al_commands a) (ac_name c) then Inl (CommandExists (ac_name c))
      else and_then (validate_command_definition c)
        (\<lambda>_. Inr (a\<lparr>al_commands := hm_insert (ac_name c) c (al_commands a)\<rparr>)))"

definition remove_command :: "allowlist \<Rightarrow> string \<Rightarrow> allowlist_error + allowlist" where
  "remove_command a name =
     (if \<not> hm_contains_key (al_commands a) name then Inl (CommandNotFound name)
      else Inr (a\<lparr>al_commands := hm_remove name (al_commands a)\<rparr>))"

definition initialize_default_commands :: "allowlist \<Rightarrow> allowlist_error + allowlist" where
  "initialize_default_commands a = fold_res add_command a default_commands"

definition allowlist_with_config :: "allowlist_config \<Rightarrow> allowlist_error + allowlist" where
  "allowlist_with_config cfg =
     and_then (initialize_default_commands \<lparr> al_config = cfg, al_commands = [] \<rparr>)
       (\<lambda>a. fold_res add_command a (alc_custom_commands cfg))"

definition allowlist_new :: "allowlist_error + allowlist" where
  "allowlist_new = allowlist_with_config allowlist_config_default"

text \<open>An import inserts the entries one by one; the entries before the first invalid one stay.\<close>

fun import_commands ::
    "allowlist \<Rightarrow> (string \<times> allowed_command) list \<Rightarrow> allowlist \<times> (allowlist_error + unit)" where
  "import_commands a [] = (a, Inr ())"
| "import_commands a ((name, c) # rest) =
     (case validate_command_definition c of
        Inl e \<Rightarrow> (a, Inl e)
      | Inr _ \<Rightarrow> import_commands (a\<lparr>al_commands := hm_insert name c (al_commands a)\<rparr>) rest)"

definition import_allowlist ::
    "(string \<times> allowed_command) list option \<Rightarrow> allowlist \<Rightarrow> allowlist \<times> (allowlist_error + unit)" where
  "import_allowlist parsed a =
     (case parsed of None \<Rightarrow> (a, Inl ImportParseFailed) | Some cs \<Rightarrow> import_commands a cs)"

section \<open>Validation\<close>

text \<open>\<open>command.allowed_options.get(k).and_then(|p| p.as_ref())\<close> and the match of a value.\<close>

definition check_pattern ::
    "regex_engine \<Rightarrow> (string \<Rightarrow> allowlist_error) \<Rightarrow> allowed_command \<Rightarrow> string \<Rightarrow> string \<Rightarrow>
       allowlist_error + unit" where
  "check_pattern rx mismatch c name value =
     (case hm_get (ac_allowed_options c) name of
        Some (Some pat) \<Rightarrow>
          (case rx pat of
             None \<Rightarrow> Inl (InvalidRegex pat)
           | Some is_match \<Rightarrow> if \<not> is_match value then Inl (mismatch pat) else Inr ())
      | _ \<Rightarrow> Inr ())"

definition validate_option_value ::
    "regex_engine \<Rightarrow> allowed_command \<Rightarrow> string \<Rightarrow> string \<Rightarrow> allowlist_error + unit" where
  "validate_option_value rx c name value =
     check_pattern rx (\<lambda>pat. OptionValueMismatch value pat name) c name value"

definition validate_path_argument :: "string \<Rightarrow> allowlist_error + unit" where
  "validate_path_argument path =
     and_then (check_dangerous PathDangerous path)
       (\<lambda>_. if contains_str path ''..'' \<and> contains_char path CHR ''/''
            then Inl (PathTraversal path) else Inr ())"

definition validate_argument ::
    "regex_engine \<Rightarrow> allowlist \<Rightarrow> allowed_command \<Rightarrow> string \<Rightarrow> allowlist_error + unit" where
  "validate_argument rx a c arg =
     (if starts_with arg ''/'' \<or> (contains_char arg CHR '':'' \<and> \<not> starts_with arg ''-'')
      then validate_path_argument arg
      else if starts_with arg ''-'' then
        (let arg_key = (case split_once CHR ''='' arg of Some (k, v) \<Rightarrow> k | None \<Rightarrow> arg)
         in if \<not> List.member (ac_allowed_args c) arg_key
            then (if arg_key = ''--help'' \<or> arg_key = ''--version'' \<or> arg_key = ''-h'' \<or> arg_key = ''-V''
                  then Inr ()
                  else if alc_strict_mode (al_config a)
                  then Inl (ArgumentNotAllowed arg_key (ac_name c))
                  else Inr ())
            else (case split_once CHR ''='' arg of
                    None \<Rightarrow> Inr ()
                  | Some (arg_name, arg_value) \<Rightarrow>
                      check_pattern rx (\<lambda>pat. ArgumentValueMismatch arg_value pat arg_name) c
                        (trim_start_matches CHR ''-'' arg_name) arg_value))
      else Inr ())"

definition contains_blocked_patterns :: "allowlist \<Rightarrow> string \<Rightarrow> string list \<Rightarrow> bool" where
  "contains_blocked_patterns a command args =
     (let full_command = command @ '' '' @ join '' '' args
      in list_ex (\<lambda>p. contains_str full_command p) (alc_blocked_patterns (al_config a)))"

text \<open>The argument loop: \<open>-o\<close> and \<open>-p\<close> take the next argument as their value.\<close>

fun validate_args ::
    "regex_engine \<Rightarrow> allowlist \<Rightarrow> allowed_command \<Rightarrow> string list \<Rightarrow> allowlist_error + unit" where
  "validate_args rx a c [] = Inr ()"
| "validate_args rx a c [arg] = validate_argument rx a c arg"
| "validate_args rx a c (arg # v # rest) =
     (if arg = ''-o'' then
        and_then (validate_argument rx a c arg)
          (\<lambda>_. and_then (validate_option_value rx c ''o'' v) (\<lambda>_. validate_args rx a c rest))
      else if arg = ''-p'' then
        and_then (validate_argument rx a c arg)
          (\<lambda>_. and_then (validate_option_value rx c ''p'' v) (\<lambda>_. validate_args rx a c rest))
      else and_then (validate_argument rx a c arg) (\<lambda>_. validate_args rx a c (v # rest)))"

definition validate_command ::
    "regex_engine \<Rightarrow> allowlist \<Rightarrow> string \<Rightarrow> string list \<Rightarrow> allowlist_error + unit" where
  "validate_command rx a command args =
     (if contains_blocked_patterns a command args then Inl BlockedPatterns
      else and_then (ok_or (hm_get (al_commands a) command) (CommandNotAllowed command))
        (\<lambda>c. if length args > ac_max_args c
             then Inl (TooManyArguments command (length args) (ac_max_args c))
             else validate_args rx a c args))"

definition get_allowed_commands :: "allowlist \<Rightarrow> string list" where
  "get_allowed_commands a = map fst (al_commands a)"

definition command_requires_root :: "allowlist \<Rightarrow> string \<Rightarrow> bool" where
  "command_requires_root a command =
     (case hm_get (al_commands a) command of None \<Rightarrow> True | Some c \<Rightarrow> ac_requires_root c)"

definition get_command_security_context :: "allowlist \<Rightarrow> string \<Rightarrow> security_context option" where
  "get_command_security_context a command =
     map_option ac_security_context (hm_get (al_commands a) command)"

section \<open>Every stored definition is valid\<close>

datatype allowlist_op =
    Op_add allowed_command
  | Op_remove string
  | Op_import "(string \<times> allowed_command) list option"

definition keep_on_error :: "'s \<Rightarrow> 'e + 's \<Rightarrow> 's" where
  "keep_on_error s r = (case r of Inl _ \<Rightarrow> s | Inr s' \<Rightarrow> s')"

fun allowlist_step :: "allowlist_op \<Rightarrow> allowlist \<Rightarrow> allowlist" where
  "allowlist_step (Op_add c) a = keep_on_error a (add_command a c)"
| "allowlist_step (Op_remove name) a = keep_on_error a (remove_command a name)"
| "allowlist_step (Op_import parsed) a = fst (import_allowlist parsed a)"

definition allowlist_inv :: "allowlist \<Rightarrow> bool" where
  "allowlist_inv a \<longleftrightarrow>
     hm_wf (al_commands a)
     \<and> (\<forall>name c. hm_get (al_commands a) name = Some c \<longrightarrow> validate_command_definition c = Inr ())"

lemma allowlist_inv_insert:
  "allowlist_inv a \<Longrightarrow> validate_command_definition c = Inr () \<Longrightarrow>
     allowlist_inv (a\<lparr>al_commands := hm_insert name c (al_commands a)\<rparr>)"
  by (auto simp: allowlist_inv_def hm.wf_insert hm.get_insert)

lemma allowlist_inv_add: "allowlist_inv a \<Longrightarrow> add_command a c = Inr a' \<Longrightarrow> allowlist_inv a'"
  by (auto simp: add_command_def and_then_Inr_iff intro: allowlist_inv_insert split: if_split_asm)

lemma allowlist_inv_remove: "allowlist_inv a \<Longrightarrow> remove_command a n = Inr a' \<Longrightarrow> allowlist_inv a'"
  by (auto simp: remove_command_def allowlist_inv_def hm.wf_remove hm.get_remove split: if_split_asm)

lemma allowlist_inv_import: "allowlist_inv a \<Longrightarrow> allowlist_inv (fst (import_commands a cs))"
  by (induction a cs rule: import_commands.induct)
    (auto split: sum.splits intro: allowlist_inv_insert)

interpretation al: component allowlist_step allowlist_inv
proof
  fix a op
  assume inv: "allowlist_inv a"
  show "allowlist_inv (allowlist_step op a)"
  proof (cases op)
    case (Op_add c)
    with inv allowlist_inv_add [OF inv] show ?thesis
      by (auto simp: keep_on_error_def split: sum.splits)
  next
    case (Op_remove n)
    with inv allowlist_inv_remove [OF inv] show ?thesis
      by (auto simp: keep_on_error_def split: sum.splits)
  next
    case (Op_import parsed)
    with inv allowlist_inv_import [OF inv] show ?thesis
      by (auto simp: import_allowlist_def split: option.splits)
  qed
qed

lemma allowlist_inv_fold:
  "allowlist_inv a \<Longrightarrow> fold_res add_command a cs = Inr a' \<Longrightarrow> allowlist_inv a'"
  by (erule fold_res_invariant) (auto intro: allowlist_inv_add)

lemma allowlist_inv_new: "allowlist_with_config cfg = Inr a \<Longrightarrow> allowlist_inv a"
  unfolding allowlist_with_config_def and_then_Inr_iff initialize_default_commands_def
  by (elim exE conjE, rule allowlist_inv_fold, rule allowlist_inv_fold)
    (auto simp: allowlist_inv_def hm.wf_empty hm.get_empty)

lemma check_dangerous_ok:
  "check_dangerous err s = Inr u \<longleftrightarrow> set s \<inter> set command_dangerous_chars = {}"
  by (auto simp: check_dangerous_def check_all_ok_iff contains_char_iff)

text \<open>whatever is added, removed or imported after the allow list is built, every stored command
  has a non-empty name without spaces or shell characters and no empty argument.\<close>

theorem allowlist_definitions_valid:
  assumes "allowlist_with_config cfg = Inr a"
    and "hm_get (al_commands (fold allowlist_step ops a)) name = Some c"
  shows "ac_name c \<noteq> [] \<and> CHR '' '' \<notin> set (ac_name c)
    \<and> set (ac_name c) \<inter> set command_dangerous_chars = {} \<and> [] \<notin> set (ac_allowed_args c)"
proof -
  have "allowlist_inv (fold allowlist_step ops a)"
    by (rule al.inv_run [OF allowlist_inv_new [OF assms(1)]])
  with assms(2) have "validate_command_definition c = Inr ()" by (auto simp: allowlist_inv_def)
  then show ?thesis
    by (auto simp: validate_command_definition_def and_then_Inr_iff check_dangerous_ok
        check_all_ok_iff contains_char_iff split: if_split_asm)
qed

section \<open>The default allow list\<close>

lemmas command_defs = cmd_mount_def cmd_umount_def cmd_mount_nfs_def cmd_showmount_def
  cmd_mount_cifs_def cmd_smbclient_def cmd_sshfs_def cmd_fusermount_def cmd_which_def
  cmd_mkdir_def cmd_rmdir_def

lemma default_commands_valid:
  "c \<in> set default_commands \<Longrightarrow> validate_command_definition c = Inr ()"
  unfolding default_commands_def
  by (simp only: list.set insert_iff empty_iff, elim disjE FalseE; hypsubst;
      simp add: command_defs validate_command_definition_def check_dangerous_def
        command_dangerous_chars_def fuji_eval)

lemma default_commands_names:
  "map ac_name default_commands =
     [''mount'', ''umount'', ''mount.nfs'', ''showmount'', ''mount.cifs'', ''smbclient'', ''sshfs'',
      ''fusermount'', ''which'', ''mkdir'', ''rmdir'']"
  by (simp add: default_commands_def command_defs)

lemma insert_new_key:
  "\<not> hm_contains_key m k \<Longrightarrow> hm_insert k v m = m @ [(k, v)]"
  unfolding hm_insert_def hm_contains_key_def hm_get_def by (induction m) auto

lemma add_commands_ok:
  assumes "\<forall>c \<in> set cs. validate_command_definition c = Inr ()" and "distinct (map ac_name cs)"
    and "fst ` set (al_commands a) \<inter> ac_name ` set cs = {}"
  shows "fold_res add_command a cs
    = Inr (a\<lparr>al_commands := al_commands a @ map (\<lambda>c. (ac_name c, c)) cs\<rparr>)"
  using assms
proof (induction cs arbitrary: a)
  case (Cons c cs)
  let ?a = "a\<lparr>al_commands := al_commands a @ [(ac_name c, c)]\<rparr>"
  have "\<not> hm_contains_key (al_commands a) (ac_name c)"
    using Cons.prems(3) by (auto simp: hm_contains_key_def hm_get_None_iff)
  then have "add_command a c = Inr ?a"
    using Cons.prems(1) by (simp add: add_command_def insert_new_key)
  moreover have "fold_res add_command ?a cs
      = Inr (?a\<lparr>al_commands := al_commands ?a @ map (\<lambda>c. (ac_name c, c)) cs\<rparr>)"
    using Cons.prems by (intro Cons.IH) auto
  ultimately show ?case by simp
qed simp

lemma allowlist_new_eq:
  "allowlist_new = Inr \<lparr> al_config = allowlist_config_default,
                         al_commands = map (\<lambda>c. (ac_name c, c)) default_commands \<rparr>"
proof -
  have "distinct (map ac_name default_commands)" unfolding default_commands_names by simp
  from add_commands_ok [OF _ this, of "\<lparr> al_config = allowlist_config_default, al_commands = [] \<rparr>"]
  show ?thesis
    using default_commands_valid
    by (simp add: allowlist_new_def allowlist_with_config_def initialize_default_commands_def
        allowlist_config_default_def)
qed

text \<open>building the default allow list cannot fail, and it allows the eleven commands of the source
  under their own names.\<close>

theorem allowlist_new_total:
  "\<exists>a. allowlist_new = Inr a
     \<and> get_allowed_commands a =
         [''mount'', ''umount'', ''mount.nfs'', ''showmount'', ''mount.cifs'', ''smbclient'',
          ''sshfs'', ''fusermount'', ''which'', ''mkdir'', ''rmdir'']
     \<and> (\<forall>name c. hm_get (al_commands a) name = Some c \<longrightarrow> ac_name c = name)"
proof -
  have "hm_get (map (\<lambda>c. (ac_name c, c)) default_commands) name = Some c \<longrightarrow> ac_name c = name" for name c
    by (auto dest: hm_get_in_set)
  moreover have "map fst (map (\<lambda>c. (ac_name c, c)) default_commands) = map ac_name default_commands"
    by simp
  ultimately show ?thesis
    unfolding allowlist_new_eq get_allowed_commands_def default_commands_names [symmetric]
    by (intro exI [of _ "\<lparr> al_config = allowlist_config_default,
        al_commands = map (\<lambda>c. (ac_name c, c)) default_commands \<rparr>"]) auto
qed

theorem allowlist_definitions_valid_witness:
  "\<exists>a c. allowlist_with_config allowlist_config_default = Inr a
     \<and> hm_get (al_commands (fold allowlist_step [Op_remove ''which'', Op_remove ''none''] a)) ''mount'' = Some c
     \<and> ac_name c \<noteq> []"
proof -
  let ?a = "\<lparr> al_config = allowlist_config_default,
              al_commands = map (\<lambda>c. (ac_name c, c)) default_commands \<rparr>"
  let ?ops = "[Op_remove ''which'', Op_remove ''none'']"
  have a: "allowlist_with_config allowlist_config_default = Inr ?a"
    using allowlist_new_eq by (simp add: allowlist_new_def)
  have g: "hm_get (al_commands (fold allowlist_step ?ops ?a)) ''mount'' = Some cmd_mount"
    by (simp add: keep_on_error_def remove_command_def default_commands_def command_defs
        hm_contains_key_def hm_get_def hm_remove_def)
  from allowlist_definitions_valid [OF a g] show ?thesis using a g by blast
qed

section \<open>Accepted commands\<close>

text \<open>The arguments that are checked as arguments, and the values that follow \<open>-o\<close> and \<open>-p\<close>.\<close>

fun plain_args :: "string list \<Rightarrow> string list" where
  "plain_args [] = []"
| "plain_args [arg] = [arg]"
| "plain_args (arg # v # rest) =
     (if arg = ''-o'' \<or> arg = ''-p'' then arg # plain_args rest else arg # plain_args (v # rest))"

fun option_values :: "string list \<Rightarrow> (string \<times> string) list" where
  "option_values [] = []"
| "option_values [arg] = []"
| "option_values (arg # v # rest) =
     (if arg = ''-o'' \<or> arg = ''-p'' then (drop 1 arg, v) # option_values rest
      else option_values (v # rest))"

lemma validate_args_ok:
  "validate_args rx a c args = Inr u \<Longrightarrow>
     (\<forall>arg \<in> set (plain_args args). validate_argument rx a c arg = Inr ())
     \<and> (\<forall>(n, v) \<in> set (option_values args). validate_option_value rx c n v = Inr ())"
  by (induction rx a c args rule: validate_args.induct)
    (auto simp: and_then_Inr_iff split: if_split_asm)

definition arg_key :: "string \<Rightarrow> string" where
  "arg_key arg = (case split_once CHR ''='' arg of Some (k, v) \<Rightarrow> k | None \<Rightarrow> arg)"

lemma validate_argument_flag:
  assumes "validate_argument rx a c arg = Inr u" and "prefix ''-'' arg" and "alc_strict_mode (al_config a)"
  shows "arg_key arg \<in> set (ac_allowed_args c) \<union> {''--help'', ''--version'', ''-h'', ''-V''}"
proof (rule ccontr)
  assume n: "\<not> ?thesis"
  have "starts_with arg ''-''" and "\<not> starts_with arg ''/''"
    using assms(2) by (auto simp: starts_with_prefix prefix_def)
  with n assms(1,3) show False
    by (simp add: validate_argument_def arg_key_def Let_def)
qed

lemma validate_argument_path:
  assumes "validate_argument rx a c arg = Inr u"
    and "prefix ''/'' arg \<or> (CHR '':'' \<in> set arg \<and> \<not> prefix ''-'' arg)"
  shows "set arg \<inter> set command_dangerous_chars = {}
    \<and> \<not> (sublist ''..'' arg \<and> CHR ''/'' \<in> set arg)"
  using assms
  by (simp add: validate_argument_def starts_with_prefix contains_char_iff contains_str_sublist
      validate_path_argument_def and_then_Inr_iff check_dangerous_ok split: if_split_asm)

lemma option_value_matches:
  "validate_option_value rx c n v = Inr u \<Longrightarrow> hm_get (ac_allowed_options c) n = Some (Some pat) \<Longrightarrow>
     \<exists>m. rx pat = Some m \<and> m v"
  by (simp add: validate_option_value_def check_pattern_def split: option.splits if_split_asm)


text \<open>A pattern engine that knows one pattern of the source, a class of characters.\<close>

definition sample_regex :: regex_engine where
  "sample_regex pat =
     (if pat = ''^[a-zA-Z0-9_=,.-]+$''
      then Some (\<lambda>s. s \<noteq> [] \<and> list_all (\<lambda>c. is_ascii_alphanumeric c \<or> contains_char ''_=,.-'' c) s)
      else None)"

lemma get_default_umount:
  "hm_get (map (\<lambda>c. (ac_name c, c)) default_commands) ''umount'' = Some cmd_umount"
  by (simp add: default_commands_def command_defs hm_get_def)

lemma get_default_mount:
  "hm_get (map (\<lambda>c. (ac_name c, c)) default_commands) ''mount'' = Some cmd_mount"
  by (simp add: default_commands_def command_defs hm_get_def)


text \<open>an argument that starts with neither a slash nor a hyphen and holds no colon is not checked
  at all: unless the line holds one of the blocked patterns, any text is accepted as an argument of
  \<open>umount\<close>, a command substitution or a relative traversal included.\<close>

theorem bare_argument_unchecked:
  assumes "\<not> prefix ''/'' arg" and "\<not> prefix ''-'' arg" and "CHR '':'' \<notin> set arg"
    and "allowlist_new = Inr a" and "\<not> contains_blocked_patterns a ''umount'' [arg]"
  shows "validate_command rx a ''umount'' [arg] = Inr ()"
proof -
  from assms(4) have "hm_get (al_commands a) ''umount'' = Some cmd_umount"
    using get_default_umount by (auto simp: allowlist_new_eq)
  with assms(1-3,5) show ?thesis
    by (simp add: validate_command_def cmd_umount_def validate_argument_def starts_with_prefix
        contains_char_iff)
qed

theorem bare_argument_unchecked_witness:
  "\<exists>a. allowlist_new = Inr a
     \<and> validate_command sample_regex a ''umount'' [''$(reboot)''] = Inr ()
     \<and> validate_command sample_regex a ''umount'' [''../../etc''] = Inr ()"
proof -
  let ?a = "\<lparr> al_config = allowlist_config_default,
              al_commands = map (\<lambda>c. (ac_name c, c)) default_commands \<rparr>"
  have a: "allowlist_new = Inr ?a" by (rule allowlist_new_eq)
  have "validate_command sample_regex ?a ''umount'' [''$(reboot)''] = Inr ()"
    by (rule bare_argument_unchecked [OF _ _ _ a])
      (simp_all add: contains_blocked_patterns_def allowlist_config_default_def)
  moreover have "validate_command sample_regex ?a ''umount'' [''../../etc''] = Inr ()"
    by (rule bare_argument_unchecked [OF _ _ _ a])
      (simp_all add: contains_blocked_patterns_def allowlist_config_default_def)
  ultimately show ?thesis using a by blast
qed

end
