(* ===== verification/Options_Validator.thy ===== *)
theory Options_Validator
  imports Fuji_Prelude "HOL-Library.List_Lexorder" "HOL-Library.Char_ord"
begin

text \<open>
  \<open>src/mount/drivers/options.rs\<close>: the allow list of mount options that every driver consults
  before it mounts.  A \<open>HashSet\<close> is the list of its elements; the source only asks for membership.
\<close>

section \<open>Data\<close>

record options_validation_config =
  ovc_strict_mode :: bool
  ovc_custom_allowed_options :: "string list"
  ovc_blocked_options :: "string list"
  ovc_max_options_count :: nat
  ovc_max_option_length :: nat

record options_validator =
  ov_config :: options_validation_config
  ov_nfs_options :: "string list"
  ov_smb_options :: "string list"
  ov_sshfs_options :: "string list"
  ov_common_options :: "string list"

datatype validator_error =
    TooManyOptions nat nat
  | OptionTooLong nat nat string
  | BlockedOption string
  | NotInAllowlist string string
  | InvalidNumericId string string
  | ModeTooLarge string string
  | ModeNotOctal string string
  | PortZero
  | InvalidPortValue string

definition options_validation_config_default :: options_validation_config where
  [fuji_eval]: "options_validation_config_default =
     \<lparr> ovc_strict_mode = True, ovc_custom_allowed_options = [],
       ovc_blocked_options =
         [''exec'', ''suid'', ''dev'', ''user='', ''users'', ''owner'', ''acl''],
       ovc_max_options_count = 50, ovc_max_option_length = 256 \<rparr>"

definition common_allowed :: "string list" where
  "common_allowed =
     [''ro'', ''rw'', ''sync'', ''async'', ''auto'', ''noauto'', ''defaults'', ''nofail'',
      ''noatime'', ''nosuid'', ''nodev'', ''noexec'', ''_netdev'', ''x-gvfs-show'', ''comment'']"

definition nfs_allowed :: "string list" where
  "nfs_allowed =
     [''hard'', ''soft'', ''intr'', ''nointr'', ''proto'', ''vers'', ''nfsvers'', ''port'',
      ''rsize'', ''wsize'', ''timeo'', ''retrans'', ''bg'', ''fg'', ''tcp'', ''udp'', ''lock'',
      ''nolock'', ''sec'', ''fsc'']"

definition smb_allowed :: "string list" where
  "smb_allowed =
     [''username'', ''password'', ''uid'', ''gid'', ''file_mode'', ''dir_mode'', ''iocharset'',
      ''codepage'', ''domain'', ''workgroup'', ''guest'', ''ro'', ''rw'', ''vers'']"

definition sshfs_allowed :: "string list" where
  "sshfs_allowed =
     [''allow_other'', ''allow_root'', ''default_permissions'', ''uid'', ''gid'', ''file_mode'',
      ''dir_mode'', ''cache'', ''no_cache'', ''direct_io'', ''reconnect'',
      ''ServerAliveInterval'', ''ServerAliveCountMax'', ''Compression'', ''no_check_root'',
      ''password_stdin'']"

definition validator_with_config :: "options_validation_config \<Rightarrow> options_validator" where
  "validator_with_config cfg =
     \<lparr> ov_config = cfg, ov_nfs_options = nfs_allowed, ov_smb_options = smb_allowed,
       ov_sshfs_options = sshfs_allowed, ov_common_options = common_allowed \<rparr>"

definition validator_new :: options_validator where
  "validator_new = validator_with_config options_validation_config_default"

section \<open>Operations\<close>

text \<open>The key of an option: the text before the first equals sign.\<close>

definition option_key :: "string \<Rightarrow> string" where
  [fuji_eval]: "option_key opt =
     (case split_once CHR ''='' opt of Some (k, v) \<Rightarrow> k | None \<Rightarrow> opt)"

definition is_option_blocked :: "options_validator \<Rightarrow> string \<Rightarrow> bool" where
  "is_option_blocked v opt = list_ex (\<lambda>b. starts_with opt b) (ovc_blocked_options (ov_config v))"

definition validate_specific_option :: "string \<Rightarrow> string \<Rightarrow> validator_error + unit" where
  "validate_specific_option key full_option =
     (if key = ''uid'' \<or> key = ''gid'' then
        (case split_once CHR ''='' full_option of
           None \<Rightarrow> Inr ()
         | Some (_, value) \<Rightarrow>
             if parse_u32 value = None \<and> value \<noteq> ''0'' then Inl (InvalidNumericId key value)
             else Inr ())
      else if key = ''file_mode'' \<or> key = ''dir_mode'' then
        (case split_once CHR ''='' full_option of
           None \<Rightarrow> Inr ()
         | Some (_, value) \<Rightarrow>
             if \<not> starts_with value ''0'' then
               (case parse_u32_radix 16 value of
                  Some mode \<Rightarrow> if mode > 511 then Inl (ModeTooLarge key value) else Inr ()
                | None \<Rightarrow> Inl (ModeNotOctal key value))
             else Inr ())
      else if key = ''port'' then
        (case split_once CHR ''='' full_option of
           None \<Rightarrow> Inr ()
         | Some (_, value) \<Rightarrow>
             (case parse_u16 value of
                Some port \<Rightarrow> if port = 0 then Inl PortZero else Inr ()
              | None \<Rightarrow> Inl (InvalidPortValue value)))
      else Inr ())"

definition allowed_options_for :: "options_validator \<Rightarrow> string \<Rightarrow> string list" where
  "allowed_options_for v filesystem =
     (if filesystem = ''nfs'' \<or> filesystem = ''nfs4'' then ov_nfs_options v
      else if filesystem = ''smb'' \<or> filesystem = ''cifs'' then ov_smb_options v
      else if filesystem = ''sshfs'' then ov_sshfs_options v
      else ov_common_options v)"

definition option_is_allowed :: "options_validator \<Rightarrow> string \<Rightarrow> string \<Rightarrow> bool" where
  "option_is_allowed v filesystem key =
     (List.member (allowed_options_for v filesystem) key
      \<or> List.member (ov_common_options v) key
      \<or> list_ex (\<lambda>s. s = key) (ovc_custom_allowed_options (ov_config v)))"

definition validate_option ::
    "options_validator \<Rightarrow> string \<Rightarrow> string \<Rightarrow> validator_error + unit" where
  "validate_option v filesystem opt =
     (if length opt > ovc_max_option_length (ov_config v)
      then Inl (OptionTooLong (length opt) (ovc_max_option_length (ov_config v)) opt)
      else let key = option_key opt
           in if starts_with key ''x-'' then Inr ()
              else if is_option_blocked v opt then Inl (BlockedOption opt)
              else if ovc_strict_mode (ov_config v) \<and> \<not> option_is_allowed v filesystem key
              then Inl (NotInAllowlist opt filesystem)
              else validate_specific_option key opt)"

definition validate_mount_options ::
    "options_validator \<Rightarrow> string \<Rightarrow> string list \<Rightarrow> validator_error + unit" where
  "validate_mount_options v filesystem opts =
     (if length opts > ovc_max_options_count (ov_config v)
      then Inl (TooManyOptions (length opts) (ovc_max_options_count (ov_config v)))
      else check_all (validate_option v filesystem) opts)"

definition get_allowed_options :: "options_validator \<Rightarrow> string \<Rightarrow> string list" where
  "get_allowed_options v filesystem =
     sort (ov_common_options v
           @ (if filesystem = ''nfs'' \<or> filesystem = ''nfs4'' then ov_nfs_options v
              else if filesystem = ''smb'' \<or> filesystem = ''cifs'' then ov_smb_options v
              else if filesystem = ''sshfs'' then ov_sshfs_options v
              else [])
           @ ovc_custom_allowed_options (ov_config v))"

definition sanitize_options :: "options_validator \<Rightarrow> string list \<Rightarrow> string list" where
  "sanitize_options v opts =
     map trim (filter (\<lambda>opt. trim opt \<noteq> [] \<and> \<not> is_option_blocked v opt) opts)"

definition parse_options_string :: "string \<Rightarrow> string list" where
  "parse_options_string s = filter (\<lambda>w. w \<noteq> []) (map trim (split_on CHR '','' s))"

definition options_to_string :: "string list \<Rightarrow> string" where
  "options_to_string opts = join '','' opts"

section \<open>Lemmas\<close>

lemmas validator_eval = validator_new_def validator_with_config_def
  options_validation_config_default_def common_allowed_def nfs_allowed_def smb_allowed_def
  sshfs_allowed_def validate_mount_options_def validate_option_def is_option_blocked_def
  option_is_allowed_def allowed_options_for_def validate_specific_option_def

lemma validate_option_ok:
  assumes "validate_option v fs opt = Inr u"
  shows "length opt \<le> ovc_max_option_length (ov_config v)"
    and "\<not> starts_with (option_key opt) ''x-'' \<Longrightarrow> \<not> is_option_blocked v opt"
    and "\<not> starts_with (option_key opt) ''x-'' \<Longrightarrow> ovc_strict_mode (ov_config v) \<Longrightarrow>
           option_is_allowed v fs (option_key opt)"
  using assms by (simp_all add: validate_option_def Let_def split: if_split_asm)

text \<open>an option list that the default validator accepts has at most 50 options of at most 256
  bytes, and each of them is an \<open>x-\<close> option, or has an allowed key and starts with none of the
  blocked names: \<open>exec\<close>, \<open>suid\<close> and \<open>dev\<close> cannot be requested as an option.\<close>

theorem accepted_options_safe:
  assumes "validate_mount_options validator_new fs opts = Inr u" and "opt \<in> set opts"
  shows "length opts \<le> 50 \<and> length opt \<le> 256
    \<and> (prefix ''x-'' (option_key opt)
       \<or> (option_is_allowed validator_new fs (option_key opt)
          \<and> \<not> prefix ''exec'' opt \<and> \<not> prefix ''suid'' opt \<and> \<not> prefix ''dev'' opt
          \<and> \<not> prefix ''user='' opt \<and> \<not> prefix ''users'' opt \<and> \<not> prefix ''owner'' opt))"
proof -
  have "length opts \<le> 50" and "check_all (validate_option validator_new fs) opts = Inr u"
    using assms(1)
    by (simp_all add: validate_mount_options_def validator_new_def validator_with_config_def
        options_validation_config_default_def split: if_split_asm)
  with assms(2) have ok: "validate_option validator_new fs opt = Inr ()"
    by (simp add: check_all_ok_iff)
  have "length opt \<le> 256"
    using validate_option_ok(1) [OF ok]
    by (simp add: validator_new_def validator_with_config_def options_validation_config_default_def)
  with \<open>length opts \<le> 50\<close> validate_option_ok(2,3) [OF ok] show ?thesis
    by (auto simp: starts_with_prefix is_option_blocked_def validator_new_def
        validator_with_config_def options_validation_config_default_def)
qed

theorem accepted_options_safe_witness:
  "validate_mount_options validator_new ''nfs'' [''ro'', ''port=2049'', ''x-gvfs-show''] = Inr ()
   \<and> length ''port=2049'' \<le> 256"
proof
  show ok: "validate_mount_options validator_new ''nfs'' [''ro'', ''port=2049'', ''x-gvfs-show''] = Inr ()"
    by (simp add: validator_eval fuji_eval)
  show "length ''port=2049'' \<le> 256"
    using accepted_options_safe [OF ok, of "''port=2049''"] by simp
qed

text \<open>the validator reports the first option that fails, and only an option that fails.\<close>

theorem validation_error_first:
  assumes "length opts \<le> ovc_max_options_count (ov_config v)"
  shows "validate_mount_options v fs opts = Inl e \<longleftrightarrow>
    (\<exists>ys x zs. opts = ys @ x # zs \<and> (\<forall>y \<in> set ys. validate_option v fs y = Inr ())
       \<and> validate_option v fs x = Inl e)"
  using assms by (simp add: validate_mount_options_def check_all_err_iff)

theorem validation_error_first_witness:
  "validate_mount_options validator_new ''nfs'' [''ro'', ''exec'', ''suid''] = Inl (BlockedOption ''exec'')"
proof -
  have "length [''ro'', ''exec'', ''suid''] \<le> ovc_max_options_count (ov_config validator_new)"
    by (simp add: validator_eval)
  from validation_error_first [OF this, of "''nfs''" "BlockedOption ''exec''"] show ?thesis
    by (rule iffD2)
      (rule exI [of _ "[''ro'']"], rule exI [of _ "''exec''"], rule exI [of _ "[''suid'']"],
        simp add: validator_eval fuji_eval)
qed

lemma parse_options_string_join:
  assumes "opts \<noteq> []"
    and "\<forall>opt \<in> set opts. CHR '','' \<notin> set opt \<and> trim opt = opt \<and> opt \<noteq> []"
  shows "parse_options_string (options_to_string opts) = opts"
proof -
  have "split_on CHR '','' (options_to_string opts) = opts"
    unfolding options_to_string_def using assms by (intro split_on_join) auto
  moreover have "map trim opts = opts" using assms(2) by (intro map_idI) blast
  moreover have "filter (\<lambda>w. w \<noteq> []) opts = opts" using assms(2) by (intro filter_True) blast
  ultimately show ?thesis unfolding parse_options_string_def by (simp only:)
qed

lemma sanitize_entries:
  "opt \<in> set (sanitize_options v opts) \<Longrightarrow> opt \<noteq> [] \<and> trim opt = opt"
  by (auto simp: sanitize_options_def)

text \<open>options that hold no comma survive being joined for the command line and split again by
  the mount helper: what was sanitized is exactly what is read.\<close>

theorem sanitized_options_roundtrip:
  assumes "\<forall>opt \<in> set opts. CHR '','' \<notin> set opt" and "sanitize_options v opts \<noteq> []"
  shows "parse_options_string (options_to_string (sanitize_options v opts)) = sanitize_options v opts"
proof (rule parse_options_string_join [OF assms(2)])
  show "\<forall>opt \<in> set (sanitize_options v opts). CHR '','' \<notin> set opt \<and> trim opt = opt \<and> opt \<noteq> []"
  proof
    fix opt assume opt: "opt \<in> set (sanitize_options v opts)"
    then obtain o' where "o' \<in> set opts" and "opt = trim o'" by (auto simp: sanitize_options_def)
    with assms(1) set_trim [of o'] have "CHR '','' \<notin> set opt" by blast
    with sanitize_entries [OF opt] show "CHR '','' \<notin> set opt \<and> trim opt = opt \<and> opt \<noteq> []" by blast
  qed
qed

theorem sanitized_options_roundtrip_witness:
  "parse_options_string (options_to_string (sanitize_options validator_new ['' ro'', ''suid'', ''port=1'']))
     = [''ro'', ''port=1'']"
proof -
  have s: "sanitize_options validator_new ['' ro'', ''suid'', ''port=1''] = [''ro'', ''port=1'']"
    by (simp add: sanitize_options_def validator_eval fuji_eval)
  have "parse_options_string (options_to_string
          (sanitize_options validator_new ['' ro'', ''suid'', ''port=1'']))
      = sanitize_options validator_new ['' ro'', ''suid'', ''port=1'']"
    by (rule sanitized_options_roundtrip) (simp_all add: s)
  then show ?thesis by (simp only: s)
qed

text \<open>the blocked names can be smuggled past the validator.  Only the key of an option is
  looked up, and a comma in its value is not refused: the accepted option
  \<open>comment=a,suid\<close> reaches the mount command as two options, the second of them blocked.\<close>

theorem comma_smuggles_blocked_option:
  "validate_mount_options validator_new ''nfs'' [''comment=a,suid''] = Inr ()
   \<and> parse_options_string (options_to_string [''comment=a,suid'']) = [''comment=a'', ''suid'']
   \<and> is_option_blocked validator_new ''suid''
   \<and> validate_mount_options validator_new ''nfs'' [''comment=a'', ''suid''] = Inl (BlockedOption ''suid'')"
  by (intro conjI; simp add: validator_eval parse_options_string_def options_to_string_def fuji_eval)

text \<open>file modes are documented as octal and checked as hexadecimal: the octal mode \<open>755\<close> is
  refused, the hexadecimal \<open>1FF\<close> is accepted, and any text that starts with a zero is not
  checked at all.\<close>

theorem mode_checked_as_hexadecimal:
  "validate_mount_options validator_new ''smb'' [''file_mode=755''] = Inl (ModeTooLarge ''file_mode'' ''755'')
   \<and> validate_mount_options validator_new ''smb'' [''file_mode=1FF''] = Inr ()
   \<and> validate_mount_options validator_new ''smb'' [''file_mode=0rwxrwx!''] = Inr ()"
  by (intro conjI; simp add: validator_eval fuji_eval)

text \<open>sanitizing looks for blocked names before it trims: a blocked option with a leading
  space is kept, and comes out as the blocked option itself.\<close>

theorem sanitize_keeps_spaced_blocked:
  "sanitize_options validator_new [''exec'', '' exec''] = [''exec'']
   \<and> is_option_blocked validator_new ''exec''"
  by (simp add: sanitize_options_def validator_eval fuji_eval)

end
