(* ===== verification/Secure_Command.thy ===== *)
theory Secure_Command
  imports Command_Allowlist Options_Validator
begin

text \<open>
  \<open>src/mount/drivers/secure_command.rs\<close> and the part of \<open>src/security/seccomp.rs\<close> it calls:
  the command profiles and their rules, the builder of a command, the two global cells (the
  executor and the allow list), the creation of a mount command and its execution.

  Running a process is the argument \<open>run\<close>, from the program and its arguments to what the
  operating system answers.  The two global cells are the record \<open>command_globals\<close>, passed along.
\<close>

section \<open>Profiles\<close>

datatype seccomp_profile = Minimal | Network | FileSystem | Mount | Daemon | Test

definition profile_paths :: "seccomp_profile \<Rightarrow> string list" where
  "profile_paths profile =
     (case profile of
        Minimal \<Rightarrow> [''/dev/null'', ''/dev/zero'', ''/dev/random'', ''/dev/urandom'', ''/proc/self'', ''/tmp'']
      | Network \<Rightarrow> [''/tmp'', ''/var/run'', ''/dev/null'']
      | FileSystem \<Rightarrow> [''/'', ''/dev'', ''/proc'', ''/sys'', ''/tmp'', ''/var'', ''/home'', ''/mnt'', ''/media'']
      | Mount \<Rightarrow> [''/'', ''/dev'', ''/proc'', ''/sys'', ''/etc'', ''/bin'', ''/sbin'', ''/usr/bin'',
                  ''/usr/sbin'', ''/tmp'', ''/var'', ''/mnt'', ''/media'']
      | Daemon \<Rightarrow> [''/'', ''/dev'', ''/proc'', ''/sys'', ''/etc'', ''/bin'', ''/sbin'', ''/usr/bin'',
                   ''/usr/sbin'', ''/tmp'', ''/var'', ''/home'', ''/mnt'', ''/media'', ''/opt'', ''/srv'']
      | Test \<Rightarrow> [''/''])"

definition profile_commands :: "seccomp_profile \<Rightarrow> string list" where
  "profile_commands profile =
     (case profile of
        Minimal \<Rightarrow> [''echo'', ''cat'', ''wc'']
      | Network \<Rightarrow> [''ssh'', ''sshfs'', ''nc'', ''telnet'', ''curl'', ''wget'', ''mount'', ''umount'', ''smbclient'']
      | FileSystem \<Rightarrow> [''ls'', ''cp'', ''mv'', ''rm'', ''mkdir'', ''rmdir'', ''chmod'', ''chown'', ''chgrp'',
                       ''find'', ''grep'', ''sed'', ''awk'', ''mount'', ''umount'']
      | Mount \<Rightarrow> [''mount'', ''umount'', ''mount.nfs'', ''mount.nfs4'', ''mount.cifs'', ''umount.nfs'',
                  ''systemctl'', ''service'']
      | Daemon \<Rightarrow> [''mount'', ''umount'', ''systemctl'', ''service'', ''ps'', ''kill'', ''killall'', ''pgrep'',
                   ''pkill'', ''nohup'', ''daemon'', ''init'', ''shutdown'', ''reboot'', ''poweroff'']
      | Test \<Rightarrow> [])"

text \<open>The executor only wraps its filter; initialisation of a real filter and its counters are not
  reached from here.\<close>

record syscall_filter =
  sf_profile :: seccomp_profile
  sf_allowed_paths :: "string list"
  sf_allowed_commands :: "string list"

definition syscall_filter_new :: "seccomp_profile \<Rightarrow> syscall_filter" where
  "syscall_filter_new profile =
     \<lparr> sf_profile = profile, sf_allowed_paths = profile_paths profile,
       sf_allowed_commands = profile_commands profile \<rparr>"

text \<open>\<open>Path::file_name\<close>: the last component, when it is a name.\<close>

definition file_name :: "string \<Rightarrow> string option" where
  "file_name p =
     (let cs = path_components p
      in if cs = [] then None else case last cs of Normal w \<Rightarrow> Some w | _ \<Rightarrow> None)"

datatype command_error =
    CommandNotInProfile string seccomp_profile
  | PathNotInProfile string seccomp_profile
  | CommandTimedOut
  | CommandSpawnFailed string
  | CommandExitCode int string string
  | UnsafeCharacters string
  | SafePatternInvalid
  | AllowlistUnavailable allowlist_error
  | AllowlistRejected string allowlist_error
  | UnsupportedMountType string

definition filter_validate_command :: "syscall_filter \<Rightarrow> string \<Rightarrow> command_error + unit" where
  "filter_validate_command f command =
     (if sf_profile f = Test then Inr ()
      else let command_name = (case file_name command of Some n \<Rightarrow> n | None \<Rightarrow> command)
           in if \<not> List.member (sf_allowed_commands f) command_name
              then Inl (CommandNotInProfile command_name (sf_profile f))
              else Inr ())"

definition filter_validate_path :: "syscall_filter \<Rightarrow> string \<Rightarrow> command_error + unit" where
  "filter_validate_path f path =
     (if sf_profile f = Test then Inr ()
      else if list_ex (\<lambda>a. starts_with path a) (sf_allowed_paths f) then Inr ()
      else Inl (PathNotInProfile path (sf_profile f)))"

section \<open>Commands\<close>

record secure_command =
  sc_program :: string
  sc_args :: "string list"
  sc_seccomp_profile :: "seccomp_profile option"

definition secure_command_new :: "string \<Rightarrow> secure_command" where
  "secure_command_new program = \<lparr> sc_program = program, sc_args = [], sc_seccomp_profile = None \<rparr>"

definition add_arg :: "string \<Rightarrow> secure_command \<Rightarrow> secure_command" where
  "add_arg a c = c\<lparr>sc_args := sc_args c @ [a]\<rparr>"

definition with_seccomp_profile :: "seccomp_profile \<Rightarrow> secure_command \<Rightarrow> secure_command" where
  "with_seccomp_profile p c = c\<lparr>sc_seccomp_profile := Some p\<rparr>"

definition display_command :: "secure_command \<Rightarrow> string" where
  "display_command c = sc_program c @ '' '' @ join '' '' (sc_args c)"

record command_globals =
  cg_executor :: "syscall_filter option"
  cg_allowlist :: "allowlist option"

definition globals_new :: command_globals where
  "globals_new = \<lparr> cg_executor = None, cg_allowlist = None \<rparr>"

definition initialize_command_allowlist :: "allowlist \<Rightarrow> command_globals \<Rightarrow> command_globals" where
  "initialize_command_allowlist a g = g\<lparr>cg_allowlist := Some a\<rparr>"

definition get_command_allowlist ::
    "command_globals \<Rightarrow> command_globals \<times> (command_error + allowlist)" where
  "get_command_allowlist g =
     (case cg_allowlist g of
        Some a \<Rightarrow> (g, Inr a)
      | None \<Rightarrow> (case allowlist_new of
                   Inl e \<Rightarrow> (g, Inl (AllowlistUnavailable e))
                 | Inr a \<Rightarrow> (initialize_command_allowlist a g, Inr a)))"

datatype run_result =
    Run_timeout
  | Run_failed string
  | Run_exited bool "int option" string string

type_synonym runner = "string \<Rightarrow> string list \<Rightarrow> run_result"

text \<open>The check against the profile: the executor cell is filled on first use only.\<close>

definition check_profile :: "secure_command \<Rightarrow> command_globals \<Rightarrow> command_globals \<times> (command_error + unit)" where
  "check_profile c g =
     (case sc_seccomp_profile c of
        None \<Rightarrow> (g, Inr ())
      | Some profile \<Rightarrow>
          (let g' = (case cg_executor g of
                       None \<Rightarrow> g\<lparr>cg_executor := Some (syscall_filter_new profile)\<rparr>
                     | Some _ \<Rightarrow> g)
           in (g', case cg_executor g' of
                     None \<Rightarrow> Inr ()
                   | Some f \<Rightarrow> filter_validate_command f (sc_program c))))"

definition output_result :: "run_result \<Rightarrow> command_error + string" where
  "output_result r =
     (case r of
        Run_timeout \<Rightarrow> Inl CommandTimedOut
      | Run_failed e \<Rightarrow> Inl (CommandSpawnFailed e)
      | Run_exited success code out err \<Rightarrow>
          (if \<not> success
           then Inl (CommandExitCode (case code of Some n \<Rightarrow> n | None \<Rightarrow> -1) err out)
           else Inr out))"

definition run_command :: "runner \<Rightarrow> secure_command \<Rightarrow> command_globals \<Rightarrow> command_globals \<times> (command_error + string)" where
  "run_command run c g =
     (let (g', r) = check_profile c g
      in (g', and_then r (\<lambda>_. output_result (run (sc_program c) (sc_args c)))))"

text \<open>\<open>status\<close> has no time limit: its runner says whether the process succeeded, or why it could
  not be started.\<close>

type_synonym status_runner = "string \<Rightarrow> string list \<Rightarrow> string + bool"

definition command_status :: "status_runner \<Rightarrow> secure_command \<Rightarrow> command_error + bool" where
  "command_status run c = map_err CommandSpawnFailed (run (sc_program c) (sc_args c))"

section \<open>Mount commands\<close>

definition safe_pattern :: string where
  [fuji_eval]: "safe_pattern = ''^[a-zA-Z0-9/._:-@ ]+$''"

definition validate_safe_string :: "regex_engine \<Rightarrow> string \<Rightarrow> command_error + unit" where
  "validate_safe_string rx input =
     (case rx safe_pattern of
        None \<Rightarrow> Inl SafePatternInvalid
      | Some is_match \<Rightarrow> if \<not> is_match input then Inl (UnsafeCharacters input) else Inr ())"

definition validate_command_allowlist ::
    "regex_engine \<Rightarrow> string \<Rightarrow> string list \<Rightarrow> command_globals \<Rightarrow>
       command_globals \<times> (command_error + unit)" where
  "validate_command_allowlist rx command args g =
     (let (g', r) = get_command_allowlist g
      in (g', and_then r (\<lambda>a. map_err (AllowlistRejected command) (validate_command rx a command args))))"

definition mount_profile :: "string \<Rightarrow> seccomp_profile" where
  "mount_profile mount_type =
     (if mount_type = ''nfs'' \<or> mount_type = ''nfs4'' then Mount
      else if mount_type = ''smb'' \<or> mount_type = ''cifs'' then Mount
      else if mount_type = ''sshfs'' then Network
      else FileSystem)"

definition mount_arguments ::
    "string \<Rightarrow> string \<Rightarrow> string \<Rightarrow> string list \<Rightarrow> (string \<times> string list) option" where
  "mount_arguments mount_type source target options =
     (if mount_type = ''nfs'' \<or> mount_type = ''nfs4'' then
        Some (''mount'', [''-t'', mount_type]
                @ (if options \<noteq> [] then [''-o'', join '','' options] else []) @ [source, target])
      else if mount_type = ''smb'' \<or> mount_type = ''cifs'' then
        Some (''mount'', [''-t'', ''cifs'']
                @ (if options \<noteq> [] then [''-o'', join '','' options] else []) @ [source, target])
      else if mount_type = ''sshfs'' then Some (''sshfs'', [source, target] @ options)
      else None)"

definition create_secure_mount_command ::
    "regex_engine \<Rightarrow> string \<Rightarrow> string \<Rightarrow> string \<Rightarrow> string list \<Rightarrow> command_globals \<Rightarrow>
       command_globals \<times> (command_error + secure_command)" where
  "create_secure_mount_command rx mount_type source target options g =
     (case and_then (validate_safe_string rx source)
             (\<lambda>_. and_then (validate_safe_string rx target)
             (\<lambda>_. check_all (validate_safe_string rx) options)) of
        Inl e \<Rightarrow> (g, Inl e)
      | Inr _ \<Rightarrow>
          (case mount_arguments mount_type source target options of
             None \<Rightarrow> (g, Inl (UnsupportedMountType mount_type))
           | Some (name, args) \<Rightarrow>
               (let (g', r) = validate_command_allowlist rx name args g
                in (g', and_then r (\<lambda>_. Inr (with_seccomp_profile (mount_profile mount_type)
                          (fold add_arg args (secure_command_new name))))))))"

section \<open>Character classes\<close>

text \<open>
  What the \<open>regex\<close> crate documents for a pattern \<open>^[items]+$\<close> whose items hold none of the
  characters that are special in a class: it compiles, and matches the non-empty texts of
  characters in the class.  An item \<open>a-b\<close> is the range from \<open>a\<close> to \<open>b\<close>; a hyphen at the end is itself.
\<close>

fun class_matches :: "string \<Rightarrow> char \<Rightarrow> bool" where
  "class_matches [] c = False"
| "class_matches [a] c = (c = a)"
| "class_matches [a, b] c = (c = a \<or> c = b)"
| "class_matches (a # b # d # items) c =
     (if b = CHR ''-''
      then (char_code a \<le> char_code c \<and> char_code c \<le> char_code d) \<or> class_matches items c
      else c = a \<or> class_matches (b # d # items) c)"

definition plain_class :: "string \<Rightarrow> bool" where
  "plain_class items \<longleftrightarrow> items \<noteq> [] \<and> set items \<inter> set (''[]^&~'' @ [CHR 0x5C]) = {}"

definition class_pattern :: "string \<Rightarrow> string" where
  "class_pattern items = ''^['' @ items @ '']+$''"

definition class_text :: "string \<Rightarrow> string \<Rightarrow> bool" where
  "class_text items s = (s \<noteq> [] \<and> list_all (class_matches items) s)"

definition regex_classes :: "regex_engine \<Rightarrow> bool" where
  "regex_classes rx \<longleftrightarrow>
     (\<forall>items. plain_class items \<longrightarrow> rx (class_pattern items) = Some (class_text items))"

text \<open>An engine for these patterns alone.\<close>

definition class_regex :: regex_engine where
  "class_regex pat =
     (if starts_with pat ''^['' \<and> ends_with pat '']+$'' \<and> length pat \<ge> 5
      then Some (class_text (take (length pat - 5) (drop 2 pat))) else None)"

lemma class_regex_classes: "regex_classes class_regex"
  by (simp add: regex_classes_def class_regex_def class_pattern_def starts_with_prefix
      ends_with_suffix suffix_def)

lemma safe_pattern_class: "safe_pattern = class_pattern ''a-zA-Z0-9/._:-@ ''"
  by (simp add: safe_pattern_def class_pattern_def)

lemma option_pattern_class: "''^[a-zA-Z0-9_=,.-]+$'' = class_pattern ''a-zA-Z0-9_=,.-''"
  by (simp add: class_pattern_def)

lemma safe_string_iff:
  assumes "regex_classes rx"
  shows "validate_safe_string rx s = Inr u \<longleftrightarrow> class_text ''a-zA-Z0-9/._:-@ '' s"
proof -
  have "plain_class ''a-zA-Z0-9/._:-@ ''" by (simp add: plain_class_def)
  with assms have "rx safe_pattern = Some (class_text ''a-zA-Z0-9/._:-@ '')"
    by (simp add: regex_classes_def safe_pattern_class)
  then show ?thesis by (simp add: validate_safe_string_def)
qed

lemma safe_class_iff:
  "class_matches ''a-zA-Z0-9/._:-@ '' c \<longleftrightarrow>
     is_ascii_lower c \<or> is_ascii_upper c \<or> is_ascii_digit c \<or> c = CHR ''/'' \<or> c = CHR ''.''
     \<or> c = CHR ''_'' \<or> (58 \<le> char_code c \<and> char_code c \<le> 64) \<or> c = CHR '' ''"
  by (simp add: is_ascii_lower_def is_ascii_upper_def is_ascii_digit_def char_code_def)

text \<open>the safe-string check is meant to allow letters, digits and \<open>/ . - _ : @\<close> and the space.
  The hyphen in the pattern makes \<open>:-@\<close> a range: the check accepts exactly letters, digits,
  \<open>/ . _\<close>, the space and the seven characters from the colon to the at sign, so it lets the
  semicolon, the comparison signs and the question mark through and refuses every text with a
  hyphen.\<close>

theorem safe_string_characters:
  assumes "regex_classes rx"
  shows "validate_safe_string rx s = Inr () \<longleftrightarrow>
    s \<noteq> [] \<and> (\<forall>c \<in> set s. is_ascii_alphanumeric c \<or> c \<in> set ''/._ :;<=>?@'')"
proof -
  have range: "58 \<le> char_code c \<and> char_code c \<le> 64 \<longleftrightarrow> c \<in> set '':;<=>?@''" for c
  proof
    assume c: "58 \<le> char_code c \<and> char_code c \<le> 64"
    then have "char_code c \<in> {58, 59, 60, 61, 62, 63, 64}" by auto
    moreover have "c = char_of (char_code c)" by (simp add: char_code_def)
    ultimately show "c \<in> set '':;<=>?@''"
      by (elim insertE emptyE; simp add: char_of_eq_iff)
  qed (auto simp: char_code_def)
  have "class_matches ''a-zA-Z0-9/._:-@ '' c
      \<longleftrightarrow> is_ascii_alphanumeric c \<or> c \<in> set ''/._ :;<=>?@''" for c
    using range [of c]
    unfolding safe_class_iff is_ascii_alphanumeric_def list.set insert_iff empty_iff by argo
  then show ?thesis
    unfolding safe_string_iff [OF assms] class_text_def list_all_iff by blast
qed

theorem safe_string_characters_witness:
  "validate_safe_string class_regex ''a;b'' = Inr ()
   \<and> validate_safe_string class_regex ''/mnt/my-share'' \<noteq> Inr ()"
  using safe_string_characters [OF class_regex_classes] by (simp add: fuji_eval)

section \<open>Created commands\<close>

lemma fold_add_arg [simp]:
  "sc_args (fold add_arg args c) = sc_args c @ args"
  "sc_program (fold add_arg args c) = sc_program c"
  by (induction args arbitrary: c) (simp_all add: add_arg_def)

lemma create_command_Inr:
  assumes "create_secure_mount_command rx t src tgt opts g = (g', Inr c)"
  obtains args where "mount_arguments t src tgt opts = Some (sc_program c, args)" "sc_args c = args"
    "\<forall>opt \<in> set opts. validate_safe_string rx opt = Inr ()"
    "validate_safe_string rx src = Inr ()" "validate_safe_string rx tgt = Inr ()"
    "sc_seccomp_profile c = Some (mount_profile t)"
proof -
  let ?chk = "and_then (validate_safe_string rx src)
             (\<lambda>_. and_then (validate_safe_string rx tgt)
             (\<lambda>_. check_all (validate_safe_string rx) opts))"
  from assms have chk: "?chk = Inr ()"
    by (cases ?chk) (auto simp: create_secure_mount_command_def)
  with assms obtain name args where ma: "mount_arguments t src tgt opts = Some (name, args)"
    by (auto simp: create_secure_mount_command_def split: option.splits)
  obtain g2 r where "validate_command_allowlist rx name args g = (g2, r)" by fastforce
  with assms chk ma have "c = with_seccomp_profile (mount_profile t) (fold add_arg args (secure_command_new name))"
    by (auto simp: create_secure_mount_command_def and_then_Inr_iff)
  with ma chk that show thesis
    by (simp add: with_seccomp_profile_def secure_command_new_def and_then_Inr_iff check_all_ok_iff)
qed

lemma safe_no_comma:
  assumes "regex_classes rx" and "validate_safe_string rx s = Inr u"
  shows "CHR '','' \<notin> set s"
proof
  assume c: "CHR '','' \<in> set s"
  have "\<forall>c \<in> set s. class_matches ''a-zA-Z0-9/._:-@ '' c"
    using assms(2) unfolding safe_string_iff [OF assms(1)] class_text_def list_all_iff by blast
  with c have "class_matches ''a-zA-Z0-9/._:-@ '' CHR '',''" by blast
  then show False by (simp add: char_code_def)
qed

lemma split_comma_trim:
  assumes "opts \<noteq> []" and "\<forall>opt \<in> set opts. CHR '','' \<notin> set opt"
  shows "parse_options_string (join '','' opts) = filter (\<lambda>w. w \<noteq> []) (map trim opts)"
  using split_on_join [OF assms] by (simp add: parse_options_string_def)

lemma create_mount_args:
  assumes "regex_classes rx" and "t \<in> {''nfs'', ''nfs4'', ''smb'', ''cifs''}" and "opts \<noteq> []"
    and "create_secure_mount_command rx t src tgt opts g = (g', Inr c)"
  shows "sc_program c = ''mount''
    \<and> (\<exists>fs text. sc_args c = [''-t'', fs, ''-o'', text, src, tgt]
         \<and> parse_options_string text = filter (\<lambda>w. w \<noteq> []) (map trim opts))"
proof -
  from create_command_Inr [OF assms(4)] obtain args
    where ma: "mount_arguments t src tgt opts = Some (sc_program c, args)" "sc_args c = args"
      and safe: "\<forall>opt \<in> set opts. validate_safe_string rx opt = Inr ()" by metis
  have "\<forall>opt \<in> set opts. CHR '','' \<notin> set opt"
    using safe safe_no_comma [OF assms(1)] by blast
  from split_comma_trim [OF assms(3) this]
  have parts: "parse_options_string (join '','' opts) = filter (\<lambda>w. w \<noteq> []) (map trim opts)" .
  from ma assms(2,3) have "sc_program c = ''mount''
      \<and> (\<exists>fs. sc_args c = [''-t'', fs, ''-o'', join '','' opts, src, tgt])"
    by (elim insertE emptyE; simp add: mount_arguments_def; metis)
  with parts show ?thesis by blast
qed

text \<open>options cannot be smuggled into an NFS or SMB mount command: when the command is created,
  the text after \<open>-o\<close> splits at its commas into exactly the given options, because no option
  that passes the safe-string check holds a comma.  So \<open>comment=a,suid\<close>, which the option
  validator accepts, does not reach a command.\<close>

theorem mount_command_options_exact:
  assumes "regex_classes rx" and "t \<in> {''nfs'', ''nfs4'', ''smb'', ''cifs''}" and "opts \<noteq> []"
    and "create_secure_mount_command rx t src tgt opts g = (g', Inr c)"
  shows "sc_program c = ''mount''
    \<and> (\<exists>fs text. sc_args c = [''-t'', fs, ''-o'', text, src, tgt]
         \<and> parse_options_string text = filter (\<lambda>w. w \<noteq> []) (map trim opts))"
  using assms by (rule create_mount_args)

lemma sample_mount_created:
  "\<exists>g c. create_secure_mount_command class_regex ''nfs'' ''srv:/data'' ''/mnt/x'' [''ro'', ''soft'']
      globals_new = (g, Inr c)"
proof -
  let ?a = "\<lparr> al_config = allowlist_config_default,
              al_commands = map (\<lambda>c. (ac_name c, c)) default_commands \<rparr>"
  let ?args = "[''-t'', ''nfs'', ''-o'', ''ro,soft'', ''srv:/data'', ''/mnt/x'']"
  have safe: "validate_safe_string class_regex s = Inr ()"
    if "s \<in> set [''srv:/data'', ''/mnt/x'', ''ro'', ''soft'']" for s
    using that unfolding safe_string_iff [OF class_regex_classes] class_text_def
    by (auto simp: char_code_def)
  have "\<not> contains_blocked_patterns ?a ''mount'' ?args"
    by (simp add: contains_blocked_patterns_def allowlist_config_default_def)
  moreover have "validate_args class_regex ?a cmd_mount ?args = Inr ()"
    by (simp add: cmd_mount_def validate_argument_def
        validate_path_argument_def check_dangerous_def command_dangerous_chars_def
        validate_option_value_def check_pattern_def class_regex_def class_text_def fuji_eval)
  ultimately have "validate_command class_regex ?a ''mount'' ?args = Inr ()"
    by (simp add: validate_command_def get_default_mount) (simp add: cmd_mount_def)
  then show ?thesis
    using safe
    by (simp add: create_secure_mount_command_def mount_arguments_def validate_command_allowlist_def
        get_command_allowlist_def globals_new_def allowlist_new_eq)
qed

theorem mount_command_options_exact_witness:
  "\<exists>c :: secure_command. sc_program c = ''mount''
     \<and> (\<exists>fs text. sc_args c = [''-t'', fs, ''-o'', text, ''srv:/data'', ''/mnt/x'']
          \<and> parse_options_string text = [''ro'', ''soft''])"
proof -
  obtain g c where c: "create_secure_mount_command class_regex ''nfs'' ''srv:/data'' ''/mnt/x''
      [''ro'', ''soft''] globals_new = (g, Inr c)"
    using sample_mount_created by blast
  have e: "filter (\<lambda>w. w \<noteq> []) (map trim [''ro'', ''soft'']) = [''ro'', ''soft'']"
    by (simp add: fuji_eval)
  show ?thesis
    by (rule exI [of _ c])
      (rule mount_command_options_exact [OF class_regex_classes _ _ c, unfolded e]; simp)
qed

definition run_all :: "runner \<Rightarrow> secure_command list \<Rightarrow> command_globals \<Rightarrow> command_globals" where
  "run_all run cs g = fold (\<lambda>c g. fst (run_command run c g)) cs g"

lemma executor_sticky:
  "cg_executor g = Some f \<Longrightarrow> cg_executor (fst (run_command run c g)) = Some f"
  by (simp add: run_command_def check_profile_def split: option.splits prod.splits)

lemma executor_sticky_run: "cg_executor g = Some f \<Longrightarrow> cg_executor (run_all run cs g) = Some f"
  unfolding run_all_def by (induction cs arbitrary: g) (simp_all add: executor_sticky)

lemma mount_profile_refuses_sshfs:
  "filter_validate_command (syscall_filter_new Mount) ''sshfs'' = Inl (CommandNotInProfile ''sshfs'' Mount)"
  by (simp add: filter_validate_command_def syscall_filter_new_def profile_commands_def file_name_def
      path_components_def path_component_of_def)

text \<open>the executor cell keeps the profile of the first command that runs.  After an NFS or SMB
  mount every SSHFS mount is refused, whatever happens in between, although its own profile allows
  \<open>sshfs\<close>.\<close>

theorem sshfs_refused_after_nfs:
  assumes "sc_seccomp_profile c = Some (mount_profile ''nfs'')"
    and "sc_program s = ''sshfs''" and "sc_seccomp_profile s = Some (mount_profile ''sshfs'')"
  shows "snd (run_command run s (run_all run cs (fst (run_command run c globals_new))))
      = Inl (CommandNotInProfile ''sshfs'' Mount)
    \<and> filter_validate_command (syscall_filter_new (mount_profile ''sshfs'')) ''sshfs'' = Inr ()"
proof -
  let ?g = "run_all run cs (fst (run_command run c globals_new))"
  have "cg_executor (fst (run_command run c globals_new)) = Some (syscall_filter_new Mount)"
    using assms(1)
    by (simp add: run_command_def check_profile_def globals_new_def mount_profile_def)
  then have "cg_executor ?g = Some (syscall_filter_new Mount)" by (rule executor_sticky_run)
  then have "snd (run_command run s ?g) = Inl (CommandNotInProfile ''sshfs'' Mount)"
    using assms(2,3) mount_profile_refuses_sshfs
    by (simp add: run_command_def check_profile_def split: prod.splits)
  moreover have "filter_validate_command (syscall_filter_new (mount_profile ''sshfs'')) ''sshfs'' = Inr ()"
    by (simp add: filter_validate_command_def syscall_filter_new_def profile_commands_def
        mount_profile_def file_name_def path_components_def path_component_of_def)
  ultimately show ?thesis by blast
qed

definition sample_run :: runner where
  "sample_run program args = Run_exited True (Some 0) [] []"

theorem sshfs_refused_after_nfs_witness:
  "\<exists>s :: secure_command. sc_program s = ''sshfs''
     \<and> snd (run_command sample_run s (run_all sample_run []
          (fst (run_command sample_run (with_seccomp_profile Mount (secure_command_new ''mount''))
             globals_new))))
       = Inl (CommandNotInProfile ''sshfs'' Mount)"
proof -
  let ?c = "with_seccomp_profile Mount (secure_command_new ''mount'')"
  let ?s = "with_seccomp_profile Network (secure_command_new ''sshfs'')"
  have "sc_seccomp_profile ?c = Some (mount_profile ''nfs'')" "sc_program ?s = ''sshfs''"
      "sc_seccomp_profile ?s = Some (mount_profile ''sshfs'')"
    by (simp_all add: with_seccomp_profile_def secure_command_new_def mount_profile_def)
  from sshfs_refused_after_nfs [OF this, of sample_run "[]"] \<open>sc_program ?s = ''sshfs''\<close>
  show ?thesis by blast
qed

end
