(* ===== verification/Mount_Drivers.thy ===== *)
theory Mount_Drivers
  imports Mount_Types Url_Validator Secure_Command
begin

text \<open>
  \<open>src/mount/drivers/nfs.rs\<close>, \<open>smb.rs\<close> and \<open>sshfs.rs\<close>: the three implementations of the trait
  \<open>MountHandler\<close>.  The trait is the locale \<open>mount_driver\<close>, interpreted on each of them.

  What a driver asks of the system is the record \<open>driver_env\<close>: running a command, the answer of the
  dependency checker, and the outcome of creating the mount point directory.  Removing the
  directory after an unmount is only logged when it fails, and is not modelled.
\<close>

section \<open>Environment and errors\<close>

record dependency_check_result =
  dc_available :: bool
  dc_install_instructions :: "string option"

record driver_env =
  de_run :: runner
  de_status :: status_runner
  de_dependency :: "string \<Rightarrow> string + dependency_check_result"
  de_create_dir_all :: "string \<Rightarrow> string + unit"

datatype driver_error =
    UrlRejected url_error
  | UrlParse
  | InvalidScheme string
  | NoHost
  | HostEmpty
  | ShareEmpty
  | ShareRequired
  | WrongMountType
  | DependencyMissing "string option"
  | OptionsRejected validator_error
  | CommandRejected command_error
  | CreateDirFailed string
  | MountFailed command_error
  | UnmountCommandFailed command_error
  | UnmountReported string

section \<open>URLs to mount types\<close>

definition nfs_default_options :: "string list" where
  "nfs_default_options = [''nolock'', ''timeo=50'', ''retrans=2'', ''soft'', ''_netdev'']"

definition smb_default_options :: "string list" where
  "smb_default_options = []"

definition sshfs_default_options :: "string list" where
  "sshfs_default_options = []"

definition nfs_parse_url :: "url_parser \<Rightarrow> string \<Rightarrow> driver_error + mount_type" where
  "nfs_parse_url parse url =
     and_then (map_err UrlRejected (validate_url parse validation_config_default url))
       (\<lambda>_. and_then (ok_or (parse url) UrlParse)
       (\<lambda>parsed. if u_scheme parsed \<noteq> ''nfs'' then Inl (InvalidScheme (u_scheme parsed))
                 else and_then (ok_or (u_host_str parsed) NoHost)
       (\<lambda>host. Inr (Nfs host
                  (if u_path parsed = [] \<or> u_path parsed = ''/'' then [] else u_path parsed)
                  nfs_default_options))))"

definition smb_parse_url :: "url_parser \<Rightarrow> string \<Rightarrow> driver_error + mount_type" where
  "smb_parse_url parse url =
     and_then (map_err UrlRejected (validate_url parse validation_config_default url))
       (\<lambda>_. and_then (ok_or (parse url) UrlParse)
       (\<lambda>parsed. if \<not> (u_scheme parsed = ''smb'' \<or> u_scheme parsed = ''cifs'')
                 then Inl (InvalidScheme (u_scheme parsed))
                 else and_then (ok_or (u_host_str parsed) NoHost)
       (\<lambda>host. if u_path parsed = [] \<or> u_path parsed = ''/'' then Inl ShareRequired
               else Inr (Smb host (trim_start_matches CHR ''/'' (u_path parsed))
                      (if u_username parsed = [] then None else Some (u_username parsed))
                      (u_password parsed) None smb_default_options))))"

definition sshfs_parse_url :: "url_parser \<Rightarrow> string \<Rightarrow> driver_error + mount_type" where
  "sshfs_parse_url parse url =
     and_then (map_err UrlRejected (validate_url parse validation_config_default url))
       (\<lambda>_. and_then (ok_or (parse url) UrlParse)
       (\<lambda>parsed. if u_scheme parsed \<noteq> ''sshfs'' \<and> u_scheme parsed \<noteq> ''ssh'' \<and> u_scheme parsed \<noteq> ''sftp''
                 then Inl (InvalidScheme (u_scheme parsed))
                 else and_then (ok_or (u_host_str parsed) NoHost)
       (\<lambda>host. Inr (Sshfs host
                  (if u_username parsed = [] then None else Some (u_username parsed))
                  (if u_path parsed = [] \<or> u_path parsed = ''/'' then [] else u_path parsed)
                  None None sshfs_default_options))))"

section \<open>Checks of a configuration\<close>

definition nfs_validate_config :: "mount_config \<Rightarrow> driver_error + unit" where
  "nfs_validate_config config =
     (case mc_mount_type config of
        Nfs host share options \<Rightarrow> if host = [] then Inl HostEmpty else Inr ()
      | _ \<Rightarrow> Inl WrongMountType)"

definition smb_validate_config :: "mount_config \<Rightarrow> driver_error + unit" where
  "smb_validate_config config =
     (case mc_mount_type config of
        Smb host share user pass dm options \<Rightarrow>
          if host = [] then Inl HostEmpty else if share = [] then Inl ShareEmpty else Inr ()
      | _ \<Rightarrow> Inl WrongMountType)"

definition sshfs_validate_config :: "mount_config \<Rightarrow> driver_error + unit" where
  "sshfs_validate_config config =
     (case mc_mount_type config of
        Sshfs host user path key pass options \<Rightarrow>
          if host = [] then Inl HostEmpty else if path = [] then Inl ShareEmpty else Inr ()
      | Smb host share user pass dm options \<Rightarrow>
          if host = [] then Inl HostEmpty else if share = [] then Inl ShareEmpty else Inr ()
      | _ \<Rightarrow> Inl WrongMountType)"

section \<open>Options of an NFS mount\<close>

definition nfs_conflicts :: "(string \<times> string) list" where
  "nfs_conflicts =
     [(''soft'', ''hard''), (''bg'', ''fg''), (''lock'', ''nolock''), (''tcp'', ''udp''), (''ro'', ''rw''),
      (''sync'', ''async''), (''intr'', ''nointr''), (''auto'', ''noauto'')]"

definition is_conflicting_nfs_option :: "string \<Rightarrow> string \<Rightarrow> bool" where
  "is_conflicting_nfs_option a b =
     list_ex (\<lambda>(x, y). (a = x \<and> b = y) \<or> (a = y \<and> b = x)) nfs_conflicts"

text \<open>\<open>s.split('=').next()\<close> is the text before the first equals sign.\<close>

definition merge_nfs_option :: "string list \<Rightarrow> string \<Rightarrow> string list" where
  "merge_nfs_option opts user_opt =
     (let user_key = before_first CHR ''='' user_opt
      in filter (\<lambda>d. let default_key = before_first CHR ''='' d
                     in default_key \<noteq> user_key \<and> \<not> is_conflicting_nfs_option default_key user_key) opts
         @ [user_opt])"

definition nfs_mount_options :: "string list \<Rightarrow> string list" where
  "nfs_mount_options options = foldl merge_nfs_option nfs_default_options options"

definition smb_mount_options ::
    "string option \<Rightarrow> string option \<Rightarrow> string option \<Rightarrow> string list \<Rightarrow> string list" where
  "smb_mount_options user pass dm options =
     (let opts = options
            @ (case user of Some u \<Rightarrow> [''username='' @ u] | None \<Rightarrow> [])
            @ (case pass of Some p \<Rightarrow> [''password='' @ p] | None \<Rightarrow> [])
            @ (case dm of Some d \<Rightarrow> [''domain='' @ d] | None \<Rightarrow> [])
      in if opts = [] then smb_default_options else opts)"

section \<open>Mounting\<close>

text \<open>The common tail of the three \<open>mount\<close> functions: validate the options, create the command, make
  the directory, run.\<close>

definition run_mount ::
    "regex_engine \<Rightarrow> driver_env \<Rightarrow> string \<Rightarrow> string \<Rightarrow> string \<Rightarrow> string list \<Rightarrow> command_globals \<Rightarrow>
       command_globals \<times> (driver_error + unit)" where
  "run_mount rx env fs remote mount_point options g =
     (case validate_mount_options validator_new fs options of
        Inl e \<Rightarrow> (g, Inl (OptionsRejected e))
      | Inr _ \<Rightarrow>
          (case create_secure_mount_command rx fs remote mount_point options g of
             (g', Inl e) \<Rightarrow> (g', Inl (CommandRejected e))
           | (g', Inr cmd) \<Rightarrow>
               (case de_create_dir_all env mount_point of
                  Inl e \<Rightarrow> (g', Inl (CreateDirFailed e))
                | Inr _ \<Rightarrow>
                    (let (g'', r) = run_command (de_run env) cmd g'
                     in (g'', and_then (map_err MountFailed r) (\<lambda>_. Inr ()))))))"

text \<open>A missing dependency ends the call; a checker that fails does not.\<close>

definition check_installed :: "driver_env \<Rightarrow> string \<Rightarrow> driver_error + unit" where
  "check_installed env key =
     (case de_dependency env key of
        Inr result \<Rightarrow> if \<not> dc_available result then Inl (DependencyMissing (dc_install_instructions result))
                      else Inr ()
      | Inl e \<Rightarrow> Inr ())"

definition nfs_mount ::
    "regex_engine \<Rightarrow> driver_env \<Rightarrow> mount_config \<Rightarrow> string \<Rightarrow> command_globals \<Rightarrow>
       command_globals \<times> (driver_error + unit)" where
  "nfs_mount rx env config mount_point g =
     (case and_then (nfs_validate_config config) (\<lambda>_. check_installed env ''nfs'') of
        Inl e \<Rightarrow> (g, Inl e)
      | Inr _ \<Rightarrow>
          (case mc_mount_type config of
             Nfs host share options \<Rightarrow>
               run_mount rx env ''nfs'' (if share = [] then host @ '':/'' else host @ '':'' @ share)
                 mount_point (nfs_mount_options options) g
           | _ \<Rightarrow> (g, Inl WrongMountType)))"

definition smb_mount ::
    "regex_engine \<Rightarrow> driver_env \<Rightarrow> mount_config \<Rightarrow> string \<Rightarrow> command_globals \<Rightarrow>
       command_globals \<times> (driver_error + unit)" where
  "smb_mount rx env config mount_point g =
     (case and_then (smb_validate_config config) (\<lambda>_. check_installed env ''smb'') of
        Inl e \<Rightarrow> (g, Inl e)
      | Inr _ \<Rightarrow>
          (case mc_mount_type config of
             Smb host share user pass dm options \<Rightarrow>
               run_mount rx env ''smb'' (''//'' @ host @ ''/'' @ share) mount_point
                 (smb_mount_options user pass dm options) g
           | _ \<Rightarrow> (g, Inl WrongMountType)))"

definition sshfs_source :: "mount_type \<Rightarrow> driver_error + (string \<times> string list)" where
  "sshfs_source mt =
     (case mt of
        Sshfs host user path key pass options \<Rightarrow>
          Inr ((case user of Some u \<Rightarrow> u @ ''@'' | None \<Rightarrow> []) @ host @ '':''
                 @ (if starts_with path ''/'' then drop 1 path else path), options)
      | Smb host share user pass dm options \<Rightarrow> Inr (share, options)
      | _ \<Rightarrow> Inl WrongMountType)"

definition check_sshfs :: "driver_env \<Rightarrow> bool" where
  "check_sshfs env =
     (case command_status (de_status env) (add_arg ''sshfs'' (secure_command_new ''which'')) of
        Inr b \<Rightarrow> b | Inl _ \<Rightarrow> False)"

definition sshfs_installed :: "driver_env \<Rightarrow> driver_error + unit" where
  "sshfs_installed env =
     (case de_dependency env ''sshfs'' of
        Inr result \<Rightarrow> if \<not> dc_available result then Inl (DependencyMissing (dc_install_instructions result))
                      else Inr ()
      | Inl e \<Rightarrow> if \<not> check_sshfs env then Inl (DependencyMissing None) else Inr ())"

definition sshfs_mount ::
    "regex_engine \<Rightarrow> driver_env \<Rightarrow> mount_config \<Rightarrow> string \<Rightarrow> command_globals \<Rightarrow>
       command_globals \<times> (driver_error + unit)" where
  "sshfs_mount rx env config mount_point g =
     (case and_then (sshfs_validate_config config)
             (\<lambda>_. and_then (sshfs_source (mc_mount_type config))
             (\<lambda>src. and_then (sshfs_installed env) (\<lambda>_. Inr src))) of
        Inl e \<Rightarrow> (g, Inl e)
      | Inr (remote, options) \<Rightarrow>
          run_mount rx env ''sshfs'' remote mount_point
            (if options = [] then sshfs_default_options else options) g)"

section \<open>Unmounting\<close>

definition unmount_with_umount ::
    "driver_env \<Rightarrow> string \<Rightarrow> command_globals \<Rightarrow> command_globals \<times> (driver_error + unit)" where
  "unmount_with_umount env mount_point g =
     (let (g', r) = run_command (de_run env) (add_arg mount_point (secure_command_new ''umount'')) g
      in (g', case r of
                Inl e \<Rightarrow> Inl (UnmountCommandFailed e)
              | Inr out \<Rightarrow>
                  (if out \<noteq> [] \<and> (contains_str (to_lowercase out) ''error''
                                  \<or> contains_str (to_lowercase out) ''failed'')
                   then Inl (UnmountReported out) else Inr ())))"

definition nfs_unmount ::
    "driver_env \<Rightarrow> string \<Rightarrow> command_globals \<Rightarrow> command_globals \<times> (driver_error + unit)" where
  "nfs_unmount env mount_point g = unmount_with_umount env mount_point g"

definition smb_unmount ::
    "driver_env \<Rightarrow> string \<Rightarrow> command_globals \<Rightarrow> command_globals \<times> (driver_error + unit)" where
  "smb_unmount env mount_point g = unmount_with_umount env mount_point g"

definition sshfs_unmount ::
    "driver_env \<Rightarrow> string \<Rightarrow> command_globals \<Rightarrow> command_globals \<times> (driver_error + unit)" where
  "sshfs_unmount env mount_point g =
     (case run_command (de_run env)
             (add_arg mount_point (add_arg ''-u'' (secure_command_new ''fusermount''))) g of
        (g', Inr _) \<Rightarrow> (g', Inr ())
      | (g', Inl _) \<Rightarrow>
          (let (g'', r) = run_command (de_run env) (add_arg mount_point (secure_command_new ''umount'')) g'
           in (g'', case r of Inl e \<Rightarrow> Inl (UnmountCommandFailed e) | Inr _ \<Rightarrow> Inr ())))"

section \<open>Health\<close>

text \<open>The outcome of writing, reading and removing the probe file, or of the task that does it.\<close>

datatype probe_result = Probe_ok | Probe_io string | Probe_join string

definition check_health :: "bool \<Rightarrow> probe_result \<Rightarrow> instant \<Rightarrow> mount_health" where
  "check_health exists probe now =
     (if \<not> exists
      then \<lparr> mh_accessible = False, mh_last_error = Some ''Mount point does not exist'',
             mh_last_health_check = now, mh_health_score = 0 \<rparr>
      else case probe of
             Probe_ok \<Rightarrow> \<lparr> mh_accessible = True, mh_last_error = None,
                           mh_last_health_check = now, mh_health_score = 100 \<rparr>
           | Probe_io e \<Rightarrow> \<lparr> mh_accessible = False, mh_last_error = Some e,
                             mh_last_health_check = now, mh_health_score = 0 \<rparr>
           | Probe_join e \<Rightarrow> \<lparr> mh_accessible = False, mh_last_error = Some e,
                               mh_last_health_check = now, mh_health_score = 0 \<rparr>)"

section \<open>Discovery\<close>

definition strip_cr :: "string \<Rightarrow> string" where
  "strip_cr l = (if l \<noteq> [] \<and> last l = CHR 0x0D then butlast l else l)"

text \<open>\<open>str::lines\<close>: a final empty line is not one.\<close>

definition lines_of :: "string \<Rightarrow> string list" where
  "lines_of s =
     (let ls = split_on CHR 0x0A s
      in map strip_cr (if last ls = [] then butlast ls else ls))"

definition first_word :: "string \<Rightarrow> string option" where
  "first_word l =
     (let w = takeWhile (\<lambda>c. \<not> is_whitespace c) (dropWhile is_whitespace l)
      in if w = [] then None else Some w)"

definition nfs_parse_exports :: "string \<Rightarrow> string list" where
  "nfs_parse_exports out = List.map_filter first_word (drop 1 (lines_of out))"

definition nfs_discover_shares ::
    "driver_env \<Rightarrow> string \<Rightarrow> command_globals \<Rightarrow> command_globals \<times> (driver_error + string list)" where
  "nfs_discover_shares env host g =
     (if \<not> (case command_status (de_status env) (add_arg ''showmount'' (secure_command_new ''which'')) of
              Inr b \<Rightarrow> b | Inl _ \<Rightarrow> False)
      then (g, Inr [])
      else let (g', r) = run_command (de_run env)
                           (add_arg host (add_arg ''-e'' (secure_command_new ''showmount''))) g
           in (g', and_then (map_err MountFailed r) (\<lambda>out. Inr (nfs_parse_exports out))))"

definition smb_parse_shares :: "string \<Rightarrow> string list" where
  "smb_parse_shares out =
     filter (\<lambda>w. w \<noteq> ''IPC$'' \<and> w \<noteq> ''ADMIN$'')
       (List.map_filter first_word
          (takeWhile (\<lambda>l. l \<noteq> [])
             (drop 2 (dropWhile (\<lambda>l. \<not> contains_str l ''Sharename'') (lines_of out)))))"

definition smb_discover_shares ::
    "driver_env \<Rightarrow> string \<Rightarrow> command_globals \<Rightarrow> command_globals \<times> (driver_error + string list)" where
  "smb_discover_shares env host g =
     (let (g', r) = run_command (de_run env)
                      (add_arg ''-N'' (add_arg host (add_arg ''-L'' (secure_command_new ''smbclient'')))) g
      in (g', case r of Inl _ \<Rightarrow> Inr [] | Inr out \<Rightarrow> Inr (smb_parse_shares out)))"

section \<open>Ids and mount points\<close>

definition url_mount_id :: "string \<Rightarrow> url_parser \<Rightarrow> string \<Rightarrow> driver_error + string" where
  "url_mount_id suf parse url =
     (case parse url of
        None \<Rightarrow> Inl UrlParse
      | Some parsed \<Rightarrow>
          (let base = (case u_host_str parsed of Some h \<Rightarrow> h | None \<Rightarrow> ''unknown'') @ suf
           in Inr (if u_path parsed \<noteq> [] \<and> u_path parsed \<noteq> ''/''
                   then base @ ''_'' @ replace_char CHR ''/'' CHR ''_''
                                         (trim_start_matches CHR ''/'' (u_path parsed))
                   else base)))"

definition url_mount_point :: "string \<Rightarrow> url_parser \<Rightarrow> string \<Rightarrow> driver_error + string" where
  "url_mount_point suf parse url =
     and_then (ok_or (parse url) UrlParse)
       (\<lambda>parsed. and_then (ok_or (u_host_str parsed) NoHost)
       (\<lambda>host. let mount_point = path_join get_mount_base_dir (host @ suf)
               in if u_path parsed \<noteq> [] \<and> u_path parsed \<noteq> ''/''
                  then and_then (map_err UrlRejected (sanitize_path_component (u_path parsed)))
                         (\<lambda>sanitized. Inr (if sanitized \<noteq> [] then path_join mount_point sanitized
                                           else mount_point))
                  else Inr mount_point))"

definition nfs_generate_mount_id :: "url_parser \<Rightarrow> string \<Rightarrow> driver_error + string" where
  "nfs_generate_mount_id = url_mount_id ''_nfs''"

definition smb_generate_mount_id :: "url_parser \<Rightarrow> string \<Rightarrow> driver_error + string" where
  "smb_generate_mount_id = url_mount_id ''_smb''"

definition sshfs_generate_mount_id :: "url_parser \<Rightarrow> string \<Rightarrow> driver_error + string" where
  "sshfs_generate_mount_id = url_mount_id ''_sshfs''"

definition nfs_generate_mount_point :: "url_parser \<Rightarrow> string \<Rightarrow> driver_error + string" where
  "nfs_generate_mount_point = url_mount_point ''_nfs''"

definition smb_generate_mount_point :: "url_parser \<Rightarrow> string \<Rightarrow> driver_error + string" where
  "smb_generate_mount_point = url_mount_point ''_smb''"

definition sshfs_generate_mount_point :: "url_parser \<Rightarrow> string \<Rightarrow> driver_error + string" where
  "sshfs_generate_mount_point = url_mount_point ''_sshfs''"

section \<open>Dispatch\<close>

definition handler_parse_url ::
    "mount_handler \<Rightarrow> url_parser \<Rightarrow> string \<Rightarrow> driver_error + mount_type" where
  "handler_parse_url h =
     (case h of NfsHandler \<Rightarrow> nfs_parse_url | SmbHandler \<Rightarrow> smb_parse_url | SshfsHandler \<Rightarrow> sshfs_parse_url)"

definition handler_validate_config :: "mount_handler \<Rightarrow> mount_config \<Rightarrow> driver_error + unit" where
  "handler_validate_config h =
     (case h of NfsHandler \<Rightarrow> nfs_validate_config | SmbHandler \<Rightarrow> smb_validate_config
      | SshfsHandler \<Rightarrow> sshfs_validate_config)"

definition handler_mount_point ::
    "mount_handler \<Rightarrow> url_parser \<Rightarrow> string \<Rightarrow> driver_error + string" where
  "handler_mount_point h =
     (case h of NfsHandler \<Rightarrow> nfs_generate_mount_point | SmbHandler \<Rightarrow> smb_generate_mount_point
      | SshfsHandler \<Rightarrow> sshfs_generate_mount_point)"

definition handler_mount ::
    "mount_handler \<Rightarrow> regex_engine \<Rightarrow> driver_env \<Rightarrow> mount_config \<Rightarrow> string \<Rightarrow> command_globals \<Rightarrow>
       command_globals \<times> (driver_error + unit)" where
  "handler_mount h =
     (case h of NfsHandler \<Rightarrow> nfs_mount | SmbHandler \<Rightarrow> smb_mount | SshfsHandler \<Rightarrow> sshfs_mount)"

section \<open>The trait\<close>

definition host_of :: "mount_type \<Rightarrow> string" where
  "host_of mt =
     (case mt of Nfs h _ _ \<Rightarrow> h | Smb h _ _ _ _ _ \<Rightarrow> h | Sshfs h _ _ _ _ _ \<Rightarrow> h)"

text \<open>The part of \<open>parsed_url\<close> the crate documents: the host is one name, without a slash.\<close>

definition hosts_slash_free :: "url_parser \<Rightarrow> bool" where
  "hosts_slash_free parse \<longleftrightarrow>
     (\<forall>url p h. parse url = Some p \<longrightarrow> u_host_str p = Some h \<longrightarrow> CHR ''/'' \<notin> set h)"

lemma path_components_absolute:
  assumes "\<forall>w \<in> set ws. w \<noteq> [] \<and> CHR ''/'' \<notin> set w" and "ws \<noteq> []"
  shows "path_components (''/'' @ join ''/'' ws)
    = RootDir # map path_component_of (filter (\<lambda>w. w \<noteq> ''.'') ws)"
proof -
  have "split_on CHR ''/'' (''/'' @ join ''/'' ws) = [] # ws"
    using split_on_join [of ws "CHR ''/''"] assms by simp
  moreover have "filter (\<lambda>w. w \<noteq> []) ws = ws" using assms(1) by (intro filter_True) blast
  ultimately show ?thesis by (simp add: path_components_def)
qed

lemma join_append:
  "xs \<noteq> [] \<Longrightarrow> ys \<noteq> [] \<Longrightarrow> join sep (xs @ ys) = join sep xs @ sep @ join sep ys"
proof (induction xs)
  case (Cons x xs)
  then show ?case by (cases "xs = []") (simp_all add: join_Cons)
qed simp

text \<open>Below the base directory: the directory of the host and then plain names.\<close>

definition confined :: "string \<Rightarrow> string \<Rightarrow> string \<Rightarrow> bool" where
  "confined suf host path \<longleftrightarrow>
     (\<exists>ws. path_components path =
        [RootDir, Normal ''mnt'', Normal ''fuji'', Normal (host @ suf)] @ map Normal ws)"

lemma confined_join:
  assumes "CHR ''/'' \<notin> set host" and "CHR ''/'' \<notin> set suf" and "length suf > 2"
    and "\<forall>w \<in> set cs. w \<noteq> [] \<and> CHR ''/'' \<notin> set w \<and> \<not> sublist ''..'' w"
  shows "confined suf host (''/'' @ join ''/'' ([''mnt'', ''fuji'', host @ suf] @ cs))"
proof -
  have "host @ suf \<noteq> ''.''" and "host @ suf \<noteq> ''..''" and "host @ suf \<noteq> []"
    using assms(3) by (auto dest!: arg_cong [where f = length])
  moreover have names: "map path_component_of (filter (\<lambda>w. w \<noteq> ''.'') cs)
      = map Normal (filter (\<lambda>w. w \<noteq> ''.'') cs)"
    using assms(4) by (intro map_cong) (auto simp: path_component_of_def)
  moreover have "\<forall>w \<in> set ([''mnt'', ''fuji'', host @ suf] @ cs). w \<noteq> [] \<and> CHR ''/'' \<notin> set w"
    using assms(1,2,4) \<open>host @ suf \<noteq> []\<close> by auto
  ultimately have "path_components (''/'' @ join ''/'' ([''mnt'', ''fuji'', host @ suf] @ cs))
      = [RootDir, Normal ''mnt'', Normal ''fuji'', Normal (host @ suf)]
        @ map Normal (filter (\<lambda>w. w \<noteq> ''.'') cs)"
    by (subst path_components_absolute) (simp_all add: path_component_of_def)
  then show ?thesis unfolding confined_def by blast
qed

lemma base_join:
  assumes "CHR ''/'' \<notin> set (host @ suf)"
  shows "path_join get_mount_base_dir (host @ suf) = ''/'' @ join ''/'' [''mnt'', ''fuji'', host @ suf]"
proof -
  have "\<not> path_is_absolute (host @ suf)"
    using assms by (cases "host @ suf") (auto simp: path_is_absolute_def)
  then show ?thesis by (simp add: path_join_def get_mount_base_dir_def ends_with_def)
qed

lemma path_join_relative:
  "\<not> path_is_absolute r \<Longrightarrow> b \<noteq> [] \<Longrightarrow> \<not> ends_with b ''/'' \<Longrightarrow> path_join b r = b @ ''/'' @ r"
  by (simp add: path_join_def)

lemma url_mount_point_confined:
  assumes "url_mount_point suf parse url = Inr path" and "hosts_slash_free parse"
    and "CHR ''/'' \<notin> set suf" and "length suf > 2"
  shows "\<exists>p host. parse url = Some p \<and> u_host_str p = Some host \<and> confined suf host path"
proof -
  from assms(1) obtain p host where p: "parse url = Some p" and host: "u_host_str p = Some host"
    by (auto simp: url_mount_point_def and_then_Inr_iff ok_or_Inr_iff)
  with assms(2) have h: "CHR ''/'' \<notin> set host" by (auto simp: hosts_slash_free_def)
  let ?base = "path_join get_mount_base_dir (host @ suf)"
  have base: "?base = ''/'' @ join ''/'' [''mnt'', ''fuji'', host @ suf]"
    using h assms(3) by (intro base_join) simp
  from confined_join [OF h assms(3,4), of "[]"] have conf: "confined suf host ?base" by (simp add: base)
  have "confined suf host path"
  proof (cases "u_path p = [] \<or> u_path p = ''/''")
    case True
    with assms(1) p host conf show ?thesis by (auto simp: url_mount_point_def Let_def)
  next
    case False
    with assms(1) p host obtain r where r: "sanitize_path_component (u_path p) = Inr r"
        and path: "path = (if r \<noteq> [] then path_join ?base r else ?base)"
      by (auto simp: url_mount_point_def and_then_Inr_iff map_err_Inr_iff Let_def)
    from sanitize_path_Inr [OF r] obtain cs where cs: "r = join ''/'' cs"
        "\<forall>w \<in> set cs. w \<noteq> [] \<and> CHR ''/'' \<notin> set w \<and> check_component w = Inr () \<and> \<not> sublist ''..'' w" .
    show ?thesis
    proof (cases "r = []")
      case True
      with path conf show ?thesis by simp
    next
      case False
      with cs(1) have "cs \<noteq> []" by auto
      then obtain w ws where "cs = w # ws" by (cases cs) auto
      with cs have "\<not> path_is_absolute r"
        by (cases ws; cases w) (auto simp: path_is_absolute_def)
      moreover have "?base \<noteq> [] \<and> \<not> ends_with ?base ''/''"
      proof -
        have "suf \<noteq> []" using assms(4) by auto
        then have "last ?base = last suf" and "?base \<noteq> []" by (simp_all add: base)
        moreover have "last suf \<noteq> CHR ''/''" using assms(3) \<open>suf \<noteq> []\<close> by (metis last_in_set)
        ultimately show ?thesis by (metis ends_with_suffix last_snoc suffix_def)
      qed
      ultimately have "path_join ?base r = ?base @ ''/'' @ r"
        by (intro path_join_relative) auto
      also have "\<dots> = ''/'' @ join ''/'' ([''mnt'', ''fuji'', host @ suf] @ cs)"
        using \<open>cs \<noteq> []\<close> by (subst join_append) (simp_all add: base cs(1))
      finally show ?thesis
        using confined_join [OF h assms(3,4), of cs] cs(2) path False by simp
    qed
  qed
  with p host show ?thesis by blast
qed

locale mount_driver =
  fixes parse_url :: "url_parser \<Rightarrow> string \<Rightarrow> driver_error + mount_type"
    and mount_point :: "url_parser \<Rightarrow> string \<Rightarrow> driver_error + string"
    and suf :: string
  assumes parse_valid: "parse_url p url = Inr mt \<Longrightarrow> validate_url p validation_config_default url = Inr ()"
    and parse_host: "parse_url p url = Inr mt \<Longrightarrow> p url = Some u \<Longrightarrow> u_host_str u = Some (host_of mt)"
    and point_url: "mount_point p url = url_mount_point suf p url"
    and suf_name: "CHR ''/'' \<notin> set suf \<and> length suf > 2"
begin

lemma parsed_host:
  assumes "parse_url p url = Inr mt"
  shows "host_of mt \<noteq> [] \<and> host_of mt \<notin> set (vc_blocked_hostnames validation_config_default)"
proof -
  from validate_url_parts [OF parse_valid [OF assms]] obtain u where u: "p url = Some u"
      "validate_hostname validation_config_default (case u_host_str u of None \<Rightarrow> [] | Some h \<Rightarrow> h) = Inr ()"
    by metis
  with validate_hostname_ok [OF u(2)] parse_host [OF assms u(1)] show ?thesis by simp
qed

lemma point_confined:
  assumes "parse_url p url = Inr mt" and "mount_point p url = Inr path" and "hosts_slash_free p"
  shows "confined suf (host_of mt) path"
  using url_mount_point_confined [OF assms(2) [unfolded point_url] assms(3)] suf_name
    parse_host [OF assms(1)] by auto

end

interpretation nfs: mount_driver nfs_parse_url nfs_generate_mount_point "''_nfs''"
  by unfold_locales
    (auto simp: nfs_parse_url_def nfs_generate_mount_point_def host_of_def fuji_res split: if_split_asm)

interpretation smb: mount_driver smb_parse_url smb_generate_mount_point "''_smb''"
  by unfold_locales
    (auto simp: smb_parse_url_def smb_generate_mount_point_def host_of_def fuji_res split: if_split_asm)

interpretation sshfs: mount_driver sshfs_parse_url sshfs_generate_mount_point "''_sshfs''"
  by unfold_locales
    (auto simp: sshfs_parse_url_def sshfs_generate_mount_point_def host_of_def fuji_res split: if_split_asm)

section \<open>Properties\<close>

text \<open>C7: whatever URL a driver accepts, the mount point it computes lies below \<open>/mnt/fuji\<close>, in the
  directory named after the host and the protocol, and no component of it leads upwards.\<close>

theorem mount_points_confined:
  assumes "handler_parse_url h parse url = Inr mt" and "handler_mount_point h parse url = Inr path"
    and "hosts_slash_free parse"
  shows "\<exists>suf ws. path_components path =
      [RootDir, Normal ''mnt'', Normal ''fuji'', Normal (host_of mt @ suf)] @ map Normal ws
    \<and> suf \<in> {''_nfs'', ''_smb'', ''_sshfs''} \<and> host_of mt \<noteq> []"
proof (cases h)
  case NfsHandler
  with assms nfs.point_confined [of parse url mt path] nfs.parsed_host [of parse url mt] show ?thesis
    by (auto simp: handler_parse_url_def handler_mount_point_def confined_def)
next
  case SmbHandler
  with assms smb.point_confined [of parse url mt path] smb.parsed_host [of parse url mt] show ?thesis
    by (auto simp: handler_parse_url_def handler_mount_point_def confined_def)
next
  case SshfsHandler
  with assms sshfs.point_confined [of parse url mt path] sshfs.parsed_host [of parse url mt] show ?thesis
    by (auto simp: handler_parse_url_def handler_mount_point_def confined_def)
qed

lemma sample_parsed:
  "nfs_parse_url sample_parser ''nfs://server.local/export/data''
     = Inr (Nfs ''server.local'' ''/export/data'' nfs_default_options)"
proof -
  have path: "count_matches ''..'' ''/export/data'' = 0"
    by (simp add: count_matches.simps)
  have "validate_url sample_parser validation_config_default ''nfs://server.local/export/data'' = Inr ()"
    by (simp add: url_eval sample_parser_def path fuji_eval)
  then show ?thesis by (simp add: nfs_parse_url_def sample_parser_def)
qed

theorem mount_points_confined_witness:
  "handler_mount_point NfsHandler sample_parser ''nfs://server.local/export/data''
      = Inr ''/mnt/fuji/server.local_nfs/export/data''
   \<and> (\<exists>suf ws. path_components ''/mnt/fuji/server.local_nfs/export/data'' =
        [RootDir, Normal ''mnt'', Normal ''fuji'', Normal (''server.local'' @ suf)] @ map Normal ws)"
proof
  show p: "handler_mount_point NfsHandler sample_parser ''nfs://server.local/export/data''
      = Inr ''/mnt/fuji/server.local_nfs/export/data''"
    by (simp add: handler_mount_point_def nfs_generate_mount_point_def url_mount_point_def
        sample_parser_def url_eval path_join_def get_mount_base_dir_def fuji_eval)
  have u: "handler_parse_url NfsHandler sample_parser ''nfs://server.local/export/data''
      = Inr (Nfs ''server.local'' ''/export/data'' nfs_default_options)"
    using sample_parsed by (simp add: handler_parse_url_def)
  have "hosts_slash_free sample_parser" by (auto simp: hosts_slash_free_def sample_parser_def)
  from mount_points_confined [OF u p this]
  show "\<exists>suf ws. path_components ''/mnt/fuji/server.local_nfs/export/data'' =
        [RootDir, Normal ''mnt'', Normal ''fuji'', Normal (''server.local'' @ suf)] @ map Normal ws"
    unfolding host_of_def mount_type.case by blast
qed

subsection \<open>Merged NFS options\<close>

definition compatible :: "string \<Rightarrow> string \<Rightarrow> bool" where
  "compatible a b \<longleftrightarrow>
     before_first CHR ''='' a \<noteq> before_first CHR ''='' b
     \<and> \<not> is_conflicting_nfs_option (before_first CHR ''='' a) (before_first CHR ''='' b)"

lemma merge_option_compatible:
  "sorted_wrt compatible opts \<Longrightarrow> sorted_wrt compatible (merge_nfs_option opts user_opt)"
  by (auto simp: merge_nfs_option_def Let_def sorted_wrt_append sorted_wrt_filter compatible_def)

lemma nfs_default_compatible: "sorted_wrt compatible nfs_default_options"
  by (simp add: nfs_default_options_def compatible_def is_conflicting_nfs_option_def
      nfs_conflicts_def before_first_def)

lemma merge_options_compatible:
  "sorted_wrt compatible opts \<Longrightarrow> sorted_wrt compatible (foldl merge_nfs_option opts user_opts)"
  by (induction user_opts arbitrary: opts) (simp_all add: merge_option_compatible)

lemma merge_options_keep:
  assumes "\<forall>x \<in> set xs. compatible opt x" and "opt \<in> set opts"
  shows "opt \<in> set (foldl merge_nfs_option opts xs)"
  using assms
proof (induction xs arbitrary: opts)
  case (Cons x xs)
  then have "opt \<in> set (merge_nfs_option opts x)"
    by (simp add: merge_nfs_option_def compatible_def Let_def)
  with Cons show ?case by simp
qed simp

text \<open>C8: the options of an NFS mount never contradict each other, whatever the user gives: no key
  occurs twice and no two options are one of the conflicting pairs.  A user option is kept unless a
  later one replaces it, and a default is kept unless the user overrides it.\<close>

theorem nfs_options_consistent:
  "(\<forall>i j. i < j \<longrightarrow> j < length (nfs_mount_options us) \<longrightarrow>
       compatible (nfs_mount_options us ! i) (nfs_mount_options us ! j))
   \<and> (\<forall>xs u ys. us = xs @ u # ys \<longrightarrow> (\<forall>y \<in> set ys. compatible u y) \<longrightarrow> u \<in> set (nfs_mount_options us))
   \<and> (\<forall>d \<in> set nfs_default_options. (\<forall>u \<in> set us. compatible d u) \<longrightarrow> d \<in> set (nfs_mount_options us))"
proof (intro conjI allI impI ballI)
  have "sorted_wrt compatible (nfs_mount_options us)"
    unfolding nfs_mount_options_def by (intro merge_options_compatible nfs_default_compatible)
  then show "compatible (nfs_mount_options us ! i) (nfs_mount_options us ! j)"
    if "i < j" and "j < length (nfs_mount_options us)" for i j
    using that by (simp add: sorted_wrt_iff_nth_less)
next
  fix xs u ys assume us: "us = xs @ u # ys" and "\<forall>y \<in> set ys. compatible u y"
  moreover have "u \<in> set (merge_nfs_option opts u)" for opts by (simp add: merge_nfs_option_def Let_def)
  ultimately show "u \<in> set (nfs_mount_options us)"
    unfolding nfs_mount_options_def by (simp add: merge_options_keep)
next
  fix d assume "d \<in> set nfs_default_options" and "\<forall>u \<in> set us. compatible d u"
  then show "d \<in> set (nfs_mount_options us)"
    unfolding nfs_mount_options_def by (intro merge_options_keep)
qed

theorem nfs_options_consistent_witness:
  "nfs_mount_options [''hard'', ''timeo=9''] = [''nolock'', ''retrans=2'', ''_netdev'', ''hard'', ''timeo=9'']
   \<and> ''hard'' \<in> set (nfs_mount_options [''hard'', ''timeo=9''])"
proof
  show "nfs_mount_options [''hard'', ''timeo=9''] = [''nolock'', ''retrans=2'', ''_netdev'', ''hard'', ''timeo=9'']"
    by (simp add: nfs_mount_options_def merge_nfs_option_def nfs_default_options_def
        is_conflicting_nfs_option_def nfs_conflicts_def before_first_def)
  have "compatible ''hard'' ''timeo=9''"
    by (simp add: compatible_def is_conflicting_nfs_option_def nfs_conflicts_def before_first_def)
  with nfs_options_consistent [of "[''hard'', ''timeo=9'']"]
  show "''hard'' \<in> set (nfs_mount_options [''hard'', ''timeo=9''])"
    by (elim conjE) (drule spec [of _ "[]"], drule spec [of _ "''hard''"], drule spec [of _ "[''timeo=9'']"], simp)
qed

subsection \<open>From a URL to a mount\<close>

lemma nfs_parsed_shape: "nfs_parse_url p url = Inr mt \<Longrightarrow> \<exists>h s. mt = Nfs h s nfs_default_options"
  by (auto simp: nfs_parse_url_def fuji_res split: if_split_asm)

lemma smb_parsed_shape: "smb_parse_url p url = Inr mt \<Longrightarrow> \<exists>h s u w. mt = Smb h s u w None []"
  by (auto simp: smb_parse_url_def smb_default_options_def fuji_res split: if_split_asm)

lemma sshfs_parsed_shape: "sshfs_parse_url p url = Inr mt \<Longrightarrow> \<exists>h u q. mt = Sshfs h u q None None []"
  by (auto simp: sshfs_parse_url_def sshfs_default_options_def fuji_res split: if_split_asm)

text \<open>a mount type that a driver parsed from a URL passes the driver's own configuration check,
  except where the URL has no share or path: SSHFS accepts a URL without a path, and SMB one whose
  path is only slashes, and both then refuse every configuration made from it.\<close>

theorem parsed_type_validates:
  assumes "handler_parse_url h parse url = Inr mt" and "mc_mount_type config = mt"
  shows "handler_validate_config h config = Inr ()
    \<longleftrightarrow> \<not> (h = SshfsHandler \<and> sshfs_path mt = []) \<and> \<not> (h = SmbHandler \<and> smb_share mt = [])"
proof (cases h)
  case NfsHandler
  with assms(1) have "nfs_parse_url parse url = Inr mt" by (simp add: handler_parse_url_def)
  from nfs.parsed_host [OF this] nfs_parsed_shape [OF this] assms(2) NfsHandler show ?thesis
    by (auto simp: handler_validate_config_def nfs_validate_config_def host_of_def)
next
  case SmbHandler
  with assms(1) have "smb_parse_url parse url = Inr mt" by (simp add: handler_parse_url_def)
  from smb.parsed_host [OF this] smb_parsed_shape [OF this] assms(2) SmbHandler show ?thesis
    by (auto simp: handler_validate_config_def smb_validate_config_def host_of_def)
next
  case SshfsHandler
  with assms(1) have "sshfs_parse_url parse url = Inr mt" by (simp add: handler_parse_url_def)
  from sshfs.parsed_host [OF this] sshfs_parsed_shape [OF this] assms(2) SshfsHandler show ?thesis
    by (auto simp: handler_validate_config_def sshfs_validate_config_def host_of_def)
qed

theorem parsed_type_validates_witness:
  "handler_validate_config NfsHandler
     (mount_config_new sample_parser 0 ''u'' (Nfs ''server.local'' ''/export/data'' nfs_default_options) ''/m'')
   = Inr ()"
proof -
  have u: "handler_parse_url NfsHandler sample_parser ''nfs://server.local/export/data''
      = Inr (Nfs ''server.local'' ''/export/data'' nfs_default_options)"
    using sample_parsed by (simp add: handler_parse_url_def)
  show ?thesis
    by (rule iffD2 [OF parsed_type_validates [OF u]]) (simp_all add: mount_config_new_def)
qed

lemma run_mount_ok:
  assumes "run_mount rx env fs remote mp options g = (g', Inr u)"
  shows "validate_mount_options validator_new fs options = Inr ()"
    and "\<exists>g1 cmd code out err. create_secure_mount_command rx fs remote mp options g = (g1, Inr cmd)
      \<and> de_run env (sc_program cmd) (sc_args cmd) = Run_exited True code out err"
  using assms
  by (auto simp: run_mount_def run_command_def output_result_def and_then_Inr_iff map_err_Inr_iff
      split: sum.splits prod.splits run_result.splits if_split_asm)


definition sample_env :: driver_env where
  "sample_env =
     \<lparr> de_run = sample_run, de_status = (\<lambda>_ _. Inr True),
       de_dependency = (\<lambda>_. Inr \<lparr> dc_available = True, dc_install_instructions = None \<rparr>),
       de_create_dir_all = (\<lambda>_. Inr ()) \<rparr>"

definition sample_config :: mount_config where
  "sample_config =
     mount_config_new sample_parser 0 ''nfs://srv/data'' (Nfs ''srv'' ''/data'' [''ro'']) ''/mnt/x''"

lemma sample_options:
  "nfs_mount_options [''ro''] = [''nolock'', ''timeo=50'', ''retrans=2'', ''soft'', ''_netdev'', ''ro'']"
  by (simp add: nfs_mount_options_def merge_nfs_option_def nfs_default_options_def
      is_conflicting_nfs_option_def nfs_conflicts_def before_first_def)

lemma sample_nfs_mount:
  "\<exists>g. nfs_mount class_regex sample_env sample_config ''/mnt/x'' globals_new = (g, Inr ())"
proof -
  let ?a = "\<lparr> al_config = allowlist_config_default,
              al_commands = map (\<lambda>c. (ac_name c, c)) default_commands \<rparr>"
  let ?opts = "[''nolock'', ''timeo=50'', ''retrans=2'', ''soft'', ''_netdev'', ''ro'']"
  let ?args = "[''-t'', ''nfs'', ''-o'', ''nolock,timeo=50,retrans=2,soft,_netdev,ro'', ''srv:/data'', ''/mnt/x'']"
  have valid: "validate_mount_options validator_new ''nfs'' ?opts = Inr ()"
    by (simp add: validator_eval fuji_eval)
  have safe: "validate_safe_string class_regex s = Inr ()"
    if "s \<in> set ([''srv:/data'', ''/mnt/x''] @ ?opts)" for s
    using that unfolding safe_string_iff [OF class_regex_classes] class_text_def
    by (auto simp: char_code_def)
  have "\<not> contains_blocked_patterns ?a ''mount'' ?args"
    by (simp add: contains_blocked_patterns_def allowlist_config_default_def)
  moreover have "validate_args class_regex ?a cmd_mount ?args = Inr ()"
    by (simp add: cmd_mount_def validate_argument_def
        validate_path_argument_def check_dangerous_def command_dangerous_chars_def
        validate_option_value_def check_pattern_def class_regex_def class_text_def fuji_eval)
  ultimately have "validate_command class_regex ?a ''mount'' ?args = Inr ()"
    by (simp add: validate_command_def get_default_mount) (simp add: cmd_mount_def)
  then have "\<exists>g c. create_secure_mount_command class_regex ''nfs'' ''srv:/data'' ''/mnt/x'' ?opts
      globals_new = (g, Inr c) \<and> sc_seccomp_profile c = Some Mount \<and> sc_program c = ''mount''
      \<and> cg_executor g = None"
    using safe
    by (simp add: create_secure_mount_command_def mount_arguments_def validate_command_allowlist_def
        get_command_allowlist_def globals_new_def allowlist_new_eq with_seccomp_profile_def
        mount_profile_def secure_command_new_def add_arg_def initialize_command_allowlist_def)
  then obtain g c where c: "create_secure_mount_command class_regex ''nfs'' ''srv:/data'' ''/mnt/x'' ?opts
      globals_new = (g, Inr c)" "sc_seccomp_profile c = Some Mount" "sc_program c = ''mount''"
      "cg_executor g = None"
    by blast
  have ok: "filter_validate_command (syscall_filter_new Mount) ''mount'' = Inr ()"
    by (simp add: filter_validate_command_def syscall_filter_new_def profile_commands_def
        file_name_def path_components_def path_component_of_def)
  have "\<exists>g. run_mount class_regex sample_env ''nfs'' ''srv:/data'' ''/mnt/x'' ?opts globals_new = (g, Inr ())"
    using c ok
    by (simp add: run_mount_def valid sample_env_def run_command_def check_profile_def sample_run_def
        output_result_def)
  moreover have "check_installed sample_env ''nfs'' = Inr ()"
    by (simp add: check_installed_def sample_env_def)
  then have "nfs_mount class_regex sample_env sample_config ''/mnt/x'' globals_new
      = run_mount class_regex sample_env ''nfs'' ''srv:/data'' ''/mnt/x'' ?opts globals_new"
    by (simp add: nfs_mount_def sample_config_def mount_config_new_def nfs_validate_config_def
        sample_options)
  ultimately show ?thesis by (simp only:)
qed


end
