(* ===== verification/Path_Security.thy ===== *)
theory Path_Security
  imports Fuji_Prelude
begin

text \<open>
  \<open>src/security/path_security.rs\<close>: the validation of paths and mount points at run time, the mounts
  that are watched, and the log of security events.

  What the file system answers is the record \<open>path_env\<close>; a directory is the names read from it and
  whether reading broke off.  Seconds are those of the clock of the system.  The report, a text of the
  statistics and events, is not modelled.
\<close>

section \<open>Paths\<close>

fun render_components :: "path_component list \<Rightarrow> string" where
  "render_components [] = []"
| "render_components (RootDir # cs) = CHR ''/'' # render_components cs"
| "render_components [CurDir] = ''.''"
| "render_components (CurDir # cs) = ''./'' @ render_components cs"
| "render_components [ParentDir] = ''..''"
| "render_components (ParentDir # cs) = ''../'' @ render_components cs"
| "render_components [Normal w] = w"
| "render_components (Normal w # cs) = w @ ''/'' @ render_components cs"

definition path_parent :: "string \<Rightarrow> string option" where
  "path_parent p =
     (case path_components p of
        [] \<Rightarrow> None
      | [RootDir] \<Rightarrow> None
      | cs \<Rightarrow> Some (render_components (butlast cs)))"

section \<open>Events and results\<close>

datatype symlink_attack_type = SystemFileSymlink | BoundaryEscape | SymlinkChain | RaceCondition | Toctou

datatype validation_status =
    Valid
  | Validation_Blocked string
  | Requires_Verification
  | Validation_Failed string

datatype integrity_status = Intact | Modified | Suspicious | Integrity_Failed | RequiresVerification

datatype path_security_event =
    PathValidation string string validation_result instant "(string, string) hashmap"
  | MountIntegrityCheck string string integrity_status instant "string list"
  | SymlinkAttack string string symlink_attack_type instant bool
  | RuntimeValidation string string validation_result instant u64
and validation_result =
    ValidationResult (vr_is_safe: bool) (vr_warning_message: "string option")
      (vr_security_events: "path_security_event list") (vr_status: validation_status)

definition result_valid :: validation_result where
  "result_valid = ValidationResult True None [] Valid"

definition result_blocked :: "string \<Rightarrow> string \<Rightarrow> validation_result" where
  "result_blocked message reason = ValidationResult False (Some message) [] (Validation_Blocked reason)"

section \<open>Profiles\<close>

datatype security_profile = Minimal | Standard | High | Maximum

definition max_symlink_depth :: "security_profile \<Rightarrow> nat" where
  "max_symlink_depth p = (case p of Minimal \<Rightarrow> 5 | Standard \<Rightarrow> 3 | High \<Rightarrow> 2 | Maximum \<Rightarrow> 1)"

definition validation_interval :: "security_profile \<Rightarrow> duration" where
  "validation_interval p =
     (case p of Minimal \<Rightarrow> secs 300 | Standard \<Rightarrow> secs 120 | High \<Rightarrow> secs 60 | Maximum \<Rightarrow> secs 30)"

definition max_mount_age :: "security_profile \<Rightarrow> duration" where
  "max_mount_age p =
     (case p of Minimal \<Rightarrow> secs 86400 | Standard \<Rightarrow> secs 43200 | High \<Rightarrow> secs 21600 | Maximum \<Rightarrow> secs 10800)"

fun show_security_profile :: "security_profile \<Rightarrow> string" where
  "show_security_profile Minimal = ''Minimal''"
| "show_security_profile Standard = ''Standard''"
| "show_security_profile High = ''High''"
| "show_security_profile Maximum = ''Maximum''"

section \<open>The validator\<close>

record mount_security_config =
  msc_mount_id :: string
  msc_mount_point :: string
  msc_source_path :: string
  msc_mount_time :: instant
  msc_allowed_paths :: "string list"
  msc_security_profile :: security_profile
  msc_integrity_hash :: "string option"

record path_validator =
  pv_mounts :: "(string, mount_security_config) hashmap"
  pv_security_events :: "path_security_event list"
  pv_blocked_paths :: "string list"
  pv_dangerous_system_files :: "string list"
  pv_security_profile :: security_profile

datatype link_view =
    Link string
  | Link_unreadable string
  | Not_link
  | Link_error string

record path_env =
  pe_exists :: "string \<Rightarrow> bool"
  pe_is_dir :: "string \<Rightarrow> bool"
  pe_canonicalize :: "string \<Rightarrow> string option"
  pe_link :: "string \<Rightarrow> link_view"
  pe_modified :: "string \<Rightarrow> int option"
  pe_read_dir :: "string \<Rightarrow> (string list \<times> bool) option"
  pe_now :: instant

datatype path_error =
    MountPointMissing string
  | MountPointNotDir string
  | MetadataError
  | SymlinkDepth nat
  | SymlinkRead string
  | SymlinkMetadata string
  | WriteDenied string

definition path_validator_new :: "security_profile \<Rightarrow> path_validator" where
  "path_validator_new profile =
     \<lparr> pv_mounts = [], pv_security_events = [], pv_blocked_paths = [],
       pv_dangerous_system_files =
         [''/etc/passwd'', ''/etc/shadow'', ''/etc/group'', ''/etc/sudoers'', ''/etc/hosts'', ''/etc/crontab'',
          ''/bin/sh'', ''/bin/bash'', ''/bin/su'', ''/bin/sudo'', ''/usr/bin/passwd'', ''/usr/bin/chsh'',
          ''/root'', ''/var/log'', ''/var/spool'', ''/tmp/.X11-unix'',
          ''/proc/kcore'', ''/proc/kmsg'', ''/dev/mem'', ''/dev/kmem'', ''/dev/port'',
          ''/root/.ssh'', ''/home/*/.ssh'', ''/etc/ssh'', ''/etc/my.cnf'', ''/etc/postgresql''],
       pv_security_profile = profile \<rparr>"

text \<open>\<open>drain(0..500)\<close> when there are a thousand.\<close>

definition log_security_event :: "path_security_event \<Rightarrow> path_validator \<Rightarrow> path_validator" where
  "log_security_event event v =
     (let events = (if length (pv_security_events v) \<ge> 1000 then drop 500 (pv_security_events v)
                    else pv_security_events v)
      in v\<lparr>pv_security_events := events @ [event]\<rparr>)"

definition get_mount_config :: "string \<Rightarrow> path_validator \<Rightarrow> mount_security_config option" where
  "get_mount_config mount_id v = hm_get (pv_mounts v) mount_id"

definition is_path_blocked :: "path_validator \<Rightarrow> string \<Rightarrow> bool" where
  "is_path_blocked v path = list_ex (\<lambda>blocked. starts_with path blocked) (pv_blocked_paths v)"

definition block_path :: "string \<Rightarrow> path_validator \<Rightarrow> path_validator" where
  "block_path path v =
     (if path \<in> set (pv_blocked_paths v) then v else v\<lparr>pv_blocked_paths := pv_blocked_paths v @ [path]\<rparr>)"

definition dangerous_locations :: "string list" where
  "dangerous_locations =
     [''/bin'', ''/sbin'', ''/usr/bin'', ''/usr/sbin'', ''/etc'', ''/boot'', ''/sys'', ''/proc'', ''/dev'']"

definition validate_mount_point :: "path_env \<Rightarrow> string \<Rightarrow> path_error + validation_result" where
  "validate_mount_point env mount_point =
     (if \<not> pe_exists env mount_point then Inl (MountPointMissing mount_point)
      else if \<not> pe_is_dir env mount_point then Inl (MountPointNotDir mount_point)
      else case find (\<lambda>location. path_starts_with mount_point location) dangerous_locations of
             Some location \<Rightarrow>
               (let message = ''Mount point in dangerous location: '' @ location
                in Inr (result_blocked message message))
           | None \<Rightarrow> Inr result_valid)"

text \<open>\<open>modified\<close> in whole seconds since the epoch.\<close>

definition calculate_mount_integrity_hash :: "path_env \<Rightarrow> string \<Rightarrow> path_error + string option" where
  "calculate_mount_integrity_hash env mount_point =
     (case pe_modified env mount_point of
        None \<Rightarrow> Inl MetadataError
      | Some s \<Rightarrow> (if s < 0 then Inl MetadataError else Inr (Some (mount_point @ ''-'' @ show_nat (nat s)))))"

definition registration_event ::
    "string \<Rightarrow> string \<Rightarrow> instant \<Rightarrow> (string, string) hashmap \<Rightarrow> path_security_event" where
  "registration_event path operation now context' = PathValidation path operation result_valid now context'"

definition register_mount ::
    "path_env \<Rightarrow> string \<Rightarrow> string \<Rightarrow> string \<Rightarrow> string list \<Rightarrow> path_validator \<Rightarrow>
     path_validator \<times> (path_error + unit)" where
  "register_mount env mount_id mount_point source_path allowed_paths v =
     (case validate_mount_point env mount_point of
        Inl e \<Rightarrow> (v, Inl e)
      | Inr _ \<Rightarrow>
          (case calculate_mount_integrity_hash env mount_point of
             Inl e \<Rightarrow> (v, Inl e)
           | Inr integrity_hash \<Rightarrow>
               (let config = \<lparr> msc_mount_id = mount_id, msc_mount_point = mount_point, msc_source_path = source_path,
                               msc_mount_time = pe_now env, msc_allowed_paths = allowed_paths,
                               msc_security_profile = pv_security_profile v, msc_integrity_hash = integrity_hash \<rparr>
                in (log_security_event
                      (registration_event mount_point ''mount_registration'' (pe_now env)
                        [(''mount_id'', mount_id),
                         (''security_profile'', show_security_profile (pv_security_profile v))])
                      (v\<lparr>pv_mounts := hm_insert mount_id config (pv_mounts v)\<rparr>), Inr ()))))"

definition unregister_mount :: "instant \<Rightarrow> string \<Rightarrow> path_validator \<Rightarrow> path_validator" where
  "unregister_mount now mount_id v =
     (let v1 = v\<lparr>pv_mounts := hm_remove mount_id (pv_mounts v)\<rparr>
      in case hm_get (pv_mounts v) mount_id of
           None \<Rightarrow> v1
         | Some config \<Rightarrow>
             log_security_event
               (registration_event (msc_mount_point config) ''mount_unregistration'' now [(''mount_id'', mount_id)]) v1)"

section \<open>Validating a path\<close>

text \<open>The walk along the links of a path; it counts them up to the limit.\<close>

function validate_symlink_depth :: "path_env \<Rightarrow> nat \<Rightarrow> nat \<Rightarrow> string \<Rightarrow> path_error + unit" where
  "validate_symlink_depth env max_depth current_depth current_path =
     (case pe_link env current_path of
        Link_error e \<Rightarrow> Inl (SymlinkMetadata e)
      | Not_link \<Rightarrow> Inr ()
      | Link_unreadable e \<Rightarrow>
          (if current_depth + 1 > max_depth then Inl (SymlinkDepth max_depth) else Inl (SymlinkRead e))
      | Link target \<Rightarrow>
          (if current_depth + 1 > max_depth then Inl (SymlinkDepth max_depth)
           else validate_symlink_depth env max_depth (current_depth + 1)
                  (if path_is_absolute target then target
                   else path_join (case path_parent current_path of Some p \<Rightarrow> p | None \<Rightarrow> ''/'') target)))"
  by pat_completeness auto

termination
  by (relation "measure (\<lambda>(env, max_depth, current_depth, p). max_depth - current_depth)") auto

declare validate_symlink_depth.simps [simp del]

definition sensitive_patterns :: "string list" where
  "sensitive_patterns =
     [''/etc/'', ''/usr/bin/'', ''/usr/sbin/'', ''/bin/'', ''/sbin/'', ''/boot/'', ''/sys/'', ''/proc/'']"

definition validate_write_permissions :: "string \<Rightarrow> path_error + unit" where
  "validate_write_permissions path =
     check_all (\<lambda>pattern. ensure (\<not> starts_with path pattern) (WriteDenied pattern)) sensitive_patterns"

definition below :: "string \<Rightarrow> string \<Rightarrow> bool" where
  "below path base \<longleftrightarrow> path_eq path base \<or> path_starts_with path base"

definition dangerous_file :: "path_env \<Rightarrow> path_validator \<Rightarrow> string \<Rightarrow> string option" where
  "dangerous_file env v path =
     find (\<lambda>file. below path file
                  \<or> (case pe_canonicalize env file of Some canonical \<Rightarrow> below path canonical | None \<Rightarrow> False))
       (pv_dangerous_system_files v)"

definition validate_in_mount ::
    "path_env \<Rightarrow> (path_error \<Rightarrow> string) \<Rightarrow> mount_security_config \<Rightarrow> string \<Rightarrow> validation_result option" where
  "validate_in_mount env show_error m path =
     (if \<not> path_starts_with path (msc_mount_point m)
      then Some (result_blocked ''Path escapes mount boundaries'' ''Security violation'')
      else if msc_allowed_paths m \<noteq> [] \<and> \<not> list_ex (path_starts_with path) (msc_allowed_paths m)
      then Some (result_blocked ''Path not in allowed paths for this mount'' ''Security violation'')
      else case validate_symlink_depth env (max_symlink_depth (msc_security_profile m)) 0 path of
             Inl e \<Rightarrow>
               (let message = ''Symlink validation failed: '' @ show_error e
                in Some (result_blocked message message))
           | Inr _ \<Rightarrow> None)"

definition write_operations :: "string list" where
  "write_operations = [''write'', ''create'', ''delete'', ''execute'']"

definition validate_operation :: "(path_error \<Rightarrow> string) \<Rightarrow> string \<Rightarrow> string \<Rightarrow> validation_result" where
  "validate_operation show_error operation path =
     (if operation \<in> set write_operations
      then case validate_write_permissions path of
             Inl e \<Rightarrow> ValidationResult False (Some (show_error e)) [] (Validation_Failed (show_error e))
           | Inr _ \<Rightarrow> result_valid
      else result_valid)"

text \<open>The path is made absolute by the file system, or taken as it is.  Here the two attempts of the
  source, one after the other, are one answer.\<close>

definition absolute_path :: "path_env \<Rightarrow> string \<Rightarrow> string" where
  "absolute_path env path = (case pe_canonicalize env path of Some p \<Rightarrow> p | None \<Rightarrow> path)"

definition validate_path_at_runtime ::
    "path_env \<Rightarrow> (path_error \<Rightarrow> string) \<Rightarrow> string \<Rightarrow> string \<Rightarrow> string option \<Rightarrow> path_validator \<Rightarrow> validation_result" where
  "validate_path_at_runtime env show_error path operation mount_id v =
     (let abs_path = absolute_path env path
      in if is_path_blocked v abs_path
         then result_blocked ''Path is blocked by security policy'' ''Path is blocked by security policy''
         else case dangerous_file env v abs_path of
                Some file \<Rightarrow> result_blocked (''Access to dangerous system file: '' @ file) ''Access violation''
              | None \<Rightarrow>
                  (case (case mount_id of None \<Rightarrow> None | Some i \<Rightarrow> get_mount_config i v) of
                     None \<Rightarrow> validate_operation show_error operation abs_path
                   | Some m \<Rightarrow>
                       (case validate_in_mount env show_error m abs_path of
                          Some r \<Rightarrow> r
                        | None \<Rightarrow> validate_operation show_error operation abs_path)))"

section \<open>Integrity\<close>

text \<open>\<open>duration_since\<close> of a time in the future is taken as zero.\<close>

definition check_mount_integrity :: "path_env \<Rightarrow> int \<Rightarrow> string \<Rightarrow> string \<Rightarrow> path_validator \<Rightarrow> integrity_status" where
  "check_mount_integrity env now_secs mount_id mount_point v =
     (if \<not> pe_exists env mount_point then Integrity_Failed
      else if get_mount_config mount_id v \<noteq> None
              \<and> (case pe_modified env mount_point of Some s \<Rightarrow> max 0 (now_secs - s) < 300 | None \<Rightarrow> False)
      then RequiresVerification
      else case pe_read_dir env mount_point of
             None \<Rightarrow> Intact
           | Some (names, _) \<Rightarrow>
               (if list_ex (\<lambda>name. list_ex (contains_str name) [''su'', ''passwd'', ''shadow'', ''sudoers'']) names
                then Suspicious else Intact))"

text \<open>Suspicious files are only logged; the result tells whether the directory could be read to its end.\<close>

definition check_suspicious_files :: "path_env \<Rightarrow> string \<Rightarrow> path_error + unit" where
  "check_suspicious_files env mount_point =
     (case pe_read_dir env mount_point of
        None \<Rightarrow> Inr ()
      | Some (_, broken) \<Rightarrow> (if broken then Inl MetadataError else Inr ()))"

definition validate_mount_integrity :: "path_env \<Rightarrow> mount_security_config \<Rightarrow> path_error + integrity_status" where
  "validate_mount_integrity env config =
     (if \<not> pe_exists env (msc_mount_point config) then Inr Integrity_Failed
      else if pe_now env - msc_mount_time config > max_mount_age (msc_security_profile config) then Inr Modified
      else and_then (calculate_mount_integrity_hash env (msc_mount_point config))
             (\<lambda>current. case (msc_integrity_hash config, current) of
                (Some stored, Some current) \<Rightarrow>
                  (if stored \<noteq> current then Inr Suspicious
                   else case check_suspicious_files env (msc_mount_point config) of
                          Inl _ \<Rightarrow> Inr Suspicious | Inr _ \<Rightarrow> Inr Intact)
              | _ \<Rightarrow> Inr RequiresVerification))"

fun validate_each :: "path_env \<Rightarrow> (string \<times> mount_security_config) list \<Rightarrow> path_error + (string \<times> integrity_status) list" where
  "validate_each env [] = Inr []"
| "validate_each env ((mount_id, config) # ms) =
     and_then (validate_mount_integrity env config)
       (\<lambda>status. and_then (validate_each env ms) (\<lambda>results. Inr ((mount_id, status) # results)))"

definition validate_all_mounts :: "path_env \<Rightarrow> path_validator \<Rightarrow> path_error + (string \<times> integrity_status) list" where
  "validate_all_mounts env v = validate_each env (pv_mounts v)"

section \<open>The log\<close>

definition get_security_events :: "nat \<Rightarrow> path_validator \<Rightarrow> path_security_event list" where
  "get_security_events limit v =
     (let events = pv_security_events v; len = length events
      in if len > limit then drop (len - limit) events else events)"

fun is_validation :: "path_security_event \<Rightarrow> bool" where
  "is_validation (PathValidation _ _ _ _ _) = True" | "is_validation _ = False"

fun is_integrity_check :: "path_security_event \<Rightarrow> bool" where
  "is_integrity_check (MountIntegrityCheck _ _ _ _ _) = True" | "is_integrity_check _ = False"

fun is_symlink_attack :: "path_security_event \<Rightarrow> bool" where
  "is_symlink_attack (SymlinkAttack _ _ _ _ _) = True" | "is_symlink_attack _ = False"

fun is_runtime_validation :: "path_security_event \<Rightarrow> bool" where
  "is_runtime_validation (RuntimeValidation _ _ _ _ _) = True" | "is_runtime_validation _ = False"

fun is_blocked_event :: "path_security_event \<Rightarrow> bool" where
  "is_blocked_event (PathValidation _ _ r _ _) = (case vr_status r of Validation_Blocked _ \<Rightarrow> True | _ \<Rightarrow> False)"
| "is_blocked_event _ = False"

fun is_failed_event :: "path_security_event \<Rightarrow> bool" where
  "is_failed_event (PathValidation _ _ r _ _) = (case vr_status r of Validation_Failed _ \<Rightarrow> True | _ \<Rightarrow> False)"
| "is_failed_event _ = False"

definition count_events :: "(path_security_event \<Rightarrow> bool) \<Rightarrow> path_validator \<Rightarrow> u64" where
  "count_events p v = of_nat (length (filter p (pv_security_events v)))"

definition get_security_statistics :: "path_validator \<Rightarrow> (string, u64) hashmap" where
  "get_security_statistics v =
     [(''total_events'', of_nat (length (pv_security_events v))),
      (''validation_events'', count_events is_validation v),
      (''integrity_events'', count_events is_integrity_check v),
      (''symlink_events'', count_events is_symlink_attack v),
      (''runtime_events'', count_events is_runtime_validation v),
      (''blocked_paths'', count_events is_blocked_event v),
      (''failed_validations'', count_events is_failed_event v),
      (''total_blocked_paths'', of_nat (length (pv_blocked_paths v))),
      (''monitored_mounts'', of_nat (length (pv_mounts v)))]"

section \<open>Lemmas\<close>

definition follow_link :: "string \<Rightarrow> string \<Rightarrow> string" where
  "follow_link p target =
     (if path_is_absolute target then target
      else path_join (case path_parent p of Some d \<Rightarrow> d | None \<Rightarrow> ''/'') target)"

text \<open>A path from which exactly \<open>k\<close> links lead to something that is no link.\<close>

fun link_chain :: "path_env \<Rightarrow> nat \<Rightarrow> string \<Rightarrow> bool" where
  "link_chain env 0 p = (pe_link env p = Not_link)"
| "link_chain env (Suc k) p = (case pe_link env p of Link target \<Rightarrow> link_chain env k (follow_link p target) | _ \<Rightarrow> False)"

lemma symlink_walk:
  "validate_symlink_depth env max_depth (max_depth - n) p = Inr () \<longleftrightarrow> (\<exists>k. k \<le> n \<and> link_chain env k p)"
  if "n \<le> max_depth" for n
  using that
proof (induction n arbitrary: p)
  case 0
  show ?case
    by (cases "pe_link env p") (simp_all add: validate_symlink_depth.simps [of env max_depth])
next
  case (Suc n)
  have next_depth: "max_depth - Suc n + 1 = max_depth - n" using Suc.prems by simp
  have within: "\<not> max_depth < max_depth - n" by simp
  have split_first: "(\<exists>k. k \<le> Suc n \<and> P k) \<longleftrightarrow> P 0 \<or> (\<exists>k. k \<le> n \<and> P (Suc k))" for P
    by (metis Suc_le_mono not0_implies_Suc zero_le)
  show ?case
  proof (cases "pe_link env p")
    case (Link target)
    then have "validate_symlink_depth env max_depth (max_depth - Suc n) p
        = validate_symlink_depth env max_depth (max_depth - n) (follow_link p target)"
      using Suc.prems next_depth within
      by (simp add: validate_symlink_depth.simps [of env max_depth "max_depth - Suc n"] follow_link_def)
    with Suc Link show ?thesis by (simp add: split_first)
  qed (simp_all add: split_first validate_symlink_depth.simps [of env max_depth])
qed

lemma find_None_not: "find P xs = None \<Longrightarrow> x \<in> set xs \<Longrightarrow> \<not> P x"
  by (simp add: find_None_iff)

section \<open>Properties\<close>

text \<open>the walk along the symbolic links of a path ends, and accepts it exactly if at most the allowed
  number of links leads to something that is no link.\<close>

theorem symlink_depth_exact:
  "validate_symlink_depth env (max_symlink_depth profile) 0 p = Inr ()
     \<longleftrightarrow> (\<exists>k. k \<le> max_symlink_depth profile \<and> link_chain env k p)"
  using symlink_walk [of "max_symlink_depth profile" "max_symlink_depth profile" env p] by simp

text \<open>C21: a path that is found safe for a mount lies in the mount and in one of its allowed paths, is not
  blocked, not below a file held to be dangerous, reached over few enough links, and not in a system
  directory if it is to be changed.\<close>

theorem validated_path_confined:
  assumes "vr_is_safe (validate_path_at_runtime env show_error path operation (Some i) v)" "get_mount_config i v = Some m"
  shows "case absolute_path env path of p \<Rightarrow>
    path_starts_with p (msc_mount_point m)
    \<and> (msc_allowed_paths m = [] \<or> list_ex (path_starts_with p) (msc_allowed_paths m))
    \<and> \<not> list_ex (\<lambda>b. starts_with p b) (pv_blocked_paths v)
    \<and> \<not> list_ex (\<lambda>file. path_eq p file \<or> path_starts_with p file) (pv_dangerous_system_files v)
    \<and> (\<exists>k. k \<le> max_symlink_depth (msc_security_profile m) \<and> link_chain env k p)
    \<and> \<not> (operation \<in> set write_operations \<and> list_ex (\<lambda>d. starts_with p d) sensitive_patterns)"
proof -
  let ?p = "absolute_path env path"
  have unblocked: "\<not> is_path_blocked v ?p"
    using assms(1) by (auto simp: validate_path_at_runtime_def Let_def result_blocked_def)
  have harmless: "dangerous_file env v ?p = None"
    using assms(1) unblocked by (auto simp: validate_path_at_runtime_def Let_def result_blocked_def split: option.splits)
  have inside: "validate_in_mount env show_error m ?p = None"
    using assms unblocked harmless
    by (auto simp: validate_path_at_runtime_def Let_def validate_in_mount_def result_blocked_def split: option.splits if_splits sum.splits)
  then have oper: "vr_is_safe (validate_operation show_error operation ?p)"
    using assms unblocked harmless by (simp add: validate_path_at_runtime_def Let_def)
  have "path_starts_with ?p (msc_mount_point m)
      \<and> (msc_allowed_paths m = [] \<or> list_ex (path_starts_with ?p) (msc_allowed_paths m))
      \<and> validate_symlink_depth env (max_symlink_depth (msc_security_profile m)) 0 ?p = Inr ()"
    using inside by (auto simp: validate_in_mount_def Let_def split: if_splits sum.splits)
  moreover have "\<not> below ?p f" if "f \<in> set (pv_dangerous_system_files v)" for f
    using find_None_not [OF harmless [unfolded dangerous_file_def] that] by simp
  moreover have "\<not> (operation \<in> set write_operations \<and> list_ex (\<lambda>d. starts_with ?p d) sensitive_patterns)"
    using oper
    by (auto simp: validate_operation_def validate_write_permissions_def fuji_res list_ex_iff
        split: if_splits sum.splits)
  ultimately show ?thesis
    using unblocked symlink_walk [of "max_symlink_depth (msc_security_profile m)" "max_symlink_depth (msc_security_profile m)"]
    by (auto simp: is_path_blocked_def below_def list_ex_iff)
qed

definition sample_path_env :: path_env where
  "sample_path_env =
     \<lparr> pe_exists = (\<lambda>_. True), pe_is_dir = (\<lambda>_. True), pe_canonicalize = Some, pe_link = (\<lambda>_. Not_link),
       pe_modified = (\<lambda>_. Some 0), pe_read_dir = (\<lambda>_. None), pe_now = 0 \<rparr>"

theorem validated_path_confined_witness:
  "\<exists>m. get_mount_config ''a'' (fst (register_mount sample_path_env ''a'' ''/mnt/a'' ''s'' [''/mnt/a''] (path_validator_new High)))
       = Some m
     \<and> path_starts_with (absolute_path sample_path_env ''/mnt/a/f'') (msc_mount_point m) \<and> msc_mount_point m = ''/mnt/a''"
proof -
  let ?v = "fst (register_mount sample_path_env ''a'' ''/mnt/a'' ''s'' [''/mnt/a''] (path_validator_new High))"
  have reg: "\<exists>m. get_mount_config ''a'' ?v = Some m \<and> msc_mount_point m = ''/mnt/a'' \<and> msc_allowed_paths m = [''/mnt/a'']"
    by (simp add: register_mount_def validate_mount_point_def sample_path_env_def dangerous_locations_def
        path_starts_with_def path_components_def path_component_of_def result_valid_def
        calculate_mount_integrity_hash_def Let_def log_security_event_def get_mount_config_def path_validator_new_def
        hm.get_insert)
  then obtain m where m: "get_mount_config ''a'' ?v = Some m" "msc_mount_point m = ''/mnt/a''"
    "msc_allowed_paths m = [''/mnt/a'']" by blast
  have v: "pv_blocked_paths ?v = []" "pv_dangerous_system_files ?v = pv_dangerous_system_files (path_validator_new High)"
    by (simp_all add: register_mount_def log_security_event_def path_validator_new_def Let_def split: sum.split)
  have "dangerous_file sample_path_env ?v ''/mnt/a/f'' = None"
    unfolding dangerous_file_def v
    by (simp add: path_validator_new_def sample_path_env_def below_def path_eq_def path_starts_with_def
        path_components_def path_component_of_def)
  moreover have "validate_in_mount sample_path_env show_error m ''/mnt/a/f'' = None" for show_error
    by (simp add: validate_in_mount_def m path_starts_with_def path_components_def path_component_of_def
        validate_symlink_depth.simps sample_path_env_def)
  moreover have "validate_operation show_error ''write'' ''/mnt/a/f'' = result_valid" for show_error
    by (simp add: validate_operation_def validate_write_permissions_def sensitive_patterns_def write_operations_def)
  ultimately have "vr_is_safe (validate_path_at_runtime sample_path_env (\<lambda>_. []) ''/mnt/a/f'' ''write'' (Some ''a'') ?v)"
    using m(1) by (simp add: validate_path_at_runtime_def Let_def absolute_path_def is_path_blocked_def v result_valid_def
        sample_path_env_def [THEN arg_cong, of pe_canonicalize])
  from validated_path_confined [OF this m(1)] m show ?thesis by auto
qed

text \<open>a mount point is accepted exactly if it is a directory and none of the listed locations is a
  prefix of its components; but parent directories are not resolved: a path that climbs into a system
  directory is accepted.\<close>

theorem mount_point_accepted:
  "(\<exists>r. validate_mount_point env p = Inr r \<and> vr_is_safe r) =
     (pe_exists env p \<and> pe_is_dir env p \<and> \<not> list_ex (path_starts_with p) dangerous_locations)
   \<and> validate_mount_point (env\<lparr>pe_exists := \<lambda>_. True, pe_is_dir := \<lambda>_. True\<rparr>) ''/mnt/../etc'' = Inr result_valid
   \<and> \<not> vr_is_safe (projr (validate_mount_point (env\<lparr>pe_exists := \<lambda>_. True, pe_is_dir := \<lambda>_. True\<rparr>) ''/etc''))"
proof (intro conjI)
  show "(\<exists>r. validate_mount_point env p = Inr r \<and> vr_is_safe r) =
     (pe_exists env p \<and> pe_is_dir env p \<and> \<not> list_ex (path_starts_with p) dangerous_locations)"
    by (auto simp: validate_mount_point_def Let_def result_blocked_def result_valid_def find_None_iff find_Some_iff
        list_ex_iff split: option.splits)
qed (simp_all add: validate_mount_point_def dangerous_locations_def path_starts_with_def path_components_def
      path_component_of_def result_blocked_def Let_def)

datatype path_op =
    Register path_env string string string "string list"
  | Unregister instant string
  | Log path_security_event
  | Block string

fun path_step :: "path_op \<Rightarrow> path_validator \<Rightarrow> path_validator" where
  "path_step (Register env i point source allowed) v = fst (register_mount env i point source allowed v)"
| "path_step (Unregister now i) v = unregister_mount now i v"
| "path_step (Log event) v = log_security_event event v"
| "path_step (Block p) v = block_path p v"

definition log_bounded :: "path_validator \<Rightarrow> bool" where
  "log_bounded v \<longleftrightarrow> length (pv_security_events v) \<le> 1000 \<and> distinct (pv_blocked_paths v)"

lemma log_bounded_log: "log_bounded v \<Longrightarrow> log_bounded (log_security_event event v)"
  by (auto simp: log_bounded_def log_security_event_def Let_def)

interpretation pv: component path_step log_bounded
proof
  show "log_bounded (path_step oper v)" if "log_bounded v" for oper v
  proof (cases oper)
    case (Register env i point source allowed)
    with that show ?thesis
      by (auto simp: register_mount_def Let_def split: sum.splits intro!: log_bounded_log) (auto simp: log_bounded_def)
  next
    case (Unregister now i)
    with that show ?thesis
      by (auto simp: unregister_mount_def Let_def split: option.splits intro!: log_bounded_log) (auto simp: log_bounded_def)
  next
    case (Block p)
    with that show ?thesis by (simp add: block_path_def log_bounded_def)
  qed (use that in \<open>simp add: log_bounded_log\<close>)
qed

text \<open>however the validator is used, its log holds at most a thousand events, every event of it is
  counted under one of the four kinds, and what is returned are the last ones.\<close>

theorem event_log_bounded:
  "case fold path_step ops (path_validator_new profile) of v \<Rightarrow>
     length (pv_security_events v) \<le> 1000 \<and> distinct (pv_blocked_paths v)
     \<and> hm_get (get_security_statistics v) ''total_events''
       = Some (count_events is_validation v + count_events is_integrity_check v
               + count_events is_symlink_attack v + count_events is_runtime_validation v)
     \<and> (\<exists>older. pv_security_events v = older @ get_security_events limit v)
     \<and> length (get_security_events limit v) = min limit (length (pv_security_events v))"
proof -
  let ?v = "fold path_step ops (path_validator_new profile)"
  have bounded: "log_bounded ?v" by (rule pv.inv_run) (simp add: log_bounded_def path_validator_new_def)
  have kinds: "length es = length (filter is_validation es) + length (filter is_integrity_check es)
      + length (filter is_symlink_attack es) + length (filter is_runtime_validation es)" for es
  proof (induction es)
    case (Cons e es)
    then show ?case by (cases e) simp_all
  qed simp
  let ?es = "pv_security_events ?v"
  have total: "of_nat (length ?es) = (of_nat (length (filter is_validation ?es))
      + of_nat (length (filter is_integrity_check ?es)) + of_nat (length (filter is_symlink_attack ?es))
      + of_nat (length (filter is_runtime_validation ?es)) :: u64)"
    using arg_cong [OF kinds [of ?es], of "of_nat :: nat \<Rightarrow> u64"] by (simp only: of_nat_add)
  have stat: "hm_get (get_security_statistics v) ''total_events'' = Some (of_nat (length (pv_security_events v)))" for v
    by (simp add: get_security_statistics_def hm_get_def)
  have "hm_get (get_security_statistics ?v) ''total_events''
      = Some (count_events is_validation ?v + count_events is_integrity_check ?v
              + count_events is_symlink_attack ?v + count_events is_runtime_validation ?v)"
    by (simp only: stat total count_events_def)
  moreover have "pv_security_events ?v = take (length (pv_security_events ?v) - limit) (pv_security_events ?v)
      @ get_security_events limit ?v"
    by (simp add: get_security_events_def Let_def)
  moreover have "length (get_security_events limit ?v) = min limit (length (pv_security_events ?v))"
    by (simp add: get_security_events_def Let_def)
  ultimately show ?thesis using bounded unfolding log_bounded_def by blast
qed

text \<open>the pattern for the keys of users is compared as a name: the keys of a user are not protected.\<close>

theorem home_keys_unprotected:
  "vr_is_safe (validate_path_at_runtime (env\<lparr>pe_canonicalize := \<lambda>p. Some p\<rparr>) show_error ''/home/u/.ssh/id_rsa'' ''read'' None
     (path_validator_new High))"
  by (simp add: validate_path_at_runtime_def Let_def absolute_path_def is_path_blocked_def path_validator_new_def
      dangerous_file_def below_def path_eq_def path_starts_with_def path_components_def path_component_of_def
      validate_operation_def write_operations_def result_valid_def)

end
