(* ===== verification/Access_Control.thy ===== *)
theory Access_Control
  imports Path_Security
begin

unbundle bit_operations_syntax

text \<open>
  Access to the daemon and to mount points: the tokens of \<open>src/security/auth.rs\<close>, the ownership and modes of
  \<open>src/security/permissions.rs\<close> and the socket file of \<open>src/security/socket.rs\<close>.

  Encoding and checking a token is done by the \<open>jsonwebtoken\<close> crate, the key pair by \<open>ring\<close>: both are the
  functions \<open>jw_encode\<close> and \<open>jw_decode\<close>, whose documented behaviour is \<open>jwt_ok\<close>.
\<close>

section \<open>Tokens\<close>

record fuji_claims =
  fc_sub :: string
  fc_iat :: nat
  fc_exp :: nat
  fc_iss :: string
  fc_mounts :: "string set"
  fc_roles :: "string set"

record jwt_crate =
  jw_encode :: "fuji_claims \<Rightarrow> string option"
  jw_decode :: "string \<Rightarrow> nat \<Rightarrow> string \<Rightarrow> fuji_claims option"
  jw_base64 :: "string \<Rightarrow> string option"
  jw_json_exp :: "string \<Rightarrow> nat option option"

text \<open>A token decodes to the claims it was made of if the issuer is the expected one and it has not expired
  by more than the sixty seconds that the crate leaves by default; its payload then has that expiry.\<close>

definition leeway :: nat where "leeway = 60"

definition jwt_ok :: "jwt_crate \<Rightarrow> bool" where
  "jwt_ok j =
     (\<forall>c token issuer now. jw_encode j c = Some token \<longrightarrow>
        token \<noteq> [] \<and>
        jw_decode j issuer now token = (if fc_iss c = issuer \<and> now \<le> fc_exp c + leeway then Some c else None) \<and>
        (\<exists>a b s payload. split_on CHR ''.'' token = [a, b, s] \<and> jw_base64 j b = Some payload
            \<and> jw_json_exp j payload = Some (Some (fc_exp c))))"

record jwt_authenticator =
  ja_expiration :: nat
  ja_issuer :: string
  ja_revoked_tokens :: "string list"

datatype auth_error =
    Empty_User_Id | Jwt_Encoding_Failed | Empty_Token | Revoked_Store_Busy | Token_Revoked | Invalid_Token
  | Token_Parts nat | Token_Payload | Token_Claims

definition jwt_authenticator_new :: jwt_authenticator where
  "jwt_authenticator_new = \<lparr> ja_expiration = 3600, ja_issuer = ''fuji-daemon'', ja_revoked_tokens = [] \<rparr>"

definition with_expiration :: "nat \<Rightarrow> jwt_authenticator \<Rightarrow> jwt_authenticator" where
  "with_expiration e a = a\<lparr>ja_expiration := e\<rparr>"

definition with_issuer :: "string \<Rightarrow> jwt_authenticator \<Rightarrow> jwt_authenticator" where
  "with_issuer i a = a\<lparr>ja_issuer := i\<rparr>"

text \<open>Times are whole seconds since the epoch, as the claims hold them.\<close>

definition generate_token ::
    "jwt_crate \<Rightarrow> nat \<Rightarrow> string \<Rightarrow> string set \<Rightarrow> string set \<Rightarrow> jwt_authenticator \<Rightarrow> auth_error + string" where
  "generate_token j now user_id mounts roles a =
     (if user_id = [] then Inl Empty_User_Id
      else ok_or (jw_encode j \<lparr> fc_sub = user_id, fc_iat = now, fc_exp = now + ja_expiration a, fc_iss = ja_issuer a,
                                fc_mounts = mounts, fc_roles = roles \<rparr>) Jwt_Encoding_Failed)"

definition validate_token ::
    "jwt_crate \<Rightarrow> bool \<Rightarrow> nat \<Rightarrow> string \<Rightarrow> jwt_authenticator \<Rightarrow> auth_error + fuji_claims" where
  "validate_token j locked now token a =
     (if token = [] then Inl Empty_Token
      else if locked then Inl Revoked_Store_Busy
      else if token \<in> set (ja_revoked_tokens a) then Inl Token_Revoked
      else ok_or (jw_decode j (ja_issuer a) now token) Invalid_Token)"

definition revoke_token :: "string \<Rightarrow> jwt_authenticator \<Rightarrow> jwt_authenticator \<times> (auth_error + unit)" where
  "revoke_token token a =
     (if token = [] then (a, Inl Empty_Token)
      else (a\<lparr>ja_revoked_tokens := List.insert token (ja_revoked_tokens a)\<rparr>, Inr ()))"

definition has_mount_permission :: "fuji_claims \<Rightarrow> string \<Rightarrow> bool" where
  "has_mount_permission c mount_id =
     (mount_id \<in> fc_mounts c \<or> ''admin'' \<in> fc_roles c \<or> ''root'' \<in> fc_roles c)"

definition validate_token_structure :: "jwt_crate \<Rightarrow> string \<Rightarrow> auth_error + nat option" where
  "validate_token_structure j token =
     (case split_on CHR ''.'' token of
        [_, payload, _] \<Rightarrow>
          and_then (ok_or (jw_base64 j payload) Token_Payload)
            (\<lambda>decoded. ok_or (jw_json_exp j decoded) Token_Claims)
      | parts \<Rightarrow> Inl (Token_Parts (length parts)))"

definition is_expired_or_invalid :: "jwt_crate \<Rightarrow> nat \<Rightarrow> string \<Rightarrow> bool" where
  "is_expired_or_invalid j now token =
     (case validate_token_structure j token of
        Inr (Some exp_val) \<Rightarrow> exp_val < now
      | Inr None \<Rightarrow> False
      | Inl _ \<Rightarrow> True)"

definition cleanup_expired_tokens :: "jwt_crate \<Rightarrow> nat \<Rightarrow> jwt_authenticator \<Rightarrow> jwt_authenticator \<times> nat" where
  "cleanup_expired_tokens j now a =
     (let to_remove = filter (is_expired_or_invalid j now) (ja_revoked_tokens a)
      in (a\<lparr>ja_revoked_tokens := filter (\<lambda>t. t \<notin> set to_remove) (ja_revoked_tokens a)\<rparr>, length to_remove))"

datatype auth_op = Revoke string | Cleanup_Tokens nat

fun auth_step :: "jwt_crate \<Rightarrow> auth_op \<Rightarrow> jwt_authenticator \<Rightarrow> jwt_authenticator" where
  "auth_step j (Revoke t) a = fst (revoke_token t a)"
| "auth_step j (Cleanup_Tokens now) a = fst (cleanup_expired_tokens j now a)"

section \<open>Owners and modes\<close>

record user_mapping =
  um_username :: string
  um_uid :: u32
  um_gid :: u32
  um_groups :: "u32 list"

record permission_config =
  pc_owner_uid :: "u32 option"
  pc_owner_gid :: "u32 option"
  pc_mode :: u32
  pc_umask :: u32
  pc_inherit :: bool

definition permission_config_default :: permission_config where
  "permission_config_default =
     \<lparr> pc_owner_uid = None, pc_owner_gid = None, pc_mode = 493, pc_umask = 18, pc_inherit = True \<rparr>"

record permission_manager =
  pm_user_cache :: "(string, user_mapping) hashmap"
  pm_default_config :: permission_config

record inode =
  in_uid :: u32
  in_gid :: u32
  in_mode :: u32

type_synonym inodes = "string \<Rightarrow> inode option"

datatype permission_error =
    Passwd_Unreadable | Invalid_Uid | Invalid_Gid | Id_Failed | Invalid_Group | User_Not_Found
  | Create_Dir_Failed | Metadata_Failed | Chown_Failed | Chmod_Failed | Path_Missing

text \<open>What the process sees: itself, \<open>/etc/passwd\<close> line by line (\<open>None\<close> for a line that cannot be read), the
  output of \<open>id -G\<close>, and whether a change of owner or mode is permitted.\<close>

record permission_env =
  pe_uid :: u32
  pe_gid :: u32
  pe_passwd :: "string option list option"
  pe_id :: "string \<Rightarrow> string list option"
  pe_mkdir :: "string \<Rightarrow> inodes \<Rightarrow> inodes option"
  pe_chown :: "string \<Rightarrow> bool"
  pe_chmod :: "string \<Rightarrow> bool"

definition permission_manager_new :: permission_manager where
  "permission_manager_new = \<lparr> pm_user_cache = [], pm_default_config = permission_config_default \<rparr>"

definition with_default_config :: "permission_config \<Rightarrow> permission_manager \<Rightarrow> permission_manager" where
  "with_default_config c m = m\<lparr>pm_default_config := c\<rparr>"

fun parse_groups :: "string list \<Rightarrow> permission_error + u32 list" where
  "parse_groups [] = Inr []"
| "parse_groups (g # gs) =
     (case parse_u32 g of
        None \<Rightarrow> Inl Invalid_Group
      | Some n \<Rightarrow> and_then (parse_groups gs) (\<lambda>ns. Inr (n # ns)))"

definition get_user_groups :: "permission_env \<Rightarrow> string \<Rightarrow> permission_error + u32 list" where
  "get_user_groups env username =
     (case pe_id env username of None \<Rightarrow> Inl Id_Failed | Some words \<Rightarrow> parse_groups words)"

fun lookup_in :: "permission_env \<Rightarrow> string \<Rightarrow> string option list \<Rightarrow> permission_error + user_mapping" where
  "lookup_in env username [] = Inl User_Not_Found"
| "lookup_in env username (None # ls) = Inl Passwd_Unreadable"
| "lookup_in env username (Some l # ls) =
     (let parts = split_on CHR '':'' l
      in if length parts \<ge> 7 \<and> parts ! 0 = username
         then and_then (ok_or (parse_u32 (parts ! 2)) Invalid_Uid)
                (\<lambda>uid. and_then (ok_or (parse_u32 (parts ! 3)) Invalid_Gid)
                  (\<lambda>gid. and_then (get_user_groups env username)
                    (\<lambda>gs. Inr \<lparr> um_username = username, um_uid = uid, um_gid = gid, um_groups = gs \<rparr>)))
         else lookup_in env username ls)"

definition lookup_user :: "permission_env \<Rightarrow> string \<Rightarrow> permission_error + user_mapping" where
  "lookup_user env username =
     (case pe_passwd env of None \<Rightarrow> Inl Passwd_Unreadable | Some ls \<Rightarrow> lookup_in env username ls)"

definition get_user_mapping ::
    "permission_env \<Rightarrow> string \<Rightarrow> permission_manager \<Rightarrow> permission_manager \<times> (permission_error + user_mapping)" where
  "get_user_mapping env username m =
     (case hm_get (pm_user_cache m) username of
        Some u \<Rightarrow> (m, Inr u)
      | None \<Rightarrow>
          (case lookup_user env username of
             Inl e \<Rightarrow> (m, Inl e)
           | Inr u \<Rightarrow> (m\<lparr>pm_user_cache := hm_insert username u (pm_user_cache m)\<rparr>, Inr u)))"

text \<open>The kernel keeps the file type and the twelve permission bits.\<close>

definition chmod_bits :: "u32 \<Rightarrow> inode \<Rightarrow> inode" where
  "chmod_bits mode i = i\<lparr>in_mode := (in_mode i AND 0xf000) OR (mode AND 0xfff)\<rparr>"

definition chown_to :: "u32 \<Rightarrow> u32 \<Rightarrow> inode \<Rightarrow> inode" where
  "chown_to uid gid i = i\<lparr>in_uid := uid, in_gid := gid\<rparr>"

definition final_permissions ::
    "permission_env \<Rightarrow> permission_config \<Rightarrow> string \<Rightarrow> inodes \<Rightarrow> u32 \<times> u32 \<times> u32" where
  "final_permissions env c path fs =
     (let or_else = (\<lambda>x d. case x of Some v \<Rightarrow> v | None \<Rightarrow> d);
          own = (or_else (pc_owner_uid c) (pe_uid env), or_else (pc_owner_gid c) (pe_gid env), pc_mode c)
      in if \<not> pc_inherit c then own
         else case path_parent path of
                None \<Rightarrow> own
              | Some parent \<Rightarrow>
                  (case fs parent of
                     None \<Rightarrow> own
                   | Some i \<Rightarrow> (or_else (pc_owner_uid c) (in_uid i), or_else (pc_owner_gid c) (in_gid i),
                               if pc_mode c = 0 then in_mode i AND NOT (pc_umask c) else pc_mode c)))"

definition create_mount_point ::
    "permission_env \<Rightarrow> string \<Rightarrow> permission_config option \<Rightarrow> permission_manager \<Rightarrow> inodes \<Rightarrow> inodes \<times> (permission_error + unit)" where
  "create_mount_point env path config m fs =
     (let c = (case config of Some c \<Rightarrow> c | None \<Rightarrow> pm_default_config m)
      in case pe_mkdir env path fs of
           None \<Rightarrow> (fs, Inl Create_Dir_Failed)
         | Some fs1 \<Rightarrow>
             (case final_permissions env c path fs1 of
                (uid, gid, mode) \<Rightarrow>
                  if \<not> pe_chown env path then (fs1, Inl Chown_Failed)
                  else let fs2 = fs1(path := map_option (chown_to uid gid) (fs1 path))
                       in if \<not> pe_chmod env path then (fs2, Inl Chmod_Failed)
                          else (fs2(path := map_option (chmod_bits mode) (fs2 path)), Inr ())))"

definition set_permissions ::
    "permission_env \<Rightarrow> string \<Rightarrow> string option \<Rightarrow> permission_config option \<Rightarrow> permission_manager \<times> inodes
      \<Rightarrow> (permission_manager \<times> inodes) \<times> (permission_error + unit)" where
  "set_permissions env path username config s =
     (case s of (m, fs) \<Rightarrow>
        let c = (case config of Some c \<Rightarrow> c | None \<Rightarrow> pm_default_config m)
        in case fs path of
             None \<Rightarrow> (s, Inl Path_Missing)
           | Some i \<Rightarrow>
               (case (case username of
                        None \<Rightarrow> (m, Inr (pc_owner_uid c, pc_owner_gid c))
                      | Some u \<Rightarrow> (case get_user_mapping env u m of
                                     (m1, Inl e) \<Rightarrow> (m1, Inl e)
                                   | (m1, Inr mp) \<Rightarrow> (m1, Inr (Some (um_uid mp), Some (um_gid mp))))) of
                  (m1, Inl e) \<Rightarrow> ((m1, fs), Inl e)
                | (m1, Inr (owner_uid, owner_gid)) \<Rightarrow>
                    let mode_of = (\<lambda>i. if pc_mode c = 0 then in_mode i AND NOT (pc_umask c) else pc_mode c);
                        finish = (\<lambda>i. if \<not> pe_chmod env path then ((m1, fs(path := Some i)), Inl Chmod_Failed)
                                      else ((m1, fs(path := Some (chmod_bits (mode_of i) i))), Inr ()))
                    in case (owner_uid, owner_gid) of
                         (Some uid, Some gid) \<Rightarrow>
                           if \<not> pe_chown env path then ((m1, fs), Inl Chown_Failed) else finish (chown_to uid gid i)
                       | _ \<Rightarrow> finish i))"

definition can_access :: "permission_env \<Rightarrow> inodes \<Rightarrow> string \<Rightarrow> bool \<Rightarrow> bool" where
  "can_access env fs path writing =
     (case fs path of
        None \<Rightarrow> False
      | Some i \<Rightarrow>
          let bits = (\<lambda>mask. in_mode i AND mask \<noteq> 0)
          in if pe_uid env = in_uid i then (if writing then bits 0x80 else bits 0x100)
             else if pe_gid env = in_gid i then (if writing then bits 0x10 else bits 0x20)
             else if writing then bits 0x2 else bits 0x4)"

definition get_effective_permissions :: "inodes \<Rightarrow> string \<Rightarrow> permission_error + u32 \<times> u32 \<times> u32" where
  "get_effective_permissions fs path =
     (case fs path of None \<Rightarrow> Inl Path_Missing | Some i \<Rightarrow> Inr (in_uid i, in_gid i, in_mode i))"

section \<open>The socket file\<close>

record socket_manager =
  sm_socket_path :: string
  sm_owner_uid :: "u32 option"
  sm_owner_gid :: "u32 option"
  sm_permissions :: u32

datatype socket_error = Remove_Failed | Socket_Dir_Failed | Bind_Failed | Bad_Path | Socket_Chown_Failed | Socket_Chmod_Failed

text \<open>\<open>so_bind\<close> is the new inode that binding makes.\<close>

record socket_env =
  so_remove :: bool
  so_mkdir :: bool
  so_bind :: "inode option"
  so_path_ok :: bool
  so_chown :: bool
  so_chmod :: bool

definition socket_manager_new :: "string \<Rightarrow> socket_manager" where
  "socket_manager_new path =
     \<lparr> sm_socket_path = path, sm_owner_uid = None, sm_owner_gid = None, sm_permissions = 0x180 \<rparr>"

definition with_owner :: "u32 \<Rightarrow> u32 \<Rightarrow> socket_manager \<Rightarrow> socket_manager" where
  "with_owner uid gid m = m\<lparr>sm_owner_uid := Some uid, sm_owner_gid := Some gid\<rparr>"

definition with_permissions :: "u32 \<Rightarrow> socket_manager \<Rightarrow> socket_manager" where
  "with_permissions p m = m\<lparr>sm_permissions := p\<rparr>"

definition create_secure_socket :: "u32 \<Rightarrow> u32 \<Rightarrow> string \<Rightarrow> socket_manager" where
  "create_secure_socket uid gid path = with_owner uid gid (socket_manager_new path)"

definition set_socket_permissions :: "socket_env \<Rightarrow> socket_manager \<Rightarrow> inodes \<Rightarrow> inodes \<times> (socket_error + unit)" where
  "set_socket_permissions env m fs =
     (let p = sm_socket_path m;
          chmod = (\<lambda>fs. if \<not> so_chmod env then (fs, Inl Socket_Chmod_Failed)
                        else (fs(p := map_option (chmod_bits (sm_permissions m)) (fs p)), Inr ()))
      in if \<not> so_path_ok env then (fs, Inl Bad_Path)
         else case (sm_owner_uid m, sm_owner_gid m) of
                (Some uid, Some gid) \<Rightarrow>
                  if \<not> so_chown env then (fs, Inl Socket_Chown_Failed)
                  else chmod (fs(p := map_option (chown_to uid gid) (fs p)))
              | _ \<Rightarrow> chmod fs)"

definition create_socket :: "socket_env \<Rightarrow> socket_manager \<Rightarrow> inodes \<Rightarrow> inodes \<times> (socket_error + unit)" where
  "create_socket env m fs =
     (let p = sm_socket_path m
      in if fs p \<noteq> None \<and> \<not> so_remove env then (fs, Inl Remove_Failed)
         else let fs1 = fs(p := None)
              in if \<not> so_mkdir env then (fs1, Inl Socket_Dir_Failed)
                 else case so_bind env of
                        None \<Rightarrow> (fs1, Inl Bind_Failed)
                      | Some i \<Rightarrow> set_socket_permissions env m (fs1(p := Some i)))"

definition verify_permissions :: "socket_manager \<Rightarrow> inodes \<Rightarrow> bool" where
  "verify_permissions m fs =
     (case fs (sm_socket_path m) of
        None \<Rightarrow> False
      | Some i \<Rightarrow>
          if in_mode i AND 0x1ff \<noteq> sm_permissions m then False
          else case (sm_owner_uid m, sm_owner_gid m) of
                 (Some uid, Some gid) \<Rightarrow> in_uid i = uid \<and> in_gid i = gid
               | _ \<Rightarrow> True)"

definition socket_cleanup :: "socket_env \<Rightarrow> socket_manager \<Rightarrow> inodes \<Rightarrow> inodes \<times> (socket_error + unit)" where
  "socket_cleanup env m fs =
     (if fs (sm_socket_path m) = None then (fs, Inr ())
      else if \<not> so_remove env then (fs, Inl Remove_Failed)
      else (fs(sm_socket_path m := None), Inr ()))"

section \<open>Properties of tokens\<close>

lemma jwt_decode: "jwt_ok j \<Longrightarrow> jw_encode j c = Some token \<Longrightarrow>
    jw_decode j issuer now token = (if fc_iss c = issuer \<and> now \<le> fc_exp c + leeway then Some c else None)"
  unfolding jwt_ok_def by blast

lemma jwt_nonempty: "jwt_ok j \<Longrightarrow> jw_encode j c = Some token \<Longrightarrow> token \<noteq> []"
  unfolding jwt_ok_def by blast

lemma jwt_structure:
  "jwt_ok j \<Longrightarrow> jw_encode j c = Some token \<Longrightarrow> validate_token_structure j token = Inr (Some (fc_exp c))"
  unfolding jwt_ok_def validate_token_structure_def by (fastforce split: list.splits)

lemma generated:
  "generate_token j now user mounts roles a = Inr token \<longleftrightarrow>
     user \<noteq> [] \<and> jw_encode j \<lparr> fc_sub = user, fc_iat = now, fc_exp = now + ja_expiration a, fc_iss = ja_issuer a,
                               fc_mounts = mounts, fc_roles = roles \<rparr> = Some token"
  by (auto simp: generate_token_def ok_or_def split: option.splits)

text \<open>C37: a token that was made by the daemon and has not been revoked validates until a minute after it expired,
  gives back what it was made of, and is refused from then on.\<close>

theorem token_roundtrip:
  assumes "jwt_ok j" "generate_token j now user mounts roles a = Inr token" "token \<notin> set (ja_revoked_tokens a)"
  shows "validate_token j False now' token a =
    (if now' \<le> now + ja_expiration a + leeway
     then Inr \<lparr> fc_sub = user, fc_iat = now, fc_exp = now + ja_expiration a, fc_iss = ja_issuer a,
                fc_mounts = mounts, fc_roles = roles \<rparr>
     else Inl Invalid_Token)"
proof -
  let ?c = "\<lparr> fc_sub = user, fc_iat = now, fc_exp = now + ja_expiration a, fc_iss = ja_issuer a, fc_mounts = mounts, fc_roles = roles \<rparr>"
  have e: "jw_encode j ?c = Some token" using assms(2) by (simp add: generated)
  have "jw_decode j (ja_issuer a) now' token = (if now' \<le> now + ja_expiration a + leeway then Some ?c else None)"
    by (simp add: jwt_decode [OF assms(1) e])
  with assms(3) jwt_nonempty [OF assms(1) e] show ?thesis by (simp add: validate_token_def)
qed

text \<open>A crate that writes the claims into the text of the token.\<close>

definition sample_claims :: fuji_claims where
  "sample_claims = \<lparr> fc_sub = ''u'', fc_iat = 0, fc_exp = 3600, fc_iss = ''fuji-daemon'', fc_mounts = {}, fc_roles = {} \<rparr>"

definition sample_jwt :: jwt_crate where
  "sample_jwt =
     \<lparr> jw_encode = (\<lambda>c. if c = sample_claims then Some ''a.b.c'' else None),
       jw_decode = (\<lambda>iss now t. if t = ''a.b.c'' \<and> iss = ''fuji-daemon'' \<and> now \<le> 3660 then Some sample_claims else None),
       jw_base64 = (\<lambda>s. Some s), jw_json_exp = (\<lambda>_. Some (Some 3600)) \<rparr>"

lemma sample_jwt_ok: "jwt_ok sample_jwt"
  by (auto simp: jwt_ok_def sample_jwt_def sample_claims_def leeway_def fuji_eval)

lemma sample_token: "generate_token sample_jwt 0 ''u'' {} {} jwt_authenticator_new = Inr ''a.b.c''"
  by (simp add: generated sample_jwt_def sample_claims_def jwt_authenticator_new_def)

theorem token_roundtrip_witness:
  "validate_token sample_jwt False 3660 ''a.b.c'' jwt_authenticator_new = Inr sample_claims
   \<and> validate_token sample_jwt False 3661 ''a.b.c'' jwt_authenticator_new = Inl Invalid_Token"
  using token_roundtrip [OF sample_jwt_ok sample_token, of 3660] token_roundtrip [OF sample_jwt_ok sample_token, of 3661]
  by (simp add: jwt_authenticator_new_def sample_claims_def leeway_def)

text \<open>Revocation holds as long as no cleanup runs after the expiry.\<close>

lemma revoked_survives:
  assumes "token \<in> set (ja_revoked_tokens a)" "\<not> is_expired_or_invalid j now token"
  shows "token \<in> set (ja_revoked_tokens (fst (cleanup_expired_tokens j now a)))"
  using assms by (simp add: cleanup_expired_tokens_def)

text \<open>a revoked token is refused, whatever else is revoked and cleaned up, as long as every cleanup happens
  before it expires.\<close>

theorem revoked_token_refused:
  assumes "jwt_ok j" "jw_encode j c = Some token"
    and "list_all (\<lambda>oper. case oper of Cleanup_Tokens now \<Rightarrow> now \<le> fc_exp c | _ \<Rightarrow> True) ops"
  shows "validate_token j False now token (fold (auth_step j) ops (fst (revoke_token token a))) = Inl Token_Revoked"
proof -
  have token: "token \<noteq> []" by (rule jwt_nonempty [OF assms(1,2)])
  have "token \<in> set (ja_revoked_tokens (fold (auth_step j) ops a'))"
    if "token \<in> set (ja_revoked_tokens a')" for a'
    using assms(3) that
  proof (induction ops arbitrary: a')
    case (Cons oper ops)
    have "token \<in> set (ja_revoked_tokens (auth_step j oper a'))"
    proof (cases oper)
      case (Cleanup_Tokens now')
      then have "\<not> is_expired_or_invalid j now' token"
        using Cons.prems(1) by (simp add: is_expired_or_invalid_def jwt_structure [OF assms(1,2)])
      with Cleanup_Tokens Cons.prems(2) show ?thesis by (simp add: revoked_survives)
    qed (use Cons.prems(2) in \<open>simp add: revoke_token_def\<close>)
    with Cons show ?case by simp
  qed simp
  with token show ?thesis by (simp add: validate_token_def revoke_token_def)
qed

theorem revoked_token_refused_witness:
  "validate_token sample_jwt False 3660 ''a.b.c''
     (fold (auth_step sample_jwt) [Cleanup_Tokens 3600, Revoke ''x''] (fst (revoke_token ''a.b.c'' jwt_authenticator_new)))
   = Inl Token_Revoked"
  by (rule revoked_token_refused [OF sample_jwt_ok, where c = sample_claims]) (simp_all add: sample_jwt_def sample_claims_def)

text \<open>in the minute after its expiry a cleanup forgets that a token was revoked, and the token is accepted again.\<close>

theorem revoked_token_valid_again:
  assumes "jwt_ok j" "generate_token j now user mounts roles a = Inr token"
    and "now + ja_expiration a < now'" "now' \<le> now + ja_expiration a + leeway"
  shows "is_ok (validate_token j False now' token (fst (cleanup_expired_tokens j now' (fst (revoke_token token a)))))"
proof -
  let ?c = "\<lparr> fc_sub = user, fc_iat = now, fc_exp = now + ja_expiration a, fc_iss = ja_issuer a, fc_mounts = mounts, fc_roles = roles \<rparr>"
  have e: "jw_encode j ?c = Some token" using assms(2) by (simp add: generated)
  have "is_expired_or_invalid j now' token"
    using assms(3) by (simp add: is_expired_or_invalid_def jwt_structure [OF assms(1) e])
  moreover have "jw_decode j (ja_issuer a) now' token = Some ?c"
    using assms(4) by (simp add: jwt_decode [OF assms(1) e])
  ultimately show ?thesis
    using jwt_nonempty [OF assms(1) e]
    by (simp add: validate_token_def cleanup_expired_tokens_def revoke_token_def Let_def)
qed

theorem revoked_token_valid_again_witness:
  "is_ok (validate_token sample_jwt False 3630 ''a.b.c''
     (fst (cleanup_expired_tokens sample_jwt 3630 (fst (revoke_token ''a.b.c'' jwt_authenticator_new)))))"
  using revoked_token_valid_again [OF sample_jwt_ok sample_token, of 3630]
  by (simp add: jwt_authenticator_new_def leeway_def)

section \<open>Properties of files\<close>

text \<open>a mount point that was created belongs to the user and has the mode that were worked out for it.\<close>

theorem mount_point_permissions:
  assumes "create_mount_point env path config m fs = (fs', Inr ())" "pe_mkdir env path fs = Some fs1" "fs1 path = Some i"
    and "c = (case config of Some c \<Rightarrow> c | None \<Rightarrow> pm_default_config m)"
  shows "case final_permissions env c path fs1 of
    (uid, gid, mode) \<Rightarrow>
      fs' path = Some \<lparr> in_uid = uid, in_gid = gid, in_mode = (in_mode i AND 0xf000) OR (mode AND 0xfff) \<rparr>"
  using assms
  by (cases i) (auto simp: create_mount_point_def Let_def chmod_bits_def chown_to_def split: prod.splits if_splits)

text \<open>the super user is refused what the kernel allows: only the bits of the owner, of the one group of the process,
  or of others count.\<close>

theorem access_ignores_privilege:
  assumes "fs path = Some i" "in_uid i \<noteq> 0" "in_gid i \<noteq> 0" "pe_uid env = 0" "pe_gid env = 0"
  shows "can_access env fs path writing = (in_mode i AND (if writing then 0x2 else 0x4) \<noteq> 0)"
  using assms by (simp add: can_access_def Let_def)

theorem access_ignores_privilege_witness:
  "\<not> can_access \<lparr> pe_uid = 0, pe_gid = 0, pe_passwd = None, pe_id = (\<lambda>_. None), pe_mkdir = (\<lambda>_. Some), 
                  pe_chown = (\<lambda>_. True), pe_chmod = (\<lambda>_. True) \<rparr>
       (\<lambda>_. Some \<lparr> in_uid = 1000, in_gid = 1000, in_mode = 0x81a0 \<rparr>) ''/mnt/x'' True"
  by (subst access_ignores_privilege [where i = "\<lparr> in_uid = 1000, in_gid = 1000, in_mode = 0x81a0 \<rparr>"]) simp_all

lemma masked_mode: "(((x AND 0xf000) OR (p AND 0xfff)) AND 0x1ff) = p AND (0x1ff :: u32)"
  by (simp add: bit.conj_disj_distrib2 and.assoc)

lemma chmod_simps [simp]:
  "in_mode (chmod_bits p i) AND 0x1ff = p AND 0x1ff" "in_uid (chmod_bits p i) = in_uid i"
  "in_gid (chmod_bits p i) = in_gid i" "in_uid (chown_to u g i) = u" "in_gid (chown_to u g i) = g"
  by (simp_all add: chmod_bits_def chown_to_def masked_mode)

lemma set_socket_result:
  "set_socket_permissions env m fs = (fs', Inr ()) \<Longrightarrow> fs (sm_socket_path m) = Some i \<Longrightarrow>
     fs' (sm_socket_path m) = Some (chmod_bits (sm_permissions m)
       (case (sm_owner_uid m, sm_owner_gid m) of (Some uid, Some gid) \<Rightarrow> chown_to uid gid i | _ \<Rightarrow> i))"
  by (auto simp: set_socket_permissions_def Let_def split: option.splits if_splits)

text \<open>a socket that was created verifies exactly when the permissions that were asked for are of nine bits: with any
  other bit set, its own check rejects it.\<close>

theorem created_socket_verifies:
  assumes "create_socket env m fs = (fs', Inr ())"
  shows "verify_permissions m fs' \<longleftrightarrow> sm_permissions m AND 0x1ff = sm_permissions m"
proof -
  from assms obtain i where "set_socket_permissions env m (fs(sm_socket_path m := Some i)) = (fs', Inr ())"
    by (auto simp: create_socket_def Let_def split: option.splits if_splits)
  from set_socket_result [OF this] show ?thesis
    by (simp add: verify_permissions_def split: option.splits)
qed

theorem created_socket_verifies_witness:
  "\<not> verify_permissions (with_permissions 0x3ff (socket_manager_new ''/run/s''))
       (fst (create_socket \<lparr> so_remove = True, so_mkdir = True, so_bind = Some \<lparr> in_uid = 0, in_gid = 0, in_mode = 0xc1ed \<rparr>,
                             so_path_ok = True, so_chown = True, so_chmod = True \<rparr>
          (with_permissions 0x3ff (socket_manager_new ''/run/s'')) (\<lambda>_. None)))"
proof -
  let ?env = "\<lparr> so_remove = True, so_mkdir = True, so_bind = Some \<lparr> in_uid = 0, in_gid = 0, in_mode = 0xc1ed \<rparr>,
                so_path_ok = True, so_chown = True, so_chmod = True \<rparr>"
  let ?m = "with_permissions 0x3ff (socket_manager_new ''/run/s'')"
  obtain fs' where c: "create_socket ?env ?m (\<lambda>_. None) = (fs', Inr ())"
    by (simp add: create_socket_def set_socket_permissions_def with_permissions_def socket_manager_new_def Let_def)
  from created_socket_verifies [OF c] show ?thesis
    unfolding c by (simp add: with_permissions_def socket_manager_new_def)
qed

end
