(* ===== verification/Fuji_Config.thy ===== *)
theory Fuji_Config
  imports Mount_Types
begin

text \<open>
  \<open>src/config/mod.rs\<close>: the configuration, its mounts with their sync metadata, the cluster
  section with peers and the state of a forced synchronisation, and the operations on them.

  Reading and writing files and the TOML format are not modelled.  A floating point number is its
  64 bit pattern; the one place that computes with it takes the computation as an argument.
  \<open>usize\<close> counts are \<open>nat\<close>, and \<open>Utc::now()\<close> is an argument, one per call.
\<close>

section \<open>Data\<close>

record mount_sync_metadata =
  msm_last_modified_by :: "string option"
  msm_version :: u64

record mount_wrapper =
  mw_config :: mount_config
  mw_sync_metadata :: "mount_sync_metadata option"

type_synonym f64 = "64 word"

record reconnection_config =
  rc_max_retries :: u32
  rc_initial_delay_ms :: u64
  rc_max_delay_ms :: u64
  rc_backoff_multiplier :: f64

record resource_limits_config =
  rl_max_memory_mb :: u32
  rl_max_cpu_percent :: u8
  rl_max_concurrent_mounts :: u32
  rl_max_file_descriptors :: u32
  rl_max_connections :: u32
  rl_enable_enforcement :: bool
  rl_violation_action :: string
  rl_monitoring_interval_secs :: u64

record global_config =
  gc_health_check_interval_secs :: u64
  gc_log_level :: string
  gc_auto_mount :: bool
  gc_resource_limits :: resource_limits_config

record platform_config =
  pc_socket_path :: "string option"
  pc_config_dir :: "string option"
  pc_mount_dir :: "string option"

datatype peer_status = Peer_Connected | Peer_Disconnected | Peer_Suspended | Peer_Leaving

record peer_info =
  pi_id :: string
  pi_address :: string
  pi_psk :: string
  pi_last_seen :: instant
  pi_status :: peer_status

datatype conflict_type = ConcurrentModification | DeleteModifyConflict | MountPointConflict

datatype conflict_resolution = UsedLatest | UsedInstance string | RequiresManualIntervention

record sync_conflict =
  scf_mount_id :: string
  scf_conflict_type :: conflict_type
  scf_conflicting_instances :: "string list"
  scf_resolution :: conflict_resolution

datatype force_sync_result =
    Force_Success instant nat nat
  | Force_Failed instant string nat
  | Force_InProgress instant nat nat

record force_sync_state =
  fs_last_force_sync_at :: "instant option"
  fs_sync_in_progress :: bool
  fs_last_force_sync_reason :: "string option"
  fs_initiated_by :: "string option"
  fs_attempt_count :: u32
  fs_last_result :: "force_sync_result option"

record sync_metadata =
  sm_last_sync_at :: "instant option"
  sm_last_modified_by :: "string option"
  sm_sync_version :: u64
  sm_pending_conflicts :: "sync_conflict list"
  sm_force_sync_state :: force_sync_state

record cluster_config =
  cc_enabled :: bool
  cc_instance_id :: string
  cc_peers :: "peer_info list"
  cc_port :: u16
  cc_sync_interval :: duration
  cc_sync_timeout :: duration
  cc_sync_metadata :: sync_metadata

record fuji_config =
  cfg_version :: string
  cfg_mounts :: "(string, mount_wrapper) hashmap"
  cfg_reconnection :: reconnection_config
  cfg_global :: global_config
  cfg_platform :: platform_config
  cfg_cluster :: "cluster_config option"

datatype config_error = ClusteringDisabled | NoForceSyncInProgress

datatype validation_error =
    DuplicateMountPoint
  | IdMismatch
  | EmptyUrl
  | RelativeMountPoint
  | VersionLength
  | InvalidLogLevel

section \<open>Defaults\<close>

definition minutes :: "int \<Rightarrow> duration" where
  "minutes n = n * 60 * 1000000000"

definition milliseconds :: "int \<Rightarrow> duration" where
  "milliseconds n = n * 1000000"

definition force_sync_default :: force_sync_state where
  "force_sync_default =
     \<lparr> fs_last_force_sync_at = None, fs_sync_in_progress = False, fs_last_force_sync_reason = None,
       fs_initiated_by = None, fs_attempt_count = 0, fs_last_result = None \<rparr>"

definition mount_sync_default :: mount_sync_metadata where
  "mount_sync_default = \<lparr> msm_last_modified_by = None, msm_version = 0 \<rparr>"

definition resource_limits_default :: resource_limits_config where
  "resource_limits_default =
     \<lparr> rl_max_memory_mb = 1024, rl_max_cpu_percent = 80, rl_max_concurrent_mounts = 10,
       rl_max_file_descriptors = 1024, rl_max_connections = 100, rl_enable_enforcement = True,
       rl_violation_action = ''throttle'', rl_monitoring_interval_secs = 30 \<rparr>"

text \<open>The bit pattern of 2.0.\<close>

definition reconnection_default :: reconnection_config where
  "reconnection_default =
     \<lparr> rc_max_retries = 5, rc_initial_delay_ms = 1000, rc_max_delay_ms = 60000,
       rc_backoff_multiplier = 0x4000000000000000 \<rparr>"

definition global_default :: global_config where
  "global_default =
     \<lparr> gc_health_check_interval_secs = 30, gc_log_level = ''info'', gc_auto_mount = True,
       gc_resource_limits = resource_limits_default \<rparr>"

definition platform_default :: platform_config where
  "platform_default = \<lparr> pc_socket_path = None, pc_config_dir = None, pc_mount_dir = None \<rparr>"

definition config_default :: fuji_config where
  "config_default =
     \<lparr> cfg_version = ''1.0'', cfg_mounts = [], cfg_reconnection = reconnection_default,
       cfg_global = global_default, cfg_platform = platform_default, cfg_cluster = None \<rparr>"

definition default_cluster_port :: u16 where
  "default_cluster_port = 10080"

section \<open>Mount entries\<close>

definition wrapper_new :: "mount_config \<Rightarrow> string option \<Rightarrow> mount_wrapper" where
  "wrapper_new mount instance_id =
     \<lparr> mw_config = mount,
       mw_sync_metadata = map_option (\<lambda>i. \<lparr> msm_last_modified_by = Some i, msm_version = 1 \<rparr>) instance_id \<rparr>"

definition wrapper_update_mount :: "instant \<Rightarrow> mount_config \<Rightarrow> string \<Rightarrow> mount_wrapper \<Rightarrow> mount_wrapper" where
  "wrapper_update_mount now mount instance_id w =
     (let md = (case mw_sync_metadata w of Some m \<Rightarrow> m | None \<Rightarrow> mount_sync_default)
      in \<lparr> mw_config = mount\<lparr>mc_updated_at := now\<rparr>,
           mw_sync_metadata =
             Some (md\<lparr>msm_last_modified_by := Some instance_id, msm_version := msm_version md + 1\<rparr>) \<rparr>)"

definition get_instance_id :: "fuji_config \<Rightarrow> string option" where
  "get_instance_id c = map_option cc_instance_id (cfg_cluster c)"

definition add_mount :: "mount_config \<Rightarrow> fuji_config \<Rightarrow> fuji_config" where
  "add_mount mount c =
     c\<lparr>cfg_mounts := hm_insert (mc_id mount) (wrapper_new mount (get_instance_id c)) (cfg_mounts c)\<rparr>"

definition remove_mount :: "string \<Rightarrow> fuji_config \<Rightarrow> fuji_config \<times> mount_config option" where
  "remove_mount i c =
     (c\<lparr>cfg_mounts := hm_remove i (cfg_mounts c)\<rparr>, map_option mw_config (hm_get (cfg_mounts c) i))"

definition get_mount :: "fuji_config \<Rightarrow> string \<Rightarrow> mount_config option" where
  "get_mount c i = map_option mw_config (hm_get (cfg_mounts c) i)"

definition get_all_mounts :: "fuji_config \<Rightarrow> mount_config list" where
  "get_all_mounts c = map (\<lambda>(_, w). mw_config w) (cfg_mounts c)"

definition get_enabled_mounts :: "fuji_config \<Rightarrow> mount_config list" where
  "get_enabled_mounts c = filter mc_enabled (get_all_mounts c)"

definition get_active_mounts :: "fuji_config \<Rightarrow> mount_config list" where
  "get_active_mounts c = filter (\<lambda>m. mc_status m = Active) (get_all_mounts c)"

definition get_failed_mounts :: "fuji_config \<Rightarrow> mount_config list" where
  "get_failed_mounts c = filter (\<lambda>m. mc_status m = Status_Failed \<and> mc_enabled m) (get_all_mounts c)"

definition update_mount :: "instant \<Rightarrow> string \<Rightarrow> mount_config \<Rightarrow> fuji_config \<Rightarrow> fuji_config" where
  "update_mount now i mount c =
     (let instance_id = (case get_instance_id c of Some inst \<Rightarrow> inst | None \<Rightarrow> ''unknown'')
      in c\<lparr>cfg_mounts := hm_update i (wrapper_update_mount now mount instance_id) (cfg_mounts c)\<rparr>)"

definition migrate :: "fuji_config \<Rightarrow> fuji_config" where
  "migrate c = (if cfg_version c \<noteq> ''1.0'' then c\<lparr>cfg_version := ''1.0''\<rparr> else c)"

text \<open>\<open>scale\<close> is \<open>(initial as f64 * multiplier.powi(n)) as i64\<close>.\<close>

definition get_reconnection_delay ::
    "(u64 \<Rightarrow> f64 \<Rightarrow> int \<Rightarrow> int) \<Rightarrow> fuji_config \<Rightarrow> u32 \<Rightarrow> duration" where
  "get_reconnection_delay scale c attempts =
     (let r = cfg_reconnection c;
          base_delay = milliseconds (sint (rc_initial_delay_ms r));
          max_delay = milliseconds (sint (rc_max_delay_ms r))
      in if attempts = 0 then base_delay
         else min (milliseconds (scale (rc_initial_delay_ms r) (rc_backoff_multiplier r) (sint attempts)))
                max_delay)"

text \<open>\<open>system_mounts\<close> are the mount points the platform lists, or its error.  Every mount reads
  the clock on its own, twice in \<open>update_status\<close>: the clocks are functions of the mount id.\<close>

definition sync_mount_with_system ::
    "string list \<Rightarrow> instant \<Rightarrow> instant \<Rightarrow> mount_wrapper \<Rightarrow> mount_wrapper" where
  "sync_mount_with_system system_mounts now now' w =
     (let is_mounted = list_ex (\<lambda>point. path_eq point (mc_mount_point (mw_config w))) system_mounts
      in if is_mounted \<and> mc_enabled (mw_config w)
         then w\<lparr>mw_config := update_status now now' Active (mw_config w)\<rparr>
         else if \<not> is_mounted \<and> mc_status (mw_config w) = Active
         then w\<lparr>mw_config := update_status now now' Status_Failed (mw_config w)\<rparr>
         else w)"

definition sync_with_system ::
    "(string + string list) \<Rightarrow> (string \<Rightarrow> instant) \<Rightarrow> (string \<Rightarrow> instant) \<Rightarrow> fuji_config \<Rightarrow>
     fuji_config \<times> (string + unit)" where
  "sync_with_system system_mounts clock clock' c =
     (case system_mounts of
        Inl e \<Rightarrow> (c, Inl e)
      | Inr ms \<Rightarrow>
          (c\<lparr>cfg_mounts := hm_map_entries (\<lambda>i. sync_mount_with_system ms (clock i) (clock' i)) (cfg_mounts c)\<rparr>,
           Inr ()))"

section \<open>Cluster section\<close>

definition is_cluster_enabled :: "fuji_config \<Rightarrow> bool" where
  "is_cluster_enabled c = (case cfg_cluster c of Some cl \<Rightarrow> cc_enabled cl | None \<Rightarrow> False)"

definition initialize_cluster :: "string \<Rightarrow> fuji_config \<Rightarrow> fuji_config" where
  "initialize_cluster instance_id c =
     c\<lparr>cfg_cluster := Some
        \<lparr> cc_enabled = True, cc_instance_id = instance_id, cc_peers = [], cc_port = 10080,
          cc_sync_interval = minutes 5, cc_sync_timeout = minutes 10,
          cc_sync_metadata =
            \<lparr> sm_last_sync_at = None, sm_last_modified_by = Some instance_id, sm_sync_version = 0,
              sm_pending_conflicts = [], sm_force_sync_state = force_sync_default \<rparr> \<rparr>\<rparr>"

definition mark_modified :: "(string \<Rightarrow> instant) \<Rightarrow> string \<Rightarrow> fuji_config \<Rightarrow> fuji_config" where
  "mark_modified clock instance_id c =
     c\<lparr>cfg_cluster := map_option
          (\<lambda>cl. cl\<lparr>cc_sync_metadata := (cc_sync_metadata cl)
                     \<lparr>sm_last_modified_by := Some instance_id,
                      sm_sync_version := sm_sync_version (cc_sync_metadata cl) + 1\<rparr>\<rparr>) (cfg_cluster c),
        cfg_mounts := hm_map_entries (\<lambda>i w. w\<lparr>mw_config := (mw_config w)\<lparr>mc_updated_at := clock i\<rparr>\<rparr>)
                        (cfg_mounts c)\<rparr>"

definition add_cluster_peer :: "peer_info \<Rightarrow> fuji_config \<Rightarrow> fuji_config" where
  "add_cluster_peer peer c =
     (case cfg_cluster c of
        None \<Rightarrow> c
      | Some cl \<Rightarrow>
          (if \<not> list_ex (\<lambda>p. pi_id p = pi_id peer) (cc_peers cl)
           then c\<lparr>cfg_cluster := Some (cl\<lparr>cc_peers := cc_peers cl @ [peer]\<rparr>)\<rparr> else c))"

text \<open>\<open>position\<close> and \<open>remove\<close>: the first peer with the id goes.\<close>

fun remove_first :: "('a \<Rightarrow> bool) \<Rightarrow> 'a list \<Rightarrow> 'a list" where
  "remove_first p [] = []"
| "remove_first p (x # xs) = (if p x then xs else x # remove_first p xs)"

definition remove_cluster_peer :: "string \<Rightarrow> fuji_config \<Rightarrow> fuji_config \<times> bool" where
  "remove_cluster_peer peer_id c =
     (case cfg_cluster c of
        None \<Rightarrow> (c, False)
      | Some cl \<Rightarrow>
          (if list_ex (\<lambda>p. pi_id p = peer_id) (cc_peers cl)
           then (c\<lparr>cfg_cluster := Some (cl\<lparr>cc_peers := remove_first (\<lambda>p. pi_id p = peer_id) (cc_peers cl)\<rparr>)\<rparr>,
                 True)
           else (c, False)))"

section \<open>Forced synchronisation\<close>

definition with_force_state :: "force_sync_state \<Rightarrow> cluster_config \<Rightarrow> fuji_config \<Rightarrow> fuji_config" where
  "with_force_state fs cl c =
     c\<lparr>cfg_cluster := Some (cl\<lparr>cc_sync_metadata := (cc_sync_metadata cl)\<lparr>sm_force_sync_state := fs\<rparr>\<rparr>)\<rparr>"

definition initiate_force_sync ::
    "instant \<Rightarrow> instant \<Rightarrow> string \<Rightarrow> string \<Rightarrow> fuji_config \<Rightarrow> fuji_config \<times> (config_error + unit)" where
  "initiate_force_sync now now' reason initiated_by c =
     (case cfg_cluster c of
        None \<Rightarrow> (c, Inl ClusteringDisabled)
      | Some cl \<Rightarrow>
          (let fs = sm_force_sync_state (cc_sync_metadata cl)
           in (with_force_state
                 (fs\<lparr>fs_last_force_sync_at := Some now, fs_sync_in_progress := True,
                     fs_last_force_sync_reason := Some reason, fs_initiated_by := Some initiated_by,
                     fs_attempt_count := fs_attempt_count fs + 1,
                     fs_last_result := Some (Force_InProgress now' (length (cc_peers cl)) 0)\<rparr>) cl c,
               Inr ())))"

definition complete_force_sync ::
    "instant \<Rightarrow> nat \<Rightarrow> nat \<Rightarrow> fuji_config \<Rightarrow> fuji_config \<times> (config_error + unit)" where
  "complete_force_sync now peers_synced conflicts_resolved c =
     (case cfg_cluster c of
        None \<Rightarrow> (c, Inl ClusteringDisabled)
      | Some cl \<Rightarrow>
          (let fs = sm_force_sync_state (cc_sync_metadata cl)
           in if \<not> fs_sync_in_progress fs then (c, Inl NoForceSyncInProgress)
              else (with_force_state
                      (fs\<lparr>fs_sync_in_progress := False,
                          fs_last_result := Some (Force_Success now peers_synced conflicts_resolved)\<rparr>) cl c,
                    Inr ())))"

definition fail_force_sync ::
    "instant \<Rightarrow> string \<Rightarrow> nat \<Rightarrow> fuji_config \<Rightarrow> fuji_config \<times> (config_error + unit)" where
  "fail_force_sync now err peers_attempted c =
     (case cfg_cluster c of
        None \<Rightarrow> (c, Inl ClusteringDisabled)
      | Some cl \<Rightarrow>
          (let fs = sm_force_sync_state (cc_sync_metadata cl)
           in if \<not> fs_sync_in_progress fs then (c, Inl NoForceSyncInProgress)
              else (with_force_state
                      (fs\<lparr>fs_sync_in_progress := False,
                          fs_last_result := Some (Force_Failed now err peers_attempted)\<rparr>) cl c,
                    Inr ())))"

definition get_force_sync_state :: "fuji_config \<Rightarrow> force_sync_state option" where
  "get_force_sync_state c = map_option (\<lambda>cl. sm_force_sync_state (cc_sync_metadata cl)) (cfg_cluster c)"

section \<open>Validation\<close>

text \<open>The two loops of \<open>validate_mounts\<close>.  A set of paths compares them by components.\<close>

fun duplicate_points :: "string list \<Rightarrow> string list \<Rightarrow> bool" where
  "duplicate_points seen [] = False"
| "duplicate_points seen (p # ps) = (list_ex (path_eq p) seen \<or> duplicate_points (p # seen) ps)"

definition validate_mount_entry :: "string \<times> mount_wrapper \<Rightarrow> validation_error + unit" where
  "validate_mount_entry e =
     (case e of (i, w) \<Rightarrow>
       if i \<noteq> mc_id (mw_config w) then Inl IdMismatch
       else if mc_url (mw_config w) = [] then Inl EmptyUrl
       else if \<not> path_is_absolute (mc_mount_point (mw_config w)) then Inl RelativeMountPoint
       else Inr ())"

definition validate_mounts :: "(string, mount_wrapper) hashmap \<Rightarrow> validation_error + unit" where
  "validate_mounts mounts =
     (if duplicate_points [] (map (\<lambda>(_, w). mc_mount_point (mw_config w)) mounts)
      then Inl DuplicateMountPoint
      else check_all validate_mount_entry mounts)"

definition validate_log_level :: "string \<Rightarrow> validation_error + unit" where
  "validate_log_level log_level =
     (if \<not> List.member [''trace'', ''debug'', ''info'', ''warn'', ''error''] log_level
      then Inl InvalidLogLevel else Inr ())"

text \<open>
  \<open>Config\<close> derives \<open>Validate\<close>: the derived function checks the fields that carry an attribute, the
  length of the version and the mounts, and collects the errors.  The sections with ranges of their
  own carry no attribute on their field in \<open>Config\<close>, and a nested value is only checked where the
  field asks for it.
\<close>

definition validate_config :: "fuji_config \<Rightarrow> validation_error list" where
  "validate_config c =
     (if 1 \<le> length (cfg_version c) \<and> length (cfg_version c) \<le> 10 then [] else [VersionLength])
     @ (case validate_mounts (cfg_mounts c) of Inl e \<Rightarrow> [e] | Inr _ \<Rightarrow> [])"

section \<open>Lemmas\<close>

definition cfg_wf :: "fuji_config \<Rightarrow> bool" where
  "cfg_wf c \<longleftrightarrow> hm_wf (cfg_mounts c) \<and> (\<forall>i w. hm_get (cfg_mounts c) i = Some w \<longrightarrow> mc_id (mw_config w) = i)"

datatype config_op =
    Op_add_mount mount_config
  | Op_remove_mount string
  | Op_sync_system "string + string list" "string \<Rightarrow> instant" "string \<Rightarrow> instant"
  | Op_mark_modified "string \<Rightarrow> instant" string
  | Op_initialize_cluster string
  | Op_add_peer peer_info
  | Op_remove_peer string
  | Op_force instant instant string string
  | Op_complete instant nat nat
  | Op_fail instant string nat
  | Op_migrate
  | Op_update_mount instant mount_config

text \<open>A mount is updated under its own id; \<open>update_mount\<close> itself does not compare the two.\<close>

fun config_step :: "config_op \<Rightarrow> fuji_config \<Rightarrow> fuji_config" where
  "config_step (Op_add_mount m) c = add_mount m c"
| "config_step (Op_remove_mount i) c = fst (remove_mount i c)"
| "config_step (Op_sync_system ms clock clock') c = fst (sync_with_system ms clock clock' c)"
| "config_step (Op_mark_modified clock i) c = mark_modified clock i c"
| "config_step (Op_initialize_cluster i) c = initialize_cluster i c"
| "config_step (Op_add_peer p) c = add_cluster_peer p c"
| "config_step (Op_remove_peer i) c = fst (remove_cluster_peer i c)"
| "config_step (Op_force a b r i) c = fst (initiate_force_sync a b r i c)"
| "config_step (Op_complete a n k) c = fst (complete_force_sync a n k c)"
| "config_step (Op_fail a e n) c = fst (fail_force_sync a e n c)"
| "config_step Op_migrate c = migrate c"
| "config_step (Op_update_mount now m) c = update_mount now (mc_id m) m c"

lemma with_force_mounts [simp]: "cfg_mounts (with_force_state fs cl c) = cfg_mounts c"
  by (simp add: with_force_state_def)

lemma sync_mount_id [simp]: "mc_id (mw_config (sync_mount_with_system ms now now' w)) = mc_id (mw_config w)"
  by (simp add: sync_mount_with_system_def Let_def)

lemma cfg_wf_mounts: "cfg_wf c \<Longrightarrow> cfg_mounts c' = cfg_mounts c \<Longrightarrow> cfg_wf c'"
  by (simp add: cfg_wf_def)

lemma cfg_wf_map:
  assumes "cfg_wf c" and "\<And>i w. mc_id (mw_config (f i w)) = mc_id (mw_config w)"
    and "cfg_mounts c' = hm_map_entries f (cfg_mounts c)"
  shows "cfg_wf c'"
  using assms by (auto simp: cfg_wf_def hm_get_map_entries)

lemma cfg_wf_step: "cfg_wf c \<Longrightarrow> cfg_wf (config_step op c)"
proof (cases op)
  case (Op_add_mount m)
  assume "cfg_wf c"
  then show ?thesis
    by (auto simp: Op_add_mount add_mount_def cfg_wf_def hm.wf_insert hm.get_insert wrapper_new_def)
next
  case (Op_remove_mount i)
  assume "cfg_wf c"
  then show ?thesis
    by (auto simp: Op_remove_mount remove_mount_def cfg_wf_def hm.wf_remove hm.get_remove)
next
  case (Op_sync_system r clock clock')
  assume wf: "cfg_wf c"
  show ?thesis
  proof (cases r)
    case (Inr ms)
    show ?thesis
      unfolding Op_sync_system config_step.simps
      by (rule cfg_wf_map [OF wf, where f = "\<lambda>i. sync_mount_with_system ms (clock i) (clock' i)"])
        (simp_all add: sync_with_system_def Inr)
  qed (use wf in \<open>simp add: Op_sync_system sync_with_system_def\<close>)
next
  case (Op_mark_modified clock i)
  assume "cfg_wf c"
  then show ?thesis
    unfolding Op_mark_modified config_step.simps
    by (rule cfg_wf_map [where f = "\<lambda>i w. w\<lparr>mw_config := (mw_config w)\<lparr>mc_updated_at := clock i\<rparr>\<rparr>"])
      (simp_all add: mark_modified_def)
next
  case (Op_update_mount now m)
  assume "cfg_wf c"
  then show ?thesis
    by (auto simp: Op_update_mount update_mount_def cfg_wf_def hm_wf_update hm_get_update
        wrapper_update_mount_def Let_def split: if_splits)
qed (auto elim!: cfg_wf_mounts simp: initialize_cluster_def add_cluster_peer_def remove_cluster_peer_def
    initiate_force_sync_def complete_force_sync_def fail_force_sync_def migrate_def Let_def
    split: option.splits)

interpretation cfg: component config_step cfg_wf
  by unfold_locales (rule cfg_wf_step)

lemma cfg_wf_default: "cfg_wf config_default"
  by (simp add: cfg_wf_def config_default_def hm.wf_empty hm.get_empty)

text \<open>starting from the default configuration, every mount stays stored under its own id, and no
  id twice, through any sequence of operations.\<close>

theorem config_ids_consistent:
  "list_all (\<lambda>(i, w). i = mc_id (mw_config w)) (cfg_mounts (fold config_step ops config_default))
   \<and> distinct (map fst (cfg_mounts (fold config_step ops config_default)))"
proof -
  have "cfg_wf (fold config_step ops config_default)" by (rule cfg.inv_run [OF cfg_wf_default])
  then show ?thesis by (auto simp: cfg_wf_def hm_get_iff_in_set list_all_iff) (simp add: hm_wf_def)
qed

lemma duplicate_points_iff:
  "duplicate_points seen ps \<longleftrightarrow>
     \<not> distinct (map path_components ps)
     \<or> set (map path_components seen) \<inter> set (map path_components ps) \<noteq> {}"
  by (induction ps arbitrary: seen) (auto simp: list_ex_iff path_eq_def)

text \<open>the mounts of a configuration validate exactly when no two mount points are the same path,
  however they are spelled, and every mount has its own id, a URL and an absolute mount point.\<close>

theorem validate_mounts_spec:
  "validate_mounts ms = Inr () \<longleftrightarrow>
     distinct (map (\<lambda>(_, w). path_components (mc_mount_point (mw_config w))) ms)
     \<and> list_all (\<lambda>(i, w). i = mc_id (mw_config w) \<and> mc_url (mw_config w) \<noteq> []
          \<and> path_is_absolute (mc_mount_point (mw_config w))) ms"
proof -
  have points: "map path_components (map (\<lambda>(_, w). mc_mount_point (mw_config w)) ms)
      = map (\<lambda>(_, w). path_components (mc_mount_point (mw_config w))) ms"
    by (simp add: case_prod_beta comp_def)
  have "validate_mount_entry e = Inr () \<longleftrightarrow>
      (case e of (i, w) \<Rightarrow> i = mc_id (mw_config w) \<and> mc_url (mw_config w) \<noteq> []
          \<and> path_is_absolute (mc_mount_point (mw_config w)))" for e
    by (auto simp: validate_mount_entry_def split: prod.splits)
  then show ?thesis
    unfolding validate_mounts_def duplicate_points_iff points
    by (simp add: check_all_ok_iff list_all_iff)
qed

text \<open>the ranges and the log level that the nested sections declare are never checked: a
  configuration with no retries, a zero health check interval and an unknown log level validates.\<close>

theorem nested_sections_unchecked:
  "validate_config (config_default\<lparr>
      cfg_reconnection := reconnection_default\<lparr>rc_max_retries := 0\<rparr>,
      cfg_global := global_default\<lparr>gc_log_level := ''loud'', gc_health_check_interval_secs := 0\<rparr>\<rparr>) = []
   \<and> validate_log_level ''loud'' = Inl InvalidLogLevel"
  by (simp add: validate_config_def config_default_def validate_mounts_def validate_log_level_def)

section \<open>The configuration as a map\<close>

text \<open>What the rest of the program relies on: the mounts are a map from identifiers to mounts, and the
  operations of the cluster do not touch it.\<close>

type_synonym registry = "string \<Rightarrow> mount_config option"

definition seen_by_system :: "string list \<Rightarrow> instant \<Rightarrow> instant \<Rightarrow> mount_config \<Rightarrow> mount_config" where
  "seen_by_system points now now' m =
     (if list_ex (\<lambda>point. path_eq point (mc_mount_point m)) points
      then if mc_enabled m then update_status now now' Active m else m
      else if mc_status m = Active then update_status now now' Status_Failed m else m)"

fun registry_step :: "config_op \<Rightarrow> registry \<Rightarrow> registry" where
  "registry_step (Op_add_mount m) r = r(mc_id m \<mapsto> m)"
| "registry_step (Op_remove_mount i) r = r(i := None)"
| "registry_step (Op_sync_system (Inl _) _ _) r = r"
| "registry_step (Op_sync_system (Inr points) clock clock') r =
     (\<lambda>i. map_option (seen_by_system points (clock i) (clock' i)) (r i))"
| "registry_step (Op_mark_modified clock i) r =
     (\<lambda>k. map_option (\<lambda>m. m\<lparr>mc_updated_at := clock k\<rparr>) (r k))"
| "registry_step (Op_update_mount now m) r =
     (if r (mc_id m) = None then r else r(mc_id m \<mapsto> m\<lparr>mc_updated_at := now\<rparr>))"
| "registry_step _ r = r"

lemma get_mount_same: "cfg_mounts c' = cfg_mounts c \<Longrightarrow> get_mount c' = get_mount c"
  by (simp add: get_mount_def fun_eq_iff)

lemma registry_step_refines:
  assumes "cfg_wf c"
  shows "get_mount (config_step oper c) = registry_step oper (get_mount c)"
proof (cases oper)
  case (Op_sync_system r clock clock')
  then show ?thesis
    by (cases r)
      (auto simp: sync_with_system_def get_mount_def fun_eq_iff hm_get_map_entries sync_mount_with_system_def
        seen_by_system_def Let_def option.map_comp intro!: map_option_cong)
next
  case (Op_mark_modified clock i)
  then show ?thesis
    by (auto simp: mark_modified_def get_mount_def fun_eq_iff hm_get_map_entries option.map_comp Let_def
        comp_def split: option.splits)
next
  case (Op_update_mount now m)
  have same: "mw_config (wrapper_update_mount now m inst w) = m\<lparr>mc_updated_at := now\<rparr>" for inst w
    by (simp add: wrapper_update_mount_def Let_def)
  from assms show ?thesis
    unfolding Op_update_mount
    by (cases "hm_get (cfg_mounts c) (mc_id m)")
      (auto simp: get_mount_def update_mount_def Let_def hm_get_update cfg_wf_def fun_eq_iff same)
qed (use assms in \<open>auto simp: get_mount_def add_mount_def remove_mount_def update_mount_def cfg_wf_def
    wrapper_new_def wrapper_update_mount_def hm.get_insert hm.get_remove hm_get_update fun_eq_iff Let_def
    initialize_cluster_def add_cluster_peer_def remove_cluster_peer_def initiate_force_sync_def
    complete_force_sync_def fail_force_sync_def migrate_def split: option.splits\<close>)

text \<open>C5: the mounts of a configuration behave as a map from identifiers to mounts under every history of its
  operations: looking up after the history is what the abstract map holds after it.\<close>

theorem config_refines_registry:
  "get_mount (fold config_step ops config_default) = fold registry_step ops (\<lambda>_. None)"
proof -
  have "get_mount (fold config_step ops c) = fold registry_step ops (get_mount c)" if "cfg_wf c" for c
    using that
  proof (induction ops arbitrary: c)
    case (Cons oper ops)
    from Cons.IH [OF cfg_wf_step [OF Cons.prems, of oper]] show ?case
      by (simp add: registry_step_refines [OF Cons.prems])
  qed simp
  moreover have "get_mount config_default = (\<lambda>_. None)"
    by (simp add: get_mount_def config_default_def hm.get_empty fun_eq_iff)
  ultimately show ?thesis using cfg_wf_default by metis
qed

end
