(* ===== verification/Config_Store.thy ===== *)
theory Config_Store
  imports Fuji_Config
begin

text \<open>
  \<open>src/config/mod.rs\<close>: how the configuration is loaded from a file and saved to it, in place
  and through a temporary file.

  The file system is a map from paths to texts.  What a call of it does is an argument: a write can
  fail and leave any text behind (a full disk, a crash half way), a read can fail, a rename either
  replaces the target or does nothing.  The TOML library is the pair \<open>to_toml\<close>, \<open>of_toml\<close>;
  theorems that read back what was written say so of the one text they are about.
\<close>

section \<open>Files\<close>

type_synonym files = "string \<Rightarrow> string option"

datatype write_outcome = Written | Write_Failed "string option"

datatype store_error =
    Dir_Error
  | Serialize_Error
  | Write_Error
  | Rename_Error
  | Read_Error
  | Parse_Error
  | Invalid_Config "validation_error list"

definition write_file :: "write_outcome \<Rightarrow> string \<Rightarrow> string \<Rightarrow> files \<Rightarrow> files \<times> bool" where
  "write_file w path content fs =
     (case w of
        Written \<Rightarrow> (fs(path := Some content), True)
      | Write_Failed None \<Rightarrow> (fs, False)
      | Write_Failed (Some left) \<Rightarrow> (fs(path := Some left), False))"

definition read_file :: "(string \<Rightarrow> bool) \<Rightarrow> files \<Rightarrow> string \<Rightarrow> string option" where
  "read_file readable fs path = (if readable path then fs path else None)"

definition rename_file :: "bool \<Rightarrow> string \<Rightarrow> string \<Rightarrow> files \<Rightarrow> files \<times> bool" where
  "rename_file ok source target fs =
     (if ok \<and> fs source \<noteq> None then (fs(target := fs source, source := None), True) else (fs, False))"

text \<open>\<open>with_extension("tmp")\<close> on a path whose last component has the one dot of \<open>mounts.toml\<close>.\<close>

definition config_file :: "string \<Rightarrow> string" where
  "config_file config_dir = path_join config_dir ''mounts.toml''"

definition get_config_paths :: "string \<Rightarrow> string list" where
  "get_config_paths config_dir = [path_join config_dir ''mounts.toml'']"

definition with_extension_tmp :: "string \<Rightarrow> string" where
  "with_extension_tmp p = rev (drop 1 (dropWhile (\<lambda>c. c \<noteq> CHR ''.'') (rev p))) @ ''.tmp''"

section \<open>Loading\<close>

fun try_config_paths ::
    "(string \<Rightarrow> fuji_config option) \<Rightarrow> (string \<Rightarrow> bool) \<Rightarrow> files \<Rightarrow> string list \<Rightarrow> fuji_config option" where
  "try_config_paths of_toml readable fs [] = None"
| "try_config_paths of_toml readable fs (p # ps) =
     (if fs p = None then try_config_paths of_toml readable fs ps
      else case read_file readable fs p of
             None \<Rightarrow> try_config_paths of_toml readable fs ps
           | Some content \<Rightarrow>
               (case of_toml content of
                  Some config \<Rightarrow> Some (migrate config)
                | None \<Rightarrow> try_config_paths of_toml readable fs ps))"

definition load ::
    "(string \<Rightarrow> fuji_config option) \<Rightarrow> (string \<Rightarrow> bool) \<Rightarrow> string \<Rightarrow> files \<Rightarrow> fuji_config" where
  "load of_toml readable config_dir fs =
     (case try_config_paths of_toml readable fs (get_config_paths config_dir) of
        Some config \<Rightarrow> config
      | None \<Rightarrow> config_default)"

definition load_with_dir ::
    "(string \<Rightarrow> fuji_config option) \<Rightarrow> (string \<Rightarrow> bool) \<Rightarrow> string \<Rightarrow> files \<Rightarrow> store_error + fuji_config" where
  "load_with_dir of_toml readable config_dir fs =
     (if fs (config_file config_dir) = None then Inr config_default
      else case read_file readable fs (config_file config_dir) of
             None \<Rightarrow> Inl Read_Error
           | Some content \<Rightarrow>
               (case of_toml content of
                  None \<Rightarrow> Inl Parse_Error
                | Some config \<Rightarrow> Inr (migrate config)))"

section \<open>Saving\<close>

text \<open>\<open>save\<close> and \<open>save_to_dir\<close> have the same steps on the directory they are given.\<close>

definition save ::
    "(fuji_config \<Rightarrow> string option) \<Rightarrow> bool \<Rightarrow> write_outcome \<Rightarrow> string \<Rightarrow> fuji_config \<Rightarrow> files \<Rightarrow>
     files \<times> (store_error + unit)" where
  "save to_toml dir_ok w config_dir c fs =
     (if \<not> dir_ok then (fs, Inl Dir_Error)
      else case to_toml c of
             None \<Rightarrow> (fs, Inl Serialize_Error)
           | Some content \<Rightarrow>
               (case write_file w (config_file config_dir) content fs of
                  (fs', ok) \<Rightarrow> (fs', if ok then Inr () else Inl Write_Error)))"

definition save_atomic ::
    "(fuji_config \<Rightarrow> string option) \<Rightarrow> bool \<Rightarrow> write_outcome \<Rightarrow> bool \<Rightarrow> string \<Rightarrow> fuji_config \<Rightarrow> files \<Rightarrow>
     files \<times> (store_error + unit)" where
  "save_atomic to_toml dir_ok w rename_ok config_dir c fs =
     (let config_path = config_file config_dir
      in if \<not> dir_ok then (fs, Inl Dir_Error)
         else if validate_config c \<noteq> [] then (fs, Inl (Invalid_Config (validate_config c)))
         else let temp_path = with_extension_tmp config_path
              in case to_toml c of
                   None \<Rightarrow> (fs, Inl Serialize_Error)
                 | Some content \<Rightarrow>
                     (case write_file w temp_path content fs of
                        (fs1, False) \<Rightarrow> (fs1, Inl Write_Error)
                      | (fs1, True) \<Rightarrow>
                          (case rename_file rename_ok temp_path config_path fs1 of
                             (fs2, False) \<Rightarrow> (fs2, Inl Rename_Error)
                           | (fs2, True) \<Rightarrow> (fs2, Inr ()))))"

section \<open>Conflicts with the system\<close>

text \<open>\<open>mount_info\<close> answers for a path: an error, nothing mounted, or the device mounted there.\<close>

definition detect_mount_conflicts ::
    "(string \<Rightarrow> bool) \<Rightarrow> (string \<Rightarrow> string + string option) \<Rightarrow> fuji_config \<Rightarrow> string list" where
  "detect_mount_conflicts path_exists mount_info c =
     concat (map (\<lambda>m.
       if path_exists (mc_mount_point m)
       then (case mount_info (mc_mount_point m) of
               Inr (Some device) \<Rightarrow>
                 [''Mount point '' @ mc_mount_point m @ '' already has '' @ device @ '' mounted'']
             | _ \<Rightarrow> [])
       else []) (get_all_mounts c))"

section \<open>Lemmas\<close>

lemma temp_path [simp]: "with_extension_tmp (config_file d) \<noteq> config_file d"
proof
  assume eq: "with_extension_tmp (config_file d) = config_file d"
  have "last (with_extension_tmp (config_file d)) = CHR ''p''" by (simp add: with_extension_tmp_def)
  moreover have "last (config_file d) = CHR ''l''"
    by (simp add: config_file_def path_join_def path_is_absolute_def)
  ultimately have "CHR ''p'' = CHR ''l''" unfolding eq by simp
  then show False by simp
qed

lemma temp_path' [simp]: "config_file d \<noteq> with_extension_tmp (config_file d)"
  using temp_path [of d] by (simp only: eq_commute [of "config_file d"] not_False_eq_True)

lemma config_paths [simp]: "get_config_paths d = [config_file d]"
  by (simp add: get_config_paths_def config_file_def)

lemmas store_defs = save_atomic_def save_def write_file_def rename_file_def Let_def

text \<open>C9: whatever fails while a configuration is saved atomically, the configuration file holds
  either what it held before or the complete new text; the new text is there exactly when the save
  reports success, and then the configuration was valid.  No other file but the temporary one
  changes.\<close>

theorem save_atomic_all_or_nothing:
  "case save_atomic to_toml dir_ok w rename_ok d c fs of
     (fs', r) \<Rightarrow>
       (case r of
          Inl e \<Rightarrow> fs' (config_file d) = fs (config_file d)
        | Inr u \<Rightarrow> fs' (config_file d) = to_toml c \<and> to_toml c \<noteq> None \<and> validate_config c = []
                    \<and> fs' (with_extension_tmp (config_file d)) = None)
       \<and> (\<forall>p. p \<in> {config_file d, with_extension_tmp (config_file d)} \<or> fs' p = fs p)"
  by (cases "to_toml c"; cases w; cases rename_ok)
    (auto simp: store_defs split: option.splits)

text \<open>C27: what was saved atomically with success is what both loaders read back, brought to the
  current version, when the parser reads the text that was printed.\<close>

theorem save_load_roundtrip:
  assumes "save_atomic to_toml dir_ok w rename_ok d c fs = (fs', Inr ())"
    and "\<And>s. to_toml c = Some s \<Longrightarrow> of_toml s = Some c"
    and "readable (config_file d)"
  shows "load of_toml readable d fs' = migrate c
    \<and> load_with_dir of_toml readable d fs' = Inr (migrate c)"
proof -
  obtain s where s: "to_toml c = Some s" and stored: "fs' (config_file d) = Some s"
    using assms(1) by (auto simp: store_defs split: option.splits write_outcome.splits if_splits)
  from assms(2) [OF s] stored assms(3) show ?thesis
    by (simp add: load_def load_with_dir_def read_file_def)
qed

theorem save_load_roundtrip_witness:
  "\<exists>fs'. save_atomic (\<lambda>_. Some ''v'') True Written True ''/c'' config_default (\<lambda>_. None) = (fs', Inr ())
     \<and> load (\<lambda>_. Some config_default) (\<lambda>_. True) ''/c'' fs' = config_default"
proof -
  let ?save = "save_atomic (\<lambda>_. Some ''v'') True Written True ''/c'' config_default (\<lambda>_. None)"
  have "?save = (fst ?save, Inr ())"
    by (simp add: store_defs validate_config_def config_default_def validate_mounts_def)
  moreover from save_load_roundtrip [OF this, of "\<lambda>_. Some config_default" "\<lambda>_. True"]
  have "load (\<lambda>_. Some config_default) (\<lambda>_. True) ''/c'' (fst ?save) = config_default"
    by (simp add: migrate_def config_default_def)
  ultimately show ?thesis by blast
qed

text \<open>a configuration file that does not parse is taken for no configuration at all: \<open>load\<close>
  returns the defaults where \<open>load_with_dir\<close> reports the error, and the next save that succeeds
  replaces the file, with every mount it listed, by the defaults.\<close>

theorem unparsable_config_lost:
  assumes "fs (config_file d) = Some bad" and "of_toml bad = None" and "readable (config_file d)"
    and "to_toml config_default = Some s"
  shows "load of_toml readable d fs = config_default
    \<and> load_with_dir of_toml readable d fs = Inl Parse_Error
    \<and> fst (save_atomic to_toml True Written True d (load of_toml readable d fs) fs) (config_file d) = Some s"
proof -
  have valid: "validate_config config_default = []"
    by (simp add: validate_config_def config_default_def validate_mounts_def)
  have "load of_toml readable d fs = config_default"
    using assms(1-3) by (simp add: load_def read_file_def)
  then show ?thesis
    using assms by (simp add: load_with_dir_def read_file_def store_defs valid)
qed

theorem unparsable_config_lost_witness:
  "fst (save_atomic (\<lambda>_. Some ''v'') True Written True ''/c''
          (load (\<lambda>_. None) (\<lambda>_. True) ''/c'' (\<lambda>_. Some ''[nas''))
          (\<lambda>_. Some ''[nas'')) (config_file ''/c'') = Some ''v''"
proof -
  note lost = unparsable_config_lost [where fs = "\<lambda>_. Some ''[nas''" and d = "''/c''" and bad = "''[nas''"
      and of_toml = "\<lambda>_. None" and readable = "\<lambda>_. True" and to_toml = "\<lambda>_. Some ''v''" and s = "''v''"]
  show ?thesis by (rule lost [THEN conjunct2, THEN conjunct2]) (rule refl TrueI)+
qed

end
