(* ===== verification/Platform_Linux.thy ===== *)
theory Platform_Linux
  imports Access_Control Mount_Drivers Config_Store
begin

text \<open>
  The platform layer for Linux (\<open>src/platform/mod.rs\<close>, \<open>src/platform/linux.rs\<close>) and the checks of mount points
  built on it (\<open>src/mount/point.rs\<close>).

  The file system is the map \<open>inodes\<close> of \<open>Access_Control\<close>, where a file that exists has readable metadata;
  \<open>findmnt\<close>, the environment variables and the success of changes are arguments (\<open>platform_env\<close>).
\<close>

section \<open>Paths and access\<close>

record mount_info =
  mi_device :: string
  mi_mount_point :: string
  mi_fs_type :: string
  mi_options :: "string list"

datatype signal = Terminate | Interrupt | Hangup | Reload

datatype unix_signal = SIGTERM | SIGINT | SIGHUP | SIGUSR1

datatype platform_error =
    Io_Failed | Not_Supported | Invalid_Pid | Kill_Failed u32 | Smb_Not_Implemented | Sshfs_Not_Mount | Not_Utf8
  | Not_Absolute string | System_Directory string | Parent_Traversal | Empty_Segments | Component_Too_Long
  | Path_Too_Long | Point_Missing string | Not_Directory string | Already_Mounted string | No_Permission string
  | Point_Permissions permission_error

record platform_env =
  pl_uid :: u32
  pl_gid :: u32
  pl_pid :: u32
  pl_var :: "string \<Rightarrow> string option"
  pl_whoami :: string
  pl_mkdir :: "string \<Rightarrow> inodes \<Rightarrow> inodes \<times> bool"
  pl_chmod :: "string \<Rightarrow> bool"
  pl_remove :: "string \<Rightarrow> bool"
  pl_findmnt :: "string list \<Rightarrow> (bool \<times> string) option"
  pl_proc_mounts :: "string option"
  pl_kill :: "u32 \<Rightarrow> unix_signal \<Rightarrow> bool"
  pl_is_dir :: "string \<Rightarrow> bool"
  pl_config_dir :: "string option"

definition path_exists :: "inodes \<Rightarrow> string \<Rightarrow> bool" where
  "path_exists fs path = (fs path \<noteq> None)"

definition is_root :: "platform_env \<Rightarrow> bool" where
  "is_root env = (pl_uid env = 0)"

definition granted :: "platform_env \<Rightarrow> inode \<Rightarrow> u32 \<Rightarrow> u32 \<Rightarrow> u32 \<Rightarrow> bool" where
  "granted env i owner_bit group_bit other_bit =
     (pl_uid env = 0
      \<or> (pl_uid env = in_uid i \<and> in_mode i AND owner_bit \<noteq> 0)
      \<or> (pl_gid env = in_gid i \<and> in_mode i AND group_bit \<noteq> 0)
      \<or> in_mode i AND other_bit \<noteq> 0)"

definition can_access_path :: "platform_env \<Rightarrow> inodes \<Rightarrow> string \<Rightarrow> bool" where
  "can_access_path env fs path =
     (case fs path of
        Some i \<Rightarrow> granted env i 0x100 0x20 0x4
      | None \<Rightarrow>
          (case path_parent path of
             None \<Rightarrow> False
           | Some parent \<Rightarrow>
               (case fs parent of None \<Rightarrow> False | Some i \<Rightarrow> granted env i 0x80 0x10 0x2)))"

definition create_dir :: "platform_env \<Rightarrow> string \<Rightarrow> inodes \<Rightarrow> inodes \<times> (platform_error + unit)" where
  "create_dir env path fs =
     (case pl_mkdir env path fs of
        (fs1, False) \<Rightarrow> (fs1, Inl Io_Failed)
      | (fs1, True) \<Rightarrow>
          if \<not> pl_chmod env path then (fs1, Inl Io_Failed)
          else (fs1(path := map_option (chmod_bits 0x1ed) (fs1 path)), Inr ()))"

definition ensure_dir_exists :: "platform_env \<Rightarrow> string \<Rightarrow> inodes \<Rightarrow> inodes \<times> (platform_error + unit)" where
  "ensure_dir_exists env path fs = (if path_exists fs path then (fs, Inr ()) else create_dir env path fs)"

text \<open>\<open>remove_dir_all\<close> takes everything below the directory along.\<close>

definition remove_dir :: "platform_env \<Rightarrow> string \<Rightarrow> inodes \<Rightarrow> inodes \<times> (platform_error + unit)" where
  "remove_dir env path fs =
     (if \<not> path_exists fs path then (fs, Inr ())
      else if \<not> pl_remove env path then (fs, Inl Io_Failed)
      else ((\<lambda>q. if path_starts_with q path then None else fs q), Inr ()))"

definition get_current_user :: "platform_env \<Rightarrow> string" where
  "get_current_user env =
     (case pl_var env ''USER'' of Some u \<Rightarrow> u
      | None \<Rightarrow> (case pl_var env ''LOGNAME'' of Some u \<Rightarrow> u
                 | None \<Rightarrow> (case pl_var env ''USERNAME'' of Some u \<Rightarrow> u | None \<Rightarrow> pl_whoami env)))"

definition daemonize :: "platform_error + unit" where
  "daemonize = Inl Not_Supported"

section \<open>The PID file\<close>

text \<open>Here a file is its text; \<open>running\<close> tells whether \<open>/proc/<pid>\<close> exists.\<close>

definition write_pid_file :: "platform_env \<Rightarrow> bool \<Rightarrow> bool \<Rightarrow> string \<Rightarrow> files \<Rightarrow> files \<times> (platform_error + unit)" where
  "write_pid_file env dir_ok write_ok pid_file fs =
     (if \<not> dir_ok then (fs, Inl Io_Failed)
      else if \<not> write_ok then (fs, Inl Io_Failed)
      else (fs(pid_file := Some (show_nat (unat (pl_pid env)))), Inr ()))"

definition remove_pid_file :: "platform_env \<Rightarrow> string \<Rightarrow> files \<Rightarrow> files \<times> (platform_error + unit)" where
  "remove_pid_file env pid_file fs =
     (if fs pid_file = None then (fs, Inr ())
      else if \<not> pl_remove env pid_file then (fs, Inl Io_Failed)
      else (fs(pid_file := None), Inr ()))"

definition check_pid_file ::
    "platform_env \<Rightarrow> (string \<Rightarrow> bool) \<Rightarrow> (u32 \<Rightarrow> bool) \<Rightarrow> string \<Rightarrow> files \<Rightarrow> files \<times> (platform_error + u32 option)" where
  "check_pid_file env readable running pid_file fs =
     (if fs pid_file = None then (fs, Inr None)
      else case read_file readable fs pid_file of
             None \<Rightarrow> (fs, Inl Io_Failed)
           | Some s \<Rightarrow>
               (case parse_u32 (trim s) of
                  None \<Rightarrow> (fs, Inl Invalid_Pid)
                | Some pid \<Rightarrow>
                    if running pid then (fs, Inr (Some pid))
                    else (case remove_pid_file env pid_file fs of
                            (fs', Inl e) \<Rightarrow> (fs', Inl e)
                          | (fs', Inr _) \<Rightarrow> (fs', Inr None))))"

fun unix_signal_of :: "signal \<Rightarrow> unix_signal" where
  "unix_signal_of Terminate = SIGTERM"
| "unix_signal_of Interrupt = SIGINT"
| "unix_signal_of Hangup = SIGHUP"
| "unix_signal_of Reload = SIGUSR1"

definition send_signal :: "platform_env \<Rightarrow> u32 \<Rightarrow> signal \<Rightarrow> platform_error + unit" where
  "send_signal env pid s = ensure (pl_kill env pid (unix_signal_of s)) (Kill_Failed pid)"

section \<open>Mounts of the system\<close>

definition get_mount_command :: "mount_type \<Rightarrow> platform_error + string list" where
  "get_mount_command ty =
     (case ty of
        Nfs host share options' \<Rightarrow>
          Inr ([''mount'', ''-t'', ''nfs''] @ (if options' = [] then [] else [''-o'', join '','' options'])
               @ [host @ '':'' @ share])
      | Smb _ _ _ _ _ _ \<Rightarrow> Inl Smb_Not_Implemented
      | Sshfs _ _ _ _ _ _ \<Rightarrow> Inl Sshfs_Not_Mount)"

definition get_unmount_command :: "string list" where
  "get_unmount_command = [''umount'']"

text \<open>\<open>str::split_whitespace\<close>.\<close>

fun collect_words :: "string \<Rightarrow> string \<Rightarrow> string list" where
  "collect_words w [] = (if w = [] then [] else [rev w])"
| "collect_words w (c # cs) =
     (if is_whitespace c then (if w = [] then collect_words [] cs else rev w # collect_words [] cs)
      else collect_words (c # w) cs)"

definition split_whitespace :: "string \<Rightarrow> string list" where
  "split_whitespace = collect_words []"

definition is_mounted :: "platform_env \<Rightarrow> string \<Rightarrow> platform_error + bool" where
  "is_mounted env mount_point =
     (case pl_findmnt env [''-n'', ''-o'', ''TARGET'', ''--target'', mount_point] of
        None \<Rightarrow> Inl Io_Failed
      | Some (success, out) \<Rightarrow> Inr (success \<and> out \<noteq> []))"

definition mount_info_of :: "string list \<Rightarrow> mount_info" where
  "mount_info_of parts =
     \<lparr> mi_device = parts ! 0, mi_mount_point = parts ! 1, mi_fs_type = parts ! 2,
       mi_options = split_on CHR '','' (parts ! 3) \<rparr>"

definition get_mount_info :: "platform_env \<Rightarrow> string \<Rightarrow> platform_error + mount_info option" where
  "get_mount_info env path =
     (case pl_findmnt env [''-n'', ''-o'', ''SOURCE,TARGET,FSTYPE,OPTIONS'', ''--target'', path] of
        None \<Rightarrow> Inl Io_Failed
      | Some (success, out) \<Rightarrow>
          if \<not> success then Inr None
          else let parts = split_whitespace out
               in Inr (if length parts \<ge> 4 then Some (mount_info_of parts) else None))"

definition list_system_mounts :: "platform_env \<Rightarrow> platform_error + (string \<times> mount_info) list" where
  "list_system_mounts env =
     (case pl_proc_mounts env of
        None \<Rightarrow> Inl Io_Failed
      | Some content \<Rightarrow>
          Inr (map (\<lambda>parts. (parts ! 1, mount_info_of parts))
            (filter (\<lambda>parts. length parts \<ge> 4) (map split_whitespace (lines_of content)))))"

section \<open>Directories of the daemon\<close>

definition get_socket_path :: "platform_env \<Rightarrow> string option \<Rightarrow> inodes \<Rightarrow> inodes \<times> string" where
  "get_socket_path env config_path fs =
     (let default' =
        (if is_root env
         then (case ensure_dir_exists env ''/run/fuji'' fs of
                 (fs1, Inl _) \<Rightarrow> (fs1, ''/tmp/fuji/fuji.sock'')
               | (fs1, Inr _) \<Rightarrow>
                   (if pl_chmod env ''/run/fuji''
                    then fs1(''/run/fuji'' := map_option (chmod_bits 0x1ed) (fs1 ''/run/fuji'')) else fs1,
                    path_join ''/run/fuji'' ''fuji.sock''))
         else (case pl_var env ''XDG_RUNTIME_DIR'' of
                 None \<Rightarrow> (fs, ''/tmp/fuji/fuji.sock'')
               | Some run_user \<Rightarrow>
                   let user_socket = path_join run_user ''fuji/fuji.sock''
                   in ((case path_parent user_socket of
                          Some parent \<Rightarrow> fst (ensure_dir_exists env parent fs) | None \<Rightarrow> fs), user_socket)))
      in case config_path of
           Some path \<Rightarrow> if can_access_path env fs path then (fs, path) else default'
         | None \<Rightarrow> default')"

definition get_config_dir :: "platform_env \<Rightarrow> inodes \<Rightarrow> string outcome" where
  "get_config_dir env fs =
     (let user_config = path_join (case pl_config_dir env of Some d \<Rightarrow> d | None \<Rightarrow> ''~/.config'') ''fuji'';
          system = (if path_exists fs ''/etc/fuji'' \<or> can_access_path env fs ''/etc/fuji'' then ''/etc/fuji'' else ''/tmp/fuji'')
      in if path_exists fs user_config then Returned user_config
         else case path_parent user_config of
                None \<Rightarrow> Panicked
              | Some parent \<Rightarrow> Returned (if can_access_path env fs parent then user_config else system))"

definition get_mount_dir :: "platform_env \<Rightarrow> inodes \<Rightarrow> inodes \<times> string" where
  "get_mount_dir env fs =
     (case ensure_dir_exists env ''/mnt/fuji'' fs of
        (fs1, Inr _) \<Rightarrow> (fs1, ''/mnt/fuji'')
      | (fs1, Inl _) \<Rightarrow>
          if is_root env then (fs1, ''/mnt/fuji'')
          else let user_mount = path_join (case pl_var env ''HOME'' of Some h \<Rightarrow> h | None \<Rightarrow> ''/tmp'') ''fuji-mounts''
               in (fst (ensure_dir_exists env user_mount fs1), user_mount))"

section \<open>Mount points\<close>

definition prohibited :: "string list" where
  "prohibited = [''/bin'', ''/sbin'', ''/usr/bin'', ''/usr/sbin'', ''/etc'', ''/boot'', ''/sys'', ''/proc'', ''/dev'']"

definition check_dangerous_paths :: "string \<Rightarrow> platform_error + unit" where
  "check_dangerous_paths p =
     (case find (\<lambda>d. starts_with p d) prohibited of
        Some d \<Rightarrow> Inl (System_Directory d)
      | None \<Rightarrow>
          if contains_str p ''..'' then Inl Parent_Traversal
          else if contains_str p ''//'' then Inl Empty_Segments
          else Inr ())"

fun component_text :: "path_component \<Rightarrow> string" where
  "component_text RootDir = ''/''"
| "component_text CurDir = ''.''"
| "component_text ParentDir = ''..''"
| "component_text (Normal w) = w"

definition check_path_length :: "string \<Rightarrow> platform_error + unit" where
  "check_path_length p =
     (if list_ex (\<lambda>c. length (component_text c) > 255) (path_components p) then Inl Component_Too_Long
      else if length p > 4096 then Inl Path_Too_Long
      else Inr ())"

definition validate_point_path :: "string \<Rightarrow> platform_error + unit" where
  "validate_point_path p =
     (if \<not> path_is_absolute p then Inl (Not_Absolute p)
      else and_then (check_dangerous_paths p) (\<lambda>_. check_path_length p))"

definition check_existing_mount :: "platform_env \<Rightarrow> inodes \<Rightarrow> string \<Rightarrow> bool" where
  "check_existing_mount env fs p =
     (path_exists fs p \<and> (case is_mounted env p of Inr b \<Rightarrow> b | Inl _ \<Rightarrow> False))"

datatype mount_conflict = Same_Path string | Under_Mount string

definition check_mount_conflicts :: "platform_env \<Rightarrow> string \<Rightarrow> mount_conflict list" where
  "check_mount_conflicts env p =
     concat (map (\<lambda>(mount_path, info).
         (if path_eq mount_path p then [Same_Path (mi_device info)] else [])
         @ (if path_starts_with p mount_path \<and> \<not> path_eq mount_path ''/'' then [Under_Mount mount_path] else []))
       (case list_system_mounts env of Inr ms \<Rightarrow> ms | Inl _ \<Rightarrow> []))"

definition point_permissions :: "u32 option \<Rightarrow> permission_config" where
  "point_permissions mode =
     (case mode of
        Some m \<Rightarrow> \<lparr> pc_owner_uid = None, pc_owner_gid = None, pc_mode = m, pc_umask = 0x12, pc_inherit = False \<rparr>
      | None \<Rightarrow> permission_config_default)"

definition prepare_mount_point ::
    "platform_env \<Rightarrow> permission_env \<Rightarrow> string \<Rightarrow> string option \<Rightarrow> u32 option \<Rightarrow> permission_manager \<times> inodes
      \<Rightarrow> (permission_manager \<times> inodes) \<times> (platform_error + unit)" where
  "prepare_mount_point env penv p owner mode s =
     (case s of (m, fs) \<Rightarrow>
        case (case path_parent p of None \<Rightarrow> (fs, Inr ()) | Some parent \<Rightarrow> ensure_dir_exists env parent fs) of
          (fs1, Inl e) \<Rightarrow> ((m, fs1), Inl e)
        | (fs1, Inr _) \<Rightarrow>
            (case (if path_exists fs1 p then (fs1, Inr ()) else create_dir env p fs1) of
               (fs2, Inl e) \<Rightarrow> ((m, fs2), Inl e)
             | (fs2, Inr _) \<Rightarrow>
                 (case set_permissions penv p owner (Some (point_permissions mode)) (m, fs2) of
                    (s', r) \<Rightarrow> (s', map_err Point_Permissions r))))"

text \<open>Whether the directory is empty is only logged.\<close>

definition validate_for_mount :: "platform_env \<Rightarrow> inodes \<Rightarrow> string \<Rightarrow> platform_error + unit" where
  "validate_for_mount env fs p =
     (if \<not> path_exists fs p then Inl (Point_Missing p)
      else if \<not> pl_is_dir env p then Inl (Not_Directory p)
      else and_then (is_mounted env p)
        (\<lambda>b. if b then Inl (Already_Mounted p)
             else if \<not> can_access_path env fs p then Inl (No_Permission p) else Inr ()))"

text \<open>\<open>no_entries\<close> is what reading the directory shows, \<open>None\<close> if it cannot be read.\<close>

definition cleanup_mount_point ::
    "platform_env \<Rightarrow> string \<Rightarrow> bool \<Rightarrow> bool option \<Rightarrow> inodes \<Rightarrow> inodes \<times> (platform_error + unit)" where
  "cleanup_mount_point env p remove_empty no_entries fs =
     (if \<not> path_exists fs p then (fs, Inr ())
      else case is_mounted env p of
             Inl e \<Rightarrow> (fs, Inl e)
           | Inr True \<Rightarrow> (fs, Inr ())
           | Inr False \<Rightarrow>
               (if remove_empty \<and> no_entries = Some True \<and> pl_remove env p then fs(p := None) else fs, Inr ()))"

definition get_recommended_permissions :: u32 where
  "get_recommended_permissions = 0x1ed"

section \<open>Properties\<close>

text \<open>a PID file that was written is read back while the process runs; once it is gone, the file is removed.\<close>

theorem pid_file_roundtrip:
  assumes "write_pid_file env True True pid_file fs = (fs', Inr ())" "readable pid_file" "pl_remove env pid_file"
  shows "check_pid_file env readable running pid_file fs' =
    (if running (pl_pid env) then (fs', Inr (Some (pl_pid env))) else (fs'(pid_file := None), Inr None))"
proof -
  have written: "fs' pid_file = Some (show_nat (unat (pl_pid env)))"
    using assms(1) by (auto simp: write_pid_file_def)
  have "trim (show_nat n) = show_nat n" for n
    unfolding trim_def using show_nat_hd [of n] show_nat_digits [of n]
    by (intro trim_both_id) (auto simp: char_code_show)
  moreover have "parse_u32 (show_nat (unat (pl_pid env))) = Some (pl_pid env)"
  proof -
    have "unat (pl_pid env) < 2 ^ LENGTH(32)" by (rule unsigned_less)
    then have "parse_radix 10 32 (show_nat (unat (pl_pid env))) = Some (unat (pl_pid env))"
      by (intro parse_show_nat) simp
    then show ?thesis by (simp add: parse_u32_def)
  qed
  ultimately show ?thesis
    using written assms(2,3) by (simp add: check_pid_file_def read_file_def remove_pid_file_def)
qed

text \<open>\<open>findmnt --target\<close> reports the file system that a path lies on, so it succeeds for every path that exists.\<close>

definition findmnt_ok :: "platform_env \<Rightarrow> inodes \<Rightarrow> bool" where
  "findmnt_ok env fs =
     (\<forall>p. fs p \<noteq> None \<longrightarrow>
        (\<exists>out. out \<noteq> [] \<and> pl_findmnt env [''-n'', ''-o'', ''TARGET'', ''--target'', p] = Some (True, out)))"

lemma existing_is_mounted: "findmnt_ok env fs \<Longrightarrow> path_exists fs p \<Longrightarrow> is_mounted env p = Inr True"
  by (auto simp: findmnt_ok_def path_exists_def is_mounted_def)

text \<open>no directory is ever fit to be mounted on: one that does not exist is refused for that, and one that does counts
  as mounted already; for the same reason no mount point is ever cleaned up.\<close>

theorem no_point_fit_for_mount:
  assumes "findmnt_ok env fs"
  shows "validate_for_mount env fs p \<in> {Inl (Point_Missing p), Inl (Not_Directory p), Inl (Already_Mounted p)}
    \<and> cleanup_mount_point env p remove_empty no_entries fs = (fs, Inr ())
    \<and> check_existing_mount env fs p = path_exists fs p"
  using existing_is_mounted [OF assms, of p]
  by (auto simp: validate_for_mount_def cleanup_mount_point_def check_existing_mount_def)

text \<open>Where the permission manager grants the current user access to read, the platform does so as well.\<close>

lemma manager_access_granted:
  assumes "can_access penv fs path False" "pe_uid penv = pl_uid env" "pe_gid penv = pl_gid env"
  shows "can_access_path env fs path"
  using assms by (auto simp: can_access_def can_access_path_def granted_def Let_def split: option.splits if_splits)

text \<open>a path that is accepted for a mount point is absolute, has no parent directory among its components, and
  keeps to the limits of lengths.\<close>

theorem validated_point_safe:
  assumes "validate_point_path p = Inr ()"
  shows "path_is_absolute p \<and> ParentDir \<notin> set (path_components p) \<and> length p \<le> 4096
    \<and> list_all (\<lambda>c. length (component_text c) \<le> 255) (path_components p)"
proof -
  have p: "path_is_absolute p" "\<not> contains_str p ''..''" "check_path_length p = Inr ()"
    using assms by (auto simp: validate_point_path_def check_dangerous_paths_def fuji_res split: if_splits option.splits)
  have "''..'' \<notin> set (split_on CHR ''/'' p)"
    using p(2) sublist_split_on by (auto simp: contains_str_sublist)
  then have "ParentDir \<notin> set (path_components p)"
    using p(1) by (auto simp: path_components_def path_component_of_def path_is_absolute_def Let_def split: if_splits)
  with p show ?thesis by (auto simp: check_path_length_def list_ex_iff list_all_iff not_less split: if_splits)
qed

text \<open>The comparison with the system directories is one of texts: a segment \<open>.\<close> in front hides them, and
  a longer name is taken for one of them.\<close>

theorem dot_segment_bypasses:
  "validate_point_path ''/./etc/x'' = Inr () \<and> path_starts_with ''/./etc/x'' ''/etc''
   \<and> validate_point_path ''/device'' = Inl (System_Directory ''/dev'')"
  by (simp add: validate_point_path_def check_dangerous_paths_def prohibited_def check_path_length_def
      path_starts_with_def path_components_def path_component_of_def path_is_absolute_def fuji_eval)


definition sample_platform :: platform_env where
  "sample_platform =
     \<lparr> pl_uid = 0, pl_gid = 0, pl_pid = 42, pl_var = (\<lambda>_. None), pl_whoami = ''root'', pl_mkdir = (\<lambda>_ fs. (fs, True)),
       pl_chmod = (\<lambda>_. True), pl_remove = (\<lambda>_. True), pl_findmnt = (\<lambda>_. Some (True, ''/'')), pl_proc_mounts = None,
       pl_kill = (\<lambda>_ _. True), pl_is_dir = (\<lambda>_. True), pl_config_dir = None \<rparr>"

theorem pid_file_roundtrip_witness:
  "check_pid_file sample_platform (\<lambda>_. True) (\<lambda>pid. pid = 42) ''/run/fuji.pid''
      (fst (write_pid_file sample_platform True True ''/run/fuji.pid'' (\<lambda>_. None)))
   = (fst (write_pid_file sample_platform True True ''/run/fuji.pid'' (\<lambda>_. None)), Inr (Some 42))"
proof -
  obtain fs' where w: "write_pid_file sample_platform True True ''/run/fuji.pid'' (\<lambda>_. None) = (fs', Inr ())"
    by (simp add: write_pid_file_def)
  show ?thesis
    using pid_file_roundtrip [OF w, of "\<lambda>_. True" "\<lambda>pid. pid = 42"] w by (simp add: sample_platform_def)
qed

theorem no_point_fit_for_mount_witness:
  "validate_for_mount sample_platform (\<lambda>_. Some \<lparr> in_uid = 0, in_gid = 0, in_mode = 0x41ed \<rparr>) ''/mnt/x''
     = Inl (Already_Mounted ''/mnt/x'')"
proof -
  let ?fs = "\<lambda>_ :: string. Some \<lparr> in_uid = 0 :: u32, in_gid = 0 :: u32, in_mode = 0x41ed :: u32 \<rparr>"
  have "findmnt_ok sample_platform ?fs" by (simp add: findmnt_ok_def sample_platform_def)
  from no_point_fit_for_mount [OF this, of "''/mnt/x''" True None]
  have "validate_for_mount sample_platform ?fs ''/mnt/x'' \<noteq> Inr ()" by auto
  then show ?thesis
    by (auto simp: validate_for_mount_def path_exists_def is_mounted_def sample_platform_def can_access_path_def granted_def)
qed

theorem validated_point_safe_witness:
  "path_is_absolute ''/mnt/x'' \<and> ParentDir \<notin> set (path_components ''/mnt/x'') \<and> length ''/mnt/x'' \<le> 4096"
proof -
  have "validate_point_path ''/mnt/x'' = Inr ()"
    by (simp add: validate_point_path_def check_dangerous_paths_def prohibited_def check_path_length_def
        path_components_def path_component_of_def path_is_absolute_def fuji_eval)
  from validated_point_safe [OF this] show ?thesis by blast
qed

end
