(* ===== verification/Cluster_State.thy ===== *)
theory Cluster_State
  imports Fuji_Config
begin

text \<open>
  \<open>src/cluster/mod.rs\<close>: what a node knows of the cluster, its configuration, its peers and
  when it last asked or was asked for a synchronisation.

  Every field is behind a lock of its own that no operation holds across another one; an operation
  is one function on the record of the four fields.  \<open>Utc::now()\<close> is an argument.
\<close>

section \<open>State and operations\<close>

record cluster_state =
  cs_config :: "cluster_config option"
  cs_peers :: "(string, peer_info) hashmap"
  cs_last_sync_initiation :: "instant option"
  cs_last_peer_request :: "instant option"

record cluster_stats =
  st_total_peers :: nat
  st_connected_peers :: nat
  st_disconnected_peers :: nat
  st_suspended_peers :: nat
  st_last_sync_initiation :: "instant option"
  st_last_peer_request :: "instant option"

definition cluster_state_new :: cluster_state where
  "cluster_state_new =
     \<lparr> cs_config = None, cs_peers = [], cs_last_sync_initiation = None, cs_last_peer_request = None \<rparr>"

definition cluster_initialize :: "cluster_config \<Rightarrow> cluster_state \<Rightarrow> cluster_state" where
  "cluster_initialize config s =
     s\<lparr>cs_config := Some config,
       cs_peers := fold (\<lambda>peer. hm_insert (pi_id peer) peer) (cc_peers config) []\<rparr>"

definition cluster_is_enabled :: "cluster_state \<Rightarrow> bool" where
  "cluster_is_enabled s = (case cs_config s of Some c \<Rightarrow> cc_enabled c | None \<Rightarrow> False)"

definition cluster_get_instance_id :: "cluster_state \<Rightarrow> string option" where
  "cluster_get_instance_id s = map_option cc_instance_id (cs_config s)"

definition update_peer :: "peer_info \<Rightarrow> cluster_state \<Rightarrow> cluster_state" where
  "update_peer peer s = s\<lparr>cs_peers := hm_insert (pi_id peer) peer (cs_peers s)\<rparr>"

definition remove_peer :: "string \<Rightarrow> cluster_state \<Rightarrow> cluster_state \<times> bool" where
  "remove_peer peer_id s =
     (case hm_get (cs_peers s) peer_id of
        Some _ \<Rightarrow> (s\<lparr>cs_peers := hm_remove peer_id (cs_peers s)\<rparr>, True)
      | None \<Rightarrow> (s, False))"

definition get_peers :: "cluster_state \<Rightarrow> peer_info list" where
  "get_peers s = map snd (cs_peers s)"

definition get_peer :: "cluster_state \<Rightarrow> string \<Rightarrow> peer_info option" where
  "get_peer s peer_id = hm_get (cs_peers s) peer_id"

definition update_peer_status ::
    "instant \<Rightarrow> string \<Rightarrow> peer_status \<Rightarrow> cluster_state \<Rightarrow> cluster_state" where
  "update_peer_status now peer_id status s =
     s\<lparr>cs_peers := hm_update peer_id (\<lambda>p. p\<lparr>pi_status := status, pi_last_seen := now\<rparr>) (cs_peers s)\<rparr>"

definition mark_peer_seen :: "instant \<Rightarrow> string \<Rightarrow> cluster_state \<Rightarrow> cluster_state" where
  "mark_peer_seen now peer_id s =
     s\<lparr>cs_peers := hm_update peer_id
          (\<lambda>p. let p' = p\<lparr>pi_last_seen := now\<rparr>
               in if pi_status p' = Peer_Disconnected then p'\<lparr>pi_status := Peer_Connected\<rparr> else p')
          (cs_peers s)\<rparr>"

definition get_healthy_peers :: "instant \<Rightarrow> duration \<Rightarrow> cluster_state \<Rightarrow> peer_info list" where
  "get_healthy_peers now timeout s =
     filter (\<lambda>p. pi_status p = Peer_Connected \<or> now - pi_last_seen p < timeout) (map snd (cs_peers s))"

definition get_sync_config :: "cluster_state \<Rightarrow> (duration \<times> duration) option" where
  "get_sync_config s = map_option (\<lambda>c. (cc_sync_interval c, cc_sync_timeout c)) (cs_config s)"

definition mark_sync_initiated :: "instant \<Rightarrow> cluster_state \<Rightarrow> cluster_state" where
  "mark_sync_initiated now s = s\<lparr>cs_last_sync_initiation := Some now\<rparr>"

definition mark_peer_request :: "instant \<Rightarrow> cluster_state \<Rightarrow> cluster_state" where
  "mark_peer_request now s = s\<lparr>cs_last_peer_request := Some now\<rparr>"

definition should_initiate_sync :: "instant \<Rightarrow> cluster_state \<Rightarrow> bool" where
  "should_initiate_sync now s =
     (case cs_config s of
        Some config \<Rightarrow>
          (case cs_last_peer_request s of
             None \<Rightarrow> True
           | Some asked \<Rightarrow> now - asked > cc_sync_timeout config)
      | None \<Rightarrow> False)"

definition get_stats :: "cluster_state \<Rightarrow> cluster_stats" where
  "get_stats s =
     (let peers = map snd (cs_peers s)
      in \<lparr> st_total_peers = length peers,
           st_connected_peers = length (filter (\<lambda>p. pi_status p = Peer_Connected) peers),
           st_disconnected_peers = length (filter (\<lambda>p. pi_status p = Peer_Disconnected) peers),
           st_suspended_peers = length (filter (\<lambda>p. pi_status p = Peer_Suspended) peers),
           st_last_sync_initiation = cs_last_sync_initiation s,
           st_last_peer_request = cs_last_peer_request s \<rparr>)"

section \<open>The invariant\<close>

definition peers_wf :: "(string, peer_info) hashmap \<Rightarrow> bool" where
  "peers_wf m \<longleftrightarrow> hm_wf m \<and> (\<forall>i p. hm_get m i = Some p \<longrightarrow> pi_id p = i)"

datatype cluster_op =
    Cluster_Initialize cluster_config
  | Cluster_Update_Peer peer_info
  | Cluster_Remove_Peer string
  | Cluster_Peer_Status instant string peer_status
  | Cluster_Peer_Seen instant string
  | Cluster_Sync_Initiated instant
  | Cluster_Peer_Request instant

fun cluster_step :: "cluster_op \<Rightarrow> cluster_state \<Rightarrow> cluster_state" where
  "cluster_step (Cluster_Initialize c) s = cluster_initialize c s"
| "cluster_step (Cluster_Update_Peer p) s = update_peer p s"
| "cluster_step (Cluster_Remove_Peer i) s = fst (remove_peer i s)"
| "cluster_step (Cluster_Peer_Status now i st) s = update_peer_status now i st s"
| "cluster_step (Cluster_Peer_Seen now i) s = mark_peer_seen now i s"
| "cluster_step (Cluster_Sync_Initiated now) s = mark_sync_initiated now s"
| "cluster_step (Cluster_Peer_Request now) s = mark_peer_request now s"

lemma peers_wf_insert: "peers_wf m \<Longrightarrow> peers_wf (hm_insert (pi_id p) p m)"
  by (auto simp: peers_wf_def hm.wf_insert hm.get_insert)

lemma peers_wf_inserts: "peers_wf m \<Longrightarrow> peers_wf (fold (\<lambda>p. hm_insert (pi_id p) p) ps m)"
  by (induction ps arbitrary: m) (auto intro: peers_wf_insert)

lemma peers_wf_remove: "peers_wf m \<Longrightarrow> peers_wf (hm_remove i m)"
  by (auto simp: peers_wf_def hm.wf_remove hm.get_remove)

lemma peers_wf_update: "peers_wf m \<Longrightarrow> (\<And>p. pi_id (f p) = pi_id p) \<Longrightarrow> peers_wf (hm_update i f m)"
  by (auto simp: peers_wf_def hm_wf_update hm_get_update split: if_splits)

lemma peers_wf_empty [simp]: "peers_wf []"
  by (simp add: peers_wf_def hm.wf_empty hm.get_empty)

lemma peers_wf_step: "peers_wf (cs_peers s) \<Longrightarrow> peers_wf (cs_peers (cluster_step op s))"
  by (cases op)
    (auto simp: cluster_initialize_def update_peer_def remove_peer_def update_peer_status_def Let_def
      mark_peer_seen_def mark_sync_initiated_def mark_peer_request_def
      intro: peers_wf_insert peers_wf_inserts peers_wf_remove peers_wf_update split: option.splits)

interpretation cst: component cluster_step "\<lambda>s. peers_wf (cs_peers s)"
  by unfold_locales (rule peers_wf_step)

lemma mark_peer_seen_unknown:
  "hm_get (cs_peers s) i = None \<Longrightarrow> mark_peer_seen now i s = s"
  by (simp add: mark_peer_seen_def hm_update_def)

lemma status_counts:
  "length (filter (\<lambda>p. pi_status p = Peer_Connected) ps)
   + length (filter (\<lambda>p. pi_status p = Peer_Disconnected) ps)
   + length (filter (\<lambda>p. pi_status p = Peer_Suspended) ps) \<le> length ps"
  by (induction ps) auto

lemma stats_bounded:
  "st_connected_peers (get_stats s) + st_disconnected_peers (get_stats s) + st_suspended_peers (get_stats s)
     \<le> st_total_peers (get_stats s)"
  using status_counts [of "map snd (cs_peers s)"] by (simp only: get_stats_def Let_def cluster_stats.simps)

text \<open>through any sequence of operations every peer is stored once, under its own id, and the
  peers the statistics count by status are never more than there are.\<close>

theorem cluster_peers_consistent:
  "let s = fold cluster_step ops cluster_state_new in
    distinct (map pi_id (get_peers s)) \<and> map fst (cs_peers s) = map pi_id (get_peers s)
    \<and> st_connected_peers (get_stats s) + st_disconnected_peers (get_stats s) + st_suspended_peers (get_stats s)
        \<le> st_total_peers (get_stats s)"
proof -
  let ?s = "fold cluster_step ops cluster_state_new"
  have "peers_wf (cs_peers cluster_state_new)" by (simp add: cluster_state_new_def)
  then have wf: "peers_wf (cs_peers ?s)" by (rule cst.inv_run)
  then have ids: "map fst (cs_peers ?s) = map pi_id (get_peers ?s)"
    by (auto simp: peers_wf_def get_peers_def hm_get_iff_in_set intro!: map_cong)
  moreover have "distinct (map fst (cs_peers ?s))" using wf by (simp add: peers_wf_def hm_wf_def)
  ultimately show ?thesis using stats_bounded [of ?s] by (simp add: Let_def)
qed

text \<open>a node that was asked for its configuration does not start a synchronisation of its own
  before the timeout of its configuration has passed, whatever else happens to its peers.\<close>

theorem request_defers_sync:
  assumes "list_all (\<lambda>op. case op of Cluster_Initialize _ \<Rightarrow> False | Cluster_Peer_Request _ \<Rightarrow> False | _ \<Rightarrow> True) ops"
    and "cs_config s = Some c" and "now \<le> asked + cc_sync_timeout c"
  shows "\<not> should_initiate_sync now (fold cluster_step ops (mark_peer_request asked s))"
proof -
  have keep: "cs_config (cluster_step op t) = cs_config t \<and> cs_last_peer_request (cluster_step op t) = cs_last_peer_request t"
    if "case op of Cluster_Initialize _ \<Rightarrow> False | Cluster_Peer_Request _ \<Rightarrow> False | _ \<Rightarrow> True" for op t
    using that by (cases op) (auto simp: update_peer_def remove_peer_def update_peer_status_def
        mark_peer_seen_def mark_sync_initiated_def split: option.splits)
  have "cs_config (fold cluster_step ops t) = cs_config t
      \<and> cs_last_peer_request (fold cluster_step ops t) = cs_last_peer_request t" for t
    using assms(1)
  proof (induction ops arbitrary: t)
    case (Cons op ops)
    then show ?case using keep [of op t] by simp
  qed simp
  then show ?thesis using assms(2,3) by (simp add: should_initiate_sync_def mark_peer_request_def)
qed

theorem request_defers_sync_witness:
  "\<not> should_initiate_sync 9 (fold cluster_step [Cluster_Peer_Seen 6 ''x'', Cluster_Sync_Initiated 7]
      (mark_peer_request 5 (cluster_state_new\<lparr>cs_config := cfg_cluster (initialize_cluster ''n'' config_default)\<rparr>)))"
proof -
  obtain c where c: "cfg_cluster (initialize_cluster ''n'' config_default) = Some c"
    and t: "cc_sync_timeout c = minutes 10"
    by (simp add: initialize_cluster_def)
  show ?thesis
    unfolding c by (rule request_defers_sync [where c = c]) (simp_all add: t minutes_def)
qed

end
