(* ===== verification/Cluster_Discovery.thy ===== *)
theory Cluster_Discovery
  imports Cluster_State
begin

text \<open>
  \<open>src/cluster/discovery.rs\<close>: invitations to a cluster, their signature and the manager that
  issues and accepts them.

  The HMAC and base64 crates are the parameter \<open>hmac\<close>, from a key and data to the printed code.
  The random key, the local address and the clock are arguments.  Adding to an instant panics
  outside the dates that chrono represents; \<open>valid_date\<close> says which those are.  Panics are \<open>None\<close>.
  The exchange format of an invitation (JSON in base64) is not modelled.
\<close>

section \<open>Invitations\<close>

record invitation =
  inv_version :: string
  inv_instance_id :: string
  inv_address :: string
  inv_psk :: string
  inv_expires_at :: instant
  inv_signature :: string

datatype invitation_error = InvalidSignature | InvitationExpired

definition cluster_port :: u16 where
  "cluster_port = 8080"

text \<open>\<open>Duration::hours\<close> panics beyond \<open>i64::MAX\<close> milliseconds.\<close>

definition duration_hours :: "int \<Rightarrow> duration option" where
  "duration_hours h =
     (if \<bar>h * 3600\<bar> \<le> 9223372036854775 then Some (h * 3600 * 1000000000) else None)"

text \<open>\<open>timestamp_nanos_opt().unwrap_or(0)\<close>\<close>

definition timestamp_nanos :: "instant \<Rightarrow> int" where
  "timestamp_nanos t = (if - 9223372036854775808 \<le> t \<and> t \<le> 9223372036854775807 then t else 0)"

definition show_int :: "int \<Rightarrow> string" where
  "show_int i = (if i < 0 then ''-'' @ show_nat (nat (- i)) else show_nat (nat i))"

definition signed_data :: "string \<Rightarrow> string \<Rightarrow> instant \<Rightarrow> string" where
  "signed_data instance_id address expires_at =
     instance_id @ '':'' @ address @ '':'' @ show_int (timestamp_nanos expires_at)"

definition generate_signature ::
    "(string \<Rightarrow> string \<Rightarrow> string) \<Rightarrow> string \<Rightarrow> string \<Rightarrow> instant \<Rightarrow> string" where
  "generate_signature hmac instance_id address expires_at =
     hmac ''fuji-cluster-invitation'' (signed_data instance_id address expires_at)"

definition invitation_new ::
    "(string \<Rightarrow> string \<Rightarrow> string) \<Rightarrow> (instant \<Rightarrow> bool) \<Rightarrow> instant \<Rightarrow>
     string \<Rightarrow> string \<Rightarrow> string \<Rightarrow> int \<Rightarrow> invitation option" where
  "invitation_new hmac valid_date now instance_id address psk expires_in_hours =
     (case duration_hours expires_in_hours of
        None \<Rightarrow> None
      | Some d \<Rightarrow>
          (let expires_at = now + d
           in if \<not> valid_date expires_at then None
              else Some \<lparr> inv_version = ''1.0'', inv_instance_id = instance_id, inv_address = address,
                          inv_psk = psk, inv_expires_at = expires_at,
                          inv_signature = generate_signature hmac instance_id address expires_at \<rparr>))"

definition verify :: "(string \<Rightarrow> string \<Rightarrow> string) \<Rightarrow> invitation \<Rightarrow> bool" where
  "verify hmac i =
     (inv_signature i = generate_signature hmac (inv_instance_id i) (inv_address i) (inv_expires_at i))"

definition is_expired :: "instant \<Rightarrow> invitation \<Rightarrow> bool" where
  "is_expired now i = (now > inv_expires_at i)"

definition hours_until_expiration :: "instant \<Rightarrow> invitation \<Rightarrow> int" where
  "hours_until_expiration now i =
     (if inv_expires_at i > now
      then let seconds_left = (inv_expires_at i - now) div 1000000000
           in max 1 (seconds_left div 3600)
      else 0)"

section \<open>The discovery manager\<close>

record discovery_manager =
  dm_instance_id :: string
  dm_issued_invitations :: "(string, invitation) hashmap"

definition discovery_new :: "string \<Rightarrow> discovery_manager" where
  "discovery_new instance_id = \<lparr> dm_instance_id = instance_id, dm_issued_invitations = [] \<rparr>"

text \<open>\<open>local_ip\<close> is the address the network crate finds, with what the code asks of it: whether it
  is version 4 and whether it is a loopback address.\<close>

definition get_local_ip :: "(string \<times> bool \<times> bool) option \<Rightarrow> string" where
  "get_local_ip local_ip =
     (case local_ip of
        Some (addr, is_ipv4, is_loopback) \<Rightarrow> if is_ipv4 \<and> \<not> is_loopback then addr else ''127.0.0.1''
      | None \<Rightarrow> ''127.0.0.1'')"

definition generate_invitation ::
    "(string \<Rightarrow> string \<Rightarrow> string) \<Rightarrow> (instant \<Rightarrow> bool) \<Rightarrow> (string \<times> bool \<times> bool) option \<Rightarrow> string \<Rightarrow>
     instant \<Rightarrow> int option \<Rightarrow> discovery_manager \<Rightarrow> (discovery_manager \<times> invitation) option" where
  "generate_invitation hmac valid_date local_ip psk now expires_in_hours m =
     (let expires_in = (case expires_in_hours of Some h \<Rightarrow> h | None \<Rightarrow> 24);
          address = get_local_ip local_ip @ '':'' @ show_nat (unat cluster_port)
      in case invitation_new hmac valid_date now (dm_instance_id m) address psk expires_in of
           None \<Rightarrow> None
         | Some i \<Rightarrow>
             Some (m\<lparr>dm_issued_invitations := hm_insert (inv_instance_id i) i (dm_issued_invitations m)\<rparr>, i))"

definition accept_invitation ::
    "(string \<Rightarrow> string \<Rightarrow> string) \<Rightarrow> instant \<Rightarrow> instant \<Rightarrow> invitation \<Rightarrow> invitation_error + peer_info" where
  "accept_invitation hmac now now' i =
     (if \<not> verify hmac i then Inl InvalidSignature
      else if is_expired now i then Inl InvitationExpired
      else Inr \<lparr> pi_id = inv_instance_id i, pi_address = inv_address i, pi_psk = inv_psk i,
                 pi_last_seen = now', pi_status = Peer_Disconnected \<rparr>)"

text \<open>The loop over the map collects the expired ids, the second loop removes them.\<close>

definition cleanup_expired_invitations :: "instant \<Rightarrow> discovery_manager \<Rightarrow> discovery_manager" where
  "cleanup_expired_invitations now m =
     (let to_remove = map fst (filter (\<lambda>(_, i). is_expired now i) (dm_issued_invitations m))
      in m\<lparr>dm_issued_invitations := fold hm_remove to_remove (dm_issued_invitations m)\<rparr>)"

definition get_issued_invitations :: "discovery_manager \<Rightarrow> invitation list" where
  "get_issued_invitations m = map snd (dm_issued_invitations m)"

section \<open>Lemmas\<close>

definition manager_wf :: "discovery_manager \<Rightarrow> bool" where
  "manager_wf m \<longleftrightarrow> hm_wf (dm_issued_invitations m)
     \<and> (\<forall>k i. hm_get (dm_issued_invitations m) k = Some i \<longrightarrow> k = dm_instance_id m \<and> inv_instance_id i = k)"

datatype manager_op =
    Generate "(string \<times> bool \<times> bool) option" string instant "int option"
  | Cleanup instant

text \<open>A panic leaves the manager as it was.\<close>

fun manager_step ::
    "(string \<Rightarrow> string \<Rightarrow> string) \<Rightarrow> (instant \<Rightarrow> bool) \<Rightarrow> manager_op \<Rightarrow> discovery_manager \<Rightarrow> discovery_manager" where
  "manager_step hmac valid (Generate ip psk now hours) m =
     (case generate_invitation hmac valid ip psk now hours m of Some (m', _) \<Rightarrow> m' | None \<Rightarrow> m)"
| "manager_step hmac valid (Cleanup now) m = cleanup_expired_invitations now m"

lemma invitation_new_fields:
  "invitation_new hmac valid now a b psk h = Some i \<Longrightarrow>
     inv_instance_id i = a \<and> inv_address i = b \<and> inv_psk i = psk \<and> inv_version i = ''1.0'' \<and> verify hmac i
     \<and> inv_expires_at i = now + h * 3600 * 1000000000"
  by (auto simp: invitation_new_def verify_def duration_hours_def Let_def split: option.splits if_splits)

lemma generate_invitation_manager:
  "generate_invitation hmac valid ip psk now h m = Some (m', i) \<Longrightarrow>
     inv_instance_id i = dm_instance_id m
     \<and> m' = m\<lparr>dm_issued_invitations := hm_insert (dm_instance_id m) i (dm_issued_invitations m)\<rparr>"
  by (auto simp: generate_invitation_def Let_def dest!: invitation_new_fields split: option.splits)

lemma manager_wf_step: "manager_wf m \<Longrightarrow> manager_wf (manager_step hmac valid op m)"
proof (cases op)
  case (Generate ip psk now h)
  assume wf: "manager_wf m"
  show ?thesis
  proof (cases "generate_invitation hmac valid ip psk now h m")
    case (Some r)
    obtain m' i where r: "r = (m', i)" by (cases r)
    from generate_invitation_manager [OF Some [unfolded r]] wf show ?thesis
      by (auto simp: Generate Some r manager_wf_def hm.wf_insert hm.get_insert split: if_splits)
  qed (simp add: Generate wf)
next
  case (Cleanup now)
  assume wf: "manager_wf m"
  then show ?thesis
    by (auto simp: Cleanup manager_wf_def cleanup_expired_invitations_def Let_def hm.wf_fold_remove
        hm.get_fold_remove split: if_splits)
qed

interpretation dm: component "manager_step hmac valid" manager_wf for hmac valid
  by unfold_locales (rule manager_wf_step)

lemma manager_step_id [simp]: "dm_instance_id (manager_step hmac valid op m) = dm_instance_id m"
  by (cases op) (auto simp: cleanup_expired_invitations_def Let_def generate_invitation_def split: option.splits)

text \<open>an invitation that was just issued is accepted until it expires, and the peer it yields has
  the id, the address and the key that went into it.\<close>

theorem fresh_invitation_accepted:
  assumes "generate_invitation hmac valid ip psk now hours m = Some (m', i)"
    and "t \<le> inv_expires_at i"
  shows "accept_invitation hmac t t' i =
           Inr \<lparr> pi_id = dm_instance_id m, pi_address = get_local_ip ip @ '':8080'', pi_psk = psk,
                 pi_last_seen = t', pi_status = Peer_Disconnected \<rparr>
    \<and> List.member (get_issued_invitations m') i"
proof -
  have port: "show_nat (unat cluster_port) = ''8080''"
    by (simp add: cluster_port_def show_nat.simps char_of_eq_iff)
  obtain h where new: "invitation_new hmac valid now (dm_instance_id m) (get_local_ip ip @ '':8080'') psk h = Some i"
    and m': "m' = m\<lparr>dm_issued_invitations := hm_insert (inv_instance_id i) i (dm_issued_invitations m)\<rparr>"
    using assms(1) by (auto simp: generate_invitation_def Let_def port split: option.splits)
  have "hm_get (dm_issued_invitations m') (inv_instance_id i) = Some i" by (simp add: m' hm.get_insert)
  then have "(inv_instance_id i, i) \<in> set (dm_issued_invitations m')" by (rule hm_get_in_set)
  then have "i \<in> set (get_issued_invitations m')" by (force simp: get_issued_invitations_def)
  with invitation_new_fields [OF new] assms(2) show ?thesis
    by (simp add: accept_invitation_def is_expired_def)
qed

theorem fresh_invitation_accepted_witness:
  "\<exists>m' i. generate_invitation (\<lambda>k d. k @ d) (\<lambda>_. True) None ''secret'' 5 (Some 1) (discovery_new ''n'') = Some (m', i)
     \<and> is_ok (accept_invitation (\<lambda>k d. k @ d) 6 7 i)"
proof -
  obtain m' i where gen: "generate_invitation (\<lambda>k d. k @ d) (\<lambda>_. True) None ''secret'' 5 (Some 1) (discovery_new ''n'')
      = Some (m', i)" and e: "inv_expires_at i = 5 + 3600 * 1000000000"
    by (simp add: generate_invitation_def invitation_new_def duration_hours_def Let_def)
  from fresh_invitation_accepted [OF gen, of 6 7] e gen show ?thesis by (simp add: is_ok_def)
qed

text \<open>the signature protects neither the key nor the version of an invitation, both can be replaced
  in a signed invitation; it does not tell where the id ends and the address begins; and from the
  year 2262 on it says nothing about the time.\<close>

theorem invitation_not_authenticated:
  "verify hmac (i\<lparr>inv_psk := psk, inv_version := v\<rparr>) = verify hmac i
   \<and> generate_signature hmac (a @ '':'' @ b) c t = generate_signature hmac a (b @ '':'' @ c) t
   \<and> (let far = 9223372036854775808 in
        generate_signature hmac a b far = generate_signature hmac a b (far + int d))"
  by (simp add: verify_def generate_signature_def signed_data_def timestamp_nanos_def Let_def)

text \<open>the invitations are kept under the id of the instance that issues them, so the manager
  remembers one invitation at most, the last.\<close>

theorem one_invitation_remembered:
  "length (get_issued_invitations (fold (manager_step hmac valid) ops (discovery_new n))) \<le> 1"
proof -
  let ?m = "fold (manager_step hmac valid) ops (discovery_new n)"
  have "manager_wf (discovery_new n)" by (simp add: manager_wf_def discovery_new_def hm.wf_empty hm.get_empty)
  then have wf: "manager_wf ?m" by (rule dm.inv_run)
  have "fst ` set (dm_issued_invitations ?m) \<subseteq> {dm_instance_id ?m}"
    using wf by (auto simp: manager_wf_def hm_get_iff_in_set)
  then have "card (fst ` set (dm_issued_invitations ?m)) \<le> card {dm_instance_id ?m}"
    by (rule card_mono [rotated]) simp
  moreover have "card (set (map fst (dm_issued_invitations ?m))) = length (map fst (dm_issued_invitations ?m))"
    using wf by (simp only: distinct_card manager_wf_def hm_wf_def)
  ultimately show ?thesis by (simp add: get_issued_invitations_def)
qed

end
