(* ===== verification/Config_Access.thy ===== *)
theory Config_Access
  imports Platform_Linux Cluster_Discovery
begin

text \<open>
  What the configuration and an invitation look like outside the program: the seconds that stand for a duration in the
  file, the directories a configuration chooses (\<open>src/config/mod.rs\<close>), and the text in which an invitation is handed
  over (\<open>src/cluster/discovery.rs\<close>).  JSON and base64 are the record \<open>invitation_codec\<close>, the random characters of a key
  a function.
\<close>

section \<open>Durations in the file\<close>

text \<open>\<open>num_seconds\<close> rounds towards zero; \<open>Duration::seconds\<close> panics beyond \<open>i64::MAX\<close> milliseconds.\<close>

definition serialize_duration :: "duration \<Rightarrow> int" where
  "serialize_duration d = sgn d * (\<bar>d\<bar> div 1000000000)"

definition deserialize_duration :: "int \<Rightarrow> duration outcome" where
  "deserialize_duration s = (if \<bar>s\<bar> \<le> 9223372036854775 then Returned (s * 1000000000) else Panicked)"

section \<open>Files and directories\<close>

definition save_to_dir ::
    "(fuji_config \<Rightarrow> string option) \<Rightarrow> bool \<Rightarrow> write_outcome \<Rightarrow> string \<Rightarrow> fuji_config \<Rightarrow> files \<Rightarrow>
     files \<times> (store_error + unit)" where
  "save_to_dir to_toml dir_ok w config_dir c fs =
     (if \<not> dir_ok then (fs, Inl Dir_Error)
      else case to_toml c of
             None \<Rightarrow> (fs, Inl Serialize_Error)
           | Some content \<Rightarrow>
               (case write_file w (path_join config_dir ''mounts.toml'') content fs of
                  (fs', ok) \<Rightarrow> (fs', if ok then Inr () else Inl Write_Error)))"

definition config_socket_path :: "platform_env \<Rightarrow> fuji_config \<Rightarrow> inodes \<Rightarrow> inodes \<times> string" where
  "config_socket_path env c fs = get_socket_path env (pc_socket_path (cfg_platform c)) fs"

definition config_mount_dir :: "platform_env \<Rightarrow> fuji_config \<Rightarrow> inodes \<Rightarrow> inodes \<times> string" where
  "config_mount_dir env c fs =
     (case pc_mount_dir (cfg_platform c) of Some d \<Rightarrow> (fs, d) | None \<Rightarrow> get_mount_dir env fs)"

section \<open>Invitations as text\<close>

record invitation_codec =
  ic_json :: "invitation \<Rightarrow> string"
  ic_of_json :: "string \<Rightarrow> invitation option"
  ic_base64 :: "string \<Rightarrow> string"
  ic_of_base64 :: "string \<Rightarrow> string option"

definition invitation_codec_ok :: "invitation_codec \<Rightarrow> bool" where
  "invitation_codec_ok ic \<longleftrightarrow>
     (\<forall>i. ic_of_json ic (ic_json ic i) = Some i) \<and> (\<forall>s. ic_of_base64 ic (ic_base64 ic s) = Some s)"

datatype invitation_text_error = Invalid_Base64 | Invalid_Invitation_Format

definition invitation_to_string :: "invitation_codec \<Rightarrow> invitation \<Rightarrow> string" where
  "invitation_to_string ic i = ic_base64 ic (ic_json ic i)"

definition invitation_from_str :: "invitation_codec \<Rightarrow> string \<Rightarrow> invitation_text_error + invitation" where
  "invitation_from_str ic s =
     (case ic_of_base64 ic s of
        None \<Rightarrow> Inl Invalid_Base64
      | Some json \<Rightarrow> (case ic_of_json ic json of None \<Rightarrow> Inl Invalid_Invitation_Format | Some i \<Rightarrow> Inr i))"

definition generate_psk :: "(nat \<Rightarrow> char) \<Rightarrow> string" where
  "generate_psk draw = map draw [0 ..< 32]"

section \<open>Properties\<close>

lemma serialize_minus: "serialize_duration (- d) = - serialize_duration d"
  by (simp add: serialize_duration_def sgn_minus)

lemma whole_seconds:
  assumes "0 \<le> d" "d' = serialize_duration d * 1000000000"
  shows "\<bar>d'\<bar> \<le> \<bar>d\<bar> \<and> \<bar>d - d'\<bar> < 1000000000 \<and> (d' = d \<longleftrightarrow> 1000000000 dvd d)
    \<and> serialize_duration d' = serialize_duration d"
proof -
  have s: "serialize_duration x = x div 1000000000" if "0 \<le> x" for x
    using that by (cases "x = 0") (simp_all add: serialize_duration_def)
  have d': "d' = d div 1000000000 * 1000000000" "0 \<le> d div 1000000000 * 1000000000" using assms by (simp_all add: s)
  have "d - d' = d mod 1000000000" by (simp add: d' minus_div_mult_eq_mod)
  moreover have "0 \<le> d mod 1000000000" "d mod 1000000000 < 1000000000" by simp_all
  moreover have "1000000000 dvd d \<longleftrightarrow> d mod 1000000000 = 0" by (rule dvd_eq_mod_eq_0)
  moreover have "serialize_duration d' = serialize_duration d" using assms(1) d'(2) by (simp add: s d'(1))
  ultimately show ?thesis using assms(1) d' by linarith
qed

text \<open>a duration is read back without its part of a second, and as it was exactly when it had none.\<close>

theorem stored_duration_truncated:
  assumes "deserialize_duration (serialize_duration d) = Returned d'"
  shows "\<bar>d'\<bar> \<le> \<bar>d\<bar> \<and> \<bar>d - d'\<bar> < 1000000000 \<and> (d' = d \<longleftrightarrow> 1000000000 dvd d)
    \<and> serialize_duration d' = serialize_duration d"
proof (cases "0 \<le> d")
  case True
  with assms show ?thesis
    by (intro whole_seconds) (auto simp: deserialize_duration_def split: if_splits)
next
  case False
  with assms have "0 \<le> - d" "- d' = serialize_duration (- d) * 1000000000"
    by (auto simp: deserialize_duration_def serialize_minus split: if_splits)
  from whole_seconds [OF this] show ?thesis by (simp add: serialize_minus abs_minus_commute)
qed

theorem stored_duration_truncated_witness:
  "deserialize_duration (serialize_duration (- 2500000000)) = Returned (- 2000000000)
   \<and> \<bar>- 2500000000 - (- 2000000000 :: int)\<bar> < 1000000000"
proof -
  have r: "deserialize_duration (serialize_duration (- 2500000000)) = Returned (- 2000000000)"
    by (simp add: deserialize_duration_def serialize_duration_def)
  from stored_duration_truncated [OF this] show ?thesis using r by simp
qed

text \<open>an invitation that was issued, handed over as text and accepted before it expires yields a peer with the id, the
  address and the key of the one who issued it; the key can be read from the text by whoever sees it.\<close>

theorem invitation_handed_over:
  assumes "invitation_codec_ok ic"
    and "generate_invitation hmac valid ip psk now hours m = Some (m', i)" "t \<le> inv_expires_at i"
  shows "\<exists>i'. invitation_from_str ic (invitation_to_string ic i) = Inr i' \<and> inv_psk i' = psk
    \<and> accept_invitation hmac t t' i' =
        Inr \<lparr> pi_id = dm_instance_id m, pi_address = get_local_ip ip @ '':8080'', pi_psk = psk,
              pi_last_seen = t', pi_status = Peer_Disconnected \<rparr>"
proof -
  have "invitation_from_str ic (invitation_to_string ic i) = Inr i"
    using assms(1) by (simp add: invitation_from_str_def invitation_to_string_def invitation_codec_ok_def)
  moreover note fresh_invitation_accepted [OF assms(2,3), of t']
  moreover from this have "inv_psk i = psk" by (auto simp: accept_invitation_def split: if_splits)
  ultimately show ?thesis by blast
qed

text \<open>a configuration written by \<open>save_to_dir\<close> is the one \<open>save\<close> writes.\<close>

lemma save_to_dir_save: "save_to_dir to_toml dir_ok w d c fs = save to_toml dir_ok w d c fs"
  by (simp add: save_to_dir_def save_def config_file_def cong: option.case_cong)

text \<open>a generated key has 32 characters, all drawn from the letters and digits when the distribution yields no other.\<close>

lemma generated_psk: "length (generate_psk draw) = 32" "(\<And>k. P (draw k)) \<Longrightarrow> list_all P (generate_psk draw)"
  by (simp_all add: generate_psk_def list_all_iff)

end
