(* ===== verification/Sync_Merge.thy ===== *)
theory Sync_Merge
  imports Fuji_Config "HOL-Library.List_Lexorder" "HOL-Library.Char_ord"
begin

text \<open>
  \<open>src/sync/merge.rs\<close>: the merge of the configurations of several instances.  A mount is taken
  from the instance that changed it last; ties with different content go to the conflict
  strategy.

  The grouping map is filled in the order of the instances and of their mounts, which stands for
  any iteration order.  Indexing an empty list of versions panics: that is \<open>None\<close>.
\<close>

section \<open>Data\<close>

datatype conflict_strategy =
    LatestWins
  | PreferInstance string
  | Manual
  | InstanceIdTieBreak

record config_merger =
  mg_instance_id :: string
  mg_conflict_strategy :: conflict_strategy

record mount_version =
  mv_instance_id :: string
  mv_config :: mount_wrapper
  mv_updated_at :: instant

record resolved_mount =
  rm_config :: mount_wrapper
  rm_conflict :: "sync_conflict option"

record merged_config =
  md_config :: fuji_config
  md_sync_metadata :: sync_metadata
  md_resolved_conflicts :: "conflict_resolution list"

definition merger_new :: config_merger where
  "merger_new = \<lparr> mg_instance_id = ''unknown'', mg_conflict_strategy = InstanceIdTieBreak \<rparr>"

definition merger_with_instance_id :: "string \<Rightarrow> config_merger" where
  "merger_with_instance_id i = merger_new\<lparr>mg_instance_id := i\<rparr>"

section \<open>One mount\<close>

definition concurrent_conflict ::
    "string \<Rightarrow> mount_version list \<Rightarrow> conflict_resolution \<Rightarrow> sync_conflict" where
  "concurrent_conflict mount_id vs resolution =
     \<lparr> scf_mount_id = mount_id, scf_conflict_type = ConcurrentModification,
       scf_conflicting_instances = map mv_instance_id vs, scf_resolution = resolution \<rparr>"

definition resolve_conflict ::
    "conflict_strategy \<Rightarrow> string \<Rightarrow> mount_version \<Rightarrow> mount_version list \<Rightarrow> resolved_mount" where
  "resolve_conflict strategy mount_id latest same_timestamp =
     (case strategy of
        LatestWins \<Rightarrow>
          \<lparr> rm_config = mv_config latest,
            rm_conflict = Some (concurrent_conflict mount_id same_timestamp UsedLatest) \<rparr>
      | PreferInstance prefer_id \<Rightarrow>
          (case find (\<lambda>v. mv_instance_id v = prefer_id) same_timestamp of
             Some preferred \<Rightarrow>
               \<lparr> rm_config = mv_config preferred,
                 rm_conflict = Some (concurrent_conflict mount_id same_timestamp (UsedInstance prefer_id)) \<rparr>
           | None \<Rightarrow>
               \<lparr> rm_config = mv_config latest,
                 rm_conflict = Some (concurrent_conflict mount_id same_timestamp UsedLatest) \<rparr>)
      | Manual \<Rightarrow>
          \<lparr> rm_config = mv_config latest,
            rm_conflict = Some (concurrent_conflict mount_id same_timestamp RequiresManualIntervention) \<rparr>
      | InstanceIdTieBreak \<Rightarrow>
          (let owned = sort_key mv_instance_id same_timestamp
           in case owned of
                selected # _ \<Rightarrow>
                  \<lparr> rm_config = mv_config selected,
                    rm_conflict = Some (concurrent_conflict mount_id owned
                                          (UsedInstance (mv_instance_id selected))) \<rparr>
              | [] \<Rightarrow> \<lparr> rm_config = mv_config latest, rm_conflict = None \<rparr>))"

definition resolve_mount_conflict ::
    "config_merger \<Rightarrow> string \<Rightarrow> mount_version list \<Rightarrow> resolved_mount option" where
  "resolve_mount_conflict merger mount_id versions =
     (case sort_key (\<lambda>v. - mv_updated_at v) versions of
        [] \<Rightarrow> None
      | latest # rest \<Rightarrow>
          (let same_timestamp = filter (\<lambda>v. mv_updated_at v = mv_updated_at latest) (latest # rest);
               has_real_conflicts =
                 list_ex (\<lambda>v. \<not> mount_config_eq (mw_config (mv_config v)) (mw_config (mv_config latest)))
                   same_timestamp
           in if has_real_conflicts \<and> same_timestamp \<noteq> []
              then Some (resolve_conflict (mg_conflict_strategy merger) mount_id latest same_timestamp)
              else Some \<lparr> rm_config = mv_config latest, rm_conflict = None \<rparr>))"

section \<open>Grouping\<close>

text \<open>\<open>map.entry(k).or_default().push(v)\<close>\<close>

definition push_version ::
    "(string, mount_version list) hashmap \<Rightarrow> string \<times> mount_version \<Rightarrow> (string, mount_version list) hashmap" where
  "push_version m kv =
     (case kv of (k, v) \<Rightarrow>
        hm_insert k ((case hm_get m k of Some vs \<Rightarrow> vs | None \<Rightarrow> []) @ [v]) m)"

definition instance_versions :: "string \<times> fuji_config \<Rightarrow> (string \<times> mount_version) list" where
  "instance_versions ic =
     (case ic of (instance_id, config) \<Rightarrow>
        map (\<lambda>(mount_id, w). (mount_id, \<lparr> mv_instance_id = instance_id, mv_config = w,
                                          mv_updated_at = mc_updated_at (mw_config w) \<rparr>))
          (cfg_mounts config))"

definition group_versions ::
    "(string \<times> fuji_config) list \<Rightarrow> (string, mount_version list) hashmap" where
  "group_versions instance_configs =
     foldl push_version [] (concat (map instance_versions instance_configs))"

definition latest_sync_version :: "(string \<times> fuji_config) list \<Rightarrow> u64" where
  "latest_sync_version instance_configs =
     foldl (\<lambda>latest (_, config).
              case cfg_cluster config of
                None \<Rightarrow> latest
              | Some cl \<Rightarrow> if sm_sync_version (cc_sync_metadata cl) > latest
                           then sm_sync_version (cc_sync_metadata cl) else latest)
       0 instance_configs"

text \<open>The loop over the grouped mounts: resolve, record the conflict, insert.\<close>

fun merge_mounts ::
    "config_merger \<Rightarrow> (string \<times> mount_version list) list \<Rightarrow>
     (string, mount_wrapper) hashmap \<Rightarrow> sync_conflict list \<Rightarrow>
     ((string, mount_wrapper) hashmap \<times> sync_conflict list) option" where
  "merge_mounts merger [] mounts conflicts = Some (mounts, conflicts)"
| "merge_mounts merger ((mount_id, versions) # rest) mounts conflicts =
     (case resolve_mount_conflict merger mount_id versions of
        None \<Rightarrow> None
      | Some resolved \<Rightarrow>
          merge_mounts merger rest (hm_insert mount_id (rm_config resolved) mounts)
            (conflicts @ (case rm_conflict resolved of Some c \<Rightarrow> [c] | None \<Rightarrow> [])))"

section \<open>Settings\<close>

definition timestamp_millis :: "instant \<Rightarrow> int" where
  "timestamp_millis t = t div 1000000"

definition last_sync_millis :: "fuji_config \<Rightarrow> int option" where
  "last_sync_millis config =
     (case cfg_cluster config of
        None \<Rightarrow> None
      | Some cl \<Rightarrow> map_option timestamp_millis (sm_last_sync_at (cc_sync_metadata cl)))"

text \<open>The configuration with the greatest time of its last synchronisation, the first of equals,
  if that time is after the epoch.  The source runs this loop with one variable pair per setting.\<close>

definition most_recent :: "(string \<times> fuji_config) list \<Rightarrow> int \<times> fuji_config option" where
  "most_recent instance_configs =
     foldl (\<lambda>(latest_time, latest) (_, config).
              case last_sync_millis config of
                None \<Rightarrow> (latest_time, latest)
              | Some t \<Rightarrow> if t > latest_time then (t, Some config) else (latest_time, latest))
       (0, None) instance_configs"

definition merge_global_settings :: "fuji_config \<Rightarrow> (string \<times> fuji_config) list \<Rightarrow> fuji_config" where
  "merge_global_settings merged instance_configs =
     (case snd (most_recent instance_configs) of
        None \<Rightarrow> merged
      | Some c \<Rightarrow> merged\<lparr>cfg_reconnection := cfg_reconnection c, cfg_global := cfg_global c\<rparr>)"

definition merged_metadata :: "config_merger \<Rightarrow> instant \<Rightarrow> u64 \<Rightarrow> sync_conflict list \<Rightarrow> sync_metadata" where
  "merged_metadata merger now version conflicts =
     \<lparr> sm_last_sync_at = Some now, sm_last_modified_by = Some (mg_instance_id merger),
       sm_sync_version = version, sm_pending_conflicts = conflicts,
       sm_force_sync_state = force_sync_default \<rparr>"

definition merge_cluster ::
    "config_merger \<Rightarrow> instant \<Rightarrow> u64 \<Rightarrow> sync_conflict list \<Rightarrow> (string \<times> fuji_config) list \<Rightarrow> cluster_config" where
  "merge_cluster merger now latest conflicts instance_configs =
     (let base = \<lparr> cc_enabled = True, cc_instance_id = mg_instance_id merger, cc_peers = [],
                   cc_port = 10080, cc_sync_interval = minutes 5, cc_sync_timeout = minutes 10,
                   cc_sync_metadata = merged_metadata merger now (latest + 1) conflicts \<rparr>
      in case snd (most_recent instance_configs) of
           None \<Rightarrow> base
         | Some c \<Rightarrow> (case cfg_cluster c of
                        None \<Rightarrow> base
                      | Some cl \<Rightarrow> base\<lparr>cc_sync_interval := cc_sync_interval cl,
                                       cc_sync_timeout := cc_sync_timeout cl, cc_port := cc_port cl\<rparr>))"

section \<open>The merge\<close>

definition merge_configs ::
    "config_merger \<Rightarrow> instant \<Rightarrow> instant \<Rightarrow> (string \<times> fuji_config) list \<Rightarrow> merged_config option" where
  "merge_configs merger now now' instance_configs =
     (case merge_mounts merger (group_versions instance_configs) (cfg_mounts config_default) [] of
        None \<Rightarrow> None
      | Some (mounts, conflicts) \<Rightarrow>
          (let latest = latest_sync_version instance_configs;
               merged = merge_global_settings (config_default\<lparr>cfg_mounts := mounts\<rparr>) instance_configs;
               cl = merge_cluster merger now latest conflicts instance_configs
           in Some \<lparr> md_config = merged\<lparr>cfg_cluster := Some cl\<rparr>,
                     md_sync_metadata =
                       merged_metadata merger now' (sm_sync_version (cc_sync_metadata cl) + 1) conflicts,
                     md_resolved_conflicts = map scf_resolution conflicts \<rparr>))"

section \<open>Lemmas\<close>

subsection \<open>Grouping\<close>

definition versions_of :: "string \<Rightarrow> (string \<times> mount_version) list \<Rightarrow> mount_version list" where
  "versions_of k kvs = map snd (filter (\<lambda>kv. fst kv = k) kvs)"

definition all_versions :: "(string \<times> fuji_config) list \<Rightarrow> (string \<times> mount_version) list" where
  "all_versions ics = concat (map instance_versions ics)"

lemma versions_of_simps [simp]:
  "versions_of k [] = []"
  "versions_of k (kvs @ kvs') = versions_of k kvs @ versions_of k kvs'"
  "versions_of k [kv] = (if fst kv = k then [snd kv] else [])"
  by (simp_all add: versions_of_def)

lemma group_fold:
  "hm_wf (foldl push_version [] kvs)
   \<and> hm_get (foldl push_version [] kvs) k =
       (if versions_of k kvs = [] then None else Some (versions_of k kvs))"
proof (induction kvs arbitrary: k rule: rev_induct)
  case (snoc kv kvs)
  obtain k' v where [simp]: "kv = (k', v)" by (cases kv)
  from snoc [of k] snoc [of k'] show ?case
    by (auto simp: push_version_def hm.wf_insert hm.get_insert)
qed (simp add: hm.wf_empty hm.get_empty)

lemma get_group_versions:
  "hm_wf (group_versions ics)"
  "hm_get (group_versions ics) k =
     (if versions_of k (all_versions ics) = [] then None else Some (versions_of k (all_versions ics)))"
  using group_fold [of "all_versions ics" k] by (simp_all add: group_versions_def all_versions_def)

text \<open>The versions of a mount are the entries the instances hold for it.\<close>

lemma set_versions_of:
  assumes "\<forall>ic \<in> set ics. hm_wf (cfg_mounts (snd ic))"
  shows "v \<in> set (versions_of k (all_versions ics)) \<longleftrightarrow>
    (\<exists>i c w. (i, c) \<in> set ics \<and> hm_get (cfg_mounts c) k = Some w
       \<and> v = \<lparr> mv_instance_id = i, mv_config = w, mv_updated_at = mc_updated_at (mw_config w) \<rparr>)"
proof -
  have "v \<in> set (versions_of k (all_versions ics)) \<longleftrightarrow> (k, v) \<in> set (all_versions ics)"
    by (force simp: versions_of_def)
  also have "\<dots> \<longleftrightarrow> (\<exists>i c. (i, c) \<in> set ics \<and> (k, v) \<in> set (instance_versions (i, c)))"
    by (force simp: all_versions_def)
  also have "\<dots> \<longleftrightarrow> (\<exists>i c w. (i, c) \<in> set ics \<and> (k, w) \<in> set (cfg_mounts c)
      \<and> v = \<lparr> mv_instance_id = i, mv_config = w, mv_updated_at = mc_updated_at (mw_config w) \<rparr>)"
    by (fastforce simp: instance_versions_def)
  also have "\<dots> \<longleftrightarrow> (\<exists>i c w. (i, c) \<in> set ics \<and> hm_get (cfg_mounts c) k = Some w
      \<and> v = \<lparr> mv_instance_id = i, mv_config = w, mv_updated_at = mc_updated_at (mw_config w) \<rparr>)"
    using assms hm_get_iff_in_set by fastforce
  finally show ?thesis .
qed

subsection \<open>One mount\<close>

lemma sorted_latest:
  assumes "sort_key (\<lambda>v. - mv_updated_at v) vs = latest # rest"
  shows "latest \<in> set vs" and "\<forall>v \<in> set vs. mv_updated_at v \<le> mv_updated_at latest"
    and "set (latest # rest) = set vs"
proof -
  have "sorted (map (\<lambda>v. - mv_updated_at v) (latest # rest))"
    unfolding assms [symmetric] by simp
  moreover show s: "set (latest # rest) = set vs" unfolding assms [symmetric] by simp
  ultimately show "\<forall>v \<in> set vs. mv_updated_at v \<le> mv_updated_at latest" by auto
  from s show "latest \<in> set vs" by auto
qed

text \<open>The versions that carry the greatest time stamp.\<close>

definition newest :: "mount_version list \<Rightarrow> mount_version set" where
  "newest vs = {v \<in> set vs. \<forall>v' \<in> set vs. mv_updated_at v' \<le> mv_updated_at v}"

lemma newest_same:
  assumes "sort_key (\<lambda>v. - mv_updated_at v) vs = latest # rest"
  shows "set (filter (\<lambda>v. mv_updated_at v = mv_updated_at latest) (latest # rest)) = newest vs"
  using sorted_latest [OF assms] by (force simp: newest_def)

lemma resolve_conflict_in:
  assumes "latest \<in> set same"
  shows "\<exists>v \<in> set same. rm_config (resolve_conflict st i latest same) = mv_config v"
proof (cases st)
  case (PreferInstance p)
  with assms show ?thesis
    by (auto simp: resolve_conflict_def find_Some_iff split: option.splits intro: nth_mem)
next
  case InstanceIdTieBreak
  obtain x xs where x: "sort_key mv_instance_id same = x # xs"
    using assms by (cases "sort_key mv_instance_id same") (auto dest: arg_cong [where f = set])
  then have "x \<in> set same" by (metis list.set_intros(1) set_sort)
  with x InstanceIdTieBreak show ?thesis by (auto simp: resolve_conflict_def)
qed (use assms in \<open>auto simp: resolve_conflict_def\<close>)

lemma resolve_newest:
  assumes "vs \<noteq> []"
  shows "\<exists>r. resolve_mount_conflict mg i vs = Some r \<and> (\<exists>v \<in> newest vs. rm_config r = mv_config v)"
proof -
  obtain latest rest where s: "sort_key (\<lambda>v. - mv_updated_at v) vs = latest # rest"
    using assms by (metis list.exhaust set_empty set_sort)
  let ?same = "filter (\<lambda>v. mv_updated_at v = mv_updated_at latest) (latest # rest)"
  have new: "set ?same = newest vs" and l: "latest \<in> set ?same" by (rule newest_same [OF s]) simp
  then have "latest \<in> newest vs" by blast
  moreover from resolve_conflict_in [OF l]
  have "\<exists>v \<in> newest vs. rm_config (resolve_conflict (mg_conflict_strategy mg) i latest ?same) = mv_config v"
    unfolding new .
  ultimately show ?thesis
    by (auto simp: resolve_mount_conflict_def s Let_def)
qed

subsection \<open>All mounts\<close>

lemma merge_mounts_get:
  assumes "hm_wf groups" and "\<forall>k vs. hm_get groups k = Some vs \<longrightarrow> vs \<noteq> []"
  shows "\<exists>ms cs. merge_mounts mg groups ms0 cs0 = Some (ms, cs)
    \<and> (\<forall>k. hm_get ms k = (case hm_get groups k of
          None \<Rightarrow> hm_get ms0 k
        | Some vs \<Rightarrow> map_option rm_config (resolve_mount_conflict mg k vs)))"
  using assms
proof (induction groups arbitrary: ms0 cs0)
  case (Cons g groups)
  obtain k vs where g: "g = (k, vs)" by (cases g)
  have wf: "hm_wf groups" and notin: "hm_get groups k = None"
    using Cons.prems(1) g by (auto simp: hm_wf_def hm_get_def map_of_eq_None_iff)
  have "hm_get (g # groups) k = Some vs" by (simp add: g hm_get_def)
  with Cons.prems(2) have "vs \<noteq> []" by blast
  then obtain r where r: "resolve_mount_conflict mg k vs = Some r" using resolve_newest by blast
  have "\<forall>k vs. hm_get groups k = Some vs \<longrightarrow> vs \<noteq> []"
  proof (intro allI impI)
    fix k' vs' assume get: "hm_get groups k' = Some vs'"
    with notin have "k' \<noteq> k" by auto
    with get have "hm_get (g # groups) k' = Some vs'" by (simp add: g hm_get_def)
    with Cons.prems(2) show "vs' \<noteq> []" by blast
  qed
  from Cons.IH [OF wf this, of "hm_insert k (rm_config r) ms0"
      "cs0 @ (case rm_conflict r of Some c \<Rightarrow> [c] | None \<Rightarrow> [])"]
  obtain ms cs where ms: "merge_mounts mg groups (hm_insert k (rm_config r) ms0)
        (cs0 @ (case rm_conflict r of Some c \<Rightarrow> [c] | None \<Rightarrow> [])) = Some (ms, cs)"
      and get: "\<forall>k'. hm_get ms k' = (case hm_get groups k' of
          None \<Rightarrow> hm_get (hm_insert k (rm_config r) ms0) k'
        | Some vs \<Rightarrow> map_option rm_config (resolve_mount_conflict mg k' vs))"
    by blast
  have cons: "hm_get (g # groups) k' = (if k' = k then Some vs else hm_get groups k')" for k'
    by (simp add: g hm_get_def)
  have "hm_get ms k' = (case hm_get (g # groups) k' of
          None \<Rightarrow> hm_get ms0 k'
        | Some vs \<Rightarrow> map_option rm_config (resolve_mount_conflict mg k' vs))" for k'
    using get notin r by (cases "k' = k") (simp_all add: cons hm.get_insert split: option.split)
  with ms r g show ?case by simp
qed (simp add: hm.get_empty)

lemma merge_configs_get:
  "\<exists>m. merge_configs mg now now' ics = Some m
     \<and> (\<forall>k. hm_get (cfg_mounts (md_config m)) k =
          (let vs = versions_of k (all_versions ics)
           in if vs = [] then None else map_option rm_config (resolve_mount_conflict mg k vs)))"
proof -
  have "\<forall>k vs. hm_get (group_versions ics) k = Some vs \<longrightarrow> vs \<noteq> []"
    by (auto simp: get_group_versions split: if_splits)
  from merge_mounts_get [OF get_group_versions(1) this, of mg "[]" "[]"]
  obtain ms cs where "merge_mounts mg (group_versions ics) [] [] = Some (ms, cs)"
      and get: "\<forall>k. hm_get ms k = (case hm_get (group_versions ics) k of
          None \<Rightarrow> hm_get [] k | Some vs \<Rightarrow> map_option rm_config (resolve_mount_conflict mg k vs))"
    by blast
  then show ?thesis
    by (auto simp: merge_configs_def config_default_def Let_def merge_global_settings_def
        get_group_versions hm.get_empty split: option.splits)
qed

section \<open>Properties\<close>

lemma merge_latest:
  assumes "\<forall>ic \<in> set ics. hm_wf (cfg_mounts (snd ic))"
  shows "\<exists>m. merge_configs mg now now' ics = Some m
    \<and> (\<forall>k. (hm_get (cfg_mounts (md_config m)) k = None \<longleftrightarrow>
              (\<forall>i c. (i, c) \<in> set ics \<longrightarrow> hm_get (cfg_mounts c) k = None))
         \<and> (\<forall>w. hm_get (cfg_mounts (md_config m)) k = Some w \<longrightarrow>
              (\<exists>i c. (i, c) \<in> set ics \<and> hm_get (cfg_mounts c) k = Some w)
              \<and> (\<forall>i c w'. (i, c) \<in> set ics \<longrightarrow> hm_get (cfg_mounts c) k = Some w' \<longrightarrow>
                   mc_updated_at (mw_config w') \<le> mc_updated_at (mw_config w))))"
proof -
  obtain m where m: "merge_configs mg now now' ics = Some m"
      and get: "\<And>k. hm_get (cfg_mounts (md_config m)) k =
          (let vs = versions_of k (all_versions ics)
           in if vs = [] then None else map_option rm_config (resolve_mount_conflict mg k vs))"
    using merge_configs_get [of mg now now' ics] by blast
  note vs = set_versions_of [OF assms]
  have none: "hm_get (cfg_mounts (md_config m)) k = None \<longleftrightarrow> versions_of k (all_versions ics) = []" for k
    using resolve_newest [of "versions_of k (all_versions ics)" mg k] by (auto simp: get Let_def)
  have empty: "versions_of k (all_versions ics) = [] \<longleftrightarrow>
      (\<forall>i c. (i, c) \<in> set ics \<longrightarrow> hm_get (cfg_mounts c) k = None)" for k
  proof -
    have "versions_of k (all_versions ics) = [] \<longleftrightarrow> (\<forall>v. v \<notin> set (versions_of k (all_versions ics)))"
      by (metis equals0I empty_iff set_empty)
    then show ?thesis unfolding vs by (metis not_None_eq)
  qed
  have some: "(\<exists>i c. (i, c) \<in> set ics \<and> hm_get (cfg_mounts c) k = Some w)
        \<and> (\<forall>i c w'. (i, c) \<in> set ics \<longrightarrow> hm_get (cfg_mounts c) k = Some w' \<longrightarrow>
             mc_updated_at (mw_config w') \<le> mc_updated_at (mw_config w))"
    if w: "hm_get (cfg_mounts (md_config m)) k = Some w" for k w
  proof -
    let ?vs = "versions_of k (all_versions ics)"
    from w have "?vs \<noteq> []" using none [of k] by simp
    from resolve_newest [OF this, of mg k] w \<open>?vs \<noteq> []\<close>
    obtain v where v: "v \<in> newest ?vs" and "w = mv_config v" by (auto simp: get Let_def)
    then have "v \<in> set ?vs" and max: "\<forall>v' \<in> set ?vs. mv_updated_at v' \<le> mv_updated_at v"
      by (simp_all add: newest_def)
    then obtain i c where ic: "(i, c) \<in> set ics" "hm_get (cfg_mounts c) k = Some w"
        "mv_updated_at v = mc_updated_at (mw_config w)"
      unfolding vs using \<open>w = mv_config v\<close> by auto
    moreover have "mc_updated_at (mw_config w') \<le> mc_updated_at (mw_config w)"
      if "(i', c') \<in> set ics" and "hm_get (cfg_mounts c') k = Some w'" for i' c' w'
    proof -
      have "\<lparr> mv_instance_id = i', mv_config = w', mv_updated_at = mc_updated_at (mw_config w') \<rparr> \<in> set ?vs"
        unfolding vs using that by blast
      with max ic(3) show ?thesis by fastforce
    qed
    ultimately show ?thesis by blast
  qed
  show ?thesis using m none empty some by blast
qed

text \<open>C6: the merge never panics; it keeps every mount that any instance has, and no other, and takes
  for each the entry of an instance that changed it last.\<close>

theorem merge_keeps_latest:
  assumes "\<forall>ic \<in> set ics. hm_wf (cfg_mounts (snd ic))"
  shows "\<exists>m. merge_configs mg now now' ics = Some m
    \<and> (\<forall>k. (hm_get (cfg_mounts (md_config m)) k = None \<longleftrightarrow>
              (\<forall>i c. (i, c) \<in> set ics \<longrightarrow> hm_get (cfg_mounts c) k = None))
         \<and> (\<forall>w. hm_get (cfg_mounts (md_config m)) k = Some w \<longrightarrow>
              (\<exists>i c. (i, c) \<in> set ics \<and> hm_get (cfg_mounts c) k = Some w)
              \<and> (\<forall>i c w'. (i, c) \<in> set ics \<longrightarrow> hm_get (cfg_mounts c) k = Some w' \<longrightarrow>
                   mc_updated_at (mw_config w') \<le> mc_updated_at (mw_config w))))"
  using assms by (rule merge_latest)

definition sample_mount :: "string \<Rightarrow> instant \<Rightarrow> mount_config" where
  "sample_mount url t = (mount_config_new (\<lambda>_. None) t url (Nfs ''h'' ''/s'' []) ''/mnt/a'')\<lparr>mc_id := ''a''\<rparr>"

definition sample_config_at :: "string \<Rightarrow> instant \<Rightarrow> fuji_config" where
  "sample_config_at url t = add_mount (sample_mount url t) config_default"

lemma sample_config_get:
  "cfg_mounts (sample_config_at url t) = [(''a'', wrapper_new (sample_mount url t) None)]"
  by (simp add: sample_config_at_def add_mount_def config_default_def get_instance_id_def
      sample_mount_def mount_config_new_def hm_insert_def)

theorem merge_keeps_latest_witness:
  "\<exists>m w. merge_configs merger_new 9 9 [(''x'', sample_config_at ''u'' 1), (''y'', sample_config_at ''v'' 2)] = Some m
     \<and> hm_get (cfg_mounts (md_config m)) ''a'' = Some w
     \<and> mc_updated_at (mw_config w) = 2"
proof -
  let ?ics = "[(''x'', sample_config_at ''u'' 1), (''y'', sample_config_at ''v'' 2)]"
  have "\<forall>ic \<in> set ?ics. hm_wf (cfg_mounts (snd ic))" by (simp add: sample_config_get hm_wf_def)
  from merge_keeps_latest [OF this, of merger_new 9 9] obtain m where
      m: "merge_configs merger_new 9 9 ?ics = Some m"
      and none: "hm_get (cfg_mounts (md_config m)) ''a'' = None \<longleftrightarrow>
          (\<forall>i c. (i, c) \<in> set ?ics \<longrightarrow> hm_get (cfg_mounts c) ''a'' = None)"
      and latest: "\<And>w. hm_get (cfg_mounts (md_config m)) ''a'' = Some w \<Longrightarrow>
          (\<exists>i c. (i, c) \<in> set ?ics \<and> hm_get (cfg_mounts c) ''a'' = Some w)
          \<and> (\<forall>i c w'. (i, c) \<in> set ?ics \<longrightarrow> hm_get (cfg_mounts c) ''a'' = Some w' \<longrightarrow>
                   mc_updated_at (mw_config w') \<le> mc_updated_at (mw_config w))"
    by blast
  have get: "hm_get (cfg_mounts (sample_config_at url t)) ''a'' = Some (wrapper_new (sample_mount url t) None)"
    for url t by (simp add: sample_config_get hm_get_def)
  have upd: "mc_updated_at (mw_config (wrapper_new (sample_mount url t) None)) = t" for url t
    by (simp add: wrapper_new_def sample_mount_def mount_config_new_def)
  from none get obtain w where w: "hm_get (cfg_mounts (md_config m)) ''a'' = Some w" by auto
  from latest [OF w] get upd have "mc_updated_at (mw_config w) = 2" by fastforce
  with m w show ?thesis by blast
qed

subsection \<open>Order of the instances\<close>

text \<open>A map is compared by its entries, so the derived equality of mounts is an equivalence once
  the metadata maps are well formed.\<close>

lemma hm_card: "hm_wf m \<Longrightarrow> card (fst ` set m) = length m"
  by (metis distinct_card hm_wf_def length_map list.set_map)

lemma hm_same_iff:
  assumes "hm_wf m" and "hm_wf n"
  shows "hm_same m n \<longleftrightarrow> hm_get m = hm_get n"
proof
  assume same: "hm_same m n"
  have sub: "hm_get m k = Some v \<Longrightarrow> hm_get n k = Some v" for k v
    using same hm_get_iff_in_set [OF assms(1)] by (auto simp: hm_same_def list_all_iff)
  have "fst ` set m = fst ` set n"
  proof (rule card_subset_eq)
    show "fst ` set m \<subseteq> fst ` set n"
    proof
      fix k assume "k \<in> fst ` set m"
      then obtain v where "hm_get m k = Some v" by (metis hm_get_None_iff option.exhaust)
      then show "k \<in> fst ` set n" using sub by (metis hm_get_None_iff option.distinct(1))
    qed
    show "card (fst ` set m) = card (fst ` set n)"
      using same by (simp add: hm_card assms hm_same_def)
  qed simp
  then show "hm_get m = hm_get n"
    using sub by (intro ext) (metis hm_get_None_iff option.exhaust)
next
  assume eq: "hm_get m = hm_get n"
  then have "k \<in> fst ` set m \<longleftrightarrow> k \<in> fst ` set n" for k
    using hm_get_None_iff [of m k] hm_get_None_iff [of n k] by simp
  then have "fst ` set m = fst ` set n" by blast
  then have "length m = length n"
    using hm_card [OF assms(1)] hm_card [OF assms(2)] by simp
  with eq show "hm_same m n"
    using hm_get_iff_in_set [OF assms(1)] by (auto simp: hm_same_def list_all_iff)
qed

lemma mount_eq_sym:
  assumes "hm_wf (mc_metadata a)" and "hm_wf (mc_metadata b)" and "mount_config_eq a b"
  shows "mount_config_eq b a"
  using assms by (auto simp: mount_config_eq_def hm_same_iff path_eq_sym)

lemma mount_eq_trans:
  assumes "hm_wf (mc_metadata a)" and "hm_wf (mc_metadata b)" and "hm_wf (mc_metadata c)"
    and "mount_config_eq a b" and "mount_config_eq b c"
  shows "mount_config_eq a c"
  using assms by (auto simp: mount_config_eq_def hm_same_iff intro: path_eq_trans)

lemma mount_eq_refl: "hm_wf (mc_metadata a) \<Longrightarrow> mount_config_eq a a"
  by (simp add: mount_config_eq_def hm_same_refl)

definition version_mount :: "mount_version \<Rightarrow> mount_config" where
  "version_mount v = mw_config (mv_config v)"

lemma resolve_mount_conflict_eq:
  assumes "sort_key (\<lambda>v. - mv_updated_at v) vs = latest # rest"
    and "same = filter (\<lambda>v. mv_updated_at v = mv_updated_at latest) (latest # rest)"
  shows "resolve_mount_conflict mg i vs =
    (if \<exists>v \<in> set same. \<not> mount_config_eq (version_mount v) (version_mount latest)
     then Some (resolve_conflict (mg_conflict_strategy mg) i latest same)
     else Some \<lparr> rm_config = mv_config latest, rm_conflict = None \<rparr>)"
proof -
  have "same \<noteq> []" using assms(2) by simp
  then show ?thesis
    unfolding resolve_mount_conflict_def assms(1) list.case Let_def assms(2) [symmetric]
      list_ex_iff version_mount_def by simp
qed

text \<open>With the tie break, the chosen mount is one of the newest, and if these differ it is the one of
  the least instance id.\<close>

lemma resolve_tie_break:
  assumes "vs \<noteq> []" and "mg_conflict_strategy mg = InstanceIdTieBreak"
    and "resolve_mount_conflict mg i vs = Some r"
  shows "\<exists>v \<in> newest vs. rm_config r = mv_config v
    \<and> ((\<forall>v' \<in> newest vs. mount_config_eq (version_mount v') (version_mount v))
       \<or> (\<forall>v' \<in> newest vs. mv_instance_id v \<le> mv_instance_id v'))"
proof -
  obtain latest rest where s: "sort_key (\<lambda>v. - mv_updated_at v) vs = latest # rest"
    using assms(1) by (metis list.exhaust set_empty set_sort)
  define same where "same = filter (\<lambda>v. mv_updated_at v = mv_updated_at latest) (latest # rest)"
  have new: "set same = newest vs" and l: "latest \<in> set same"
    unfolding same_def by (rule newest_same [OF s]) simp
  note eq = resolve_mount_conflict_eq [OF s same_def, of mg i]
  show ?thesis
  proof (cases "\<exists>v \<in> set same. \<not> mount_config_eq (version_mount v) (version_mount latest)")
    case True
    obtain x xs where x: "sort_key mv_instance_id same = x # xs"
      using l by (metis (no_types, lifting) empty_iff list.exhaust set_empty set_sort)
    have "sorted (map mv_instance_id (x # xs))" unfolding x [symmetric] by (rule sorted_sort_key)
    moreover have set: "set (x # xs) = newest vs" unfolding x [symmetric] set_sort by (rule new)
    ultimately have "\<forall>v' \<in> newest vs. mv_instance_id x \<le> mv_instance_id v'" by auto
    moreover have "rm_config r = mv_config x"
      using assms(2,3) x unfolding eq by (auto simp: True resolve_conflict_def)
    moreover have "x \<in> newest vs" using set by auto
    ultimately show ?thesis by blast
  next
    case False
    then have "rm_config r = mv_config latest"
      using assms(3) unfolding eq by (simp only: if_False) auto
    with False l show ?thesis unfolding new by blast
  qed
qed

lemma same_instance:
  "distinct (map fst ics) \<Longrightarrow> (i, c) \<in> set ics \<Longrightarrow> (i, c') \<in> set ics \<Longrightarrow> c' = c"
  by (metis eq_key_imp_eq_value)

lemma chosen_equal:
  assumes "distinct (map fst ics)" and "\<forall>ic \<in> set ics. hm_wf (cfg_mounts (snd ic))"
    and "\<forall>ic \<in> set ics. \<forall>e \<in> set (cfg_mounts (snd ic)). hm_wf (mc_metadata (mw_config (snd e)))"
    and "N \<subseteq> set (versions_of k (all_versions ics))" and "v1 \<in> N" and "v2 \<in> N"
    and "(\<forall>v' \<in> N. mount_config_eq (version_mount v') (version_mount v1))
         \<or> (\<forall>v' \<in> N. mv_instance_id v1 \<le> mv_instance_id v')"
    and "(\<forall>v' \<in> N. mount_config_eq (version_mount v') (version_mount v2))
         \<or> (\<forall>v' \<in> N. mv_instance_id v2 \<le> mv_instance_id v')"
  shows "mount_config_eq (version_mount v1) (version_mount v2)"
proof -
  have wf: "hm_wf (mc_metadata (version_mount v))" if "v \<in> N" for v
  proof -
    from that assms(4) obtain i c w where "(i, c) \<in> set ics" "hm_get (cfg_mounts c) k = Some w"
        "v = \<lparr> mv_instance_id = i, mv_config = w, mv_updated_at = mc_updated_at (mw_config w) \<rparr>"
      using set_versions_of [OF assms(2), of v k] by blast
    moreover from this have "(k, w) \<in> set (cfg_mounts c)" by (simp add: hm_get_in_set)
    ultimately show ?thesis using assms(3) by (fastforce simp: version_mount_def)
  qed
  consider "\<forall>v' \<in> N. mount_config_eq (version_mount v') (version_mount v1)"
    | "\<forall>v' \<in> N. mount_config_eq (version_mount v') (version_mount v2)"
    | "\<forall>v' \<in> N. mv_instance_id v1 \<le> mv_instance_id v'" "\<forall>v' \<in> N. mv_instance_id v2 \<le> mv_instance_id v'"
    using assms(7,8) by blast
  then show ?thesis
  proof cases
    case 1
    with assms(5,6) wf show ?thesis by (blast intro: mount_eq_sym)
  next
    case 2
    with assms(5) show ?thesis by blast
  next
    case 3
    with assms(5,6) have ids: "mv_instance_id v1 = mv_instance_id v2" by (meson order_antisym)
    from assms(4,5,6) obtain i c w i' c' w' where
        v1: "(i, c) \<in> set ics" "hm_get (cfg_mounts c) k = Some w"
          "v1 = \<lparr> mv_instance_id = i, mv_config = w, mv_updated_at = mc_updated_at (mw_config w) \<rparr>"
      and v2: "(i', c') \<in> set ics" "hm_get (cfg_mounts c') k = Some w'"
          "v2 = \<lparr> mv_instance_id = i', mv_config = w', mv_updated_at = mc_updated_at (mw_config w') \<rparr>"
      using set_versions_of [OF assms(2), of _ k] by (meson subsetD)
    with ids same_instance [OF assms(1) v1(1)] have "v1 = v2" by simp
    with wf assms(5) show ?thesis by (simp add: mount_eq_refl)
  qed
qed

text \<open>C16: the result does not depend on the order in which the instances are listed: whatever
  permutation two instances merge in, they agree on every mount, because ties with different
  content go to the least instance id.\<close>

theorem merge_order_independent:
  assumes "distinct (map fst ics)" and "set ics' = set ics"
    and "\<forall>ic \<in> set ics. hm_wf (cfg_mounts (snd ic))"
    and "\<forall>ic \<in> set ics. \<forall>e \<in> set (cfg_mounts (snd ic)). hm_wf (mc_metadata (mw_config (snd e)))"
    and "merge_configs merger_new a b ics = Some m" and "merge_configs merger_new a' b' ics' = Some m'"
  shows "rel_option (\<lambda>w w'. mount_config_eq (mw_config w) (mw_config w'))
    (hm_get (cfg_mounts (md_config m)) k) (hm_get (cfg_mounts (md_config m')) k)"
proof -
  let ?vs = "versions_of k (all_versions ics)" and ?vs' = "versions_of k (all_versions ics')"
  have wf': "\<forall>ic \<in> set ics'. hm_wf (cfg_mounts (snd ic))" using assms(2,3) by simp
  have set: "set ?vs' = set ?vs"
  proof (rule set_eqI)
    show "v \<in> set ?vs' \<longleftrightarrow> v \<in> set ?vs" for v
      unfolding set_versions_of [OF assms(3)] set_versions_of [OF wf'] assms(2) ..
  qed
  have get: "hm_get (cfg_mounts (md_config m)) k =
      (if ?vs = [] then None else map_option rm_config (resolve_mount_conflict merger_new k ?vs))"
    using merge_configs_get [of merger_new a b ics] assms(5) by (auto simp: Let_def)
  have get': "hm_get (cfg_mounts (md_config m')) k =
      (if ?vs' = [] then None else map_option rm_config (resolve_mount_conflict merger_new k ?vs'))"
    using merge_configs_get [of merger_new a' b' ics'] assms(6) by (auto simp: Let_def)
  show ?thesis
  proof (cases "?vs = []")
    case True
    with set have "?vs' = []" by simp
    with True get get' show ?thesis by simp
  next
    case False
    with set have ne': "?vs' \<noteq> []" by auto
    have tb: "mg_conflict_strategy merger_new = InstanceIdTieBreak" by (simp add: merger_new_def)
    obtain r r' where r: "resolve_mount_conflict merger_new k ?vs = Some r"
        and r': "resolve_mount_conflict merger_new k ?vs' = Some r'"
      using resolve_newest [OF False] resolve_newest [OF ne'] by blast
    have new: "newest ?vs' = newest ?vs" by (simp add: newest_def set)
    from resolve_tie_break [OF False tb r] obtain v1 where v1: "v1 \<in> newest ?vs" "rm_config r = mv_config v1"
        "(\<forall>v' \<in> newest ?vs. mount_config_eq (version_mount v') (version_mount v1))
         \<or> (\<forall>v' \<in> newest ?vs. mv_instance_id v1 \<le> mv_instance_id v')" by blast
    from resolve_tie_break [OF ne' tb r'] obtain v2 where v2: "v2 \<in> newest ?vs" "rm_config r' = mv_config v2"
        "(\<forall>v' \<in> newest ?vs. mount_config_eq (version_mount v') (version_mount v2))
         \<or> (\<forall>v' \<in> newest ?vs. mv_instance_id v2 \<le> mv_instance_id v')" unfolding new by blast
    have "newest ?vs \<subseteq> set ?vs" by (auto simp: newest_def)
    from chosen_equal [OF assms(1,3,4) this v1(1) v2(1) v1(3) v2(3)]
    show ?thesis using get get' r r' False ne' v1(2) v2(2) by (simp add: version_mount_def)
  qed
qed

lemma sample_wf:
  "\<forall>ic \<in> set [(''x'', sample_config_at ''u'' 1), (''y'', sample_config_at ''v'' 1)]. hm_wf (cfg_mounts (snd ic))"
  "\<forall>ic \<in> set [(''x'', sample_config_at ''u'' 1), (''y'', sample_config_at ''v'' 1)].
     \<forall>e \<in> set (cfg_mounts (snd ic)). hm_wf (mc_metadata (mw_config (snd e)))"
  by (simp_all add: sample_config_get hm_wf_def wrapper_new_def sample_mount_def mount_config_new_def)

theorem merge_order_independent_witness:
  "\<exists>m m'. merge_configs merger_new 9 9 [(''x'', sample_config_at ''u'' 1), (''y'', sample_config_at ''v'' 1)] = Some m
     \<and> merge_configs merger_new 9 9 [(''y'', sample_config_at ''v'' 1), (''x'', sample_config_at ''u'' 1)] = Some m'
     \<and> rel_option (\<lambda>w w'. mount_config_eq (mw_config w) (mw_config w'))
          (hm_get (cfg_mounts (md_config m)) ''a'') (hm_get (cfg_mounts (md_config m')) ''a'')"
proof -
  let ?ics = "[(''x'', sample_config_at ''u'' 1), (''y'', sample_config_at ''v'' 1)]"
  let ?ics' = "[(''y'', sample_config_at ''v'' 1), (''x'', sample_config_at ''u'' 1)]"
  obtain m m' where m: "merge_configs merger_new 9 9 ?ics = Some m"
      and m': "merge_configs merger_new 9 9 ?ics' = Some m'"
    using merge_configs_get by blast
  have "distinct (map fst ?ics)" and "set ?ics' = set ?ics" by auto
  from merge_order_independent [OF this sample_wf m m'] m m' show ?thesis by blast
qed

subsection \<open>Time stamps\<close>

lemma get_mark_modified:
  "hm_get (cfg_mounts (mark_modified clock i c)) k =
     map_option (\<lambda>w. w\<lparr>mw_config := (mw_config w)\<lparr>mc_updated_at := clock k\<rparr>\<rparr>) (hm_get (cfg_mounts c) k)"
  by (simp add: mark_modified_def hm_get_map_entries)

text \<open>a local change stamps every mount of the instance, not only the changed one.  When it is
  merged, all mounts of that instance win, and the newer changes that other instances made to mounts
  it did not touch are lost.\<close>

theorem mark_modified_overrides_all:
  assumes "hm_wf (cfg_mounts c1)" and "hm_wf (cfg_mounts c2)"
    and "\<And>k w. hm_get (cfg_mounts c1) k = Some w \<Longrightarrow> mc_updated_at (mw_config w) < clock k"
    and "hm_get (cfg_mounts c2) k = Some w"
  shows "\<exists>m. merge_configs mg a b [(inst, c1), (inst', mark_modified clock inst' c2)] = Some m
    \<and> hm_get (cfg_mounts (md_config m)) k = Some (w\<lparr>mw_config := (mw_config w)\<lparr>mc_updated_at := clock k\<rparr>\<rparr>)"
proof -
  let ?c2 = "mark_modified clock inst' c2"
  let ?w = "w\<lparr>mw_config := (mw_config w)\<lparr>mc_updated_at := clock k\<rparr>\<rparr>"
  have w: "hm_get (cfg_mounts ?c2) k = Some ?w" using assms(4) by (simp add: get_mark_modified)
  have "\<forall>ic \<in> set [(inst, c1), (inst', ?c2)]. hm_wf (cfg_mounts (snd ic))"
    using assms(1,2) by (simp add: mark_modified_def)
  from merge_latest [OF this, of mg a b] obtain m
    where m: "merge_configs mg a b [(inst, c1), (inst', ?c2)] = Some m"
      and none: "hm_get (cfg_mounts (md_config m)) k = None \<longleftrightarrow>
              (\<forall>i c. (i, c) \<in> set [(inst, c1), (inst', ?c2)] \<longrightarrow> hm_get (cfg_mounts c) k = None)"
      and latest: "\<And>v. hm_get (cfg_mounts (md_config m)) k = Some v \<Longrightarrow>
              (\<exists>i c. (i, c) \<in> set [(inst, c1), (inst', ?c2)] \<and> hm_get (cfg_mounts c) k = Some v)
              \<and> (\<forall>i c w'. (i, c) \<in> set [(inst, c1), (inst', ?c2)] \<longrightarrow> hm_get (cfg_mounts c) k = Some w' \<longrightarrow>
                   mc_updated_at (mw_config w') \<le> mc_updated_at (mw_config v))"
    by blast
  from none w obtain v where v: "hm_get (cfg_mounts (md_config m)) k = Some v" by auto
  from latest [OF v] w have "clock k \<le> mc_updated_at (mw_config v)" by fastforce
  moreover from latest [OF v] have "hm_get (cfg_mounts c1) k = Some v \<or> hm_get (cfg_mounts ?c2) k = Some v"
    by auto
  ultimately have "v = ?w" using assms(3) [of k v] w by auto
  with m v show ?thesis by blast
qed

theorem mark_modified_overrides_all_witness:
  "\<exists>m w. merge_configs merger_new 9 9
       [(''x'', sample_config_at ''u'' 5), (''y'', mark_modified (\<lambda>_. 9) ''y'' (sample_config_at ''v'' 1))] = Some m
     \<and> hm_get (cfg_mounts (md_config m)) ''a'' = Some w \<and> mc_url (mw_config w) = ''v''"
proof -
  let ?w = "\<lambda>url t. wrapper_new (sample_mount url t) None"
  have get: "hm_get (cfg_mounts (sample_config_at url t)) ''a'' = Some (?w url t)"
    for url t by (simp add: sample_config_get hm_get_def)
  have wf: "hm_wf (cfg_mounts (sample_config_at url t))" for url t
    by (simp add: sample_config_get hm_wf_def)
  have old: "hm_get (cfg_mounts (sample_config_at ''u'' 5)) k = Some w \<Longrightarrow> mc_updated_at (mw_config w) < 9" for k w
    by (auto simp: sample_config_get hm_get_def wrapper_new_def sample_mount_def
        mount_config_new_def split: if_splits)
  have "\<exists>m. merge_configs merger_new 9 9
       [(''x'', sample_config_at ''u'' 5), (''y'', mark_modified (\<lambda>_. 9) ''y'' (sample_config_at ''v'' 1))] = Some m
     \<and> hm_get (cfg_mounts (md_config m)) ''a''
       = Some ((?w ''v'' 1)\<lparr>mw_config := (mw_config (?w ''v'' 1))\<lparr>mc_updated_at := 9\<rparr>\<rparr>)"
    by (rule mark_modified_overrides_all) (rule wf wf get | erule old)+
  then show ?thesis by (auto simp: wrapper_new_def sample_mount_def mount_config_new_def)
qed

subsection \<open>Versions and local settings\<close>

lemma latest_version_fold:
  fixes ics :: "(string \<times> fuji_config) list"
  defines "f \<equiv> \<lambda>(latest :: u64) ((_ :: string), config).
              case cfg_cluster config of
                None \<Rightarrow> latest
              | Some cl \<Rightarrow> if sm_sync_version (cc_sync_metadata cl) > latest
                           then sm_sync_version (cc_sync_metadata cl) else latest"
  shows "n \<le> foldl f n ics"
    and "(i, c) \<in> set ics \<Longrightarrow> cfg_cluster c = Some cl \<Longrightarrow>
           sm_sync_version (cc_sync_metadata cl) \<le> foldl f n ics"
proof -
  have mono: "n \<le> foldl f n ics" for n ics
  proof (induction ics arbitrary: n)
    case (Cons ic ics)
    have "n \<le> f n ic" by (auto simp: f_def split: prod.splits option.splits)
    with Cons.IH [of "f n ic"] show ?case by simp
  qed simp
  show "n \<le> foldl f n ics" by (rule mono)
  show "(i, c) \<in> set ics \<Longrightarrow> cfg_cluster c = Some cl \<Longrightarrow>
           sm_sync_version (cc_sync_metadata cl) \<le> foldl f n ics"
  proof (induction ics arbitrary: n)
    case (Cons ic ics)
    show ?case
    proof (cases "ic = (i, c)")
      case True
      with Cons.prems(2) have "sm_sync_version (cc_sync_metadata cl) \<le> f n ic" by (auto simp: f_def)
      with mono [of "f n ic" ics] show ?thesis by simp
    next
      case False
      with Cons show ?thesis by simp
    qed
  qed simp
qed

lemma latest_version_ge:
  "(i, c) \<in> set ics \<Longrightarrow> cfg_cluster c = Some cl \<Longrightarrow>
     sm_sync_version (cc_sync_metadata cl) \<le> latest_sync_version ics"
  unfolding latest_sync_version_def by (rule latest_version_fold(2))

text \<open>the sync version of a merge is above the version of every instance, as long as the counter
  does not wrap.\<close>

theorem merged_version_advances:
  assumes "(i, c) \<in> set ics" and "cfg_cluster c = Some cl" and "latest_sync_version ics \<noteq> - 1"
    and "merge_configs mg a b ics = Some m"
  shows "\<exists>cl'. cfg_cluster (md_config m) = Some cl'
    \<and> sm_sync_version (cc_sync_metadata cl) < sm_sync_version (cc_sync_metadata cl')"
proof -
  have "latest_sync_version ics < latest_sync_version ics + 1"
    using assms(3) by (metis not_less inc_less_eq_self_iff_eq)
  with latest_version_ge [OF assms(1,2)]
  have "sm_sync_version (cc_sync_metadata cl) < latest_sync_version ics + 1" by (rule le_less_trans)
  moreover have "\<exists>cl'. cfg_cluster (md_config m) = Some cl'
      \<and> sm_sync_version (cc_sync_metadata cl') = latest_sync_version ics + 1"
    using assms(4) by (auto simp: merge_configs_def merge_cluster_def merged_metadata_def Let_def
        split: option.splits)
  ultimately show ?thesis by auto
qed

theorem merged_version_advances_witness:
  "\<exists>m cl'. merge_configs merger_new 9 9 [(''x'', initialize_cluster ''x'' config_default)] = Some m
     \<and> cfg_cluster (md_config m) = Some cl' \<and> 0 < sm_sync_version (cc_sync_metadata cl')"
proof -
  let ?c = "initialize_cluster ''x'' config_default"
  obtain cl where cl: "cfg_cluster ?c = Some cl" and v: "sm_sync_version (cc_sync_metadata cl) = 0"
    by (simp add: initialize_cluster_def)
  then have "latest_sync_version [(''x'', ?c)] \<noteq> - 1" by (simp add: latest_sync_version_def)
  moreover obtain m where "merge_configs merger_new 9 9 [(''x'', ?c)] = Some m"
    using merge_configs_get by blast
  ultimately show ?thesis
    using merged_version_advances [of "''x''" ?c "[(''x'', ?c)]" cl merger_new 9 9 m] cl v by auto
qed

text \<open>the merge of a coordinator, which builds its merger without an instance id, loses what is
  local to the node: the merged configuration belongs to the instance \<open>unknown\<close>, has no peers and
  default platform paths, and its version disagrees with the sync metadata that comes with it.\<close>

theorem merge_loses_local_identity:
  "\<exists>m cl. merge_configs merger_new now now' ics = Some m \<and> cfg_cluster (md_config m) = Some cl
     \<and> cc_instance_id cl = ''unknown'' \<and> cc_peers cl = []
     \<and> cfg_platform (md_config m) = platform_default
     \<and> sm_sync_version (md_sync_metadata m) = sm_sync_version (cc_sync_metadata cl) + 1"
proof -
  obtain m where "merge_configs merger_new now now' ics = Some m"
    using merge_configs_get by blast
  then show ?thesis
    by (auto simp: merge_configs_def merge_cluster_def merged_metadata_def merger_new_def Let_def
        merge_global_settings_def config_default_def split: option.splits)
qed

subsection \<open>A single configuration\<close>

lemma merge_identity:
  "merge_configs mg a b ics = Some m \<Longrightarrow> get_instance_id (md_config m) = Some (mg_instance_id mg)"
  by (auto simp: merge_configs_def merge_cluster_def get_instance_id_def Let_def split: option.splits)

lemma versions_single:
  "hm_wf (cfg_mounts c) \<Longrightarrow> versions_of k (all_versions [(i, c)]) =
     (case hm_get (cfg_mounts c) k of
        None \<Rightarrow> []
      | Some w \<Rightarrow> [\<lparr> mv_instance_id = i, mv_config = w, mv_updated_at = mc_updated_at (mw_config w) \<rparr>])"
proof -
  have "versions_of k (map (\<lambda>(k, w). (k, f w)) m)
      = (case hm_get m k of None \<Rightarrow> [] | Some w \<Rightarrow> [f w])" if "hm_wf m" for f and m :: "(string, mount_wrapper) hashmap"
    using that
  proof (induction m)
    case (Cons e m)
    obtain k' w where e: "e = (k', w)" by (cases e)
    from Cons.prems have "hm_wf m" and "k' \<notin> fst ` set m" by (auto simp: e hm_wf_def)
    moreover from this have "hm_get m k' = None" by (simp add: hm_get_None_iff)
    ultimately show ?case using Cons.IH by (auto simp: e versions_of_def hm_get_def)
  qed (simp add: versions_of_def hm_get_def)
  then show "hm_wf (cfg_mounts c) \<Longrightarrow> ?thesis" by (simp add: all_versions_def instance_versions_def)
qed

lemma resolve_single:
  "mount_config_eq (mw_config (mv_config v)) (mw_config (mv_config v)) \<Longrightarrow>
     resolve_mount_conflict mg k [v] = Some \<lparr> rm_config = mv_config v, rm_conflict = None \<rparr>"
  by (simp add: resolve_mount_conflict_def Let_def)

lemma merge_mounts_quiet:
  "list_all (\<lambda>(k, vs). map_option rm_conflict (resolve_mount_conflict mg k vs) = Some None) groups \<Longrightarrow>
     \<exists>ms'. merge_mounts mg groups ms cs = Some (ms', cs)"
proof (induction groups arbitrary: ms)
  case (Cons g groups)
  then show ?case by (cases g) (auto split: option.splits)
qed simp

lemma merge_single:
  assumes "hm_wf (cfg_mounts c)" and "list_all (\<lambda>(_, w). hm_wf (mc_metadata (mw_config w))) (cfg_mounts c)"
  shows "\<exists>m. merge_configs mg a b [(i, c)] = Some m
    \<and> (\<forall>k. hm_get (cfg_mounts (md_config m)) k = hm_get (cfg_mounts c) k)
    \<and> sm_pending_conflicts (md_sync_metadata m) = [] \<and> md_resolved_conflicts m = []
    \<and> sm_sync_version (md_sync_metadata m) = latest_sync_version [(i, c)] + 2"
proof -
  have eq: "mount_config_eq (mw_config w) (mw_config w)" if "hm_get (cfg_mounts c) k = Some w" for k w
    using that assms(2) hm_get_in_set mount_eq_refl by (fastforce simp: list_all_iff)
  have one: "map_option rm_config (resolve_mount_conflict mg k vs) = hm_get (cfg_mounts c) k
      \<and> map_option rm_conflict (resolve_mount_conflict mg k vs) = Some None"
    if "versions_of k (all_versions [(i, c)]) = vs" "vs \<noteq> []" for k vs
  proof (cases "hm_get (cfg_mounts c) k")
    case None
    with that versions_single [OF assms(1), of k i] show ?thesis by simp
  next
    case (Some w)
    with that(1) versions_single [OF assms(1), of k i]
    have "vs = [\<lparr> mv_instance_id = i, mv_config = w, mv_updated_at = mc_updated_at (mw_config w) \<rparr>]" by simp
    with eq [OF Some] Some show ?thesis by (simp add: resolve_single)
  qed
  from merge_configs_get [of mg a b "[(i, c)]"] obtain m where m: "merge_configs mg a b [(i, c)] = Some m"
    and get: "\<And>k. hm_get (cfg_mounts (md_config m)) k =
          (let vs = versions_of k (all_versions [(i, c)])
           in if vs = [] then None else map_option rm_config (resolve_mount_conflict mg k vs))" by blast
  have mounts: "hm_get (cfg_mounts (md_config m)) k = hm_get (cfg_mounts c) k" for k
    using get [of k] one [of k] versions_single [OF assms(1), of k i]
    by (auto simp: Let_def split: option.splits)
  have "list_all (\<lambda>(k, vs). map_option rm_conflict (resolve_mount_conflict mg k vs) = Some None)
      (group_versions [(i, c)])"
  proof (clarsimp simp: list_all_iff simp flip: hm_get_iff_in_set [OF get_group_versions(1)])
    fix k vs
    assume "hm_get (group_versions [(i, c)]) k = Some vs"
    then have "versions_of k (all_versions [(i, c)]) = vs" "vs \<noteq> []"
      by (auto simp: get_group_versions split: if_splits)
    with one show "\<exists>z. resolve_mount_conflict mg k vs = Some z \<and> rm_conflict z = None" by fastforce
  qed
  then obtain ms where "merge_mounts mg (group_versions [(i, c)]) [] [] = Some (ms, [])"
    using merge_mounts_quiet by blast
  with m have "sm_pending_conflicts (md_sync_metadata m) = [] \<and> md_resolved_conflicts m = []
      \<and> sm_sync_version (md_sync_metadata m) = latest_sync_version [(i, c)] + 2"
    by (auto simp: merge_configs_def config_default_def merged_metadata_def merge_cluster_def Let_def
        split: option.splits)
  with m mounts show ?thesis by blast
qed

end
