(* ===== verification/Sync_Protocol.thy ===== *)
theory Sync_Protocol
  imports Cluster_Discovery Sync_Merge
begin

text \<open>
  \<open>src/sync/protocol.rs\<close>: the messages that nodes exchange.

  The text form of a mount inside a conflict report is a value of the JSON library, the type
  parameter \<open>'j\<close>.  The clock is an argument of the constructors that read it.
\<close>

section \<open>Messages\<close>

datatype protocol_conflict_type =
    P_ConcurrentModification
  | P_DeleteModifyConflict
  | P_MountPointConflict
  | P_TypeMismatch

datatype protocol_resolution =
    P_UseLatest
  | P_UseInstance string
  | P_Delete
  | P_Manual

record 'j protocol_version =
  pv_instance_id :: string
  pv_updated_at :: instant
  pv_mount_data :: 'j

record 'j mount_conflict =
  mcf_mount_id :: string
  mcf_conflict_type :: protocol_conflict_type
  mcf_local_version :: "'j protocol_version"
  mcf_remote_versions :: "'j protocol_version list"
  mcf_suggested_resolution :: protocol_resolution

datatype 'j sync_result =
    Sync_Success
  | Sync_Failed string
  | Sync_Conflict "'j mount_conflict list"
  | Sync_Aborted

datatype node_status =
    Node_Healthy
  | Node_Syncing
  | Node_Error string
  | Node_ShuttingDown

record sync_request =
  rq_request_id :: string
  rq_requester_id :: string
  rq_known_version :: u64
  rq_mount_filter :: "string list option"

record 'j sync_response =
  rs_request_id :: string
  rs_config :: fuji_config
  rs_sync_version :: u64
  rs_conflicts :: "'j mount_conflict list"

record config_update =
  cu_config :: fuji_config
  cu_sync_version :: u64
  cu_updated_by :: string
  cu_updated_at :: instant
  cu_affected_mounts :: "string list"

record 'j sync_complete =
  sc_sync_version :: u64
  sc_initiator_id :: string
  sc_result :: "'j sync_result"
  sc_conflicts_resolved :: u32
  sc_participants :: "string list"

record heartbeat =
  hb_instance_id :: string
  hb_timestamp :: instant
  hb_sync_version :: u64
  hb_status :: node_status
  hb_peer_count :: nat

datatype 'j sync_message =
    SyncRequest sync_request
  | SyncResponse "'j sync_response"
  | ConfigUpdate config_update
  | SyncComplete "'j sync_complete"
  | Heartbeat heartbeat

section \<open>Constructors\<close>

definition msg_sync_request :: "string \<Rightarrow> string \<Rightarrow> u64 \<Rightarrow> 'j sync_message" where
  "msg_sync_request request_id requester_id known_version =
     SyncRequest \<lparr> rq_request_id = request_id, rq_requester_id = requester_id,
                   rq_known_version = known_version, rq_mount_filter = None \<rparr>"

definition msg_sync_response ::
    "string \<Rightarrow> fuji_config \<Rightarrow> u64 \<Rightarrow> 'j mount_conflict list \<Rightarrow> 'j sync_message" where
  "msg_sync_response request_id config sync_version conflicts =
     SyncResponse \<lparr> rs_request_id = request_id, rs_config = config, rs_sync_version = sync_version,
                    rs_conflicts = conflicts \<rparr>"

definition msg_config_update ::
    "instant \<Rightarrow> fuji_config \<Rightarrow> u64 \<Rightarrow> string \<Rightarrow> string list \<Rightarrow> 'j sync_message" where
  "msg_config_update now config sync_version updated_by affected_mounts =
     ConfigUpdate \<lparr> cu_config = config, cu_sync_version = sync_version, cu_updated_by = updated_by,
                    cu_updated_at = now, cu_affected_mounts = affected_mounts \<rparr>"

definition msg_sync_complete ::
    "u64 \<Rightarrow> string \<Rightarrow> 'j sync_result \<Rightarrow> u32 \<Rightarrow> string list \<Rightarrow> 'j sync_message" where
  "msg_sync_complete sync_version initiator_id result conflicts_resolved participants =
     SyncComplete \<lparr> sc_sync_version = sync_version, sc_initiator_id = initiator_id, sc_result = result,
                    sc_conflicts_resolved = conflicts_resolved, sc_participants = participants \<rparr>"

definition msg_heartbeat :: "instant \<Rightarrow> string \<Rightarrow> u64 \<Rightarrow> node_status \<Rightarrow> nat \<Rightarrow> 'j sync_message" where
  "msg_heartbeat now instance_id sync_version status peer_count =
     Heartbeat \<lparr> hb_instance_id = instance_id, hb_timestamp = now, hb_sync_version = sync_version,
                 hb_status = status, hb_peer_count = peer_count \<rparr>"

definition message_type :: "'j sync_message \<Rightarrow> string" where
  "message_type m =
     (case m of
        SyncRequest _ \<Rightarrow> ''SyncRequest''
      | SyncResponse _ \<Rightarrow> ''SyncResponse''
      | ConfigUpdate _ \<Rightarrow> ''ConfigUpdate''
      | SyncComplete _ \<Rightarrow> ''SyncComplete''
      | Heartbeat _ \<Rightarrow> ''Heartbeat'')"

definition message_id :: "instant \<Rightarrow> 'j sync_message \<Rightarrow> string" where
  "message_id now m =
     (case m of
        SyncRequest req \<Rightarrow> ''req-'' @ rq_request_id req
      | SyncResponse resp \<Rightarrow> ''resp-'' @ rs_request_id resp
      | ConfigUpdate _ \<Rightarrow> ''update-'' @ show_int (timestamp_nanos now)
      | SyncComplete cmpl \<Rightarrow> ''complete-'' @ show_nat (unat (sc_sync_version cmpl)) @ ''-'' @ sc_initiator_id cmpl
      | Heartbeat hb \<Rightarrow> ''hb-'' @ hb_instance_id hb @ ''-'' @ show_int (timestamp_nanos (hb_timestamp hb)))"

section \<open>Conflict reports\<close>

text \<open>\<open>to_value\<close> is the JSON library's conversion, \<open>Null\<close> its null value.  The clock is read for
  each version of a mount that the configuration does not have; \<open>now\<close> stands for those readings.\<close>

definition convert_conflict_type :: "conflict_type \<Rightarrow> protocol_conflict_type" where
  "convert_conflict_type t =
     (case t of
        ConcurrentModification \<Rightarrow> P_ConcurrentModification
      | DeleteModifyConflict \<Rightarrow> P_DeleteModifyConflict
      | MountPointConflict \<Rightarrow> P_MountPointConflict)"

definition convert_resolution :: "conflict_resolution \<Rightarrow> protocol_resolution" where
  "convert_resolution r =
     (case r of
        UsedLatest \<Rightarrow> P_UseLatest
      | UsedInstance i \<Rightarrow> P_UseInstance i
      | RequiresManualIntervention \<Rightarrow> P_Manual)"

definition version_in ::
    "(mount_config \<Rightarrow> 'j option) \<Rightarrow> 'j \<Rightarrow> instant \<Rightarrow> fuji_config \<Rightarrow> string \<Rightarrow> string \<Rightarrow> 'j protocol_version" where
  "version_in to_value Null now config mount_id instance_id =
     \<lparr> pv_instance_id = instance_id,
       pv_updated_at = (case hm_get (cfg_mounts config) mount_id of
                          None \<Rightarrow> now
                        | Some w \<Rightarrow> mc_updated_at (mw_config w)),
       pv_mount_data = (case Option.bind (hm_get (cfg_mounts config) mount_id) (\<lambda>w. to_value (mw_config w)) of
                          None \<Rightarrow> Null
                        | Some v \<Rightarrow> v) \<rparr>"

definition convert_conflict ::
    "(mount_config \<Rightarrow> 'j option) \<Rightarrow> 'j \<Rightarrow> instant \<Rightarrow> string \<Rightarrow> fuji_config \<Rightarrow> fuji_config \<Rightarrow>
     sync_conflict \<Rightarrow> 'j mount_conflict" where
  "convert_conflict to_value Null now self local_config remote_config c =
     \<lparr> mcf_mount_id = scf_mount_id c,
       mcf_conflict_type = convert_conflict_type (scf_conflict_type c),
       mcf_local_version = version_in to_value Null now local_config (scf_mount_id c) self,
       mcf_remote_versions =
         map (version_in to_value Null now remote_config (scf_mount_id c))
           (filter (\<lambda>i. i \<noteq> self) (scf_conflicting_instances c)),
       mcf_suggested_resolution = convert_resolution (scf_resolution c) \<rparr>"

definition convert_sync_to_mount_conflicts ::
    "(mount_config \<Rightarrow> 'j option) \<Rightarrow> 'j \<Rightarrow> instant \<Rightarrow> string \<Rightarrow> sync_conflict list \<Rightarrow> fuji_config \<Rightarrow>
     fuji_config \<Rightarrow> 'j mount_conflict list" where
  "convert_sync_to_mount_conflicts to_value Null now self conflicts local_config remote_config =
     map (convert_conflict to_value Null now self local_config remote_config) conflicts"

section \<open>Lemmas\<close>

lemmas msg_defs = msg_sync_request_def msg_sync_response_def msg_config_update_def
  msg_sync_complete_def msg_heartbeat_def

lemma convert_none [simp]: "convert_sync_to_mount_conflicts to_value Null now self [] l r = []"
  by (simp add: convert_sync_to_mount_conflicts_def)

end
