(* ===== verification/Cluster_Transport.thy ===== *)
theory Cluster_Transport
  imports Cluster_State
begin

text \<open>
  \<open>src/network/tcp.rs\<close>: the connections between nodes, the authentication of incoming ones and
  the loop that serves them.

  A TCP stream is a number, what is written on the streams of stored connections is the list
  \<open>tp_wire\<close>, and what the operating system answers to a call is an argument.  Messages are the type
  parameter \<open>'m\<close>.  An incoming connection is the list of its frames; the end of the list is the end of
  the stream.  Each operation runs as a whole; the read lock that \<open>broadcast_message\<close> takes a second
  time in \<open>send_message\<close> is not modelled.
\<close>

section \<open>State\<close>

record socket_addr =
  sa_ip :: string
  sa_port :: u16

datatype connection_status = Connecting | Connected | Disconnected | Connection_Error string

record peer_connection =
  pcn_peer_id :: string
  pcn_addr :: socket_addr
  pcn_stream :: "nat option"
  pcn_last_activity :: instant
  pcn_status :: connection_status

record 'm transport =
  tp_local_addr :: socket_addr
  tp_connections :: "(string, peer_connection) hashmap"
  tp_cluster_config :: "cluster_config option"
  tp_server_running :: bool
  tp_listening :: bool
  tp_wire :: "(nat \<times> 'm) list"

datatype transport_error =
    Bind_Failed
  | Invalid_Address
  | Connect_Failed
  | Serialization_Failed
  | Stream_Locked
  | No_Active_Stream
  | Not_Connected
  | Write_Failed_On_Stream

definition transport_new :: "socket_addr \<Rightarrow> 'm transport" where
  "transport_new addr =
     \<lparr> tp_local_addr = addr, tp_connections = [], tp_cluster_config = None,
       tp_server_running = False, tp_listening = False, tp_wire = [] \<rparr>"

definition peer_connection_new :: "instant \<Rightarrow> socket_addr \<Rightarrow> peer_connection" where
  "peer_connection_new now addr =
     \<lparr> pcn_peer_id = sa_ip addr @ '':'' @ show_nat (unat (sa_port addr)), pcn_addr = addr,
       pcn_stream = None, pcn_last_activity = now, pcn_status = Connecting \<rparr>"

definition set_cluster_config :: "cluster_config \<Rightarrow> 'm transport \<Rightarrow> 'm transport" where
  "set_cluster_config c t = t\<lparr>tp_cluster_config := Some c\<rparr>"

section \<open>Server and connections\<close>

text \<open>\<open>tp_listening\<close> records that the accept loop was spawned.\<close>

definition start_server :: "bool \<Rightarrow> 'm transport \<Rightarrow> 'm transport \<times> (transport_error + unit)" where
  "start_server bind_ok t =
     (if tp_server_running t then (t, Inr ())
      else let t' = t\<lparr>tp_server_running := True\<rparr>
           in if \<not> bind_ok then (t', Inl Bind_Failed) else (t'\<lparr>tp_listening := True\<rparr>, Inr ()))"

definition accept_connection :: "instant \<Rightarrow> socket_addr \<Rightarrow> 'm transport \<Rightarrow> 'm transport \<times> string" where
  "accept_connection now addr t =
     (let conn = peer_connection_new now addr
      in (t\<lparr>tp_connections := hm_insert (pcn_peer_id conn) conn (tp_connections t)\<rparr>, pcn_peer_id conn))"

definition stop_server :: "'m transport \<Rightarrow> 'm transport" where
  "stop_server t = t\<lparr>tp_server_running := False, tp_connections := []\<rparr>"

text \<open>The stream of a successful connect is bound to \<open>_stream\<close> and dropped.\<close>

definition connect_to_peer ::
    "(string \<Rightarrow> socket_addr option) \<Rightarrow> bool \<Rightarrow> instant \<Rightarrow> peer_info \<Rightarrow> 'm transport \<Rightarrow>
     'm transport \<times> (transport_error + unit)" where
  "connect_to_peer parse_addr connect_ok now peer t =
     (case parse_addr (pi_address peer) of
        None \<Rightarrow> (t, Inl Invalid_Address)
      | Some addr \<Rightarrow>
          (if hm_contains_key (tp_connections t) (pi_id peer) then (t, Inr ())
           else if connect_ok
           then (t\<lparr>tp_connections := hm_insert (pi_id peer) (peer_connection_new now addr) (tp_connections t)\<rparr>,
                 Inr ())
           else (t, Inl Connect_Failed)))"

definition disconnect_from_peer :: "string \<Rightarrow> 'm transport \<Rightarrow> 'm transport" where
  "disconnect_from_peer peer_id t = t\<lparr>tp_connections := hm_remove peer_id (tp_connections t)\<rparr>"

section \<open>Sending\<close>

record send_io =
  io_serialize :: bool
  io_lock :: bool
  io_write :: bool
  io_now :: instant

definition send_message ::
    "send_io \<Rightarrow> string \<Rightarrow> 'm \<Rightarrow> 'm transport \<Rightarrow> 'm transport \<times> (transport_error + unit)" where
  "send_message io peer_id m t =
     (case hm_get (tp_connections t) peer_id of
        None \<Rightarrow> (t, Inl Not_Connected)
      | Some conn \<Rightarrow>
          (if \<not> io_serialize io then (t, Inl Serialization_Failed)
           else if \<not> io_lock io then (t, Inl Stream_Locked)
           else case pcn_stream conn of
                  None \<Rightarrow> (t, Inl No_Active_Stream)
                | Some stream \<Rightarrow>
                    (if \<not> io_write io then (t, Inl Write_Failed_On_Stream)
                     else (t\<lparr>tp_wire := tp_wire t @ [(stream, m)],
                             tp_connections :=
                               hm_update peer_id (\<lambda>c. c\<lparr>pcn_last_activity := io_now io\<rparr>) (tp_connections t)\<rparr>,
                           Inr ()))))"

fun send_to_all ::
    "(string \<Rightarrow> send_io) \<Rightarrow> 'm \<Rightarrow> string list \<Rightarrow> 'm transport \<Rightarrow> 'm transport \<times> string list" where
  "send_to_all io m [] t = (t, [])"
| "send_to_all io m (p # ps) t =
     (case send_message (io p) p m t of
        (t1, r) \<Rightarrow>
          (case send_to_all io m ps t1 of
             (t2, failed) \<Rightarrow> (t2, (if is_ok r then failed else p # failed))))"

definition broadcast_message ::
    "(string \<Rightarrow> send_io) \<Rightarrow> 'm \<Rightarrow> 'm transport \<Rightarrow> 'm transport \<times> (transport_error + string list)" where
  "broadcast_message io m t =
     (case send_to_all io m (map fst (tp_connections t)) t of (t', failed) \<Rightarrow> (t', Inr failed))"

section \<open>Serving a connection\<close>

record auth_request =
  ar_instance_id :: string
  ar_psk :: string
  ar_version :: string

datatype auth_error = Auth_Unreadable | Invalid_Psk | Unknown_Peer | Cluster_Not_Configured | Auth_Reply_Failed

text \<open>\<open>None\<close>: the request could not be read or parsed.\<close>

definition authenticate_connection ::
    "cluster_config option \<Rightarrow> auth_request option \<Rightarrow> bool \<Rightarrow> auth_error + unit" where
  "authenticate_connection config request reply_ok =
     (case request of
        None \<Rightarrow> Inl Auth_Unreadable
      | Some req \<Rightarrow>
          (case config of
             None \<Rightarrow> Inl Cluster_Not_Configured
           | Some cl \<Rightarrow>
               (case find (\<lambda>p. pi_id p = ar_instance_id req) (cc_peers cl) of
                  None \<Rightarrow> Inl Unknown_Peer
                | Some p \<Rightarrow>
                    (if pi_psk p \<noteq> ar_psk req then Inl Invalid_Psk
                     else if \<not> reply_ok then Inl Auth_Reply_Failed
                     else Inr ()))))"

text \<open>A frame is a message with whether its response can be written, a text that does not parse as a
  message, or a failed read.\<close>

datatype 'm frame = Message_Frame 'm bool | Malformed_Frame | Failed_Frame

text \<open>The responses written, and whether the loop was left by \<open>break\<close>, which leads to the clean up,
  or by the early return of \<open>?\<close>.\<close>

fun serve_frames ::
    "('st \<Rightarrow> string \<Rightarrow> 'm \<Rightarrow> 'st \<times> ('e + 'm option)) \<Rightarrow> string \<Rightarrow> 'm frame list \<Rightarrow> 'st \<Rightarrow>
     'st \<times> 'm list \<times> bool" where
  "serve_frames handler peer_id [] st = (st, [], True)"
| "serve_frames handler peer_id (Failed_Frame # fs) st = (st, [], True)"
| "serve_frames handler peer_id (Malformed_Frame # fs) st = (st, [], False)"
| "serve_frames handler peer_id (Message_Frame m write_ok # fs) st =
     (case handler st peer_id m of
        (st', Inl e) \<Rightarrow> serve_frames handler peer_id fs st'
      | (st', Inr None) \<Rightarrow> serve_frames handler peer_id fs st'
      | (st', Inr (Some response)) \<Rightarrow>
          (if write_ok
           then case serve_frames handler peer_id fs st' of (st2, rs, left) \<Rightarrow> (st2, response # rs, left)
           else (st', [], True)))"

text \<open>\<open>coordinator\<close> handles a message when one is configured; without one the message is dropped.\<close>

definition handle_message ::
    "('st \<Rightarrow> string \<Rightarrow> 'm \<Rightarrow> 'st \<times> ('e + 'm)) option \<Rightarrow> 'st \<Rightarrow> string \<Rightarrow> 'm \<Rightarrow> 'st \<times> ('e + 'm option)" where
  "handle_message coordinator st sender_id m =
     (case coordinator of
        Some handle \<Rightarrow> (case handle st sender_id m of (st', r) \<Rightarrow> (st', map_sum (\<lambda>e. e) Some r))
      | None \<Rightarrow> (st, Inr None))"

datatype connection_end = Closed_Cleanly | Auth_Rejected auth_error | Parse_Aborted

text \<open>\<open>cleanup\<close> removes the connection; it is not reached after a rejected authentication and after a
  text that does not parse.\<close>

definition handle_connection ::
    "('st \<Rightarrow> string \<Rightarrow> 'm \<Rightarrow> 'st \<times> ('e + 'm)) option \<Rightarrow> (string \<Rightarrow> 'st \<Rightarrow> 'st) \<Rightarrow>
     cluster_config option \<Rightarrow> auth_request option \<Rightarrow> bool \<Rightarrow> string \<Rightarrow> 'm frame list \<Rightarrow> 'st \<Rightarrow>
     'st \<times> 'm list \<times> connection_end" where
  "handle_connection coordinator cleanup config request reply_ok peer_id frames st =
     (case authenticate_connection config request reply_ok of
        Inl e \<Rightarrow> (st, [], Auth_Rejected e)
      | Inr _ \<Rightarrow>
          (case serve_frames (handle_message coordinator) peer_id frames st of
             (st', rs, True) \<Rightarrow> (cleanup peer_id st', rs, Closed_Cleanly)
           | (st', rs, False) \<Rightarrow> (st', rs, Parse_Aborted)))"

section \<open>Lemmas\<close>

definition no_streams :: "'m transport \<Rightarrow> bool" where
  "no_streams t \<longleftrightarrow> hm_wf (tp_connections t) \<and> tp_wire t = []
     \<and> (\<forall>p c. hm_get (tp_connections t) p = Some c \<longrightarrow> pcn_stream c = None)"

lemma no_streams_get:
  "no_streams t \<Longrightarrow> hm_get (tp_connections t) p = Some c \<Longrightarrow> pcn_stream c = None"
  by (auto simp: no_streams_def)

lemma no_streams_insert:
  "no_streams t \<Longrightarrow> pcn_stream c = None \<Longrightarrow> no_streams (t\<lparr>tp_connections := hm_insert k c (tp_connections t)\<rparr>)"
  by (auto simp: no_streams_def hm.wf_insert hm.get_insert)

lemma no_streams_remove:
  "no_streams t \<Longrightarrow> no_streams (t\<lparr>tp_connections := hm_remove k (tp_connections t)\<rparr>)"
  by (auto simp: no_streams_def hm.wf_remove hm.get_remove)

lemma send_fails:
  "no_streams t \<Longrightarrow> \<exists>e. send_message io p m t = (t, Inl e)"
  by (auto simp: send_message_def dest: no_streams_get split: option.splits)

lemma send_to_all_fails: "no_streams t \<Longrightarrow> send_to_all io m ps t = (t, ps)"
proof (induction ps)
  case (Cons p ps)
  obtain e where "send_message (io p) p m t = (t, Inl e)" using send_fails [OF Cons.prems] by blast
  with Cons show ?case by (simp add: is_ok_def)
qed simp

datatype 'm transport_op =
    T_Set_Config cluster_config
  | T_Start bool
  | T_Stop
  | T_Accept instant socket_addr
  | T_Connect "socket_addr option" bool instant peer_info
  | T_Disconnect string
  | T_Send send_io string 'm
  | T_Broadcast "string \<Rightarrow> send_io" 'm

fun transport_step :: "'m transport_op \<Rightarrow> 'm transport \<Rightarrow> 'm transport" where
  "transport_step (T_Set_Config c) t = set_cluster_config c t"
| "transport_step (T_Start ok) t = fst (start_server ok t)"
| "transport_step T_Stop t = stop_server t"
| "transport_step (T_Accept now a) t = fst (accept_connection now a t)"
| "transport_step (T_Connect a ok now p) t = fst (connect_to_peer (\<lambda>_. a) ok now p t)"
| "transport_step (T_Disconnect i) t = disconnect_from_peer i t"
| "transport_step (T_Send io p m) t = fst (send_message io p m t)"
| "transport_step (T_Broadcast io m) t = fst (broadcast_message io m t)"

lemma no_streams_connect: "no_streams t \<Longrightarrow> no_streams (fst (connect_to_peer parse ok now p t))"
  by (auto simp: connect_to_peer_def peer_connection_new_def intro: no_streams_insert split: option.splits)

lemma no_streams_broadcast: "no_streams t \<Longrightarrow> broadcast_message io m t = (t, Inr (map fst (tp_connections t)))"
  by (simp add: broadcast_message_def send_to_all_fails)

lemma no_streams_new [simp]: "no_streams (transport_new a)"
  by (simp add: no_streams_def transport_new_def hm.wf_empty hm.get_empty)

lemma no_streams_step: "no_streams t \<Longrightarrow> no_streams (transport_step op t)"
proof (cases op)
  case (T_Send io p m)
  assume "no_streams t"
  then show ?thesis using send_fails [of t io p m] by (auto simp: T_Send)
next
  case (T_Broadcast io m)
  assume "no_streams t"
  then show ?thesis by (simp add: T_Broadcast no_streams_broadcast)
next
  case (T_Accept now a)
  assume "no_streams t"
  then show ?thesis
    by (simp add: T_Accept accept_connection_def Let_def peer_connection_new_def no_streams_insert)
next
  case (T_Connect a ok now p)
  assume "no_streams t"
  then show ?thesis by (simp add: T_Connect no_streams_connect)
next
  case (T_Disconnect i)
  assume "no_streams t"
  then show ?thesis by (simp add: T_Disconnect disconnect_from_peer_def no_streams_remove)
qed (auto simp: set_cluster_config_def start_server_def stop_server_def no_streams_def Let_def hm.wf_empty hm.get_empty)

interpretation tp: component transport_step no_streams
  by unfold_locales (rule no_streams_step)

text \<open>C25: whatever is connected, accepted, stopped and sent, no stored connection ever holds a stream:
  the stream of a successful connect is dropped and an accepted one stays with its serving task.  So
  nothing is ever written to a peer, every send fails, and a broadcast reports every connection as
  failed, as a success.\<close>

theorem transport_never_sends:
  "let t = fold transport_step ops (transport_new a) in
     tp_wire t = []
     \<and> (\<exists>e. send_message io p m t = (t, Inl e))
     \<and> broadcast_message ios m t = (t, Inr (map fst (tp_connections t)))"
proof -
  have "no_streams (fold transport_step ops (transport_new a))" by (rule tp.inv_run) simp
  then show ?thesis by (simp add: send_fails no_streams_broadcast Let_def) (simp add: no_streams_def)
qed

lemma auth_accepts:
  "authenticate_connection config request ok = Inr () \<longleftrightarrow>
     ok \<and> (\<exists>req cl p. request = Some req \<and> config = Some cl
        \<and> find (\<lambda>p. pi_id p = ar_instance_id req) (cc_peers cl) = Some p \<and> pi_psk p = ar_psk req)"
  by (auto simp: authenticate_connection_def split: option.splits)

text \<open>C17: a message reaches the coordinator only on a connection whose first frame names a peer of the
  configuration together with the key of the first peer of that id; on every other connection the
  state is unchanged and nothing is answered.\<close>

theorem unauthenticated_ignored:
  "case handle_connection coordinator cleanup config request ok peer_id frames st of
     (st', responses, reason) \<Rightarrow>
       (st' = st \<and> responses = [] \<and> (\<exists>e. reason = Auth_Rejected e))
       \<or> (\<exists>req cl p. request = Some req \<and> config = Some cl \<and> p \<in> set (cc_peers cl)
             \<and> pi_id p = ar_instance_id req \<and> pi_psk p = ar_psk req)"
proof (cases "authenticate_connection config request ok")
  case (Inr u)
  then have "authenticate_connection config request ok = Inr ()" by simp
  then obtain req cl p where "request = Some req" "config = Some cl"
    and f: "find (\<lambda>p. pi_id p = ar_instance_id req) (cc_peers cl) = Some p" and "pi_psk p = ar_psk req"
    using auth_accepts by blast
  moreover from f have "p \<in> set (cc_peers cl) \<and> pi_id p = ar_instance_id req"
    by (auto simp: find_Some_iff)
  ultimately have "\<exists>req cl p. request = Some req \<and> config = Some cl \<and> p \<in> set (cc_peers cl)
             \<and> pi_id p = ar_instance_id req \<and> pi_psk p = ar_psk req" by blast
  then show ?thesis by (simp split: prod.splits)
qed (simp add: handle_connection_def)

text \<open>a server whose port cannot be bound counts as running: starting it again reports success and
  does not listen.\<close>

theorem failed_bind_counts_as_running:
  "start_server True (fst (start_server False (transport_new a)))
     = (fst (start_server False (transport_new a)), Inr ())
   \<and> \<not> tp_listening (fst (start_server False (transport_new a)))
   \<and> snd (start_server False (transport_new a)) = Inl Bind_Failed"
  by (simp add: start_server_def transport_new_def Let_def)

end
