(* ===== verification/Sync_Coordinator.thy ===== *)
theory Sync_Coordinator
  imports Sync_Protocol Cluster_Transport
begin

text \<open>
  \<open>src/sync/coordinator.rs\<close>: the node that answers and issues synchronisation requests, collects
  the responses and merges them.

  A handler is one step on the state; the tasks it spawns are entries of \<open>co_timers\<close>.  Locks are
  taken and released inside a step, except the one that a step can keep for ever: the write lock of
  the pending requests, \<open>co_pending_locked\<close>.  A step that waits for a lock nobody releases is
  \<open>Blocked\<close>, and one that panics is \<open>Panicked\<close>.  Log output is left out.

  \<open>e_clock n\<close> is the \<open>n\<close>-th reading of the clock in a step, \<open>e_stamps\<close> the readings of
  \<open>mark_modified\<close>, \<open>e_io\<close> and \<open>e_io'\<close> what the connection to a peer does with the first and the
  second message of the step, \<open>e_to_value\<close> and \<open>e_null\<close> the JSON library.
\<close>

section \<open>State\<close>

record pending_sync =
  ps_request_id :: string
  ps_initiated_at :: instant
  ps_responded_peers :: "string list"
  ps_peer_configs :: "(string, fuji_config) hashmap"
  ps_total_peers :: nat

datatype timer = Sync_Timeout string | Force_Timeout string nat

record 'j coordinator =
  co_instance_id :: string
  co_cluster_state :: cluster_state
  co_transport :: "'j sync_message transport"
  co_config :: fuji_config
  co_pending :: "(string, pending_sync) hashmap"
  co_pending_locked :: bool
  co_timers :: "timer list"

record 'j env =
  e_clock :: "nat \<Rightarrow> instant"
  e_stamps :: "string \<Rightarrow> instant"
  e_io :: "string \<Rightarrow> send_io"
  e_io' :: "string \<Rightarrow> send_io"
  e_to_value :: "mount_config \<Rightarrow> 'j option"
  e_null :: 'j

datatype coordinator_error =
    Join_Invalid_Signature
  | Join_Expired
  | Join_Connect transport_error
  | Cluster_Disabled
  | No_Healthy_Peers
  | Config_Error config_error

definition coordinator_new ::
    "string \<Rightarrow> cluster_state \<Rightarrow> 'j sync_message transport \<Rightarrow> fuji_config \<Rightarrow> 'j coordinator" where
  "coordinator_new instance_id cluster tp config =
     \<lparr> co_instance_id = instance_id, co_cluster_state = cluster, co_transport = tp, co_config = config,
       co_pending = [], co_pending_locked = False, co_timers = [] \<rparr>"

definition config_sync_version :: "fuji_config \<Rightarrow> u64" where
  "config_sync_version c =
     (case cfg_cluster c of None \<Rightarrow> 0 | Some cl \<Rightarrow> sm_sync_version (cc_sync_metadata cl))"

section \<open>Joining\<close>

definition join_cluster ::
    "(string \<Rightarrow> string \<Rightarrow> string) \<Rightarrow> (string \<Rightarrow> socket_addr option) \<Rightarrow> bool \<Rightarrow> 'j env \<Rightarrow> invitation \<Rightarrow>
     'j coordinator \<Rightarrow> 'j coordinator \<times> (coordinator_error + unit)" where
  "join_cluster hmac parse_addr connect_ok env i co =
     (if \<not> verify hmac i then (co, Inl Join_Invalid_Signature)
      else if is_expired (e_clock env 0) i then (co, Inl Join_Expired)
      else
        let inviting_peer = \<lparr> pi_id = inv_instance_id i, pi_address = inv_address i, pi_psk = inv_psk i,
                              pi_last_seen = e_clock env 1, pi_status = Peer_Disconnected \<rparr>;
            cs = update_peer inviting_peer (co_cluster_state co);
            c0 = co_config co;
            c1 = (if cfg_cluster c0 = None then initialize_cluster (co_instance_id co) c0 else c0);
            c2 = (case cfg_cluster c1 of
                    None \<Rightarrow> c1
                  | Some cl \<Rightarrow>
                      (case get_peer cs (inv_instance_id i) of
                         None \<Rightarrow> c1
                       | Some p \<Rightarrow> c1\<lparr>cfg_cluster := Some (cl\<lparr>cc_peers := cc_peers cl @ [p]\<rparr>)\<rparr>));
            co1 = co\<lparr>co_cluster_state := cs, co_config := c2\<rparr>
        in case get_peer cs (inv_instance_id i) of
             None \<Rightarrow> (co1, Inr ())
           | Some p \<Rightarrow>
               (case connect_to_peer parse_addr connect_ok (e_clock env 2) p (co_transport co) of
                  (tp, r) \<Rightarrow> (co1\<lparr>co_transport := tp\<rparr>, map_err Join_Connect r)))"

section \<open>Requests\<close>

definition create_heartbeat :: "instant \<Rightarrow> 'j coordinator \<Rightarrow> 'j sync_message" where
  "create_heartbeat now co =
     msg_heartbeat now (co_instance_id co) (config_sync_version (co_config co)) Node_Healthy
       (length (get_peers (co_cluster_state co)))"

definition handle_sync_request ::
    "'j env \<Rightarrow> string \<Rightarrow> sync_request \<Rightarrow> 'j coordinator \<Rightarrow> 'j coordinator \<times> 'j sync_message outcome" where
  "handle_sync_request env sender_id request co =
     (let co1 = co\<lparr>co_cluster_state := mark_peer_request (e_clock env 1) (co_cluster_state co)\<rparr>;
          config = co_config co
      in case merge_configs merger_new (e_clock env 2) (e_clock env 3) [(co_instance_id co, config)] of
           None \<Rightarrow> (co1, Panicked)
         | Some merged \<Rightarrow>
             (let conflicts = convert_sync_to_mount_conflicts (e_to_value env) (e_null env) (e_clock env 4)
                                (co_instance_id co) (sm_pending_conflicts (md_sync_metadata merged)) config config
              in (co1, Returned (msg_sync_response (rq_request_id request) (md_config merged)
                                   (sm_sync_version (md_sync_metadata merged)) conflicts))))"

section \<open>Merging\<close>

text \<open>The configuration that a merge leaves, before the final stamp.\<close>

definition merged_configuration ::
    "instant \<Rightarrow> nat \<Rightarrow> merged_config \<Rightarrow> fuji_config \<times> (config_error + unit)" where
  "merged_configuration now peers_responded merged =
     (let c = md_config merged
      in case cfg_cluster c of
           None \<Rightarrow> (c, Inr ())
         | Some cl \<Rightarrow>
             (let c' = c\<lparr>cfg_cluster := Some (cl\<lparr>cc_sync_metadata := md_sync_metadata merged\<rparr>)\<rparr>
              in if fs_sync_in_progress (sm_force_sync_state (md_sync_metadata merged))
                 then complete_force_sync now peers_responded (length (md_resolved_conflicts merged)) c'
                 else (c', Inr ())))"

definition perform_merge ::
    "'j env \<Rightarrow> string \<Rightarrow> (string \<times> fuji_config) list \<Rightarrow> 'j coordinator \<Rightarrow>
     'j coordinator \<times> (config_error + unit) outcome" where
  "perform_merge env request_id configs co =
     (case merge_configs merger_new (e_clock env 1) (e_clock env 2) configs of
        None \<Rightarrow> (co, Panicked)
      | Some merged \<Rightarrow>
          (if co_pending_locked co then (co, Blocked)
           else
             let sync_version = sm_sync_version (md_sync_metadata merged);
                 mount_ids = map fst (cfg_mounts (md_config merged));
                 peers_responded = (case hm_get (co_pending co) request_id of
                                      None \<Rightarrow> 0 | Some p \<Rightarrow> length (ps_responded_peers p))
             in case merged_configuration (e_clock env 3) peers_responded merged of
                  (c, Inl e) \<Rightarrow> (co\<lparr>co_config := c\<rparr>, Returned (Inl e))
                | (c, Inr _) \<Rightarrow>
                    (let c' = mark_modified (e_stamps env) (co_instance_id co) c;
                         update = msg_config_update (e_clock env 4) c' sync_version (co_instance_id co) mount_ids;
                         tp1 = fst (broadcast_message (e_io env) update (co_transport co));
                         done = msg_sync_complete sync_version (co_instance_id co) Sync_Success
                                  (of_nat (length (md_resolved_conflicts merged))) (map fst configs);
                         tp2 = fst (broadcast_message (e_io' env) done tp1)
                     in (co\<lparr>co_config := c', co_transport := tp2\<rparr>, Returned (Inr ())))))"

text \<open>The handler holds the write lock of the pending requests while it calls \<open>perform_merge\<close>, which
  reads them.  A panic releases the lock, and so does a return.\<close>

definition handle_sync_response ::
    "'j env \<Rightarrow> string \<Rightarrow> 'j sync_response \<Rightarrow> 'j coordinator \<Rightarrow> 'j coordinator \<times> unit outcome" where
  "handle_sync_response env sender_id response co =
     (if co_pending_locked co then (co, Blocked)
      else case hm_get (co_pending co) (rs_request_id response) of
        None \<Rightarrow> (co, Returned ())
      | Some sync \<Rightarrow>
          (let sync1 = sync\<lparr>ps_responded_peers := ps_responded_peers sync @ [sender_id],
                            ps_peer_configs := hm_insert sender_id (rs_config response) (ps_peer_configs sync)\<rparr>
           in if length (ps_responded_peers sync1) \<noteq> ps_total_peers sync1
              then (co\<lparr>co_pending := hm_insert (rs_request_id response) sync1 (co_pending co)\<rparr>, Returned ())
              else
                let configs = ps_peer_configs sync1 @ [(co_instance_id co, co_config co)];
                    sync2 = sync1\<lparr>ps_peer_configs := []\<rparr>;
                    co1 = co\<lparr>co_pending := hm_insert (rs_request_id response) sync2 (co_pending co),
                             co_pending_locked := True\<rparr>
                in case perform_merge env (ps_request_id sync2) configs co1 of
                     (co2, Blocked) \<Rightarrow> (co2, Blocked)
                   | (co2, Panicked) \<Rightarrow> (co2\<lparr>co_pending_locked := False\<rparr>, Panicked)
                   | (co2, Returned _) \<Rightarrow>
                       (co2\<lparr>co_pending := hm_remove (rs_request_id response) (co_pending co2),
                            co_pending_locked := False\<rparr>, Returned ())))"

section \<open>Notifications\<close>

definition handle_config_update ::
    "'j env \<Rightarrow> string \<Rightarrow> config_update \<Rightarrow> 'j coordinator \<Rightarrow> 'j coordinator" where
  "handle_config_update env sender_id update co =
     (if cu_sync_version update > config_sync_version (co_config co)
      then let c = cu_config update
           in co\<lparr>co_config :=
                (case cfg_cluster c of
                   None \<Rightarrow> c
                 | Some cl \<Rightarrow>
                     c\<lparr>cfg_cluster := Some (cl\<lparr>cc_sync_metadata := (cc_sync_metadata cl)
                         \<lparr>sm_sync_version := cu_sync_version update,
                          sm_last_sync_at := Some (e_clock env 1),
                          sm_last_modified_by := Some (cu_updated_by update)\<rparr>\<rparr>)\<rparr>)\<rparr>
      else co)"

definition handle_sync_complete :: "string \<Rightarrow> 'j sync_complete \<Rightarrow> 'j coordinator \<Rightarrow> 'j coordinator" where
  "handle_sync_complete sender_id cmpl co = co"

section \<open>Messages\<close>

text \<open>The first reading of the clock is that of \<open>mark_peer_seen\<close>, the last that of the heartbeat.\<close>

definition handle_sync_message ::
    "'j env \<Rightarrow> string \<Rightarrow> 'j sync_message \<Rightarrow> 'j coordinator \<Rightarrow> 'j coordinator \<times> 'j sync_message outcome" where
  "handle_sync_message env sender_id message co =
     (let co1 = co\<lparr>co_cluster_state := mark_peer_seen (e_clock env 0) sender_id (co_cluster_state co)\<rparr>
      in case message of
           SyncRequest req \<Rightarrow> handle_sync_request env sender_id req co1
         | SyncResponse resp \<Rightarrow>
             (case handle_sync_response env sender_id resp co1 of
                (co2, Returned _) \<Rightarrow> (co2, Returned (create_heartbeat (e_clock env 5) co2))
              | (co2, Blocked) \<Rightarrow> (co2, Blocked)
              | (co2, Panicked) \<Rightarrow> (co2, Panicked))
         | ConfigUpdate update \<Rightarrow>
             (let co2 = handle_config_update env sender_id update co1
              in (co2, Returned (create_heartbeat (e_clock env 5) co2)))
         | SyncComplete cmpl \<Rightarrow>
             (let co2 = handle_sync_complete sender_id cmpl co1
              in (co2, Returned (create_heartbeat (e_clock env 5) co2)))
         | Heartbeat _ \<Rightarrow> (co1, Returned (create_heartbeat (e_clock env 5) co1)))"

section \<open>Initiating\<close>

fun send_requests ::
    "(string \<Rightarrow> send_io) \<Rightarrow> 'm \<Rightarrow> peer_info list \<Rightarrow> 'm transport \<Rightarrow> 'm transport \<times> nat" where
  "send_requests io m [] tp = (tp, 0)"
| "send_requests io m (p # ps) tp =
     (case send_message (io (pi_id p)) (pi_id p) m tp of
        (tp1, r) \<Rightarrow>
          (case send_requests io m ps tp1 of
             (tp2, n) \<Rightarrow> (tp2, if is_ok r then n + 1 else n)))"

definition pending_sync_new :: "string \<Rightarrow> instant \<Rightarrow> nat \<Rightarrow> pending_sync" where
  "pending_sync_new request_id now total_peers =
     \<lparr> ps_request_id = request_id, ps_initiated_at = now, ps_responded_peers = [],
       ps_peer_configs = [], ps_total_peers = total_peers \<rparr>"

text \<open>What both initiators do once they have peers: record the request, send it, set a timer.\<close>

definition issue_request ::
    "'j env \<Rightarrow> string \<Rightarrow> peer_info list \<Rightarrow> (string \<Rightarrow> nat \<Rightarrow> timer) \<Rightarrow> 'j coordinator \<Rightarrow>
     'j coordinator \<times> unit outcome" where
  "issue_request env request_id peers timer co =
     (if co_pending_locked co then (co, Blocked)
      else
        let pending = hm_insert request_id (pending_sync_new request_id (e_clock env 3) (length peers)) (co_pending co);
            cs = mark_sync_initiated (e_clock env 4) (co_cluster_state co);
            message = msg_sync_request request_id (co_instance_id co) (config_sync_version (co_config co))
        in case send_requests (e_io env) message peers (co_transport co) of
             (tp, successful) \<Rightarrow>
               (co\<lparr>co_pending := pending, co_cluster_state := cs, co_transport := tp,
                   co_timers := co_timers co @ [timer request_id successful]\<rparr>, Returned ()))"

definition check_and_initiate_sync :: "'j env \<Rightarrow> 'j coordinator \<Rightarrow> 'j coordinator \<times> unit outcome" where
  "check_and_initiate_sync env co =
     (if \<not> should_initiate_sync (e_clock env 0) (co_cluster_state co) then (co, Returned ())
      else
        let sync_interval = (case get_sync_config (co_cluster_state co) of
                               Some (interval, _) \<Rightarrow> interval | None \<Rightarrow> minutes 5);
            peers = get_healthy_peers (e_clock env 1) (sync_interval + minutes 2) (co_cluster_state co)
        in if peers = [] then (co, Returned ())
           else issue_request env
                  (co_instance_id co @ ''-'' @ show_int (timestamp_nanos (e_clock env 2))) peers
                  (\<lambda>i _. Sync_Timeout i) co)"

definition force_sync ::
    "'j env \<Rightarrow> string \<Rightarrow> 'j coordinator \<Rightarrow> 'j coordinator \<times> (coordinator_error + unit) outcome" where
  "force_sync env reason co =
     (if \<not> is_cluster_enabled (co_config co) then (co, Returned (Inl Cluster_Disabled))
      else case initiate_force_sync (e_clock env 5) (e_clock env 6) reason (co_instance_id co) (co_config co) of
        (c, Inl e) \<Rightarrow> (co\<lparr>co_config := c\<rparr>, Returned (Inl (Config_Error e)))
      | (c, Inr _) \<Rightarrow>
          (let co1 = co\<lparr>co_config := c\<rparr>;
               peers = get_healthy_peers (e_clock env 1) (minutes 5) (co_cluster_state co)
           in if peers = []
              then (case fail_force_sync (e_clock env 7) ''No healthy peers available'' 0 c of
                      (c', Inl e) \<Rightarrow> (co1\<lparr>co_config := c'\<rparr>, Returned (Inl (Config_Error e)))
                    | (c', Inr _) \<Rightarrow> (co1\<lparr>co_config := c'\<rparr>, Returned (Inl No_Healthy_Peers)))
              else case issue_request env
                          (''force-'' @ co_instance_id co @ ''-'' @ show_int (timestamp_nanos (e_clock env 2)))
                          peers Force_Timeout co1 of
                     (co2, Returned _) \<Rightarrow> (co2, Returned (Inr ()))
                   | (co2, Blocked) \<Rightarrow> (co2, Blocked)
                   | (co2, Panicked) \<Rightarrow> (co2, Panicked)))"

text \<open>A timer fires: it waits for the lock, and what it was for is given up if it is still pending.\<close>

definition fire_timer :: "'j env \<Rightarrow> timer \<Rightarrow> 'j coordinator \<Rightarrow> 'j coordinator \<times> unit outcome" where
  "fire_timer env timer co =
     (if co_pending_locked co then (co, Blocked)
      else case timer of
        Sync_Timeout request_id \<Rightarrow>
          (co\<lparr>co_pending := hm_remove request_id (co_pending co)\<rparr>, Returned ())
      | Force_Timeout request_id successful_peers \<Rightarrow>
          (case hm_get (co_pending co) request_id of
             None \<Rightarrow> (co, Returned ())
           | Some _ \<Rightarrow>
               (co\<lparr>co_pending := hm_remove request_id (co_pending co),
                   co_config := fst (fail_force_sync (e_clock env 0) ''Force sync timed out'' successful_peers
                                       (co_config co))\<rparr>, Returned ())))"

section \<open>Runs\<close>

datatype 'j co_op =
    Co_Message "'j env" string "'j sync_message"
  | Co_Check "'j env"
  | Co_Force "'j env" string
  | Co_Timer "'j env" timer
  | Co_Join "string \<Rightarrow> string \<Rightarrow> string" "socket_addr option" bool "'j env" invitation

fun co_step :: "'j co_op \<Rightarrow> 'j coordinator \<Rightarrow> 'j coordinator" where
  "co_step (Co_Message env s m) co = fst (handle_sync_message env s m co)"
| "co_step (Co_Check env) co = fst (check_and_initiate_sync env co)"
| "co_step (Co_Force env r) co = fst (force_sync env r co)"
| "co_step (Co_Timer env t) co = fst (fire_timer env t co)"
| "co_step (Co_Join hmac a ok env i) co = fst (join_cluster hmac (\<lambda>_. a) ok env i co)"

definition co_wf :: "'j coordinator \<Rightarrow> bool" where
  "co_wf co \<longleftrightarrow> no_streams (co_transport co) \<and> peers_wf (cs_peers (co_cluster_state co)) \<and> hm_wf (co_pending co)
     \<and> (\<not> co_pending_locked co \<longrightarrow>
          (\<forall>i p. hm_get (co_pending co) i = Some p \<longrightarrow>
             ps_request_id p = i \<and> length (ps_responded_peers p) < ps_total_peers p))"

section \<open>Lemmas\<close>

lemma perform_merge_locked:
  "co_pending_locked co \<Longrightarrow> perform_merge env i configs co = (co, Blocked)"
  using merge_configs_get [of merger_new "e_clock env 1" "e_clock env 2" configs]
  by (auto simp: perform_merge_def)

text \<open>What a response does, with the merge resolved: it never gets past the lock.\<close>

lemma handle_sync_response_eq:
  "handle_sync_response env s resp co =
     (if co_pending_locked co then (co, Blocked)
      else case hm_get (co_pending co) (rs_request_id resp) of
        None \<Rightarrow> (co, Returned ())
      | Some sync \<Rightarrow>
          (let sync1 = sync\<lparr>ps_responded_peers := ps_responded_peers sync @ [s],
                            ps_peer_configs := hm_insert s (rs_config resp) (ps_peer_configs sync)\<rparr>
           in if length (ps_responded_peers sync) + 1 \<noteq> ps_total_peers sync
              then (co\<lparr>co_pending := hm_insert (rs_request_id resp) sync1 (co_pending co)\<rparr>, Returned ())
              else (co\<lparr>co_pending := hm_insert (rs_request_id resp) (sync1\<lparr>ps_peer_configs := []\<rparr>) (co_pending co),
                       co_pending_locked := True\<rparr>, Blocked)))"
  by (simp add: handle_sync_response_def Let_def perform_merge_locked split: option.splits)

lemma handle_sync_request_state:
  "fst (handle_sync_request env s req co)
     = co\<lparr>co_cluster_state := mark_peer_request (e_clock env 1) (co_cluster_state co)\<rparr>"
  by (simp add: handle_sync_request_def Let_def split: option.splits)

lemma send_requests_none: "no_streams tp \<Longrightarrow> send_requests io m ps tp = (tp, 0)"
proof (induction ps)
  case (Cons p ps)
  obtain e where "send_message (io (pi_id p)) (pi_id p) m tp = (tp, Inl e)"
    using send_fails [OF Cons.prems] by blast
  with Cons show ?case by (simp add: is_ok_def)
qed simp

lemma initiate_force_mounts [simp]: "cfg_mounts (fst (initiate_force_sync a b r i c)) = cfg_mounts c"
  by (simp add: initiate_force_sync_def Let_def split: option.splits)

lemma fail_force_mounts [simp]: "cfg_mounts (fst (fail_force_sync a r n c)) = cfg_mounts c"
  by (simp add: fail_force_sync_def Let_def split: option.splits)

lemma initiate_force_version [simp]:
  "config_sync_version (fst (initiate_force_sync a b r i c)) = config_sync_version c"
  by (simp add: initiate_force_sync_def config_sync_version_def with_force_state_def Let_def split: option.splits)

lemma fail_force_version [simp]:
  "config_sync_version (fst (fail_force_sync a r n c)) = config_sync_version c"
  by (simp add: fail_force_sync_def config_sync_version_def with_force_state_def Let_def split: option.splits)

subsection \<open>Every step keeps the invariant\<close>

lemma co_wf_pending_insert:
  assumes "co_wf co" and "ps_request_id p = i" and "length (ps_responded_peers p) < ps_total_peers p"
  shows "co_wf (co\<lparr>co_pending := hm_insert i p (co_pending co)\<rparr>)"
  using assms by (auto simp: co_wf_def hm.wf_insert hm.get_insert)

lemma co_wf_cluster:
  "co_wf co \<Longrightarrow> peers_wf (cs_peers cs) \<Longrightarrow> co_wf (co\<lparr>co_cluster_state := cs\<rparr>)"
  by (simp add: co_wf_def)

lemma co_wf_config [simp]: "co_wf (co\<lparr>co_config := c\<rparr>) = co_wf co"
  by (simp add: co_wf_def)

lemma co_wf_timers [simp]: "co_wf (co\<lparr>co_timers := ts\<rparr>) = co_wf co"
  by (simp add: co_wf_def)

lemma co_wf_response: "co_wf co \<Longrightarrow> co_wf (fst (handle_sync_response env s resp co))"
  unfolding handle_sync_response_eq
  by (auto simp: Let_def co_wf_def hm.wf_insert hm.get_insert split: option.splits)
    (metis Suc_lessI)+

lemma peers_wf_seen: "peers_wf (cs_peers cs) \<Longrightarrow> peers_wf (cs_peers (mark_peer_seen now i cs))"
  using peers_wf_step [of cs "Cluster_Peer_Seen now i"] by simp

lemma peers_wf_asked [simp]:
  "cs_peers (mark_peer_request now cs) = cs_peers cs" "cs_peers (mark_sync_initiated now cs) = cs_peers cs"
  by (simp_all add: mark_peer_request_def mark_sync_initiated_def)

lemma co_wf_request: "co_wf co \<Longrightarrow> co_wf (fst (handle_sync_request env s req co))"
  by (simp add: handle_sync_request_state co_wf_def)

lemma co_wf_message: "co_wf co \<Longrightarrow> co_wf (fst (handle_sync_message env s m co))"
proof -
  let ?co = "co\<lparr>co_cluster_state := mark_peer_seen (e_clock env 0) s (co_cluster_state co)\<rparr>"
  assume "co_wf co"
  then have wf: "co_wf ?co" by (simp add: co_wf_def peers_wf_seen)
  show ?thesis
  proof (cases m)
    case (SyncRequest req)
    then show ?thesis using co_wf_request [OF wf] by (simp add: handle_sync_message_def Let_def)
  next
    case (SyncResponse resp)
    have "fst (handle_sync_message env s m co) = fst (handle_sync_response env s resp ?co)"
      by (simp add: SyncResponse handle_sync_message_def Let_def split: prod.splits outcome.splits)
    then show ?thesis using co_wf_response [OF wf] by simp
  qed (use wf in \<open>simp_all add: handle_sync_message_def handle_config_update_def
        handle_sync_complete_def Let_def\<close>)
qed

lemma co_wf_issue:
  "co_wf co \<Longrightarrow> peers \<noteq> [] \<Longrightarrow> co_wf (fst (issue_request env i peers tm co))"
  by (auto simp: issue_request_def Let_def co_wf_def send_requests_none hm.wf_insert hm.get_insert
      pending_sync_new_def split: if_splits)

lemma co_wf_timer: "co_wf co \<Longrightarrow> co_wf (fst (fire_timer env tm co))"
  by (auto simp: fire_timer_def co_wf_def hm.wf_remove hm.get_remove split: timer.splits option.splits if_splits)

lemma co_wf_check: "co_wf co \<Longrightarrow> co_wf (fst (check_and_initiate_sync env co))"
  by (simp add: check_and_initiate_sync_def Let_def co_wf_issue)

lemma force_sync_state:
  "\<exists>c. cfg_mounts c = cfg_mounts (co_config co)
     \<and> config_sync_version c = config_sync_version (co_config co)
     \<and> (fst (force_sync env r co) = co\<lparr>co_config := c\<rparr>
        \<or> (\<exists>i peers. peers \<noteq> []
             \<and> fst (force_sync env r co) = fst (issue_request env i peers Force_Timeout (co\<lparr>co_config := c\<rparr>))))"
proof (cases "is_cluster_enabled (co_config co)")
  case True
  obtain c res where init: "initiate_force_sync (e_clock env 5) (e_clock env 6) r (co_instance_id co) (co_config co) = (c, res)"
    by force
  have c: "cfg_mounts c = cfg_mounts (co_config co)"
      and v: "config_sync_version c = config_sync_version (co_config co)"
    using initiate_force_mounts initiate_force_version init by (metis fst_conv)+
  let ?peers = "get_healthy_peers (e_clock env 1) (minutes 5) (co_cluster_state co)"
  show ?thesis
  proof (cases res)
    case (Inr u)
    show ?thesis
    proof (cases "?peers = []")
      case False
      let ?id = "''force-'' @ co_instance_id co @ ''-'' @ show_int (timestamp_nanos (e_clock env 2))"
      obtain co2 r2 where issue: "issue_request env ?id ?peers Force_Timeout (co\<lparr>co_config := c\<rparr>) = (co2, r2)"
        by force
      have "fst (force_sync env r co) = co2"
        using True False issue by (cases r2) (simp_all add: force_sync_def init Inr Let_def)
      then have "fst (force_sync env r co) = fst (issue_request env ?id ?peers Force_Timeout (co\<lparr>co_config := c\<rparr>))"
        using issue by simp
      with False c v show ?thesis by blast
    next
      case empty: True
      obtain c2 r2 where fail: "fail_force_sync (e_clock env 7) ''No healthy peers available'' 0 c = (c2, r2)"
        by force
      have "fst (force_sync env r co) = co\<lparr>co_config := c2\<rparr>"
        using fail by (cases r2) (simp_all add: force_sync_def True init Inr Let_def empty del: One_nat_def)
      moreover have "cfg_mounts c2 = cfg_mounts (co_config co)" using c fail fail_force_mounts by (metis fst_conv)
      moreover have "config_sync_version c2 = config_sync_version (co_config co)"
        using v fail fail_force_version by (metis fst_conv)
      ultimately show ?thesis by blast
    qed
  next
    case (Inl e)
    then have "fst (force_sync env r co) = co\<lparr>co_config := c\<rparr>" by (simp add: force_sync_def True init)
    with c v show ?thesis by blast
  qed
next
  case False
  then have "fst (force_sync env r co) = co\<lparr>co_config := co_config co\<rparr>" by (simp add: force_sync_def)
  then show ?thesis by blast
qed

lemma co_wf_force: "co_wf co \<Longrightarrow> co_wf (fst (force_sync env r co))"
  using force_sync_state [of co env r] by (auto simp: co_wf_issue)

text \<open>A join adds a peer to the cluster state, may connect, and leaves mounts and requests alone.\<close>

lemma join_cluster_state:
  "fst (join_cluster hmac parse ok env i co) = co
   \<or> (\<exists>c p tp. cfg_mounts c = cfg_mounts (co_config co)
        \<and> config_sync_version c = config_sync_version (co_config co)
        \<and> (tp = co_transport co \<or> (\<exists>p'. tp = fst (connect_to_peer parse ok (e_clock env 2) p' (co_transport co))))
        \<and> fst (join_cluster hmac parse ok env i co)
          = co\<lparr>co_cluster_state := update_peer p (co_cluster_state co), co_config := c, co_transport := tp\<rparr>)"
proof (cases "\<not> verify hmac i \<or> is_expired (e_clock env 0) i")
  case False
  let ?p = "\<lparr> pi_id = inv_instance_id i, pi_address = inv_address i, pi_psk = inv_psk i,
              pi_last_seen = e_clock env 1, pi_status = Peer_Disconnected \<rparr>"
  let ?cs = "update_peer ?p (co_cluster_state co)"
  let ?c1 = "if cfg_cluster (co_config co) = None then initialize_cluster (co_instance_id co) (co_config co)
             else co_config co"
  let ?c = "case cfg_cluster ?c1 of None \<Rightarrow> ?c1
            | Some cl \<Rightarrow> ?c1\<lparr>cfg_cluster := Some (cl\<lparr>cc_peers := cc_peers cl @ [?p]\<rparr>)\<rparr>"
  let ?tp = "fst (connect_to_peer parse ok (e_clock env 2) ?p (co_transport co))"
  have get: "get_peer ?cs (inv_instance_id i) = Some ?p"
    by (simp add: get_peer_def update_peer_def hm.get_insert)
  have "fst (join_cluster hmac parse ok env i co)
      = co\<lparr>co_cluster_state := ?cs, co_config := ?c, co_transport := ?tp\<rparr>"
    using False
    by (cases "connect_to_peer parse ok (e_clock env 2) ?p (co_transport co)"; cases "cfg_cluster (co_config co)")
      (simp_all add: join_cluster_def Let_def get initialize_cluster_def del: One_nat_def)
  moreover have "cfg_mounts ?c = cfg_mounts (co_config co)"
    by (simp add: initialize_cluster_def split: option.splits)
  moreover have "config_sync_version ?c = config_sync_version (co_config co)"
    by (simp add: config_sync_version_def initialize_cluster_def split: option.splits)
  ultimately show ?thesis by blast
qed (auto simp: join_cluster_def)

lemma peers_wf_update_peer: "peers_wf (cs_peers cs) \<Longrightarrow> peers_wf (cs_peers (update_peer p cs))"
  using peers_wf_step [of cs "Cluster_Update_Peer p"] by simp

lemma co_wf_join: "co_wf co \<Longrightarrow> co_wf (fst (join_cluster hmac parse ok env i co))"
  using join_cluster_state [of hmac parse ok env i co]
  by (auto simp: co_wf_def peers_wf_update_peer no_streams_connect)

lemma co_wf_step: "co_wf co \<Longrightarrow> co_wf (co_step op co)"
  by (cases op) (simp_all add: co_wf_message co_wf_check co_wf_force co_wf_timer co_wf_join)

interpretation co: component co_step co_wf
  by unfold_locales (rule co_wf_step)

lemma co_wf_new: "peers_wf (cs_peers cs) \<Longrightarrow> no_streams tp \<Longrightarrow> co_wf (coordinator_new i cs tp c)"
  by (simp add: co_wf_def coordinator_new_def hm.wf_empty hm.get_empty)

subsection \<open>What no step changes\<close>

fun is_update :: "'j co_op \<Rightarrow> bool" where
  "is_update (Co_Message env s (ConfigUpdate u)) = True"
| "is_update op = False"

lemma response_frame [simp]:
  "co_config (fst (handle_sync_response env s resp co)) = co_config co"
  "co_pending_locked co \<Longrightarrow> fst (handle_sync_response env s resp co) = co"
  by (simp_all add: handle_sync_response_eq Let_def split: option.splits)

lemma issue_config [simp]: "co_config (fst (issue_request env i ps tm co)) = co_config co"
  by (simp add: issue_request_def Let_def split: prod.splits)

lemma issue_locked [simp]: "co_pending_locked (fst (issue_request env i ps tm co)) = co_pending_locked co"
  by (simp add: issue_request_def Let_def split: prod.splits)

lemma message_fst:
  "fst (handle_sync_message env s m co) =
     (let co1 = co\<lparr>co_cluster_state := mark_peer_seen (e_clock env 0) s (co_cluster_state co)\<rparr>
      in case m of
           SyncRequest req \<Rightarrow> fst (handle_sync_request env s req co1)
         | SyncResponse resp \<Rightarrow> fst (handle_sync_response env s resp co1)
         | ConfigUpdate u \<Rightarrow> handle_config_update env s u co1
         | _ \<Rightarrow> co1)"
  by (simp add: handle_sync_message_def handle_sync_complete_def Let_def
      split: sync_message.split prod.splits outcome.splits)

lemma step_mounts:
  assumes "\<not> is_update op"
  shows "cfg_mounts (co_config (co_step op co)) = cfg_mounts (co_config co)"
proof (cases op)
  case (Co_Message env s m)
  with assms show ?thesis
    by (cases m) (simp_all add: message_fst Let_def handle_sync_request_state)
next
  case (Co_Force env r)
  then show ?thesis using force_sync_state [of co env r] by auto
next
  case (Co_Join hmac a ok env i)
  then show ?thesis using join_cluster_state [of hmac "\<lambda>_. a" ok env i co] by auto
qed (simp_all add: check_and_initiate_sync_def fire_timer_def Let_def split: timer.split option.split)

lemma step_locked: "co_pending_locked co \<Longrightarrow> co_pending_locked (co_step op co)"
proof (cases op)
  case (Co_Message env s m)
  assume "co_pending_locked co"
  then show ?thesis
    by (cases m) (simp_all add: Co_Message message_fst Let_def handle_sync_request_state handle_config_update_def)
next
  case (Co_Force env r)
  assume "co_pending_locked co"
  then show ?thesis using force_sync_state [of co env r] by (auto simp: Co_Force)
next
  case (Co_Join hmac a ok env i)
  assume "co_pending_locked co"
  then show ?thesis using join_cluster_state [of hmac "\<lambda>_. a" ok env i co] by (auto simp: Co_Join)
qed (simp_all add: check_and_initiate_sync_def fire_timer_def Let_def)

lemma run_locked: "co_pending_locked co \<Longrightarrow> co_pending_locked (fold co_step ops co)"
  by (induction ops arbitrary: co) (simp_all add: step_locked)

lemma run_mounts:
  "list_all (\<lambda>op. \<not> is_update op) ops \<Longrightarrow>
     cfg_mounts (co_config (fold co_step ops co)) = cfg_mounts (co_config co)"
  by (induction ops arbitrary: co) (simp_all add: step_mounts)

section \<open>Properties\<close>

text \<open>C11: the response that completes a synchronisation never returns: the handler holds the lock of
  the pending requests for writing while the merge waits to read them.  The configuration is not
  changed, and from then on, whatever happens, every response, every expiring timer and every new
  synchronisation of this node waits for that lock.\<close>

theorem final_response_blocks:
  assumes "\<not> co_pending_locked co" and "hm_get (co_pending co) (rs_request_id resp) = Some sync"
    and "length (ps_responded_peers sync) + 1 = ps_total_peers sync"
  shows "\<exists>co'. handle_sync_response env s resp co = (co', Blocked) \<and> co_config co' = co_config co
    \<and> co_transport co' = co_transport co
    \<and> (let late = fold co_step ops co' in
         snd (handle_sync_response env' s' resp' late) = Blocked
         \<and> snd (fire_timer env' tm late) = Blocked
         \<and> snd (issue_request env' i peers mk late) = Blocked)"
proof -
  obtain co' where r: "handle_sync_response env s resp co = (co', Blocked)" and l: "co_pending_locked co'"
    and c: "co_config co' = co_config co" "co_transport co' = co_transport co"
    using assms by (simp add: handle_sync_response_eq Let_def)
  from run_locked [OF l, of ops] r c show ?thesis
    by (simp add: handle_sync_response_def fire_timer_def issue_request_def Let_def)
qed

definition sample_env :: "unit env" where
  "sample_env = \<lparr> e_clock = int, e_stamps = (\<lambda>_. 9),
     e_io = (\<lambda>_. \<lparr> io_serialize = True, io_lock = True, io_write = True, io_now = 0 \<rparr>),
     e_io' = (\<lambda>_. \<lparr> io_serialize = True, io_lock = True, io_write = True, io_now = 0 \<rparr>),
     e_to_value = (\<lambda>_. None), e_null = () \<rparr>"

definition sample_response :: "unit sync_response" where
  "sample_response = \<lparr> rs_request_id = ''r'', rs_config = config_default, rs_sync_version = 1, rs_conflicts = [] \<rparr>"

definition sample_coordinator :: "unit coordinator" where
  "sample_coordinator =
     (coordinator_new ''n'' cluster_state_new (transport_new \<lparr> sa_ip = ''::'', sa_port = 1 \<rparr>) config_default)
       \<lparr>co_pending := [(''r'', pending_sync_new ''r'' 0 1)]\<rparr>"

theorem final_response_blocks_witness:
  "\<exists>co'. handle_sync_response sample_env ''p'' sample_response sample_coordinator = (co', Blocked)
     \<and> snd (handle_sync_response sample_env ''q'' sample_response (fold co_step [Co_Check sample_env] co')) = Blocked"
proof -
  have "\<not> co_pending_locked sample_coordinator"
    and "hm_get (co_pending sample_coordinator) (rs_request_id sample_response) = Some (pending_sync_new ''r'' 0 1)"
    and "length (ps_responded_peers (pending_sync_new ''r'' 0 1)) + 1 = ps_total_peers (pending_sync_new ''r'' 0 1)"
    by (simp_all add: sample_coordinator_def sample_response_def coordinator_new_def hm_get_def pending_sync_new_def)
  from final_response_blocks [OF this, where env = sample_env and s = "''p''" and env' = sample_env and s' = "''q''"
      and resp' = sample_response and ops = "[Co_Check sample_env]"]
  show ?thesis unfolding Let_def by blast
qed



text \<open>while its lock is free, every pending request is stored under its own id and still waits for
  at least one response, so a request that can no longer complete is only ended by its timer.\<close>

theorem pending_requests_wait:
  "let co = fold co_step ops (coordinator_new i cluster_state_new (transport_new a) c) in
     co_pending_locked co \<or>
     list_all (\<lambda>(k, p). ps_request_id p = k \<and> length (ps_responded_peers p) < ps_total_peers p) (co_pending co)"
proof -
  let ?co = "coordinator_new i cluster_state_new (transport_new a) c"
  have "co_wf ?co" by (rule co_wf_new) (simp_all add: cluster_state_new_def)
  then have "co_wf (fold co_step ops ?co)" by (rule co.inv_run)
  then show ?thesis by (auto simp: co_wf_def Let_def list_all_iff hm_get_iff_in_set)
qed

subsection \<open>Answers\<close>

subsection \<open>Answers and versions\<close>

lemma latest_single: "latest_sync_version [(i, c)] = config_sync_version c"
  by (auto simp: latest_sync_version_def config_sync_version_def word_greater_zero_iff split: option.split)

text \<open>a node answers a synchronisation request with its own mounts, no conflicts and a version two
  above its own, and keeps its configuration; the answer is signed with the instance id \<open>unknown\<close>.\<close>

theorem sync_request_answer:
  assumes "hm_wf (cfg_mounts (co_config co))"
    and "list_all (\<lambda>(_, w). hm_wf (mc_metadata (mw_config w))) (cfg_mounts (co_config co))"
  shows "\<exists>co' resp. handle_sync_message env s (SyncRequest req) co = (co', Returned (SyncResponse resp))
    \<and> co_config co' = co_config co
    \<and> rs_request_id resp = rq_request_id req \<and> rs_conflicts resp = []
    \<and> (\<forall>k. hm_get (cfg_mounts (rs_config resp)) k = hm_get (cfg_mounts (co_config co)) k)
    \<and> rs_sync_version resp = config_sync_version (co_config co) + 2
    \<and> get_instance_id (rs_config resp) = Some ''unknown''"
proof -
  from merge_single [OF assms, of merger_new "e_clock env 2" "e_clock env 3" "co_instance_id co"]
  obtain m where m: "merge_configs merger_new (e_clock env 2) (e_clock env 3) [(co_instance_id co, co_config co)] = Some m"
    and mounts: "\<And>k. hm_get (cfg_mounts (md_config m)) k = hm_get (cfg_mounts (co_config co)) k"
    and quiet: "sm_pending_conflicts (md_sync_metadata m) = []"
    and v: "sm_sync_version (md_sync_metadata m) = config_sync_version (co_config co) + 2"
    by (auto simp: latest_single)
  have "get_instance_id (md_config m) = Some ''unknown''" using merge_identity [OF m] by (simp add: merger_new_def)
  then show ?thesis
    by (simp add: handle_sync_message_def handle_sync_request_def Let_def m [simplified] quiet v mounts
        msg_sync_response_def)
qed

theorem sync_request_answer_witness:
  "\<exists>co' resp. handle_sync_message sample_env ''p'' (SyncRequest \<lparr> rq_request_id = ''r'', rq_requester_id = ''p'',
       rq_known_version = 0, rq_mount_filter = None \<rparr>) sample_coordinator = (co', Returned (SyncResponse resp))
     \<and> rs_sync_version resp = 2"
proof -
  have c: "co_config sample_coordinator = config_default" by (simp add: sample_coordinator_def coordinator_new_def)
  have "hm_wf (cfg_mounts (co_config sample_coordinator))"
    and "list_all (\<lambda>(_, w). hm_wf (mc_metadata (mw_config w))) (cfg_mounts (co_config sample_coordinator))"
    by (simp_all add: c config_default_def hm.wf_empty)
  from sync_request_answer [OF this, of sample_env "''p''" "\<lparr> rq_request_id = ''r'', rq_requester_id = ''p'',
       rq_known_version = 0, rq_mount_filter = None \<rparr>"]
  show ?thesis by (simp add: c config_sync_version_def config_default_def) blast
qed

fun carries_cluster :: "'j co_op \<Rightarrow> bool" where
  "carries_cluster (Co_Message env s (ConfigUpdate u)) = (cfg_cluster (cu_config u) \<noteq> None)"
| "carries_cluster op = True"

lemma step_version:
  assumes "carries_cluster op"
  shows "config_sync_version (co_config co) \<le> config_sync_version (co_config (co_step op co))"
proof (cases op)
  case (Co_Message env s m)
  with assms show ?thesis
    by (cases m)
      (auto simp: message_fst Let_def handle_sync_request_state handle_config_update_def config_sync_version_def
        split: option.splits)
next
  case (Co_Force env r)
  then show ?thesis using force_sync_state [of co env r] by auto
next
  case (Co_Join hmac a ok env i)
  then show ?thesis using join_cluster_state [of hmac "\<lambda>_. a" ok env i co] by auto
qed (simp_all add: check_and_initiate_sync_def fire_timer_def Let_def split: timer.split option.split)

text \<open>as long as the updates that arrive carry a cluster section, the version of the configuration
  never goes down.\<close>

theorem sync_version_monotone:
  assumes "list_all carries_cluster ops"
  shows "config_sync_version (co_config co) \<le> config_sync_version (co_config (fold co_step ops co))"
  using assms
proof (induction ops arbitrary: co)
  case (Cons op ops)
  then have "carries_cluster op" and "list_all carries_cluster ops" by simp_all
  from order_trans [OF step_version [OF this(1)] Cons.IH [OF this(2)]] show ?case by simp
qed simp

theorem sync_version_monotone_witness:
  "config_sync_version config_default
     \<le> config_sync_version (co_config (fold co_step [Co_Force sample_env ''now'', Co_Check sample_env] sample_coordinator))"
proof -
  have "co_config sample_coordinator = config_default" by (simp add: sample_coordinator_def coordinator_new_def)
  with sync_version_monotone [of "[Co_Force sample_env ''now'', Co_Check sample_env]" sample_coordinator]
  show ?thesis by simp
qed

text \<open>The update of another node replaces the whole configuration, its instance id included, and one
  without a cluster section sets the version back.\<close>

lemma update_takes_over:
  "config_sync_version (co_config co) < cu_sync_version u \<Longrightarrow>
     get_instance_id (co_config (handle_config_update env s u co)) = get_instance_id (cu_config u)
     \<and> cfg_mounts (co_config (handle_config_update env s u co)) = cfg_mounts (cu_config u)
     \<and> (cfg_cluster (cu_config u) = None \<longrightarrow> config_sync_version (co_config (handle_config_update env s u co)) = 0)"
  by (auto simp: handle_config_update_def get_instance_id_def config_sync_version_def Let_def split: option.split)

end
