(* ===== verification/Retry.thy ===== *)
theory Retry
  imports Fuji_Prelude
begin

text \<open>
  \<open>src/monitoring/retry.rs\<close>: retry policies, the circuit breaker of a mount and the loop that
  runs an operation until it succeeds, the breaker stops it or the attempts are used up.

  Durations are nanoseconds, a floating point number is its bit pattern.  The loop runs in a world
  \<open>'w\<close>: the operation, the clock, the backoff crate and sleeping act on it and are arguments.  The
  maps of the handler are touched by one call at a time.
\<close>

section \<open>Policies\<close>

record retry_policy =
  rp_initial_delay :: duration
  rp_max_delay :: duration
  rp_multiplier :: "64 word"
  rp_jitter :: "64 word"
  rp_max_attempts :: u32
  rp_reset_after :: duration

text \<open>The bit patterns of 2.0 and 0.1.\<close>

definition retry_policy_default :: retry_policy where
  "retry_policy_default =
     \<lparr> rp_initial_delay = secs 1, rp_max_delay = secs 300, rp_multiplier = 0x4000000000000000,
       rp_jitter = 0x3FB999999999999A, rp_max_attempts = 5, rp_reset_after = secs 300 \<rparr>"

section \<open>The circuit breaker\<close>

record circuit_breaker =
  cb_failure_count :: u32
  cb_last_failure :: "instant option"
  cb_is_open :: bool
  cb_opened_at :: "instant option"
  cb_failure_threshold :: u32
  cb_open_timeout :: duration

definition circuit_breaker_new :: "u32 \<Rightarrow> duration \<Rightarrow> circuit_breaker" where
  "circuit_breaker_new failure_threshold open_timeout =
     \<lparr> cb_failure_count = 0, cb_last_failure = None, cb_is_open = False, cb_opened_at = None,
       cb_failure_threshold = failure_threshold, cb_open_timeout = open_timeout \<rparr>"

definition record_success :: "circuit_breaker \<Rightarrow> circuit_breaker" where
  "record_success b = b\<lparr>cb_failure_count := 0, cb_is_open := False, cb_opened_at := None\<rparr>"

text \<open>\<open>now\<close> and \<open>now'\<close> are the two readings of the clock.\<close>

definition record_failure :: "instant \<Rightarrow> instant \<Rightarrow> circuit_breaker \<Rightarrow> circuit_breaker" where
  "record_failure now now' b =
     (let b1 = b\<lparr>cb_failure_count := cb_failure_count b + 1, cb_last_failure := Some now\<rparr>
      in if cb_failure_count b1 \<ge> cb_failure_threshold b1 \<and> \<not> cb_is_open b1
         then b1\<lparr>cb_is_open := True, cb_opened_at := Some now'\<rparr>
         else b1)"

definition std_duration_max :: duration where
  "std_duration_max = 18446744073709551615 * 1000000000 + 999999999"

text \<open>\<open>to_std().unwrap_or(MAX)\<close>: a negative duration becomes the longest one.\<close>

definition to_std_or_max :: "duration \<Rightarrow> duration" where
  "to_std_or_max d = (if d < 0 then std_duration_max else d)"

definition should_allow_attempt :: "instant \<Rightarrow> circuit_breaker \<Rightarrow> bool" where
  "should_allow_attempt now b =
     (if \<not> cb_is_open b then True
      else case cb_opened_at b of
             Some opened_at \<Rightarrow> to_std_or_max (now - opened_at) \<ge> cb_open_timeout b
           | None \<Rightarrow> False)"

definition time_until_close :: "instant \<Rightarrow> circuit_breaker \<Rightarrow> duration option" where
  "time_until_close now b =
     (if \<not> cb_is_open b then None
      else case cb_opened_at b of
             Some opened_at \<Rightarrow>
               (let elapsed = to_std_or_max (now - opened_at)
                in if elapsed < cb_open_timeout b then Some (cb_open_timeout b - elapsed) else None)
           | None \<Rightarrow> None)"

section \<open>The handler\<close>

record retry_handler =
  rh_retry_policies :: "(string, retry_policy) hashmap"
  rh_circuit_breakers :: "(string, circuit_breaker) hashmap"
  rh_default_policy :: retry_policy

record 'a retry_result =
  rr_value :: "'a option"
  rr_attempts :: nat
  rr_total_time :: duration
  rr_last_error :: "string option"

definition retry_handler_new :: retry_handler where
  "retry_handler_new =
     \<lparr> rh_retry_policies = [], rh_circuit_breakers = [], rh_default_policy = retry_policy_default \<rparr>"

definition set_policy :: "string \<Rightarrow> retry_policy \<Rightarrow> retry_handler \<Rightarrow> retry_handler" where
  "set_policy mount_id policy h = h\<lparr>rh_retry_policies := hm_insert mount_id policy (rh_retry_policies h)\<rparr>"

definition get_policy :: "string \<Rightarrow> retry_handler \<Rightarrow> retry_policy" where
  "get_policy mount_id h =
     (case hm_get (rh_retry_policies h) mount_id of Some p \<Rightarrow> p | None \<Rightarrow> rh_default_policy h)"

definition get_circuit_breaker :: "string \<Rightarrow> retry_handler \<Rightarrow> retry_handler \<times> circuit_breaker" where
  "get_circuit_breaker mount_id h =
     (case hm_get (rh_circuit_breakers h) mount_id of
        Some b \<Rightarrow> (h, b)
      | None \<Rightarrow>
          (let b = circuit_breaker_new (rp_max_attempts (get_policy mount_id h)) (secs 60)
           in (h\<lparr>rh_circuit_breakers := hm_insert mount_id b (rh_circuit_breakers h)\<rparr>, b)))"

definition update_circuit_breaker ::
    "instant \<Rightarrow> instant \<Rightarrow> string \<Rightarrow> bool \<Rightarrow> retry_handler \<Rightarrow> retry_handler \<times> bool" where
  "update_circuit_breaker now now' mount_id success h =
     (case hm_get (rh_circuit_breakers h) mount_id of
        None \<Rightarrow> (h, False)
      | Some b \<Rightarrow>
          (h\<lparr>rh_circuit_breakers :=
               hm_insert mount_id (if success then record_success b else record_failure now now' b)
                 (rh_circuit_breakers h)\<rparr>, True))"

definition reset_breaker :: "instant \<Rightarrow> string \<Rightarrow> retry_handler \<Rightarrow> retry_handler" where
  "reset_breaker now mount_id h = fst (update_circuit_breaker now now mount_id True h)"

definition get_circuit_breaker_status :: "string \<Rightarrow> retry_handler \<Rightarrow> circuit_breaker option" where
  "get_circuit_breaker_status mount_id h = hm_get (rh_circuit_breakers h) mount_id"

section \<open>Retrying\<close>

record ('w, 'a) retry_env =
  re_operation :: "'w \<Rightarrow> 'w \<times> (string + 'a)"
  re_clock :: "'w \<Rightarrow> instant"
  re_next_backoff :: "'w \<Rightarrow> 'w \<times> duration option"
  re_sleep :: "duration \<Rightarrow> 'w \<Rightarrow> 'w"

text \<open>\<open>as_secs\<close> drops the fraction of a second.\<close>

definition breaker_message :: "instant \<Rightarrow> circuit_breaker \<Rightarrow> string" where
  "breaker_message now b =
     (case time_until_close now b of
        Some d \<Rightarrow> ''Circuit breaker open, will close in '' @ show_nat (nat (d div 1000000000)) @ '' seconds''
      | None \<Rightarrow> ''Circuit breaker open'')"

definition retry_failed :: "nat \<Rightarrow> duration \<Rightarrow> string \<Rightarrow> 'a retry_result" where
  "retry_failed attempts total_time err =
     \<lparr> rr_value = None, rr_attempts = attempts, rr_total_time = total_time, rr_last_error = Some err \<rparr>"

text \<open>The loop; it runs again only below the limit of the policy, which bounds the recursion.\<close>

function retry_loop ::
    "('w, 'a) retry_env \<Rightarrow> string \<Rightarrow> retry_policy \<Rightarrow> instant \<Rightarrow> nat \<Rightarrow> 'w \<Rightarrow> retry_handler \<Rightarrow>
     'w \<times> retry_handler \<times> 'a retry_result" where
  "retry_loop e mount_id policy start attempts w h =
     (let n = attempts + 1
      in case get_circuit_breaker mount_id h of
           (h1, b) \<Rightarrow>
             (if \<not> should_allow_attempt (re_clock e w) b
              then (w, h1, retry_failed n (re_clock e w - start) (breaker_message (re_clock e w) b))
              else case re_operation e w of
                (w1, Inr v) \<Rightarrow>
                  (w1, fst (update_circuit_breaker (re_clock e w1) (re_clock e w1) mount_id True h1),
                   \<lparr> rr_value = Some v, rr_attempts = n, rr_total_time = re_clock e w1 - start,
                     rr_last_error = None \<rparr>)
              | (w1, Inl err) \<Rightarrow>
                  (let h2 = fst (update_circuit_breaker (re_clock e w1) (re_clock e w1) mount_id False h1)
                   in if n \<ge> unat (rp_max_attempts policy)
                      then (w1, h2, retry_failed n (re_clock e w1 - start) err)
                      else case re_next_backoff e w1 of
                             (w2, Some delay) \<Rightarrow>
                               retry_loop e mount_id policy start n (re_sleep e delay w2) h2
                           | (w2, None) \<Rightarrow> (w2, h2, retry_failed n (re_clock e w2 - start) err))))"
  by pat_completeness auto

termination
  by (relation "measure (\<lambda>(e, i, policy, start, attempts, w, h). unat (rp_max_attempts policy) - attempts)") auto

declare retry_loop.simps [simp del]

definition execute_with_retry ::
    "('w, 'a) retry_env \<Rightarrow> string \<Rightarrow> 'w \<Rightarrow> retry_handler \<Rightarrow> 'w \<times> retry_handler \<times> 'a retry_result" where
  "execute_with_retry e mount_id w h =
     retry_loop e mount_id (get_policy mount_id h) (re_clock e w) 0 w h"

section \<open>Lemmas\<close>

lemma get_breaker_stored:
  "hm_get (rh_circuit_breakers (fst (get_circuit_breaker i h))) i = Some (snd (get_circuit_breaker i h))"
  by (simp add: get_circuit_breaker_def Let_def hm.get_insert split: option.split)

lemma get_breaker_again [simp]:
  "hm_get (rh_circuit_breakers h) i = Some b \<Longrightarrow> get_circuit_breaker i h = (h, b)"
  by (simp add: get_circuit_breaker_def)

lemma update_breaker_get:
  "hm_get (rh_circuit_breakers h) i = Some b \<Longrightarrow>
     hm_get (rh_circuit_breakers (fst (update_circuit_breaker n n' i ok h))) i
       = Some (if ok then record_success b else record_failure n n' b)"
  by (simp add: update_circuit_breaker_def hm.get_insert)

lemma retry_loop_result:
  "case retry_loop e i policy start attempts w h of
     (w', h', r) \<Rightarrow> attempts < rr_attempts r
       \<and> rr_attempts r \<le> max (attempts + 1) (unat (rp_max_attempts policy))
       \<and> (rr_value r = None) = (rr_last_error r \<noteq> None)"
proof (induction "unat (rp_max_attempts policy) - attempts" arbitrary: attempts w h rule: less_induct)
  case less
  obtain h1 b where g: "get_circuit_breaker i h = (h1, b)" by force
  obtain w1 res where op: "re_operation e w = (w1, res)" by force
  obtain w2 d where bk: "re_next_backoff e w1 = (w2, d)" by force
  show ?case
  proof (cases "should_allow_attempt (re_clock e w) b \<and> (\<exists>err. res = Inl err) \<and> d \<noteq> None
      \<and> attempts + 1 < unat (rp_max_attempts policy)")
    case True
    then obtain err delay where res: "res = Inl err" and d: "d = Some delay" by auto
    let ?h2 = "fst (update_circuit_breaker (re_clock e w1) (re_clock e w1) i False h1)"
    have "retry_loop e i policy start attempts w h
        = retry_loop e i policy start (attempts + 1) (re_sleep e delay w2) ?h2"
      using True by (subst retry_loop.simps) (simp add: g op bk res d)
    moreover have "unat (rp_max_attempts policy) - (attempts + 1) < unat (rp_max_attempts policy) - attempts"
      using True by linarith
    note less.hyps [OF this, of "re_sleep e delay w2" ?h2]
    ultimately show ?thesis using True by (auto split: prod.splits)
  next
    case False
    then show ?thesis
      by (subst retry_loop.simps; cases res; cases d)
        (auto simp: g op bk retry_failed_def Let_def not_less)
  qed
qed

lemma first_attempt_succeeds:
  assumes "hm_get (rh_circuit_breakers h) i = None" and oper: "re_operation e w = (w1, Inr v)"
  shows "\<exists>h' r. execute_with_retry e i w h = (w1, h', r) \<and> rr_value r = Some v"
proof -
  obtain h1 b where g: "get_circuit_breaker i h = (h1, b)" "\<not> cb_is_open b"
    using assms(1) by (simp add: get_circuit_breaker_def Let_def circuit_breaker_new_def)
  with oper show ?thesis
    by (simp add: execute_with_retry_def retry_loop.simps should_allow_attempt_def)
qed

lemma record_failure_fields:
  "cb_failure_threshold (record_failure n n' b) = cb_failure_threshold b"
  "cb_open_timeout (record_failure n n' b) = cb_open_timeout b"
  "cb_failure_count (record_failure n n' b) = cb_failure_count b + 1"
  "cb_is_open (record_failure n n' b) \<longleftrightarrow>
     cb_is_open b \<or> cb_failure_threshold b \<le> cb_failure_count b + 1"
  "cb_is_open b \<Longrightarrow> cb_opened_at (record_failure n n' b) = cb_opened_at b"
  "\<not> cb_is_open b \<Longrightarrow> cb_is_open (record_failure n n' b) \<Longrightarrow> cb_opened_at (record_failure n n' b) = Some n'"
  by (auto simp: record_failure_def Let_def split: if_splits)

text \<open>An operation that always fails is tried to the limit of the policy, and its breaker, which
  counted the same failures, opens at the last one.\<close>

lemma loop_all_fail:
  assumes fails: "\<And>w. \<exists>w1 err. re_operation e w = (w1, Inl err)"
    and waits: "\<And>w. \<exists>w2 d. re_next_backoff e w = (w2, Some d)"
    and b: "get_circuit_breaker i h = (h1, b)" "\<not> cb_is_open b" "unat (cb_failure_count b) = attempts"
      "cb_failure_threshold b = rp_max_attempts policy" "attempts < unat (rp_max_attempts policy)"
  shows "\<exists>w' h' r b'. retry_loop e i policy start attempts w h = (w', h', r)
    \<and> rr_attempts r = unat (rp_max_attempts policy) \<and> rr_value r = None
    \<and> hm_get (rh_circuit_breakers h') i = Some b' \<and> cb_is_open b'
    \<and> cb_opened_at b' = Some (re_clock e w') \<and> cb_open_timeout b' = cb_open_timeout b"
  using b
proof (induction "unat (rp_max_attempts policy) - attempts" arbitrary: attempts w h h1 b rule: less_induct)
  case less
  note b = less.prems
  obtain w1 err where op: "re_operation e w = (w1, Inl err)" using fails by blast
  obtain w2 d where bk: "re_next_backoff e w1 = (w2, Some d)" using waits by blast
  let ?b = "record_failure (re_clock e w1) (re_clock e w1) b"
  let ?h2 = "fst (update_circuit_breaker (re_clock e w1) (re_clock e w1) i False h1)"
  have "hm_get (rh_circuit_breakers h1) i = Some b" using get_breaker_stored [of i h] b(1) by simp
  from update_breaker_get [OF this] have h2: "hm_get (rh_circuit_breakers ?h2) i = Some ?b" by simp
  have allow: "should_allow_attempt (re_clock e w) b" using b(2) by (simp add: should_allow_attempt_def)
  have count: "unat (cb_failure_count b + 1) = attempts + 1"
  proof -
    have "unat (rp_max_attempts policy) < 2 ^ 32" using unsigned_less [of "rp_max_attempts policy"] by simp
    then show ?thesis using b(3,5) by (simp add: unat_word_ariths)
  qed
  show ?case
  proof (cases "attempts + 1 < unat (rp_max_attempts policy)")
    case True
    have closed: "\<not> cb_is_open ?b"
      using True count b(2,4) by (simp add: record_failure_fields word_le_nat_alt)
    have step: "retry_loop e i policy start attempts w h
        = retry_loop e i policy start (attempts + 1) (re_sleep e d w2) ?h2"
      using True by (subst retry_loop.simps) (simp add: b(1) op bk allow)
    have "unat (rp_max_attempts policy) - (attempts + 1) < unat (rp_max_attempts policy) - attempts"
      using True by linarith
    from less.hyps [OF this get_breaker_again [OF h2] closed, of "re_sleep e d w2"] show ?thesis
      using True b(4) count by (simp add: step record_failure_fields)
  next
    case False
    then have last: "attempts + 1 = unat (rp_max_attempts policy)" using b(5) by linarith
    have "retry_loop e i policy start attempts w h = (w1, ?h2, retry_failed (attempts + 1) (re_clock e w1 - start) err)"
      using False by (subst retry_loop.simps) (simp add: b(1) op bk allow)
    moreover have "cb_is_open ?b" using last count b(4) by (simp add: record_failure_fields word_le_nat_alt)
    ultimately show ?thesis
      using h2 last b(2) record_failure_fields(6) [of b "re_clock e w1" "re_clock e w1"]
      by (simp add: retry_failed_def record_failure_fields)
  qed
qed

section \<open>Properties\<close>

text \<open>C18: retrying ends: it makes at least one attempt and at most as many as the policy allows (one,
  when it allows none), and it returns either a value or the last error.\<close>

theorem retry_attempts_bounded:
  "case execute_with_retry e i w h of
     (w', h', r) \<Rightarrow> 0 < rr_attempts r
       \<and> rr_attempts r \<le> max 1 (unat (rp_max_attempts (get_policy i h)))
       \<and> (rr_value r = None) = (rr_last_error r \<noteq> None)"
  using retry_loop_result [where e = e and i = i and policy = "get_policy i h" and start = "re_clock e w"
      and attempts = 0 and w = w and h = h]
  by (simp add: execute_with_retry_def)

text \<open>an operation that keeps failing is tried as often as the policy allows and then its breaker is
  open: for a minute every further call is refused without running the operation.\<close>

theorem exhausted_retries_open_breaker:
  assumes "\<And>w. \<exists>w1 err. re_operation e w = (w1, Inl err)"
    and "\<And>w. \<exists>w2 d. re_next_backoff e w = (w2, Some d)"
    and "hm_get (rh_circuit_breakers h) i = None" and "rp_max_attempts (get_policy i h) \<noteq> 0"
  shows "\<exists>w' h' r. execute_with_retry e i w h = (w', h', r) \<and> rr_value r = None
    \<and> rr_attempts r = unat (rp_max_attempts (get_policy i h))
    \<and> (\<forall>v. re_clock e w' \<le> re_clock e v \<and> re_clock e v < re_clock e w' + secs 60 \<longrightarrow>
          (\<exists>msg. execute_with_retry e i v h' = (v, h', retry_failed 1 0 msg)))"
proof -
  let ?p = "get_policy i h"
  obtain h1 where b: "get_circuit_breaker i h = (h1, circuit_breaker_new (rp_max_attempts ?p) (secs 60))"
    using assms(3) by (simp add: get_circuit_breaker_def Let_def)
  have "\<not> cb_is_open (circuit_breaker_new (rp_max_attempts ?p) (secs 60))"
    and "unat (cb_failure_count (circuit_breaker_new (rp_max_attempts ?p) (secs 60))) = 0"
    and "cb_failure_threshold (circuit_breaker_new (rp_max_attempts ?p) (secs 60)) = rp_max_attempts ?p"
    by (simp_all add: circuit_breaker_new_def)
  moreover have "0 < unat (rp_max_attempts ?p)" using assms(4) by (simp add: unat_gt_0)
  ultimately obtain w' h' r b' where run: "retry_loop e i ?p (re_clock e w) 0 w h = (w', h', r)"
    and r: "rr_attempts r = unat (rp_max_attempts ?p)" "rr_value r = None"
    and b': "hm_get (rh_circuit_breakers h') i = Some b'" "cb_is_open b'" "cb_opened_at b' = Some (re_clock e w')"
      "cb_open_timeout b' = secs 60"
    using loop_all_fail [OF assms(1,2) b, of 0 ?p "re_clock e w" w]
    by (auto simp: circuit_breaker_new_def)
  have "execute_with_retry e i v h' = (v, h', retry_failed 1 0 (breaker_message (re_clock e v) b'))"
    if "re_clock e w' \<le> re_clock e v" "re_clock e v < re_clock e w' + secs 60" for v
  proof -
    have "\<not> should_allow_attempt (re_clock e v) b'"
      using b' that by (simp add: should_allow_attempt_def to_std_or_max_def)
    then show ?thesis
      unfolding execute_with_retry_def by (subst retry_loop.simps) (simp add: get_breaker_again [OF b'(1)])
  qed
  with run r show ?thesis by (auto simp: execute_with_retry_def)
qed

definition failing_env :: "(int, unit) retry_env" where
  "failing_env = \<lparr> re_operation = (\<lambda>w. (w + 1, Inl ''down'')), re_clock = (\<lambda>w. w),
     re_next_backoff = (\<lambda>w. (w, Some 5)), re_sleep = (\<lambda>d w. w + d) \<rparr>"

theorem exhausted_retries_open_breaker_witness:
  "\<exists>w' h' r msg. execute_with_retry failing_env ''m'' 0 retry_handler_new = (w', h', r) \<and> rr_attempts r = 5
     \<and> execute_with_retry failing_env ''m'' (w' + 7) h' = (w' + 7, h', retry_failed 1 0 msg)"
proof -
  have "\<exists>w1 err. re_operation failing_env w = (w1, Inl err)" for w by (simp add: failing_env_def)
  moreover have "\<exists>w2 d. re_next_backoff failing_env w = (w2, Some d)" for w by (simp add: failing_env_def)
  moreover have "hm_get (rh_circuit_breakers retry_handler_new) ''m'' = None"
    by (simp add: retry_handler_new_def hm.get_empty)
  moreover have p: "rp_max_attempts (get_policy ''m'' retry_handler_new) = 5"
    by (simp add: get_policy_def retry_handler_new_def hm.get_empty retry_policy_default_def)
  ultimately obtain w' h' r where run: "execute_with_retry failing_env ''m'' 0 retry_handler_new = (w', h', r)"
    and a: "rr_attempts r = 5"
    and refused: "\<And>v. re_clock failing_env w' \<le> re_clock failing_env v \<Longrightarrow>
      re_clock failing_env v < re_clock failing_env w' + secs 60 \<Longrightarrow>
      \<exists>msg. execute_with_retry failing_env ''m'' v h' = (v, h', retry_failed 1 0 msg)"
    using exhausted_retries_open_breaker [of failing_env retry_handler_new "''m''" 0] by auto
  from refused [of "w' + 7"] run a show ?thesis by (auto simp: failing_env_def)
qed

text \<open>the breaker remembers the time it first opened: failures after its timeout do not open it
  anew, so from then on it lets every attempt through until one succeeds.\<close>

theorem breaker_timeout_runs_once:
  assumes "cb_is_open b" and "cb_opened_at b = Some t" and "t + cb_open_timeout b \<le> now" and "t \<le> now"
  shows "should_allow_attempt now (fold (\<lambda>n. record_failure n n) failures b)"
proof -
  have "cb_is_open (fold (\<lambda>n. record_failure n n) failures b)
      \<and> cb_opened_at (fold (\<lambda>n. record_failure n n) failures b) = Some t
      \<and> cb_open_timeout (fold (\<lambda>n. record_failure n n) failures b) = cb_open_timeout b"
    using assms(1,2)
    by (induction failures arbitrary: b) (simp_all add: record_failure_fields)
  then show ?thesis using assms(3,4) by (simp add: should_allow_attempt_def to_std_or_max_def)
qed

theorem breaker_timeout_runs_once_witness:
  "should_allow_attempt 63000000001 (fold (\<lambda>n. record_failure n n) [62000000000, 63000000000]
     (record_failure 1 1 (circuit_breaker_new 1 (secs 60))))"
  by (rule breaker_timeout_runs_once [where t = 1])
    (simp_all add: record_failure_def circuit_breaker_new_def Let_def)

end
