(* ===== verification/Mount_Retry.thy ===== *)
theory Mount_Retry
  imports Retry Mount_Drivers Fuji_Config
begin

text \<open>
  \<open>src/monitoring/mount_retry.rs\<close>: mounting, unmounting and reconnecting with retries, the policies
  of the mount types and the policy that a mount carries in its metadata.

  The world of the retry loop is the globals of the command layer together with an outside \<open>'x\<close>, which
  the operating system and time move on (\<open>me_advance\<close> after every attempt).  A floating point number
  is parsed by the argument \<open>parse_f64\<close>.  The configuration is changed between the calls of the loop.
\<close>

section \<open>Policies\<close>

fun default_retry_policy_for_mount_type :: "mount_type \<Rightarrow> retry_policy" where
  "default_retry_policy_for_mount_type (Nfs _ _ _) =
     \<lparr> rp_initial_delay = millis 500, rp_max_delay = secs 5, rp_multiplier = 0x3FF8000000000000,
       rp_jitter = 0x3FB999999999999A, rp_max_attempts = 3, rp_reset_after = secs 600 \<rparr>"
| "default_retry_policy_for_mount_type (Smb _ _ _ _ _ _) =
     \<lparr> rp_initial_delay = secs 1, rp_max_delay = secs 180, rp_multiplier = 0x3FFCCCCCCCCCCCCD,
       rp_jitter = 0x3FC3333333333333, rp_max_attempts = 7, rp_reset_after = secs 300 \<rparr>"
| "default_retry_policy_for_mount_type (Sshfs _ _ _ _ _ _) =
     \<lparr> rp_initial_delay = secs 3, rp_max_delay = secs 240, rp_multiplier = 0x400199999999999A,
       rp_jitter = 0x3FC999999999999A, rp_max_attempts = 6, rp_reset_after = secs 450 \<rparr>"

definition unmount_policy :: retry_policy where
  "unmount_policy =
     \<lparr> rp_initial_delay = millis 100, rp_max_delay = secs 5, rp_multiplier = 0x4000000000000000,
       rp_jitter = 0x3FC999999999999A, rp_max_attempts = 3, rp_reset_after = secs 30 \<rparr>"

datatype policy_error =
    InvalidMaxAttempts
  | InvalidSeconds
  | InvalidMinutes
  | InvalidHours
  | InvalidDuration
  | InvalidMultiplier
  | InvalidJitter

text \<open>The products wrap at 64 bits.\<close>

definition parse_duration :: "string \<Rightarrow> policy_error + u64" where
  "parse_duration text =
     (let s = to_lowercase (trim text)
      in if ends_with s ''s'' then ok_or (parse_u64 (butlast s)) InvalidSeconds
         else if ends_with s ''m'' then map_sum id (\<lambda>n. n * 60) (ok_or (parse_u64 (butlast s)) InvalidMinutes)
         else if ends_with s ''h'' then map_sum id (\<lambda>n. n * 3600) (ok_or (parse_u64 (butlast s)) InvalidHours)
         else ok_or (parse_u64 s) InvalidDuration)"

definition apply_policy_pair ::
    "(string \<Rightarrow> 64 word option) \<Rightarrow> retry_policy \<Rightarrow> string \<Rightarrow> policy_error + retry_policy" where
  "apply_policy_pair parse_f64 policy pair =
     (case split_on CHR ''='' pair of
        key # val # _ \<Rightarrow>
          (let k = trim key
           in if k = ''max_attempts''
              then map_sum id (\<lambda>n. policy\<lparr>rp_max_attempts := n\<rparr>) (ok_or (parse_u32 val) InvalidMaxAttempts)
              else if k = ''initial_delay''
              then map_sum id (\<lambda>n. policy\<lparr>rp_initial_delay := secs (uint n)\<rparr>) (parse_duration val)
              else if k = ''max_delay''
              then map_sum id (\<lambda>n. policy\<lparr>rp_max_delay := secs (uint n)\<rparr>) (parse_duration val)
              else if k = ''multiplier''
              then map_sum id (\<lambda>x. policy\<lparr>rp_multiplier := x\<rparr>) (ok_or (parse_f64 val) InvalidMultiplier)
              else if k = ''jitter''
              then map_sum id (\<lambda>x. policy\<lparr>rp_jitter := x\<rparr>) (ok_or (parse_f64 val) InvalidJitter)
              else Inr policy)
      | _ \<Rightarrow> Inr policy)"

definition parse_retry_policy_from_metadata ::
    "(string \<Rightarrow> 64 word option) \<Rightarrow> string \<Rightarrow> policy_error + retry_policy" where
  "parse_retry_policy_from_metadata parse_f64 metadata =
     fold_res (apply_policy_pair parse_f64) retry_policy_default (split_on CHR '','' metadata)"

definition retry_policy_for_mount ::
    "(string \<Rightarrow> 64 word option) \<Rightarrow> mount_config \<Rightarrow> retry_policy" where
  "retry_policy_for_mount parse_f64 m =
     (case hm_get (mc_metadata m) ''retry_policy'' of
        Some retry_config \<Rightarrow>
          (case parse_retry_policy_from_metadata parse_f64 retry_config of
             Inr p \<Rightarrow> p | Inl _ \<Rightarrow> retry_policy_default)
      | None \<Rightarrow> default_retry_policy_for_mount_type (mc_mount_type m))"

definition set_retry_policy_for_mount ::
    "(string \<Rightarrow> 64 word option) \<Rightarrow> mount_config \<Rightarrow> retry_handler \<Rightarrow> retry_handler" where
  "set_retry_policy_for_mount parse_f64 m h = set_policy (mc_id m) (retry_policy_for_mount parse_f64 m) h"

section \<open>One attempt\<close>

record 'x mount_world =
  mw_globals :: command_globals
  mw_outside :: 'x

record 'x mount_env =
  me_regex :: regex_engine
  me_driver :: "'x \<Rightarrow> driver_env"
  me_exists :: "'x \<Rightarrow> string \<Rightarrow> bool"
  me_create_dir_all :: "'x \<Rightarrow> string \<Rightarrow> string + unit"
  me_is_mounted :: "'x \<Rightarrow> string \<Rightarrow> string + bool"
  me_show_error :: "driver_error \<Rightarrow> string"
  me_advance :: "'x \<Rightarrow> 'x"
  me_clock :: "'x \<Rightarrow> instant"
  me_next_backoff :: "'x \<Rightarrow> 'x \<times> duration option"
  me_sleep :: "duration \<Rightarrow> 'x \<Rightarrow> 'x"

definition handler_unmount ::
    "mount_handler \<Rightarrow> driver_env \<Rightarrow> string \<Rightarrow> command_globals \<Rightarrow> command_globals \<times> (driver_error + unit)" where
  "handler_unmount h =
     (case h of NfsHandler \<Rightarrow> nfs_unmount | SmbHandler \<Rightarrow> smb_unmount | SshfsHandler \<Rightarrow> sshfs_unmount)"

text \<open>\<open>url.split("://").next()\<close>: what comes before the first separator, all of it without one.\<close>

fun url_protocol :: "string \<Rightarrow> string" where
  "url_protocol [] = []"
| "url_protocol (c # cs) = (if starts_with (c # cs) ''://'' then [] else c # url_protocol cs)"

definition is_mounted_or_false :: "string + bool \<Rightarrow> bool" where
  "is_mounted_or_false r = (case r of Inr b \<Rightarrow> b | Inl _ \<Rightarrow> False)"

fun handler_message :: "handler_error \<Rightarrow> string" where
  "handler_message (UnsupportedProtocol protocol) = ''Unsupported protocol: '' @ protocol"

definition mount_single_attempt ::
    "'x mount_env \<Rightarrow> mount_config \<Rightarrow> 'x mount_world \<Rightarrow> 'x mount_world \<times> (string + unit)" where
  "mount_single_attempt env m w =
     (let x = mw_outside w; point = mc_mount_point m; leave = (\<lambda>g r. (\<lparr> mw_globals = g, mw_outside = me_advance env x \<rparr>, r))
      in case get_mount_handler (url_protocol (mc_url m)) of
           Inl e \<Rightarrow> leave (mw_globals w) (Inl (''Failed to get mount handler: '' @ handler_message e))
         | Inr handler \<Rightarrow>
             (case (if me_exists env x point then Inr () else me_create_dir_all env x point) of
                Inl e \<Rightarrow> leave (mw_globals w) (Inl (''Failed to create mount point: '' @ e))
              | Inr _ \<Rightarrow>
                  (let g1 = (if is_mounted_or_false (me_is_mounted env x point)
                             then fst (handler_unmount handler (me_driver env x) point (mw_globals w))
                             else mw_globals w)
                   in case handler_mount handler (me_regex env) (me_driver env x) m point g1 of
                        (g2, Inl e) \<Rightarrow> leave g2 (Inl (''Mount operation failed: '' @ me_show_error env e))
                      | (g2, Inr _) \<Rightarrow> leave g2 (Inr ()))))"

definition unmount_single_attempt ::
    "'x mount_env \<Rightarrow> mount_config \<Rightarrow> 'x mount_world \<Rightarrow> 'x mount_world \<times> (string + unit)" where
  "unmount_single_attempt env m w =
     (let x = mw_outside w; point = mc_mount_point m; leave = (\<lambda>g r. (\<lparr> mw_globals = g, mw_outside = me_advance env x \<rparr>, r))
      in case get_mount_handler (url_protocol (mc_url m)) of
           Inl e \<Rightarrow> leave (mw_globals w) (Inl (''Failed to get mount handler: '' @ handler_message e))
         | Inr handler \<Rightarrow>
             (if \<not> is_mounted_or_false (me_is_mounted env x point) then leave (mw_globals w) (Inr ())
              else case handler_unmount handler (me_driver env x) point (mw_globals w) of
                     (g, Inl e) \<Rightarrow> leave g (Inl (''Unmount operation failed: '' @ me_show_error env e))
                   | (g, Inr _) \<Rightarrow> leave g (Inr ())))"

definition attempt_env ::
    "'x mount_env \<Rightarrow> ('x mount_world \<Rightarrow> 'x mount_world \<times> (string + unit)) \<Rightarrow> ('x mount_world, unit) retry_env" where
  "attempt_env env operation =
     \<lparr> re_operation = operation, re_clock = (\<lambda>w. me_clock env (mw_outside w)),
       re_next_backoff = (\<lambda>w. case me_next_backoff env (mw_outside w) of (x, d) \<Rightarrow> (w\<lparr>mw_outside := x\<rparr>, d)),
       re_sleep = (\<lambda>d w. w\<lparr>mw_outside := me_sleep env d (mw_outside w)\<rparr>) \<rparr>"

section \<open>Status of a mount\<close>

text \<open>\<open>get_mount_mut\<close> and a change of what it finds; the clock is read anew by every update.\<close>

definition change_mount :: "string \<Rightarrow> (mount_config \<Rightarrow> mount_config) \<Rightarrow> fuji_config \<Rightarrow> fuji_config" where
  "change_mount i f c =
     c\<lparr>cfg_mounts := hm_update i (\<lambda>w. w\<lparr>mw_config := f (mw_config w)\<rparr>) (cfg_mounts c)\<rparr>"

definition update_status_after_success ::
    "instant \<Rightarrow> instant \<Rightarrow> instant \<Rightarrow> string \<Rightarrow> fuji_config \<Rightarrow> fuji_config" where
  "update_status_after_success now now' now'' i =
     change_mount i (\<lambda>m. (update_status now now' Active m)\<lparr>mc_reconnect_attempts := 0, mc_updated_at := now''\<rparr>)"

definition update_status_to_reconnecting ::
    "instant \<Rightarrow> instant \<Rightarrow> string \<Rightarrow> fuji_config \<Rightarrow> fuji_config" where
  "update_status_to_reconnecting now now' i =
     change_mount i (\<lambda>m. update_status now' now' Reconnecting (increment_reconnect_attempts now m))"

definition update_status_to_failed ::
    "instant \<Rightarrow> string \<Rightarrow> string option \<Rightarrow> fuji_config \<Rightarrow> fuji_config" where
  "update_status_to_failed now i err =
     change_mount i (\<lambda>m. update_status now now (case err of Some e \<Rightarrow> Status_Error e | None \<Rightarrow> Status_Failed) m)"

section \<open>With retries\<close>

record 'x retry_state =
  rs_world :: "'x mount_world"
  rs_handler :: retry_handler
  rs_cfg :: fuji_config

definition outside_now :: "'x mount_env \<Rightarrow> 'x retry_state \<Rightarrow> instant" where
  "outside_now env s = me_clock env (mw_outside (rs_world s))"

definition run_retries ::
    "'x mount_env \<Rightarrow> string \<Rightarrow> ('x mount_world \<Rightarrow> 'x mount_world \<times> (string + unit)) \<Rightarrow> 'x retry_state \<Rightarrow>
     'x retry_state \<times> unit retry_result" where
  "run_retries env i operation s =
     (case execute_with_retry (attempt_env env operation) i (rs_world s) (rs_handler s) of
        (w, h, r) \<Rightarrow> (s\<lparr>rs_world := w, rs_handler := h\<rparr>, r))"

definition mount_with_retry ::
    "'x mount_env \<Rightarrow> (string \<Rightarrow> 64 word option) \<Rightarrow> mount_config \<Rightarrow> 'x retry_state \<Rightarrow>
     'x retry_state \<times> (string + unit)" where
  "mount_with_retry env parse_f64 m s =
     (let s1 = s\<lparr>rs_handler := set_retry_policy_for_mount parse_f64 m (rs_handler s)\<rparr>;
          breaker = (case get_circuit_breaker_status (mc_id m) (rs_handler s1) of
                       Some b \<Rightarrow> b | None \<Rightarrow> circuit_breaker_new 5 (secs 60))
      in if \<not> should_allow_attempt (outside_now env s1) breaker
         then (s1, Inl (''Circuit breaker is open for mount '' @ mc_id m))
         else case run_retries env (mc_id m) (mount_single_attempt env m) s1 of
                (s2, r) \<Rightarrow>
                  (case rr_value r of
                     Some _ \<Rightarrow>
                       (let now = outside_now env s2
                        in (s2\<lparr>rs_cfg := update_status_after_success now now now (mc_id m) (rs_cfg s2)\<rparr>, Inr ()))
                   | None \<Rightarrow> (s2, Inl (''Mount failed after '' @ show_nat (rr_attempts r) @ '' attempts''))))"

definition unmount_with_retry ::
    "'x mount_env \<Rightarrow> mount_config \<Rightarrow> 'x retry_state \<Rightarrow> 'x retry_state \<times> (string + unit)" where
  "unmount_with_retry env m s =
     (let s1 = s\<lparr>rs_handler := set_policy (mc_id m) unmount_policy (rs_handler s)\<rparr>
      in case run_retries env (mc_id m) (unmount_single_attempt env m) s1 of
           (s2, r) \<Rightarrow>
             (case rr_value r of
                Some _ \<Rightarrow> (s2, Inr ())
              | None \<Rightarrow> (s2, Inl (''Unmount failed after '' @ show_nat (rr_attempts r) @ '' attempts''))))"

text \<open>The result says whether the mount is connected again; errors of the mount are not passed on.\<close>

definition attempt_reconnection ::
    "'x mount_env \<Rightarrow> (string \<Rightarrow> 64 word option) \<Rightarrow> mount_config \<Rightarrow> 'x retry_state \<Rightarrow>
     'x retry_state \<times> bool" where
  "attempt_reconnection env parse_f64 m s =
     (if (case get_circuit_breaker_status (mc_id m) (rs_handler s) of
            Some b \<Rightarrow> \<not> should_allow_attempt (outside_now env s) b | None \<Rightarrow> False)
      then (s, False)
      else
        let now = outside_now env s;
            s1 = s\<lparr>rs_cfg := update_status_to_reconnecting now now (mc_id m) (rs_cfg s)\<rparr>
        in case mount_with_retry env parse_f64 m s1 of
             (s2, Inr _) \<Rightarrow> (s2, True)
           | (s2, Inl e) \<Rightarrow>
               (s2\<lparr>rs_cfg := update_status_to_failed (outside_now env s2) (mc_id m) (Some e) (rs_cfg s2)\<rparr>, False))"

record retry_status =
  rst_mount_id :: string
  rst_failure_count :: u32
  rst_last_failure :: "instant option"
  rst_is_circuit_open :: bool
  rst_time_until_close :: "duration option"

definition get_retry_status :: "instant \<Rightarrow> string \<Rightarrow> retry_handler \<Rightarrow> retry_status option" where
  "get_retry_status now i h =
     map_option (\<lambda>b. \<lparr> rst_mount_id = i, rst_failure_count = cb_failure_count b,
                      rst_last_failure = cb_last_failure b, rst_is_circuit_open = cb_is_open b,
                      rst_time_until_close = time_until_close now b \<rparr>)
       (get_circuit_breaker_status i h)"

definition reset_retry_state :: "instant \<Rightarrow> string \<Rightarrow> retry_handler \<Rightarrow> retry_handler" where
  "reset_retry_state now i h = reset_breaker now i h"

section \<open>Lemmas\<close>

lemma get_change_mount:
  "hm_get (cfg_mounts (change_mount i f c)) k =
     (if k = i then map_option (\<lambda>w. w\<lparr>mw_config := f (mw_config w)\<rparr>) (hm_get (cfg_mounts c) i)
      else hm_get (cfg_mounts c) k)"
  by (simp add: change_mount_def hm_get_update)

lemma run_retries_cfg [simp]: "rs_cfg (fst (run_retries env i oper s)) = rs_cfg s"
  by (simp add: run_retries_def split: prod.splits)

lemma mount_with_retry_cfg:
  "mount_with_retry env pf m s = (s', r) \<Longrightarrow>
     (case r of Inl _ \<Rightarrow> rs_cfg s' = rs_cfg s
      | Inr _ \<Rightarrow> \<exists>t. rs_cfg s' = update_status_after_success t t t (mc_id m) (rs_cfg s))"
proof -
  assume run: "mount_with_retry env pf m s = (s', r)"
  let ?s1 = "s\<lparr>rs_handler := set_retry_policy_for_mount pf m (rs_handler s)\<rparr>"
  obtain s2 rr where l: "run_retries env (mc_id m) (mount_single_attempt env m) ?s1 = (s2, rr)" by force
  then have "rs_cfg s2 = rs_cfg s"
    using run_retries_cfg [of env "mc_id m" "mount_single_attempt env m" ?s1] by simp
  with run l show ?thesis
    by (auto simp: mount_with_retry_def Let_def split: if_splits option.splits)
qed

lemma mount_after_updates:
  assumes "hm_get (cfg_mounts c) i = Some w"
  shows "hm_get (cfg_mounts (update_status_to_reconnecting t t' i c)) i =
      Some (w\<lparr>mw_config := update_status t' t' Reconnecting (increment_reconnect_attempts t (mw_config w))\<rparr>)"
    and "hm_get (cfg_mounts (update_status_after_success t t' t'' i c)) i =
      Some (w\<lparr>mw_config := (update_status t t' Active (mw_config w))\<lparr>mc_reconnect_attempts := 0, mc_updated_at := t''\<rparr>\<rparr>)"
    and "hm_get (cfg_mounts (update_status_to_failed t i (Some e) c)) i =
      Some (w\<lparr>mw_config := update_status t t (Status_Error e) (mw_config w)\<rparr>)"
  using assms
  by (simp_all add: update_status_to_reconnecting_def update_status_after_success_def
      update_status_to_failed_def get_change_mount)

lemma other_mounts_after_updates:
  assumes "k \<noteq> i"
  shows "hm_get (cfg_mounts (update_status_to_reconnecting t t' i c)) k = hm_get (cfg_mounts c) k"
    and "hm_get (cfg_mounts (update_status_after_success t t' t'' i c)) k = hm_get (cfg_mounts c) k"
    and "hm_get (cfg_mounts (update_status_to_failed t i err c)) k = hm_get (cfg_mounts c) k"
  using assms
  by (simp_all add: update_status_to_reconnecting_def update_status_after_success_def
      update_status_to_failed_def get_change_mount)

lemma other_mounts_after_reconnection:
  "k = i \<or> hm_get (cfg_mounts (update_status_to_failed t i err (update_status_to_reconnecting t' t'' i c))) k
     = hm_get (cfg_mounts c) k"
  "k = i \<or> hm_get (cfg_mounts (update_status_after_success u u' u'' i (update_status_to_reconnecting t' t'' i c))) k
     = hm_get (cfg_mounts c) k"
  by (cases "k = i"; simp add: other_mounts_after_updates)+

text \<open>What a reconnection leaves of a mount: everything but status, times and attempts.\<close>

definition same_mount :: "mount_config \<Rightarrow> mount_config \<Rightarrow> bool" where
  "same_mount a b \<longleftrightarrow> mc_id a = mc_id b \<and> mc_url a = mc_url b \<and> mc_mount_point a = mc_mount_point b
     \<and> mc_mount_type a = mc_mount_type b \<and> mc_enabled a = mc_enabled b \<and> mc_metadata a = mc_metadata b"

section \<open>Properties\<close>

text \<open>C10: a reconnection that reports success leaves the mount active with its attempts reset; one that
  reports failure either did nothing, because the breaker was open, or counted one more attempt and
  recorded the error; what the mount is, and every other mount, stays.\<close>

theorem reconnection_outcome:
  assumes "hm_get (cfg_mounts (rs_cfg s)) (mc_id m) = Some w"
  shows "case attempt_reconnection env pf m s of (s', ok) \<Rightarrow>
    (\<exists>w'. hm_get (cfg_mounts (rs_cfg s')) (mc_id m) = Some w' \<and> same_mount (mw_config w') (mw_config w)
       \<and> (if ok then mc_status (mw_config w') = Active \<and> mc_reconnect_attempts (mw_config w') = 0
          else s' = s \<or> (\<exists>e. mc_status (mw_config w') = Status_Error e
                 \<and> mc_reconnect_attempts (mw_config w') = mc_reconnect_attempts (mw_config w) + 1)))
    \<and> (\<forall>k. k = mc_id m \<or> hm_get (cfg_mounts (rs_cfg s')) k = hm_get (cfg_mounts (rs_cfg s)) k)"
proof (cases "case get_circuit_breaker_status (mc_id m) (rs_handler s) of
            Some b \<Rightarrow> \<not> should_allow_attempt (outside_now env s) b | None \<Rightarrow> False")
  case True
  with assms show ?thesis by (auto simp: attempt_reconnection_def same_mount_def)
next
  case False
  let ?t = "outside_now env s"
  let ?s1 = "s\<lparr>rs_cfg := update_status_to_reconnecting ?t ?t (mc_id m) (rs_cfg s)\<rparr>"
  obtain s2 r where l: "mount_with_retry env pf m ?s1 = (s2, r)" by force
  note after = mount_after_updates other_mounts_after_reconnection
  show ?thesis
  proof (cases r)
    case (Inl e)
    then have "attempt_reconnection env pf m s
        = (s2\<lparr>rs_cfg := update_status_to_failed (outside_now env s2) (mc_id m) (Some e) (rs_cfg s2)\<rparr>, False)"
      using False l by (simp add: attempt_reconnection_def Let_def)
    moreover have "rs_cfg s2 = rs_cfg ?s1" using mount_with_retry_cfg [OF l] Inl by simp
    ultimately show ?thesis using assms
      by (auto simp: after same_mount_def increment_reconnect_attempts_def update_status_def Let_def)
  next
    case (Inr u)
    then have "attempt_reconnection env pf m s = (s2, True)"
      using False l by (simp add: attempt_reconnection_def Let_def)
    moreover from Inr obtain t where "rs_cfg s2 = update_status_after_success t t t (mc_id m) (rs_cfg ?s1)"
      using mount_with_retry_cfg [OF l] by auto
    ultimately show ?thesis using assms
      by (auto simp: after same_mount_def increment_reconnect_attempts_def update_status_def Let_def)
  qed
qed

definition sample_mount_env :: "unit mount_env" where
  "sample_mount_env =
     \<lparr> me_regex = class_regex, me_driver = (\<lambda>_. sample_env), me_exists = (\<lambda>_ _. True),
       me_create_dir_all = (\<lambda>_ _. Inr ()), me_is_mounted = (\<lambda>_ _. Inr False), me_show_error = (\<lambda>_. []),
       me_advance = id, me_clock = (\<lambda>_. 0), me_next_backoff = (\<lambda>x. (x, None)), me_sleep = (\<lambda>_. id) \<rparr>"

definition sample_retry_state :: "fuji_config \<Rightarrow> unit retry_state" where
  "sample_retry_state c =
     \<lparr> rs_world = \<lparr> mw_globals = globals_new, mw_outside = () \<rparr>, rs_handler = retry_handler_new,
       rs_cfg = add_mount sample_config c \<rparr>"

theorem reconnection_outcome_witness:
  "\<forall>c. \<exists>s' w'. attempt_reconnection sample_mount_env (\<lambda>_. None) sample_config (sample_retry_state c) = (s', True)
     \<and> hm_get (cfg_mounts (rs_cfg s')) (mc_id sample_config) = Some w'
     \<and> mc_url (mw_config w') = ''nfs://srv/data'' \<and> mc_status (mw_config w') = Active
     \<and> mc_reconnect_attempts (mw_config w') = 0"
proof
  fix c
  let ?m = sample_config
  let ?op = "mount_single_attempt sample_mount_env ?m"
  obtain g where g: "nfs_mount class_regex sample_env ?m ''/mnt/x'' globals_new = (g, Inr ())"
    using sample_nfs_mount by blast
  have m: "mc_mount_point ?m = ''/mnt/x''" "mc_url ?m = ''nfs://srv/data''"
    by (simp_all add: sample_config_def mount_config_new_def)
  have handler: "get_mount_handler (url_protocol ''nfs://srv/data'') = Inr NfsHandler"
    by (simp add: get_mount_handler_def fuji_eval)
  have oper: "?op \<lparr> mw_globals = globals_new, mw_outside = () \<rparr> = (\<lparr> mw_globals = g, mw_outside = () \<rparr>, Inr ())"
    using g handler
    by (simp add: mount_single_attempt_def m handler_mount_def sample_mount_env_def is_mounted_or_false_def)
  have run: "\<exists>s2 r. run_retries sample_mount_env i ?op s = (s2, r) \<and> rr_value r = Some ()"
    if "rs_world s = \<lparr> mw_globals = globals_new, mw_outside = () \<rparr>" "rh_circuit_breakers (rs_handler s) = []" for i s
  proof -
    have "hm_get (rh_circuit_breakers (rs_handler s)) i = None"
      "re_operation (attempt_env sample_mount_env ?op) (rs_world s) = (\<lparr> mw_globals = g, mw_outside = () \<rparr>, Inr ())"
      using that oper by (simp_all add: hm_get_def attempt_env_def)
    from first_attempt_succeeds [OF this] show ?thesis by (auto simp: run_retries_def)
  qed
  have breakers: "rh_circuit_breakers (set_retry_policy_for_mount pf k retry_handler_new) = []"
    "rh_circuit_breakers retry_handler_new = []" for pf k
    by (simp_all add: set_retry_policy_for_mount_def set_policy_def retry_handler_new_def)
  have clock: "outside_now sample_mount_env s = 0" for s
    by (simp add: outside_now_def sample_mount_env_def)
  have closed: "should_allow_attempt 0 (circuit_breaker_new 5 d)" for d
    by (simp add: circuit_breaker_new_def should_allow_attempt_def)
  let ?s1 = "sample_retry_state c\<lparr>rs_handler := set_retry_policy_for_mount (\<lambda>_. None) ?m retry_handler_new,
      rs_cfg := update_status_to_reconnecting 0 0 (mc_id ?m) (add_mount ?m c)\<rparr>"
  obtain s2 r where "run_retries sample_mount_env (mc_id ?m) ?op ?s1 = (s2, r)" "rr_value r = Some ()"
    using run [of ?s1 "mc_id ?m"]
    by (auto simp: sample_retry_state_def breakers)
  then have "\<exists>s'. attempt_reconnection sample_mount_env (\<lambda>_. None) ?m (sample_retry_state c) = (s', True)"
    by (simp add: attempt_reconnection_def mount_with_retry_def Let_def get_circuit_breaker_status_def
        sample_retry_state_def breakers clock closed hm_get_def)
  then obtain s' where s': "attempt_reconnection sample_mount_env (\<lambda>_. None) ?m (sample_retry_state c) = (s', True)"
    by blast
  have "hm_get (cfg_mounts (rs_cfg (sample_retry_state c))) (mc_id ?m) = Some (wrapper_new ?m (get_instance_id c))"
    by (simp add: sample_retry_state_def add_mount_def hm.get_insert)
  from reconnection_outcome [where m = ?m, OF this, of sample_mount_env "\<lambda>_. None"] s' m(2) show "\<exists>s' w'. attempt_reconnection sample_mount_env (\<lambda>_. None) ?m (sample_retry_state c) = (s', True)
     \<and> hm_get (cfg_mounts (rs_cfg s')) (mc_id ?m) = Some w'
     \<and> mc_url (mw_config w') = ''nfs://srv/data'' \<and> mc_status (mw_config w') = Active
     \<and> mc_reconnect_attempts (mw_config w') = 0"
    by (auto simp: same_mount_def wrapper_new_def)
qed

text \<open>a duration in seconds, minutes or hours is read as that many seconds, at 64 bits: the product
  wraps.\<close>

theorem parse_duration_units:
  assumes "n < 2 ^ 64"
  shows "parse_duration (show_nat n @ ''s'') = Inr (of_nat n)
    \<and> parse_duration (show_nat n @ ''m'') = Inr (of_nat (n * 60))
    \<and> parse_duration (show_nat n @ ''h'') = Inr (of_nat (n * 3600))"
proof -
  have trim_lower: "to_lowercase (trim (show_nat n @ [c])) = show_nat n @ [c]"
    if "char_lower c = c" "\<not> is_whitespace c" for c
    using that show_nat_digits char_code_show by (simp add: trim_show_nat to_lowercase_def map_idI)
  have unit: "char_lower c = c \<and> \<not> is_whitespace c" if "c \<in> set ''smh''" for c
    using that by (auto simp: char_lower_def is_ascii_upper_def is_whitespace_def char_code_def)
  show ?thesis
    using parse_show_nat [OF assms]
    by (simp add: parse_duration_def Let_def trim_lower unit ends_with_suffix suffix_def parse_u64_def)
qed

theorem parse_duration_units_witness: "parse_duration ''90m'' = Inr 5400"
proof -
  have "show_nat 90 = ''90''" by (simp add: fuji_eval)
  with parse_duration_units [of 90] show ?thesis by simp
qed

end
