(* ===== verification/Health_Monitor.thy ===== *)
theory Health_Monitor
  imports Mount_Drivers
begin

text \<open>
  \<open>src/monitoring/health_checks.rs\<close> and \<open>src/monitoring/scheduler.rs\<close>: the checks of a
  mount, their combination into a state and a score, and the scheduler that registers mounts, runs
  their jobs and keeps the last results.

  What a check meets outside (file system, ping, driver) is a record, one for each check of a run;
  the cron library is the record \<open>cron_api\<close> over its own state \<open>'j\<close>.  A lock of the scheduler that a
  call waits for while it holds it itself makes the call \<open>Blocked\<close>.
\<close>

section \<open>Checks\<close>

datatype health_error =
    UnknownCheck string
  | PingTimeout
  | PingTask string
  | PingIo string
  | NoHandler handler_error

datatype ping_result =
    Ping_timeout
  | Ping_join string
  | Ping_io string
  | Ping_exit bool

record health_env =
  he_path_exists :: "string \<Rightarrow> bool"
  he_write :: "string \<Rightarrow> string \<Rightarrow> string + unit"
  he_read :: "string \<Rightarrow> string + string"
  he_is_mounted :: "string \<Rightarrow> string + bool"
  he_ping :: "string list \<Rightarrow> ping_result"
  he_probe :: "string \<Rightarrow> probe_result"
  he_now :: instant

definition run_file_access_check :: "health_env \<Rightarrow> string \<Rightarrow> health_error + bool" where
  "run_file_access_check env mount_point =
     (if \<not> he_path_exists env mount_point then Inr False
      else
        let test_file = path_join mount_point ''.fuji_health_check''
        in case he_write env test_file ''health_check'' of
             Inl _ \<Rightarrow> Inr False
           | Inr _ \<Rightarrow>
               (case he_read env test_file of
                  Inl _ \<Rightarrow> Inr False
                | Inr contents \<Rightarrow>
                    (if contents \<noteq> ''health_check'' then Inr False
                     else case he_is_mounted env mount_point of
                            Inr is_mounted \<Rightarrow> Inr is_mounted
                          | Inl _ \<Rightarrow> Inr True)))"

fun mount_type_host :: "mount_type \<Rightarrow> string" where
  "mount_type_host (Nfs host _ _) = host"
| "mount_type_host (Smb host _ _ _ _ _) = host"
| "mount_type_host (Sshfs host _ _ _ _ _) = host"

definition run_ping_check :: "health_env \<Rightarrow> mount_config \<Rightarrow> health_error + bool" where
  "run_ping_check env m =
     (case he_ping env [''-c'', ''1'', ''-W'', ''5'', mount_type_host (mc_mount_type m)] of
        Ping_timeout \<Rightarrow> Inl PingTimeout
      | Ping_join e \<Rightarrow> Inl (PingTask e)
      | Ping_io e \<Rightarrow> Inl (PingIo e)
      | Ping_exit success \<Rightarrow> Inr success)"

fun mount_type_protocol :: "mount_type \<Rightarrow> string" where
  "mount_type_protocol (Nfs _ _ _) = ''nfs''"
| "mount_type_protocol (Smb _ _ _ _ _ _) = ''smb''"
| "mount_type_protocol (Sshfs _ _ _ _ _ _) = ''sshfs''"

definition run_protocol_check :: "health_env \<Rightarrow> mount_config \<Rightarrow> string \<Rightarrow> health_error + bool" where
  "run_protocol_check env m mount_point =
     (case get_mount_handler (mount_type_protocol (mc_mount_type m)) of
        Inl e \<Rightarrow> Inl (NoHandler e)
      | Inr _ \<Rightarrow>
          Inr (mh_accessible (check_health (he_path_exists env mount_point) (he_probe env mount_point) (he_now env))))"

definition run_check :: "health_env \<Rightarrow> mount_config \<Rightarrow> string \<Rightarrow> string \<Rightarrow> health_error + bool" where
  "run_check env m mount_point check_name =
     (if check_name = ''file_access'' then run_file_access_check env mount_point
      else if check_name = ''ping'' then run_ping_check env m
      else if check_name = ''protocol'' then run_protocol_check env m mount_point
      else Inl (UnknownCheck check_name))"

section \<open>A run of checks\<close>

datatype health_state = Healthy | Degraded | Health_Failed | Checking | Recovering

record health_status =
  hs_mount_id :: string
  hs_status :: health_state
  hs_last_check :: instant
  hs_failure_count :: u32
  hs_last_error :: "string option"
  hs_health_score :: u8

record tally =
  ta_healthy :: nat
  ta_last_error :: "string option"
  ta_score :: u32

definition saturating_sub :: "u32 \<Rightarrow> u32 \<Rightarrow> u32" where
  "saturating_sub a b = (if b \<le> a then a - b else 0)"

definition tally_check :: "(health_error \<Rightarrow> string) \<Rightarrow> tally \<Rightarrow> health_error + bool \<Rightarrow> tally" where
  "tally_check show_error t r =
     (case r of
        Inr healthy \<Rightarrow>
          (if healthy then t\<lparr>ta_healthy := ta_healthy t + 1\<rparr>
           else t\<lparr>ta_score := saturating_sub (ta_score t) 20\<rparr>)
      | Inl e \<Rightarrow> t\<lparr>ta_last_error := Some (show_error e), ta_score := saturating_sub (ta_score t) 30\<rparr>)"

definition check_results ::
    "(nat \<Rightarrow> health_env) \<Rightarrow> string list \<Rightarrow> mount_config option \<Rightarrow> (health_error + bool) list" where
  "check_results envs check_types mount_config =
     map (\<lambda>(i, check_type).
            case mount_config of
              Some config \<Rightarrow> run_check (envs i) config (mc_mount_point config) check_type
            | None \<Rightarrow> Inr False)
       (zip [0..<length check_types] check_types)"

definition overall_state :: "nat \<Rightarrow> nat \<Rightarrow> health_state" where
  "overall_state healthy_count total_count =
     (if healthy_count = total_count then Healthy
      else if healthy_count > 0 then Degraded
      else Health_Failed)"

definition run_health_checks_static ::
    "(health_error \<Rightarrow> string) \<Rightarrow> (nat \<Rightarrow> health_env) \<Rightarrow> instant \<Rightarrow> string \<Rightarrow> string list \<Rightarrow>
     mount_config option \<Rightarrow> health_status" where
  "run_health_checks_static show_error envs now mount_id check_types mount_config =
     (let t = foldl (tally_check show_error) \<lparr> ta_healthy = 0, ta_last_error = None, ta_score = 100 \<rparr>
                (check_results envs check_types mount_config)
      in \<lparr> hs_mount_id = mount_id, hs_status = overall_state (ta_healthy t) (length check_types),
           hs_last_check = now, hs_failure_count = 0, hs_last_error = ta_last_error t,
           hs_health_score = ucast (ta_score t) \<rparr>)"

section \<open>The scheduler\<close>

type_synonym uuid = "128 word"

record 'j cron_api =
  cr_new :: "string + 'j"
  cr_shutdown :: "'j \<Rightarrow> string + unit"
  cr_valid :: "string \<Rightarrow> bool"
  cr_add :: "string \<Rightarrow> string \<Rightarrow> 'j \<Rightarrow> 'j \<times> (string + uuid)"
  cr_remove :: "uuid \<Rightarrow> 'j \<Rightarrow> 'j \<times> (string + unit)"

record health_check_job =
  hj_mount_id :: string
  hj_interval :: string
  hj_check_types :: "string list"
  hj_job_id :: "uuid option"
  hj_last_run :: "instant option"

record 'j scheduler =
  sc_scheduler :: "'j option"
  sc_health_checks :: "(string, health_check_job) hashmap"
  sc_last_statuses :: "(string, health_status) hashmap"
  sc_default_interval :: string
  sc_cleanup_interval :: u64
  sc_max_status_age :: u64
  sc_mount_configs :: "(string, mount_config) hashmap"
  sc_cleanup_tasks :: nat

datatype scheduler_error =
    SchedulerCreate string
  | SchedulerShutdown string
  | NoChecksRegistered string
  | NoStatusAvailable string
  | CheckNotFound string
  | SchedulerNotRunning
  | CronJobCreate
  | CronJobAdd string

definition scheduler_new :: "'j scheduler" where
  "scheduler_new =
     \<lparr> sc_scheduler = None, sc_health_checks = [], sc_last_statuses = [],
       sc_default_interval = ''*/30 * * * * *'', sc_cleanup_interval = 300, sc_max_status_age = 3600,
       sc_mount_configs = [], sc_cleanup_tasks = 0 \<rparr>"

text \<open>Every successful start spawns a cleanup task, which ends only with the scheduler itself.\<close>

definition start_cleanup_task :: "'j scheduler \<Rightarrow> 'j scheduler" where
  "start_cleanup_task s = s\<lparr>sc_cleanup_tasks := sc_cleanup_tasks s + 1\<rparr>"

definition scheduler_start :: "'j cron_api \<Rightarrow> 'j scheduler \<Rightarrow> 'j scheduler \<times> (scheduler_error + unit)" where
  "scheduler_start api s =
     (if sc_scheduler s \<noteq> None then (s, Inr ())
      else case cr_new api of
             Inl e \<Rightarrow> (s, Inl (SchedulerCreate e))
           | Inr j \<Rightarrow> (start_cleanup_task (s\<lparr>sc_scheduler := Some j\<rparr>), Inr ()))"

definition scheduler_stop :: "'j cron_api \<Rightarrow> 'j scheduler \<Rightarrow> 'j scheduler \<times> (scheduler_error + unit)" where
  "scheduler_stop api s =
     (case sc_scheduler s of
        None \<Rightarrow> (s, Inr ())
      | Some j \<Rightarrow>
          (s\<lparr>sc_scheduler := None\<rparr>,
           case cr_shutdown api j of Inl e \<Rightarrow> Inl (SchedulerShutdown e) | Inr _ \<Rightarrow> Inr ()))"

definition cleanup_old_status_entries :: "instant \<Rightarrow> 'j scheduler \<Rightarrow> 'j scheduler" where
  "cleanup_old_status_entries now s =
     (let cutoff_time = now - secs (sint (sc_max_status_age s))
      in s\<lparr>sc_last_statuses := hm_retain (\<lambda>_ status. hs_last_check status > cutoff_time) (sc_last_statuses s)\<rparr>)"

definition determine_check_interval :: "'j cron_api \<Rightarrow> 'j scheduler \<Rightarrow> mount_config \<Rightarrow> string" where
  "determine_check_interval api s m =
     (let interval = (case hm_get (mc_metadata m) ''health_check_interval'' of
                        Some ci \<Rightarrow> if cr_valid api ci then ci else sc_default_interval s
                      | None \<Rightarrow> sc_default_interval s)
      in if interval = sc_default_interval s
         then case mc_mount_type m of
                Nfs _ _ _ \<Rightarrow> ''*/60 * * * * *''
              | Smb _ _ _ _ _ _ \<Rightarrow> ''*/15 * * * * *''
              | Sshfs _ _ _ _ _ _ \<Rightarrow> ''*/30 * * * * *''
         else interval)"

definition schedule_health_check ::
    "'j cron_api \<Rightarrow> string \<Rightarrow> 'j scheduler \<Rightarrow> 'j scheduler \<times> (scheduler_error + unit)" where
  "schedule_health_check api mount_id s =
     (case hm_get (sc_health_checks s) mount_id of
        None \<Rightarrow> (s, Inl (CheckNotFound mount_id))
      | Some job \<Rightarrow>
          (case sc_scheduler s of
             None \<Rightarrow> (s, Inl SchedulerNotRunning)
           | Some j \<Rightarrow>
               (if \<not> cr_valid api (hj_interval job) then (s, Inl CronJobCreate)
                else case cr_add api (hj_interval job) mount_id j of
                       (j', Inl e) \<Rightarrow> (s\<lparr>sc_scheduler := Some j'\<rparr>, Inl (CronJobAdd e))
                     | (j', Inr job_id) \<Rightarrow>
                         (s\<lparr>sc_scheduler := Some j',
                            sc_health_checks := hm_insert mount_id (job\<lparr>hj_job_id := Some job_id\<rparr>) (sc_health_checks s)\<rparr>,
                          Inr ()))))"

definition register_health_checks ::
    "'j cron_api \<Rightarrow> mount_config \<Rightarrow> 'j scheduler \<Rightarrow> 'j scheduler \<times> (scheduler_error + unit)" where
  "register_health_checks api m s =
     (let s1 = s\<lparr>sc_mount_configs := hm_insert (mc_id m) m (sc_mount_configs s)\<rparr>;
          job = \<lparr> hj_mount_id = mc_id m, hj_interval = determine_check_interval api s1 m,
                  hj_check_types = [''file_access'', ''ping''], hj_job_id = None, hj_last_run = None \<rparr>;
          s2 = s1\<lparr>sc_health_checks := hm_insert (mc_id m) job (sc_health_checks s1)\<rparr>
      in schedule_health_check api (mc_id m) s2)"

definition unschedule :: "'j cron_api \<Rightarrow> health_check_job \<Rightarrow> 'j scheduler \<Rightarrow> 'j scheduler" where
  "unschedule api job s =
     (case hj_job_id job of
        None \<Rightarrow> s
      | Some job_id \<Rightarrow>
          (case sc_scheduler s of
             None \<Rightarrow> s
           | Some j \<Rightarrow> s\<lparr>sc_scheduler := Some (fst (cr_remove api job_id j))\<rparr>))"

definition unregister_health_checks :: "'j cron_api \<Rightarrow> string \<Rightarrow> 'j scheduler \<Rightarrow> 'j scheduler" where
  "unregister_health_checks api mount_id s =
     (let s1 = (case hm_get (sc_health_checks s) mount_id of
                  None \<Rightarrow> s
                | Some job \<Rightarrow>
                    unschedule api job (s\<lparr>sc_health_checks := hm_remove mount_id (sc_health_checks s)\<rparr>))
      in s1\<lparr>sc_mount_configs := hm_remove mount_id (sc_mount_configs s1),
           sc_last_statuses := hm_remove mount_id (sc_last_statuses s1)\<rparr>)"

text \<open>\<open>run_health_checks\<close> asks for the write lock of the registered checks, which a caller may hold for
  reading.\<close>

definition run_health_checks ::
    "bool \<Rightarrow> (health_error \<Rightarrow> string) \<Rightarrow> (nat \<Rightarrow> health_env) \<Rightarrow> instant \<Rightarrow> string \<Rightarrow> string list \<Rightarrow>
     'j scheduler \<Rightarrow> 'j scheduler \<times> (scheduler_error + health_status) outcome" where
  "run_health_checks lock_held show_error envs now mount_id check_types s =
     (if lock_held then (s, Blocked)
      else
        let s1 = s\<lparr>sc_health_checks := hm_update mount_id (\<lambda>job. job\<lparr>hj_last_run := Some now\<rparr>) (sc_health_checks s)\<rparr>
        in (s1, Returned (Inr (run_health_checks_static show_error envs now mount_id check_types
                                 (hm_get (sc_mount_configs s1) mount_id)))))"

definition trigger_health_check ::
    "(health_error \<Rightarrow> string) \<Rightarrow> (nat \<Rightarrow> health_env) \<Rightarrow> instant \<Rightarrow> string \<Rightarrow>
     'j scheduler \<Rightarrow> 'j scheduler \<times> (scheduler_error + health_status) outcome" where
  "trigger_health_check show_error envs now mount_id s =
     (case hm_get (sc_health_checks s) mount_id of
        None \<Rightarrow> (s, Returned (Inl (NoChecksRegistered mount_id)))
      | Some job \<Rightarrow> run_health_checks True show_error envs now mount_id (hj_check_types job) s)"

definition get_health_status :: "string \<Rightarrow> 'j scheduler \<Rightarrow> scheduler_error + health_status" where
  "get_health_status mount_id s = ok_or (hm_get (sc_last_statuses s) mount_id) (NoStatusAvailable mount_id)"

definition get_all_health_statuses :: "'j scheduler \<Rightarrow> health_status list" where
  "get_all_health_statuses s = map snd (sc_last_statuses s)"

text \<open>A job of the cron library, in its two steps: what it reads before the checks, and what it
  stores after them.\<close>

definition job_begin :: "string \<Rightarrow> 'j scheduler \<Rightarrow> (string list \<times> mount_config) option" where
  "job_begin mount_id s =
     (case hm_get (sc_health_checks s) mount_id of
        None \<Rightarrow> None
      | Some job \<Rightarrow> map_option (\<lambda>config. (hj_check_types job, config)) (hm_get (sc_mount_configs s) mount_id))"

definition job_end ::
    "(health_error \<Rightarrow> string) \<Rightarrow> (nat \<Rightarrow> health_env) \<Rightarrow> instant \<Rightarrow> string \<Rightarrow> string list \<times> mount_config \<Rightarrow>
     'j scheduler \<Rightarrow> 'j scheduler" where
  "job_end show_error envs now mount_id work s =
     (case work of (check_types, config) \<Rightarrow>
        s\<lparr>sc_last_statuses :=
            hm_insert mount_id (run_health_checks_static show_error envs now mount_id check_types (Some config))
              (sc_last_statuses s)\<rparr>)"

section \<open>Lemmas\<close>

lemma check_results_length [simp]: "length (check_results envs cts m) = length cts"
  by (simp add: check_results_def)

lemma unat_saturating_sub: "unat (saturating_sub a b) = unat a - unat b"
  by (auto simp: saturating_sub_def unat_sub_if' word_le_nat_alt)

definition errors_in :: "(health_error + bool) list \<Rightarrow> nat" where
  "errors_in rs = length (filter (\<lambda>r. \<not> is_ok r) rs)"

lemma tally_counts:
  "case foldl (tally_check show_error) t rs of t' \<Rightarrow>
     ta_healthy t' = ta_healthy t + count_list rs (Inr True)
     \<and> unat (ta_score t') = unat (ta_score t) - (20 * count_list rs (Inr False) + 30 * errors_in rs)
     \<and> (ta_last_error t' = None \<longleftrightarrow> ta_last_error t = None \<and> errors_in rs = 0)"
proof (induction rs arbitrary: t)
  case (Cons r rs)
  show ?case
  proof (cases r)
    case (Inl e)
    with Cons [of "tally_check show_error t r"] show ?thesis
      by (simp add: tally_check_def errors_in_def unat_saturating_sub)
  next
    case (Inr ok)
    with Cons [of "tally_check show_error t r"] show ?thesis
      by (cases ok) (simp_all add: tally_check_def errors_in_def unat_saturating_sub)
  qed
qed (simp add: errors_in_def)

lemma result_counts: "length rs = count_list rs (Inr True) + count_list rs (Inr False) + errors_in rs"
proof (induction rs)
  case (Cons r rs)
  then show ?case by (cases r) (auto simp: errors_in_def)
qed (simp add: errors_in_def)

section \<open>Properties\<close>

text \<open>a run of checks is healthy exactly if every check passed, failed if none did, and degraded in
  between; the score starts at 100 and loses 20 for a check that does not pass and 30 for one that
  fails, down to 0, and the last error is that of a failed check.\<close>

theorem health_of_results:
  "case check_results envs check_types m of rs \<Rightarrow>
   (case run_health_checks_static show_error envs now i check_types m of st \<Rightarrow>
      (hs_status st = Healthy \<longleftrightarrow> count_list rs (Inr True) = length check_types)
      \<and> (hs_status st = Health_Failed \<longleftrightarrow> count_list rs (Inr True) = 0 \<and> check_types \<noteq> [])
      \<and> (hs_status st = Degraded \<longleftrightarrow> 0 < count_list rs (Inr True) \<and> count_list rs (Inr True) < length check_types)
      \<and> unat (hs_health_score st) = 100 - (20 * count_list rs (Inr False) + 30 * errors_in rs)
      \<and> (hs_last_error st = None \<longleftrightarrow> errors_in rs = 0) \<and> hs_mount_id st = i \<and> hs_last_check st = now)"
proof -
  let ?rs = "check_results envs check_types m" and ?init = "\<lparr> ta_healthy = 0, ta_last_error = None, ta_score = 100 \<rparr>"
  let ?t = "foldl (tally_check show_error) ?init ?rs"
  have t: "ta_healthy ?t = count_list ?rs (Inr True)"
    "unat (ta_score ?t) = 100 - (20 * count_list ?rs (Inr False) + 30 * errors_in ?rs)"
    "ta_last_error ?t = None \<longleftrightarrow> errors_in ?rs = 0"
    using tally_counts [where t = ?init and rs = ?rs and show_error = show_error] by simp_all
  have all: "length check_types = count_list ?rs (Inr True) + count_list ?rs (Inr False) + errors_in ?rs"
    using result_counts [of ?rs] by simp
  have "unat (ucast (ta_score ?t) :: u8) = unat (ta_score ?t)"
    using t(2) by (simp add: unsigned_ucast_eq take_bit_eq_mod)
  with t all show ?thesis by (auto simp: run_health_checks_static_def Let_def overall_state_def)
qed

text \<open>a check that is asked for directly never comes back for a registered mount: it waits for the
  lock that it holds.\<close>

theorem trigger_blocks:
  "snd (trigger_health_check show_error envs now i s) =
     (if hm_contains_key (sc_health_checks s) i then Blocked else Returned (Inl (NoChecksRegistered i)))"
  by (auto simp: trigger_health_check_def run_health_checks_def hm_contains_key_def)

end
