(* ===== verification/Dependency_Graph.thy ===== *)
theory Dependency_Graph
  imports Mount_Types
begin

text \<open>
  \<open>src/monitoring/dependency.rs\<close>: the dependencies between mounts, the sequences that follow from
  them and the search for cycles.

  The graph itself is the \<open>petgraph\<close> crate, a record of its operations over an unknown type of graphs;
  \<open>petgraph_ok\<close> states what its documentation says of them, \<open>list_petgraph\<close> is a graph that obeys it.
  Nodes and edges are numbered from 0; removing one gives its number to the last.
\<close>

section \<open>The graph\<close>

datatype dependency_type = Hard | Soft | Order

definition dependency_type_default :: dependency_type where
  "dependency_type_default = Soft"

record dependency_edge =
  de_dependency_type :: dependency_type
  de_metadata :: "(string, string) hashmap"

type_synonym node_index = nat
type_synonym edge_index = nat

record edge_ref =
  er_id :: edge_index
  er_source :: node_index
  er_target :: node_index
  er_weight :: dependency_edge

record 'g petgraph =
  pg_new :: 'g
  pg_add_node :: "'g \<Rightarrow> 'g \<times> node_index"
  pg_remove_node :: "node_index \<Rightarrow> 'g \<Rightarrow> 'g \<times> bool"
  pg_add_edge :: "node_index \<Rightarrow> node_index \<Rightarrow> dependency_edge \<Rightarrow> 'g \<Rightarrow> 'g outcome"
  pg_remove_edge :: "edge_index \<Rightarrow> 'g \<Rightarrow> 'g \<times> bool"
  pg_edges_connecting :: "'g \<Rightarrow> node_index \<Rightarrow> node_index \<Rightarrow> edge_ref list"
  pg_incoming :: "'g \<Rightarrow> node_index \<Rightarrow> edge_ref list"
  pg_outgoing :: "'g \<Rightarrow> node_index \<Rightarrow> edge_ref list"
  pg_neighbors :: "'g \<Rightarrow> node_index \<Rightarrow> node_index list"
  pg_node_indices :: "'g \<Rightarrow> node_index list"
  pg_edge_references :: "'g \<Rightarrow> edge_ref list"
  pg_toposort :: "'g \<Rightarrow> node_index list option"

record 'g dependency_graph =
  dg_graph :: 'g
  dg_mounts :: "(string, node_index) hashmap"
  dg_reverse_index :: "(node_index, string) hashmap"

record dependency_validation =
  dv_valid :: bool
  dv_errors :: "string list"
  dv_warnings :: "string list"

record sequence =
  sq_mounts :: "string list"
  sq_parallel_groups :: "string list list"

datatype dependency_error =
    MountExists string
  | DependentNotFound string
  | DependencyNotFound string
  | CycleDetected
  | MountNotInGraph string

definition dependency_graph_new :: "'g petgraph \<Rightarrow> 'g dependency_graph" where
  "dependency_graph_new pg = \<lparr> dg_graph = pg_new pg, dg_mounts = [], dg_reverse_index = [] \<rparr>"

section \<open>Changes\<close>

definition graph_add_mount ::
    "'g petgraph \<Rightarrow> mount_config \<Rightarrow> 'g dependency_graph \<Rightarrow> 'g dependency_graph \<times> (dependency_error + unit)" where
  "graph_add_mount pg m d =
     (let mount_id = mc_id m
      in if hm_contains_key (dg_mounts d) mount_id then (d, Inl (MountExists mount_id))
         else case pg_add_node pg (dg_graph d) of
                (g, node_index) \<Rightarrow>
                  (\<lparr> dg_graph = g, dg_mounts = hm_insert mount_id node_index (dg_mounts d),
                     dg_reverse_index = hm_insert node_index mount_id (dg_reverse_index d) \<rparr>, Inr ()))"

definition remove_edges :: "'g petgraph \<Rightarrow> edge_index list \<Rightarrow> 'g \<Rightarrow> 'g" where
  "remove_edges pg edge_ids g = foldl (\<lambda>g e. fst (pg_remove_edge pg e g)) g edge_ids"

text \<open>A node that could not be removed is tried again without its outgoing edges.\<close>

definition graph_remove_mount ::
    "'g petgraph \<Rightarrow> string \<Rightarrow> 'g dependency_graph \<Rightarrow> 'g dependency_graph" where
  "graph_remove_mount pg mount_id d =
     (case hm_get (dg_mounts d) mount_id of
        None \<Rightarrow> d
      | Some node_index \<Rightarrow>
          (case pg_remove_node pg node_index (dg_graph d) of
             (g, removed) \<Rightarrow>
               \<lparr> dg_graph =
                   (if removed then g
                    else fst (pg_remove_node pg node_index
                           (remove_edges pg (map er_id (pg_outgoing pg g node_index)) g))),
                 dg_mounts = hm_remove mount_id (dg_mounts d),
                 dg_reverse_index = hm_remove node_index (dg_reverse_index d) \<rparr>))"

definition node_indices_of ::
    "string \<Rightarrow> string \<Rightarrow> 'g dependency_graph \<Rightarrow> dependency_error + node_index \<times> node_index" where
  "node_indices_of dependent_id dependency_id d =
     and_then (ok_or (hm_get (dg_mounts d) dependent_id) (DependentNotFound dependent_id))
       (\<lambda>dependent_index.
          and_then (ok_or (hm_get (dg_mounts d) dependency_id) (DependencyNotFound dependency_id))
            (\<lambda>dependency_index. Inr (dependent_index, dependency_index)))"

definition add_dependency ::
    "'g petgraph \<Rightarrow> string \<Rightarrow> string \<Rightarrow> dependency_type \<Rightarrow> (string, string) hashmap option \<Rightarrow>
     'g dependency_graph \<Rightarrow> 'g dependency_graph \<times> (dependency_error + unit) outcome" where
  "add_dependency pg dependent_id dependency_id dtype metadata d =
     (case node_indices_of dependent_id dependency_id d of
        Inl e \<Rightarrow> (d, Returned (Inl e))
      | Inr (dependent_index, dependency_index) \<Rightarrow>
          (let edge = \<lparr> de_dependency_type = dtype,
                        de_metadata = (case metadata of Some md \<Rightarrow> md | None \<Rightarrow> []) \<rparr>
           in case pg_add_edge pg dependency_index dependent_index edge (dg_graph d) of
                Returned g \<Rightarrow> (d\<lparr>dg_graph := g\<rparr>, Returned (Inr ()))
              | Blocked \<Rightarrow> (d, Blocked)
              | Panicked \<Rightarrow> (d, Panicked)))"

definition remove_dependency ::
    "'g petgraph \<Rightarrow> string \<Rightarrow> string \<Rightarrow> 'g dependency_graph \<Rightarrow>
     'g dependency_graph \<times> (dependency_error + unit)" where
  "remove_dependency pg dependent_id dependency_id d =
     (case node_indices_of dependent_id dependency_id d of
        Inl e \<Rightarrow> (d, Inl e)
      | Inr (dependent_index, dependency_index) \<Rightarrow>
          (let edge_ids = map er_id (pg_edges_connecting pg (dg_graph d) dependency_index dependent_index)
           in (d\<lparr>dg_graph := remove_edges pg edge_ids (dg_graph d)\<rparr>, Inr ())))"

section \<open>Validation\<close>

definition depends_on_ids :: "mount_config \<Rightarrow> string list" where
  "depends_on_ids m =
     (case hm_get (mc_metadata m) ''depends_on'' of
        None \<Rightarrow> [] | Some dep_str \<Rightarrow> map trim (split_on CHR '','' dep_str))"

definition validate_dependencies :: "mount_config \<Rightarrow> dependency_validation" where
  "validate_dependencies m =
     foldl (\<lambda>v dep_id. if dep_id = mc_id m
                       then v\<lparr>dv_errors := dv_errors v @ [''Mount '' @ mc_id m @ '' depends on itself''],
                              dv_valid := False\<rparr>
                       else v)
       \<lparr> dv_valid = True, dv_errors = [], dv_warnings = [] \<rparr> (depends_on_ids m)"

section \<open>Sequences\<close>

definition name_or_unknown :: "(node_index, string) hashmap \<Rightarrow> node_index \<Rightarrow> string" where
  "name_or_unknown names i = (case hm_get names i of Some m \<Rightarrow> m | None \<Rightarrow> ''unknown'')"

definition node_of :: "(node_index, string) hashmap \<Rightarrow> string \<Rightarrow> node_index option" where
  "node_of names mount_id = map_option fst (find (\<lambda>(_, m). m = mount_id) names)"

text \<open>The loop over \<open>to_check\<close>, which is popped and never pushed to: the identifiers processed, the
  group and whether it can be added.\<close>

fun check_ids ::
    "'g petgraph \<Rightarrow> 'g \<Rightarrow> (node_index, string) hashmap \<Rightarrow> string list \<Rightarrow> string list \<Rightarrow> bool \<Rightarrow> string list \<Rightarrow>
     string list \<times> string list \<times> bool" where
  "check_ids pg g names processed grp can_add [] = (processed, grp, can_add)"
| "check_ids pg g names processed grp can_add (current # to_check) =
     (if current \<in> set processed then check_ids pg g names processed grp can_add to_check
      else case node_of names current of
             None \<Rightarrow> check_ids pg g names processed grp can_add to_check
           | Some node_index \<Rightarrow>
               (if list_ex (\<lambda>e. name_or_unknown names (er_source e) \<notin> set processed) (pg_incoming pg g node_index)
                then check_ids pg g names processed grp False to_check
                else check_ids pg g names (current # processed) (grp @ [current]) can_add to_check))"

fun parallel_groups_from ::
    "'g petgraph \<Rightarrow> 'g \<Rightarrow> (node_index, string) hashmap \<Rightarrow> string list \<Rightarrow> string list \<Rightarrow> string list list" where
  "parallel_groups_from pg g names processed [] = []"
| "parallel_groups_from pg g names processed (mount_id # mount_ids) =
     (if mount_id \<in> set processed then parallel_groups_from pg g names processed mount_ids
      else case check_ids pg g names processed [] True [mount_id] of
             (processed', grp, can_add) \<Rightarrow>
               (let rest = parallel_groups_from pg g names processed' mount_ids
                in if can_add \<and> grp \<noteq> [] then grp # rest else rest))"

definition determine_parallel_groups ::
    "'g petgraph \<Rightarrow> 'g dependency_graph \<Rightarrow> string list \<Rightarrow> string list list" where
  "determine_parallel_groups pg d mount_ids =
     parallel_groups_from pg (dg_graph d) (dg_reverse_index d) [] mount_ids"

definition get_startup_sequence :: "'g petgraph \<Rightarrow> 'g dependency_graph \<Rightarrow> dependency_error + sequence" where
  "get_startup_sequence pg d =
     (case pg_toposort pg (dg_graph d) of
        None \<Rightarrow> Inl CycleDetected
      | Some sorted_indices \<Rightarrow>
          (let mount_ids = List.map_filter (hm_get (dg_reverse_index d)) sorted_indices
           in Inr \<lparr> sq_mounts = mount_ids, sq_parallel_groups = determine_parallel_groups pg d mount_ids \<rparr>))"

definition get_shutdown_sequence :: "'g petgraph \<Rightarrow> 'g dependency_graph \<Rightarrow> dependency_error + sequence" where
  "get_shutdown_sequence pg d =
     and_then (get_startup_sequence pg d)
       (\<lambda>s. Inr \<lparr> sq_mounts = rev (sq_mounts s), sq_parallel_groups = rev (sq_parallel_groups s) \<rparr>)"

section \<open>Queries\<close>

definition get_dependencies ::
    "'g petgraph \<Rightarrow> string \<Rightarrow> 'g dependency_graph \<Rightarrow> dependency_error + string list" where
  "get_dependencies pg mount_id d =
     (case hm_get (dg_mounts d) mount_id of
        Some i \<Rightarrow> Inr (map (\<lambda>e. name_or_unknown (dg_reverse_index d) (er_source e)) (pg_incoming pg (dg_graph d) i))
      | None \<Rightarrow> Inl (MountNotInGraph mount_id))"

definition get_dependents ::
    "'g petgraph \<Rightarrow> string \<Rightarrow> 'g dependency_graph \<Rightarrow> dependency_error + string list" where
  "get_dependents pg mount_id d =
     (case hm_get (dg_mounts d) mount_id of
        Some i \<Rightarrow> Inr (map (\<lambda>e. name_or_unknown (dg_reverse_index d) (er_target e)) (pg_outgoing pg (dg_graph d) i))
      | None \<Rightarrow> Inl (MountNotInGraph mount_id))"

definition edge_style :: "dependency_type \<Rightarrow> string" where
  "edge_style t = (case t of Hard \<Rightarrow> ''style=solid'' | Soft \<Rightarrow> ''style=dashed'' | Order \<Rightarrow> ''style=dotted'')"

definition quoted :: "string \<Rightarrow> string" where
  "quoted s = [CHR 0x22] @ s @ [CHR 0x22]"

definition visualize_dot :: "'g petgraph \<Rightarrow> 'g dependency_graph \<Rightarrow> string" where
  "visualize_dot pg d =
     ''digraph dependencies {'' @ [CHR 0x0A] @ ''  rankdir=LR;'' @ [CHR 0x0A]
     @ concat (map (\<lambda>i. case hm_get (dg_reverse_index d) i of
                          Some m \<Rightarrow> ''  '' @ quoted m @ '';'' @ [CHR 0x0A] | None \<Rightarrow> [])
         (pg_node_indices pg (dg_graph d)))
     @ concat (map (\<lambda>e. ''  '' @ quoted (name_or_unknown (dg_reverse_index d) (er_source e)) @ '' -> ''
                        @ quoted (name_or_unknown (dg_reverse_index d) (er_target e))
                        @ '' ['' @ edge_style (de_dependency_type (er_weight e)) @ ''];'' @ [CHR 0x0A])
         (pg_edge_references pg (dg_graph d)))
     @ ''}'' @ [CHR 0x0A]"

section \<open>The search for cycles\<close>

text \<open>\<open>iter().position\<close> and the slice from there on.\<close>

fun slice_from :: "string \<Rightarrow> string list \<Rightarrow> string list option" where
  "slice_from m [] = None"
| "slice_from m (x # xs) = (if x = m then Some (x # xs) else slice_from m xs)"

text \<open>The first argument is fuel; a search that starts with more fuel than there are nodes does not
  run out of it (\<open>dfs_enough_fuel\<close>).  Visited nodes and the stack are threaded through.\<close>

function dfs_find_cycle ::
    "nat \<Rightarrow> 'g petgraph \<Rightarrow> 'g \<Rightarrow> (node_index, string) hashmap \<Rightarrow> node_index \<Rightarrow> node_index list \<Rightarrow>
     string list \<Rightarrow> (node_index list \<times> string list \<times> string list option) option"
and dfs_neighbors ::
    "nat \<Rightarrow> 'g petgraph \<Rightarrow> 'g \<Rightarrow> (node_index, string) hashmap \<Rightarrow> node_index list \<Rightarrow> node_index list \<Rightarrow>
     string list \<Rightarrow> (node_index list \<times> string list \<times> string list option) option" where
  "dfs_find_cycle 0 pg g names node visited stack = None"
| "dfs_find_cycle (Suc fuel) pg g names node visited stack =
     (if length stack > 1000 then Some (visited, stack, None)
      else if node \<in> set visited
      then Some (visited, stack, case hm_get names node of None \<Rightarrow> None | Some m \<Rightarrow> slice_from m stack)
      else
        let stack1 = (case hm_get names node of Some m \<Rightarrow> stack @ [m] | None \<Rightarrow> stack)
        in case dfs_neighbors fuel pg g names (pg_neighbors pg g node) (node # visited) stack1 of
             None \<Rightarrow> None
           | Some (visited2, stack2, Some cycle) \<Rightarrow> Some (visited2, stack2, Some cycle)
           | Some (visited2, stack2, None) \<Rightarrow>
               Some (visited2, case hm_get names node of Some _ \<Rightarrow> butlast stack2 | None \<Rightarrow> stack2, None))"
| "dfs_neighbors fuel pg g names [] visited stack = Some (visited, stack, None)"
| "dfs_neighbors fuel pg g names (neighbor # neighbors) visited stack =
     (case dfs_find_cycle fuel pg g names neighbor visited stack of
        None \<Rightarrow> None
      | Some (visited1, stack1, Some cycle) \<Rightarrow> Some (visited1, stack1, Some cycle)
      | Some (visited1, stack1, None) \<Rightarrow> dfs_neighbors fuel pg g names neighbors visited1 stack1)"
  by pat_completeness auto

termination
  by (relation "inv_image (less_than <*lex*> less_than)
      (case_sum (\<lambda>(f, pg, g, names, node, v, s). (f, 0)) (\<lambda>(f, pg, g, names, ns, v, s). (f, Suc (length ns))))")
    auto

fun cycles_from ::
    "nat \<Rightarrow> 'g petgraph \<Rightarrow> 'g \<Rightarrow> (node_index, string) hashmap \<Rightarrow> node_index list \<Rightarrow> node_index list \<Rightarrow>
     string list \<Rightarrow> string list list option" where
  "cycles_from fuel pg g names [] visited stack = Some []"
| "cycles_from fuel pg g names (node # nodes) visited stack =
     (if node \<in> set visited then cycles_from fuel pg g names nodes visited stack
      else case dfs_find_cycle fuel pg g names node visited stack of
             None \<Rightarrow> None
           | Some (visited1, stack1, c) \<Rightarrow>
               map_option (\<lambda>cs. (case c of Some cycle \<Rightarrow> cycle # cs | None \<Rightarrow> cs))
                 (cycles_from fuel pg g names nodes visited1 stack1))"

definition check_circular_dependencies :: "'g petgraph \<Rightarrow> 'g dependency_graph \<Rightarrow> string list list option" where
  "check_circular_dependencies pg d =
     (let nodes = pg_node_indices pg (dg_graph d)
      in cycles_from (Suc (length nodes)) pg (dg_graph d) (dg_reverse_index d) nodes [] [])"

section \<open>What petgraph promises\<close>

type_synonym raw_edge = "node_index \<times> node_index \<times> dependency_edge"

definition edge_refs :: "raw_edge list \<Rightarrow> edge_ref list" where
  "edge_refs es =
     map (\<lambda>(i, a, b, w). \<lparr> er_id = i, er_source = a, er_target = b, er_weight = w \<rparr>) (enumerate 0 es)"

definition swap_remove :: "nat \<Rightarrow> 'a list \<Rightarrow> 'a list" where
  "swap_remove i xs = (if Suc i = length xs then butlast xs else (butlast xs)[i := last xs])"

definition node_renamed :: "node_index \<Rightarrow> node_index \<Rightarrow> node_index \<Rightarrow> node_index" where
  "node_renamed n i a = (if Suc a = n then i else a)"

definition ends :: "raw_edge list \<Rightarrow> (node_index \<times> node_index) set" where
  "ends es = (\<lambda>(a, b, w). (a, b)) ` set es"

definition in_order :: "'a list \<Rightarrow> 'a \<Rightarrow> 'a \<Rightarrow> bool" where
  "in_order xs a b \<longleftrightarrow> (\<exists>us vs ws. xs = us @ a # vs @ b # ws)"

text \<open>The number of nodes is \<open>pn\<close>, the edges in the order of their numbers are \<open>pe\<close>
  (\<open>node_count\<close>, \<open>raw_edges\<close>).\<close>

definition petgraph_ok :: "'g petgraph \<Rightarrow> ('g \<Rightarrow> nat) \<Rightarrow> ('g \<Rightarrow> raw_edge list) \<Rightarrow> bool" where
  "petgraph_ok pg pn pe \<longleftrightarrow>
     pn (pg_new pg) = 0 \<and> pe (pg_new pg) = []
     \<and> (\<forall>g. \<exists>g'. pg_add_node pg g = (g', pn g) \<and> pn g' = Suc (pn g) \<and> pe g' = pe g)
     \<and> (\<forall>i g. if i < pn g
               then \<exists>g'. pg_remove_node pg i g = (g', True) \<and> Suc (pn g') = pn g
                      \<and> set (pe g') = (\<lambda>(a, b, w). (node_renamed (pn g) i a, node_renamed (pn g) i b, w))
                                        ` {(a, b, w) \<in> set (pe g). a \<noteq> i \<and> b \<noteq> i}
               else pg_remove_node pg i g = (g, False))
     \<and> (\<forall>a b w g. if a < pn g \<and> b < pn g
                   then \<exists>g'. pg_add_edge pg a b w g = Returned g' \<and> pn g' = pn g \<and> pe g' = pe g @ [(a, b, w)]
                   else pg_add_edge pg a b w g = Panicked)
     \<and> (\<forall>e g. if e < length (pe g)
               then \<exists>g'. pg_remove_edge pg e g = (g', True) \<and> pn g' = pn g \<and> pe g' = swap_remove e (pe g)
               else pg_remove_edge pg e g = (g, False))
     \<and> (\<forall>g a b. set (pg_edges_connecting pg g a b)
                   = {r \<in> set (edge_refs (pe g)). er_source r = a \<and> er_target r = b})
     \<and> (\<forall>g i. set (pg_incoming pg g i) = {r \<in> set (edge_refs (pe g)). er_target r = i})
     \<and> (\<forall>g i. set (pg_outgoing pg g i) = {r \<in> set (edge_refs (pe g)). er_source r = i})
     \<and> (\<forall>g i. set (pg_neighbors pg g i) = {b. (i, b) \<in> ends (pe g)})
     \<and> (\<forall>g. pg_node_indices pg g = [0..<pn g]) \<and> (\<forall>g. pg_edge_references pg g = edge_refs (pe g))
     \<and> (\<forall>g. case pg_toposort pg g of
               Some xs \<Rightarrow> distinct xs \<and> set xs = {0..<pn g}
                        \<and> (\<forall>a b. (a, b) \<in> ends (pe g) \<longrightarrow> a < pn g \<longrightarrow> b < pn g \<longrightarrow> in_order xs a b)
             | None \<Rightarrow> \<not> acyclic (ends (pe g)))"

text \<open>A graph that obeys them.\<close>

type_synonym list_graph = "nat \<times> raw_edge list"

fun topological :: "nat \<Rightarrow> raw_edge list \<Rightarrow> node_index list \<Rightarrow> node_index list option" where
  "topological 0 es remaining = (if remaining = [] then Some [] else None)"
| "topological (Suc k) es remaining =
     (if remaining = [] then Some []
      else case find (\<lambda>n. \<not> list_ex (\<lambda>(a, b, w). b = n \<and> a \<in> set remaining) es) remaining of
             None \<Rightarrow> None
           | Some n \<Rightarrow> map_option ((#) n) (topological k es (remove1 n remaining)))"

definition list_petgraph :: "list_graph petgraph" where
  "list_petgraph =
     \<lparr> pg_new = (0, []),
       pg_add_node = (\<lambda>(n, es). ((Suc n, es), n)),
       pg_remove_node = (\<lambda>i (n, es).
         if i < n
         then ((n - 1, map (\<lambda>(a, b, w). (node_renamed n i a, node_renamed n i b, w))
                         (filter (\<lambda>(a, b, w). a \<noteq> i \<and> b \<noteq> i) es)), True)
         else ((n, es), False)),
       pg_add_edge = (\<lambda>a b w (n, es). if a < n \<and> b < n then Returned (n, es @ [(a, b, w)]) else Panicked),
       pg_remove_edge = (\<lambda>e (n, es). if e < length es then ((n, swap_remove e es), True) else ((n, es), False)),
       pg_edges_connecting = (\<lambda>(n, es) a b. filter (\<lambda>r. er_source r = a \<and> er_target r = b) (edge_refs es)),
       pg_incoming = (\<lambda>(n, es) i. filter (\<lambda>r. er_target r = i) (edge_refs es)),
       pg_outgoing = (\<lambda>(n, es) i. filter (\<lambda>r. er_source r = i) (edge_refs es)),
       pg_neighbors = (\<lambda>(n, es) i. map (\<lambda>(a, b, w). b) (filter (\<lambda>(a, b, w). a = i) es)),
       pg_node_indices = (\<lambda>(n, es). [0..<n]),
       pg_edge_references = (\<lambda>(n, es). edge_refs es),
       pg_toposort = (\<lambda>(n, es). topological n es [0..<n]) \<rparr>"

lemma in_order_Cons: "in_order xs a b \<Longrightarrow> in_order (x # xs) a b"
  unfolding in_order_def by (metis append_Cons)

lemma in_order_hd: "b \<in> set xs \<Longrightarrow> in_order (a # xs) a b"
  unfolding in_order_def by (metis append_Nil split_list)

lemma topological_sound:
  assumes "topological k es remaining = Some xs" "distinct remaining"
  shows "distinct xs \<and> set xs = set remaining
    \<and> (\<forall>a b. (a, b) \<in> ends es \<longrightarrow> a \<in> set remaining \<longrightarrow> b \<in> set remaining \<longrightarrow> in_order xs a b)"
  using assms
proof (induction k arbitrary: remaining xs)
  case (Suc k)
  show ?case
  proof (cases "remaining = []")
    case False
    with Suc.prems obtain n ys where n: "find (\<lambda>n. \<not> list_ex (\<lambda>(a, b, w). b = n \<and> a \<in> set remaining) es) remaining = Some n"
      and ys: "topological k es (remove1 n remaining) = Some ys" "xs = n # ys"
      by (auto split: option.splits)
    from n have mem: "n \<in> set remaining" and free: "\<And>a. (a, n) \<in> ends es \<Longrightarrow> a \<notin> set remaining"
      by (auto simp: find_Some_iff list_ex_iff ends_def)
    from Suc.IH [OF ys(1)] Suc.prems(2) have ih: "distinct ys" "set ys = set remaining - {n}"
      "\<And>a b. (a, b) \<in> ends es \<Longrightarrow> a \<in> set remaining - {n} \<Longrightarrow> b \<in> set remaining - {n} \<Longrightarrow> in_order ys a b"
      by auto
    have "in_order xs a b" if e: "(a, b) \<in> ends es" "a \<in> set remaining" "b \<in> set remaining" for a b
    proof -
      from e free have "b \<noteq> n" by blast
      with ih e show ?thesis by (cases "a = n") (auto simp: ys(2) intro: in_order_hd in_order_Cons)
    qed
    with ih mem show ?thesis by (auto simp: ys(2))
  qed (use Suc.prems in simp)
qed (auto split: if_splits)

lemma topological_complete:
  assumes "topological k es remaining = None" "distinct remaining" "length remaining \<le> k"
  shows "\<not> acyclic (ends es)"
  using assms
proof (induction k arbitrary: remaining)
  case (Suc k)
  let ?free = "\<lambda>n. \<not> list_ex (\<lambda>(a, b, w). b = n \<and> a \<in> set remaining) es"
  from Suc.prems have ne: "remaining \<noteq> []" by auto
  show ?case
  proof (cases "find ?free remaining")
    case None
    then have pred: "\<exists>a \<in> set remaining. (a, n) \<in> ends es" if "n \<in> set remaining" for n
    proof -
      from None that obtain a b w where "(a, b, w) \<in> set es" "b = n" "a \<in> set remaining"
        by (auto simp: find_None_iff list_ex_iff)
      then show ?thesis by (force simp: ends_def)
    qed
    show ?thesis
    proof
      assume "acyclic (ends es)"
      then have "wf (ends es)" by (intro finite_acyclic_wf) (simp_all add: ends_def)
      then obtain z where "z \<in> set remaining" "\<And>y. (y, z) \<in> ends es \<Longrightarrow> y \<notin> set remaining"
        using ne by (elim wfE_min [where Q = "set remaining" and x = "hd remaining"]) auto
      with pred show False by blast
    qed
  next
    case (Some n)
    then have "n \<in> set remaining" by (auto simp: find_Some_iff)
    with Some Suc.prems ne show ?thesis by (intro Suc.IH [of "remove1 n remaining"]) (auto simp: length_remove1)
  qed
qed simp

lemma list_petgraph_ok: "petgraph_ok list_petgraph fst snd"
proof -
  have kept: "{x \<in> set es. case x of (a, ab) \<Rightarrow> a \<noteq> i \<and> (case ab of (b, w) \<Rightarrow> b \<noteq> i)} = {(a, b, w). (a, b, w) \<in> set es \<and> a \<noteq> i \<and> b \<noteq> i}"
    for i :: nat and es :: "raw_edge list"
    by auto
  have targets: "set (map (\<lambda>(a, b, w). b) (filter (\<lambda>(a, b, w). a = i) es)) = {b. (i, b) \<in> ends es}" for i es
    by (force simp: ends_def)
  show ?thesis
    unfolding petgraph_ok_def list_petgraph_def
    using targets topological_sound [of _ _ "[0..<_]"] topological_complete [of _ _ "[0..<_]"]
    by (simp add: kept split: option.split)
qed

section \<open>The indices\<close>

inductive built :: "'g petgraph \<Rightarrow> 'g dependency_graph \<Rightarrow> bool" for pg where
  built_new: "built pg (dependency_graph_new pg)"
| built_add: "built pg d \<Longrightarrow> built pg (fst (graph_add_mount pg m d))"
| built_dependency: "built pg d \<Longrightarrow> built pg (fst (add_dependency pg a b t md d))"
| built_undependency: "built pg d \<Longrightarrow> built pg (fst (remove_dependency pg a b d))"

definition indices_agree :: "('g \<Rightarrow> nat) \<Rightarrow> ('g \<Rightarrow> raw_edge list) \<Rightarrow> 'g dependency_graph \<Rightarrow> bool" where
  "indices_agree pn pe d \<longleftrightarrow>
     (\<forall>m i. hm_get (dg_mounts d) m = Some i \<longleftrightarrow> hm_get (dg_reverse_index d) i = Some m)
     \<and> (\<forall>i. hm_get (dg_reverse_index d) i \<noteq> None \<longleftrightarrow> i < pn (dg_graph d))
     \<and> ends (pe (dg_graph d)) \<subseteq> {0..<pn (dg_graph d)} \<times> {0..<pn (dg_graph d)}
     \<and> hm_wf (dg_reverse_index d)"

lemma petgraph_add_node:
  "petgraph_ok pg pn pe \<Longrightarrow> \<exists>g'. pg_add_node pg g = (g', pn g) \<and> pn g' = Suc (pn g) \<and> pe g' = pe g"
  by (simp add: petgraph_ok_def)

lemma petgraph_add_edge:
  "petgraph_ok pg pn pe \<Longrightarrow> a < pn g \<Longrightarrow> b < pn g \<Longrightarrow>
     \<exists>g'. pg_add_edge pg a b w g = Returned g' \<and> pn g' = pn g \<and> pe g' = pe g @ [(a, b, w)]"
  "petgraph_ok pg pn pe \<Longrightarrow> \<not> (a < pn g \<and> b < pn g) \<Longrightarrow> pg_add_edge pg a b w g = Panicked"
  unfolding petgraph_ok_def by presburger+

lemma petgraph_toposort:
  assumes "petgraph_ok pg pn pe"
  shows "pg_toposort pg g = Some xs \<Longrightarrow> distinct xs \<and> set xs = {0..<pn g}
      \<and> (\<forall>a b. (a, b) \<in> ends (pe g) \<longrightarrow> a < pn g \<longrightarrow> b < pn g \<longrightarrow> in_order xs a b)"
    and "pg_toposort pg g = None \<Longrightarrow> \<not> acyclic (ends (pe g))"
proof -
  have "\<forall>g. case pg_toposort pg g of
      Some xs \<Rightarrow> distinct xs \<and> set xs = {0..<pn g}
        \<and> (\<forall>a b. (a, b) \<in> ends (pe g) \<longrightarrow> a < pn g \<longrightarrow> b < pn g \<longrightarrow> in_order xs a b)
    | None \<Rightarrow> \<not> acyclic (ends (pe g))"
    using assms unfolding petgraph_ok_def by (elim conjE) assumption
  note law = spec [OF this, of g]
  show "pg_toposort pg g = Some xs \<Longrightarrow> distinct xs \<and> set xs = {0..<pn g}
      \<and> (\<forall>a b. (a, b) \<in> ends (pe g) \<longrightarrow> a < pn g \<longrightarrow> b < pn g \<longrightarrow> in_order xs a b)"
    using law by simp
  show "pg_toposort pg g = None \<Longrightarrow> \<not> acyclic (ends (pe g))"
    using law by simp
qed

lemma petgraph_views:
  "petgraph_ok pg pn pe \<Longrightarrow> set (pg_incoming pg g i) = {r \<in> set (edge_refs (pe g)). er_target r = i}"
  "petgraph_ok pg pn pe \<Longrightarrow> set (pg_neighbors pg g i) = {b. (i, b) \<in> ends (pe g)}"
  "petgraph_ok pg pn pe \<Longrightarrow> pg_node_indices pg g = [0..<pn g]"
  by (simp_all add: petgraph_ok_def)

lemma ends_mono: "set es \<subseteq> set fs \<Longrightarrow> ends es \<subseteq> ends fs"
  by (auto simp: ends_def image_mono)

lemma petgraph_remove_edge:
  assumes "petgraph_ok pg pn pe"
  shows "pn (fst (pg_remove_edge pg e g)) = pn g \<and> ends (pe (fst (pg_remove_edge pg e g))) \<subseteq> ends (pe g)"
proof (cases "e < length (pe g)")
  case True
  then have "e < length (pe g) \<and> pe g \<noteq> []" by auto
  moreover have "set (swap_remove e (pe g)) \<subseteq> set (pe g)"
    using calculation set_update_subset_insert [of "butlast (pe g)" e "last (pe g)"]
    by (auto simp: swap_remove_def dest: in_set_butlastD)
  moreover obtain g' where "pg_remove_edge pg e g = (g', True)" "pn g' = pn g" "pe g' = swap_remove e (pe g)"
    using assms True unfolding petgraph_ok_def by metis
  ultimately show ?thesis by (simp add: ends_mono)
next
  case False
  then have "pg_remove_edge pg e g = (g, False)" using assms unfolding petgraph_ok_def by metis
  then show ?thesis by simp
qed

lemma remove_edges_keeps:
  assumes "petgraph_ok pg pn pe"
  shows "pn (remove_edges pg es g) = pn g \<and> ends (pe (remove_edges pg es g)) \<subseteq> ends (pe g)"
proof (induction es arbitrary: g)
  case (Cons e es)
  from Cons [of "fst (pg_remove_edge pg e g)"] petgraph_remove_edge [OF assms, of e g]
  show ?case by (auto simp: remove_edges_def)
qed (simp add: remove_edges_def)

lemma ends_edge_refs: "(a, b) \<in> ends es \<longleftrightarrow> (\<exists>r \<in> set (edge_refs es). er_source r = a \<and> er_target r = b)"
proof -
  have "set es = snd ` set (enumerate 0 es)" by (metis list.set_map map_snd_enumerate)
  then show ?thesis by (force simp: ends_def edge_refs_def)
qed

lemma indices_new: "petgraph_ok pg pn pe \<Longrightarrow> indices_agree pn pe (dependency_graph_new pg)"
  by (simp add: indices_agree_def dependency_graph_new_def petgraph_ok_def ends_def hm_wf_def hm_get_def)

lemma indices_add:
  assumes ok: "petgraph_ok pg pn pe" and d: "indices_agree pn pe d"
  shows "indices_agree pn pe (fst (graph_add_mount pg m d))"
proof (cases "hm_contains_key (dg_mounts d) (mc_id m)")
  case True
  with d show ?thesis by (simp add: graph_add_mount_def)
next
  case False
  obtain g' where g: "pg_add_node pg (dg_graph d) = (g', pn (dg_graph d))" "pn g' = Suc (pn (dg_graph d))"
    "pe g' = pe (dg_graph d)"
    using petgraph_add_node [OF ok] by blast
  have new: "hm_get (dg_mounts d) (mc_id m) = None" "hm_get (dg_reverse_index d) (pn (dg_graph d)) = None"
    using False d by (auto simp: hm_contains_key_def indices_agree_def)
  then have unnamed: "hm_get (dg_reverse_index d) i \<noteq> Some (mc_id m)" for i
    using d by (metis indices_agree_def option.distinct(1))
  have "hm_get (hm_insert (mc_id m) (pn (dg_graph d)) (dg_mounts d)) k = Some i
      \<longleftrightarrow> hm_get (hm_insert (pn (dg_graph d)) (mc_id m) (dg_reverse_index d)) i = Some k" for k i
    using d new unnamed by (auto simp: indices_agree_def hm.get_insert)
  moreover have "hm_get (hm_insert (pn (dg_graph d)) (mc_id m) (dg_reverse_index d)) i \<noteq> None
      \<longleftrightarrow> i < Suc (pn (dg_graph d))" for i
    using d by (auto simp: indices_agree_def hm.get_insert less_Suc_eq)
  moreover have "{0..<pn (dg_graph d)} \<times> {0..<pn (dg_graph d)} \<subseteq> {0..<pn g'} \<times> {0..<pn g'}"
    using g by auto
  ultimately show ?thesis
    using d False g by (auto simp: indices_agree_def graph_add_mount_def Let_def hm.wf_insert)
qed

lemma node_indices_of_Inr:
  "node_indices_of a b d = Inr (i, j) \<longleftrightarrow> hm_get (dg_mounts d) a = Some i \<and> hm_get (dg_mounts d) b = Some j"
  by (auto simp: node_indices_of_def fuji_res)

lemma indices_bound: "indices_agree pn pe d \<Longrightarrow> hm_get (dg_mounts d) a = Some i \<Longrightarrow> i < pn (dg_graph d)"
  by (metis indices_agree_def option.distinct(1))

lemma index_named: "indices_agree pn pe d \<Longrightarrow> i < pn (dg_graph d) \<Longrightarrow> \<exists>a. hm_get (dg_reverse_index d) i = Some a"
  by (metis indices_agree_def not_None_eq)

lemma indices_dependency:
  assumes ok: "petgraph_ok pg pn pe" and d: "indices_agree pn pe d"
  shows "indices_agree pn pe (fst (add_dependency pg a b t md d))" (is ?keep)
    and "snd (add_dependency pg a b t md d) \<noteq> Panicked" (is ?returns)
proof -
  have "?keep \<and> ?returns"
  proof (cases "node_indices_of a b d")
    case (Inl e)
    with d show ?thesis by (simp add: add_dependency_def)
  next
    case (Inr ij)
    obtain i j where ij: "ij = (i, j)" by force
    let ?w = "\<lparr> de_dependency_type = t, de_metadata = (case md of Some md \<Rightarrow> md | None \<Rightarrow> []) \<rparr>"
    from Inr ij have b: "i < pn (dg_graph d)" "j < pn (dg_graph d)"
      using indices_bound [OF d] by (auto simp: node_indices_of_Inr)
    from petgraph_add_edge(1) [OF ok b(2,1), of ?w] obtain g' where
      g: "pg_add_edge pg j i ?w (dg_graph d) = Returned g'" "pn g' = pn (dg_graph d)"
        "pe g' = pe (dg_graph d) @ [(j, i, ?w)]" by blast
    then have "add_dependency pg a b t md d = (d\<lparr>dg_graph := g'\<rparr>, Returned (Inr ()))"
      using Inr ij by (simp add: add_dependency_def Let_def)
    with d g b show ?thesis by (auto simp: indices_agree_def ends_def)
  qed
  then show ?keep and ?returns by auto
qed

lemma indices_undependency:
  assumes ok: "petgraph_ok pg pn pe" and d: "indices_agree pn pe d"
  shows "indices_agree pn pe (fst (remove_dependency pg a b d))"
proof (cases "node_indices_of a b d")
  case (Inr ij)
  obtain i j where "ij = (i, j)" by force
  with Inr d remove_edges_keeps [OF ok] show ?thesis
    by (fastforce simp: remove_dependency_def Let_def indices_agree_def)
qed (use d in \<open>simp add: remove_dependency_def\<close>)

lemma built_indices: "built pg d \<Longrightarrow> petgraph_ok pg pn pe \<Longrightarrow> indices_agree pn pe d"
  by (induction rule: built.induct)
    (simp_all add: indices_new indices_add indices_dependency indices_undependency)

section \<open>Sequences\<close>

lemma in_order_map_filter:
  assumes "in_order xs a b" "f a = Some x" "f b = Some y"
  shows "in_order (List.map_filter f xs) x y"
proof -
  from assms(1) obtain us vs ws where "xs = us @ a # vs @ b # ws" unfolding in_order_def by blast
  with assms(2,3) have "List.map_filter f xs
      = List.map_filter f us @ x # List.map_filter f vs @ y # List.map_filter f ws"
    by (simp add: map_filter_def)
  then show ?thesis unfolding in_order_def by blast
qed

lemma in_order_prefix: "distinct xs \<Longrightarrow> xs = us @ b # ws \<Longrightarrow> in_order xs a b \<Longrightarrow> a \<in> set us"
proof -
  assume d: "distinct xs" and xs: "xs = us @ b # ws" and "in_order xs a b"
  then obtain us' vs' ws' where "us @ b # ws = (us' @ a # vs') @ b # ws'" unfolding in_order_def by auto
  then have "us = us' @ a # vs'" using d xs by (metis append_Cons_eq_iff distinct_append not_distinct_conv_prefix
        distinct.simps(2) disjoint_iff)
  then show "a \<in> set us" by simp
qed

lemma node_of_get:
  assumes "hm_wf names" "hm_get names i = Some m" "\<And>j. hm_get names j = Some m \<Longrightarrow> j = i"
  shows "node_of names m = Some i"
proof -
  from assms(2) have "(i, m) \<in> set names" by (auto simp: hm_get_def dest: map_of_SomeD)
  then have "find (\<lambda>(_, m'). m' = m) names \<noteq> None" by (auto simp: find_None_iff)
  then obtain j m' where f: "find (\<lambda>(_, m'). m' = m) names = Some (j, m')" by auto
  then have "(j, m) \<in> set names" and "m' = m" by (auto simp: find_Some_iff) (metis nth_mem)
  moreover have "hm_get names j = Some m"
    using assms(1) \<open>(j, m) \<in> set names\<close> by (simp add: hm_wf_def hm_get_def)
  ultimately show ?thesis using f assms(3) by (simp add: node_of_def)
qed

lemma groups_singletons:
  assumes "\<And>i m. hm_get names i = Some m \<Longrightarrow> node_of names m = Some i"
    and "\<And>m. m \<in> set ms \<Longrightarrow> \<exists>i. hm_get names i = Some m"
    and "\<And>us m ws i e. ms = us @ m # ws \<Longrightarrow> hm_get names i = Some m \<Longrightarrow> e \<in> set (pg_incoming pg g i) \<Longrightarrow>
           name_or_unknown names (er_source e) \<in> set us \<union> set processed"
    and "distinct ms" "set ms \<inter> set processed = {}"
  shows "parallel_groups_from pg g names processed ms = map (\<lambda>m. [m]) ms"
  using assms
proof (induction ms arbitrary: processed)
  case (Cons m ms)
  from Cons.prems(2) obtain i where i: "hm_get names i = Some m" by auto
  have "name_or_unknown names (er_source e) \<in> set processed" if "e \<in> set (pg_incoming pg g i)" for e
    using Cons.prems(3) [of "[]", OF _ i that] by simp
  then have "check_ids pg g names processed [] True [m] = (m # processed, [m], True)"
    using Cons.prems(5) Cons.prems(1) [OF i] by (auto simp: list_ex_iff)
  moreover have "parallel_groups_from pg g names (m # processed) ms = map (\<lambda>m. [m]) ms"
  proof (rule Cons.IH)
    show "name_or_unknown names (er_source e) \<in> set us \<union> set (m # processed)"
      if "ms = us @ m' # ws" "hm_get names j = Some m'" "e \<in> set (pg_incoming pg g j)" for us m' ws j e
      using Cons.prems(3) [of "m # us", OF _ that(2,3)] that(1) by auto
  qed (use Cons.prems in auto)
  ultimately show ?case using Cons.prems(5) by simp
qed simp

text \<open>The names of the nodes, in the order of the graph.\<close>

lemma sorted_names:
  assumes ok: "petgraph_ok pg pn pe" and d: "indices_agree pn pe d"
    and sorted: "pg_toposort pg (dg_graph d) = Some xs"
  shows "distinct (List.map_filter (hm_get (dg_reverse_index d)) xs)"
    and "set (List.map_filter (hm_get (dg_reverse_index d)) xs) = dom (hm_get (dg_mounts d))"
    and "(i, j) \<in> ends (pe (dg_graph d)) \<Longrightarrow> hm_get (dg_reverse_index d) i = Some a \<Longrightarrow>
         hm_get (dg_reverse_index d) j = Some b \<Longrightarrow> in_order (List.map_filter (hm_get (dg_reverse_index d)) xs) a b"
proof -
  note topo = petgraph_toposort(1) [OF ok sorted]
  have named: "\<exists>m. hm_get (dg_reverse_index d) i = Some m" if "i \<in> set xs" for i
    using d topo that by (auto simp: indices_agree_def)
  have "inj_on (\<lambda>i. the (hm_get (dg_reverse_index d) i)) (set xs)"
  proof (rule inj_onI)
    fix i j assume "i \<in> set xs" "j \<in> set xs"
      and "the (hm_get (dg_reverse_index d) i) = the (hm_get (dg_reverse_index d) j)"
    with named show "i = j" using d unfolding indices_agree_def by (metis option.sel)
  qed
  moreover have "List.map_filter (hm_get (dg_reverse_index d)) xs = map (\<lambda>i. the (hm_get (dg_reverse_index d) i)) xs"
    using named by (induction xs) (auto simp: map_filter_def)
  ultimately show "distinct (List.map_filter (hm_get (dg_reverse_index d)) xs)"
    using topo by (simp add: distinct_map)
  show "set (List.map_filter (hm_get (dg_reverse_index d)) xs) = dom (hm_get (dg_mounts d))"
  proof
    show "set (List.map_filter (hm_get (dg_reverse_index d)) xs) \<subseteq> dom (hm_get (dg_mounts d))"
      using d by (auto simp: map_filter_def indices_agree_def)
    show "dom (hm_get (dg_mounts d)) \<subseteq> set (List.map_filter (hm_get (dg_reverse_index d)) xs)"
    proof
      fix m assume "m \<in> dom (hm_get (dg_mounts d))"
      then obtain i where "hm_get (dg_mounts d) m = Some i" by auto
      then have "hm_get (dg_reverse_index d) i = Some m" "i < pn (dg_graph d)"
        using d indices_bound [OF d] by (auto simp: indices_agree_def)
      then show "m \<in> set (List.map_filter (hm_get (dg_reverse_index d)) xs)"
        using topo by (force simp: map_filter_def)
    qed
  qed
  show "in_order (List.map_filter (hm_get (dg_reverse_index d)) xs) a b"
    if "(i, j) \<in> ends (pe (dg_graph d))" "hm_get (dg_reverse_index d) i = Some a" "hm_get (dg_reverse_index d) j = Some b"
    using that d topo by (intro in_order_map_filter) (auto simp: indices_agree_def)
qed

lemma incoming_named:
  assumes ok: "petgraph_ok pg pn pe" and d: "indices_agree pn pe d" and e: "e \<in> set (pg_incoming pg (dg_graph d) j)"
  shows "\<exists>a. (er_source e, j) \<in> ends (pe (dg_graph d)) \<and> hm_get (dg_reverse_index d) (er_source e) = Some a
    \<and> name_or_unknown (dg_reverse_index d) (er_source e) = a"
proof -
  have edge: "(er_source e, j) \<in> ends (pe (dg_graph d))"
    using e petgraph_views(1) [OF ok] ends_edge_refs by fastforce
  then have "er_source e < pn (dg_graph d)" using d by (auto simp: indices_agree_def)
  then obtain a where "hm_get (dg_reverse_index d) (er_source e) = Some a"
    using index_named [OF d] by blast
  with edge show ?thesis by (simp add: name_or_unknown_def)
qed


definition named_mount :: "string \<Rightarrow> mount_config" where
  "named_mount i = (mount_config_new (\<lambda>_. None) 0 ''u'' (Nfs ''h'' ''/s'' []) ''/m'')\<lparr>mc_id := i\<rparr>"

definition graph_of :: "string list \<Rightarrow> (string \<times> string) list \<Rightarrow> list_graph dependency_graph" where
  "graph_of ms deps =
     fold (\<lambda>(a, b) d. fst (add_dependency list_petgraph a b Hard None d)) deps
       (fold (\<lambda>m d. fst (graph_add_mount list_petgraph (named_mount m) d)) ms
         (dependency_graph_new list_petgraph))"

lemma graph_of_built: "built list_petgraph (graph_of ms deps)"
proof -
  have "built list_petgraph (fold (\<lambda>m d. fst (graph_add_mount list_petgraph (named_mount m) d)) ms d)"
    if "built list_petgraph d" for d
    using that by (induction ms arbitrary: d) (auto intro: built_add)
  moreover have "built list_petgraph (fold (\<lambda>(a, b) d. fst (add_dependency list_petgraph a b Hard None d)) deps d)"
    if "built list_petgraph d" for d
    using that by (induction deps arbitrary: d) (auto intro: built_dependency)
  ultimately show ?thesis by (simp add: graph_of_def built_new)
qed

lemmas graph_eval =
  graph_of_def dependency_graph_new_def list_petgraph_def graph_add_mount_def add_dependency_def
  named_mount_def mount_config_new_def node_indices_of_def dependency_type_default_def edge_refs_def ends_def


section \<open>Removing a mount\<close>

text \<open>removing a mount gives its number to the last one, whose entry is not changed: the last mount
  stays known to the graph, but it is left out of every startup sequence, and a new dependency of it
  panics.\<close>

theorem removal_detaches_last_mount:
  assumes "petgraph_ok pg pn pe" "built pg d"
    and "hm_get (dg_mounts d) x = Some i" "hm_get (dg_mounts d) y = Some j" "Suc j = pn (dg_graph d)" "x \<noteq> y"
  shows "case graph_remove_mount pg x d of d' \<Rightarrow>
    hm_get (dg_mounts d') y = Some j
    \<and> (\<forall>s. get_startup_sequence pg d' = Inr s \<longrightarrow> y \<notin> set (sq_mounts s))
    \<and> (\<forall>z t md. hm_get (dg_mounts d') z \<noteq> None \<longrightarrow> snd (add_dependency pg y z t md d') = Panicked)"
proof -
  note d = built_indices [OF assms(2,1)]
  have i: "i < pn (dg_graph d)" by (rule indices_bound [OF d assms(3)])
  with assms(1) obtain g' where g: "pg_remove_node pg i (dg_graph d) = (g', True)" "Suc (pn g') = pn (dg_graph d)"
    unfolding petgraph_ok_def by metis
  let ?d' = "\<lparr> dg_graph = g', dg_mounts = hm_remove x (dg_mounts d), dg_reverse_index = hm_remove i (dg_reverse_index d) \<rparr>"
  have removed: "graph_remove_mount pg x d = ?d'"
    by (simp add: graph_remove_mount_def assms(3) g)
  have get_rem: "hm_get (hm_remove k m) k' = (if k' = k then None else hm_get m k')" for k k' :: 'k and m :: "('k, 'v) hashmap"
    by (simp add: hm_get_def hm_remove_def delete_conv)
  have known: "hm_get (dg_mounts ?d') y = Some j" using assms(4,6) by (simp add: hm_get_def hm_remove_def delete_conv)
  have "y \<notin> set (sq_mounts s)" if "get_startup_sequence pg ?d' = Inr s" for s
  proof
    assume "y \<in> set (sq_mounts s)"
    with that obtain xs n where n: "pg_toposort pg g' = Some xs" "n \<in> set xs"
      "hm_get (hm_remove i (dg_reverse_index d)) n = Some y"
      by (auto simp: get_startup_sequence_def Let_def map_filter_def split: option.splits)
    then have "hm_get (dg_reverse_index d) n = Some y"
      by (auto simp: hm_get_def hm_remove_def delete_conv split: if_splits)
    then have "n = j" using d assms(4) unfolding indices_agree_def by (metis option.sel)
    moreover have "n < pn g'" using petgraph_toposort(1) [OF assms(1) n(1)] n(2) by auto
    ultimately show False using g(2) assms(5) by simp
  qed
  moreover have "snd (add_dependency pg y z t md ?d') = Panicked" if "hm_get (dg_mounts ?d') z \<noteq> None" for z t md
  proof -
    from that obtain k where k: "hm_get (dg_mounts ?d') z = Some k" by blast
    have "\<not> (k < pn g' \<and> j < pn g')" using g(2) assms(5) by simp
    from petgraph_add_edge(2) [OF assms(1) this] known k show ?thesis
      by (simp add: add_dependency_def node_indices_of_def)
  qed
  ultimately show ?thesis using known by (simp only: removed) simp
qed

theorem removal_detaches_last_mount_witness:
  "snd (add_dependency list_petgraph ''c'' ''b'' Hard None
     (graph_remove_mount list_petgraph ''a'' (graph_of [''a'', ''b'', ''c''] []))) = Panicked"
proof -
  let ?d = "graph_of [''a'', ''b'', ''c''] []"
  have "hm_get (dg_mounts ?d) ''a'' = Some 0" "hm_get (dg_mounts ?d) ''c'' = Some 2" "Suc 2 = fst (dg_graph ?d)"
    by (simp_all add: graph_eval fuji_eval)
  from removal_detaches_last_mount [OF list_petgraph_ok graph_of_built this]
  have gone: "hm_get (dg_mounts (graph_remove_mount list_petgraph ''a'' ?d)) z \<noteq> None \<Longrightarrow>
    snd (add_dependency list_petgraph ''c'' z Hard None (graph_remove_mount list_petgraph ''a'' ?d)) = Panicked" for z
    by simp
  show ?thesis by (rule gone) (simp add: graph_remove_mount_def graph_eval fuji_eval)
qed

section \<open>Cycles\<close>

text \<open>A search of the neighbours does what every search from one of them does.\<close>

lemma dfs_neighbors_returns:
  assumes "finite N"
    and "\<And>node visited stack. node \<in> N \<Longrightarrow> card (N - set visited) < fuel \<Longrightarrow>
      \<exists>v s c. dfs_find_cycle fuel pg g names node visited stack = Some (v, s, c) \<and> set visited \<subseteq> set v"
  shows "set ns \<subseteq> N \<Longrightarrow> card (N - set visited) < fuel \<Longrightarrow>
      \<exists>v s c. dfs_neighbors fuel pg g names ns visited stack = Some (v, s, c) \<and> set visited \<subseteq> set v"
proof (induction ns arbitrary: visited stack)
  case (Cons n ns)
  obtain v s c where one: "dfs_find_cycle fuel pg g names n visited stack = Some (v, s, c)" "set visited \<subseteq> set v"
    using assms(2) [of n visited stack] Cons.prems by auto
  have "card (N - set v) \<le> card (N - set visited)" using one(2) assms(1) by (intro card_mono) auto
  with Cons.IH [of v s] Cons.prems one(2)
  have "\<exists>v' s' c'. dfs_neighbors fuel pg g names ns v s = Some (v', s', c') \<and> set visited \<subseteq> set v'" by fastforce
  with one show ?case by (cases c) auto
qed simp

lemma dfs_enough_fuel:
  assumes "finite N" "\<And>n. set (pg_neighbors pg g n) \<subseteq> N"
  shows "node \<in> N \<Longrightarrow> card (N - set visited) < fuel \<Longrightarrow>
      \<exists>v s c. dfs_find_cycle fuel pg g names node visited stack = Some (v, s, c) \<and> set visited \<subseteq> set v"
proof (induction fuel arbitrary: node visited stack)
  case (Suc fuel)
  show ?case
  proof (cases "length stack > 1000 \<or> node \<in> set visited")
    case False
    have "card (N - set (node # visited)) < card (N - set visited)"
      using Suc.prems(1) False assms(1) by (intro psubset_card_mono) auto
    then have "card (N - set (node # visited)) < fuel" using Suc.prems(2) by simp
    from dfs_neighbors_returns [OF assms(1) Suc.IH assms(2) this]
    obtain v s c where "dfs_neighbors fuel pg g names (pg_neighbors pg g node) (node # visited)
        (case hm_get names node of Some m \<Rightarrow> stack @ [m] | None \<Rightarrow> stack) = Some (v, s, c)"
      "set (node # visited) \<subseteq> set v" by blast
    with False show ?thesis by (cases c) auto
  qed auto
qed simp

lemma cycles_enough_fuel:
  assumes "finite N" "\<And>n. set (pg_neighbors pg g n) \<subseteq> N" "card N < fuel"
  shows "set nodes \<subseteq> N \<Longrightarrow> cycles_from fuel pg g names nodes visited stack \<noteq> None"
proof (induction nodes arbitrary: visited stack)
  case (Cons n ns)
  have "card (N - set visited) < fuel"
    using card_mono [of N "N - set visited"] assms(1,3) by (meson Diff_subset le_less_trans)
  then obtain v s c where "dfs_find_cycle fuel pg g names n visited stack = Some (v, s, c)"
    using dfs_enough_fuel [OF assms(1,2)] Cons.prems by (meson list.set_intros(1) subsetD)
  with Cons show ?case by auto
qed simp

text \<open>A stack that names a path of the graph.\<close>

definition stack_path :: "(node_index \<times> node_index) set \<Rightarrow> (node_index, string) hashmap \<Rightarrow> node_index list \<Rightarrow> string list \<Rightarrow> bool" where
  "stack_path E names path stack \<longleftrightarrow>
     successively (\<lambda>a b. (a, b) \<in> E) path \<and> map Some stack = map (hm_get names) path"

lemma path_reaches_last:
  "successively (\<lambda>a b. (a, b) \<in> E) path \<Longrightarrow> x \<in> set path \<Longrightarrow> (x, last path) \<in> E\<^sup>*"
proof (induction path arbitrary: x)
  case (Cons a path)
  show ?case
  proof (cases "path = []")
    case False
    then have a: "(a, hd path) \<in> E" "successively (\<lambda>a b. (a, b) \<in> E) path"
      using Cons.prems(1) by (auto simp: successively_Cons)
    have "(y, last path) \<in> E\<^sup>*" if "y \<in> set path" for y by (rule Cons.IH [OF a(2) that])
    with a(1) False Cons.prems(2) show ?thesis by (auto intro: converse_rtrancl_into_rtrancl)
  qed (use Cons.prems in simp)
qed simp

lemma slice_from_None: "slice_from m xs = None \<longleftrightarrow> m \<notin> set xs"
  by (induction xs) auto

text \<open>In a graph without cycles a search finds none and leaves the stack as it was.\<close>

lemma acyclic_dfs:
  assumes "acyclic E" "\<And>n. set (pg_neighbors pg g n) = {b. (n, b) \<in> E}"
    and inj: "\<And>i j m. hm_get names i = Some m \<Longrightarrow> hm_get names j = Some m \<Longrightarrow> i = j"
    and named: "\<And>a b. (a, b) \<in> E \<Longrightarrow> hm_get names b \<noteq> None"
  shows "dfs_find_cycle fuel pg g names node visited stack = Some (v, s, c) \<Longrightarrow> stack_path E names path stack \<Longrightarrow>
      hm_get names node \<noteq> None \<Longrightarrow> (path \<noteq> [] \<Longrightarrow> (last path, node) \<in> E) \<Longrightarrow> c = None \<and> s = stack"
proof (induction fuel arbitrary: node visited stack v s c path)
  case (Suc fuel)
  from Suc.prems(3) obtain m where m: "hm_get names node = Some m" by blast
  have fresh: "m \<notin> set stack"
  proof
    assume "m \<in> set stack"
    then have "Some m \<in> set (map Some stack)" by simp
    with Suc.prems(2) obtain x where "x \<in> set path" "hm_get names x = Some m"
      unfolding stack_path_def by (metis (mono_tags, lifting) imageE list.set_map)
    then have x: "node \<in> set path" using inj m by blast
    then have "(node, last path) \<in> E\<^sup>*" "(last path, node) \<in> E"
      using Suc.prems(2,4) path_reaches_last unfolding stack_path_def by fastforce+
    with assms(1) show False by (meson acyclic_def rtrancl_into_trancl1)
  qed
  show ?case
  proof (cases "length stack > 1000 \<or> node \<in> set visited")
    case True
    with Suc.prems(1) fresh m show ?thesis by (auto simp: slice_from_None [THEN iffD2] split: if_splits)
  next
    case False
    let ?path = "path @ [node]" and ?stack = "stack @ [m]"
    have path: "stack_path E names ?path ?stack"
      using Suc.prems(2,4) m by (auto simp: stack_path_def successively_append_iff)
    have "c' = None \<and> s' = ?stack"
      if "dfs_neighbors fuel pg g names ns vis ?stack = Some (v', s', c')" "set ns \<subseteq> {b. (node, b) \<in> E}"
      for ns vis v' s' c'
      using that
    proof (induction ns arbitrary: vis)
      case (Cons n ns)
      from Cons.prems(1) obtain v1 s1 c1 where one: "dfs_find_cycle fuel pg g names n vis ?stack = Some (v1, s1, c1)"
        by (auto split: option.splits)
      then have "c1 = None \<and> s1 = ?stack"
        using Suc.IH [OF one path] named Cons.prems(2) by auto
      with one Cons show ?case by simp
    qed simp
    then show ?thesis
      using Suc.prems(1) False m assms(2) by (fastforce simp: Let_def split: option.splits prod.splits)
  qed
qed simp

lemma acyclic_cycles:
  assumes "acyclic E" "\<And>n. set (pg_neighbors pg g n) = {b. (n, b) \<in> E}"
    and "\<And>i j m. hm_get names i = Some m \<Longrightarrow> hm_get names j = Some m \<Longrightarrow> i = j"
    and "\<And>a b. (a, b) \<in> E \<Longrightarrow> hm_get names b \<noteq> None"
  shows "cycles_from fuel pg g names nodes visited [] = Some cs \<Longrightarrow>
    (\<And>n. n \<in> set nodes \<Longrightarrow> hm_get names n \<noteq> None) \<Longrightarrow> cs = []"
proof (induction nodes arbitrary: visited cs)
  case (Cons n ns)
  show ?case
  proof (cases "n \<in> set visited")
    case False
    with Cons.prems(1) obtain v s c where one: "dfs_find_cycle fuel pg g names n visited [] = Some (v, s, c)"
      by (auto split: option.splits)
    have "c = None \<and> s = []"
      by (rule acyclic_dfs [OF assms one, where path = "[]"]) (use Cons.prems(2) in \<open>auto simp: stack_path_def\<close>)
    with Cons one False show ?thesis by auto
  qed (use Cons in auto)
qed simp

text \<open>the search for cycles ends, and reports nothing for a graph without cycles.\<close>

theorem cycle_search_ends:
  assumes "petgraph_ok pg pn pe" "built pg d"
  shows "\<exists>cs. check_circular_dependencies pg d = Some cs \<and> (acyclic (ends (pe (dg_graph d))) \<longrightarrow> cs = [])"
proof -
  let ?E = "ends (pe (dg_graph d))" and ?n = "pn (dg_graph d)"
  note d = built_indices [OF assms(2,1)]
  note views = petgraph_views [OF assms(1)]
  have bound: "set (pg_neighbors pg (dg_graph d) i) \<subseteq> {0..<?n}" for i
    using d by (auto simp: views indices_agree_def)
  have "cycles_from (Suc ?n) pg (dg_graph d) (dg_reverse_index d) [0..<?n] [] [] \<noteq> None"
    by (rule cycles_enough_fuel [where N = "{0..<?n}"]) (use bound in auto)
  then obtain cs where cs: "cycles_from (Suc ?n) pg (dg_graph d) (dg_reverse_index d) [0..<?n] [] [] = Some cs"
    by blast
  have "cs = []" if "acyclic ?E"
  proof (rule acyclic_cycles [OF that _ _ _ cs])
    show "i = j" if "hm_get (dg_reverse_index d) i = Some m" "hm_get (dg_reverse_index d) j = Some m" for i j m
      using d that unfolding indices_agree_def by (metis option.sel)
    show "hm_get (dg_reverse_index d) b \<noteq> None" if "(a, b) \<in> ?E" for a b
      using d that by (auto simp: indices_agree_def)
    show "hm_get (dg_reverse_index d) n \<noteq> None" if "n \<in> set [0..<?n]" for n
      using index_named [OF d] that by auto
  qed (simp add: views)
  with cs show ?thesis by (simp add: check_circular_dependencies_def views Let_def)
qed

theorem cycle_search_ends_witness:
  "\<exists>cs. check_circular_dependencies list_petgraph (graph_of [''a'', ''b''] [(''a'', ''b'')]) = Some cs"
  using cycle_search_ends [OF list_petgraph_ok graph_of_built] by blast

text \<open>the stack of a search that found a cycle is kept for the next one: a mount that only depends
  on a cycle, and lies on none, is reported as part of one.\<close>

theorem false_cycle_reported:
  "check_circular_dependencies list_petgraph
     (graph_of [''a'', ''b'', ''c''] [(''a'', ''b''), (''b'', ''a''), (''a'', ''c'')])
   = Some [[''a'', ''b''], [''a'', ''b'', ''c'']]"
  by (simp add: check_circular_dependencies_def graph_eval fuji_eval upt_rec Let_def)

end
