(* ===== verification/Monitoring_Manager.thy ===== *)
theory Monitoring_Manager
  imports Health_Monitor Dependency_Graph Retry
begin

text \<open>
  \<open>src/monitoring/mod.rs\<close>: the manager of the monitoring, its scheduler, and what holds in every
  state that a sequence of its calls, of jobs of the cron library and of cleanups can reach.
\<close>

section \<open>The manager\<close>

record ('j, 'g) manager =
  mm_scheduler :: "'j scheduler"
  mm_retry_handler :: retry_handler
  mm_dependency_graph :: "'g dependency_graph"
  mm_mounts :: "mount_config list"
  mm_running :: bool

definition manager_new :: "'g petgraph \<Rightarrow> ('j, 'g) manager" where
  "manager_new pg =
     \<lparr> mm_scheduler = scheduler_new, mm_retry_handler = retry_handler_new,
       mm_dependency_graph = dependency_graph_new pg, mm_mounts = [], mm_running = False \<rparr>"

definition manager_start :: "'j cron_api \<Rightarrow> ('j, 'g) manager \<Rightarrow> ('j, 'g) manager \<times> (scheduler_error + unit)" where
  "manager_start api mm =
     (if mm_running mm then (mm, Inr ())
      else case scheduler_start api (mm_scheduler mm) of
             (s, Inl e) \<Rightarrow> (mm\<lparr>mm_scheduler := s\<rparr>, Inl e)
           | (s, Inr _) \<Rightarrow> (mm\<lparr>mm_scheduler := s, mm_running := True\<rparr>, Inr ()))"

definition manager_stop :: "'j cron_api \<Rightarrow> ('j, 'g) manager \<Rightarrow> ('j, 'g) manager \<times> (scheduler_error + unit)" where
  "manager_stop api mm =
     (if \<not> mm_running mm then (mm, Inr ())
      else case scheduler_stop api (mm_scheduler mm) of
             (s, Inl e) \<Rightarrow> (mm\<lparr>mm_scheduler := s\<rparr>, Inl e)
           | (s, Inr _) \<Rightarrow> (mm\<lparr>mm_scheduler := s, mm_running := False\<rparr>, Inr ()))"

text \<open>What \<open>validate_dependencies\<close> finds is not looked at.\<close>

definition manager_add_mount ::
    "'j cron_api \<Rightarrow> mount_config \<Rightarrow> ('j, 'g) manager \<Rightarrow> ('j, 'g) manager \<times> (scheduler_error + unit)" where
  "manager_add_mount api m mm =
     (let validation = validate_dependencies m
      in case register_health_checks api m (mm_scheduler mm) of
           (s, Inl e) \<Rightarrow> (mm\<lparr>mm_scheduler := s\<rparr>, Inl e)
         | (s, Inr _) \<Rightarrow> (mm\<lparr>mm_scheduler := s, mm_mounts := mm_mounts mm @ [m]\<rparr>, Inr ()))"

definition manager_remove_mount :: "'j cron_api \<Rightarrow> string \<Rightarrow> ('j, 'g) manager \<Rightarrow> ('j, 'g) manager" where
  "manager_remove_mount api mount_id mm =
     mm\<lparr>mm_scheduler := unregister_health_checks api mount_id (mm_scheduler mm),
        mm_mounts := filter (\<lambda>m. mc_id m \<noteq> mount_id) (mm_mounts mm)\<rparr>"

definition missing_status :: "(scheduler_error \<Rightarrow> string) \<Rightarrow> instant \<Rightarrow> string \<Rightarrow> scheduler_error \<Rightarrow> health_status" where
  "missing_status show_error now mount_id e =
     \<lparr> hs_mount_id = mount_id, hs_status = Health_Failed, hs_last_check = now, hs_failure_count = 0,
       hs_last_error = Some (show_error e), hs_health_score = 0 \<rparr>"

definition manager_get_all_health_status ::
    "(scheduler_error \<Rightarrow> string) \<Rightarrow> (mount_config \<Rightarrow> instant) \<Rightarrow> ('j, 'g) manager \<Rightarrow> health_status list" where
  "manager_get_all_health_status show_error clock mm =
     map (\<lambda>m. case get_health_status (mc_id m) (mm_scheduler mm) of
                Inr status \<Rightarrow> status | Inl e \<Rightarrow> missing_status show_error (clock m) (mc_id m) e)
       (mm_mounts mm)"

definition manager_get_health_status :: "string \<Rightarrow> ('j, 'g) manager \<Rightarrow> scheduler_error + health_status" where
  "manager_get_health_status mount_id mm = get_health_status mount_id (mm_scheduler mm)"

definition manager_trigger ::
    "(health_error \<Rightarrow> string) \<Rightarrow> (nat \<Rightarrow> health_env) \<Rightarrow> instant \<Rightarrow> string \<Rightarrow> ('j, 'g) manager \<Rightarrow>
     ('j, 'g) manager \<times> (scheduler_error + health_status) outcome" where
  "manager_trigger show_error envs now mount_id mm =
     (case trigger_health_check show_error envs now mount_id (mm_scheduler mm) of
        (s, r) \<Rightarrow> (mm\<lparr>mm_scheduler := s\<rparr>, r))"

section \<open>Histories\<close>

text \<open>The calls of the manager, the jobs (with work that an earlier \<open>job_begin\<close> handed out) and the
  cleanups.  The argument says what becomes of a shutdown.\<close>

inductive managed :: "bool \<Rightarrow> ('j, 'g) manager \<Rightarrow> bool" for clean where
  managed_new: "managed clean (manager_new pg)"
| managed_start: "managed clean mm \<Longrightarrow> managed clean (fst (manager_start api mm))"
| managed_stop: "managed clean mm \<Longrightarrow> (\<And>j. clean \<Longrightarrow> cr_shutdown api j = Inr ()) \<Longrightarrow>
    managed clean (fst (manager_stop api mm))"
| managed_add: "managed clean mm \<Longrightarrow> managed clean (fst (manager_add_mount api m mm))"
| managed_remove: "managed clean mm \<Longrightarrow> managed clean (manager_remove_mount api i mm)"
| managed_trigger: "managed clean mm \<Longrightarrow> managed clean (fst (manager_trigger se envs now i mm))"
| managed_job: "managed clean mm \<Longrightarrow>
    managed clean (mm\<lparr>mm_scheduler := job_end se envs now i work (mm_scheduler mm)\<rparr>)"
| managed_cleanup: "managed clean mm \<Longrightarrow>
    managed clean (mm\<lparr>mm_scheduler := cleanup_old_status_entries now (mm_scheduler mm)\<rparr>)"

lemma hm_contains_insert [simp]: "hm_contains_key (hm_insert k v m) k' \<longleftrightarrow> k' = k \<or> hm_contains_key m k'"
  by (auto simp: hm_contains_key_def hm.get_insert)

lemma hm_contains_remove [simp]: "hm_contains_key (hm_remove k m) k' \<longleftrightarrow> k' \<noteq> k \<and> hm_contains_key m k'"
  by (simp add: hm_contains_key_def hm_get_def hm_remove_def delete_conv)

text \<open>What registering and unregistering leave of the three maps and of the scheduler.\<close>

lemma schedule_fields:
  "case fst (schedule_health_check api i s) of s' \<Rightarrow>
     (hm_contains_key (sc_health_checks s') k \<longleftrightarrow> hm_contains_key (sc_health_checks s) k)
     \<and> sc_mount_configs s' = sc_mount_configs s \<and> sc_last_statuses s' = sc_last_statuses s
     \<and> (sc_scheduler s' = None \<longleftrightarrow> sc_scheduler s = None)"
  by (auto simp: schedule_health_check_def hm_contains_key_def hm.get_insert split: option.splits prod.splits sum.splits)

lemma schedule_ok:
  "snd (schedule_health_check api i s) = Inr u \<Longrightarrow> sc_scheduler s \<noteq> None"
  by (auto simp: schedule_health_check_def split: option.splits)

lemma register_fields:
  "case fst (register_health_checks api m s) of s' \<Rightarrow>
     (hm_contains_key (sc_health_checks s') k \<longleftrightarrow> k = mc_id m \<or> hm_contains_key (sc_health_checks s) k)
     \<and> (hm_contains_key (sc_mount_configs s') k \<longleftrightarrow> k = mc_id m \<or> hm_contains_key (sc_mount_configs s) k)
     \<and> sc_last_statuses s' = sc_last_statuses s \<and> (sc_scheduler s' = None \<longleftrightarrow> sc_scheduler s = None)"
  using schedule_fields [of api "mc_id m"] by (auto simp: register_health_checks_def Let_def)

lemma unregister_fields:
  "case unregister_health_checks api i s of s' \<Rightarrow>
     (hm_contains_key (sc_health_checks s') k \<longleftrightarrow> k \<noteq> i \<and> hm_contains_key (sc_health_checks s) k)
     \<and> (hm_contains_key (sc_mount_configs s') k \<longleftrightarrow> k \<noteq> i \<and> hm_contains_key (sc_mount_configs s) k)
     \<and> (hm_contains_key (sc_last_statuses s') k \<longleftrightarrow> k \<noteq> i \<and> hm_contains_key (sc_last_statuses s) k)
     \<and> (sc_scheduler s' = None \<longleftrightarrow> sc_scheduler s = None)"
  by (auto simp: unregister_health_checks_def unschedule_def Let_def hm_contains_key_def hm_get_def hm_remove_def
      delete_conv split: option.splits)

lemma trigger_state [simp]: "fst (trigger_health_check se envs now i s) = s"
  by (auto simp: trigger_health_check_def run_health_checks_def split: option.splits)

definition manager_consistent :: "bool \<Rightarrow> ('j, 'g) manager \<Rightarrow> bool" where
  "manager_consistent clean mm \<longleftrightarrow>
     list_all (\<lambda>m. hm_contains_key (sc_health_checks (mm_scheduler mm)) (mc_id m)
                 \<and> hm_contains_key (sc_mount_configs (mm_scheduler mm)) (mc_id m)) (mm_mounts mm)
     \<and> (sc_scheduler (mm_scheduler mm) \<noteq> None \<longrightarrow> mm_running mm)
     \<and> (clean \<longrightarrow> mm_running mm \<longrightarrow> sc_scheduler (mm_scheduler mm) \<noteq> None)"

lemma managed_consistent_shared: "managed clean mm \<Longrightarrow> manager_consistent clean mm"
proof (induction rule: managed.induct)
  case (managed_new pg)
  then show ?case by (simp add: manager_consistent_def manager_new_def scheduler_new_def)
next
  case (managed_start mm api)
  then show ?case
    by (auto simp: manager_consistent_def manager_start_def scheduler_start_def start_cleanup_task_def
        split: sum.splits)
next
  case (managed_stop mm api)
  then show ?case
    by (auto simp: manager_consistent_def manager_stop_def scheduler_stop_def split: option.splits sum.splits)
next
  case (managed_add mm api m)
  obtain s r where reg: "register_health_checks api m (mm_scheduler mm) = (s, r)" by force
  with register_fields [of api m "mm_scheduler mm"] managed_add.IH show ?case
    by (cases r) (auto simp: manager_consistent_def manager_add_mount_def Let_def list_all_iff)
next
  case (managed_remove mm api i)
  with unregister_fields [of api i "mm_scheduler mm"] show ?case
    by (auto simp: manager_consistent_def manager_remove_mount_def list_all_iff)
next
  case (managed_trigger mm se envs now i)
  then show ?case by (simp add: manager_consistent_def manager_trigger_def split_beta)
next
  case (managed_job mm se envs now i work)
  then show ?case by (simp add: manager_consistent_def job_end_def split_beta)
next
  case (managed_cleanup mm now)
  then show ?case by (simp add: manager_consistent_def cleanup_old_status_entries_def)
qed

section \<open>Jobs of the cron library\<close>

text \<open>The numbers of the jobs a cron scheduler runs: adding one takes a new number, removing one takes out
  that number alone, and a new scheduler has none.\<close>

definition cron_ok :: "'j cron_api \<Rightarrow> ('j \<Rightarrow> uuid set) \<Rightarrow> bool" where
  "cron_ok api jobs \<longleftrightarrow>
     (\<forall>j. cr_new api = Inr j \<longrightarrow> jobs j = {})
     \<and> (\<forall>interval i j j' n. cr_add api interval i j = (j', Inr n) \<longrightarrow> n \<notin> jobs j \<and> jobs j' = insert n (jobs j))
     \<and> (\<forall>n j. jobs (fst (cr_remove api n j)) = jobs j - {n})"

definition jobs_of :: "('j \<Rightarrow> uuid set) \<Rightarrow> 'j scheduler \<Rightarrow> uuid set" where
  "jobs_of jobs s = (case sc_scheduler s of None \<Rightarrow> {} | Some j \<Rightarrow> jobs j)"

lemma register_job:
  assumes "cron_ok api jobs" "register_health_checks api m s = (s', Inr u)"
  shows "\<exists>n job. n \<notin> jobs_of jobs s \<and> jobs_of jobs s' = insert n (jobs_of jobs s)
    \<and> hm_get (sc_health_checks s') (mc_id m) = Some job \<and> hj_job_id job = Some n"
  using assms
  by (auto simp: register_health_checks_def Let_def schedule_health_check_def cron_ok_def jobs_of_def hm.get_insert
      split: option.splits if_splits prod.splits sum.splits)

lemma unregister_job:
  assumes "cron_ok api jobs" "hm_get (sc_health_checks s) i = Some job" "hj_job_id job = Some n"
  shows "jobs_of jobs (unregister_health_checks api i s) = jobs_of jobs s - {n}"
  using assms
  by (auto simp: unregister_health_checks_def unschedule_def Let_def cron_ok_def jobs_of_def split: option.splits)

definition list_cron :: "uuid list cron_api" where
  "list_cron =
     \<lparr> cr_new = Inr [], cr_shutdown = (\<lambda>_. Inr ()), cr_valid = (\<lambda>_. True),
       cr_add = (\<lambda>_ _ j. let n = word_of_nat (length j)
                          in if n \<in> set j then (j, Inl ''no free number'') else (n # j, Inr n)),
       cr_remove = (\<lambda>n j. (filter (\<lambda>k. k \<noteq> n) j, Inr ())) \<rparr>"

lemma list_cron_ok: "cron_ok list_cron set"
  by (auto simp: cron_ok_def list_cron_def Let_def split: if_splits)

text \<open>in every state a monitored mount has its registered checks and its configuration, and a live
  scheduler means that the manager runs; if no shutdown ever fails, the manager runs exactly as long
  as its scheduler lives.\<close>

theorem managed_consistent: "managed clean mm \<Longrightarrow> manager_consistent clean mm"
  by (rule managed_consistent_shared)

theorem managed_consistent_witness:
  "manager_consistent True (fst (manager_add_mount list_cron (named_mount ''a'')
     (fst (manager_start list_cron (manager_new list_petgraph)))))"
  by (rule managed_consistent, rule managed_add, rule managed_start, rule managed_new)

text \<open>registering a mount a second time forgets the number of its first job: unregistering the mount
  then leaves that job running.\<close>

theorem registered_twice_leaks:
  assumes "cron_ok api jobs" "register_health_checks api m s = (s1, Inr ())"
    "register_health_checks api m' s1 = (s2, Inr ())" "mc_id m' = mc_id m"
  shows "jobs_of jobs s \<subset> jobs_of jobs (unregister_health_checks api (mc_id m) s2)"
proof -
  from register_job [OF assms(1,2)] obtain n where n: "n \<notin> jobs_of jobs s" "jobs_of jobs s1 = insert n (jobs_of jobs s)"
    by blast
  from register_job [OF assms(1,3)] obtain n' job where n': "n' \<notin> jobs_of jobs s1"
    "jobs_of jobs s2 = insert n' (jobs_of jobs s1)" "hm_get (sc_health_checks s2) (mc_id m) = Some job"
    "hj_job_id job = Some n'"
    using assms(4) by auto
  from unregister_job [OF assms(1) n'(3,4)] n n'(1,2) show ?thesis by auto
qed

theorem registered_twice_leaks_witness:
  "\<exists>s1 s2. register_health_checks list_cron (named_mount ''a'') (scheduler_new\<lparr>sc_scheduler := Some []\<rparr>) = (s1, Inr ())
     \<and> register_health_checks list_cron (named_mount ''a'') s1 = (s2, Inr ())
     \<and> jobs_of set (unregister_health_checks list_cron ''a'' s2) \<noteq> {}"
proof -
  let ?m = "named_mount ''a''" and ?s = "scheduler_new\<lparr>sc_scheduler := Some []\<rparr>"
  have i: "mc_id ?m = ''a''" by (simp add: named_mount_def)
  have "\<exists>s1. register_health_checks list_cron ?m ?s = (s1, Inr ()) \<and> sc_scheduler s1 = Some [0]"
    by (simp add: register_health_checks_def Let_def schedule_health_check_def list_cron_def scheduler_new_def
        hm.get_insert)
  then obtain s1 where one: "register_health_checks list_cron ?m ?s = (s1, Inr ())" "sc_scheduler s1 = Some [0]" by blast
  then have "\<exists>s2. register_health_checks list_cron ?m s1 = (s2, Inr ())"
    by (simp add: register_health_checks_def Let_def schedule_health_check_def list_cron_def hm.get_insert)
  then obtain s2 where two: "register_health_checks list_cron ?m s1 = (s2, Inr ())" by blast
  from registered_twice_leaks [OF list_cron_ok one(1) two] one two i show ?thesis by fastforce
qed

text \<open>after the manager was stopped and started again no job runs, although the mounts are still
  monitored: none of them is checked any more.\<close>

theorem restart_loses_jobs:
  assumes "cron_ok api jobs" "mm_running mm" "manager_stop api mm = (mm1, Inr ())"
    "manager_start api mm1 = (mm2, Inr ())" "managed True mm"
  shows "mm_running mm2 \<and> mm_mounts mm2 = mm_mounts mm \<and> jobs_of jobs (mm_scheduler mm2) = {}
    \<and> sc_health_checks (mm_scheduler mm2) = sc_health_checks (mm_scheduler mm)"
  using assms managed_consistent_shared [OF assms(5)]
  by (auto simp: manager_stop_def manager_start_def scheduler_stop_def scheduler_start_def start_cleanup_task_def
      cron_ok_def jobs_of_def split: option.splits sum.splits prod.splits)

theorem restart_loses_jobs_witness:
  "\<exists>mm1 mm2. manager_stop list_cron (fst (manager_add_mount list_cron (named_mount ''a'')
       (fst (manager_start list_cron (manager_new list_petgraph))))) = (mm1, Inr ())
     \<and> manager_start list_cron mm1 = (mm2, Inr ()) \<and> map mc_id (mm_mounts mm2) = [''a'']
     \<and> jobs_of set (mm_scheduler mm2) = {}"
proof -
  let ?started = "fst (manager_start list_cron (manager_new list_petgraph))"
  let ?mm = "fst (manager_add_mount list_cron (named_mount ''a'') ?started)"
  have managed: "managed True ?mm" by (rule managed_add, rule managed_start, rule managed_new)
  have i: "mc_id (named_mount ''a'') = ''a''" by (simp add: named_mount_def)
  have mm: "mm_running ?mm \<and> map mc_id (mm_mounts ?mm) = [''a''] \<and> sc_scheduler (mm_scheduler ?mm) = Some [0]"
    by (simp add: manager_start_def manager_new_def scheduler_start_def start_cleanup_task_def scheduler_new_def
        manager_add_mount_def register_health_checks_def schedule_health_check_def list_cron_def Let_def
        hm.get_insert i)
  then obtain mm1 where stop: "manager_stop list_cron ?mm = (mm1, Inr ())"
    and stopped: "\<not> mm_running mm1" "sc_scheduler (mm_scheduler mm1) = None"
    by (auto simp: manager_stop_def scheduler_stop_def list_cron_def)
  then obtain mm2 where start: "manager_start list_cron mm1 = (mm2, Inr ())"
    by (auto simp: manager_start_def scheduler_start_def list_cron_def)
  from restart_loses_jobs [OF list_cron_ok _ stop start managed] mm stop start show ?thesis by auto
qed

text \<open>a mount that depends on itself is found out by the validation and monitored all the same.\<close>

theorem self_dependency_accepted:
  assumes "list_ex (\<lambda>d. d = mc_id m) (depends_on_ids m)" "register_health_checks api m (mm_scheduler mm) = (s, Inr ())"
  shows "\<not> dv_valid (validate_dependencies m) \<and> m \<in> set (mm_mounts (fst (manager_add_mount api m mm)))
    \<and> snd (manager_add_mount api m mm) = Inr ()"
proof -
  have "dv_valid (foldl (\<lambda>v dep_id. if dep_id = mc_id m
                       then v\<lparr>dv_errors := dv_errors v @ [''Mount '' @ mc_id m @ '' depends on itself''],
                              dv_valid := False\<rparr>
                       else v) v ds) \<longleftrightarrow> dv_valid v \<and> mc_id m \<notin> set ds" for v ds
    by (induction ds arbitrary: v) auto
  with assms show ?thesis
    by (auto simp: validate_dependencies_def manager_add_mount_def list_ex_iff)
qed

end
