(* ===== verification/Path_Report.thy ===== *)
theory Path_Report
  imports Path_Security
begin

text \<open>
  What the path validator tells its readers (\<open>src/security/path_security.rs\<close>): the lines that \<open>log_security_event\<close>
  writes to the program's log and the report in Markdown.  The printers of time stamps are arguments, and so is the
  derived printer of an event of another kind.
\<close>

section \<open>Log lines\<close>

datatype log_level = Level_Error | Level_Warn | Level_Debug

fun debug_integrity_status :: "integrity_status \<Rightarrow> string" where
  "debug_integrity_status Intact = ''Intact''"
| "debug_integrity_status Modified = ''Modified''"
| "debug_integrity_status Suspicious = ''Suspicious''"
| "debug_integrity_status Integrity_Failed = ''Failed''"
| "debug_integrity_status RequiresVerification = ''RequiresVerification''"

fun debug_attack_type :: "symlink_attack_type \<Rightarrow> string" where
  "debug_attack_type SystemFileSymlink = ''SystemFileSymlink''"
| "debug_attack_type BoundaryEscape = ''BoundaryEscape''"
| "debug_attack_type SymlinkChain = ''SymlinkChain''"
| "debug_attack_type RaceCondition = ''RaceCondition''"
| "debug_attack_type Toctou = ''Toctou''"

definition event_log_line :: "(path_security_event \<Rightarrow> string) \<Rightarrow> path_security_event \<Rightarrow> log_level \<times> string" where
  "event_log_line debug_event e =
     (case e of
        PathValidation path _ result _ _ \<Rightarrow>
          (case vr_status result of
             Validation_Blocked reason \<Rightarrow> (Level_Warn, ''Path blocked: '' @ path @ '' - '' @ reason)
           | Validation_Failed reason \<Rightarrow> (Level_Error, ''Path validation failed: '' @ path @ '' - '' @ reason)
           | _ \<Rightarrow> (Level_Debug, ''Path validated: '' @ path))
      | MountIntegrityCheck _ mount_point status _ _ \<Rightarrow>
          (case status of
             Intact \<Rightarrow> (Level_Debug, ''Mount integrity check passed: '' @ mount_point)
           | _ \<Rightarrow> (Level_Warn, ''Mount integrity issue detected: '' @ mount_point @ '' - '' @ debug_integrity_status status))
      | SymlinkAttack _ suspicious_path _ _ blocked \<Rightarrow>
          if blocked then (Level_Warn, ''Symlink attack blocked: '' @ suspicious_path)
          else (Level_Error, ''Symlink attack detected but not blocked: '' @ suspicious_path)
      | _ \<Rightarrow> (Level_Debug, ''Security event logged: '' @ debug_event e))"

section \<open>The report\<close>

definition line_feed :: string where "line_feed = [CHR 0x0A]"

definition mark_valid :: string where "mark_valid = [CHR 0xE2, CHR 0x9C, CHR 0x85]"
definition mark_blocked :: string where "mark_blocked = [CHR 0xF0, CHR 0x9F, CHR 0x9A, CHR 0xAB]"
definition mark_warning :: string where "mark_warning = [CHR 0xE2, CHR 0x9A, CHR 0xA0, CHR 0xEF, CHR 0xB8, CHR 0x8F]"
definition mark_failed :: string where "mark_failed = [CHR 0xE2, CHR 0x9D, CHR 0x8C]"

fun reported_status :: "validation_status \<Rightarrow> string" where
  "reported_status Valid = mark_valid @ '' Valid''"
| "reported_status (Validation_Blocked reason) = mark_blocked @ '' Blocked: '' @ reason"
| "reported_status Requires_Verification = mark_warning @ ''  Requires Verification''"
| "reported_status (Validation_Failed reason) = mark_failed @ '' Failed: '' @ reason"

record report_printers =
  rp_now :: instant
  rp_stamp :: "instant \<Rightarrow> string"
  rp_clock :: "instant \<Rightarrow> string"
  rp_debug_event :: "path_security_event \<Rightarrow> string"

definition report_event :: "report_printers \<Rightarrow> path_security_event \<Rightarrow> string" where
  "report_event rp e =
     (case e of
        PathValidation path _ result timestamp _ \<Rightarrow>
          ''- ['' @ rp_clock rp timestamp @ ''] '' @ path @ '': '' @ reported_status (vr_status result) @ line_feed
      | SymlinkAttack _ suspicious_path attack_type timestamp blocked \<Rightarrow>
          ''- ['' @ rp_clock rp timestamp @ ''] '' @ (if blocked then mark_blocked @ '' Blocked'' else mark_warning @ ''  Detected'')
          @ '': '' @ suspicious_path @ '' - '' @ debug_attack_type attack_type @ '' ''
          @ (if blocked then '''' else ''(not blocked)'') @ line_feed
      | _ \<Rightarrow> ''- ['' @ rp_clock rp (rp_now rp) @ ''] '' @ rp_debug_event rp e @ line_feed)"

definition report_row :: "string \<Rightarrow> string \<Rightarrow> string" where
  "report_row a b = ''| '' @ a @ '' | '' @ b @ '' |'' @ line_feed"

definition report_statistics :: "report_printers \<Rightarrow> path_validator \<Rightarrow> string" where
  "report_statistics rp v =
     ''# Fuji Path Security Report'' @ line_feed @ line_feed
     @ ''Generated at: '' @ rp_stamp rp (rp_now rp) @ line_feed @ line_feed
     @ ''## Statistics'' @ line_feed @ line_feed
     @ report_row ''Metric'' ''Count'' @ ''|--------|-------|'' @ line_feed
     @ concat (map (\<lambda>(key, n). report_row key (show_nat (unat n))) (get_security_statistics v)) @ line_feed"

definition report_mounts :: "(string \<times> integrity_status) list \<Rightarrow> string" where
  "report_mounts results = concat (map (\<lambda>(i, status). report_row i (debug_integrity_status status)) results)"

definition report_recent :: "report_printers \<Rightarrow> path_validator \<Rightarrow> string" where
  "report_recent rp v =
     ''## Recent Security Events (Last 50)'' @ line_feed @ line_feed
     @ (let recent = get_security_events 50 v
        in if recent = [] then ''No recent security events.'' @ line_feed
           else concat (map (report_event rp) (rev recent)))"

definition generate_security_report :: "report_printers \<Rightarrow> path_env \<Rightarrow> path_validator \<Rightarrow> path_error + string" where
  "generate_security_report rp env v =
     and_then (validate_all_mounts env v) (\<lambda>results. Inr (
       report_statistics rp v
       @ (''## Mount Integrity Status'' @ line_feed @ line_feed
       @ report_row ''Mount ID'' ''Status'' @ ''|----------|--------|'' @ line_feed)
       @ report_mounts results @ line_feed @ report_recent rp v))"

section \<open>Properties\<close>

lemma validate_each_ids: "validate_each env ms = Inr rs \<Longrightarrow> map fst rs = map fst ms"
  by (induction env ms arbitrary: rs rule: validate_each.induct) (auto simp: and_then_Inr_iff)

lemma sublist_row: "sublist x (a @ x @ b)"
  by (auto simp: sublist_def)

text \<open>the report has a row for every registered mount and its state, in the order of the map, and fails when the state of
  one of them cannot be found out.\<close>

theorem report_lists_mounts:
  assumes "generate_security_report rp env v = Inr r" "i \<in> fst ` set (pv_mounts v)"
  shows "\<exists>s. contains_str r (report_row i (debug_integrity_status s))"
proof -
  from assms(1) obtain rs h t where rs: "validate_all_mounts env v = Inr rs" and r: "r = h @ report_mounts rs @ t"
    unfolding generate_security_report_def and_then_Inr_iff by (metis append.assoc sum.inject(2))
  with assms(2) have "i \<in> fst ` set rs"
    using validate_each_ids [of env "pv_mounts v" rs] by (metis list.set_map validate_all_mounts_def)
  then obtain s xs ys where "rs = xs @ (i, s) # ys" by (auto dest!: split_list)
  then obtain u v where "report_mounts rs = u @ report_row i (debug_integrity_status s) @ v" by (simp add: report_mounts_def)
  then have "r = (h @ u) @ report_row i (debug_integrity_status s) @ v @ t" by (simp add: r)
  then show ?thesis by (metis contains_str_sublist sublist_row)
qed

text \<open>a blocked reason is copied as it is: a path with a line feed writes further entries of the report.\<close>

theorem report_forged:
  assumes "vr_status r' = Validation_Blocked reason"
  shows "report_event rp (PathValidation p m (ValidationResult s w es
            (Validation_Blocked (reason' @ line_feed @ butlast (report_event rp (PathValidation p' m' r' t' d'))))) t d)
    = report_event rp (PathValidation p m (ValidationResult s w es (Validation_Blocked reason')) t d)
      @ report_event rp (PathValidation p' m' r' t' d')"
  using assms by (simp add: report_event_def line_feed_def butlast_append)

end
