(* ===== verification/Resource_Limits.thy ===== *)
theory Resource_Limits
  imports Complex_Main Fuji_Config
begin

text \<open>
  \<open>src/security/resource_limits.rs\<close>: the limits on memory, processor, mounts and connections, the
  permits of the operations, and what happens when a limit is exceeded.

  Percentages (\<open>f32\<close> in the source) are exact rational numbers here, rounding is not modelled.  A permit
  that is waited for with a timeout is granted if one is free when the wait ends.  What the system
  reports of its memory and processor is an argument.
\<close>

section \<open>Limits\<close>

record memory_limits =
  ml_max_memory_bytes :: u64
  ml_max_memory_percent :: u8
  ml_warning_threshold_percent :: u8
  ml_enforcement_threshold_percent :: u8
  ml_check_interval_secs :: u64
  ml_enable_tracking :: bool

record cpu_limits =
  cl_max_cpu_percent :: u8
  cl_usage_window_secs :: u64
  cl_check_interval_ms :: u64
  cl_enable_throttling :: bool
  cl_throttle_factor :: f64
  cl_grace_period_secs :: u64

record file_descriptor_limits =
  fl_max_descriptors :: u32
  fl_warning_threshold_percent :: u8
  fl_check_interval_secs :: u64
  fl_track_by_mount :: bool

record process_limits =
  pl_max_concurrent_mounts :: u32
  pl_max_concurrent_reconnections :: u32
  pl_operation_timeout_secs :: u64
  pl_enable_queuing :: bool
  pl_max_queue_size :: u32

record network_limits =
  nl_max_connections :: u32
  nl_connection_timeout_secs :: u64
  nl_max_transfer_rate_bps :: u64
  nl_enable_connection_pooling :: bool
  nl_max_pool_size :: u32

datatype violation_action = Warn | Throttle | Reject | Terminate

record enforcement_settings =
  es_enable_enforcement :: bool
  es_violation_action :: violation_action
  es_grace_period_secs :: u64
  es_enable_reporting :: bool
  es_report_interval_secs :: u64
  es_enable_adaptive_limits :: bool

record resource_limits =
  lim_memory :: memory_limits
  lim_cpu :: cpu_limits
  lim_file_descriptors :: file_descriptor_limits
  lim_process :: process_limits
  lim_network :: network_limits
  lim_enforcement :: enforcement_settings

text \<open>The bit pattern is that of 0.5.\<close>

definition limits_default :: resource_limits where
  "limits_default =
     \<lparr> lim_memory = \<lparr> ml_max_memory_bytes = 2 * 1024 * 1024 * 1024, ml_max_memory_percent = 80,
         ml_warning_threshold_percent = 70, ml_enforcement_threshold_percent = 90,
         ml_check_interval_secs = 5, ml_enable_tracking = True \<rparr>,
       lim_cpu = \<lparr> cl_max_cpu_percent = 80, cl_usage_window_secs = 30, cl_check_interval_ms = 1000,
         cl_enable_throttling = True, cl_throttle_factor = 0x3FE0000000000000, cl_grace_period_secs = 10 \<rparr>,
       lim_file_descriptors = \<lparr> fl_max_descriptors = 1024, fl_warning_threshold_percent = 80,
         fl_check_interval_secs = 10, fl_track_by_mount = True \<rparr>,
       lim_process = \<lparr> pl_max_concurrent_mounts = 10, pl_max_concurrent_reconnections = 5,
         pl_operation_timeout_secs = 300, pl_enable_queuing = True, pl_max_queue_size = 100 \<rparr>,
       lim_network = \<lparr> nl_max_connections = 100, nl_connection_timeout_secs = 30,
         nl_max_transfer_rate_bps = 10 * 1024 * 1024, nl_enable_connection_pooling = True, nl_max_pool_size = 20 \<rparr>,
       lim_enforcement = \<lparr> es_enable_enforcement = True, es_violation_action = Throttle,
         es_grace_period_secs = 30, es_enable_reporting = True, es_report_interval_secs = 60,
         es_enable_adaptive_limits = True \<rparr> \<rparr>"

definition violation_action_of :: "string \<Rightarrow> violation_action" where
  "violation_action_of s =
     (if s = ''warn'' then Warn else if s = ''throttle'' then Throttle
      else if s = ''reject'' then Reject else if s = ''terminate'' then Terminate else Warn)"

definition resource_limits_from :: "resource_limits_config \<Rightarrow> resource_limits" where
  "resource_limits_from c =
     \<lparr> lim_memory = \<lparr> ml_max_memory_bytes = ucast (rl_max_memory_mb c) * 1024 * 1024, ml_max_memory_percent = 70,
         ml_warning_threshold_percent = 70, ml_enforcement_threshold_percent = 90,
         ml_check_interval_secs = 5, ml_enable_tracking = True \<rparr>,
       lim_cpu = \<lparr> cl_max_cpu_percent = rl_max_cpu_percent c, cl_usage_window_secs = 30, cl_check_interval_ms = 1000,
         cl_enable_throttling = True, cl_throttle_factor = 0x3FE0000000000000, cl_grace_period_secs = 10 \<rparr>,
       lim_file_descriptors = \<lparr> fl_max_descriptors = rl_max_file_descriptors c, fl_warning_threshold_percent = 80,
         fl_check_interval_secs = 10, fl_track_by_mount = True \<rparr>,
       lim_process = \<lparr> pl_max_concurrent_mounts = rl_max_concurrent_mounts c,
         pl_max_concurrent_reconnections = rl_max_concurrent_mounts c div 2,
         pl_operation_timeout_secs = 30, pl_enable_queuing = True,
         pl_max_queue_size = rl_max_concurrent_mounts c * 2 \<rparr>,
       lim_network = \<lparr> nl_max_connections = rl_max_connections c, nl_connection_timeout_secs = 30,
         nl_max_transfer_rate_bps = 0, nl_enable_connection_pooling = True,
         nl_max_pool_size = rl_max_connections c div 2 \<rparr>,
       lim_enforcement = \<lparr> es_enable_enforcement = rl_enable_enforcement c,
         es_violation_action = violation_action_of (rl_violation_action c),
         es_grace_period_secs = 30, es_enable_reporting = True,
         es_report_interval_secs = rl_monitoring_interval_secs c, es_enable_adaptive_limits = False \<rparr> \<rparr>"

section \<open>Usage\<close>

type_synonym percent = rat

record memory_usage =
  mu_total_bytes :: u64
  mu_total_available :: u64
  mu_usage_percent :: percent
  mu_virtual_bytes :: u64
  mu_rss_bytes :: u64

record cpu_usage =
  cu_usage_percent :: percent
  cu_average_percent :: percent
  cu_cpu_cores :: u32
  cu_process_usage :: percent

record file_descriptor_usage =
  fu_current_count :: u32
  fu_max_allowed :: u32
  fu_usage_percent :: percent
  fu_by_category :: "(string, u32) hashmap"

record process_usage =
  pu_active_mounts :: u32
  pu_active_reconnections :: u32
  pu_pending_operations :: u32
  pu_avg_operation_duration_ms :: u64

record resource_usage =
  ru_memory :: memory_usage
  ru_cpu :: cpu_usage
  ru_file_descriptors :: file_descriptor_usage
  ru_process :: process_usage
  ru_timestamp :: instant

definition resource_usage_default :: "instant \<Rightarrow> resource_usage" where
  "resource_usage_default now =
     \<lparr> ru_memory = \<lparr> mu_total_bytes = 0, mu_total_available = 0, mu_usage_percent = 0, mu_virtual_bytes = 0,
         mu_rss_bytes = 0 \<rparr>,
       ru_cpu = \<lparr> cu_usage_percent = 0, cu_average_percent = 0, cu_cpu_cores = 1, cu_process_usage = 0 \<rparr>,
       ru_file_descriptors = \<lparr> fu_current_count = 0, fu_max_allowed = 1024, fu_usage_percent = 0, fu_by_category = [] \<rparr>,
       ru_process = \<lparr> pu_active_mounts = 0, pu_active_reconnections = 0, pu_pending_operations = 0,
         pu_avg_operation_duration_ms = 0 \<rparr>,
       ru_timestamp = now \<rparr>"

datatype resource_type =
  Memory | Cpu | FileDescriptors | ConcurrentOperations | NetworkConnections | OperationQueue

record resource_violation =
  rv_resource_type :: resource_type
  rv_current_value :: percent
  rv_max_value :: percent
  rv_usage_percent :: percent
  rv_timestamp :: instant
  rv_consecutive_count :: u32

section \<open>The manager\<close>

text \<open>A semaphore is the number of its free permits.\<close>

record limits_manager =
  lm_limits :: resource_limits
  lm_usage :: resource_usage
  lm_mount_semaphore :: nat
  lm_reconnection_semaphore :: nat
  lm_connection_semaphore :: nat
  lm_violations :: "resource_violation list"
  lm_last_enforcement :: instant

datatype limit_error =
    MountTimeout | TooManyMounts
  | ReconnectionTimeout | TooManyReconnections
  | ConnectionTimeout | TooManyConnections
  | WouldExceed resource_type u32 u32

definition limits_manager_new :: "instant \<Rightarrow> instant \<Rightarrow> resource_limits \<Rightarrow> limits_manager" where
  "limits_manager_new now now' l =
     \<lparr> lm_limits = l, lm_usage = resource_usage_default now,
       lm_mount_semaphore = unat (pl_max_concurrent_mounts (lim_process l)),
       lm_reconnection_semaphore = unat (pl_max_concurrent_reconnections (lim_process l)),
       lm_connection_semaphore = unat (nl_max_connections (lim_network l)),
       lm_violations = [], lm_last_enforcement = now' \<rparr>"

definition with_defaults :: "instant \<Rightarrow> instant \<Rightarrow> limits_manager" where
  "with_defaults now now' = limits_manager_new now now' limits_default"

text \<open>Acquiring: a waiter forgets its permit, which takes it out of the semaphore; one that only tries
  drops it at the end of the match, which puts it back.\<close>

definition acquire :: "bool \<Rightarrow> 'e \<Rightarrow> 'e \<Rightarrow> nat \<Rightarrow> nat \<times> ('e + unit)" where
  "acquire queuing timeout_error full_error permits =
     (if queuing
      then (if permits > 0 then (permits - 1, Inr ()) else (permits, Inl timeout_error))
      else (if permits > 0 then (permits, Inr ()) else (permits, Inl full_error)))"

definition acquire_mount_permit :: "limits_manager \<Rightarrow> limits_manager \<times> (limit_error + unit)" where
  "acquire_mount_permit m =
     (let (p, r) = acquire (pl_enable_queuing (lim_process (lm_limits m))) MountTimeout TooManyMounts (lm_mount_semaphore m)
      in (m\<lparr>lm_mount_semaphore := p\<rparr>, r))"

definition release_mount_permit :: "limits_manager \<Rightarrow> limits_manager" where
  "release_mount_permit m = m\<lparr>lm_mount_semaphore := lm_mount_semaphore m + 1\<rparr>"

definition acquire_reconnection_permit :: "limits_manager \<Rightarrow> limits_manager \<times> (limit_error + unit)" where
  "acquire_reconnection_permit m =
     (let (p, r) = acquire (pl_enable_queuing (lim_process (lm_limits m))) ReconnectionTimeout TooManyReconnections
                     (lm_reconnection_semaphore m)
      in (m\<lparr>lm_reconnection_semaphore := p\<rparr>, r))"

definition release_reconnection_permit :: "limits_manager \<Rightarrow> limits_manager" where
  "release_reconnection_permit m = m\<lparr>lm_reconnection_semaphore := lm_reconnection_semaphore m + 1\<rparr>"

definition acquire_connection_permit :: "limits_manager \<Rightarrow> limits_manager \<times> (limit_error + unit)" where
  "acquire_connection_permit m =
     (let (p, r) = acquire (nl_enable_connection_pooling (lim_network (lm_limits m))) ConnectionTimeout TooManyConnections
                     (lm_connection_semaphore m)
      in (m\<lparr>lm_connection_semaphore := p\<rparr>, r))"

definition release_connection_permit :: "limits_manager \<Rightarrow> limits_manager" where
  "release_connection_permit m = m\<lparr>lm_connection_semaphore := lm_connection_semaphore m + 1\<rparr>"

definition check_operation_limit :: "resource_type \<Rightarrow> u32 \<Rightarrow> limits_manager \<Rightarrow> limit_error + unit" where
  "check_operation_limit resource_type count m =
     (let exceeds = (\<lambda>max_count. if count > max_count then Inl (WouldExceed resource_type count max_count) else Inr ())
      in case resource_type of
           ConcurrentOperations \<Rightarrow> exceeds (pl_max_concurrent_mounts (lim_process (lm_limits m)))
         | NetworkConnections \<Rightarrow> exceeds (nl_max_connections (lim_network (lm_limits m)))
         | OperationQueue \<Rightarrow> exceeds (pl_max_queue_size (lim_process (lm_limits m)))
         | _ \<Rightarrow> Inr ())"

definition get_usage :: "limits_manager \<Rightarrow> resource_usage" where
  "get_usage m = lm_usage m"

definition get_violations :: "nat \<Rightarrow> limits_manager \<Rightarrow> resource_violation list" where
  "get_violations limit m = take limit (rev (lm_violations m))"

section \<open>Enforcement\<close>

definition percent_of :: "u8 \<Rightarrow> percent" where
  "percent_of n = of_int (uint n)"

text \<open>The read lock of the last enforcement is held to the end, and the write lock of it is asked for
  when a limit was exceeded and only a warning or throttling follows.\<close>

datatype enforcement = Enforce_Returned bool | Enforce_Blocked | Enforce_Exited

definition exceeds_limits :: "limits_manager \<Rightarrow> bool" where
  "exceeds_limits m \<longleftrightarrow>
     mu_usage_percent (ru_memory (lm_usage m)) > percent_of (ml_enforcement_threshold_percent (lim_memory (lm_limits m)))
     \<or> cu_usage_percent (ru_cpu (lm_usage m)) > percent_of (cl_max_cpu_percent (lim_cpu (lm_limits m)))"

definition enforce_limits :: "instant \<Rightarrow> limits_manager \<Rightarrow> limits_manager \<times> enforcement" where
  "enforce_limits now m =
     (let e = lim_enforcement (lm_limits m)
      in if \<not> es_enable_enforcement e then (m, Enforce_Returned True)
         else if now - lm_last_enforcement m < secs (uint (es_grace_period_secs e)) then (m, Enforce_Returned True)
         else if \<not> exceeds_limits m then (m, Enforce_Returned False)
         else case es_violation_action e of
                Reject \<Rightarrow> (m, Enforce_Returned False)
              | Terminate \<Rightarrow> (m, Enforce_Exited)
              | _ \<Rightarrow> (m, Enforce_Blocked))"

section \<open>Monitoring\<close>

definition violation :: "resource_type \<Rightarrow> percent \<Rightarrow> u8 \<Rightarrow> instant \<Rightarrow> resource_violation" where
  "violation t usage threshold now =
     \<lparr> rv_resource_type = t, rv_current_value = usage, rv_max_value = percent_of threshold, rv_usage_percent = usage,
       rv_timestamp = now, rv_consecutive_count = 1 \<rparr>"

definition monitor_memory_usage :: "instant \<Rightarrow> instant \<Rightarrow> u64 \<Rightarrow> u64 \<Rightarrow> limits_manager \<Rightarrow> limits_manager" where
  "monitor_memory_usage now now' total_memory used_memory m =
     (let usage_percent = of_int (uint used_memory) / of_int (uint total_memory) * 100;
          threshold = ml_enforcement_threshold_percent (lim_memory (lm_limits m));
          m1 = m\<lparr>lm_usage := (lm_usage m)\<lparr>
                   ru_memory := \<lparr> mu_total_bytes = used_memory, mu_total_available = total_memory - used_memory,
                                  mu_usage_percent = usage_percent, mu_virtual_bytes = 0, mu_rss_bytes = 0 \<rparr>,
                   ru_timestamp := now\<rparr>\<rparr>
      in if usage_percent > percent_of threshold
         then m1\<lparr>lm_violations := lm_violations m1 @ [violation Memory usage_percent threshold now']\<rparr>
         else m1)"

text \<open>The system reports the use of the processor in percent; the source divides it by a hundred.\<close>

definition monitor_cpu_usage :: "instant \<Rightarrow> instant \<Rightarrow> percent \<Rightarrow> nat \<Rightarrow> limits_manager \<Rightarrow> limits_manager" where
  "monitor_cpu_usage now now' reported cores m =
     (let usage_percent = reported / 100;
          threshold = cl_max_cpu_percent (lim_cpu (lm_limits m));
          m1 = m\<lparr>lm_usage := (lm_usage m)\<lparr>
                   ru_cpu := \<lparr> cu_usage_percent = usage_percent, cu_average_percent = usage_percent,
                               cu_cpu_cores = of_nat cores, cu_process_usage = 0 \<rparr>,
                   ru_timestamp := now\<rparr>\<rparr>
      in if usage_percent > percent_of threshold
         then m1\<lparr>lm_violations := lm_violations m1 @ [violation Cpu usage_percent threshold now']\<rparr>
         else m1)"

datatype monitoring_task = Memory_Task duration | Cpu_Task duration | Report_Task duration

definition start_monitoring :: "limits_manager \<Rightarrow> monitoring_task list" where
  "start_monitoring m =
     (let l = lm_limits m
      in (if ml_enable_tracking (lim_memory l)
          then [Memory_Task (secs (uint (ml_check_interval_secs (lim_memory l))))] else [])
         @ [Cpu_Task (millis (uint (cl_check_interval_ms (lim_cpu l))))]
         @ (if es_enable_reporting (lim_enforcement l)
            then [Report_Task (secs (uint (es_report_interval_secs (lim_enforcement l))))] else []))"

section \<open>Permits in use\<close>

text \<open>Mounts that acquire a permit, and release it when they end, in any interleaving.\<close>

datatype permit_op = Mount_Begins | Mount_Ends

fun permit_step :: "permit_op \<Rightarrow> limits_manager \<times> nat \<Rightarrow> limits_manager \<times> nat" where
  "permit_step Mount_Begins (m, running) =
     (case acquire_mount_permit m of
        (m', Inr _) \<Rightarrow> (m', running + 1)
      | (m', Inl _) \<Rightarrow> (m', running))"
| "permit_step Mount_Ends (m, running) =
     (if running = 0 then (m, running) else (release_mount_permit m, running - 1))"

definition permits_balanced :: "nat \<Rightarrow> limits_manager \<times> nat \<Rightarrow> bool" where
  "permits_balanced maximum s \<longleftrightarrow>
     pl_enable_queuing (lim_process (lm_limits (fst s))) \<and> lm_mount_semaphore (fst s) + snd s = maximum"

interpretation permits: component permit_step "permits_balanced maximum" for maximum
proof
  show "permits_balanced maximum (permit_step oper s)" if "permits_balanced maximum s" for oper s
    using that
    by (cases s; cases oper)
      (auto simp: permits_balanced_def acquire_mount_permit_def acquire_def release_mount_permit_def Let_def)
qed

text \<open>C20: while operations queue, the permits that are free and the mounts that run are together the
  configured maximum, however they interleave: no more than that run at once, and none is lost.\<close>

theorem mount_permits_balanced:
  "case fold permit_step ops (limits_manager_new now now' (resource_limits_from c), 0) of (m, running) \<Rightarrow>
     lm_mount_semaphore m + running = unat (rl_max_concurrent_mounts c)
     \<and> (snd (acquire_mount_permit m) = Inr () \<longleftrightarrow> running < unat (rl_max_concurrent_mounts c))"
proof -
  obtain m running where s: "fold permit_step ops (limits_manager_new now now' (resource_limits_from c), 0) = (m, running)"
    by force
  have "permits_balanced (unat (rl_max_concurrent_mounts c)) (m, running)"
    unfolding s [symmetric]
    by (rule permits.inv_run) (simp add: permits_balanced_def limits_manager_new_def resource_limits_from_def)
  then show ?thesis
    unfolding s by (auto simp: permits_balanced_def acquire_mount_permit_def acquire_def)
qed

text \<open>without queuing a permit is given back at once, and once more when the mount ends: with one
  permit to begin with, any number of mounts runs at once, and the permits grow.\<close>

lemma no_queuing_begin:
  assumes "\<not> pl_enable_queuing (lim_process (lm_limits m))" "lm_mount_semaphore m > 0"
  shows "permit_step Mount_Begins (m, running) = (m, running + 1)"
  using assms by (simp add: acquire_mount_permit_def acquire_def)

text \<open>without queuing the limit is none: as long as one permit was free, any number of mounts runs
  at once, and when they have ended there are as many permits more.\<close>

theorem permits_unlimited_without_queuing:
  assumes "\<not> pl_enable_queuing (lim_process (lm_limits m))" "lm_mount_semaphore m > 0"
  shows "snd (fold permit_step (replicate n Mount_Begins) (m, 0)) = n
    \<and> lm_mount_semaphore (fst (fold permit_step (replicate n Mount_Begins @ replicate n Mount_Ends) (m, 0)))
        = lm_mount_semaphore m + n"
proof -
  have begins: "fold permit_step (replicate n Mount_Begins) (m, k) = (m, k + n)" for n k
    by (induction n arbitrary: k) (use no_queuing_begin [OF assms] in \<open>auto simp del: permit_step.simps\<close>)
  have ends: "lm_mount_semaphore (fst (fold permit_step (replicate n Mount_Ends) (m', n))) = lm_mount_semaphore m' + n" for m' n
    by (induction n arbitrary: m') (simp_all add: release_mount_permit_def)
  show ?thesis by (simp only: fold_append o_apply begins ends snd_conv add_0)
qed

theorem permits_unlimited_without_queuing_witness:
  "snd (fold permit_step (replicate 7 Mount_Begins)
     (limits_manager_new 0 0 (limits_default\<lparr>lim_process :=
        \<lparr> pl_max_concurrent_mounts = 1, pl_max_concurrent_reconnections = 1, pl_operation_timeout_secs = 1,
          pl_enable_queuing = False, pl_max_queue_size = 1 \<rparr>\<rparr>), 0)) = 7"
  by (rule permits_unlimited_without_queuing [THEN conjunct1]) (simp_all add: limits_manager_new_def)

text \<open>enforcement says yes when it is turned off or in its grace period, and no when nothing is
  exceeded; when a limit is exceeded and the action is to warn or to throttle, it never returns.\<close>

theorem enforcement_outcome:
  "snd (enforce_limits now m) = (case lim_enforcement (lm_limits m) of e \<Rightarrow>
     if \<not> es_enable_enforcement e \<or> now - lm_last_enforcement m < secs (uint (es_grace_period_secs e))
     then Enforce_Returned True
     else if \<not> exceeds_limits m \<or> es_violation_action e = Reject then Enforce_Returned False
     else if es_violation_action e = Terminate then Enforce_Exited
     else Enforce_Blocked)
   \<and> fst (enforce_limits now m) = m"
  by (cases "es_violation_action (lim_enforcement (lm_limits m))") (simp_all add: enforce_limits_def Let_def)

text \<open>the use of the processor is stored as a fraction of one and compared as a percentage: with any
  limit but zero no report up to a hundred percent is a violation or is enforced.\<close>

theorem cpu_limit_ineffective:
  assumes "0 \<le> reported" "reported \<le> 100" "cl_max_cpu_percent (lim_cpu (lm_limits m)) \<noteq> 0"
  shows "case monitor_cpu_usage now now' reported cores m of m' \<Rightarrow>
    lm_violations m' = lm_violations m
    \<and> \<not> cu_usage_percent (ru_cpu (lm_usage m')) > percent_of (cl_max_cpu_percent (lim_cpu (lm_limits m')))"
proof -
  let ?limit = "cl_max_cpu_percent (lim_cpu (lm_limits m))"
  have "uint ?limit \<noteq> 0" using assms(3) by (simp add: uint_0_iff)
  then have "1 \<le> uint ?limit" using uint_ge_0 [of ?limit] by linarith
  then have "1 \<le> percent_of ?limit" unfolding percent_of_def by (simp only: of_int_1_le_iff)
  moreover have "reported / 100 \<le> 1" using assms(2) by simp
  ultimately have "\<not> reported / 100 > percent_of ?limit" by linarith
  then show ?thesis by (simp add: monitor_cpu_usage_def Let_def)
qed

theorem cpu_limit_ineffective_witness:
  "lm_violations (monitor_cpu_usage 0 0 100 4 (with_defaults 0 0)) = []"
  using cpu_limit_ineffective [of 100 "with_defaults 0 0" 0 0 4]
  by (simp add: with_defaults_def limits_manager_new_def limits_default_def)

end
