(* ===== verification/Socket_Protocol.thy ===== *)
theory Socket_Protocol
  imports Fuji_Config
begin

text \<open>
  \<open>src/socket/protocol.rs\<close>: the requests of the command line and the answers of the daemon.  The
  fields of a request stand in the order of the source.  JSON is the \<open>serde_json\<close> crate's and is a
  parameter where it matters (\<open>Socket_Server\<close>).
\<close>

datatype request =
  Ping
| Mount_Request (rq_url: string) (rq_mount_point: "string option") (rq_options: "string list option")
    (rq_disable: bool) (rq_dry_run: bool) (rq_progress: bool) (rq_no_persist: bool)
| Unmount_Request string bool
| Status_Request (rq_verbose: bool) (rq_watch: bool) (rq_json: bool) (rq_filter_url: "string option")
    (rq_filter_type: "string option") (rq_filter_point: "string option") (rq_filter_status: "string option")
| List_Request bool bool bool "string option" "string option" "string option"
| StopDaemon
| GetLogs "64 word option"
| Discover string
| Enable string
| Disable string
| Remove string
| Remount string
| GetConfig
| Doctor
| ForceSync "string option"

record mount_status_info =
  msi_id :: string
  msi_url :: string
  msi_mount_point :: string
  msi_status :: mount_status
  msi_enabled :: bool
  msi_created_at :: instant
  msi_updated_at :: instant
  msi_last_connected :: "instant option"
  msi_reconnect_attempts :: u32
  msi_health_score :: "u8 option"

record force_sync_info =
  fsi_in_progress :: bool
  fsi_last_initiated :: "instant option"
  fsi_initiated_by :: "string option"
  fsi_reason :: "string option"
  fsi_attempt_count :: u32
  fsi_last_result :: "force_sync_result option"

record cluster_info =
  ci_instance_id :: string
  ci_cluster_enabled :: bool
  ci_peers_connected :: nat
  ci_last_sync :: "instant option"
  ci_force_sync_info :: "force_sync_info option"

record daemon_health_info =
  dhi_healthy :: bool
  dhi_uptime :: "duration option"
  dhi_last_check :: "instant option"
  dhi_issues :: "string list"
  dhi_cluster_info :: "cluster_info option"

datatype issue_severity = Issue_Error | Issue_Warning | Issue_Info

record issue =
  is_severity :: issue_severity
  is_message :: string
  is_component :: string

datatype response =
  Success
| Pong
| MountSuccess string string
| UnmountSuccess
| Status_Response "mount_status_info list" bool "daemon_health_info option"
| MountList "mount_config list"
| Logs "string list"
| DiscoveredShares string "string list"
| Config_Response string
| DoctorReport "issue list" "string list"
| Error_Response string

end
