(* ===== verification/Socket_Server.thy ===== *)
theory Socket_Server
  imports Socket_Protocol
begin

text \<open>
  \<open>src/socket/mod.rs\<close>: the limiter of the connections, the server that reads one request of a
  connection and answers it, and the client.

  A function of the limiter that reads the clock reads it once.  The semaphore is the number of its free
  permits, the counters of connections are natural numbers.  \<open>limiter_step\<close> interleaves what the
  tasks of the server do; \<open>lock_step\<close> looks closer, at the order in which they take the two locks.
  \<open>serde_json\<close> is a pair of functions.
\<close>

section \<open>The limiter\<close>

record connection_limits =
  cn_max_connections :: nat
  cn_max_connections_per_client :: nat
  cn_connection_timeout :: u64
  cn_idle_timeout :: u64
  cn_rate_limit_window :: u64
  cn_rate_limit_max :: nat

definition connection_limits_default :: connection_limits where
  "connection_limits_default =
     \<lparr> cn_max_connections = 100, cn_max_connections_per_client = 10, cn_connection_timeout = 30,
       cn_idle_timeout = 300, cn_rate_limit_window = 60, cn_rate_limit_max = 20 \<rparr>"

record connection_info =
  ci_active_connections :: nat
  ci_connection_timestamps :: "instant list"
  ci_last_activity :: instant

definition connection_info_new :: "instant \<Rightarrow> connection_info" where
  "connection_info_new now =
     \<lparr> ci_active_connections = 0, ci_connection_timestamps = [], ci_last_activity = now \<rparr>"

definition cleanup_old_timestamps :: "instant \<Rightarrow> duration \<Rightarrow> connection_info \<Rightarrow> connection_info" where
  "cleanup_old_timestamps now window i =
     i\<lparr>ci_connection_timestamps := filter (\<lambda>ts. max 0 (now - ts) \<le> window) (ci_connection_timestamps i)\<rparr>"

definition is_rate_limited :: "instant \<Rightarrow> nat \<Rightarrow> duration \<Rightarrow> connection_info \<Rightarrow> bool" where
  "is_rate_limited now max_connections window i \<longleftrightarrow>
     length (filter (\<lambda>ts. max 0 (now - ts) \<le> window) (ci_connection_timestamps i)) \<ge> max_connections"

definition record_connection :: "instant \<Rightarrow> connection_info \<Rightarrow> connection_info" where
  "record_connection now i =
     i\<lparr>ci_connection_timestamps := ci_connection_timestamps i @ [now],
       ci_active_connections := ci_active_connections i + 1, ci_last_activity := now\<rparr>"

definition remove_connection :: "instant \<Rightarrow> connection_info \<Rightarrow> connection_info" where
  "remove_connection now i =
     (let i' = (if ci_active_connections i > 0
                then i\<lparr>ci_active_connections := ci_active_connections i - 1\<rparr> else i)
      in i'\<lparr>ci_last_activity := now\<rparr>)"

record connection_metrics =
  cx_total_connections :: u64
  cx_active_connections :: u64
  cx_rejected_connections :: u64
  cx_rate_limited_connections :: u64
  cx_peak_concurrent_connections :: u64
  cx_last_reset :: instant

definition connection_metrics_default :: "instant \<Rightarrow> connection_metrics" where
  "connection_metrics_default now =
     \<lparr> cx_total_connections = 0, cx_active_connections = 0, cx_rejected_connections = 0,
       cx_rate_limited_connections = 0, cx_peak_concurrent_connections = 0, cx_last_reset = now \<rparr>"

record connection_limiter =
  lt_limits :: connection_limits
  lt_global_semaphore :: nat
  lt_client_connections :: "(string, connection_info) hashmap"
  lt_metrics :: connection_metrics

definition limiter_new :: "instant \<Rightarrow> connection_limits \<Rightarrow> connection_limiter" where
  "limiter_new now limits =
     \<lparr> lt_limits = limits, lt_global_semaphore = cn_max_connections limits, lt_client_connections = [],
       lt_metrics = connection_metrics_default now \<rparr>"

datatype reject_reason = Global_Limit | Rate_Limited | Per_Client_Limit

definition increment_rejected :: "reject_reason \<Rightarrow> connection_limiter \<Rightarrow> connection_limiter" where
  "increment_rejected reason l =
     (let m = (lt_metrics l)\<lparr>cx_rejected_connections := cx_rejected_connections (lt_metrics l) + 1\<rparr>
      in l\<lparr>lt_metrics := if reason = Rate_Limited
           then m\<lparr>cx_rate_limited_connections := cx_rate_limited_connections m + 1\<rparr> else m\<rparr>)"

definition increment_active :: "connection_limiter \<Rightarrow> connection_limiter" where
  "increment_active l =
     (let m = (lt_metrics l)\<lparr>cx_total_connections := cx_total_connections (lt_metrics l) + 1,
                             cx_active_connections := cx_active_connections (lt_metrics l) + 1\<rparr>
      in l\<lparr>lt_metrics := if cx_active_connections m > cx_peak_concurrent_connections m
           then m\<lparr>cx_peak_concurrent_connections := cx_active_connections m\<rparr> else m\<rparr>)"

definition decrement_active :: "connection_limiter \<Rightarrow> connection_limiter" where
  "decrement_active l =
     (let m = lt_metrics l
      in l\<lparr>lt_metrics := if cx_active_connections m > 0
           then m\<lparr>cx_active_connections := cx_active_connections m - 1\<rparr> else m\<rparr>)"

datatype limiter_error = No_Permit | Rate_Limit_Exceeded string | Client_Limit_Exceeded string

text \<open>The permit taken first is dropped again when the client is refused; the entry of the client, with
  its old time stamps gone, stays.\<close>

definition acquire_connection ::
  "instant \<Rightarrow> string \<Rightarrow> connection_limiter \<Rightarrow> connection_limiter \<times> (limiter_error + unit)" where
  "acquire_connection now client_id l =
     (if lt_global_semaphore l = 0 then (increment_rejected Global_Limit l, Inl No_Permit)
      else
        let limits = lt_limits l;
            window = secs (uint (cn_rate_limit_window limits));
            found = (case hm_get (lt_client_connections l) client_id of
                       Some i \<Rightarrow> i | None \<Rightarrow> connection_info_new now);
            info = cleanup_old_timestamps now window found;
            store = (\<lambda>i. l\<lparr>lt_client_connections := hm_insert client_id i (lt_client_connections l)\<rparr>)
        in if is_rate_limited now (cn_rate_limit_max limits) window info
           then (increment_rejected Rate_Limited (store info), Inl (Rate_Limit_Exceeded client_id))
           else if ci_active_connections info \<ge> cn_max_connections_per_client limits
           then (increment_rejected Per_Client_Limit (store info), Inl (Client_Limit_Exceeded client_id))
           else ((increment_active (store (record_connection now info)))
                   \<lparr>lt_global_semaphore := lt_global_semaphore l - 1\<rparr>, Inr ()))"

definition release_client_connection :: "instant \<Rightarrow> string \<Rightarrow> connection_limiter \<Rightarrow> connection_limiter" where
  "release_client_connection now client_id l =
     decrement_active
       (l\<lparr>lt_client_connections := hm_update client_id (remove_connection now) (lt_client_connections l)\<rparr>)"

text \<open>One round of the cleanup task.\<close>

definition is_idle :: "connection_limits \<Rightarrow> instant \<Rightarrow> connection_info \<Rightarrow> bool" where
  "is_idle limits now i \<longleftrightarrow> \<not> max 0 (now - ci_last_activity i) \<le> secs (uint (cn_idle_timeout limits))"

definition cleanup_round :: "instant \<Rightarrow> connection_limiter \<Rightarrow> connection_limiter" where
  "cleanup_round now l =
     (let clients = hm_retain (\<lambda>_ i. \<not> is_idle (lt_limits l) now i) (lt_client_connections l);
          active = sum_list (map (\<lambda>(_, i). of_nat (ci_active_connections i)) clients)
      in l\<lparr>lt_client_connections := clients,
           lt_metrics := (lt_metrics l)\<lparr>cx_active_connections := active\<rparr>\<rparr>)"

section \<open>The server\<close>

text \<open>What the kernel says of the peer: the credentials, else the address, else the time.\<close>

datatype peer_addr = Pathname string | Unnamed_Addr string

definition extract_client_id :: "nat option \<Rightarrow> peer_addr option \<Rightarrow> nat \<Rightarrow> string" where
  "extract_client_id cred addr ts =
     (case cred of
        Some uid \<Rightarrow> ''uid-'' @ show_nat uid
      | None \<Rightarrow>
          (case addr of
             Some (Pathname path) \<Rightarrow> path
           | Some (Unnamed_Addr shown) \<Rightarrow> ''addr-'' @ shown
           | None \<Rightarrow> ''anon-'' @ show_nat ts))"

text \<open>The tasks of the server: the accept loop, one task for each open connection, one task for each
  connection that was closed and not yet taken from its client, and the cleanup.  The permit goes back
  to the semaphore when the connection closes.\<close>

record socket_server =
  ss_limiter :: connection_limiter
  ss_open :: "string list"
  ss_releases :: "string list"

definition new_with_limits :: "instant \<Rightarrow> connection_limits \<Rightarrow> socket_server" where
  "new_with_limits now limits = \<lparr> ss_limiter = limiter_new now limits, ss_open = [], ss_releases = [] \<rparr>"

definition accept_client :: "instant \<Rightarrow> string \<Rightarrow> socket_server \<Rightarrow> socket_server" where
  "accept_client now client_id s =
     (case acquire_connection now client_id (ss_limiter s) of
        (l, Inr _) \<Rightarrow> s\<lparr>ss_limiter := l, ss_open := ss_open s @ [client_id]\<rparr>
      | (l, Inl _) \<Rightarrow> s\<lparr>ss_limiter := l\<rparr>)"

definition remove_nth :: "nat \<Rightarrow> 'a list \<Rightarrow> 'a list" where
  "remove_nth i xs = take i xs @ drop (Suc i) xs"

definition drop_permit :: "nat \<Rightarrow> socket_server \<Rightarrow> socket_server" where
  "drop_permit i s =
     (if i < length (ss_open s)
      then s\<lparr>ss_limiter := (ss_limiter s)\<lparr>lt_global_semaphore := lt_global_semaphore (ss_limiter s) + 1\<rparr>,
             ss_open := remove_nth i (ss_open s), ss_releases := ss_releases s @ [ss_open s ! i]\<rparr>
      else s)"

definition run_release :: "instant \<Rightarrow> nat \<Rightarrow> socket_server \<Rightarrow> socket_server" where
  "run_release now i s =
     (if i < length (ss_releases s)
      then s\<lparr>ss_limiter := release_client_connection now (ss_releases s ! i) (ss_limiter s),
             ss_releases := remove_nth i (ss_releases s)\<rparr>
      else s)"

datatype limiter_op =
  Connect instant string
| Close_Connection nat
| Run_Release instant nat
| Cleanup instant

fun limiter_step :: "limiter_op \<Rightarrow> socket_server \<Rightarrow> socket_server" where
  "limiter_step (Connect now c) s = accept_client now c s"
| "limiter_step (Close_Connection i) s = drop_permit i s"
| "limiter_step (Run_Release now i) s = run_release now i s"
| "limiter_step (Cleanup now) s = s\<lparr>ss_limiter := cleanup_round now (ss_limiter s)\<rparr>"

section \<open>A connection\<close>

text \<open>One read of at most 4096 bytes of what the peer sent; the \<open>serde_json\<close> functions are arguments.\<close>

datatype 'a read_result = Read_Timeout | Read_Failed string | Read_Bytes 'a

datatype socket_error =
  Connection_Read_Timeout
| Failed_To_Read string
| Failed_To_Parse_Request
| Failed_To_Write string
| Connection_Timeout
| Daemon_Not_Running
| Failed_To_Connect string
| Response_Timeout
| Failed_To_Read_Response string
| Empty_Response
| Failed_To_Parse_Response

definition read_buf :: "string \<Rightarrow> string" where
  "read_buf sent = take 4096 sent"

definition handle_connection_with_permit ::
  "(string \<Rightarrow> request option) \<Rightarrow> (response \<Rightarrow> string) \<Rightarrow> (request \<Rightarrow> 'd \<Rightarrow> 'd \<times> response)
     \<Rightarrow> string read_result \<Rightarrow> string option \<Rightarrow> 'd \<Rightarrow> 'd \<times> (socket_error + string)" where
  "handle_connection_with_permit from_slice to_vec handler incoming write_failure d =
     (case incoming of
        Read_Timeout \<Rightarrow> (d, Inl Connection_Read_Timeout)
      | Read_Failed e \<Rightarrow> (d, Inl (Failed_To_Read e))
      | Read_Bytes sent \<Rightarrow>
          let buf = read_buf sent
          in if buf = [] then (d, Inr [])
             else case from_slice buf of
               None \<Rightarrow> (d, Inl Failed_To_Parse_Request)
             | Some req \<Rightarrow>
                 let (d', resp) = handler req d
                 in case write_failure of
                   Some e \<Rightarrow> (d', Inl (Failed_To_Write e))
                 | None \<Rightarrow> (d', Inr (to_vec resp)))"

text \<open>The older handler does the same without a permit.\<close>

definition handle_connection_legacy ::
  "(string \<Rightarrow> request option) \<Rightarrow> (response \<Rightarrow> string) \<Rightarrow> (request \<Rightarrow> 'd \<Rightarrow> 'd \<times> response)
     \<Rightarrow> string read_result \<Rightarrow> string option \<Rightarrow> 'd \<Rightarrow> 'd \<times> (socket_error + string)" where
  "handle_connection_legacy = handle_connection_with_permit"

datatype connect_result = Connected | Connect_Timeout | Connection_Refused | Connect_Failed string

definition connect_stream :: "connect_result \<Rightarrow> socket_error + unit" where
  "connect_stream c =
     (case c of
        Connected \<Rightarrow> Inr ()
      | Connect_Timeout \<Rightarrow> Inl Connection_Timeout
      | Connection_Refused \<Rightarrow> Inl Daemon_Not_Running
      | Connect_Failed e \<Rightarrow> Inl (Failed_To_Connect e))"

definition receive_response :: "(string \<Rightarrow> response option) \<Rightarrow> string read_result \<Rightarrow> socket_error + response" where
  "receive_response from_slice incoming =
     (case incoming of
        Read_Timeout \<Rightarrow> Inl Response_Timeout
      | Read_Failed e \<Rightarrow> Inl (Failed_To_Read_Response e)
      | Read_Bytes sent \<Rightarrow>
          let buf = read_buf sent
          in if buf = [] then Inl Empty_Response else ok_or (from_slice buf) Failed_To_Parse_Response)"

text \<open>The client over a daemon that serves the connection: the daemon reads what the client wrote,
  the client what the daemon wrote before it closed.\<close>

record json_codec =
  js_request_to_vec :: "request \<Rightarrow> string"
  js_request_from_slice :: "string \<Rightarrow> request option"
  js_response_to_vec :: "response \<Rightarrow> string"
  js_response_from_slice :: "string \<Rightarrow> response option"

definition send_request ::
  "json_codec \<Rightarrow> connect_result \<Rightarrow> (request \<Rightarrow> 'd \<Rightarrow> 'd \<times> response) \<Rightarrow> request \<Rightarrow> 'd
     \<Rightarrow> 'd \<times> (socket_error + response)" where
  "send_request js connected handler req d =
     (case connect_stream connected of
        Inl e \<Rightarrow> (d, Inl e)
      | Inr _ \<Rightarrow>
          let (d', answer) = handle_connection_with_permit (js_request_from_slice js) (js_response_to_vec js)
                               handler (Read_Bytes (js_request_to_vec js req)) None d
          in case answer of
            Inl _ \<Rightarrow> (d', receive_response (js_response_from_slice js) (Read_Bytes []))
          | Inr bytes \<Rightarrow> (d', receive_response (js_response_from_slice js) (Read_Bytes bytes)))"

section \<open>The locks of the limiter\<close>

datatype limiter_lock = Clients | Metrics

datatype lock_action = Lock limiter_lock | Unlock limiter_lock

text \<open>The order in which the tasks take and release the two locks.\<close>

definition cleanup_locks :: "lock_action list" where
  "cleanup_locks = [Lock Clients, Unlock Clients, Lock Metrics, Lock Clients, Unlock Clients, Unlock Metrics]"

definition release_locks :: "lock_action list" where
  "release_locks = [Lock Clients, Lock Metrics, Unlock Metrics, Unlock Clients]"

fun acquire_locks :: "limiter_error option \<Rightarrow> lock_action list" where
  "acquire_locks None = [Lock Clients, Unlock Clients, Lock Metrics, Unlock Metrics]"
| "acquire_locks (Some No_Permit) = [Lock Metrics, Unlock Metrics]"
| "acquire_locks (Some _) = [Lock Clients, Lock Metrics, Unlock Metrics, Unlock Clients]"

text \<open>The scheduler lets one task take its next action; a task that asks for a lock that is held waits.\<close>

fun lock_step :: "nat \<Rightarrow> limiter_lock set \<times> lock_action list list \<Rightarrow> limiter_lock set \<times> lock_action list list" where
  "lock_step i (held, tasks) =
     (if i < length tasks
      then case tasks ! i of
             [] \<Rightarrow> (held, tasks)
           | Lock l # rest \<Rightarrow> if l \<in> held then (held, tasks) else (insert l held, tasks[i := rest])
           | Unlock l # rest \<Rightarrow> (held - {l}, tasks[i := rest])
      else (held, tasks))"

section \<open>Bounds on the connections\<close>

lemma metrics_frame [simp]:
  "lt_limits (increment_rejected r l) = lt_limits l"
  "lt_global_semaphore (increment_rejected r l) = lt_global_semaphore l"
  "lt_client_connections (increment_rejected r l) = lt_client_connections l"
  "lt_limits (increment_active l) = lt_limits l"
  "lt_client_connections (increment_active l) = lt_client_connections l"
  "lt_limits (decrement_active l) = lt_limits l"
  "lt_global_semaphore (decrement_active l) = lt_global_semaphore l"
  "lt_client_connections (decrement_active l) = lt_client_connections l"
  by (simp_all add: increment_rejected_def increment_active_def decrement_active_def Let_def)

definition active_of :: "(string, connection_info) hashmap \<Rightarrow> string \<Rightarrow> nat" where
  "active_of cs c = (case hm_get cs c of Some i \<Rightarrow> ci_active_connections i | None \<Rightarrow> 0)"

lemma active_of_insert:
  "active_of (hm_insert c i cs) c' = (if c' = c then ci_active_connections i else active_of cs c')"
  by (simp add: active_of_def hm.get_insert)

lemma active_cleaned [simp]:
  "ci_active_connections (cleanup_old_timestamps now w i) = ci_active_connections i"
  "ci_active_connections (record_connection now i) = ci_active_connections i + 1"
  "ci_active_connections (remove_connection now i) = ci_active_connections i - 1"
  "ci_active_connections (connection_info_new now) = 0"
  by (simp_all add: cleanup_old_timestamps_def record_connection_def remove_connection_def
        connection_info_new_def Let_def)

text \<open>What an attempt to connect does: it is accepted exactly when a permit is free, the window of the
  client has room and so has its number of connections.\<close>

lemma acquire_cases:
  assumes "acquire_connection now c l = (l', r)"
  obtains (rejected) e where "r = Inl e" "lt_limits l' = lt_limits l"
      "lt_global_semaphore l' = lt_global_semaphore l"
      "active_of (lt_client_connections l') = active_of (lt_client_connections l)"
      "hm_wf (lt_client_connections l) \<Longrightarrow> hm_wf (lt_client_connections l')"
  | (accepted) "r = Inr ()" "lt_limits l' = lt_limits l" "lt_global_semaphore l = Suc (lt_global_semaphore l')"
      "active_of (lt_client_connections l) c < cn_max_connections_per_client (lt_limits l)"
      "active_of (lt_client_connections l')
         = (active_of (lt_client_connections l))(c := active_of (lt_client_connections l) c + 1)"
      "hm_wf (lt_client_connections l) \<Longrightarrow> hm_wf (lt_client_connections l')"
proof -
  let ?found = "case hm_get (lt_client_connections l) c of Some i \<Rightarrow> i | None \<Rightarrow> connection_info_new now"
  have found: "ci_active_connections ?found = active_of (lt_client_connections l) c"
    by (simp add: active_of_def split: option.splits)
  show thesis
  proof (cases "r = Inr ()")
    case True
    with assms found show ?thesis
      by (intro accepted)
        (auto simp: acquire_connection_def Let_def active_of_insert fun_eq_iff hm.wf_insert split: if_splits)
  next
    case False
    then obtain e where "r = Inl e" by (cases r) auto
    with assms found show ?thesis
      by (intro rejected [of e])
        (auto simp: acquire_connection_def Let_def active_of_insert fun_eq_iff hm.wf_insert split: if_splits)
  qed
qed

lemma count_remove_nth:
  "i < length xs \<Longrightarrow> count_list (remove_nth i xs) c = count_list xs c - (if xs ! i = c then 1 else 0)
     \<and> length (remove_nth i xs) = length xs - 1
     \<and> (xs ! i = c \<longrightarrow> 0 < count_list xs c)"
proof -
  assume i: "i < length xs"
  then have xs: "xs = take i xs @ xs ! i # drop (Suc i) xs" by (simp add: id_take_nth_drop)
  have "count_list xs c = count_list (take i xs) c + ((if xs ! i = c then 1 else 0) + count_list (drop (Suc i) xs) c)"
    by (subst xs) (simp del: append_take_drop_id)
  with i show ?thesis by (simp add: remove_nth_def)
qed

lemma active_of_release:
  "active_of (lt_client_connections (release_client_connection now c l)) c'
     = active_of (lt_client_connections l) c' - (if c' = c then 1 else 0)"
  by (simp add: release_client_connection_def active_of_def hm_get_update split: option.splits)

lemma active_of_retain:
  assumes "hm_wf cs"
  shows "active_of (hm_retain p cs) c \<le> active_of cs c"
    and "(\<And>i. hm_get cs c = Some i \<Longrightarrow> 0 < ci_active_connections i \<Longrightarrow> p c i)
      \<Longrightarrow> active_of (hm_retain p cs) c = active_of cs c"
  using assms by (auto simp: active_of_def hm_get_retain split: option.splits)

text \<open>The invariant: every permit is free or belongs to an open connection, and no client is recorded with
  more connections than it may have.\<close>

definition limiter_inv :: "connection_limits \<Rightarrow> socket_server \<Rightarrow> bool" where
  "limiter_inv limits s \<longleftrightarrow>
     lt_limits (ss_limiter s) = limits
     \<and> hm_wf (lt_client_connections (ss_limiter s))
     \<and> lt_global_semaphore (ss_limiter s) + length (ss_open s) = cn_max_connections limits
     \<and> (\<forall>c. active_of (lt_client_connections (ss_limiter s)) c \<le> cn_max_connections_per_client limits)"

lemma limiter_inv_step:
  assumes inv: "limiter_inv limits s"
  shows "limiter_inv limits (limiter_step oper s)"
proof (cases oper)
  case (Connect now c)
  obtain l r where a: "acquire_connection now c (ss_limiter s) = (l, r)" by force
  from a show ?thesis
    by (cases rule: acquire_cases) (use inv a Connect in \<open>auto simp: limiter_inv_def accept_client_def\<close>)
next
  case (Close_Connection i)
  with inv count_remove_nth [of i "ss_open s"] show ?thesis
    by (auto simp: limiter_inv_def drop_permit_def)
next
  case (Run_Release now i)
  have le: "active_of (lt_client_connections (release_client_connection now c l)) c' \<le> n"
    if "active_of (lt_client_connections l) c' \<le> n" for c c' l n
    using that by (simp add: active_of_release)
  have frame: "lt_limits (release_client_connection now c l) = lt_limits l"
    "lt_global_semaphore (release_client_connection now c l) = lt_global_semaphore l"
    "hm_wf (lt_client_connections l) \<Longrightarrow> hm_wf (lt_client_connections (release_client_connection now c l))" for c l
    by (simp_all add: release_client_connection_def hm_wf_update)
  from inv Run_Release show ?thesis
    by (auto simp: limiter_inv_def run_release_def frame intro: le)
next
  case (Cleanup now)
  with inv show ?thesis
    by (auto simp: limiter_inv_def cleanup_round_def Let_def hm_wf_retain
          intro: order_trans [OF active_of_retain(1)])
qed

interpretation limiter: component limiter_step "limiter_inv limits" for limits
  by unfold_locales (rule limiter_inv_step)

lemma limiter_inv_new: "limiter_inv limits (new_with_limits now limits)"
  by (simp add: limiter_inv_def new_with_limits_def limiter_new_def active_of_def hm.get_empty hm.wf_empty)

text \<open>the permits that are free and the connections that are open are together the configured maximum,
  whatever the interleaving of connects, closes, releases and cleanups: no more are ever open.\<close>

theorem connections_bounded:
  "case fold limiter_step ops (new_with_limits now limits) of s \<Rightarrow>
     lt_global_semaphore (ss_limiter s) + length (ss_open s) = cn_max_connections limits"
proof -
  have "limiter_inv limits (fold limiter_step ops (new_with_limits now limits))"
    by (rule limiter.inv_run [OF limiter_inv_new])
  then show ?thesis by (simp add: limiter_inv_def)
qed

text \<open>The count of a client and its connections.\<close>

definition counts_exact :: "socket_server \<Rightarrow> bool" where
  "counts_exact s \<longleftrightarrow>
     (\<forall>c. active_of (lt_client_connections (ss_limiter s)) c = count_list (ss_open s) c + count_list (ss_releases s) c)"

text \<open>A cleanup is quiet when no client that it removes has a connection.\<close>

fun quiet_op :: "limiter_op \<Rightarrow> socket_server \<Rightarrow> bool" where
  "quiet_op (Cleanup now) s =
     list_all (\<lambda>(_, i). ci_active_connections i = 0 \<or> \<not> is_idle (lt_limits (ss_limiter s)) now i)
       (lt_client_connections (ss_limiter s))"
| "quiet_op _ s = True"

fun quiet_history :: "limiter_op list \<Rightarrow> socket_server \<Rightarrow> bool" where
  "quiet_history [] s = True"
| "quiet_history (oper # ops) s = (quiet_op oper s \<and> quiet_history ops (limiter_step oper s))"

lemma counts_exact_step:
  assumes "counts_exact s" "hm_wf (lt_client_connections (ss_limiter s))" "quiet_op oper s"
  shows "counts_exact (limiter_step oper s)"
proof (cases oper)
  case (Connect now c)
  obtain l r where a: "acquire_connection now c (ss_limiter s) = (l, r)" by force
  from a show ?thesis
    by (cases rule: acquire_cases) (use assms a Connect in \<open>auto simp: counts_exact_def accept_client_def\<close>)
next
  case (Close_Connection i)
  with assms(1) count_remove_nth [of i "ss_open s"] show ?thesis
    by (auto simp: counts_exact_def drop_permit_def)
next
  case (Run_Release now i)
  have "count_list (ss_open s) c + count_list (ss_releases s) c - (if c = ss_releases s ! i then 1 else 0)
      = count_list (ss_open s) c + count_list (remove_nth i (ss_releases s)) c"
    if "i < length (ss_releases s)" for c
    using count_remove_nth [OF that, of c] by auto
  with assms(1) Run_Release show ?thesis
    by (simp add: counts_exact_def run_release_def active_of_release)
next
  case (Cleanup now)
  have keep: "\<not> is_idle (lt_limits (ss_limiter s)) now i"
    if "hm_get (lt_client_connections (ss_limiter s)) c = Some i" "0 < ci_active_connections i" for c i
    using assms(3) hm_get_in_set [OF that(1)] that(2) by (auto simp: Cleanup list_all_iff)
  show ?thesis
    using assms(1) active_of_retain(2) [OF assms(2) keep]
    by (simp add: Cleanup counts_exact_def cleanup_round_def Let_def)
qed

lemma counts_exact_history:
  "counts_exact s \<Longrightarrow> limiter_inv limits s \<Longrightarrow> quiet_history ops s \<Longrightarrow> counts_exact (fold limiter_step ops s)"
proof (induction ops arbitrary: s)
  case (Cons oper ops)
  then have "counts_exact (limiter_step oper s)"
    by (intro counts_exact_step) (simp_all add: limiter_inv_def)
  with Cons limiter_inv_step show ?case by simp
qed simp

text \<open>C19: as long as no cleanup removes a client that has a connection, no client has more connections open
  than the limit for a client, however the server's tasks interleave.\<close>

theorem client_connections_bounded:
  assumes "quiet_history ops (new_with_limits now limits)"
  shows "count_list (ss_open (fold limiter_step ops (new_with_limits now limits))) c
           \<le> cn_max_connections_per_client limits"
proof -
  let ?s = "fold limiter_step ops (new_with_limits now limits)"
  have "counts_exact ?s"
    by (rule counts_exact_history [OF _ limiter_inv_new assms])
      (simp add: counts_exact_def new_with_limits_def limiter_new_def active_of_def hm.get_empty)
  moreover have "limiter_inv limits ?s" by (rule limiter.inv_run [OF limiter_inv_new])
  ultimately show ?thesis
    by (auto simp: limiter_inv_def counts_exact_def dest!: spec [of _ c])
qed

lemmas limiter_eval =
  new_with_limits_def limiter_new_def accept_client_def acquire_connection_def hm_get_def hm_insert_def
  hm_update_def hm_retain_def cleanup_round_def is_idle_def cleanup_old_timestamps_def is_rate_limited_def
  record_connection_def connection_info_new_def increment_active_def increment_rejected_def drop_permit_def
  remove_nth_def connection_limits_default_def connection_metrics_default_def Let_def

theorem client_connections_bounded_witness:
  "count_list (ss_open (fold limiter_step [Connect 0 ''uid-0'', Cleanup 1, Close_Connection 0, Connect 2 ''uid-0'']
     (new_with_limits 0 connection_limits_default))) ''uid-0'' \<le> 10"
  using client_connections_bounded [of "[Connect 0 ''uid-0'', Cleanup 1, Close_Connection 0, Connect 2 ''uid-0'']" 0
      connection_limits_default "''uid-0''"]
  by (simp add: limiter_eval)

text \<open>A cleanup that removes such a client forgets its connections, and the client gets as many again.\<close>

lemma cleanup_forgets_connections:
  "count_list (ss_open (fold limiter_step
     [Connect 0 ''uid-0'', Cleanup (secs 6), Connect (secs 6) ''uid-0'', Cleanup (secs 12), Connect (secs 12) ''uid-0'']
     (new_with_limits 0 (connection_limits_default\<lparr>cn_max_connections_per_client := 1, cn_idle_timeout := 5\<rparr>))))
     ''uid-0'' = 3"
  by (simp add: limiter_eval)

text \<open>a client is accepted only if, with it, no more of its connections were made in the window than
  the limit, and if a permit was free; a refused attempt is counted and takes no permit.\<close>

theorem rate_limit_enforced:
  "case acquire_connection now c l of
     (l', Inr _) \<Rightarrow>
        0 < lt_global_semaphore l
        \<and> (case hm_get (lt_client_connections l') c of
             None \<Rightarrow> False
           | Some i \<Rightarrow> length (filter (\<lambda>ts. now - ts \<le> secs (uint (cn_rate_limit_window (lt_limits l))))
                         (ci_connection_timestamps i)) \<le> cn_rate_limit_max (lt_limits l))
   | (l', Inl _) \<Rightarrow>
        lt_global_semaphore l' = lt_global_semaphore l
        \<and> cx_rejected_connections (lt_metrics l') = cx_rejected_connections (lt_metrics l) + 1"
proof -
  have nonneg: "(max 0 t \<le> secs (uint w)) = (t \<le> secs (uint w))" for t :: int and w :: u64
    by simp
  show ?thesis
    unfolding acquire_connection_def Let_def is_rate_limited_def nonneg
    by (auto simp: hm.get_insert record_connection_def cleanup_old_timestamps_def increment_rejected_def
          increment_active_def Let_def simp del: secs_def)
qed

section \<open>Requests and answers\<close>

text \<open>a request and an answer that JSON brings back and that fit into the buffer make the round trip:
  the client returns what the handler answered, and the daemon is as the handler left it.\<close>

theorem request_answered:
  assumes "handler req d = (d', resp)"
    and "js_request_from_slice js (js_request_to_vec js req) = Some req"
    and "js_response_from_slice js (js_response_to_vec js resp) = Some resp"
    and "0 < length (js_request_to_vec js req)" "length (js_request_to_vec js req) \<le> 4096"
    and "0 < length (js_response_to_vec js resp)" "length (js_response_to_vec js resp) \<le> 4096"
  shows "send_request js Connected handler req d = (d', Inr resp)"
  using assms
  by (simp add: send_request_def connect_stream_def handle_connection_with_permit_def receive_response_def
      read_buf_def Let_def)

definition sample_codec :: json_codec where
  "sample_codec =
     \<lparr> js_request_to_vec = (\<lambda>r. if r = Ping then ''Ping'' else ''GetConfig''),
       js_request_from_slice = (\<lambda>s. if s = ''Ping'' then Some Ping else if s = ''GetConfig'' then Some GetConfig else None),
       js_response_to_vec = (\<lambda>r. if r = Pong then ''Pong'' else replicate 5000 (CHR 0x22)),
       js_response_from_slice = (\<lambda>s. if s = ''Pong'' then Some Pong else None) \<rparr>"

theorem request_answered_witness:
  "send_request sample_codec Connected (\<lambda>_ n. (n + 1, Pong)) Ping (0 :: nat) = (1, Inr Pong)"
  by (rule request_answered) (simp_all add: sample_codec_def)

text \<open>an answer of more than 4096 bytes of which JSON reads no beginning is lost: the daemon has done
  what was asked, and the client reports an error.\<close>

theorem long_response_lost:
  assumes "handler req d = (d', resp)"
    and "js_request_from_slice js (js_request_to_vec js req) = Some req"
    and "0 < length (js_request_to_vec js req)" "length (js_request_to_vec js req) \<le> 4096"
    and "4096 < length (js_response_to_vec js resp)"
    and "js_response_from_slice js (take 4096 (js_response_to_vec js resp)) = None"
  shows "send_request js Connected handler req d = (d', Inl Failed_To_Parse_Response)"
proof -
  from assms(5) have "js_response_to_vec js resp \<noteq> []" by auto
  with assms show ?thesis
    by (simp add: send_request_def connect_stream_def handle_connection_with_permit_def receive_response_def
        read_buf_def Let_def)
qed

theorem long_response_lost_witness:
  "send_request sample_codec Connected (\<lambda>_ n. (n + 1, Config_Response [])) GetConfig (0 :: nat)
     = (1, Inl Failed_To_Parse_Response)"
proof (rule long_response_lost)
  have "take 4096 (replicate 5000 (CHR 0x22)) = replicate 4096 (CHR 0x22)" by simp
  moreover have "replicate 4096 (CHR 0x22) \<noteq> ''Pong''"
    by (rule notI, drule arg_cong [of _ _ length]) simp
  ultimately show "js_response_from_slice sample_codec (take 4096 (js_response_to_vec sample_codec (Config_Response []))) = None"
    by (simp add: sample_codec_def)
qed (simp_all add: sample_codec_def)

section \<open>Deadlock\<close>

lemma lock_step_stuck:
  fixes tasks :: "limiter_error option list"
  shows "lock_step i ({Clients, Metrics},
     [Lock Clients, Unlock Clients, Unlock Metrics] # [Lock Metrics, Unlock Metrics, Unlock Clients]
       # map acquire_locks tasks) =
    ({Clients, Metrics},
     [Lock Clients, Unlock Clients, Unlock Metrics] # [Lock Metrics, Unlock Metrics, Unlock Clients]
       # map acquire_locks tasks)"
proof -
  have first: "\<exists>l rest. acquire_locks t = Lock l # rest" for t
    by (cases t rule: acquire_locks.cases) auto
  have locks: "l \<in> {Clients, Metrics}" for l by (cases l) auto
  show ?thesis
  proof (cases "i < 2")
    case True
    then show ?thesis by (auto simp: less_2_cases_iff)
  next
    case False
    then have "i = Suc (Suc (i - 2))" by simp
    then obtain k where i: "i = Suc (Suc k)" by blast
    show ?thesis
    proof (cases "k < length tasks")
      case True
      with first [of "tasks ! k"] obtain l rest where "acquire_locks (tasks ! k) = Lock l # rest" by blast
      with True locks [of l] show ?thesis by (simp add: i)
    qed (simp add: i)
  qed
qed

text \<open>C23: the cleanup waits for the clients while it holds the metrics, and a closing connection waits for
  the metrics while it holds the clients: after four steps nothing moves again, and no connection
  is accepted or refused any more, whatever the schedule and however many ask.\<close>

theorem limiter_deadlocks:
  "fold lock_step ([0, 0, 0, 1] @ schedule) ({}, cleanup_locks # release_locks # map acquire_locks attempts)
     = ({Clients, Metrics},
        [Lock Clients, Unlock Clients, Unlock Metrics] # [Lock Metrics, Unlock Metrics, Unlock Clients]
          # map acquire_locks attempts)"
proof -
  let ?stuck = "({Clients, Metrics},
     [Lock Clients, Unlock Clients, Unlock Metrics] # [Lock Metrics, Unlock Metrics, Unlock Clients]
       # map acquire_locks attempts)"
  have "fold lock_step [0, 0, 0, 1] ({}, cleanup_locks # release_locks # map acquire_locks attempts) = ?stuck"
    by (simp add: cleanup_locks_def release_locks_def insert_commute)
  moreover have "fold lock_step schedule ?stuck = ?stuck"
    by (induction schedule) (simp_all only: fold.simps id_apply o_apply lock_step_stuck)
  ultimately show ?thesis by (simp only: fold_append o_apply)
qed

end
