(* ===== verification/Progress.thy ===== *)
theory Progress
  imports Complex_Main Fuji_Prelude
begin

text \<open>
  \<open>src/progress/mod.rs\<close>: the phases of an operation, the reporter that one operation updates and
  the table of all operations.

  A progress (\<open>f32\<close> in the source) is an exact rational number; rounding is not modelled.  The
  channel of a reporter is the last value that was sent; sending fails, and leaves it, when nobody
  listens.  The identifier of an operation is an argument.
\<close>

type_synonym progress = rat

datatype progress_phase =
  Starting string
| Validating string progress
| Preparing string progress
| Executing string progress
| Verifying string progress
| Completed string u64
| Phase_Failed string string u64

fun progress_of :: "progress_phase \<Rightarrow> progress" where
  "progress_of (Starting _) = 0"
| "progress_of (Validating _ p) = p"
| "progress_of (Preparing _ p) = p"
| "progress_of (Executing _ p) = p"
| "progress_of (Verifying _ p) = p"
| "progress_of (Completed _ _) = 1"
| "progress_of (Phase_Failed _ _ _) = 1"

fun message_of :: "progress_phase \<Rightarrow> string" where
  "message_of (Starting m) = m"
| "message_of (Validating m _) = m"
| "message_of (Preparing m _) = m"
| "message_of (Executing m _) = m"
| "message_of (Verifying m _) = m"
| "message_of (Completed m _) = m"
| "message_of (Phase_Failed m _ _) = m"

fun is_finished :: "progress_phase \<Rightarrow> bool" where
  "is_finished (Completed _ _) = True"
| "is_finished (Phase_Failed _ _ _) = True"
| "is_finished _ = False"

fun is_success :: "progress_phase \<Rightarrow> bool" where
  "is_success (Completed _ _) = True"
| "is_success _ = False"

record progress_info =
  pi_operation_id :: string
  pi_operation_type :: string
  pi_target :: string
  pi_phase :: progress_phase
  pi_started_at :: instant
  pi_estimated_duration_ms :: "u64 option"

section \<open>The reporter\<close>

record progress_reporter =
  pr_operation_id :: string
  pr_operation_type :: string
  pr_target :: string
  pr_state :: progress_phase
  pr_channel :: progress_info
  pr_listened :: bool
  pr_started_at :: instant

definition reporter_new :: "string \<Rightarrow> instant \<Rightarrow> string \<Rightarrow> string \<Rightarrow> u64 option \<Rightarrow> progress_reporter" where
  "reporter_new operation_id started_at operation_type target estimated =
     (let phase = Starting (''Starting '' @ operation_type @ ''...'')
      in \<lparr> pr_operation_id = operation_id, pr_operation_type = operation_type, pr_target = target,
           pr_state = phase,
           pr_channel = \<lparr> pi_operation_id = operation_id, pi_operation_type = operation_type, pi_target = target,
                          pi_phase = phase, pi_started_at = started_at, pi_estimated_duration_ms = estimated \<rparr>,
           pr_listened = True, pr_started_at = started_at \<rparr>)"

definition update_phase :: "progress_phase \<Rightarrow> progress_reporter \<Rightarrow> progress_reporter" where
  "update_phase phase r =
     (let info = \<lparr> pi_operation_id = pr_operation_id r, pi_operation_type = pr_operation_type r,
                   pi_target = pr_target r, pi_phase = phase, pi_started_at = pr_started_at r,
                   pi_estimated_duration_ms = None \<rparr>
      in r\<lparr>pr_state := phase, pr_channel := if pr_listened r then info else pr_channel r\<rparr>)"

definition clamp :: "progress \<Rightarrow> progress \<Rightarrow> progress \<Rightarrow> progress" where
  "clamp lo hi x = (if x < lo then lo else if x > hi then hi else x)"

definition phase_named :: "string \<Rightarrow> string \<Rightarrow> progress \<Rightarrow> progress_phase option" where
  "phase_named phase_name message progress =
     (if phase_name = ''validating'' then Some (Validating message (clamp 0 (1 / 5) progress))
      else if phase_name = ''preparing'' then Some (Preparing message (clamp 0 1 progress * (1 / 5) + 1 / 5))
      else if phase_name = ''executing'' then Some (Executing message (clamp 0 1 progress * (1 / 2) + 2 / 5))
      else if phase_name = ''verifying'' then Some (Verifying message (clamp 0 1 progress * (1 / 20) + 9 / 10))
      else None)"

definition update_progress :: "string \<Rightarrow> string \<Rightarrow> progress \<Rightarrow> progress_reporter \<Rightarrow> progress_reporter" where
  "update_progress phase_name message progress r =
     (case phase_named phase_name message progress of
        None \<Rightarrow> r
      | Some phase \<Rightarrow> update_phase phase r)"

definition millis_since_epoch :: "instant \<Rightarrow> u64" where
  "millis_since_epoch t = word_of_int (t div 1000000)"

definition complete :: "instant \<Rightarrow> string \<Rightarrow> progress_reporter \<Rightarrow> progress_reporter" where
  "complete now message r =
     update_phase (Completed message (millis_since_epoch now - millis_since_epoch (pr_started_at r))) r"

definition fail :: "instant \<Rightarrow> string \<Rightarrow> progress_reporter \<Rightarrow> progress_reporter" where
  "fail now err r =
     update_phase
       (Phase_Failed ''Operation failed'' err (millis_since_epoch now - millis_since_epoch (pr_started_at r))) r"

definition current_progress :: "progress_reporter \<Rightarrow> progress_info" where
  "current_progress r =
     \<lparr> pi_operation_id = pr_operation_id r, pi_operation_type = pr_operation_type r, pi_target = pr_target r,
       pi_phase = pr_state r, pi_started_at = pr_started_at r, pi_estimated_duration_ms = None \<rparr>"

section \<open>The manager\<close>

type_synonym progress_manager = "(string, progress_info) hashmap"

definition progress_manager_new :: progress_manager where
  "progress_manager_new = []"

definition register_operation :: "progress_info \<Rightarrow> progress_manager \<Rightarrow> progress_manager" where
  "register_operation info ops = hm_insert (pi_operation_id info) info ops"

definition update_operation :: "string \<Rightarrow> progress_info \<Rightarrow> progress_manager \<Rightarrow> progress_manager" where
  "update_operation operation_id info ops = hm_insert operation_id info ops"

definition get_active_operations :: "progress_manager \<Rightarrow> progress_info list" where
  "get_active_operations ops = filter (\<lambda>info. \<not> is_finished (pi_phase info)) (map snd ops)"

definition get_operations_for_target :: "string \<Rightarrow> progress_manager \<Rightarrow> progress_info list" where
  "get_operations_for_target target ops = filter (\<lambda>info. pi_target info = target) (map snd ops)"

definition cleanup_finished :: "instant \<Rightarrow> duration \<Rightarrow> progress_manager \<Rightarrow> progress_manager" where
  "cleanup_finished now max_age ops =
     hm_retain (\<lambda>_ info. \<not> is_finished (pi_phase info) \<or> now - pi_started_at info < max_age) ops"

section \<open>Properties\<close>

lemma clamp_bounds: "0 \<le> clamp 0 hi x \<and> clamp 0 hi x \<le> hi" if "0 \<le> hi"
  using that by (simp add: clamp_def)

text \<open>whatever numbers an operation reports, its phases stay in order: a later phase never shows less
  progress than an earlier one, and all of it lies between none and all.\<close>

theorem progress_ordered:
  "map_option progress_of (phase_named ''validating'' m1 x1) = Some p1
   \<and> map_option progress_of (phase_named ''preparing'' m2 x2) = Some p2
   \<and> map_option progress_of (phase_named ''executing'' m3 x3) = Some p3
   \<and> map_option progress_of (phase_named ''verifying'' m4 x4) = Some p4
   \<Longrightarrow> 0 \<le> p1 \<and> p1 \<le> p2 \<and> p2 \<le> p3 \<and> p3 \<le> p4 \<and> p4 < 1"
proof -
  have unit: "0 \<le> clamp 0 1 y" "clamp 0 1 y \<le> 1" "0 \<le> clamp 0 (1 / 5) y" "clamp 0 (1 / 5) y \<le> 1 / 5" for y :: rat
    using clamp_bounds [of 1 y] clamp_bounds [of "1 / 5" y] by simp_all
  assume "map_option progress_of (phase_named ''validating'' m1 x1) = Some p1
   \<and> map_option progress_of (phase_named ''preparing'' m2 x2) = Some p2
   \<and> map_option progress_of (phase_named ''executing'' m3 x3) = Some p3
   \<and> map_option progress_of (phase_named ''verifying'' m4 x4) = Some p4"
  then have "p1 = clamp 0 (1 / 5) x1" "p2 = clamp 0 1 x2 * (1 / 5) + 1 / 5"
    "p3 = clamp 0 1 x3 * (1 / 2) + 2 / 5" "p4 = clamp 0 1 x4 * (1 / 20) + 9 / 10"
    by (simp_all add: phase_named_def)
  then show ?thesis using unit [of x1] unit [of x2] unit [of x3] unit [of x4] by simp
qed

theorem progress_ordered_witness:
  "(0 :: rat) \<le> 1 / 5 \<and> (1 / 5 :: rat) \<le> 1 / 5 \<and> (1 / 5 :: rat) \<le> 9 / 10 \<and> (9 / 10 :: rat) \<le> 19 / 20 \<and> (19 / 20 :: rat) < 1"
  using progress_ordered [of "[]" 7 "1 / 5" "[]" "-3" "1 / 5" "[]" 1 "9 / 10" "[]" 1 "19 / 20"]
  by (simp add: phase_named_def clamp_def)

text \<open>A cleanup removes the finished operations that started long ago, and no other.\<close>

lemma cleanup_finished_get:
  assumes "hm_wf ops"
  shows "hm_get (cleanup_finished now max_age ops) i =
    (case hm_get ops i of
       Some info \<Rightarrow> if is_finished (pi_phase info) \<and> max_age \<le> now - pi_started_at info then None else Some info
     | None \<Rightarrow> None)"
  using assms by (auto simp: cleanup_finished_def hm_get_retain split: option.splits)

end
