(* ===== verification/Daemon_Error.thy ===== *)
theory Daemon_Error
  imports Fuji_Prelude
begin

text \<open>
  \<open>src/daemon/error.rs\<close>: the errors of the daemon, their
  messages, categories and whether they are recoverable.

  An error of a library (\<open>std::io\<close>, \<open>regex\<close>, \<open>toml\<close>, \<open>anyhow\<close>) is its message.
\<close>

datatype daemon_error =
  MountError string
| ConfigError string
| Io string
| NetworkError string
| InvalidProtocol string
| MountNotFound string
| MountConflict string
| RegexError string string
| Serialization string
| Deserialization string
| SocketError string
| PlatformError string
| PermissionDenied string
| ResourceNotFound string
| InvalidOperation string
| Timeout string
| StateError string
| SystemError string
| SignalError string
| PidFileError string
| LockError string
| HealthCheckError string string
| ReconnectionError string string
| Generic string string

fun show_daemon_error :: "daemon_error \<Rightarrow> string" where
  "show_daemon_error (MountError m) = ''Mount error: '' @ m"
| "show_daemon_error (ConfigError m) = ''Configuration error: '' @ m"
| "show_daemon_error (Io e) = ''I/O error: '' @ e"
| "show_daemon_error (NetworkError m) = ''Network error: '' @ m"
| "show_daemon_error (InvalidProtocol url) = ''Invalid protocol in URL: '' @ url"
| "show_daemon_error (MountNotFound i) = ''Mount '' @ [CHR 0x27] @ i @ [CHR 0x27] @ '' not found''"
| "show_daemon_error (MountConflict m) = ''Mount operation conflict: '' @ m"
| "show_daemon_error (RegexError p e) =
     ''Failed to compile regex pattern '' @ [CHR 0x27] @ p @ [CHR 0x27] @ '': '' @ e"
| "show_daemon_error (Serialization e) = ''Serialization error: '' @ e"
| "show_daemon_error (Deserialization e) = ''Deserialization error: '' @ e"
| "show_daemon_error (SocketError m) = ''Socket error: '' @ m"
| "show_daemon_error (PlatformError m) = ''Platform error: '' @ m"
| "show_daemon_error (PermissionDenied oper) = ''Permission denied: '' @ oper"
| "show_daemon_error (ResourceNotFound r) = ''Resource not found: '' @ r"
| "show_daemon_error (InvalidOperation oper) = ''Invalid operation: '' @ oper"
| "show_daemon_error (Timeout oper) = ''Operation timed out: '' @ oper"
| "show_daemon_error (StateError m) = ''Invalid state: '' @ m"
| "show_daemon_error (SystemError m) = ''System error: '' @ m"
| "show_daemon_error (SignalError m) = ''Signal error: '' @ m"
| "show_daemon_error (PidFileError m) = ''PID file error: '' @ m"
| "show_daemon_error (LockError l) = ''Failed to acquire lock: '' @ l"
| "show_daemon_error (HealthCheckError i r) =
     ''Health check failed for mount '' @ [CHR 0x27] @ i @ [CHR 0x27] @ '': '' @ r"
| "show_daemon_error (ReconnectionError i r) =
     ''Reconnection failed for mount '' @ [CHR 0x27] @ i @ [CHR 0x27] @ '': '' @ r"
| "show_daemon_error (Generic context source) = context @ '': '' @ source"

fun is_recoverable :: "daemon_error \<Rightarrow> bool" where
  "is_recoverable (NetworkError _) = True"
| "is_recoverable (MountError _) = True"
| "is_recoverable (HealthCheckError _ _) = True"
| "is_recoverable (ReconnectionError _ _) = True"
| "is_recoverable (Timeout _) = True"
| "is_recoverable (PermissionDenied _) = False"
| "is_recoverable (InvalidProtocol _) = False"
| "is_recoverable (MountNotFound _) = False"
| "is_recoverable (InvalidOperation _) = False"
| "is_recoverable (Deserialization _) = False"
| "is_recoverable (Serialization _) = False"
| "is_recoverable _ = True"

fun category :: "daemon_error \<Rightarrow> string" where
  "category (MountError _) = ''mount''"
| "category (ConfigError _) = ''config''"
| "category (Io _) = ''io''"
| "category (NetworkError _) = ''network''"
| "category (InvalidProtocol _) = ''protocol''"
| "category (MountNotFound _) = ''not_found''"
| "category (MountConflict _) = ''conflict''"
| "category (RegexError _ _) = ''regex''"
| "category (Serialization _) = ''serialization''"
| "category (Deserialization _) = ''serialization''"
| "category (SocketError _) = ''socket''"
| "category (PlatformError _) = ''platform''"
| "category (PermissionDenied _) = ''permission''"
| "category (ResourceNotFound _) = ''resource''"
| "category (InvalidOperation _) = ''operation''"
| "category (Timeout _) = ''timeout''"
| "category (StateError _) = ''state''"
| "category (SystemError _) = ''system''"
| "category (SignalError _) = ''signal''"
| "category (PidFileError _) = ''pidfile''"
| "category (LockError _) = ''lock''"
| "category (HealthCheckError _ _) = ''health''"
| "category (ReconnectionError _ _) = ''reconnection''"
| "category (Generic _ _) = ''generic''"

section \<open>Constructors\<close>

definition mount_error :: "string \<Rightarrow> daemon_error" where
  "mount_error s = MountError s"

definition config_error_of :: "string \<Rightarrow> daemon_error" where
  "config_error_of s = ConfigError s"

definition network_error :: "string \<Rightarrow> daemon_error" where
  "network_error s = NetworkError s"

definition mount_not_found :: "string \<Rightarrow> daemon_error" where
  "mount_not_found s = MountNotFound s"

definition mount_conflict_error :: "string \<Rightarrow> daemon_error" where
  "mount_conflict_error s = MountConflict s"

definition socket_error_of :: "string \<Rightarrow> daemon_error" where
  "socket_error_of s = SocketError s"

definition platform_error :: "string \<Rightarrow> daemon_error" where
  "platform_error s = PlatformError s"

definition permission_denied :: "string \<Rightarrow> daemon_error" where
  "permission_denied s = PermissionDenied s"

definition resource_not_found :: "string \<Rightarrow> daemon_error" where
  "resource_not_found s = ResourceNotFound s"

definition invalid_operation :: "string \<Rightarrow> daemon_error" where
  "invalid_operation s = InvalidOperation s"

definition timeout_error :: "string \<Rightarrow> daemon_error" where
  "timeout_error s = Timeout s"

definition state_error :: "string \<Rightarrow> daemon_error" where
  "state_error s = StateError s"

definition system_error :: "string \<Rightarrow> daemon_error" where
  "system_error s = SystemError s"

definition signal_error :: "string \<Rightarrow> daemon_error" where
  "signal_error s = SignalError s"

definition pid_file_error :: "string \<Rightarrow> daemon_error" where
  "pid_file_error s = PidFileError s"

definition lock_error :: "string \<Rightarrow> daemon_error" where
  "lock_error s = LockError s"

definition health_check_error :: "string \<Rightarrow> string \<Rightarrow> daemon_error" where
  "health_check_error s t = HealthCheckError s t"

definition reconnection_error :: "string \<Rightarrow> string \<Rightarrow> daemon_error" where
  "reconnection_error s t = ReconnectionError s t"

definition generic :: "string \<Rightarrow> string \<Rightarrow> daemon_error" where
  "generic s t = Generic s t"

definition of_regex_error :: "string \<Rightarrow> daemon_error" where
  "of_regex_error e = RegexError ''unknown'' e"

definition of_anyhow :: "string \<Rightarrow> daemon_error" where
  "of_anyhow e = generic ''Unexpected error'' e"

text \<open>The category tells the kind of the error apart, but for the two of serialization, and decides
  whether it is recoverable.\<close>

lemma category_decides_recovery: "category e = category e' \<Longrightarrow> is_recoverable e = is_recoverable e'"
  by (cases e; cases e'; simp)

lemma not_recoverable_iff:
  "\<not> is_recoverable e \<longleftrightarrow>
     category e \<in> {''permission'', ''protocol'', ''not_found'', ''operation'', ''serialization''}"
  by (cases e; simp)

end
