(* ===== verification/Daemon_Monitor.thy ===== *)
theory Daemon_Monitor
  imports Mount_Types
begin

text \<open>\<open>src/daemon/monitor.rs\<close>: the health of each mount, by its id.\<close>

type_synonym mount_monitor = "(string, mount_health) hashmap"

definition monitor_new :: mount_monitor where
  "monitor_new = []"

definition update_health :: "string \<Rightarrow> mount_health \<Rightarrow> mount_monitor \<Rightarrow> mount_monitor" where
  "update_health mount_id state m = hm_insert mount_id state m"

definition get_health_score :: "mount_monitor \<Rightarrow> string \<Rightarrow> u8 option" where
  "get_health_score m mount_id = map_option mh_health_score (hm_get m mount_id)"

definition get_all_health :: "mount_monitor \<Rightarrow> (string, mount_health) hashmap" where
  "get_all_health m = m"

lemma get_health_score_update:
  "get_health_score (update_health k st m) k' = (if k' = k then Some (mh_health_score st) else get_health_score m k')"
  by (simp add: get_health_score_def update_health_def hm.get_insert)

end
