(* ===== verification/Daemon_State.thy ===== *)
theory Daemon_State
  imports Socket_Protocol Config_Store Mount_Retry Mount_Options Path_Security Resource_Limits Progress
    Daemon_Error Daemon_Monitor
begin

text \<open>
  The state that the handlers and the monitoring loop of \<open>src/daemon/mod.rs\<close> share, and what they
  ask of the world.

  \<open>dm_retry\<close> holds the configuration, the state of the retry coordinator and the world outside (the
  processes, mounts and files of the system, of type \<open>'x\<close>), as \<open>Mount_Retry\<close> has them.  A handler runs
  as one step: what other handlers do while it waits is not modelled.  The clock is that of the world
  outside, so reads between which nothing happens give the same time.
\<close>

record 'x daemon =
  dm_retry :: "'x retry_state"
  dm_files :: files
  dm_monitor :: mount_monitor
  dm_path_security :: path_validator
  dm_limits :: limits_manager
  dm_progress :: progress_manager

text \<open>\<open>dv_storage\<close> says whether the directory of the configuration is there, how writing ends and
  whether renaming succeeds.\<close>

record 'x daemon_env =
  dv_parse :: url_parser
  dv_parse_f64 :: "string \<Rightarrow> f64 option"
  dv_mount :: "'x mount_env"
  dv_path :: "'x \<Rightarrow> path_env"
  dv_make_dir :: "string \<Rightarrow> 'x \<Rightarrow> 'x"
  dv_uuid :: "'x \<Rightarrow> string"
  dv_to_toml :: "fuji_config \<Rightarrow> string option"
  dv_config_dir :: string
  dv_storage :: "'x \<Rightarrow> bool \<times> write_outcome \<times> bool"
  dv_show_store :: "store_error \<Rightarrow> string"
  dv_show_path :: "path_error \<Rightarrow> string"
  dv_show_limit :: "limit_error \<Rightarrow> string"

definition config_of :: "'x daemon \<Rightarrow> fuji_config" where
  "config_of d = rs_cfg (dm_retry d)"

definition outside_of :: "'x daemon \<Rightarrow> 'x" where
  "outside_of d = mw_outside (rs_world (dm_retry d))"

definition map_config :: "(fuji_config \<Rightarrow> fuji_config) \<Rightarrow> 'x daemon \<Rightarrow> 'x daemon" where
  "map_config f d = d\<lparr>dm_retry := (dm_retry d)\<lparr>rs_cfg := f (rs_cfg (dm_retry d))\<rparr>\<rparr>"

definition map_outside :: "('x \<Rightarrow> 'x) \<Rightarrow> 'x daemon \<Rightarrow> 'x daemon" where
  "map_outside f d =
     d\<lparr>dm_retry := (dm_retry d)\<lparr>rs_world := (rs_world (dm_retry d))\<lparr>mw_outside := f (mw_outside (rs_world (dm_retry d)))\<rparr>\<rparr>\<rparr>"

definition now_of :: "'x daemon_env \<Rightarrow> 'x daemon \<Rightarrow> instant" where
  "now_of env d = me_clock (dv_mount env) (outside_of d)"

text \<open>A call of a driver; the world moves on.\<close>

definition run_driver ::
  "'x daemon_env \<Rightarrow> (driver_env \<Rightarrow> command_globals \<Rightarrow> command_globals \<times> 'r) \<Rightarrow> 'x daemon \<Rightarrow> 'x daemon \<times> 'r" where
  "run_driver env call d =
     (let w = rs_world (dm_retry d);
          (g, r) = call (me_driver (dv_mount env) (mw_outside w)) (mw_globals w)
      in (d\<lparr>dm_retry := (dm_retry d)\<lparr>rs_world := \<lparr> mw_globals = g, mw_outside = me_advance (dv_mount env) (mw_outside w) \<rparr>\<rparr>\<rparr>, r))"

definition run_mount_with_retry :: "'x daemon_env \<Rightarrow> mount_config \<Rightarrow> 'x daemon \<Rightarrow> 'x daemon \<times> (string + unit)" where
  "run_mount_with_retry env m d =
     (let (s, r) = mount_with_retry (dv_mount env) (dv_parse_f64 env) m (dm_retry d) in (d\<lparr>dm_retry := s\<rparr>, r))"

definition save_config :: "'x daemon_env \<Rightarrow> 'x daemon \<Rightarrow> 'x daemon \<times> (store_error + unit)" where
  "save_config env d =
     (let (dir_ok, w, rename_ok) = dv_storage env (outside_of d);
          (fs, r) = save_atomic (dv_to_toml env) dir_ok w rename_ok (dv_config_dir env) (config_of d) (dm_files d)
      in (d\<lparr>dm_files := fs\<rparr>, r))"

lemma config_of_simps [simp]:
  "config_of (map_config f d) = f (config_of d)"
  "config_of (map_outside g d) = config_of d"
  "config_of (d\<lparr>dm_monitor := m\<rparr>) = config_of d"
  "config_of (d\<lparr>dm_path_security := v\<rparr>) = config_of d"
  "config_of (d\<lparr>dm_limits := l\<rparr>) = config_of d"
  "config_of (d\<lparr>dm_progress := p\<rparr>) = config_of d"
  "config_of (d\<lparr>dm_files := fs\<rparr>) = config_of d"
  by (simp_all add: config_of_def map_config_def map_outside_def)

lemma run_driver_config [simp]: "config_of (fst (run_driver env call d)) = config_of d"
  by (simp add: run_driver_def config_of_def Let_def split: prod.splits)

lemma run_driver_configD: "run_driver env call d = (d', r) \<Longrightarrow> config_of d' = config_of d"
  using run_driver_config [of env call d] by simp

lemma save_config_configD: "save_config env d = (d', r) \<Longrightarrow> config_of d' = config_of d"
  by (auto simp: save_config_def Let_def split: prod.splits)

lemma run_driver_files: "run_driver env call d = (d', r) \<Longrightarrow> dm_files d' = dm_files d"
  by (auto simp: run_driver_def Let_def split: prod.splits)

lemma get_mount_change:
  "get_mount (change_mount i f c) k = (if k = i then map_option f (get_mount c i) else get_mount c k)"
  by (simp add: get_mount_def get_change_mount option.map_comp comp_def)

lemma get_mount_add [simp]: "get_mount (add_mount m c) k = (if k = mc_id m then Some m else get_mount c k)"
  by (simp add: get_mount_def add_mount_def hm.get_insert wrapper_new_def)

lemma get_mount_remove:
  "cfg_wf c \<Longrightarrow> get_mount (fst (remove_mount i c)) k = (if k = i then None else get_mount c k)"
  by (simp add: get_mount_def remove_mount_def cfg_wf_def hm.get_remove)

end
