(* ===== verification/Daemon_Requests.thy ===== *)
theory Daemon_Requests
  imports Daemon_State
begin

text \<open>
  The handlers of \<open>src/daemon/mod.rs\<close> that change mounts: mount, unmount, enable, disable, remove,
  remount.  A handler that waits for a lock it holds itself is \<open>Blocked\<close>: the server drops it when the
  time limit of the connection ends, and the state stays as it was when the wait began.
\<close>

record mount_params =
  mp_url :: string
  mp_mount_point :: "string option"
  mp_options :: "string list option"
  mp_disable :: bool
  mp_dry_run :: bool
  mp_progress :: bool
  mp_ephemeral :: bool

section \<open>Mount\<close>

text \<open>The reporter belongs to the handler: what the manager holds is its state at the registration.\<close>

definition start_progress :: "'x daemon_env \<Rightarrow> mount_params \<Rightarrow> 'x daemon \<Rightarrow> 'x daemon" where
  "start_progress env p d =
     (if mp_progress p
      then let reporter = reporter_new (dv_uuid env (outside_of d)) (now_of env d) ''mount'' (mp_url p) (Some 10000)
           in d\<lparr>dm_progress := register_operation (current_progress reporter) (dm_progress d)\<rparr>
      else d)"

definition handler_mount_id :: "mount_handler \<Rightarrow> url_parser \<Rightarrow> string \<Rightarrow> driver_error + string" where
  "handler_mount_id h =
     (case h of NfsHandler \<Rightarrow> nfs_generate_mount_id | SmbHandler \<Rightarrow> smb_generate_mount_id
      | SshfsHandler \<Rightarrow> sshfs_generate_mount_id)"

definition resolve_mount ::
  "'x daemon_env \<Rightarrow> mount_params \<Rightarrow> fuji_config \<Rightarrow> string + mount_type \<times> string \<times> string" where
  "resolve_mount env p c =
     (let show_error = me_show_error (dv_mount env); url = mp_url p
      in and_then (map_err handler_message (get_mount_handler (url_protocol url)))
      (\<lambda>handler. and_then (map_err show_error (handler_parse_url handler (dv_parse env) url))
      (\<lambda>mount_type. and_then (map_err show_error (handler_mount_id handler (dv_parse env) url))
      (\<lambda>mount_id. if get_mount c mount_id \<noteq> None then Inl (''Mount '' @ mount_id @ '' already exists'')
                  else and_then (case mp_mount_point p of
                                   Some point \<Rightarrow> Inr point
                                 | None \<Rightarrow> map_err show_error (handler_mount_point handler (dv_parse env) url))
      (\<lambda>point. Inr (mount_type, mount_id, point))))))"

definition ensure_mount_dir :: "'x daemon_env \<Rightarrow> mount_params \<Rightarrow> string \<Rightarrow> 'x daemon \<Rightarrow> 'x daemon" where
  "ensure_mount_dir env p point d = (if mp_dry_run p then d else map_outside (dv_make_dir env point) d)"

definition check_mount_point :: "'x daemon_env \<Rightarrow> string \<Rightarrow> 'x daemon \<Rightarrow> string + unit" where
  "check_mount_point env point d =
     (case validate_mount_point (dv_path env (outside_of d)) point of
        Inl e \<Rightarrow> Inl (''Path security validation failed: '' @ dv_show_path env e)
      | Inr result \<Rightarrow>
          if vr_is_safe result then Inr ()
          else Inl (''Mount point path security validation failed: ''
                    @ (case vr_warning_message result of Some m \<Rightarrow> m | None \<Rightarrow> ''Security violation detected'')))"

text \<open>Options that do not parse are kept as they are.\<close>

definition parsed_options :: "mount_params \<Rightarrow> mount_options" where
  "parsed_options p =
     (let protocol = url_protocol (mp_url p);
          plain = (\<lambda>raw. \<lparr> mo_raw = raw, mo_options = [], mo_fs_type = protocol,
                           mo_security = security_default, mo_performance = performance_default \<rparr>)
      in case mp_options p of
           None \<Rightarrow> plain []
         | Some options \<Rightarrow>
             (case parse_options (join '','' options) protocol of
                Inr opts \<Rightarrow> opts
              | Inl _ \<Rightarrow> plain options))"

definition with_raw_options :: "string list \<Rightarrow> mount_type \<Rightarrow> mount_type" where
  "with_raw_options raw t =
     (case t of
        Nfs host share _ \<Rightarrow> Nfs host share raw
      | Smb host share user pass domn _ \<Rightarrow> Smb host share user pass domn raw
      | Sshfs host user path key pass _ \<Rightarrow> Sshfs host user path key pass raw)"

definition new_mount :: "'x daemon_env \<Rightarrow> mount_params \<Rightarrow> mount_type \<Rightarrow> string \<Rightarrow> 'x daemon \<Rightarrow> mount_config" where
  "new_mount env p mount_type point d =
     (let now = now_of env d;
          m = mount_config_new (dv_parse env) now (mp_url p) (with_raw_options (mo_raw (parsed_options p)) mount_type) point
      in if mp_disable p then disable now now m else m)"

definition register_path :: "'x daemon_env \<Rightarrow> string \<Rightarrow> string \<Rightarrow> string \<Rightarrow> 'x daemon \<Rightarrow> 'x daemon" where
  "register_path env mount_id point url d =
     d\<lparr>dm_path_security :=
         fst (register_mount (dv_path env (outside_of d)) mount_id point url [point] (dm_path_security d))\<rparr>"

text \<open>When saving fails the handler asks for the write lock of the configuration, to take the mount out
  again, while it holds the read lock.\<close>

definition persist_mount :: "'x daemon_env \<Rightarrow> mount_params \<Rightarrow> string \<Rightarrow> string \<Rightarrow> 'x daemon \<Rightarrow> 'x daemon \<times> response outcome" where
  "persist_mount env p mount_id point d =
     (if mp_ephemeral p then (d, Returned (MountSuccess mount_id point))
      else case save_config env d of
        (d', Inr _) \<Rightarrow> (d', Returned (MountSuccess mount_id point))
      | (d', Inl _) \<Rightarrow> (d', Blocked))"

definition execute_mount :: "'x daemon_env \<Rightarrow> mount_config \<Rightarrow> 'x daemon \<Rightarrow> 'x daemon \<times> (string + unit)" where
  "execute_mount env m d =
     (case acquire_mount_permit (dm_limits d) of
        (l, Inl e) \<Rightarrow> (d\<lparr>dm_limits := l\<rparr>, Inl (''Resource limit exceeded: '' @ dv_show_limit env e))
      | (l, Inr _) \<Rightarrow>
          (case run_mount_with_retry env m (d\<lparr>dm_limits := l\<rparr>) of
             (d1, r) \<Rightarrow>
               let d2 = d1\<lparr>dm_limits := release_mount_permit (dm_limits d1)\<rparr>
               in case r of
                    Inl e \<Rightarrow> (d2, Inl e)
                  | Inr _ \<Rightarrow>
                      let now = now_of env d2
                      in (map_config (add_mount (update_status now now Active m)) d2, Inr ())))"

definition handle_mount_request :: "'x daemon_env \<Rightarrow> mount_params \<Rightarrow> 'x daemon \<Rightarrow> 'x daemon \<times> response outcome" where
  "handle_mount_request env p d0 =
     (let d = start_progress env p d0
      in case resolve_mount env p (config_of d) of
        Inl e \<Rightarrow> (d, Returned (Error_Response e))
      | Inr (mount_type, mount_id, point) \<Rightarrow>
          let d1 = ensure_mount_dir env p point d
          in case check_mount_point env point d1 of
            Inl e \<Rightarrow> (d1, Returned (Error_Response e))
          | Inr _ \<Rightarrow>
              let m = new_mount env p mount_type point d1;
                  d2 = register_path env mount_id point (mc_url m) d1
              in if mp_dry_run p then (d2, Returned (MountSuccess mount_id (mc_mount_point m)))
                 else if mp_disable p
                 then persist_mount env p mount_id (mc_mount_point m) (map_config (add_mount m) d2)
                 else case execute_mount env m d2 of
                   (d3, Inl e) \<Rightarrow> (d3, Returned (Error_Response e))
                 | (d3, Inr _) \<Rightarrow> persist_mount env p mount_id (mc_mount_point m) d3)"

section \<open>Unmount\<close>

definition not_found :: "string \<Rightarrow> response" where
  "not_found mount_id = Error_Response (''Mount '' @ mount_id @ '' not found'')"

definition unmount_by_handler :: "'x daemon_env \<Rightarrow> mount_config \<Rightarrow> 'x daemon \<Rightarrow> 'x daemon \<times> (driver_error + unit)" where
  "unmount_by_handler env m d =
     (case get_mount_handler (url_protocol (mc_url m)) of
        Inl _ \<Rightarrow> (d, Inr ())
      | Inr handler \<Rightarrow> run_driver env (\<lambda>de. handler_unmount handler de (mc_mount_point m)) d)"

definition disable_after_unmount :: "'x daemon_env \<Rightarrow> bool \<Rightarrow> string \<Rightarrow> 'x daemon \<Rightarrow> 'x daemon \<times> response" where
  "disable_after_unmount env ephemeral mount_id d =
     (case get_mount (config_of d) mount_id of
        None \<Rightarrow> (d, UnmountSuccess)
      | Some m \<Rightarrow>
          let now = now_of env d; d1 = map_config (change_mount mount_id (disable now now)) d
          in if ephemeral then (d1, UnmountSuccess)
             else case save_config env d1 of
               (d2, Inr _) \<Rightarrow> (d2, UnmountSuccess)
             | (d2, Inl e) \<Rightarrow>
                 (map_config (change_mount mount_id (\<lambda>m'. m'\<lparr>mc_status := mc_status m\<rparr>)) d2,
                  Error_Response (''Unmount succeeded but failed to save config: '' @ dv_show_store env e
                                  @ ''. Status not persisted.'')))"

definition handle_unmount_request :: "'x daemon_env \<Rightarrow> bool \<Rightarrow> string \<Rightarrow> 'x daemon \<Rightarrow> 'x daemon \<times> response" where
  "handle_unmount_request env ephemeral mount_id d =
     (case get_mount (config_of d) mount_id of
        None \<Rightarrow> (d, not_found mount_id)
      | Some m \<Rightarrow>
          if \<not> is_active m then (d, Error_Response (''Mount '' @ mount_id @ '' is not active''))
          else case unmount_by_handler env m d of
            (d1, Inl e) \<Rightarrow> (d1, Error_Response (me_show_error (dv_mount env) e))
          | (d1, Inr _) \<Rightarrow> disable_after_unmount env ephemeral mount_id d1)"

section \<open>Enable and disable\<close>

definition handle_enable_request :: "'x daemon_env \<Rightarrow> bool \<Rightarrow> string \<Rightarrow> 'x daemon \<Rightarrow> 'x daemon \<times> response" where
  "handle_enable_request env ephemeral mount_id d =
     (case get_mount (config_of d) mount_id of
        None \<Rightarrow> (d, not_found mount_id)
      | Some m \<Rightarrow>
          let now = now_of env d; d1 = map_config (change_mount mount_id (enable now now)) d
          in if ephemeral then (d1, Success)
             else case save_config env d1 of
               (d2, Inr _) \<Rightarrow> (d2, Success)
             | (d2, Inl e) \<Rightarrow>
                 (map_config (change_mount mount_id (\<lambda>m'. m'\<lparr>mc_enabled := mc_enabled m\<rparr>)) d2,
                  Error_Response (''Failed to save config: '' @ dv_show_store env e @ ''. Enable not persisted.'')))"

definition handle_disable_request :: "'x daemon_env \<Rightarrow> bool \<Rightarrow> string \<Rightarrow> 'x daemon \<Rightarrow> 'x daemon \<times> response" where
  "handle_disable_request env ephemeral mount_id d =
     (case get_mount (config_of d) mount_id of
        None \<Rightarrow> (d, not_found mount_id)
      | Some m \<Rightarrow>
          let now = now_of env d; d1 = map_config (change_mount mount_id (disable now now)) d
          in if ephemeral then (d1, Success)
             else case save_config env d1 of
               (d2, Inr _) \<Rightarrow> (d2, Success)
             | (d2, Inl e) \<Rightarrow>
                 (map_config (change_mount mount_id (\<lambda>m'. m'\<lparr>mc_enabled := mc_enabled m\<rparr>)) d2,
                  Error_Response (''Failed to save config: '' @ dv_show_store env e @ ''. Disable not persisted.'')))"

section \<open>Remove and remount\<close>

definition handle_remove_request :: "'x daemon_env \<Rightarrow> bool \<Rightarrow> string \<Rightarrow> 'x daemon \<Rightarrow> 'x daemon \<times> response" where
  "handle_remove_request env ephemeral mount_id d =
     (let active = (case get_mount (config_of d) mount_id of Some m \<Rightarrow> is_active m | None \<Rightarrow> False);
          d1 = (if active then fst (handle_unmount_request env ephemeral mount_id d) else d);
          d2 = map_config (\<lambda>c. fst (remove_mount mount_id c)) d1
      in if ephemeral then (d2, Success) else (fst (save_config env d2), Success))"

definition update_mount_status :: "'x daemon_env \<Rightarrow> string \<Rightarrow> mount_status \<Rightarrow> 'x daemon \<Rightarrow> 'x daemon \<times> (daemon_error + unit)" where
  "update_mount_status env mount_id status d =
     (case get_mount (config_of d) mount_id of
        None \<Rightarrow> (d, Inl (MountNotFound mount_id))
      | Some _ \<Rightarrow>
          let now = now_of env d
          in (map_config (change_mount mount_id (update_status now now status)) d, Inr ()))"

definition handle_remount_request :: "'x daemon_env \<Rightarrow> string \<Rightarrow> 'x daemon \<Rightarrow> 'x daemon \<times> response" where
  "handle_remount_request env mount_id d =
     (case get_mount (config_of d) mount_id of
        None \<Rightarrow> (d, not_found mount_id)
      | Some m \<Rightarrow>
          (case get_mount_handler (url_protocol (mc_url m)) of
             Inl e \<Rightarrow> (d, Error_Response (handler_message e))
           | Inr handler \<Rightarrow>
               let d1 = (if is_active m
                         then fst (run_driver env (\<lambda>de. handler_unmount handler de (mc_mount_point m)) d) else d)
               in case run_driver env (\<lambda>de. handler_mount handler (me_regex (dv_mount env)) de m (mc_mount_point m)) d1 of
                    (d2, Inl e) \<Rightarrow> (d2, Error_Response (me_show_error (dv_mount env) e))
                  | (d2, Inr _) \<Rightarrow> (fst (update_mount_status env mount_id Active d2), Success)))"

end
