(* ===== verification/Daemon_Status.thy ===== *)
theory Daemon_Status
  imports Daemon_State Sync_Coordinator Health_Monitor
begin

text \<open>
  The handlers of \<open>src/daemon/mod.rs\<close> that report and change nothing: status, list, discover, logs,
  configuration and doctor, and the health checks of the daemon.

  The \<open>regex\<close> crate is a function that compiles a pattern to a matcher; commands and files are views.
  The target is Linux.
\<close>

section \<open>Filters\<close>

type_synonym regex_crate = "string \<Rightarrow> (string \<Rightarrow> bool) option"

text \<open>An invalid pattern is replaced by one that only the empty text matches.\<close>

definition regex_filter :: "regex_crate \<Rightarrow> string option \<Rightarrow> string \<Rightarrow> bool" where
  "regex_filter compile pattern text =
     (case pattern of
        None \<Rightarrow> True
      | Some r \<Rightarrow> (case compile r of Some matches \<Rightarrow> matches text | None \<Rightarrow> text = []))"

definition type_name :: "mount_type \<Rightarrow> string" where
  "type_name t = (case t of Nfs _ _ _ \<Rightarrow> ''nfs'' | Smb _ _ _ _ _ _ \<Rightarrow> ''smb'' | Sshfs _ _ _ _ _ _ \<Rightarrow> ''sshfs'')"

definition eq_ignore_case_filter :: "string option \<Rightarrow> string \<Rightarrow> bool" where
  "eq_ignore_case_filter wanted text =
     (case wanted of None \<Rightarrow> True | Some w \<Rightarrow> to_lowercase w = to_lowercase text)"

definition debug_status :: "(string \<Rightarrow> string) \<Rightarrow> mount_status \<Rightarrow> string" where
  "debug_status debug_str s =
     (case s of
        Active \<Rightarrow> ''Active'' | Reconnecting \<Rightarrow> ''Reconnecting'' | Status_Failed \<Rightarrow> ''Failed''
      | Status_Disabled \<Rightarrow> ''Disabled'' | InProgress \<Rightarrow> ''InProgress''
      | Status_Error m \<Rightarrow> ''Error('' @ debug_str m @ '')'')"

section \<open>Status\<close>

record status_params =
  sp_verbose :: bool
  sp_filter_url :: "string option"
  sp_filter_type :: "string option"
  sp_filter_point :: "string option"
  sp_filter_status :: "string option"

definition status_selects :: "regex_crate \<Rightarrow> (string \<Rightarrow> string) \<Rightarrow> status_params \<Rightarrow> mount_config \<Rightarrow> bool" where
  "status_selects compile debug_str p m =
     (regex_filter compile (sp_filter_url p) (mc_url m)
      \<and> eq_ignore_case_filter (sp_filter_type p) (type_name (mc_mount_type m))
      \<and> regex_filter compile (sp_filter_point p) (mc_mount_point m)
      \<and> eq_ignore_case_filter (sp_filter_status p) (debug_status debug_str (mc_status m)))"

definition status_info_of :: "bool \<Rightarrow> mount_monitor \<Rightarrow> mount_config \<Rightarrow> mount_status_info" where
  "status_info_of verbose monitor m =
     \<lparr> msi_id = mc_id m, msi_url = mc_url m, msi_mount_point = mc_mount_point m, msi_status = mc_status m,
       msi_enabled = mc_enabled m, msi_created_at = mc_created_at m, msi_updated_at = mc_updated_at m,
       msi_last_connected = mc_last_connected m, msi_reconnect_attempts = mc_reconnect_attempts m,
       msi_health_score =
         (if verbose then Some (case get_health_score monitor (mc_id m) of Some s \<Rightarrow> s | None \<Rightarrow> 0) else None) \<rparr>"

definition force_sync_info_of :: "force_sync_state \<Rightarrow> force_sync_info" where
  "force_sync_info_of fs =
     \<lparr> fsi_in_progress = fs_sync_in_progress fs, fsi_last_initiated = fs_last_force_sync_at fs,
       fsi_initiated_by = fs_initiated_by fs, fsi_reason = fs_last_force_sync_reason fs,
       fsi_attempt_count = fs_attempt_count fs, fsi_last_result = fs_last_result fs \<rparr>"

text \<open>The parts of the cluster the daemon has: the instance manager, the coordinator, the cluster state.\<close>

definition peers_and_sync :: "instant \<Rightarrow> cluster_state option \<Rightarrow> cluster_state option \<Rightarrow> nat \<times> instant option" where
  "peers_and_sync now coordinator_state cluster =
     (case coordinator_state of
        Some st \<Rightarrow> (st_connected_peers (get_stats st), st_last_sync_initiation (get_stats st))
      | None \<Rightarrow>
          (case cluster of
             Some st \<Rightarrow> (length (filter (\<lambda>p. pi_status p = Peer_Connected) (get_peers st)),
                         map_option (\<lambda>(_, interval). now - interval) (get_sync_config st))
           | None \<Rightarrow> (0, None)))"

definition cluster_info_of ::
  "instant \<Rightarrow> string option \<Rightarrow> cluster_state option \<Rightarrow> cluster_state option \<Rightarrow> fuji_config \<Rightarrow> cluster_info option" where
  "cluster_info_of now instance_id coordinator_state cluster c =
     map_option
       (\<lambda>i. let (peers, last_sync) = peers_and_sync now coordinator_state cluster
            in \<lparr> ci_instance_id = i, ci_cluster_enabled = (cfg_cluster c \<noteq> None), ci_peers_connected = peers,
                 ci_last_sync = last_sync,
                 ci_force_sync_info = map_option force_sync_info_of (get_force_sync_state c) \<rparr>)
       instance_id"

definition handle_status_request ::
  "regex_crate \<Rightarrow> (string \<Rightarrow> string) \<Rightarrow> instant \<Rightarrow> instant \<Rightarrow> string option \<Rightarrow> cluster_state option \<Rightarrow> cluster_state option
     \<Rightarrow> status_params \<Rightarrow> 'x daemon \<Rightarrow> response" where
  "handle_status_request compile debug_str start_time now instance_id coordinator_state cluster p d =
     (let c = config_of d;
          mounts = map (status_info_of (sp_verbose p) (dm_monitor d))
                     (filter (status_selects compile debug_str p) (get_all_mounts c));
          failed_count = length (filter (\<lambda>m. msi_status m = Status_Failed) mounts);
          issues = (if failed_count > 0 then [show_nat failed_count @ '' mounts are in failed state''] else [])
      in Status_Response mounts True
           (Some \<lparr> dhi_healthy = (failed_count = 0), dhi_uptime = Some (now - start_time), dhi_last_check = Some now,
                   dhi_issues = issues,
                   dhi_cluster_info = cluster_info_of now instance_id coordinator_state cluster c \<rparr>))"

section \<open>List\<close>

record list_params =
  lp_enabled_only :: bool
  lp_disabled_only :: bool
  lp_filter_url :: "string option"
  lp_filter_type :: "string option"
  lp_filter_point :: "string option"

definition handle_list_request :: "regex_crate \<Rightarrow> list_params \<Rightarrow> 'x daemon \<Rightarrow> response" where
  "handle_list_request compile p d =
     MountList
       (filter (\<lambda>m. regex_filter compile (lp_filter_point p) (mc_mount_point m))
         (filter (\<lambda>m. eq_ignore_case_filter (lp_filter_type p) (type_name (mc_mount_type m)))
           (filter (\<lambda>m. regex_filter compile (lp_filter_url p) (mc_url m))
             (filter (\<lambda>m. if lp_enabled_only p then mc_enabled m
                          else if lp_disabled_only p then \<not> mc_enabled m else True)
               (get_all_mounts (config_of d))))))"

section \<open>Discover, configuration, logs\<close>

definition handler_discover ::
  "mount_handler \<Rightarrow> driver_env \<Rightarrow> string \<Rightarrow> command_globals \<Rightarrow> command_globals \<times> (driver_error + string list)" where
  "handler_discover h env host g =
     (case h of
        NfsHandler \<Rightarrow> nfs_discover_shares env host g
      | SmbHandler \<Rightarrow> smb_discover_shares env host g
      | SshfsHandler \<Rightarrow> (g, Inr []))"

definition handle_discover_request :: "'x daemon_env \<Rightarrow> string \<Rightarrow> 'x daemon \<Rightarrow> 'x daemon \<times> response" where
  "handle_discover_request env url d =
     (let show_error = me_show_error (dv_mount env)
      in case and_then (map_err handler_message (get_mount_handler (url_protocol url)))
                (\<lambda>handler. map_sum id (\<lambda>t. (handler, host_of t))
                   (map_err show_error (handler_parse_url handler (dv_parse env) url))) of
        Inl e \<Rightarrow> (d, Error_Response e)
      | Inr (handler, host) \<Rightarrow>
          (case run_driver env (\<lambda>de. handler_discover handler de host) d of
             (d', Inl e) \<Rightarrow> (d', Error_Response (show_error e))
           | (d', Inr shares) \<Rightarrow> (d', DiscoveredShares url shares)))"

definition handle_get_config_request :: "(fuji_config \<Rightarrow> string + string) \<Rightarrow> 'x daemon \<Rightarrow> response" where
  "handle_get_config_request to_toml_pretty d =
     (case to_toml_pretty (config_of d) of
        Inr s \<Rightarrow> Config_Response s
      | Inl e \<Rightarrow> Error_Response (''Failed to serialize config: '' @ e))"

text \<open>\<open>journal\<close> is the output of \<open>journalctl\<close>, if it ran: standard output and standard error.\<close>

definition log_locations :: "string option \<Rightarrow> string list" where
  "log_locations home_dir =
     [''/var/log/fuji.log'', ''/var/log/fuji/fuji.log'',
      (case home_dir of Some h \<Rightarrow> h | None \<Rightarrow> ''/'') @ ''/.local/share/fuji/logs/fuji.log'']"

fun log_from_files :: "(string \<Rightarrow> string option) \<Rightarrow> nat option \<Rightarrow> string list \<Rightarrow> string list option" where
  "log_from_files read_text count [] = None"
| "log_from_files read_text count (path # paths) =
     (case read_text path of
        Some content \<Rightarrow>
          Some (case count of Some n \<Rightarrow> take n (rev (lines_of content)) | None \<Rightarrow> lines_of content)
      | None \<Rightarrow> log_from_files read_text count paths)"

definition handle_get_logs_request ::
  "(nat \<Rightarrow> (string \<times> string) option) \<Rightarrow> string option \<Rightarrow> (string \<Rightarrow> string option) \<Rightarrow> string \<Rightarrow> nat option \<Rightarrow> response" where
  "handle_get_logs_request journal home_dir read_text timestamp count =
     (case (case journal (case count of Some n \<Rightarrow> n | None \<Rightarrow> 100) of
              Some (out, err) \<Rightarrow> if err \<noteq> [] then None else Some (lines_of out)
            | None \<Rightarrow> None) of
        Some log_lines \<Rightarrow> Logs log_lines
      | None \<Rightarrow>
          (case log_from_files read_text count (log_locations home_dir) of
             Some log_lines \<Rightarrow> Logs log_lines
           | None \<Rightarrow>
               Logs [timestamp @ '' [INFO] Fuji daemon started'',
                     timestamp @ '' [INFO] Log file not found - showing in-memory logs'',
                     ''Configure logging to persist logs to a file'',
                     ''Use '' @ [CHR 0x27] @ ''fuji doctor'' @ [CHR 0x27] @ '' for system diagnostics'']))"

section \<open>Doctor\<close>

text \<open>What the doctor sees.  A command is \<open>None\<close> when it could not be run.\<close>

record doctor_view =
  dr_which :: "string \<Rightarrow> bool"
  dr_config_dir :: "string option"
  dr_runtime_dir :: "string option"
  dr_home_dir :: "string option"
  dr_exists :: "string \<Rightarrow> bool"
  dr_readonly :: "string \<Rightarrow> string + bool"
  dr_mode :: "string \<Rightarrow> u32 option"
  dr_ip_link :: "(bool \<times> string) option"
  dr_pgrep :: "(bool \<times> string) option"
  dr_systemctl :: "bool option"

type_synonym report = "issue list \<times> string list"

definition report_issue :: "issue_severity \<Rightarrow> string \<Rightarrow> string \<Rightarrow> string option \<Rightarrow> report" where
  "report_issue severity message part suggestion =
     ([\<lparr> is_severity = severity, is_message = message, is_component = part \<rparr>],
      (case suggestion of Some s \<Rightarrow> [s] | None \<Rightarrow> []))"

definition quoted :: "string \<Rightarrow> string" where
  "quoted s = [CHR 0x27] @ s @ [CHR 0x27]"

definition doctor_binary :: "doctor_view \<Rightarrow> report" where
  "doctor_binary v =
     (if dr_which v ''fuji'' then ([], [])
      else report_issue Issue_Error ''Fuji binary not found in PATH'' ''Installation''
             (Some ''Add Fuji installation directory to PATH''))"

definition doctor_dependency :: "doctor_view \<Rightarrow> string \<Rightarrow> report" where
  "doctor_dependency v dep =
     (if dr_which v dep then ([], [])
      else report_issue Issue_Error (''Required system dependency '' @ quoted dep @ '' not found'') ''System Dependencies''
             (Some (''Install '' @ quoted dep @ '' package or equivalent'')))"

definition doctor_directory :: "doctor_view \<Rightarrow> string option \<Rightarrow> string \<Rightarrow> string \<Rightarrow> string \<Rightarrow> report" where
  "doctor_directory v base fallback what part =
     (let dir = (case base of Some b \<Rightarrow> path_join b ''fuji'' | None \<Rightarrow> fallback)
      in if dr_exists v dir then ([], [])
         else report_issue Issue_Warning (what @ '' directory does not exist: '' @ dir) part
                (Some (''Create '' @ map char_lower (take 1 what) @ drop 1 what @ '' directory: '' @ dir)))"

definition doctor_mount_dir :: "doctor_view \<Rightarrow> string \<Rightarrow> report" where
  "doctor_mount_dir v dir =
     (if \<not> dr_exists v dir then ([], [])
      else case dr_readonly v dir of
        Inr readonly \<Rightarrow>
          if readonly
          then report_issue Issue_Error (''Mount directory '' @ dir @ '' is read-only'') ''Permissions''
                 (Some (''Fix permissions on '' @ dir))
          else ([], [])
      | Inl e \<Rightarrow> report_issue Issue_Warning (''Cannot check permissions for '' @ dir @ '': '' @ e) ''Permissions'' None)"

definition doctor_network :: "doctor_view \<Rightarrow> report" where
  "doctor_network v =
     (case dr_ip_link v of
        Some (True, out) \<Rightarrow>
          if contains_str out ''state UP'' then ([], [])
          else report_issue Issue_Warning ''No network interfaces appear to be up'' ''Network''
                 (Some ''Check network connection and interface status'')
      | _ \<Rightarrow> ([], []))"

definition doctor_suid :: "doctor_view \<Rightarrow> string \<Rightarrow> report" where
  "doctor_suid v bin =
     (if \<not> dr_exists v bin then ([], [])
      else case dr_mode v bin of
        Some mode \<Rightarrow>
          if Bit_Operations.and mode 0x800 \<noteq> 0 then ([], [])
          else report_issue Issue_Warning (bin @ '' does not have SUID bit set - may require sudo for mounts'') ''Permissions'' None
      | None \<Rightarrow> ([], []))"

definition doctor_daemon :: "doctor_view \<Rightarrow> report" where
  "doctor_daemon v =
     (case dr_pgrep v of
        Some (True, pids) \<Rightarrow>
          if trim pids = []
          then report_issue Issue_Info ''Fuji daemon is not running'' ''Daemon'' (Some ''Start the daemon with: fuji daemon start'')
          else ([], [])
      | _ \<Rightarrow> ([], []))"

definition doctor_service :: "doctor_view \<Rightarrow> report" where
  "doctor_service v =
     (if dr_systemctl v = Some False
      then report_issue Issue_Warning ''Fuji systemd service is not installed or not running'' ''Service''
             (Some ''Install and enable the systemd service: sudo systemctl enable fuji'')
      else ([], []))"

definition doctor_logs :: "doctor_view \<Rightarrow> report" where
  "doctor_logs v =
     (if list_ex (dr_exists v)
           [''/var/log/fuji'',
            (case dr_home_dir v of Some h \<Rightarrow> h | None \<Rightarrow> ''/root'') @ ''/.local/share/fuji/logs'']
      then ([], [])
      else report_issue Issue_Warning ''No log directory found'' ''Logging'' (Some ''Create a log directory for Fuji logs''))"

definition doctor_checks :: "doctor_view \<Rightarrow> report list" where
  "doctor_checks v =
     [doctor_binary v]
     @ map (doctor_dependency v) [''mount'', ''umount'', ''mount.cifs'', ''mount.nfs'']
     @ [doctor_directory v (dr_config_dir v) ''/etc/fuji'' ''Configuration'' ''Configuration'',
        doctor_directory v (dr_runtime_dir v) ''/run/fuji'' ''Runtime'' ''Runtime'']
     @ map (doctor_mount_dir v) [''/mnt'', ''/Volumes'', ''/media'']
     @ [doctor_network v]
     @ map (doctor_suid v) [''/usr/bin/mount'', ''/usr/bin/umount'']
     @ [doctor_daemon v, doctor_service v, doctor_logs v]"

definition handle_doctor_request :: "doctor_view \<Rightarrow> response" where
  "handle_doctor_request v =
     (let issues = concat (map fst (doctor_checks v)); suggestions = concat (map snd (doctor_checks v))
      in DoctorReport issues
           (suggestions
            @ (if list_ex (\<lambda>i. is_severity i = Issue_Error) issues
               then [''Run '' @ quoted ''fuji mount --dry-run <url>'' @ '' to test mount configuration''] else [])))"

section \<open>Force sync\<close>

text \<open>The coordinator and the daemon share the configuration.\<close>

definition handle_force_sync_request ::
  "'j env \<Rightarrow> (coordinator_error \<Rightarrow> string) \<Rightarrow> string option \<Rightarrow> 'j coordinator option \<Rightarrow> 'x daemon
     \<Rightarrow> 'j coordinator option \<times> 'x daemon \<times> response outcome" where
  "handle_force_sync_request env show_error reason coordinator d =
     (case coordinator of
        None \<Rightarrow> (None, d, Returned (Error_Response ''Cluster mode is not enabled''))
      | Some co \<Rightarrow>
          (case force_sync env (case reason of Some r \<Rightarrow> r | None \<Rightarrow> ''manual force sync'')
                  (co\<lparr>co_config := config_of d\<rparr>) of
             (co', r) \<Rightarrow>
               (Some co', map_config (\<lambda>_. co_config co') d,
                case r of
                  Returned (Inr _) \<Rightarrow> Returned Success
                | Returned (Inl e) \<Rightarrow> Returned (Error_Response (''Force sync failed: '' @ show_error e))
                | Blocked \<Rightarrow> Blocked
                | Panicked \<Rightarrow> Panicked)))"

section \<open>Health checks\<close>

text \<open>What a health check sees of a mount: whether the mount point exists, the error of reading it,
  whether the host answers (\<open>None\<close> when the probing command could not be run), and the error of
  writing the test file.\<close>

record health_view =
  hv_exists :: bool
  hv_read_dir :: "string option"
  hv_reachable :: "bool option"
  hv_write :: "string option"

definition saturating_sub :: "u8 \<Rightarrow> u8 \<Rightarrow> u8" where
  "saturating_sub a b = (if b \<le> a then a - b else 0)"

definition network_message :: "mount_type \<Rightarrow> string" where
  "network_message t =
     (case t of
        Nfs host _ _ \<Rightarrow> ''Cannot ping NFS host: '' @ host
      | Smb host _ _ _ _ _ \<Rightarrow> ''SMB port 445 not accessible on: '' @ host
      | Sshfs host _ _ _ _ _ \<Rightarrow> ''SSH port 22 not accessible on: '' @ host)"

type_synonym assessment = "u8 \<times> bool \<times> string list"

definition assess_point :: "health_view \<Rightarrow> assessment" where
  "assess_point v =
     (if \<not> hv_exists v then (50, False, [''Mount point does not exist''])
      else case hv_read_dir v of
        None \<Rightarrow> (100, True, [])
      | Some e \<Rightarrow> (saturating_sub 100 30, False, [''Cannot read mount point: '' @ e]))"

definition assess_network :: "mount_type \<Rightarrow> health_view \<Rightarrow> assessment \<Rightarrow> assessment" where
  "assess_network t v = (\<lambda>(score, accessible, errors).
     if hv_reachable v = Some False
     then (saturating_sub score 20, accessible, errors @ [network_message t])
     else (score, accessible, errors))"

definition assess_write :: "health_view \<Rightarrow> assessment \<Rightarrow> assessment" where
  "assess_write v = (\<lambda>(score, accessible, errors).
     if accessible \<and> hv_exists v
     then case hv_write v of
            None \<Rightarrow> (max score 80, accessible, errors)
          | Some e \<Rightarrow> (saturating_sub score 25, accessible, errors @ [''Cannot write to mount point: '' @ e])
     else (score, accessible, errors))"

definition assess_status :: "mount_status \<Rightarrow> assessment \<Rightarrow> assessment" where
  "assess_status s = (\<lambda>(score, accessible, errors).
     case s of
       Active \<Rightarrow> (score, accessible, errors)
     | Reconnecting \<Rightarrow> (min score 50, accessible, errors @ [''Mount is currently reconnecting''])
     | Status_Failed \<Rightarrow> (0, False, errors @ [''Mount is in failed state''])
     | Status_Disabled \<Rightarrow> (0, False, errors)
     | InProgress \<Rightarrow> (min score 70, accessible, errors @ [''Mount operation is in progress''])
     | Status_Error m \<Rightarrow> (min score 30, accessible, errors @ [''Mount error: '' @ m]))"

definition check_one_mount :: "health_view \<Rightarrow> instant \<Rightarrow> mount_config \<Rightarrow> mount_health" where
  "check_one_mount v now m =
     (let (score, accessible, errors) =
            assess_status (mc_status m) (assess_write v (assess_network (mc_mount_type m) v (assess_point v)))
      in \<lparr> mh_accessible = accessible, mh_last_error = (if errors = [] then None else Some (join ''; '' errors)),
           mh_last_health_check = now, mh_health_score = score \<rparr>)"

definition perform_health_check ::
  "(mount_config \<Rightarrow> health_view) \<Rightarrow> instant \<Rightarrow> string \<Rightarrow> 'x daemon \<Rightarrow> daemon_error + mount_health" where
  "perform_health_check view now mount_id d =
     (case get_mount (config_of d) mount_id of
        None \<Rightarrow> Inl (MountNotFound mount_id)
      | Some m \<Rightarrow>
          if \<not> mc_enabled m
          then Inr \<lparr> mh_accessible = False, mh_last_error = Some ''Mount is disabled'', mh_last_health_check = now,
                     mh_health_score = 0 \<rparr>
          else Inr (check_one_mount (view m) now m))"

definition check_task :: "(mount_config \<Rightarrow> health_view) \<Rightarrow> (string \<Rightarrow> instant) \<Rightarrow> mount_config \<Rightarrow> string \<times> mount_health" where
  "check_task view clock m = (mc_id m, check_one_mount (view m) (clock (mc_id m)) m)"

text \<open>The concurrent checks of all enabled mounts; \<open>finished\<close> are the tasks that did not panic.\<close>

definition perform_all_health_checks ::
  "(mount_config \<Rightarrow> health_view) \<Rightarrow> (string \<Rightarrow> instant) \<Rightarrow> (string \<Rightarrow> bool) \<Rightarrow> 'x daemon
     \<Rightarrow> 'x daemon \<times> (string, mount_health) hashmap" where
  "perform_all_health_checks view clock finished d =
     (let mounts = filter mc_enabled (get_all_mounts (config_of d));
          tasks = map (check_task view clock) mounts;
          results = fold (\<lambda>(i, st). hm_insert i st) (filter (\<lambda>(i, _). finished i) tasks) [];
          monitor = fold (\<lambda>(i, st). update_health i st) results (dm_monitor d)
      in (d\<lparr>dm_monitor := monitor\<rparr>, results))"

definition status_of_health :: "instant \<Rightarrow> string \<times> mount_health \<Rightarrow> health_status" where
  "status_of_health now = (\<lambda>(i, st).
     \<lparr> hs_mount_id = i,
       hs_status = (if mh_accessible st \<and> mh_health_score st > 80 then Healthy
                    else if mh_accessible st \<and> mh_health_score st > 40 then Degraded else Health_Failed),
       hs_last_check = now, hs_failure_count = 0, hs_last_error = None, hs_health_score = mh_health_score st \<rparr>)"

definition get_all_health_statuses_from_monitor :: "instant \<Rightarrow> mount_monitor \<Rightarrow> health_status list option" where
  "get_all_health_statuses_from_monitor now monitor =
     (let states = get_all_health monitor in if states = [] then None else Some (map (status_of_health now) states))"

end
