(* ===== verification/Daemon_Loop.thy ===== *)
theory Daemon_Loop
  imports Daemon_Requests Daemon_Status
begin

text \<open>
  The dispatch of the requests and the monitoring loop of \<open>src/daemon/mod.rs\<close>: mounting at the
  start, the periodic checks, the reconnections and the shutdown.  \<open>daemon_step\<close> composes them.
\<close>

section \<open>Dispatch\<close>

record ('j, 'x) request_env =
  rv_env :: "'x daemon_env"
  rv_regex :: regex_crate
  rv_debug_str :: "string \<Rightarrow> string"
  rv_start_time :: instant
  rv_instance_id :: "string option"
  rv_cluster :: "cluster_state option"
  rv_to_toml_pretty :: "fuji_config \<Rightarrow> string + string"
  rv_journal :: "nat \<Rightarrow> (string \<times> string) option"
  rv_home_dir :: "string option"
  rv_read_text :: "string \<Rightarrow> string option"
  rv_timestamp :: string
  rv_doctor :: doctor_view
  rv_coordinator :: "'j env"
  rv_show_coordinator :: "coordinator_error \<Rightarrow> string"
  rv_ephemeral :: bool

fun handle_request ::
  "('j, 'x) request_env \<Rightarrow> request \<Rightarrow> 'x daemon \<times> 'j coordinator option
     \<Rightarrow> ('x daemon \<times> 'j coordinator option) \<times> response outcome" where
  "handle_request e Ping (d, co) = ((d, co), Returned Pong)"
| "handle_request e (Mount_Request url point opts disabled dry_run progress no_persist) (d, co) =
     (let (d', r) = handle_mount_request (rv_env e)
            \<lparr> mp_url = url, mp_mount_point = point, mp_options = opts, mp_disable = disabled,
              mp_dry_run = dry_run, mp_progress = progress, mp_ephemeral = rv_ephemeral e \<or> no_persist \<rparr> d
      in ((d', co), r))"
| "handle_request e (Unmount_Request mount_id force) (d, co) =
     (let (d', r) = handle_unmount_request (rv_env e) (rv_ephemeral e) mount_id d in ((d', co), Returned r))"
| "handle_request e (Status_Request verbose watch json url mtype point status) (d, co) =
     ((d, co), Returned
        (handle_status_request (rv_regex e) (rv_debug_str e) (rv_start_time e) (now_of (rv_env e) d)
           (rv_instance_id e) (map_option co_cluster_state co) (rv_cluster e)
           \<lparr> sp_verbose = verbose, sp_filter_url = url, sp_filter_type = mtype, sp_filter_point = point,
             sp_filter_status = status \<rparr> d))"
| "handle_request e (List_Request enabled_only disabled_only json url mtype point) (d, co) =
     ((d, co), Returned
        (handle_list_request (rv_regex e)
           \<lparr> lp_enabled_only = enabled_only, lp_disabled_only = disabled_only, lp_filter_url = url,
             lp_filter_type = mtype, lp_filter_point = point \<rparr> d))"
| "handle_request e StopDaemon (d, co) = ((d, co), Returned Success)"
| "handle_request e (GetLogs count) (d, co) =
     ((d, co), Returned (handle_get_logs_request (rv_journal e) (rv_home_dir e) (rv_read_text e) (rv_timestamp e)
                           (map_option unat count)))"
| "handle_request e (Discover url) (d, co) =
     (let (d', r) = handle_discover_request (rv_env e) url d in ((d', co), Returned r))"
| "handle_request e (Enable mount_id) (d, co) =
     (let (d', r) = handle_enable_request (rv_env e) (rv_ephemeral e) mount_id d in ((d', co), Returned r))"
| "handle_request e (Disable mount_id) (d, co) =
     (let (d', r) = handle_disable_request (rv_env e) (rv_ephemeral e) mount_id d in ((d', co), Returned r))"
| "handle_request e (Remove mount_id) (d, co) =
     (let (d', r) = handle_remove_request (rv_env e) (rv_ephemeral e) mount_id d in ((d', co), Returned r))"
| "handle_request e (Remount mount_id) (d, co) =
     (let (d', r) = handle_remount_request (rv_env e) mount_id d in ((d', co), Returned r))"
| "handle_request e GetConfig (d, co) = ((d, co), Returned (handle_get_config_request (rv_to_toml_pretty e) d))"
| "handle_request e Doctor (d, co) = ((d, co), Returned (handle_doctor_request (rv_doctor e)))"
| "handle_request e (ForceSync reason) (d, co) =
     (let (co', d', r) = handle_force_sync_request (rv_coordinator e) (rv_show_coordinator e) reason co d
      in ((d', co'), r))"

section \<open>Mounting at the start\<close>

definition mounts_to_mount :: "fuji_config \<Rightarrow> mount_config list" where
  "mounts_to_mount c = filter (\<lambda>m. mc_status m = Status_Disabled) (get_enabled_mounts c)"

definition auto_mount :: "'x daemon_env \<Rightarrow> mount_config \<Rightarrow> 'x daemon \<Rightarrow> 'x daemon" where
  "auto_mount env m d =
     (case run_mount_with_retry env m d of
        (d', Inr _) \<Rightarrow> map_outside (me_sleep (dv_mount env) (millis 500)) d'
      | (d', Inl _) \<Rightarrow> d')"

definition auto_mount_enabled_shares :: "'x daemon_env \<Rightarrow> 'x daemon \<Rightarrow> 'x daemon" where
  "auto_mount_enabled_shares env d = fold (auto_mount env) (mounts_to_mount (config_of d)) d"

section \<open>The round of the monitoring loop\<close>

text \<open>The drivers' health check does not fail, so there is no branch for its error.\<close>

definition check_active_mount ::
  "'x daemon_env \<Rightarrow> (mount_config \<Rightarrow> bool \<times> probe_result) \<Rightarrow> mount_config \<Rightarrow> 'x daemon \<Rightarrow> 'x daemon" where
  "check_active_mount env probe m d =
     (case get_mount_handler (url_protocol (mc_url m)) of
        Inl _ \<Rightarrow> d
      | Inr _ \<Rightarrow>
          let st = check_health (fst (probe m)) (snd (probe m)) (now_of env d);
              d1 = d\<lparr>dm_monitor := update_health (mc_id m) st (dm_monitor d)\<rparr>
          in if \<not> mh_accessible st then fst (update_mount_status env (mc_id m) Status_Failed d1) else d1)"

definition check_mount_health :: "'x daemon_env \<Rightarrow> (mount_config \<Rightarrow> bool \<times> probe_result) \<Rightarrow> 'x daemon \<Rightarrow> 'x daemon" where
  "check_mount_health env probe d = fold (check_active_mount env probe) (get_active_mounts (config_of d)) d"

text \<open>What the check of the integrity finds is only logged.\<close>

definition check_active_integrity :: "'x daemon_env \<Rightarrow> int \<Rightarrow> 'x daemon \<Rightarrow> (string \<times> integrity_status) list" where
  "check_active_integrity env now_secs d =
     map (\<lambda>m. (mc_id m, check_mount_integrity (dv_path env (outside_of d)) now_secs (mc_id m) (mc_mount_point m)
                          (dm_path_security d)))
       (get_active_mounts (config_of d))"

definition num_milliseconds :: "duration \<Rightarrow> int" where
  "num_milliseconds t = (if 0 \<le> t then t div 1000000 else - (- t div 1000000))"

definition due_for_reconnection :: "(u64 \<Rightarrow> f64 \<Rightarrow> int \<Rightarrow> int) \<Rightarrow> instant \<Rightarrow> fuji_config \<Rightarrow> mount_config \<Rightarrow> bool" where
  "due_for_reconnection scale now c m \<longleftrightarrow>
     (word_of_int (num_milliseconds (now - mc_updated_at m)) :: u64)
       \<ge> word_of_int (num_milliseconds (get_reconnection_delay scale c (mc_reconnect_attempts m)))"

definition reconnect :: "'x daemon_env \<Rightarrow> mount_config \<Rightarrow> 'x daemon \<Rightarrow> 'x daemon" where
  "reconnect env m d =
     d\<lparr>dm_retry := fst (attempt_reconnection (dv_mount env) (dv_parse_f64 env) m (dm_retry d))\<rparr>"

definition attempt_reconnections :: "'x daemon_env \<Rightarrow> (u64 \<Rightarrow> f64 \<Rightarrow> int \<Rightarrow> int) \<Rightarrow> 'x daemon \<Rightarrow> 'x daemon" where
  "attempt_reconnections env scale d =
     (let c = config_of d
      in fold (reconnect env) (filter (due_for_reconnection scale (now_of env d) c) (get_failed_mounts c)) d)"

definition monitoring_round ::
  "'x daemon_env \<Rightarrow> (mount_config \<Rightarrow> bool \<times> probe_result) \<Rightarrow> (u64 \<Rightarrow> f64 \<Rightarrow> int \<Rightarrow> int) \<Rightarrow> 'x daemon \<Rightarrow> 'x daemon" where
  "monitoring_round env probe scale d = attempt_reconnections env scale (check_mount_health env probe d)"

section \<open>Shutdown\<close>

text \<open>The configuration is not saved, by design; errors are ignored.\<close>

definition cleanup :: "'x daemon_env \<Rightarrow> 'x daemon \<Rightarrow> 'x daemon" where
  "cleanup env d = fold (\<lambda>m d. fst (unmount_by_handler env m d)) (get_active_mounts (config_of d)) d"

section \<open>The daemon\<close>

text \<open>The cleanup of the progress runs on a manager of its own.\<close>

datatype ('j, 'x) daemon_op =
  Serve "('j, 'x) request_env" request
| Auto_Mount "'x daemon_env"
| Monitoring_Round "'x daemon_env" "mount_config \<Rightarrow> bool \<times> probe_result" "u64 \<Rightarrow> f64 \<Rightarrow> int \<Rightarrow> int"
| Shutdown "'x daemon_env"

fun daemon_step :: "('j, 'x) daemon_op \<Rightarrow> 'x daemon \<times> 'j coordinator option \<Rightarrow> 'x daemon \<times> 'j coordinator option" where
  "daemon_step (Serve e r) s = fst (handle_request e r s)"
| "daemon_step (Auto_Mount env) (d, co) = (auto_mount_enabled_shares env d, co)"
| "daemon_step (Monitoring_Round env probe scale) (d, co) = (monitoring_round env probe scale d, co)"
| "daemon_step (Shutdown env) (d, co) = (cleanup env d, co)"

definition progress_cleanup_task :: "instant \<Rightarrow> progress_manager" where
  "progress_cleanup_task now = cleanup_finished now (minutes 10) progress_manager_new"

definition daemon_new :: "'x mount_world \<Rightarrow> instant \<Rightarrow> instant \<Rightarrow> fuji_config \<Rightarrow> files \<Rightarrow> 'x daemon" where
  "daemon_new w now now' c fs =
     \<lparr> dm_retry = \<lparr> rs_world = w, rs_handler = retry_handler_new, rs_cfg = c \<rparr>, dm_files = fs,
       dm_monitor = monitor_new, dm_path_security = path_validator_new High,
       dm_limits = limits_manager_new now now' (resource_limits_from (gc_resource_limits (cfg_global c))),
       dm_progress = progress_manager_new \<rparr>"

end
