(* ===== verification/Daemon_Handling.thy ===== *)
theory Daemon_Handling
  imports Daemon_Loop
begin

text \<open>
  What the handlers of the daemon guarantee: the outcomes of a request to mount, what is left after a save
  that failed, what a removal leaves behind; and the invariant of the daemon under any history of
  requests, rounds of the loop, automatic mounts and shutdowns, as an interpretation of \<open>component\<close>.
\<close>

section \<open>A mount request\<close>

lemma start_progress_frame [simp]:
  "config_of (start_progress env p d) = config_of d" "dm_files (start_progress env p d) = dm_files d"
  by (simp_all add: start_progress_def Let_def)

lemma ensure_mount_dir_frame [simp]:
  "config_of (ensure_mount_dir env p point d) = config_of d" "dm_files (ensure_mount_dir env p point d) = dm_files d"
  by (simp_all add: ensure_mount_dir_def map_outside_def config_of_def)

lemma register_path_frame [simp]:
  "config_of (register_path env i point url d) = config_of d" "dm_files (register_path env i point url d) = dm_files d"
  by (simp_all add: register_path_def)

lemma map_config_frame [simp]:
  "dm_files (map_config f d) = dm_files d" "dm_limits (map_config f d) = dm_limits d"
  "dm_progress (map_config f d) = dm_progress d" "dm_monitor (map_config f d) = dm_monitor d"
  by (simp_all add: map_config_def)


lemma save_config_cases:
  assumes "save_config env d = (d', r)"
  obtains (saved) "r = Inr ()" "config_of d' = config_of d"
      "dm_files d' (config_file (dv_config_dir env)) = dv_to_toml env (config_of d)" "dv_to_toml env (config_of d) \<noteq> None"
      "validate_config (config_of d) = []" "d' = d\<lparr>dm_files := dm_files d'\<rparr>"
  | (not_saved) e where "r = Inl e" "config_of d' = config_of d"
      "dm_files d' (config_file (dv_config_dir env)) = dm_files d (config_file (dv_config_dir env))"
      "d' = d\<lparr>dm_files := dm_files d'\<rparr>"
proof -
  obtain ok w rn where st: "dv_storage env (outside_of d) = (ok, w, rn)" by (metis prod_cases3)
  let ?save = "save_atomic (dv_to_toml env) ok w rn (dv_config_dir env) (config_of d) (dm_files d)"
  obtain fs r' where save: "?save = (fs, r')" by force
  with assms st have d': "d' = d\<lparr>dm_files := fs\<rparr>" and r: "r' = r" by (auto simp: save_config_def)
  show thesis
  proof (cases r)
    case (Inl e)
    moreover from save Inl r have "fs (config_file (dv_config_dir env)) = dm_files d (config_file (dv_config_dir env))"
      by (cases "dv_to_toml env (config_of d)"; cases w; cases rn) (auto simp: store_defs split: if_splits option.splits)
    ultimately show ?thesis using d' by (intro not_saved) simp_all
  next
    case (Inr u)
    moreover from save Inr r have "fs (config_file (dv_config_dir env)) = dv_to_toml env (config_of d)
        \<and> dv_to_toml env (config_of d) \<noteq> None \<and> validate_config (config_of d) = []"
      by (cases "dv_to_toml env (config_of d)"; cases w; cases rn) (auto simp: store_defs split: if_splits option.splits)
    ultimately show ?thesis using d' by (intro saved) simp_all
  qed
qed

lemma run_mount_with_retry_cases:
  assumes "run_mount_with_retry env m d = (d', r)"
  obtains (failed) e where "r = Inl e" "config_of d' = config_of d" "d' = d\<lparr>dm_retry := dm_retry d'\<rparr>"
  | (mounted) t where "r = Inr ()" "config_of d' = update_status_after_success t t t (mc_id m) (config_of d)"
      "d' = d\<lparr>dm_retry := dm_retry d'\<rparr>"
proof -
  obtain s r' where s: "mount_with_retry (dv_mount env) (dv_parse_f64 env) m (dm_retry d) = (s, r')" by force
  with assms have d': "d' = d\<lparr>dm_retry := s\<rparr>" and r: "r' = r" by (auto simp: run_mount_with_retry_def)
  note cfg = mount_with_retry_cfg [OF s]
  show thesis
  proof (cases r)
    case (Inl e)
    with cfg r d' show ?thesis by (intro failed) (simp_all add: config_of_def)
  next
    case (Inr u)
    with cfg r obtain t where "rs_cfg s = update_status_after_success t t t (mc_id m) (rs_cfg (dm_retry d))" by auto
    with Inr d' show ?thesis by (intro mounted) (simp_all add: config_of_def)
  qed
qed

text \<open>What a request that is accepted adds.\<close>

definition requested :: "'x daemon_env \<Rightarrow> mount_params \<Rightarrow> string \<Rightarrow> mount_config \<Rightarrow> bool" where
  "requested env p point m \<longleftrightarrow>
     mc_id m = generate_id (dv_parse env) (mp_url p) \<and> mc_url m = mp_url p \<and> mc_mount_point m = point \<and> mc_enabled m = (\<not> mp_disable p)
     \<and> (mp_mount_point p = None \<or> mp_mount_point p = Some point)
     \<and> mc_status m = (if mp_disable p then Status_Disabled else Active)"

definition only_adds :: "mount_config \<Rightarrow> fuji_config \<Rightarrow> fuji_config \<Rightarrow> bool" where
  "only_adds m c c' \<longleftrightarrow> get_mount c' (mc_id m) = Some m \<and> (\<forall>k. k = mc_id m \<or> get_mount c' k = get_mount c k)"

lemma only_adds_add [simp]: "only_adds m c (add_mount m c)"
  by (simp add: only_adds_def)

lemma get_mount_after_success:
  "k \<noteq> i \<Longrightarrow> get_mount (update_status_after_success t t' t'' i c) k = get_mount c k"
  by (simp add: get_mount_def other_mounts_after_updates)

lemma only_adds_after_success [simp]:
  "mc_id m = i \<Longrightarrow> only_adds m c (add_mount m (update_status_after_success t t' t'' i c))"
  by (auto simp: only_adds_def get_mount_after_success)

lemma new_mount_fields:
  "mc_url (new_mount env p mt point d) = mp_url p" "mc_mount_point (new_mount env p mt point d) = point"
  "mc_enabled (new_mount env p mt point d) = (\<not> mp_disable p)"
  "mc_status (new_mount env p mt point d) = Status_Disabled"
  "mc_id (new_mount env p mt point d) = generate_id (dv_parse env) (mp_url p)"
  by (simp_all add: new_mount_def mount_config_new_def disable_def Let_def)

lemma execute_mount_cases:
  assumes "execute_mount env m d = (d', r)"
  obtains (failed) e where "r = Inl e" "config_of d' = config_of d" "dm_files d' = dm_files d"
  | (mounted) t where "r = Inr ()" "only_adds (update_status t t Active m) (config_of d) (config_of d')"
      "dm_files d' = dm_files d"
proof -
  obtain l a where a: "acquire_mount_permit (dm_limits d) = (l, a)" by force
  show thesis
  proof (cases a)
    case (Inl e)
    with a assms show ?thesis by (auto simp: execute_mount_def intro: failed)
  next
    case (Inr u)
    obtain d1 r1 where run: "run_mount_with_retry env m (d\<lparr>dm_limits := l\<rparr>) = (d1, r1)" by force
    from run show ?thesis
    proof (cases rule: run_mount_with_retry_cases)
      case (failed e)
      then have "dm_files d1 = dm_files d" by (metis daemon.select_convs(2) daemon.surjective daemon.update_convs(1) daemon.update_convs(5))
      with failed a Inr run assms show ?thesis
        by (auto simp: execute_mount_def Let_def intro: that(1))
    next
      case (mounted t)
      then have "dm_files d1 = dm_files d" by (metis daemon.select_convs(2) daemon.surjective daemon.update_convs(1) daemon.update_convs(5))
      with mounted a Inr run assms show ?thesis
        by (intro that(2) [of "now_of env (d1\<lparr>dm_limits := release_mount_permit (dm_limits d1)\<rparr>)"])
          (auto simp: execute_mount_def Let_def)
    qed
  qed
qed


lemma persist_mount_cases:
  assumes "persist_mount env p i point d = (d', out)"
  shows "config_of d' = config_of d
    \<and> (out = Returned (MountSuccess i point)
         \<and> (if mp_ephemeral p then dm_files d' = dm_files d
            else dm_files d' (config_file (dv_config_dir env)) = dv_to_toml env (config_of d')
                 \<and> validate_config (config_of d') = [])
       \<or> out = Blocked \<and> \<not> mp_ephemeral p
         \<and> dm_files d' (config_file (dv_config_dir env)) = dm_files d (config_file (dv_config_dir env)))"
proof (cases "mp_ephemeral p")
  case True
  with assms show ?thesis by (simp add: persist_mount_def)
next
  case False
  obtain d1 r where s: "save_config env d = (d1, r)" by force
  from s show ?thesis
    by (cases rule: save_config_cases) (use False s assms in \<open>auto simp: persist_mount_def\<close>)
qed

lemma persist_mount_outcome:
  assumes "requested env p point m" "only_adds m c (config_of d)" "dm_files d = fs" "\<not> mp_dry_run p"
  shows "case persist_mount env p i point d of
     (d', Returned (MountSuccess i point)) \<Rightarrow>
       if mp_dry_run p then config_of d' = c \<and> dm_files d' = fs
       else (\<exists>m. requested env p point m \<and> only_adds m c (config_of d'))
            \<and> (mp_ephemeral p \<or> dm_files d' (config_file (dv_config_dir env)) = dv_to_toml env (config_of d'))
   | (d', Returned (Error_Response e)) \<Rightarrow> config_of d' = c \<and> dm_files d' = fs
   | (d', Blocked) \<Rightarrow>
       (\<exists>m point. requested env p point m \<and> only_adds m c (config_of d'))
       \<and> \<not> mp_ephemeral p
       \<and> dm_files d' (config_file (dv_config_dir env)) = fs (config_file (dv_config_dir env))
   | _ \<Rightarrow> False"
proof -
  obtain d' out where persist: "persist_mount env p i point d = (d', out)" by force
  from persist_mount_cases [OF this] assms have adds: "only_adds m c (config_of d')" by simp
  from persist_mount_cases [OF persist] consider
      (returned) "out = Returned (MountSuccess i point)"
        "mp_ephemeral p \<or> dm_files d' (config_file (dv_config_dir env)) = dv_to_toml env (config_of d')"
    | (blocked) "out = Blocked" "\<not> mp_ephemeral p"
        "dm_files d' (config_file (dv_config_dir env)) = dm_files d (config_file (dv_config_dir env))"
    by (auto split: if_splits)
  then show ?thesis
    by cases (use persist assms adds in auto)
qed

lemma mount_outcome:
  "case handle_mount_request env p d of
     (d', Returned (MountSuccess i point)) \<Rightarrow>
       if mp_dry_run p then config_of d' = config_of d \<and> dm_files d' = dm_files d
       else (\<exists>m. requested env p point m \<and> only_adds m (config_of d) (config_of d'))
            \<and> (mp_ephemeral p \<or> dm_files d' (config_file (dv_config_dir env)) = dv_to_toml env (config_of d'))
   | (d', Returned (Error_Response e)) \<Rightarrow> config_of d' = config_of d \<and> dm_files d' = dm_files d
   | (d', Blocked) \<Rightarrow>
       (\<exists>m point. requested env p point m \<and> only_adds m (config_of d) (config_of d'))
       \<and> \<not> mp_ephemeral p
       \<and> dm_files d' (config_file (dv_config_dir env)) = dm_files d (config_file (dv_config_dir env))
   | _ \<Rightarrow> False"
proof -
  let ?d = "start_progress env p d"
  show ?thesis
  proof (cases "resolve_mount env p (config_of d)")
    case (Inl e)
    then show ?thesis by (simp add: handle_mount_request_def Let_def)
  next
    case (Inr res)
    then obtain mt i point where res: "resolve_mount env p (config_of d) = Inr (mt, i, point)" by (cases res) auto
    let ?d1 = "ensure_mount_dir env p point ?d"
    have pt: "mp_mount_point p = None \<or> mp_mount_point p = Some point"
      using res by (auto simp: resolve_mount_def Let_def and_then_Inr_iff split: if_splits option.splits)
    show ?thesis
    proof (cases "check_mount_point env point ?d1")
      case (Inl e)
      with res show ?thesis by (simp add: handle_mount_request_def Let_def)
    next
      case (Inr u)
      let ?m = "new_mount env p mt point ?d1"
      let ?d2 = "register_path env i point (mc_url ?m) ?d1"
      have handled: "handle_mount_request env p d =
          (if mp_dry_run p then (?d2, Returned (MountSuccess i (mc_mount_point ?m)))
           else if mp_disable p then persist_mount env p i (mc_mount_point ?m) (map_config (add_mount ?m) ?d2)
           else case execute_mount env ?m ?d2 of
             (d3, Inl e) \<Rightarrow> (d3, Returned (Error_Response e))
           | (d3, Inr _) \<Rightarrow> persist_mount env p i (mc_mount_point ?m) d3)"
        using res Inr by (simp add: handle_mount_request_def Let_def)
      consider (dry) "mp_dry_run p" | (disabled) "\<not> mp_dry_run p" "mp_disable p"
        | (enabled) "\<not> mp_dry_run p" "\<not> mp_disable p" by blast
      then show ?thesis
      proof cases
        case dry
        then show ?thesis by (simp add: handled)
      next
        case disabled
        have req: "requested env p (mc_mount_point ?m) ?m" using disabled pt by (simp add: requested_def new_mount_fields)
        have eq: "handle_mount_request env p d
            = persist_mount env p i (mc_mount_point ?m) (map_config (add_mount ?m) ?d2)"
          using disabled by (simp add: handled)
        show ?thesis
          unfolding eq by (rule persist_mount_outcome [OF req]) (use disabled in simp_all)
      next
        case enabled
        obtain d3 r where ex: "execute_mount env ?m ?d2 = (d3, r)" by force
        then show ?thesis
        proof (cases rule: execute_mount_cases)
          case (failed e)
          with enabled ex show ?thesis by (simp add: handled)
        next
          case (mounted t)
          have req: "requested env p (mc_mount_point ?m) (update_status t t Active ?m)"
            using enabled pt by (simp add: requested_def new_mount_fields update_status_def)
          have eq: "handle_mount_request env p d = persist_mount env p i (mc_mount_point ?m) d3"
            using enabled ex mounted(1) by (simp add: handled)
          show ?thesis
            unfolding eq by (rule persist_mount_outcome [OF req]) (use enabled mounted in simp_all)
        qed
      qed
    qed
  qed
qed


section \<open>Enable, disable, unmount\<close>

lemma toggled:
  assumes "get_mount (config_of d) i = Some m" "handle_enable_request env eph i d = (d', r) \<or> handle_disable_request env eph i d = (d', r)"
  shows "\<exists>m'. get_mount (config_of d') i = Some m' \<and> mc_status m' = Status_Disabled \<and> mc_url m' = mc_url m
    \<and> (r = Success \<or> mc_enabled m' = mc_enabled m)"
proof -
  have change: "get_mount (change_mount i f (config_of d)) i = Some (f m)" for f
    using assms(1) by (simp add: get_mount_change)
  have st: "mc_status (enable t t m) = Status_Disabled" "mc_status (disable t t m) = Status_Disabled"
    "mc_url (enable t t m) = mc_url m" "mc_url (disable t t m) = mc_url m" for t
    by (simp_all add: enable_def disable_def)
  show ?thesis
  proof (cases eph)
    case True
    with assms show ?thesis
      by (auto simp: handle_enable_request_def handle_disable_request_def Let_def change st)
  next
    case False
    let ?t = "now_of env d"
    from assms(2) show ?thesis
    proof
      assume en: "handle_enable_request env eph i d = (d', r)"
      obtain d2 s where s: "save_config env (map_config (change_mount i (enable ?t ?t)) d) = (d2, s)" by force
      from s show ?thesis
        by (cases rule: save_config_cases)
          (use False en s assms(1) in \<open>auto simp: handle_enable_request_def Let_def get_mount_change st\<close>)
    next
      assume dis: "handle_disable_request env eph i d = (d', r)"
      obtain d2 s where s: "save_config env (map_config (change_mount i (disable ?t ?t)) d) = (d2, s)" by force
      from s show ?thesis
        by (cases rule: save_config_cases)
          (use False dis s assms(1) in \<open>auto simp: handle_disable_request_def Let_def get_mount_change st\<close>)
    qed
  qed
qed

text \<open>after a request to enable or to disable a mount, whether it succeeded or failed to save, a request
  to unmount it is refused: a mount that was active is still mounted, and the daemon will not
  unmount it.\<close>

theorem toggled_mount_not_unmounted:
  assumes "get_mount (config_of d) i = Some m"
    and "handle_enable_request env eph i d = (d', r) \<or> handle_disable_request env eph i d = (d', r)"
  shows "handle_unmount_request env' eph' i d' = (d', Error_Response (''Mount '' @ i @ '' is not active''))"
proof -
  from toggled [OF assms] obtain m' where "get_mount (config_of d') i = Some m'" "mc_status m' = Status_Disabled" by blast
  then show ?thesis by (simp add: handle_unmount_request_def is_active_def)
qed

definition sample_path_env :: path_env where
  "sample_path_env =
     \<lparr> pe_exists = (\<lambda>_. True), pe_is_dir = (\<lambda>_. True), pe_canonicalize = (\<lambda>p. Some p), pe_link = (\<lambda>_. Not_link),
       pe_modified = (\<lambda>_. Some 0), pe_read_dir = (\<lambda>_. Some ([], False)), pe_now = 0 \<rparr>"

definition sample_daemon_env :: "unit daemon_env" where
  "sample_daemon_env =
     \<lparr> dv_parse = sample_parser, dv_parse_f64 = (\<lambda>_. None), dv_mount = sample_mount_env, dv_path = (\<lambda>_. sample_path_env),
       dv_make_dir = (\<lambda>_ x. x), dv_uuid = (\<lambda>_. ''op-1''), dv_to_toml = (\<lambda>_. Some ''toml''),
       dv_config_dir = ''/c'', dv_storage = (\<lambda>_. (False, Written, True)), dv_show_store = (\<lambda>_. []),
       dv_show_path = (\<lambda>_. []), dv_show_limit = (\<lambda>_. []) \<rparr>"

definition sample_daemon :: "mount_config \<Rightarrow> unit daemon" where
  "sample_daemon m = daemon_new \<lparr> mw_globals = globals_new, mw_outside = () \<rparr> 0 0 (add_mount m config_default) (\<lambda>_. None)"

lemma sample_daemon_mount: "get_mount (config_of (sample_daemon m)) (mc_id m) = Some m"
  by (simp add: sample_daemon_def daemon_new_def config_of_def)

theorem toggled_mount_not_unmounted_witness:
  "case handle_disable_request sample_daemon_env True ''x''
          (sample_daemon (sample_config\<lparr>mc_id := ''x'', mc_status := Active\<rparr>)) of
     (d', r) \<Rightarrow> handle_unmount_request sample_daemon_env True ''x'' d' = (d', Error_Response ''Mount x is not active'')"
proof -
  let ?m = "sample_config\<lparr>mc_id := ''x'', mc_status := Active\<rparr>"
  obtain d' r where h: "handle_disable_request sample_daemon_env True ''x'' (sample_daemon ?m) = (d', r)" by force
  have "get_mount (config_of (sample_daemon ?m)) ''x'' = Some ?m" using sample_daemon_mount [of ?m] by simp
  from toggled_mount_not_unmounted [OF this disjI2 [OF h], of sample_daemon_env True] h show ?thesis by simp
qed

text \<open>when saving fails after a mount was unmounted, the daemon goes back to claiming that it is active,
  but leaves it switched off.\<close>

theorem failed_unmount_save:
  assumes "get_mount (config_of d) i = Some m" "is_active m"
    and "unmount_by_handler env m d = (d1, Inr ())"
    and "save_config env (map_config (change_mount i (disable (now_of env d1) (now_of env d1))) d1) = (d2, Inl e)"
  shows "case handle_unmount_request env False i d of
    (d', r) \<Rightarrow> (\<exists>m'. get_mount (config_of d') i = Some m' \<and> is_active m' \<and> \<not> mc_enabled m') \<and> r \<noteq> UnmountSuccess"
proof -
  have "config_of d1 = config_of d"
    using assms(3) by (auto simp: unmount_by_handler_def split: sum.splits dest: run_driver_configD)
  moreover have "mc_status m = Active" using assms(2) by (simp add: is_active_iff)
  moreover have "\<not> mc_enabled (disable t t m)" for t by (simp add: disable_def)
  ultimately show ?thesis
    using assms save_config_configD [OF assms(4)]
    by (simp add: handle_unmount_request_def disable_after_unmount_def Let_def get_mount_change is_active_def)
qed

theorem failed_unmount_save_witness:
  "\<exists>d' r m'. handle_unmount_request sample_daemon_env False ''x''
       (sample_daemon (sample_config\<lparr>mc_id := ''x'', mc_url := ''x'', mc_status := Active\<rparr>)) = (d', r)
     \<and> get_mount (config_of d') ''x'' = Some m' \<and> is_active m' \<and> \<not> mc_enabled m'"
proof -
  let ?m = "sample_config\<lparr>mc_id := ''x'', mc_url := ''x'', mc_status := Active\<rparr>"
  let ?d = "sample_daemon ?m"
  have "unmount_by_handler sample_daemon_env ?m ?d = (?d, Inr ())"
    by (simp add: unmount_by_handler_def get_mount_handler_def fuji_eval)
  moreover have "save_config sample_daemon_env d = (d, Inl Dir_Error)" for d
    by (simp add: save_config_def sample_daemon_env_def save_atomic_def)
  ultimately have "case handle_unmount_request sample_daemon_env False ''x'' ?d of
    (d', r) \<Rightarrow> (\<exists>m'. get_mount (config_of d') ''x'' = Some m' \<and> is_active m' \<and> \<not> mc_enabled m') \<and> r \<noteq> UnmountSuccess"
    using sample_daemon_mount [of ?m] by (intro failed_unmount_save [where m = ?m]) (auto simp: is_active_def)
  then show ?thesis by (auto split: prod.splits)
qed

section \<open>Remove\<close>

lemma change_mount_wf:
  assumes "cfg_wf c" "\<And>m. mc_id (f m) = mc_id m"
  shows "cfg_wf (change_mount i f c)"
  using assms by (auto simp: cfg_wf_def change_mount_def hm_wf_update hm_get_update split: if_splits)

lemma disable_id [simp]: "mc_id (disable t t' m) = mc_id m" "mc_id (enable t t' m) = mc_id m"
  by (simp_all add: disable_def enable_def)

lemma unmount_request_frame:
  assumes "handle_unmount_request env eph i d = (d', r)"
  shows "(k = i \<or> get_mount (config_of d') k = get_mount (config_of d) k)
    \<and> (cfg_wf (config_of d) \<longrightarrow> cfg_wf (config_of d'))"
proof (cases "get_mount (config_of d) i")
  case None
  with assms show ?thesis by (simp add: handle_unmount_request_def)
next
  case (Some m)
  obtain d1 u where u: "unmount_by_handler env m d = (d1, u)" by force
  then have c: "config_of d1 = config_of d"
    by (auto simp: unmount_by_handler_def split: sum.splits dest: run_driver_configD)
  obtain d2 s where s: "save_config env (map_config (change_mount i (disable (now_of env d1) (now_of env d1))) d1) = (d2, s)"
    by force
  from s save_config_configD [OF s] assms Some u c show ?thesis
    by (auto simp: handle_unmount_request_def disable_after_unmount_def Let_def get_mount_change
        split: if_splits sum.splits intro!: change_mount_wf)
qed

text \<open>a request to remove always succeeds and leaves no mount of that name, and all others as they were:
  also when the mount could not be unmounted and stays mounted, when nothing could be saved, and when
  there was none.\<close>

theorem remove_always_forgets:
  assumes "cfg_wf (config_of d)"
  shows "case handle_remove_request env eph i d of
    (d', r) \<Rightarrow> r = Success \<and> get_mount (config_of d') i = None
      \<and> (k = i \<or> get_mount (config_of d') k = get_mount (config_of d) k)"
proof -
  let ?d1 = "if (case get_mount (config_of d) i of Some m \<Rightarrow> is_active m | None \<Rightarrow> False)
             then fst (handle_unmount_request env eph i d) else d"
  have frame: "(k = i \<or> get_mount (config_of ?d1) k = get_mount (config_of d) k) \<and> cfg_wf (config_of ?d1)"
    using unmount_request_frame [of env eph i d "fst (handle_unmount_request env eph i d)" "snd (handle_unmount_request env eph i d)" k] assms
    by auto
  obtain d3 s where "save_config env (map_config (\<lambda>c. fst (remove_mount i c)) ?d1) = (d3, s)" by force
  with frame save_config_configD [OF this] show ?thesis
    by (auto simp: handle_remove_request_def Let_def get_mount_remove)
qed

lemma sample_daemon_wf: "cfg_wf (config_of (sample_daemon m))"
proof -
  have "cfg_wf (config_step (Op_add_mount m) config_default)" by (rule cfg_wf_step [OF cfg_wf_default])
  then show ?thesis by (simp add: sample_daemon_def daemon_new_def config_of_def)
qed

theorem remove_always_forgets_witness:
  "get_mount (config_of (fst (handle_remove_request sample_daemon_env False (mc_id sample_config) (sample_daemon sample_config))))
     (mc_id sample_config) = None"
  using remove_always_forgets [OF sample_daemon_wf [of sample_config], where env = sample_daemon_env and eph = False
      and i = "mc_id sample_config" and k = "mc_id sample_config"]
  by (simp add: case_prod_beta)

section \<open>The invariant of the daemon\<close>

definition daemon_inv :: "nat \<Rightarrow> 'x daemon \<times> 'j coordinator option \<Rightarrow> bool" where
  "daemon_inv permits s \<longleftrightarrow>
     cfg_wf (config_of (fst s))
     \<and> pl_enable_queuing (lim_process (lm_limits (dm_limits (fst s))))
     \<and> lm_mount_semaphore (dm_limits (fst s)) = permits
     \<and> list_all (\<lambda>(_, info). \<not> is_finished (pi_phase info)) (dm_progress (fst s))"

text \<open>What of the invariant an operation can touch.\<close>

definition unchanged :: "'x daemon \<Rightarrow> 'x daemon \<Rightarrow> bool" where
  "unchanged d d' \<longleftrightarrow>
     dm_limits d' = dm_limits d \<and> dm_progress d' = dm_progress d \<and> (cfg_wf (config_of d) \<longrightarrow> cfg_wf (config_of d'))"

lemma unchanged_trans: "unchanged d d' \<Longrightarrow> unchanged d' d'' \<Longrightarrow> unchanged d d''"
  by (simp add: unchanged_def)

lemma unchanged_refl [simp]: "unchanged d d"
  by (simp add: unchanged_def)

lemma unchanged_fold: "(\<And>x d. unchanged d (f x d)) \<Longrightarrow> unchanged d (fold f xs d)"
proof (induction xs arbitrary: d)
  case (Cons x xs)
  from Cons.prems have "unchanged d (f x d)" by blast
  moreover have "unchanged (f x d) (fold f xs (f x d))" by (rule Cons.IH) (rule Cons.prems)
  ultimately show ?case by (simp add: unchanged_trans [of d "f x d"])
qed simp

lemma unchanged_map_config: "(\<And>c. cfg_wf c \<Longrightarrow> cfg_wf (f c)) \<Longrightarrow> unchanged d (map_config f d)"
  by (simp add: unchanged_def)

lemma unchanged_map_outside [simp]: "unchanged d (map_outside f d)"
  by (simp add: unchanged_def) (simp add: map_outside_def)

lemma unchanged_run_driver: "run_driver env call d = (d', r) \<Longrightarrow> unchanged d d'"
  by (frule run_driver_configD) (auto simp: unchanged_def run_driver_def Let_def split: prod.splits)

lemma unchanged_run_driver_fst: "unchanged d (fst (run_driver env call d))"
  by (rule unchanged_run_driver [OF prod.collapse [symmetric]])

lemma unchanged_save: "save_config env d = (d', r) \<Longrightarrow> unchanged d d'"
  by (frule save_config_configD) (auto simp: unchanged_def save_config_def Let_def split: prod.splits)

lemma update_status_id [simp]: "mc_id (update_status t t' s m) = mc_id m"
  by (simp add: update_status_def Let_def)

lemma status_updates_wf:
  "cfg_wf c \<Longrightarrow> cfg_wf (update_status_after_success t t' t'' i c)"
  "cfg_wf c \<Longrightarrow> cfg_wf (update_status_to_reconnecting t t' i c)"
  "cfg_wf c \<Longrightarrow> cfg_wf (update_status_to_failed t i e c)"
  by (simp_all add: update_status_after_success_def update_status_to_reconnecting_def update_status_to_failed_def
      change_mount_wf increment_reconnect_attempts_def)

lemma unchanged_run_mount:
  assumes "run_mount_with_retry env m d = (d', r)"
  shows "unchanged d d'"
  using assms
proof (cases rule: run_mount_with_retry_cases)
  case (failed e)
  then have "dm_limits d' = dm_limits d" "dm_progress d' = dm_progress d"
    by (metis daemon.select_convs(5) daemon.surjective daemon.update_convs(1),
        metis daemon.select_convs(6) daemon.surjective daemon.update_convs(1))
  with failed show ?thesis by (simp add: unchanged_def)
next
  case (mounted t)
  then have "dm_limits d' = dm_limits d" "dm_progress d' = dm_progress d"
    by (metis daemon.select_convs(5) daemon.surjective daemon.update_convs(1),
        metis daemon.select_convs(6) daemon.surjective daemon.update_convs(1))
  with mounted show ?thesis by (simp add: unchanged_def status_updates_wf)
qed

lemma unchanged_unmount_by_handler: "unmount_by_handler env m d = (d', r) \<Longrightarrow> unchanged d d'"
  by (auto simp: unmount_by_handler_def split: sum.splits dest: unchanged_run_driver)

lemma unchanged_change_mount: "(\<And>m. mc_id (f m) = mc_id m) \<Longrightarrow> unchanged d (map_config (change_mount i f) d)"
  by (rule unchanged_map_config) (rule change_mount_wf)

lemma unchanged_save_then:
  assumes "save_config env d = (d', r)" "\<And>m. mc_id (f m) = mc_id m" "unchanged d0 d"
  shows "unchanged d0 d'" "unchanged d0 (map_config (change_mount i f) d')"
proof -
  from assms(3) unchanged_save [OF assms(1)] show "unchanged d0 d'" by (rule unchanged_trans)
  then show "unchanged d0 (map_config (change_mount i f) d')"
    by (rule unchanged_trans) (rule unchanged_change_mount [OF assms(2)])
qed

lemma unchanged_toggle:
  "handle_enable_request env eph i d = (d', r) \<Longrightarrow> unchanged d d'"
  "handle_disable_request env eph i d = (d', r) \<Longrightarrow> unchanged d d'"
proof -
  have en: "unchanged d (map_config (change_mount i (enable t t)) d)"
    and dis: "unchanged d (map_config (change_mount i (disable t t)) d)" for t
    by (simp_all add: unchanged_change_mount)
  show "handle_enable_request env eph i d = (d', r) \<Longrightarrow> unchanged d d'"
    using en by (auto simp: handle_enable_request_def Let_def split: option.splits if_splits prod.splits sum.splits
        intro: unchanged_save_then)
  show "handle_disable_request env eph i d = (d', r) \<Longrightarrow> unchanged d d'"
    using dis by (auto simp: handle_disable_request_def Let_def split: option.splits if_splits prod.splits sum.splits
        intro: unchanged_save_then)
qed

lemma unchanged_disable_after:
  "disable_after_unmount env eph i d = (d', r) \<Longrightarrow> unchanged d d'"
proof -
  have dis: "unchanged d (map_config (change_mount i (disable t t)) d)" for t
    by (simp add: unchanged_change_mount)
  then show "disable_after_unmount env eph i d = (d', r) \<Longrightarrow> unchanged d d'"
    by (auto simp: disable_after_unmount_def Let_def split: option.splits if_splits prod.splits sum.splits
        intro: unchanged_save_then)
qed

lemma unchanged_unmount: "handle_unmount_request env eph i d = (d', r) \<Longrightarrow> unchanged d d'"
  by (auto simp: handle_unmount_request_def split: option.splits if_splits prod.splits sum.splits
      dest: unchanged_unmount_by_handler unchanged_disable_after intro: unchanged_trans)

lemma remove_mount_wf: "cfg_wf c \<Longrightarrow> cfg_wf (fst (remove_mount i c))"
  using cfg_wf_step [of c "Op_remove_mount i"] by simp

lemma unchanged_remove: "handle_remove_request env eph i d = (d', r) \<Longrightarrow> unchanged d d'"
proof -
  assume h: "handle_remove_request env eph i d = (d', r)"
  let ?d1 = "if (case get_mount (config_of d) i of Some m \<Rightarrow> is_active m | None \<Rightarrow> False)
             then fst (handle_unmount_request env eph i d) else d"
  have "unchanged d ?d1" using unchanged_unmount [of env eph i d] by (auto simp: prod_eq_iff)
  moreover have "unchanged ?d1 (map_config (\<lambda>c. fst (remove_mount i c)) ?d1)"
    by (rule unchanged_map_config) (rule remove_mount_wf)
  ultimately have d2: "unchanged d (map_config (\<lambda>c. fst (remove_mount i c)) ?d1)" by (rule unchanged_trans)
  obtain d3 s where "save_config env (map_config (\<lambda>c. fst (remove_mount i c)) ?d1) = (d3, s)" by force
  with h d2 unchanged_save [OF this] show ?thesis
    by (auto simp: handle_remove_request_def Let_def intro: unchanged_trans split: if_splits)
qed

lemma unchanged_update_mount_status: "unchanged d (fst (update_mount_status env i st d))"
  by (simp add: update_mount_status_def Let_def unchanged_change_mount split: option.splits)

lemma unchanged_remount: "handle_remount_request env i d = (d', r) \<Longrightarrow> unchanged d d'"
proof -
  assume h: "handle_remount_request env i d = (d', r)"
  show ?thesis
  proof (cases "get_mount (config_of d) i")
    case None
    with h show ?thesis by (simp add: handle_remount_request_def)
  next
    case (Some m)
    show ?thesis
    proof (cases "get_mount_handler (url_protocol (mc_url m))")
      case (Inl e)
      with h Some show ?thesis by (simp add: handle_remount_request_def)
    next
      case (Inr handler)
      let ?d1 = "if is_active m then fst (run_driver env (\<lambda>de. handler_unmount handler de (mc_mount_point m)) d) else d"
      obtain d2 q where q: "run_driver env (\<lambda>de. handler_mount handler (me_regex (dv_mount env)) de m (mc_mount_point m)) ?d1
          = (d2, q)" by force
      have "unchanged d ?d1" by (simp add: unchanged_run_driver_fst)
      with unchanged_run_driver [OF q] have d2: "unchanged d d2" by (blast intro: unchanged_trans)
      from h Some Inr q have "d' = d2 \<or> d' = fst (update_mount_status env i Active d2)"
        by (auto simp: handle_remount_request_def Let_def split: sum.splits)
      with d2 unchanged_trans [OF d2 unchanged_update_mount_status] show ?thesis by auto
    qed
  qed
qed

lemma add_mount_wf: "cfg_wf c \<Longrightarrow> cfg_wf (add_mount m c)"
  using cfg_wf_step [of c "Op_add_mount m"] by simp

lemma unchanged_inv: "unchanged d d' \<Longrightarrow> daemon_inv n (d, co) \<Longrightarrow> daemon_inv n (d', co')"
  by (simp add: unchanged_def daemon_inv_def)

lemma execute_mount_inv:
  assumes "execute_mount env m d = (d', r)" "daemon_inv n (d, co)"
  shows "daemon_inv n (d', co)"
proof -
  obtain l a where a: "acquire_mount_permit (dm_limits d) = (l, a)" by force
  have q: "pl_enable_queuing (lim_process (lm_limits (dm_limits d)))" using assms(2) by (simp add: daemon_inv_def)
  have lims: "lm_limits l = lm_limits (dm_limits d)"
    using a by (auto simp: acquire_mount_permit_def Let_def split: prod.splits)
  show ?thesis
  proof (cases a)
    case (Inl e)
    then have "lm_mount_semaphore l = lm_mount_semaphore (dm_limits d)"
      using a q by (auto simp: acquire_mount_permit_def acquire_def split: if_splits)
    with a Inl assms lims show ?thesis by (auto simp: execute_mount_def daemon_inv_def)
  next
    case (Inr u)
    then have sem: "lm_mount_semaphore (release_mount_permit l) = lm_mount_semaphore (dm_limits d)"
      "lm_limits (release_mount_permit l) = lm_limits (dm_limits d)"
      using a q lims by (auto simp: acquire_mount_permit_def acquire_def release_mount_permit_def split: if_splits)
    obtain d1 r1 where run: "run_mount_with_retry env m (d\<lparr>dm_limits := l\<rparr>) = (d1, r1)" by force
    from unchanged_run_mount [OF this]
    have d1: "dm_limits d1 = l" "dm_progress d1 = dm_progress d" "cfg_wf (config_of d) \<longrightarrow> cfg_wf (config_of d1)"
      by (simp_all add: unchanged_def)
    from assms a Inr run sem d1 show ?thesis
      by (auto simp: execute_mount_def Let_def daemon_inv_def add_mount_wf split: sum.splits)
  qed
qed

lemma persist_mount_inv:
  "persist_mount env p i point d = (d', r) \<Longrightarrow> daemon_inv n (d, co) \<Longrightarrow> daemon_inv n (d', co)"
  by (auto simp: persist_mount_def split: if_splits prod.splits sum.splits elim: unchanged_inv [OF unchanged_save])

lemma list_all_hm_insert: "P v \<Longrightarrow> list_all (\<lambda>(_, x). P x) m \<Longrightarrow> list_all (\<lambda>(_, x). P x) (hm_insert k v m)"
  by (induction m) (auto simp: hm_insert_def)

lemma start_progress_inv: "daemon_inv n (d, co) \<Longrightarrow> daemon_inv n (start_progress env p d, co)"
  by (auto simp: start_progress_def daemon_inv_def Let_def register_operation_def current_progress_def
      reporter_new_def intro!: list_all_hm_insert)

lemma unchanged_mount_frame:
  "unchanged d (ensure_mount_dir env p point d)" "unchanged d (register_path env i point url d)"
  "unchanged d (map_config (add_mount m) d)"
  by (simp_all add: ensure_mount_dir_def register_path_def unchanged_def add_mount_wf map_outside_def)
    (simp add: config_of_def)

lemma mount_request_inv:
  assumes "handle_mount_request env p d = (d', r)" "daemon_inv n (d, co)"
  shows "daemon_inv n (d', co)"
proof -
  let ?d = "start_progress env p d"
  have start: "daemon_inv n (?d, co)" by (rule start_progress_inv [OF assms(2)])
  show ?thesis
  proof (cases "resolve_mount env p (config_of d)")
    case (Inl e)
    with assms start show ?thesis by (simp add: handle_mount_request_def)
  next
    case (Inr res)
    then obtain mt i point where res: "resolve_mount env p (config_of d) = Inr (mt, i, point)" by (cases res) auto
    let ?d1 = "ensure_mount_dir env p point ?d"
    have d1: "daemon_inv n (?d1, co)" by (rule unchanged_inv [OF unchanged_mount_frame(1) start])
    show ?thesis
    proof (cases "check_mount_point env point ?d1")
      case (Inl e)
      with assms res d1 show ?thesis by (simp add: handle_mount_request_def)
    next
      case (Inr u)
      let ?m = "new_mount env p mt point ?d1"
      let ?d2 = "register_path env i point (mc_url ?m) ?d1"
      have d2: "daemon_inv n (?d2, co)" by (rule unchanged_inv [OF unchanged_mount_frame(2) d1])
      have d3: "daemon_inv n (map_config (add_mount ?m) ?d2, co)" by (rule unchanged_inv [OF unchanged_mount_frame(3) d2])
      obtain d4 q where ex: "execute_mount env ?m ?d2 = (d4, q)" by force
      note d4 = execute_mount_inv [OF ex d2]
      from assms(1) res Inr ex consider "d' = ?d2"
        | "persist_mount env p i (mc_mount_point ?m) (map_config (add_mount ?m) ?d2) = (d', r)"
        | "d' = d4" | "persist_mount env p i (mc_mount_point ?m) d4 = (d', r)"
        by (auto simp: handle_mount_request_def Let_def split: if_splits sum.splits)
      then show ?thesis by cases (use d2 d4 in \<open>auto intro: persist_mount_inv d3\<close>)
    qed
  qed
qed

lemma force_sync_mounts:
  assumes "force_sync env reason co = (co', r)"
  shows "cfg_mounts (co_config co') = cfg_mounts (co_config co)"
proof (cases "is_cluster_enabled (co_config co)")
  case False
  with assms show ?thesis by (simp add: force_sync_def)
next
  case enabled: True
  have initiate: "cfg_mounts (fst (initiate_force_sync t t' why inst c)) = cfg_mounts c" for t t' why inst c
    by (simp add: initiate_force_sync_def Let_def split: option.splits)
  have failing: "cfg_mounts (fst (fail_force_sync t e k c)) = cfg_mounts c" for t e k c
    by (simp add: fail_force_sync_def Let_def split: option.splits)
  have issue: "co_config (fst (issue_request en i ps tm cx)) = co_config cx" for en i ps tm cx
    by (simp add: issue_request_def Let_def split: prod.splits)
  obtain c q where c: "initiate_force_sync (e_clock env 5) (e_clock env 6) reason (co_instance_id co) (co_config co) = (c, q)"
    by force
  with initiate [of "e_clock env 5" "e_clock env 6" reason "co_instance_id co" "co_config co"]
  have mounts: "cfg_mounts c = cfg_mounts (co_config co)" by simp
  show ?thesis
  proof (cases q)
    case (Inl e)
    with enabled c mounts assms show ?thesis by (auto simp: force_sync_def)
  next
    case (Inr u)
    let ?peers = "get_healthy_peers (e_clock env 1) (minutes 5) (co_cluster_state co)"
    show ?thesis
    proof (cases "?peers = []")
      case True
      obtain c' q' where "fail_force_sync (e_clock env 7) ''No healthy peers available'' 0 c = (c', q')" by force
      with failing [of "e_clock env 7" "''No healthy peers available''" 0 c] enabled c mounts Inr True assms
      show ?thesis by (auto simp: force_sync_def Let_def split: sum.splits)
    next
      case False
      let ?issue = "issue_request env
          (''force-'' @ co_instance_id co @ ''-'' @ show_int (timestamp_nanos (e_clock env 2))) ?peers Force_Timeout
          (co\<lparr>co_config := c\<rparr>)"
      obtain co2 out where i: "?issue = (co2, out)" by force
      with issue [of env _ ?peers Force_Timeout "co\<lparr>co_config := c\<rparr>"] have "co_config co2 = c"
        by (metis coordinator.select_convs(4) coordinator.surjective coordinator.update_convs(4) fst_conv)
      moreover have "co' = co2"
        using enabled c Inr False assms i by (auto simp: force_sync_def Let_def split: outcome.splits)
      ultimately show ?thesis using mounts by simp
    qed
  qed
qed

lemma unchanged_force_sync:
  assumes "handle_force_sync_request env se reason co d = (co', d', r)"
  shows "unchanged d d'"
proof (cases co)
  case None
  with assms show ?thesis by (simp add: handle_force_sync_request_def)
next
  case (Some cc)
  obtain cc' q where f: "force_sync env (case reason of Some r \<Rightarrow> r | None \<Rightarrow> ''manual force sync'')
      (cc\<lparr>co_config := config_of d\<rparr>) = (cc', q)" by force
  from force_sync_mounts [OF f] have "cfg_wf (config_of d) \<Longrightarrow> cfg_wf (co_config cc')"
    by (simp add: cfg_wf_mounts)
  with Some f assms show ?thesis
    by (auto simp: handle_force_sync_request_def unchanged_def)
qed

section \<open>The loop\<close>

lemma unchanged_auto_mount: "unchanged d (auto_mount env m d)"
proof -
  obtain d' r where run: "run_mount_with_retry env m d = (d', r)" by force
  note d' = unchanged_run_mount [OF this]
  show ?thesis
  proof (cases r)
    case (Inl e)
    with run d' show ?thesis by (simp add: auto_mount_def)
  next
    case (Inr u)
    with run unchanged_trans [OF d' unchanged_map_outside] show ?thesis by (simp add: auto_mount_def)
  qed
qed

lemma unchanged_check_active: "unchanged d (check_active_mount env probe m d)"
proof (cases "get_mount_handler (url_protocol (mc_url m))")
  case (Inl e)
  then show ?thesis by (simp add: check_active_mount_def)
next
  case (Inr h)
  let ?d1 = "d\<lparr>dm_monitor := update_health (mc_id m) (check_health (fst (probe m)) (snd (probe m)) (now_of env d)) (dm_monitor d)\<rparr>"
  have d1: "unchanged d ?d1" by (simp add: unchanged_def)
  have "check_active_mount env probe m d = ?d1
      \<or> check_active_mount env probe m d = fst (update_mount_status env (mc_id m) Status_Failed ?d1)"
    using Inr by (simp add: check_active_mount_def Let_def)
  with d1 unchanged_trans [OF d1 unchanged_update_mount_status] show ?thesis by auto
qed

lemma unchanged_reconnect: "unchanged d (reconnect env m d)"
proof -
  have wf: "cfg_wf (rs_cfg s) \<Longrightarrow> cfg_wf (rs_cfg (fst (attempt_reconnection me pf m s)))" for me pf s
  proof -
    assume s: "cfg_wf (rs_cfg s)"
    let ?t = "outside_now me s"
    let ?s1 = "s\<lparr>rs_cfg := update_status_to_reconnecting ?t ?t (mc_id m) (rs_cfg s)\<rparr>"
    obtain s2 r where l: "mount_with_retry me pf m ?s1 = (s2, r)" by force
    have "cfg_wf (rs_cfg ?s1)" using s by (simp add: status_updates_wf)
    then have "cfg_wf (rs_cfg s2)" using mount_with_retry_cfg [OF l] by (auto simp: status_updates_wf split: sum.splits)
    with s l show "cfg_wf (rs_cfg (fst (attempt_reconnection me pf m s)))"
      by (auto simp: attempt_reconnection_def Let_def status_updates_wf split: sum.splits)
  qed
  from this [of "dm_retry d" "dv_mount env" "dv_parse_f64 env"] show ?thesis
    by (simp add: unchanged_def reconnect_def config_of_def)
qed

lemma unchanged_monitoring_round: "unchanged d (monitoring_round env probe scale d)"
proof -
  have "unchanged d (check_mount_health env probe d)"
    unfolding check_mount_health_def by (rule unchanged_fold) (rule unchanged_check_active)
  moreover have "unchanged d' (attempt_reconnections env scale d')" for d'
    unfolding attempt_reconnections_def Let_def by (rule unchanged_fold) (rule unchanged_reconnect)
  ultimately show ?thesis unfolding monitoring_round_def by (rule unchanged_trans)
qed

lemma unchanged_cleanup: "unchanged d (cleanup env d)"
  unfolding cleanup_def
  by (rule unchanged_fold) (rule unchanged_unmount_by_handler [OF prod.collapse [symmetric]])

lemma unchanged_discover: "handle_discover_request env url d = (d', r) \<Longrightarrow> unchanged d d'"
  by (auto simp: handle_discover_request_def Let_def split: sum.splits prod.splits dest: unchanged_run_driver)

lemma request_inv:
  assumes "daemon_inv n (d, co)"
  shows "daemon_inv n (fst (handle_request e r (d, co)))"
proof (cases r)
  case (Mount_Request url point opts disabled dry_run progress no_persist)
  let ?p = "\<lparr> mp_url = url, mp_mount_point = point, mp_options = opts, mp_disable = disabled,
              mp_dry_run = dry_run, mp_progress = progress, mp_ephemeral = rv_ephemeral e \<or> no_persist \<rparr>"
  obtain d' q where h: "handle_mount_request (rv_env e) ?p d = (d', q)" by force
  with mount_request_inv [OF h assms] Mount_Request show ?thesis by simp
next
  case (ForceSync reason)
  obtain co' d' q where "handle_force_sync_request (rv_coordinator e) (rv_show_coordinator e) reason co d = (co', d', q)"
    by (metis prod_cases3)
  with unchanged_inv [OF unchanged_force_sync [OF this] assms] ForceSync show ?thesis by simp
qed (use assms in \<open>auto split: prod.splits dest: unchanged_toggle unchanged_unmount unchanged_remove
    unchanged_remount unchanged_discover elim!: unchanged_inv\<close>)

interpretation daemon: component daemon_step "daemon_inv n" for n
proof
  show "daemon_inv n (daemon_step oper s)" if "daemon_inv n s" for oper s
  proof (cases oper)
    case (Serve e r)
    with that show ?thesis by (cases s) (simp add: request_inv)
  next
    case (Auto_Mount env)
    obtain d co where "s = (d, co)" by force
    moreover have "unchanged d (auto_mount_enabled_shares env d)"
      unfolding auto_mount_enabled_shares_def by (rule unchanged_fold) (rule unchanged_auto_mount)
    ultimately show ?thesis using Auto_Mount that by (auto elim: unchanged_inv)
  next
    case (Monitoring_Round env probe scale)
    with that show ?thesis by (cases s) (auto elim: unchanged_inv [OF unchanged_monitoring_round])
  next
    case (Shutdown env)
    with that show ?thesis by (cases s) (auto elim: unchanged_inv [OF unchanged_cleanup])
  qed
qed

lemma daemon_inv_new:
  "cfg_wf c \<Longrightarrow> daemon_inv (unat (rl_max_concurrent_mounts (gc_resource_limits (cfg_global c)))) (daemon_new w now now' c fs, co)"
  by (simp add: daemon_inv_def daemon_new_def config_of_def limits_manager_new_def resource_limits_from_def
      progress_manager_new_def)



text \<open>no entry of the progress manager is ever finished, whatever happened to its operation, and so no
  cleanup would ever remove one: each mount with progress leaves an entry for good.\<close>

theorem progress_never_finishes:
  "case fold daemon_step ops (daemon_new w now now' config_default fs, co) of (d, co') \<Rightarrow>
     cleanup_finished later max_age (dm_progress d) = dm_progress d
     \<and> map fst (dm_progress d) = map fst (filter (\<lambda>(_, info). \<not> is_finished (pi_phase info)) (dm_progress d))"
proof -
  obtain d co' where s: "fold daemon_step ops (daemon_new w now now' config_default fs, co) = (d, co')" by force
  have "daemon_inv (unat (rl_max_concurrent_mounts (gc_resource_limits (cfg_global config_default)))) (d, co')"
    unfolding s [symmetric] by (rule daemon.inv_run [OF daemon_inv_new [OF cfg_wf_default]])
  then have all: "\<forall>x \<in> set (dm_progress d). \<not> is_finished (pi_phase (snd x))"
    by (auto simp: daemon_inv_def list_all_iff)
  then have "filter (\<lambda>(_, info). \<not> is_finished (pi_phase info)) (dm_progress d) = dm_progress d"
    by (intro filter_True) auto
  moreover have "cleanup_finished later max_age (dm_progress d) = dm_progress d"
    unfolding cleanup_finished_def hm_retain_def using all by (intro filter_True) auto
  ultimately show ?thesis using s by simp
qed

end
