(* ===== verification/Daemon_Behaviour.thy ===== *)
theory Daemon_Behaviour
  imports Daemon_Handling
begin

text \<open>
  How the parts of the daemon work together over time: reconnections, restarts, identifiers, shared
  mount points, reports and the health checks of the loop.
\<close>

section \<open>Reconnections\<close>

text \<open>a reconnection that fails leaves the mount in error, and the loop only looks for failed mounts: it is
  not tried again, unless the breaker was open and nothing was tried at all.\<close>

theorem failed_reconnection_abandoned:
  assumes "cfg_wf (config_of d)" "get_mount (config_of d) (mc_id m) = Some m0"
  shows "dm_retry (reconnect env m d) = dm_retry d
    \<or> mc_id m \<notin> mc_id ` set (get_failed_mounts (config_of (reconnect env m d)))"
proof -
  let ?s = "dm_retry d"
  let ?t = "outside_now (dv_mount env) ?s"
  let ?s1 = "?s\<lparr>rs_cfg := update_status_to_reconnecting ?t ?t (mc_id m) (rs_cfg ?s)\<rparr>"
  from assms(2) obtain w where w: "hm_get (cfg_mounts (rs_cfg ?s)) (mc_id m) = Some w"
    by (auto simp: get_mount_def config_of_def)
  obtain s2 r where l: "mount_with_retry (dv_mount env) (dv_parse_f64 env) m ?s1 = (s2, r)" by force
  have wf: "cfg_wf (config_of (reconnect env m d))"
    using assms(1) unchanged_reconnect [of d env m] by (simp add: unchanged_def)
  have "dm_retry (reconnect env m d) = ?s
      \<or> (\<exists>w'. hm_get (cfg_mounts (config_of (reconnect env m d))) (mc_id m) = Some w'
              \<and> mc_status (mw_config w') \<noteq> Status_Failed)"
  proof (cases r)
    case (Inl e)
    with mount_with_retry_cfg [OF l] have "rs_cfg s2 = rs_cfg ?s1" by simp
    with l Inl w show ?thesis
      by (auto simp: reconnect_def attempt_reconnection_def Let_def config_of_def mount_after_updates update_status_def)
  next
    case (Inr u)
    with mount_with_retry_cfg [OF l] obtain t where "rs_cfg s2 = update_status_after_success t t t (mc_id m) (rs_cfg ?s1)"
      by auto
    with l Inr w show ?thesis
      by (auto simp: reconnect_def attempt_reconnection_def Let_def config_of_def mount_after_updates update_status_def)
  qed
  moreover have "mc_id m \<notin> mc_id ` set (get_failed_mounts (config_of (reconnect env m d)))"
    if "hm_get (cfg_mounts (config_of (reconnect env m d))) (mc_id m) = Some w'" "mc_status (mw_config w') \<noteq> Status_Failed" for w'
  proof
    assume "mc_id m \<in> mc_id ` set (get_failed_mounts (config_of (reconnect env m d)))"
    then obtain k v where v: "(k, v) \<in> set (cfg_mounts (config_of (reconnect env m d)))" "mc_id (mw_config v) = mc_id m"
        "mc_status (mw_config v) = Status_Failed"
      by (auto simp: get_failed_mounts_def get_all_mounts_def)
    then have "hm_get (cfg_mounts (config_of (reconnect env m d))) k = Some v"
      using wf by (simp add: cfg_wf_def hm_get_iff_in_set)
    moreover from this wf v have "k = mc_id m" by (auto simp: cfg_wf_def)
    ultimately show False using that v by simp
  qed
  ultimately show ?thesis by blast
qed

theorem failed_reconnection_abandoned_witness:
  "dm_retry (reconnect sample_daemon_env sample_config (sample_daemon (sample_config\<lparr>mc_status := Status_Failed\<rparr>)))
     = dm_retry (sample_daemon (sample_config\<lparr>mc_status := Status_Failed\<rparr>))
   \<or> list_all (\<lambda>m. mc_id m \<noteq> mc_id sample_config) (get_failed_mounts (config_of
       (reconnect sample_daemon_env sample_config (sample_daemon (sample_config\<lparr>mc_status := Status_Failed\<rparr>)))))"
proof -
  let ?d = "sample_daemon (sample_config\<lparr>mc_status := Status_Failed\<rparr>)"
  have "dm_retry (reconnect sample_daemon_env sample_config ?d) = dm_retry ?d
      \<or> mc_id sample_config \<notin> mc_id ` set (get_failed_mounts (config_of (reconnect sample_daemon_env sample_config ?d)))"
    using sample_daemon_mount [of "sample_config\<lparr>mc_status := Status_Failed\<rparr>"]
    by (intro failed_reconnection_abandoned sample_daemon_wf) simp_all
  then show ?thesis unfolding list_all_iff by (metis imageI)
qed

text \<open>A mount whose last change lies in the future is due at once: the negative time becomes a huge one.\<close>

lemma future_change_is_due:
  assumes "num_milliseconds (now - mc_updated_at m) < 0" "- (2 ^ 63) \<le> num_milliseconds (now - mc_updated_at m)"
    and "0 \<le> num_milliseconds (get_reconnection_delay scale c (mc_reconnect_attempts m))"
    and "num_milliseconds (get_reconnection_delay scale c (mc_reconnect_attempts m)) < 2 ^ 63"
  shows "due_for_reconnection scale now c m"
proof -
  have neg: "uint (word_of_int x :: u64) = x + 2 ^ 64" if "x < 0" "- (2 ^ 63) \<le> x" for x :: int
  proof -
    have "uint (word_of_int x :: u64) = (x + 2 ^ 64) mod 2 ^ 64" by (simp add: uint_word_of_int)
    also have "\<dots> = x + 2 ^ 64" using that by (intro mod_pos_pos_trivial) simp_all
    finally show ?thesis .
  qed
  have "uint (word_of_int x :: u64) = x" if "0 \<le> x" "x < 2 ^ 63" for x :: int
    using that by (simp add: uint_word_of_int)
  then show ?thesis
    using assms neg by (simp add: due_for_reconnection_def word_le_def)
qed

section \<open>Restart\<close>


lemma status_of_listed:
  assumes "cfg_wf c" "get_mount c i = Some m" "m' \<in> set (get_all_mounts c)" "mc_id m' = i"
  shows "m' = m"
proof -
  from assms(3) obtain k w where w: "(k, w) \<in> set (cfg_mounts c)" "mw_config w = m'"
    by (auto simp: get_all_mounts_def)
  with assms(1) have "hm_get (cfg_mounts c) k = Some w" by (simp add: cfg_wf_def hm_get_iff_in_set)
  moreover from this assms(1,4) w have "k = i" by (auto simp: cfg_wf_def)
  ultimately show ?thesis using assms(2) w by (auto simp: get_mount_def)
qed

text \<open>a mount that a request made is stored as active, and after a restart the daemon mounts only what is
  stored as disabled: what was mounted is not mounted again.\<close>

theorem mounted_not_remounted:
  assumes "handle_mount_request env p d = (d', Returned (MountSuccess i point))"
    and "\<not> mp_dry_run p" "\<not> mp_ephemeral p" "cfg_wf (config_of d')"
    and "\<And>s. dv_to_toml env (config_of d') = Some s \<Longrightarrow> of_toml s = Some (config_of d')"
    and "readable (config_file (dv_config_dir env))"
  shows "\<exists>m. requested env p point m \<and> get_mount (config_of d') (mc_id m) = Some m
    \<and> mc_id m \<notin> mc_id ` set (mounts_to_mount (load of_toml readable (dv_config_dir env) (dm_files d')))"
proof -
  from mount_outcome [where env = env and p = p and d = d] assms(1-3) obtain m where m: "requested env p point m" "get_mount (config_of d') (mc_id m) = Some m"
    and saved: "dm_files d' (config_file (dv_config_dir env)) = dv_to_toml env (config_of d')"
    by (auto simp: only_adds_def)
  have active: "mc_status m = Active \<or> \<not> mc_enabled m" using m(1) by (auto simp: requested_def)
  have "mc_id m \<notin> mc_id ` set (mounts_to_mount (load of_toml readable (dv_config_dir env) (dm_files d')))"
  proof (cases "dv_to_toml env (config_of d')")
    case None
    with saved show ?thesis
      by (simp add: load_def read_file_def mounts_to_mount_def get_enabled_mounts_def get_all_mounts_def
          config_default_def migrate_def)
  next
    case (Some s)
    then have "load of_toml readable (dv_config_dir env) (dm_files d') = migrate (config_of d')"
      using saved assms(5,6) by (simp add: load_def read_file_def)
    moreover have "cfg_mounts (migrate c) = cfg_mounts c" for c by (simp add: migrate_def)
    ultimately have "get_all_mounts (load of_toml readable (dv_config_dir env) (dm_files d')) = get_all_mounts (config_of d')"
      by (simp add: get_all_mounts_def)
    then show ?thesis
      using status_of_listed [OF assms(4) m(2)] active
      by (auto simp: mounts_to_mount_def get_enabled_mounts_def)
  qed
  with m show ?thesis by blast
qed

section \<open>A sample request\<close>

definition sample_params :: mount_params where
  "sample_params =
     \<lparr> mp_url = ''nfs://server.local/export/data'', mp_mount_point = Some ''/mnt/x'', mp_options = None,
       mp_disable = True, mp_dry_run = False, mp_progress = False, mp_ephemeral = False \<rparr>"

definition storing_env :: "unit daemon_env" where
  "storing_env = sample_daemon_env\<lparr>dv_storage := \<lambda>_. (True, Written, True)\<rparr>"

definition empty_daemon :: "unit daemon" where
  "empty_daemon = daemon_new \<lparr> mw_globals = globals_new, mw_outside = () \<rparr> 0 0 config_default (\<lambda>_. None)"

lemma sample_resolved:
  "resolve_mount storing_env sample_params config_default
     = Inr (Nfs ''server.local'' ''/export/data'' nfs_default_options, ''server.local_nfs_export_data'', ''/mnt/x'')"
proof -
  have handler: "get_mount_handler ''nfs'' = Inr NfsHandler"
    by (simp add: get_mount_handler_def fuji_eval)
  have i: "nfs_generate_mount_id sample_parser ''nfs://server.local/export/data'' = Inr ''server.local_nfs_export_data''"
    by (simp add: nfs_generate_mount_id_def url_mount_id_def sample_parser_def fuji_eval)
  have none: "get_mount config_default k = None" for k
    by (simp add: get_mount_def config_default_def hm.get_empty)
  show ?thesis
    by (simp add: resolve_mount_def Let_def sample_params_def storing_env_def sample_daemon_env_def handler
        handler_parse_url_def sample_parsed handler_mount_id_def i none)
qed

lemma sample_point_ok: "check_mount_point storing_env ''/mnt/x'' d = Inr ()"
  by (simp add: check_mount_point_def storing_env_def sample_daemon_env_def validate_mount_point_def
      sample_path_env_def dangerous_locations_def path_starts_with_def path_components_def path_component_of_def
      result_valid_def fuji_eval)

lemma sample_request_stored:
  "\<exists>d'. handle_mount_request storing_env sample_params empty_daemon
     = (d', Returned (MountSuccess ''server.local_nfs_export_data'' ''/mnt/x''))"
proof -
  let ?d1 = "ensure_mount_dir storing_env sample_params ''/mnt/x'' empty_daemon"
  let ?m = "new_mount storing_env sample_params (Nfs ''server.local'' ''/export/data'' nfs_default_options) ''/mnt/x'' ?d1"
  let ?d2 = "map_config (add_mount ?m) (register_path storing_env ''server.local_nfs_export_data'' ''/mnt/x'' (mc_url ?m) ?d1)"
  have c: "config_of empty_daemon = config_default" by (simp add: empty_daemon_def daemon_new_def config_of_def)
  have start: "start_progress storing_env sample_params empty_daemon = empty_daemon"
    by (simp add: start_progress_def sample_params_def)
  have url: "mc_url ?m = ''nfs://server.local/export/data''"
    by (simp add: new_mount_fields sample_params_def)
  have "validate_config (config_of ?d2) = []"
    by (simp add: validate_config_def c validate_mounts_def add_mount_def config_default_def hm_insert_def
        validate_mount_entry_def wrapper_new_def url new_mount_fields(2) path_is_absolute_def fuji_eval)
  then have "save_config storing_env ?d2 = (?d2\<lparr>dm_files := dm_files (fst (save_config storing_env ?d2))\<rparr>, Inr ())"
    by (simp add: save_config_def storing_env_def sample_daemon_env_def store_defs)
  moreover have "mp_disable sample_params" "\<not> mp_dry_run sample_params" "\<not> mp_ephemeral sample_params"
    by (simp_all add: sample_params_def)
  ultimately show ?thesis
    by (auto simp: handle_mount_request_def start c sample_resolved sample_point_ok Let_def persist_mount_def
        new_mount_fields(2) split: prod.splits)
qed

theorem mounted_not_remounted_witness:
  "\<exists>d' m. handle_mount_request storing_env sample_params empty_daemon
       = (d', Returned (MountSuccess ''server.local_nfs_export_data'' ''/mnt/x''))
     \<and> get_mount (config_of d') (mc_id m) = Some m
     \<and> mc_id m \<notin> mc_id ` set (mounts_to_mount (load (\<lambda>_. Some (config_of d')) (\<lambda>_. True) ''/c'' (dm_files d')))"
proof -
  obtain d' where h: "handle_mount_request storing_env sample_params empty_daemon
      = (d', Returned (MountSuccess ''server.local_nfs_export_data'' ''/mnt/x''))"
    using sample_request_stored by blast
  have "daemon_inv (unat (rl_max_concurrent_mounts (gc_resource_limits (cfg_global config_default))))
      (empty_daemon, None :: unit coordinator option)"
    unfolding empty_daemon_def by (rule daemon_inv_new [OF cfg_wf_default])
  from mount_request_inv [OF h this] have "cfg_wf (config_of d')" by (simp add: daemon_inv_def)
  from mounted_not_remounted [OF h _ _ this, of "\<lambda>_. Some (config_of d')" "\<lambda>_. True"] h show ?thesis
    by (auto simp: sample_params_def storing_env_def sample_daemon_env_def)
qed

section \<open>Identifiers\<close>

lemma mount_success_resolved:
  assumes "handle_mount_request env p d = (d', Returned (MountSuccess i point))"
  shows "\<exists>mt pt. resolve_mount env p (config_of d) = Inr (mt, i, pt)"
proof (cases "resolve_mount env p (config_of d)")
  case (Inl e)
  with assms show ?thesis by (simp add: handle_mount_request_def Let_def)
next
  case (Inr res)
  then obtain mt j pt where res: "resolve_mount env p (config_of d) = Inr (mt, j, pt)" by (cases res) auto
  let ?d1 = "ensure_mount_dir env p pt (start_progress env p d)"
  from assms res have "j = i"
    by (auto simp: handle_mount_request_def Let_def persist_mount_def split: if_splits sum.splits prod.splits)
  with res show ?thesis by blast
qed

lemma resolved_unused:
  assumes "resolve_mount env p c = Inr (mt, i, pt)"
  shows "get_mount c i = None"
    and "\<exists>h. get_mount_handler (url_protocol (mp_url p)) = Inr h \<and> handler_mount_id h (dv_parse env) (mp_url p) = Inr i"
  using assms by (auto simp: resolve_mount_def Let_def and_then_Inr_iff map_err_Inr_iff split: if_splits)

lemma cifs_ids_differ:
  assumes "parse url = Some pu" "u_scheme pu = ''cifs''" "smb_generate_mount_id parse url = Inr i"
  shows "generate_id parse url \<noteq> i"
proof
  assume same: "generate_id parse url = i"
  let ?host = "case u_host_str pu of Some h \<Rightarrow> h | None \<Rightarrow> ''unknown''"
  let ?rest = "if u_path pu \<noteq> [] \<and> u_path pu \<noteq> ''/''
    then ''_'' @ replace_char CHR ''/'' CHR ''_'' (trim_start_matches CHR ''/'' (u_path pu)) else []"
  have "generate_id parse url = ?host @ ''_cifs'' @ ?rest"
    using assms(1,2) by (simp add: generate_id_def Let_def)
  moreover have "i = ?host @ ''_smb'' @ ?rest"
    using assms(1,3) by (auto simp: smb_generate_mount_id_def url_mount_id_def Let_def split: if_splits)
  ultimately have "length (''_smb'' @ ?rest) = length (''_cifs'' @ ?rest)" using same by simp
  then show False by simp
qed

text \<open>the identifier that a request for a \<open>cifs\<close> URL is answered with is not the one
  under which the mount is stored: the daemon does not find it when it is asked to unmount it.\<close>

theorem cifs_mount_unknown:
  assumes "handle_mount_request env p d = (d', Returned (MountSuccess i point))" "\<not> mp_dry_run p"
    and "dv_parse env (mp_url p) = Some pu" "get_mount_handler (url_protocol (mp_url p)) = Inr SmbHandler"
    and "u_scheme pu = ''cifs''"
  shows "get_mount (config_of d') i = None \<and> handle_unmount_request env' eph i d' = (d', not_found i)"
proof -
  from mount_success_resolved [OF assms(1)] obtain mt pt where res: "resolve_mount env p (config_of d) = Inr (mt, i, pt)"
    by blast
  from resolved_unused [OF this] assms(4) have unused: "get_mount (config_of d) i = None"
    and i: "smb_generate_mount_id (dv_parse env) (mp_url p) = Inr i" by (auto simp: handler_mount_id_def)
  from mount_outcome [where env = env and p = p and d = d] assms(1,2) obtain m
    where m: "mc_id m = generate_id (dv_parse env) (mp_url p)" "only_adds m (config_of d) (config_of d')"
    by (auto simp: requested_def)
  from cifs_ids_differ [OF assms(3,5) i] m(1) have "i \<noteq> mc_id m" by simp
  with m(2) unused have "get_mount (config_of d') i = None" by (auto simp: only_adds_def)
  then show ?thesis by (simp add: handle_unmount_request_def)
qed

definition cifs_parser :: url_parser where
  "cifs_parser url =
     (if url = ''cifs://srv/data''
      then Some \<lparr> u_scheme = ''cifs'', u_username = [], u_password = None, u_host_str = Some ''srv'', u_port = None,
                  u_path = ''/data'', u_query = None, u_fragment = None \<rparr>
      else None)"

definition cifs_env :: "unit daemon_env" where
  "cifs_env = storing_env\<lparr>dv_parse := cifs_parser\<rparr>"

definition cifs_params :: mount_params where
  "cifs_params = sample_params\<lparr>mp_url := ''cifs://srv/data'', mp_ephemeral := True\<rparr>"

lemma cifs_request_stored:
  "\<exists>d'. handle_mount_request cifs_env cifs_params empty_daemon = (d', Returned (MountSuccess ''srv_smb_data'' ''/mnt/x''))"
proof -
  let ?mt = "Smb ''srv'' ''data'' None None None []"
  have handler: "get_mount_handler ''cifs'' = Inr SmbHandler"
    by (simp add: get_mount_handler_def fuji_eval)
  have path: "count_matches ''..'' ''/data'' = 0" by (simp add: count_matches.simps)
  have "validate_url cifs_parser validation_config_default ''cifs://srv/data'' = Inr ()"
    by (simp add: url_eval cifs_parser_def path fuji_eval)
  then have parsed: "smb_parse_url cifs_parser ''cifs://srv/data'' = Inr ?mt"
    by (simp add: smb_parse_url_def cifs_parser_def smb_default_options_def fuji_eval)
  have i: "smb_generate_mount_id cifs_parser ''cifs://srv/data'' = Inr ''srv_smb_data''"
    by (simp add: smb_generate_mount_id_def url_mount_id_def cifs_parser_def fuji_eval)
  have c: "config_of empty_daemon = config_default" by (simp add: empty_daemon_def daemon_new_def config_of_def)
  have none: "get_mount config_default k = None" for k
    by (simp add: get_mount_def config_default_def hm.get_empty)
  have res: "resolve_mount cifs_env cifs_params config_default = Inr (?mt, ''srv_smb_data'', ''/mnt/x'')"
    by (simp add: resolve_mount_def Let_def cifs_params_def sample_params_def cifs_env_def handler
        handler_parse_url_def parsed handler_mount_id_def i none)
  have point: "check_mount_point cifs_env ''/mnt/x'' d = Inr ()" for d
    using sample_point_ok [of d] by (auto simp: check_mount_point_def cifs_env_def split: sum.splits if_splits)
  have start: "start_progress cifs_env cifs_params empty_daemon = empty_daemon"
    by (simp add: start_progress_def cifs_params_def sample_params_def)
  have "mp_disable cifs_params" "\<not> mp_dry_run cifs_params" "mp_ephemeral cifs_params"
    by (simp_all add: cifs_params_def sample_params_def)
  then show ?thesis
    by (simp add: handle_mount_request_def start c res point Let_def persist_mount_def new_mount_fields(2))
qed

theorem cifs_mount_unknown_witness:
  "\<exists>d'. handle_mount_request cifs_env cifs_params empty_daemon = (d', Returned (MountSuccess ''srv_smb_data'' ''/mnt/x''))
     \<and> handle_unmount_request cifs_env True ''srv_smb_data'' d' = (d', not_found ''srv_smb_data'')"
proof -
  obtain d' where h: "handle_mount_request cifs_env cifs_params empty_daemon = (d', Returned (MountSuccess ''srv_smb_data'' ''/mnt/x''))"
    using cifs_request_stored by blast
  obtain pu where pu: "dv_parse cifs_env (mp_url cifs_params) = Some pu" "u_scheme pu = ''cifs''"
    by (simp add: cifs_env_def cifs_params_def cifs_parser_def)
  have handler: "get_mount_handler (url_protocol (mp_url cifs_params)) = Inr SmbHandler"
    by (simp add: get_mount_handler_def cifs_params_def fuji_eval)
  from cifs_mount_unknown [OF h _ pu(1) handler pu(2), of cifs_env True] h show ?thesis
    by (simp add: cifs_params_def sample_params_def)
qed

section \<open>Shared mount points\<close>

lemma shared_point_invalid:
  assumes "get_mount c i = Some m" "get_mount c j = Some m'" "i \<noteq> j"
    and "path_components (mc_mount_point m) = path_components (mc_mount_point m')"
  shows "validate_config c \<noteq> []"
proof
  assume "validate_config c = []"
  then have "validate_mounts (cfg_mounts c) = Inr ()"
    by (auto simp: validate_config_def split: sum.splits if_splits)
  then have dist: "distinct (map (\<lambda>(_, w). path_components (mc_mount_point (mw_config w))) (cfg_mounts c))"
    unfolding validate_mounts_spec by blast
  from assms(1,2) obtain w w' where w: "(i, w) \<in> set (cfg_mounts c)" "mw_config w = m" "(j, w') \<in> set (cfg_mounts c)"
      "mw_config w' = m'"
    by (auto simp: get_mount_def dest: hm_get_in_set)
  have inj: "inj_on (\<lambda>(_, w). path_components (mc_mount_point (mw_config w))) (set (cfg_mounts c))"
    using dist by (simp add: distinct_map)
  have "(i, w) = (j, w')"
    by (rule inj_onD [OF inj _ w(1) w(3)]) (simp add: w assms(4))
  with assms(3) show False by simp
qed

lemma invalid_not_saved:
  assumes "validate_config (config_of d) \<noteq> []"
  shows "\<exists>e. save_config env d = (d, Inl e)"
  using assms by (auto simp: save_config_def save_atomic_def Let_def split: prod.splits)



section \<open>Reports\<close>

text \<open>the health of the daemon is that of the mounts the filters select: a daemon all of whose mounts
  failed reports that it is healthy when only the active ones are asked for.\<close>

theorem filtered_status_healthy:
  assumes "sp_filter_status p = Some ''active''"
  shows "case handle_status_request compile debug_str start now inst cs cl p d of
     Status_Response mounts running (Some health) \<Rightarrow> dhi_healthy health \<and> dhi_issues health = []
   | _ \<Rightarrow> False"
proof -
  have "filter (\<lambda>m. msi_status m = Status_Failed)
      (map (status_info_of (sp_verbose p) (dm_monitor d))
        (filter (status_selects compile debug_str p) (get_all_mounts (config_of d)))) = []"
    using assms
    by (auto simp: filter_empty_conv status_selects_def eq_ignore_case_filter_def debug_status_def status_info_of_def
        fuji_eval)
  then show ?thesis by (simp add: handle_status_request_def Let_def)
qed

theorem filtered_status_healthy_witness:
  "case handle_status_request (\<lambda>_. None) id 0 1 None None None
          \<lparr> sp_verbose = False, sp_filter_url = None, sp_filter_type = None, sp_filter_point = None,
            sp_filter_status = Some ''active'' \<rparr> (sample_daemon (sample_config\<lparr>mc_status := Status_Failed\<rparr>)) of
     Status_Response mounts running (Some health) \<Rightarrow> dhi_healthy health \<and> dhi_issues health = []
   | _ \<Rightarrow> False"
  by (rule filtered_status_healthy) simp

text \<open>a health check calls a mount accessible exactly when its mount point is there and can be read and its
  status is neither failed nor disabled; the score is at most 100, and 100 only without any error.\<close>

theorem health_check_sound:
  "case check_one_mount v now m of h \<Rightarrow>
     mh_accessible h = (hv_exists v \<and> hv_read_dir v = None \<and> mc_status m \<noteq> Status_Failed \<and> mc_status m \<noteq> Status_Disabled)
     \<and> mh_health_score h \<le> 100
     \<and> (mh_health_score h = 100) = (mh_accessible h \<and> mh_last_error h = None)"
  by (cases "hv_exists v"; cases "hv_read_dir v"; cases "hv_reachable v"; cases "hv_write v"; cases "mc_status m")
    (auto simp: check_one_mount_def assess_point_def assess_network_def assess_write_def assess_status_def
      saturating_sub_def split: if_splits)

section \<open>Health in the loop\<close>

definition found_broken :: "(mount_config \<Rightarrow> bool \<times> probe_result) \<Rightarrow> mount_config \<Rightarrow> bool" where
  "found_broken probe m \<longleftrightarrow>
     is_ok (get_mount_handler (url_protocol (mc_url m)))
     \<and> \<not> (fst (probe m) \<and> snd (probe m) = Probe_ok)"

lemma check_health_accessible: "mh_accessible (check_health e p t) \<longleftrightarrow> e \<and> p = Probe_ok"
  by (cases p) (simp_all add: check_health_def)

lemma check_active_get:
  "\<exists>t. get_mount (config_of (check_active_mount env probe x d)) k =
     (if k = mc_id x \<and> found_broken probe x
      then map_option (update_status t t Status_Failed) (get_mount (config_of d) k)
      else get_mount (config_of d) k)"
proof (cases "get_mount_handler (url_protocol (mc_url x))")
  case (Inl e)
  then show ?thesis by (simp add: check_active_mount_def found_broken_def)
next
  case (Inr h)
  then show ?thesis
    by (auto simp: check_active_mount_def found_broken_def Let_def check_health_accessible update_mount_status_def
        get_mount_change split: option.splits)
qed

lemma check_fold_other:
  "k \<notin> mc_id ` set xs \<Longrightarrow>
     get_mount (config_of (fold (check_active_mount env probe) xs d)) k = get_mount (config_of d) k"
proof (induction xs arbitrary: d)
  case (Cons x xs)
  from check_active_get [of env probe x d k] Cons.prems
  have "get_mount (config_of (check_active_mount env probe x d)) k = get_mount (config_of d) k" by auto
  with Cons show ?case by simp
qed simp

lemma check_fold_member:
  assumes "distinct (map mc_id xs)" "x \<in> set xs"
  shows "\<exists>t. get_mount (config_of (fold (check_active_mount env probe) xs d)) (mc_id x) =
     (if found_broken probe x then map_option (update_status t t Status_Failed) (get_mount (config_of d) (mc_id x))
      else get_mount (config_of d) (mc_id x))"
  using assms
proof (induction xs arbitrary: d)
  case (Cons y xs)
  show ?case
  proof (cases "x = y")
    case True
    with Cons.prems have "mc_id x \<notin> mc_id ` set xs" by simp
    from check_fold_other [OF this, of env probe "check_active_mount env probe x d"]
      check_active_get [of env probe x d "mc_id x"] True show ?thesis by simp
  next
    case False
    with Cons.prems(2) have xin: "x \<in> set xs" by simp
    have "mc_id y \<notin> mc_id ` set xs" using Cons.prems(1) by simp
    with imageI [OF xin, of mc_id] have "mc_id x \<noteq> mc_id y" by metis
    with xin have x: "x \<in> set xs" "mc_id x \<noteq> mc_id y" by simp_all
    from check_active_get [of env probe y d "mc_id x"] x(2)
    have same: "get_mount (config_of (check_active_mount env probe y d)) (mc_id x) = get_mount (config_of d) (mc_id x)" by simp
    have "distinct (map mc_id xs)" using Cons.prems(1) by simp
    from Cons.IH [OF this x(1), of "check_active_mount env probe y d"] show ?thesis
      unfolding same fold.simps o_apply .
  qed
qed simp

text \<open>C12: a round of health checks marks exactly those mounts as failed that are active, have a driver and
  did not pass its probe; nothing else of the configuration changes.  The probe writes a file, so an
  active mount that is read-only fails in every round.\<close>

theorem health_round_marks:
  assumes "cfg_wf (config_of d)" "get_mount (config_of d) i = Some m"
  shows "\<exists>t. get_mount (config_of (check_mount_health env probe d)) i =
    Some (if is_active m \<and> found_broken probe m then update_status t t Status_Failed m else m)"
proof -
  let ?active = "get_active_mounts (config_of d)"
  have id: "mc_id m = i" using assms by (auto simp: get_mount_def cfg_wf_def)
  show ?thesis
  proof (cases "m \<in> set ?active")
    case True
    then have "mc_status m = Active" by (simp add: get_active_mounts_def)
    have keys: "map mc_id (get_all_mounts (config_of d)) = map fst (cfg_mounts (config_of d))"
      using assms(1) by (auto simp: get_all_mounts_def cfg_wf_def hm_get_iff_in_set)
    have "distinct (map mc_id (get_all_mounts (config_of d)))"
      unfolding keys using assms(1) by (simp add: cfg_wf_def hm_wf_def)
    then have "distinct (map mc_id ?active)"
      unfolding get_active_mounts_def by (rule distinct_map_filter)
    from check_fold_member [OF this True, of env probe d] \<open>mc_status m = Active\<close> assms(2) id
    show ?thesis by (auto simp: check_mount_health_def is_active_def split: if_splits)
  next
    case False
    have "i \<notin> mc_id ` set ?active"
    proof
      assume "i \<in> mc_id ` set ?active"
      then obtain m' where "m' \<in> set ?active" "mc_id m' = i" by auto
      moreover from this have "m' = m" by (intro status_of_listed [OF assms]) (auto simp: get_active_mounts_def)
      ultimately show False using False by simp
    qed
    moreover have "m \<in> set (get_all_mounts (config_of d))"
      using assms(2) by (force simp: get_mount_def get_all_mounts_def dest: hm_get_in_set)
    with False have "\<not> is_active m" by (simp add: get_active_mounts_def is_active_iff)
    ultimately show ?thesis using assms(2) by (simp add: check_mount_health_def check_fold_other)
  qed
qed

theorem health_round_marks_witness:
  "\<exists>t. get_mount (config_of (check_mount_health sample_daemon_env (\<lambda>_. (True, Probe_io ''read-only''))
        (sample_daemon (sample_config\<lparr>mc_status := Active\<rparr>)))) (mc_id sample_config)
     = Some (update_status t t Status_Failed (sample_config\<lparr>mc_status := Active\<rparr>))"
proof -
  let ?m = "sample_config\<lparr>mc_status := Active\<rparr>"
  have "get_mount_handler (url_protocol (mc_url ?m)) = Inr NfsHandler"
    by (simp add: sample_config_def mount_config_new_def get_mount_handler_def fuji_eval)
  then have "is_active ?m \<and> found_broken (\<lambda>_. (True, Probe_io ''read-only'')) ?m"
    by (simp add: is_active_def found_broken_def)
  with health_round_marks [OF sample_daemon_wf [of ?m] sample_daemon_mount [of ?m],
      of sample_daemon_env "\<lambda>_. (True, Probe_io ''read-only'')"]
  show ?thesis by simp
qed

end
