(* ===== verification/Audit_Log.thy ===== *)
theory Audit_Log
  imports Config_Store
begin

text \<open>
  The audit log (\<open>src/security/audit_logging.rs\<close>): events, filters, the chain of hashes, signing and
  sealing, the buffer, the log file and its rotation, searching and the exports.

  A value of a JSON object is a parameter type \<open>'v\<close>; the hash function, the cipher, the JSON printer and
  the formats of a timestamp are arguments (\<open>audit_env\<close>).  The details of an event are listed in the
  order in which the map is iterated.
\<close>

section \<open>Events\<close>

datatype audit_event_type =
    Authentication | Authorization | CredentialManagement | MountOperation | ConfigurationChange
  | SecurityPolicy | SystemEvent | NetworkEvent | DataAccess | CryptographicOperation
  | SecurityViolation | AdministrativeAction | ProcessManagement

datatype audit_severity = Sev_Low | Sev_Medium | Sev_High | Sev_Critical

fun severity_of_type :: "audit_event_type \<Rightarrow> audit_severity" where
  "severity_of_type Authentication = Sev_Medium"
| "severity_of_type Authorization = Sev_Medium"
| "severity_of_type CredentialManagement = Sev_High"
| "severity_of_type MountOperation = Sev_Low"
| "severity_of_type ConfigurationChange = Sev_Medium"
| "severity_of_type SecurityPolicy = Sev_High"
| "severity_of_type SystemEvent = Sev_Low"
| "severity_of_type NetworkEvent = Sev_Medium"
| "severity_of_type DataAccess = Sev_Medium"
| "severity_of_type CryptographicOperation = Sev_High"
| "severity_of_type SecurityViolation = Sev_Critical"
| "severity_of_type AdministrativeAction = Sev_High"
| "severity_of_type ProcessManagement = Sev_Medium"

fun event_category :: "audit_event_type \<Rightarrow> string" where
  "event_category Authentication = ''auth''"
| "event_category Authorization = ''authz''"
| "event_category CredentialManagement = ''cred''"
| "event_category MountOperation = ''mount''"
| "event_category ConfigurationChange = ''config''"
| "event_category SecurityPolicy = ''policy''"
| "event_category SystemEvent = ''system''"
| "event_category NetworkEvent = ''network''"
| "event_category DataAccess = ''data''"
| "event_category CryptographicOperation = ''crypto''"
| "event_category SecurityViolation = ''violation''"
| "event_category AdministrativeAction = ''admin''"
| "event_category ProcessManagement = ''process''"

fun severity_value :: "audit_severity \<Rightarrow> u8" where
  "severity_value Sev_Low = 1"
| "severity_value Sev_Medium = 2"
| "severity_value Sev_High = 3"
| "severity_value Sev_Critical = 4"

instantiation audit_severity :: linorder
begin

definition less_eq_audit_severity :: "audit_severity \<Rightarrow> audit_severity \<Rightarrow> bool" where
  "less_eq_audit_severity s t = (severity_value s \<le> severity_value t)"

definition less_audit_severity :: "audit_severity \<Rightarrow> audit_severity \<Rightarrow> bool" where
  "less_audit_severity s t = (severity_value s < severity_value t)"

instance
proof
  fix s t u :: audit_severity
  show "(s < t) = (s \<le> t \<and> \<not> t \<le> s)" by (auto simp: less_audit_severity_def less_eq_audit_severity_def)
  show "s \<le> s" by (simp add: less_eq_audit_severity_def)
  show "s \<le> t \<Longrightarrow> t \<le> u \<Longrightarrow> s \<le> u" by (simp add: less_eq_audit_severity_def)
  show "s \<le> t \<Longrightarrow> t \<le> s \<Longrightarrow> s = t"
    by (cases s; cases t) (simp_all add: less_eq_audit_severity_def word_le_nat_alt)
  show "s \<le> t \<or> t \<le> s" by (cases s; cases t) (simp_all add: less_eq_audit_severity_def word_le_nat_alt)
qed

end

datatype audit_source_type = User_Source | Process_Source | System_Source | Service_Source | External_Source | Automated_Source

fun source_type_str :: "audit_source_type \<Rightarrow> string" where
  "source_type_str User_Source = ''user''"
| "source_type_str Process_Source = ''process''"
| "source_type_str System_Source = ''system''"
| "source_type_str Service_Source = ''service''"
| "source_type_str External_Source = ''external''"
| "source_type_str Automated_Source = ''automated''"

datatype audit_outcome = Outcome_Success | Outcome_Failure | Outcome_Error | Outcome_Partial | Outcome_Timeout | Outcome_Blocked

record 'v audit_source =
  as_identifier :: string
  as_source_type :: audit_source_type
  as_ip_address :: "string option"
  as_user_agent :: "string option"
  as_metadata :: "(string, 'v) hashmap"

record audit_network_context =
  anc_source_ip :: string
  anc_source_port :: "u16 option"
  anc_destination_ip :: "string option"
  anc_destination_port :: "u16 option"
  anc_protocol :: string
  anc_interface :: "string option"

record audit_session_context =
  asc_session_id :: string
  asc_user_id :: string
  asc_session_start :: instant
  asc_session_expires :: "instant option"
  asc_auth_method :: string
  asc_privileges :: "string list"

record 'v audit_event =
  ae_id :: string
  ae_timestamp :: instant
  ae_event_type :: audit_event_type
  ae_severity :: audit_severity
  ae_source :: "'v audit_source"
  ae_outcome :: audit_outcome
  ae_description :: string
  ae_details :: "(string, 'v) hashmap"
  ae_network_context :: "audit_network_context option"
  ae_session_context :: "audit_session_context option"
  ae_signature :: "string option"
  ae_previous_event_hash :: "string option"
  ae_event_hash :: string

section \<open>The logger\<close>

record audit_config =
  ac_buffer_size :: nat
  ac_log_file_path :: string
  ac_enable_signing :: bool
  ac_enable_chaining :: bool
  ac_enable_encryption :: bool
  ac_retention_period :: duration
  ac_max_file_size :: nat
  ac_backup_count :: nat
  ac_enable_real_time :: bool
  ac_min_severity :: audit_severity

definition audit_config_default :: audit_config where
  "audit_config_default =
     \<lparr> ac_buffer_size = 10000, ac_log_file_path = ''/var/log/fuji/audit.log'', ac_enable_signing = True,
       ac_enable_chaining = True, ac_enable_encryption = True, ac_retention_period = secs (365 * 24 * 60 * 60),
       ac_max_file_size = 100 * 1024 * 1024, ac_backup_count = 10, ac_enable_real_time = True,
       ac_min_severity = Sev_Low \<rparr>"

record 'v audit_filter =
  af_name :: string
  af_include_types :: "audit_event_type list"
  af_exclude_types :: "audit_event_type list"
  af_min_severity :: audit_severity
  af_source_filters :: "string list"
  af_custom_filter :: "('v audit_event \<Rightarrow> bool) option"

text \<open>\<open>al_log_writer\<close> holds what an open writer has in its buffer.\<close>

record 'v audit_logger =
  al_config :: audit_config
  al_event_buffer :: "'v audit_event list"
  al_event_counter :: u64
  al_last_event_hash :: "string option"
  al_signing_key :: "string option"
  al_encryption_key :: "string option"
  al_log_writer :: "string option"
  al_event_filters :: "'v audit_filter list"

datatype audit_error =
    Permit_Timeout
  | Json_Failed
  | Encryption_Failed
  | Log_Dir_Failed
  | Log_Open_Failed
  | Log_Write_Failed
  | Log_Rename_Failed

record 'v audit_env =
  av_permit :: bool
  av_hash :: "string \<Rightarrow> string"
  av_rfc3339 :: "instant \<Rightarrow> string"
  av_show_time :: "instant \<Rightarrow> string"
  av_json_value :: "'v \<Rightarrow> string option"
  av_json_event :: "'v audit_event \<Rightarrow> string option"
  av_json_string :: "string \<Rightarrow> 'v"
  av_seal :: "string \<Rightarrow> string \<Rightarrow> string option"
  av_open :: bool
  av_flush :: bool
  av_stat :: bool
  av_rename :: "string \<Rightarrow> bool"

definition audit_with_config ::
    "bool \<Rightarrow> string \<Rightarrow> string \<Rightarrow> audit_config \<Rightarrow> audit_error + 'v audit_logger" where
  "audit_with_config dir_ok fresh_key fresh_key' c =
     (if \<not> dir_ok then Inl Log_Dir_Failed
      else Inr \<lparr> al_config = c, al_event_buffer = [], al_event_counter = 0, al_last_event_hash = None,
                 al_signing_key = (if ac_enable_signing c then Some fresh_key else None),
                 al_encryption_key = (if ac_enable_encryption c then Some fresh_key' else None),
                 al_log_writer = None, al_event_filters = [] \<rparr>)"

section \<open>Filters\<close>

definition passes_filter :: "'v audit_event \<Rightarrow> 'v audit_filter \<Rightarrow> bool" where
  "passes_filter e f =
     (if ae_severity e < af_min_severity f then False
      else if ae_event_type e \<in> set (af_exclude_types f) then False
      else if af_include_types f \<noteq> [] \<and> ae_event_type e \<notin> set (af_include_types f) then False
      else if af_source_filters f \<noteq> []
              \<and> \<not> list_ex (\<lambda>p. contains_str (as_identifier (ae_source e)) p
                             \<or> contains_str (source_type_str (as_source_type (ae_source e))) p)
                    (af_source_filters f) then False
      else case af_custom_filter f of Some custom \<Rightarrow> custom e | None \<Rightarrow> True)"

definition passes_filters :: "'v audit_logger \<Rightarrow> 'v audit_event \<Rightarrow> bool" where
  "passes_filters l e = (al_event_filters l = [] \<or> list_ex (passes_filter e) (al_event_filters l))"

definition add_filter :: "'v audit_filter \<Rightarrow> 'v audit_logger \<Rightarrow> 'v audit_logger" where
  "add_filter f l = l\<lparr>al_event_filters := al_event_filters l @ [f]\<rparr>"

definition remove_filter :: "string \<Rightarrow> 'v audit_logger \<Rightarrow> 'v audit_logger" where
  "remove_filter name l = l\<lparr>al_event_filters := filter (\<lambda>f. af_name f \<noteq> name) (al_event_filters l)\<rparr>"

section \<open>Hash, signature and encryption\<close>

fun details_text :: "('v \<Rightarrow> string option) \<Rightarrow> (string, 'v) hashmap \<Rightarrow> string option" where
  "details_text json [] = Some []"
| "details_text json ((k, v) # ds) =
     (case json v of None \<Rightarrow> None
      | Some t \<Rightarrow> map_option (\<lambda>rest. k @ t @ rest) (details_text json ds))"

definition calculate_event_hash :: "'v audit_env \<Rightarrow> 'v audit_event \<Rightarrow> audit_error + string" where
  "calculate_event_hash env e =
     (case details_text (av_json_value env) (ae_details e) of
        None \<Rightarrow> Inl Json_Failed
      | Some ds \<Rightarrow>
          Inr (av_hash env (ae_id e @ av_rfc3339 env (ae_timestamp e) @ event_category (ae_event_type e)
                            @ ae_description e @ ds)))"

definition sign_event :: "'v audit_env \<Rightarrow> 'v audit_logger \<Rightarrow> 'v audit_event \<Rightarrow> string" where
  "sign_event env l e =
     (case al_signing_key l of
        Some key \<Rightarrow> av_hash env (ae_id e @ '':'' @ av_show_time env (ae_timestamp e) @ '':'' @ ae_event_hash e)
      | None \<Rightarrow> [])"

definition sensitive_field_patterns :: "string list" where
  "sensitive_field_patterns =
     [''password'', ''secret'', ''key'', ''token'', ''credential'', ''auth'', ''private'', ''confidential'',
      ''ssn'', ''credit_card'']"

definition is_sensitive_field :: "string \<Rightarrow> bool" where
  "is_sensitive_field name = list_ex (\<lambda>p. contains_str (to_lowercase name) p) sensitive_field_patterns"

text \<open>The cipher is keyed with the bytes it is given; any number but 32 of them panics.\<close>

definition encrypt_data :: "'v audit_env \<Rightarrow> string \<Rightarrow> string \<Rightarrow> (audit_error + string) outcome" where
  "encrypt_data env content key =
     (if length key \<noteq> 32 then Panicked
      else Returned (ok_or (av_seal env key content) Encryption_Failed))"

fun seal_details ::
    "'v audit_env \<Rightarrow> (string, 'v) hashmap \<Rightarrow> (audit_error + (string, 'v) hashmap) outcome" where
  "seal_details env [] = Returned (Inr [])"
| "seal_details env ((k, v) # ds) =
     (let continue =
        (\<lambda>v'. case seal_details env ds of
                Returned (Inr ds') \<Rightarrow> Returned (Inr ((k, v') # ds'))
              | r \<Rightarrow> r)
      in if is_sensitive_field k
         then case av_json_value env v of
                None \<Rightarrow> Returned (Inl Json_Failed)
              | Some t \<Rightarrow>
                  (case encrypt_data env t k of
                     Panicked \<Rightarrow> Panicked
                   | Blocked \<Rightarrow> Blocked
                   | Returned (Inl err) \<Rightarrow> Returned (Inl err)
                   | Returned (Inr c) \<Rightarrow> continue (av_json_string env c))
         else continue v)"

definition encrypt_sensitive_data ::
    "'v audit_env \<Rightarrow> 'v audit_logger \<Rightarrow> 'v audit_event \<Rightarrow> (audit_error + 'v audit_event) outcome" where
  "encrypt_sensitive_data env l e =
     (case al_encryption_key l of
        None \<Rightarrow> Returned (Inr e)
      | Some key \<Rightarrow>
          (case seal_details env (ae_details e) of
             Panicked \<Rightarrow> Panicked
           | Blocked \<Rightarrow> Blocked
           | Returned (Inl err) \<Rightarrow> Returned (Inl err)
           | Returned (Inr ds) \<Rightarrow> Returned (Inr (e\<lparr>ae_details := ds\<rparr>))))"

section \<open>Processing an event\<close>

text \<open>Preparing an event reads the last hash; committing it writes the last hash and the counter, later and
  under other locks.\<close>

definition prepare_event ::
    "'v audit_env \<Rightarrow> 'v audit_logger \<Rightarrow> 'v audit_event \<Rightarrow> (audit_error + 'v audit_event) outcome" where
  "prepare_event env l e =
     (case calculate_event_hash env e of
        Inl err \<Rightarrow> Returned (Inl err)
      | Inr h \<Rightarrow>
          let c = al_config l;
              e1 = e\<lparr>ae_event_hash := h\<rparr>;
              e2 = (if ac_enable_chaining c then e1\<lparr>ae_previous_event_hash := al_last_event_hash l\<rparr> else e1);
              e3 = (if ac_enable_signing c then e2\<lparr>ae_signature := Some (sign_event env l e2)\<rparr> else e2)
          in if ac_enable_encryption c then encrypt_sensitive_data env l e3 else Returned (Inr e3))"

definition commit_event :: "'v audit_event \<Rightarrow> 'v audit_logger \<Rightarrow> 'v audit_logger" where
  "commit_event e l =
     (let l1 = (if ac_enable_chaining (al_config l) then l\<lparr>al_last_event_hash := Some (ae_event_hash e)\<rparr> else l)
      in l1\<lparr>al_event_counter := al_event_counter l1 + 1\<rparr>)"

definition process_event ::
    "'v audit_env \<Rightarrow> 'v audit_event \<Rightarrow> 'v audit_logger \<Rightarrow> 'v audit_logger \<times> (audit_error + 'v audit_event) outcome" where
  "process_event env e l =
     (case prepare_event env l e of
        Returned (Inr e') \<Rightarrow> (commit_event e' l, Returned (Inr e'))
      | r \<Rightarrow> (l, r))"

section \<open>The log file\<close>

definition file_name :: "string \<Rightarrow> string" where
  "file_name p = rev (takeWhile (\<lambda>c. c \<noteq> CHR ''/'') (rev p))"

definition file_stem :: "string \<Rightarrow> string" where
  "file_stem name =
     (if CHR ''.'' \<in> set (tl name)
      then rev (tl (dropWhile (\<lambda>c. c \<noteq> CHR ''.'') (rev name))) else name)"

definition with_extension :: "string \<Rightarrow> string \<Rightarrow> string" where
  "with_extension ext p =
     take (length p - length (file_name p)) p @ file_stem (file_name p) @ ''.'' @ ext"

definition backup_path :: "string \<Rightarrow> nat \<Rightarrow> string" where
  "backup_path p i = with_extension (''log.'' @ show_nat i) p"

fun shift_backups :: "'v audit_env \<Rightarrow> string \<Rightarrow> nat list \<Rightarrow> files \<Rightarrow> files \<times> (audit_error + unit)" where
  "shift_backups env p [] fs = (fs, Inr ())"
| "shift_backups env p (i # ks) fs =
     (if fs (backup_path p i) = None then shift_backups env p ks fs
      else case rename_file (av_rename env (backup_path p i)) (backup_path p i) (backup_path p (i + 1)) fs of
             (fs1, True) \<Rightarrow> shift_backups env p ks fs1
           | (fs1, False) \<Rightarrow> (fs1, Inl Log_Rename_Failed))"

definition rotate_log_files ::
    "'v audit_env \<Rightarrow> 'v audit_logger \<Rightarrow> files \<Rightarrow> ('v audit_logger \<times> files) \<times> (audit_error + unit)" where
  "rotate_log_files env l fs =
     (let l1 = l\<lparr>al_log_writer := None\<rparr>;
          p = ac_log_file_path (al_config l);
          n = ac_backup_count (al_config l)
      in case shift_backups env p (rev [1..<n]) fs of
           (fs1, Inl err) \<Rightarrow> ((l1, fs1), Inl err)
         | (fs1, Inr _) \<Rightarrow>
             (case rename_file (av_rename env p) p (backup_path p 1) fs1 of
                (fs2, False) \<Rightarrow> ((l1, fs2), Inl Log_Rename_Failed)
              | (fs2, True) \<Rightarrow>
                  ((l1, fold (\<lambda>i fs. fs(backup_path p i := None)) [n + 1..<n + 10] fs2), Inr ())))"

definition check_log_rotation ::
    "'v audit_env \<Rightarrow> 'v audit_logger \<Rightarrow> files \<Rightarrow> ('v audit_logger \<times> files) \<times> (audit_error + unit)" where
  "check_log_rotation env l fs =
     (case fs (ac_log_file_path (al_config l)) of
        Some content \<Rightarrow>
          if av_stat env \<and> length content \<ge> ac_max_file_size (al_config l)
          then rotate_log_files env l fs else ((l, fs), Inr ())
      | None \<Rightarrow> ((l, fs), Inr ()))"

definition write_to_log_file ::
    "'v audit_env \<Rightarrow> 'v audit_event \<Rightarrow> 'v audit_logger \<Rightarrow> files \<Rightarrow> ('v audit_logger \<times> files) \<times> (audit_error + unit)" where
  "write_to_log_file env e l fs =
     (let p = ac_log_file_path (al_config l);
          content = (case fs p of Some s \<Rightarrow> s | None \<Rightarrow> [])
      in if al_log_writer l = None \<and> \<not> av_open env then ((l, fs), Inl Log_Open_Failed)
         else let pending = (case al_log_writer l of Some w \<Rightarrow> w | None \<Rightarrow> []);
                  l1 = l\<lparr>al_log_writer := Some pending\<rparr>;
                  fs1 = fs(p := Some content)
              in case av_json_event env e of
                   None \<Rightarrow> ((l1, fs1), Inl Json_Failed)
                 | Some line \<Rightarrow>
                     let text = pending @ line @ [CHR 0x0A]
                     in if \<not> av_flush env then ((l1\<lparr>al_log_writer := Some text\<rparr>, fs1), Inl Log_Write_Failed)
                        else check_log_rotation env (l1\<lparr>al_log_writer := Some []\<rparr>) (fs1(p := Some (content @ text))))"

section \<open>Logging\<close>

definition push_event :: "'v audit_event \<Rightarrow> 'v audit_logger \<Rightarrow> 'v audit_logger" where
  "push_event e l =
     (let b = al_event_buffer l @ [e]
      in l\<lparr>al_event_buffer := drop (length b - ac_buffer_size (al_config l)) b\<rparr>)"

definition log_event ::
    "'v audit_env \<Rightarrow> 'v audit_event \<Rightarrow> 'v audit_logger \<times> files \<Rightarrow> ('v audit_logger \<times> files) \<times> (audit_error + unit) outcome" where
  "log_event env e s =
     (case s of (l, fs) \<Rightarrow>
        if \<not> av_permit env then (s, Returned (Inl Permit_Timeout))
        else if ae_severity e < ac_min_severity (al_config l) then (s, Returned (Inr ()))
        else if \<not> passes_filters l e then (s, Returned (Inr ()))
        else case process_event env e l of
               (l1, Panicked) \<Rightarrow> ((l1, fs), Panicked)
             | (l1, Blocked) \<Rightarrow> ((l1, fs), Blocked)
             | (l1, Returned (Inl err)) \<Rightarrow> ((l1, fs), Returned (Inl err))
             | (l1, Returned (Inr e')) \<Rightarrow>
                 let l2 = push_event e' l1
                 in if ac_enable_real_time (al_config l2)
                    then (case write_to_log_file env e' l2 fs of (s', r) \<Rightarrow> (s', Returned r))
                    else ((l2, fs), Returned (Inr ())))"

definition new_event ::
    "string \<Rightarrow> instant \<Rightarrow> audit_event_type \<Rightarrow> 'v audit_source \<Rightarrow> audit_outcome \<Rightarrow> string \<Rightarrow> (string, 'v) hashmap \<Rightarrow> 'v audit_event" where
  "new_event uuid now ty source result description details =
     \<lparr> ae_id = uuid, ae_timestamp = now, ae_event_type = ty, ae_severity = severity_of_type ty, ae_source = source,
       ae_outcome = result, ae_description = description, ae_details = details, ae_network_context = None,
       ae_session_context = None, ae_signature = None, ae_previous_event_hash = None, ae_event_hash = [] \<rparr>"

definition audit_log where
  "audit_log env uuid now ty source result description details s =
     log_event env (new_event uuid now ty source result description details) s"

definition log_security_violation where
  "log_security_violation env uuid now source violation_type details s =
     audit_log env uuid now SecurityViolation source Outcome_Blocked (''Security violation: '' @ violation_type)
       (hm_insert ''violation_type'' (av_json_string env violation_type) details) s"

fun authentication_outcome :: "audit_outcome \<Rightarrow> string" where
  "authentication_outcome Outcome_Success = ''success''"
| "authentication_outcome Outcome_Failure = ''failure''"
| "authentication_outcome Outcome_Error = ''error''"
| "authentication_outcome Outcome_Blocked = ''blocked''"
| "authentication_outcome _ = ''unknown''"

definition log_authentication where
  "log_authentication env uuid now source user_id result auth_method details s =
     audit_log env uuid now Authentication source result
       (''Authentication '' @ user_id @ '': '' @ authentication_outcome result)
       (hm_insert ''auth_method'' (av_json_string env auth_method)
         (hm_insert ''user_id'' (av_json_string env user_id) details)) s"

fun credential_outcome :: "audit_outcome \<Rightarrow> string" where
  "credential_outcome Outcome_Success = ''success''"
| "credential_outcome Outcome_Failure = ''failure''"
| "credential_outcome Outcome_Error = ''error''"
| "credential_outcome _ = ''unknown''"

definition log_credential_operation where
  "log_credential_operation env uuid now source operation credential_id result details s =
     audit_log env uuid now CredentialManagement source result
       (''Credential '' @ operation @ '': '' @ credential_id @ '' ('' @ credential_outcome result @ '')'')
       (hm_insert ''credential_id'' (av_json_string env credential_id)
         (hm_insert ''operation'' (av_json_string env operation) details)) s"

section \<open>Reading\<close>

definition get_events :: "usize option \<Rightarrow> usize option \<Rightarrow> 'v audit_logger \<Rightarrow> 'v audit_event list outcome" where
  "get_events limit offset l =
     (let events = al_event_buffer l;
          start = (case offset of Some o' \<Rightarrow> o' | None \<Rightarrow> 0);
          end' = (case limit of Some n \<Rightarrow> min (unat (start + n)) (length events) | None \<Rightarrow> length events)
      in if unat start \<ge> length events then Returned []
         else if unat start > end' then Panicked
         else Returned (drop (unat start) (take end' events)))"

record audit_query =
  aq_event_type :: "audit_event_type option"
  aq_severity :: "audit_severity option"
  aq_source_id :: "string option"
  aq_start_time :: "instant option"
  aq_end_time :: "instant option"
  aq_limit :: "nat option"

definition query_selects :: "audit_query \<Rightarrow> 'v audit_event \<Rightarrow> bool" where
  "query_selects q e =
     ((case aq_event_type q of Some t \<Rightarrow> ae_event_type e = t | None \<Rightarrow> True)
      \<and> (case aq_severity q of Some s \<Rightarrow> ae_severity e = s | None \<Rightarrow> True)
      \<and> (case aq_source_id q of Some i \<Rightarrow> as_identifier (ae_source e) = i | None \<Rightarrow> True)
      \<and> (case aq_start_time q of Some t \<Rightarrow> \<not> ae_timestamp e < t | None \<Rightarrow> True)
      \<and> (case aq_end_time q of Some t \<Rightarrow> \<not> ae_timestamp e > t | None \<Rightarrow> True))"

fun search_loop :: "audit_query \<Rightarrow> 'v audit_event list \<Rightarrow> 'v audit_event list \<Rightarrow> 'v audit_event list" where
  "search_loop q results [] = results"
| "search_loop q results (e # es) =
     (if query_selects q e
      then let results' = results @ [e]
           in (case aq_limit q of
                 Some n \<Rightarrow> if length results' \<ge> n then results' else search_loop q results' es
               | None \<Rightarrow> search_loop q results' es)
      else search_loop q results es)"

definition search_events :: "audit_query \<Rightarrow> 'v audit_logger \<Rightarrow> 'v audit_event list" where
  "search_events q l = search_loop q [] (rev (al_event_buffer l))"

record audit_statistics =
  ast_total_events :: u64
  ast_events_by_type :: "(audit_event_type, u64) hashmap"
  ast_events_by_severity :: "(audit_severity, u64) hashmap"
  ast_events_by_outcome :: "(audit_outcome, u64) hashmap"
  ast_earliest_event :: "instant option"
  ast_latest_event :: "instant option"

definition count_in :: "'k \<Rightarrow> ('k, u64) hashmap \<Rightarrow> ('k, u64) hashmap" where
  "count_in k m = hm_insert k ((case hm_get m k of Some n \<Rightarrow> n | None \<Rightarrow> 0) + 1) m"

definition count_event :: "'v audit_event \<Rightarrow> audit_statistics \<Rightarrow> audit_statistics" where
  "count_event e st =
     st\<lparr>ast_total_events := ast_total_events st + 1,
        ast_events_by_type := count_in (ae_event_type e) (ast_events_by_type st),
        ast_events_by_severity := count_in (ae_severity e) (ast_events_by_severity st),
        ast_events_by_outcome := count_in (ae_outcome e) (ast_events_by_outcome st),
        ast_earliest_event :=
          (case ast_earliest_event st of
             None \<Rightarrow> Some (ae_timestamp e)
           | Some t \<Rightarrow> if ae_timestamp e < t then Some (ae_timestamp e) else Some t),
        ast_latest_event :=
          (case ast_latest_event st of
             None \<Rightarrow> Some (ae_timestamp e)
           | Some t \<Rightarrow> if ae_timestamp e > t then Some (ae_timestamp e) else Some t)\<rparr>"

definition get_statistics :: "'v audit_logger \<Rightarrow> audit_statistics" where
  "get_statistics l =
     fold count_event (al_event_buffer l)
       \<lparr> ast_total_events = 0, ast_events_by_type = [], ast_events_by_severity = [], ast_events_by_outcome = [],
         ast_earliest_event = None, ast_latest_event = None \<rparr>"

section \<open>Exports\<close>

fun syslog_priority :: "audit_severity \<Rightarrow> nat" where
  "syslog_priority Sev_Low = 6"
| "syslog_priority Sev_Medium = 4"
| "syslog_priority Sev_High = 3"
| "syslog_priority Sev_Critical = 2"

definition syslog_line :: "(instant \<Rightarrow> string) \<Rightarrow> 'v audit_event \<Rightarrow> string" where
  "syslog_line show_stamp e =
     ''<'' @ show_nat (syslog_priority (ae_severity e)) @ ''> '' @ show_stamp (ae_timestamp e) @ '' fuji: [''
     @ show_nat (unat (severity_value (ae_severity e))) @ ''] '' @ event_category (ae_event_type e) @ '': ''
     @ as_identifier (ae_source e) @ '' - '' @ ae_description e @ [CHR 0x0A]"

definition export_to_syslog :: "(instant \<Rightarrow> string) \<Rightarrow> 'v audit_event list \<Rightarrow> string" where
  "export_to_syslog show_stamp es = concat (map (syslog_line show_stamp) es)"

fun cef_severity :: "audit_severity \<Rightarrow> nat" where
  "cef_severity Sev_Low = 1"
| "cef_severity Sev_Medium = 3"
| "cef_severity Sev_High = 6"
| "cef_severity Sev_Critical = 9"

definition cef_line :: "string \<Rightarrow> 'v audit_event \<Rightarrow> string" where
  "cef_line version e =
     ''CEF:0|Fuji|'' @ version @ ''|'' @ event_category (ae_event_type e) @ ''|'' @ event_category (ae_event_type e) @ ''|''
     @ ae_description e @ ''|'' @ show_nat (cef_severity (ae_severity e)) @ ''|src='' @ as_identifier (ae_source e)
     @ [CHR 0x0A]"

definition export_to_cef :: "string \<Rightarrow> 'v audit_event list \<Rightarrow> string" where
  "export_to_cef version es = concat (map (cef_line version) es)"

end
