(* ===== verification/Audit_Chain.thy ===== *)
theory Audit_Chain
  imports Audit_Log
begin

text \<open>
  What the audit log keeps: the chain of hashes under sequential and under concurrent logging, what its
  encryption does to the events it is meant for, the rotation of the files, searching and paging.
\<close>

section \<open>The chain\<close>

datatype 'v audit_op =
    Log_Event "'v audit_env" "'v audit_event"
  | Add_Filter "'v audit_filter"
  | Remove_Filter string

fun audit_step :: "'v audit_op \<Rightarrow> 'v audit_logger \<times> files \<Rightarrow> 'v audit_logger \<times> files" where
  "audit_step (Log_Event env e) s = fst (log_event env e s)"
| "audit_step (Add_Filter f) (l, fs) = (add_filter f l, fs)"
| "audit_step (Remove_Filter name) (l, fs) = (remove_filter name l, fs)"

fun chained :: "'v audit_event list \<Rightarrow> bool" where
  "chained (a # b # es) = (ae_previous_event_hash b = Some (ae_event_hash a) \<and> chained (b # es))"
| "chained _ = True"

definition audit_inv :: "audit_config \<Rightarrow> 'v audit_logger \<times> files \<Rightarrow> bool" where
  "audit_inv c s =
     (case s of (l, fs) \<Rightarrow>
        al_config l = c
        \<and> (al_encryption_key l \<noteq> None \<longleftrightarrow> ac_enable_encryption c)
        \<and> length (al_event_buffer l) \<le> ac_buffer_size c
        \<and> (ac_enable_chaining c \<longrightarrow>
             chained (al_event_buffer l)
             \<and> (al_event_buffer l \<noteq> [] \<longrightarrow>
                  al_last_event_hash l = Some (ae_event_hash (last (al_event_buffer l))))))"

lemma chained_snoc:
  "chained (es @ [e]) \<longleftrightarrow>
     chained es \<and> (es = [] \<or> ae_previous_event_hash e = Some (ae_event_hash (last es)))"
  by (induction es rule: chained.induct) auto

lemma chained_drop: "chained es \<Longrightarrow> chained (drop n es)"
proof (induction n arbitrary: es)
  case (Suc n)
  then show ?case by (cases es rule: chained.cases) auto
qed simp

lemma encrypted_same_chain:
  "encrypt_sensitive_data env l e = Returned (Inr e') \<Longrightarrow>
     ae_event_hash e' = ae_event_hash e \<and> ae_previous_event_hash e' = ae_previous_event_hash e"
  by (auto simp: encrypt_sensitive_data_def split: option.splits outcome.splits sum.splits)

lemma prepared_linked:
  assumes "prepare_event env l e = Returned (Inr e')" "ac_enable_chaining (al_config l)"
  shows "ae_previous_event_hash e' = al_last_event_hash l"
  using assms encrypted_same_chain
  by (fastforce simp: prepare_event_def Let_def split: sum.splits if_splits)

text \<open>Writing to the file leaves everything but the writer.\<close>

lemma rotate_keeps: "rotate_log_files env l fs = ((l', fs'), r) \<Longrightarrow> \<exists>w. l' = l\<lparr>al_log_writer := w\<rparr>"
  by (auto simp: rotate_log_files_def Let_def split: prod.splits sum.splits bool.splits)

lemma check_rotation_keeps: "check_log_rotation env l fs = ((l', fs'), r) \<Longrightarrow> \<exists>w. l' = l\<lparr>al_log_writer := w\<rparr>"
  by (auto simp: check_log_rotation_def intro: exI [of _ "al_log_writer l"] dest: rotate_keeps
      split: option.splits if_splits)

lemma write_keeps: "write_to_log_file env e l fs = ((l', fs'), r) \<Longrightarrow> \<exists>w. l' = l\<lparr>al_log_writer := w\<rparr>"
  by (auto simp: write_to_log_file_def Let_def intro: exI [of _ "al_log_writer l"] dest!: check_rotation_keeps
      split: option.splits if_splits)

lemma audit_inv_writer: "audit_inv c (l\<lparr>al_log_writer := w\<rparr>, fs) = audit_inv c (l, fs')"
  by (simp add: audit_inv_def)

lemma audit_inv_logged:
  assumes "audit_inv c (l, fs)" "prepare_event env l e = Returned (Inr e')"
  shows "audit_inv c (push_event e' (commit_event e' l), fs)"
proof -
  have "chained (al_event_buffer l @ [e'])
      \<and> al_last_event_hash (commit_event e' l) = Some (ae_event_hash e')" if "ac_enable_chaining c"
    using assms prepared_linked [OF assms(2)] that
    by (auto simp: audit_inv_def chained_snoc commit_event_def Let_def)
  moreover have "last (drop n (al_event_buffer l @ [e'])) = e'" if "drop n (al_event_buffer l @ [e']) \<noteq> []" for n
    using that by (metis last_drop last_snoc drop_all not_le)
  ultimately show ?thesis
    using assms(1)
    by (auto simp: audit_inv_def push_event_def commit_event_def Let_def simp del: drop_append
        intro: chained_drop)
qed

lemma audit_inv_step: "audit_inv c s \<Longrightarrow> audit_inv c (audit_step oper s)"
proof (induction oper s rule: audit_step.induct)
  case (1 env e s)
  obtain l fs where s: "s = (l, fs)" by force
  show ?case
  proof (cases "prepare_event env l e")
    case (Returned r)
    show ?thesis
    proof (cases r)
      case (Inr e')
      with Returned have "prepare_event env l e = Returned (Inr e')" by simp
      from audit_inv_logged [OF 1 [unfolded s] this] 1 Returned Inr s show ?thesis
        by (auto simp: log_event_def process_event_def Let_def audit_inv_writer [where fs' = fs]
            split: prod.splits dest!: write_keeps)
    qed (use 1 Returned s in \<open>simp add: log_event_def process_event_def\<close>)
  qed (use 1 s in \<open>simp_all add: log_event_def process_event_def\<close>)
qed (simp_all add: audit_inv_def add_filter_def remove_filter_def)

lemma audit_inv_new: "audit_with_config ok key key' c = Inr l \<Longrightarrow> audit_inv c (l, fs)"
  by (auto simp: audit_with_config_def audit_inv_def split: if_splits)

interpretation audit: component audit_step "audit_inv c"
  by unfold_locales (rule audit_inv_step)


text \<open>two events that are prepared before either is committed name the same predecessor, so the buffer is
  no chain, unless the hash of one of them is that predecessor.\<close>

theorem concurrent_events_fork:
  assumes "ac_enable_chaining (al_config l)"
    and "prepare_event env l e1 = Returned (Inr p1)" "prepare_event env l e2 = Returned (Inr p2)"
    and "al_last_event_hash l \<noteq> Some (ae_event_hash p1)"
  shows "ae_previous_event_hash p1 = ae_previous_event_hash p2 \<and> \<not> chained (es @ [p1, p2])
    \<and> al_last_event_hash (commit_event p2 (commit_event p1 l)) = Some (ae_event_hash p2)"
proof -
  have same: "ae_previous_event_hash p1 = al_last_event_hash l" "ae_previous_event_hash p2 = al_last_event_hash l"
    using prepared_linked assms(1-3) by blast+
  have "\<not> chained ((es @ [p1]) @ [p2])"
    unfolding chained_snoc using same assms(4) by simp
  with same assms(1) show ?thesis by (simp add: commit_event_def Let_def)
qed

definition sample_audit_env :: "string audit_env" where
  "sample_audit_env =
     \<lparr> av_permit = True, av_hash = (\<lambda>s. s), av_rfc3339 = (\<lambda>_. ''t''), av_show_time = (\<lambda>_. ''t''), av_json_value = Some,
       av_json_event = (\<lambda>e. Some (ae_description e)), av_json_string = (\<lambda>s. s), av_seal = (\<lambda>_. Some),
       av_open = True, av_flush = True, av_stat = True, av_rename = (\<lambda>_. True) \<rparr>"

definition sample_source :: "string audit_source" where
  "sample_source =
     \<lparr> as_identifier = ''root'', as_source_type = User_Source, as_ip_address = None, as_user_agent = None, as_metadata = [] \<rparr>"

definition sample_event :: "string \<Rightarrow> string audit_event" where
  "sample_event uuid = new_event uuid 0 SystemEvent sample_source Outcome_Success ''started'' []"

definition sample_logger :: "audit_config \<Rightarrow> string audit_logger" where
  "sample_logger c =
     \<lparr> al_config = c, al_event_buffer = [], al_event_counter = 0, al_last_event_hash = None, al_signing_key = None,
       al_encryption_key = (if ac_enable_encryption c then Some ''k'' else None), al_log_writer = None, al_event_filters = [] \<rparr>"

lemmas audit_eval =
  sample_audit_env_def sample_event_def sample_source_def sample_logger_def new_event_def prepare_event_def
  calculate_event_hash_def encrypt_sensitive_data_def commit_event_def push_event_def audit_config_default_def Let_def


theorem concurrent_events_fork_witness:
  "\<exists>p1 p2. prepare_event sample_audit_env (sample_logger audit_config_default) (sample_event ''1'') = Returned (Inr p1)
     \<and> prepare_event sample_audit_env (sample_logger audit_config_default) (sample_event ''2'') = Returned (Inr p2)
     \<and> \<not> chained [p1, p2]"
proof -
  let ?l = "sample_logger audit_config_default"
  obtain p1 p2 where p: "prepare_event sample_audit_env ?l (sample_event ''1'') = Returned (Inr p1)"
      "prepare_event sample_audit_env ?l (sample_event ''2'') = Returned (Inr p2)"
    by (simp add: audit_eval)
  have "ac_enable_chaining (al_config ?l)" "al_last_event_hash ?l \<noteq> Some (ae_event_hash p1)"
    by (simp_all add: audit_eval)
  from concurrent_events_fork [OF this(1) p this(2), of "[]"] p show ?thesis by auto
qed

section \<open>Encryption\<close>

lemma seal_details_keys:
  "seal_details env ds = Returned (Inr ds') \<Longrightarrow> k \<in> fst ` set ds \<Longrightarrow> is_sensitive_field k \<Longrightarrow> length k = 32"
proof (induction env ds arbitrary: ds' rule: seal_details.induct)
  case (2 env k' v ds)
  then show ?case
    by (auto simp: Let_def encrypt_data_def split: if_splits option.splits outcome.splits sum.splits)
qed simp

lemma sensitive_event_not_prepared:
  assumes "ac_enable_encryption (al_config l)" "al_encryption_key l \<noteq> None"
    and "k \<in> fst ` set (ae_details e)" "is_sensitive_field k" "length k \<noteq> 32"
  shows "prepare_event env l e \<noteq> Returned (Inr e')"
  using assms seal_details_keys [of env "ae_details e"]
  by (auto simp: prepare_event_def encrypt_sensitive_data_def Let_def
      split: sum.splits option.splits outcome.splits if_splits)

lemma not_prepared_not_logged:
  assumes "\<And>e'. prepare_event env l e \<noteq> Returned (Inr e')"
  shows "fst (log_event env e (l, fs)) = (l, fs)"
  using assms by (auto simp: log_event_def process_event_def split: outcome.splits sum.splits)

lemma hm_insert_key: "k \<in> fst ` set (hm_insert k v m)"
  using hm.get_insert [of k v m k] by (auto dest!: hm_get_in_set intro: rev_image_eqI)

text \<open>with encryption on, as it is by default, no event of an authentication or of a credential ever reaches the buffer or
  the file: the name of one of their fields is taken for the key of the cipher, and has the wrong length.\<close>

theorem authentication_never_logged:
  assumes "ac_enable_encryption (al_config l)" "al_encryption_key l \<noteq> None"
  shows "fst (log_authentication env uuid now source user_id result auth_method details (l, fs)) = (l, fs)
    \<and> fst (log_credential_operation env uuid now source operation credential_id result details (l, fs)) = (l, fs)"
proof -
  have sensitive: "is_sensitive_field ''auth_method''" "is_sensitive_field ''credential_id''"
    by (simp_all add: is_sensitive_field_def sensitive_field_patterns_def fuji_eval)
  have "fst (log_authentication env uuid now source user_id result auth_method details (l, fs)) = (l, fs)"
    unfolding log_authentication_def audit_log_def
    by (intro not_prepared_not_logged sensitive_event_not_prepared [OF assms _ sensitive(1)])
      (simp_all add: new_event_def hm_insert_key)
  moreover have "fst (log_credential_operation env uuid now source operation credential_id result details (l, fs)) = (l, fs)"
    unfolding log_credential_operation_def audit_log_def
    by (intro not_prepared_not_logged sensitive_event_not_prepared [OF assms _ sensitive(2)])
      (simp_all add: new_event_def hm_insert_key)
  ultimately show ?thesis ..
qed

theorem authentication_never_logged_witness:
  "fst (log_authentication sample_audit_env ''1'' 0 sample_source ''root'' Outcome_Failure ''password'' []
      (sample_logger audit_config_default, (\<lambda>_. None))) = (sample_logger audit_config_default, (\<lambda>_. None))"
  using authentication_never_logged [of "sample_logger audit_config_default" sample_audit_env]
  by (simp add: sample_logger_def audit_config_default_def)

section \<open>Rotation\<close>

lemma file_name_split: "take (length p - length (file_name p)) p @ file_name p = p"
proof -
  have "drop (length p - length (file_name p)) p = file_name p"
    unfolding file_name_def
    by (metis append_take_drop_id length_rev rev_append rev_rev_ident takeWhile_dropWhile_id
        append_eq_conv_conj diff_diff_cancel length_takeWhile_le rev_take)
  then show ?thesis by (metis append_take_drop_id)
qed

lemma show_nat_no_dot: "CHR ''.'' \<notin> set (show_nat n)"
  using show_nat_digits [of n] by (auto simp: is_ascii_digit_def char_code_def)

lemma show_nat_inj: "show_nat m = show_nat n \<longleftrightarrow> m = n"
  by (metis digits_val_show_nat option.inject)

lemma backup_path_eq: "backup_path p i = backup_path p j \<longleftrightarrow> i = j"
  by (simp add: backup_path_def with_extension_def show_nat_inj)

lemma backup_path_other: "backup_path p i \<noteq> p"
proof
  let ?dir = "take (length p - length (file_name p)) p"
  assume "backup_path p i = p"
  then have eq: "file_stem (file_name p) @ ''.'' @ ''log.'' @ show_nat i = file_name p"
    using file_name_split [of p] by (simp add: backup_path_def with_extension_def) (metis same_append_eq)
  show False
  proof (cases "CHR ''.'' \<in> set (tl (file_name p))")
    case True
    then have "CHR ''.'' \<in> set (rev (file_name p))" by (cases "file_name p") auto
    then obtain ys zs where r: "rev (file_name p) = ys @ CHR ''.'' # zs" and ys: "CHR ''.'' \<notin> set ys"
      by (meson split_list_first)
    then have name: "file_name p = rev zs @ ''.'' @ rev ys" by (simp add: rev_swap)
    have "dropWhile (\<lambda>c. c \<noteq> CHR ''.'') (rev (file_name p)) = CHR ''.'' # zs"
      unfolding r using ys by (subst dropWhile_append2) auto
    then have "file_stem (file_name p) = rev zs" using True by (simp add: file_stem_def)
    with eq name have "''log.'' @ show_nat i = rev ys" by simp
    moreover have "CHR ''.'' \<in> set (''log.'' @ show_nat i)" by simp
    ultimately show False using ys by simp
  next
    case False
    then have "file_stem (file_name p) = file_name p" by (simp add: file_stem_def)
    with eq show False by simp
  qed
qed


text \<open>One round of shifting the backups \<open>1, \<dots>, m\<close>, by the number of the backup.\<close>

definition shifted :: "nat \<Rightarrow> (nat \<Rightarrow> string option) \<Rightarrow> nat \<Rightarrow> string option" where
  "shifted m old j =
     (if j = 0 \<or> j > Suc m then old j
      else if j = Suc m then (if m = 0 \<or> old m = None then old (Suc m) else old m)
      else if j = 1 then None
      else old (j - 1))"

lemma shift_backups_spec:
  assumes "\<And>q. av_rename env q"
  shows "\<exists>fs'. shift_backups env p (rev [1..<Suc m]) fs = (fs', Inr ())
    \<and> (\<forall>j. fs' (backup_path p j) = shifted m (\<lambda>i. fs (backup_path p i)) j)
    \<and> fs' p = fs p"
proof (induction m arbitrary: fs)
  case (Suc m)
  let ?one = "if fs (backup_path p (Suc m)) = None then fs
     else fs(backup_path p (Suc (Suc m)) := fs (backup_path p (Suc m)), backup_path p (Suc m) := None)"
  obtain fs' where run: "shift_backups env p (rev [1..<Suc m]) ?one = (fs', Inr ())"
    and at: "\<And>j. fs' (backup_path p j) = shifted m (\<lambda>i. ?one (backup_path p i)) j"
    and other: "fs' p = ?one p"
    using Suc by blast
  have "shift_backups env p (rev [1..<Suc (Suc m)]) fs = shift_backups env p (rev [1..<Suc m]) ?one"
    using assms by (simp add: rename_file_def del: upt_Suc add: upt_Suc_append)
  moreover have "shifted m (\<lambda>i. ?one (backup_path p i)) j = shifted (Suc m) (\<lambda>i. fs (backup_path p i)) j" for j
    by (auto simp: shifted_def backup_path_eq)
  ultimately show ?case
    using run at other by (auto simp: backup_path_other [symmetric])
qed (auto simp: shifted_def not_less le_Suc_eq)

text \<open>a rotation in which every renaming succeeds moves the log to the first backup and every backup one
  further; the last one is lost, and nothing is left beyond the number of backups.\<close>

theorem rotation_shifts:
  assumes "\<And>q. av_rename env q" "fs (ac_log_file_path c) = Some content"
    and "c = al_config l" "ac_backup_count c = n" "0 < n"
  shows "case rotate_log_files env l fs of
    ((l', fs'), r) \<Rightarrow>
      r = Inr () \<and> fs' (ac_log_file_path c) = None \<and> fs' (backup_path (ac_log_file_path c) 1) = Some content
      \<and> (\<forall>i. 1 \<le> i \<and> i + 1 < n \<longrightarrow>
            fs' (backup_path (ac_log_file_path c) (i + 1)) = fs (backup_path (ac_log_file_path c) i))
      \<and> (\<forall>i. n < i \<and> i < n + 10 \<longrightarrow> fs' (backup_path (ac_log_file_path c) i) = None)"
proof -
  let ?p = "ac_log_file_path c"
  obtain m where m: "n = Suc m" using assms(5) by (cases n) auto
  obtain fs1 where run: "shift_backups env ?p (rev [1..<n]) fs = (fs1, Inr ())"
    and at: "\<And>j. fs1 (backup_path ?p j) = shifted m (\<lambda>i. fs (backup_path ?p i)) j"
    and other: "fs1 ?p = fs ?p"
    using shift_backups_spec [OF assms(1), of "ac_log_file_path c" m fs] m by auto
  let ?fs2 = "fs1(backup_path ?p 1 := Some content, ?p := None)"
  have clear: "fold (\<lambda>i fs. fs(backup_path ?p i := None)) ks fs3 q
      = (if q \<in> backup_path ?p ` set ks then None else fs3 q)" for ks q and fs3 :: files
    by (induction ks arbitrary: fs3) auto
  have "rotate_log_files env l fs =
      ((l\<lparr>al_log_writer := None\<rparr>, fold (\<lambda>i fs. fs(backup_path ?p i := None)) [n + 1..<n + 10] ?fs2), Inr ())"
    using run other assms(1-4) by (simp add: rotate_log_files_def Let_def rename_file_def)
  then show ?thesis
    by (auto simp: clear at shifted_def m backup_path_eq backup_path_other backup_path_other [symmetric] image_iff)
qed


theorem rotation_shifts_witness:
  "case rotate_log_files sample_audit_env
      (sample_logger (audit_config_default\<lparr>ac_backup_count := 2, ac_log_file_path := ''/l/audit.log''\<rparr>))
      (\<lambda>q. if q = ''/l/audit.log'' then Some ''new'' else None) of
     ((l', fs'), r) \<Rightarrow> r = Inr () \<and> fs' ''/l/audit.log.1'' = Some ''new''"
proof -
  let ?c = "audit_config_default\<lparr>ac_backup_count := 2, ac_log_file_path := ''/l/audit.log''\<rparr>"
  have one: "show_nat 1 = ''1''" by code_simp
  have path: "backup_path ''/l/audit.log'' 1 = ''/l/audit.log.1''"
    by (simp add: backup_path_def with_extension_def file_name_def file_stem_def one del: One_nat_def)
  show ?thesis
    using rotation_shifts [of sample_audit_env "\<lambda>q. if q = ''/l/audit.log'' then Some ''new'' else None" ?c "''new''"
        "sample_logger ?c" 2]
    by (auto simp: sample_audit_env_def sample_logger_def audit_config_default_def path [unfolded One_nat_def] split: prod.splits)
qed

section \<open>Reading the buffer\<close>

lemma search_loop_exact:
  "search_loop q results es =
     (case aq_limit q of
        None \<Rightarrow> results @ filter (query_selects q) es
      | Some n \<Rightarrow> results @ take (max (Suc 0) (n - length results)) (filter (query_selects q) es))"
proof (induction q results es rule: search_loop.induct)
  case (2 q results e es)
  show ?case
  proof (cases "aq_limit q")
    case (Some n)
    have "max (Suc 0) (n - length results) =
        (if n \<le> Suc (length results) then Suc 0 else Suc (max (Suc 0) (n - Suc (length results))))"
      by auto
    with 2 Some show ?thesis by (simp add: Let_def)
  qed (use 2 in auto)
qed (auto split: option.splits)

text \<open>a search returns the newest matching events first, as many as asked for; asked for none, it returns one.\<close>

theorem search_exact:
  "search_events q l =
     (let matching = filter (query_selects q) (rev (al_event_buffer l))
      in case aq_limit q of None \<Rightarrow> matching | Some n \<Rightarrow> take (max 1 n) matching)"
  by (simp add: search_events_def search_loop_exact Let_def split: option.splits)

text \<open>a page of the buffer, when the end of it can be computed; otherwise the sum wraps and the slice panics.\<close>

theorem get_events_page:
  assumes "offset < of_nat (length (al_event_buffer l))" "length (al_event_buffer l) < 2 ^ 64"
  shows "get_events (Some n) (Some offset) l =
    (if unat offset + unat n < 2 ^ 64
     then Returned (take (unat n) (drop (unat offset) (al_event_buffer l)))
     else Panicked)"
proof -
  let ?b = "al_event_buffer l"
  have inside: "unat offset < length ?b"
    using assms by (simp add: word_less_nat_alt unat_of_nat take_bit_eq_mod)
  have sum: "unat (offset + n) = (unat offset + unat n) mod 2 ^ 64"
    by (simp add: unat_word_ariths)
  show ?thesis
  proof (cases "unat offset + unat n < 2 ^ 64")
    case True
    with sum inside show ?thesis
      by (auto simp: get_events_def Let_def min_def drop_take)
  next
    case False
    have wrap: "(a + b) mod m < a" if "a < m" "b < m" "\<not> a + b < m" for a b m :: nat
    proof -
      have "(a + b) mod m = a + b - m" using that by (simp add: mod_if)
      with that show ?thesis by linarith
    qed
    have "unat (offset + n) < unat offset"
      unfolding sum by (rule wrap [OF _ _ False]) (use unsigned_less [of offset] unsigned_less [of n] in simp_all)
    with False inside show ?thesis by (simp add: get_events_def Let_def)
  qed
qed


theorem get_events_page_witness:
  "get_events (Some 18446744073709551615) (Some 1) (sample_logger audit_config_default\<lparr>al_event_buffer := [sample_event ''1'', sample_event ''2'']\<rparr>)
     = Panicked"
  using get_events_page [of 1 "sample_logger audit_config_default\<lparr>al_event_buffer := [sample_event ''1'', sample_event ''2'']\<rparr>" "18446744073709551615"]
  by (simp add: word_less_nat_alt)

end
