(* ===== verification/Audit_Export.thy ===== *)
theory Audit_Export
  imports Audit_Chain
begin

text \<open>
  The rest of \<open>src/security/audit_logging.rs\<close>: how a logger is made with the default configuration, copies of filters,
  the lines an event writes to the program's log, and the exports.  JSON, the CSV writer, the printers of time stamps
  and the version of the package are arguments.
\<close>

section \<open>Making a logger\<close>

definition generate_audit_key :: "(nat \<Rightarrow> string) \<Rightarrow> string" where
  "generate_audit_key random = random 32"

definition audit_logger_new ::
    "(string \<Rightarrow> bool) \<Rightarrow> string \<Rightarrow> nat \<Rightarrow> (nat \<Rightarrow> string) \<Rightarrow> (nat \<Rightarrow> string) \<Rightarrow> audit_error + 'v audit_logger" where
  "audit_logger_new dir_ok temp_dir pid random random' =
     (if dir_ok ''/var/log/fuji''
      then audit_with_config (dir_ok ''/var/log/fuji'') (generate_audit_key random) (generate_audit_key random') audit_config_default
      else audit_with_config (dir_ok temp_dir) (generate_audit_key random) (generate_audit_key random')
             (audit_config_default\<lparr>ac_log_file_path := path_join temp_dir (''fuji_audit_'' @ show_nat pid @ ''.log'')\<rparr>))"

definition audit_logger_default ::
    "(string \<Rightarrow> bool) \<Rightarrow> string \<Rightarrow> nat \<Rightarrow> (nat \<Rightarrow> string) \<Rightarrow> (nat \<Rightarrow> string) \<Rightarrow> 'v audit_logger outcome" where
  "audit_logger_default dir_ok temp_dir pid random random' =
     (case audit_logger_new dir_ok temp_dir pid random random' of Inl _ \<Rightarrow> Panicked | Inr l \<Rightarrow> Returned l)"

definition clone_filter :: "'v audit_filter \<Rightarrow> 'v audit_filter" where
  "clone_filter f = f\<lparr>af_custom_filter := None\<rparr>"

section \<open>The program's log\<close>

fun color_code :: "audit_severity \<Rightarrow> string" where
  "color_code Sev_Low = [CHR 0x1B] @ ''[32m''"
| "color_code Sev_Medium = [CHR 0x1B] @ ''[33m''"
| "color_code Sev_High = [CHR 0x1B] @ ''[31m''"
| "color_code Sev_Critical = [CHR 0x1B] @ ''[35m''"

fun monitored_outcome :: "audit_outcome \<Rightarrow> string" where
  "monitored_outcome Outcome_Success = ''SUCCESS''"
| "monitored_outcome Outcome_Failure = ''FAILURE''"
| "monitored_outcome Outcome_Error = ''ERROR''"
| "monitored_outcome Outcome_Blocked = ''BLOCKED''"
| "monitored_outcome _ = ''UNKNOWN''"

text \<open>The flag tells an error from information.\<close>

definition send_to_monitors :: "'v audit_event \<Rightarrow> (bool \<times> string) list" where
  "send_to_monitors e =
     (False, color_code (ae_severity e) @ ''[AUDIT]'' @ [CHR 0x1B] @ ''[0m ['' @ show_nat (unat (severity_value (ae_severity e))) @ ''] ''
        @ event_category (ae_event_type e) @ '': '' @ ae_description e @ '' - '' @ as_identifier (ae_source e)
        @ '' ('' @ monitored_outcome (ae_outcome e) @ '')'')
     # (if ae_severity e = Sev_Critical
        then [(True, ''[CRITICAL AUDIT] '' @ event_category (ae_event_type e) @ '': '' @ ae_description e @ '' - '' @ as_identifier (ae_source e))]
        else [])"

section \<open>Exports\<close>

fun debug_audit_type :: "audit_event_type \<Rightarrow> string" where
  "debug_audit_type Authentication = ''Authentication''"
| "debug_audit_type Authorization = ''Authorization''"
| "debug_audit_type CredentialManagement = ''CredentialManagement''"
| "debug_audit_type MountOperation = ''MountOperation''"
| "debug_audit_type ConfigurationChange = ''ConfigurationChange''"
| "debug_audit_type SecurityPolicy = ''SecurityPolicy''"
| "debug_audit_type SystemEvent = ''SystemEvent''"
| "debug_audit_type NetworkEvent = ''NetworkEvent''"
| "debug_audit_type DataAccess = ''DataAccess''"
| "debug_audit_type CryptographicOperation = ''CryptographicOperation''"
| "debug_audit_type SecurityViolation = ''SecurityViolation''"
| "debug_audit_type AdministrativeAction = ''AdministrativeAction''"
| "debug_audit_type ProcessManagement = ''ProcessManagement''"

fun debug_audit_severity :: "audit_severity \<Rightarrow> string" where
  "debug_audit_severity Sev_Low = ''Low''"
| "debug_audit_severity Sev_Medium = ''Medium''"
| "debug_audit_severity Sev_High = ''High''"
| "debug_audit_severity Sev_Critical = ''Critical''"

fun debug_audit_outcome :: "audit_outcome \<Rightarrow> string" where
  "debug_audit_outcome Outcome_Success = ''Success''"
| "debug_audit_outcome Outcome_Failure = ''Failure''"
| "debug_audit_outcome Outcome_Error = ''Error''"
| "debug_audit_outcome Outcome_Partial = ''Partial''"
| "debug_audit_outcome Outcome_Timeout = ''Timeout''"
| "debug_audit_outcome Outcome_Blocked = ''Blocked''"

datatype audit_export_format = Audit_Json | Audit_Csv | Audit_Syslog | Audit_Cef

record 'v audit_export_env =
  xe_json :: "'v audit_event list \<Rightarrow> string option"
  xe_csv :: "string list list \<Rightarrow> string option"
  xe_rfc3339 :: "instant \<Rightarrow> string"
  xe_stamp :: "instant \<Rightarrow> string"
  xe_version :: string

definition csv_record :: "'v audit_export_env \<Rightarrow> 'v audit_event \<Rightarrow> string list" where
  "csv_record env e =
     [ae_id e, xe_rfc3339 env (ae_timestamp e), debug_audit_type (ae_event_type e), debug_audit_severity (ae_severity e),
      as_identifier (ae_source e), debug_audit_outcome (ae_outcome e), ae_description e]"

definition export_to_csv :: "'v audit_export_env \<Rightarrow> 'v audit_event list \<Rightarrow> string option" where
  "export_to_csv env es =
     xe_csv env ([''id'', ''timestamp'', ''event_type'', ''severity'', ''source'', ''outcome'', ''description''] # map (csv_record env) es)"

definition export_logs :: "'v audit_export_env \<Rightarrow> audit_export_format \<Rightarrow> 'v audit_logger \<Rightarrow> string option" where
  "export_logs env format l =
     (case format of
        Audit_Json \<Rightarrow> xe_json env (al_event_buffer l)
      | Audit_Csv \<Rightarrow> export_to_csv env (al_event_buffer l)
      | Audit_Syslog \<Rightarrow> Some (export_to_syslog (xe_stamp env) (al_event_buffer l))
      | Audit_Cef \<Rightarrow> Some (export_to_cef (xe_version env) (al_event_buffer l)))"

section \<open>Properties\<close>

text \<open>an event whose description holds a line feed and the line of another event is exported as both, in the formats for
  syslog and CEF alike: whoever chooses the description of an event can forge others.\<close>

theorem description_forges_event:
  assumes "al_event_buffer l = es @ [e\<lparr>ae_description := d @ [CHR 0x0A] @ butlast (syslog_line (xe_stamp env) f)\<rparr>] @ es'"
    and "al_event_buffer l' = es @ [e\<lparr>ae_description := d\<rparr>, f] @ es'"
  shows "export_logs env Audit_Syslog l = export_logs env Audit_Syslog l'"
  using assms by (simp add: export_logs_def export_to_syslog_def syslog_line_def butlast_append)

text \<open>a copy of a filter passes everything the filter passes, and what only its custom test refused.\<close>

theorem cloned_filter_exact:
  "passes_filter e (clone_filter f) \<longleftrightarrow> passes_filter e (f\<lparr>af_custom_filter := Some (\<lambda>_. True)\<rparr>)"
  "passes_filter e f \<Longrightarrow> passes_filter e (clone_filter f)"
  by (auto simp: passes_filter_def clone_filter_def split: if_splits option.splits)

text \<open>without the directory of the system a logger with the default configuration writes below the temporary one, and
  making one by default panics exactly when that fails too.\<close>

theorem default_logger_exact:
  assumes "path_join temp_dir (''fuji_audit_'' @ show_nat pid @ ''.log'') \<noteq> ''/var/log/fuji/audit.log''"
  shows "audit_logger_default dir_ok temp_dir pid random random' = Panicked \<longleftrightarrow> \<not> dir_ok ''/var/log/fuji'' \<and> \<not> dir_ok temp_dir"
    and "audit_logger_default dir_ok temp_dir pid random random' = Returned l \<Longrightarrow>
      ac_log_file_path (al_config l) = ''/var/log/fuji/audit.log'' \<longleftrightarrow> dir_ok ''/var/log/fuji''"
  using assms
  by (auto simp: audit_logger_default_def audit_logger_new_def audit_with_config_def audit_config_default_def
      split: if_splits)

end
