(* ===== verification/Audit_Monitoring.thy ===== *)
theory Audit_Monitoring
  imports Audit_Log Complex_Main
begin

text \<open>
  The two monitors of audit events: the one with pattern detectors and alerts (\<open>src/security/audit_monitoring.rs\<close>) and
  the simple one (\<open>src/security/audit_monitoring_simple.rs\<close>).  A monitor handles one event at a time; the clock, the
  names of the hours and the printing of fractions are arguments.  Floating point numbers are rationals, and a
  deviation is compared by its square, so that no root is taken.
\<close>

section \<open>Alerts\<close>

record monitoring_config =
  mcf_history_size :: nat
  mcf_analysis_window :: u64
  mcf_failed_auth_threshold :: u32
  mcf_failed_auth_window :: u64
  mcf_ip_activity_threshold :: u32
  mcf_privilege_escalation_threshold :: u32
  mcf_enable_automated_response :: bool
  mcf_alert_cooldown :: u64
  mcf_max_alerts_per_minute :: u32

definition monitoring_config_default :: monitoring_config where
  "monitoring_config_default =
     \<lparr> mcf_history_size = 10000, mcf_analysis_window = 300, mcf_failed_auth_threshold = 5, mcf_failed_auth_window = 300,
       mcf_ip_activity_threshold = 20, mcf_privilege_escalation_threshold = 3, mcf_enable_automated_response = True,
       mcf_alert_cooldown = 300, mcf_max_alerts_per_minute = 10 \<rparr>"

datatype monitor_severity = Mon_Info | Mon_Low | Mon_Medium | Mon_High | Mon_Critical

datatype monitor_alert_type =
    BruteForceAttack | SuspiciousActivity | PrivilegeEscalation | DataExfiltration | SystemCompromise | PolicyViolation
  | AnomalyDetection | SecurityMisconfiguration

datatype monitor_alert_status = Mon_Active | Mon_Investigating | Mon_Resolved | Mon_FalsePositive | Mon_Suppressed

record security_alert =
  sal_id :: string
  sal_timestamp :: instant
  sal_severity :: monitor_severity
  sal_alert_type :: monitor_alert_type
  sal_title :: string
  sal_description :: string
  sal_trigger_events :: "string list"
  sal_recommended_actions :: "string list"
  sal_status :: monitor_alert_status
  sal_metadata :: "(string, string) hashmap"

record monitor_env =
  men_now :: instant
  men_hour :: "instant \<Rightarrow> string"
  men_fixed :: "rat \<Rightarrow> string"
  men_root :: "rat \<Rightarrow> string"
  men_uuid :: "nat \<Rightarrow> string"

text \<open>\<open>num_seconds\<close> cuts towards zero.\<close>

definition num_seconds :: "duration \<Rightarrow> int" where
  "num_seconds d = (if d < 0 then - ((- d) div 1000000000) else d div 1000000000)"

definition window_start :: "monitor_env \<Rightarrow> u64 \<Rightarrow> instant" where
  "window_start env w = men_now env - secs (sint w)"

definition group_push :: "'k \<Rightarrow> 'a \<Rightarrow> ('k, 'a list) hashmap \<Rightarrow> ('k, 'a list) hashmap" where
  "group_push k x m = hm_insert k ((case hm_get m k of Some xs \<Rightarrow> xs | None \<Rightarrow> []) @ [x]) m"

definition group_events :: "('v audit_event \<Rightarrow> string option) \<Rightarrow> 'v audit_event list \<Rightarrow> (string, 'v audit_event list) hashmap" where
  "group_events key events = fold (\<lambda>e m. case key e of Some k \<Rightarrow> group_push k e m | None \<Rightarrow> m) events []"

section \<open>The detectors\<close>

definition unknown_ip :: "string option \<Rightarrow> string" where
  "unknown_ip ip = (case ip of Some s \<Rightarrow> s | None \<Rightarrow> ''unknown'')"

definition failed_login :: "'v audit_event \<Rightarrow> bool" where
  "failed_login e = (ae_event_type e = Authentication \<and> ae_outcome e = Outcome_Failure)"

definition brute_force_alert :: "monitor_env \<Rightarrow> monitoring_config \<Rightarrow> string \<Rightarrow> 'v audit_event list \<Rightarrow> security_alert" where
  "brute_force_alert env c source failures =
     \<lparr> sal_id = [], sal_timestamp = men_now env, sal_severity = (if length failures \<ge> 10 then Mon_High else Mon_Medium),
       sal_alert_type = BruteForceAttack, sal_title = ''Potential Brute Force Attack Detected'',
       sal_description = show_nat (length failures) @ '' failed authentication attempts from '' @ source @ '' in the last ''
         @ show_nat (unat (mcf_failed_auth_window c)) @ '' seconds'',
       sal_trigger_events = map ae_id failures,
       sal_recommended_actions = [''Block source IP address'', ''Lock affected user accounts'', ''Investigate source of attacks''],
       sal_status = Mon_Active,
       sal_metadata = hm_insert ''failure_count'' (show_nat (length failures)) (hm_insert ''source'' source []) \<rparr>"

definition brute_force_key :: "monitor_env \<Rightarrow> monitoring_config \<Rightarrow> 'v audit_event \<Rightarrow> string option" where
  "brute_force_key env c e =
     (if failed_login e \<and> ae_timestamp e > window_start env (mcf_failed_auth_window c)
      then Some (as_identifier (ae_source e) @ '':'' @ unknown_ip (as_ip_address (ae_source e))) else None)"

definition brute_force_analyze :: "monitor_env \<Rightarrow> monitoring_config \<Rightarrow> 'v audit_event list \<Rightarrow> security_alert list" where
  "brute_force_analyze env c events =
     map (\<lambda>(source, failures). brute_force_alert env c source failures)
       (filter (\<lambda>(source, failures). of_nat (length failures) \<ge> mcf_failed_auth_threshold c)
         (group_events (brute_force_key env c) events))"

definition ip_key :: "monitor_env \<Rightarrow> monitoring_config \<Rightarrow> 'v audit_event \<Rightarrow> string option" where
  "ip_key env c e = (if ae_timestamp e > window_start env (mcf_analysis_window c) then as_ip_address (ae_source e) else None)"

definition suspicious_ip_alert :: "monitor_env \<Rightarrow> monitoring_config \<Rightarrow> string \<Rightarrow> 'v audit_event list \<Rightarrow> security_alert" where
  "suspicious_ip_alert env c ip events =
     (let failed = length (filter (\<lambda>e. ae_outcome e = Outcome_Failure \<or> ae_outcome e = Outcome_Blocked) events);
          violations = length (filter (\<lambda>e. ae_event_type e = SecurityViolation) events)
      in \<lparr> sal_id = [], sal_timestamp = men_now env,
           sal_severity = (if violations > 0 \<or> failed > length events div 2 then Mon_High else Mon_Medium),
           sal_alert_type = SuspiciousActivity, sal_title = ''Suspicious IP Activity Detected'',
           sal_description = ''High activity from IP '' @ ip @ '': '' @ show_nat (length events) @ '' events in ''
             @ show_nat (unat (mcf_analysis_window c)) @ '' seconds ('' @ show_nat (length (remdups (map ae_event_type events)))
             @ '' unique types, '' @ show_nat failed @ '' failures)'',
           sal_trigger_events = map ae_id events,
           sal_recommended_actions = [''Investigate IP reputation'', ''Consider blocking IP address'', ''Review all activities from this IP''],
           sal_status = Mon_Active,
           sal_metadata = hm_insert ''security_violations'' (show_nat violations) (hm_insert ''failed_attempts'' (show_nat failed)
             (hm_insert ''event_count'' (show_nat (length events)) (hm_insert ''ip_address'' ip []))) \<rparr>)"

definition suspicious_ip_analyze :: "monitor_env \<Rightarrow> monitoring_config \<Rightarrow> 'v audit_event list \<Rightarrow> security_alert list" where
  "suspicious_ip_analyze env c events =
     map (\<lambda>(ip, es). suspicious_ip_alert env c ip es)
       (filter (\<lambda>(ip, es). of_nat (length es) \<ge> mcf_ip_activity_threshold c) (group_events (ip_key env c) events))"

definition admin_key :: "monitor_env \<Rightarrow> monitoring_config \<Rightarrow> 'v audit_event \<Rightarrow> string option" where
  "admin_key env c e =
     (if ae_timestamp e > window_start env (mcf_analysis_window c)
         \<and> ae_event_type e \<in> {AdministrativeAction, ConfigurationChange, SecurityPolicy}
      then Some (as_identifier (ae_source e)) else None)"

definition privilege_alert :: "monitor_env \<Rightarrow> monitoring_config \<Rightarrow> string \<Rightarrow> 'v audit_event list \<Rightarrow> security_alert" where
  "privilege_alert env c user actions =
     (let count = (\<lambda>ty. show_nat (length (filter (\<lambda>e. ae_event_type e = ty) actions)))
      in \<lparr> sal_id = [], sal_timestamp = men_now env, sal_severity = Mon_High, sal_alert_type = PrivilegeEscalation,
           sal_title = ''Potential Privilege Escalation Detected'',
           sal_description = ''User '' @ user @ '' performed '' @ show_nat (length actions) @ '' administrative actions in ''
             @ show_nat (unat (mcf_analysis_window c)) @ '' seconds ('' @ count SecurityPolicy @ '' security, ''
             @ count ConfigurationChange @ '' config, '' @ count AdministrativeAction @ '' admin)'',
           sal_trigger_events = map ae_id actions,
           sal_recommended_actions = [''Review user permissions'', ''Verify all changes made by user'', ''Consider temporary privilege suspension''],
           sal_status = Mon_Active,
           sal_metadata = hm_insert ''security_changes'' (count SecurityPolicy) (hm_insert ''action_count'' (show_nat (length actions))
             (hm_insert ''user'' user [])) \<rparr>)"

definition privilege_analyze :: "monitor_env \<Rightarrow> monitoring_config \<Rightarrow> 'v audit_event list \<Rightarrow> security_alert list" where
  "privilege_analyze env c events =
     map (\<lambda>(user, es). privilege_alert env c user es)
       (filter (\<lambda>(user, es). of_nat (length es) \<ge> mcf_privilege_escalation_threshold c) (group_events (admin_key env c) events))"

definition hourly_counts :: "monitor_env \<Rightarrow> 'v audit_event list \<Rightarrow> (string, nat) hashmap" where
  "hourly_counts env events =
     fold (\<lambda>e m. let h = men_hour env (ae_timestamp e) in hm_insert h ((case hm_get m h of Some n \<Rightarrow> n | None \<Rightarrow> 0) + 1) m) events []"

definition mean_of :: "nat list \<Rightarrow> rat" where
  "mean_of ns = of_nat (sum_list ns) / of_nat (length ns)"

definition variance_of :: "nat list \<Rightarrow> rat" where
  "variance_of ns = (\<Sum>n \<leftarrow> ns. (of_nat n - mean_of ns) ^ 2) / of_nat (length ns)"

text \<open>\<open>(count - mean).abs() > 3.0 * std_dev\<close>\<close>

definition anomalous :: "nat list \<Rightarrow> nat \<Rightarrow> bool" where
  "anomalous ns n = ((of_nat n - mean_of ns) ^ 2 > 9 * variance_of ns)"

definition anomaly_alert :: "monitor_env \<Rightarrow> nat list \<Rightarrow> string \<Rightarrow> nat \<Rightarrow> security_alert" where
  "anomaly_alert env ns hour n =
     \<lparr> sal_id = [], sal_timestamp = men_now env, sal_severity = Mon_Medium, sal_alert_type = AnomalyDetection,
       sal_title = ''Unusual Activity Pattern Detected'',
       sal_description = ''Anomalous event count detected for hour '' @ hour @ '': '' @ show_nat n @ '' events (baseline: ''
         @ men_fixed env (mean_of ns) @ [CHR '' '', CHR 0xC2, CHR 0xB1, CHR '' ''] @ men_root env (variance_of ns) @ '')'',
       sal_trigger_events = [], sal_recommended_actions = [''Investigate unusual activity'', ''Check for system issues or attacks''],
       sal_status = Mon_Active,
       sal_metadata = hm_insert ''baseline_stddev'' (men_root env (variance_of ns)) (hm_insert ''baseline_mean'' (men_fixed env (mean_of ns))
         (hm_insert ''event_count'' (show_nat n) (hm_insert ''hour'' hour []))) \<rparr>"

definition anomaly_analyze :: "monitor_env \<Rightarrow> 'v audit_event list \<Rightarrow> security_alert list" where
  "anomaly_analyze env events =
     (let m = hourly_counts env events; ns = map snd m
      in if length m > 1 then map (\<lambda>(h, n). anomaly_alert env ns h n) (filter (\<lambda>(h, n). anomalous ns n) m) else [])"

definition policy_unusual_location :: "string \<Rightarrow> bool" where
  "policy_unusual_location ip =
     (\<not> starts_with ip ''192.168.'' \<and> \<not> starts_with ip ''10.'' \<and> \<not> starts_with ip ''172.16.'' \<and> \<not> starts_with ip ''127.''
      \<and> ip \<noteq> ''localhost'')"

definition policy_alert ::
    "monitor_env \<Rightarrow> monitor_severity \<Rightarrow> string \<Rightarrow> string \<Rightarrow> string \<Rightarrow> string list \<Rightarrow> (string, string) hashmap \<Rightarrow> security_alert" where
  "policy_alert env severity title description trigger actions meta =
     \<lparr> sal_id = [], sal_timestamp = men_now env, sal_severity = severity, sal_alert_type = PolicyViolation, sal_title = title,
       sal_description = description, sal_trigger_events = [trigger], sal_recommended_actions = actions, sal_status = Mon_Active,
       sal_metadata = meta \<rparr>"

definition policy_alerts :: "monitor_env \<Rightarrow> 'v audit_event \<Rightarrow> security_alert list" where
  "policy_alerts env e =
     (case ae_event_type e of
        SecurityViolation \<Rightarrow>
          [policy_alert env Mon_High ''Security Policy Violation'' (''Security policy violation: '' @ ae_description e) (ae_id e)
             [''Review security policies'', ''Investigate violation cause'', ''Consider disciplinary action'']
             [(''violation_type'', ''security_policy'')]]
      | Authentication \<Rightarrow>
          (case as_ip_address (ae_source e) of
             Some ip \<Rightarrow>
               if policy_unusual_location ip
               then [policy_alert env Mon_Medium ''Authentication from Unusual Location''
                       (''Authentication event from potentially unusual IP address: '' @ ip) (ae_id e)
                       [''Verify user location'', ''Consider multi-factor authentication''] [(''ip_address'', ip)]]
               else []
           | None \<Rightarrow> [])
      | _ \<Rightarrow> [])"

definition policy_analyze :: "monitor_env \<Rightarrow> 'v audit_event list \<Rightarrow> security_alert list" where
  "policy_analyze env events = concat (map (policy_alerts env) events)"

datatype pattern_detector = BruteForceDetector | SuspiciousIPDetector | PrivilegeEscalationDetector | AnomalyDetector | PolicyViolationDetector

fun detector_priority :: "pattern_detector \<Rightarrow> nat" where
  "detector_priority BruteForceDetector = 10"
| "detector_priority SuspiciousIPDetector = 8"
| "detector_priority PrivilegeEscalationDetector = 9"
| "detector_priority AnomalyDetector = 5"
| "detector_priority PolicyViolationDetector = 7"

fun detector_analyze :: "monitor_env \<Rightarrow> monitoring_config \<Rightarrow> pattern_detector \<Rightarrow> 'v audit_event list \<Rightarrow> security_alert list" where
  "detector_analyze env c BruteForceDetector es = brute_force_analyze env c es"
| "detector_analyze env c SuspiciousIPDetector es = suspicious_ip_analyze env c es"
| "detector_analyze env c PrivilegeEscalationDetector es = privilege_analyze env c es"
| "detector_analyze env c AnomalyDetector es = anomaly_analyze env es"
| "detector_analyze env c PolicyViolationDetector es = policy_analyze env es"

section \<open>The monitor\<close>

record monitoring_statistics =
  mst_total_events :: u64
  mst_events_per_second :: rat
  mst_total_alerts :: u64
  mst_active_alerts :: u64
  mst_events_by_type :: "(audit_event_type, u64) hashmap"
  mst_events_by_severity :: "(audit_severity, u64) hashmap"
  mst_last_update :: "instant option"

record 'v audit_monitor =
  amo_config :: monitoring_config
  amo_detectors :: "pattern_detector list"
  amo_event_history :: "'v audit_event list"
  amo_statistics :: monitoring_statistics
  amo_active_alerts :: "(string, security_alert) hashmap"
  amo_last_minute_count :: nat
  amo_last_minute_time :: instant

definition add_detector :: "pattern_detector \<Rightarrow> 'v audit_monitor \<Rightarrow> 'v audit_monitor" where
  "add_detector d m = m\<lparr>amo_detectors := sort_key (\<lambda>x. - int (detector_priority x)) (amo_detectors m @ [d])\<rparr>"

definition add_default_detectors :: "'v audit_monitor \<Rightarrow> 'v audit_monitor" where
  "add_default_detectors m =
     fold add_detector [BruteForceDetector, SuspiciousIPDetector, PrivilegeEscalationDetector, AnomalyDetector, PolicyViolationDetector] m"

definition audit_monitor_new :: "monitoring_config \<Rightarrow> instant \<Rightarrow> 'v audit_monitor" where
  "audit_monitor_new c now =
     add_default_detectors
       \<lparr> amo_config = c, amo_detectors = [], amo_event_history = [],
         amo_statistics = \<lparr> mst_total_events = 0, mst_events_per_second = 0, mst_total_alerts = 0, mst_active_alerts = 0,
           mst_events_by_type = [], mst_events_by_severity = [], mst_last_update = None \<rparr>,
         amo_active_alerts = [], amo_last_minute_count = 0, amo_last_minute_time = now \<rparr>"

definition bump :: "'k \<Rightarrow> ('k, u64) hashmap \<Rightarrow> ('k, u64) hashmap" where
  "bump k m = hm_insert k ((case hm_get m k of Some n \<Rightarrow> n | None \<Rightarrow> 0) + 1) m"

definition observe_event :: "monitor_env \<Rightarrow> 'v audit_event \<Rightarrow> 'v audit_monitor \<Rightarrow> 'v audit_monitor" where
  "observe_event env e m =
     (let st = amo_statistics m; over = num_seconds (men_now env - amo_last_minute_time m) \<ge> 60;
          st1 = st\<lparr>mst_total_events := mst_total_events st + 1,
                  mst_events_by_type := bump (ae_event_type e) (mst_events_by_type st),
                  mst_events_by_severity := bump (ae_severity e) (mst_events_by_severity st),
                  mst_last_update := Some (men_now env)\<rparr>
      in m\<lparr>amo_statistics := (if over then st1\<lparr>mst_events_per_second := of_nat (amo_last_minute_count m) / 60\<rparr> else st1),
           amo_last_minute_count := (if over then 0 else amo_last_minute_count m) + 1,
           amo_last_minute_time := (if over then men_now env else amo_last_minute_time m)\<rparr>)"

definition trim_history :: "nat \<Rightarrow> 'a list \<Rightarrow> 'a list" where
  "trim_history n h = drop (length h - n) h"

definition should_send_alert :: "monitoring_config \<Rightarrow> (string, security_alert) hashmap \<Rightarrow> security_alert \<Rightarrow> bool" where
  "should_send_alert c active a =
     list_all (\<lambda>(_, x). \<not> (sal_alert_type x = sal_alert_type a \<and> sal_status x = Mon_Active
        \<and> num_seconds (sal_timestamp a - sal_timestamp x) < sint (mcf_alert_cooldown c))) active"

text \<open>The limit on alerts counts those of one event.\<close>

fun send_alerts ::
    "monitoring_config \<Rightarrow> u32 \<Rightarrow> security_alert list \<Rightarrow> (string, security_alert) hashmap \<Rightarrow> (string, security_alert) hashmap" where
  "send_alerts c count [] active = active"
| "send_alerts c count (a # as) active =
     (let sent = should_send_alert c active a;
          active1 = (if sent then hm_insert (sal_id a) a active else active);
          count1 = (if sent then count + 1 else count)
      in if count1 \<ge> mcf_max_alerts_per_minute c then active1 else send_alerts c count1 as active1)"

definition detected_alerts :: "monitor_env \<Rightarrow> 'v audit_monitor \<Rightarrow> security_alert list" where
  "detected_alerts env m =
     map (\<lambda>(i, a). a\<lparr>sal_id := men_uuid env i\<rparr>)
       (enumerate 0 (concat (map (\<lambda>d. detector_analyze env (amo_config m) d (amo_event_history m)) (amo_detectors m))))"

definition monitor_event :: "monitor_env \<Rightarrow> 'v audit_event \<Rightarrow> 'v audit_monitor \<Rightarrow> 'v audit_monitor" where
  "monitor_event env e m =
     (let m1 = observe_event env e m;
          m2 = m1\<lparr>amo_event_history := trim_history (mcf_history_size (amo_config m1)) (amo_event_history m1 @ [e])\<rparr>
      in m2\<lparr>amo_active_alerts := send_alerts (amo_config m2) 0 (detected_alerts env m2) (amo_active_alerts m2)\<rparr>)"

definition acknowledge_alert :: "string \<Rightarrow> 'v audit_monitor \<Rightarrow> 'v audit_monitor \<times> bool" where
  "acknowledge_alert i m =
     (if hm_contains_key (amo_active_alerts m) i
      then (m\<lparr>amo_active_alerts := hm_update i (\<lambda>a. a\<lparr>sal_status := Mon_Investigating\<rparr>) (amo_active_alerts m)\<rparr>, True)
      else (m, False))"

definition resolve_alert :: "string \<Rightarrow> 'v audit_monitor \<Rightarrow> 'v audit_monitor \<times> bool" where
  "resolve_alert i m =
     (if hm_contains_key (amo_active_alerts m) i then (m\<lparr>amo_active_alerts := hm_remove i (amo_active_alerts m)\<rparr>, True) else (m, False))"

section \<open>The simple monitor\<close>

record basic_statistics =
  bst_total_events :: u64
  bst_events_by_type :: "(audit_event_type, u64) hashmap"
  bst_events_by_severity :: "(audit_severity, u64) hashmap"
  bst_events_by_outcome :: "(audit_outcome, u64) hashmap"
  bst_last_update :: "instant option"
  bst_failed_auth_last_minute :: nat
  bst_suspicious_activities :: u64

definition basic_statistics_default :: basic_statistics where
  "basic_statistics_default =
     \<lparr> bst_total_events = 0, bst_events_by_type = [], bst_events_by_severity = [], bst_events_by_outcome = [], bst_last_update = None,
       bst_failed_auth_last_minute = 0, bst_suspicious_activities = 0 \<rparr>"

record 'v simple_monitor =
  smo_event_history :: "'v audit_event list"
  smo_statistics :: basic_statistics
  smo_max_history :: nat
  smo_last_minute_count :: nat
  smo_last_minute_time :: instant

definition simple_monitor_new :: "nat \<Rightarrow> instant \<Rightarrow> 'v simple_monitor" where
  "simple_monitor_new n now =
     \<lparr> smo_event_history = [], smo_statistics = basic_statistics_default, smo_max_history = n, smo_last_minute_count = 0,
       smo_last_minute_time = now \<rparr>"

definition count_simple :: "instant \<Rightarrow> 'v audit_event \<Rightarrow> basic_statistics \<Rightarrow> basic_statistics" where
  "count_simple now e st =
     st\<lparr>bst_total_events := bst_total_events st + 1, bst_events_by_type := bump (ae_event_type e) (bst_events_by_type st),
       bst_events_by_severity := bump (ae_severity e) (bst_events_by_severity st),
       bst_events_by_outcome := bump (ae_outcome e) (bst_events_by_outcome st), bst_last_update := Some now\<rparr>"

definition track_failures :: "instant \<Rightarrow> 'v simple_monitor \<Rightarrow> 'v simple_monitor" where
  "track_failures now m =
     (let over = num_seconds (now - smo_last_minute_time m) \<ge> 60; n = (if over then 0 else smo_last_minute_count m) + 1;
          st = smo_statistics m;
          st1 = (if over then st\<lparr>bst_failed_auth_last_minute := smo_last_minute_count m\<rparr> else st)
      in m\<lparr>smo_statistics := (if n \<ge> 5 then st1\<lparr>bst_suspicious_activities := bst_suspicious_activities st1 + 1\<rparr> else st1),
           smo_last_minute_count := n, smo_last_minute_time := (if over then now else smo_last_minute_time m)\<rparr>)"

definition simple_event :: "instant \<Rightarrow> 'v audit_event \<Rightarrow> 'v simple_monitor \<Rightarrow> 'v simple_monitor" where
  "simple_event now e m =
     (let m1 = m\<lparr>smo_statistics := count_simple now e (smo_statistics m)\<rparr>;
          m2 = (if failed_login e then track_failures now m1 else m1);
          m3 = (if ae_event_type e = SecurityViolation
                then m2\<lparr>smo_statistics := (smo_statistics m2)\<lparr>bst_suspicious_activities := bst_suspicious_activities (smo_statistics m2) + 1\<rparr>\<rparr>
                else m2)
      in m3\<lparr>smo_event_history := trim_history (smo_max_history m3) (smo_event_history m3 @ [e])\<rparr>)"

definition get_recent_events :: "nat option \<Rightarrow> 'v simple_monitor \<Rightarrow> 'v audit_event list" where
  "get_recent_events limit m = take (case limit of Some n \<Rightarrow> n | None \<Rightarrow> 100) (rev (smo_event_history m))"

definition get_events_by_type :: "audit_event_type \<Rightarrow> 'v simple_monitor \<Rightarrow> 'v audit_event list" where
  "get_events_by_type ty m = filter (\<lambda>e. ae_event_type e = ty) (smo_event_history m)"

definition get_failed_auth_attempts :: "instant \<Rightarrow> u64 \<Rightarrow> 'v simple_monitor \<Rightarrow> 'v audit_event list" where
  "get_failed_auth_attempts now mins m =
     filter (\<lambda>e. failed_login e \<and> ae_timestamp e > now - secs (60 * sint mins)) (smo_event_history m)"

definition get_security_violations :: "instant \<Rightarrow> u64 \<Rightarrow> 'v simple_monitor \<Rightarrow> 'v audit_event list" where
  "get_security_violations now hrs m =
     filter (\<lambda>e. ae_event_type e = SecurityViolation \<and> ae_timestamp e > now - secs (3600 * sint hrs)) (smo_event_history m)"

definition clear_history :: "'v simple_monitor \<Rightarrow> 'v simple_monitor" where
  "clear_history m = m\<lparr>smo_event_history := [], smo_statistics := basic_statistics_default\<rparr>"

section \<open>Properties\<close>

lemma sum_square_bound:
  fixes f :: "'a \<Rightarrow> rat"
  shows "(\<Sum>x \<leftarrow> xs. f x) ^ 2 \<le> of_nat (length xs) * (\<Sum>x \<leftarrow> xs. (f x) ^ 2) \<and> 0 \<le> (\<Sum>x \<leftarrow> xs. (f x) ^ 2)"
proof (induction xs)
  case (Cons x xs)
  let ?a = "f x" and ?s = "\<Sum>x \<leftarrow> xs. f x" and ?q = "\<Sum>x \<leftarrow> xs. (f x) ^ 2" and ?k = "of_nat (length xs) :: rat"
  have ih: "?s ^ 2 \<le> ?k * ?q" "0 \<le> ?q" using Cons.IH by auto
  have "2 * ?a * ?s \<le> ?k * ?a ^ 2 + ?q"
  proof (cases "xs = []")
    case False
    then have k: "0 < ?k" by simp
    have "2 * (?k * ?a) * ?s \<le> (?k * ?a) ^ 2 + ?s ^ 2" using sum_squares_bound [of "?k * ?a" ?s] by simp
    also have "\<dots> \<le> (?k * ?a) ^ 2 + ?k * ?q" using ih(1) by simp
    finally have "?k * (2 * ?a * ?s) \<le> ?k * (?k * ?a ^ 2 + ?q)" by (simp add: algebra_simps power2_eq_square)
    with k show ?thesis by simp
  qed (use ih in simp)
  then have "(?a + ?s) ^ 2 \<le> (?k + 1) * (?a ^ 2 + ?q)" using ih by (simp add: power2_sum algebra_simps)
  with ih show ?case by (simp add: add.commute)
qed simp

lemma deviation_bound:
  assumes "n \<in> set ns"
  shows "(of_nat n - mean_of ns) ^ 2 \<le> (of_nat (length ns) - 1) * variance_of ns"
proof -
  let ?m = "mean_of ns" and ?d = "of_nat n - mean_of ns :: rat"
  obtain as bs where ns: "ns = as @ n # bs" using assms split_list by fast
  let ?l = "of_nat (length ns) :: rat" and ?S = "\<Sum>x \<leftarrow> ns. (of_nat x - ?m) ^ 2"
  have pos: "?l > 0" by (simp add: ns)
  have conv: "(\<Sum>x \<leftarrow> xs. of_nat x - ?m) = of_nat (sum_list xs) - of_nat (length xs) * ?m" for xs
    by (induction xs) (simp_all add: algebra_simps)
  have "(\<Sum>x \<leftarrow> ns. of_nat x - ?m) = 0" unfolding conv using pos by (simp add: mean_of_def)
  then have rest: "(\<Sum>x \<leftarrow> as @ bs. of_nat x - ?m) = - ?d" by (simp add: ns algebra_simps)
  have sq: "(\<Sum>x \<leftarrow> as @ bs. (of_nat x - ?m) ^ 2) = ?S - ?d ^ 2" by (simp add: ns)
  have len: "of_nat (length (as @ bs)) = ?l - 1" by (simp add: ns)
  have "?d ^ 2 \<le> (?l - 1) * (?S - ?d ^ 2)"
    using sum_square_bound [of "\<lambda>x. of_nat x - ?m" "as @ bs"] unfolding rest sq len power2_minus by (rule conjunct1)
  then have "?d ^ 2 * ?l \<le> (?l - 1) * ?S" by (simp add: algebra_simps)
  then show ?thesis using pos by (simp add: variance_of_def pos_le_divide_eq)
qed

lemma variance_nonneg: "0 \<le> variance_of ns"
  using sum_square_bound [of "\<lambda>x. of_nat x - mean_of ns" ns] by (simp add: variance_of_def)

text \<open>the anomaly detector says nothing before the history spans eleven different hours, however the events are spread.\<close>

theorem anomaly_needs_eleven_hours:
  assumes "length (hourly_counts env events) \<le> 10"
  shows "anomaly_analyze env events = []"
proof -
  let ?ns = "map snd (hourly_counts env events)"
  have "\<not> anomalous ?ns n" if "n \<in> set ?ns" for n
  proof -
    have "(of_nat (length ?ns) - 1) * variance_of ?ns \<le> 9 * variance_of ?ns"
      using of_nat_mono [OF assms, where 'a = rat] variance_nonneg [of ?ns] by (intro mult_right_mono) simp_all
    with deviation_bound [OF that] show ?thesis by (simp add: anomalous_def)
  qed
  then have "filter (\<lambda>(h, n). anomalous ?ns n) (hourly_counts env events) = []" by (force simp: filter_empty_conv)
  then show ?thesis by (simp only: anomaly_analyze_def Let_def list.map(1) if_cancel)
qed

definition login_failure :: "unit audit_event" where
  "login_failure = new_event ''1'' 0 Authentication
     \<lparr> as_identifier = ''root'', as_source_type = User_Source, as_ip_address = None, as_user_agent = None, as_metadata = [] \<rparr>
     Outcome_Failure ''login'' []"

theorem anomaly_needs_eleven_hours_witness:
  "anomaly_analyze \<lparr> men_now = 0, men_hour = (\<lambda>t. ''12''), men_fixed = (\<lambda>q. []), men_root = (\<lambda>q. []), men_uuid = show_nat \<rparr>
     (replicate 20 login_failure) = []"
  by (rule anomaly_needs_eleven_hours)
    (simp add: hourly_counts_def fuji_eval numeral_eq_Suc)

definition alerts_apart :: "monitoring_config \<Rightarrow> security_alert \<Rightarrow> security_alert \<Rightarrow> bool" where
  "alerts_apart c x y =
     (sal_alert_type x \<noteq> sal_alert_type y \<or> sal_status x \<noteq> Mon_Active \<or> sal_status y \<noteq> Mon_Active
      \<or> num_seconds (sal_timestamp x - sal_timestamp y) \<ge> sint (mcf_alert_cooldown c)
      \<or> num_seconds (sal_timestamp y - sal_timestamp x) \<ge> sint (mcf_alert_cooldown c))"

definition alerts_spaced :: "monitoring_config \<Rightarrow> (string, security_alert) hashmap \<Rightarrow> bool" where
  "alerts_spaced c m =
     (hm_wf m \<and> (\<forall>i j x y. hm_get m i = Some x \<longrightarrow> hm_get m j = Some y \<longrightarrow> i \<noteq> j \<longrightarrow> alerts_apart c x y))"

lemma alerts_apart_sym: "alerts_apart c x y = alerts_apart c y x"
  by (auto simp: alerts_apart_def)

lemma alerts_spacedI:
  assumes "hm_wf m" "\<And>i j x y. hm_get m i = Some x \<Longrightarrow> hm_get m j = Some y \<Longrightarrow> i \<noteq> j \<Longrightarrow> alerts_apart c x y"
  shows "alerts_spaced c m"
  using assms by (auto simp: alerts_spaced_def)

lemma alerts_spacedD:
  "alerts_spaced c m \<Longrightarrow> hm_get m i = Some x \<Longrightarrow> hm_get m j = Some y \<Longrightarrow> i \<noteq> j \<Longrightarrow> alerts_apart c x y"
  by (auto simp: alerts_spaced_def)

lemma alerts_spaced_wf: "alerts_spaced c m \<Longrightarrow> hm_wf m"
  by (simp add: alerts_spaced_def)

lemma should_send_apart:
  assumes "should_send_alert c m a" "hm_get m i = Some x"
  shows "alerts_apart c x a"
  using assms hm_get_in_set [OF assms(2)] by (fastforce simp: should_send_alert_def alerts_apart_def list_all_iff)

lemma spaced_insert:
  assumes "alerts_spaced c m" "should_send_alert c m a"
  shows "alerts_spaced c (hm_insert k a m)"
proof (rule alerts_spacedI)
  show "hm_wf (hm_insert k a m)" using alerts_spaced_wf [OF assms(1)] by (rule hm.wf_insert)
  fix i j x y
  assume "hm_get (hm_insert k a m) i = Some x" "hm_get (hm_insert k a m) j = Some y" "i \<noteq> j"
  then show "alerts_apart c x y"
    using alerts_spacedD [OF assms(1)] should_send_apart [OF assms(2)] should_send_apart [OF assms(2), unfolded alerts_apart_sym [of c _ a]]
    by (auto simp: hm.get_insert split: if_splits)
qed

lemma spaced_send: "alerts_spaced c m \<Longrightarrow> alerts_spaced c (send_alerts c n as m)"
  by (induction c n as m rule: send_alerts.induct) (simp add: Let_def spaced_insert)+

lemma config_fixed [simp]: "amo_config (monitor_event env e m) = amo_config m"
  by (simp add: monitor_event_def observe_event_def Let_def)

lemma spaced_status:
  assumes "alerts_spaced c m"
  shows "alerts_spaced c (hm_update k (\<lambda>a. a\<lparr>sal_status := Mon_Investigating\<rparr>) m)"
proof (rule alerts_spacedI)
  show "hm_wf (hm_update k (\<lambda>a. a\<lparr>sal_status := Mon_Investigating\<rparr>) m)" using alerts_spaced_wf [OF assms] by (rule hm_wf_update)
  fix i j x y
  assume "hm_get (hm_update k (\<lambda>a. a\<lparr>sal_status := Mon_Investigating\<rparr>) m) i = Some x"
    "hm_get (hm_update k (\<lambda>a. a\<lparr>sal_status := Mon_Investigating\<rparr>) m) j = Some y" "i \<noteq> j"
  then show "alerts_apart c x y"
    using alerts_spacedD [OF assms] by (auto simp: hm_get_update alerts_apart_def split: if_splits)
qed

lemma spaced_remove:
  assumes "alerts_spaced c m"
  shows "alerts_spaced c (hm_remove k m)"
  using assms alerts_spacedD [OF assms] hm.wf_remove [OF alerts_spaced_wf [OF assms]]
  by (intro alerts_spacedI) (auto simp: hm.get_remove [OF alerts_spaced_wf [OF assms]] split: if_splits)



text \<open>
  the histories of both monitors never exceed their limit, and the simple monitor's newest event is the first one
  \<open>get_recent_events\<close> returns.
\<close>

lemma trim_length: "length (trim_history n h) \<le> n"
  by (simp add: trim_history_def)

theorem monitored_history_bounded:
  "length (amo_event_history (monitor_event env e m)) \<le> mcf_history_size (amo_config m)
   \<and> length (smo_event_history (simple_event now e s)) \<le> smo_max_history s
   \<and> (smo_max_history s = 0 \<or> get_recent_events (Some 1) (simple_event now e s) = [e])"
proof -
  have "smo_max_history (track_failures now s') = smo_max_history s'" for s' :: "'a simple_monitor"
    by (simp add: track_failures_def Let_def)
  then have h: "smo_event_history (simple_event now e s) = trim_history (smo_max_history s) (smo_event_history s @ [e])"
    by (simp add: simple_event_def Let_def track_failures_def)
  have "take 1 (rev (trim_history (smo_max_history s) (smo_event_history s @ [e]))) = [e]" if "smo_max_history s \<noteq> 0"
    using that by (cases "smo_max_history s") (simp_all add: trim_history_def)
  then show ?thesis unfolding h get_recent_events_def
    by (auto simp: monitor_event_def observe_event_def Let_def trim_length)
qed

end
