(* ===== verification/System_Deps.thy ===== *)
theory System_Deps
  imports Platform_Linux
begin

text \<open>
  The checker of the programs that mounting needs (\<open>src/platform/deps.rs\<close>) and the identity of an instance
  (\<open>src/cluster/instance.rs\<close>).  Running a program is an argument; the TOML of an instance is a pair of
  parameters, as for the configuration.
\<close>

section \<open>Dependencies\<close>

record system_dependency =
  sd_binary_name :: string
  sd_display_name :: string
  sd_description :: string
  sd_install_instructions :: "(string, string) hashmap"
  sd_version_check :: "string option"
  sd_min_version :: "string option"
  sd_required :: bool

record dep_result =
  dr_available :: bool
  dr_version :: "string option"
  dr_error :: "string option"
  dr_install_instructions :: "string option"

record deps_report =
  rp_dependencies :: "(string, dep_result) hashmap"
  rp_all_required_available :: bool
  rp_missing_required :: "string list"

type_synonym deps_checker = "(string, system_dependency) hashmap"

text \<open>Running a program gives \<open>None\<close> if it cannot be started, else whether it succeeded and what it printed
  (\<open>None\<close> for output that is not UTF-8).\<close>

type_synonym program_runner = "string \<Rightarrow> string list \<Rightarrow> (bool \<times> string option) option"

definition apt :: "string \<Rightarrow> string" where
  "apt pkg = ''sudo apt-get install '' @ pkg"

definition nfs_install :: "(string, string) hashmap" where
  "nfs_install =
     [(''debian'', apt ''nfs-common''), (''ubuntu'', apt ''nfs-common''), (''rhel'', ''sudo yum install nfs-utils''),
      (''centos'', ''sudo yum install nfs-utils''), (''fedora'', ''sudo dnf install nfs-utils''),
      (''arch'', ''sudo pacman -S nfs-utils''), (''alpine'', ''sudo apk add nfs-utils''), (''bsd'', ''NFS is built into BSD'')]"

definition smb_install :: "(string, string) hashmap" where
  "smb_install =
     [(''debian'', apt ''cifs-utils''), (''ubuntu'', apt ''cifs-utils''), (''rhel'', ''sudo yum install cifs-utils''),
      (''centos'', ''sudo yum install cifs-utils''), (''fedora'', ''sudo dnf install cifs-utils''),
      (''arch'', ''sudo pacman -S smbclient''), (''alpine'', ''sudo apk add cifs-utils''), (''bsd'', ''pkg install sysutils/fusefs-cifs'')]"

definition sshfs_install :: "(string, string) hashmap" where
  "sshfs_install =
     [(''debian'', apt ''sshfs''), (''ubuntu'', apt ''sshfs''), (''rhel'', ''sudo yum install fuse-sshfs''),
      (''centos'', ''sudo yum install fuse-sshfs''), (''fedora'', ''sudo dnf install fuse-sshfs''),
      (''arch'', ''sudo pacman -S sshfs''), (''alpine'', ''sudo apk add sshfs-fuse''), (''bsd'', ''pkg install fusefs-sshfs'')]"

definition showmount_install :: "(string, string) hashmap" where
  "showmount_install =
     [(''debian'', apt ''nfs-common''), (''ubuntu'', apt ''nfs-common''), (''rhel'', ''sudo yum install nfs-utils''),
      (''centos'', ''sudo yum install nfs-utils''), (''fedora'', ''sudo dnf install nfs-utils''),
      (''arch'', ''sudo pacman -S nfs-utils''), (''alpine'', ''sudo apk add nfs-utils''), (''bsd'', ''showmount is built into BSD'')]"

definition smbclient_install :: "(string, string) hashmap" where
  "smbclient_install =
     [(''debian'', apt ''smbclient''), (''ubuntu'', apt ''smbclient''), (''rhel'', ''sudo yum install samba-client''),
      (''centos'', ''sudo yum install samba-client''), (''fedora'', ''sudo dnf install samba-client''),
      (''arch'', ''sudo pacman -S smbclient''), (''alpine'', ''sudo apk add samba-client''), (''bsd'', ''pkg install samba416'')]"

definition init_dependencies :: deps_checker where
  "init_dependencies =
     [(''nfs'', \<lparr> sd_binary_name = ''mount.nfs'', sd_display_name = ''NFS Client'', sd_description = ''For mounting NFS shares'',
                  sd_install_instructions = nfs_install, sd_version_check = Some ''mount.nfs --version'',
                  sd_min_version = None, sd_required = True \<rparr>),
      (''smb'', \<lparr> sd_binary_name = ''mount.cifs'', sd_display_name = ''SMB/CIFS Client'',
                  sd_description = ''For mounting Windows/Samba shares'', sd_install_instructions = smb_install,
                  sd_version_check = None, sd_min_version = None, sd_required = True \<rparr>),
      (''sshfs'', \<lparr> sd_binary_name = ''sshfs'', sd_display_name = ''SSHFS'',
                    sd_description = ''For mounting remote filesystems over SSH'', sd_install_instructions = sshfs_install,
                    sd_version_check = Some ''sshfs --version'', sd_min_version = None, sd_required = True \<rparr>),
      (''showmount'', \<lparr> sd_binary_name = ''showmount'', sd_display_name = ''Showmount'',
                        sd_description = ''For discovering NFS exports'', sd_install_instructions = showmount_install,
                        sd_version_check = None, sd_min_version = None, sd_required = False \<rparr>),
      (''smbclient'', \<lparr> sd_binary_name = ''smbclient'', sd_display_name = ''SMB Client'',
                        sd_description = ''For discovering SMB shares and testing connections'',
                        sd_install_instructions = smbclient_install, sd_version_check = Some ''smbclient --version'',
                        sd_min_version = None, sd_required = False \<rparr>)]"

definition add_system_dependency :: "string \<Rightarrow> system_dependency \<Rightarrow> deps_checker \<Rightarrow> deps_checker" where
  "add_system_dependency key d c = hm_insert key d c"

definition check_binary_exists :: "program_runner \<Rightarrow> string \<Rightarrow> bool" where
  "check_binary_exists run binary =
     (case run ''which'' [binary] of
        Some (success, _) \<Rightarrow> success
      | None \<Rightarrow> (case run binary [''--version''] of Some (success, _) \<Rightarrow> success | None \<Rightarrow> False))"

definition looks_like_version :: "string \<Rightarrow> bool" where
  "looks_like_version line = (contains_char line CHR ''.'' \<or> list_ex is_ascii_digit line)"

definition get_binary_version :: "program_runner \<Rightarrow> system_dependency \<Rightarrow> string option" where
  "get_binary_version run d =
     (case sd_version_check d of
        None \<Rightarrow> None
      | Some cmd \<Rightarrow>
          (case split_whitespace cmd of
             [] \<Rightarrow> None
           | program # args \<Rightarrow>
               (case run program args of
                  Some (True, Some out) \<Rightarrow> map_option trim (find looks_like_version (lines_of out))
                | _ \<Rightarrow> None)))"

definition get_os_family :: string where
  "get_os_family = ''linux''"

definition instructions_for :: "system_dependency \<Rightarrow> string option" where
  "instructions_for d =
     (case hm_get (sd_install_instructions d) get_os_family of
        Some i \<Rightarrow> Some i
      | None \<Rightarrow>
          (case hm_get (sd_install_instructions d) ''linux'' of
             Some i \<Rightarrow> Some i
           | None \<Rightarrow> hm_get (sd_install_instructions d) ''unknown''))"

definition check_system_dependency :: "program_runner \<Rightarrow> deps_checker \<Rightarrow> string \<Rightarrow> string + dep_result" where
  "check_system_dependency run c key =
     (case hm_get c key of
        None \<Rightarrow> Inl (''Unknown dependency: '' @ key)
      | Some d \<Rightarrow>
          if check_binary_exists run (sd_binary_name d)
          then Inr \<lparr> dr_available = True, dr_version = get_binary_version run d, dr_error = None, dr_install_instructions = None \<rparr>
          else Inr \<lparr> dr_available = False, dr_version = None,
                     dr_error = Some (''Binary '' @ [CHR 39] @ sd_binary_name d @ [CHR 39] @ '' not found in PATH''),
                     dr_install_instructions = instructions_for d \<rparr>)"

definition failed_check :: "string \<Rightarrow> dep_result" where
  "failed_check e = \<lparr> dr_available = False, dr_version = None, dr_error = Some e, dr_install_instructions = None \<rparr>"

definition tally_dependency :: "string \<Rightarrow> bool \<Rightarrow> string + dep_result \<Rightarrow> deps_report \<Rightarrow> deps_report" where
  "tally_dependency key required r rep =
     (let found = (case r of Inr x \<Rightarrow> x | Inl e \<Rightarrow> failed_check e);
          rep1 = (if \<not> dr_available found \<and> required
                  then rep\<lparr>rp_all_required_available := False, rp_missing_required := rp_missing_required rep @ [key]\<rparr>
                  else rep)
      in rep1\<lparr>rp_dependencies := hm_insert key found (rp_dependencies rep1)\<rparr>)"

definition empty_report :: deps_report where
  "empty_report = \<lparr> rp_dependencies = [], rp_all_required_available = True, rp_missing_required = [] \<rparr>"

definition check_all_dependencies :: "program_runner \<Rightarrow> deps_checker \<Rightarrow> deps_report" where
  "check_all_dependencies run c =
     fold (\<lambda>(key, d). tally_dependency key (sd_required d) (check_system_dependency run c key)) c empty_report"

definition check_required :: "program_runner \<Rightarrow> deps_checker \<Rightarrow> deps_report" where
  "check_required run c =
     (let rep = check_all_dependencies run c
      in rep\<lparr>rp_dependencies :=
               filter (\<lambda>(key, _). case hm_get c key of Some d \<Rightarrow> sd_required d | None \<Rightarrow> False) (rp_dependencies rep)\<rparr>)"

fun required_deps :: "mount_type \<Rightarrow> string list" where
  "required_deps (Nfs _ _ _) = [''nfs'']"
| "required_deps (Smb _ _ _ _ _ _) = [''smb'']"
| "required_deps (Sshfs _ _ _ _ _ _) = [''sshfs'']"

definition check_for_mount_type :: "program_runner \<Rightarrow> deps_checker \<Rightarrow> mount_type \<Rightarrow> deps_report" where
  "check_for_mount_type run c ty =
     fold (\<lambda>key. tally_dependency key True (check_system_dependency run c key)) (required_deps ty) empty_report"

section \<open>The instance\<close>

record instance_info =
  ii_id :: string
  ii_hostname :: string
  ii_ip_addresses :: "string list"
  ii_created_at :: instant
  ii_started_at :: instant
  ii_version :: string

text \<open>\<open>ie_interfaces\<close> are the addresses of the interfaces with whether each is a loopback.\<close>

record instance_env =
  ie_uuid :: string
  ie_hostname :: string
  ie_now :: instant
  ie_version :: string
  ie_interfaces :: "(string \<times> bool) list option"
  ie_readable :: "string \<Rightarrow> bool"
  ie_write :: write_outcome
  ie_to_toml :: "instance_info \<Rightarrow> string option"
  ie_of_toml :: "string \<Rightarrow> instance_info option"
  ie_config_of_toml :: "string \<Rightarrow> fuji_config option"

definition get_local_ip_addresses :: "instance_env \<Rightarrow> string list" where
  "get_local_ip_addresses env =
     [''127.0.0.1'', ''::1''] @
     (case ie_interfaces env of None \<Rightarrow> [] | Some ips \<Rightarrow> map fst (filter (\<lambda>(_, loopback). \<not> loopback) ips))"

definition instance_info_default :: "instance_env \<Rightarrow> instance_info" where
  "instance_info_default env =
     \<lparr> ii_id = ie_uuid env, ii_hostname = ie_hostname env, ii_ip_addresses = get_local_ip_addresses env,
       ii_created_at = ie_now env, ii_started_at = ie_now env, ii_version = ie_version env \<rparr>"

definition store_instance :: "instance_env \<Rightarrow> string \<Rightarrow> instance_info \<Rightarrow> files \<Rightarrow> files \<times> bool" where
  "store_instance env config_dir info fs =
     (case ie_to_toml env info of
        None \<Rightarrow> (fs, False)
      | Some s \<Rightarrow> write_file (ie_write env) (path_join config_dir ''instance.toml'') s fs)"

definition load_instance :: "instance_env \<Rightarrow> string \<Rightarrow> files \<Rightarrow> instance_info option" where
  "load_instance env config_dir fs =
     (case read_file (ie_readable env) fs (path_join config_dir ''instance.toml'') of
        None \<Rightarrow> None
      | Some s \<Rightarrow> map_option (\<lambda>i. i\<lparr>ii_started_at := ie_now env\<rparr>) (ie_of_toml env s))"

definition migrate_instance :: "instance_env \<Rightarrow> string \<Rightarrow> files \<Rightarrow> instance_info option" where
  "migrate_instance env config_dir fs =
     (case read_file (ie_readable env) fs (path_join config_dir ''mounts.toml'') of
        None \<Rightarrow> None
      | Some s \<Rightarrow>
          (case ie_config_of_toml env s of
             None \<Rightarrow> None
           | Some c \<Rightarrow> map_option (\<lambda>cl. (instance_info_default env)\<lparr>ii_id := cc_instance_id cl\<rparr>) (cfg_cluster c)))"

definition load_or_create :: "instance_env \<Rightarrow> string \<Rightarrow> files \<Rightarrow> files \<times> instance_info" where
  "load_or_create env config_dir fs =
     (case load_instance env config_dir fs of
        Some info \<Rightarrow> (fs, info)
      | None \<Rightarrow>
          let info = (case migrate_instance env config_dir fs of Some i \<Rightarrow> i | None \<Rightarrow> instance_info_default env)
          in (fst (store_instance env config_dir info fs), info))"

definition regenerate_id :: "instance_env \<Rightarrow> string \<Rightarrow> instant \<Rightarrow> instance_info" where
  "regenerate_id env fresh now = (instance_info_default env)\<lparr>ii_id := fresh, ii_created_at := now\<rparr>"

definition update_info :: "(instance_info \<Rightarrow> instance_info) \<Rightarrow> instance_info \<Rightarrow> instance_info" where
  "update_info updater info = updater info"

definition instance_uptime :: "instant \<Rightarrow> instance_info \<Rightarrow> duration" where
  "instance_uptime now info = now - ii_started_at info"

section \<open>Properties\<close>

text \<open>The checker knows instructions for distributions and looks for those of the family \<open>linux\<close>.\<close>

lemma no_instructions:
  "hm_get init_dependencies key = Some d \<Longrightarrow> instructions_for d = None"
  by (auto simp: init_dependencies_def instructions_for_def get_os_family_def nfs_install_def smb_install_def
      sshfs_install_def showmount_install_def smbclient_install_def hm_get_def split: if_splits)

abbreviation lacking :: "string + dep_result \<Rightarrow> bool" where
  "lacking r \<equiv> (case r of Inr x \<Rightarrow> \<not> dr_available x | Inl _ \<Rightarrow> True)"

lemma tally_simps:
  "rp_missing_required (tally_dependency k req r rep) = rp_missing_required rep @ (if req \<and> lacking r then [k] else [])"
  "rp_all_required_available (tally_dependency k req r rep) = (rp_all_required_available rep \<and> \<not> (req \<and> lacking r))"
  by (auto simp: tally_dependency_def Let_def failed_check_def split: sum.splits if_splits)

lemma fold_missing:
  "rp_missing_required (fold (\<lambda>(k, d). tally_dependency k (req d) (f k)) ds rep) =
     rp_missing_required rep @ map fst (filter (\<lambda>(k, d). req d \<and> lacking (f k)) ds)"
proof (induction ds arbitrary: rep)
  case (Cons a ds)
  obtain k d where a: "a = (k, d)" by force
  show ?case using Cons [of "tally_dependency k (req d) (f k) rep"] by (simp add: a tally_simps(1))
qed simp

lemma report_consistent:
  "rp_all_required_available rep = (rp_missing_required rep = []) \<Longrightarrow>
     rp_all_required_available (fold (\<lambda>(k, d). tally_dependency k (req d) (f k)) ds rep)
       = (rp_missing_required (fold (\<lambda>(k, d). tally_dependency k (req d) (f k)) ds rep) = [])"
proof (induction ds arbitrary: rep)
  case (Cons a ds)
  obtain k d where a: "a = (k, d)" by force
  from Cons.prems have "rp_all_required_available (tally_dependency k (req d) (f k) rep)
      = (rp_missing_required (tally_dependency k (req d) (f k) rep) = [])"
    unfolding tally_simps by simp
  from Cons.IH [OF this] show ?case by (simp add: a)
qed simp

text \<open>the missing dependencies that are reported are exactly the required ones whose program is not found, in the
  order of the map; all required ones are available exactly when none is missing; and no instructions are ever
  offered for one of the built-in dependencies.\<close>

theorem dependency_report_exact:
  assumes "hm_wf c"
  shows "rp_missing_required (check_all_dependencies run c) =
      map fst (filter (\<lambda>(k, d). sd_required d \<and> \<not> check_binary_exists run (sd_binary_name d)) c)
    \<and> rp_all_required_available (check_all_dependencies run c) = (rp_missing_required (check_all_dependencies run c) = [])"
proof -
  have "lacking (check_system_dependency run c k)
      = (\<not> check_binary_exists run (sd_binary_name d))" if "(k, d) \<in> set c" for k d
    using that hm_get_iff_in_set [OF assms, of k d] by (simp add: check_system_dependency_def)
  then have "filter (\<lambda>(k, d). sd_required d \<and> lacking (check_system_dependency run c k)) c
      = filter (\<lambda>(k, d). sd_required d \<and> \<not> check_binary_exists run (sd_binary_name d)) c"
    by (intro filter_cong) auto
  then show ?thesis
    unfolding check_all_dependencies_def
    by (simp add: fold_missing report_consistent empty_report_def)
qed

theorem dependency_report_exact_witness:
  "rp_missing_required (check_all_dependencies (\<lambda>program args. Some (args \<noteq> [''sshfs''] \<and> args \<noteq> [''smbclient''], None)) init_dependencies)
     = [''sshfs'']"
proof -
  let ?run = "\<lambda>(program :: string) args. Some (args \<noteq> [''sshfs''] \<and> args \<noteq> [''smbclient''], None :: string option)"
  have "hm_wf init_dependencies" by (simp add: hm_wf_def init_dependencies_def)
  from dependency_report_exact [OF this, of ?run] show ?thesis
    by (simp add: init_dependencies_def check_binary_exists_def)
qed

text \<open>an instance keeps its identifier: once the file of the instance has been written, every later start gives the
  same one, and only the time of the start changes.\<close>

theorem instance_id_persists:
  assumes "load_or_create env config_dir fs = (fs', info)" "load_instance env config_dir fs = None"
    and "ie_to_toml env info = Some s" "ie_write env = Written"
    and "ie_readable env' (path_join config_dir ''instance.toml'')" "ie_of_toml env' s = Some info"
  shows "load_or_create env' config_dir fs' = (fs', info\<lparr>ii_started_at := ie_now env'\<rparr>)"
proof -
  have "fs' (path_join config_dir ''instance.toml'') = Some s"
    using assms(1-4) by (auto simp: load_or_create_def store_instance_def write_file_def Let_def)
  then show ?thesis
    using assms(5,6) by (simp add: load_or_create_def load_instance_def read_file_def)
qed

definition sample_instance :: instance_info where
  "sample_instance =
     \<lparr> ii_id = ''id-1'', ii_hostname = ''h'', ii_ip_addresses = [''127.0.0.1'', ''::1''], ii_created_at = 0, ii_started_at = 0,
       ii_version = ''0.1'' \<rparr>"

definition sample_instance_env :: "string \<Rightarrow> instant \<Rightarrow> instance_env" where
  "sample_instance_env uuid now =
     \<lparr> ie_uuid = uuid, ie_hostname = ''h'', ie_now = now, ie_version = ''0.1'', ie_interfaces = None, ie_readable = (\<lambda>_. True),
       ie_write = Written, ie_to_toml = (\<lambda>i. if i = sample_instance then Some ''toml'' else None),
       ie_of_toml = (\<lambda>s. if s = ''toml'' then Some sample_instance else None), ie_config_of_toml = (\<lambda>_. None) \<rparr>"

theorem instance_id_persists_witness:
  "ii_id (snd (load_or_create (sample_instance_env ''id-2'' 9) ''/c''
      (fst (load_or_create (sample_instance_env ''id-1'' 0) ''/c'' (\<lambda>_. None))))) = ''id-1''"
proof -
  let ?e = "sample_instance_env ''id-1'' 0"
  have none: "load_instance ?e ''/c'' (\<lambda>_. None) = None" by (simp add: load_instance_def read_file_def)
  have default: "instance_info_default ?e = sample_instance"
    by (simp add: instance_info_default_def get_local_ip_addresses_def sample_instance_env_def sample_instance_def)
  have "migrate_instance ?e ''/c'' (\<lambda>_. None) = None" by (simp add: migrate_instance_def read_file_def)
  then obtain fs' where l: "load_or_create ?e ''/c'' (\<lambda>_. None) = (fs', sample_instance)"
    by (simp add: load_or_create_def none default Let_def)
  have "load_or_create (sample_instance_env ''id-2'' 9) ''/c'' fs' = (fs', sample_instance\<lparr>ii_started_at := 9\<rparr>)"
    using instance_id_persists [OF l none, of "''toml''" "sample_instance_env ''id-2'' 9"]
    by (simp add: sample_instance_env_def)
  with l show ?thesis by (simp add: sample_instance_def)
qed

end
