(* ===== verification/Intrusion_Detection.thy ===== *)
theory Intrusion_Detection
  imports Audit_Log Complex_Main
begin

text \<open>
  The intrusion detection engine (\<open>src/security/intrusion_detection.rs\<close>): rules, alerts, patterns of activity,
  the analysis rounds and the reports.

  The clock of the engine is \<open>ie_clock\<close>: an operation starts at a given time, and the automatic response to an
  alert moves it on by its delay.  \<open>calendar\<close> is what the \<open>chrono\<close> crate makes of a timestamp: the hour of the
  twelve-hour clock and the day of the week.  Frequencies and scores are exact rationals.
\<close>

section \<open>Alerts and rules\<close>

datatype alert_severity = Alert_Low | Alert_Medium | Alert_High | Alert_Critical

fun alert_rank :: "alert_severity \<Rightarrow> nat" where
  "alert_rank Alert_Low = 0"
| "alert_rank Alert_Medium = 1"
| "alert_rank Alert_High = 2"
| "alert_rank Alert_Critical = 3"

datatype alert_status = Alert_Active | Investigating | Resolved | FalsePositive | Suppressed

datatype alert_source =
    AnomalyDetection | SignatureMatch | BehavioralAnalysis | SystemMonitor | ExternalIntelligence | UserReport
  | MachineLearning_Source

record intrusion_alert =
  ia_id :: string
  ia_severity :: alert_severity
  ia_title :: string
  ia_description :: string
  ia_timestamp :: instant
  ia_source :: alert_source
  ia_events :: "string list"
  ia_confidence :: rat
  ia_recommendations :: "string list"
  ia_status :: alert_status
  ia_metadata :: "(string, string) hashmap"

datatype rule_type = Signature | StatisticalAnomaly | BehavioralPattern | FrequencyAnalysis | MachineLearning | Custom_Rule

record detection_rule =
  dr_id :: string
  dr_name :: string
  dr_description :: string
  dr_rule_type :: rule_type
  dr_pattern :: string
  dr_severity :: alert_severity
  dr_enabled :: bool
  dr_priority :: u32
  dr_time_window :: nat
  dr_threshold :: rat
  dr_parameters :: "(string, string) hashmap"

record time_pattern =
  tp_hour :: nat
  tp_day_of_week :: nat
  tp_frequency :: rat

record network_pattern =
  np_source :: string
  np_destination :: string
  np_port :: u16
  np_protocol :: string
  np_frequency :: rat

record user_activity_pattern =
  ua_user_id :: string
  ua_login_patterns :: "time_pattern list"
  ua_command_patterns :: "(string, rat) hashmap"
  ua_network_patterns :: "network_pattern list"
  ua_resource_baselines :: "(string, rat) hashmap"
  ua_last_updated :: instant

record auto_response_config =
  ar_enabled :: bool
  ar_block_ip_on_high_alert :: bool
  ar_terminate_suspicious_processes :: bool
  ar_lock_accounts_on_critical :: bool
  ar_enable_adaptive :: bool
  ar_response_delay :: nat

record intrusion_config =
  ic_enabled :: bool
  ic_event_buffer_size :: nat
  ic_analysis_interval :: nat
  ic_alert_threshold :: rat
  ic_enable_ml :: bool
  ic_behavioral_window :: nat
  ic_model_update_interval :: nat
  ic_max_alerts_per_minute :: u32
  ic_alert_retention_days :: nat
  ic_auto_response :: auto_response_config

definition intrusion_config_default :: intrusion_config where
  "intrusion_config_default =
     \<lparr> ic_enabled = True, ic_event_buffer_size = 10000, ic_analysis_interval = 30, ic_alert_threshold = 7 / 10,
       ic_enable_ml = True, ic_behavioral_window = 24, ic_model_update_interval = 6, ic_max_alerts_per_minute = 100,
       ic_alert_retention_days = 90,
       ic_auto_response =
         \<lparr> ar_enabled = True, ar_block_ip_on_high_alert = True, ar_terminate_suspicious_processes = False,
           ar_lock_accounts_on_critical = True, ar_enable_adaptive = True, ar_response_delay = 60 \<rparr> \<rparr>"

type_synonym 'v ml_predict = "'v audit_event \<Rightarrow> rat option"

record 'v intrusion_engine =
  ie_config :: intrusion_config
  ie_rules :: "detection_rule list"
  ie_alerts :: "intrusion_alert list"
  ie_user_patterns :: "(string, user_activity_pattern) hashmap"
  ie_ml_models :: "'v ml_predict list"
  ie_event_buffer :: "'v audit_event list"
  ie_clock :: instant

record calendar =
  cal_hour12 :: "instant \<Rightarrow> nat"
  cal_weekday :: "instant \<Rightarrow> nat"

section \<open>Alerts\<close>

text \<open>What the response does is only logged; it waits before.  The notification always fails, the receiver of its
  channel is gone.\<close>

definition trigger_auto_response :: "intrusion_alert \<Rightarrow> 'v intrusion_engine \<Rightarrow> 'v intrusion_engine" where
  "trigger_auto_response alert e =
     (let ar = ic_auto_response (ie_config e)
      in if \<not> ar_enabled ar then e else e\<lparr>ie_clock := ie_clock e + secs (int (ar_response_delay ar))\<rparr>)"

definition create_alert ::
    "string \<Rightarrow> alert_source \<Rightarrow> alert_severity \<Rightarrow> string \<Rightarrow> string \<Rightarrow> string list \<Rightarrow> 'v intrusion_engine \<Rightarrow> 'v intrusion_engine" where
  "create_alert uuid source severity title description events e =
     (let alert =
        \<lparr> ia_id = uuid, ia_severity = severity, ia_title = title, ia_description = description,
          ia_timestamp = ie_clock e, ia_source = source, ia_events = events, ia_confidence = 8 / 10,
          ia_recommendations = [''Investigate immediately''], ia_status = Alert_Active, ia_metadata = [] \<rparr>;
          e1 = e\<lparr>ie_alerts := ie_alerts e @ [alert]\<rparr>
      in if ar_enabled (ic_auto_response (ie_config e1)) \<and> alert_rank severity \<ge> alert_rank Alert_High
         then trigger_auto_response alert e1 else e1)"

section \<open>Rules\<close>

definition add_rule :: "detection_rule \<Rightarrow> 'v intrusion_engine \<Rightarrow> 'v intrusion_engine" where
  "add_rule r e = e\<lparr>ie_rules := ie_rules e @ [r]\<rparr>"

definition remove_rule :: "string \<Rightarrow> 'v intrusion_engine \<Rightarrow> 'v intrusion_engine \<times> bool" where
  "remove_rule rule_id e =
     (let kept = filter (\<lambda>r. dr_id r \<noteq> rule_id) (ie_rules e)
      in (e\<lparr>ie_rules := kept\<rparr>, length kept < length (ie_rules e)))"

definition default_rules :: "detection_rule list" where
  "default_rules =
     [\<lparr> dr_id = ''brute_force_login'', dr_name = ''Brute Force Login Detection'',
        dr_description = ''Detect multiple failed login attempts'', dr_rule_type = FrequencyAnalysis,
        dr_pattern = ''event_type='' @ [CHR 39] @ ''login_failed'' @ [CHR 39] @ '' AND count > 10'',
        dr_severity = Alert_High, dr_enabled = True, dr_priority = 1, dr_time_window = 300, dr_threshold = 10, dr_parameters = [] \<rparr>,
      \<lparr> dr_id = ''privilege_escalation'', dr_name = ''Privilege Escalation Detection'',
        dr_description = ''Detect suspicious privilege escalation attempts'', dr_rule_type = BehavioralPattern,
        dr_pattern = ''event_type='' @ [CHR 39] @ ''privilege_change'' @ [CHR 39] @ '' AND risk_score > 0.8'',
        dr_severity = Alert_Critical, dr_enabled = True, dr_priority = 1, dr_time_window = 60, dr_threshold = 8 / 10, dr_parameters = [] \<rparr>,
      \<lparr> dr_id = ''unusual_network_access'', dr_name = ''Unusual Network Access'',
        dr_description = ''Detect access from unusual network locations'', dr_rule_type = StatisticalAnomaly,
        dr_pattern = ''network_access_anomaly_score > 0.7'',
        dr_severity = Alert_Medium, dr_enabled = True, dr_priority = 2, dr_time_window = 3600, dr_threshold = 7 / 10, dr_parameters = [] \<rparr>,
      \<lparr> dr_id = ''suspicious_command_sequence'', dr_name = ''Suspicious Command Sequence'',
        dr_description = ''Detect potentially malicious command sequences'', dr_rule_type = Signature,
        dr_pattern = ''command_sequence CONTAINS ('' @ [CHR 39] @ ''rm -rf /'' @ [CHR 39] @ '', '' @ [CHR 39] @ ''dd if='' @ [CHR 39]
          @ '', '' @ [CHR 39] @ ''wget http'' @ [CHR 39] @ '')'',
        dr_severity = Alert_High, dr_enabled = True, dr_priority = 2, dr_time_window = 300, dr_threshold = 9 / 10, dr_parameters = [] \<rparr>,
      \<lparr> dr_id = ''resource_abuse'', dr_name = ''Resource Abuse Detection'',
        dr_description = ''Detect excessive resource consumption'', dr_rule_type = StatisticalAnomaly,
        dr_pattern = ''resource_usage > 3 * baseline'',
        dr_severity = Alert_Medium, dr_enabled = True, dr_priority = 3, dr_time_window = 600, dr_threshold = 3, dr_parameters = [] \<rparr>]"

definition engine_blank :: "intrusion_config \<Rightarrow> 'v intrusion_engine" where
  "engine_blank c =
     \<lparr> ie_config = c, ie_rules = [], ie_alerts = [], ie_user_patterns = [], ie_ml_models = [], ie_event_buffer = [], ie_clock = 0 \<rparr>"

definition engine_new :: "intrusion_config \<Rightarrow> 'v intrusion_engine" where
  "engine_new c = fold add_rule default_rules (engine_blank c)"

fun debug_event_type :: "audit_event_type \<Rightarrow> string" where
  "debug_event_type Authentication = ''Authentication''"
| "debug_event_type Authorization = ''Authorization''"
| "debug_event_type CredentialManagement = ''CredentialManagement''"
| "debug_event_type MountOperation = ''MountOperation''"
| "debug_event_type ConfigurationChange = ''ConfigurationChange''"
| "debug_event_type SecurityPolicy = ''SecurityPolicy''"
| "debug_event_type SystemEvent = ''SystemEvent''"
| "debug_event_type NetworkEvent = ''NetworkEvent''"
| "debug_event_type DataAccess = ''DataAccess''"
| "debug_event_type CryptographicOperation = ''CryptographicOperation''"
| "debug_event_type SecurityViolation = ''SecurityViolation''"
| "debug_event_type AdministrativeAction = ''AdministrativeAction''"
| "debug_event_type ProcessManagement = ''ProcessManagement''"

definition check_frequency_rule :: "detection_rule \<Rightarrow> 'v audit_event \<Rightarrow> 'v intrusion_engine \<Rightarrow> bool" where
  "check_frequency_rule r ev e =
     (let cutoff = ie_clock e - secs (int (dr_time_window r));
          n = length (filter (\<lambda>x. ae_timestamp x \<ge> cutoff \<and> ae_event_type x = ae_event_type ev) (ie_event_buffer e))
      in of_nat n \<ge> dr_threshold r)"

definition matches_signature :: "detection_rule \<Rightarrow> 'v audit_event \<Rightarrow> bool" where
  "matches_signature r ev =
     (let type_str = debug_event_type (ae_event_type ev)
      in contains_str (dr_pattern r) type_str
         \<or> contains_str (dr_pattern r) (ae_description ev)
         \<or> contains_str (ae_description ev) (dr_pattern r)
         \<or> contains_str (to_lowercase type_str) (to_lowercase (dr_pattern r)))"

definition evaluate_rule :: "detection_rule \<Rightarrow> 'v audit_event \<Rightarrow> 'v intrusion_engine \<Rightarrow> bool" where
  "evaluate_rule r ev e =
     (case dr_rule_type r of
        Signature \<Rightarrow> matches_signature r ev
      | FrequencyAnalysis \<Rightarrow> check_frequency_rule r ev e
      | StatisticalAnomaly \<Rightarrow> False
      | BehavioralPattern \<Rightarrow> False
      | _ \<Rightarrow> False)"

definition trigger_rule_alert :: "string \<Rightarrow> detection_rule \<Rightarrow> 'v audit_event \<Rightarrow> 'v intrusion_engine \<Rightarrow> 'v intrusion_engine" where
  "trigger_rule_alert uuid r ev e =
     create_alert uuid SignatureMatch (dr_severity r) (dr_name r) (dr_description r) [ae_id ev] e"

definition check_rules :: "(nat \<Rightarrow> string) \<Rightarrow> 'v audit_event \<Rightarrow> 'v intrusion_engine \<Rightarrow> 'v intrusion_engine" where
  "check_rules uuids ev e =
     fold (\<lambda>r e. if evaluate_rule r ev e then trigger_rule_alert (uuids (length (ie_alerts e))) r ev e else e)
       (filter dr_enabled (ie_rules e)) e"

section \<open>Patterns of activity\<close>

definition login_slot :: "calendar \<Rightarrow> 'v audit_event \<Rightarrow> nat \<times> nat" where
  "login_slot cal ev = (cal_hour12 cal (ae_timestamp ev) mod 256, cal_weekday cal (ae_timestamp ev) mod 7)"

fun touch_slot :: "nat \<times> nat \<Rightarrow> time_pattern list \<Rightarrow> time_pattern list" where
  "touch_slot (h, d) [] = [\<lparr> tp_hour = h, tp_day_of_week = d, tp_frequency = 1 / 10 \<rparr>]"
| "touch_slot (h, d) (tp # tps) =
     (if tp_hour tp = h \<and> tp_day_of_week tp = d
      then tp\<lparr>tp_frequency := min (tp_frequency tp + 1) 1\<rparr> # tps
      else tp # touch_slot (h, d) tps)"

definition update_user_pattern :: "calendar \<Rightarrow> string \<Rightarrow> 'v audit_event \<Rightarrow> 'v intrusion_engine \<Rightarrow> 'v intrusion_engine" where
  "update_user_pattern cal user_id ev e =
     (let p = (case hm_get (ie_user_patterns e) user_id of
                 Some p \<Rightarrow> p
               | None \<Rightarrow> \<lparr> ua_user_id = user_id, ua_login_patterns = [], ua_command_patterns = [], ua_network_patterns = [],
                          ua_resource_baselines = [], ua_last_updated = ie_clock e \<rparr>);
          p1 = (if ae_event_type ev = Authentication
                then p\<lparr>ua_login_patterns := touch_slot (login_slot cal ev) (ua_login_patterns p)\<rparr> else p)
      in e\<lparr>ie_user_patterns := hm_insert user_id (p1\<lparr>ua_last_updated := ie_clock e\<rparr>) (ie_user_patterns e)\<rparr>)"

definition is_normal_login_time :: "user_activity_pattern \<Rightarrow> nat \<times> nat \<Rightarrow> bool" where
  "is_normal_login_time p slot =
     list_ex (\<lambda>tp. tp_hour tp = fst slot \<and> tp_day_of_week tp = snd slot \<and> tp_frequency tp > 1 / 10) (ua_login_patterns p)"

definition buffer_event :: "instant \<Rightarrow> 'v audit_event \<Rightarrow> 'v intrusion_engine \<Rightarrow> 'v intrusion_engine" where
  "buffer_event now ev e =
     (let b = ie_event_buffer e @ [ev]
      in e\<lparr>ie_clock := now, ie_event_buffer := drop (length b - ic_event_buffer_size (ie_config e)) b\<rparr>)"

definition detect_event ::
    "calendar \<Rightarrow> (nat \<Rightarrow> string) \<Rightarrow> instant \<Rightarrow> 'v audit_event \<Rightarrow> 'v intrusion_engine \<Rightarrow> 'v intrusion_engine" where
  "detect_event cal uuids now ev e =
     (if \<not> ic_enabled (ie_config e) then e
      else let e1 = check_rules uuids ev (buffer_event now ev e)
           in if as_source_type (ae_source ev) = User_Source
              then update_user_pattern cal (as_identifier (ae_source ev)) ev e1 else e1)"

section \<open>Analysis\<close>

definition alert_login ::
    "calendar \<Rightarrow> (nat \<Rightarrow> string) \<Rightarrow> user_activity_pattern \<Rightarrow> string \<Rightarrow> 'v audit_event \<Rightarrow> 'v intrusion_engine \<Rightarrow> 'v intrusion_engine" where
  "alert_login cal uuids p user_id ev e =
     (if ae_event_type ev = Authentication \<and> \<not> is_normal_login_time p (login_slot cal ev)
      then create_alert (uuids (length (ie_alerts e))) BehavioralAnalysis Alert_Medium ''Unusual Login Time''
             (''User '' @ user_id @ '' logged in at unusual time'') [ae_id ev] e
      else e)"

definition analyze_user_activity ::
    "calendar \<Rightarrow> (nat \<Rightarrow> string) \<Rightarrow> string \<Rightarrow> 'v audit_event list \<Rightarrow> 'v intrusion_engine \<Rightarrow> 'v intrusion_engine" where
  "analyze_user_activity cal uuids user_id events e =
     (case hm_get (ie_user_patterns e) user_id of
        None \<Rightarrow> e
      | Some p \<Rightarrow> fold (alert_login cal uuids p user_id) events e)"

definition group_by_user :: "'v audit_event list \<Rightarrow> (string, 'v audit_event list) hashmap" where
  "group_by_user events =
     fold (\<lambda>ev m. if as_source_type (ae_source ev) = User_Source
             then let u = as_identifier (ae_source ev)
                  in hm_insert u ((case hm_get m u of Some es \<Rightarrow> es | None \<Rightarrow> []) @ [ev]) m
             else m) events []"

definition analyze_patterns :: "calendar \<Rightarrow> (nat \<Rightarrow> string) \<Rightarrow> 'v audit_event list \<Rightarrow> 'v intrusion_engine \<Rightarrow> 'v intrusion_engine" where
  "analyze_patterns cal uuids events e =
     fold (\<lambda>(u, es). analyze_user_activity cal uuids u es) (group_by_user events) e"

definition count_up :: "'k \<Rightarrow> ('k, nat) hashmap \<Rightarrow> ('k, nat) hashmap" where
  "count_up k m = hm_insert k ((case hm_get m k of Some n \<Rightarrow> n | None \<Rightarrow> 0) + 1) m"

definition check_statistical_anomalies :: "(nat \<Rightarrow> string) \<Rightarrow> 'v audit_event list \<Rightarrow> 'v intrusion_engine \<Rightarrow> 'v intrusion_engine" where
  "check_statistical_anomalies uuids events e =
     fold (\<lambda>(ty, n) e.
         if n > 100
         then create_alert (uuids (length (ie_alerts e))) AnomalyDetection Alert_Medium ''Unusual Event Frequency''
                (''High frequency of '' @ ty @ '' events: '' @ show_nat n) [] e
         else e)
       (fold (\<lambda>ev. count_up (event_category (ae_event_type ev))) events []) e"

definition apply_ml_analysis ::
    "(rat \<Rightarrow> string) \<Rightarrow> (nat \<Rightarrow> string) \<Rightarrow> 'v audit_event list \<Rightarrow> 'v intrusion_engine \<Rightarrow> 'v intrusion_engine" where
  "apply_ml_analysis show_score uuids events e =
     fold (\<lambda>predict e. fold (\<lambda>ev e.
         case predict ev of
           Some score \<Rightarrow>
             if score > ic_alert_threshold (ie_config e)
             then create_alert (uuids (length (ie_alerts e))) MachineLearning_Source Alert_High ''ML-Based Anomaly Detection''
                    (''Anomaly detected with score: '' @ show_score score) [ae_id ev] e
             else e
         | None \<Rightarrow> e) events e) (ie_ml_models e) e"

definition perform_analysis ::
    "calendar \<Rightarrow> (rat \<Rightarrow> string) \<Rightarrow> (nat \<Rightarrow> string) \<Rightarrow> instant \<Rightarrow> 'v intrusion_engine \<Rightarrow> 'v intrusion_engine" where
  "perform_analysis cal show_score uuids now e0 =
     (let e = e0\<lparr>ie_clock := now\<rparr>; events = ie_event_buffer e
      in if events = [] then e
         else let e1 = analyze_patterns cal uuids events e;
                  e2 = check_statistical_anomalies uuids events e1
              in if ic_enable_ml (ie_config e2) then apply_ml_analysis show_score uuids events e2 else e2)"

definition cleanup_old_alerts :: "instant \<Rightarrow> 'v intrusion_engine \<Rightarrow> 'v intrusion_engine" where
  "cleanup_old_alerts now e =
     (let cutoff = now - secs (int (ic_alert_retention_days (ie_config e)) * 24 * 60 * 60)
      in e\<lparr>ie_clock := now, ie_alerts := filter (\<lambda>a. ia_timestamp a \<ge> cutoff) (ie_alerts e)\<rparr>)"

text \<open>\<open>start\<close> gives each of the three loops a clone of the engine: a new one of the same configuration.\<close>

definition engine_clone :: "'v intrusion_engine \<Rightarrow> 'v intrusion_engine" where
  "engine_clone e = (engine_blank (ie_config e))\<lparr>ie_clock := ie_clock e\<rparr>"

section \<open>Reading alerts\<close>

definition get_active_alerts :: "'v intrusion_engine \<Rightarrow> intrusion_alert list" where
  "get_active_alerts e = filter (\<lambda>a. ia_status a = Alert_Active \<or> ia_status a = Investigating) (ie_alerts e)"

definition get_alert :: "string \<Rightarrow> 'v intrusion_engine \<Rightarrow> intrusion_alert option" where
  "get_alert i e = find (\<lambda>a. ia_id a = i) (ie_alerts e)"

fun set_alert_status :: "string \<Rightarrow> alert_status \<Rightarrow> intrusion_alert list \<Rightarrow> intrusion_alert list \<times> bool" where
  "set_alert_status i st [] = ([], False)"
| "set_alert_status i st (a # as) =
     (if ia_id a = i then (a\<lparr>ia_status := st\<rparr> # as, True)
      else case set_alert_status i st as of (as', found) \<Rightarrow> (a # as', found))"

definition update_alert_status :: "string \<Rightarrow> alert_status \<Rightarrow> 'v intrusion_engine \<Rightarrow> 'v intrusion_engine \<times> bool" where
  "update_alert_status i st e =
     (case set_alert_status i st (ie_alerts e) of (as, found) \<Rightarrow> (e\<lparr>ie_alerts := as\<rparr>, found))"

definition get_user_pattern :: "string \<Rightarrow> 'v intrusion_engine \<Rightarrow> user_activity_pattern option" where
  "get_user_pattern u e = hm_get (ie_user_patterns e) u"

record intrusion_report =
  ir_generated_at :: instant
  ir_time_range :: "(instant \<times> instant) option"
  ir_total_alerts :: nat
  ir_alerts_by_severity :: "(alert_severity, nat) hashmap"
  ir_alerts_by_source :: "(alert_source, nat) hashmap"
  ir_top_threats :: "string list"
  ir_recommendations :: "string list"

definition count_alerts_by_severity :: "intrusion_alert list \<Rightarrow> (alert_severity, nat) hashmap" where
  "count_alerts_by_severity as = fold (\<lambda>a. count_up (ia_severity a)) as []"

definition count_alerts_by_source :: "intrusion_alert list \<Rightarrow> (alert_source, nat) hashmap" where
  "count_alerts_by_source as = fold (\<lambda>a. count_up (ia_source a)) as []"

definition identify_top_threats :: "intrusion_alert list \<Rightarrow> string list" where
  "identify_top_threats as =
     map fst (take 10 (sort_key (\<lambda>(_, n). - int n) (fold (\<lambda>a. count_up (ia_title a)) as [])))"

definition generate_recommendations :: "intrusion_alert list \<Rightarrow> string list" where
  "generate_recommendations as =
     (if length (filter (\<lambda>a. ia_severity a = Alert_High \<or> ia_severity a = Alert_Critical) as) > 0
      then [''Immediate investigation recommended for high-severity alerts''] else [])
     @ (if length as > 50 then [''Consider reviewing security policies - high alert volume detected''] else [])
     @ [''Regular security training recommended for all users'']"

definition generate_report :: "(instant \<times> instant) option \<Rightarrow> instant \<Rightarrow> 'v intrusion_engine \<Rightarrow> intrusion_report" where
  "generate_report time_range now e =
     (let as = (case time_range of
                  Some (start, stop) \<Rightarrow> filter (\<lambda>a. ia_timestamp a \<ge> start \<and> ia_timestamp a \<le> stop) (ie_alerts e)
                | None \<Rightarrow> ie_alerts e)
      in \<lparr> ir_generated_at = now, ir_time_range = time_range, ir_total_alerts = length as,
           ir_alerts_by_severity = count_alerts_by_severity as, ir_alerts_by_source = count_alerts_by_source as,
           ir_top_threats = identify_top_threats as, ir_recommendations = generate_recommendations as \<rparr>)"

section \<open>The simple model\<close>

record simple_ml_model =
  ml_weights :: "(string, rat) hashmap"
  ml_training_size :: nat

definition ml_train :: "'v audit_event list \<Rightarrow> simple_ml_model \<Rightarrow> simple_ml_model" where
  "ml_train events m =
     (let counts = fold (\<lambda>ev. count_up (event_category (ae_event_type ev))) events []
      in m\<lparr>ml_weights := map (\<lambda>(ty, n). (ty, 1 / (of_nat n / of_nat (length events) + 1 / 100))) counts,
           ml_training_size := length events\<rparr>)"

definition ml_predict :: "calendar \<Rightarrow> simple_ml_model \<Rightarrow> 'v audit_event \<Rightarrow> rat" where
  "ml_predict cal m ev =
     (let weight = (case hm_get (ml_weights m) (event_category (ae_event_type ev)) of Some w \<Rightarrow> w | None \<Rightarrow> 1 / 2);
          hour = cal_hour12 cal (ae_timestamp ev);
          score = (if \<not> (6 \<le> hour \<and> hour \<le> 22) then weight * (3 / 2) else weight)
      in min (score / 3) 1)"

end
