(* ===== verification/Intrusion_Behaviour.thy ===== *)
theory Intrusion_Behaviour
  imports Intrusion_Detection
begin

text \<open>
  What the engine learns and when it raises alerts: the invariant of its buffer and patterns, what makes a login
  time normal, the rules that react to more than they describe, and the loops that work on empty clones.
\<close>

section \<open>What an alert changes\<close>

lemma create_alert_keeps [simp]:
  "ie_config (create_alert uuid src sev title desc evs e) = ie_config e"
  "ie_rules (create_alert uuid src sev title desc evs e) = ie_rules e"
  "ie_user_patterns (create_alert uuid src sev title desc evs e) = ie_user_patterns e"
  "ie_event_buffer (create_alert uuid src sev title desc evs e) = ie_event_buffer e"
  by (simp_all add: create_alert_def trigger_auto_response_def Let_def)

lemma create_alert_alerts:
  "\<exists>a. ie_alerts (create_alert uuid src sev title desc evs e) = ie_alerts e @ [a] \<and> ia_title a = title \<and> ia_severity a = sev"
  by (simp add: create_alert_def trigger_auto_response_def Let_def)

text \<open>Whatever a fold of rules or events does by raising alerts keeps everything else and all alerts.\<close>

definition only_alerts :: "'v intrusion_engine \<Rightarrow> 'v intrusion_engine \<Rightarrow> bool" where
  "only_alerts e e' \<longleftrightarrow>
     ie_config e' = ie_config e \<and> ie_rules e' = ie_rules e \<and> ie_user_patterns e' = ie_user_patterns e
     \<and> ie_event_buffer e' = ie_event_buffer e \<and> prefix (ie_alerts e) (ie_alerts e')"

lemma only_alerts_refl: "only_alerts e e"
  by (simp add: only_alerts_def)

lemma only_alerts_trans: "only_alerts e e' \<Longrightarrow> only_alerts e' e'' \<Longrightarrow> only_alerts e e''"
  by (auto simp: only_alerts_def intro: prefix_order.trans)

lemma only_alerts_create: "only_alerts e (create_alert uuid src sev title desc evs e)"
  using create_alert_alerts [of uuid src sev title desc evs e] by (auto simp: only_alerts_def)

lemma only_alerts_fold: "(\<And>x e. only_alerts e (f x e)) \<Longrightarrow> only_alerts e (fold f xs e)"
  by (induction xs arbitrary: e) (auto intro: only_alerts_refl only_alerts_trans)

lemma only_alerts_rules: "only_alerts e (check_rules uuids ev e)"
  unfolding check_rules_def
  by (rule only_alerts_fold) (simp add: trigger_rule_alert_def only_alerts_create only_alerts_refl)

section \<open>What makes a login time normal\<close>

definition slot_frequency :: "nat \<times> nat \<Rightarrow> time_pattern list \<Rightarrow> rat option" where
  "slot_frequency slot tps =
     map_option tp_frequency (find (\<lambda>tp. (tp_hour tp, tp_day_of_week tp) = slot) tps)"

definition slots_distinct :: "time_pattern list \<Rightarrow> bool" where
  "slots_distinct tps = distinct (map (\<lambda>tp. (tp_hour tp, tp_day_of_week tp)) tps)"

lemma touch_frequency:
  "slot_frequency slot (touch_slot slot' tps) =
     (if slot = slot' then Some (case slot_frequency slot tps of None \<Rightarrow> 1 / 10 | Some f \<Rightarrow> min (f + 1) 1)
      else slot_frequency slot tps)"
  by (induction slot' tps rule: touch_slot.induct) (auto simp: slot_frequency_def)

lemma touch_slots:
  "set (map (\<lambda>tp. (tp_hour tp, tp_day_of_week tp)) (touch_slot slot tps))
     = insert slot (set (map (\<lambda>tp. (tp_hour tp, tp_day_of_week tp)) tps))"
  by (induction slot tps rule: touch_slot.induct) auto

lemma touch_distinct: "slots_distinct tps \<Longrightarrow> slots_distinct (touch_slot slot tps)"
proof (induction slot tps rule: touch_slot.induct)
  case (2 h d tp tps)
  then show ?case using touch_slots [of "(h, d)" tps] by (auto simp: slots_distinct_def)
qed (simp add: slots_distinct_def)

lemma find_distinct:
  "distinct (map f xs) \<Longrightarrow> x \<in> set xs \<Longrightarrow> find (\<lambda>y. f y = f x) xs = Some x"
  by (induction xs) (auto simp: image_iff)

lemma normal_iff_frequency:
  "slots_distinct (ua_login_patterns p) \<Longrightarrow>
     is_normal_login_time p slot \<longleftrightarrow> (\<exists>f. slot_frequency slot (ua_login_patterns p) = Some f \<and> f > 1 / 10)"
proof
  assume d: "slots_distinct (ua_login_patterns p)" and "is_normal_login_time p slot"
  then obtain tp where tp: "tp \<in> set (ua_login_patterns p)" "(tp_hour tp, tp_day_of_week tp) = slot" "tp_frequency tp > 1 / 10"
    by (auto simp: is_normal_login_time_def list_ex_iff)
  from find_distinct [OF d [unfolded slots_distinct_def] tp(1)] tp(2,3)
  show "\<exists>f. slot_frequency slot (ua_login_patterns p) = Some f \<and> f > 1 / 10"
    by (auto simp: slot_frequency_def)
next
  assume "\<exists>f. slot_frequency slot (ua_login_patterns p) = Some f \<and> f > 1 / 10"
  then show "is_normal_login_time p slot"
    by (auto simp: slot_frequency_def is_normal_login_time_def list_ex_iff find_Some_iff)
qed

text \<open>The logins of a user in a slot.\<close>

definition logins :: "calendar \<Rightarrow> string \<Rightarrow> nat \<times> nat \<Rightarrow> 'v audit_event list \<Rightarrow> nat" where
  "logins cal u slot evs =
     length (filter (\<lambda>ev. as_source_type (ae_source ev) = User_Source \<and> as_identifier (ae_source ev) = u
                \<and> ae_event_type ev = Authentication \<and> login_slot cal ev = slot) evs)"

definition frequency_of :: "nat \<Rightarrow> rat option" where
  "frequency_of n = (if n = 0 then None else if n = 1 then Some (1 / 10) else Some 1)"

definition slots_of :: "string \<Rightarrow> 'v intrusion_engine \<Rightarrow> time_pattern list" where
  "slots_of u e = (case hm_get (ie_user_patterns e) u of Some p \<Rightarrow> ua_login_patterns p | None \<Rightarrow> [])"

definition patterns_exact :: "calendar \<Rightarrow> 'v audit_event list \<Rightarrow> 'v intrusion_engine \<Rightarrow> bool" where
  "patterns_exact cal evs e =
     (\<forall>u. slots_distinct (slots_of u e)
          \<and> (\<forall>slot. slot_frequency slot (slots_of u e) = frequency_of (logins cal u slot evs)))"

definition detect_all ::
    "calendar \<Rightarrow> (nat \<Rightarrow> string) \<Rightarrow> (instant \<times> 'v audit_event) list \<Rightarrow> 'v intrusion_engine \<Rightarrow> 'v intrusion_engine" where
  "detect_all cal uuids = fold (\<lambda>(now, ev). detect_event cal uuids now ev)"

lemma buffer_event_keeps [simp]:
  "ie_config (buffer_event now ev e) = ie_config e" "ie_user_patterns (buffer_event now ev e) = ie_user_patterns e"
  "ie_rules (buffer_event now ev e) = ie_rules e" "ie_alerts (buffer_event now ev e) = ie_alerts e"
  "ie_clock (buffer_event now ev e) = now"
  by (simp_all add: buffer_event_def Let_def)

lemma rules_keep:
  "ie_config (check_rules uuids ev e) = ie_config e" "ie_user_patterns (check_rules uuids ev e) = ie_user_patterns e"
  "ie_event_buffer (check_rules uuids ev e) = ie_event_buffer e" "ie_rules (check_rules uuids ev e) = ie_rules e"
  using only_alerts_rules [of e uuids ev] by (simp_all add: only_alerts_def)

lemma detect_event_keeps [simp]:
  "ie_config (detect_event cal uuids now ev e) = ie_config e" "ie_rules (detect_event cal uuids now ev e) = ie_rules e"
  by (simp_all add: detect_event_def update_user_pattern_def Let_def rules_keep)

lemma slots_of_detect:
  assumes "ic_enabled (ie_config e)"
  shows "slots_of u (detect_event cal uuids now ev e) =
    (if as_source_type (ae_source ev) = User_Source \<and> as_identifier (ae_source ev) = u \<and> ae_event_type ev = Authentication
     then touch_slot (login_slot cal ev) (slots_of u e) else slots_of u e)"
  using assms
  by (auto simp: slots_of_def detect_event_def update_user_pattern_def Let_def rules_keep hm.get_insert split: option.splits)

lemma logins_snoc:
  "logins cal u slot (evs @ [ev]) =
     (if as_source_type (ae_source ev) = User_Source \<and> as_identifier (ae_source ev) = u \<and> ae_event_type ev = Authentication
         \<and> login_slot cal ev = slot
      then Suc (logins cal u slot evs) else logins cal u slot evs)"
  by (simp add: logins_def)

lemma frequency_of_Suc:
  "frequency_of (Suc n) = Some (case frequency_of n of None \<Rightarrow> 1 / 10 | Some f \<Rightarrow> min (f + 1) 1)"
  by (simp add: frequency_of_def)

lemma patterns_exact_detect:
  assumes "patterns_exact cal evs e" "ic_enabled (ie_config e)"
  shows "patterns_exact cal (evs @ [ev]) (detect_event cal uuids now ev e)"
proof -
  have d: "slots_distinct (slots_of u e)" and f: "slot_frequency slot (slots_of u e) = frequency_of (logins cal u slot evs)"
    for u slot using assms(1) unfolding patterns_exact_def by blast+
  show ?thesis
    unfolding patterns_exact_def slots_of_detect [OF assms(2)] logins_snoc
    by (intro allI conjI) (auto simp: d f touch_distinct touch_frequency frequency_of_Suc)
qed

lemma patterns_exact_all:
  "ic_enabled (ie_config e) \<Longrightarrow> patterns_exact cal evs e \<Longrightarrow>
     patterns_exact cal (evs @ map snd xs) (detect_all cal uuids xs e)"
proof (induction xs arbitrary: e evs)
  case (Cons x xs)
  obtain now ev where x: "x = (now, ev)" by force
  have "patterns_exact cal ((evs @ [ev]) @ map snd xs) (detect_all cal uuids xs (detect_event cal uuids now ev e))"
    by (rule Cons.IH) (simp_all add: Cons.prems patterns_exact_detect)
  then show ?case by (simp add: detect_all_def x)
qed (simp add: detect_all_def)

lemma engine_new_simps [simp]:
  "ie_config (engine_new c) = c" "ie_rules (engine_new c) = default_rules" "ie_alerts (engine_new c) = []"
  "ie_user_patterns (engine_new c) = []" "ie_event_buffer (engine_new c) = []" "ie_ml_models (engine_new c) = []"
  by (simp_all add: engine_new_def engine_blank_def default_rules_def add_rule_def)

text \<open>C38: after any events, a time of the week is normal for a user exactly when he has been seen to authenticate in it
  at least twice, successfully or not.\<close>

theorem normal_login_time_exact:
  assumes "ic_enabled c" "get_user_pattern u (detect_all cal uuids xs (engine_new c)) = Some p"
  shows "is_normal_login_time p slot \<longleftrightarrow> logins cal u slot (map snd xs) \<ge> 2"
proof -
  have "patterns_exact cal ([] @ map snd xs) (detect_all cal uuids xs (engine_new c))"
    by (rule patterns_exact_all)
      (use assms(1) in \<open>simp_all add: patterns_exact_def slots_of_def hm.get_empty slots_distinct_def slot_frequency_def
         logins_def frequency_of_def\<close>)
  moreover have "slots_of u (detect_all cal uuids xs (engine_new c)) = ua_login_patterns p"
    using assms(2) by (simp add: slots_of_def get_user_pattern_def)
  ultimately have "slots_distinct (ua_login_patterns p)"
    "slot_frequency slot (ua_login_patterns p) = frequency_of (logins cal u slot (map snd xs))"
    unfolding patterns_exact_def by (metis append_Nil)+
  then show ?thesis by (auto simp: normal_iff_frequency frequency_of_def)
qed

section \<open>Rules that say less than they do\<close>

definition new_alerts :: "'v intrusion_engine \<Rightarrow> 'v intrusion_engine \<Rightarrow> intrusion_alert list" where
  "new_alerts e e' = drop (length (ie_alerts e)) (ie_alerts e')"

abbreviation rule_step where
  "rule_step uuids ev \<equiv> (\<lambda>r e. if evaluate_rule r ev e then trigger_rule_alert (uuids (length (ie_alerts e))) r ev e else e)"

lemma only_alerts_rule_steps: "only_alerts e (fold (rule_step uuids ev) rs e)"
  by (rule only_alerts_fold) (simp add: trigger_rule_alert_def only_alerts_create only_alerts_refl)

lemma rule_raises_alert:
  assumes "filter dr_enabled (ie_rules e) = rs @ r # rs'"
    and "evaluate_rule r ev (fold (rule_step uuids ev) rs e)"
  shows "\<exists>a \<in> set (new_alerts e (check_rules uuids ev e)). ia_title a = dr_name r"
proof -
  let ?e1 = "fold (rule_step uuids ev) rs e"
  let ?e2 = "trigger_rule_alert (uuids (length (ie_alerts ?e1))) r ev ?e1"
  obtain a where a: "ie_alerts ?e2 = ie_alerts ?e1 @ [a]" "ia_title a = dr_name r"
    using create_alert_alerts unfolding trigger_rule_alert_def by blast
  have "check_rules uuids ev e = fold (rule_step uuids ev) rs' ?e2"
    using assms by (simp add: check_rules_def)
  moreover have "prefix (ie_alerts ?e2) (ie_alerts (fold (rule_step uuids ev) rs' ?e2))"
    using only_alerts_rule_steps [where e = ?e2 and uuids = uuids and ev = ev and rs = rs'] by (simp only: only_alerts_def)
  moreover have "prefix (ie_alerts e) (ie_alerts ?e1)"
    using only_alerts_rule_steps [where e = e and uuids = uuids and ev = ev and rs = rs] by (simp only: only_alerts_def)
  ultimately have "a \<in> set (new_alerts e (check_rules uuids ev e))"
    using a(1) by (auto simp: prefix_def new_alerts_def)
  with a(2) show ?thesis by blast
qed

lemma detect_event_alerts:
  assumes "ic_enabled (ie_config e)"
  shows "ie_alerts (detect_event cal uuids now ev e) = ie_alerts (check_rules uuids ev (buffer_event now ev e))"
    and "ie_event_buffer (detect_event cal uuids now ev e) = ie_event_buffer (buffer_event now ev e)"
    and "ie_clock (detect_event cal uuids now ev e) = ie_clock (check_rules uuids ev (buffer_event now ev e))"
  using assms by (simp_all add: detect_event_def update_user_pattern_def Let_def rules_keep)

lemma default_enabled: "filter dr_enabled default_rules = default_rules"
  by (simp add: default_rules_def)

text \<open>ten events of one type within five minutes are an attack by brute force, whatever type and outcome they have.\<close>

theorem frequency_rule_any_type:
  assumes "ic_enabled (ie_config e)" "ie_rules e = default_rules"
    and "10 \<le> length (filter (\<lambda>x. ae_timestamp x \<ge> now - secs 300 \<and> ae_event_type x = ae_event_type ev)
                (ie_event_buffer (detect_event cal uuids now ev e)))"
  shows "\<exists>a \<in> set (new_alerts e (detect_event cal uuids now ev e)). ia_title a = ''Brute Force Login Detection''"
proof -
  let ?e1 = "buffer_event now ev e"
  let ?r = "hd default_rules"
  have many: "(10 :: rat) \<le> of_nat n" if "10 \<le> n" for n
    using that by (metis of_nat_le_iff of_nat_numeral)
  have "evaluate_rule ?r ev ?e1"
    using assms(3) many
    by (simp add: evaluate_rule_def check_frequency_rule_def default_rules_def Let_def detect_event_alerts [OF assms(1)])
  then have "\<exists>a \<in> set (new_alerts ?e1 (check_rules uuids ev ?e1)). ia_title a = dr_name ?r"
    by (intro rule_raises_alert [where rs = "[]" and rs' = "tl default_rules"])
      (simp_all add: assms(2) default_enabled default_rules_def)
  then show ?thesis
    by (simp add: new_alerts_def detect_event_alerts [OF assms(1)] default_rules_def)
qed

text \<open>an event with an empty description is a suspicious sequence of commands: the empty text occurs in every pattern.\<close>

theorem empty_description_suspicious:
  assumes "ic_enabled (ie_config e)" "ie_rules e = default_rules" "ae_description ev = []"
  shows "\<exists>a \<in> set (new_alerts e (detect_event cal uuids now ev e)). ia_title a = ''Suspicious Command Sequence''"
proof -
  let ?e1 = "buffer_event now ev e"
  let ?r = "default_rules ! 3"
  have "contains_str p []" for p :: string by (simp add: contains_str_sublist)
  then have "evaluate_rule ?r ev e'" for e'
    using assms(3) by (simp add: evaluate_rule_def matches_signature_def default_rules_def Let_def)
  then have "\<exists>a \<in> set (new_alerts ?e1 (check_rules uuids ev ?e1)). ia_title a = dr_name ?r"
    by (intro rule_raises_alert [where rs = "take 3 default_rules" and rs' = "drop 4 default_rules"])
      (simp_all add: assms(2) default_enabled default_rules_def)
  then show ?thesis
    by (simp add: new_alerts_def detect_event_alerts [OF assms(1)] default_rules_def)
qed

section \<open>Waiting\<close>

definition severe :: "intrusion_alert list \<Rightarrow> nat" where
  "severe as = length (filter (\<lambda>a. alert_rank (ia_severity a) \<ge> 2) as)"

definition unslept :: "'v intrusion_engine \<Rightarrow> instant" where
  "unslept e = ie_clock e - int (severe (ie_alerts e)) * secs (int (ar_response_delay (ic_auto_response (ie_config e))))"

lemma unslept_create:
  "ar_enabled (ic_auto_response (ie_config e)) \<Longrightarrow> unslept (create_alert uuid src sev title desc evs e) = unslept e"
  by (cases sev) (simp_all add: unslept_def create_alert_def trigger_auto_response_def severe_def Let_def algebra_simps)

lemma unslept_rules:
  "ar_enabled (ic_auto_response (ie_config e)) \<Longrightarrow> unslept (fold (rule_step uuids ev) rs e) = unslept e"
  by (induction rs arbitrary: e) (simp_all add: trigger_rule_alert_def unslept_create)

text \<open>an event takes as long as the responses to its severe alerts wait, one after the other.\<close>

theorem detection_waits:
  assumes "ic_enabled (ie_config e)" "ar_enabled (ic_auto_response (ie_config e))"
  shows "ie_clock (detect_event cal uuids now ev e) =
    now + int (severe (new_alerts e (detect_event cal uuids now ev e)))
          * secs (int (ar_response_delay (ic_auto_response (ie_config e))))"
proof -
  let ?e1 = "buffer_event now ev e"
  let ?e2 = "check_rules uuids ev ?e1"
  have "unslept ?e2 = unslept ?e1"
    unfolding check_rules_def by (rule unslept_rules) (simp add: assms(2))
  moreover obtain as where as: "ie_alerts ?e2 = ie_alerts e @ as"
    using only_alerts_rules [of ?e1 uuids ev] by (auto simp: only_alerts_def prefix_def)
  ultimately have "ie_clock ?e2 = now + int (severe as) * secs (int (ar_response_delay (ic_auto_response (ie_config e))))"
    by (simp add: unslept_def rules_keep severe_def algebra_simps)
  then show ?thesis
    by (simp add: new_alerts_def detect_event_alerts [OF assms(1)] as)
qed

section \<open>The loops\<close>

text \<open>The loops that \<open>start\<close> spawns work on clones, which begin empty and are never told of an event: no round of the
  analysis ever raises an alert, and no old alert of the engine is ever removed.\<close>

theorem background_sees_nothing:
  "ie_alerts (fold (perform_analysis cal show_score uuids) rounds (engine_clone e)) = []
   \<and> ie_alerts (fold cleanup_old_alerts rounds (engine_clone e)) = []"
proof -
  have "ie_event_buffer (fold (perform_analysis cal show_score uuids) rounds e') = []
      \<and> ie_alerts (fold (perform_analysis cal show_score uuids) rounds e') = ie_alerts e'"
    if "ie_event_buffer e' = []" for e' :: "'a intrusion_engine"
    using that by (induction rounds arbitrary: e') (simp_all add: perform_analysis_def Let_def)
  moreover have "ie_alerts (fold cleanup_old_alerts rounds e') = []" if "ie_alerts e' = []" for e' :: "'a intrusion_engine"
    using that by (induction rounds arbitrary: e') (simp_all add: cleanup_old_alerts_def Let_def)
  ultimately show ?thesis by (simp add: engine_clone_def engine_blank_def)
qed

section \<open>Instances\<close>

definition sample_calendar :: calendar where
  "sample_calendar = \<lparr> cal_hour12 = (\<lambda>t. if t < 10 then 9 else 3), cal_weekday = (\<lambda>_. 0) \<rparr>"

definition event_at :: "instant \<Rightarrow> audit_event_type \<Rightarrow> string \<Rightarrow> unit audit_event" where
  "event_at t ty description =
     new_event ''e'' t ty
       \<lparr> as_identifier = ''root'', as_source_type = User_Source, as_ip_address = None, as_user_agent = None, as_metadata = [] \<rparr>
       Outcome_Success description []"

lemma event_at_simps [simp]:
  "ae_timestamp (event_at t ty d) = t" "ae_event_type (event_at t ty d) = ty" "ae_description (event_at t ty d) = d"
  "as_source_type (ae_source (event_at t ty d)) = User_Source" "as_identifier (ae_source (event_at t ty d)) = ''root''"
  "ae_id (event_at t ty d) = ''e''"
  by (simp_all add: event_at_def new_event_def)

theorem normal_login_time_exact_witness:
  "\<exists>p. get_user_pattern ''root'' (detect_all sample_calendar (\<lambda>_. ''id'')
        [(0, event_at 0 Authentication ''x''), (1, event_at 1 Authentication ''x''), (11, event_at 11 Authentication ''x'')]
        (engine_new intrusion_config_default)) = Some p
     \<and> is_normal_login_time p (9, 0) \<and> \<not> is_normal_login_time p (3, 0)"
proof -
  let ?xs = "[(0, event_at 0 Authentication ''x''), (1, event_at 1 Authentication ''x''), (11, event_at 11 Authentication ''x'')]"
  let ?e = "detect_all sample_calendar (\<lambda>_. ''id'') ?xs (engine_new intrusion_config_default)"
  have on: "ic_enabled intrusion_config_default" by (simp add: intrusion_config_default_def)
  obtain p where p: "get_user_pattern ''root'' ?e = Some p"
    using on by (simp add: get_user_pattern_def detect_all_def detect_event_def update_user_pattern_def Let_def hm.get_insert rules_keep)
  have "logins sample_calendar ''root'' (9, 0) (map snd ?xs) = 2" "logins sample_calendar ''root'' (3, 0) (map snd ?xs) = 1"
    by (simp_all add: logins_def login_slot_def sample_calendar_def)
  with normal_login_time_exact [OF on p] p show ?thesis by auto
qed

lemma engine_new_on: "ic_enabled (ie_config (engine_new intrusion_config_default))"
  by (simp add: intrusion_config_default_def)

theorem frequency_rule_any_type_witness:
  "\<exists>a. a \<in> set (new_alerts
        ((engine_new intrusion_config_default)\<lparr>ie_event_buffer := replicate 9 (event_at 5 MountOperation ''mounted'')\<rparr>)
        (detect_event sample_calendar (\<lambda>_. ''id'') 6 (event_at 6 MountOperation ''mounted'')
          ((engine_new intrusion_config_default)\<lparr>ie_event_buffer := replicate 9 (event_at 5 MountOperation ''mounted'')\<rparr>)))
     \<and> ia_title a = ''Brute Force Login Detection''"
proof -
  let ?e = "(engine_new intrusion_config_default)\<lparr>ie_event_buffer := replicate 9 (event_at 5 MountOperation ''mounted'')\<rparr>"
  have "\<exists>a \<in> set (new_alerts ?e (detect_event sample_calendar (\<lambda>_. ''id'') 6 (event_at 6 MountOperation ''mounted'') ?e)).
      ia_title a = ''Brute Force Login Detection''"
    using engine_new_on
    by (intro frequency_rule_any_type)
      (simp_all add: detect_event_alerts buffer_event_def intrusion_config_default_def secs_def filter_replicate)
  then show ?thesis by blast
qed

theorem empty_description_suspicious_witness:
  "\<exists>a. a \<in> set (new_alerts (engine_new intrusion_config_default)
        (detect_event sample_calendar (\<lambda>_. ''id'') 0 (event_at 0 SystemEvent []) (engine_new intrusion_config_default)))
     \<and> ia_title a = ''Suspicious Command Sequence''"
  using empty_description_suspicious [OF engine_new_on, of "event_at 0 SystemEvent []" sample_calendar "\<lambda>_. ''id''" 0] by auto

theorem detection_waits_witness:
  "ie_clock (detect_event sample_calendar (\<lambda>_. ''id'') 0 (event_at 0 SystemEvent []) (engine_new intrusion_config_default))
     = int (severe (new_alerts (engine_new intrusion_config_default)
         (detect_event sample_calendar (\<lambda>_. ''id'') 0 (event_at 0 SystemEvent []) (engine_new intrusion_config_default)))) * secs 60"
  using detection_waits [OF engine_new_on, of sample_calendar "\<lambda>_. ''id''" 0 "event_at 0 SystemEvent []"]
  by (simp add: intrusion_config_default_def)

end
