(* ===== verification/Integrity.thy ===== *)
theory Integrity
  imports Platform_Linux
begin

text \<open>
  The runtime integrity checker (\<open>src/security/integrity.rs\<close>): the baseline, the checks against it, what a
  violation leads to, and the shadow stack.  The hash functions are an argument; a file is its content, and the
  memory map is the text of \<open>/proc/self/maps\<close>.
\<close>

section \<open>Data\<close>

datatype hash_algorithm = Sha256 | Sha512 | Sha3 | Blake3

record integrity_response_config =
  irc_enable_alerts :: bool
  irc_enable_termination :: bool
  irc_enable_core_dump :: bool
  irc_enable_secure_shutdown :: bool
  irc_alert_recipients :: "string list"
  irc_custom_response_script :: "string option"

definition integrity_response_default :: integrity_response_config where
  "integrity_response_default =
     \<lparr> irc_enable_alerts = True, irc_enable_termination = False, irc_enable_core_dump = False,
       irc_enable_secure_shutdown = True, irc_alert_recipients = [''security@company.com''], irc_custom_response_script = None \<rparr>"

record integrity_config =
  icf_enable_code_integrity :: bool
  icf_enable_memory_integrity :: bool
  icf_enable_data_integrity :: bool
  icf_enable_control_flow_integrity :: bool
  icf_check_interval :: nat
  icf_alert_threshold :: u32
  icf_monitored_paths :: "string list"
  icf_critical_libraries :: "string list"
  icf_hash_algorithm :: hash_algorithm
  icf_response_config :: integrity_response_config

definition integrity_config_default :: integrity_config where
  "integrity_config_default =
     \<lparr> icf_enable_code_integrity = True, icf_enable_memory_integrity = True, icf_enable_data_integrity = True,
       icf_enable_control_flow_integrity = True, icf_check_interval = 300, icf_alert_threshold = 3,
       icf_monitored_paths = [''/proc/self/exe'', ''/etc/ld.so.cache''],
       icf_critical_libraries = [''libc.so.6'', ''libpthread.so.0'', ''libm.so.6''], icf_hash_algorithm = Sha256,
       icf_response_config = integrity_response_default \<rparr>"

record memory_region =
  mr_start :: usize
  mr_end :: usize
  mr_size :: usize
  mr_protection :: string
  mr_name :: "string option"

datatype integrity_violation_type =
    CodeModification string string memory_region
  | DataCorruption string string string
  | ControlFlowViolation usize usize string
  | LibraryInjection string string
  | MemoryProtectionViolation usize string u32
  | RuntimeHooking string usize usize

datatype violation_severity = Violation_Low | Violation_Medium | Violation_High | Violation_Critical

datatype violation_status =
    Violation_New | Violation_Investigating | Violation_Confirmed | Violation_FalsePositive | Violation_Resolved

record process_info =
  pi_pid :: u32
  pi_ppid :: u32
  pi_process_name :: string
  pi_command_line :: string
  pi_executable_path :: string
  pi_uid :: u32
  pi_gid :: u32
  pi_start_time :: instant

record integrity_violation =
  iv_id :: string
  iv_violation_type :: integrity_violation_type
  iv_timestamp :: instant
  iv_severity :: violation_severity
  iv_source_process :: process_info
  iv_context :: "(string, string) hashmap"
  iv_status :: violation_status

record integrity_baseline =
  ib_created_at :: instant
  ib_code_hashes :: "(string, string) hashmap"
  ib_data_checksums :: "(string, string) hashmap"
  ib_library_hashes :: "(string, string) hashmap"
  ib_memory_layout :: "memory_region list"
  ib_control_flow_graph :: "(string, usize list) hashmap"

record integrity_checker =
  ick_config :: integrity_config
  ick_baseline :: "integrity_baseline option"
  ick_violations :: "integrity_violation list"
  ick_executable_path :: string
  ick_process_info :: process_info

datatype integrity_error = Read_Failed string | Maps_Unreadable | No_Baseline | Bad_Map_Line string | Bad_Address

record integrity_env =
  iev_hash :: "hash_algorithm \<Rightarrow> string \<Rightarrow> string"
  iev_files :: files
  iev_readable :: "string \<Rightarrow> bool"
  iev_maps :: "string option"
  iev_now :: instant
  iev_uuid :: "nat \<Rightarrow> string"
  iev_hex :: "usize \<Rightarrow> string"

section \<open>Files and the memory map\<close>

definition compute_file_hash :: "integrity_env \<Rightarrow> integrity_checker \<Rightarrow> string \<Rightarrow> integrity_error + string" where
  "compute_file_hash env k path =
     (case read_file (iev_readable env) (iev_files env) path of
        None \<Rightarrow> Inl (Read_Failed path)
      | Some s \<Rightarrow> Inr (iev_hash env (icf_hash_algorithm (ick_config k)) s))"

definition library_search_paths :: "string list" where
  "library_search_paths =
     [''/lib'', ''/lib64'', ''/lib/x86_64-linux-gnu'', ''/lib/aarch64-linux-gnu'', ''/lib/i386-linux-gnu'', ''/usr/lib'',
      ''/usr/lib64'', ''/usr/lib/x86_64-linux-gnu'', ''/usr/lib/aarch64-linux-gnu'', ''/usr/lib/i386-linux-gnu'',
      ''/usr/local/lib'', ''/usr/local/lib64'']"

definition find_library_path :: "integrity_env \<Rightarrow> string \<Rightarrow> string option" where
  "find_library_path env library =
     find (\<lambda>p. iev_files env p \<noteq> None) (map (\<lambda>d. path_join d library) library_search_paths)"

record memory_mapping =
  mm_start :: usize
  mm_end :: usize
  mm_permissions :: string
  mm_path :: string

definition parse_hex_usize :: "string \<Rightarrow> usize option" where
  "parse_hex_usize s = map_option of_nat (parse_radix 16 64 s)"

definition mapping_from_line :: "string \<Rightarrow> integrity_error + memory_mapping" where
  "mapping_from_line line =
     (let parts = split_whitespace line
      in if length parts < 5 then Inl (Bad_Map_Line line)
         else case split_on CHR ''-'' (parts ! 0) of
                [a, b] \<Rightarrow>
                  and_then (ok_or (parse_hex_usize a) Bad_Address)
                    (\<lambda>start. and_then (ok_or (parse_hex_usize b) Bad_Address)
                      (\<lambda>stop. Inr \<lparr> mm_start = start, mm_end = stop, mm_permissions = parts ! 1,
                                   mm_path = (if length parts > 5 then parts ! 5 else []) \<rparr>))
              | _ \<Rightarrow> Inl Bad_Address)"

definition read_memory_maps :: "integrity_env \<Rightarrow> integrity_error + memory_mapping list" where
  "read_memory_maps env =
     (case iev_maps env of
        None \<Rightarrow> Inl Maps_Unreadable
      | Some s \<Rightarrow> Inr (concat (map (\<lambda>l. case mapping_from_line l of Inr m \<Rightarrow> [m] | Inl _ \<Rightarrow> []) (lines_of s))))"

definition region_of :: "memory_mapping \<Rightarrow> memory_region" where
  "region_of m =
     \<lparr> mr_start = mm_start m, mr_end = mm_end m, mr_size = mm_end m - mm_start m, mr_protection = mm_permissions m,
       mr_name = Some (mm_path m) \<rparr>"

definition get_memory_layout :: "integrity_env \<Rightarrow> integrity_error + memory_region list" where
  "get_memory_layout env = and_then (read_memory_maps env) (\<lambda>ms. Inr (map region_of ms))"

section \<open>The baseline\<close>

fun hash_libraries :: "integrity_env \<Rightarrow> integrity_checker \<Rightarrow> string list \<Rightarrow> integrity_error + (string, string) hashmap" where
  "hash_libraries env k [] = Inr []"
| "hash_libraries env k (l # ls) =
     (case find_library_path env l of
        None \<Rightarrow> hash_libraries env k ls
      | Some p \<Rightarrow> and_then (compute_file_hash env k p) (\<lambda>h. and_then (hash_libraries env k ls) (\<lambda>m. Inr ((l, h) # m))))"

fun hash_paths :: "integrity_env \<Rightarrow> integrity_checker \<Rightarrow> string list \<Rightarrow> integrity_error + (string, string) hashmap" where
  "hash_paths env k [] = Inr []"
| "hash_paths env k (p # ps) =
     (if iev_files env p = None then hash_paths env k ps
      else and_then (compute_file_hash env k p) (\<lambda>h. and_then (hash_paths env k ps) (\<lambda>m. Inr ((p, h) # m))))"

definition baseline_of :: "integrity_env \<Rightarrow> integrity_checker \<Rightarrow> integrity_error + integrity_baseline" where
  "baseline_of env k =
     (let c = ick_config k
      in and_then (if icf_enable_code_integrity c
                   then and_then (compute_file_hash env k (ick_executable_path k)) (\<lambda>h. Inr [(''main'', h)]) else Inr [])
           (\<lambda>code. and_then (hash_libraries env k (icf_critical_libraries c))
           (\<lambda>libs. and_then (if icf_enable_data_integrity c then hash_paths env k (icf_monitored_paths c) else Inr [])
           (\<lambda>sums. and_then (get_memory_layout env)
           (\<lambda>layout. Inr \<lparr> ib_created_at = iev_now env, ib_code_hashes = code, ib_data_checksums = sums,
                          ib_library_hashes = libs, ib_memory_layout = layout, ib_control_flow_graph = [] \<rparr>)))))"

definition create_baseline :: "integrity_env \<Rightarrow> integrity_checker \<Rightarrow> integrity_checker \<times> (integrity_error + unit)" where
  "create_baseline env k =
     (case baseline_of env k of
        Inl e \<Rightarrow> (k, Inl e)
      | Inr b \<Rightarrow> (k\<lparr>ick_baseline := Some b\<rparr>, Inr ()))"

section \<open>The checks\<close>

text \<open>The identifiers of the at most four violations of one check are numbered by the check that found them.\<close>

definition new_violation ::
    "integrity_env \<Rightarrow> integrity_checker \<Rightarrow> nat \<Rightarrow> integrity_violation_type \<Rightarrow> violation_severity \<Rightarrow> (string, string) hashmap \<Rightarrow> integrity_violation" where
  "new_violation env k n ty severity context' =
     \<lparr> iv_id = iev_uuid env n, iv_violation_type = ty, iv_timestamp = iev_now env,
       iv_severity = severity, iv_source_process = ick_process_info k, iv_context = context', iv_status = Violation_New \<rparr>"

definition check_code_integrity ::
    "integrity_env \<Rightarrow> integrity_checker \<Rightarrow> integrity_baseline \<Rightarrow> integrity_error + integrity_violation option" where
  "check_code_integrity env k b =
     and_then (compute_file_hash env k (ick_executable_path k))
       (\<lambda>current. Inr (case hm_get (ib_code_hashes b) ''main'' of
            None \<Rightarrow> None
          | Some expected \<Rightarrow>
              if current \<noteq> expected
              then Some (new_violation env k 0
                     (CodeModification expected current
                        \<lparr> mr_start = 0, mr_end = 0, mr_size = 0, mr_protection = ''unknown'', mr_name = Some ''main_executable'' \<rparr>)
                     Violation_Critical [(''executable_path'', ick_executable_path k)])
              else None))"

fun check_checksums ::
    "integrity_env \<Rightarrow> integrity_checker \<Rightarrow> (string, string) hashmap \<Rightarrow> integrity_error + integrity_violation option" where
  "check_checksums env k [] = Inr None"
| "check_checksums env k ((p, expected) # m) =
     (if iev_files env p = None then check_checksums env k m
      else and_then (compute_file_hash env k p)
        (\<lambda>current. if current \<noteq> expected
                   then Inr (Some (new_violation env k 1 (DataCorruption expected current p) Violation_High [(''file_path'', p)]))
                   else check_checksums env k m))"

definition check_data_integrity where
  "check_data_integrity env k b = check_checksums env k (ib_data_checksums b)"

definition check_memory_integrity ::
    "integrity_env \<Rightarrow> integrity_checker \<Rightarrow> integrity_baseline \<Rightarrow> integrity_error + integrity_violation option" where
  "check_memory_integrity env k b =
     and_then (get_memory_layout env)
       (\<lambda>current. Inr (if length current \<noteq> length (ib_memory_layout b)
          then Some (new_violation env k 2 (MemoryProtectionViolation 0 ''memory_layout_change'' 0) Violation_High
                 [(''expected_regions'', show_nat (length (ib_memory_layout b))), (''actual_regions'', show_nat (length current))])
          else None))"

definition suspicious_mapping :: "memory_mapping \<Rightarrow> bool" where
  "suspicious_mapping m =
     ((starts_with (mm_path m) ''/tmp/'' \<or> starts_with (mm_path m) ''/var/tmp/'')
      \<and> (ends_with (mm_path m) ''.so'' \<or> contains_str (mm_path m) ''lib''))"

definition check_library_injection :: "integrity_env \<Rightarrow> integrity_checker \<Rightarrow> integrity_error + integrity_violation option" where
  "check_library_injection env k =
     and_then (read_memory_maps env)
       (\<lambda>maps. Inr (map_option (\<lambda>m. new_violation env k 3 (LibraryInjection (mm_path m) ''memory_mapping'') Violation_Critical
            [(''library_path'', mm_path m), (''memory_range'', iev_hex env (mm_start m) @ ''-'' @ iev_hex env (mm_end m))])
          (find suspicious_mapping maps)))"

datatype check_end = Check_Done | Check_Failed integrity_error | Process_Exit nat

text \<open>Alerts, clearing of memory and the core dump are only logged; a critical violation may end the process.\<close>

definition handle_violation :: "integrity_violation \<Rightarrow> integrity_checker \<Rightarrow> integrity_checker \<times> check_end" where
  "handle_violation v k =
     (let k1 = k\<lparr>ick_violations := ick_violations k @ [v]\<rparr>; r = icf_response_config (ick_config k)
      in if iv_severity v = Violation_Critical
         then if irc_enable_termination r then (k1, Process_Exit 1)
              else if irc_enable_secure_shutdown r then (k1, Process_Exit 0)
              else (k1, Check_Done)
         else (k1, Check_Done))"

fun handle_violations :: "integrity_violation list \<Rightarrow> integrity_checker \<Rightarrow> integrity_checker \<times> check_end" where
  "handle_violations [] k = (k, Check_Done)"
| "handle_violations (v # vs) k =
     (case handle_violation v k of
        (k1, Check_Done) \<Rightarrow> handle_violations vs k1
      | r \<Rightarrow> r)"

definition found_violations ::
    "integrity_env \<Rightarrow> integrity_checker \<Rightarrow> integrity_baseline \<Rightarrow> integrity_error + integrity_violation list" where
  "found_violations env k b =
     (let c = ick_config k
      in and_then (if icf_enable_code_integrity c then check_code_integrity env k b else Inr None)
           (\<lambda>v1. and_then (if icf_enable_data_integrity c then check_data_integrity env k b else Inr None)
           (\<lambda>v2. and_then (if icf_enable_memory_integrity c then check_memory_integrity env k b else Inr None)
           (\<lambda>v3. and_then (check_library_injection env k)
           (\<lambda>v4. Inr (concat (map (\<lambda>v. case v of Some x \<Rightarrow> [x] | None \<Rightarrow> []) [v1, v2, v3, v4])))))))"

definition perform_integrity_check :: "integrity_env \<Rightarrow> integrity_checker \<Rightarrow> integrity_checker \<times> check_end" where
  "perform_integrity_check env k =
     (case ick_baseline k of
        None \<Rightarrow> (k, Check_Failed No_Baseline)
      | Some b \<Rightarrow>
          (case found_violations env k b of
             Inl e \<Rightarrow> (k, Check_Failed e)
           | Inr vs \<Rightarrow> handle_violations vs k))"

definition clear_violations :: "integrity_checker \<Rightarrow> integrity_checker" where
  "clear_violations k = k\<lparr>ick_violations := []\<rparr>"

record integrity_report =
  irp_is_baseline_established :: bool
  irp_baseline_created_at :: "instant option"
  irp_total_violations :: nat
  irp_active_violations :: nat
  irp_last_violation :: "integrity_violation option"
  irp_last_check_time :: instant

definition get_integrity_status :: "instant \<Rightarrow> integrity_checker \<Rightarrow> integrity_report" where
  "get_integrity_status now k =
     \<lparr> irp_is_baseline_established = (ick_baseline k \<noteq> None), irp_baseline_created_at = map_option ib_created_at (ick_baseline k),
       irp_total_violations = length (ick_violations k),
       irp_active_violations =
         length (filter (\<lambda>v. iv_status v = Violation_New \<or> iv_status v = Violation_Investigating) (ick_violations k)),
       irp_last_violation = (if ick_violations k = [] then None else Some (last (ick_violations k))),
       irp_last_check_time = now \<rparr>"

section \<open>Control flow\<close>

record control_flow_integrity =
  cf_forward_edges :: "(usize, usize list) hashmap"
  cf_shadow_stack :: "usize list"

definition control_flow_new :: control_flow_integrity where
  "control_flow_new = \<lparr> cf_forward_edges = [], cf_shadow_stack = [] \<rparr>"

definition verify_indirect_call :: "usize \<Rightarrow> usize \<Rightarrow> control_flow_integrity \<Rightarrow> bool" where
  "verify_indirect_call caller target cf =
     (case hm_get (cf_forward_edges cf) caller of Some ts \<Rightarrow> target \<in> set ts | None \<Rightarrow> False)"

text \<open>The top of the stack is the end of the list.\<close>

definition push_return_address :: "usize \<Rightarrow> control_flow_integrity \<Rightarrow> control_flow_integrity" where
  "push_return_address addr cf = cf\<lparr>cf_shadow_stack := cf_shadow_stack cf @ [addr]\<rparr>"

definition verify_return_address :: "usize \<Rightarrow> control_flow_integrity \<Rightarrow> control_flow_integrity \<times> bool" where
  "verify_return_address addr cf =
     (if cf_shadow_stack cf = [] then (cf, False)
      else (cf\<lparr>cf_shadow_stack := butlast (cf_shadow_stack cf)\<rparr>, last (cf_shadow_stack cf) = addr))"

section \<open>Properties of the checks\<close>

lemma unchanged_checksums:
  "hash_paths env k ps = Inr m \<Longrightarrow> check_checksums env k m = Inr None"
proof (induction ps arbitrary: m)
  case (Cons p ps)
  then show ?case by (auto simp: fuji_res split: if_splits)
qed simp

lemma hash_same_config: "compute_file_hash env (k\<lparr>ick_baseline := b\<rparr>) p = compute_file_hash env k p"
  by (simp add: compute_file_hash_def split: option.split)

lemma baseline_parts:
  assumes "baseline_of env k = Inr b"
  shows "icf_enable_code_integrity (ick_config k) \<Longrightarrow>
      \<exists>h. compute_file_hash env k (ick_executable_path k) = Inr h \<and> ib_code_hashes b = [(''main'', h)]"
    and "icf_enable_data_integrity (ick_config k) \<Longrightarrow>
      hash_paths env k (icf_monitored_paths (ick_config k)) = Inr (ib_data_checksums b)"
    and "get_memory_layout env = Inr (ib_memory_layout b)"
  using assms by (auto simp: baseline_of_def Let_def fuji_res split: sum.splits if_splits)

lemma checksums_same_config: "check_checksums env (k\<lparr>ick_baseline := b\<rparr>) m = Inr None \<longleftrightarrow> check_checksums env k m = Inr None"
  by (induction m rule: check_checksums.induct [of _ env k])
    (auto simp: hash_same_config fuji_res split: sum.splits)

text \<open>a check right after the baseline was taken finds nothing, except a library mapped from a temporary directory.\<close>

theorem fresh_baseline_clean:
  assumes "create_baseline env k = (k', Inr ())" "read_memory_maps env = Inr maps" "find suspicious_mapping maps = None"
  shows "perform_integrity_check env k' = (k', Check_Done)"
proof -
  obtain b where b: "k' = k\<lparr>ick_baseline := Some b\<rparr>" and base: "baseline_of env k = Inr b"
    using assms(1) by (auto simp: create_baseline_def split: sum.splits)
  note parts = baseline_parts [OF base]
  have "icf_enable_code_integrity (ick_config k) \<Longrightarrow> check_code_integrity env k' b = Inr None"
    using parts(1) by (auto simp: check_code_integrity_def b hash_same_config hm_get_def)
  moreover have "icf_enable_data_integrity (ick_config k) \<Longrightarrow> check_data_integrity env k' b = Inr None"
    using unchanged_checksums [OF parts(2)] by (simp add: check_data_integrity_def b checksums_same_config)
  moreover have "check_memory_integrity env k' b = Inr None"
    by (simp add: check_memory_integrity_def parts(3) b)
  moreover have "check_library_injection env k' = Inr None"
    by (simp add: check_library_injection_def assms(2,3))
  moreover have "ick_config k' = ick_config k" by (simp add: b)
  ultimately have "found_violations env k' b = Inr []"
    by (simp add: found_violations_def Let_def cong: if_cong)
  then show ?thesis
    by (simp add: perform_integrity_check_def b)
qed

text \<open>a changed executable is found, is recorded first, and ends the process with the default response.\<close>

theorem changed_code_ends_process:
  assumes "ick_baseline k = Some b" "icf_enable_code_integrity (ick_config k)" "hm_get (ib_code_hashes b) ''main'' = Some expected"
    and "compute_file_hash env k (ick_executable_path k) = Inr current" "current \<noteq> expected"
    and "found_violations env k b = Inr vs" "icf_response_config (ick_config k) = integrity_response_default"
  shows "\<exists>v. perform_integrity_check env k = (k\<lparr>ick_violations := ick_violations k @ [v]\<rparr>, Process_Exit 0)
    \<and> (\<exists>region. iv_violation_type v = CodeModification expected current region)"
proof -
  obtain v vs' where v: "vs = v # vs'" "iv_severity v = Violation_Critical"
      "\<exists>region. iv_violation_type v = CodeModification expected current region"
    using assms(2-6)
    by (auto simp: found_violations_def check_code_integrity_def new_violation_def Let_def fuji_res split: sum.splits if_splits)
  with assms(1,6,7) show ?thesis
    by (intro exI [of _ v]) (simp add: perform_integrity_check_def handle_violation_def integrity_response_default_def)
qed

text \<open>an executable that cannot be read, removed by an update for instance, hides every other violation.\<close>

theorem unreadable_code_hides_all:
  assumes "ick_baseline k = Some b" "icf_enable_code_integrity (ick_config k)"
    and "read_file (iev_readable env) (iev_files env) (ick_executable_path k) = None"
  shows "perform_integrity_check env k = (k, Check_Failed (Read_Failed (ick_executable_path k)))"
  using assms
  by (simp add: perform_integrity_check_def found_violations_def check_code_integrity_def compute_file_hash_def Let_def)

text \<open>the hashes of the libraries are taken but never compared: two systems that differ in them alone, or in any file that
  is neither the executable nor among the files of the baseline, pass or fail alike.\<close>

theorem library_changes_unnoticed:
  assumes "fs (ick_executable_path k) = fs' (ick_executable_path k)"
    and "\<And>p. p \<in> fst ` set (ib_data_checksums b) \<Longrightarrow> fs p = fs' p"
    and "ick_baseline k = Some b"
  shows "perform_integrity_check (env\<lparr>iev_files := fs\<rparr>) k = perform_integrity_check (env\<lparr>iev_files := fs'\<rparr>) k"
proof -
  have hash: "compute_file_hash (env\<lparr>iev_files := fs\<rparr>) k p = compute_file_hash (env\<lparr>iev_files := fs'\<rparr>) k p" if "fs p = fs' p" for p
    using that by (simp add: compute_file_hash_def read_file_def split: option.split)
  have viol: "new_violation (env\<lparr>iev_files := gs\<rparr>) = new_violation env" for gs
    by (intro ext) (simp add: new_violation_def)
  have "check_checksums (env\<lparr>iev_files := fs\<rparr>) k m = check_checksums (env\<lparr>iev_files := fs'\<rparr>) k m"
    if "\<And>p. p \<in> fst ` set m \<Longrightarrow> fs p = fs' p" for m
    using that
  proof (induction m)
    case (Cons e m)
    then show ?case using hash by (cases e) (auto simp: viol cong: if_cong)
  qed simp
  with assms hash show ?thesis
    by (simp add: perform_integrity_check_def found_violations_def check_code_integrity_def check_data_integrity_def
        check_memory_integrity_def check_library_injection_def get_memory_layout_def read_memory_maps_def viol cong: if_cong option.case_cong)
qed

definition sample_checker :: integrity_checker where
  "sample_checker =
     \<lparr> ick_config = integrity_config_default,
       ick_baseline = Some \<lparr> ib_created_at = 0, ib_code_hashes = [(''main'', ''code'')], ib_data_checksums = [(''/etc/ld.so.cache'', ''d'')],
         ib_library_hashes = [(''libc.so.6'', ''good'')], ib_memory_layout = [], ib_control_flow_graph = [] \<rparr>,
       ick_violations = [], ick_executable_path = ''/bin/fuji'',
       ick_process_info = \<lparr> pi_pid = 1, pi_ppid = 0, pi_process_name = ''fuji'', pi_command_line = [], pi_executable_path = ''/bin/fuji'',
         pi_uid = 0, pi_gid = 0, pi_start_time = 0 \<rparr> \<rparr>"

definition sample_env :: integrity_env where
  "sample_env =
     \<lparr> iev_hash = (\<lambda>_ s. s), iev_files = [''/bin/fuji'' \<mapsto> ''code'', ''/etc/ld.so.cache'' \<mapsto> ''d''], iev_readable = (\<lambda>_. True),
       iev_maps = Some [], iev_now = 0, iev_uuid = (\<lambda>_. ''id''), iev_hex = (\<lambda>_. ''0'') \<rparr>"

theorem library_changes_unnoticed_witness:
  "perform_integrity_check (sample_env\<lparr>iev_files := (iev_files sample_env)(''/lib/libc.so.6'' \<mapsto> ''evil'')\<rparr>) sample_checker
   = perform_integrity_check (sample_env\<lparr>iev_files := (iev_files sample_env)(''/lib/libc.so.6'' \<mapsto> ''good'')\<rparr>) sample_checker"
  by (rule library_changes_unnoticed) (auto simp: sample_checker_def sample_env_def)

section \<open>Properties of the shadow stack\<close>

datatype call_event = Call usize | Return usize

fun run_calls :: "call_event list \<Rightarrow> control_flow_integrity \<Rightarrow> control_flow_integrity \<times> bool" where
  "run_calls [] cf = (cf, True)"
| "run_calls (Call a # es) cf = run_calls es (push_return_address a cf)"
| "run_calls (Return a # es) cf =
     (case verify_return_address a cf of
        (cf', ok) \<Rightarrow> (case run_calls es cf' of (cf'', rest) \<Rightarrow> (cf'', ok \<and> rest)))"

inductive nested :: "call_event list \<Rightarrow> bool" where
  empty_trace: "nested []"
| call_trace: "nested es \<Longrightarrow> nested es' \<Longrightarrow> nested (Call a # es @ Return a # es')"

lemma run_calls_append:
  "run_calls (es @ es') cf =
     (case run_calls es cf of (cf', ok) \<Rightarrow> (case run_calls es' cf' of (cf'', ok') \<Rightarrow> (cf'', ok \<and> ok')))"
  by (induction es cf rule: run_calls.induct) (auto split: prod.splits)

lemma nested_runs: "nested es \<Longrightarrow> run_calls es cf = (cf, True)"
proof (induction es arbitrary: cf rule: nested.induct)
  case (call_trace es es' a)
  then show ?case
    by (simp add: run_calls_append push_return_address_def verify_return_address_def)
qed simp

text \<open>every properly nested sequence of calls and returns passes and leaves the stack as it was, and a return to another
  address than the one it was called from is found.\<close>

theorem nested_calls_verified:
  assumes "nested es"
  shows "run_calls es cf = (cf, True)"
    and "a \<noteq> b \<Longrightarrow> \<not> snd (run_calls (Call a # es @ Return b # es') cf)"
  using assms
  by (simp_all add: run_calls_append nested_runs push_return_address_def verify_return_address_def split: prod.splits)

theorem nested_calls_verified_witness:
  "snd (run_calls [Call 1, Call 2, Return 2, Return 1] control_flow_new)
   \<and> \<not> snd (run_calls [Call 1, Call 2, Return 2, Return 3] control_flow_new)"
proof -
  have "nested [Call 2, Return 2]" using call_trace [OF empty_trace empty_trace, of 2] by simp
  moreover have "nested [Call 1, Call 2, Return 2, Return 1]"
    using call_trace [OF \<open>nested [Call 2, Return 2]\<close> empty_trace, of 1] by simp
  ultimately show ?thesis
    using nested_calls_verified(1) [of "[Call 1, Call 2, Return 2, Return 1]" control_flow_new]
      nested_calls_verified(2) [of "[Call 2, Return 2]" 1 3 "[]" control_flow_new] by simp
qed

end
