(* ===== verification/Integrity_Runtime.thy ===== *)
theory Integrity_Runtime
  imports Integrity
begin

text \<open>
  The rest of \<open>src/security/integrity.rs\<close>: making and running the checker, the protection of memory and the
  secure boot verifier.

  A round of the monitoring is one check; a round that fails is logged and the next one follows, one that ends
  the process ends all.  \<open>mprotect\<close> is an argument that may change the protection of any page or refuse.
\<close>

section \<open>Making and running the checker\<close>

definition hash_bytes :: "(hash_algorithm \<Rightarrow> string \<Rightarrow> string) \<Rightarrow> hash_algorithm \<Rightarrow> string \<Rightarrow> string" where
  "hash_bytes digest alg s = digest alg s"

definition hash_string :: "(string \<Rightarrow> string) \<Rightarrow> (hash_algorithm \<Rightarrow> string \<Rightarrow> string) \<Rightarrow> hash_algorithm \<Rightarrow> string \<Rightarrow> string" where
  "hash_string hex digest alg s = hex (hash_bytes digest alg s)"

definition hash_data :: "(hash_algorithm \<Rightarrow> string \<Rightarrow> string) \<Rightarrow> string \<Rightarrow> string" where
  "hash_data digest = hash_bytes digest Sha256"

record process_view =
  pv_pid :: u32
  pv_ppid :: u32
  pv_args :: "string list"
  pv_current_exe :: "string option"
  pv_uid :: u32
  pv_gid :: u32
  pv_now :: instant

text \<open>The last component of a path, \<open>file_name\<close>.\<close>

definition file_name_of :: "string \<Rightarrow> string option" where
  "file_name_of p = (case rev (path_components p) of Normal n # _ \<Rightarrow> Some n | _ \<Rightarrow> None)"

definition get_process_info :: "process_view \<Rightarrow> process_info" where
  "get_process_info v =
     (let exe = (case pv_current_exe v of Some p \<Rightarrow> p | None \<Rightarrow> ''unknown'')
      in \<lparr> pi_pid = pv_pid v, pi_ppid = pv_ppid v,
           pi_process_name = (case file_name_of exe of Some n \<Rightarrow> n | None \<Rightarrow> ''unknown''),
           pi_command_line = join '' '' (pv_args v), pi_executable_path = exe, pi_uid = pv_uid v, pi_gid = pv_gid v,
           pi_start_time = pv_now v \<rparr>)"

definition integrity_checker_new :: "process_view \<Rightarrow> integrity_config \<Rightarrow> integrity_checker" where
  "integrity_checker_new v c =
     \<lparr> ick_config = c, ick_baseline = None, ick_violations = [],
       ick_executable_path = (case pv_current_exe v of Some p \<Rightarrow> p | None \<Rightarrow> ''/proc/self/exe''),
       ick_process_info = get_process_info v \<rparr>"

text \<open>The rounds of the monitoring, one environment each: \<open>Some\<close> is the code with which the process ends.\<close>

fun monitoring_rounds :: "integrity_env list \<Rightarrow> integrity_checker \<Rightarrow> integrity_checker \<times> nat option" where
  "monitoring_rounds [] k = (k, None)"
| "monitoring_rounds (env # envs) k =
     (case perform_integrity_check env k of
        (k1, Process_Exit n) \<Rightarrow> (k1, Some n)
      | (k1, _) \<Rightarrow> monitoring_rounds envs k1)"

definition initialize_checker ::
    "integrity_env \<Rightarrow> integrity_env list \<Rightarrow> integrity_checker \<Rightarrow> integrity_checker \<times> (integrity_error + nat option)" where
  "initialize_checker env envs k =
     (case create_baseline env k of
        (k1, Inl e) \<Rightarrow> (k1, Inl e)
      | (k1, Inr _) \<Rightarrow> (case monitoring_rounds envs k1 of (k2, r) \<Rightarrow> (k2, Inr r)))"

definition update_baseline :: "integrity_env \<Rightarrow> integrity_checker \<Rightarrow> integrity_checker \<times> (integrity_error + unit)" where
  "update_baseline = create_baseline"

definition recorded_violations :: "integrity_checker \<Rightarrow> integrity_violation list" where
  "recorded_violations = ick_violations"

section \<open>Memory\<close>

record prot_flags =
  pf_read :: bool
  pf_write :: bool
  pf_exec :: bool

definition prot_read :: prot_flags where "prot_read = \<lparr> pf_read = True, pf_write = False, pf_exec = False \<rparr>"
definition prot_exec :: prot_flags where "prot_exec = \<lparr> pf_read = False, pf_write = False, pf_exec = True \<rparr>"
definition prot_read_write :: prot_flags where "prot_read_write = \<lparr> pf_read = True, pf_write = True, pf_exec = False \<rparr>"

record process_memory =
  pm_bytes :: "usize \<Rightarrow> u8"
  pm_flags :: "usize \<Rightarrow> prot_flags"

record memory_protector =
  mp_regions :: "(usize \<times> usize \<times> prot_flags) list"
  mp_memory :: process_memory

type_synonym mprotect = "usize \<Rightarrow> usize \<Rightarrow> prot_flags \<Rightarrow> process_memory \<Rightarrow> process_memory \<times> bool"

text \<open>The documented behaviour of \<open>mprotect\<close>: where it succeeds, every byte of the range has the flags, and no byte
  of the memory changes.\<close>

definition mprotect_ok :: "mprotect \<Rightarrow> bool" where
  "mprotect_ok mp \<longleftrightarrow>
     (\<forall>addr len flags m m' ok. mp addr len flags m = (m', ok) \<longrightarrow>
        pm_bytes m' = pm_bytes m
        \<and> (ok \<longrightarrow> (\<forall>i < unat len. pm_flags m' (addr + of_nat i) = flags)))"

definition memory_protector_new :: "process_memory \<Rightarrow> memory_protector" where
  "memory_protector_new m = \<lparr> mp_regions = [], mp_memory = m \<rparr>"

definition protect_region :: "mprotect \<Rightarrow> usize \<Rightarrow> usize \<Rightarrow> prot_flags \<Rightarrow> memory_protector \<Rightarrow> memory_protector \<times> bool" where
  "protect_region mp addr len flags p =
     (case mp addr len flags (mp_memory p) of
        (m, False) \<Rightarrow> (p\<lparr>mp_memory := m\<rparr>, False)
      | (m, True) \<Rightarrow> (p\<lparr>mp_memory := m, mp_regions := mp_regions p @ [(addr, len, flags)]\<rparr>, True))"

definition make_readonly :: "mprotect \<Rightarrow> usize \<Rightarrow> usize \<Rightarrow> memory_protector \<Rightarrow> memory_protector \<times> bool" where
  "make_readonly mp addr len = protect_region mp addr len prot_read"

definition make_execute_only :: "mprotect \<Rightarrow> usize \<Rightarrow> usize \<Rightarrow> memory_protector \<Rightarrow> memory_protector \<times> bool" where
  "make_execute_only mp addr len = protect_region mp addr len prot_exec"

text \<open>\<open>write_bytes\<close>\<close>

definition fill_zero :: "usize \<Rightarrow> usize \<Rightarrow> process_memory \<Rightarrow> process_memory" where
  "fill_zero addr len m = m\<lparr>pm_bytes := (\<lambda>a. if unat (a - addr) < unat len then 0 else pm_bytes m a)\<rparr>"

definition secure_clear :: "mprotect \<Rightarrow> usize \<Rightarrow> usize \<Rightarrow> memory_protector \<Rightarrow> memory_protector \<times> bool" where
  "secure_clear mp addr len p =
     (case mp addr len prot_read_write (mp_memory p) of
        (m1, False) \<Rightarrow> (p\<lparr>mp_memory := m1\<rparr>, False)
      | (m1, True) \<Rightarrow>
          (case mp addr len prot_read (fill_zero addr len m1) of
             (m2, ok) \<Rightarrow> (p\<lparr>mp_memory := m2\<rparr>, ok)))"

section \<open>Secure boot\<close>

record secure_boot_verifier =
  sb_measurements :: "(string, string) hashmap"
  sb_pcr_values :: "(u32, string) hashmap"

definition secure_boot_new :: secure_boot_verifier where
  "secure_boot_new = \<lparr> sb_measurements = [], sb_pcr_values = [] \<rparr>"

definition verify_boot_measurements :: "secure_boot_verifier \<Rightarrow> bool" where
  "verify_boot_measurements v = True"

definition extend_measurement :: "string \<Rightarrow> string \<Rightarrow> secure_boot_verifier \<Rightarrow> secure_boot_verifier" where
  "extend_measurement component' h v = v\<lparr>sb_measurements := hm_insert component' h (sb_measurements v)\<rparr>"

definition get_pcr_value :: "u32 \<Rightarrow> secure_boot_verifier \<Rightarrow> string option" where
  "get_pcr_value i v = hm_get (sb_pcr_values v) i"

section \<open>Properties\<close>

text \<open>after a secure clear the range holds zeros and can be read only, whatever was protected before: a region that was
  made execute-only is still recorded as such and is neither executable nor unreadable.\<close>

theorem cleared_region_readable:
  assumes "mprotect_ok mp" and "make_execute_only mp addr len p = (p1, True)" and "secure_clear mp addr len p1 = (p2, True)"
    and "i < unat len"
  shows "pm_bytes (mp_memory p2) (addr + of_nat i) = 0
    \<and> pm_flags (mp_memory p2) (addr + of_nat i) = prot_read
    \<and> (addr, len, prot_exec) \<in> set (mp_regions p2)"
proof -
  from assms(2) have r1: "(addr, len, prot_exec) \<in> set (mp_regions p1)"
    by (auto simp: make_execute_only_def protect_region_def split: prod.splits bool.splits)
  obtain m1 where m1: "mp addr len prot_read_write (mp_memory p1) = (m1, True)"
    and m2: "mp addr len prot_read (fill_zero addr len m1) = (mp_memory p2, True)" and r2: "mp_regions p2 = mp_regions p1"
    using assms(3) by (auto simp: secure_clear_def split: prod.splits bool.splits)
  have "i < 2 ^ 64" using assms(4) unsigned_less [where 'a = nat, of len] by simp
  then have "unat (of_nat i :: usize) = i" by (simp add: unat_of_nat)
  then have "pm_bytes (fill_zero addr len m1) (addr + of_nat i) = 0" using assms(4) by (simp add: fill_zero_def)
  with m2 r1 r2 assms(1,4) show ?thesis unfolding mprotect_ok_def by metis
qed

definition sample_mprotect :: mprotect where
  "sample_mprotect addr len flags m =
     (m\<lparr>pm_flags := (\<lambda>a. if unat (a - addr) < unat len then flags else pm_flags m a)\<rparr>, True)"

lemma sample_mprotect_ok: "mprotect_ok sample_mprotect"
proof -
  have "unat ((addr + of_nat i) - addr) < unat len" if "i < unat len" for addr len :: usize and i
  proof -
    have "i < 2 ^ 64" using that unsigned_less [where 'a = nat, of len] by simp
    then have "unat (of_nat i :: usize) = i" by (simp add: unat_of_nat)
    then show ?thesis using that by simp
  qed
  then show ?thesis by (auto simp: mprotect_ok_def sample_mprotect_def)
qed

theorem cleared_region_readable_witness:
  "\<exists>p1 p2. make_execute_only sample_mprotect 4096 16 (memory_protector_new \<lparr> pm_bytes = (\<lambda>_. 7), pm_flags = (\<lambda>_. prot_read) \<rparr>) = (p1, True)
     \<and> secure_clear sample_mprotect 4096 16 p1 = (p2, True) \<and> pm_bytes (mp_memory p2) (4096 + of_nat 3) = 0"
proof -
  let ?p = "memory_protector_new \<lparr> pm_bytes = (\<lambda>_. 7), pm_flags = (\<lambda>_. prot_read) \<rparr>"
  obtain p1 where 1: "make_execute_only sample_mprotect 4096 16 ?p = (p1, True)"
    by (simp add: make_execute_only_def protect_region_def sample_mprotect_def)
  obtain p2 where 2: "secure_clear sample_mprotect 4096 16 p1 = (p2, True)"
    by (simp add: secure_clear_def sample_mprotect_def)
  from cleared_region_readable [OF sample_mprotect_ok 1 2, of 3] 1 2 show ?thesis by auto
qed

text \<open>the boot counts as verified whatever was measured, a second measurement replaces the first instead of extending it,
  and the registers stay empty.\<close>

theorem boot_always_verified:
  "let v = fold (\<lambda>(c, h). extend_measurement c h) ms secure_boot_new
   in verify_boot_measurements v \<and> get_pcr_value i v = None
      \<and> hm_get (sb_measurements (extend_measurement c h v)) c = Some h"
proof -
  have "sb_pcr_values (fold (\<lambda>(c, h). extend_measurement c h) ms v) = sb_pcr_values v" for v
    by (induction ms arbitrary: v) (auto simp: extend_measurement_def)
  then show ?thesis
    by (simp add: Let_def verify_boot_measurements_def get_pcr_value_def secure_boot_new_def hm.get_empty extend_measurement_def
        hm.get_insert)
qed

text \<open>an executable that changes between two rounds ends the monitoring at the second one with the default response,
  with code 0, a success to whoever started the process.\<close>

theorem changed_code_exits_with_success:
  assumes "perform_integrity_check env1 k = (k, Check_Done)" and "ick_baseline k = Some b"
    and "icf_enable_code_integrity (ick_config k)" and "hm_get (ib_code_hashes b) ''main'' = Some expected"
    and "compute_file_hash env2 k (ick_executable_path k) = Inr current" and "current \<noteq> expected"
    and "found_violations env2 k b = Inr vs" and "icf_response_config (ick_config k) = integrity_response_default"
  shows "\<exists>k'. monitoring_rounds (env1 # env2 # envs) k = (k', Some 0) \<and> length (ick_violations k') = Suc (length (ick_violations k))"
proof -
  from changed_code_ends_process [OF assms(2-8)] obtain v where
    "perform_integrity_check env2 k = (k\<lparr>ick_violations := ick_violations k @ [v]\<rparr>, Process_Exit 0)" by blast
  with assms(1) show ?thesis by simp
qed

end
