(* ===== verification/Credential_Interface.thy ===== *)
theory Credential_Interface
  imports Fuji_Prelude
begin

text \<open>
  The trait \<open>CredentialProvider\<close> of \<open>src/security/mod.rs\<close>: the credential, and the contract of a store as the locale
  \<open>credential_store\<close>.  The laws hold where \<open>inv\<close> holds of the store and \<open>good\<close> of the circumstances of the call (the
  random bytes it draws, the answers of the operating system).  What follows for every store is proved once: any history
  of successful calls is that of a plain map.
\<close>

section \<open>Results that may also panic\<close>

fun oc_then :: "('e + 'a) outcome \<Rightarrow> ('a \<Rightarrow> ('e + 'b) outcome) \<Rightarrow> ('e + 'b) outcome" where
  "oc_then (Returned (Inl e)) f = Returned (Inl e)"
| "oc_then (Returned (Inr x)) f = f x"
| "oc_then Blocked f = Blocked"
| "oc_then Panicked f = Panicked"

fun oc_map :: "('a \<Rightarrow> 'b) \<Rightarrow> ('e + 'a) outcome \<Rightarrow> ('e + 'b) outcome" where
  "oc_map f (Returned (Inl e)) = Returned (Inl e)"
| "oc_map f (Returned (Inr x)) = Returned (Inr (f x))"
| "oc_map f Blocked = Blocked"
| "oc_map f Panicked = Panicked"

lemma oc_then_Inr_iff [fuji_res]:
  "oc_then r f = Returned (Inr y) \<longleftrightarrow> (\<exists>x. r = Returned (Inr x) \<and> f x = Returned (Inr y))"
  by (cases "(r, f)" rule: oc_then.cases) auto

lemma oc_map_Inr_iff [fuji_res]: "oc_map f r = Returned (Inr y) \<longleftrightarrow> (\<exists>x. r = Returned (Inr x) \<and> y = f x)"
  by (cases "(f, r)" rule: oc_map.cases) auto

lemma oc_map_Inl_iff: "oc_map f r = Returned (Inl e) \<longleftrightarrow> r = Returned (Inl e)"
  by (cases "(f, r)" rule: oc_map.cases) auto

section \<open>Credentials\<close>

record credential =
  cd_username :: string
  cd_password :: string
  cd_domain :: "string option"
  cd_metadata :: "(string, string) hashmap"

type_synonym credentials = "(string, credential) hashmap"

datatype credential_op = Store_Op string credential | Delete_Op string

fun apply_op :: "credential_op \<Rightarrow> (string \<Rightarrow> credential option) \<Rightarrow> (string \<Rightarrow> credential option)" where
  "apply_op (Store_Op k c) m = m(k := Some c)"
| "apply_op (Delete_Op k) m = m(k := None)"

text \<open>The history of a store: each call with its circumstances; it ends at the first call that does not succeed.\<close>

fun run_ops ::
    "('i \<Rightarrow> string \<Rightarrow> credential \<Rightarrow> 'w \<Rightarrow> 'w \<times> ('e + unit) outcome) \<Rightarrow> ('i \<Rightarrow> string \<Rightarrow> 'w \<Rightarrow> 'w \<times> ('e + unit) outcome)
     \<Rightarrow> ('i \<times> credential_op) list \<Rightarrow> 'w \<Rightarrow> 'w option" where
  "run_ops put del [] w = Some w"
| "run_ops put del ((i, a) # ops) w =
     (case (case a of Store_Op k c \<Rightarrow> put i k c w | Delete_Op k \<Rightarrow> del i k w) of
        (w', Returned (Inr u)) \<Rightarrow> run_ops put del ops w'
      | _ \<Rightarrow> None)"

locale credential_store =
  fixes inv :: "'p \<Rightarrow> 'w \<Rightarrow> bool"
    and good :: "'i \<Rightarrow> bool"
    and put :: "'p \<Rightarrow> 'i \<Rightarrow> string \<Rightarrow> credential \<Rightarrow> 'w \<Rightarrow> 'w \<times> ('e + unit) outcome"
    and get :: "'p \<Rightarrow> 'i \<Rightarrow> 'w \<Rightarrow> string \<Rightarrow> ('e + credential option) outcome"
    and del :: "'p \<Rightarrow> 'i \<Rightarrow> string \<Rightarrow> 'w \<Rightarrow> 'w \<times> ('e + unit) outcome"
  assumes put_inv: "inv p w \<Longrightarrow> good i \<Longrightarrow> inv p (fst (put p i k c w))"
    and del_inv: "inv p w \<Longrightarrow> good i \<Longrightarrow> inv p (fst (del p i k w))"
    and put_get: "inv p w \<Longrightarrow> good i \<Longrightarrow> put p i k c w = (w', Returned (Inr ())) \<Longrightarrow> good j \<Longrightarrow> get p j w k' = Returned (Inr v) \<Longrightarrow>
      get p j w' k' = Returned (Inr (if k' = k then Some c else v))"
    and del_get: "inv p w \<Longrightarrow> good i \<Longrightarrow> del p i k w = (w', Returned (Inr ())) \<Longrightarrow> good j \<Longrightarrow> get p j w k' = Returned (Inr v) \<Longrightarrow>
      get p j w' k' = Returned (Inr (if k' = k then None else v))"
begin

lemma step_simulates:
  assumes "inv p w" "good i" "good j" "\<And>k. get p j w k = Returned (Inr (m k))"
    and "(case a of Store_Op k c \<Rightarrow> put p i k c w | Delete_Op k \<Rightarrow> del p i k w) = (w', Returned (Inr ()))"
  shows "inv p w' \<and> (\<forall>k. get p j w' k = Returned (Inr (apply_op a m k)))"
proof (cases a)
  case (Store_Op k c)
  with assms put_inv [OF assms(1,2), of k c] put_get [OF assms(1,2) _ assms(3) assms(4)] show ?thesis by auto
next
  case (Delete_Op k)
  with assms del_inv [OF assms(1,2), of k] del_get [OF assms(1,2) _ assms(3) assms(4)] show ?thesis by auto
qed

lemma history_simulates:
  assumes "run_ops (put p) (del p) ops w = Some w'" "inv p w" "list_all (good \<circ> fst) ops" "good j"
    and "\<And>k. get p j w k = Returned (Inr (m k))"
  shows "inv p w' \<and> (\<forall>k. get p j w' k = Returned (Inr (fold (apply_op \<circ> snd) ops m k)))"
  using assms
proof (induction ops arbitrary: w m)
  case (Cons ia ops)
  obtain i a where ia: "ia = (i, a)" by (cases ia)
  from Cons.prems(1) obtain w1 where
    w1: "(case a of Store_Op k c \<Rightarrow> put p i k c w | Delete_Op k \<Rightarrow> del p i k w) = (w1, Returned (Inr ()))"
      "run_ops (put p) (del p) ops w1 = Some w'"
    by (auto simp: ia split: prod.splits outcome.splits sum.splits)
  from step_simulates [OF Cons.prems(2) _ Cons.prems(4,5) w1(1)] Cons.prems(3)
  have "inv p w1" "\<And>k. get p j w1 k = Returned (Inr (apply_op a m k))" by (auto simp: ia)
  from Cons.IH [OF w1(2) this(1) _ Cons.prems(4) this(2)] Cons.prems(3) show ?case by (simp add: ia)
qed auto

end

end
