(* ===== verification/Encryption.thy ===== *)
theory Encryption
  imports Fuji_Prelude Complex_Main
begin

text \<open>
  Keys and authenticated encryption (\<open>src/security/encryption.rs\<close>, \<open>src/security/key_derivation.rs\<close>).  A byte string is
  a \<open>string\<close>, whose characters are its bytes.  The ciphers, PBKDF2, HKDF, SHA-256, base64 and hexadecimal printing of the
  crates are the fields of \<open>crypto\<close>; random bytes and the clock are arguments.  \<open>Nonce::from_slice\<close> panics on a slice of
  another length than twelve.
\<close>

section \<open>What the crates provide\<close>

datatype encryption_algorithm = Aes256Gcm | ChaCha20Poly1305

datatype pbkdf2_prf = Hmac_Sha256 | Hmac_Sha512

record crypto =
  cy_seal :: "encryption_algorithm \<Rightarrow> string \<Rightarrow> string \<Rightarrow> string \<Rightarrow> string option"
  cy_open :: "encryption_algorithm \<Rightarrow> string \<Rightarrow> string \<Rightarrow> string \<Rightarrow> string option"
  cy_pbkdf2 :: "pbkdf2_prf \<Rightarrow> string \<Rightarrow> string \<Rightarrow> u32 \<Rightarrow> nat \<Rightarrow> string"
  cy_hkdf :: "string \<Rightarrow> string \<Rightarrow> string list \<Rightarrow> string"
  cy_sha256 :: "string \<Rightarrow> string"
  cy_b64_encode :: "string \<Rightarrow> string"
  cy_b64_decode :: "string \<Rightarrow> string option"
  cy_hex_encode :: "string \<Rightarrow> string"
  cy_hex_decode :: "string \<Rightarrow> string option"

text \<open>What the crates document: decoding undoes encoding, opening undoes sealing under the same key and nonce, and derived
  keys have the length that is asked for.\<close>

definition crypto_ok :: "crypto \<Rightarrow> bool" where
  "crypto_ok cy =
     ((\<forall>b. cy_b64_decode cy (cy_b64_encode cy b) = Some b)
      \<and> (\<forall>b. cy_hex_decode cy (cy_hex_encode cy b) = Some b)
      \<and> (\<forall>alg key nonce p c. cy_seal cy alg key nonce p = Some c \<longrightarrow> cy_open cy alg key nonce c = Some p)
      \<and> (\<forall>prf pw salt n len. length (cy_pbkdf2 cy prf pw salt n len) = len)
      \<and> (\<forall>salt ikm info. length (cy_hkdf cy salt ikm info) = 32))"

definition crypto_sample :: crypto where
  "crypto_sample =
     \<lparr> cy_seal = (\<lambda>alg key nonce p. Some (key @ nonce @ p)),
       cy_open = (\<lambda>alg key nonce c. if take (length key + length nonce) c = key @ nonce
                                    then Some (drop (length key + length nonce) c) else None),
       cy_pbkdf2 = (\<lambda>_ pw salt n len. take len (pw @ salt @ replicate len CHR ''0'')),
       cy_hkdf = (\<lambda>salt ikm info. take 32 (rev (salt @ ikm @ concat info) @ replicate 32 CHR ''0'')), cy_sha256 = (\<lambda>b. b),
       cy_b64_encode = (\<lambda>b. b), cy_b64_decode = Some, cy_hex_encode = (\<lambda>b. b), cy_hex_decode = Some \<rparr>"

lemma crypto_sample_ok: "crypto_ok crypto_sample"
  by (auto simp: crypto_ok_def crypto_sample_def)

text \<open>The bytes of a \<open>String\<close>: well-formed UTF-8.\<close>

definition byte_in :: "nat \<Rightarrow> nat \<Rightarrow> char \<Rightarrow> bool" where
  "byte_in a b c = (a \<le> char_code c \<and> char_code c \<le> b)"

fun utf8_ok :: "string \<Rightarrow> bool" where
  "utf8_ok [] = True"
| "utf8_ok (a # s) =
     (if byte_in 0 127 a then utf8_ok s
      else case s of
        [] \<Rightarrow> False
      | b # s1 \<Rightarrow>
          if byte_in 0xC2 0xDF a then byte_in 0x80 0xBF b \<and> utf8_ok s1
          else case s1 of
            [] \<Rightarrow> False
          | c # s2 \<Rightarrow>
              if byte_in 0xE0 0xEF a
              then byte_in (if char_code a = 0xE0 then 0xA0 else 0x80) (if char_code a = 0xED then 0x9F else 0xBF) b
                   \<and> byte_in 0x80 0xBF c \<and> utf8_ok s2
              else case s2 of
                [] \<Rightarrow> False
              | d # s3 \<Rightarrow>
                  byte_in 0xF0 0xF4 a
                  \<and> byte_in (if char_code a = 0xF0 then 0x90 else 0x80) (if char_code a = 0xF4 then 0x8F else 0xBF) b
                  \<and> byte_in 0x80 0xBF c \<and> byte_in 0x80 0xBF d \<and> utf8_ok s3)"

section \<open>Algorithms and their configuration\<close>

fun algorithm_display_name :: "encryption_algorithm \<Rightarrow> string" where
  "algorithm_display_name Aes256Gcm = ''AES-256-GCM''"
| "algorithm_display_name ChaCha20Poly1305 = ''ChaCha20-Poly1305''"

fun algorithm_identifier :: "encryption_algorithm \<Rightarrow> string" where
  "algorithm_identifier Aes256Gcm = ''aes-256-gcm''"
| "algorithm_identifier ChaCha20Poly1305 = ''chacha20-poly1305''"

fun key_size :: "encryption_algorithm \<Rightarrow> nat" where
  "key_size Aes256Gcm = 32"
| "key_size ChaCha20Poly1305 = 32"

fun nonce_size :: "encryption_algorithm \<Rightarrow> nat" where
  "nonce_size Aes256Gcm = 12"
| "nonce_size ChaCha20Poly1305 = 12"

fun is_recommended :: "encryption_algorithm \<Rightarrow> bool" where
  "is_recommended Aes256Gcm = True"
| "is_recommended ChaCha20Poly1305 = True"

record algorithm_characteristics =
  ac_hardware_acceleration :: bool
  ac_constant_time_operations :: bool
  ac_side_channel_resistance :: string
  ac_best_for :: string

fun performance_characteristics :: "encryption_algorithm \<Rightarrow> algorithm_characteristics" where
  "performance_characteristics Aes256Gcm =
     \<lparr> ac_hardware_acceleration = True, ac_constant_time_operations = True,
       ac_side_channel_resistance = ''High (with constant-time implementations)'',
       ac_best_for = ''High-throughput environments with hardware acceleration'' \<rparr>"
| "performance_characteristics ChaCha20Poly1305 =
     \<lparr> ac_hardware_acceleration = False, ac_constant_time_operations = True,
       ac_side_channel_resistance = ''Very High (designed for side-channel resistance)'',
       ac_best_for = ''Software-only environments and side-channel resistance'' \<rparr>"

record encryption_config =
  enc_algorithm :: encryption_algorithm
  enc_pbkdf2_iterations :: u32
  enc_parameters :: "(string, string) hashmap"

definition encryption_config_new :: "encryption_algorithm \<Rightarrow> encryption_config" where
  "encryption_config_new alg = \<lparr> enc_algorithm = alg, enc_pbkdf2_iterations = 120000, enc_parameters = [] \<rparr>"

definition encryption_config_default :: encryption_config where
  "encryption_config_default = \<lparr> enc_algorithm = Aes256Gcm, enc_pbkdf2_iterations = 120000, enc_parameters = [] \<rparr>"

definition security_optimized :: encryption_config where
  "security_optimized =
     \<lparr> enc_algorithm = ChaCha20Poly1305, enc_pbkdf2_iterations = 200000,
       enc_parameters = hm_insert ''constant_time_ops'' ''true'' (hm_insert ''security_level'' ''high'' []) \<rparr>"

definition performance_optimized :: encryption_config where
  "performance_optimized =
     \<lparr> enc_algorithm = Aes256Gcm, enc_pbkdf2_iterations = 120000,
       enc_parameters = hm_insert ''security_level'' ''standard'' [] \<rparr>"

definition with_iterations :: "u32 \<Rightarrow> encryption_config \<Rightarrow> encryption_config" where
  "with_iterations n c = c\<lparr>enc_pbkdf2_iterations := n\<rparr>"

definition with_parameter :: "string \<Rightarrow> string \<Rightarrow> encryption_config \<Rightarrow> encryption_config" where
  "with_parameter k v c = c\<lparr>enc_parameters := hm_insert k v (enc_parameters c)\<rparr>"

datatype encryption_error =
    Key_Length nat
  | Encrypt_Failed
  | Decrypt_Failed
  | Algorithm_Mismatch encryption_algorithm encryption_algorithm
  | Nonce_Encoding
  | Ciphertext_Encoding
  | Tag_Encoding
  | Iterations_Low u32
  | Not_Recommended encryption_algorithm

definition validate_security_params :: "encryption_config \<Rightarrow> encryption_error + unit" where
  "validate_security_params c =
     (if enc_pbkdf2_iterations c < 60000 then Inl (Iterations_Low (enc_pbkdf2_iterations c))
      else if \<not> is_recommended (enc_algorithm c) then Inl (Not_Recommended (enc_algorithm c))
      else Inr ())"

definition get_security_recommendations :: "encryption_algorithm \<Rightarrow> string list" where
  "get_security_recommendations alg =
     [''Use '' @ algorithm_display_name alg @ '' as primary encryption algorithm'']
     @ (case alg of
          ChaCha20Poly1305 \<Rightarrow>
            [''ChaCha20-Poly1305 provides excellent resistance to timing attacks'',
             ''Consider using 200,000+ PBKDF2 iterations for enhanced security'']
        | Aes256Gcm \<Rightarrow>
            [''AES-256-GCM may benefit from hardware acceleration'', ''Ensure constant-time implementations are used''])
     @ [''Store encryption salts and nonces securely'', ''Use unique nonces for each encryption'',
        ''Never reuse keys with the same nonce'']"

record algorithm_comparison =
  acp_algorithm1 :: encryption_algorithm
  acp_algorithm2 :: encryption_algorithm
  acp_security_level1 :: bool
  acp_security_level2 :: bool
  acp_hardware_acceleration1 :: bool
  acp_hardware_acceleration2 :: bool
  acp_recommendation :: string

definition compare_algorithms :: "encryption_algorithm \<Rightarrow> encryption_algorithm \<Rightarrow> algorithm_comparison" where
  "compare_algorithms a b =
     \<lparr> acp_algorithm1 = a, acp_algorithm2 = b, acp_security_level1 = is_recommended a, acp_security_level2 = is_recommended b,
       acp_hardware_acceleration1 = ac_hardware_acceleration (performance_characteristics a),
       acp_hardware_acceleration2 = ac_hardware_acceleration (performance_characteristics b),
       acp_recommendation =
         (case (a, b) of
            (ChaCha20Poly1305, Aes256Gcm) \<Rightarrow> ''ChaCha20-Poly1305 recommended for enhanced side-channel resistance''
          | (Aes256Gcm, ChaCha20Poly1305) \<Rightarrow> ''ChaCha20-Poly1305 recommended for enhanced side-channel resistance''
          | _ \<Rightarrow> ''Both algorithms provide strong security'') \<rparr>"

section \<open>Encryption\<close>

record encrypted_data =
  ed_algorithm :: encryption_algorithm
  ed_nonce :: string
  ed_ciphertext :: string
  ed_tag :: "string option"
  ed_metadata :: "(string, string) hashmap"

definition encrypted_data_new ::
    "crypto \<Rightarrow> encryption_algorithm \<Rightarrow> string \<Rightarrow> string \<Rightarrow> string option \<Rightarrow> (string, string) hashmap \<Rightarrow> encrypted_data" where
  "encrypted_data_new cy alg nonce ciphertext tag meta =
     \<lparr> ed_algorithm = alg, ed_nonce = cy_b64_encode cy nonce, ed_ciphertext = cy_b64_encode cy ciphertext,
       ed_tag = map_option (cy_b64_encode cy) tag, ed_metadata = meta \<rparr>"

definition new_with_combined_tag ::
    "crypto \<Rightarrow> encryption_algorithm \<Rightarrow> string \<Rightarrow> string \<Rightarrow> (string, string) hashmap \<Rightarrow> encrypted_data" where
  "new_with_combined_tag cy alg nonce ciphertext meta =
     \<lparr> ed_algorithm = alg, ed_nonce = cy_b64_encode cy nonce, ed_ciphertext = cy_b64_encode cy ciphertext, ed_tag = None,
       ed_metadata = meta \<rparr>"

definition decode_components :: "crypto \<Rightarrow> encrypted_data \<Rightarrow> encryption_error + (string \<times> string)" where
  "decode_components cy d =
     and_then (ok_or (cy_b64_decode cy (ed_nonce d)) Nonce_Encoding)
       (\<lambda>nonce. and_then (ok_or (cy_b64_decode cy (ed_ciphertext d)) Ciphertext_Encoding)
         (\<lambda>ciphertext. Inr (nonce, ciphertext)))"

definition decode_tag :: "crypto \<Rightarrow> encrypted_data \<Rightarrow> encryption_error + string option" where
  "decode_tag cy d =
     (case ed_tag d of
        None \<Rightarrow> Inr None
      | Some t \<Rightarrow> and_then (ok_or (cy_b64_decode cy t) Tag_Encoding) (\<lambda>b. Inr (Some b)))"

definition encrypt_metadata :: "encryption_algorithm \<Rightarrow> string \<Rightarrow> (string, string) hashmap" where
  "encrypt_metadata alg created_at =
     hm_insert ''created_at'' created_at
       (hm_insert ''key_derivation'' ''pbkdf2-sha256'' (hm_insert ''algorithm'' (algorithm_identifier alg) []))"

text \<open>The bodies of \<open>encrypt\<close> and \<open>decrypt\<close> of the two encryptors differ only in the cipher and the algorithm they name; an
  encryptor is its algorithm.\<close>

definition encrypt_with ::
    "crypto \<Rightarrow> encryption_algorithm \<Rightarrow> string \<Rightarrow> string \<Rightarrow> string \<Rightarrow> string \<Rightarrow> encryption_error + encrypted_data" where
  "encrypt_with cy alg nonce created_at plaintext key =
     (if length key \<noteq> 32 then Inl (Key_Length (length key))
      else case cy_seal cy alg key nonce plaintext of
             None \<Rightarrow> Inl Encrypt_Failed
           | Some encrypted \<Rightarrow> Inr (new_with_combined_tag cy alg nonce encrypted (encrypt_metadata alg created_at)))"

definition decrypt_with ::
    "crypto \<Rightarrow> encryption_algorithm \<Rightarrow> encrypted_data \<Rightarrow> string \<Rightarrow> (encryption_error + string) outcome" where
  "decrypt_with cy alg d key =
     (if length key \<noteq> 32 then Returned (Inl (Key_Length (length key)))
      else if ed_algorithm d \<noteq> alg then Returned (Inl (Algorithm_Mismatch alg (ed_algorithm d)))
      else case decode_components cy d of
             Inl e \<Rightarrow> Returned (Inl e)
           | Inr (nonce, ciphertext) \<Rightarrow>
               if length nonce \<noteq> 12 then Panicked
               else Returned (ok_or (cy_open cy alg key nonce ciphertext) Decrypt_Failed))"

definition aes256gcm_encrypt where
  "aes256gcm_encrypt cy = encrypt_with cy Aes256Gcm"

definition aes256gcm_decrypt where
  "aes256gcm_decrypt cy = decrypt_with cy Aes256Gcm"

definition create_encryptor :: "encryption_algorithm \<Rightarrow> encryption_algorithm" where
  "create_encryptor alg = (case alg of ChaCha20Poly1305 \<Rightarrow> ChaCha20Poly1305 | Aes256Gcm \<Rightarrow> Aes256Gcm)"

section \<open>Key derivation\<close>

datatype key_derivation_function = PBKDF2Sha256 | PBKDF2Sha512 | Argon2id | Scrypt

datatype security_level = Level_Low | Level_Standard | Level_High | Level_VeryHigh

record kdf_parameters =
  kp_function :: key_derivation_function
  kp_iterations :: u32
  kp_salt_length :: nat
  kp_key_length :: nat
  kp_memory_cost :: "u32 option"
  kp_parallelism :: "u32 option"
  kp_estimated_time_ms :: u64
  kp_security_level :: security_level

definition kdf ::
    "key_derivation_function \<Rightarrow> u32 \<Rightarrow> nat \<Rightarrow> nat \<Rightarrow> u32 option \<Rightarrow> u32 option \<Rightarrow> u64 \<Rightarrow> security_level \<Rightarrow> kdf_parameters" where
  "kdf f n salt key mem par ms l =
     \<lparr> kp_function = f, kp_iterations = n, kp_salt_length = salt, kp_key_length = key, kp_memory_cost = mem,
       kp_parallelism = par, kp_estimated_time_ms = ms, kp_security_level = l \<rparr>"

fun default_parameters :: "key_derivation_function \<Rightarrow> kdf_parameters" where
  "default_parameters PBKDF2Sha256 = kdf PBKDF2Sha256 200000 32 32 None None 1000 Level_Standard"
| "default_parameters PBKDF2Sha512 = kdf PBKDF2Sha512 150000 64 64 None None 1500 Level_Standard"
| "default_parameters Argon2id = kdf Argon2id 3 16 32 (Some (64 * 1024)) (Some 4) 800 Level_High"
| "default_parameters Scrypt = kdf Scrypt 1 32 32 (Some (32 * 1024)) (Some 1) 600 Level_High"

fun high_security_parameters :: "key_derivation_function \<Rightarrow> kdf_parameters" where
  "high_security_parameters PBKDF2Sha256 = kdf PBKDF2Sha256 500000 32 32 None None 2500 Level_High"
| "high_security_parameters PBKDF2Sha512 = kdf PBKDF2Sha512 350000 64 64 None None 3000 Level_High"
| "high_security_parameters Argon2id = kdf Argon2id 4 16 32 (Some (128 * 1024)) (Some 8) 1500 Level_VeryHigh"
| "high_security_parameters Scrypt = kdf Scrypt 2 32 32 (Some (64 * 1024)) (Some 2) 1200 Level_VeryHigh"

fun fast_parameters :: "key_derivation_function \<Rightarrow> kdf_parameters" where
  "fast_parameters PBKDF2Sha256 = kdf PBKDF2Sha256 10000 16 32 None None 50 Level_Low"
| "fast_parameters PBKDF2Sha512 = kdf PBKDF2Sha512 8000 32 32 None None 60 Level_Low"
| "fast_parameters Argon2id = kdf Argon2id 1 16 32 (Some (8 * 1024)) (Some 2) 40 Level_Low"
| "fast_parameters Scrypt = kdf Scrypt 1 16 32 (Some (4 * 1024)) (Some 1) 30 Level_Low"

definition saturating_mul :: "u32 \<Rightarrow> u32 \<Rightarrow> u32" where
  "saturating_mul a b = (if unat a * unat b < 2 ^ 32 then a * b else - 1)"

text \<open>No Argon2 or scrypt crate is used: both fall back to PBKDF2 with their own small iteration counts.\<close>

definition derive_key_argon2id :: "crypto \<Rightarrow> string \<Rightarrow> string \<Rightarrow> kdf_parameters \<Rightarrow> string" where
  "derive_key_argon2id cy password salt p = cy_pbkdf2 cy Hmac_Sha256 password salt (kp_iterations p) (kp_key_length p)"

definition derive_key_scrypt :: "crypto \<Rightarrow> string \<Rightarrow> string \<Rightarrow> kdf_parameters \<Rightarrow> string" where
  "derive_key_scrypt cy password salt p =
     cy_pbkdf2 cy Hmac_Sha512 password salt (saturating_mul (kp_iterations p) 10) (kp_key_length p)"

definition derive_key :: "crypto \<Rightarrow> string \<Rightarrow> string \<Rightarrow> kdf_parameters \<Rightarrow> string" where
  "derive_key cy password salt p =
     (case kp_function p of
        PBKDF2Sha256 \<Rightarrow> cy_pbkdf2 cy Hmac_Sha256 password salt (kp_iterations p) (kp_key_length p)
      | PBKDF2Sha512 \<Rightarrow> cy_pbkdf2 cy Hmac_Sha512 password salt (kp_iterations p) (kp_key_length p)
      | Argon2id \<Rightarrow> derive_key_argon2id cy password salt p
      | Scrypt \<Rightarrow> derive_key_scrypt cy password salt p)"

text \<open>\<open>(f64::from(n) * m) as u32\<close>: the products are exact, and the cast cuts the fraction and saturates.\<close>

definition scale_u32 :: "u32 \<Rightarrow> rat \<Rightarrow> u32" where
  "scale_u32 n m =
     (let r = \<lfloor>of_nat (unat n) * m\<rfloor> in if r < 0 then 0 else if r \<ge> 2 ^ 32 then - 1 else word_of_int r)"

definition abs_i64 :: "64 word \<Rightarrow> int" where
  "abs_i64 d = (if sint d = - (2 ^ 63) then sint d else \<bar>sint d\<bar>)"

definition millis_u64 :: "duration \<Rightarrow> u64" where
  "millis_u64 d = word_of_int (d div 1000000)"

definition tune_candidates :: "kdf_parameters \<Rightarrow> kdf_parameters list" where
  "tune_candidates p =
     (case kp_function p of
        PBKDF2Sha256 \<Rightarrow> map (\<lambda>m. p\<lparr>kp_iterations := scale_u32 (kp_iterations p) m\<rparr>) [1/2, 3/4, 1, 5/4, 3/2, 2, 3, 5]
      | PBKDF2Sha512 \<Rightarrow> map (\<lambda>m. p\<lparr>kp_iterations := scale_u32 (kp_iterations p) m\<rparr>) [1/2, 3/4, 1, 5/4, 3/2, 2, 3, 5]
      | _ \<Rightarrow> (case (kp_memory_cost p, kp_parallelism p) of
               (Some memory, Some pl) \<Rightarrow>
                 concat (map (\<lambda>mm. map (\<lambda>pm. p\<lparr>kp_memory_cost := Some (scale_u32 memory mm), kp_parallelism := Some (scale_u32 pl pm)\<rparr>)
                                [1/2, 3/4, 1, 5/4, 3/2, 2])
                   [1/2, 3/4, 1, 5/4, 3/2, 2])
             | _ \<Rightarrow> []))"

text \<open>What \<open>benchmark\<close> measures for a candidate is the argument \<open>elapsed\<close>.\<close>

definition tune_step ::
    "u64 \<Rightarrow> (kdf_parameters \<Rightarrow> duration) \<Rightarrow> kdf_parameters \<Rightarrow> kdf_parameters \<times> int \<Rightarrow> kdf_parameters \<times> int" where
  "tune_step target elapsed test best =
     (let diff = abs_i64 (target - millis_u64 (elapsed test)) in if diff < snd best then (test, diff) else best)"

definition auto_tune :: "(kdf_parameters \<Rightarrow> duration) \<Rightarrow> duration \<Rightarrow> kdf_parameters \<Rightarrow> kdf_parameters" where
  "auto_tune elapsed target_time p =
     (let target = millis_u64 target_time
      in fst (fold (tune_step target elapsed) (tune_candidates p) (p, abs_i64 (target - kp_estimated_time_ms p))))"

record key_derivation_manager =
  kdm_default_function :: key_derivation_function
  kdm_parameter_cache :: "(key_derivation_function \<times> security_level, kdf_parameters) hashmap"

definition parameters_for :: "key_derivation_function \<Rightarrow> security_level \<Rightarrow> kdf_parameters" where
  "parameters_for f l =
     (case l of
        Level_Low \<Rightarrow> fast_parameters f
      | Level_Standard \<Rightarrow> default_parameters f
      | Level_High \<Rightarrow> default_parameters f
      | Level_VeryHigh \<Rightarrow> high_security_parameters f)"

definition cache_default_parameters :: "key_derivation_manager \<Rightarrow> key_derivation_manager" where
  "cache_default_parameters m =
     m\<lparr>kdm_parameter_cache :=
         fold (\<lambda>(f, l). hm_insert (f, l) (parameters_for f l))
           (List.product [PBKDF2Sha256, PBKDF2Sha512, Argon2id, Scrypt] [Level_Low, Level_Standard, Level_High, Level_VeryHigh])
           (kdm_parameter_cache m)\<rparr>"

definition kdf_manager_new :: "key_derivation_function \<Rightarrow> key_derivation_manager" where
  "kdf_manager_new f = cache_default_parameters \<lparr> kdm_default_function = f, kdm_parameter_cache = [] \<rparr>"

definition get_parameters ::
    "key_derivation_function \<Rightarrow> security_level \<Rightarrow> key_derivation_manager \<Rightarrow> key_derivation_manager \<times> kdf_parameters" where
  "get_parameters f l m =
     (case hm_get (kdm_parameter_cache m) (f, l) of
        Some p \<Rightarrow> (m, p)
      | None \<Rightarrow>
          let p = parameters_for f l
          in (m\<lparr>kdm_parameter_cache := hm_insert (f, l) p (kdm_parameter_cache m)\<rparr>, p))"

definition manager_derive_key ::
    "crypto \<Rightarrow> string \<Rightarrow> string \<Rightarrow> key_derivation_manager \<Rightarrow> key_derivation_manager \<times> string" where
  "manager_derive_key cy password salt m =
     (case get_parameters (kdm_default_function m) Level_Standard m of
        (m', p) \<Rightarrow> (m', derive_key cy password salt p))"

text \<open>\<open>fill_bytes\<close> takes as many bytes as it needs from the stream \<open>random\<close>.\<close>

definition derive_key_with_salt ::
    "crypto \<Rightarrow> (nat \<Rightarrow> string) \<Rightarrow> string \<Rightarrow> key_derivation_manager \<Rightarrow> key_derivation_manager \<times> string \<times> string" where
  "derive_key_with_salt cy random password m =
     (case get_parameters (kdm_default_function m) Level_Standard m of
        (m', p) \<Rightarrow> (let salt = random (kp_salt_length p) in (m', derive_key cy password salt p, salt)))"

section \<open>Properties of encryption\<close>

lemma create_encryptor_same [simp]: "create_encryptor alg = alg"
  by (cases alg) (simp_all add: create_encryptor_def)

lemma decrypt_encrypted:
  assumes "crypto_ok cy" "length nonce = 12" "encrypt_with cy alg nonce t p key = Inr d"
  shows "decrypt_with cy alg d key = Returned (Inr p)"
  using assms
  by (auto simp: encrypt_with_def decrypt_with_def decode_components_def new_with_combined_tag_def crypto_ok_def ok_or_def
      split: if_splits option.splits)

lemma decrypt_other_algorithm:
  assumes "encrypt_with cy alg nonce t p key = Inr d" "alg' \<noteq> alg"
  shows "decrypt_with cy alg' d key = Returned (Inl (Algorithm_Mismatch alg' alg))"
  using assms by (auto simp: encrypt_with_def decrypt_with_def new_with_combined_tag_def split: if_splits option.splits)

text \<open>what an encryptor encrypts, the same encryptor decrypts under the same key, and the other one refuses.\<close>

theorem encryption_roundtrip:
  assumes "crypto_ok cy" "length nonce = 12" "encrypt_with cy alg nonce t p key = Inr d"
  shows "decrypt_with cy (create_encryptor alg') d key =
    Returned (if alg' = alg then Inr p else Inl (Algorithm_Mismatch alg' alg))"
  using decrypt_encrypted [OF assms] decrypt_other_algorithm [OF assms(3)] by auto

theorem encryption_roundtrip_witness:
  "\<exists>d. encrypt_with crypto_sample Aes256Gcm (replicate 12 CHR ''n'') ''now'' ''secret'' (replicate 32 CHR ''k'') = Inr d
     \<and> decrypt_with crypto_sample (create_encryptor Aes256Gcm) d (replicate 32 CHR ''k'') = Returned (Inr ''secret'')"
proof -
  obtain d where d: "encrypt_with crypto_sample Aes256Gcm (replicate 12 CHR ''n'') ''now'' ''secret'' (replicate 32 CHR ''k'') = Inr d"
    by (simp add: encrypt_with_def crypto_sample_def)
  with encryption_roundtrip [OF crypto_sample_ok _ d, of Aes256Gcm] show ?thesis
    by (intro exI [of _ d]) simp
qed

text \<open>a stored nonce that decodes to another length than twelve bytes panics instead of being reported as corrupt.\<close>

theorem short_nonce_panics:
  assumes "crypto_ok cy" "length key = 32" "length nonce \<noteq> 12"
  shows "decrypt_with cy alg (new_with_combined_tag cy alg nonce ciphertext meta) key = Panicked"
  using assms by (simp add: decrypt_with_def decode_components_def new_with_combined_tag_def crypto_ok_def ok_or_def)

theorem short_nonce_panics_witness:
  "decrypt_with crypto_sample Aes256Gcm (new_with_combined_tag crypto_sample Aes256Gcm [] ''c'' []) (replicate 32 CHR ''k'') = Panicked"
  by (rule short_nonce_panics [OF crypto_sample_ok]) simp_all

section \<open>Properties of key derivation\<close>

text \<open>the memory-hard functions are a handful of rounds of PBKDF2, whatever memory and parallelism are asked for, although
  their parameters claim a high security level.\<close>

theorem memory_hard_is_few_rounds:
  "derive_key cy pw salt ((default_parameters Argon2id)\<lparr>kp_memory_cost := mem, kp_parallelism := par\<rparr>)
     = cy_pbkdf2 cy Hmac_Sha256 pw salt 3 32"
  "derive_key cy pw salt ((high_security_parameters Argon2id)\<lparr>kp_memory_cost := mem, kp_parallelism := par\<rparr>)
     = cy_pbkdf2 cy Hmac_Sha256 pw salt 4 32"
  "derive_key cy pw salt ((default_parameters Scrypt)\<lparr>kp_memory_cost := mem, kp_parallelism := par\<rparr>)
     = cy_pbkdf2 cy Hmac_Sha512 pw salt 10 32"
  "kp_security_level (default_parameters Argon2id) = Level_High" "kp_security_level (default_parameters Scrypt) = Level_High"
  by (simp_all add: derive_key_def derive_key_argon2id_def derive_key_scrypt_def kdf_def saturating_mul_def)

lemma tune_fold:
  fixes diff :: "kdf_parameters \<Rightarrow> int"
  assumes "\<And>q. diff q = abs_i64 (target - millis_u64 (elapsed q))"
  shows "snd (fold (tune_step target elapsed) qs best) \<le> snd best
    \<and> (\<forall>q \<in> set qs. snd (fold (tune_step target elapsed) qs best) \<le> diff q)
    \<and> (fold (tune_step target elapsed) qs best = best
       \<or> (\<exists>q \<in> set qs. fold (tune_step target elapsed) qs best = (q, diff q)))"
proof (induction qs arbitrary: best)
  case (Cons q qs)
  let ?b = "tune_step target elapsed q best"
  have b: "snd ?b \<le> snd best" "snd ?b \<le> diff q" "?b = best \<or> ?b = (q, diff q)"
    by (auto simp: tune_step_def Let_def assms)
  show ?case using Cons.IH [of ?b] b by auto
qed simp

text \<open>tuning returns its input or one of the candidates, and no candidate was measured closer to the target.\<close>

theorem auto_tune_best:
  assumes "q \<in> set (tune_candidates p)" "auto_tune elapsed t p \<noteq> p"
  shows "abs_i64 (millis_u64 t - millis_u64 (elapsed (auto_tune elapsed t p))) \<le> abs_i64 (millis_u64 t - millis_u64 (elapsed q))"
    and "auto_tune elapsed t p \<in> set (tune_candidates p)"
proof -
  let ?r = "fold (tune_step (millis_u64 t) elapsed) (tune_candidates p) (p, abs_i64 (millis_u64 t - kp_estimated_time_ms p))"
  have r: "auto_tune elapsed t p = fst ?r" by (simp add: auto_tune_def Let_def)
  note tf = tune_fold [OF refl, of "millis_u64 t" elapsed "tune_candidates p" "(p, abs_i64 (millis_u64 t - kp_estimated_time_ms p))"]
  from tf assms(2) r obtain q' where q': "q' \<in> set (tune_candidates p)"
      "?r = (q', abs_i64 (millis_u64 t - millis_u64 (elapsed q')))" by auto
  with tf assms(1) r show "abs_i64 (millis_u64 t - millis_u64 (elapsed (auto_tune elapsed t p)))
      \<le> abs_i64 (millis_u64 t - millis_u64 (elapsed q))" by auto
  from q' r show "auto_tune elapsed t p \<in> set (tune_candidates p)" by simp
qed

definition cache_ok :: "key_derivation_manager \<Rightarrow> bool" where
  "cache_ok m = (\<forall>f l p. hm_get (kdm_parameter_cache m) (f, l) = Some p \<longrightarrow> p = parameters_for f l)"

lemma fold_insert_get:
  "hm_get (fold (\<lambda>(f, l). hm_insert (f, l) (parameters_for f l)) fls c) (f, l) =
     (if (f, l) \<in> set fls then Some (parameters_for f l) else hm_get c (f, l))"
  by (induction fls arbitrary: c) (auto simp: hm.get_insert split: if_splits)

lemma new_cache: "hm_get (kdm_parameter_cache (kdf_manager_new g)) (f, l) = Some (parameters_for f l)"
  unfolding kdf_manager_new_def cache_default_parameters_def key_derivation_manager.simps fold_insert_get
  by (cases f; cases l; simp)

lemma new_default_function: "kdm_default_function (kdf_manager_new f) = f"
  unfolding kdf_manager_new_def cache_default_parameters_def by simp

lemma new_get_parameters: "get_parameters f l (kdf_manager_new g) = (kdf_manager_new g, parameters_for f l)"
  by (simp add: get_parameters_def new_cache)

text \<open>the cache never answers anything else than the table, also across calls, and the level High is the level Standard.\<close>

theorem cached_parameters_exact:
  "cache_ok (kdf_manager_new g)"
  "cache_ok m \<Longrightarrow> cache_ok (fst (get_parameters f l m)) \<and> snd (get_parameters f l m) = parameters_for f l"
  "parameters_for f Level_High = parameters_for f Level_Standard"
  by (auto simp: cache_ok_def new_cache get_parameters_def Let_def parameters_for_def hm.get_insert
      split: option.splits if_splits)

section \<open>Encrypted data as a tuple\<close>

definition data_tuple where
  "data_tuple d = (ed_algorithm d = Aes256Gcm, ed_nonce d, ed_ciphertext d, ed_tag d, ed_metadata d)"

definition tuple_data where
  "tuple_data t = (case t of (b, nonce, c, tag, m) \<Rightarrow>
     \<lparr> ed_algorithm = (if b then Aes256Gcm else ChaCha20Poly1305), ed_nonce = nonce, ed_ciphertext = c, ed_tag = tag, ed_metadata = m \<rparr>)"

lemma tuple_data: "tuple_data (data_tuple d) = d"
proof -
  have "(if a = Aes256Gcm then Aes256Gcm else ChaCha20Poly1305) = a" for a by (cases a) simp_all
  then show ?thesis by (simp add: tuple_data_def data_tuple_def)
qed

end
