(* ===== verification/Credential_File.thy ===== *)
theory Credential_File
  imports Credential_Interface Encryption Audit_Log Path_Security "HOL-Library.Countable"
begin

text \<open>
  The encrypted credential file (\<open>src/security/file_provider.rs\<close>).  JSON is the record \<open>credential_codec\<close>; the
  environment variables are a map, the files those of \<open>Config_Store\<close>.  It implements \<open>credential_store\<close>: as long
  as the calls succeed and the random salts pass the checks of the reader, the file behaves as a map.
\<close>

section \<open>Data\<close>

record credential_file =
  cs_version :: u32
  cs_algorithm :: encryption_algorithm
  cs_pbkdf2_salt :: string
  cs_hkdf_salt :: string
  cs_pbkdf2_iterations :: u32
  cs_encrypted_data :: encrypted_data
  cs_metadata :: "(string, string) hashmap"

record legacy_credential_file =
  lcs_version :: u32
  lcs_pbkdf2_salt :: string
  lcs_hkdf_salt :: string
  lcs_pbkdf2_iterations :: u32
  lcs_nonce :: string
  lcs_data :: string
  lcs_metadata :: "(string, string) hashmap"

record file_provider =
  fp_file_path :: string
  fp_master_key :: string
  fp_encryption_config :: encryption_config

record credential_codec =
  cc_credentials_text :: "credentials \<Rightarrow> string"
  cc_credentials_of :: "string \<Rightarrow> credentials option"
  cc_file_text :: "credential_file \<Rightarrow> string"
  cc_file_of :: "string \<Rightarrow> credential_file option"
  cc_legacy_of :: "string \<Rightarrow> legacy_credential_file option"
  cc_credential_text :: "credential \<Rightarrow> string"
  cc_credential_of :: "string \<Rightarrow> credential option"

text \<open>What \<open>serde_json\<close> documents: parsing undoes printing, and its output is UTF-8.\<close>

definition codec_ok :: "credential_codec \<Rightarrow> bool" where
  "codec_ok cc =
     ((\<forall>m. cc_credentials_of cc (cc_credentials_text cc m) = Some m \<and> utf8_ok (cc_credentials_text cc m))
      \<and> (\<forall>f. cc_file_of cc (cc_file_text cc f) = Some f \<and> utf8_ok (cc_file_text cc f))
      \<and> (\<forall>c. cc_credential_of cc (cc_credential_text cc c) = Some c))"

text \<open>The circumstances of a call: what it draws at random, the time it prints, and what the operating system answers.\<close>

record credential_call =
  ca_pbkdf2_salt :: string
  ca_hkdf_salt :: string
  ca_nonce :: string
  ca_now :: string
  ca_readable :: "string \<Rightarrow> bool"
  ca_dir_ok :: bool
  ca_write :: write_outcome
  ca_rename_ok :: bool
  ca_keyring_ok :: bool

datatype credential_error =
    Open_Failed
  | Unknown_Format
  | Unsupported_Version u32
  | Weak_Iterations u32
  | Salt_Encoding string
  | Nonce_Undecodable
  | Data_Undecodable
  | Salt_Length string nat
  | Unknown_Salt_Type string
  | Salt_Constant string
  | Salt_Bits string nat
  | Nonce_Length nat
  | Nonce_Constant
  | Cipher_Error encryption_error
  | Not_Utf8
  | Not_Credentials
  | Directory_Failed
  | Temporary_Failed
  | Rename_Failed
  | Read_Only
  | Bad_Format
  | Keyring_Failed
  | No_Provider

section \<open>The master key\<close>

definition env_var :: "(string, string) hashmap \<Rightarrow> string \<Rightarrow> string" where
  "env_var vars name = (case hm_get vars name of Some v \<Rightarrow> v | None \<Rightarrow> [])"

definition master_key_entropy :: "(string, string) hashmap \<Rightarrow> nat \<Rightarrow> nat \<Rightarrow> string" where
  "master_key_entropy vars uid gid =
     env_var vars ''USER'' @ env_var vars ''HOME'' @ env_var vars ''HOSTNAME'' @ env_var vars ''TEST_FUJI_DIFFERENT_KEY''
     @ show_nat uid @ show_nat gid"

definition master_key_salt :: "(string, string) hashmap \<Rightarrow> nat \<Rightarrow> nat \<Rightarrow> string" where
  "master_key_salt vars uid gid =
     ''fuji-master-key-salt-v3'' @ env_var vars ''USER'' @ env_var vars ''HOME'' @ show_nat uid @ show_nat gid
     @ env_var vars ''TEST_FUJI_DIFFERENT_KEY''"

definition derive_master_key :: "crypto \<Rightarrow> (string, string) hashmap \<Rightarrow> nat \<Rightarrow> nat \<Rightarrow> string" where
  "derive_master_key cy vars uid gid =
     (let entropy = master_key_entropy vars uid gid
      in cy_hkdf cy (master_key_salt vars uid gid) (if entropy = [] then ''fuji-fallback-entropy-marker'' else entropy)
           [''fuji-credential-master-key-v3''])"

definition with_path_and_config ::
    "crypto \<Rightarrow> (string, string) hashmap \<Rightarrow> nat \<Rightarrow> nat \<Rightarrow> string \<Rightarrow> encryption_config \<Rightarrow> file_provider" where
  "with_path_and_config cy vars uid gid path c =
     \<lparr> fp_file_path = path, fp_master_key = derive_master_key cy vars uid gid, fp_encryption_config = c \<rparr>"

definition file_provider_new :: "crypto \<Rightarrow> (string, string) hashmap \<Rightarrow> nat \<Rightarrow> nat \<Rightarrow> string option \<Rightarrow> file_provider" where
  "file_provider_new cy vars uid gid config_dir =
     with_path_and_config cy vars uid gid
       (path_join (path_join (case config_dir of Some d \<Rightarrow> d | None \<Rightarrow> ''.config'') ''fuji'') ''credentials.enc'')
       security_optimized"

definition derive_encryption_key :: "crypto \<Rightarrow> file_provider \<Rightarrow> string \<Rightarrow> string \<Rightarrow> string" where
  "derive_encryption_key cy fp pbkdf2_salt hkdf_salt =
     cy_hkdf cy hkdf_salt
       (cy_pbkdf2 cy Hmac_Sha256 (fp_master_key fp) pbkdf2_salt (enc_pbkdf2_iterations (fp_encryption_config fp)) 32)
       [''fuji-encryption-key-v3'', ''file-credential-provider'', algorithm_identifier (enc_algorithm (fp_encryption_config fp))]"

section \<open>The checks of salts and nonces\<close>

definition all_same :: "string \<Rightarrow> bool" where
  "all_same s = list_all (\<lambda>b. b = hd s) s"

definition bit_count :: "string \<Rightarrow> nat \<Rightarrow> nat" where
  "bit_count salt i = length (filter (\<lambda>b. (char_code b div 2 ^ i) mod 2 = 1) salt)"

definition bad_bit :: "string \<Rightarrow> nat \<Rightarrow> bool" where
  "bad_bit salt i = (let ratio = (of_nat (bit_count salt i) / of_nat (length salt) :: rat) in \<not> (1 / 10 \<le> ratio \<and> ratio \<le> 9 / 10))"

definition validate_salt_quality :: "string \<Rightarrow> string \<Rightarrow> credential_error + unit" where
  "validate_salt_quality salt salt_type =
     (if salt_type \<notin> {''PBKDF2'', ''HKDF''} then Inl (Unknown_Salt_Type salt_type)
      else if length salt \<noteq> 32 then Inl (Salt_Length salt_type (length salt))
      else if all_same salt then Inl (Salt_Constant salt_type)
      else case find (bad_bit salt) [0, 1, 2, 3, 4, 5, 6, 7] of
             Some i \<Rightarrow> Inl (Salt_Bits salt_type i)
           | None \<Rightarrow> Inr ())"

definition validate_nonce_quality :: "string \<Rightarrow> credential_error + unit" where
  "validate_nonce_quality nonce =
     (if length nonce \<noteq> 12 then Inl (Nonce_Length (length nonce))
      else if all_same nonce then Inl Nonce_Constant
      else Inr ())"

section \<open>Loading and saving\<close>

definition parse_decrypted :: "credential_codec \<Rightarrow> string \<Rightarrow> credential_error + credentials" where
  "parse_decrypted cc b =
     (if \<not> utf8_ok b then Inl Not_Utf8 else ok_or (cc_credentials_of cc b) Not_Credentials)"

definition load_store_v3 ::
    "crypto \<Rightarrow> credential_codec \<Rightarrow> file_provider \<Rightarrow> credential_file \<Rightarrow> (credential_error + credentials) outcome" where
  "load_store_v3 cy cc fp st =
     (if cs_version st \<noteq> 3 then Returned (Inl (Unsupported_Version (cs_version st)))
      else if cs_pbkdf2_iterations st < 60000 then Returned (Inl (Weak_Iterations (cs_pbkdf2_iterations st)))
      else oc_then (Returned (ok_or (cy_b64_decode cy (cs_pbkdf2_salt st)) (Salt_Encoding ''PBKDF2'')))
        (\<lambda>ps. oc_then (Returned (ok_or (cy_b64_decode cy (cs_hkdf_salt st)) (Salt_Encoding ''HKDF'')))
        (\<lambda>hs. oc_then (Returned (and_then (validate_salt_quality ps ''PBKDF2'') (\<lambda>_. validate_salt_quality hs ''HKDF'')))
        (\<lambda>_. case decrypt_with cy (create_encryptor (cs_algorithm st)) (cs_encrypted_data st) (derive_encryption_key cy fp ps hs) of
               Returned (Inl e) \<Rightarrow> Returned (Inl (Cipher_Error e))
             | Returned (Inr b) \<Rightarrow> Returned (parse_decrypted cc b)
             | Blocked \<Rightarrow> Blocked
             | Panicked \<Rightarrow> Panicked))))"

definition load_store_legacy ::
    "crypto \<Rightarrow> credential_codec \<Rightarrow> file_provider \<Rightarrow> legacy_credential_file \<Rightarrow> credential_error + credentials" where
  "load_store_legacy cy cc fp st =
     (if lcs_version st > 2 then Inl (Unsupported_Version (lcs_version st))
      else if lcs_pbkdf2_iterations st < 60000 then Inl (Weak_Iterations (lcs_pbkdf2_iterations st))
      else and_then (ok_or (cy_b64_decode cy (lcs_pbkdf2_salt st)) (Salt_Encoding ''PBKDF2''))
        (\<lambda>ps. and_then (ok_or (cy_b64_decode cy (lcs_hkdf_salt st)) (Salt_Encoding ''HKDF''))
        (\<lambda>hs. and_then (ok_or (cy_b64_decode cy (lcs_nonce st)) Nonce_Undecodable)
        (\<lambda>nonce. and_then (ok_or (cy_b64_decode cy (lcs_data st)) Data_Undecodable)
        (\<lambda>data. and_then (validate_salt_quality ps ''PBKDF2'')
        (\<lambda>_. and_then (validate_salt_quality hs ''HKDF'')
        (\<lambda>_. and_then (validate_nonce_quality nonce)
        (\<lambda>_. and_then (ok_or (cy_open cy Aes256Gcm (derive_encryption_key cy fp ps hs) nonce data) (Cipher_Error Decrypt_Failed))
          (parse_decrypted cc)))))))))"

definition load_store ::
    "crypto \<Rightarrow> credential_codec \<Rightarrow> file_provider \<Rightarrow> credential_call \<Rightarrow> files \<Rightarrow> (credential_error + credentials) outcome" where
  "load_store cy cc fp i fs =
     (case fs (fp_file_path fp) of
        None \<Rightarrow> Returned (Inr [])
      | Some contents \<Rightarrow>
          if \<not> ca_readable i (fp_file_path fp) \<or> \<not> utf8_ok contents then Returned (Inl Open_Failed)
          else case cc_file_of cc contents of
                 Some st \<Rightarrow> load_store_v3 cy cc fp st
               | None \<Rightarrow>
                   (case cc_legacy_of cc contents of
                      Some old \<Rightarrow> Returned (load_store_legacy cy cc fp old)
                    | None \<Rightarrow> Returned (Inl Unknown_Format)))"

definition store_metadata :: "encryption_config \<Rightarrow> string \<Rightarrow> (string, string) hashmap" where
  "store_metadata c now =
     fold (\<lambda>(k, v). hm_insert k v)
       [(''algorithm'', algorithm_display_name (enc_algorithm c)), (''algorithm_id'', algorithm_identifier (enc_algorithm c)),
        (''kdf'', ''PBKDF2-HMAC-SHA256''), (''prf'', ''HKDF-SHA256''), (''created_at'', now),
        (''security_level'', if enc_pbkdf2_iterations c \<ge> 200000 then ''high'' else ''standard''),
        (''side_channel_resistance'', if enc_algorithm c = ChaCha20Poly1305 then ''high'' else ''standard'')] []"

definition sealed_store ::
    "crypto \<Rightarrow> credential_codec \<Rightarrow> file_provider \<Rightarrow> credential_call \<Rightarrow> credentials \<Rightarrow> credential_error + credential_file" where
  "sealed_store cy cc fp i m =
     (let c = fp_encryption_config fp
      in and_then (map_err Cipher_Error (encrypt_with cy (create_encryptor (enc_algorithm c)) (ca_nonce i) (ca_now i)
             (cc_credentials_text cc m) (derive_encryption_key cy fp (ca_pbkdf2_salt i) (ca_hkdf_salt i))))
           (\<lambda>d. Inr \<lparr> cs_version = 3, cs_algorithm = enc_algorithm c, cs_pbkdf2_salt = cy_b64_encode cy (ca_pbkdf2_salt i),
              cs_hkdf_salt = cy_b64_encode cy (ca_hkdf_salt i), cs_pbkdf2_iterations = enc_pbkdf2_iterations c,
              cs_encrypted_data = d, cs_metadata = store_metadata c (ca_now i) \<rparr>))"

definition save_store ::
    "crypto \<Rightarrow> credential_codec \<Rightarrow> file_provider \<Rightarrow> credential_call \<Rightarrow> credentials \<Rightarrow> files \<Rightarrow> files \<times> (credential_error + unit) outcome" where
  "save_store cy cc fp i m fs =
     (if path_parent (fp_file_path fp) \<noteq> None \<and> \<not> ca_dir_ok i then (fs, Returned (Inl Directory_Failed))
      else case sealed_store cy cc fp i m of
             Inl e \<Rightarrow> (fs, Returned (Inl e))
           | Inr st \<Rightarrow>
               let temp = with_extension ''tmp'' (fp_file_path fp)
               in (case write_file (ca_write i) temp (cc_file_text cc st) fs of
                     (fs1, False) \<Rightarrow> (fs1, Returned (Inl Temporary_Failed))
                   | (fs1, True) \<Rightarrow>
                       (case rename_file (ca_rename_ok i) temp (fp_file_path fp) fs1 of
                          (fs2, ok) \<Rightarrow> (fs2, Returned (if ok then Inr () else Inl Rename_Failed)))))"

section \<open>The provider\<close>

definition update_store ::
    "(credentials \<Rightarrow> credentials) \<Rightarrow> crypto \<Rightarrow> credential_codec \<Rightarrow> file_provider \<Rightarrow> credential_call \<Rightarrow> files
     \<Rightarrow> files \<times> (credential_error + unit) outcome" where
  "update_store f cy cc fp i fs =
     (case load_store cy cc fp i fs of
        Returned (Inr m) \<Rightarrow> save_store cy cc fp i (f m) fs
      | Returned (Inl e) \<Rightarrow> (fs, Returned (Inl e))
      | Blocked \<Rightarrow> (fs, Blocked)
      | Panicked \<Rightarrow> (fs, Panicked))"

definition file_store_credential where
  "file_store_credential cy cc fp i mount_id c = update_store (hm_insert mount_id c) cy cc fp i"

definition file_delete_credential where
  "file_delete_credential cy cc fp i mount_id = update_store (hm_remove mount_id) cy cc fp i"

definition file_get_credential ::
    "crypto \<Rightarrow> credential_codec \<Rightarrow> file_provider \<Rightarrow> credential_call \<Rightarrow> files \<Rightarrow> string \<Rightarrow> (credential_error + credential option) outcome" where
  "file_get_credential cy cc fp i fs mount_id = oc_map (\<lambda>m. hm_get m mount_id) (load_store cy cc fp i fs)"

definition file_list_credentials ::
    "crypto \<Rightarrow> credential_codec \<Rightarrow> file_provider \<Rightarrow> credential_call \<Rightarrow> files \<Rightarrow> (credential_error + string list) outcome" where
  "file_list_credentials cy cc fp i fs = oc_map (map fst) (load_store cy cc fp i fs)"

definition file_has_credential ::
    "crypto \<Rightarrow> credential_codec \<Rightarrow> file_provider \<Rightarrow> credential_call \<Rightarrow> files \<Rightarrow> string \<Rightarrow> (credential_error + bool) outcome" where
  "file_has_credential cy cc fp i fs mount_id = oc_map (\<lambda>m. hm_contains_key m mount_id) (load_store cy cc fp i fs)"

section \<open>The file as a map\<close>

text \<open>The circumstances under which a saved file can be read again: the random bytes have the lengths of the buffers they
  fill and pass the checks of the reader, and the file can be opened.\<close>

definition good_call :: "credential_call \<Rightarrow> bool" where
  "good_call i =
     (validate_salt_quality (ca_pbkdf2_salt i) ''PBKDF2'' = Inr () \<and> validate_salt_quality (ca_hkdf_salt i) ''HKDF'' = Inr ()
      \<and> length (ca_nonce i) = 12 \<and> (\<forall>p. ca_readable i p))"

text \<open>The invariant of the file: it is absent, or it opens as credentials without a duplicate.\<close>

definition file_inv :: "crypto \<times> credential_codec \<times> file_provider \<Rightarrow> files \<Rightarrow> bool" where
  "file_inv p fs =
     (case p of (cy, cc, fp) \<Rightarrow>
        crypto_ok cy \<and> codec_ok cc \<and> enc_pbkdf2_iterations (fp_encryption_config fp) \<ge> 60000
        \<and> with_extension ''tmp'' (fp_file_path fp) \<noteq> fp_file_path fp
        \<and> (\<forall>i. good_call i \<longrightarrow> (\<exists>m. load_store cy cc fp i fs = Returned (Inr m) \<and> hm_wf m)))"

lemma load_store_cong:
  assumes "fs (fp_file_path fp) = gs (fp_file_path fp)" "ca_readable i (fp_file_path fp) = ca_readable j (fp_file_path fp)"
  shows "load_store cy cc fp i fs = load_store cy cc fp j gs"
  using assms by (simp add: load_store_def cong: option.case_cong)

lemma load_sealed:
  assumes "crypto_ok cy" "codec_ok cc" "enc_pbkdf2_iterations (fp_encryption_config fp) \<ge> 60000" "good_call i"
    and "sealed_store cy cc fp i m = Inr st"
  shows "load_store_v3 cy cc fp st = Returned (Inr m)"
proof -
  let ?alg = "enc_algorithm (fp_encryption_config fp)"
  let ?key = "derive_encryption_key cy fp (ca_pbkdf2_salt i) (ca_hkdf_salt i)"
  from assms(5) obtain d where d: "encrypt_with cy ?alg (ca_nonce i) (ca_now i) (cc_credentials_text cc m) ?key = Inr d"
      and st: "cs_version st = 3" "cs_algorithm st = ?alg" "cs_pbkdf2_salt st = cy_b64_encode cy (ca_pbkdf2_salt i)"
        "cs_hkdf_salt st = cy_b64_encode cy (ca_hkdf_salt i)"
        "cs_pbkdf2_iterations st = enc_pbkdf2_iterations (fp_encryption_config fp)" "cs_encrypted_data st = d"
    by (cases "encrypt_with cy ?alg (ca_nonce i) (ca_now i) (cc_credentials_text cc m) ?key")
      (auto simp: sealed_store_def Let_def)
  have "decrypt_with cy ?alg d ?key = Returned (Inr (cc_credentials_text cc m))"
    using decrypt_encrypted [OF assms(1) _ d] assms(4) by (simp add: good_call_def)
  then show ?thesis
    using assms(1-4) by (simp add: load_store_v3_def st good_call_def crypto_ok_def codec_ok_def ok_or_def parse_decrypted_def linorder_not_le)
qed

lemma save_effect:
  assumes "save_store cy cc fp i m fs = (fs', r)" "with_extension ''tmp'' (fp_file_path fp) \<noteq> fp_file_path fp"
  shows "(\<exists>st. r = Returned (Inr ()) \<and> sealed_store cy cc fp i m = Inr st \<and> fs' (fp_file_path fp) = Some (cc_file_text cc st))
    \<or> (\<exists>e. r = Returned (Inl e)) \<and> fs' (fp_file_path fp) = fs (fp_file_path fp)"
  using assms
  by (auto simp: save_store_def write_file_def rename_file_def Let_def split: if_splits sum.splits write_outcome.splits option.splits)

lemma load_saved:
  assumes "crypto_ok cy" "codec_ok cc" "enc_pbkdf2_iterations (fp_encryption_config fp) \<ge> 60000" "good_call i" "good_call j"
    and "with_extension ''tmp'' (fp_file_path fp) \<noteq> fp_file_path fp"
    and "save_store cy cc fp i m fs = (fs', Returned (Inr ()))"
  shows "load_store cy cc fp j fs' = Returned (Inr m)"
proof -
  from save_effect [OF assms(7,6)] obtain st where
      "sealed_store cy cc fp i m = Inr st" "fs' (fp_file_path fp) = Some (cc_file_text cc st)" by auto
  with load_sealed [OF assms(1-4)] assms(2,5) show ?thesis
    by (simp add: load_store_def codec_ok_def good_call_def)
qed

lemma update_effect:
  assumes inv: "file_inv (cy, cc, fp) fs" and i: "good_call i" and f: "\<And>m. hm_wf m \<Longrightarrow> hm_wf (f m)"
    and up: "update_store f cy cc fp i fs = (fs', r)"
  shows "file_inv (cy, cc, fp) fs'"
    and "r = Returned (Inr ()) \<Longrightarrow> good_call j \<Longrightarrow>
      \<exists>m. load_store cy cc fp j fs = Returned (Inr m) \<and> hm_wf m \<and> load_store cy cc fp j fs' = Returned (Inr (f m))"
proof -
  note inv' = inv [unfolded file_inv_def prod.case]
  from inv' i obtain m where m: "load_store cy cc fp i fs = Returned (Inr m)" "hm_wf m" by auto
  with up have save: "save_store cy cc fp i (f m) fs = (fs', r)" by (simp add: update_store_def)
  have same: "load_store cy cc fp j fs = Returned (Inr m)" if "good_call j" for j
    using m(1) load_store_cong [of fs fp fs i j cy cc] i that by (simp add: good_call_def)
  have new: "load_store cy cc fp j fs' = Returned (Inr (f m))" if "good_call j" "r = Returned (Inr ())" for j
    using load_saved [of cy cc fp i j "f m" fs fs'] inv' i that save by blast
  show "file_inv (cy, cc, fp) fs'"
  proof (cases "r = Returned (Inr ())")
    case True
    with new f [OF m(2)] inv' show ?thesis by (auto simp: file_inv_def)
  next
    case False
    with save_effect [OF save] inv' have "fs' (fp_file_path fp) = fs (fp_file_path fp)" by auto
    then have "load_store cy cc fp j fs' = load_store cy cc fp j fs" for j
      by (rule load_store_cong) simp
    with inv' show ?thesis by (simp add: file_inv_def)
  qed
  show "\<exists>m. load_store cy cc fp j fs = Returned (Inr m) \<and> hm_wf m \<and> load_store cy cc fp j fs' = Returned (Inr (f m))"
    if "r = Returned (Inr ())" "good_call j"
    using same [OF that(2)] new [OF that(2,1)] m(2) by blast
qed

interpretation file_store: credential_store file_inv good_call
    "\<lambda>(cy, cc, fp). file_store_credential cy cc fp" "\<lambda>(cy, cc, fp). file_get_credential cy cc fp"
    "\<lambda>(cy, cc, fp). file_delete_credential cy cc fp"
proof unfold_locales
  fix p :: "crypto \<times> credential_codec \<times> file_provider" and fs fs' :: files and i j and k k' :: string and c v
  obtain cy cc fp where p: "p = (cy, cc, fp)" by (cases p)
  assume inv: "file_inv p fs" and i: "good_call i"
  have upd: "file_inv p (fst (update_store g cy cc fp i fs))" if "\<And>m. hm_wf m \<Longrightarrow> hm_wf (g m)" for g
    using update_effect(1) [OF inv [unfolded p] i that prod.collapse [symmetric]] by (simp add: p)
  show "file_inv p (fst ((\<lambda>(cy, cc, fp). file_store_credential cy cc fp) p i k c fs))"
    using upd [OF hm.wf_insert] by (simp add: p file_store_credential_def)
  show "file_inv p (fst ((\<lambda>(cy, cc, fp). file_delete_credential cy cc fp) p i k fs))"
    using upd [OF hm.wf_remove] by (simp add: p file_delete_credential_def)
  assume j: "good_call j" and get: "(\<lambda>(cy, cc, fp). file_get_credential cy cc fp) p j fs k' = Returned (Inr v)"
  show "(\<lambda>(cy, cc, fp). file_get_credential cy cc fp) p j fs' k' = Returned (Inr (if k' = k then Some c else v))"
    if "(\<lambda>(cy, cc, fp). file_store_credential cy cc fp) p i k c fs = (fs', Returned (Inr ()))"
    using update_effect(2) [OF inv [unfolded p] i hm.wf_insert that [unfolded p prod.case file_store_credential_def] refl j] j get
    by (auto simp: p file_store_credential_def file_get_credential_def hm.get_insert fuji_res)
  show "(\<lambda>(cy, cc, fp). file_get_credential cy cc fp) p j fs' k' = Returned (Inr (if k' = k then None else v))"
    if "(\<lambda>(cy, cc, fp). file_delete_credential cy cc fp) p i k fs = (fs', Returned (Inr ()))"
    using update_effect(2) [OF inv [unfolded p] i hm.wf_remove that [unfolded p prod.case file_delete_credential_def] refl j] j get
    by (auto simp: p file_delete_credential_def file_get_credential_def hm.get_remove fuji_res)
qed

section \<open>Properties of the file\<close>

definition credential_tuple where
  "credential_tuple c = (cd_username c, cd_password c, cd_domain c, cd_metadata c)"

definition tuple_credential where
  "tuple_credential t = (case t of (u, p, d, m) \<Rightarrow> \<lparr> cd_username = u, cd_password = p, cd_domain = d, cd_metadata = m \<rparr>)"

definition file_tuple where
  "file_tuple f = (unat (cs_version f), cs_algorithm f = Aes256Gcm, cs_pbkdf2_salt f, cs_hkdf_salt f, unat (cs_pbkdf2_iterations f),
     (ed_algorithm (cs_encrypted_data f) = Aes256Gcm, ed_nonce (cs_encrypted_data f), ed_ciphertext (cs_encrypted_data f),
      ed_tag (cs_encrypted_data f), ed_metadata (cs_encrypted_data f)), cs_metadata f)"

definition tuple_file where
  "tuple_file t = (case t of (v, a, ps, hs, n, (b, nonce, c, tag, dm), m) \<Rightarrow>
     \<lparr> cs_version = word_of_nat v, cs_algorithm = (if a then Aes256Gcm else ChaCha20Poly1305), cs_pbkdf2_salt = ps, cs_hkdf_salt = hs,
       cs_pbkdf2_iterations = word_of_nat n,
       cs_encrypted_data = \<lparr> ed_algorithm = (if b then Aes256Gcm else ChaCha20Poly1305), ed_nonce = nonce, ed_ciphertext = c,
         ed_tag = tag, ed_metadata = dm \<rparr>, cs_metadata = m \<rparr>)"

text \<open>A codec with the documented laws: a value is the text of as many letters as its number.\<close>

definition codec_sample :: credential_codec where
  "codec_sample =
     \<lparr> cc_credentials_text = (\<lambda>m. replicate (to_nat (map (\<lambda>(k, c). (k, credential_tuple c)) m)) CHR ''a''),
       cc_credentials_of = (\<lambda>s. Some (map (\<lambda>(k, t). (k, tuple_credential t)) (from_nat (length s)))),
       cc_file_text = (\<lambda>f. replicate (to_nat (file_tuple f)) CHR ''a''), cc_file_of = (\<lambda>s. Some (tuple_file (from_nat (length s)))),
       cc_legacy_of = (\<lambda>_. None),
       cc_credential_text = (\<lambda>c. replicate (to_nat (credential_tuple c)) CHR ''a''),
       cc_credential_of = (\<lambda>s. Some (tuple_credential (from_nat (length s)))) \<rparr>"

lemma codec_sample_ok: "codec_ok codec_sample"
proof -
  have c: "tuple_credential (credential_tuple c) = c" for c by (simp add: tuple_credential_def credential_tuple_def)
  have alg: "(if a = Aes256Gcm then Aes256Gcm else ChaCha20Poly1305) = a" for a by (cases a) simp_all
  have f: "tuple_file (file_tuple f) = f" for f by (simp add: tuple_file_def file_tuple_def alg)
  have u: "utf8_ok (replicate n CHR ''a'')" for n by (induction n) (simp_all add: byte_in_def char_code_def)
  have m: "map ((\<lambda>(k, t). (k, tuple_credential t)) \<circ> (\<lambda>(k, c). (k, credential_tuple c))) m = m" for m
    by (rule map_idI) (auto simp: c)
  show ?thesis by (simp add: codec_ok_def codec_sample_def c f u m)
qed

lemma empty_file_inv:
  assumes "crypto_ok cy" "codec_ok cc" "enc_pbkdf2_iterations (fp_encryption_config fp) \<ge> 60000"
    and "with_extension ''tmp'' (fp_file_path fp) \<noteq> fp_file_path fp" "fs (fp_file_path fp) = None"
  shows "file_inv (cy, cc, fp) fs" "file_get_credential cy cc fp j fs k = Returned (Inr None)"
  using assms by (simp_all add: file_inv_def load_store_def hm.wf_empty file_get_credential_def hm.get_empty)


definition sample_salt :: string where
  "sample_salt = concat (replicate 4 (map char_of [1, 2, 4, 8, 16, 32, 64, 128 :: nat]))"

definition sample_call :: credential_call where
  "sample_call =
     \<lparr> ca_pbkdf2_salt = sample_salt, ca_hkdf_salt = sample_salt, ca_nonce = ''nonce-twelve'', ca_now = ''now'',
       ca_readable = (\<lambda>_. True), ca_dir_ok = True, ca_write = Written, ca_rename_ok = True, ca_keyring_ok = True \<rparr>"

definition sample_provider :: "encryption_config \<Rightarrow> file_provider" where
  "sample_provider c = \<lparr> fp_file_path = ''/c/credentials.enc'', fp_master_key = ''key'', fp_encryption_config = c \<rparr>"

definition sample_credential :: credential where
  "sample_credential = \<lparr> cd_username = ''u'', cd_password = ''p'', cd_domain = None, cd_metadata = [] \<rparr>"

lemma sample_salt_valid: "validate_salt_quality sample_salt ''PBKDF2'' = Inr ()" "validate_salt_quality sample_salt ''HKDF'' = Inr ()"
  by code_simp+

lemma sample_call_good: "good_call sample_call"
  by (simp add: good_call_def sample_call_def sample_salt_valid)

lemma sample_temp: "with_extension ''tmp'' ''/c/credentials.enc'' = ''/c/credentials.tmp''"
  by code_simp

lemma sample_save:
  "\<exists>st. sealed_store crypto_sample cc (sample_provider c) i m = Inr st
     \<and> save_store crypto_sample cc (sample_provider c) (i\<lparr>ca_dir_ok := True, ca_write := Written, ca_rename_ok := True\<rparr>) m fs
       = (fs(''/c/credentials.enc'' := Some (cc_file_text cc st), ''/c/credentials.tmp'' := None), Returned (Inr ()))"
proof -
  have "length (derive_encryption_key crypto_sample (sample_provider c) ps hs) = 32" for ps hs
    using crypto_sample_ok by (simp add: crypto_ok_def derive_encryption_key_def)
  then show ?thesis
    by (auto simp: save_store_def sealed_store_def Let_def encrypt_with_def sample_temp write_file_def rename_file_def sample_provider_def
        crypto_sample_def fun_upd_twist)
qed




text \<open>the writer does not check what the reader requires: after a successful save with salts that the reader finds wanting,
  every further call on the file fails, and the error never goes away.\<close>

theorem unlucky_salt_locks_store:
  assumes "crypto_ok cy" "codec_ok cc" "enc_pbkdf2_iterations (fp_encryption_config fp) \<ge> 60000"
    and "with_extension ''tmp'' (fp_file_path fp) \<noteq> fp_file_path fp"
    and "save_store cy cc fp i m fs = (fs', Returned (Inr ()))" "validate_salt_quality (ca_pbkdf2_salt i) ''PBKDF2'' = Inl e"
    and "ca_readable j (fp_file_path fp)"
  shows "file_get_credential cy cc fp j fs' k = Returned (Inl e)"
    and "file_store_credential cy cc fp j k c fs' = (fs', Returned (Inl e))"
    and "file_delete_credential cy cc fp j k fs' = (fs', Returned (Inl e))"
proof -
  from save_effect [OF assms(5,4)] obtain st where st: "sealed_store cy cc fp i m = Inr st"
      "fs' (fp_file_path fp) = Some (cc_file_text cc st)" by auto
  then have "cs_version st = 3 \<and> cs_pbkdf2_salt st = cy_b64_encode cy (ca_pbkdf2_salt i)
      \<and> cs_hkdf_salt st = cy_b64_encode cy (ca_hkdf_salt i)
      \<and> cs_pbkdf2_iterations st = enc_pbkdf2_iterations (fp_encryption_config fp)"
    by (auto simp: sealed_store_def Let_def fuji_res)
  moreover have "\<not> enc_pbkdf2_iterations (fp_encryption_config fp) < 60000" using assms(3) by (simp add: linorder_not_less)
  ultimately have "load_store cy cc fp j fs' = Returned (Inl e)"
    using st(2) assms(1,2,6,7)
    by (simp add: load_store_def load_store_v3_def crypto_ok_def codec_ok_def ok_or_def del: linorder_not_less)
  then show "file_get_credential cy cc fp j fs' k = Returned (Inl e)"
    "file_store_credential cy cc fp j k c fs' = (fs', Returned (Inl e))"
    "file_delete_credential cy cc fp j k fs' = (fs', Returned (Inl e))"
    by (simp_all add: file_get_credential_def file_store_credential_def file_delete_credential_def update_store_def)
qed

theorem unlucky_salt_locks_store_witness:
  "\<exists>fs'. save_store crypto_sample codec_sample (sample_provider security_optimized)
       (sample_call\<lparr>ca_pbkdf2_salt := ''b'' @ replicate 31 CHR ''a''\<rparr>) [] Map.empty = (fs', Returned (Inr ()))
     \<and> file_get_credential crypto_sample codec_sample (sample_provider security_optimized) sample_call fs' ''m''
       = Returned (Inl (Salt_Bits ''PBKDF2'' 0))"
proof -
  let ?i = "sample_call\<lparr>ca_pbkdf2_salt := ''b'' @ replicate 31 CHR ''a''\<rparr>" and ?fp = "sample_provider security_optimized"
  have call: "?i\<lparr>ca_dir_ok := True, ca_write := Written, ca_rename_ok := True\<rparr> = ?i" by (simp add: sample_call_def)
  obtain fs' where save: "save_store crypto_sample codec_sample ?fp ?i [] Map.empty = (fs', Returned (Inr ()))"
    using sample_save [of codec_sample security_optimized ?i "[]" Map.empty] unfolding call by auto
  have bad: "validate_salt_quality (''b'' @ replicate 31 CHR ''a'') ''PBKDF2'' = Inl (Salt_Bits ''PBKDF2'' 0)" by code_simp
  from unlucky_salt_locks_store(1) [OF crypto_sample_ok codec_sample_ok _ _ save _, of "Salt_Bits ''PBKDF2'' 0" sample_call "''m''"] bad save
  show ?thesis by (auto simp: sample_provider_def sample_temp security_optimized_def sample_call_def)
qed

text \<open>a configuration with fewer than 60000 iterations, which \<open>with_iterations\<close> only warns about, writes a file that is refused
  ever after.\<close>

theorem low_iterations_write_only:
  assumes "codec_ok cc" "enc_pbkdf2_iterations (fp_encryption_config fp) < 60000"
    and "with_extension ''tmp'' (fp_file_path fp) \<noteq> fp_file_path fp"
    and "save_store cy cc fp i m fs = (fs', Returned (Inr ()))" "ca_readable j (fp_file_path fp)"
  shows "file_get_credential cy cc fp j fs' k = Returned (Inl (Weak_Iterations (enc_pbkdf2_iterations (fp_encryption_config fp))))"
proof -
  from save_effect [OF assms(4,3)] obtain st where st: "sealed_store cy cc fp i m = Inr st"
      "fs' (fp_file_path fp) = Some (cc_file_text cc st)" by auto
  then have "cs_version st = 3 \<and> cs_pbkdf2_iterations st = enc_pbkdf2_iterations (fp_encryption_config fp)"
    by (auto simp: sealed_store_def Let_def fuji_res)
  with st(2) assms(1,2,5) show ?thesis
    by (simp add: file_get_credential_def load_store_def load_store_v3_def codec_ok_def)
qed

theorem low_iterations_write_only_witness:
  "\<exists>fs'. save_store crypto_sample codec_sample (sample_provider (with_iterations 1000 security_optimized)) sample_call [] Map.empty
       = (fs', Returned (Inr ()))
     \<and> file_get_credential crypto_sample codec_sample (sample_provider (with_iterations 1000 security_optimized)) sample_call fs' ''m''
       = Returned (Inl (Weak_Iterations 1000))"
proof -
  let ?fp = "sample_provider (with_iterations 1000 security_optimized)"
  have call: "sample_call\<lparr>ca_dir_ok := True, ca_write := Written, ca_rename_ok := True\<rparr> = sample_call"
    by (simp add: sample_call_def)
  obtain fs' where save: "save_store crypto_sample codec_sample ?fp sample_call [] Map.empty = (fs', Returned (Inr ()))"
    using sample_save [of codec_sample "with_iterations 1000 security_optimized" sample_call "[]" Map.empty] unfolding call by auto
  from low_iterations_write_only [OF codec_sample_ok _ _ save, of sample_call "''m''"] save
  show ?thesis by (auto simp: sample_provider_def sample_temp with_iterations_def sample_call_def)
qed

text \<open>the master key contains no secret and no separators: without the environment variables, as in a service, the accounts
  with user 100 and group 1100 and with user 1001 and group 100 have the same key.\<close>

theorem accounts_share_master_key: "derive_master_key cy [] 100 1100 = derive_master_key cy [] 1001 100"
proof -
  have "show_nat 100 @ show_nat 1100 = show_nat 1001 @ show_nat 100" by code_simp
  then show ?thesis
    by (simp add: derive_master_key_def master_key_entropy_def master_key_salt_def env_var_def hm_get_def)
qed

end
