(* ===== verification/Credential_Manager.thy ===== *)
theory Credential_Manager
  imports Credential_File Platform_Linux
begin

text \<open>
  The credential manager and its providers: the environment (\<open>src/security/env_provider.rs\<close>), the encrypted file
  (\<open>Credential_File\<close>), the keyring (\<open>src/security/keyring_provider.rs\<close>) and the chain that tries them in turn
  (\<open>src/security/mod.rs\<close>).  Each provider implements \<open>credential_store\<close>; what the chain makes of them is proved
  from their laws.
\<close>

section \<open>The environment provider\<close>

record credential_world =
  cw_files :: files
  cw_vars :: "(string, string) hashmap"
  cw_keyring :: "string \<Rightarrow> string option"

definition env_prefix :: string where
  "env_prefix = ''FUJI_MOUNT_''"

definition sanitize_mount_id :: "string \<Rightarrow> string" where
  "sanitize_mount_id = map (\<lambda>c. if is_ascii_alphanumeric c then char_upper c else CHR ''_'')"

definition credential_var :: "string \<Rightarrow> string" where
  "credential_var mount_id = env_prefix @ sanitize_mount_id mount_id"

definition parse_credential :: "credential_codec \<Rightarrow> string \<Rightarrow> credential_error + credential" where
  "parse_credential cc s =
     (case (if starts_with (trim_start is_whitespace s) ''{'' then cc_credential_of cc s else None) of
        Some c \<Rightarrow> Inr c
      | None \<Rightarrow>
          (case split_on CHR '':'' s of
             username # password # rest \<Rightarrow>
               Inr \<lparr> cd_username = username, cd_password = password,
                     cd_domain = (if rest = [] then None else Some (join '':'' rest)), cd_metadata = [] \<rparr>
           | _ \<Rightarrow> Inl Bad_Format))"

definition get_from_env :: "credential_codec \<Rightarrow> (string, string) hashmap \<Rightarrow> string \<Rightarrow> credential option" where
  "get_from_env cc vars mount_id =
     (case hm_get vars (credential_var mount_id) of
        None \<Rightarrow> None
      | Some s \<Rightarrow> (case parse_credential cc s of Inr c \<Rightarrow> Some c | Inl _ \<Rightarrow> None))"

definition list_env_credential_ids :: "(string, string) hashmap \<Rightarrow> string list" where
  "list_env_credential_ids vars =
     map (\<lambda>(k, _). to_lowercase (drop (length env_prefix) k)) (filter (\<lambda>(k, _). starts_with k env_prefix) vars)"

definition env_store_credential ::
    "credential_codec \<Rightarrow> credential_call \<Rightarrow> string \<Rightarrow> credential \<Rightarrow> credential_world \<Rightarrow> credential_world \<times> (credential_error + unit) outcome" where
  "env_store_credential cc i k c w = (w, Returned (Inl Read_Only))"

definition env_get_credential ::
    "credential_codec \<Rightarrow> credential_call \<Rightarrow> credential_world \<Rightarrow> string \<Rightarrow> (credential_error + credential option) outcome" where
  "env_get_credential cc i w k = Returned (Inr (get_from_env cc (cw_vars w) k))"

definition env_delete_credential ::
    "credential_codec \<Rightarrow> credential_call \<Rightarrow> string \<Rightarrow> credential_world \<Rightarrow> credential_world \<times> (credential_error + unit) outcome" where
  "env_delete_credential cc i k w = (w, Returned (Inl Read_Only))"

definition env_has_credential :: "credential_world \<Rightarrow> string \<Rightarrow> bool" where
  "env_has_credential w k = hm_contains_key (cw_vars w) (credential_var k)"

section \<open>The keyring provider\<close>

text \<open>An entry is addressed by the mount identifier; all failures of the keyring become one error.\<close>

definition keyring_store_credential ::
    "credential_codec \<Rightarrow> credential_call \<Rightarrow> string \<Rightarrow> credential \<Rightarrow> credential_world \<Rightarrow> credential_world \<times> (credential_error + unit) outcome" where
  "keyring_store_credential cc i k c w =
     (if ca_keyring_ok i then (w\<lparr>cw_keyring := (cw_keyring w)(k \<mapsto> cc_credential_text cc c)\<rparr>, Returned (Inr ()))
      else (w, Returned (Inl Keyring_Failed)))"

definition keyring_get_credential ::
    "credential_codec \<Rightarrow> credential_call \<Rightarrow> credential_world \<Rightarrow> string \<Rightarrow> (credential_error + credential option) outcome" where
  "keyring_get_credential cc i w k =
     Returned (if \<not> ca_keyring_ok i then Inl Keyring_Failed
       else case cw_keyring w k of
              None \<Rightarrow> Inr None
            | Some s \<Rightarrow> and_then (ok_or (cc_credential_of cc s) Not_Credentials) (\<lambda>c. Inr (Some c)))"

definition keyring_delete_credential ::
    "credential_codec \<Rightarrow> credential_call \<Rightarrow> string \<Rightarrow> credential_world \<Rightarrow> credential_world \<times> (credential_error + unit) outcome" where
  "keyring_delete_credential cc i k w =
     (if ca_keyring_ok i then (w\<lparr>cw_keyring := (cw_keyring w)(k := None)\<rparr>, Returned (Inr ()))
      else (w, Returned (Inl Keyring_Failed)))"

definition keyring_has_credential :: "credential_call \<Rightarrow> credential_world \<Rightarrow> string \<Rightarrow> credential_error + bool" where
  "keyring_has_credential i w k = (if ca_keyring_ok i then Inr (cw_keyring w k \<noteq> None) else Inl Keyring_Failed)"

interpretation env_store: credential_store "\<lambda>_ _. True" "\<lambda>_. True" env_store_credential env_get_credential env_delete_credential
  by unfold_locales (simp_all add: env_store_credential_def env_delete_credential_def)

interpretation keyring_store: credential_store "\<lambda>cc _. codec_ok cc" ca_keyring_ok
    keyring_store_credential keyring_get_credential keyring_delete_credential
  by unfold_locales
    (auto simp: keyring_store_credential_def keyring_get_credential_def keyring_delete_credential_def codec_ok_def ok_or_def)

section \<open>The chain of providers\<close>

datatype provider = Env_Provider | File_Provider file_provider | Keyring_Provider

fun provider_store ::
    "crypto \<Rightarrow> credential_codec \<Rightarrow> provider \<Rightarrow> credential_call \<Rightarrow> string \<Rightarrow> credential \<Rightarrow> credential_world
     \<Rightarrow> credential_world \<times> (credential_error + unit) outcome" where
  "provider_store cy cc Env_Provider i k c w = env_store_credential cc i k c w"
| "provider_store cy cc (File_Provider fp) i k c w =
     (case file_store_credential cy cc fp i k c (cw_files w) of (fs, r) \<Rightarrow> (w\<lparr>cw_files := fs\<rparr>, r))"
| "provider_store cy cc Keyring_Provider i k c w = keyring_store_credential cc i k c w"

fun provider_get ::
    "crypto \<Rightarrow> credential_codec \<Rightarrow> provider \<Rightarrow> credential_call \<Rightarrow> credential_world \<Rightarrow> string \<Rightarrow> (credential_error + credential option) outcome" where
  "provider_get cy cc Env_Provider i w k = env_get_credential cc i w k"
| "provider_get cy cc (File_Provider fp) i w k = file_get_credential cy cc fp i (cw_files w) k"
| "provider_get cy cc Keyring_Provider i w k = keyring_get_credential cc i w k"

fun provider_delete ::
    "crypto \<Rightarrow> credential_codec \<Rightarrow> provider \<Rightarrow> credential_call \<Rightarrow> string \<Rightarrow> credential_world
     \<Rightarrow> credential_world \<times> (credential_error + unit) outcome" where
  "provider_delete cy cc Env_Provider i k w = env_delete_credential cc i k w"
| "provider_delete cy cc (File_Provider fp) i k w =
     (case file_delete_credential cy cc fp i k (cw_files w) of (fs, r) \<Rightarrow> (w\<lparr>cw_files := fs\<rparr>, r))"
| "provider_delete cy cc Keyring_Provider i k w = keyring_delete_credential cc i k w"

fun provider_list ::
    "crypto \<Rightarrow> credential_codec \<Rightarrow> provider \<Rightarrow> credential_call \<Rightarrow> credential_world \<Rightarrow> (credential_error + string list) outcome" where
  "provider_list cy cc Env_Provider i w = Returned (Inr (list_env_credential_ids (cw_vars w)))"
| "provider_list cy cc (File_Provider fp) i w = file_list_credentials cy cc fp i (cw_files w)"
| "provider_list cy cc Keyring_Provider i w = Returned (Inr [])"

fun provider_has ::
    "crypto \<Rightarrow> credential_codec \<Rightarrow> provider \<Rightarrow> credential_call \<Rightarrow> credential_world \<Rightarrow> string \<Rightarrow> (credential_error + bool) outcome" where
  "provider_has cy cc Env_Provider i w k = Returned (Inr (env_has_credential w k))"
| "provider_has cy cc (File_Provider fp) i w k = file_has_credential cy cc fp i (cw_files w) k"
| "provider_has cy cc Keyring_Provider i w k = Returned (keyring_has_credential i w k)"

definition credential_manager_new :: "file_provider option \<Rightarrow> provider list" where
  "credential_manager_new fp = [Env_Provider] @ (case fp of Some p \<Rightarrow> [File_Provider p] | None \<Rightarrow> []) @ [Keyring_Provider]"

fun manager_store ::
    "crypto \<Rightarrow> credential_codec \<Rightarrow> credential_call \<Rightarrow> string \<Rightarrow> credential \<Rightarrow> provider list \<Rightarrow> credential_world
     \<Rightarrow> credential_world \<times> (credential_error + unit) outcome" where
  "manager_store cy cc i k c [] w = (w, Returned (Inl No_Provider))"
| "manager_store cy cc i k c (p # ps) w =
     (case provider_store cy cc p i k c w of
        (w', Returned (Inl e)) \<Rightarrow> manager_store cy cc i k c ps w'
      | r \<Rightarrow> r)"

fun manager_get ::
    "crypto \<Rightarrow> credential_codec \<Rightarrow> credential_call \<Rightarrow> credential_world \<Rightarrow> string \<Rightarrow> provider list \<Rightarrow> (credential_error + credential option) outcome" where
  "manager_get cy cc i w k [] = Returned (Inr None)"
| "manager_get cy cc i w k (p # ps) =
     (case provider_get cy cc p i w k of
        Returned (Inr (Some c)) \<Rightarrow> Returned (Inr (Some c))
      | Returned _ \<Rightarrow> manager_get cy cc i w k ps
      | Blocked \<Rightarrow> Blocked
      | Panicked \<Rightarrow> Panicked)"

fun delete_from ::
    "crypto \<Rightarrow> credential_codec \<Rightarrow> credential_call \<Rightarrow> string \<Rightarrow> bool \<Rightarrow> provider list \<Rightarrow> credential_world
     \<Rightarrow> credential_world \<times> (credential_error + unit) outcome" where
  "delete_from cy cc i k any_success [] w = (w, Returned (if any_success then Inr () else Inl No_Provider))"
| "delete_from cy cc i k any_success (p # ps) w =
     (case provider_delete cy cc p i k w of
        (w', Returned r) \<Rightarrow> delete_from cy cc i k (any_success \<or> is_ok r) ps w'
      | r \<Rightarrow> r)"

definition manager_delete where
  "manager_delete cy cc i k ps w = delete_from cy cc i k False ps w"

fun manager_list ::
    "crypto \<Rightarrow> credential_codec \<Rightarrow> credential_call \<Rightarrow> credential_world \<Rightarrow> provider list \<Rightarrow> string list outcome" where
  "manager_list cy cc i w [] = Returned []"
| "manager_list cy cc i w (p # ps) =
     (case provider_list cy cc p i w of
        Returned r \<Rightarrow>
          (case manager_list cy cc i w ps of
             Returned ks \<Rightarrow> Returned (remdups ((case r of Inr js \<Rightarrow> js | Inl _ \<Rightarrow> []) @ ks))
           | x \<Rightarrow> x)
      | Blocked \<Rightarrow> Blocked
      | Panicked \<Rightarrow> Panicked)"

fun manager_has ::
    "crypto \<Rightarrow> credential_codec \<Rightarrow> credential_call \<Rightarrow> credential_world \<Rightarrow> string \<Rightarrow> provider list \<Rightarrow> (credential_error + bool) outcome" where
  "manager_has cy cc i w k [] = Returned (Inr False)"
| "manager_has cy cc i w k (p # ps) =
     oc_then (provider_has cy cc p i w k) (\<lambda>b. if b then Returned (Inr True) else manager_has cy cc i w k ps)"

section \<open>Properties of the chain\<close>

definition the_chain :: "file_provider \<Rightarrow> provider list" where
  "the_chain fp = credential_manager_new (Some fp)"

lemma the_chain_simp: "the_chain fp = [Env_Provider, File_Provider fp, Keyring_Provider]"
  by (simp add: the_chain_def credential_manager_new_def)

text \<open>what is stored is found again, provided the environment does not name the mount.\<close>

theorem stored_credential_found:
  assumes "file_inv (cy, cc, fp) (cw_files w)" "good_call i" "good_call j"
    and "hm_get (cw_vars w) (credential_var k) = None"
    and "file_store_credential cy cc fp i k c (cw_files w) = (fs', Returned (Inr ()))"
  shows "\<exists>w'. manager_store cy cc i k c (the_chain fp) w = (w', Returned (Inr ()))
    \<and> manager_get cy cc j w' k (the_chain fp) = Returned (Inr (Some c))"
proof -
  from assms(1,3) obtain m where "load_store cy cc fp j (cw_files w) = Returned (Inr m)" by (auto simp: file_inv_def)
  then have "file_get_credential cy cc fp j (cw_files w) k = Returned (Inr (hm_get m k))" by (simp add: file_get_credential_def)
  with file_store.put_get [of "(cy, cc, fp)" "cw_files w" i k c fs' j k] assms
  have "file_get_credential cy cc fp j fs' k = Returned (Inr (Some c))" by simp
  with assms(4,5) show ?thesis
    by (simp add: the_chain_simp env_store_credential_def env_get_credential_def get_from_env_def)
qed

text \<open>when the file cannot be used the keyring takes over: the credential is stored there and found.\<close>

theorem keyring_takes_over:
  assumes "codec_ok cc" "ca_keyring_ok i" "ca_keyring_ok j" "hm_get (cw_vars w) (credential_var k) = None"
    and "load_store cy cc fp i (cw_files w) = Returned (Inl e)" "load_store cy cc fp j (cw_files w) = Returned (Inl e)"
  shows "\<exists>w'. manager_store cy cc i k c (the_chain fp) w = (w', Returned (Inr ()))
    \<and> manager_get cy cc j w' k (the_chain fp) = Returned (Inr (Some c))
    \<and> manager_has cy cc j w' k (the_chain fp) = Returned (Inl e)"
  using assms
  by (simp add: the_chain_simp env_store_credential_def env_get_credential_def get_from_env_def file_store_credential_def update_store_def
      keyring_store_credential_def keyring_get_credential_def file_get_credential_def codec_ok_def ok_or_def env_has_credential_def
      file_has_credential_def hm_contains_key_def hm_get_def)

text \<open>a variable of the environment is returned in preference to whatever is stored, for every mount whose identifier has the
  same letters and digits, and cannot be deleted: the deletion reports success and changes nothing for the reader.\<close>

theorem environment_shadows:
  assumes "hm_get (cw_vars w) (credential_var k) = Some s" "parse_credential cc s = Inr c"
    and "sanitize_mount_id k' = sanitize_mount_id k"
    and "manager_delete cy cc i k' (the_chain fp) w = (w', r)"
  shows "manager_get cy cc j w' k' (the_chain fp) = Returned (Inr (Some c))"
proof -
  have "cw_vars w' = cw_vars w"
    using assms(4)
    by (auto simp: manager_delete_def the_chain_simp env_delete_credential_def keyring_delete_credential_def
        split: prod.splits outcome.splits if_splits)
  with assms(1-3) show ?thesis
    by (simp add: the_chain_simp env_get_credential_def get_from_env_def credential_var_def)
qed

text \<open>a password with a colon is cut at the colon, and the rest becomes the domain.\<close>

lemma split_on_nocolon: "CHR '':'' \<notin> set a \<Longrightarrow> split_on CHR '':'' (a @ CHR '':'' # s) = a # split_on CHR '':'' s"
  by (induction a) auto

lemma split_on_single: "CHR '':'' \<notin> set a \<Longrightarrow> split_on CHR '':'' a = [a]"
  by (induction a) auto

theorem colon_cuts_password:
  assumes "CHR '':'' \<notin> set user" "CHR '':'' \<notin> set a" "CHR '':'' \<notin> set b" "\<not> starts_with (trim_start is_whitespace (user @ '':'' @ a @ '':'' @ b)) ''{''"
  shows "parse_credential cc (user @ '':'' @ a @ '':'' @ b) =
    Inr \<lparr> cd_username = user, cd_password = a, cd_domain = Some b, cd_metadata = [] \<rparr>"
  using assms by (simp add: parse_credential_def split_on_nocolon split_on_single)

theorem colon_cuts_password_witness:
  "parse_credential codec_sample ''bob:pa:ss'' =
     Inr \<lparr> cd_username = ''bob'', cd_password = ''pa'', cd_domain = Some ''ss'', cd_metadata = [] \<rparr>"
  using colon_cuts_password [of "''bob''" "''pa''" "''ss''" codec_sample]
  by (simp add: trim_start_def is_whitespace_def char_code_def)

definition sample_world :: credential_world where
  "sample_world = \<lparr> cw_files = Map.empty, cw_vars = [(''FUJI_MOUNT_A_B'', ''bob:secret'')], cw_keyring = Map.empty \<rparr>"

lemma sample_var:
  "hm_get (cw_vars sample_world) (credential_var ''a-b'') = Some ''bob:secret''"
  "sanitize_mount_id ''a.b'' = sanitize_mount_id ''a-b''"
  "hm_get (cw_vars sample_world) (credential_var ''m'') = None"
  by (code_simp)+

lemma sample_parse:
  "parse_credential codec_sample ''bob:secret'' = Inr \<lparr> cd_username = ''bob'', cd_password = ''secret'', cd_domain = None, cd_metadata = [] \<rparr>"
  by (simp add: parse_credential_def trim_start_def is_whitespace_def char_code_def)

theorem environment_shadows_witness:
  "\<exists>w' r. manager_delete crypto_sample codec_sample sample_call ''a.b'' (the_chain (sample_provider security_optimized)) sample_world = (w', r)
     \<and> manager_get crypto_sample codec_sample sample_call w' ''a.b'' (the_chain (sample_provider security_optimized))
       = Returned (Inr (Some \<lparr> cd_username = ''bob'', cd_password = ''secret'', cd_domain = None, cd_metadata = [] \<rparr>))"
proof -
  obtain w' r where del: "manager_delete crypto_sample codec_sample sample_call ''a.b'' (the_chain (sample_provider security_optimized)) sample_world
      = (w', r)" by (cases "manager_delete crypto_sample codec_sample sample_call ''a.b'' (the_chain (sample_provider security_optimized)) sample_world")
  from environment_shadows [OF sample_var(1) sample_parse sample_var(2) del] del show ?thesis by blast
qed

theorem keyring_takes_over_witness:
  "\<exists>w'. manager_store crypto_sample codec_sample (sample_call\<lparr>ca_readable := (\<lambda>_. False)\<rparr>) ''m'' sample_credential
         (the_chain (sample_provider security_optimized)) (sample_world\<lparr>cw_files := [''/c/credentials.enc'' \<mapsto> ''x'']\<rparr>) = (w', Returned (Inr ()))
     \<and> manager_get crypto_sample codec_sample (sample_call\<lparr>ca_readable := (\<lambda>_. False)\<rparr>) w' ''m'' (the_chain (sample_provider security_optimized))
       = Returned (Inr (Some sample_credential))"
proof -
  let ?w = "sample_world\<lparr>cw_files := [''/c/credentials.enc'' \<mapsto> ''x'']\<rparr>" and ?i = "sample_call\<lparr>ca_readable := (\<lambda>_. False)\<rparr>"
  have "load_store crypto_sample codec_sample (sample_provider security_optimized) ?i (cw_files ?w) = Returned (Inl Open_Failed)"
    by (simp add: load_store_def sample_provider_def)
  from keyring_takes_over [OF codec_sample_ok _ _ _ this this, of "''m''" sample_credential] sample_var(3)
  show ?thesis by (auto simp: sample_call_def)
qed

theorem stored_credential_found_witness:
  "\<exists>w'. manager_store crypto_sample codec_sample sample_call ''m'' sample_credential (the_chain (sample_provider security_optimized)) sample_world
        = (w', Returned (Inr ()))
     \<and> manager_get crypto_sample codec_sample sample_call w' ''m'' (the_chain (sample_provider security_optimized))
       = Returned (Inr (Some sample_credential))"
proof -
  let ?fp = "sample_provider security_optimized"
  have call: "sample_call\<lparr>ca_dir_ok := True, ca_write := Written, ca_rename_ok := True\<rparr> = sample_call" by (simp add: sample_call_def)
  obtain fs' where "save_store crypto_sample codec_sample ?fp sample_call [(''m'', sample_credential)] Map.empty = (fs', Returned (Inr ()))"
    using sample_save [of codec_sample security_optimized sample_call "[(''m'', sample_credential)]" Map.empty] unfolding call by auto
  then have put: "file_store_credential crypto_sample codec_sample ?fp sample_call ''m'' sample_credential (cw_files sample_world)
      = (fs', Returned (Inr ()))"
    by (simp add: file_store_credential_def update_store_def load_store_def hm_insert_def sample_world_def)
  have "file_inv (crypto_sample, codec_sample, ?fp) (cw_files sample_world)"
    by (rule empty_file_inv [OF crypto_sample_ok codec_sample_ok])
      (simp_all add: sample_provider_def sample_temp sample_world_def security_optimized_def)
  from stored_credential_found [OF this sample_call_good sample_call_good sample_var(3) put] show ?thesis .
qed

end
