(* ===== verification/Credential_Backup.thy ===== *)
theory Credential_Backup
  imports Credential_File
begin

text \<open>
  The hardware credential provider (\<open>src/security/hardware_credential_provider.rs\<close>) and the backups of its
  credentials (\<open>src/security/credential_backup.rs\<close>).  JSON, the key store and the clock are arguments; the remote,
  cloud and recovery-key stores are the stubs of the source.  The map of backups keeps the order in which Rust would
  iterate it.
\<close>

section \<open>Enhanced credentials\<close>

record key_derivation_params =
  kd_iterations :: u32
  kd_salt :: string
  kd_key_length :: nat
  kd_memory_cost :: "u32 option"
  kd_parallelism :: "u32 option"

record security_metadata =
  sm_integrity_hash :: string
  sm_kdf_params :: key_derivation_params
  sm_encryption_algorithm :: string
  sm_mfa_required :: bool
  sm_access_restrictions :: "(string, string) hashmap"
  sm_audit_log_ids :: "string list"

record enhanced_credential =
  en_credential :: credential
  en_version :: u64
  en_created_at :: instant
  en_expires_at :: "instant option"
  en_last_rotated :: "instant option"
  en_security_metadata :: security_metadata

record key_rotation_config =
  kr_rotation_interval :: duration
  kr_grace_period :: duration
  kr_max_key_age :: duration
  kr_notification_period :: duration

definition key_rotation_default :: key_rotation_config where
  "key_rotation_default =
     \<lparr> kr_rotation_interval = secs (90 * 24 * 60 * 60), kr_grace_period = secs (7 * 24 * 60 * 60),
       kr_max_key_age = secs (365 * 24 * 60 * 60), kr_notification_period = secs (14 * 24 * 60 * 60) \<rparr>"

record security_policy =
  spo_min_password_length :: nat
  spo_require_complex_password :: bool
  spo_max_failed_attempts :: u32
  spo_lockout_duration :: duration
  spo_session_timeout :: duration
  spo_require_mfa :: bool
  spo_max_concurrent_sessions :: u32

definition security_policy_default :: security_policy where
  "security_policy_default =
     \<lparr> spo_min_password_length = 12, spo_require_complex_password = True, spo_max_failed_attempts = 5,
       spo_lockout_duration = secs (15 * 60), spo_session_timeout = secs (30 * 60), spo_require_mfa = False,
       spo_max_concurrent_sessions = 3 \<rparr>"

record cached_key =
  ck_key_id :: string
  ck_key_data :: string
  ck_created_at :: instant
  ck_last_accessed :: instant
  ck_access_count :: u64

datatype hardware_error =
    Password_Short nat
  | Password_Simple
  | Hsm_Failed
  | Credential_Not_Found string
  | Credential_Undecodable

text \<open>The trait \<open>HsmBackend\<close>, as far as the provider calls it, on a state of its own.\<close>

record 'h hsm =
  hs_store_key :: "string \<Rightarrow> string \<Rightarrow> 'h \<Rightarrow> 'h \<times> bool"
  hs_get_key :: "'h \<Rightarrow> string \<Rightarrow> hardware_error + string option"
  hs_rotate_key :: "string \<Rightarrow> string \<Rightarrow> 'h \<Rightarrow> 'h \<times> bool"

definition software_hsm :: "unit hsm" where
  "software_hsm =
     \<lparr> hs_store_key = (\<lambda>key data h. (h, False)), hs_get_key = (\<lambda>h key. Inr None), hs_rotate_key = (\<lambda>key data h. (h, True)) \<rparr>"

record 'h hardware_provider =
  hp_hsm :: 'h
  hp_key_cache :: "(string, cached_key) hashmap"
  hp_security_policy :: security_policy

record enhanced_codec =
  ec_text :: "enhanced_credential \<Rightarrow> string"
  ec_of :: "string \<Rightarrow> enhanced_credential option"
  ec_map_text :: "(string, enhanced_credential) hashmap \<Rightarrow> string"
  ec_map_of :: "string \<Rightarrow> (string, enhanced_credential) hashmap option"
  ec_data_text :: "encrypted_data \<Rightarrow> string"
  ec_data_of :: "string \<Rightarrow> encrypted_data option"

definition enhanced_codec_ok :: "enhanced_codec \<Rightarrow> bool" where
  "enhanced_codec_ok ec =
     ((\<forall>c. ec_of ec (ec_text ec c) = Some c) \<and> (\<forall>m. ec_map_of ec (ec_map_text ec m) = Some m)
      \<and> (\<forall>d. ec_data_of ec (ec_data_text ec d) = Some d))"

definition special_chars :: string where
  "special_chars = ''!@#$%^&*()_+-=[]{}|;:,.<>?''"

definition validate_password :: "security_policy \<Rightarrow> string \<Rightarrow> hardware_error + unit" where
  "validate_password pol password =
     (if length password < spo_min_password_length pol then Inl (Password_Short (spo_min_password_length pol))
      else if spo_require_complex_password pol
           \<and> \<not> (list_ex is_ascii_upper password \<and> list_ex is_ascii_lower password \<and> list_ex is_ascii_digit password
                \<and> list_ex (\<lambda>c. c \<in> set special_chars) password)
      then Inl Password_Simple
      else Inr ())"

definition calculate_credential_hash :: "crypto \<Rightarrow> credential \<Rightarrow> string" where
  "calculate_credential_hash cy c =
     cy_hex_encode cy (cy_sha256 cy (cd_username c @ cd_password c @ (case cd_domain c of Some d \<Rightarrow> d | None \<Rightarrow> [])))"

definition create_enhanced_credential :: "crypto \<Rightarrow> security_policy \<Rightarrow> instant \<Rightarrow> string \<Rightarrow> credential \<Rightarrow> enhanced_credential" where
  "create_enhanced_credential cy pol now salt c =
     \<lparr> en_credential = c, en_version = 1, en_created_at = now, en_expires_at = None, en_last_rotated = Some now,
       en_security_metadata =
         \<lparr> sm_integrity_hash = calculate_credential_hash cy c,
           sm_kdf_params = \<lparr> kd_iterations = 200000, kd_salt = salt, kd_key_length = 32, kd_memory_cost = None, kd_parallelism = Some 4 \<rparr>,
           sm_encryption_algorithm = ''chacha20-poly1305'', sm_mfa_required = spo_require_mfa pol, sm_access_restrictions = [],
           sm_audit_log_ids = [] \<rparr> \<rparr>"

text \<open>The "key" that goes to the store is the printed credential itself.\<close>

definition generate_credential_key :: "enhanced_codec \<Rightarrow> enhanced_credential \<Rightarrow> string" where
  "generate_credential_key ec c = ec_text ec c"

definition decrypt_credential :: "enhanced_codec \<Rightarrow> string \<Rightarrow> hardware_error + enhanced_credential" where
  "decrypt_credential ec s = ok_or (ec_of ec s) Credential_Undecodable"

definition credential_key_id :: "string \<Rightarrow> string" where
  "credential_key_id mount_id = ''credential_'' @ mount_id"

definition store_enhanced_credential ::
    "crypto \<Rightarrow> enhanced_codec \<Rightarrow> 'h hsm \<Rightarrow> instant \<Rightarrow> string \<Rightarrow> string \<Rightarrow> credential \<Rightarrow> 'h hardware_provider
     \<Rightarrow> 'h hardware_provider \<times> (hardware_error + unit)" where
  "store_enhanced_credential cy ec hs now salt mount_id c hp =
     (case validate_password (hp_security_policy hp) (cd_password c) of
        Inl e \<Rightarrow> (hp, Inl e)
      | Inr u \<Rightarrow>
          let key_id = credential_key_id mount_id;
              key_data = generate_credential_key ec (create_enhanced_credential cy (hp_security_policy hp) now salt c)
          in (case hs_store_key hs key_id key_data (hp_hsm hp) of
                (h, False) \<Rightarrow> (hp\<lparr>hp_hsm := h\<rparr>, Inl Hsm_Failed)
              | (h, True) \<Rightarrow>
                  (hp\<lparr>hp_hsm := h, hp_key_cache := hm_insert key_id
                      \<lparr> ck_key_id = key_id, ck_key_data = key_data, ck_created_at = now, ck_last_accessed = now, ck_access_count = 0 \<rparr>
                      (hp_key_cache hp)\<rparr>, Inr ())))"

definition update_key_access_stats :: "instant \<Rightarrow> string \<Rightarrow> 'h hardware_provider \<Rightarrow> 'h hardware_provider" where
  "update_key_access_stats now key_id hp =
     hp\<lparr>hp_key_cache := hm_update key_id (\<lambda>ck. ck\<lparr>ck_last_accessed := now, ck_access_count := ck_access_count ck + 1\<rparr>) (hp_key_cache hp)\<rparr>"

text \<open>A cached entry only updates the statistics: the value comes from the store in either case.\<close>

definition get_enhanced_credential ::
    "enhanced_codec \<Rightarrow> 'h hsm \<Rightarrow> instant \<Rightarrow> string \<Rightarrow> 'h hardware_provider
     \<Rightarrow> 'h hardware_provider \<times> (hardware_error + enhanced_credential option)" where
  "get_enhanced_credential ec hs now mount_id hp =
     (let key_id = credential_key_id mount_id;
          hp1 = (if hm_contains_key (hp_key_cache hp) key_id then update_key_access_stats now key_id hp else hp)
      in (hp1, and_then (hs_get_key hs (hp_hsm hp) key_id)
           (\<lambda>k. case k of None \<Rightarrow> Inr None | Some s \<Rightarrow> and_then (decrypt_credential ec s) (\<lambda>c. Inr (Some c)))))"

definition rotate_credential_key ::
    "enhanced_codec \<Rightarrow> 'h hsm \<Rightarrow> instant \<Rightarrow> string \<Rightarrow> 'h hardware_provider \<Rightarrow> 'h hardware_provider \<times> (hardware_error + unit)" where
  "rotate_credential_key ec hs now mount_id hp =
     (let key_id = credential_key_id mount_id
      in case and_then (hs_get_key hs (hp_hsm hp) key_id)
           (\<lambda>k. and_then (ok_or k (Credential_Not_Found mount_id)) (decrypt_credential ec)) of
           Inl e \<Rightarrow> (hp, Inl e)
         | Inr c \<Rightarrow>
             let new_key_data = generate_credential_key ec c
             in (case hs_rotate_key hs key_id new_key_data (hp_hsm hp) of
                   (h, False) \<Rightarrow> (hp\<lparr>hp_hsm := h\<rparr>, Inl Hsm_Failed)
                 | (h, True) \<Rightarrow>
                     (hp\<lparr>hp_hsm := h, hp_key_cache := hm_update key_id
                          (\<lambda>ck. ck\<lparr>ck_key_data := new_key_data, ck_last_accessed := now, ck_access_count := ck_access_count ck + 1\<rparr>)
                          (hp_key_cache hp)\<rparr>, Inr ())))"

text \<open>with a store that keeps what it is given, a rotation succeeds and leaves the credential as it was: the new version, the
  rotation time and the fresh salt are computed after the key is written and are dropped.\<close>

theorem rotation_changes_nothing:
  assumes "enhanced_codec_ok ec" "hs_get_key hs (hp_hsm hp) (credential_key_id m) = Inr (Some (ec_text ec c))"
    and "\<And>d. hs_rotate_key hs (credential_key_id m) d (hp_hsm hp) = (h d, True)"
    and "\<And>d. hs_get_key hs (h d) (credential_key_id m) = Inr (Some d)"
  shows "\<exists>hp'. rotate_credential_key ec hs now m hp = (hp', Inr ())
    \<and> snd (get_enhanced_credential ec hs now m hp') = Inr (Some c)"
  using assms
  by (simp add: rotate_credential_key_def get_enhanced_credential_def Let_def decrypt_credential_def generate_credential_key_def
      enhanced_codec_ok_def ok_or_def update_key_access_stats_def)

text \<open>the only back end of the source stores nothing: every store that passes the password check fails, and a rotation
  never finds the credential.\<close>

theorem software_hsm_stores_nothing:
  "snd (store_enhanced_credential cy ec software_hsm now salt m c hp) =
     (case validate_password (hp_security_policy hp) (cd_password c) of Inl e \<Rightarrow> Inl e | Inr _ \<Rightarrow> Inl Hsm_Failed)"
  "snd (get_enhanced_credential ec software_hsm now m hp) = Inr None"
  "snd (rotate_credential_key ec software_hsm now m hp) = Inl (Credential_Not_Found m)"
  by (simp_all add: store_enhanced_credential_def software_hsm_def get_enhanced_credential_def rotate_credential_key_def Let_def ok_or_def
      split: sum.splits)

section \<open>Backups\<close>

datatype backup_strategy =
    LocalEncrypted string
  | RemoteService string string
  | CloudStorage string string string
  | RecoveryKeyStrategy string "string list"

record backup_metadata =
  bm_backup_id :: string
  bm_created_at :: instant
  bm_strategy :: backup_strategy
  bm_credential_count :: u32
  bm_backup_size :: u64
  bm_checksum :: string
  bm_encryption_algorithm :: string
  bm_compressed :: bool
  bm_version :: u32
  bm_metadata :: "(string, string) hashmap"

record secret_share =
  ss_share_id :: u8
  ss_threshold :: u8
  ss_total_shares :: u8
  ss_share_data :: string
  ss_created_at :: instant

record recovery_key =
  rk_key_id :: string
  rk_encrypted_master_key :: string
  rk_generated_at :: instant
  rk_expires_at :: "instant option"
  rk_secret_shares :: "secret_share list"
  rk_metadata :: "(string, string) hashmap"

record backup_manager =
  bk_default_strategy :: backup_strategy
  bk_backup_metadata :: "(string, backup_metadata) hashmap"
  bk_recovery_keys :: "(string, recovery_key) hashmap"
  bk_encryption_algorithm :: encryption_algorithm
  bk_max_backup_versions :: nat
  bk_compression_enabled :: bool
  bk_files :: files

definition backup_manager_new :: "backup_strategy \<Rightarrow> files \<Rightarrow> backup_manager" where
  "backup_manager_new s fs =
     \<lparr> bk_default_strategy = s, bk_backup_metadata = [], bk_recovery_keys = [], bk_encryption_algorithm = ChaCha20Poly1305,
       bk_max_backup_versions = 10, bk_compression_enabled = True, bk_files = fs \<rparr>"

datatype backup_error =
    Backup_Encryption encryption_error
  | Backup_Key_Missing string
  | Backup_Key_Encoding
  | Backup_Write
  | Backup_Read
  | Backup_Not_Implemented
  | Backup_Not_Found string
  | Backup_Checksum
  | Backup_Parse
  | Shares_Missing
  | Shares_Insufficient nat nat
  | Share_Encoding
  | Bad_Threshold

record backup_env =
  be_crypto :: crypto
  be_codec :: enhanced_codec
  be_hostname :: "string option"
  be_user :: "string option"
  be_now :: instant
  be_now_text :: string
  be_uuid :: string
  be_nonce :: string
  be_random_key :: string
  be_dir_ok :: bool
  be_write :: write_outcome
  be_readable :: "string \<Rightarrow> bool"
  be_version :: string

definition derive_system_key :: "backup_env \<Rightarrow> string" where
  "derive_system_key be =
     cy_pbkdf2 (be_crypto be) Hmac_Sha256
       ((case be_hostname be of Some h \<Rightarrow> h | None \<Rightarrow> ''localhost'') @ '':'' @ (case be_user be of Some u \<Rightarrow> u | None \<Rightarrow> ''user'')
        @ '':fuji-backup'') ''fuji-backup-salt'' 100000 32"

definition derive_key_from_token :: "backup_env \<Rightarrow> string \<Rightarrow> string" where
  "derive_key_from_token be token = cy_pbkdf2 (be_crypto be) Hmac_Sha256 token ''fuji-backup-token'' 100000 32"

definition get_backup_encryption_key :: "backup_env \<Rightarrow> backup_manager \<Rightarrow> backup_strategy \<Rightarrow> backup_error + string" where
  "get_backup_encryption_key be b s =
     (case s of
        LocalEncrypted _ \<Rightarrow> Inr (derive_system_key be)
      | RemoteService _ token \<Rightarrow> Inr (derive_key_from_token be token)
      | CloudStorage _ _ creds \<Rightarrow> Inr (derive_key_from_token be creds)
      | RecoveryKeyStrategy key_id _ \<Rightarrow>
          (case hm_get (bk_recovery_keys b) key_id of
             None \<Rightarrow> Inl (Backup_Key_Missing key_id)
           | Some rk \<Rightarrow> ok_or (cy_b64_decode (be_crypto be) (rk_encrypted_master_key rk)) Backup_Key_Encoding))"

definition encrypt_backup_data :: "backup_env \<Rightarrow> backup_manager \<Rightarrow> string \<Rightarrow> backup_strategy \<Rightarrow> backup_error + string" where
  "encrypt_backup_data be b data s =
     and_then (get_backup_encryption_key be b s)
       (\<lambda>key. and_then (map_err Backup_Encryption
           (encrypt_with (be_crypto be) (create_encryptor (bk_encryption_algorithm b)) (be_nonce be) (be_now_text be) data key))
         (\<lambda>d. Inr (ec_data_text (be_codec be) d)))"

definition decrypt_backup_data :: "backup_env \<Rightarrow> backup_manager \<Rightarrow> string \<Rightarrow> backup_strategy \<Rightarrow> (backup_error + string) outcome" where
  "decrypt_backup_data be b data s =
     (case and_then (ok_or (ec_data_of (be_codec be) data) Backup_Parse)
            (\<lambda>d. and_then (get_backup_encryption_key be b s) (\<lambda>key. Inr (d, key))) of
        Inl e \<Rightarrow> Returned (Inl e)
      | Inr (d, key) \<Rightarrow>
          (case decrypt_with (be_crypto be) (create_encryptor (bk_encryption_algorithm b)) d key of
             Returned r \<Rightarrow> Returned (map_err Backup_Encryption r)
           | Blocked \<Rightarrow> Blocked
           | Panicked \<Rightarrow> Panicked))"

definition calculate_checksum :: "backup_env \<Rightarrow> string \<Rightarrow> string" where
  "calculate_checksum be data = cy_hex_encode (be_crypto be) (cy_sha256 (be_crypto be) data)"

definition compress_data :: "string \<Rightarrow> string" where
  "compress_data data = data"

definition decompress_data :: "string \<Rightarrow> string" where
  "decompress_data data = data"

definition backup_file :: "string \<Rightarrow> string \<Rightarrow> string" where
  "backup_file path backup_id = path_join path (backup_id @ ''.backup'')"

definition store_local_encrypted_backup ::
    "backup_env \<Rightarrow> string \<Rightarrow> string \<Rightarrow> string \<Rightarrow> files \<Rightarrow> files \<times> (backup_error + u64)" where
  "store_local_encrypted_backup be path backup_id data fs =
     (if \<not> be_dir_ok be then (fs, Inl Backup_Write)
      else case write_file (be_write be) (backup_file path backup_id) data fs of
             (fs', ok) \<Rightarrow> (fs', if ok then Inr (of_nat (length data)) else Inl Backup_Write))"

definition retrieve_local_encrypted_backup :: "backup_env \<Rightarrow> string \<Rightarrow> string \<Rightarrow> files \<Rightarrow> backup_error + string" where
  "retrieve_local_encrypted_backup be path backup_id fs = ok_or (read_file (be_readable be) fs (backup_file path backup_id)) Backup_Read"

definition delete_local_encrypted_backup :: "string \<Rightarrow> string \<Rightarrow> files \<Rightarrow> files \<times> (backup_error + unit)" where
  "delete_local_encrypted_backup path backup_id fs =
     (if fs (backup_file path backup_id) = None then (fs, Inl Backup_Read)
      else (fs(backup_file path backup_id := None), Inr ()))"

text \<open>The other strategies only log that they are not implemented; storing and deleting succeed, retrieving fails.\<close>

definition store_backup :: "backup_env \<Rightarrow> backup_strategy \<Rightarrow> string \<Rightarrow> string \<Rightarrow> files \<Rightarrow> files \<times> (backup_error + u64)" where
  "store_backup be s backup_id data fs =
     (case s of
        LocalEncrypted path \<Rightarrow> store_local_encrypted_backup be path backup_id data fs
      | _ \<Rightarrow> (fs, Inr (of_nat (length data))))"

definition retrieve_backup :: "backup_env \<Rightarrow> backup_strategy \<Rightarrow> string \<Rightarrow> files \<Rightarrow> backup_error + string" where
  "retrieve_backup be s backup_id fs =
     (case s of
        LocalEncrypted path \<Rightarrow> retrieve_local_encrypted_backup be path backup_id fs
      | _ \<Rightarrow> Inl Backup_Not_Implemented)"

definition delete_backup :: "string \<Rightarrow> backup_manager \<Rightarrow> backup_manager \<times> (backup_error + unit)" where
  "delete_backup backup_id b =
     (case hm_get (bk_backup_metadata b) backup_id of
        None \<Rightarrow> (b, Inl (Backup_Not_Found backup_id))
      | Some meta \<Rightarrow>
          (case (case bm_strategy meta of
                   LocalEncrypted path \<Rightarrow> delete_local_encrypted_backup path backup_id (bk_files b)
                 | _ \<Rightarrow> (bk_files b, Inr ())) of
             (fs, Inl e) \<Rightarrow> (b\<lparr>bk_files := fs\<rparr>, Inl e)
           | (fs, Inr u) \<Rightarrow>
               (b\<lparr>bk_files := fs, bk_backup_metadata := hm_remove backup_id (bk_backup_metadata b)\<rparr>, Inr ())))"

fun strategy_key :: "backup_strategy \<Rightarrow> string" where
  "strategy_key (LocalEncrypted path) = ''local:'' @ path"
| "strategy_key (RemoteService endpoint _) = ''remote:'' @ endpoint"
| "strategy_key (CloudStorage provider bucket _) = ''cloud:'' @ provider @ '':'' @ bucket"
| "strategy_key (RecoveryKeyStrategy key_id _) = ''recovery:'' @ key_id"

definition surplus_backups :: "backup_manager \<Rightarrow> string \<Rightarrow> string list" where
  "surplus_backups b key =
     (let backups = filter (\<lambda>(i, meta). strategy_key (bm_strategy meta) = key) (bk_backup_metadata b)
      in map fst (take (length backups - bk_max_backup_versions b) (sort_key (\<lambda>(i, meta). bm_created_at meta) backups)))"

definition cleanup_old_backups :: "backup_manager \<Rightarrow> backup_manager" where
  "cleanup_old_backups b =
     fold (\<lambda>i b'. fst (delete_backup i b'))
       (concat (map (surplus_backups b) (remdups (map (\<lambda>(i, meta). strategy_key (bm_strategy meta)) (bk_backup_metadata b))))) b"

definition created_meta :: "backup_env \<Rightarrow> (string, enhanced_credential) hashmap \<Rightarrow> backup_strategy \<Rightarrow> string \<Rightarrow> u64 \<Rightarrow> backup_manager \<Rightarrow> backup_metadata" where
  "created_meta be creds s encrypted size' b =
     \<lparr> bm_backup_id = ''backup_'' @ be_uuid be, bm_created_at = be_now be, bm_strategy = s,
       bm_credential_count = of_nat (length creds), bm_backup_size = size', bm_checksum = calculate_checksum be encrypted,
       bm_encryption_algorithm = algorithm_identifier (bk_encryption_algorithm b), bm_compressed = bk_compression_enabled b,
       bm_version = 1, bm_metadata = hm_insert ''version'' (be_version be) (hm_insert ''creator'' ''fuji-credential-backup'' []) \<rparr>"

definition create_backup ::
    "backup_env \<Rightarrow> (string, enhanced_credential) hashmap \<Rightarrow> backup_strategy option \<Rightarrow> backup_manager
     \<Rightarrow> backup_manager \<times> (backup_error + string)" where
  "create_backup be creds strategy b =
     (let s = (case strategy of Some x \<Rightarrow> x | None \<Rightarrow> bk_default_strategy b);
          backup_id = ''backup_'' @ be_uuid be;
          serialized = ec_map_text (be_codec be) creds;
          data = (if bk_compression_enabled b then compress_data serialized else serialized)
      in case encrypt_backup_data be b data s of
           Inl e \<Rightarrow> (b, Inl e)
         | Inr encrypted \<Rightarrow>
             (case store_backup be s backup_id encrypted (bk_files b) of
                (fs, Inl e) \<Rightarrow> (b\<lparr>bk_files := fs\<rparr>, Inl e)
              | (fs, Inr size') \<Rightarrow>
                  (cleanup_old_backups
                     (b\<lparr>bk_files := fs,
                        bk_backup_metadata := hm_insert backup_id (created_meta be creds s encrypted size' b) (bk_backup_metadata b)\<rparr>),
                   Inr backup_id)))"

definition restore_backup ::
    "backup_env \<Rightarrow> string \<Rightarrow> backup_manager \<Rightarrow> (backup_error + (string, enhanced_credential) hashmap) outcome" where
  "restore_backup be backup_id b =
     (case hm_get (bk_backup_metadata b) backup_id of
        None \<Rightarrow> Returned (Inl (Backup_Not_Found backup_id))
      | Some meta \<Rightarrow>
          (case retrieve_backup be (bm_strategy meta) backup_id (bk_files b) of
             Inl e \<Rightarrow> Returned (Inl e)
           | Inr encrypted \<Rightarrow>
               if calculate_checksum be encrypted \<noteq> bm_checksum meta then Returned (Inl Backup_Checksum)
               else oc_then (decrypt_backup_data be b encrypted (bm_strategy meta))
                      (\<lambda>d. Returned (ok_or (ec_map_of (be_codec be) (if bm_compressed meta then decompress_data d else d)) Backup_Parse))))"

definition validate_backup :: "backup_env \<Rightarrow> string \<Rightarrow> backup_manager \<Rightarrow> backup_error + bool" where
  "validate_backup be backup_id b =
     (case hm_get (bk_backup_metadata b) backup_id of
        None \<Rightarrow> Inl (Backup_Not_Found backup_id)
      | Some meta \<Rightarrow>
          (case bm_strategy meta of
             LocalEncrypted path \<Rightarrow>
               and_then (retrieve_local_encrypted_backup be path backup_id (bk_files b))
                 (\<lambda>d. Inr (calculate_checksum be d = bm_checksum meta))
           | _ \<Rightarrow> Inr False))"

section \<open>Recovery keys\<close>

text \<open>Every share is the whole secret.\<close>

definition split_secret :: "backup_env \<Rightarrow> string \<Rightarrow> u8 \<Rightarrow> u8 \<Rightarrow> secret_share list" where
  "split_secret be secret threshold total_shares =
     map (\<lambda>i. \<lparr> ss_share_id = of_nat i, ss_threshold = threshold, ss_total_shares = total_shares,
              ss_share_data = cy_hex_encode (be_crypto be) secret, ss_created_at = be_now be \<rparr>) [1 ..< Suc (unat total_shares)]"

definition reconstruct_secret :: "backup_env \<Rightarrow> secret_share list \<Rightarrow> backup_error + string" where
  "reconstruct_secret be shares =
     (case shares of [] \<Rightarrow> Inl Shares_Missing | s # _ \<Rightarrow> ok_or (cy_hex_decode (be_crypto be) (ss_share_data s)) Share_Encoding)"

definition generate_recovery_key ::
    "backup_env \<Rightarrow> u8 \<Rightarrow> u8 \<Rightarrow> backup_manager \<Rightarrow> backup_manager \<times> (backup_error + recovery_key)" where
  "generate_recovery_key be threshold total_shares b =
     (if threshold > total_shares then (b, Inl Bad_Threshold)
      else let rk = \<lparr> rk_key_id = ''recovery_key_'' @ be_uuid be,
                      rk_encrypted_master_key = cy_b64_encode (be_crypto be) (be_random_key be), rk_generated_at = be_now be,
                      rk_expires_at = None, rk_secret_shares = split_secret be (be_random_key be) threshold total_shares,
                      rk_metadata = hm_insert ''algorithm'' ''shamir-secret-sharing''
                        (hm_insert ''total_shares'' (show_nat (unat total_shares)) (hm_insert ''threshold'' (show_nat (unat threshold)) [])) \<rparr>
           in (b\<lparr>bk_recovery_keys := hm_insert (rk_key_id rk) rk (bk_recovery_keys b)\<rparr>, Inr rk))"

definition restore_from_recovery_shares :: "backup_env \<Rightarrow> secret_share list \<Rightarrow> backup_error + string" where
  "restore_from_recovery_shares be shares =
     (case shares of
        [] \<Rightarrow> Inl Shares_Missing
      | s # _ \<Rightarrow>
          if length shares < unat (ss_threshold s) then Inl (Shares_Insufficient (unat (ss_threshold s)) (length shares))
          else reconstruct_secret be shares)"

section \<open>Properties of the backups\<close>

lemma few_backups_kept:
  assumes "length (bk_backup_metadata b) \<le> bk_max_backup_versions b"
  shows "cleanup_old_backups b = b"
proof -
  have "length (filter p (bk_backup_metadata b)) - bk_max_backup_versions b = 0" for p
    using length_filter_le [of p "bk_backup_metadata b"] assms by linarith
  then have "surplus_backups b key = []" for key by (simp add: surplus_backups_def Let_def)
  then have none: "concat (map (surplus_backups b) ks) = []" for ks by (induction ks) simp_all
  show ?thesis by (simp only: cleanup_old_backups_def none fold_simps id_apply)
qed

lemma insert_length: "length (hm_insert k v m) \<le> Suc (length m)"
  by (induction m) (auto simp: hm_insert_def)

lemma create_result:
  assumes "create_backup be creds (Some s) b = (b', Inr i)" "length (bk_backup_metadata b) < bk_max_backup_versions b"
  obtains encrypted fs size' where "i = ''backup_'' @ be_uuid be"
    and "encrypt_backup_data be b (ec_map_text (be_codec be) creds) s = Inr encrypted"
    and "store_backup be s i encrypted (bk_files b) = (fs, Inr size')"
    and "b' = b\<lparr>bk_files := fs, bk_backup_metadata := hm_insert i (created_meta be creds s encrypted size' b) (bk_backup_metadata b)\<rparr>"
proof -
  have "(if c then compress_data t else t) = t" for c t by (simp add: compress_data_def)
  with assms(1) obtain encrypted fs size' where *: "i = ''backup_'' @ be_uuid be"
      "encrypt_backup_data be b (ec_map_text (be_codec be) creds) s = Inr encrypted"
      "store_backup be s i encrypted (bk_files b) = (fs, Inr size')"
      "b' = cleanup_old_backups (b\<lparr>bk_files := fs, bk_backup_metadata := hm_insert i (created_meta be creds s encrypted size' b) (bk_backup_metadata b)\<rparr>)"
    by (cases "encrypt_backup_data be b (ec_map_text (be_codec be) creds) s")
      (auto simp: create_backup_def Let_def split: sum.splits prod.splits)
  have "length (hm_insert i (created_meta be creds s encrypted size' b) (bk_backup_metadata b)) \<le> bk_max_backup_versions b"
    using insert_length [of i "created_meta be creds s encrypted size' b" "bk_backup_metadata b"] assms(2) by linarith
  with * few_backups_kept [of "b\<lparr>bk_files := fs, bk_backup_metadata := hm_insert i (created_meta be creds s encrypted size' b) (bk_backup_metadata b)\<rparr>"]
  show thesis by (intro that) simp_all
qed

lemma backup_key_cong:
  assumes "be_crypto be = be_crypto be'" "be_hostname be = be_hostname be'" "be_user be = be_user be'"
    and "bk_recovery_keys b = bk_recovery_keys b'"
  shows "get_backup_encryption_key be b s = get_backup_encryption_key be' b' s"
  using assms by (simp add: get_backup_encryption_key_def derive_system_key_def derive_key_from_token_def split: backup_strategy.split option.split)

lemma decrypt_encrypted_backup:
  assumes "crypto_ok (be_crypto be)" "enhanced_codec_ok (be_codec be)" "length (be_nonce be) = 12"
    and "encrypt_backup_data be b data s = Inr encrypted"
    and "be_crypto be = be_crypto be'" "be_codec be = be_codec be'" "be_hostname be = be_hostname be'" "be_user be = be_user be'"
    and "bk_recovery_keys b = bk_recovery_keys b'" "bk_encryption_algorithm b = bk_encryption_algorithm b'"
  shows "decrypt_backup_data be' b' encrypted s = Returned (Inr data)"
proof -
  from assms(4) obtain key d where key: "get_backup_encryption_key be b s = Inr key"
      and d: "encrypt_with (be_crypto be) (bk_encryption_algorithm b) (be_nonce be) (be_now_text be) data key = Inr d"
        "encrypted = ec_data_text (be_codec be) d"
    by (cases "get_backup_encryption_key be b s")
      (auto simp: encrypt_backup_data_def fuji_res)
  show ?thesis
    using decrypt_encrypted [OF assms(1,3) d(1)] key backup_key_cong [OF assms(5,7,8,9), of s] assms(2,5,6,10)
    by (simp add: decrypt_backup_data_def d(2) enhanced_codec_ok_def ok_or_def)
qed

text \<open>a local backup is restored as it was taken, on the same host and by the same user.\<close>

theorem local_backup_roundtrip:
  assumes "crypto_ok (be_crypto be)" "enhanced_codec_ok (be_codec be)" "length (be_nonce be) = 12"
    and "be_crypto be = be_crypto be'" "be_codec be = be_codec be'" "be_hostname be = be_hostname be'" "be_user be = be_user be'"
    and "length (bk_backup_metadata b) < bk_max_backup_versions b"
    and "create_backup be creds (Some (LocalEncrypted path)) b = (b', Inr i)" "be_readable be' (backup_file path i)"
  shows "restore_backup be' i b' = Returned (Inr creds)" "validate_backup be' i b' = Inr True"
proof -
  from create_result [OF assms(9,8)] obtain encrypted fs size' where r: "i = ''backup_'' @ be_uuid be"
      "encrypt_backup_data be b (ec_map_text (be_codec be) creds) (LocalEncrypted path) = Inr encrypted"
      "store_backup be (LocalEncrypted path) i encrypted (bk_files b) = (fs, Inr size')"
      "b' = b\<lparr>bk_files := fs, bk_backup_metadata := hm_insert i (created_meta be creds (LocalEncrypted path) encrypted size' b) (bk_backup_metadata b)\<rparr>" .
  have f: "fs (backup_file path i) = Some encrypted"
    using r(3) by (auto simp: store_backup_def store_local_encrypted_backup_def write_file_def split: if_splits write_outcome.splits option.splits)
  have sum: "calculate_checksum be' encrypted = calculate_checksum be encrypted" by (simp add: calculate_checksum_def assms(4))
  have "decrypt_backup_data be' b' encrypted (LocalEncrypted path) = Returned (Inr (ec_map_text (be_codec be) creds))"
    by (rule decrypt_encrypted_backup [OF assms(1-3) r(2) assms(4-7)]) (simp_all add: r(4))
  with f sum assms(2,5,10) show "restore_backup be' i b' = Returned (Inr creds)"
    by (simp add: restore_backup_def r(4) hm.get_insert created_meta_def retrieve_backup_def retrieve_local_encrypted_backup_def
        read_file_def ok_or_def decompress_data_def enhanced_codec_ok_def)
  from f sum assms(10) show "validate_backup be' i b' = Inr True"
    by (simp add: validate_backup_def r(4) hm.get_insert created_meta_def retrieve_local_encrypted_backup_def read_file_def ok_or_def)
qed

text \<open>a backup under any other strategy reports success, stores nothing, and can never be restored.\<close>

theorem remote_backup_lost:
  assumes "length (bk_backup_metadata b) < bk_max_backup_versions b"
    and "create_backup be creds (Some s) b = (b', Inr i)" "\<And>path. s \<noteq> LocalEncrypted path"
  shows "bk_files b' = bk_files b" "restore_backup be' i b' = Returned (Inl Backup_Not_Implemented)" "validate_backup be' i b' = Inr False"
proof -
  from create_result [OF assms(2,1)] obtain encrypted fs size' where r: "i = ''backup_'' @ be_uuid be"
      "encrypt_backup_data be b (ec_map_text (be_codec be) creds) s = Inr encrypted"
      "store_backup be s i encrypted (bk_files b) = (fs, Inr size')"
      "b' = b\<lparr>bk_files := fs, bk_backup_metadata := hm_insert i (created_meta be creds s encrypted size' b) (bk_backup_metadata b)\<rparr>" .
  have fs: "fs = bk_files b" using r(3) assms(3) by (cases s) (auto simp: store_backup_def)
  have none: "retrieve_backup be' s i gs = Inl Backup_Not_Implemented" for gs using assms(3) by (cases s) (auto simp: retrieve_backup_def)
  have loc: "(case s of LocalEncrypted path \<Rightarrow> f path | _ \<Rightarrow> z) = z" for f :: "string \<Rightarrow> backup_error + bool" and z
    using assms(3) by (cases s) auto
  show "bk_files b' = bk_files b" by (simp add: r(4) fs)
  show "restore_backup be' i b' = Returned (Inl Backup_Not_Implemented)"
    by (simp add: restore_backup_def r(4) hm.get_insert created_meta_def none)
  show "validate_backup be' i b' = Inr False"
    by (simp add: validate_backup_def r(4) hm.get_insert created_meta_def loc)
qed

text \<open>each share of a recovery key is the whole key: copies of any one of them reach the threshold.\<close>

theorem one_share_is_secret:
  assumes "crypto_ok (be_crypto be)" "s \<in> set (split_secret be secret threshold total_shares)"
  shows "restore_from_recovery_shares be' (replicate (Suc n) s) =
    (if Suc n < unat threshold then Inl (Shares_Insufficient (unat threshold) (Suc n)) else ok_or (cy_hex_decode (be_crypto be') (ss_share_data s)) Share_Encoding)"
    and "cy_hex_decode (be_crypto be) (ss_share_data s) = Some secret"
  using assms by (auto simp: split_secret_def restore_from_recovery_shares_def reconstruct_secret_def crypto_ok_def)

section \<open>Concrete instances\<close>

definition enhanced_tuple where
  "enhanced_tuple c =
     (credential_tuple (en_credential c), unat (en_version c), en_created_at c, en_expires_at c, en_last_rotated c,
      sm_integrity_hash (en_security_metadata c),
      (unat (kd_iterations (sm_kdf_params (en_security_metadata c))), kd_salt (sm_kdf_params (en_security_metadata c)),
       kd_key_length (sm_kdf_params (en_security_metadata c)), map_option unat (kd_memory_cost (sm_kdf_params (en_security_metadata c))),
       map_option unat (kd_parallelism (sm_kdf_params (en_security_metadata c)))),
      sm_encryption_algorithm (en_security_metadata c), sm_mfa_required (en_security_metadata c),
      sm_access_restrictions (en_security_metadata c), sm_audit_log_ids (en_security_metadata c))"

definition tuple_enhanced where
  "tuple_enhanced t =
     (case t of (c, v, created, expires, rotated, h, (n, salt, len, mem, par), alg, mfa, restrictions, ids) \<Rightarrow>
        \<lparr> en_credential = tuple_credential c, en_version = word_of_nat v, en_created_at = created, en_expires_at = expires,
          en_last_rotated = rotated,
          en_security_metadata =
            \<lparr> sm_integrity_hash = h,
              sm_kdf_params = \<lparr> kd_iterations = word_of_nat n, kd_salt = salt, kd_key_length = len,
                kd_memory_cost = map_option word_of_nat mem, kd_parallelism = map_option word_of_nat par \<rparr>,
              sm_encryption_algorithm = alg, sm_mfa_required = mfa, sm_access_restrictions = restrictions, sm_audit_log_ids = ids \<rparr> \<rparr>)"

definition enhanced_codec_sample :: enhanced_codec where
  "enhanced_codec_sample =
     \<lparr> ec_text = (\<lambda>c. replicate (to_nat (enhanced_tuple c)) CHR ''a''), ec_of = (\<lambda>s. Some (tuple_enhanced (from_nat (length s)))),
       ec_map_text = (\<lambda>m. replicate (to_nat (map (\<lambda>(k, c). (k, enhanced_tuple c)) m)) CHR ''a''),
       ec_map_of = (\<lambda>s. Some (map (\<lambda>(k, t). (k, tuple_enhanced t)) (from_nat (length s)))),
       ec_data_text = (\<lambda>d. replicate (to_nat (data_tuple d)) CHR ''a''), ec_data_of = (\<lambda>s. Some (tuple_data (from_nat (length s)))) \<rparr>"

lemma enhanced_codec_sample_ok: "enhanced_codec_ok enhanced_codec_sample"
proof -
  have o: "map_option (word_of_nat \<circ> unat) x = x" for x :: "u32 option" by (cases x) simp_all
  have c: "tuple_enhanced (enhanced_tuple c) = c" for c
    by (simp add: tuple_enhanced_def enhanced_tuple_def tuple_credential_def credential_tuple_def option.map_comp o)
  have m: "map ((\<lambda>(k, t). (k, tuple_enhanced t)) \<circ> (\<lambda>(k, c). (k, enhanced_tuple c))) m = m" for m
    by (rule map_idI) (auto simp: c)
  show ?thesis by (simp add: enhanced_codec_ok_def enhanced_codec_sample_def c tuple_data m)
qed

definition sample_backup_env :: backup_env where
  "sample_backup_env =
     \<lparr> be_crypto = crypto_sample, be_codec = enhanced_codec_sample, be_hostname = Some ''h'', be_user = None, be_now = 0,
       be_now_text = ''now'', be_uuid = ''1'', be_nonce = ''nonce-twelve'', be_random_key = replicate 32 CHR ''k'', be_dir_ok = True,
       be_write = Written, be_readable = (\<lambda>_. True), be_version = ''0'' \<rparr>"

lemma sample_encrypts:
  assumes "be_crypto be = crypto_sample" "\<And>i shares. s \<noteq> RecoveryKeyStrategy i shares"
  shows "\<exists>encrypted. encrypt_backup_data be b data s = Inr encrypted"
proof -
  have len: "length (cy_pbkdf2 crypto_sample h pw salt n 32) = 32" for h pw salt n
    using crypto_sample_ok by (simp add: crypto_ok_def)
  have enc: "\<exists>d. encrypt_with crypto_sample alg nonce t p key = Inr d" if "length key = 32" for alg nonce t p key
    using that by (simp add: encrypt_with_def crypto_sample_def)
  obtain key where key: "get_backup_encryption_key be b s = Inr key" "length key = 32"
    using assms len by (cases s) (auto simp: get_backup_encryption_key_def derive_system_key_def derive_key_from_token_def)
  from enc [OF key(2)] obtain d where "encrypt_with crypto_sample (bk_encryption_algorithm b) (be_nonce be) (be_now_text be) data key = Inr d"
    by blast
  then show ?thesis by (simp add: encrypt_backup_data_def key(1) assms(1))
qed

theorem local_backup_roundtrip_witness:
  "\<exists>b' i. create_backup sample_backup_env [] (Some (LocalEncrypted ''/b'')) (backup_manager_new (LocalEncrypted ''/b'') Map.empty) = (b', Inr i)
     \<and> restore_backup sample_backup_env i b' = Returned (Inr [])"
proof -
  let ?b = "backup_manager_new (LocalEncrypted ''/b'') Map.empty"
  obtain encrypted where enc: "encrypt_backup_data sample_backup_env ?b (ec_map_text (be_codec sample_backup_env) []) (LocalEncrypted ''/b'') = Inr encrypted"
    using sample_encrypts [of sample_backup_env "LocalEncrypted ''/b''" ?b] by (auto simp: sample_backup_env_def)
  have "\<exists>b' i. create_backup sample_backup_env [] (Some (LocalEncrypted ''/b'')) ?b = (b', Inr i)"
    using enc
    by (simp add: create_backup_def Let_def compress_data_def store_backup_def store_local_encrypted_backup_def write_file_def)
      (simp add: sample_backup_env_def)
  then obtain b' i where c: "create_backup sample_backup_env [] (Some (LocalEncrypted ''/b'')) ?b = (b', Inr i)" by blast
  have ok: "crypto_ok (be_crypto sample_backup_env)" "enhanced_codec_ok (be_codec sample_backup_env)" "length (be_nonce sample_backup_env) = 12"
    by (simp_all add: sample_backup_env_def crypto_sample_ok enhanced_codec_sample_ok)
  have "restore_backup sample_backup_env i b' = Returned (Inr [])"
    by (rule local_backup_roundtrip(1) [OF ok refl refl refl refl _ c]) (simp_all add: backup_manager_new_def sample_backup_env_def)
  with c show ?thesis by blast
qed

theorem remote_backup_lost_witness:
  "\<exists>b' i. create_backup sample_backup_env [] (Some (RemoteService ''https://r'' ''t'')) (backup_manager_new (LocalEncrypted ''/b'') Map.empty) = (b', Inr i)
     \<and> restore_backup sample_backup_env i b' = Returned (Inl Backup_Not_Implemented)"
proof -
  let ?b = "backup_manager_new (LocalEncrypted ''/b'') Map.empty" and ?s = "RemoteService ''https://r'' ''t''"
  obtain encrypted where enc: "encrypt_backup_data sample_backup_env ?b (ec_map_text (be_codec sample_backup_env) []) ?s = Inr encrypted"
    using sample_encrypts [of sample_backup_env ?s ?b] by (auto simp: sample_backup_env_def)
  have "\<exists>b' i. create_backup sample_backup_env [] (Some ?s) ?b = (b', Inr i)"
    using enc by (simp add: create_backup_def Let_def compress_data_def store_backup_def)
  then obtain b' i where c: "create_backup sample_backup_env [] (Some ?s) ?b = (b', Inr i)" by blast
  have "restore_backup sample_backup_env i b' = Returned (Inl Backup_Not_Implemented)"
    by (rule remote_backup_lost(2) [OF _ c]) (simp_all add: backup_manager_new_def)
  with c show ?thesis by blast
qed

theorem one_share_is_secret_witness:
  "\<exists>s. s \<in> set (split_secret sample_backup_env ''key'' 3 5) \<and> ss_threshold s = 3
     \<and> restore_from_recovery_shares sample_backup_env [s, s, s] = Inr ''key''"
proof -
  have "[1 ..< Suc (unat (5 :: u8))] = [1, 2, 3, 4, 5]" by code_simp
  then obtain s where s: "s \<in> set (split_secret sample_backup_env ''key'' 3 5)" "ss_threshold s = 3"
    by (simp add: split_secret_def) fastforce
  have ok: "crypto_ok (be_crypto sample_backup_env)" by (simp add: sample_backup_env_def crypto_sample_ok)
  have three: "replicate (Suc 2) s = [s, s, s]" by (simp add: numeral_2_eq_2)
  from one_share_is_secret(1) [OF ok s(1), of sample_backup_env 2] one_share_is_secret(2) [OF ok s(1)] s show ?thesis
    unfolding three by (auto simp: ok_or_def)
qed

end
