(* ===== verification/Secure_Updates.thy ===== *)
theory Secure_Updates
  imports Config_Store
begin

text \<open>
  The update manager (\<open>src/security/secure_updates.rs\<close>).  SHA-256 printed in hexadecimal, the clock, the size of a file,
  the texts of the errors of the operating system and the answer of the audit log are arguments (\<open>update_env\<close>).  The stages
  of a package and its status are separate; no operation looks at the status of the others.
\<close>

section \<open>Data\<close>

datatype update_package_type =
    FullSystem | SecurityPatch | FeatureUpdate | BugFix | ConfigurationPackage | ComponentPackage string string

datatype update_security_level = Update_Critical | Update_High | Update_Medium | Update_Low | Update_Informational

datatype signature_algorithm = Ed25519 | Ecdsa string | RSA256 | RSA512

datatype update_classification = Official | Beta | Alpha | Development | Custom_Build

record digital_signature =
  dsg_algorithm :: signature_algorithm
  dsg_key_id :: string
  dsg_signature :: string
  dsg_certificate_chain :: "string list"
  dsg_timestamp :: instant

record update_metadata =
  ump_package_id :: string
  ump_version :: string
  ump_previous_version :: "string option"
  ump_description :: string
  ump_package_type :: update_package_type
  ump_security_level :: update_security_level
  ump_build_timestamp :: instant
  ump_checksums :: "(string, string) hashmap"
  ump_dependencies :: "string list"
  ump_size_bytes :: u64
  ump_signatures :: "digital_signature list"
  ump_creator :: string
  ump_classification :: update_classification

datatype upd_status =
    Upd_Pending
  | Upd_Downloading
  | Upd_Verifying
  | Upd_Ready
  | Upd_Installing
  | Upd_Completed
  | Upd_Failed string string
  | Upd_RolledBack

record update_stage =
  ust_stage_id :: string
  ust_description :: string
  ust_status :: upd_status
  ust_progress :: u8
  ust_start_time :: "instant option"
  ust_completion_time :: "instant option"
  ust_error :: "string option"

record update_package =
  up_metadata :: update_metadata
  up_local_path :: "string option"
  up_download_url :: "string option"
  up_status :: upd_status
  up_stages :: "update_stage list"
  up_created_at :: instant
  up_updated_at :: instant

record rollback_info =
  ri_rollback_id :: string
  ri_original_update_id :: string
  ri_reason :: string
  ri_timestamp :: instant
  ri_rolled_back_files :: "string list"
  ri_reverted_config_changes :: "string list"
  ri_status :: upd_status

record update_verification_result =
  uvr_is_valid :: bool
  uvr_integrity_verified :: bool
  uvr_signatures_verified :: bool
  uvr_dependencies_satisfied :: bool
  uvr_security_checks_passed :: bool
  uvr_errors :: "string list"
  uvr_warnings :: "string list"
  uvr_verified_at :: instant

record update_config =
  ucf_update_directory :: string
  ucf_staging_directory :: string
  ucf_backup_directory :: string
  ucf_max_concurrent_downloads :: nat
  ucf_download_timeout_seconds :: u64
  ucf_verification_timeout_seconds :: u64
  ucf_enable_auto_rollback :: bool
  ucf_enable_signature_verification :: bool
  ucf_enable_integrity_verification :: bool
  ucf_enable_security_scanning :: bool
  ucf_max_rollback_history :: nat
  ucf_required_signature_algorithms :: "signature_algorithm list"
  ucf_blocked_sources :: "string list"
  ucf_allowed_sources :: "string list"

definition update_config_default :: update_config where
  "update_config_default =
     \<lparr> ucf_update_directory = ''/var/lib/fuji/updates'', ucf_staging_directory = ''/var/lib/fuji/updates/staging'',
       ucf_backup_directory = ''/var/lib/fuji/updates/backup'', ucf_max_concurrent_downloads = 3, ucf_download_timeout_seconds = 300,
       ucf_verification_timeout_seconds = 120, ucf_enable_auto_rollback = True, ucf_enable_signature_verification = True,
       ucf_enable_integrity_verification = True, ucf_enable_security_scanning = True, ucf_max_rollback_history = 10,
       ucf_required_signature_algorithms = [Ed25519, RSA512], ucf_blocked_sources = [], ucf_allowed_sources = [] \<rparr>"

record update_manager =
  um_config :: update_config
  um_active_updates :: "(string, update_package) hashmap"
  um_update_history :: "update_package list"
  um_rollback_history :: "rollback_info list"
  um_trusted_keys :: "(string, string) hashmap"
  um_files :: files

datatype update_error =
    Package_Not_Found string
  | Package_Not_Downloaded
  | Checksum_Mismatch string string
  | Checksum_Missing
  | Signatures_Missing
  | Untrusted_Key string
  | Package_Too_Large nat
  | Update_Io string
  | Audit_Failed

record update_env =
  ue_sha256_hex :: "string \<Rightarrow> string"
  ue_now :: instant
  ue_now_text :: string
  ue_file_size :: "string \<Rightarrow> nat option"
  ue_readable :: "string \<Rightarrow> bool"
  ue_write :: "string \<Rightarrow> write_outcome"
  ue_dir_ok :: bool
  ue_remove_ok :: bool
  ue_io_text :: string
  ue_log_ok :: bool

definition update_error_text :: "update_error \<Rightarrow> string" where
  "update_error_text e =
     (case e of
        Package_Not_Found i \<Rightarrow> ''Update package not found: '' @ i
      | Package_Not_Downloaded \<Rightarrow> ''Update package not downloaded''
      | Checksum_Mismatch a b \<Rightarrow> ''Checksum mismatch: expected '' @ a @ '', got '' @ b
      | Checksum_Missing \<Rightarrow> ''No SHA256 checksum found in metadata''
      | Signatures_Missing \<Rightarrow> ''No signatures found in update package''
      | Untrusted_Key k \<Rightarrow> ''Untrusted key ID: '' @ k
      | Package_Too_Large n \<Rightarrow> ''Package too large: '' @ show_nat n @ '' bytes''
      | Update_Io s \<Rightarrow> s
      | Audit_Failed \<Rightarrow> [])"

section \<open>Keys and packages\<close>

definition logged :: "update_env \<Rightarrow> 'a \<Rightarrow> update_error + 'a" where
  "logged env x = (if ue_log_ok env then Inr x else Inl Audit_Failed)"

definition load_trusted_keys :: "update_manager \<Rightarrow> update_manager" where
  "load_trusted_keys um =
     um\<lparr>um_trusted_keys := hm_insert ''rsa-main'' ''rsa_public_key_placeholder''
         (hm_insert ''ed25519-main'' ''ed25519_public_key_placeholder'' (um_trusted_keys um))\<rparr>"

definition update_manager_new :: "update_env \<Rightarrow> update_config \<Rightarrow> files \<Rightarrow> update_error + update_manager" where
  "update_manager_new env c fs =
     (if \<not> ue_dir_ok env then Inl (Update_Io (ue_io_text env))
      else Inr (load_trusted_keys \<lparr> um_config = c, um_active_updates = [], um_update_history = [], um_rollback_history = [],
                                    um_trusted_keys = [], um_files = fs \<rparr>))"

definition add_trusted_key :: "update_env \<Rightarrow> string \<Rightarrow> string \<Rightarrow> update_manager \<Rightarrow> update_manager \<times> (update_error + unit)" where
  "add_trusted_key env key_id public_key um =
     (um\<lparr>um_trusted_keys := hm_insert key_id public_key (um_trusted_keys um)\<rparr>, logged env ())"

definition remove_trusted_key :: "update_env \<Rightarrow> string \<Rightarrow> update_manager \<Rightarrow> update_manager \<times> (update_error + unit)" where
  "remove_trusted_key env key_id um = (um\<lparr>um_trusted_keys := hm_remove key_id (um_trusted_keys um)\<rparr>, logged env ())"

definition pending_stage :: "string \<Rightarrow> string \<Rightarrow> update_stage" where
  "pending_stage i d =
     \<lparr> ust_stage_id = i, ust_description = d, ust_status = Upd_Pending, ust_progress = 0, ust_start_time = None,
       ust_completion_time = None, ust_error = None \<rparr>"

definition create_update_package :: "update_env \<Rightarrow> update_metadata \<Rightarrow> update_manager \<Rightarrow> update_manager \<times> (update_error + string)" where
  "create_update_package env meta um =
     (um\<lparr>um_active_updates := hm_insert (ump_package_id meta)
         \<lparr> up_metadata = meta, up_local_path = None, up_download_url = None, up_status = Upd_Pending,
           up_stages = [pending_stage ''download'' ''Download update package'', pending_stage ''verify'' ''Verify update package'',
                        pending_stage ''install'' ''Install update package''],
           up_created_at = ue_now env, up_updated_at = ue_now env \<rparr>
         (um_active_updates um)\<rparr>, logged env (ump_package_id meta))"

text \<open>\<open>iter_mut().find\<close>: the first stage with the name.\<close>

fun update_stage_with :: "string \<Rightarrow> (update_stage \<Rightarrow> update_stage) \<Rightarrow> update_stage list \<Rightarrow> update_stage list" where
  "update_stage_with i f [] = []"
| "update_stage_with i f (s # ss) = (if ust_stage_id s = i then f s # ss else s # update_stage_with i f ss)"

definition on_package :: "string \<Rightarrow> (update_package \<Rightarrow> update_package) \<Rightarrow> update_manager \<Rightarrow> update_manager" where
  "on_package i f um = um\<lparr>um_active_updates := hm_update i f (um_active_updates um)\<rparr>"

definition start_stage :: "update_env \<Rightarrow> string \<Rightarrow> upd_status \<Rightarrow> update_package \<Rightarrow> update_package" where
  "start_stage env i st p =
     p\<lparr>up_status := st,
       up_stages := update_stage_with i (\<lambda>s. s\<lparr>ust_status := st, ust_start_time := Some (ue_now env), ust_progress := 0\<rparr>) (up_stages p)\<rparr>"

definition package_file :: "update_config \<Rightarrow> string \<Rightarrow> string" where
  "package_file c i = path_join (ucf_staging_directory c) (i @ ''.pkg'')"

definition download_file :: "update_env \<Rightarrow> string \<Rightarrow> string \<Rightarrow> files \<Rightarrow> files \<times> bool" where
  "download_file env url path fs = write_file (ue_write env path) path (''dummy update package from '' @ url) fs"

definition download_update :: "update_env \<Rightarrow> string \<Rightarrow> string \<Rightarrow> update_manager \<Rightarrow> update_manager \<times> (update_error + string)" where
  "download_update env i url um =
     (case hm_get (um_active_updates um) i of
        None \<Rightarrow> (um, Inl (Package_Not_Found i))
      | Some p \<Rightarrow>
          let um1 = on_package i (start_stage env ''download'' Upd_Downloading) um; path = package_file (um_config um) i
          in (case download_file env url path (um_files um1) of
                (fs, False) \<Rightarrow> (um1\<lparr>um_files := fs\<rparr>, Inl (Update_Io (ue_io_text env)))
              | (fs, True) \<Rightarrow>
                  (on_package i (\<lambda>p. p\<lparr>up_stages := update_stage_with ''download''
                        (\<lambda>s. s\<lparr>ust_status := Upd_Completed, ust_completion_time := Some (ue_now env), ust_progress := 100\<rparr>) (up_stages p),
                      up_local_path := Some path, up_updated_at := ue_now env\<rparr>) (um1\<lparr>um_files := fs\<rparr>),
                   logged env path)))"

section \<open>Verification\<close>

definition verify_package_integrity :: "update_env \<Rightarrow> files \<Rightarrow> string \<Rightarrow> update_metadata \<Rightarrow> update_error + unit" where
  "verify_package_integrity env fs path meta =
     and_then (ok_or (read_file (ue_readable env) fs path) (Update_Io (ue_io_text env)))
       (\<lambda>content. case hm_get (ump_checksums meta) ''sha256'' of
            None \<Rightarrow> Inl Checksum_Missing
          | Some expected \<Rightarrow>
              if ue_sha256_hex env content \<noteq> expected then Inl (Checksum_Mismatch expected (ue_sha256_hex env content)) else Inr ())"

text \<open>The match on the algorithm only writes to the log.\<close>

definition verify_package_signatures :: "(string, string) hashmap \<Rightarrow> update_metadata \<Rightarrow> update_error + unit" where
  "verify_package_signatures keys meta =
     (if ump_signatures meta = [] then Inl Signatures_Missing
      else check_all (\<lambda>s. if hm_contains_key keys (dsg_key_id s) then Inr () else Inl (Untrusted_Key (dsg_key_id s))) (ump_signatures meta))"

definition check_dependencies :: "update_metadata \<Rightarrow> bool" where
  "check_dependencies meta = list_all (\<lambda>d. d \<noteq> ''nonexistent_dependency'') (ump_dependencies meta)"

definition perform_security_checks :: "update_env \<Rightarrow> string \<Rightarrow> update_error + unit" where
  "perform_security_checks env path =
     (case ue_file_size env path of
        None \<Rightarrow> Inl (Update_Io (ue_io_text env))
      | Some n \<Rightarrow> if n > 100000000 then Inl (Package_Too_Large n) else Inr ())"

definition set_stage_status :: "update_env \<Rightarrow> upd_status \<Rightarrow> update_stage \<Rightarrow> update_stage" where
  "set_stage_status env st s =
     (case st of
        Upd_Completed \<Rightarrow> s\<lparr>ust_status := st, ust_completion_time := Some (ue_now env), ust_progress := 100\<rparr>
      | Upd_Failed code message \<Rightarrow> s\<lparr>ust_status := st, ust_error := Some message\<rparr>
      | _ \<Rightarrow> s\<lparr>ust_status := st\<rparr>)"

definition update_stage_status :: "update_env \<Rightarrow> string \<Rightarrow> string \<Rightarrow> upd_status \<Rightarrow> update_manager \<Rightarrow> update_manager" where
  "update_stage_status env i stage st =
     on_package i (\<lambda>p. if list_ex (\<lambda>s. ust_stage_id s = stage) (up_stages p)
        then p\<lparr>up_stages := update_stage_with stage (set_stage_status env st) (up_stages p), up_updated_at := ue_now env\<rparr> else p)"

definition run_update_check :: "bool \<Rightarrow> string \<Rightarrow> string \<Rightarrow> update_error + unit \<Rightarrow> bool \<times> string list \<times> string list" where
  "run_update_check enabled failure disabled r =
     (if enabled then (case r of Inr u \<Rightarrow> (True, [], []) | Inl e \<Rightarrow> (False, [failure @ update_error_text e], []))
      else (True, [], [disabled]))"

definition verification_of :: "update_env \<Rightarrow> update_manager \<Rightarrow> update_metadata \<Rightarrow> string \<Rightarrow> update_verification_result" where
  "verification_of env um meta path =
     (case run_update_check (ucf_enable_integrity_verification (um_config um)) ''Integrity verification failed: '' ''Integrity verification disabled''
             (verify_package_integrity env (um_files um) path meta) of
        (v1, e1, w1) \<Rightarrow>
      (case run_update_check (ucf_enable_signature_verification (um_config um)) ''Signature verification failed: '' ''Signature verification disabled''
             (verify_package_signatures (um_trusted_keys um) meta) of
        (v2, e2, w2) \<Rightarrow>
      (case run_update_check (ucf_enable_security_scanning (um_config um)) ''Security checks failed: '' ''Security scanning disabled''
             (perform_security_checks env path) of
        (v3, e3, w3) \<Rightarrow>
          \<lparr> uvr_is_valid = v1 \<and> v2 \<and> check_dependencies meta \<and> v3, uvr_integrity_verified = v1, uvr_signatures_verified = v2,
            uvr_dependencies_satisfied = check_dependencies meta, uvr_security_checks_passed = v3, uvr_errors = e1 @ e2 @ e3,
            uvr_warnings = w1 @ w2 @ w3, uvr_verified_at = ue_now env \<rparr>)))"

definition verify_update :: "update_env \<Rightarrow> string \<Rightarrow> update_manager \<Rightarrow> update_manager \<times> (update_error + update_verification_result)" where
  "verify_update env i um =
     (case hm_get (um_active_updates um) i of
        None \<Rightarrow> (um, Inl (Package_Not_Found i))
      | Some p \<Rightarrow>
          (case up_local_path p of
             None \<Rightarrow> (um, Inl Package_Not_Downloaded)
           | Some path \<Rightarrow>
               let r = verification_of env um (up_metadata p) path;
                   st = (if uvr_is_valid r then Upd_Completed else Upd_Failed ''VERIFICATION_FAILED'' (join ''; '' (uvr_errors r)))
               in (update_stage_status env i ''verify'' st (update_stage_status env i ''verify'' Upd_Verifying um), logged env r)))"

section \<open>Installation and rollback\<close>

definition update_marker :: string where
  "update_marker = ''/tmp/fuji_update_marker''"

definition create_update_backup :: "update_env \<Rightarrow> string \<Rightarrow> update_manager \<Rightarrow> update_manager \<times> (update_error + string)" where
  "create_update_backup env i um =
     (let path = path_join (ucf_backup_directory (um_config um)) (''backup_'' @ i); info = path_join path ''backup_info.txt''
      in if \<not> ue_dir_ok env then (um, Inl (Update_Io (ue_io_text env)))
         else case write_file (ue_write env info) info (''Backup created for update: '' @ i) (um_files um) of
                (fs, ok) \<Rightarrow> (um\<lparr>um_files := fs\<rparr>, if ok then Inr path else Inl (Update_Io (ue_io_text env))))"

definition update_stage_progress :: "string \<Rightarrow> string \<Rightarrow> u8 \<Rightarrow> update_manager \<Rightarrow> update_manager" where
  "update_stage_progress i stage n = on_package i (\<lambda>p. p\<lparr>up_stages := update_stage_with stage (\<lambda>s. s\<lparr>ust_progress := min n 100\<rparr>) (up_stages p)\<rparr>)"

definition install_progress :: "string \<Rightarrow> update_manager \<Rightarrow> update_manager" where
  "install_progress i um = fold (\<lambda>k. update_stage_progress i ''install'' ((k + 1) * 10)) [0, 1, 2, 3, 4, 5, 6, 7, 8, 9] um"

text \<open>The installation reports its progress and writes the marker; the package itself is not opened.\<close>

definition perform_installation :: "update_env \<Rightarrow> string \<Rightarrow> string \<Rightarrow> update_manager \<Rightarrow> update_manager \<times> (update_error + unit)" where
  "perform_installation env i path um =
     (let um1 = install_progress i um
      in case write_file (ue_write env update_marker) update_marker (''Update '' @ i @ '' installed at '' @ ue_now_text env) (um_files um1) of
           (fs, ok) \<Rightarrow> (um1\<lparr>um_files := fs\<rparr>, if ok then Inr () else Inl (Update_Io (ue_io_text env))))"

definition move_to_history :: "string \<Rightarrow> update_manager \<Rightarrow> update_manager" where
  "move_to_history i um =
     (case hm_get (um_active_updates um) i of
        None \<Rightarrow> um
      | Some p \<Rightarrow>
          let h = um_update_history um @ [p\<lparr>up_status := Upd_Completed\<rparr>]
          in um\<lparr>um_active_updates := hm_remove i (um_active_updates um), um_update_history := (if length h > 100 then tl h else h)\<rparr>)"

definition rollback_update :: "update_env \<Rightarrow> string \<Rightarrow> string \<Rightarrow> update_manager \<Rightarrow> update_manager \<times> (update_error + unit)" where
  "rollback_update env i reason um =
     (if um_files um update_marker \<noteq> None \<and> \<not> ue_remove_ok env then (um, Inl (Update_Io (ue_io_text env)))
      else let info = \<lparr> ri_rollback_id = ''rollback_'' @ i, ri_original_update_id = i, ri_reason = reason, ri_timestamp = ue_now env,
                        ri_rolled_back_files = [update_marker], ri_reverted_config_changes = [], ri_status = Upd_Completed \<rparr>;
               h = um_rollback_history um @ [info]
           in (um\<lparr>um_files := (um_files um)(update_marker := None),
                 um_rollback_history := (if length h > ucf_max_rollback_history (um_config um) then tl h else h)\<rparr>, logged env ()))"

definition install_update :: "update_env \<Rightarrow> string \<Rightarrow> update_manager \<Rightarrow> update_manager \<times> (update_error + unit)" where
  "install_update env i um =
     (case hm_get (um_active_updates um) i of
        None \<Rightarrow> (um, Inl (Package_Not_Found i))
      | Some p \<Rightarrow>
          (case up_local_path p of
             None \<Rightarrow> (um, Inl Package_Not_Downloaded)
           | Some path \<Rightarrow>
               (case create_update_backup env i (on_package i (start_stage env ''install'' Upd_Installing) um) of
                  (um1, Inl e) \<Rightarrow> (um1, Inl e)
                | (um1, Inr backup) \<Rightarrow>
                    (case perform_installation env i path um1 of
                       (um2, Inr u) \<Rightarrow>
                         (move_to_history i (update_stage_status env i ''install'' Upd_Completed um2), logged env ())
                     | (um2, Inl e) \<Rightarrow>
                         (update_stage_status env i ''install'' (Upd_Failed ''INSTALLATION_FAILED'' (update_error_text e))
                            (if ucf_enable_auto_rollback (um_config um2) then fst (rollback_update env i ''Installation failed'' um2) else um2),
                          Inl e)))))"

definition get_update_status :: "string \<Rightarrow> update_manager \<Rightarrow> upd_status option" where
  "get_update_status i um =
     (case hm_get (um_active_updates um) i of
        Some p \<Rightarrow> Some (up_status p)
      | None \<Rightarrow> map_option up_status (find (\<lambda>p. ump_package_id (up_metadata p) = i) (um_update_history um)))"

definition cancel_stage :: "update_stage \<Rightarrow> update_stage" where
  "cancel_stage s =
     (if ust_status s \<in> {Upd_Pending, Upd_Downloading, Upd_Verifying}
      then s\<lparr>ust_status := Upd_Failed ''CANCELLED'' ''Update was cancelled'', ust_error := Some ''Update was cancelled''\<rparr> else s)"

definition cancel_update :: "update_env \<Rightarrow> string \<Rightarrow> update_manager \<Rightarrow> update_manager \<times> (update_error + unit)" where
  "cancel_update env i um =
     (case hm_get (um_active_updates um) i of
        None \<Rightarrow> (um, Inr ())
      | Some p \<Rightarrow>
          let um1 = on_package i (\<lambda>p. p\<lparr>up_status := Upd_Failed ''CANCELLED'' ''Update was cancelled by user'',
                                       up_stages := map cancel_stage (up_stages p)\<rparr>) um
          in (case up_local_path p of
                None \<Rightarrow> (um1, logged env ())
              | Some path \<Rightarrow>
                  if um_files um1 path = None then (um1, logged env ())
                  else if \<not> ue_remove_ok env then (um1, Inl (Update_Io (ue_io_text env)))
                  else (um1\<lparr>um_files := (um_files um1)(path := None)\<rparr>, logged env ())))"

text \<open>A listed entry: its path, whether it is a directory, its age in seconds, and whether it can be removed.\<close>

fun cleanup_entries :: "bool \<Rightarrow> int \<Rightarrow> (string \<times> bool \<times> int \<times> bool) list \<Rightarrow> string list \<times> bool" where
  "cleanup_entries dirs_only limit [] = ([], True)"
| "cleanup_entries dirs_only limit ((path, is_dir, age, removable) # es) =
     (if (dirs_only \<and> \<not> is_dir) \<or> age \<le> limit then cleanup_entries dirs_only limit es
      else if \<not> removable then ([], False)
      else case cleanup_entries dirs_only limit es of (ps, ok) \<Rightarrow> (path # ps, ok))"

definition cleanup_old_updates ::
    "update_env \<Rightarrow> (string \<times> bool \<times> int \<times> bool) list \<Rightarrow> (string \<times> bool \<times> int \<times> bool) list \<Rightarrow> string list \<times> (update_error + nat)" where
  "cleanup_old_updates env backups staged =
     (case cleanup_entries True (30 * 24 * 60 * 60) backups of
        (ps, False) \<Rightarrow> (ps, Inl (Update_Io (ue_io_text env)))
      | (ps, True) \<Rightarrow>
          (case cleanup_entries False (24 * 60 * 60) staged of
             (qs, False) \<Rightarrow> (ps @ qs, Inl (Update_Io (ue_io_text env)))
           | (qs, True) \<Rightarrow> (ps @ qs, logged env (length ps + length qs))))"

section \<open>Properties\<close>

lemma on_package_get: "hm_get (um_active_updates (on_package i f um)) j =
    (if j = i then map_option f (hm_get (um_active_updates um) i) else hm_get (um_active_updates um) j)"
  by (simp add: on_package_def hm_get_update)

lemma on_package_fields [simp]:
  "um_config (on_package i f um) = um_config um" "um_update_history (on_package i f um) = um_update_history um"
  "um_rollback_history (on_package i f um) = um_rollback_history um" "um_trusted_keys (on_package i f um) = um_trusted_keys um"
  "um_files (on_package i f um) = um_files um"
  by (simp_all add: on_package_def)

lemma stage_progress_fields:
  "um_config (fold (\<lambda>k. update_stage_progress i s (g k)) ks um) = um_config um"
  "um_update_history (fold (\<lambda>k. update_stage_progress i s (g k)) ks um) = um_update_history um"
  "um_rollback_history (fold (\<lambda>k. update_stage_progress i s (g k)) ks um) = um_rollback_history um"
  "um_files (fold (\<lambda>k. update_stage_progress i s (g k)) ks um) = um_files um"
  "map_option up_status (hm_get (um_active_updates (fold (\<lambda>k. update_stage_progress i s (g k)) ks um)) j)
     = map_option up_status (hm_get (um_active_updates um) j)"
  by (induction ks arbitrary: um) (simp_all add: update_stage_progress_def on_package_get option.map_comp comp_def)

lemma install_progress_fields [simp]:
  "um_config (install_progress i um) = um_config um" "um_update_history (install_progress i um) = um_update_history um"
  "um_rollback_history (install_progress i um) = um_rollback_history um" "um_files (install_progress i um) = um_files um"
  "map_option up_status (hm_get (um_active_updates (install_progress i um)) j) = map_option up_status (hm_get (um_active_updates um) j)"
  unfolding install_progress_def by (rule stage_progress_fields)+

lemma install_progress_wf: "hm_wf (um_active_updates um) \<Longrightarrow> hm_wf (um_active_updates (install_progress i um))"
  by (simp add: install_progress_def update_stage_progress_def on_package_def hm_wf_update)

lemma stage_status_fields [simp]:
  "um_config (update_stage_status env i s st um) = um_config um"
  "um_update_history (update_stage_status env i s st um) = um_update_history um"
  "um_rollback_history (update_stage_status env i s st um) = um_rollback_history um"
  "um_files (update_stage_status env i s st um) = um_files um"
  "map_option up_status (hm_get (um_active_updates (update_stage_status env i s st um)) j)
     = map_option up_status (hm_get (um_active_updates um) j)"
  by (simp_all add: update_stage_status_def on_package_get option.map_comp comp_def)
    (auto simp: option.map_comp comp_def intro: option.map_cong)

lemma verify_check_all:
  "check_all (\<lambda>s. if hm_contains_key keys (dsg_key_id s) then Inr () else Inl (Untrusted_Key (dsg_key_id s))) ss = Inr () \<longleftrightarrow>
     list_all (\<lambda>s. hm_contains_key keys (dsg_key_id s)) ss"
  by (induction ss) auto

text \<open>what \<open>verify_update\<close> calls valid is exactly: the checksum of the file is the one of the metadata, there is at least one
  signature, each names a known key, no dependency is the one name that counts as missing, and the file has at most
  100000000 bytes; a check that is switched off counts as passed.  The text of a signature plays no part.\<close>

theorem verification_exact:
  "uvr_is_valid (verification_of env um meta path) \<longleftrightarrow>
     (if ucf_enable_integrity_verification (um_config um)
      then \<exists>s. read_file (ue_readable env) (um_files um) path = Some s \<and> hm_get (ump_checksums meta) ''sha256'' = Some (ue_sha256_hex env s)
      else True)
     \<and> (if ucf_enable_signature_verification (um_config um)
        then ump_signatures meta \<noteq> [] \<and> list_all (\<lambda>s. hm_contains_key (um_trusted_keys um) (dsg_key_id s)) (ump_signatures meta)
        else True)
     \<and> list_all (\<lambda>d. d \<noteq> ''nonexistent_dependency'') (ump_dependencies meta)
     \<and> (if ucf_enable_security_scanning (um_config um) then \<exists>n. ue_file_size env path = Some n \<and> n \<le> 100000000 else True)"
proof -
  have i: "verify_package_integrity env (um_files um) path meta = Inr () \<longleftrightarrow>
      (\<exists>s. read_file (ue_readable env) (um_files um) path = Some s \<and> hm_get (ump_checksums meta) ''sha256'' = Some (ue_sha256_hex env s))"
    by (auto simp: verify_package_integrity_def ok_or_def split: option.splits)
  have s: "verify_package_signatures (um_trusted_keys um) meta = Inr () \<longleftrightarrow>
      ump_signatures meta \<noteq> [] \<and> list_all (\<lambda>s. hm_contains_key (um_trusted_keys um) (dsg_key_id s)) (ump_signatures meta)"
    by (simp add: verify_package_signatures_def verify_check_all)
  have p: "perform_security_checks env path = Inr () \<longleftrightarrow> (\<exists>n. ue_file_size env path = Some n \<and> n \<le> 100000000)"
    by (auto simp: perform_security_checks_def split: option.splits)
  have r: "fst (run_update_check b f d r) \<longleftrightarrow> (if b then r = Inr () else True)" for b f d r
    by (auto simp: run_update_check_def split: sum.splits)
  show ?thesis
    by (simp add: verification_of_def check_dependencies_def r i s p split_beta)
qed

definition all_written :: "update_env \<Rightarrow> bool" where
  "all_written env = (ue_dir_ok env \<and> ue_log_ok env \<and> (\<forall>p. ue_write env p = Written))"

lemma install_succeeds:
  assumes "hm_wf (um_active_updates um)" "hm_get (um_active_updates um) i = Some p" "up_local_path p = Some path" "all_written env"
  shows "\<exists>um'. install_update env i um = (um', Inr ()) \<and> hm_get (um_active_updates um') i = None
    \<and> (\<exists>q. um_update_history um' \<noteq> [] \<and> last (um_update_history um') = q \<and> up_status q = Upd_Completed)
    \<and> um_files um' update_marker = Some (''Update '' @ i @ '' installed at '' @ ue_now_text env)"
proof -
  let ?u1 = "(on_package i (start_stage env ''install'' Upd_Installing) um)"
  obtain b fs where b: "create_update_backup env i ?u1 = (?u1\<lparr>um_files := fs\<rparr>, Inr b)"
    using assms(4) by (simp add: create_update_backup_def all_written_def write_file_def Let_def)
  let ?u2 = "?u1\<lparr>um_files := fs\<rparr>"
  obtain u3 where u3: "perform_installation env i path ?u2 = (u3, Inr ())"
      "um_files u3 update_marker = Some (''Update '' @ i @ '' installed at '' @ ue_now_text env)"
      "map_option up_status (hm_get (um_active_updates u3) i) = map_option up_status (hm_get (um_active_updates ?u2) i)"
      "hm_wf (um_active_updates u3)"
  proof -
    let ?f = "install_progress i ?u2"
    have w: "hm_wf (um_active_updates ?u2)" using assms(1) by (simp add: on_package_def hm_wf_update)
    show thesis
    proof (rule that)
      show "perform_installation env i path ?u2 = (?f\<lparr>um_files := (um_files ?f)(update_marker \<mapsto> ''Update '' @ i @ '' installed at '' @ ue_now_text env)\<rparr>, Inr ())"
        using assms(4) by (simp add: perform_installation_def all_written_def write_file_def Let_def)
      show "hm_wf (um_active_updates (?f\<lparr>um_files := (um_files ?f)(update_marker \<mapsto> ''Update '' @ i @ '' installed at '' @ ue_now_text env)\<rparr>))"
        using install_progress_wf [OF w] by simp
      show "map_option up_status (hm_get (um_active_updates
          (?f\<lparr>um_files := (um_files ?f)(update_marker \<mapsto> ''Update '' @ i @ '' installed at '' @ ue_now_text env)\<rparr>)) i)
          = map_option up_status (hm_get (um_active_updates ?u2) i)"
        by simp
    qed simp
  qed
  let ?u4 = "update_stage_status env i ''install'' Upd_Completed u3"
  have "map_option up_status (hm_get (um_active_updates ?u4) i) = Some Upd_Installing"
    by (simp add: u3(3) on_package_get assms(2) start_stage_def)
  then obtain q where q: "hm_get (um_active_updates ?u4) i = Some q" by (cases "hm_get (um_active_updates ?u4) i") simp_all
  have wf4: "hm_wf (um_active_updates ?u4)" using u3(4) by (simp add: update_stage_status_def on_package_def hm_wf_update)
  have "install_update env i um = (move_to_history i ?u4, Inr ())"
    using assms(2,3) b u3(1) assms(4) by (simp add: install_update_def logged_def all_written_def)
  with wf4 q u3(2) show ?thesis
    by (cases "um_update_history u3") (auto simp: move_to_history_def Let_def hm.get_remove)
qed

text \<open>an update that failed its verification can be installed all the same, and is then listed as completed.\<close>

theorem unverified_update_installs:
  assumes "verify_update env i um = (um1, Inr r)" "\<not> uvr_is_valid r" "hm_wf (um_active_updates um)" "all_written env"
  shows "\<exists>um2. install_update env i um1 = (um2, Inr ()) \<and> hm_get (um_active_updates um2) i = None
    \<and> um_update_history um2 \<noteq> [] \<and> up_status (last (um_update_history um2)) = Upd_Completed"
proof -
  from assms(1) obtain p path where p: "hm_get (um_active_updates um) i = Some p" "up_local_path p = Some path"
    by (auto simp: verify_update_def split: option.splits)
  obtain st where um1: "um1 = update_stage_status env i ''verify'' st (update_stage_status env i ''verify'' Upd_Verifying um)"
    using assms(1) by (auto simp: verify_update_def Let_def p)
  have "\<exists>q. hm_get (um_active_updates um1) i = Some q \<and> up_local_path q = Some path"
    by (simp add: um1 update_stage_status_def on_package_get p)
  moreover have "hm_wf (um_active_updates um1)"
    using assms(3) by (simp add: um1 update_stage_status_def on_package_def hm_wf_update)
  ultimately show ?thesis using install_succeeds assms(4) by blast
qed

text \<open>so can an update that was cancelled, although its file has been removed.\<close>

theorem cancelled_update_installs:
  assumes "hm_get (um_active_updates um) i = Some p" "up_local_path p = Some path" "hm_wf (um_active_updates um)" "all_written env"
    and "cancel_update env i um = (um1, Inr ())"
  shows "um_files um1 path = None" "\<exists>um2. install_update env i um1 = (um2, Inr ())"
proof -
  show "um_files um1 path = None"
    using assms(1,2,5) by (auto simp: cancel_update_def Let_def split: if_splits)
  have "\<exists>q. hm_get (um_active_updates um1) i = Some q \<and> up_local_path q = Some path"
    using assms(1,2,5) by (auto simp: cancel_update_def Let_def on_package_get split: if_splits)
  moreover have "hm_wf (um_active_updates um1)"
    using assms(1,2,3,5) by (auto simp: cancel_update_def Let_def on_package_def hm_wf_update split: if_splits)
  ultimately show "\<exists>um2. install_update env i um1 = (um2, Inr ())" using install_succeeds assms(4) by blast
qed

text \<open>the histories stay bounded, whatever is installed and rolled back.\<close>

definition histories_ok :: "update_manager \<Rightarrow> bool" where
  "histories_ok um =
     (length (um_update_history um) \<le> 100 \<and> length (um_rollback_history um) \<le> ucf_max_rollback_history (um_config um))"

datatype update_call =
    Create_Call update_metadata | Download_Call string string | Verify_Call string | Install_Call string
  | Rollback_Call string string | Cancel_Call string

fun apply_update_call :: "update_env \<times> update_call \<Rightarrow> update_manager \<Rightarrow> update_manager" where
  "apply_update_call (env, Create_Call meta) um = fst (create_update_package env meta um)"
| "apply_update_call (env, Download_Call i url) um = fst (download_update env i url um)"
| "apply_update_call (env, Verify_Call i) um = fst (verify_update env i um)"
| "apply_update_call (env, Install_Call i) um = fst (install_update env i um)"
| "apply_update_call (env, Rollback_Call i reason) um = fst (rollback_update env i reason um)"
| "apply_update_call (env, Cancel_Call i) um = fst (cancel_update env i um)"

lemma histories_cong:
  "um_update_history um' = um_update_history um \<Longrightarrow> um_rollback_history um' = um_rollback_history um \<Longrightarrow> um_config um' = um_config um
     \<Longrightarrow> histories_ok um \<Longrightarrow> histories_ok um'"
  by (simp add: histories_ok_def)

lemma rollback_histories: "histories_ok um \<Longrightarrow> histories_ok (fst (rollback_update env i reason um))"
  by (simp add: rollback_update_def Let_def histories_ok_def)

lemma move_histories: "histories_ok um \<Longrightarrow> histories_ok (move_to_history i um)"
  by (simp add: move_to_history_def Let_def histories_ok_def split: option.split)

lemma status_histories: "histories_ok um \<Longrightarrow> histories_ok (update_stage_status env i s st um)"
  by (erule histories_cong [rotated 3]) simp_all

lemma install_histories: "histories_ok um \<Longrightarrow> histories_ok (fst (install_update env i um))"
proof -
  assume um: "histories_ok um"
  have b: "histories_ok (fst (create_update_backup env i (on_package i (start_stage env ''install'' Upd_Installing) um)))"
    by (rule histories_cong [OF _ _ _ um]) (simp_all add: create_update_backup_def Let_def split: prod.split)
  have p: "histories_ok (fst (perform_installation env i path u))" if "histories_ok u" for path u
    by (rule histories_cong [OF _ _ _ that]) (simp_all add: perform_installation_def Let_def split: prod.split)
  show ?thesis
    using um b p rollback_histories move_histories status_histories
    by (auto simp: install_update_def split: option.split prod.split sum.split) (metis fst_conv)+
qed

theorem histories_bounded:
  assumes "update_manager_new env c fs = Inr um"
  shows "length (um_update_history (fold apply_update_call calls um)) \<le> 100"
    and "length (um_rollback_history (fold apply_update_call calls um)) \<le> ucf_max_rollback_history (um_config (fold apply_update_call calls um))"
proof -
  have "histories_ok (apply_update_call ec u)" if "histories_ok u" for ec u
  proof (cases "(ec, u)" rule: apply_update_call.cases)
    case (4 env i um) with that install_histories show ?thesis by simp
  next
    case (5 env i reason um) with that rollback_histories show ?thesis by simp
  qed (use that in \<open>auto simp: create_update_package_def download_update_def verify_update_def cancel_update_def Let_def histories_ok_def
        split: option.splits prod.splits bool.splits\<close>)
  then have "histories_ok u \<Longrightarrow> histories_ok (fold apply_update_call calls u)" for u
    by (induction calls arbitrary: u) simp_all
  moreover have "histories_ok um"
    using assms by (auto simp: update_manager_new_def load_trusted_keys_def histories_ok_def split: if_splits)
  ultimately show "length (um_update_history (fold apply_update_call calls um)) \<le> 100"
    "length (um_rollback_history (fold apply_update_call calls um)) \<le> ucf_max_rollback_history (um_config (fold apply_update_call calls um))"
    by (simp_all add: histories_ok_def)
qed

section \<open>Concrete updates\<close>

definition sample_update_env :: update_env where
  "sample_update_env =
     \<lparr> ue_sha256_hex = (\<lambda>s. s), ue_now = 0, ue_now_text = ''now'', ue_file_size = (\<lambda>_. Some 10), ue_readable = (\<lambda>_. True),
       ue_write = (\<lambda>_. Written), ue_dir_ok = True, ue_remove_ok = True, ue_io_text = ''io'', ue_log_ok = True \<rparr>"

definition sample_metadata :: update_metadata where
  "sample_metadata =
     \<lparr> ump_package_id = ''p'', ump_version = ''2'', ump_previous_version = None, ump_description = [], ump_package_type = BugFix,
       ump_security_level = Update_Low, ump_build_timestamp = 0, ump_checksums = [], ump_dependencies = [], ump_size_bytes = 0,
       ump_signatures = [], ump_creator = [], ump_classification = Official \<rparr>"

definition sample_manager :: update_manager where
  "sample_manager =
     fst (download_update sample_update_env ''p'' ''u''
       (fst (create_update_package sample_update_env sample_metadata
         \<lparr> um_config = update_config_default, um_active_updates = [], um_update_history = [], um_rollback_history = [],
           um_trusted_keys = [], um_files = Map.empty \<rparr>)))"

lemma sample_written: "all_written sample_update_env"
  by (simp add: all_written_def sample_update_env_def)

lemma sample_log: "logged sample_update_env x = Inr x" "ue_remove_ok sample_update_env"
  by (simp_all add: logged_def sample_update_env_def)

lemma sample_manager_wf: "hm_wf (um_active_updates sample_manager)"
  by (simp add: sample_manager_def download_update_def create_update_package_def on_package_def Let_def hm_wf_update hm.wf_insert hm.wf_empty
      split: option.split prod.split bool.split)

lemma sample_manager_package:
  "\<exists>p. hm_get (um_active_updates sample_manager) ''p'' = Some p \<and> up_metadata p = sample_metadata
     \<and> up_local_path p = Some (package_file update_config_default ''p'')"
  by (simp add: sample_manager_def download_update_def create_update_package_def on_package_get hm.get_insert start_stage_def
      download_file_def write_file_def sample_update_env_def Let_def) (simp add: sample_metadata_def)

theorem unverified_update_installs_witness:
  "\<exists>um1 r um2. verify_update sample_update_env ''p'' sample_manager = (um1, Inr r) \<and> \<not> uvr_is_valid r
     \<and> install_update sample_update_env ''p'' um1 = (um2, Inr ())"
proof -
  obtain p where p: "hm_get (um_active_updates sample_manager) ''p'' = Some p" "up_metadata p = sample_metadata"
      "up_local_path p = Some (package_file update_config_default ''p'')" using sample_manager_package by blast
  let ?r = "verification_of sample_update_env sample_manager sample_metadata (package_file update_config_default ''p'')"
  have cfg: "um_config sample_manager = update_config_default"
    by (simp add: sample_manager_def download_update_def create_update_package_def Let_def split: option.split prod.split bool.split)
  have bad: "\<not> uvr_is_valid ?r"
    by (simp add: verification_of_def split_beta cfg update_config_default_def run_update_check_def verify_package_signatures_def sample_metadata_def)
  obtain um1 where v: "verify_update sample_update_env ''p'' sample_manager = (um1, Inr ?r)"
    by (simp add: verify_update_def p Let_def sample_log)
  from unverified_update_installs [OF v bad sample_manager_wf sample_written] v bad show ?thesis by blast
qed

theorem cancelled_update_installs_witness:
  "\<exists>um1 um2. cancel_update sample_update_env ''p'' sample_manager = (um1, Inr ()) \<and> install_update sample_update_env ''p'' um1 = (um2, Inr ())"
proof -
  obtain p where p: "hm_get (um_active_updates sample_manager) ''p'' = Some p"
      "up_local_path p = Some (package_file update_config_default ''p'')" using sample_manager_package by blast
  obtain um1 where c: "cancel_update sample_update_env ''p'' sample_manager = (um1, Inr ())"
    by (cases "um_files sample_manager (package_file update_config_default ''p'') = None")
      (simp_all add: cancel_update_def p Let_def sample_log)
  from cancelled_update_installs(2) [OF p sample_manager_wf sample_written c] c show ?thesis by blast
qed

theorem histories_bounded_witness:
  "\<exists>um. update_manager_new sample_update_env update_config_default Map.empty = Inr um
     \<and> length (um_update_history (fold apply_update_call [(sample_update_env, Create_Call sample_metadata)] um)) \<le> 100"
proof -
  obtain um where um: "update_manager_new sample_update_env update_config_default Map.empty = Inr um"
    by (simp add: update_manager_new_def sample_update_env_def)
  from histories_bounded(1) [OF um] um show ?thesis by blast
qed

end
