(* ===== verification/Config_Security.thy ===== *)
theory Config_Security
  imports Encryption Audit_Log Path_Security "HOL-Library.Countable"
begin

text \<open>
  The configuration security manager (\<open>src/security/config_security.rs\<close>): access control, locks, validation, encrypted
  saving and loading, backups, history and rollback.  The parsers of TOML, JSON and YAML, JSON printing, random bytes, the
  clock and what the operating system answers are arguments (\<open>config_env\<close>); file modes are a map beside the files.  The
  path validator is that of \<open>Path_Security\<close>.
\<close>

section \<open>Data\<close>

record config_security_config =
  csc_enable_encryption :: bool
  csc_encryption_algorithm :: encryption_algorithm
  csc_require_auth :: bool
  csc_enable_backup :: bool
  csc_backup_versions :: nat
  csc_enable_validation :: bool
  csc_strict_validation :: bool
  csc_enable_audit_logging :: bool
  csc_file_permissions :: u32
  csc_dir_permissions :: u32
  csc_max_file_size :: nat
  csc_allowed_extensions :: "string list"
  csc_lock_timeout :: u64
  csc_enable_rollback :: bool

definition config_security_default :: config_security_config where
  "config_security_default =
     \<lparr> csc_enable_encryption = True, csc_encryption_algorithm = ChaCha20Poly1305, csc_require_auth = True, csc_enable_backup = True,
       csc_backup_versions = 10, csc_enable_validation = True, csc_strict_validation = False, csc_enable_audit_logging = True,
       csc_file_permissions = 384, csc_dir_permissions = 448, csc_max_file_size = 10 * 1024 * 1024,
       csc_allowed_extensions = [''toml'', ''yaml'', ''yml'', ''json''], csc_lock_timeout = 300, csc_enable_rollback = True \<rparr>"

datatype lock_type = Read_Lock | Write_Lock | Admin_Lock

record config_lock =
  cl_id :: string
  cl_resource :: string
  cl_user :: string
  cl_acquired_at :: instant
  cl_expires_at :: instant
  cl_reason :: string
  cl_lock_type :: lock_type

datatype config_operation =
    Op_Create | Op_Read | Op_Update | Op_Delete | Op_Rollback | Op_Backup | Op_Restore | Op_Validate

datatype config_operation_result = Op_Success | Op_Failed | Op_Partial | Op_Denied | Op_Timeout

record config_history_entry =
  che_id :: string
  che_config_path :: string
  che_operation :: config_operation
  che_user :: string
  che_timestamp :: instant
  che_version :: nat
  che_checksum :: string
  che_previous_checksum :: "string option"
  che_result :: config_operation_result
  che_metadata :: "(string, string) hashmap"

record permissions =
  pm_read :: bool
  pm_write :: bool
  pm_delete :: bool
  pm_admin :: bool
  pm_validate :: bool
  pm_backup :: bool
  pm_restore :: bool

definition permissions_default :: permissions where
  "permissions_default =
     \<lparr> pm_read = True, pm_write = False, pm_delete = False, pm_admin = False, pm_validate = False, pm_backup = False, pm_restore = False \<rparr>"

record user_permissions =
  usp_username :: string
  usp_uid :: u32
  usp_groups :: "string list"
  usp_permissions :: permissions
  usp_expires_at :: "instant option"

record group_permissions =
  gp_groupname :: string
  gp_gid :: u32
  gp_permissions :: permissions

record access_control_list =
  acl_users :: "(string, user_permissions) hashmap"
  acl_groups :: "(string, group_permissions) hashmap"
  acl_default_permissions :: permissions

record config_metadata =
  cmd_name :: string
  cmd_version :: string
  cmd_created_at :: instant
  cmd_modified_at :: instant
  cmd_author :: string
  cmd_description :: "string option"
  cmd_tags :: "string list"
  cmd_schema_version :: "string option"
  cmd_dependencies :: "string list"

record config_data =
  cda_content :: string
  cda_metadata :: config_metadata

datatype finding_kind =
    Empty_Config | Invalid_Toml | Invalid_Json | Invalid_Yaml | Unknown_Config_Format | Plaintext_Sensitive string | Suspicious_Path

record config_validation_result =
  cvr_valid :: bool
  cvr_errors :: "finding_kind list"
  cvr_warnings :: "finding_kind list"
  cvr_score :: u8

datatype backup_reason = Backup_Manual | Backup_PreChange | Backup_Scheduled | Backup_Emergency

record config_backup =
  cb_id :: string
  cb_original_path :: string
  cb_backup_path :: string
  cb_timestamp :: instant
  cb_reason :: backup_reason
  cb_version :: string
  cb_checksum :: string
  cb_size :: nat
  cb_compressed :: bool

record config_manager =
  cm_config :: config_security_config
  cm_key_manager :: key_derivation_manager
  cm_path_validator :: path_validator
  cm_locks :: "(string, config_lock) hashmap"
  cm_history :: "config_history_entry list"
  cm_acl :: access_control_list
  cm_files :: files
  cm_modes :: "string \<Rightarrow> u32"

datatype config_security_error =
    Access_Denied
  | Config_Too_Large
  | Config_Invalid "finding_kind list"
  | Config_Rolled_Back
  | Config_Io
  | Config_Not_Utf8
  | Not_Encrypted_Format
  | Config_Undecodable
  | Missing_Salt
  | Config_Cipher encryption_error
  | Resource_Locked string string
  | Invalid_Lock
  | No_Lock
  | No_History
  | Version_Not_Found nat
  | No_Previous_Version

record config_env =
  cev_crypto :: crypto
  cev_path_env :: path_env
  cev_show_error :: "path_error \<Rightarrow> string"
  cev_parses :: "string \<Rightarrow> string \<Rightarrow> bool"
  cev_config_text :: "config_data \<Rightarrow> string"
  cev_config_of :: "string \<Rightarrow> config_data option"
  cev_data_text :: "encrypted_data \<Rightarrow> string"
  cev_data_of :: "string \<Rightarrow> encrypted_data option"
  cev_random :: "nat \<Rightarrow> string"
  cev_nonce :: string
  cev_now :: instant
  cev_now_text :: string
  cev_stamp :: string
  cev_uuid :: string
  cev_readable :: "string \<Rightarrow> bool"
  cev_write :: "string \<Rightarrow> write_outcome"
  cev_dir_ok :: bool
  cev_rename_ok :: bool
  cev_chmod_ok :: bool

section \<open>Access control and locks\<close>

definition has_permissions :: "permissions \<Rightarrow> permissions \<Rightarrow> bool" where
  "has_permissions available required =
     (pm_read required \<le> pm_read available \<and> pm_write required \<le> pm_write available \<and> pm_delete required \<le> pm_delete available
      \<and> pm_admin required \<le> pm_admin available \<and> pm_validate required \<le> pm_validate available
      \<and> pm_backup required \<le> pm_backup available \<and> pm_restore required \<le> pm_restore available)"

definition check_permissions :: "string \<Rightarrow> permissions \<Rightarrow> config_manager \<Rightarrow> bool" where
  "check_permissions user required m =
     (case hm_get (acl_users (cm_acl m)) user of
        Some u \<Rightarrow> has_permissions (usp_permissions u) required
      | None \<Rightarrow>
          list_ex (\<lambda>(_, g). has_permissions (gp_permissions g) required) (acl_groups (cm_acl m))
          \<or> has_permissions (acl_default_permissions (cm_acl m)) required)"

definition add_user :: "user_permissions \<Rightarrow> config_manager \<Rightarrow> config_manager" where
  "add_user u m = m\<lparr>cm_acl := (cm_acl m)\<lparr>acl_users := hm_insert (usp_username u) u (acl_users (cm_acl m))\<rparr>\<rparr>"

definition remove_user :: "string \<Rightarrow> config_manager \<Rightarrow> config_manager" where
  "remove_user name m = m\<lparr>cm_acl := (cm_acl m)\<lparr>acl_users := hm_remove name (acl_users (cm_acl m))\<rparr>\<rparr>"

fun lock_conflict :: "lock_type \<Rightarrow> lock_type \<Rightarrow> bool" where
  "lock_conflict Write_Lock Write_Lock = True"
| "lock_conflict Write_Lock Admin_Lock = True"
| "lock_conflict Admin_Lock _ = True"
| "lock_conflict _ _ = False"

definition new_lock :: "config_env \<Rightarrow> string \<Rightarrow> string \<Rightarrow> lock_type \<Rightarrow> string \<Rightarrow> config_manager \<Rightarrow> config_lock" where
  "new_lock env resource user ty reason m =
     \<lparr> cl_id = cev_uuid env, cl_resource = resource, cl_user = user, cl_acquired_at = cev_now env,
       cl_expires_at = cev_now env + secs (sint (csc_lock_timeout (cm_config m))), cl_reason = reason, cl_lock_type = ty \<rparr>"

definition acquire_lock ::
    "config_env \<Rightarrow> string \<Rightarrow> string \<Rightarrow> lock_type \<Rightarrow> string \<Rightarrow> config_manager \<Rightarrow> config_manager \<times> (config_security_error + string)" where
  "acquire_lock env resource user ty reason m =
     (if ty = Admin_Lock \<and> \<not> check_permissions user (permissions_default\<lparr>pm_admin := True\<rparr>) m then (m, Inl Access_Denied)
      else case find (\<lambda>(_, l). cl_resource l = resource \<and> lock_conflict (cl_lock_type l) ty) (cm_locks m) of
             Some (_, l) \<Rightarrow> (m, Inl (Resource_Locked (cl_user l) (cl_reason l)))
           | None \<Rightarrow>
               (m\<lparr>cm_locks := hm_insert resource (new_lock env resource user ty reason m) (cm_locks m)\<rparr>, Inr (cev_uuid env)))"

definition release_lock :: "string \<Rightarrow> string \<Rightarrow> string \<Rightarrow> config_manager \<Rightarrow> config_manager \<times> (config_security_error + unit)" where
  "release_lock resource user lock_id m =
     (case hm_get (cm_locks m) resource of
        None \<Rightarrow> (m, Inl No_Lock)
      | Some l \<Rightarrow>
          if cl_id l = lock_id \<and> cl_user l = user then (m\<lparr>cm_locks := hm_remove resource (cm_locks m)\<rparr>, Inr ())
          else (m, Inl Invalid_Lock))"

definition cleanup_expired_locks :: "instant \<Rightarrow> config_manager \<Rightarrow> config_manager \<times> nat" where
  "cleanup_expired_locks now m =
     (let kept = hm_retain (\<lambda>_ l. cl_expires_at l > now) (cm_locks m)
      in (m\<lparr>cm_locks := kept\<rparr>, length (cm_locks m) - length kept))"

definition get_active_locks :: "instant \<Rightarrow> config_manager \<Rightarrow> config_lock list" where
  "get_active_locks now m = filter (\<lambda>l. cl_expires_at l > now) (map snd (cm_locks m))"

section \<open>Validation\<close>

definition saturating_sub8 :: "u8 \<Rightarrow> u8 \<Rightarrow> u8" where
  "saturating_sub8 a b = (if b \<le> a then a - b else 0)"

definition config_sensitive :: "string list" where
  "config_sensitive = [''password'', ''api_key'', ''secret'', ''token'']"

definition validate_format :: "config_env \<Rightarrow> config_data \<Rightarrow> finding_kind list \<times> finding_kind list \<times> u8" where
  "validate_format env d =
     (let ext = last (split_on CHR ''.'' (cmd_name (cda_metadata d)))
      in if ext = ''toml'' then (if cev_parses env ''toml'' (cda_content d) then ([], [], 0) else ([Invalid_Toml], [], 50))
         else if ext = ''json'' then (if cev_parses env ''json'' (cda_content d) then ([], [], 0) else ([Invalid_Json], [], 50))
         else if ext = ''yaml'' \<or> ext = ''yml'' then (if cev_parses env ''yaml'' (cda_content d) then ([], [], 0) else ([Invalid_Yaml], [], 50))
         else ([], [Unknown_Config_Format], 10))"

definition validate_secured_config :: "config_env \<Rightarrow> config_data \<Rightarrow> config_validation_result" where
  "validate_secured_config env d =
     (let e1 = (if cda_content d = [] then [Empty_Config] else []);
          s1 = (if cda_content d = [] then 0 else 100);
          (e2, w2, p2) = validate_format env d;
          w3 = (case find (contains_str (cda_content d)) config_sensitive of Some p \<Rightarrow> [Plaintext_Sensitive p] | None \<Rightarrow> []);
          suspicious = contains_str (cda_content d) ''..'' \<or> contains_str (cda_content d) ''~'';
          e4 = (if suspicious then [Suspicious_Path] else []);
          s2 = saturating_sub8 s1 p2;
          s3 = (if w3 = [] then s2 else saturating_sub8 s2 20);
          s4 = (if suspicious then saturating_sub8 s3 30 else s3)
      in \<lparr> cvr_valid = (e1 @ e2 @ e4 = []), cvr_errors = e1 @ e2 @ e4, cvr_warnings = w2 @ w3, cvr_score = s4 \<rparr>)"

section \<open>Encryption\<close>

definition enc_magic :: string where
  "enc_magic = ''FUJI_ENC''"

definition config_key :: "string option \<Rightarrow> string" where
  "config_key key = (case key of Some k \<Rightarrow> k | None \<Rightarrow> ''default_config_key'')"

definition encrypt_config :: "config_env \<Rightarrow> config_data \<Rightarrow> string option \<Rightarrow> config_manager \<Rightarrow> config_manager \<times> (config_security_error + string)" where
  "encrypt_config env d key m =
     (case derive_key_with_salt (cev_crypto env) (cev_random env) (config_key key) (cm_key_manager m) of
        (km, derived, salt) \<Rightarrow>
          (m\<lparr>cm_key_manager := km\<rparr>,
           and_then (map_err Config_Cipher (encrypt_with (cev_crypto env) (create_encryptor (csc_encryption_algorithm (cm_config m)))
               (cev_nonce env) (cev_now_text env) (cev_config_text env d) derived))
             (\<lambda>e. Inr (enc_magic @ cev_data_text env
                 (e\<lparr>ed_metadata := hm_insert ''salt'' (cy_b64_encode (cev_crypto env) salt) (ed_metadata e)\<rparr>)))))"

definition decrypt_config ::
    "config_env \<Rightarrow> string \<Rightarrow> string option \<Rightarrow> config_manager \<Rightarrow> config_manager \<times> (config_security_error + config_data) outcome" where
  "decrypt_config env data key m =
     (if \<not> starts_with data enc_magic then (m, Returned (Inl Not_Encrypted_Format))
      else case and_then (ok_or (cev_data_of env (drop 8 data)) Config_Undecodable)
             (\<lambda>e. and_then (ok_or (hm_get (ed_metadata e) ''salt'') Missing_Salt)
               (\<lambda>s. and_then (ok_or (cy_b64_decode (cev_crypto env) s) Config_Undecodable) (\<lambda>salt. Inr (e, salt)))) of
             Inl e \<Rightarrow> (m, Returned (Inl e))
           | Inr (e, salt) \<Rightarrow>
               (case manager_derive_key (cev_crypto env) (config_key key) salt (cm_key_manager m) of
                  (km, derived) \<Rightarrow>
                    (m\<lparr>cm_key_manager := km\<rparr>,
                     case decrypt_with (cev_crypto env) (create_encryptor (csc_encryption_algorithm (cm_config m))) e derived of
                       Returned (Inl x) \<Rightarrow> Returned (Inl (Config_Cipher x))
                     | Returned (Inr p) \<Rightarrow> Returned (ok_or (cev_config_of env p) Config_Undecodable)
                     | Blocked \<Rightarrow> Blocked
                     | Panicked \<Rightarrow> Panicked)))"

section \<open>History and backups\<close>

definition config_checksum :: "config_env \<Rightarrow> string \<Rightarrow> string" where
  "config_checksum env s = cy_hex_encode (cev_crypto env) (cy_sha256 (cev_crypto env) s)"

definition history_entry ::
    "config_env \<Rightarrow> string \<Rightarrow> config_operation \<Rightarrow> string \<Rightarrow> config_data \<Rightarrow> config_operation_result \<Rightarrow> config_history_entry list \<Rightarrow> config_history_entry" where
  "history_entry env path operation user d result h =
     \<lparr> che_id = cev_uuid env, che_config_path = path, che_operation = operation, che_user = user, che_timestamp = cev_now env,
       che_version = length h + 1, che_checksum = config_checksum env (cda_content d),
       che_previous_checksum = (if h = [] then None else Some (che_checksum (last h))), che_result = result,
       che_metadata = [(''config_name'', cmd_name (cda_metadata d)), (''config_version'', cmd_version (cda_metadata d))] \<rparr>"

definition add_history_entry ::
    "config_env \<Rightarrow> string \<Rightarrow> config_operation \<Rightarrow> string \<Rightarrow> config_data \<Rightarrow> config_operation_result \<Rightarrow> config_manager \<Rightarrow> config_manager" where
  "add_history_entry env path operation user d result m =
     (let h = cm_history m @ [history_entry env path operation user d result (cm_history m)]
      in m\<lparr>cm_history := (if length h > 1000 then drop 100 h else h)\<rparr>)"

definition get_history :: "string option \<Rightarrow> config_manager \<Rightarrow> config_history_entry list" where
  "get_history path m =
     (case path of None \<Rightarrow> cm_history m | Some p \<Rightarrow> filter (\<lambda>e. path_eq (che_config_path e) p) (cm_history m))"

text \<open>\<open>fs::copy\<close> writes the content and the mode of its source.\<close>

definition copy_file :: "config_env \<Rightarrow> string \<Rightarrow> string \<Rightarrow> config_manager \<Rightarrow> config_manager \<times> bool" where
  "copy_file env source target m =
     (case read_file (cev_readable env) (cm_files m) source of
        None \<Rightarrow> (m, False)
      | Some s \<Rightarrow>
          (case write_file (cev_write env target) target s (cm_files m) of
             (fs, False) \<Rightarrow> (m\<lparr>cm_files := fs\<rparr>, False)
           | (fs, True) \<Rightarrow> (m\<lparr>cm_files := fs, cm_modes := (cm_modes m)(target := cm_modes m source)\<rparr>, True)))"

definition config_backup_path :: "config_env \<Rightarrow> string \<Rightarrow> string" where
  "config_backup_path env path =
     path_join (path_join (case path_parent path of Some d \<Rightarrow> d | None \<Rightarrow> ''.'') ''.fuji_backups'')
       (file_name path @ ''_'' @ cev_stamp env @ ''.backup'')"

definition create_config_backup ::
    "config_env \<Rightarrow> string \<Rightarrow> backup_reason \<Rightarrow> config_manager \<Rightarrow> config_manager \<times> (config_security_error + config_backup)" where
  "create_config_backup env path reason m =
     (let target = config_backup_path env path
      in if \<not> cev_dir_ok env then (m, Inl Config_Io)
         else case copy_file env path target m of
                (m1, False) \<Rightarrow> (m1, Inl Config_Io)
              | (m1, True) \<Rightarrow>
                  (m1, and_then (ok_or (read_file (cev_readable env) (cm_files m1) target) Config_Io)
                     (\<lambda>s. Inr \<lparr> cb_id = cev_uuid env, cb_original_path = path, cb_backup_path = target, cb_timestamp = cev_now env,
                                cb_reason = reason, cb_version = ''1.0'', cb_checksum = config_checksum env s, cb_size = length s,
                                cb_compressed = False \<rparr>)))"

definition restore_from_backup :: "config_env \<Rightarrow> string \<Rightarrow> string \<Rightarrow> config_manager \<Rightarrow> config_manager \<times> (config_security_error + unit)" where
  "restore_from_backup env backup target m =
     (case copy_file env backup target m of (m1, ok) \<Rightarrow> (m1, if ok then Inr () else Inl Config_Io))"

section \<open>Loading, saving, rolling bak\<close>

definition plain_config :: "config_env \<Rightarrow> string \<Rightarrow> string \<Rightarrow> config_security_error + config_data" where
  "plain_config env path s =
     (if \<not> utf8_ok s then Inl Config_Not_Utf8
      else Inr \<lparr> cda_content = s,
                 cda_metadata = \<lparr> cmd_name = (if file_name path = [] then ''unknown'' else file_name path), cmd_version = ''1.0'',
                   cmd_created_at = cev_now env, cmd_modified_at = cev_now env, cmd_author = ''unknown'', cmd_description = None,
                   cmd_tags = [], cmd_schema_version = None, cmd_dependencies = [] \<rparr> \<rparr>)"

definition backup_before ::
    "config_env \<Rightarrow> string \<Rightarrow> backup_reason \<Rightarrow> config_manager \<Rightarrow> config_manager \<times> (config_security_error + config_backup option)" where
  "backup_before env path reason m =
     (if csc_enable_backup (cm_config m) \<and> cm_files m path \<noteq> None
      then (case create_config_backup env path reason m of
              (m1, Inl e) \<Rightarrow> (m1, Inl e)
            | (m1, Inr b) \<Rightarrow> (m1, Inr (Some b)))
      else (m, Inr None))"

text \<open>The result of \<open>validate_path\<close> is awaited and dropped: only an error would stop the call, and it has none.\<close>

definition load_config ::
    "config_env \<Rightarrow> string \<Rightarrow> string \<Rightarrow> string option \<Rightarrow> config_manager \<Rightarrow> config_manager \<times> (config_security_error + config_data) outcome" where
  "load_config env path user key m =
     (let dropped = validate_path_at_runtime (cev_path_env env) (cev_show_error env) path user None (cm_path_validator m)
      in if \<not> check_permissions user (permissions_default\<lparr>pm_read := True\<rparr>) m then (m, Returned (Inl Access_Denied))
         else case cm_files m path of
                None \<Rightarrow> (m, Returned (Inl Config_Io))
              | Some s \<Rightarrow>
                  if length s > csc_max_file_size (cm_config m) then (m, Returned (Inl Config_Too_Large))
                  else if \<not> cev_readable env path then (m, Returned (Inl Config_Io))
                  else case (if csc_enable_encryption (cm_config m) \<and> starts_with s enc_magic then decrypt_config env s key m
                             else (m, Returned (plain_config env path s))) of
                         (m1, Returned (Inr d)) \<Rightarrow>
                           if csc_enable_validation (cm_config m) \<and> \<not> cvr_valid (validate_secured_config env d) \<and> csc_strict_validation (cm_config m)
                           then (m1, Returned (Inl (Config_Invalid (cvr_errors (validate_secured_config env d)))))
                           else (add_history_entry env path Op_Read user d Op_Success m1, Returned (Inr d))
                       | r \<Rightarrow> r)"

definition write_config :: "config_env \<Rightarrow> string \<Rightarrow> string \<Rightarrow> config_manager \<Rightarrow> config_manager \<times> (config_security_error + unit)" where
  "write_config env path s m =
     (if path_parent path \<noteq> None \<and> \<not> (cev_dir_ok env \<and> cev_chmod_ok env) then (m, Inl Config_Io)
      else let temp = with_extension ''tmp'' path
           in (case write_file (cev_write env temp) temp s (cm_files m) of
                 (fs, False) \<Rightarrow> (m\<lparr>cm_files := fs\<rparr>, Inl Config_Io)
               | (fs, True) \<Rightarrow>
                   (case rename_file (cev_rename_ok env) temp path fs of
                      (fs, False) \<Rightarrow> (m\<lparr>cm_files := fs\<rparr>, Inl Config_Io)
                    | (fs, True) \<Rightarrow>
                        if \<not> cev_chmod_ok env then (m\<lparr>cm_files := fs, cm_modes := (cm_modes m)(path := cm_modes m temp)\<rparr>, Inl Config_Io)
                        else (m\<lparr>cm_files := fs, cm_modes := (cm_modes m)(path := csc_file_permissions (cm_config m))\<rparr>, Inr ()))))"

definition save_config ::
    "config_env \<Rightarrow> string \<Rightarrow> config_data \<Rightarrow> string \<Rightarrow> string option \<Rightarrow> config_manager \<Rightarrow> config_manager \<times> (config_security_error + unit)" where
  "save_config env path d user key m =
     (let dropped = validate_path_at_runtime (cev_path_env env) (cev_show_error env) path user None (cm_path_validator m)
      in if \<not> check_permissions user (permissions_default\<lparr>pm_write := True\<rparr>) m then (m, Inl Access_Denied)
         else case backup_before env path Backup_PreChange m of
                (m1, Inl e) \<Rightarrow> (m1, Inl e)
              | (m1, Inr backup) \<Rightarrow>
                  if csc_enable_validation (cm_config m) \<and> \<not> cvr_valid (validate_secured_config env d)
                  then (case (if csc_enable_rollback (cm_config m) then backup else None) of
                          None \<Rightarrow> (m1, Inl (Config_Invalid (cvr_errors (validate_secured_config env d))))
                        | Some b \<Rightarrow>
                            (case restore_from_backup env (cb_backup_path b) path m1 of
                               (m2, Inl e) \<Rightarrow> (m2, Inl e)
                             | (m2, Inr u) \<Rightarrow> (m2, Inl Config_Rolled_Back)))
                  else (case (if csc_enable_encryption (cm_config m) then encrypt_config env d key m1 else (m1, Inr (cda_content d))) of
                          (m2, Inl e) \<Rightarrow> (m2, Inl e)
                        | (m2, Inr s) \<Rightarrow>
                            (case write_config env path s m2 of
                               (m3, Inl e) \<Rightarrow> (m3, Inl e)
                             | (m3, Inr u) \<Rightarrow> (add_history_entry env path Op_Update user d Op_Success m3, Inr ()))))"

text \<open>The target of a rollback is chosen, the present file is backed up, and an entry is added to the history.\<close>

definition rollback_target :: "nat option \<Rightarrow> config_history_entry list \<Rightarrow> config_security_error + config_history_entry" where
  "rollback_target version entries =
     (if entries = [] then Inl No_History
      else case version of
             Some v \<Rightarrow> ok_or (find (\<lambda>e. che_version e = v) entries) (Version_Not_Found v)
           | None \<Rightarrow> (case rev entries of _ # e # _ \<Rightarrow> Inr e | _ \<Rightarrow> Inl No_Previous_Version))"

definition rollback_data :: "config_env \<Rightarrow> string \<Rightarrow> config_history_entry \<Rightarrow> config_data" where
  "rollback_data env user e =
     \<lparr> cda_content = ''# Rollback to version '' @ show_nat (che_version e) @ '' (checksum: '' @ che_checksum e @ '')'',
       cda_metadata =
         \<lparr> cmd_name = (case hm_get (che_metadata e) ''config_name'' of Some n \<Rightarrow> n | None \<Rightarrow> ''unknown''),
           cmd_version = (case hm_get (che_metadata e) ''config_version'' of Some v \<Rightarrow> v | None \<Rightarrow> show_nat (che_version e)),
           cmd_created_at = cev_now env, cmd_modified_at = cev_now env, cmd_author = user,
           cmd_description = Some (''Rollback to version '' @ show_nat (che_version e)), cmd_tags = [''rollback''],
           cmd_schema_version = None, cmd_dependencies = [] \<rparr> \<rparr>"

definition rollback_config ::
    "config_env \<Rightarrow> string \<Rightarrow> string \<Rightarrow> nat option \<Rightarrow> config_manager \<Rightarrow> config_manager \<times> (config_security_error + unit)" where
  "rollback_config env path user version m =
     (if \<not> check_permissions user (permissions_default\<lparr>pm_restore := True\<rparr>) m then (m, Inl Access_Denied)
      else case rollback_target version (get_history (Some path) m) of
             Inl e \<Rightarrow> (m, Inl e)
           | Inr target \<Rightarrow>
               (case backup_before env path Backup_Emergency m of
                  (m1, Inl e) \<Rightarrow> (m1, Inl e)
                | (m1, Inr backup) \<Rightarrow>
                    (add_history_entry env path Op_Rollback user (rollback_data env user target) Op_Success m1, Inr ())))"

section \<open>Properties: encryption\<close>

text \<open>without a key every configuration is encrypted under a fixed phrase, and any key under three rounds of PBKDF2.\<close>

theorem config_key_is_weak:
  "derive_key_with_salt cy random (config_key key) (kdf_manager_new Argon2id) =
     (kdf_manager_new Argon2id, cy_pbkdf2 cy Hmac_Sha256 (config_key key) (random 16) 3 32, random 16)"
  "config_key None = ''default_config_key''"
  by (simp_all add: derive_key_with_salt_def new_get_parameters new_default_function parameters_for_def kdf_def derive_key_def
      derive_key_argon2id_def config_key_def Let_def)

definition config_codec_ok :: "config_env \<Rightarrow> bool" where
  "config_codec_ok env =
     ((\<forall>d. cev_config_of env (cev_config_text env d) = Some d) \<and> (\<forall>e. cev_data_of env (cev_data_text env e) = Some e))"

lemma derive_agree:
  assumes "derive_key_with_salt cy random pw m = (m', k, salt)"
  shows "snd (manager_derive_key cy pw salt m') = k"
proof (cases "hm_get (kdm_parameter_cache m) (kdm_default_function m, Level_Standard)")
  case None
  with assms show ?thesis
    by (auto simp: derive_key_with_salt_def manager_derive_key_def get_parameters_def Let_def hm.get_insert split: prod.splits)
next
  case (Some p)
  with assms show ?thesis
    by (auto simp: derive_key_with_salt_def manager_derive_key_def get_parameters_def Let_def)
qed

lemma decrypt_metadata: "decrypt_with cy alg (e\<lparr>ed_metadata := x\<rparr>) k = decrypt_with cy alg e k"
  by (simp add: decrypt_with_def decode_components_def)

lemma decrypt_encrypted_config:
  assumes "crypto_ok (cev_crypto env)" "config_codec_ok env" "length (cev_nonce env) = 12"
    and "encrypt_config env d key m = (m1, Inr s)"
    and "cm_key_manager m2 = cm_key_manager m1" "csc_encryption_algorithm (cm_config m2) = csc_encryption_algorithm (cm_config m)"
  shows "starts_with s enc_magic" "\<exists>km. decrypt_config env s key m2 = (m2\<lparr>cm_key_manager := km\<rparr>, Returned (Inr d))"
proof -
  obtain km k salt where k: "derive_key_with_salt (cev_crypto env) (cev_random env) (config_key key) (cm_key_manager m) = (km, k, salt)"
    by (cases "derive_key_with_salt (cev_crypto env) (cev_random env) (config_key key) (cm_key_manager m)")
  let ?alg = "csc_encryption_algorithm (cm_config m)"
  from assms(4) k obtain e where e: "encrypt_with (cev_crypto env) ?alg (cev_nonce env) (cev_now_text env) (cev_config_text env d) k = Inr e"
      "s = enc_magic @ cev_data_text env (e\<lparr>ed_metadata := hm_insert ''salt'' (cy_b64_encode (cev_crypto env) salt) (ed_metadata e)\<rparr>)"
      "m1 = m\<lparr>cm_key_manager := km\<rparr>"
    by (cases "encrypt_with (cev_crypto env) ?alg (cev_nonce env) (cev_now_text env) (cev_config_text env d) k")
      (auto simp: encrypt_config_def)
  have magic: "starts_with (enc_magic @ x) enc_magic" "drop 8 (enc_magic @ x) = x" for x by (simp_all add: enc_magic_def)
  then show "starts_with s enc_magic" by (simp add: e(2))
  have dec: "decrypt_with (cev_crypto env) ?alg (e\<lparr>ed_metadata := x\<rparr>) k = Returned (Inr (cev_config_text env d))" for x
    using decrypt_encrypted [OF assms(1,3) e(1)] by (simp add: decrypt_metadata)
  obtain km2 where km2: "manager_derive_key (cev_crypto env) (config_key key) salt (cm_key_manager m2) = (km2, k)"
    using derive_agree [OF k] assms(5) e(3)
    by (cases "manager_derive_key (cev_crypto env) (config_key key) salt (cm_key_manager m2)") simp
  show "\<exists>km. decrypt_config env s key m2 = (m2\<lparr>cm_key_manager := km\<rparr>, Returned (Inr d))"
    using assms(1,2,6) km2 dec
    unfolding decrypt_config_def e(2) magic
    by (intro exI [of _ km2]) (simp add: config_codec_ok_def ok_or_def hm.get_insert crypto_ok_def)
qed

lemma write_config_ok:
  assumes "write_config env path s m = (m', Inr ())" "with_extension ''tmp'' path \<noteq> path"
  shows "cm_files m' path = Some s" "cm_modes m' path = csc_file_permissions (cm_config m)"
    and "cm_config m' = cm_config m" "cm_acl m' = cm_acl m" "cm_key_manager m' = cm_key_manager m"
  using assms
  by (auto simp: write_config_def Let_def write_file_def rename_file_def split: if_splits write_outcome.splits option.splits)

lemma copy_fields [simp]:
  "cm_config (fst (copy_file env a b m)) = cm_config m" "cm_acl (fst (copy_file env a b m)) = cm_acl m"
  "cm_history (fst (copy_file env a b m)) = cm_history m"
  "c \<noteq> b \<Longrightarrow> cm_files (fst (copy_file env a b m)) c = cm_files m c"
  by (simp_all add: copy_file_def write_file_def split: option.split write_outcome.split)

lemma permissions_cong: "cm_acl m = cm_acl m' \<Longrightarrow> check_permissions user r m = check_permissions user r m'"
  by (simp only: check_permissions_def)

lemma backup_fst:
  "fst (backup_before env path reason m) = m
   \<or> fst (backup_before env path reason m) = fst (copy_file env path (config_backup_path env path) m)"
  by (auto simp: backup_before_def create_config_backup_def Let_def split: prod.splits bool.splits sum.splits)

lemma backup_fields:
  assumes "backup_before env path reason m = (m', r)"
  shows "cm_config m' = cm_config m" "cm_acl m' = cm_acl m" "cm_history m' = cm_history m"
    "c \<noteq> config_backup_path env path \<Longrightarrow> cm_files m' c = cm_files m c"
  using backup_fst [of env path reason m] assms by auto

text \<open>what is saved encrypted is loaded again with the same key, has the configured mode, and passed the validation.\<close>

theorem saved_config_loads:
  assumes "crypto_ok (cev_crypto env)" "config_codec_ok env" "length (cev_nonce env) = 12" "with_extension ''tmp'' path \<noteq> path"
    and "csc_enable_encryption (cm_config m)" "csc_enable_validation (cm_config m)"
    and "save_config env path d user key m = (m', Inr ())"
    and "\<And>s. cm_files m' path = Some s \<Longrightarrow> length s \<le> csc_max_file_size (cm_config m')" "cev_readable env path"
    and "check_permissions reader (permissions_default\<lparr>pm_read := True\<rparr>) m"
  shows "snd (load_config env path reader key m') = Returned (Inr d)" "cm_modes m' path = csc_file_permissions (cm_config m)"
    and "cvr_valid (validate_secured_config env d)"
proof -
  obtain m1 m2 m3 s where
      m1: "cm_config m1 = cm_config m" "cm_acl m1 = cm_acl m" and valid: "cvr_valid (validate_secured_config env d)"
      and enc: "encrypt_config env d key m1 = (m2, Inr s)" and wr: "write_config env path s m2 = (m3, Inr ())"
      and m': "m' = add_history_entry env path Op_Update user d Op_Success m3"
  proof -
    obtain m1 r where b: "backup_before env path Backup_PreChange m = (m1, r)" by (cases "backup_before env path Backup_PreChange m")
    obtain bak where r: "r = Inr bak"
      using assms(7) b by (cases r) (auto simp: save_config_def Let_def split: if_splits)
    have valid: "cvr_valid (validate_secured_config env d)"
      using assms(6,7) b r
      by (cases "if csc_enable_rollback (cm_config m) then bak else None") (auto simp: save_config_def Let_def split: if_splits sum.splits prod.splits)
    obtain m2 s where enc: "encrypt_config env d key m1 = (m2, Inr s)"
      using assms(5-7) b r valid by (cases "encrypt_config env d key m1") (auto simp: save_config_def Let_def split: if_splits sum.splits)
    obtain m3 where wr: "write_config env path s m2 = (m3, Inr ())"
      using assms(5-7) b r valid enc by (cases "write_config env path s m2") (auto simp: save_config_def Let_def split: if_splits sum.splits)
    have "m' = add_history_entry env path Op_Update user d Op_Success m3"
      using assms(5-7) b r valid enc wr by (auto simp: save_config_def Let_def split: if_splits)
    with that backup_fields [OF b] valid enc wr show thesis by blast
  qed
  show "cvr_valid (validate_secured_config env d)" by (fact valid)
  have m2: "cm_config m2 = cm_config m1 \<and> cm_acl m2 = cm_acl m1"
    using enc by (auto simp: encrypt_config_def split: prod.splits)
  note w = write_config_ok [OF wr assms(4)]
  have m3: "cm_files m' = cm_files m3" "cm_config m' = cm_config m3" "cm_acl m' = cm_acl m3" "cm_key_manager m' = cm_key_manager m3"
      "cm_modes m' = cm_modes m3"
    by (simp_all add: m' add_history_entry_def Let_def)
  show "cm_modes m' path = csc_file_permissions (cm_config m)" using w m3 m2 m1 by simp
  have f: "cm_files m' path = Some s" using w m3 by simp
  have "check_permissions reader (permissions_default\<lparr>pm_read := True\<rparr>) m'"
    using assms(10) w m3 m2 m1 permissions_cong [of m' m] by simp
  moreover obtain km where "decrypt_config env s key m' = (m'\<lparr>cm_key_manager := km\<rparr>, Returned (Inr d))" "starts_with s enc_magic"
    using decrypt_encrypted_config [OF assms(1-3) enc, of m'] w m3 m2 by auto
  ultimately show "snd (load_config env path reader key m') = Returned (Inr d)"
    using f assms(5,8,9) valid w m3 m2 m1 by (simp add: load_config_def Let_def linorder_not_less)
qed

section \<open>Properties: what is not enforced\<close>

section \<open>Properties: what is not enforced\<close>

text \<open>the path validator has no say: whatever it blocks, a configuration is saved and loaded just the same.\<close>

theorem path_validator_ignored:
  assumes "check_permissions user (permissions_default\<lparr>pm_write := True\<rparr>) m" "\<not> csc_enable_backup (cm_config m)"
    and "\<not> csc_enable_encryption (cm_config m)" "\<not> csc_enable_validation (cm_config m)"
    and "cev_dir_ok env" "cev_chmod_ok env" "cev_rename_ok env" "cev_write env (with_extension ''tmp'' path) = Written"
    and "with_extension ''tmp'' path \<noteq> path"
  shows "\<exists>m'. save_config env path d user key (m\<lparr>cm_path_validator := v\<rparr>) = (m', Inr ()) \<and> cm_files m' path = Some (cda_content d)"
  using assms
  by (simp add: save_config_def Let_def permissions_cong [of "m\<lparr>cm_path_validator := v\<rparr>" m] backup_before_def write_config_def write_file_def rename_file_def add_history_entry_def)

text \<open>a rollback reports success and leaves the configuration as it is: the content of a version is kept nowhere, only
  its checksum.\<close>

theorem rollback_restores_nothing:
  assumes "rollback_config env path user version m = (m', Inr ())" "path \<noteq> config_backup_path env path"
  shows "cm_files m' path = cm_files m path" "\<exists>e. last (cm_history m') = e \<and> che_operation e = Op_Rollback \<and> che_result e = Op_Success"
proof -
  obtain m1 r where b: "backup_before env path Backup_Emergency m = (m1, r)" by (cases "backup_before env path Backup_Emergency m")
  obtain target where m': "m' = add_history_entry env path Op_Rollback user (rollback_data env user target) Op_Success m1"
    using assms(1) b by (auto simp: rollback_config_def split: if_splits sum.splits)
  show "cm_files m' path = cm_files m path"
    using backup_fields(4) [OF b assms(2)] by (simp add: m' add_history_entry_def Let_def)
  have "last (if length (xs @ [x]) > 1000 then drop 100 (xs @ [x]) else xs @ [x]) = x" for xs and x :: config_history_entry
    by simp
  then show "\<exists>e. last (cm_history m') = e \<and> che_operation e = Op_Rollback \<and> che_result e = Op_Success"
    by (simp add: m' add_history_entry_def Let_def history_entry_def)
qed

text \<open>the permissions a call needs: those of the user's own entry, else those of any group at all, whether the user is a
  member or not, or the default ones; the reading right is part of every request, and an expired entry counts.\<close>

theorem permissions_exact:
  "check_permissions user (permissions_default\<lparr>pm_write := True\<rparr>) m =
     (case hm_get (acl_users (cm_acl m)) user of
        Some u \<Rightarrow> pm_read (usp_permissions u) \<and> pm_write (usp_permissions u)
      | None \<Rightarrow> list_ex (\<lambda>g. pm_read (gp_permissions g) \<and> pm_write (gp_permissions g)) (map snd (acl_groups (cm_acl m)))
          \<or> pm_read (acl_default_permissions (cm_acl m)) \<and> pm_write (acl_default_permissions (cm_acl m)))"
proof -
  have ex: "list_ex f (map snd xs) = list_ex (\<lambda>(_, g). f g) xs" for f and xs :: "(string \<times> group_permissions) list"
    by (induction xs) auto
  show ?thesis
    by (auto simp: check_permissions_def has_permissions_def permissions_default_def ex split: option.split)
qed

section \<open>Properties: locks\<close>

definition locks_ok :: "config_manager \<Rightarrow> bool" where
  "locks_ok m = (hm_wf (cm_locks m) \<and> (\<forall>k l. hm_get (cm_locks m) k = Some l \<longrightarrow> cl_resource l = k))"

lemma find_lock:
  assumes "locks_ok m" "hm_get (cm_locks m) r = Some l"
  shows "find (\<lambda>(_, l). cl_resource l = r \<and> lock_conflict (cl_lock_type l) ty) (cm_locks m) =
    (if lock_conflict (cl_lock_type l) ty then Some (r, l) else None)"
proof -
  have uniq: "(k, l') \<in> set (cm_locks m) \<Longrightarrow> cl_resource l' = r \<Longrightarrow> k = r \<and> l' = l" for k l'
    using assms by (metis hm_get_iff_in_set locks_ok_def option.inject)
  show ?thesis
  proof (cases "lock_conflict (cl_lock_type l) ty")
    case True
    have "(r, l) \<in> set (cm_locks m)" "cl_resource l = r" using assms by (auto simp: hm_get_in_set locks_ok_def)
    with True have "find (\<lambda>(_, l). cl_resource l = r \<and> lock_conflict (cl_lock_type l) ty) (cm_locks m) \<noteq> None"
      by (auto simp: find_None_iff)
    then obtain k l' where f: "find (\<lambda>(_, l). cl_resource l = r \<and> lock_conflict (cl_lock_type l) ty) (cm_locks m) = Some (k, l')" by auto
    then obtain i where "i < length (cm_locks m)" "cm_locks m ! i = (k, l')" "cl_resource l' = r" by (auto simp: find_Some_iff)
    then have "(k, l') \<in> set (cm_locks m)" "cl_resource l' = r" by (metis nth_mem, simp)
    with uniq f True show ?thesis by auto
  next
    case False
    with uniq show ?thesis by (auto simp: find_None_iff)
  qed
qed

lemma find_no_lock:
  assumes "locks_ok m" "hm_get (cm_locks m) r = None"
  shows "find (\<lambda>(_, l). cl_resource l = r \<and> lock_conflict (cl_lock_type l) ty) (cm_locks m) = None"
proof -
  have "(k, l') \<in> set (cm_locks m) \<Longrightarrow> cl_resource l' \<noteq> r" for k l'
    using assms by (metis hm_get_iff_in_set locks_ok_def option.distinct(1))
  then show ?thesis by (auto simp: find_None_iff)
qed

lemma acquire_ok: "locks_ok m \<Longrightarrow> locks_ok (fst (acquire_lock env r user ty reason m))"
  by (auto simp: acquire_lock_def locks_ok_def hm.wf_insert hm.get_insert new_lock_def split: option.split)

lemma release_ok: "locks_ok m \<Longrightarrow> locks_ok (fst (release_lock r user i m))"
  by (auto simp: release_lock_def locks_ok_def hm.wf_remove hm.get_remove split: option.split)

text \<open>a held write lock refuses every writer, expired or not.\<close>

theorem write_lock_excludes_writers:
  assumes "locks_ok m" "hm_get (cm_locks m) r = Some l" "cl_lock_type l = Write_Lock"
  shows "acquire_lock env r user Write_Lock reason m = (m, Inl (Resource_Locked (cl_user l) (cl_reason l)))"
  by (simp add: acquire_lock_def find_lock [OF assms(1,2)] assms(3))

text \<open>C40: but a reader may take the lock of a writer away: its own entry replaces the writer's, who can no longer release it, and
  a second writer then gets in beside the first.\<close>

theorem reader_evicts_writer:
  assumes "locks_ok m" "hm_get (cm_locks m) r = Some l" "cl_lock_type l = Write_Lock" "cl_user l \<noteq> reader"
  shows "\<exists>m1 m2. acquire_lock env r reader Read_Lock reason m = (m1, Inr (cev_uuid env))
    \<and> release_lock r (cl_user l) (cl_id l) m1 = (m1, Inl Invalid_Lock)
    \<and> acquire_lock env' r writer Write_Lock reason' m1 = (m2, Inr (cev_uuid env'))"
proof -
  let ?m1 = "fst (acquire_lock env r reader Read_Lock reason m)"
  have a: "acquire_lock env r reader Read_Lock reason m = (?m1, Inr (cev_uuid env))"
    and l1: "hm_get (cm_locks ?m1) r = Some (new_lock env r reader Read_Lock reason m)"
    by (simp_all add: acquire_lock_def find_lock [OF assms(1,2)] assms(3) hm.get_insert)
  have "acquire_lock env' r writer Write_Lock reason' ?m1 =
      (fst (acquire_lock env' r writer Write_Lock reason' ?m1), Inr (cev_uuid env'))"
    by (simp add: acquire_lock_def [of env'] find_lock [OF acquire_ok [OF assms(1)] l1] new_lock_def)
  moreover have "release_lock r (cl_user l) (cl_id l) ?m1 = (?m1, Inl Invalid_Lock)"
    using assms(4) by (simp add: release_lock_def l1 new_lock_def)
  ultimately show ?thesis using a by blast
qed

section \<open>Properties: history\<close>

text \<open>when the history is cut, the numbers of the versions start over below the highest, and two entries share a number.\<close>

theorem versions_repeat:
  assumes "map che_version (cm_history m) = [1 ..< 1001]"
  shows "map che_version (cm_history (add_history_entry env p2 o2 u2 d2 r2 (add_history_entry env p1 o1 u1 d1 r1 m))) = [101 ..< 1002] @ [902]"
proof -
  let ?h = "cm_history m @ [history_entry env p1 o1 u1 d1 r1 (cm_history m)]"
  have len: "length (cm_history m) = 1000" using arg_cong [OF assms, of length] by simp
  have "cm_history (add_history_entry env p1 o1 u1 d1 r1 m) = drop 100 ?h"
    by (simp add: add_history_entry_def Let_def len)
  moreover have "map che_version (drop 100 ?h) = drop 100 ([1 ..< 1001] @ [1001])"
    by (simp add: drop_map [symmetric] assms history_entry_def len)
  moreover have "drop 100 ([1 ..< 1001] @ [1001]) = [101 ..< 1002 :: nat]" by simp
  moreover have "length (drop 100 ?h) = 901" by (simp add: len)
  ultimately show ?thesis
    by (simp add: add_history_entry_def [of env p2] Let_def history_entry_def [of env p2])
qed

section \<open>Concrete instances\<close>

definition config_tuple where
  "config_tuple d =
     (cda_content d, cmd_name (cda_metadata d), cmd_version (cda_metadata d), cmd_created_at (cda_metadata d),
      cmd_modified_at (cda_metadata d), cmd_author (cda_metadata d), cmd_description (cda_metadata d), cmd_tags (cda_metadata d),
      cmd_schema_version (cda_metadata d), cmd_dependencies (cda_metadata d))"

definition tuple_config where
  "tuple_config t =
     (case t of (c, n, v, created, modified, author, description, tags, schema, dependencies) \<Rightarrow>
        \<lparr> cda_content = c, cda_metadata =
            \<lparr> cmd_name = n, cmd_version = v, cmd_created_at = created, cmd_modified_at = modified, cmd_author = author,
              cmd_description = description, cmd_tags = tags, cmd_schema_version = schema, cmd_dependencies = dependencies \<rparr> \<rparr>)"

definition sample_config_env :: config_env where
  "sample_config_env =
     \<lparr> cev_crypto = crypto_sample, cev_path_env = sample_path_env, cev_show_error = (\<lambda>_. []), cev_parses = (\<lambda>_ _. True),
       cev_config_text = (\<lambda>d. replicate (to_nat (config_tuple d)) CHR ''a''), cev_config_of = (\<lambda>s. Some (tuple_config (from_nat (length s)))),
       cev_data_text = (\<lambda>d. replicate (to_nat (data_tuple d)) CHR ''a''), cev_data_of = (\<lambda>s. Some (tuple_data (from_nat (length s)))),
       cev_random = (\<lambda>n. replicate n CHR ''r''), cev_nonce = ''nonce-twelve'', cev_now = 0, cev_now_text = ''now'', cev_stamp = ''t'',
       cev_uuid = ''1'', cev_readable = (\<lambda>_. True), cev_write = (\<lambda>_. Written), cev_dir_ok = True, cev_rename_ok = True, cev_chmod_ok = True \<rparr>"

lemma sample_config_codec: "config_codec_ok sample_config_env"
  by (simp add: config_codec_ok_def sample_config_env_def tuple_data tuple_config_def config_tuple_def)

definition sample_config_manager :: config_manager where
  "sample_config_manager =
     \<lparr> cm_config = config_security_default, cm_key_manager = kdf_manager_new Argon2id, cm_path_validator = path_validator_new Standard,
       cm_locks = [(''r'', \<lparr> cl_id = ''0'', cl_resource = ''r'', cl_user = ''ann'', cl_acquired_at = 0, cl_expires_at = 0, cl_reason = [],
                     cl_lock_type = Write_Lock \<rparr>)],
       cm_history = [], cm_acl = \<lparr> acl_users = [], acl_groups = [], acl_default_permissions = permissions_default\<lparr>pm_write := True, pm_restore := True\<rparr> \<rparr>,
       cm_files = Map.empty, cm_modes = (\<lambda>_. 0) \<rparr>"

definition sample_config_data :: config_data where
  "sample_config_data =
     \<lparr> cda_content = ''x = 1'', cda_metadata =
         \<lparr> cmd_name = ''c.toml'', cmd_version = ''1'', cmd_created_at = 0, cmd_modified_at = 0, cmd_author = [], cmd_description = None,
           cmd_tags = [], cmd_schema_version = None, cmd_dependencies = [] \<rparr> \<rparr>"

theorem reader_evicts_writer_witness:
  "\<exists>m1 m2. acquire_lock sample_config_env ''r'' ''bob'' Read_Lock [] sample_config_manager = (m1, Inr ''1'')
     \<and> acquire_lock sample_config_env ''r'' ''carl'' Write_Lock [] m1 = (m2, Inr ''1'')"
proof -
  have ok: "locks_ok sample_config_manager" by (simp add: locks_ok_def sample_config_manager_def hm_wf_def hm_get_def)
  let ?l = "\<lparr> cl_id = ''0'', cl_resource = ''r'', cl_user = ''ann'', cl_acquired_at = 0, cl_expires_at = 0, cl_reason = [],
                     cl_lock_type = Write_Lock \<rparr>"
  have l: "hm_get (cm_locks sample_config_manager) ''r'' = Some ?l" by (simp add: sample_config_manager_def hm_get_def)
  have u: "cev_uuid sample_config_env = ''1''" by (simp add: sample_config_env_def)
  from reader_evicts_writer [OF ok l, of "''bob''" sample_config_env "[]" sample_config_env "''carl''" "[]"] show ?thesis
    by (auto simp: u)
qed

lemma sample_backup_path: "config_backup_path sample_config_env ''/c.toml'' = ''/.fuji_backups/c.toml_t.backup''"
  "with_extension ''tmp'' ''/c.toml'' = ''/c.tmp''"
  by (simp add: config_backup_path_def sample_config_env_def) code_simp+

theorem rollback_restores_nothing_witness:
  "\<exists>m'. rollback_config sample_config_env ''/c.toml'' ''ann'' (Some 1)
         (add_history_entry sample_config_env ''/c.toml'' Op_Update ''ann'' sample_config_data Op_Success
           (sample_config_manager\<lparr>cm_config := config_security_default\<lparr>csc_enable_backup := False\<rparr>, cm_files := [''/c.toml'' \<mapsto> ''bad'']\<rparr>)) = (m', Inr ())
     \<and> cm_files m' ''/c.toml'' = Some ''bad''"
proof -
  let ?m = "add_history_entry sample_config_env ''/c.toml'' Op_Update ''ann'' sample_config_data Op_Success
           (sample_config_manager\<lparr>cm_config := config_security_default\<lparr>csc_enable_backup := False\<rparr>, cm_files := [''/c.toml'' \<mapsto> ''bad'']\<rparr>)"
  have files: "cm_files ?m = [''/c.toml'' \<mapsto> ''bad'']" by (simp add: add_history_entry_def Let_def)
  have acl: "check_permissions ''ann'' (permissions_default\<lparr>pm_restore := True\<rparr>) ?m"
    by (simp add: check_permissions_def add_history_entry_def Let_def sample_config_manager_def hm_get_def has_permissions_def permissions_default_def)
  have hist: "cm_history ?m = [history_entry sample_config_env ''/c.toml'' Op_Update ''ann'' sample_config_data Op_Success []]"
    by (simp add: add_history_entry_def Let_def sample_config_manager_def)
  have target: "\<exists>e. rollback_target (Some 1) (get_history (Some ''/c.toml'') ?m) = Inr e"
    unfolding get_history_def hist by (simp add: rollback_target_def ok_or_def history_entry_def path_eq_def)
  have back1: "backup_before sample_config_env ''/c.toml'' Backup_Emergency ?m = (?m, Inr None)"
    by (simp add: backup_before_def add_history_entry_def Let_def)
  obtain m' where r: "rollback_config sample_config_env ''/c.toml'' ''ann'' (Some 1) ?m = (m', Inr ())"
    using acl target back1 by (auto simp: rollback_config_def)
  from rollback_restores_nothing(1) [OF r] r files show ?thesis by (auto simp: sample_backup_path)
qed

end
