(* ===== verification/Seccomp_Filter.thy ===== *)
theory Seccomp_Filter
  imports Secure_Command
begin

text \<open>
  \<open>src/security/seccomp.rs\<close>: the tables of system calls, the program of the kernel filter that is
  built from them, the initialisation of a filter, its statistics, the executor and the manager of all filters.
  What a profile allows by name and by path is in \<open>Secure_Command\<close>.

  A set of numbers is visited in an unspecified order, which is an argument (\<open>order\<close>).  The kernel's answer to
  the two calls that load a program is an argument; \<open>bpf_run\<close> states what the documented machine does with the
  four instructions a program here has.
\<close>

section \<open>System calls\<close>

type_synonym i32 = "32 word"

definition syscall_numbers_basic :: "(string \<times> i32) list" where
  "syscall_numbers_basic =
    [(''READ'', 0), (''WRITE'', 1), (''OPEN'', 2), (''CLOSE'', 3), (''STAT'', 4), (''FSTAT'', 5), (''LSTAT'', 6),
      (''POLL'', 7), (''LSEEK'', 8), (''MMAP'', 9), (''MPROTECT'', 10), (''MUNMAP'', 11), (''BRK'', 12),
      (''RT_SIGACTION'', 13), (''RT_SIGPROCMASK'', 14), (''RT_SIGRETURN'', 15), (''IOCTL'', 16), (''PREAD64'', 17),
      (''PWRITE64'', 18), (''READV'', 19), (''WRITEV'', 20), (''ACCESS'', 21), (''PIPE'', 22), (''SELECT'', 23),
      (''SCHED_YIELD'', 24), (''MREMAP'', 25), (''MSYNC'', 26), (''MINCORE'', 27), (''MADVISE'', 28),
      (''SHMGET'', 29), (''SHMAT'', 30), (''SHMCTL'', 31), (''DUP'', 32), (''DUP2'', 33), (''PAUSE'', 34),
      (''NANOSLEEP'', 35), (''GETITIMER'', 36), (''ALARM'', 37), (''SETITIMER'', 38), (''GETPID'', 39),
      (''SENDFILE'', 40), (''SOCKET'', 41), (''CONNECT'', 42), (''ACCEPT'', 43), (''SENDTO'', 44), (''RECVFROM'', 45),
      (''SENDMSG'', 46), (''RECVMSG'', 47), (''SHUTDOWN'', 48), (''BIND'', 49), (''LISTEN'', 50),
      (''GETSOCKNAME'', 51), (''GETPEERNAME'', 52), (''SOCKETPAIR'', 53), (''SETSOCKOPT'', 54), (''GETSOCKOPT'', 55),
      (''CLONE'', 56), (''FORK'', 57), (''VFORK'', 58), (''EXECVE'', 59), (''EXIT'', 60), (''WAIT4'', 61),
      (''KILL'', 62), (''UNAME'', 63), (''SEMGET'', 64), (''SEMOP'', 65), (''SEMCTL'', 66), (''SHMDT'', 67),
      (''MSGGET'', 68), (''MSGSND'', 69), (''MSGRCV'', 70), (''MSGCTL'', 71), (''FCNTL'', 72), (''FLOCK'', 73),
      (''FSYNC'', 74), (''FDATASYNC'', 75), (''TRUNCATE'', 76), (''FTRUNCATE'', 77), (''GETDENTS'', 78),
      (''GETCWD'', 79), (''CHDIR'', 80), (''FCHDIR'', 81), (''RENAME'', 82), (''MKDIR'', 83), (''RMDIR'', 84),
      (''CREAT'', 85), (''LINK'', 86), (''UNLINK'', 87), (''SYMLINK'', 88), (''READLINK'', 89), (''CHMOD'', 90),
      (''FCHMOD'', 91), (''CHOWN'', 92), (''FCHOWN'', 93), (''LCHOWN'', 94), (''UMASK'', 95), (''GETTIMEOFDAY'', 96),
      (''GETRLIMIT'', 97), (''GETRUSAGE'', 98), (''SYSINFO'', 99), (''TIMES'', 100), (''PTRACE'', 101),
      (''GETUID'', 102), (''SYSLOG'', 103), (''GETGID'', 104), (''SETUID'', 105)]"

definition syscall_numbers_system :: "(string \<times> i32) list" where
  "syscall_numbers_system =
    [(''SETGID'', 106), (''GETEUID'', 107), (''GETEGID'', 108), (''SETPGID'', 109), (''GETPPID'', 110),
      (''GETPGRP'', 111), (''SETSID'', 112), (''SETREUID'', 113), (''SETREGID'', 114), (''GETGROUPS'', 115),
      (''SETGROUPS'', 116), (''SETRESUID'', 117), (''GETRESUID'', 118), (''SETRESGID'', 119), (''GETRESGID'', 120),
      (''GETPGID'', 121), (''SETFSUID'', 122), (''SETFSGID'', 123), (''GETSID'', 124), (''CAPGET'', 125),
      (''CAPSET'', 126), (''RT_SIGPENDING'', 127), (''RT_SIGTIMEDWAIT'', 128), (''RT_SIGQUEUEINFO'', 129),
      (''RT_SIGSUSPEND'', 130), (''SIGALTSTACK'', 131), (''UTIME'', 132), (''MKNOD'', 133), (''USELIB'', 134),
      (''PERSONALITY'', 135), (''USTAT'', 136), (''STATFS'', 137), (''FSTATFS'', 138), (''SYSFS'', 139),
      (''GETPRIORITY'', 140), (''SETPRIORITY'', 141), (''SCHED_SETPARAM'', 142), (''SCHED_GETPARAM'', 143),
      (''SCHED_SETSCHEDULER'', 144), (''SCHED_GETSCHEDULER'', 145), (''SCHED_GET_PRIORITY_MAX'', 146),
      (''SCHED_GET_PRIORITY_MIN'', 147), (''SCHED_RR_GET_INTERVAL'', 148), (''MLOCK'', 149), (''MUNLOCK'', 150),
      (''MLOCKALL'', 151), (''MUNLOCKALL'', 152), (''VHANGUP'', 153), (''MODIFY_LDT'', 154), (''PIVOT_ROOT'', 155),
      (''_SYSCTL'', 156), (''PRCTL'', 157), (''ARCH_PRCTL'', 158), (''SECCOMP'', 317), (''ADJTIMEX'', 159),
      (''SETRLIMIT'', 160), (''CHROOT'', 161), (''SYNC'', 162), (''ACCT'', 163), (''SETTIMEOFDAY'', 164),
      (''MOUNT'', 165), (''UMOUNT2'', 166), (''SWAPON'', 167), (''SWAPOFF'', 168), (''REBOOT'', 169),
      (''SETHOSTNAME'', 170), (''SETDOMAINNAME'', 171), (''IOPERM'', 172), (''IOPL'', 173), (''CREATE_MODULE'', 174),
      (''INIT_MODULE'', 175), (''DELETE_MODULE'', 176), (''GET_KERNEL_SYMS'', 177), (''QUERY_MODULE'', 178),
      (''QUOTACTL'', 179), (''NFSSERVCTL'', 180), (''GETPMSG'', 181), (''PUTPMSG'', 182), (''AFS_SYSCALL'', 183),
      (''TUXCALL'', 184), (''SECURITY'', 185), (''GETTID'', 186), (''READAHEAD'', 187), (''SETXATTR'', 188),
      (''LSETXATTR'', 189), (''FSETXATTR'', 190), (''GETXATTR'', 191), (''LGETXATTR'', 192), (''FGETXATTR'', 193),
      (''LISTXATTR'', 194), (''LLISTXATTR'', 195), (''FLISTXATTR'', 196), (''REMOVEXATTR'', 197),
      (''LREMOVEXATTR'', 198), (''FREMOVEXATTR'', 199), (''TKILL'', 200), (''TIME'', 201), (''FUTEX'', 202),
      (''SCHED_SETAFFINITY'', 203), (''SCHED_GETAFFINITY'', 204), (''SET_THREAD_AREA'', 205), (''IO_SETUP'', 206),
      (''IO_DESTROY'', 207), (''IO_GETEVENTS'', 208), (''IO_SUBMIT'', 209), (''IO_CANCEL'', 210)]"

definition syscall_numbers_recent :: "(string \<times> i32) list" where
  "syscall_numbers_recent =
    [(''GET_THREAD_AREA'', 211), (''LOOKUP_DCOOKIE'', 212), (''EPOLL_CREATE'', 213), (''EPOLL_CTL_OLD'', 214),
      (''EPOLL_WAIT_OLD'', 215), (''REMAP_FILE_PAGES'', 216), (''GETDENTS64'', 217), (''SET_TID_ADDRESS'', 218),
      (''RESTART_SYSCALL'', 219), (''SEMTIMEDOP'', 220), (''FADVISE64'', 221), (''TIMER_CREATE'', 222),
      (''TIMER_SETTIME'', 223), (''TIMER_GETTIME'', 224), (''TIMER_GETOVERRUN'', 225), (''TIMER_DELETE'', 226),
      (''CLOCK_SETTIME'', 227), (''CLOCK_GETTIME'', 228), (''CLOCK_GETRES'', 229), (''CLOCK_NANOSLEEP'', 230),
      (''EXIT_GROUP'', 231), (''EPOLL_WAIT'', 232), (''EPOLL_CTL'', 233), (''TGKILL'', 234), (''UTIMES'', 235),
      (''VSERVER'', 236), (''MBIND'', 237), (''SET_MEMPOLICY'', 238), (''GET_MEMPOLICY'', 239), (''MQ_OPEN'', 240),
      (''MQ_UNLINK'', 241), (''MQ_TIMEDSEND'', 242), (''MQ_TIMEDRECEIVE'', 243), (''MQ_NOTIFY'', 244),
      (''MQ_GETSETATTR'', 245), (''KEXEC_LOAD'', 246), (''WAITID'', 247), (''ADD_KEY'', 248), (''REQUEST_KEY'', 249),
      (''KEYCTL'', 250), (''IOPRIO_SET'', 251), (''IOPRIO_GET'', 252), (''INOTIFY_INIT'', 253),
      (''INOTIFY_ADD_WATCH'', 254), (''INOTIFY_RM_WATCH'', 255), (''MIGRATE_PAGES'', 256), (''OPENAT'', 257),
      (''MKDIRAT'', 258), (''MKNODAT'', 259), (''FCHOWNAT'', 260), (''FUTIMESAT'', 261), (''NEWFSTATAT'', 262),
      (''UNLINKAT'', 263), (''RENAMEAT'', 264), (''LINKAT'', 265), (''SYMLINKAT'', 266), (''READLINKAT'', 267),
      (''FCHMODAT'', 268), (''FACCESSAT'', 269), (''PSELECT6'', 270), (''PPOLL'', 271), (''UNSHARE'', 272),
      (''SET_ROBUST_LIST'', 273), (''GET_ROBUST_LIST'', 274), (''SPLICE'', 275), (''TEE'', 276),
      (''SYNC_FILE_RANGE'', 277), (''VMSPLICE'', 278), (''MOVE_PAGES'', 279), (''UTIMENSAT'', 280),
      (''EPOLL_PWAIT'', 281), (''SIGNALFD'', 282), (''TIMERFD_CREATE'', 283), (''EVENTFD'', 284),
      (''FALLOCATE'', 285), (''TIMERFD_SETTIME'', 286), (''TIMERFD_GETTIME'', 287), (''ACCEPT4'', 288),
      (''SIGNALED'', 289), (''TIMERFD_CREATE2'', 290), (''EVENTFD2'', 291), (''EPOLL_CREATE1'', 292), (''DUP3'', 293),
      (''PIPE2'', 294), (''INOTIFY_INIT1'', 295), (''PREADV'', 296), (''PWRITEV'', 297), (''RT_TGSIGQUEUEINFO'', 298),
      (''PERF_EVENT_OPEN'', 299), (''RECVMMSG'', 300), (''FANOTIFY_INIT'', 301), (''FANOTIFY_MARK'', 302),
      (''PRLIMIT64'', 303), (''NAME_TO_HANDLE_AT'', 304), (''OPEN_BY_HANDLE_AT'', 305), (''CLOCK_ADJTIME'', 306),
      (''SYNCFS'', 307), (''SENDMMSG'', 308), (''SETNS'', 309), (''GETCPU'', 310), (''PROCESS_VM_READV'', 311),
      (''PROCESS_VM_WRITEV'', 312), (''KCMP'', 313), (''FINIT_MODULE'', 314)]"

definition syscall_numbers :: "(string \<times> i32) list" where
  "syscall_numbers = syscall_numbers_basic @ syscall_numbers_system @ syscall_numbers_recent"

definition syscall_number :: "string \<Rightarrow> i32" where
  "syscall_number name = the (map_of syscall_numbers name)"

definition minimal_calls :: "string list" where
  "minimal_calls =
    [''READ'', ''WRITE'', ''CLOSE'', ''FSTAT'', ''LSEEK'', ''MMAP'', ''MPROTECT'', ''MUNMAP'', ''BRK'',
      ''RT_SIGACTION'', ''RT_SIGPROCMASK'', ''RT_SIGRETURN'', ''IOCTL'', ''PREAD64'', ''PWRITE64'', ''READV'',
      ''WRITEV'', ''ACCESS'', ''PIPE'', ''SELECT'', ''SCHED_YIELD'', ''MSYNC'', ''MINCORE'', ''MADVISE'', ''DUP'',
      ''DUP2'', ''PAUSE'', ''NANOSLEEP'', ''GETITIMER'', ''ALARM'', ''SETITIMER'', ''GETPID'', ''EXIT_GROUP'',
      ''CLOCK_GETTIME'', ''CLOCK_GETRES'', ''EPOLL_WAIT'', ''EPOLL_CTL'', ''TGKILL'', ''FUTEX'',
      ''SCHED_SETAFFINITY'', ''SCHED_GETAFFINITY'', ''EPOLL_CREATE1'', ''DUP3'', ''PIPE2'', ''PSELECT6'', ''PPOLL'',
      ''GETCPU'', ''FUTEX'']"

definition network_calls :: "string list" where
  "network_calls =
    [''SOCKET'', ''CONNECT'', ''ACCEPT'', ''SENDTO'', ''RECVFROM'', ''SENDMSG'', ''RECVMSG'', ''SHUTDOWN'', ''BIND'',
      ''LISTEN'', ''GETSOCKNAME'', ''GETPEERNAME'', ''SOCKETPAIR'', ''SETSOCKOPT'', ''GETSOCKOPT'', ''SENDFILE'',
      ''ACCEPT4'', ''RECVMMSG'']"

definition file_system_calls :: "string list" where
  "file_system_calls =
    [''STAT'', ''LSTAT'', ''POLL'', ''OPEN'', ''CREAT'', ''TRUNCATE'', ''FTRUNCATE'', ''GETDENTS'', ''GETCWD'',
      ''CHDIR'', ''FCHDIR'', ''RENAME'', ''MKDIR'', ''RMDIR'', ''LINK'', ''UNLINK'', ''SYMLINK'', ''READLINK'',
      ''CHMOD'', ''FCHMOD'', ''CHOWN'', ''FCHOWN'', ''LCHOWN'', ''UMASK'', ''GETTIMEOFDAY'', ''GETRLIMIT'',
      ''GETRUSAGE'', ''SYSINFO'', ''TIMES'', ''GETUID'', ''GETGID'', ''GETEUID'', ''GETEGID'', ''GETPPID'',
      ''GETPGRP'', ''GETSID'', ''STATFS'', ''FSTATFS'', ''GETPRIORITY'', ''SETPRIORITY'', ''MLOCK'', ''MUNLOCK'',
      ''MLOCKALL'', ''MUNLOCKALL'', ''SETRLIMIT'', ''SYNC'', ''CHROOT'', ''SETTIMEOFDAY'', ''UTIMES'', ''NEWFSTATAT'',
      ''OPENAT'', ''MKDIRAT'', ''FCHOWNAT'', ''FUTIMESAT'', ''UNLINKAT'', ''RENAMEAT'', ''LINKAT'', ''SYMLINKAT'',
      ''READLINKAT'', ''FCHMODAT'', ''FACCESSAT'', ''UTIME'', ''MKNODAT'', ''FALLOCATE'', ''SYNCFS'']"

definition mount_calls :: "string list" where
  "mount_calls =
    [''MOUNT'', ''UMOUNT2'', ''SWAPON'', ''SWAPOFF'', ''PIVOT_ROOT'', ''QUOTACTL'', ''SETUID'', ''SETGID'',
      ''SETREUID'', ''SETREGID'', ''SETRESUID'', ''SETRESGID'', ''SETPGID'', ''SETSID'', ''CAPGET'', ''CAPSET'',
      ''INIT_MODULE'', ''DELETE_MODULE'', ''CREATE_MODULE'', ''SETDOMAINNAME'', ''SETHOSTNAME'', ''REBOOT'',
      ''NFSSERVCTL'']"

definition daemon_calls :: "string list" where
  "daemon_calls =
    [''CLONE'', ''FORK'', ''VFORK'', ''EXECVE'', ''WAIT4'', ''KILL'', ''UNAME'', ''SEMGET'', ''SEMOP'', ''SEMCTL'',
      ''SHMGET'', ''SHMAT'', ''SHMCTL'', ''SHMDT'', ''MSGGET'', ''MSGSND'', ''MSGRCV'', ''MSGCTL'', ''FCNTL'',
      ''FLOCK'', ''FSYNC'', ''FDATASYNC'', ''SETXATTR'', ''LSETXATTR'', ''FSETXATTR'', ''GETXATTR'', ''LGETXATTR'',
      ''FGETXATTR'', ''LISTXATTR'', ''LLISTXATTR'', ''FLISTXATTR'', ''REMOVEXATTR'', ''LREMOVEXATTR'',
      ''FREMOVEXATTR'', ''TKILL'', ''TIME'', ''SCHED_SETPARAM'', ''SCHED_GETPARAM'', ''SCHED_SETSCHEDULER'',
      ''SCHED_GETSCHEDULER'', ''SCHED_GET_PRIORITY_MAX'', ''SCHED_GET_PRIORITY_MIN'', ''SCHED_RR_GET_INTERVAL'',
      ''SETFSUID'', ''SETFSGID'', ''INOTIFY_INIT'', ''INOTIFY_ADD_WATCH'', ''INOTIFY_RM_WATCH'', ''TIMER_CREATE'',
      ''TIMER_SETTIME'', ''TIMER_GETTIME'', ''TIMER_GETOVERRUN'', ''TIMER_DELETE'', ''CLOCK_SETTIME'',
      ''CLOCK_NANOSLEEP'', ''SIGNALFD'', ''TIMERFD_CREATE'', ''EVENTFD'', ''TIMERFD_SETTIME'', ''TIMERFD_GETTIME'',
      ''SIGNALED'', ''EVENTFD2'', ''INOTIFY_INIT1'', ''PREADV'', ''PWRITEV'', ''RT_SIGPENDING'', ''RT_SIGTIMEDWAIT'',
      ''RT_SIGQUEUEINFO'', ''RT_SIGSUSPEND'', ''SIGALTSTACK'', ''FANOTIFY_INIT'', ''FANOTIFY_MARK'', ''PRLIMIT64'',
      ''NAME_TO_HANDLE_AT'', ''OPEN_BY_HANDLE_AT'', ''CLOCK_ADJTIME'', ''SENDMMSG'', ''SETNS'', ''PROCESS_VM_READV'',
      ''PROCESS_VM_WRITEV'', ''KCMP'', ''FINIT_MODULE'']"

definition allowed_syscall_names :: "seccomp_profile \<Rightarrow> string list" where
  "allowed_syscall_names profile =
     (case profile of
        Minimal \<Rightarrow> minimal_calls
      | Network \<Rightarrow> minimal_calls @ network_calls
      | FileSystem \<Rightarrow> minimal_calls @ file_system_calls
      | Mount \<Rightarrow> minimal_calls @ file_system_calls @ mount_calls
      | Daemon \<Rightarrow> minimal_calls @ file_system_calls @ mount_calls @ daemon_calls
      | Test \<Rightarrow> [])"

definition get_allowed_syscalls :: "seccomp_profile \<Rightarrow> i32 list" where
  "get_allowed_syscalls profile =
     (if profile = Test then map of_nat [0 ..< Suc (unat (syscall_number ''FINIT_MODULE''))]
      else map syscall_number (allowed_syscall_names profile))"

definition is_syscall_allowed :: "seccomp_profile \<Rightarrow> i32 \<Rightarrow> bool" where
  "is_syscall_allowed profile n = List.member (get_allowed_syscalls profile) n"

definition action_kill_process :: u32 where [fuji_eval]: "action_kill_process = 0"
definition action_errno :: u32 where [fuji_eval]: "action_errno = 0x00050000"
definition action_log :: u32 where [fuji_eval]: "action_log = 0x7ffc0000"
definition action_allow :: u32 where [fuji_eval]: "action_allow = 0x7fff0000"

definition get_default_action :: "seccomp_profile \<Rightarrow> u32" where
  "get_default_action profile =
     (case profile of Daemon \<Rightarrow> action_log | Test \<Rightarrow> action_allow | _ \<Rightarrow> or action_errno 0x16)"

fun profile_description :: "seccomp_profile \<Rightarrow> string" where
  "profile_description Minimal = ''Minimal system calls for basic operations (very restrictive)''"
| "profile_description Network = ''Network operations with socket syscalls''"
| "profile_description FileSystem = ''File system operations with I/O syscalls''"
| "profile_description Mount = ''Mount operations with elevated privileges''"
| "profile_description Daemon = ''Daemon operations with monitoring and management''"
| "profile_description Test = ''Permissive profile for testing (allows all syscalls)''"

fun profile_name :: "seccomp_profile \<Rightarrow> string" where
  "profile_name Minimal = ''Minimal''"
| "profile_name Network = ''Network''"
| "profile_name FileSystem = ''FileSystem''"
| "profile_name Mount = ''Mount''"
| "profile_name Daemon = ''Daemon''"
| "profile_name Test = ''Test''"

definition allows_network :: "seccomp_profile \<Rightarrow> bool" where
  "allows_network p = (p \<in> {Network, Daemon, Test})"

definition allows_filesystem :: "seccomp_profile \<Rightarrow> bool" where
  "allows_filesystem p = (p \<in> {FileSystem, Mount, Daemon, Test})"

definition allows_mount :: "seccomp_profile \<Rightarrow> bool" where
  "allows_mount p = (p \<in> {Mount, Daemon, Test})"

section \<open>The program of the kernel filter\<close>

record sock_filter =
  bf_code :: u16
  bf_jt :: u8
  bf_jf :: u8
  bf_k :: u32

definition bpf :: "u16 \<Rightarrow> u8 \<Rightarrow> u8 \<Rightarrow> u32 \<Rightarrow> sock_filter" where
  "bpf c t f k = \<lparr> bf_code = c, bf_jt = t, bf_jf = f, bf_k = k \<rparr>"

definition audit_arch_x86_64 :: u32 where
  "audit_arch_x86_64 = 0xC000003E"

fun filter_checks :: "i32 list \<Rightarrow> sock_filter list" where
  "filter_checks [] = []"
| "filter_checks [s] = [bpf 0x15 1 0 s]"
| "filter_checks (s # t # r) = bpf 0x15 1 0 s # bpf 0x05 0 0 2 # filter_checks (t # r)"

definition build_filter :: "i32 list \<Rightarrow> u32 \<Rightarrow> sock_filter list" where
  "build_filter order default_action =
     [bpf 0x20 0 0 4, bpf 0x15 0 1 audit_arch_x86_64, bpf 0x06 0 0 action_kill_process, bpf 0x20 0 0 0]
     @ filter_checks order @ [bpf 0x06 0 0 action_allow, bpf 0x06 0 0 default_action]"

definition filter_program :: "seccomp_profile \<Rightarrow> i32 list \<Rightarrow> sock_filter list" where
  "filter_program profile order = build_filter order (get_default_action profile)"

text \<open>
  The documented machine: it loads the word at an offset of the data of the call, compares it and skips \<open>jt\<close> or
  \<open>jf\<close> instructions, skips \<open>k\<close> of them, or returns \<open>k\<close>.
\<close>

function bpf_run :: "sock_filter list \<Rightarrow> (u32 \<Rightarrow> u32) \<Rightarrow> u32 \<Rightarrow> u32 option" where
  "bpf_run [] data acc = None"
| "bpf_run (i # is) data acc =
     (if bf_code i = 0x20 then bpf_run is data (data (bf_k i))
      else if bf_code i = 0x15 then bpf_run (drop (unat (if acc = bf_k i then bf_jt i else bf_jf i)) is) data acc
      else if bf_code i = 0x05 then bpf_run (drop (unat (bf_k i)) is) data acc
      else if bf_code i = 0x06 then Some (bf_k i)
      else None)"
  by pat_completeness auto
termination by (relation "measure (\<lambda>(is, _, _). length is)") auto

section \<open>Filters\<close>

record live_filter =
  lf_rules :: syscall_filter
  lf_initialized :: bool
  lf_real_filter_active :: bool
  lf_syscall_count :: "(i32, u64) hashmap"
  lf_violation_count :: u64

datatype load_answer = Privileges_Refused | Load_Refused | Loaded

definition live_filter_new :: "seccomp_profile \<Rightarrow> live_filter" where
  "live_filter_new profile =
     \<lparr> lf_rules = syscall_filter_new profile, lf_initialized = False, lf_real_filter_active = False,
       lf_syscall_count = [], lf_violation_count = 0 \<rparr>"

definition lf_profile :: "live_filter \<Rightarrow> seccomp_profile" where
  "lf_profile f = sf_profile (lf_rules f)"

definition setup_real_seccomp :: "load_answer \<Rightarrow> string + unit" where
  "setup_real_seccomp a =
     (case a of Privileges_Refused \<Rightarrow> Inl ''Failed to set no new privileges''
      | Load_Refused \<Rightarrow> Inl ''Failed to load seccomp filter'' | Loaded \<Rightarrow> Inr ())"

definition filter_initialize :: "load_answer \<Rightarrow> live_filter \<Rightarrow> live_filter" where
  "filter_initialize a f =
     (if lf_initialized f then f
      else (let f1 = (if lf_profile f \<noteq> Test
                      then (case setup_real_seccomp a of Inr _ \<Rightarrow> f\<lparr>lf_real_filter_active := True\<rparr> | Inl _ \<Rightarrow> f)
                      else f)
            in f1\<lparr>lf_initialized := True\<rparr>))"

definition log_syscall :: "i32 \<Rightarrow> live_filter \<Rightarrow> live_filter" where
  "log_syscall n f =
     (if lf_profile f = Test then f
      else f\<lparr>lf_syscall_count := hm_insert n ((case hm_get (lf_syscall_count f) n of Some c \<Rightarrow> c | None \<Rightarrow> 0) + 1) (lf_syscall_count f)\<rparr>)"

definition log_violation :: "live_filter \<Rightarrow> live_filter" where
  "log_violation f = (if lf_profile f = Test then f else f\<lparr>lf_violation_count := lf_violation_count f + 1\<rparr>)"

definition reset_filter_stats :: "live_filter \<Rightarrow> live_filter" where
  "reset_filter_stats f = f\<lparr>lf_syscall_count := [], lf_violation_count := 0\<rparr>"

definition show_bool :: "bool \<Rightarrow> string" where
  "show_bool b = (if b then ''true'' else ''false'')"

fun show_hex :: "nat \<Rightarrow> string" where
  "show_hex n = (if n < 16 then [''0123456789abcdef'' ! n] else show_hex (n div 16) @ [''0123456789abcdef'' ! (n mod 16)])"

declare show_hex.simps [simp del]

definition get_profile_info :: "live_filter \<Rightarrow> (string, string) hashmap" where
  "get_profile_info f =
     (let p = lf_profile f
      in [(''name'', profile_name p), (''description'', profile_description p), (''allows_network'', show_bool (allows_network p)),
          (''allows_filesystem'', show_bool (allows_filesystem p)), (''allows_mount'', show_bool (allows_mount p)),
          (''real_filter_active'', show_bool (lf_real_filter_active f)),
          (''allowed_syscalls_count'', show_nat (length (get_allowed_syscalls p))),
          (''default_action'', ''0x'' @ show_hex (unat (get_default_action p)))])"

section \<open>The executor\<close>

definition executor_new :: "seccomp_profile \<Rightarrow> live_filter" where
  "executor_new profile = live_filter_new profile"

text \<open>The filter is in force before the function runs, and stays after it.\<close>

definition execute_in_sandbox :: "load_answer \<Rightarrow> (unit \<Rightarrow> 'e + 'r) \<Rightarrow> live_filter \<Rightarrow> live_filter \<times> ('e + 'r)" where
  "execute_in_sandbox a f x = (filter_initialize a x, f ())"

datatype operation_error = OperationNotInProfile string seccomp_profile

definition profile_operations :: "seccomp_profile \<Rightarrow> string list option" where
  "profile_operations profile =
     (case profile of
        Minimal \<Rightarrow> Some [''read'', ''write'', ''socket_read'', ''socket_write'']
      | Network \<Rightarrow> Some [''read'', ''write'', ''socket_read'', ''socket_write'', ''connect'', ''bind'', ''listen'']
      | FileSystem \<Rightarrow> Some [''read'', ''write'', ''socket_read'', ''socket_write'', ''open'', ''close'', ''stat'']
      | Mount \<Rightarrow> Some [''read'', ''write'', ''socket_read'', ''socket_write'', ''open'', ''close'', ''stat'', ''mount'', ''umount'']
      | Daemon \<Rightarrow> None
      | Test \<Rightarrow> None)"

definition validate_profile_operation :: "live_filter \<Rightarrow> string \<Rightarrow> operation_error + unit" where
  "validate_profile_operation f operation =
     (case profile_operations (lf_profile f) of
        Some names \<Rightarrow> if List.member names operation then Inr () else Inl (OperationNotInProfile operation (lf_profile f))
      | None \<Rightarrow> Inr ())"

section \<open>The manager of all filters\<close>

record seccomp_manager =
  gsm_filters :: "(string, live_filter) hashmap"
  gsm_default_profile :: seccomp_profile
  gsm_global_stats :: "(string, u64) hashmap"
  gsm_total_violations :: u64

definition seccomp_manager_new :: "seccomp_profile \<Rightarrow> seccomp_manager" where
  "seccomp_manager_new p = \<lparr> gsm_filters = [], gsm_default_profile = p, gsm_global_stats = [], gsm_total_violations = 0 \<rparr>"

definition initialize_operation :: "load_answer \<Rightarrow> string \<Rightarrow> seccomp_profile option \<Rightarrow> seccomp_manager \<Rightarrow> seccomp_manager" where
  "initialize_operation a operation profile m =
     (let p = (case profile of Some p \<Rightarrow> p | None \<Rightarrow> gsm_default_profile m)
      in m\<lparr>gsm_filters := hm_insert operation (filter_initialize a (live_filter_new p)) (gsm_filters m),
           gsm_global_stats := hm_insert (''operation:'' @ operation) 0 (gsm_global_stats m)\<rparr>)"

definition is_operation_initialized :: "string \<Rightarrow> seccomp_manager \<Rightarrow> bool" where
  "is_operation_initialized operation m =
     (case hm_get (gsm_filters m) operation of Some f \<Rightarrow> lf_initialized f | None \<Rightarrow> False)"

definition operation_profile :: "string \<Rightarrow> seccomp_manager \<Rightarrow> seccomp_profile option" where
  "operation_profile operation m = map_option lf_profile (hm_get (gsm_filters m) operation)"

definition remove_operation :: "string \<Rightarrow> seccomp_manager \<Rightarrow> seccomp_manager \<times> live_filter option" where
  "remove_operation operation m =
     (m\<lparr>gsm_filters := hm_remove operation (gsm_filters m),
        gsm_global_stats := hm_remove (''operation:'' @ operation) (gsm_global_stats m)\<rparr>,
      hm_get (gsm_filters m) operation)"

definition manager_violation_count :: "seccomp_manager \<Rightarrow> u64" where
  "manager_violation_count m = sum_list (map (\<lambda>(_, f). lf_violation_count f) (gsm_filters m))"

definition get_security_report :: "seccomp_manager \<Rightarrow> (string, string) hashmap" where
  "get_security_report m =
     (let infos = concat (map (\<lambda>(operation, f). map (\<lambda>(k, v). (''operations.'' @ operation @ ''.'' @ k, v)) (get_profile_info f)) (gsm_filters m));
          counted = (\<lambda>p. show_nat (length (filter (\<lambda>(_, f). p f) (gsm_filters m))));
          r1 = fold (\<lambda>(k, v). hm_insert k v) infos [];
          r2 = hm_insert ''default_profile'' (profile_name (gsm_default_profile m))
                 (hm_insert ''total_violations'' (show_nat (unat (gsm_total_violations m)))
                   (hm_insert ''real_filters'' (counted lf_real_filter_active)
                     (hm_insert ''active_filters'' (counted lf_initialized)
                       (hm_insert ''total_filters'' (show_nat (length (gsm_filters m))) r1))))
      in fold (\<lambda>(k, c). hm_insert k (show_nat (unat c))) (gsm_global_stats m) r2)"

definition reset_all_stats :: "seccomp_manager \<Rightarrow> seccomp_manager" where
  "reset_all_stats m =
     m\<lparr>gsm_filters := hm_map_values reset_filter_stats (gsm_filters m), gsm_global_stats := [], gsm_total_violations := 0\<rparr>"

definition check_security_status :: "seccomp_manager \<Rightarrow> (string, string) hashmap" where
  "check_security_status m =
     (let real = length (filter (\<lambda>(_, f). lf_real_filter_active f) (gsm_filters m)); violations = manager_violation_count m
      in [(''seccomp_status'', if real > 0 then ''Active'' else ''Validation Only''),
          (''real_filters_count'', show_nat real),
          (''security_status'', if violations > 0 then ''Violations Detected'' else ''Secure''),
          (''violation_severity'',
             if violations > 100 then ''High'' else if violations > 10 then ''Medium'' else if violations > 0 then ''Low'' else ''None''),
          (''monitored_operations'', show_nat (length (gsm_filters m)))])"

definition apply_daemon_seccomp :: "load_answer \<Rightarrow> bool \<Rightarrow> seccomp_manager \<Rightarrow> seccomp_manager" where
  "apply_daemon_seccomp a strict m = initialize_operation a ''daemon_main'' (Some (if strict then Minimal else Daemon)) m"

definition create_test_filter :: "load_answer \<Rightarrow> live_filter" where
  "create_test_filter a = filter_initialize a (live_filter_new Test)"

definition create_daemon_filter :: "load_answer \<Rightarrow> live_filter" where
  "create_daemon_filter a = filter_initialize a (live_filter_new Daemon)"

definition create_mount_filter :: "load_answer \<Rightarrow> live_filter" where
  "create_mount_filter a = filter_initialize a (live_filter_new Mount)"

section \<open>What the program of the filter does\<close>

fun at_even_position :: "'a \<Rightarrow> 'a list \<Rightarrow> bool" where
  "at_even_position x [] = False"
| "at_even_position x [y] = (x = y)"
| "at_even_position x (y # z # zs) = (x = y \<or> at_even_position x zs)"

lemmas bpf_simps = bpf_run.simps bpf_def fuji_eval

declare bpf_run.simps [simp del]

definition filter_end :: "u32 \<Rightarrow> sock_filter list" where
  "filter_end d = [bpf 0x06 0 0 action_allow, bpf 0x06 0 0 d]"

lemma checks_last:
  "bpf_run (filter_checks [s] @ filter_end d) data n = Some (if n = s then d else action_allow)"
  by (simp add: filter_end_def bpf_simps)

lemma checks_hit:
  "bpf_run (filter_checks (s # t # r) @ e) data s = bpf_run (filter_checks (t # r) @ e) data s"
  by (simp add: bpf_run.simps(2) bpf_def)

lemma checks_miss:
  assumes "n \<noteq> s"
  shows "bpf_run (filter_checks (s # t # r) @ filter_end d) data n
    = (if r = [] then Some d else bpf_run (filter_checks r @ filter_end d) data n)"
proof -
  have "bpf_run (filter_checks (s # t # r) @ filter_end d) data n
    = bpf_run (drop 2 (filter_checks (t # r) @ filter_end d)) data n"
    using assms by (simp add: bpf_run.simps(2) bpf_def)
  also have "\<dots> = (if r = [] then Some d else bpf_run (filter_checks r @ filter_end d) data n)"
    by (cases r) (simp_all add: filter_end_def bpf_run.simps(2) bpf_def)
  finally show ?thesis .
qed

lemma checks_unlisted:
  "xs \<noteq> [] \<Longrightarrow> n \<notin> set xs \<Longrightarrow>
   bpf_run (filter_checks xs @ filter_end d) data n = Some (if even (length xs) then d else action_allow)"
proof (induction n xs rule: at_even_position.induct)
  case (3 n y z zs)
  then show ?case by (simp add: checks_miss del: filter_checks.simps)
qed (simp_all add: checks_last del: filter_checks.simps)

lemma checks_verdict:
  "xs \<noteq> [] \<Longrightarrow> distinct xs \<Longrightarrow>
   bpf_run (filter_checks xs @ filter_end d) data n
     = Some (if at_even_position n xs = even (length xs) then action_allow else d)"
proof (induction n xs rule: at_even_position.induct)
  case (3 n y z zs)
  show ?case
  proof (cases "n = y")
    case True
    with 3 have "n \<notin> set (z # zs)" by auto
    from checks_unlisted [OF _ this, of d data] True show ?thesis by (simp add: checks_hit del: filter_checks.simps)
  next
    case False
    with 3 show ?thesis by (simp add: checks_miss del: filter_checks.simps)
  qed
qed (simp_all add: checks_last del: filter_checks.simps)

lemma some_calls_allowed: "p \<noteq> Test \<Longrightarrow> get_allowed_syscalls p \<noteq> []"
  by (cases p) (simp_all add: get_allowed_syscalls_def allowed_syscall_names_def minimal_calls_def)

text \<open>C30: 
  what the loaded program does with a call: every call of a native process is answered with \<open>KILL_PROCESS\<close>, and a
  call of another architecture is compared only with the numbers at the even positions of the (unordered) set, or
  with their complement, depending on how many numbers there are.
\<close>

theorem filter_program_exact:
  assumes "p \<noteq> Test" "distinct order" "set order = set (get_allowed_syscalls p)"
  shows "bpf_run (filter_program p order) data acc =
    Some (if data 4 = audit_arch_x86_64 then action_kill_process
          else if at_even_position (data 0) order = even (length order) then action_allow
          else get_default_action p)"
proof -
  have ne: "order \<noteq> []" using some_calls_allowed [OF assms(1)] assms(3) by auto
  have "bpf_run (filter_program p order) data acc =
    (if data 4 = audit_arch_x86_64 then Some action_kill_process
     else bpf_run (filter_checks order @ filter_end (get_default_action p)) data (data 0))"
    by (simp add: filter_program_def build_filter_def filter_end_def bpf_run.simps(2) bpf_def)
  with checks_verdict [OF ne assms(2)] show ?thesis by simp
qed

theorem filter_program_exact_witness:
  "bpf_run (filter_program Minimal (remdups (get_allowed_syscalls Minimal))) (\<lambda>_. 0xC000003E) 0 = Some action_kill_process"
  using filter_program_exact [of Minimal "remdups (get_allowed_syscalls Minimal)" "\<lambda>_. 0xC000003E" 0]
  by (simp add: audit_arch_x86_64_def)

section \<open>The count of the violations\<close>

datatype manager_op =
    Init_Operation load_answer string "seccomp_profile option"
  | Remove_Operation string
  | Reset_Stats
  | Apply_Daemon load_answer bool
  | Filter_Violation string
  | Filter_Syscall string i32

fun manager_step :: "manager_op \<Rightarrow> seccomp_manager \<Rightarrow> seccomp_manager" where
  "manager_step (Init_Operation a operation p) m = initialize_operation a operation p m"
| "manager_step (Remove_Operation operation) m = fst (remove_operation operation m)"
| "manager_step Reset_Stats m = reset_all_stats m"
| "manager_step (Apply_Daemon a strict) m = apply_daemon_seccomp a strict m"
| "manager_step (Filter_Violation operation) m = m\<lparr>gsm_filters := hm_update operation log_violation (gsm_filters m)\<rparr>"
| "manager_step (Filter_Syscall operation n) m = m\<lparr>gsm_filters := hm_update operation (log_syscall n) (gsm_filters m)\<rparr>"

definition total_violations_key :: string where
  "total_violations_key = ''total_violations''"

definition manager_ok :: "seccomp_manager \<Rightarrow> bool" where
  "manager_ok m = (hm_wf (gsm_global_stats m) \<and> hm_get (gsm_global_stats m) total_violations_key = None
     \<and> gsm_total_violations m = 0)"

lemma operation_key [simp]: "total_violations_key \<noteq> ''operation:'' @ x" "''operation:'' @ x \<noteq> total_violations_key"
  by (simp_all add: total_violations_key_def)

lemma initialize_ok: "manager_ok m \<Longrightarrow> manager_ok (initialize_operation a operation p m)"
  by (simp add: manager_ok_def initialize_operation_def Let_def hm.wf_insert hm.get_insert del: append.simps)

lemma manager_step_ok: "manager_ok m \<Longrightarrow> manager_ok (manager_step x m)"
proof (induction x m rule: manager_step.induct)
  case (2 operation m)
  then show ?case by (simp add: manager_ok_def remove_operation_def hm.wf_remove hm.get_remove del: append.simps)
next
  case (3 m)
  then show ?case by (simp add: manager_ok_def reset_all_stats_def hm.wf_empty hm.get_empty)
next
  case (5 operation m)
  then show ?case by (simp add: manager_ok_def)
next
  case (6 operation n m)
  then show ?case by (simp add: manager_ok_def)
qed (simp_all add: initialize_ok apply_daemon_seccomp_def)

lemma get_fold_other: "k \<notin> fst ` set xs \<Longrightarrow> hm_get (fold (\<lambda>(k, v). hm_insert k (f v)) xs m) k = hm_get m k"
  by (induction xs arbitrary: m) (auto simp: hm.get_insert)

lemma show_nat_zero: "show_nat 0 = ''0''"
  by code_simp

text \<open>
  the violations that are counted by the filters never reach the report: whatever operations the manager has
  performed, it reports none, while \<open>check_security_status\<close> reports those of the filters.
\<close>

theorem report_counts_no_violation:
  "hm_get (get_security_report (fold manager_step ops (seccomp_manager_new p))) ''total_violations'' = Some ''0''"
proof -
  let ?m = "fold manager_step ops (seccomp_manager_new p)"
  have "manager_ok (fold manager_step ops m)" if "manager_ok m" for m
    using that by (induction ops arbitrary: m) (simp_all add: manager_step_ok)
  moreover have "manager_ok (seccomp_manager_new p)" by (simp add: manager_ok_def seccomp_manager_new_def hm.wf_empty hm.get_empty)
  ultimately have ok: "manager_ok ?m" by blast
  then have "''total_violations'' \<notin> fst ` set (gsm_global_stats ?m)"
    by (simp add: manager_ok_def hm_get_None_iff total_violations_key_def)
  from get_fold_other [OF this, of "\<lambda>c. show_nat (unat c)"] ok show ?thesis
    by (simp add: get_security_report_def Let_def hm.get_insert manager_ok_def show_nat_zero)
qed

theorem violations_seen_by_status:
  "hm_get (check_security_status (manager_step (Filter_Violation ''m'') (manager_step (Init_Operation Loaded ''m'' (Some Mount))
      (seccomp_manager_new Daemon)))) ''security_status'' = Some ''Violations Detected''"
  by (simp add: seccomp_manager_new_def initialize_operation_def filter_initialize_def live_filter_new_def syscall_filter_new_def
      lf_profile_def setup_real_seccomp_def log_violation_def check_security_status_def manager_violation_count_def Let_def fuji_eval)

end
