(* ===== verification/Secure_Socket.thy ===== *)
theory Secure_Socket
  imports Encryption Credential_Interface Seccomp_Filter Cluster_Discovery
begin

text \<open>
  \<open>src/security/secure_socket.rs\<close>: the security context of a socket (keys, sessions, the messages already seen),
  authenticated messages, framed connections, the checks of socket paths and of a socket's permissions.

  The keys of a context are values; what its clones share (sessions and history) is the record \<open>socket_cells\<close>,
  passed along.  A connection is its pending input and its output.  The clock, random bytes, the ciphers, the
  printing of a map (\<open>so_debug\<close>), JSON, and the order in which a new \<open>HashMap\<close> yields its entries (\<open>so_order\<close>) are
  arguments.
\<close>

section \<open>Messages and contexts\<close>

datatype secure_message_type = Msg_AuthInit | Msg_AuthResponse | Msg_EncryptedData | Msg_KeepAlive | Msg_SessionClose | Msg_Error string

fun as_u8 :: "secure_message_type \<Rightarrow> nat" where
  "as_u8 Msg_AuthInit = 1"
| "as_u8 Msg_AuthResponse = 2"
| "as_u8 Msg_EncryptedData = 3"
| "as_u8 Msg_KeepAlive = 4"
| "as_u8 Msg_SessionClose = 5"
| "as_u8 (Msg_Error _) = 6"

record secure_message =
  sm_message_type :: secure_message_type
  sm_message_id :: string
  sm_timestamp :: instant
  sm_sender_id :: string
  sm_encrypted_payload :: "encrypted_data option"
  sm_mac :: string
  sm_metadata :: "(string, string) hashmap"

record client_session =
  cs_session_id :: string
  cs_client_pid :: "u32 option"
  cs_client_uid :: "u32 option"
  cs_start_time :: instant
  cs_last_activity :: instant
  cs_message_count :: u64
  cs_authenticated :: bool

record socket_security_config =
  ssc_enable_encryption :: bool
  ssc_encryption_algorithm :: encryption_algorithm
  ssc_enable_authentication :: bool
  ssc_message_timeout :: u64
  ssc_rate_limit :: u32
  ssc_enable_replay_protection :: bool
  ssc_max_message_size :: usize

definition socket_security_default :: socket_security_config where
  "socket_security_default =
     \<lparr> ssc_enable_encryption = True, ssc_encryption_algorithm = ChaCha20Poly1305, ssc_enable_authentication = True,
       ssc_message_timeout = 300, ssc_rate_limit = 1000, ssc_enable_replay_protection = True,
       ssc_max_message_size = 10485760 \<rparr>"

record socket_context =
  scx_config :: socket_security_config
  scx_encryption_key :: string
  scx_auth_key :: string

record socket_cells =
  cel_sessions :: "(string, client_session) hashmap"
  cel_history :: "(string, instant) hashmap"

record socket_env =
  so_now :: instant
  so_uuid :: string
  so_nonce :: string
  so_created_at :: string
  so_crypto :: crypto
  so_order :: "(string, string) hashmap \<Rightarrow> (string, string) hashmap"
  so_debug :: "(string, string) hashmap \<Rightarrow> string"
  so_serialize :: "secure_message \<Rightarrow> string"
  so_deserialize :: "string \<Rightarrow> secure_message option"

datatype socket_error =
    Session_Missing string
  | Message_Too_Old int
  | Mac_Invalid
  | Replay_Detected string
  | Encryption_Off
  | Cipher_Error encryption_error
  | Rate_Exceeded string
  | Frame_Io
  | Frame_Too_Large u32
  | Frame_Utf8
  | Frame_Json
  | Size_Exceeded nat
  | Profile_Error operation_error
  | Context_Missing
  | Parent_Reference string
  | Directory_Refused string
  | Path_Too_Long string
  | Path_Unsafe string
  | Os_Error string
  | Socket_Missing string
  | Not_A_Socket string
  | Owner_Permissions string
  | Execute_Permissions string
  | Wrong_Owner u32 u32

text \<open>Each context draws keys of its own.\<close>

definition socket_context_new :: "socket_security_config \<Rightarrow> string \<Rightarrow> string \<Rightarrow> socket_context \<times> socket_cells" where
  "socket_context_new c encryption_key auth_key =
     (\<lparr> scx_config = c, scx_encryption_key = encryption_key, scx_auth_key = auth_key \<rparr>,
      \<lparr> cel_sessions = [], cel_history = [] \<rparr>)"

definition create_session :: "socket_env \<Rightarrow> u32 option \<Rightarrow> u32 option \<Rightarrow> socket_cells \<Rightarrow> socket_cells \<times> string" where
  "create_session env pid uid cl =
     (cl\<lparr>cel_sessions := hm_insert (so_uuid env)
           \<lparr> cs_session_id = so_uuid env, cs_client_pid = pid, cs_client_uid = uid, cs_start_time = so_now env,
             cs_last_activity = so_now env, cs_message_count = 0, cs_authenticated = False \<rparr> (cel_sessions cl)\<rparr>,
      so_uuid env)"

definition authenticate_session :: "string \<Rightarrow> string \<Rightarrow> socket_cells \<Rightarrow> socket_cells \<times> (socket_error + bool)" where
  "authenticate_session session_id credentials cl =
     (case hm_get (cel_sessions cl) session_id of
        None \<Rightarrow> (cl, Inl (Session_Missing session_id))
      | Some s \<Rightarrow>
          let valid = (credentials \<noteq> [])
          in (cl\<lparr>cel_sessions := hm_insert session_id (s\<lparr>cs_authenticated := valid\<rparr>) (cel_sessions cl)\<rparr>, Inr valid))"

definition get_session :: "string \<Rightarrow> socket_cells \<Rightarrow> client_session option" where
  "get_session session_id cl = hm_get (cel_sessions cl) session_id"

definition update_session_activity ::
    "socket_env \<Rightarrow> socket_context \<Rightarrow> string \<Rightarrow> socket_cells \<Rightarrow> socket_cells \<times> (socket_error + unit)" where
  "update_session_activity env cx session_id cl =
     (case hm_get (cel_sessions cl) session_id of
        None \<Rightarrow> (cl, Inl (Session_Missing session_id))
      | Some s \<Rightarrow>
          let s1 = s\<lparr>cs_last_activity := so_now env, cs_message_count := cs_message_count s + 1\<rparr>
          in (cl\<lparr>cel_sessions := hm_insert session_id s1 (cel_sessions cl)\<rparr>,
              if cs_message_count s1 > ucast (ssc_rate_limit (scx_config cx)) then Inl (Rate_Exceeded session_id) else Inr ()))"

definition age_seconds :: "duration \<Rightarrow> int" where
  "age_seconds d = (if d < 0 then - ((- d) div 1000000000) else d div 1000000000)"

definition cleanup_expired_sessions :: "socket_env \<Rightarrow> socket_context \<Rightarrow> socket_cells \<Rightarrow> socket_cells" where
  "cleanup_expired_sessions env cx cl =
     cl\<lparr>cel_sessions := hm_retain
          (\<lambda>_ s. age_seconds (so_now env - cs_last_activity s) < sint (ssc_message_timeout (scx_config cx) * 2)) (cel_sessions cl)\<rparr>"

text \<open>The code of the message is a hash of the key and these parts.\<close>

definition calculate_message_mac :: "socket_env \<Rightarrow> socket_context \<Rightarrow> secure_message \<Rightarrow> string" where
  "calculate_message_mac env cx m =
     cy_hex_encode (so_crypto env) (cy_sha256 (so_crypto env)
       (scx_auth_key cx @ sm_message_id m @ '':'' @ show_int (timestamp_nanos (sm_timestamp m)) @ '':'' @ sm_sender_id m @ '':''
        @ show_nat (as_u8 (sm_message_type m)) @ '':'' @ so_debug env (sm_metadata m)))"

definition verify_message_mac :: "socket_env \<Rightarrow> socket_context \<Rightarrow> secure_message \<Rightarrow> bool" where
  "verify_message_mac env cx m = (calculate_message_mac env cx m = sm_mac m)"

definition message_metadata :: "socket_env \<Rightarrow> socket_context \<Rightarrow> (string, string) hashmap" where
  "message_metadata env cx =
     so_order env
       (if ssc_enable_encryption (scx_config cx)
        then hm_insert ''encryption'' (algorithm_identifier (ssc_encryption_algorithm (scx_config cx)))
               (hm_insert ''version'' ''1.0'' [])
        else hm_insert ''version'' ''1.0'' [])"

definition encrypt_payload :: "socket_env \<Rightarrow> socket_context \<Rightarrow> string option \<Rightarrow> socket_error + encrypted_data option" where
  "encrypt_payload env cx payload =
     (case payload of
        Some p \<Rightarrow>
          if ssc_enable_encryption (scx_config cx)
          then and_then (map_err Cipher_Error
                 (encrypt_with (so_crypto env) ChaCha20Poly1305 (so_nonce env) (so_created_at env) p (scx_encryption_key cx)))
                 (\<lambda>d. Inr (Some d))
          else Inr None
      | None \<Rightarrow> Inr None)"

definition create_secure_message ::
    "socket_env \<Rightarrow> socket_context \<Rightarrow> secure_message_type \<Rightarrow> string option \<Rightarrow> string \<Rightarrow> socket_error + secure_message" where
  "create_secure_message env cx ty payload sender =
     and_then (encrypt_payload env cx payload)
       (\<lambda>d. let m = \<lparr> sm_message_type = ty, sm_message_id = so_uuid env, sm_timestamp = so_now env, sm_sender_id = sender,
                      sm_encrypted_payload = d, sm_mac = [], sm_metadata = message_metadata env cx \<rparr>
            in Inr (m\<lparr>sm_mac := calculate_message_mac env cx m\<rparr>))"

record verification_result =
  vr_message_type :: secure_message_type
  vr_payload :: "string option"
  vr_sender_id :: string
  vr_verified :: bool

definition is_replay :: "socket_cells \<Rightarrow> secure_message \<Rightarrow> bool" where
  "is_replay cl m = (hm_get (cel_history cl) (sm_message_id m) = Some (sm_timestamp m))"

definition decrypt_payload :: "socket_env \<Rightarrow> socket_context \<Rightarrow> secure_message \<Rightarrow> (socket_error + string option) outcome" where
  "decrypt_payload env cx m =
     (case sm_encrypted_payload m of
        None \<Rightarrow> Returned (Inr None)
      | Some d \<Rightarrow>
          if ssc_enable_encryption (scx_config cx)
          then (case decrypt_with (so_crypto env) ChaCha20Poly1305 d (scx_encryption_key cx) of
                  Returned (Inr p) \<Rightarrow> Returned (Inr (Some p))
                | Returned (Inl e) \<Rightarrow> Returned (Inl (Cipher_Error e))
                | Blocked \<Rightarrow> Blocked
                | Panicked \<Rightarrow> Panicked)
          else Returned (Inl Encryption_Off))"

definition verify_and_decrypt_message ::
    "socket_env \<Rightarrow> socket_context \<Rightarrow> secure_message \<Rightarrow> socket_cells \<Rightarrow> socket_cells \<times> (socket_error + verification_result) outcome" where
  "verify_and_decrypt_message env cx m cl =
     (let age = age_seconds (so_now env - sm_timestamp m); c = scx_config cx
      in if age > sint (ssc_message_timeout c) then (cl, Returned (Inl (Message_Too_Old age)))
         else if \<not> verify_message_mac env cx m then (cl, Returned (Inl Mac_Invalid))
         else if ssc_enable_replay_protection c \<and> is_replay cl m then (cl, Returned (Inl (Replay_Detected (sm_message_id m))))
         else (if ssc_enable_replay_protection c
               then cl\<lparr>cel_history := hm_insert (sm_message_id m) (sm_timestamp m) (cel_history cl)\<rparr> else cl,
               oc_map (\<lambda>p. \<lparr> vr_message_type = sm_message_type m, vr_payload = p, vr_sender_id = sm_sender_id m, vr_verified = True \<rparr>)
                 (decrypt_payload env cx m)))"

section \<open>Connections\<close>

definition write_u32 :: "u32 \<Rightarrow> string" where
  "write_u32 n = map (\<lambda>i. char_of (unat (drop_bit (8 * i) n) mod 256)) [3, 2, 1, 0]"

fun read_u32 :: "string \<Rightarrow> (u32 \<times> string) option" where
  "read_u32 (a # b # c # d # s) =
     Some (of_nat (((of_char a * 256 + of_char b) * 256 + of_char c) * 256 + of_char d), s)"
| "read_u32 _ = None"

definition read_exact :: "nat \<Rightarrow> string \<Rightarrow> (string \<times> string) option" where
  "read_exact n s = (if length s < n then None else Some (take n s, drop n s))"

record secure_connection =
  scn_input :: string
  scn_output :: string
  scn_executor :: "live_filter option"
  scn_context :: "socket_context option"
  scn_session_id :: "string option"
  scn_sender_id :: string

definition max_data_size :: nat where
  "max_data_size = 10485760"

definition validate_data_size :: "nat \<Rightarrow> socket_error + unit" where
  "validate_data_size n = (if n > max_data_size then Inl (Size_Exceeded n) else Inr ())"

definition use_executor :: "load_answer \<Rightarrow> string \<Rightarrow> secure_connection \<Rightarrow> secure_connection \<times> (socket_error + unit)" where
  "use_executor a operation c =
     (case scn_executor c of
        None \<Rightarrow> (c, Inr ())
      | Some x \<Rightarrow>
          (case validate_profile_operation x operation of
             Inl e \<Rightarrow> (c, Inl (Profile_Error e))
           | Inr _ \<Rightarrow>
               let (x1, r) = execute_in_sandbox a (\<lambda>_. Inr ()) x in (c\<lparr>scn_executor := Some x1\<rparr>, r)))"

definition socket_send :: "load_answer \<Rightarrow> string \<Rightarrow> secure_connection \<Rightarrow> secure_connection \<times> (socket_error + unit)" where
  "socket_send a payload c =
     (case validate_data_size (length payload) of
        Inl e \<Rightarrow> (c, Inl e)
      | Inr _ \<Rightarrow>
          (case use_executor a ''socket_write'' c of
             (c1, Inl e) \<Rightarrow> (c1, Inl e)
           | (c1, Inr _) \<Rightarrow> (c1\<lparr>scn_output := scn_output c1 @ payload\<rparr>, Inr ())))"

text \<open>A read returns some of the pending bytes, as many as the system hands out (\<open>k\<close>).\<close>

definition socket_receive :: "load_answer \<Rightarrow> nat \<Rightarrow> nat \<Rightarrow> secure_connection \<Rightarrow> secure_connection \<times> (socket_error + string)" where
  "socket_receive a buffer_size k c =
     (case validate_data_size buffer_size of
        Inl e \<Rightarrow> (c, Inl e)
      | Inr _ \<Rightarrow>
          (case use_executor a ''socket_read'' c of
             (c1, Inl e) \<Rightarrow> (c1, Inl e)
           | (c1, Inr _) \<Rightarrow>
               let n = min buffer_size k in (c1\<lparr>scn_input := drop n (scn_input c1)\<rparr>, Inr (take n (scn_input c1)))))"

definition send_frame :: "string \<Rightarrow> secure_connection \<Rightarrow> secure_connection" where
  "send_frame payload c = c\<lparr>scn_output := scn_output c @ write_u32 (of_nat (length payload)) @ payload\<rparr>"

definition receive_frame :: "u32 \<Rightarrow> secure_connection \<Rightarrow> secure_connection \<times> (socket_error + string)" where
  "receive_frame limit c =
     (case read_u32 (scn_input c) of
        None \<Rightarrow> (c\<lparr>scn_input := []\<rparr>, Inl Frame_Io)
      | Some (n, rest) \<Rightarrow>
          if n > limit then (c\<lparr>scn_input := rest\<rparr>, Inl (Frame_Too_Large n))
          else (case read_exact (unat n) rest of
                  None \<Rightarrow> (c\<lparr>scn_input := []\<rparr>, Inl Frame_Io)
                | Some (payload, rest1) \<Rightarrow> (c\<lparr>scn_input := rest1\<rparr>, Inr payload)))"

definition send_text_message :: "string \<Rightarrow> secure_connection \<Rightarrow> secure_connection" where
  "send_text_message message c = send_frame message c"

definition receive_text_message :: "secure_connection \<Rightarrow> secure_connection \<times> (socket_error + string)" where
  "receive_text_message c =
     (let (c1, r) = receive_frame (1024 * 1024) c
      in (c1, and_then r (\<lambda>b. if utf8_ok b then Inr b else Inl Frame_Utf8)))"

definition send_secure_message :: "socket_env \<Rightarrow> secure_message \<Rightarrow> secure_connection \<Rightarrow> secure_connection" where
  "send_secure_message env m c = send_frame (so_serialize env m) c"

definition receive_secure_message :: "socket_env \<Rightarrow> secure_connection \<Rightarrow> secure_connection \<times> (socket_error + secure_message)" where
  "receive_secure_message env c =
     (let (c1, r) = receive_frame (10 * 1024 * 1024) c
      in (c1, and_then r (\<lambda>b. case so_deserialize env b of
                                 None \<Rightarrow> Inl Frame_Json
                               | Some m \<Rightarrow> Inr (m\<lparr>sm_metadata := so_order env (sm_metadata m)\<rparr>))))"

definition send_created ::
    "socket_env \<Rightarrow> socket_context \<Rightarrow> secure_message_type \<Rightarrow> string option \<Rightarrow> secure_connection \<Rightarrow> secure_connection \<times> (socket_error + unit)" where
  "send_created env cx ty payload c =
     (case create_secure_message env cx ty payload (scn_sender_id c) of
        Inl e \<Rightarrow> (c, Inl e)
      | Inr m \<Rightarrow> (send_secure_message env m c, Inr ()))"

definition init_secure_session ::
    "socket_env \<Rightarrow> socket_env \<Rightarrow> secure_connection \<times> socket_cells \<Rightarrow> (secure_connection \<times> socket_cells) \<times> (socket_error + string)" where
  "init_secure_session env0 env s =
     (let (c, cl) = s
      in case scn_context c of
           None \<Rightarrow> ((c, cl), Inl Context_Missing)
         | Some cx \<Rightarrow>
             let (cl1, sid) = create_session env0 None None cl;
                 (c1, r) = send_created env cx Msg_AuthInit None (c\<lparr>scn_session_id := Some sid\<rparr>)
             in ((c1, cl1), and_then r (\<lambda>_. Inr sid)))"

definition send_encrypted_data ::
    "socket_env \<Rightarrow> load_answer \<Rightarrow> string \<Rightarrow> secure_connection \<Rightarrow> secure_connection \<times> (socket_error + unit)" where
  "send_encrypted_data env a payload c =
     (case scn_context c of
        Some cx \<Rightarrow> send_created env cx Msg_EncryptedData (Some payload) c
      | None \<Rightarrow> socket_send a payload c)"

definition receive_verified ::
    "socket_env \<Rightarrow> socket_context \<Rightarrow> secure_connection \<times> socket_cells
     \<Rightarrow> (secure_connection \<times> socket_cells) \<times> (socket_error + verification_result) outcome" where
  "receive_verified env cx s =
     (let (c, cl) = s; (c1, r) = receive_secure_message env c
      in case r of
           Inl e \<Rightarrow> ((c1, cl), Returned (Inl e))
         | Inr m \<Rightarrow> let (cl1, v) = verify_and_decrypt_message env cx m cl in ((c1, cl1), v))"

definition unwrap_or_default :: "string option \<Rightarrow> string" where
  "unwrap_or_default p = (case p of Some s \<Rightarrow> s | None \<Rightarrow> [])"

definition receive_encrypted_data ::
    "socket_env \<Rightarrow> load_answer \<Rightarrow> nat \<Rightarrow> secure_connection \<times> socket_cells
     \<Rightarrow> (secure_connection \<times> socket_cells) \<times> (socket_error + string) outcome" where
  "receive_encrypted_data env a k s =
     (case scn_context (fst s) of
        Some cx \<Rightarrow>
          let (s1, v) = receive_verified env cx s
          in (s1, oc_map (\<lambda>v. unwrap_or_default (vr_payload v)) v)
      | None \<Rightarrow> let (c1, r) = socket_receive a 8192 k (fst s) in ((c1, snd s), Returned r))"

text \<open>Sending the credentials and reading the answer: the first byte of its payload decides.\<close>

definition authenticate ::
    "socket_env \<Rightarrow> socket_env \<Rightarrow> string \<Rightarrow> secure_connection \<times> socket_cells
     \<Rightarrow> (secure_connection \<times> socket_cells) \<times> (socket_error + bool) outcome" where
  "authenticate env env1 credentials s =
     (case (scn_context (fst s), scn_session_id (fst s)) of
        (Some cx, Some _) \<Rightarrow>
          (case send_created env cx Msg_AuthResponse (Some credentials) (fst s) of
             (c1, Inl e) \<Rightarrow> ((c1, snd s), Returned (Inl e))
           | (c1, Inr _) \<Rightarrow>
               let (s1, v) = receive_verified env1 cx (c1, snd s)
               in (s1, oc_map (\<lambda>v. case vr_payload v of Some (b # _) \<Rightarrow> b = char_of (1 :: nat) | _ \<Rightarrow> False) v))
      | _ \<Rightarrow> (s, Returned (Inl Context_Missing)))"

definition send_keep_alive :: "socket_env \<Rightarrow> secure_connection \<Rightarrow> secure_connection \<times> (socket_error + unit)" where
  "send_keep_alive env c = (case scn_context c of Some cx \<Rightarrow> send_created env cx Msg_KeepAlive None c | None \<Rightarrow> (c, Inr ()))"

definition send_session_close :: "socket_env \<Rightarrow> string \<Rightarrow> secure_connection \<Rightarrow> secure_connection \<times> (socket_error + unit)" where
  "send_session_close env reason c =
     (case scn_context c of Some cx \<Rightarrow> send_created env cx Msg_SessionClose (Some reason) c | None \<Rightarrow> (c, Inr ()))"

definition get_session_info :: "secure_connection \<Rightarrow> socket_cells \<Rightarrow> client_session option" where
  "get_session_info c cl =
     (case (scn_context c, scn_session_id c) of (Some _, Some sid) \<Rightarrow> get_session sid cl | _ \<Rightarrow> None)"

definition update_activity :: "socket_env \<Rightarrow> secure_connection \<Rightarrow> socket_cells \<Rightarrow> socket_cells \<times> (socket_error + unit)" where
  "update_activity env c cl =
     (case (scn_context c, scn_session_id c) of
        (Some cx, Some sid) \<Rightarrow> update_session_activity env cx sid cl
      | _ \<Rightarrow> (cl, Inr ()))"

section \<open>Paths, servers and clients\<close>

definition validate_socket_path :: "string \<Rightarrow> socket_error + unit" where
  "validate_socket_path path =
     (if ParentDir \<in> set (path_components path) then Inl (Parent_Reference path)
      else if path_is_absolute path \<and> \<not> path_starts_with path ''/tmp/'' \<and> \<not> path_starts_with path ''/var/run/''
      then Inl (Directory_Refused path)
      else if length path > 255 then Inl (Path_Too_Long path)
      else Inr ())"

definition allowed_socket_directories :: "string list" where
  "allowed_socket_directories =
     [''/tmp/'', ''/var/run/'', ''/var/tmp/'', ''/var/folders/'', ''/private/var/folders/'', ''/run/'']"

definition factory_validate_path :: "string \<Rightarrow> socket_error + unit" where
  "factory_validate_path path =
     (if ParentDir \<in> set (path_components path) then Inl (Parent_Reference path)
      else if path_is_absolute path \<and> \<not> list_ex (path_starts_with path) allowed_socket_directories
      then Inl (Directory_Refused path)
      else if length path > 255 then Inl (Path_Too_Long path)
      else if list_ex (\<lambda>ch. ch \<in> set path) [CHR 0x00, CHR 0x0A, CHR 0x0D] then Inl (Path_Unsafe path)
      else Inr ())"

definition start_executor :: "load_answer \<Rightarrow> seccomp_profile option \<Rightarrow> live_filter option" where
  "start_executor a profile = map_option (\<lambda>p. filter_initialize a (executor_new p)) profile"

record secure_server =
  sv_executor :: "live_filter option"
  sv_context :: "socket_context option"

text \<open>The system's answers are arguments: whether the path exists, and the outcome of removing it and of binding.\<close>

definition bind_socket :: "string \<Rightarrow> bool \<Rightarrow> bool \<Rightarrow> bool \<Rightarrow> socket_error + unit" where
  "bind_socket path exists removed bound =
     (if exists \<and> \<not> removed then Inl (Os_Error ''Failed to remove existing socket'')
      else if \<not> bound then Inl (Os_Error ''Failed to bind to socket'')
      else Inr ())"

definition secure_server_new ::
    "load_answer \<Rightarrow> string \<Rightarrow> seccomp_profile option \<Rightarrow> bool \<Rightarrow> bool \<Rightarrow> bool \<Rightarrow> socket_error + secure_server" where
  "secure_server_new a path profile exists removed bound =
     and_then (bind_socket path exists removed bound)
       (\<lambda>_. Inr \<lparr> sv_executor = start_executor a profile, sv_context = None \<rparr>)"

definition create_secure_server ::
    "load_answer \<Rightarrow> string \<Rightarrow> seccomp_profile option \<Rightarrow> socket_context option \<Rightarrow> bool \<Rightarrow> bool \<Rightarrow> bool \<Rightarrow> socket_error + secure_server" where
  "create_secure_server a path profile context_of exists removed bound =
     and_then (bind_socket path exists removed bound)
       (\<lambda>_. Inr \<lparr> sv_executor = start_executor a profile, sv_context = context_of \<rparr>)"

definition connection_new :: "live_filter option \<Rightarrow> socket_context option \<Rightarrow> string \<Rightarrow> secure_connection" where
  "connection_new executor context_of sender =
     \<lparr> scn_input = [], scn_output = [], scn_executor = executor, scn_context = context_of, scn_session_id = None, scn_sender_id = sender \<rparr>"

text \<open>Accepting: the address of the peer has a path only when the peer has bound its own socket.\<close>

definition validate_connection :: "string option \<Rightarrow> socket_error + unit" where
  "validate_connection peer = (case peer of Some path \<Rightarrow> validate_socket_path path | None \<Rightarrow> Inr ())"

definition server_accept :: "secure_server \<Rightarrow> string option \<Rightarrow> socket_error + secure_connection" where
  "server_accept s peer =
     and_then (validate_connection peer) (\<lambda>_. Inr (connection_new (sv_executor s) (sv_context s) ''server''))"

definition factory_connect :: "load_answer \<Rightarrow> string \<Rightarrow> seccomp_profile option \<Rightarrow> bool \<Rightarrow> socket_error + secure_connection" where
  "factory_connect a path profile reached =
     and_then (factory_validate_path path)
       (\<lambda>_. if \<not> reached then Inl (Os_Error ''Failed to connect to socket'')
             else Inr (connection_new (start_executor a profile) None ''client''))"

definition connect_secure ::
    "load_answer \<Rightarrow> string \<Rightarrow> seccomp_profile option \<Rightarrow> socket_context option \<Rightarrow> string \<Rightarrow> bool \<Rightarrow> socket_error + secure_connection" where
  "connect_secure a path profile context_of sender reached =
     and_then (factory_validate_path path)
       (\<lambda>_. if \<not> reached then Inl (Os_Error ''Failed to connect to socket'')
             else Inr (connection_new (start_executor a profile) context_of sender))"

text \<open>Permissions: whether the path exists, its mode when it can be read, and whether it is a socket.\<close>

definition validate_socket_permissions :: "string \<Rightarrow> bool \<Rightarrow> (u32 \<times> bool) option \<Rightarrow> socket_error + unit" where
  "validate_socket_permissions path exists meta =
     (if \<not> exists then Inl (Socket_Missing path)
      else case meta of
             None \<Rightarrow> Inl (Os_Error ''Failed to get socket metadata'')
           | Some (mode, socket) \<Rightarrow>
               if \<not> socket then Inl (Not_A_Socket path)
               else (let user = and mode 448; grp = and mode 56; other = and mode 7
                     in if and user 384 \<noteq> 384 then Inl (Owner_Permissions path)
                        else if and grp 1 \<noteq> 0 \<or> and other 1 \<noteq> 0 then Inl (Execute_Permissions path)
                        else Inr ()))"

definition validate_socket_ownership :: "u32 \<Rightarrow> u32 option \<Rightarrow> socket_error + unit" where
  "validate_socket_ownership current owner =
     (case owner of
        None \<Rightarrow> Inl (Os_Error ''Failed to get socket metadata'')
      | Some uid \<Rightarrow> if uid \<noteq> 0 \<and> uid \<noteq> current then Inl (Wrong_Owner uid current) else Inr ())"

section \<open>Permissions and paths\<close>

text \<open>
  a socket passes when its owner may read and write it and others may not execute it: the bit of the group is tested
  in a mask that does not have it, and write permissions of group and others are only logged.
\<close>

theorem socket_permissions_exact:
  "is_ok (validate_socket_permissions path exists meta) \<longleftrightarrow>
   exists \<and> (\<exists>mode. meta = Some (mode, True) \<and> and mode 384 = 384 \<and> and mode 1 = 0)"
proof -
  have "and (and mode 448) 384 = and mode 384" "and (and mode 56) 1 = 0" "and (and mode 7) 1 = and mode 1" for mode :: u32
    by (simp_all add: and.assoc)
  then show ?thesis
    by (auto simp: validate_socket_permissions_def is_ok_def Let_def split: option.splits prod.splits if_splits)
qed

section \<open>Frames\<close>

lemma read_write_u32 [simp]: "read_u32 (write_u32 n @ s) = Some (n, s)"
proof -
  let ?N = "unat n"
  have q: "?N div 65536 = ?N div 256 div 256" "?N div 16777216 = ?N div 256 div 256 div 256"
    by (simp_all add: div_mult2_eq [symmetric])
  have top: "?N div 256 div 256 div 256 < 256"
    using unsigned_less [of n, where 'a = nat] by (simp add: div_mult2_eq [symmetric] less_mult_imp_div_less)
  have eq: "((?N div 16777216 mod 256 * 256 + ?N div 65536 mod 256) * 256 + ?N div 256 mod 256) * 256 + ?N mod 256 = ?N"
    unfolding q using top div_mult_mod_eq [of ?N 256] div_mult_mod_eq [of "?N div 256" 256]
      div_mult_mod_eq [of "?N div 256 div 256" 256]
    by simp
  have "read_u32 (write_u32 n @ s) =
    Some (of_nat (((?N div 16777216 mod 256 * 256 + ?N div 65536 mod 256) * 256 + ?N div 256 mod 256) * 256 + ?N mod 256), s)"
    by (simp add: write_u32_def unat_drop_bit_eq drop_bit_eq_div unat_div del: of_nat_add of_nat_mult)
  then show ?thesis unfolding eq by simp
qed

definition sent_to :: "(secure_connection \<Rightarrow> secure_connection) \<Rightarrow> secure_connection \<Rightarrow> secure_connection \<Rightarrow> secure_connection" where
  "sent_to f c peer = peer\<lparr>scn_input := drop (length (scn_output c)) (scn_output (f c)) @ scn_input peer\<rparr>"

lemma receive_sent_frame:
  assumes "length b < 2 ^ 32"
  shows "receive_frame limit (sent_to (send_frame b) c peer) =
    (if of_nat (length b) > limit then (peer\<lparr>scn_input := b @ scn_input peer\<rparr>, Inl (Frame_Too_Large (of_nat (length b))))
     else (peer, Inr b))"
proof -
  have "unat (of_nat (length b) :: u32) = length b" using assms by (simp add: unat_of_nat)
  then show ?thesis by (simp add: receive_frame_def sent_to_def send_frame_def read_exact_def)
qed

text \<open>
  a text message arrives when it has at most 1 MiB; a longer one is sent without an error, the receiver refuses its
  length, and its bytes stay in the stream, where the next read takes them for a length.
\<close>

theorem message_framing:
  assumes "length m < 2 ^ 32" "utf8_ok m"
  shows "receive_text_message (sent_to (send_text_message m) c peer) =
    (if length m \<le> 1024 * 1024 then (peer, Inr m)
     else (peer\<lparr>scn_input := m @ scn_input peer\<rparr>, Inl (Frame_Too_Large (of_nat (length m)))))"
proof -
  have "(of_nat (length m) :: u32) > 1024 * 1024 \<longleftrightarrow> length m > 1024 * 1024"
    using assms(1) by (simp add: word_less_nat_alt unat_of_nat)
  then show ?thesis
    using receive_sent_frame [OF assms(1), of "1024 * 1024" c peer] assms(2)
    by (simp add: receive_text_message_def send_text_message_def [abs_def] not_le)
qed

section \<open>Authenticated messages\<close>

lemma created_message:
  assumes "create_secure_message env cx ty payload sender = Inr m"
  shows "sm_message_type m = ty" "sm_message_id m = so_uuid env" "sm_timestamp m = so_now env" "sm_sender_id m = sender"
    "sm_metadata m = message_metadata env cx" "encrypt_payload env cx payload = Inr (sm_encrypted_payload m)"
    "sm_mac m = calculate_message_mac env cx m"
  using assms by (auto simp: create_secure_message_def Let_def calculate_message_mac_def split: sum.splits
      elim!: and_then.elims)

definition same_hashing :: "socket_env \<Rightarrow> socket_env \<Rightarrow> bool" where
  "same_hashing env env' = (so_crypto env' = so_crypto env \<and> so_debug env' = so_debug env)"

text \<open>A message is in time when its age is at most the timeout.\<close>

definition in_time :: "socket_env \<Rightarrow> socket_context \<Rightarrow> secure_message \<Rightarrow> bool" where
  "in_time env cx m = (age_seconds (so_now env - sm_timestamp m) \<le> sint (ssc_message_timeout (scx_config cx)))"

lemma mac_cong:
  assumes "same_hashing env env'" "scx_auth_key cx' = scx_auth_key cx" "sm_message_id m' = sm_message_id m"
    "sm_timestamp m' = sm_timestamp m" "sm_sender_id m' = sm_sender_id m" "sm_message_type m' = sm_message_type m"
    "sm_metadata m' = sm_metadata m"
  shows "calculate_message_mac env' cx' m' = calculate_message_mac env cx m"
  using assms by (simp add: calculate_message_mac_def same_hashing_def)

lemma decrypt_created:
  assumes ok: "crypto_ok (so_crypto env)" and same: "so_crypto env' = so_crypto env" and len: "length (so_nonce env) = 12"
    and enc: "encrypt_payload env cx payload = Inr (sm_encrypted_payload m)" and on: "ssc_enable_encryption (scx_config cx)"
  shows "decrypt_payload env' cx m = Returned (Inr payload)"
proof (cases payload)
  case None
  with enc show ?thesis by (simp add: encrypt_payload_def decrypt_payload_def)
next
  case (Some p)
  with enc on obtain d where d: "encrypt_with (so_crypto env) ChaCha20Poly1305 (so_nonce env) (so_created_at env) p
      (scx_encryption_key cx) = Inr d" "sm_encrypted_payload m = Some d"
    by (auto simp: encrypt_payload_def elim!: and_then.elims map_err.elims)
  from decrypt_encrypted [OF ok len d(1)] d(2) on Some same show ?thesis by (simp add: decrypt_payload_def)
qed

text \<open>C32: 
  the code of a message does not cover its payload: a message whose payload has been replaced by that of another
  message of the same context is accepted, with the type and the sender of the first and the data of the second.
\<close>

theorem spliced_message_accepted:
  assumes "create_secure_message env1 cx ty1 p1 sender1 = Inr m1" "create_secure_message env2 cx ty2 p2 sender2 = Inr m2"
    and "crypto_ok (so_crypto env1)" "length (so_nonce env2) = 12" "same_hashing env1 env2" "same_hashing env1 env"
    and "ssc_enable_encryption (scx_config cx)" "in_time env cx m1" "\<not> is_replay cl m1"
  shows "snd (verify_and_decrypt_message env cx (m1\<lparr>sm_encrypted_payload := sm_encrypted_payload m2\<rparr>) cl) =
    Returned (Inr \<lparr> vr_message_type = ty1, vr_payload = p2, vr_sender_id = sender1, vr_verified = True \<rparr>)"
proof -
  let ?m = "m1\<lparr>sm_encrypted_payload := sm_encrypted_payload m2\<rparr>"
  note m1 = created_message [OF assms(1)] and m2 = created_message [OF assms(2)]
  have "verify_message_mac env cx ?m"
    using m1(7) mac_cong [OF assms(6), of cx cx ?m m1] by (simp add: verify_message_mac_def)
  moreover have "decrypt_payload env cx ?m = Returned (Inr p2)"
    using assms(3,5,6,7) by (intro decrypt_created [OF _ _ assms(4)]) (simp_all add: m2(6) same_hashing_def)
  ultimately show ?thesis
    using assms(8,9) m1(1,4) by (simp add: verify_and_decrypt_message_def Let_def in_time_def is_replay_def not_less)
qed


text \<open>The text that is hashed.\<close>

definition mac_text :: "socket_env \<Rightarrow> socket_context \<Rightarrow> secure_message \<Rightarrow> string" where
  "mac_text env cx m =
     scx_auth_key cx @ sm_message_id m @ '':'' @ show_int (timestamp_nanos (sm_timestamp m)) @ '':'' @ sm_sender_id m @ '':''
       @ show_nat (as_u8 (sm_message_type m)) @ '':'' @ so_debug env (sm_metadata m)"

definition no_collision :: "crypto \<Rightarrow> string \<Rightarrow> string \<Rightarrow> bool" where
  "no_collision cy a b = (cy_sha256 cy a = cy_sha256 cy b \<longrightarrow> a = b)"

lemma mac_of_text:
  "calculate_message_mac env cx m = cy_hex_encode (so_crypto env) (cy_sha256 (so_crypto env) (mac_text env cx m))"
  by (simp add: calculate_message_mac_def mac_text_def)

lemma mac_differs:
  assumes "crypto_ok (so_crypto env)" "so_crypto env' = so_crypto env" "mac_text env cx m \<noteq> mac_text env' cx' m'"
    "no_collision (so_crypto env) (mac_text env cx m) (mac_text env' cx' m')"
  shows "calculate_message_mac env cx m \<noteq> calculate_message_mac env' cx' m'"
proof -
  have "cy_hex_encode (so_crypto env) a = cy_hex_encode (so_crypto env) b \<Longrightarrow> a = b" for a b
    using assms(1) unfolding crypto_ok_def by (metis option.inject)
  then show ?thesis
    using assms(2-4) by (auto simp: mac_of_text no_collision_def)
qed

text \<open>
  honest messages are refused: by every context that was made for another endpoint, since each draws keys of its own
  and nothing exchanges them; and by a receiver whose map yields the metadata in another order, since the code of a
  message is taken over the printed map.  SHA-256 is supposed to have no collision on the texts at hand.
\<close>

theorem honest_message_refused:
  assumes "create_secure_message env cx ty payload sender = Inr m" "crypto_ok (so_crypto env)" "same_hashing env env'"
    and "in_time env' cx' m" "m' = m\<lparr>sm_metadata := so_order env' (sm_metadata m)\<rparr>"
    and "no_collision (so_crypto env) (mac_text env cx m) (mac_text env' cx' m')"
    and "(scx_auth_key cx' \<noteq> scx_auth_key cx \<and> length (scx_auth_key cx') = length (scx_auth_key cx))
       \<or> (scx_auth_key cx' = scx_auth_key cx \<and> so_debug env (sm_metadata m') \<noteq> so_debug env (sm_metadata m))"
  shows "verify_and_decrypt_message env' cx' m' cl = (cl, Returned (Inl Mac_Invalid))"
proof -
  have same: "so_crypto env' = so_crypto env" "so_debug env' = so_debug env" using assms(3) by (simp_all add: same_hashing_def)
  have "mac_text env cx m \<noteq> mac_text env' cx' m'"
    using assms(5,7) same by (auto simp: mac_text_def)
  from mac_differs [OF assms(2) same(1) this assms(6)] have "\<not> verify_message_mac env' cx' m'"
    using created_message(7) [OF assms(1)] assms(5) by (simp add: verify_message_mac_def)
  then show ?thesis
    using assms(4,5) by (simp add: verify_and_decrypt_message_def Let_def in_time_def not_less)
qed

text \<open>without encryption the payload is dropped: the message that is sent is the one without data.\<close>

theorem unencrypted_payload_lost:
  assumes "\<not> ssc_enable_encryption (scx_config cx)"
  shows "create_secure_message env cx ty payload sender = create_secure_message env cx ty None sender"
  using assms by (simp add: create_secure_message_def encrypt_payload_def split: option.splits)

section \<open>The rate limit\<close>

fun run_updates :: "socket_env list \<Rightarrow> socket_context \<Rightarrow> string \<Rightarrow> socket_cells \<Rightarrow> (socket_error + unit) list" where
  "run_updates [] cx sid cl = []"
| "run_updates (env # envs) cx sid cl =
     (let (cl1, r) = update_session_activity env cx sid cl in r # run_updates envs cx sid cl1)"

lemma run_updates_nth:
  assumes "hm_get (cel_sessions cl) sid = Some s" "unat (cs_message_count s) + length envs < 2 ^ 64" "k < length envs"
  shows "run_updates envs cx sid cl ! k =
    (if unat (cs_message_count s) + k < unat (ssc_rate_limit (scx_config cx)) then Inr () else Inl (Rate_Exceeded sid))"
  using assms
proof (induction envs arbitrary: cl s k)
  case (Cons env envs)
  let ?s1 = "s\<lparr>cs_last_activity := so_now env, cs_message_count := cs_message_count s + 1\<rparr>"
  let ?cl1 = "cl\<lparr>cel_sessions := hm_insert sid ?s1 (cel_sessions cl)\<rparr>"
  have inc: "unat (cs_message_count s + 1) = Suc (unat (cs_message_count s))"
    using Cons.prems(2) by (simp add: unat_word_ariths)
  have step: "update_session_activity env cx sid cl = (?cl1,
      if cs_message_count s + 1 > ucast (ssc_rate_limit (scx_config cx)) then Inl (Rate_Exceeded sid) else Inr ())"
    using Cons.prems(1) by (simp add: update_session_activity_def Let_def)
  have lim: "take_bit 64 (unat (ssc_rate_limit (scx_config cx))) = unat (ssc_rate_limit (scx_config cx))"
    using unsigned_less [of "ssc_rate_limit (scx_config cx)", where 'a = nat] by (intro take_bit_nat_eq_self) simp
  have over: "cs_message_count s + 1 > ucast (ssc_rate_limit (scx_config cx)) \<longleftrightarrow>
      \<not> unat (cs_message_count s) < unat (ssc_rate_limit (scx_config cx))"
    by (simp add: word_less_nat_alt inc unsigned_ucast_eq lim not_less less_Suc_eq_le)
  show ?case
  proof (cases k)
    case 0
    then show ?thesis using over by (simp add: step)
  next
    case (Suc j)
    have "run_updates envs cx sid ?cl1 ! j =
      (if unat (cs_message_count ?s1) + j < unat (ssc_rate_limit (scx_config cx)) then Inr () else Inl (Rate_Exceeded sid))"
      using Cons.prems(2,3) Suc by (intro Cons.IH) (simp_all add: hm.get_insert inc)
    with Suc show ?thesis by (simp add: step inc)
  qed
qed simp

text \<open>
  the rate limit counts the messages of a session's whole life: however far apart they are, the first \<open>rate_limit\<close>
  pass and every later one is refused.
\<close>

theorem rate_limit_is_lifetime:
  assumes "cs_message_count s = 0" "hm_get (cel_sessions cl) sid = Some s" "length envs < 2 ^ 64" "k < length envs"
  shows "run_updates envs cx sid cl ! k =
    (if k < unat (ssc_rate_limit (scx_config cx)) then Inr () else Inl (Rate_Exceeded sid))"
  using run_updates_nth [OF assms(2), of envs k cx] assms by simp

section \<open>Examples\<close>

definition sample_socket_env :: "instant \<Rightarrow> string \<Rightarrow> socket_env" where
  "sample_socket_env now uuid =
     \<lparr> so_now = now, so_uuid = uuid, so_nonce = replicate 12 CHR ''n'', so_created_at = [], so_crypto = crypto_sample,
       so_order = (\<lambda>m. m), so_debug = (\<lambda>m. concat (map fst m)), so_serialize = (\<lambda>_. []), so_deserialize = (\<lambda>_. None) \<rparr>"

definition sample_context :: "char \<Rightarrow> socket_context" where
  "sample_context k = fst (socket_context_new socket_security_default (replicate 32 k) (replicate 32 k))"

definition sample_message :: "string \<Rightarrow> secure_message_type \<Rightarrow> string \<Rightarrow> socket_error + secure_message" where
  "sample_message uuid ty payload =
     create_secure_message (sample_socket_env 0 uuid) (sample_context CHR ''k'') ty (Some payload) ''client''"

lemma sample_created: "\<exists>m. sample_message uuid ty p = Inr m"
  by (simp add: sample_message_def create_secure_message_def encrypt_payload_def encrypt_with_def sample_context_def
      socket_context_new_def socket_security_default_def sample_socket_env_def crypto_sample_def Let_def)

lemma sample_in_time:
  "sm_timestamp m = 0 \<Longrightarrow> in_time (sample_socket_env 0 u) (sample_context k) m"
  by (simp add: in_time_def sample_socket_env_def sample_context_def socket_context_new_def socket_security_default_def age_seconds_def)

lemma sample_env_facts:
  "crypto_ok (so_crypto (sample_socket_env t u))" "length (so_nonce (sample_socket_env t u)) = 12"
  "same_hashing (sample_socket_env t u) (sample_socket_env t' u')" "ssc_enable_encryption (scx_config (sample_context k))"
  "ssc_enable_replay_protection (scx_config (sample_context k))"
  "\<not> is_replay (snd (socket_context_new c a b)) m"
  by (simp_all add: sample_socket_env_def crypto_sample_ok same_hashing_def sample_context_def socket_context_new_def
      socket_security_default_def is_replay_def hm.get_empty)

theorem spliced_message_accepted_witness:
  "\<exists>m1 m2. sample_message ''1'' Msg_KeepAlive ''a'' = Inr m1 \<and> sample_message ''2'' Msg_EncryptedData ''b'' = Inr m2
     \<and> snd (verify_and_decrypt_message (sample_socket_env 0 ''3'') (sample_context CHR ''k'')
         (m1\<lparr>sm_encrypted_payload := sm_encrypted_payload m2\<rparr>) (snd (socket_context_new socket_security_default [] []))) =
       Returned (Inr \<lparr> vr_message_type = Msg_KeepAlive, vr_payload = Some ''b'', vr_sender_id = ''client'', vr_verified = True \<rparr>)"
proof -
  obtain m1 m2 where m: "sample_message ''1'' Msg_KeepAlive ''a'' = Inr m1" "sample_message ''2'' Msg_EncryptedData ''b'' = Inr m2"
    using sample_created by blast
  have t: "sm_timestamp m1 = 0" using created_message(3) [OF m(1) [unfolded sample_message_def]] by (simp add: sample_socket_env_def)
  from spliced_message_accepted [OF m [unfolded sample_message_def] sample_env_facts(1,2,3,3,4) sample_in_time [OF t] sample_env_facts(6)] m
  show ?thesis by blast
qed


theorem honest_message_refused_witness:
  "\<exists>m. sample_message ''1'' Msg_EncryptedData ''a'' = Inr m
     \<and> verify_and_decrypt_message (sample_socket_env 0 ''3'') (sample_context CHR ''q'') m (snd (socket_context_new socket_security_default [] []))
       = (snd (socket_context_new socket_security_default [] []), Returned (Inl Mac_Invalid))"
proof -
  obtain m where m: "sample_message ''1'' Msg_EncryptedData ''a'' = Inr m" using sample_created by blast
  have t: "sm_timestamp m = 0" using created_message(3) [OF m [unfolded sample_message_def]] by (simp add: sample_socket_env_def)
  have o: "m = m\<lparr>sm_metadata := so_order (sample_socket_env 0 ''3'') (sm_metadata m)\<rparr>" by (simp add: sample_socket_env_def)
  have h: "no_collision (so_crypto (sample_socket_env 0 ''1'')) a b" for a b
    by (simp add: no_collision_def sample_socket_env_def crypto_sample_def)
  have k: "scx_auth_key (sample_context CHR ''q'') \<noteq> scx_auth_key (sample_context CHR ''k'')
     \<and> length (scx_auth_key (sample_context CHR ''q'')) = length (scx_auth_key (sample_context CHR ''k''))"
    by (simp add: sample_context_def socket_context_new_def)
  from honest_message_refused [OF m [unfolded sample_message_def] sample_env_facts(1,3) sample_in_time [OF t] o h disjI1 [OF k]] m
  show ?thesis by blast
qed

theorem message_framing_witness:
  "receive_text_message (sent_to (send_text_message ''hi'') (connection_new None None ''client'') (connection_new None None ''server'')) =
     (connection_new None None ''server'', Inr ''hi'')"
  by (subst message_framing) (simp_all add: byte_in_def char_code_def)

theorem unencrypted_payload_lost_witness:
  "let cx = fst (socket_context_new (socket_security_default\<lparr>ssc_enable_encryption := False\<rparr>) ''e'' ''a'')
   in create_secure_message (sample_socket_env 0 ''1'') cx Msg_EncryptedData (Some ''secret'') ''client''
      = create_secure_message (sample_socket_env 0 ''1'') cx Msg_EncryptedData None ''client''"
  unfolding Let_def by (rule unencrypted_payload_lost) (simp add: socket_context_new_def)

theorem rate_limit_is_lifetime_witness:
  "run_updates [sample_socket_env 0 [], sample_socket_env 3600000000000 []]
     (fst (socket_context_new (socket_security_default\<lparr>ssc_rate_limit := 1\<rparr>) [] [])) ''s''
     (fst (create_session (sample_socket_env 0 ''s'') None None (snd (socket_context_new socket_security_default [] [])))) ! 1
   = Inl (Rate_Exceeded ''s'')"
proof -
  let ?cl = "fst (create_session (sample_socket_env 0 ''s'') None None (snd (socket_context_new socket_security_default [] [])))"
  obtain s where s: "cs_message_count s = 0" "hm_get (cel_sessions ?cl) ''s'' = Some s"
    by (fastforce simp: create_session_def sample_socket_env_def hm.get_insert)
  from rate_limit_is_lifetime [OF s, of "[sample_socket_env 0 [], sample_socket_env 3600000000000 []]" 1
      "fst (socket_context_new (socket_security_default\<lparr>ssc_rate_limit := 1\<rparr>) [] [])"]
  show ?thesis by (simp add: socket_context_new_def)
qed

end
