(* ===== verification/Process_Isolation.thy ===== *)
theory Process_Isolation
  imports Path_Security
begin

text \<open>
  \<open>src/security/process_isolation.rs\<close> on Linux: the configuration of namespaces, what the isolated child does before
  it runs its command, the command line for \<open>unshare\<close>, the list of processes, and the sandbox.

  The operating system is the record \<open>os\<close>: whether a call succeeds after the calls already made, whether a path
  exists by then, the canonical form of a path, the exit of a program, and the answer to a signal.
\<close>

section \<open>Configuration\<close>

record isolation_mount =
  imt_source :: string
  imt_target :: string
  imt_fs_type :: string
  imt_options :: "string list"
  imt_read_only :: bool
  imt_create_target :: bool

record network_config =
  nwc_interface :: string
  nwc_ip_address :: string
  nwc_netmask :: string
  nwc_gateway :: "string option"

record namespace_config =
  nc_pid_namespace :: bool
  nc_mount_namespace :: bool
  nc_network_namespace :: bool
  nc_uts_namespace :: bool
  nc_ipc_namespace :: bool
  nc_user_namespace :: bool
  nc_cgroup_namespace :: bool
  nc_hostname :: "string option"
  nc_root_dir :: "string option"
  nc_drop_uid :: "u32 option"
  nc_drop_gid :: "u32 option"
  nc_mount_points :: "isolation_mount list"
  nc_network_config :: "network_config option"

definition namespace_default :: namespace_config where
  "namespace_default =
     \<lparr> nc_pid_namespace = True, nc_mount_namespace = True, nc_network_namespace = False, nc_uts_namespace = True,
       nc_ipc_namespace = True, nc_user_namespace = False, nc_cgroup_namespace = False,
       nc_hostname = Some ''fuji-isolated'', nc_root_dir = None, nc_drop_uid = None, nc_drop_gid = None,
       nc_mount_points = [], nc_network_config = None \<rparr>"

datatype process_status = Proc_Running | Proc_Completed | Proc_Failed | Proc_Killed

record isolated_process =
  ipr_pid :: u32
  ipr_config :: namespace_config
  ipr_created_at :: instant
  ipr_status :: process_status

record process_isolator =
  isl_config :: namespace_config
  isl_processes :: "isolated_process list"

definition process_isolator_new :: "namespace_config \<Rightarrow> process_isolator" where
  "process_isolator_new c = \<lparr> isl_config = c, isl_processes = [] \<rparr>"

section \<open>The child\<close>

datatype ms_flag = MS_RDONLY | MS_NOSUID | MS_NODEV | MS_NOEXEC | MS_REC | MS_PRIVATE

datatype os_action =
    Set_Hostname string
  | Mount_Fs "string option" string "string option" "ms_flag set" "string option"
  | Create_Dir_All string
  | Create_Dir string
  | Set_Mode string nat
  | Change_Root string
  | Change_Dir string
  | Run_Ip "string list"
  | Set_Uid u32
  | Set_Gid u32
  | Run_Program string "string list"

datatype program_exit = Exit_Code int | Exit_Signal | Not_Started

record os =
  os_succeeds :: "os_action list \<Rightarrow> os_action \<Rightarrow> bool"
  os_exists :: "os_action list \<Rightarrow> string \<Rightarrow> bool"
  os_canonical :: "string \<Rightarrow> string option"
  os_exit :: "string \<Rightarrow> string list \<Rightarrow> program_exit"

datatype isolation_error = Action_Failed os_action | Root_Missing string | Root_Unresolved string

type_synonym run = "os_action list \<times> (isolation_error + unit)"

definition perform :: "os \<Rightarrow> os_action \<Rightarrow> os_action list \<Rightarrow> run" where
  "perform os a tr = (tr @ [a], if os_succeeds os tr a then Inr () else Inl (Action_Failed a))"

definition then_do :: "run \<Rightarrow> (os_action list \<Rightarrow> run) \<Rightarrow> run" where
  "then_do r f = (case r of (tr, Inl e) \<Rightarrow> (tr, Inl e) | (tr, Inr _) \<Rightarrow> f tr)"

fun perform_all :: "os \<Rightarrow> os_action list \<Rightarrow> os_action list \<Rightarrow> run" where
  "perform_all os [] tr = (tr, Inr ())"
| "perform_all os (a # as) tr = then_do (perform os a tr) (perform_all os as)"

definition new_directory :: "string \<Rightarrow> os_action list" where
  "new_directory path = [Create_Dir path, Set_Mode path 493]"

definition ensure_directory :: "os \<Rightarrow> string \<Rightarrow> os_action list \<Rightarrow> run" where
  "ensure_directory os path tr = (if os_exists os tr path then (tr, Inr ()) else perform_all os (new_directory path) tr)"

fun option_flag :: "string \<Rightarrow> ms_flag option" where
  "option_flag opt =
     (if opt = ''noexec'' then Some MS_NOEXEC else if opt = ''nosuid'' then Some MS_NOSUID
      else if opt = ''nodev'' then Some MS_NODEV else if opt = ''ro'' then Some MS_RDONLY else None)"

definition mount_flags :: "isolation_mount \<Rightarrow> ms_flag set" where
  "mount_flags m = set (List.map_filter option_flag (imt_options m)) \<union> (if imt_read_only m then {MS_RDONLY} else {})"

definition push_option :: "string \<Rightarrow> string \<Rightarrow> string" where
  "push_option opt s = (if s = [] then opt else s @ '','' @ opt)"

definition mount_option_text :: "isolation_mount \<Rightarrow> string" where
  "mount_option_text m = fold push_option (filter (\<lambda>opt. option_flag opt = None) (imt_options m)) []"

definition create_isolated_point :: "os \<Rightarrow> isolation_mount \<Rightarrow> os_action list \<Rightarrow> run" where
  "create_isolated_point os m tr =
     then_do
       (if imt_create_target m
        then then_do (case path_parent (imt_target m) of Some p \<Rightarrow> perform os (Create_Dir_All p) tr | None \<Rightarrow> (tr, Inr ()))
               (ensure_directory os (imt_target m))
        else (tr, Inr ()))
       (perform os (Mount_Fs (Some (imt_source m)) (imt_target m) (Some (imt_fs_type m)) (mount_flags m) (Some (mount_option_text m))))"

fun create_isolated_points :: "os \<Rightarrow> isolation_mount list \<Rightarrow> os_action list \<Rightarrow> run" where
  "create_isolated_points os [] tr = (tr, Inr ())"
| "create_isolated_points os (m # ms) tr = then_do (create_isolated_point os m tr) (create_isolated_points os ms)"

definition setup_chroot :: "os \<Rightarrow> string \<Rightarrow> os_action list \<Rightarrow> run" where
  "setup_chroot os root tr =
     (if \<not> os_exists os tr root then (tr, Inl (Root_Missing root))
      else case os_canonical os root of
             None \<Rightarrow> (tr, Inl (Root_Unresolved root))
           | Some r \<Rightarrow>
               then_do (then_do (then_do (ensure_directory os (path_join r ''dev'') tr)
                 (ensure_directory os (path_join r ''proc''))) (ensure_directory os (path_join r ''sys'')))
                 (perform_all os [Mount_Fs (Some ''none'') (path_join r ''proc'') (Some ''proc'') {} None, Change_Root r, Change_Dir ''/'']))"

definition setup_mount_namespace :: "os \<Rightarrow> namespace_config \<Rightarrow> os_action list \<Rightarrow> run" where
  "setup_mount_namespace os c tr =
     then_do (then_do (perform os (Mount_Fs None ''/'' None {MS_REC, MS_PRIVATE} None) tr)
       (create_isolated_points os (nc_mount_points c)))
       (\<lambda>tr. case nc_root_dir c of Some r \<Rightarrow> setup_chroot os r tr | None \<Rightarrow> (tr, Inr ()))"

definition network_commands :: "network_config \<Rightarrow> os_action list" where
  "network_commands n =
     [Run_Ip [''link'', ''set'', ''lo'', ''up''], Run_Ip [''link'', ''set'', nwc_interface n, ''up''],
      Run_Ip [''addr'', ''add'', nwc_ip_address n @ ''/'' @ nwc_netmask n, ''dev'', nwc_interface n]]
     @ (case nwc_gateway n of Some g \<Rightarrow> [Run_Ip [''route'', ''add'', ''default'', ''via'', g]] | None \<Rightarrow> [])"

definition setup_network_namespace :: "os \<Rightarrow> namespace_config \<Rightarrow> os_action list \<Rightarrow> run" where
  "setup_network_namespace os c tr =
     (case nc_network_config c of Some n \<Rightarrow> perform_all os (network_commands n) tr | None \<Rightarrow> (tr, Inr ()))"

definition when_do :: "bool \<Rightarrow> (os_action list \<Rightarrow> run) \<Rightarrow> os_action list \<Rightarrow> run" where
  "when_do b f tr = (if b then f tr else (tr, Inr ()))"

definition perform_opt :: "os \<Rightarrow> ('a \<Rightarrow> os_action) \<Rightarrow> 'a option \<Rightarrow> os_action list \<Rightarrow> run" where
  "perform_opt os f x tr = (case x of Some v \<Rightarrow> perform os (f v) tr | None \<Rightarrow> (tr, Inr ()))"

definition setup_namespaces :: "os \<Rightarrow> namespace_config \<Rightarrow> run" where
  "setup_namespaces os c =
     then_do (then_do (then_do (then_do
       (when_do (nc_uts_namespace c) (perform_opt os Set_Hostname (nc_hostname c)) [])
       (when_do (nc_mount_namespace c) (setup_mount_namespace os c)))
       (when_do (nc_network_namespace c) (setup_network_namespace os c)))
       (perform_opt os Set_Uid (nc_drop_uid c)))
       (perform_opt os Set_Gid (nc_drop_gid c))"

definition isolated_program :: "namespace_config \<Rightarrow> string \<Rightarrow> string" where
  "isolated_program c cmd = (case nc_root_dir c of Some r \<Rightarrow> path_join r cmd | None \<Rightarrow> cmd)"

definition exit_value :: "program_exit \<Rightarrow> int" where
  "exit_value e = (case e of Exit_Code n \<Rightarrow> n | Exit_Signal \<Rightarrow> 1 | Not_Started \<Rightarrow> 1)"

definition isolated_process_main :: "os \<Rightarrow> namespace_config \<Rightarrow> string \<Rightarrow> string list \<Rightarrow> os_action list \<times> int" where
  "isolated_process_main os c cmd args =
     (case setup_namespaces os c of
        (tr, Inl e) \<Rightarrow> (tr, 1)
      | (tr, Inr _) \<Rightarrow>
          let p = isolated_program c cmd in (tr @ [Run_Program p args], exit_value (os_exit os p args)))"

section \<open>The processes\<close>

datatype clone_flag = CLONE_NEWPID | CLONE_NEWNS | CLONE_NEWNET | CLONE_NEWUTS | CLONE_NEWIPC | CLONE_NEWUSER | CLONE_NEWCGROUP

definition flag_if :: "bool \<Rightarrow> 'a list \<Rightarrow> 'a list" where
  "flag_if b xs = (if b then xs else [])"

definition build_clone_flags :: "namespace_config \<Rightarrow> clone_flag set" where
  "build_clone_flags c =
     set (flag_if (nc_pid_namespace c) [CLONE_NEWPID] @ flag_if (nc_mount_namespace c) [CLONE_NEWNS]
       @ flag_if (nc_network_namespace c) [CLONE_NEWNET] @ flag_if (nc_uts_namespace c) [CLONE_NEWUTS]
       @ flag_if (nc_ipc_namespace c) [CLONE_NEWIPC] @ flag_if (nc_user_namespace c) [CLONE_NEWUSER]
       @ flag_if (nc_cgroup_namespace c) [CLONE_NEWCGROUP])"

definition record_process :: "instant \<Rightarrow> u32 \<Rightarrow> process_isolator \<Rightarrow> process_isolator" where
  "record_process now pid s =
     s\<lparr>isl_processes := isl_processes s
         @ [\<lparr> ipr_pid = pid, ipr_config = isl_config s, ipr_created_at = now, ipr_status = Proc_Running \<rparr>]\<rparr>"

text \<open>\<open>clone\<close> gives the pid of the child, which runs \<open>isolated_process_main\<close>.\<close>

definition create_isolated_process ::
    "(clone_flag set \<Rightarrow> u32 option) \<Rightarrow> instant \<Rightarrow> process_isolator \<Rightarrow> process_isolator \<times> u32 option" where
  "create_isolated_process clone_process now s =
     (case clone_process (build_clone_flags (isl_config s)) of
        Some pid \<Rightarrow> (record_process now pid s, Some pid)
      | None \<Rightarrow> (s, None))"

definition escape_quotes :: "string \<Rightarrow> string" where
  "escape_quotes a = concat (map (\<lambda>ch. if ch = CHR 0x27 then [CHR 0x27, CHR 0x5C, CHR 0x27, CHR 0x27] else [ch]) a)"

definition quote_argument :: "string \<Rightarrow> string" where
  "quote_argument a = [CHR 0x27] @ escape_quotes a @ [CHR 0x27]"

definition hostname_text :: "string \<Rightarrow> string" where
  "hostname_text h = ''hostname '' @ [CHR 0x27] @ h @ [CHR 0x27] @ '' 2>/dev/null || true; exec ''"

definition shell_command :: "string \<Rightarrow> string \<Rightarrow> string list \<Rightarrow> string" where
  "shell_command h command args =
     (if args = [] then hostname_text h @ command
      else hostname_text h @ command @ '' '' @ join '' '' (map quote_argument args))"

definition unshare_arguments :: "namespace_config \<Rightarrow> string \<Rightarrow> string list \<Rightarrow> string list" where
  "unshare_arguments c command args =
     flag_if (nc_pid_namespace c) [''--pid'', ''--fork''] @ flag_if (nc_mount_namespace c) [''--mount'']
     @ flag_if (nc_network_namespace c) [''--net''] @ flag_if (nc_uts_namespace c) [''--uts'']
     @ flag_if (nc_ipc_namespace c) [''--ipc''] @ flag_if (nc_user_namespace c) [''--user'']
     @ flag_if (nc_cgroup_namespace c) [''--cgroup'']
     @ (case nc_hostname c of
          Some h \<Rightarrow> if nc_uts_namespace c then [''sh'', ''-c'', shell_command h command args] else command # args
        | None \<Rightarrow> command # args)"

definition create_isolated_process_async ::
    "(string \<Rightarrow> string list \<Rightarrow> u32 option option) \<Rightarrow> instant \<Rightarrow> string \<Rightarrow> string list \<Rightarrow> process_isolator
     \<Rightarrow> process_isolator \<times> u32 option option" where
  "create_isolated_process_async spawn now command args s =
     (case spawn ''unshare'' (unshare_arguments (isl_config s) command args) of
        None \<Rightarrow> (s, None)
      | Some None \<Rightarrow> (s, Some None)
      | Some (Some pid) \<Rightarrow> (record_process now pid s, Some (Some pid)))"

datatype signal = SIGTERM | SIGCONT

datatype kill_answer = Kill_Ok | Kill_ESRCH | Kill_Error

text \<open>A number of 32 bits is handed to \<open>kill\<close> as a signed one.\<close>

fun mark_killed :: "u32 \<Rightarrow> isolated_process list \<Rightarrow> isolated_process list" where
  "mark_killed pid [] = []"
| "mark_killed pid (p # ps) = (if ipr_pid p = pid then p\<lparr>ipr_status := Proc_Killed\<rparr> # ps else p # mark_killed pid ps)"

definition terminate_isolated_process ::
    "(int \<Rightarrow> signal \<Rightarrow> kill_answer) \<Rightarrow> u32 \<Rightarrow> process_isolator \<Rightarrow> process_isolator \<times> bool" where
  "terminate_isolated_process kill pid s =
     (if kill (sint pid) SIGTERM = Kill_Ok then (s\<lparr>isl_processes := mark_killed pid (isl_processes s)\<rparr>, True) else (s, False))"

definition cleanup_terminated_processes :: "(int \<Rightarrow> signal \<Rightarrow> kill_answer) \<Rightarrow> process_isolator \<Rightarrow> process_isolator \<times> nat" where
  "cleanup_terminated_processes kill s =
     (let ps = filter (\<lambda>p. kill (sint (ipr_pid p)) SIGCONT \<noteq> Kill_ESRCH) (isl_processes s)
      in (s\<lparr>isl_processes := ps\<rparr>, length (isl_processes s) - length ps))"

section \<open>The sandbox\<close>

definition sandbox_config :: "string \<Rightarrow> namespace_config" where
  "sandbox_config temp_dir =
     namespace_default\<lparr>nc_network_namespace := True, nc_hostname := Some ''fuji-sandbox'', nc_root_dir := Some temp_dir,
       nc_drop_uid := Some 65534, nc_drop_gid := Some 65534,
       nc_mount_points := [\<lparr> imt_source = ''none'', imt_target = ''/tmp'', imt_fs_type = ''tmpfs'',
         imt_options = [''size=100m'', ''noexec'', ''nosuid''], imt_read_only = False, imt_create_target = True \<rparr>]\<rparr>"

record sandbox =
  sbx_isolator :: process_isolator
  sbx_temp_dir :: string

definition sandbox_new :: "string \<Rightarrow> bool \<Rightarrow> sandbox option" where
  "sandbox_new system_temp created =
     (let temp_dir = path_join system_temp ''fuji-sandbox''
      in if created then Some \<lparr> sbx_isolator = process_isolator_new (sandbox_config temp_dir), sbx_temp_dir = temp_dir \<rparr> else None)"

definition sandbox_execute ::
    "(string \<Rightarrow> string list \<Rightarrow> u32 option option) \<Rightarrow> instant \<Rightarrow> string \<Rightarrow> string list \<Rightarrow> sandbox \<Rightarrow> sandbox \<times> u32 option option" where
  "sandbox_execute spawn now command args b =
     (let (s, r) = create_isolated_process_async spawn now command args (sbx_isolator b) in (b\<lparr>sbx_isolator := s\<rparr>, r))"

definition sandbox_cleanup ::
    "(int \<Rightarrow> signal \<Rightarrow> kill_answer) \<Rightarrow> (string \<Rightarrow> bool) \<Rightarrow> (string \<Rightarrow> bool) \<Rightarrow> sandbox \<Rightarrow> sandbox \<times> bool" where
  "sandbox_cleanup kill dir_exists dir_removed b =
     (b\<lparr>sbx_isolator := fold (\<lambda>p s. fst (terminate_isolated_process kill (ipr_pid p) s)) (isl_processes (sbx_isolator b)) (sbx_isolator b)\<rparr>,
      if dir_exists (sbx_temp_dir b) then dir_removed (sbx_temp_dir b) else True)"

section \<open>What the child runs\<close>

lemma then_do_Inr: "then_do r f = (tr, Inr ()) \<longleftrightarrow> (\<exists>tr0. r = (tr0, Inr ()) \<and> f tr0 = (tr, Inr ()))"
  by (auto simp: then_do_def split: prod.splits sum.splits)

text \<open>The actions of a run that are not the start of a program.\<close>

definition no_program :: "run \<Rightarrow> bool" where
  "no_program r = (\<forall>p args. Run_Program p args \<notin> set (fst r))"

definition quiet :: "(os_action list \<Rightarrow> run) \<Rightarrow> bool" where
  "quiet f = (\<forall>tr. no_program (tr, Inr ()) \<longrightarrow> no_program (f tr))"

lemma quiet_then: "no_program r \<Longrightarrow> quiet f \<Longrightarrow> no_program (then_do r f)"
  by (auto simp: quiet_def no_program_def then_do_def split: prod.splits sum.splits)

lemma quietD: "quiet f \<Longrightarrow> no_program (tr, Inr ()) \<Longrightarrow> no_program (f tr)"
  by (simp add: quiet_def)

lemma quiet_perform: "(\<And>p args. a \<noteq> Run_Program p args) \<Longrightarrow> quiet (perform os a)"
  by (auto simp: quiet_def no_program_def perform_def)

lemma quiet_stop: "no_program (tr, x) = no_program (tr, y)"
  by (simp add: no_program_def)

lemma quiet_all: "\<forall>a \<in> set as. \<forall>p args. a \<noteq> Run_Program p args \<Longrightarrow> quiet (perform_all os as)"
proof (induction as)
  case (Cons a as)
  then show ?case by (auto simp: quiet_def intro!: quiet_then quietD [OF quiet_perform])
qed (simp add: quiet_def)

lemma quiet_directory: "quiet (ensure_directory os path)"
  by (auto simp: quiet_def ensure_directory_def new_directory_def intro!: quietD [OF quiet_all] simp del: perform_all.simps(2))

lemma quiet_mount_point: "quiet (create_isolated_point os m)"
  by (auto simp: quiet_def create_isolated_point_def intro!: quiet_then quiet_directory quietD [OF quiet_perform] quiet_perform
      split: option.splits)

lemma quiet_mount_points: "quiet (create_isolated_points os ms)"
proof (induction ms)
  case (Cons m ms)
  then show ?case by (auto simp: quiet_def intro!: quiet_then quietD [OF quiet_mount_point])
qed (simp add: quiet_def)

lemma quiet_chroot: "quiet (setup_chroot os r)"
  unfolding quiet_def setup_chroot_def
  by (auto simp: quiet_stop [where x = "Inl _"] intro!: quiet_then quiet_directory quietD [OF quiet_directory] quiet_all
      split: option.splits) (auto simp: no_program_def)

lemma quiet_mounts: "quiet (setup_mount_namespace os c)"
  unfolding quiet_def setup_mount_namespace_def
  by (intro allI impI quiet_then quiet_mount_points quietD [OF quiet_perform])
    (auto simp: quiet_def quietD [OF quiet_chroot] split: option.splits)

lemma quiet_network: "quiet (setup_network_namespace os c)"
  unfolding quiet_def setup_network_namespace_def network_commands_def
  by (auto intro!: quietD [OF quiet_all] split: option.splits simp del: perform_all.simps(2))

lemma quiet_when: "quiet f \<Longrightarrow> quiet (when_do b f)"
  by (simp add: quiet_def when_do_def)

lemma quiet_opt: "(\<And>v p args. f v \<noteq> Run_Program p args) \<Longrightarrow> quiet (perform_opt os f x)"
  unfolding quiet_def perform_opt_def
  by (auto intro!: quietD [OF quiet_perform] split: option.splits)

lemma setup_quiet: "no_program (setup_namespaces os c)"
  unfolding setup_namespaces_def
  by (intro quiet_then quiet_when quiet_opt quiet_mounts quiet_network quietD [OF quiet_when [OF quiet_opt]])
    (simp_all add: no_program_def)

text \<open>
  the documented rule for \<open>setgid\<close>: a process that has given up root (a \<open>setuid\<close> to another user) may not change
  its group.
\<close>

definition setgid_needs_root :: "os \<Rightarrow> bool" where
  "setgid_needs_root os = (\<forall>tr u g. Set_Uid u \<in> set tr \<longrightarrow> u \<noteq> 0 \<longrightarrow> \<not> os_succeeds os tr (Set_Gid g))"

text \<open>
  a child that is to drop both its user and its group drops the user first, after which the change of its group
  fails: it ends with status 1 and its command is never run.
\<close>

theorem dropping_user_first_fails:
  assumes "setgid_needs_root os" "nc_drop_uid c = Some u" "u \<noteq> 0" "nc_drop_gid c = Some g"
  shows "isolated_process_main os c cmd args = (fst (setup_namespaces os c), 1)
    \<and> Run_Program p as \<notin> set (fst (isolated_process_main os c cmd args))"
proof -
  obtain tr r where t: "setup_namespaces os c = (tr, r)" by fastforce
  have "r \<noteq> Inr ()"
  proof
    assume "r = Inr ()"
    with t assms(2,4) obtain tr0 tr1 where s: "perform os (Set_Uid u) tr0 = (tr1, Inr ())" "perform os (Set_Gid g) tr1 = (tr, Inr ())"
      by (auto simp: setup_namespaces_def then_do_Inr perform_opt_def)
    from s(1) have "Set_Uid u \<in> set tr1" by (auto simp: perform_def)
    with assms(1,3) s(2) show False by (auto simp: setgid_needs_root_def perform_def split: if_splits)
  qed
  then have main: "isolated_process_main os c cmd args = (tr, 1)"
    using t by (cases r) (simp_all add: isolated_process_main_def)
  with t setup_quiet [of os c] show ?thesis by (simp add: no_program_def)
qed

theorem dropping_user_first_fails_witness:
  "let os = \<lparr> os_succeeds = (\<lambda>tr a. \<not> (\<exists>g. a = Set_Gid g)), os_exists = (\<lambda>_ _. True), os_canonical = Some,
         os_exit = (\<lambda>_ _. Exit_Code 0) \<rparr>
   in Run_Program ''/bin/true'' [] \<notin> set (fst (isolated_process_main os (sandbox_config ''/tmp/fuji-sandbox'') ''true'' []))"
  unfolding Let_def
  by (rule conjunct2 [OF dropping_user_first_fails [where u = 65534 and g = 65534]])
    (simp_all add: setgid_needs_root_def sandbox_config_def)

section \<open>What the asynchronous way leaves out\<close>

text \<open>
  the command line for \<open>unshare\<close> does not depend on the root directory, on the user and the group to drop to, on the
  mounts or on the network: a command in the sandbox runs as the daemon's user, in the daemon's root directory.
\<close>

theorem async_ignores_confinement:
  "unshare_arguments (c\<lparr>nc_root_dir := root, nc_drop_uid := uid, nc_drop_gid := gid, nc_mount_points := ms, nc_network_config := net\<rparr>)
       command args = unshare_arguments c command args
   \<and> unshare_arguments (sandbox_config temp_dir) command args =
       [''--pid'', ''--fork'', ''--mount'', ''--net'', ''--uts'', ''--ipc'', ''sh'', ''-c'', shell_command ''fuji-sandbox'' command args]"
  by (simp add: unshare_arguments_def sandbox_config_def namespace_default_def flag_if_def split: option.split)

section \<open>Quoting\<close>

text \<open>
  The words a shell reads from a text of quoted words: single quotes, backslashes and blanks.  A character with a
  meaning of its own outside quotes makes the text no plain list of words.
\<close>

definition shell_special :: "char \<Rightarrow> bool" where
  "shell_special ch = (ch \<in> set (''|&;<>()$`*?[#~=%!{}'' @ [CHR 0x22, CHR 0x0A, CHR 0x09]))"

definition word_of :: "string option \<Rightarrow> string" where
  "word_of w = (case w of Some s \<Rightarrow> s | None \<Rightarrow> [])"

fun shell_lex :: "string option \<Rightarrow> bool \<Rightarrow> string \<Rightarrow> string list option" where
  "shell_lex w True [] = None"
| "shell_lex w True (ch # s) = (if ch = CHR 0x27 then shell_lex w False s else shell_lex (Some (word_of w @ [ch])) True s)"
| "shell_lex w False [] = Some (case w of Some x \<Rightarrow> [x] | None \<Rightarrow> [])"
| "shell_lex w False (ch # s) =
     (if ch = CHR '' '' then (case w of Some x \<Rightarrow> map_option ((#) x) (shell_lex None False s) | None \<Rightarrow> shell_lex None False s)
      else if ch = CHR 0x27 then shell_lex (Some (word_of w)) True s
      else if ch = CHR 0x5C then (case s of [] \<Rightarrow> None | d # t \<Rightarrow> shell_lex (Some (word_of w @ [d])) False t)
      else if shell_special ch then None
      else shell_lex (Some (word_of w @ [ch])) False s)"

lemma lex_escaped: "shell_lex (Some w) True (escape_quotes a @ CHR 0x27 # s) = shell_lex (Some (w @ a)) False s"
  by (induction a arbitrary: w) (auto simp: escape_quotes_def word_of_def)

lemma lex_quoted: "shell_lex None False (quote_argument a @ s) = shell_lex (Some a) False s"
  using lex_escaped [of "[]" a s] by (simp add: quote_argument_def word_of_def)

text \<open>the arguments of a command reach it as they are, whatever characters they hold.\<close>

theorem quoted_arguments_literal:
  "shell_lex None False (join '' '' (map quote_argument args)) = Some args"
proof (induction args rule: induct_list012)
  case (2 a)
  then show ?case using lex_quoted [of a "[]"] by simp
next
  case (3 a b args)
  then show ?case by (simp add: lex_quoted)
qed simp

end
