(* ===== verification/Security_Dashboard.thy ===== *)
theory Security_Dashboard
  imports Audit_Log Complex_Main
begin

text \<open>
  \<open>src/security/security_dashboard.rs\<close>: the events the dashboard has enriched, its metrics, alerts, components and
  snapshots, the security score, the reports.  The clock, fresh ids, the formats of time, the style sheet, the JSON
  text and the reading of a JSON value as a string are arguments; floating point numbers are rationals (the products
  of the severity score, computed in \<open>f32\<close>, have the same integral parts).  The background task is one step.
\<close>

section \<open>Data\<close>

datatype export_format = Export_Json | Export_Csv | Export_Xml | Export_Pdf | Export_Html

record dashboard_config =
  dcf_update_interval :: u64
  dcf_max_events :: nat
  dcf_max_snapshots :: nat
  dcf_enable_alerts :: bool
  dcf_alert_retention_hours :: u64
  dcf_export_formats :: "export_format list"

definition dashboard_config_default :: dashboard_config where
  "dashboard_config_default =
     \<lparr> dcf_update_interval = 30, dcf_max_events = 10000, dcf_max_snapshots = 10080, dcf_enable_alerts = True,
       dcf_alert_retention_hours = 168, dcf_export_formats = [Export_Json, Export_Html, Export_Pdf] \<rparr>"

record alert_thresholds =
  ath_failed_auth :: u64
  ath_anomaly :: u64
  ath_integrity_violation :: u64
  ath_resource :: rat
  ath_security_score :: u8

definition alert_thresholds_default :: alert_thresholds where
  "alert_thresholds_default =
     \<lparr> ath_failed_auth = 10, ath_anomaly = 5, ath_integrity_violation = 3, ath_resource = 80, ath_security_score = 50 \<rparr>"

record authentication_metrics =
  aum_total_attempts :: u64
  aum_successful_auths :: u64
  aum_failed_auths :: u64
  aum_suspicious_patterns :: u64
  aum_unique_users :: u64
  aum_failures_last_hour :: u64
  aum_top_failure_sources :: "(string \<times> u64) list"

record intrusion_metrics =
  inm_total_anomalies :: u64
  inm_critical_anomalies :: u64
  inm_warnings :: u64
  inm_false_positives :: u64
  inm_automated_responses :: u64
  inm_blocked_attempts :: u64
  inm_active_rules :: u32
  inm_detection_accuracy :: rat

record integrity_metrics =
  igm_files_monitored :: u64
  igm_integrity_checks :: u64
  igm_violations_detected :: u64
  igm_critical_compromises :: u64
  igm_check_failures :: u64
  igm_avg_check_duration_ms :: u64
  igm_last_successful_check :: "instant option"

record update_metrics =
  upm_total_updates :: u64
  upm_successful_updates :: u64
  upm_failed_updates :: u64
  upm_rolled_back_updates :: u64
  upm_security_patches_applied :: u64
  upm_pending_updates :: u64
  upm_avg_update_time_minutes :: u64
  upm_last_update :: "instant option"

record resource_metrics =
  rsm_cpu_usage :: rat
  rsm_memory_usage :: rat
  rsm_disk_usage :: rat
  rsm_network_connections :: u32
  rsm_active_processes :: u32
  rsm_open_file_descriptors :: u32

record security_metrics =
  smt_total_events :: u64
  smt_events_by_type :: "(audit_event_type, u64) hashmap"
  smt_events_by_severity :: "(audit_severity, u64) hashmap"
  smt_events_by_outcome :: "(audit_outcome, u64) hashmap"
  smt_auth :: authentication_metrics
  smt_intrusion :: intrusion_metrics
  smt_integrity :: integrity_metrics
  smt_update :: update_metrics
  smt_resource :: resource_metrics
  smt_last_updated :: instant

definition security_metrics_default :: "instant \<Rightarrow> security_metrics" where
  "security_metrics_default now =
     \<lparr> smt_total_events = 0, smt_events_by_type = [], smt_events_by_severity = [], smt_events_by_outcome = [],
       smt_auth = \<lparr> aum_total_attempts = 0, aum_successful_auths = 0, aum_failed_auths = 0, aum_suspicious_patterns = 0,
         aum_unique_users = 0, aum_failures_last_hour = 0, aum_top_failure_sources = [] \<rparr>,
       smt_intrusion = \<lparr> inm_total_anomalies = 0, inm_critical_anomalies = 0, inm_warnings = 0, inm_false_positives = 0,
         inm_automated_responses = 0, inm_blocked_attempts = 0, inm_active_rules = 0, inm_detection_accuracy = 95 \<rparr>,
       smt_integrity = \<lparr> igm_files_monitored = 0, igm_integrity_checks = 0, igm_violations_detected = 0,
         igm_critical_compromises = 0, igm_check_failures = 0, igm_avg_check_duration_ms = 0, igm_last_successful_check = None \<rparr>,
       smt_update = \<lparr> upm_total_updates = 0, upm_successful_updates = 0, upm_failed_updates = 0, upm_rolled_back_updates = 0,
         upm_security_patches_applied = 0, upm_pending_updates = 0, upm_avg_update_time_minutes = 0, upm_last_update = None \<rparr>,
       smt_resource = \<lparr> rsm_cpu_usage = 0, rsm_memory_usage = 0, rsm_disk_usage = 0, rsm_network_connections = 0,
         rsm_active_processes = 0, rsm_open_file_descriptors = 0 \<rparr>,
       smt_last_updated = now \<rparr>"

datatype dash_event_category =
    Cat_Authentication | Cat_Authorization | Cat_Integrity | Cat_IntrusionDetection | Cat_Configuration | Cat_Update
  | Cat_Network | Cat_DataProtection | Cat_ProcessIsolation | Cat_Other

datatype risk_level = Risk_None | Risk_Low | Risk_Medium | Risk_High | Risk_Critical

record 'v security_event =
  sev_audit_event :: "'v audit_event"
  sev_severity_score :: nat
  sev_category :: dash_event_category
  sev_risk_assessment :: risk_level
  sev_related_entities :: "string list"
  sev_mitigation_actions :: "string list"
  sev_enriched_at :: instant

datatype dash_severity = Dash_Info | Dash_Low | Dash_Medium | Dash_High | Dash_Critical

datatype dash_category =
    SecurityIncident | SystemFailure | PerformanceAlert | ComplianceAlert | ResourceAlert | ConfigurationAlert | UpdateAlert

datatype dash_status = Dash_Active | Dash_Acknowledged | Dash_Investigating | Dash_Resolved | Dash_FalsePositive

record dash_alert =
  dal_alert_id :: string
  dal_title :: string
  dal_description :: string
  dal_severity :: dash_severity
  dal_category :: dash_category
  dal_source :: string
  dal_timestamp :: instant
  dal_related_events :: "string list"
  dal_recommended_actions :: "string list"
  dal_status :: dash_status
  dal_metadata :: "(string, string) hashmap"

datatype component_health = Comp_Healthy | Comp_Warning | Comp_Degraded | Comp_Down | Comp_Unknown

record component_status =
  cst_name :: string
  cst_status :: component_health
  cst_last_check :: instant
  cst_message :: string
  cst_metrics :: "(string, rat) hashmap"
  cst_dependencies :: "string list"

record security_snapshot =
  snp_timestamp :: instant
  snp_metrics :: security_metrics
  snp_active_alerts_count :: nat
  snp_component_health :: "(string, component_health) hashmap"
  snp_security_score :: u8
  snp_key_indicators :: "(string, rat) hashmap"

record 'v dashboard =
  dsh_config :: dashboard_config
  dsh_metrics :: security_metrics
  dsh_recent_events :: "'v security_event list"
  dsh_active_alerts :: "dash_alert list"
  dsh_components :: "(string, component_status) hashmap"
  dsh_historical :: "security_snapshot list"
  dsh_thresholds :: alert_thresholds

record 'v dash_env =
  den_now :: instant
  den_uuid :: string
  den_as_str :: "'v \<Rightarrow> string option"
  den_minute :: "instant \<Rightarrow> string"
  den_rfc3339 :: "instant \<Rightarrow> string"
  den_css :: string

definition dashboard_new :: "dashboard_config \<Rightarrow> instant \<Rightarrow> 'v dashboard" where
  "dashboard_new c now =
     \<lparr> dsh_config = c, dsh_metrics = security_metrics_default now, dsh_recent_events = [], dsh_active_alerts = [],
       dsh_components = [], dsh_historical = [], dsh_thresholds = alert_thresholds_default \<rparr>"

definition healthy_component :: "'v dash_env \<Rightarrow> string \<Rightarrow> string \<Rightarrow> component_status" where
  "healthy_component env name message =
     \<lparr> cst_name = name, cst_status = Comp_Healthy, cst_last_check = den_now env, cst_message = message, cst_metrics = [],
       cst_dependencies = [] \<rparr>"

definition dashboard_initialize :: "'v dash_env \<Rightarrow> bool \<Rightarrow> bool \<Rightarrow> 'v dashboard \<Rightarrow> 'v dashboard" where
  "dashboard_initialize env with_integrity with_updates d =
     (let put = (\<lambda>k n m. hm_insert k (healthy_component env n m));
          m1 = put ''event_logging'' ''Event Logging'' ''Event logging active''
                 (put ''dashboard'' ''Security Dashboard'' ''Dashboard initialized'' (dsh_components d));
          m2 = (if with_integrity then put ''integrity_monitoring'' ''Integrity Monitoring'' ''Monitoring system integrity'' m1 else m1);
          m3 = (if with_updates then put ''secure_updates'' ''Secure Updates'' ''Update management ready'' m2 else m2)
      in d\<lparr>dsh_components := m3\<rparr>)"

section \<open>Events\<close>

fun severity_base :: "audit_severity \<Rightarrow> nat" where
  "severity_base Sev_Low = 25"
| "severity_base Sev_Medium = 50"
| "severity_base Sev_High = 75"
| "severity_base Sev_Critical = 90"

fun outcome_tenths :: "audit_outcome \<Rightarrow> nat" where
  "outcome_tenths Outcome_Success = 10"
| "outcome_tenths Outcome_Failure = 12"
| "outcome_tenths Outcome_Partial = 11"
| "outcome_tenths Outcome_Blocked = 8"
| "outcome_tenths Outcome_Error = 13"
| "outcome_tenths Outcome_Timeout = 14"

definition calculate_severity_score :: "'v audit_event \<Rightarrow> nat" where
  "calculate_severity_score e = min 100 (severity_base (ae_severity e) * outcome_tenths (ae_outcome e) div 10)"

definition categorize_event :: "'v audit_event \<Rightarrow> dash_event_category" where
  "categorize_event e =
     (case ae_event_type e of
        Authentication \<Rightarrow> Cat_Authentication
      | Authorization \<Rightarrow> Cat_Authorization
      | SecurityViolation \<Rightarrow> Cat_Integrity
      | ConfigurationChange \<Rightarrow> Cat_Configuration
      | SystemEvent \<Rightarrow> Cat_Update
      | NetworkEvent \<Rightarrow> Cat_Network
      | DataAccess \<Rightarrow> Cat_DataProtection
      | ProcessManagement \<Rightarrow> Cat_ProcessIsolation
      | _ \<Rightarrow> Cat_Other)"

definition assess_risk :: "'v security_event \<Rightarrow> risk_level" where
  "assess_risk e =
     (let s = sev_severity_score e
      in if s \<ge> 80 then Risk_Critical else if s \<ge> 60 then Risk_High else if s \<ge> 40 then Risk_Medium
         else if s \<ge> 20 then Risk_Low else Risk_None)"

definition detail_text :: "'v dash_env \<Rightarrow> 'v audit_event \<Rightarrow> string \<Rightarrow> string option" where
  "detail_text env e k = (case hm_get (ae_details e) k of Some v \<Rightarrow> den_as_str env v | None \<Rightarrow> None)"

definition tagged :: "string \<Rightarrow> string option \<Rightarrow> string list" where
  "tagged tag x = (case x of Some s \<Rightarrow> [tag @ s] | None \<Rightarrow> [])"

definition extract_related_entities :: "'v dash_env \<Rightarrow> 'v audit_event \<Rightarrow> string list" where
  "extract_related_entities env e =
     (if as_source_type (ae_source e) = User_Source then [''user:'' @ as_identifier (ae_source e)]
      else tagged ''user:'' (detail_text env e ''user_id''))
     @ tagged ''resource:''
         (if hm_contains_key (ae_details e) ''resource'' then detail_text env e ''resource'' else detail_text env e ''resource_name'')
     @ (case ae_network_context e of
          Some n \<Rightarrow> [''ip:'' @ anc_source_ip n] @ tagged ''dest_ip:'' (anc_destination_ip n)
        | None \<Rightarrow> [])
     @ (case ae_session_context e of Some s \<Rightarrow> [''session:'' @ asc_session_id s] | None \<Rightarrow> [])"

definition suggest_mitigations :: "'v audit_event \<Rightarrow> string list" where
  "suggest_mitigations e =
     (case ae_event_type e of
        Authentication \<Rightarrow>
          if ae_outcome e = Outcome_Failure
          then [''Monitor for repeated failures'', ''Consider temporary account lockout'', ''Review authentication logs''] else []
      | SecurityViolation \<Rightarrow>
          if ae_outcome e = Outcome_Failure
          then [''Block source IP address'', ''Increase monitoring frequency'', ''Review security controls'']
          else if ae_outcome e = Outcome_Success
          then [''Revoke elevated privileges'', ''Audit user activities'', ''Review access controls'']
          else [''Isolate affected system'', ''Perform forensic analysis'', ''Restore from backup'']
      | _ \<Rightarrow> [])"

definition enrich_event :: "'v dash_env \<Rightarrow> 'v audit_event \<Rightarrow> 'v security_event" where
  "enrich_event env e =
     \<lparr> sev_audit_event = e, sev_severity_score = calculate_severity_score e, sev_category = categorize_event e,
       sev_risk_assessment =
         (if ae_severity e = Sev_Critical then Risk_Critical else if ae_severity e = Sev_High then Risk_High
          else if ae_severity e = Sev_Medium \<or> ae_outcome e = Outcome_Failure \<or> ae_outcome e = Outcome_Error then Risk_Medium
          else Risk_Low),
       sev_related_entities = extract_related_entities env e, sev_mitigation_actions = suggest_mitigations e,
       sev_enriched_at = den_now env \<rparr>"

definition tally_key :: "'k \<Rightarrow> ('k, u64) hashmap \<Rightarrow> ('k, u64) hashmap" where
  "tally_key k m = hm_insert k ((case hm_get m k of Some n \<Rightarrow> n | None \<Rightarrow> 0) + 1) m"

definition count_authentication :: "audit_outcome \<Rightarrow> authentication_metrics \<Rightarrow> authentication_metrics" where
  "count_authentication r m =
     (let m1 = m\<lparr>aum_total_attempts := aum_total_attempts m + 1\<rparr>
      in if r = Outcome_Success then m1\<lparr>aum_successful_auths := aum_successful_auths m1 + 1\<rparr>
         else if r = Outcome_Failure
         then m1\<lparr>aum_failed_auths := aum_failed_auths m1 + 1, aum_failures_last_hour := aum_failures_last_hour m1 + 1\<rparr>
         else m1)"

definition count_by_type :: "'v audit_event \<Rightarrow> security_metrics \<Rightarrow> security_metrics" where
  "count_by_type e m =
     (case ae_event_type e of
        Authentication \<Rightarrow> m\<lparr>smt_auth := count_authentication (ae_outcome e) (smt_auth m)\<rparr>
      | SecurityViolation \<Rightarrow>
          m\<lparr>smt_intrusion := (smt_intrusion m)\<lparr>inm_total_anomalies := inm_total_anomalies (smt_intrusion m) + 1,
              inm_critical_anomalies := (if ae_severity e = Sev_Critical then inm_critical_anomalies (smt_intrusion m) + 1
                                         else inm_critical_anomalies (smt_intrusion m))\<rparr>,
            smt_integrity := (smt_integrity m)\<lparr>igm_violations_detected := igm_violations_detected (smt_integrity m) + 1\<rparr>\<rparr>
      | _ \<Rightarrow> m)"

definition update_metrics_for :: "'v dash_env \<Rightarrow> 'v audit_event \<Rightarrow> security_metrics \<Rightarrow> security_metrics" where
  "update_metrics_for env e m =
     (count_by_type e (m\<lparr>smt_total_events := smt_total_events m + 1,
        smt_events_by_type := tally_key (ae_event_type e) (smt_events_by_type m),
        smt_events_by_severity := tally_key (ae_severity e) (smt_events_by_severity m),
        smt_events_by_outcome := tally_key (ae_outcome e) (smt_events_by_outcome m)\<rparr>))\<lparr>smt_last_updated := den_now env\<rparr>"

definition create_dash_alert ::
    "'v dash_env \<Rightarrow> string \<Rightarrow> string \<Rightarrow> dash_severity \<Rightarrow> dash_category \<Rightarrow> string \<Rightarrow> 'v dashboard \<Rightarrow> 'v dashboard" where
  "create_dash_alert env title description severity category source d =
     (if \<not> dcf_enable_alerts (dsh_config d) then d
      else d\<lparr>dsh_active_alerts := dsh_active_alerts d @
             [\<lparr> dal_alert_id = den_uuid env, dal_title = title, dal_description = description, dal_severity = severity,
                dal_category = category, dal_source = source, dal_timestamp = den_now env, dal_related_events = [],
                dal_recommended_actions = [''Investigate immediately'', ''Document findings'', ''Apply appropriate mitigation''],
                dal_status = Dash_Active, dal_metadata = [] \<rparr>]\<rparr>)"

definition is_failed_login :: "'v audit_event \<Rightarrow> bool" where
  "is_failed_login e = (ae_event_type e = Authentication \<and> ae_outcome e = Outcome_Failure)"

definition check_event_alerts :: "'v dash_env \<Rightarrow> 'v audit_event \<Rightarrow> 'v dashboard \<Rightarrow> 'v dashboard" where
  "check_event_alerts env e d =
     (let limit = ath_failed_auth (dsh_thresholds d);
          d1 = (if is_failed_login e \<and> aum_failures_last_hour (smt_auth (dsh_metrics d)) \<ge> limit
                then create_dash_alert env ''High Authentication Failure Rate''
                       (''More than '' @ show_nat (unat limit) @ '' authentication failures in the last hour'')
                       Dash_High SecurityIncident ''Authentication'' d
                else d)
      in if ae_event_type e = SecurityViolation \<and> ae_severity e = Sev_Critical
         then create_dash_alert env ''Critical Integrity Violation'' ''Critical system integrity violation detected''
                Dash_Critical SecurityIncident ''IntegrityMonitoring'' d1
         else d1)"

definition buffer_security_event :: "nat \<Rightarrow> 'v security_event \<Rightarrow> 'v security_event list \<Rightarrow> 'v security_event list" where
  "buffer_security_event limit e es = (if length es \<ge> limit then tl es else es) @ [e]"

definition dashboard_event :: "'v dash_env \<Rightarrow> 'v audit_event \<Rightarrow> 'v dashboard \<Rightarrow> 'v dashboard" where
  "dashboard_event env e d =
     check_event_alerts env e
       (d\<lparr>dsh_recent_events := buffer_security_event (dcf_max_events (dsh_config d)) (enrich_event env e) (dsh_recent_events d),
         dsh_metrics := update_metrics_for env e (dsh_metrics d)\<rparr>)"

section \<open>Queries and the score\<close>

definition dash_recent_events :: "nat option \<Rightarrow> 'v dashboard \<Rightarrow> 'v security_event list" where
  "dash_recent_events limit d = take (case limit of Some n \<Rightarrow> n | None \<Rightarrow> 100) (rev (dsh_recent_events d))"

definition get_historical_data :: "'v dash_env \<Rightarrow> u64 option \<Rightarrow> 'v dashboard \<Rightarrow> security_snapshot list" where
  "get_historical_data env hrs d =
     filter (\<lambda>s. snp_timestamp s > den_now env - secs (3600 * sint (case hrs of Some h \<Rightarrow> h | None \<Rightarrow> 24))) (dsh_historical d)"

definition auth_failure_rate :: "security_metrics \<Rightarrow> rat" where
  "auth_failure_rate m =
     (if aum_total_attempts (smt_auth m) > 0
      then of_nat (unat (aum_failed_auths (smt_auth m))) / of_nat (unat (aum_total_attempts (smt_auth m))) * 100
      else 0)"

definition saturating_sub_u8 :: "u8 \<Rightarrow> u8 \<Rightarrow> u8" where
  "saturating_sub_u8 a b = (if b \<ge> a then 0 else a - b)"

definition unhealthy_count :: "(string, component_status) hashmap \<Rightarrow> nat" where
  "unhealthy_count cs = length (filter (\<lambda>(_, c). cst_status c = Comp_Degraded \<or> cst_status c = Comp_Down) cs)"

definition auth_penalty :: "security_metrics \<Rightarrow> u8" where
  "auth_penalty m = (if auth_failure_rate m > 10 then 20 else if auth_failure_rate m > 5 then 10 else 0)"

definition integrity_penalty :: "security_metrics \<Rightarrow> u8" where
  "integrity_penalty m = (if igm_violations_detected (smt_integrity m) > 0 then 30 else 0)"

definition intrusion_penalty :: "security_metrics \<Rightarrow> u8" where
  "intrusion_penalty m =
     (if inm_critical_anomalies (smt_intrusion m) > 0 then 40 else if inm_total_anomalies (smt_intrusion m) > 5 then 20 else 0)"

text \<open>The penalty of the components is cut to eight bits.\<close>

definition security_score :: "security_metrics \<Rightarrow> (string, component_status) hashmap \<Rightarrow> u8" where
  "security_score m cs =
     saturating_sub_u8 (saturating_sub_u8 (saturating_sub_u8 (saturating_sub_u8 100 (auth_penalty m)) (integrity_penalty m))
       (intrusion_penalty m)) (of_nat (unhealthy_count cs * 15))"

definition dashboard_score :: "'v dashboard \<Rightarrow> u8" where
  "dashboard_score d = security_score (dsh_metrics d) (dsh_components d)"

fun acknowledge_first :: "string \<Rightarrow> dash_alert list \<Rightarrow> dash_alert list \<times> bool" where
  "acknowledge_first i [] = ([], False)"
| "acknowledge_first i (a # as) =
     (if dal_alert_id a = i then (a\<lparr>dal_status := Dash_Acknowledged\<rparr> # as, True)
      else let (as1, b) = acknowledge_first i as in (a # as1, b))"

definition dash_acknowledge_alert :: "string \<Rightarrow> 'v dashboard \<Rightarrow> 'v dashboard \<times> bool" where
  "dash_acknowledge_alert i d =
     (let (as, b) = acknowledge_first i (dsh_active_alerts d) in (d\<lparr>dsh_active_alerts := as\<rparr>, b))"

definition dash_resolve_alert :: "string \<Rightarrow> 'v dashboard \<Rightarrow> 'v dashboard \<times> bool" where
  "dash_resolve_alert i d =
     (let as = filter (\<lambda>a. dal_alert_id a \<noteq> i) (dsh_active_alerts d)
      in (d\<lparr>dsh_active_alerts := as\<rparr>, length as < length (dsh_active_alerts d)))"

record security_summary =
  ssm_overall_score :: u8
  ssm_total_events :: u64
  ssm_active_alerts :: nat
  ssm_critical_alerts :: nat
  ssm_high_alerts :: nat
  ssm_medium_alerts :: nat
  ssm_low_alerts :: nat
  ssm_healthy_components :: nat
  ssm_warning_components :: nat
  ssm_degraded_components :: nat
  ssm_down_components :: nat
  ssm_unknown_components :: nat
  ssm_last_updated :: instant

definition alerts_of :: "dash_severity \<Rightarrow> dash_alert list \<Rightarrow> nat" where
  "alerts_of s as = length (filter (\<lambda>a. dal_severity a = s) as)"

definition components_of :: "component_health \<Rightarrow> (string, component_status) hashmap \<Rightarrow> nat" where
  "components_of h cs = length (filter (\<lambda>(_, c). cst_status c = h) cs)"

definition get_security_summary :: "'v dashboard \<Rightarrow> security_summary" where
  "get_security_summary d =
     (let as = dsh_active_alerts d; cs = dsh_components d
      in \<lparr> ssm_overall_score = dashboard_score d, ssm_total_events = smt_total_events (dsh_metrics d), ssm_active_alerts = length as,
           ssm_critical_alerts = alerts_of Dash_Critical as, ssm_high_alerts = alerts_of Dash_High as,
           ssm_medium_alerts = alerts_of Dash_Medium as, ssm_low_alerts = alerts_of Dash_Low as,
           ssm_healthy_components = components_of Comp_Healthy cs, ssm_warning_components = components_of Comp_Warning cs,
           ssm_degraded_components = components_of Comp_Degraded cs, ssm_down_components = components_of Comp_Down cs,
           ssm_unknown_components = components_of Comp_Unknown cs, ssm_last_updated = smt_last_updated (dsh_metrics d) \<rparr>)"

section \<open>The background task\<close>

definition collected_resources :: resource_metrics where
  "collected_resources =
     \<lparr> rsm_cpu_usage = 452 / 10, rsm_memory_usage = 628 / 10, rsm_disk_usage = 381 / 10, rsm_network_connections = 24,
       rsm_active_processes = 156, rsm_open_file_descriptors = 1024 \<rparr>"

definition refresh_component :: "'v dash_env \<Rightarrow> component_status \<Rightarrow> component_status" where
  "refresh_component env c =
     (let c1 = c\<lparr>cst_last_check := den_now env\<rparr>
      in case hm_get (cst_metrics c) ''cpu'' of
           None \<Rightarrow> c1
         | Some cpu \<Rightarrow>
             c1\<lparr>cst_status := (if cpu > 90 then Comp_Down else if cpu > 70 then Comp_Degraded
                               else if cpu > 50 then Comp_Warning else Comp_Healthy)\<rparr>)"

definition update_system_metrics :: "'v dash_env \<Rightarrow> 'v dashboard \<Rightarrow> 'v dashboard" where
  "update_system_metrics env d =
     d\<lparr>dsh_metrics := (dsh_metrics d)\<lparr>smt_resource := collected_resources, smt_last_updated := den_now env\<rparr>,
       dsh_components := hm_map_values (refresh_component env) (dsh_components d)\<rparr>"

definition resource_warnings :: "'v dashboard \<Rightarrow> string list" where
  "resource_warnings d =
     (if rsm_cpu_usage (smt_resource (dsh_metrics d)) > ath_resource (dsh_thresholds d) then [''High CPU usage detected''] else [])
     @ (if rsm_memory_usage (smt_resource (dsh_metrics d)) > ath_resource (dsh_thresholds d) then [''High memory usage detected''] else [])"

definition create_snapshot :: "'v dash_env \<Rightarrow> 'v dashboard \<Rightarrow> 'v dashboard" where
  "create_snapshot env d =
     (let m = dsh_metrics d
      in d\<lparr>dsh_historical := dsh_historical d @
             [\<lparr> snp_timestamp = den_now env, snp_metrics = m, snp_active_alerts_count = 0,
                snp_component_health = hm_map_values cst_status (dsh_components d),
                snp_security_score = security_score m (dsh_components d),
                snp_key_indicators =
                  hm_insert ''intrusion_anomalies'' (of_nat (unat (inm_total_anomalies (smt_intrusion m))))
                    (hm_insert ''integrity_violations'' (of_nat (unat (igm_violations_detected (smt_integrity m))))
                      (hm_insert ''failed_auth_rate'' (auth_failure_rate m) [])) \<rparr>]\<rparr>)"

definition cleanup_old_data :: "'v dash_env \<Rightarrow> 'v dashboard \<Rightarrow> 'v dashboard" where
  "cleanup_old_data env d =
     d\<lparr>dsh_historical := filter (\<lambda>s. snp_timestamp s > den_now env - secs (3600 * 168))
         (drop (length (dsh_historical d) - 10080) (dsh_historical d))\<rparr>"

definition monitoring_task :: "'v dash_env \<Rightarrow> 'v dashboard \<Rightarrow> 'v dashboard" where
  "monitoring_task env d = cleanup_old_data env (create_snapshot env (update_system_metrics env d))"

section \<open>Reports\<close>

fun event_type_debug :: "audit_event_type \<Rightarrow> string" where
  "event_type_debug Authentication = ''Authentication''"
| "event_type_debug Authorization = ''Authorization''"
| "event_type_debug CredentialManagement = ''CredentialManagement''"
| "event_type_debug MountOperation = ''MountOperation''"
| "event_type_debug ConfigurationChange = ''ConfigurationChange''"
| "event_type_debug SecurityPolicy = ''SecurityPolicy''"
| "event_type_debug SystemEvent = ''SystemEvent''"
| "event_type_debug NetworkEvent = ''NetworkEvent''"
| "event_type_debug DataAccess = ''DataAccess''"
| "event_type_debug CryptographicOperation = ''CryptographicOperation''"
| "event_type_debug SecurityViolation = ''SecurityViolation''"
| "event_type_debug AdministrativeAction = ''AdministrativeAction''"
| "event_type_debug ProcessManagement = ''ProcessManagement''"

fun severity_debug :: "audit_severity \<Rightarrow> string" where
  "severity_debug Sev_Low = ''Low''"
| "severity_debug Sev_Medium = ''Medium''"
| "severity_debug Sev_High = ''High''"
| "severity_debug Sev_Critical = ''Critical''"

fun outcome_debug :: "audit_outcome \<Rightarrow> string" where
  "outcome_debug Outcome_Success = ''Success''"
| "outcome_debug Outcome_Failure = ''Failure''"
| "outcome_debug Outcome_Error = ''Error''"
| "outcome_debug Outcome_Partial = ''Partial''"
| "outcome_debug Outcome_Timeout = ''Timeout''"
| "outcome_debug Outcome_Blocked = ''Blocked''"

record 'v export_data =
  exd_generated_at :: instant
  exd_metrics :: security_metrics
  exd_events :: "'v security_event list"
  exd_alerts :: "dash_alert list"
  exd_snapshots :: "security_snapshot list"
  exd_security_score :: u8

definition nl :: string where
  "nl = [CHR 0x0A]"

definition report_user :: "'v dash_env \<Rightarrow> 'v audit_event \<Rightarrow> string option" where
  "report_user env e =
     (if as_source_type (ae_source e) = User_Source then Some (as_identifier (ae_source e)) else detail_text env e ''user_id'')"

definition report_address :: "'v audit_event \<Rightarrow> string option" where
  "report_address e =
     (case ae_network_context e of Some n \<Rightarrow> Some (anc_source_ip n) | None \<Rightarrow> as_ip_address (ae_source e))"

definition or_text :: "string \<Rightarrow> string option \<Rightarrow> string" where
  "or_text t x = (case x of Some s \<Rightarrow> s | None \<Rightarrow> t)"

definition cell :: "string \<Rightarrow> string" where
  "cell s = ''<td>'' @ s @ ''</td>'' @ nl"

definition html_event :: "'v dash_env \<Rightarrow> 'v audit_event \<Rightarrow> string" where
  "html_event env e =
     ''<tr>'' @ nl @ cell (den_minute env (ae_timestamp e)) @ cell (event_type_debug (ae_event_type e))
     @ cell (severity_debug (ae_severity e)) @ cell (or_text ''N/A'' (report_user env e)) @ cell (or_text ''N/A'' (report_address e))
     @ ''</tr>'' @ nl"

fun alert_class :: "dash_severity \<Rightarrow> string" where
  "alert_class Dash_Critical = ''critical''"
| "alert_class Dash_High = ''high''"
| "alert_class Dash_Medium = ''medium''"
| "alert_class Dash_Low = ''low''"
| "alert_class Dash_Info = ''info''"

definition dq :: string where
  "dq = [CHR 0x22]"

definition html_class :: "string \<Rightarrow> string \<Rightarrow> string" where
  "html_class tag c = ''<'' @ tag @ '' class='' @ dq @ c @ dq @ ''>''"

definition html_alert :: "'v dash_env \<Rightarrow> dash_alert \<Rightarrow> string" where
  "html_alert env a =
     html_class ''div'' (''alert '' @ alert_class (dal_severity a)) @ nl @ ''<h3>'' @ dal_title a @ ''</h3>'' @ nl
     @ ''<p>'' @ dal_description a @ ''</p>'' @ nl
     @ ''<small>Source: '' @ dal_source a @ '' | Time: '' @ den_minute env (dal_timestamp a) @ ''</small>'' @ nl @ ''</div>'' @ nl"

definition html_metric :: "string \<Rightarrow> string \<Rightarrow> string" where
  "html_metric x label = html_class ''div'' ''metric'' @ ''<h3>'' @ x @ ''</h3><p>'' @ label @ ''</p></div>'' @ nl"

definition html_head :: "'v dash_env \<Rightarrow> 'v export_data \<Rightarrow> string" where
  "html_head env x =
     ''<!DOCTYPE html>'' @ nl @ ''<html>'' @ nl @ ''<head>'' @ nl @ ''<title>Security Dashboard Report</title>'' @ nl
     @ ''<style>'' @ den_css env @ ''</style>'' @ nl @ ''</head>'' @ nl @ ''<body>'' @ nl
     @ html_class ''div'' ''header'' @ nl @ ''<h1>Security Dashboard Report</h1>'' @ nl
     @ ''<p>Generated: '' @ den_minute env (exd_generated_at x) @ '' UTC</p>'' @ nl
     @ html_class ''div'' ''score'' @ ''Overall Security Score: '' @ show_nat (unat (exd_security_score x)) @ ''%</div>'' @ nl
     @ ''</div>'' @ nl @ html_class ''div'' ''section'' @ nl @ ''<h2>Security Metrics</h2>'' @ nl @ html_class ''div'' ''metrics-grid'' @ nl
     @ html_metric (show_nat (unat (smt_total_events (exd_metrics x)))) ''Total Events''
     @ html_metric (show_nat (unat (aum_failed_auths (smt_auth (exd_metrics x))))) ''Failed Auths''
     @ html_metric (show_nat (unat (igm_violations_detected (smt_integrity (exd_metrics x))))) ''Integrity Violations''
     @ html_metric (show_nat (length (exd_alerts x))) ''Active Alerts''
     @ ''</div>'' @ nl @ ''</div>'' @ nl @ html_class ''div'' ''section'' @ nl @ ''<h2>Recent Security Events</h2>'' @ nl
     @ html_class ''table'' ''events-table'' @ nl
     @ ''<tr><th>Timestamp</th><th>Type</th><th>Severity</th><th>User</th><th>Source</th></tr>'' @ nl"

definition html_alerts :: "'v dash_env \<Rightarrow> dash_alert list \<Rightarrow> string" where
  "html_alerts env as =
     (if as = [] then []
      else html_class ''div'' ''section'' @ nl @ ''<h2>Active Alerts</h2>'' @ nl @ html_class ''div'' ''alerts'' @ nl
           @ concat (map (html_alert env) as) @ ''</div>'' @ nl @ ''</div>'' @ nl)"

definition generate_html_report :: "'v dash_env \<Rightarrow> 'v export_data \<Rightarrow> string" where
  "generate_html_report env x =
     html_head env x @ concat (map (\<lambda>e. html_event env (sev_audit_event e)) (take 50 (exd_events x)))
     @ ''</table>'' @ nl @ ''</div>'' @ nl @ html_alerts env (exd_alerts x) @ ''</body>'' @ nl @ ''</html>''"

definition csv_line :: "'v dash_env \<Rightarrow> 'v audit_event \<Rightarrow> string" where
  "csv_line env e =
     join '','' [den_minute env (ae_timestamp e), event_type_debug (ae_event_type e), severity_debug (ae_severity e),
       outcome_debug (ae_outcome e), or_text [] (report_user env e), or_text [] (report_address e),
       or_text [] (if hm_contains_key (ae_details e) ''resource'' then detail_text env e ''resource'' else detail_text env e ''resource_name'')]
     @ nl"

definition generate_csv_report :: "'v dash_env \<Rightarrow> 'v export_data \<Rightarrow> string" where
  "generate_csv_report env x =
     ''timestamp,event_type,severity,outcome,user_id,source_ip,resource'' @ nl
     @ concat (map (\<lambda>e. csv_line env (sev_audit_event e)) (exd_events x))"

definition xml_element :: "string \<Rightarrow> string \<Rightarrow> string" where
  "xml_element tag s = ''<'' @ tag @ ''>'' @ s @ ''</'' @ tag @ ''>'' @ nl"

definition xml_event :: "'v dash_env \<Rightarrow> 'v audit_event \<Rightarrow> string" where
  "xml_event env e =
     ''  <event>'' @ nl @ ''    '' @ xml_element ''timestamp'' (den_rfc3339 env (ae_timestamp e))
     @ ''    '' @ xml_element ''type'' (event_type_debug (ae_event_type e))
     @ ''    '' @ xml_element ''severity'' (severity_debug (ae_severity e))
     @ ''    '' @ xml_element ''outcome'' (outcome_debug (ae_outcome e)) @ ''  </event>'' @ nl"

definition generate_xml_report :: "'v dash_env \<Rightarrow> 'v export_data \<Rightarrow> string" where
  "generate_xml_report env x =
     ''<?xml version='' @ dq @ ''1.0'' @ dq @ '' encoding='' @ dq @ ''UTF-8'' @ dq @ ''?>'' @ nl @ ''<security_report>'' @ nl
     @ ''<metadata>'' @ nl @ ''  '' @ xml_element ''generated_at'' (den_rfc3339 env (exd_generated_at x))
     @ ''  '' @ xml_element ''security_score'' (show_nat (unat (exd_security_score x))) @ ''</metadata>'' @ nl
     @ ''<metrics>'' @ nl @ ''  '' @ xml_element ''total_events'' (show_nat (unat (smt_total_events (exd_metrics x))))
     @ ''  '' @ xml_element ''failed_auths'' (show_nat (unat (aum_failed_auths (smt_auth (exd_metrics x)))))
     @ ''  '' @ xml_element ''integrity_violations'' (show_nat (unat (igm_violations_detected (smt_integrity (exd_metrics x)))))
     @ ''</metrics>'' @ nl @ ''<events>'' @ nl @ concat (map (\<lambda>e. xml_event env (sev_audit_event e)) (exd_events x))
     @ ''</events>'' @ nl @ ''</security_report>'' @ nl"

definition export_data_of :: "'v dash_env \<Rightarrow> 'v dashboard \<Rightarrow> 'v export_data" where
  "export_data_of env d =
     \<lparr> exd_generated_at = den_now env, exd_metrics = dsh_metrics d, exd_events = dash_recent_events None d,
       exd_alerts = dsh_active_alerts d, exd_snapshots = get_historical_data env None d, exd_security_score = dashboard_score d \<rparr>"

definition export_report :: "('v export_data \<Rightarrow> string option) \<Rightarrow> 'v dash_env \<Rightarrow> export_format \<Rightarrow> 'v dashboard \<Rightarrow> string option" where
  "export_report json env f d =
     (let x = export_data_of env d
      in case f of
           Export_Json \<Rightarrow> json x
         | Export_Html \<Rightarrow> Some (generate_html_report env x)
         | Export_Csv \<Rightarrow> Some (generate_csv_report env x)
         | Export_Xml \<Rightarrow> Some (generate_xml_report env x)
         | Export_Pdf \<Rightarrow> Some ''PDF report generation not implemented'')"

section \<open>The score\<close>

lemma unat_score_saturating_sub [simp]: "unat (saturating_sub_u8 a b) = unat a - unat b"
proof (cases "b \<ge> a")
  case True
  then show ?thesis by (simp add: saturating_sub_u8_def word_le_nat_alt)
next
  case False
  then have "unat (a - b) = unat a - unat b" by (intro unat_sub) simp
  with False show ?thesis by (simp add: saturating_sub_u8_def)
qed

text \<open>
  the score is what the penalties leave of 100, where the penalty of the components is fifteen for each that is
  degraded or down, modulo 256: eighteen of them cost 14 points, fewer than one does.
\<close>

theorem security_score_exact:
  "unat (security_score m cs) =
     100 - unat (auth_penalty m) - unat (integrity_penalty m) - unat (intrusion_penalty m) - 15 * unhealthy_count cs mod 256"
  by (simp add: security_score_def unat_of_nat mult.commute del: of_nat_mult)

section \<open>Runs of the dashboard\<close>

datatype 'v dash_op =
    Dash_Initialize bool bool
  | Dash_Event "'v audit_event"
  | Dash_Tick
  | Dash_Acknowledge string
  | Dash_Resolve string

fun dash_step :: "'v dash_env \<times> 'v dash_op \<Rightarrow> 'v dashboard \<Rightarrow> 'v dashboard" where
  "dash_step (env, Dash_Initialize i u) d = dashboard_initialize env i u d"
| "dash_step (env, Dash_Event e) d = dashboard_event env e d"
| "dash_step (env, Dash_Tick) d = monitoring_task env d"
| "dash_step (env, Dash_Acknowledge i) d = fst (dash_acknowledge_alert i d)"
| "dash_step (env, Dash_Resolve i) d = fst (dash_resolve_alert i d)"

lemma event_keeps [simp]:
  "dsh_components (dashboard_event env e d) = dsh_components d"
  "dsh_metrics (dashboard_event env e d) = update_metrics_for env e (dsh_metrics d)"
  by (simp_all add: dashboard_event_def check_event_alerts_def create_dash_alert_def Let_def)

lemma task_keeps [simp]:
  "dsh_components (monitoring_task env d) = hm_map_values (refresh_component env) (dsh_components d)"
  "smt_auth (dsh_metrics (monitoring_task env d)) = smt_auth (dsh_metrics d)"
  by (simp_all add: monitoring_task_def cleanup_old_data_def create_snapshot_def update_system_metrics_def Let_def)

lemma alert_ops_keep [simp]:
  "dsh_components (fst (dash_acknowledge_alert i d)) = dsh_components d"
  "dsh_metrics (fst (dash_acknowledge_alert i d)) = dsh_metrics d"
  "dsh_components (fst (dash_resolve_alert i d)) = dsh_components d"
  "dsh_metrics (fst (dash_resolve_alert i d)) = dsh_metrics d"
  by (simp_all add: dash_acknowledge_alert_def dash_resolve_alert_def Let_def split: prod.splits)

definition all_healthy :: "(string, component_status) hashmap \<Rightarrow> bool" where
  "all_healthy cs = list_all (\<lambda>(_, c). cst_metrics c = [] \<and> cst_status c = Comp_Healthy) cs"

lemma all_healthy_insert: "all_healthy cs \<Longrightarrow> all_healthy (hm_insert k (healthy_component env n m) cs)"
  unfolding all_healthy_def hm_insert_def
  by (induction cs) (auto simp: healthy_component_def)

lemma all_healthy_refresh: "all_healthy cs \<Longrightarrow> all_healthy (hm_map_values (refresh_component env) cs)"
  unfolding all_healthy_def hm_map_values_def
  by (induction cs) (auto simp: refresh_component_def Let_def hm_get_def)

lemma step_healthy: "all_healthy (dsh_components d) \<Longrightarrow> all_healthy (dsh_components (dash_step x d))"
  by (induction x d rule: dash_step.induct)
    (simp_all add: all_healthy_refresh all_healthy_insert dashboard_initialize_def Let_def)

lemma healthy_none_unhealthy: "all_healthy cs \<Longrightarrow> unhealthy_count cs = 0"
  unfolding all_healthy_def unhealthy_count_def by (induction cs) auto

text \<open>
  nothing ever gives a component a measure, so no component leaves the state Healthy and none costs the score a point,
  whatever events, alerts and rounds of the background task there are.
\<close>

theorem components_never_unhealthy:
  "unhealthy_count (dsh_components (fold dash_step ops (dashboard_new c now))) = 0"
proof -
  have "all_healthy (dsh_components (fold dash_step ops d))" if "all_healthy (dsh_components d)" for d
    using that by (induction ops arbitrary: d) (simp_all add: step_healthy)
  then show ?thesis by (simp add: healthy_none_unhealthy all_healthy_def dashboard_new_def)
qed

definition failed_login_op :: "'v dash_env \<times> 'v dash_op \<Rightarrow> bool" where
  "failed_login_op x = (case snd x of Dash_Event e \<Rightarrow> is_failed_login e | _ \<Rightarrow> False)"

lemma step_failures:
  "aum_failures_last_hour (smt_auth (dsh_metrics (dash_step x d))) =
   aum_failures_last_hour (smt_auth (dsh_metrics d)) + (if failed_login_op x then 1 else 0)"
proof (induction x d rule: dash_step.induct)
  case (2 env e d)
  then show ?case
    by (cases "ae_event_type e") (simp_all add: failed_login_op_def is_failed_login_def update_metrics_for_def count_by_type_def
        count_authentication_def Let_def)
qed (simp_all add: failed_login_op_def dashboard_initialize_def Let_def)

text \<open>
  the failures of the last hour are those of the whole life of the dashboard: the count is never taken back, however
  much time passes between the events.
\<close>

theorem failures_never_expire:
  "aum_failures_last_hour (smt_auth (dsh_metrics (fold dash_step ops (dashboard_new c now))))
   = of_nat (length (filter failed_login_op ops))"
proof -
  have "aum_failures_last_hour (smt_auth (dsh_metrics (fold dash_step ops d)))
      = aum_failures_last_hour (smt_auth (dsh_metrics d)) + of_nat (length (filter failed_login_op ops))" for d
    by (induction ops arbitrary: d) (simp_all add: step_failures)
  then show ?thesis by (simp add: dashboard_new_def security_metrics_default_def)
qed

text \<open>the buffer of events never holds more than its limit, except that a limit of 0 keeps one event.\<close>

theorem dashboard_events_bounded:
  assumes "length (dsh_recent_events d) \<le> max 1 (dcf_max_events (dsh_config d))"
  shows "length (dsh_recent_events (dashboard_event env e d)) \<le> max 1 (dcf_max_events (dsh_config d))
    \<and> last (dsh_recent_events (dashboard_event env e d)) = enrich_event env e"
proof -
  have "dsh_recent_events (dashboard_event env e d) =
      buffer_security_event (dcf_max_events (dsh_config d)) (enrich_event env e) (dsh_recent_events d)"
    by (simp add: dashboard_event_def check_event_alerts_def create_dash_alert_def Let_def)
  with assms show ?thesis by (auto simp: buffer_security_event_def)
qed

section \<open>Reports\<close>

text \<open>
  the name a user gives is copied into the HTML report as it is: whatever markup it holds becomes part of the page.
\<close>

theorem report_copies_identifier:
  assumes "ev \<in> set (take 50 (rev (dsh_recent_events d)))" "as_source_type (ae_source (sev_audit_event ev)) = User_Source"
    and "export_report json env Export_Html d = Some page"
  shows "contains_str page (''<td>'' @ as_identifier (ae_source (sev_audit_event ev)) @ ''</td>'')"
proof -
  let ?e = "sev_audit_event ev" and ?x = "export_data_of env d"
  have "sublist (''<td>'' @ as_identifier (ae_source ?e) @ ''</td>'') (html_event env ?e)"
  proof -
    have "html_event env ?e = (''<tr>'' @ nl @ cell (den_minute env (ae_timestamp ?e)) @ cell (event_type_debug (ae_event_type ?e))
        @ cell (severity_debug (ae_severity ?e))) @ (''<td>'' @ as_identifier (ae_source ?e) @ ''</td>'')
        @ (nl @ cell (or_text ''N/A'' (report_address ?e)) @ ''</tr>'' @ nl)"
      using assms(2) by (simp add: html_event_def report_user_def or_text_def cell_def)
    then show ?thesis by (simp only: sublist_appendI)
  qed
  also have "ev \<in> set (take 50 (exd_events ?x))"
    using assms(1) by (simp add: export_data_of_def dash_recent_events_def min_def)
  then obtain as bs where "take 50 (exd_events ?x) = as @ ev # bs" using split_list by fast
  then have "sublist (html_event env ?e) (generate_html_report env ?x)"
    by (simp add: generate_html_report_def sublist_def) (metis append.assoc)
  finally show ?thesis
    using assms(3) by (auto simp: export_report_def Let_def contains_str_sublist)
qed

definition sample_dash_env :: "unit dash_env" where
  "sample_dash_env =
     \<lparr> den_now = 0, den_uuid = ''u'', den_as_str = (\<lambda>_. None), den_minute = (\<lambda>_. ''t''), den_rfc3339 = (\<lambda>_. ''t''), den_css = [] \<rparr>"

definition sample_login :: "string \<Rightarrow> unit audit_event" where
  "sample_login user = new_event ''1'' 0 Authentication
     \<lparr> as_identifier = user, as_source_type = User_Source, as_ip_address = None, as_user_agent = None, as_metadata = [] \<rparr>
     Outcome_Failure ''login'' []"

theorem dashboard_events_bounded_witness:
  "length (dsh_recent_events (dashboard_event sample_dash_env (sample_login ''a'')
     (dashboard_new (dashboard_config_default\<lparr>dcf_max_events := 0\<rparr>) 0))) \<le> 1"
  using dashboard_events_bounded [of "dashboard_new (dashboard_config_default\<lparr>dcf_max_events := 0\<rparr>) 0" sample_dash_env "sample_login ''a''"]
  by (simp add: dashboard_new_def)

theorem report_copies_identifier_witness:
  "\<exists>page. export_report (\<lambda>_. None) sample_dash_env Export_Html
       (dashboard_event sample_dash_env (sample_login ''<script>'') (dashboard_new dashboard_config_default 0)) = Some page
     \<and> contains_str page ''<td><script></td>''"
proof -
  let ?d = "dashboard_event sample_dash_env (sample_login ''<script>'') (dashboard_new dashboard_config_default 0)"
  let ?ev = "enrich_event sample_dash_env (sample_login ''<script>'')"
  have "dsh_recent_events ?d = [?ev]"
    by (simp add: dashboard_event_def check_event_alerts_def create_dash_alert_def Let_def buffer_security_event_def dashboard_new_def)
  then have "?ev \<in> set (take 50 (rev (dsh_recent_events ?d)))" by simp
  moreover have e: "sev_audit_event ?ev = sample_login ''<script>''" by (simp add: enrich_event_def)
  moreover obtain page where page: "export_report (\<lambda>_. None) sample_dash_env Export_Html ?d = Some page"
    by (simp add: export_report_def Let_def)
  ultimately show ?thesis
    using report_copies_identifier [of ?ev ?d "\<lambda>_. None" sample_dash_env page] by (simp add: sample_login_def new_event_def)
qed

end
