(* ===== verification/Cli_Values.thy ===== *)
theory Cli_Values
  imports Socket_Protocol
begin

text \<open>
  The pure parts of the command line (\<open>src/cli/mod.rs\<close>): how \<open>fuji config get\<close> and \<open>fuji config list\<close> walk
  the configuration, how \<open>fuji config set\<close> reads a value, the texts of the status display and the unit
  file of \<open>fuji service generate\<close>.

  Floating point numbers are a type \<open>'f\<close>; the serialisation of the \<open>toml\<close> and \<open>serde_json\<close> crates is an
  argument (\<open>to_value\<close> for \<open>serde_json::to_value\<close>).  Texts are lists of bytes, so a character beyond ASCII is
  written as its UTF-8 bytes.
\<close>

section \<open>Values\<close>

datatype 'f toml =
  T_String string
| T_Integer "64 word"
| T_Float 'f
| T_Boolean bool
| T_Datetime string
| T_Array "'f toml list"
| T_Table "(string \<times> 'f toml) list"

datatype 'f json =
  J_Null
| J_Bool bool
| J_Integer "64 word"
| J_Float 'f
| J_String string
| J_Array "'f json list"
| J_Object "(string \<times> 'f json) list"

text \<open>The loop over the parts of the key.\<close>

fun walk_parts :: "'f toml \<Rightarrow> string list \<Rightarrow> 'f toml option" where
  "walk_parts v [] = Some v"
| "walk_parts (T_Table kvs) (p # ps) =
     (case hm_get kvs p of None \<Rightarrow> None | Some v \<Rightarrow> walk_parts v ps)"
| "walk_parts (T_Array vs) (p # ps) =
     (case parse_u64 p of
        None \<Rightarrow> None
      | Some i \<Rightarrow> if unat i < length vs then walk_parts (vs ! unat i) ps else None)"
| "walk_parts v (p # ps) = None"

fun collect_ok :: "('a \<Rightarrow> 'e + 'b) \<Rightarrow> 'a list \<Rightarrow> 'b list option" where
  "collect_ok f [] = Some []"
| "collect_ok f (x # xs) =
     (case f x of Inl _ \<Rightarrow> None | Inr y \<Rightarrow> map_option (Cons y) (collect_ok f xs))"

definition to_json :: "('f \<Rightarrow> bool) \<Rightarrow> ('f toml \<Rightarrow> string + 'f json) \<Rightarrow> 'f toml \<Rightarrow> 'f json option" where
  "to_json fin to_value v =
     (case v of
        T_String s \<Rightarrow> Some (J_String s)
      | T_Integer i \<Rightarrow> Some (J_Integer i)
      | T_Float x \<Rightarrow> Some (if fin x then J_Float x else J_Integer 0)
      | T_Boolean b \<Rightarrow> Some (J_Bool b)
      | T_Datetime s \<Rightarrow> Some (J_String s)
      | T_Array vs \<Rightarrow> map_option J_Array (collect_ok to_value vs)
      | T_Table kvs \<Rightarrow> map_option J_Object (collect_ok (\<lambda>(k, x). case to_value x of Inl e \<Rightarrow> Inl e | Inr j \<Rightarrow> Inr (k, j)) kvs))"

definition get_nested_value ::
    "('f \<Rightarrow> bool) \<Rightarrow> ('f toml \<Rightarrow> string + 'f json) \<Rightarrow> 'f toml \<Rightarrow> string \<Rightarrow> 'f json option" where
  "get_nested_value fin to_value v key =
     (case walk_parts v (split_on CHR ''.'' key) of None \<Rightarrow> None | Some x \<Rightarrow> to_json fin to_value x)"

fun collect_keys :: "'f toml \<Rightarrow> string \<Rightarrow> string list"
  and collect_table :: "(string \<times> 'f toml) list \<Rightarrow> string \<Rightarrow> string list"
  and collect_array :: "'f toml list \<Rightarrow> nat \<Rightarrow> string \<Rightarrow> string list" where
  "collect_keys (T_Table kvs) pfx = collect_table kvs pfx"
| "collect_keys (T_Array vs) pfx = collect_array vs 0 pfx"
| "collect_keys v pfx = []"
| "collect_table [] pfx = []"
| "collect_table ((k, v) # kvs) pfx =
     (let full_key = (if pfx = [] then k else pfx @ ''.'' @ k)
      in full_key # collect_keys v full_key @ collect_table kvs pfx)"
| "collect_array [] i pfx = []"
| "collect_array (v # vs) i pfx =
     (let full_key = pfx @ ''.'' @ show_nat i
      in full_key # collect_keys v full_key @ collect_array vs (Suc i) pfx)"

section \<open>Values to set\<close>

text \<open>\<open>parse::<i64>()\<close>: an optional sign and digits; \<open>parse_f64\<close> is the standard library's parser.\<close>

definition parse_i64 :: "string \<Rightarrow> int option" where
  "parse_i64 s =
     (case s of
        c # r \<Rightarrow>
          (if c = CHR ''-''
           then (case (if r = [] then None else digits_val 10 0 r) of
                   Some n \<Rightarrow> if n \<le> 9223372036854775808 then Some (- int n) else None
                 | None \<Rightarrow> None)
           else (case (if (if c = CHR ''+'' then r else s) = [] then None else digits_val 10 0 (if c = CHR ''+'' then r else s)) of
                   Some n \<Rightarrow> if n < 9223372036854775808 then Some (int n) else None
                 | None \<Rightarrow> None))
      | [] \<Rightarrow> None)"

definition parsed_value :: "(string \<Rightarrow> 'f option) \<Rightarrow> ('f \<Rightarrow> bool) \<Rightarrow> string \<Rightarrow> 'f json" where
  "parsed_value parse_f64 fin s =
     (if to_lowercase s = ''true'' then J_Bool True
      else if to_lowercase s = ''false'' then J_Bool False
      else case parse_i64 s of
             Some i \<Rightarrow> J_Integer (word_of_int i)
           | None \<Rightarrow>
               (case parse_f64 s of
                  Some x \<Rightarrow> if fin x then J_Float x else J_Integer 0
                | None \<Rightarrow> J_String s))"

section \<open>Texts of the status\<close>

definition green :: string where "green = [CHR 0xF0, CHR 0x9F, CHR 0x9F, CHR 0xA2]"
definition red :: string where "red = [CHR 0xF0, CHR 0x9F, CHR 0x94, CHR 0xB4]"
definition yellow :: string where "yellow = [CHR 0xF0, CHR 0x9F, CHR 0x9F, CHR 0xA1]"
definition white :: string where "white = [CHR 0xE2, CHR 0x9A, CHR 0xAA]"
definition circling :: string where "circling = [CHR 0xF0, CHR 0x9F, CHR 0x94, CHR 0x84]"
definition crossed :: string where "crossed = [CHR 0xE2, CHR 0x9D, CHR 0x8C]"
definition info_sign :: string where "info_sign = [CHR 0xE2, CHR 0x84, CHR 0xB9, CHR 0xEF, CHR 0xB8, CHR 0x8F]"
definition warning_sign :: string where "warning_sign = [CHR 0xE2, CHR 0x9A, CHR 0xA0, CHR 0xEF, CHR 0xB8, CHR 0x8F]"
definition check_mark :: string where "check_mark = [CHR 0xE2, CHR 0x9C, CHR 0x93]"
definition ballot_x :: string where "ballot_x = [CHR 0xE2, CHR 0x9C, CHR 0x97]"
definition bullet :: string where "bullet = [CHR 0xE2, CHR 0x80, CHR 0xA2]"

definition shown_bool :: "bool \<Rightarrow> string" where
  "shown_bool b = (if b then ''true'' else ''false'')"

fun format_status :: "mount_status \<Rightarrow> string" where
  "format_status Active = green @ '' Active''"
| "format_status Status_Failed = red @ '' Failed''"
| "format_status Status_Disabled = white @ '' Disabled''"
| "format_status Reconnecting = yellow @ '' Reconnecting''"
| "format_status InProgress = circling @ '' In Progress''"
| "format_status (Status_Error msg) = crossed @ '' Error: '' @ msg"

definition format_health_score :: "u8 option \<Rightarrow> string" where
  "format_health_score score =
     (case score of
        None \<Rightarrow> ''N/A''
      | Some s \<Rightarrow>
          (let n = unat s
           in if 80 \<le> n \<and> n \<le> 100 then green @ '' '' @ show_nat n @ ''/100''
              else if 40 \<le> n \<and> n \<le> 79 then yellow @ '' '' @ show_nat n @ ''/100''
              else if n \<le> 39 then red @ '' '' @ show_nat n @ ''/100''
              else ''N/A''))"

text \<open>\<open>num_minutes\<close> and its companions truncate towards zero.\<close>

definition whole_units :: "int \<Rightarrow> duration \<Rightarrow> int" where
  "whole_units unit d = (if d < 0 then - ((- d) div unit) else d div unit)"

definition shown_int :: "int \<Rightarrow> string" where
  "shown_int i = (if i < 0 then ''-'' @ show_nat (nat (- i)) else show_nat (nat i))"

definition format_time :: "instant \<Rightarrow> instant option \<Rightarrow> string" where
  "format_time now t =
     (case t of
        Some dt \<Rightarrow>
          (let d = now - dt
           in if whole_units 3600000000000 d < 1 then shown_int (whole_units 60000000000 d) @ ''m ago''
              else if whole_units 86400000000000 d < 1 then shown_int (whole_units 3600000000000 d) @ ''h ago''
              else shown_int (whole_units 86400000000000 d) @ ''d ago'')
      | None \<Rightarrow> ''Never'')"

definition format_duration :: "duration \<Rightarrow> string" where
  "format_duration d =
     (let total_seconds = nat (d div 1000000000)
      in if total_seconds < 60 then show_nat total_seconds @ ''s''
         else if total_seconds < 3600
         then show_nat (total_seconds div 60) @ ''m '' @ show_nat (total_seconds mod 60) @ ''s''
         else if total_seconds < 86400
         then show_nat (total_seconds div 3600) @ ''h '' @ show_nat (total_seconds mod 3600 div 60) @ ''m''
         else show_nat (total_seconds div 86400) @ ''d '' @ show_nat (total_seconds mod 86400 div 3600) @ ''h'')"

section \<open>The unit file\<close>

definition unit_lines :: "string list" where
  "unit_lines =
     [''[Unit]'',
      ''Description=Fuji Network File System Manager'',
      ''Documentation=https://github.com/doomedramen/fuji'',
      ''After=network.target network-online.target'',
      ''Wants=network-online.target'',
      ''ConditionPathExists={executable_path}'',
      '''',
      ''[Service]'',
      ''Type=simple'',
      ''ExecStart={executable_path} daemon start'',
      ''Restart=on-failure'',
      ''RestartSec=5s'',
      ''User={user}'',
      ''Group={group}'',
      ''WorkingDirectory={work_dir}'',
      ''Environment=PATH=/usr/local/sbin:/usr/local/bin:/usr/sbin:/usr/bin:/sbin:/bin'',
      ''Environment=RUST_LOG=info'',
      ''Environment=HOME={work_dir}'',
      '''',
      ''# Security settings (relaxed for mount operations)'',
      ''# Note: fuji needs CAP_SYS_ADMIN for mount operations'',
      ''# PrivateNamespaces are incompatible with mount operations'',
      ''NoNewPrivileges=false'',
      ''PrivateTmp=false'',
      ''ProtectSystem=false'',
      ''ProtectHome=false'',
      '''',
      ''# Capabilities needed for mounting'',
      ''AmbientCapabilities=CAP_SYS_ADMIN CAP_DAC_OVERRIDE CAP_CHOWN'',
      ''CapabilityBoundingSet=CAP_SYS_ADMIN CAP_DAC_OVERRIDE CAP_CHOWN CAP_NET_BIND_SERVICE'',
      '''',
      ''# Resource limits'',
      ''LimitNOFILE=65536'',
      '''',
      ''[Install]'',
      ''WantedBy=multi-user.target'']"

definition systemd_service_template :: string where
  "systemd_service_template = concat (map (\<lambda>l. l @ [CHR 0x0A]) unit_lines)"

definition generate_systemd_service :: "string \<Rightarrow> string \<Rightarrow> string \<Rightarrow> string \<Rightarrow> string \<Rightarrow> string" where
  "generate_systemd_service executable_path user grp work_dir data_dir =
     replace_str ''{data_dir}'' data_dir (replace_str ''{work_dir}'' work_dir (replace_str ''{group}'' grp
       (replace_str ''{user}'' user (replace_str ''{executable_path}'' executable_path systemd_service_template))))"

section \<open>Properties of the keys\<close>

text \<open>Tables with different keys, none empty and none with a dot, and arrays of a size a machine can hold.\<close>

fun plain_keys :: "'f toml \<Rightarrow> bool" where
  "plain_keys (T_Table kvs) \<longleftrightarrow>
     distinct (map fst kvs) \<and> (\<forall>kv \<in> set kvs. fst kv \<noteq> [] \<and> CHR ''.'' \<notin> set (fst kv) \<and> plain_keys (snd kv))"
| "plain_keys (T_Array vs) \<longleftrightarrow> length vs < 2 ^ 64 \<and> (\<forall>v \<in> set vs. plain_keys v)"
| "plain_keys v \<longleftrightarrow> True"

definition reached_by :: "'f toml \<Rightarrow> string \<Rightarrow> string \<Rightarrow> bool" where
  "reached_by v pfx k \<longleftrightarrow>
     (\<exists>ps. ps \<noteq> [] \<and> (\<forall>p \<in> set ps. CHR ''.'' \<notin> set p)
        \<and> k = join ''.'' ((if pfx = [] then [] else [pfx]) @ ps) \<and> walk_parts v ps \<noteq> None)"

lemma reached_here:
  assumes "walk_parts v [p] = Some x" and "CHR ''.'' \<notin> set p"
  shows "reached_by v pfx (if pfx = [] then p else pfx @ ''.'' @ p)"
  unfolding reached_by_def using assms by (intro exI [of _ "[p]"]) auto

lemma walk_parts_Cons: "walk_parts v [p] = Some x \<Longrightarrow> walk_parts v (p # ps) = walk_parts x ps"
  by (cases v) (auto split: option.splits if_splits)

lemma reached_below:
  assumes "walk_parts v [p] = Some x" and "CHR ''.'' \<notin> set p" and "p \<noteq> []"
    and "reached_by x (if pfx = [] then p else pfx @ ''.'' @ p) k"
  shows "reached_by v pfx k"
proof -
  from assms(3,4) obtain ps where ps: "ps \<noteq> []" "\<forall>q \<in> set ps. CHR ''.'' \<notin> set q"
      "k = join ''.'' ((if pfx = [] then p else pfx @ ''.'' @ p) # ps)" "walk_parts x ps \<noteq> None"
    by (auto simp: reached_by_def split: if_splits)
  with walk_parts_Cons [OF assms(1)] assms(2) show ?thesis
    unfolding reached_by_def by (intro exI [of _ "p # ps"]) (auto simp: join_Cons)
qed

lemma index_found:
  assumes "i < length vs" and "length vs < 2 ^ 64"
  shows "walk_parts (T_Array vs) [show_nat i] = Some (vs ! i)" and "CHR ''.'' \<notin> set (show_nat i)" and "show_nat i \<noteq> []"
proof -
  have "i < 2 ^ 64" using assms by simp
  then have "parse_u64 (show_nat i) = Some (of_nat i)" by (simp add: parse_u64_def parse_show_nat)
  then show "walk_parts (T_Array vs) [show_nat i] = Some (vs ! i)"
    using assms by (simp add: unat_of_nat)
  show "CHR ''.'' \<notin> set (show_nat i)"
    using show_nat_digits [of i] by (auto simp: is_ascii_digit_def char_code_def)
  show "show_nat i \<noteq> []" using show_nat_hd by blast
qed

lemma collected_keys_reached:
  fixes v :: "'f toml" and kvs :: "(string \<times> 'f toml) list" and vs :: "'f toml list"
  shows "\<lbrakk>plain_keys v; pfx \<noteq> [] \<or> \<not> (\<exists>vs. v = T_Array vs); k \<in> set (collect_keys v pfx)\<rbrakk> \<Longrightarrow> reached_by v pfx k"
  "\<lbrakk>plain_keys (T_Table (kvs' @ kvs)); k \<in> set (collect_table kvs pfx)\<rbrakk> \<Longrightarrow> reached_by (T_Table (kvs' @ kvs)) pfx k"
  "\<lbrakk>plain_keys (T_Array (vs' @ vs)); pfx \<noteq> []; length vs' = i; k \<in> set (collect_array vs i pfx)\<rbrakk> \<Longrightarrow>
     reached_by (T_Array (vs' @ vs)) pfx k"
proof (induction v pfx and kvs pfx and vs i pfx arbitrary: k and kvs' k and vs' k
    rule: collect_keys_collect_table_collect_array.induct)
  case (1 kvs pfx)
  from "1.IH" [of "[]"] 1(2,4) show ?case by simp
next
  case (2 vs pfx)
  from "2.IH" [of "[]"] 2(2-4) show ?case by simp
next
  case (5 key v kvs pfx)
  let ?t = "T_Table (kvs' @ (key, v) # kvs)" and ?fk = "if pfx = [] then key else pfx @ ''.'' @ key"
  have "hm_wf (kvs' @ (key, v) # kvs)" using "5.prems"(1) by (simp add: hm_wf_def)
  then have "hm_get (kvs' @ (key, v) # kvs) key = Some v" by (simp add: hm_get_iff_in_set)
  then have key: "walk_parts ?t [key] = Some v" "CHR ''.'' \<notin> set key" "key \<noteq> []"
    using "5.prems"(1) by simp_all
  consider "k = ?fk" | "k \<in> set (collect_keys v ?fk)" | "k \<in> set (collect_table kvs pfx)"
    using "5.prems"(2) by (auto simp: Let_def)
  then show ?case
  proof cases
    case 1
    with reached_here [OF key(1,2), of pfx] show ?thesis by simp
  next
    case 2
    with "5.IH"(1) "5.prems"(1) key(3) have "reached_by v ?fk k" by simp
    with reached_below [OF key] show ?thesis by blast
  next
    case 3
    with "5.IH"(2) [of ?fk "kvs' @ [(key, v)]" k] "5.prems"(1) show ?thesis by simp
  qed
next
  case (7 v vs i pfx)
  let ?t = "T_Array (vs' @ v # vs)" and ?fk = "pfx @ ''.'' @ show_nat i"
  have key: "walk_parts ?t [show_nat i] = Some v" "CHR ''.'' \<notin> set (show_nat i)" "show_nat i \<noteq> []"
    using index_found [of i "vs' @ v # vs"] "7.prems"(1,3) by auto
  consider "k = ?fk" | "k \<in> set (collect_keys v ?fk)" | "k \<in> set (collect_array vs (Suc i) pfx)"
    using "7.prems"(4) by (auto simp: Let_def)
  then show ?case
  proof cases
    case 1
    with reached_here [OF key(1,2), of pfx] "7.prems"(2) show ?thesis by simp
  next
    case 2
    with "7.IH"(1) [of ?fk k] "7.prems"(1) have "reached_by v ?fk k" by simp
    with reached_below [OF key, of pfx k] "7.prems"(2) show ?thesis by simp
  next
    case 3
    with "7.IH"(2) [of ?fk "vs' @ [v]" k] "7.prems" show ?thesis by simp
  qed
qed simp_all

lemma collect_ok_total: "(\<And>x. is_ok (f x)) \<Longrightarrow> collect_ok f xs \<noteq> None"
proof (induction xs)
  case (Cons x xs)
  obtain y where "f x = Inr y" using Cons.prems [of x] by (auto simp: is_ok_iff)
  with Cons show ?case by auto
qed simp

text \<open>in a table without empty keys and keys with dots, every key that \<open>fuji config list\<close> prints is found by
  \<open>fuji config get\<close>.\<close>

theorem listed_keys_found:
  assumes "plain_keys (T_Table kvs)" and "k \<in> set (collect_keys (T_Table kvs) '''')"
    and "\<And>x. is_ok (to_value x)"
  shows "get_nested_value fin to_value (T_Table kvs) k \<noteq> None"
proof -
  from collected_keys_reached(1) [OF assms(1) _ assms(2)] obtain ps where
    ps: "ps \<noteq> []" "\<forall>p \<in> set ps. CHR ''.'' \<notin> set p" "k = join ''.'' ps" "walk_parts (T_Table kvs) ps \<noteq> None"
    by (auto simp: reached_by_def)
  have parts: "split_on CHR ''.'' k = ps" using split_on_join [OF ps(1,2)] ps(3) by simp
  have ok: "collect_ok to_value vs \<noteq> None" for vs using assms(3) by (rule collect_ok_total)
  have "is_ok (case to_value x of Inl e \<Rightarrow> Inl e | Inr j \<Rightarrow> Inr (k, j))" for k :: string and x
    using assms(3) [of x] by (auto simp: is_ok_iff)
  then have "collect_ok (\<lambda>(k, x). case to_value x of Inl e \<Rightarrow> Inl e | Inr j \<Rightarrow> Inr (k, j)) xs \<noteq> None"
    for xs :: "(string \<times> 'a toml) list"
    by (intro collect_ok_total) (simp split: prod.split)
  with ok have "to_json fin to_value x \<noteq> None" for x by (cases x) (simp_all add: to_json_def)
  then show ?thesis using ps(4) by (auto simp: get_nested_value_def parts)
qed

theorem listed_keys_found_witness:
  "get_nested_value (\<lambda>_. True) (\<lambda>_. Inr J_Null) (T_Table [(''mounts'', T_Table [(''a'', T_Array [T_Float (0 :: nat)])])])
     ''mounts.a.0'' \<noteq> None"
proof (rule listed_keys_found)
  show "''mounts.a.0'' \<in> set (collect_keys (T_Table [(''mounts'', T_Table [(''a'', T_Array [T_Float (0 :: nat)])])]) '''')"
    by code_simp
qed (auto simp: is_ok_def)

text \<open>a key with a dot, such as the id of a mount of the host \<open>server.local\<close>, is printed by
  \<open>fuji config list\<close> and not found by \<open>fuji config get\<close>.\<close>

theorem dotted_key_not_found:
  assumes "(k, v) \<in> set kvs" and "CHR ''.'' \<in> set k" and "before_first CHR ''.'' k \<notin> fst ` set kvs"
  shows "k \<in> set (collect_keys (T_Table kvs) '''') \<and> get_nested_value fin to_value (T_Table kvs) k = None"
proof
  have "k \<in> set (collect_table kvs '''')" using assms(1) by (induction kvs) (auto simp: Let_def)
  then show "k \<in> set (collect_keys (T_Table kvs) '''')" by simp
  obtain a b where k: "k = a @ CHR ''.'' # b" "CHR ''.'' \<notin> set a" using split_list_first [OF assms(2)] by blast
  have "before_first CHR ''.'' k = a" by (simp add: before_first_split_once k split_once_append)
  with assms(3) have "hm_get kvs a = None" by (auto simp: hm_get_def map_of_eq_None_iff)
  then show "get_nested_value fin to_value (T_Table kvs) k = None"
    by (simp add: get_nested_value_def k split_on_append_sep)
qed

theorem dotted_key_not_found_witness:
  "get_nested_value (\<lambda>_. True) (\<lambda>_. Inr J_Null) (T_Table [(''server.local_nfs'', T_Float (0 :: nat))]) ''server.local_nfs'' = None"
  using dotted_key_not_found [of "''server.local_nfs''" "T_Float (0 :: nat)" "[(''server.local_nfs'', T_Float 0)]"
      "\<lambda>_. True" "\<lambda>_. Inr J_Null"]
  by (simp add: before_first_def)

end
