(* ===== verification/Cli_Commands.thy ===== *)
theory Cli_Commands
  imports Cli_Values Config_Store System_Deps
begin

text \<open>
  The commands of the program (\<open>src/cli/mod.rs\<close>): what each sends to the daemon, what it prints and with which
  error it ends.

  A command takes the world (inodes, files and the daemon, a type \<open>'d\<close>) to the world, the pieces of text it
  printed and its result.  \<open>ce_send\<close> is one request over the socket at a path (\<open>Socket_Server\<close> models client and
  server); the libraries that print dates, JSON, TOML and tables, the standard input, the editor and the
  batch parsers are fields of the environment.  Log output is left out.
\<close>

section \<open>The world\<close>

datatype printed = Stdout string | Stderr string

record 'd cli_world =
  cw_inodes :: inodes
  cw_files :: files
  cw_daemon :: 'd

datatype mount_type_arg = Arg_Nfs | Arg_Smb | Arg_Sshfs

datatype batch_operation =
  Batch_Mount (bo_url: string) (bo_mount_point: "string option") (bo_options: "string list option")
    (bo_disable: bool) (bo_dry_run: bool) (bo_progress: bool) (bo_no_persist: bool)
| Batch_Unmount string bool
| Batch_Enable string
| Batch_Disable string
| Batch_Remove string
| Batch_Wait u64
| Batch_Echo string

record batch_config =
  ba_operations :: "batch_operation list"
  ba_variables :: "(string, string) hashmap"

record ('d, 'f) cli_env =
  ce_platform :: platform_env
  ce_config_dir :: string
  ce_readable :: "string \<Rightarrow> bool"
  ce_of_toml :: "string \<Rightarrow> fuji_config option"
  ce_send :: "string \<Rightarrow> request \<Rightarrow> 'd \<Rightarrow> 'd \<times> (string + response)"
  ce_start :: "bool \<Rightarrow> bool \<Rightarrow> bool \<Rightarrow> 'd \<Rightarrow> 'd \<times> (string + unit)"
  ce_date :: "instant \<Rightarrow> string"
  ce_pretty_status :: "mount_status_info list \<Rightarrow> string + string"
  ce_pretty_mounts :: "mount_config list \<Rightarrow> string + string"
  ce_pretty_toml :: "'f toml \<Rightarrow> string + string"
  ce_pretty_json :: "'f json \<Rightarrow> string + string"
  ce_pretty_report :: "deps_report \<Rightarrow> string + string"
  ce_show_json :: "'f json \<Rightarrow> string"
  ce_toml :: "string \<Rightarrow> string + 'f toml"
  ce_to_value :: "'f toml \<Rightarrow> string + 'f json"
  ce_finite :: "'f \<Rightarrow> bool"
  ce_parse_f64 :: "string \<Rightarrow> 'f option"
  ce_table :: "string list \<Rightarrow> string list list \<Rightarrow> string"
  ce_run :: program_runner
  ce_stdin :: "string + string"
  ce_edit :: "string \<Rightarrow> string \<Rightarrow> files \<Rightarrow> files \<times> (string + bool)"
  ce_read_error :: "string \<Rightarrow> string"
  ce_yaml :: "string \<Rightarrow> string + batch_config"
  ce_json :: "string \<Rightarrow> string + batch_config"
  ce_debug :: "batch_operation \<Rightarrow> string"
  ce_write :: write_outcome
  ce_username :: string
  ce_current_exe :: "string option"

type_synonym 'd ran = "'d cli_world \<times> printed list \<times> (string + unit)"

definition outln :: "string \<Rightarrow> printed" where
  "outln s = Stdout (s @ [CHR 0x0A])"

definition errln :: "string \<Rightarrow> printed" where
  "errln s = Stderr (s @ [CHR 0x0A])"

definition nl :: string where "nl = [CHR 0x0A]"

section \<open>Asking the daemon\<close>

text \<open>The path comes from the configuration, and the platform is asked a second time with it.  Loading the
  configuration falls back to the default one, so the branch of a failed load is never taken.\<close>

definition create_socket_client :: "('d, 'f) cli_env \<Rightarrow> 'd cli_world \<Rightarrow> 'd cli_world \<times> string" where
  "create_socket_client env w =
     (let config = load (ce_of_toml env) (ce_readable env) (ce_config_dir env) (cw_files w);
          (fs1, path) = get_socket_path (ce_platform env) (pc_socket_path (cfg_platform config)) (cw_inodes w);
          (fs2, final_path) = get_socket_path (ce_platform env) (Some path) fs1
      in (w\<lparr>cw_inodes := fs2\<rparr>, final_path))"

definition ask :: "('d, 'f) cli_env \<Rightarrow> request \<Rightarrow> 'd cli_world \<Rightarrow> 'd cli_world \<times> (string + response)" where
  "ask env req w =
     (let (w1, path) = create_socket_client env w;
          (d, r) = ce_send env path req (cw_daemon w1)
      in (w1\<lparr>cw_daemon := d\<rparr>, r))"

text \<open>The arms that every command has for the answer: \<open>shown\<close> treats the one it expects.\<close>

definition answered ::
    "(response \<Rightarrow> (printed list \<times> (string + unit)) option) \<Rightarrow> 'd cli_world \<times> (string + response) \<Rightarrow> 'd ran" where
  "answered shown wr =
     (case wr of (w, r) \<Rightarrow>
        (case r of
           Inl e \<Rightarrow> (w, [], Inl e)
         | Inr resp \<Rightarrow>
             (case shown resp of
                Some (out, res) \<Rightarrow> (w, out, res)
              | None \<Rightarrow>
                  (case resp of
                     Error_Response msg \<Rightarrow> (w, [], Inl msg)
                   | _ \<Rightarrow> (w, [], Inl ''Unexpected response'')))))"

definition expect_success :: "string \<Rightarrow> response \<Rightarrow> (printed list \<times> (string + unit)) option" where
  "expect_success line r = (case r of Success \<Rightarrow> Some ([outln line], Inr ()) | _ \<Rightarrow> None)"

section \<open>Mounts\<close>

definition cli_mount ::
    "('d, 'f) cli_env \<Rightarrow> string \<Rightarrow> string option \<Rightarrow> string list option \<Rightarrow> bool \<Rightarrow> bool \<Rightarrow> bool \<Rightarrow> bool \<Rightarrow>
     'd cli_world \<Rightarrow> 'd ran" where
  "cli_mount env url mount_point options disabled dry_run progress no_persist w =
     answered (\<lambda>r. case r of
         MountSuccess mount_id point \<Rightarrow>
           Some ([errln ((if dry_run then ''Would mount '' else ''Successfully mounted '') @ url @ '' to:''),
                  errln (''  Mount ID: '' @ mount_id), errln (''  Mount point: '' @ point)], Inr ())
       | _ \<Rightarrow> None)
       (ask env (Mount_Request url mount_point options disabled dry_run progress no_persist) w)"

definition cli_unmount :: "('d, 'f) cli_env \<Rightarrow> string \<Rightarrow> bool \<Rightarrow> 'd cli_world \<Rightarrow> 'd ran" where
  "cli_unmount env mount_id force w =
     answered (\<lambda>r. case r of
         UnmountSuccess \<Rightarrow> Some ([outln (''Successfully unmounted '' @ mount_id)], Inr ())
       | _ \<Rightarrow> None)
       (ask env (Unmount_Request mount_id force) w)"

definition cli_enable :: "('d, 'f) cli_env \<Rightarrow> string \<Rightarrow> 'd cli_world \<Rightarrow> 'd ran" where
  "cli_enable env mount_id w = answered (expect_success ''Enabled mount'') (ask env (Enable mount_id) w)"

definition cli_disable :: "('d, 'f) cli_env \<Rightarrow> string \<Rightarrow> 'd cli_world \<Rightarrow> 'd ran" where
  "cli_disable env mount_id w = answered (expect_success ''Disabled mount'') (ask env (Disable mount_id) w)"

definition cli_remove :: "('d, 'f) cli_env \<Rightarrow> string \<Rightarrow> 'd cli_world \<Rightarrow> 'd ran" where
  "cli_remove env mount_id w = answered (expect_success ''Removed mount'') (ask env (Remove mount_id) w)"

definition cli_remount :: "('d, 'f) cli_env \<Rightarrow> string \<Rightarrow> 'd cli_world \<Rightarrow> 'd ran" where
  "cli_remount env mount_id w = answered (expect_success ''Remounted successfully'') (ask env (Remount mount_id) w)"

definition cli_discover :: "('d, 'f) cli_env \<Rightarrow> string \<Rightarrow> 'd cli_world \<Rightarrow> 'd ran" where
  "cli_discover env url w =
     answered (\<lambda>r. case r of
         DiscoveredShares u shares \<Rightarrow>
           Some (outln (''Available shares on '' @ u @ '':'')
                 # (if shares = [] then [outln ''  No shares found''] else map (\<lambda>s. outln (''  '' @ s)) shares), Inr ())
       | _ \<Rightarrow> None)
       (ask env (Discover url) w)"

definition mount_lines :: "('d, 'f) cli_env \<Rightarrow> mount_config \<Rightarrow> printed list" where
  "mount_lines env m =
     [outln (mc_id m @ '' ('' @ (if mc_enabled m then ''enabled'' else ''disabled'') @ '')''),
      outln (''  URL: '' @ mc_url m), outln (''  Created: '' @ ce_date env (mc_created_at m)), outln '''']"

definition cli_list ::
    "('d, 'f) cli_env \<Rightarrow> bool \<Rightarrow> bool \<Rightarrow> string option \<Rightarrow> string option \<Rightarrow> string option \<Rightarrow> bool \<Rightarrow>
     'd cli_world \<Rightarrow> 'd ran" where
  "cli_list env enabled disabled filter_point filter_url filter_type json w =
     answered (\<lambda>r. case r of
         MountList mounts \<Rightarrow>
           Some (if mounts = [] then ([outln ''No mounts found''], Inr ())
                 else if json
                 then (case ce_pretty_mounts env mounts of Inl e \<Rightarrow> ([], Inl e) | Inr s \<Rightarrow> ([outln s], Inr ()))
                 else (concat (map (mount_lines env) mounts), Inr ()))
       | _ \<Rightarrow> None)
       (ask env (List_Request enabled disabled json filter_url filter_type filter_point) w)"

section \<open>Status\<close>

text \<open>The outcome of the last forced synchronisation, and the lines about the cluster.\<close>

definition result_lines :: "('d, 'f) cli_env \<Rightarrow> force_sync_result \<Rightarrow> printed list" where
  "result_lines env r =
     (case r of
        Force_Success completed_at peers_synced conflicts_resolved \<Rightarrow>
          [outln (''    Last: '' @ check_mark @ '' Succeeded''), outln (''    Completed: '' @ ce_date env completed_at),
           outln (''    Peers synced: '' @ show_nat peers_synced)]
          @ (if conflicts_resolved > 0 then [outln (''    Conflicts resolved: '' @ show_nat conflicts_resolved)] else [])
      | Force_Failed failed_at err peers_attempted \<Rightarrow>
          [outln (''    Last: '' @ ballot_x @ '' Failed''), outln (''    Failed: '' @ ce_date env failed_at),
           outln (''    Error: '' @ err), outln (''    Peers attempted: '' @ show_nat peers_attempted)]
      | Force_InProgress _ _ _ \<Rightarrow> [])"

definition opt_line :: "string \<Rightarrow> string option \<Rightarrow> printed list" where
  "opt_line label v = (case v of Some s \<Rightarrow> [outln (label @ s)] | None \<Rightarrow> [])"

definition force_sync_lines :: "('d, 'f) cli_env \<Rightarrow> force_sync_info \<Rightarrow> printed list" where
  "force_sync_lines env f =
     (let attempts = unat (fsi_attempt_count f)
      in if fsi_in_progress f
         then [outln ''  Force Sync: IN PROGRESS'']
              @ opt_line ''    Started: '' (map_option (ce_date env) (fsi_last_initiated f))
              @ opt_line ''    Initiated by: '' (fsi_initiated_by f)
              @ opt_line ''    Reason: '' (fsi_reason f)
              @ [outln (''    Attempt #'' @ show_nat attempts)]
         else if attempts > 0
         then [outln ''  Force Sync:'']
              @ (case fsi_last_result f of
                   Some r \<Rightarrow> result_lines env r @ [outln (''    Total attempts: '' @ show_nat attempts)]
                 | None \<Rightarrow> [])
         else [])"

definition cluster_lines :: "('d, 'f) cli_env \<Rightarrow> string \<Rightarrow> cluster_info \<Rightarrow> printed list" where
  "cluster_lines env heading c =
     [outln heading, outln (''  Instance ID: '' @ ci_instance_id c),
      outln (''  Cluster Enabled: '' @ shown_bool (ci_cluster_enabled c)),
      outln (''  Peers Connected: '' @ show_nat (ci_peers_connected c)),
      outln (case ci_last_sync c of Some t \<Rightarrow> ''  Last Sync: '' @ ce_date env t | None \<Rightarrow> ''  Last Sync: Never'')]
     @ (case ci_force_sync_info c of Some f \<Rightarrow> force_sync_lines env f | None \<Rightarrow> [])"

definition health_lines :: "('d, 'f) cli_env \<Rightarrow> string \<Rightarrow> daemon_health_info \<Rightarrow> printed list" where
  "health_lines env heading h =
     [outln ((if dhi_healthy h then green else red) @ '' Daemon Status: ''
        @ (if dhi_healthy h then ''Healthy'' else ''Unhealthy'') @ '' (Uptime: ''
        @ (case dhi_uptime h of Some d \<Rightarrow> format_duration d | None \<Rightarrow> ''Unknown'') @ '')'')]
     @ (if dhi_issues h \<noteq> [] then outln ''Issues:'' # map (\<lambda>i. outln (''  - '' @ i)) (dhi_issues h) else [])
     @ (case dhi_cluster_info h of Some c \<Rightarrow> cluster_lines env heading c | None \<Rightarrow> [])
     @ [outln '''']"

definition status_lines :: "('d, 'f) cli_env \<Rightarrow> bool \<Rightarrow> mount_status_info \<Rightarrow> printed list" where
  "status_lines env verbose m =
     [outln (msi_id m @ '': '' @ show_mount_status (msi_status m)), outln (''  URL: '' @ msi_url m),
      outln (''  Mount point: '' @ msi_mount_point m), outln (''  Enabled: '' @ shown_bool (msi_enabled m))]
     @ (if verbose
        then opt_line ''  Last connected: '' (map_option (ce_date env) (msi_last_connected m))
             @ (if msi_reconnect_attempts m > 0
                then [outln (''  Reconnect attempts: '' @ show_nat (unat (msi_reconnect_attempts m)))] else [])
             @ (case msi_health_score m of
                  Some s \<Rightarrow> [outln (''  Health score: '' @ show_nat (unat s) @ ''%'')] | None \<Rightarrow> [])
        else [])
     @ [outln '''']"

definition display_status_table :: "('d, 'f) cli_env \<Rightarrow> instant \<Rightarrow> mount_status_info list \<Rightarrow> bool \<Rightarrow> printed list" where
  "display_status_table env now mounts verbose =
     [outln (ce_table env
        ([''ID'', ''URL'', ''Mount Point'', ''Status'', ''Enabled'']
          @ (if verbose then [''Health'', ''Last Check'', ''Reconnects''] else []))
        (map (\<lambda>m. [msi_id m, msi_url m, msi_mount_point m, format_status (msi_status m),
                   if msi_enabled m then check_mark else ballot_x]
               @ (if verbose
                  then [format_health_score (msi_health_score m), format_time now (msi_last_connected m),
                        show_nat (unat (msi_reconnect_attempts m))]
                  else [])) mounts))]"

definition watch_body ::
    "('d, 'f) cli_env \<Rightarrow> bool \<Rightarrow> instant \<Rightarrow> string + response \<Rightarrow> printed list" where
  "watch_body env verbose now r =
     (case r of
        Inl e \<Rightarrow> [outln (crossed @ '' Error getting status: '' @ e)]
      | Inr (Status_Response mounts daemon_running daemon_health) \<Rightarrow>
          (if \<not> daemon_running then [outln (crossed @ '' Daemon is not running'')]
           else (case daemon_health of Some h \<Rightarrow> health_lines env ''Cluster:'' h | None \<Rightarrow> [])
                @ (if mounts = [] then [outln (info_sign @ ''  No mounts configured'')]
                   else display_status_table env now mounts verbose))
      | Inr _ \<Rightarrow> [])"

text \<open>One round per element: the clock at its heading and in its table; the list ends with Ctrl-C.\<close>

fun watch_rounds ::
    "('d, 'f) cli_env \<Rightarrow> bool \<Rightarrow> string option \<Rightarrow> string option \<Rightarrow> string option \<Rightarrow> string option \<Rightarrow>
     (instant \<times> instant) list \<Rightarrow> 'd cli_world \<Rightarrow> 'd cli_world \<times> printed list" where
  "watch_rounds env verbose fp fu ft fst' [] w = (w, [outln (nl @ ''Stopping watch mode...'')])"
| "watch_rounds env verbose fp fu ft fst' ((now, now') # rounds) w =
     (let (w1, r) = ask env (Status_Request True False False fu ft fp fst') w;
          (w2, out) = watch_rounds env verbose fp fu ft fst' rounds w1
      in (w2, [Stdout ([CHR 0x1B] @ ''[2J'' @ [CHR 0x1B] @ ''[1;1H''),
               outln ''Fuji Status - Watching (Press Ctrl+C to stop)'',
               outln (''Last updated: '' @ ce_date env now), outln (replicate 60 CHR ''='')]
              @ watch_body env verbose now' r @ out))"

definition shown_status ::
    "('d, 'f) cli_env \<Rightarrow> bool \<Rightarrow> bool \<Rightarrow> response \<Rightarrow> (printed list \<times> (string + unit)) option" where
  "shown_status env verbose json resp =
     (case resp of
        Status_Response mounts daemon_running daemon_health \<Rightarrow>
          Some (if \<not> daemon_running then ([outln ''Daemon is not running''], Inr ())
                else
                  (let health = (case daemon_health of Some h \<Rightarrow> health_lines env (nl @ ''Cluster:'') h | None \<Rightarrow> [])
                   in if json
                      then (case ce_pretty_status env mounts of
                              Inl e \<Rightarrow> (health, Inl e) | Inr s \<Rightarrow> (health @ [outln s], Inr ()))
                      else if mounts = [] then (health @ [outln ''No mounts configured''], Inr ())
                      else (health @ concat (map (status_lines env verbose) mounts), Inr ())))
      | _ \<Rightarrow> None)"

definition cli_status ::
    "('d, 'f) cli_env \<Rightarrow> bool \<Rightarrow> bool \<Rightarrow> string option \<Rightarrow> string option \<Rightarrow> string option \<Rightarrow> string option \<Rightarrow> bool \<Rightarrow>
     (instant \<times> instant) list \<Rightarrow> 'd cli_world \<Rightarrow> 'd ran" where
  "cli_status env verbose watch fp fu ft fst' json rounds w =
     (if watch
      then (case watch_rounds env verbose fp fu ft fst' rounds w of (w', out) \<Rightarrow> (w', out, Inr ()))
      else answered (shown_status env verbose json) (ask env (Status_Request verbose watch json fu ft fp fst') w))"

section \<open>Daemon\<close>

datatype daemon_command = Daemon_Start bool bool bool | Daemon_Stop | Daemon_Logs "64 word option"

definition cli_daemon :: "('d, 'f) cli_env \<Rightarrow> daemon_command \<Rightarrow> 'd cli_world \<Rightarrow> 'd ran" where
  "cli_daemon env c w =
     (case c of
        Daemon_Start no_automount disable_resource_limits ephemeral \<Rightarrow>
          (case ce_start env no_automount disable_resource_limits ephemeral (cw_daemon w) of
             (d, r) \<Rightarrow> (w\<lparr>cw_daemon := d\<rparr>, [], r))
      | Daemon_Stop \<Rightarrow> answered (expect_success ''Daemon stop signal sent'') (ask env StopDaemon w)
      | Daemon_Logs lines \<Rightarrow>
          answered (\<lambda>r. case r of Logs ls \<Rightarrow> Some (map outln ls, Inr ()) | _ \<Rightarrow> None) (ask env (GetLogs lines) w))"

section \<open>Configuration\<close>

datatype config_command =
  Config_Show bool | Config_Get string bool | Config_Set string string | Config_List bool | Config_Reset bool | Config_Edit

definition printing :: "string + string \<Rightarrow> printed list \<times> (string + unit)" where
  "printing r = (case r of Inl e \<Rightarrow> ([], Inl e) | Inr s \<Rightarrow> ([outln s], Inr ()))"

definition parsed_config :: "('d, 'f) cli_env \<Rightarrow> string \<Rightarrow> string + 'f toml" where
  "parsed_config env s = map_err (\<lambda>e. ''Failed to parse config: '' @ e) (ce_toml env s)"

definition shown_config ::
    "(string \<Rightarrow> printed list \<times> (string + unit)) \<Rightarrow> response \<Rightarrow> (printed list \<times> (string + unit)) option" where
  "shown_config f r = (case r of Config_Response config \<Rightarrow> Some (f config) | _ \<Rightarrow> None)"

definition on_parsed ::
    "('d, 'f) cli_env \<Rightarrow> ('f toml \<Rightarrow> printed list \<times> (string + unit)) \<Rightarrow> string \<Rightarrow> printed list \<times> (string + unit)" where
  "on_parsed env f config = (case parsed_config env config of Inl e \<Rightarrow> ([], Inl e) | Inr v \<Rightarrow> f v)"

definition config_show :: "('d, 'f) cli_env \<Rightarrow> bool \<Rightarrow> 'd cli_world \<Rightarrow> 'd ran" where
  "config_show env json w =
     answered (shown_config (\<lambda>config.
         if json then on_parsed env (\<lambda>v. printing (ce_pretty_toml env v)) config else ([outln config], Inr ())))
       (ask env GetConfig w)"

definition config_get :: "('d, 'f) cli_env \<Rightarrow> string \<Rightarrow> bool \<Rightarrow> 'd cli_world \<Rightarrow> 'd ran" where
  "config_get env key json w =
     answered (shown_config (on_parsed env (\<lambda>v.
         case get_nested_value (ce_finite env) (ce_to_value env) v key of
           None \<Rightarrow> ([], Inl (''Configuration key '' @ [CHR 0x27] @ key @ [CHR 0x27] @ '' not found''))
         | Some j \<Rightarrow> if json then printing (ce_pretty_json env j) else ([outln (ce_show_json env j)], Inr ()))))
       (ask env GetConfig w)"

definition config_set :: "('d, 'f) cli_env \<Rightarrow> string \<Rightarrow> string \<Rightarrow> 'd cli_world \<Rightarrow> 'd ran" where
  "config_set env key v w =
     (w, [outln (''Set '' @ key @ '' = '' @ ce_show_json env (parsed_value (ce_parse_f64 env) (ce_finite env) v))], Inr ())"

definition config_list :: "('d, 'f) cli_env \<Rightarrow> bool \<Rightarrow> 'd cli_world \<Rightarrow> 'd ran" where
  "config_list env json w =
     answered (shown_config (on_parsed env (\<lambda>v.
         let keys = collect_keys v ''''
         in if json then printing (ce_pretty_json env (J_Object [(''keys'', J_Array (map J_String keys))]))
            else (map outln keys, Inr ()))))
       (ask env GetConfig w)"

definition config_reset :: "('d, 'f) cli_env \<Rightarrow> bool \<Rightarrow> 'd cli_world \<Rightarrow> 'd ran" where
  "config_reset env force w =
     (let question = outln ''This will reset all configuration to defaults. Are you sure? [y/N]'';
          finished = outln ''Configuration reset requires daemon restart''
      in if force then (w, [finished], Inr ())
         else case ce_stdin env of
                Inl e \<Rightarrow> (w, [question], Inl e)
              | Inr line \<Rightarrow>
                  if starts_with (to_lowercase (trim line)) ''y'' then (w, [question, finished], Inr ())
                  else (w, [question, outln ''Reset cancelled''], Inr ()))"

definition config_edit :: "('d, 'f) cli_env \<Rightarrow> 'd cli_world \<Rightarrow> 'd ran" where
  "config_edit env w =
     (let editor = (case pl_var (ce_platform env) ''EDITOR'' of Some e \<Rightarrow> e | None \<Rightarrow> ''vi'');
          (fs, r) = ce_edit env editor (path_join (ce_config_dir env) ''fuji.toml'') (cw_files w)
      in (w\<lparr>cw_files := fs\<rparr>, [],
          case r of
            Inl e \<Rightarrow> Inl (''Failed to open editor: '' @ e)
          | Inr True \<Rightarrow> Inr ()
          | Inr False \<Rightarrow> Inl ''Editor failed''))"

definition cli_config :: "('d, 'f) cli_env \<Rightarrow> config_command \<Rightarrow> 'd cli_world \<Rightarrow> 'd ran" where
  "cli_config env c w =
     (case c of
        Config_Show json \<Rightarrow> config_show env json w
      | Config_Get key json \<Rightarrow> config_get env key json w
      | Config_Set key v \<Rightarrow> config_set env key v w
      | Config_List json \<Rightarrow> config_list env json w
      | Config_Reset force \<Rightarrow> config_reset env force w
      | Config_Edit \<Rightarrow> config_edit env w)"

section \<open>The system\<close>

definition dependency_lines :: "deps_checker \<Rightarrow> string \<times> dep_result \<Rightarrow> printed list" where
  "dependency_lines c e =
     (case e of (key, r) \<Rightarrow>
        (case hm_get c key of
           None \<Rightarrow> []
         | Some d \<Rightarrow>
             (if dr_available r
              then [outln (check_mark @ '' '' @ sd_display_name d
                      @ (case dr_version r of None \<Rightarrow> '''' | Some v \<Rightarrow> '' v'' @ v) @ '' - '' @ sd_description d)]
              else outln (ballot_x @ '' '' @ sd_display_name d
                      @ (if sd_required d then '' (REQUIRED)'' else '' (optional)'') @ '' - '' @ sd_description d)
                   # opt_line ''  Error: '' (dr_error r) @ opt_line ''  To install: '' (dr_install_instructions r))))"

definition print_report :: "deps_checker \<Rightarrow> deps_report \<Rightarrow> printed list" where
  "print_report c rep =
     outln (nl @ ''=== System Dependencies Check ==='')
     # concat (map (dependency_lines c) (sort_key fst (rp_dependencies rep)))
     @ [outln '''']
     @ (if rp_all_required_available rep
        then [outln (check_mark @ '' All required dependencies are available!'')]
        else outln (ballot_x @ '' Some required dependencies are missing:'')
             # concat (map (\<lambda>k. case hm_get c k of Some d \<Rightarrow> [outln (''  - '' @ sd_display_name d)] | None \<Rightarrow> [])
                        (rp_missing_required rep))
             @ [outln (nl @ ''Please install the missing dependencies before continuing.'')])"

fun dummy_type :: "mount_type_arg \<Rightarrow> mount_type" where
  "dummy_type Arg_Nfs = Nfs ''dummy'' ''/dummy'' []"
| "dummy_type Arg_Smb = Smb ''dummy'' ''dummy'' None None None []"
| "dummy_type Arg_Sshfs = Sshfs ''dummy'' None ''/dummy'' None None []"

definition cli_check_system :: "('d, 'f) cli_env \<Rightarrow> mount_type_arg option \<Rightarrow> bool \<Rightarrow> bool \<Rightarrow> 'd cli_world \<Rightarrow> 'd ran" where
  "cli_check_system env ty required_only json w =
     (let c = init_dependencies;
          rep = (case ty of
                   Some a \<Rightarrow> check_for_mount_type (ce_run env) c (dummy_type a)
                 | None \<Rightarrow> if required_only then check_required (ce_run env) c else check_all_dependencies (ce_run env) c)
      in if json then (w, printing (ce_pretty_report env rep)) else (w, print_report c rep, Inr ()))"

fun severity_icon :: "issue_severity \<Rightarrow> string" where
  "severity_icon Issue_Error = crossed"
| "severity_icon Issue_Warning = warning_sign"
| "severity_icon Issue_Info = info_sign"

definition doctor_lines :: "string + response \<Rightarrow> printed list" where
  "doctor_lines r =
     (case r of
        Inl e \<Rightarrow> [outln (warning_sign @ '' Failed to communicate with daemon: '' @ e)]
      | Inr (DoctorReport issues suggestions) \<Rightarrow>
          (if issues = [] then [outln (check_mark @ '' Daemon reports no issues'')]
           else map (\<lambda>i. outln (severity_icon (is_severity i) @ '' '' @ is_component i @ '': '' @ is_message i)) issues)
          @ (if suggestions = [] then []
             else outln (nl @ ''Suggestions from daemon:'') # map (\<lambda>s. outln (''  '' @ bullet @ '' '' @ s)) suggestions)
      | Inr (Error_Response msg) \<Rightarrow> [outln (warning_sign @ '' Daemon returned error: '' @ msg)]
      | Inr _ \<Rightarrow> [outln (warning_sign @ '' Unexpected response from daemon'')])"

definition cli_doctor :: "('d, 'f) cli_env \<Rightarrow> 'd cli_world \<Rightarrow> 'd ran" where
  "cli_doctor env w =
     (let rep = check_all_dependencies (ce_run env) init_dependencies;
          (w1, r) = ask env Doctor w
      in (w1,
          [outln (''Fuji System Diagnosis'' @ nl), outln ''=== Checking System Dependencies ===''] 
          @ print_report init_dependencies rep
          @ [outln (nl @ ''=== Checking Daemon Status ==='')]
          @ doctor_lines r
          @ [outln (nl @ ''=== Summary ==='')]
          @ (if rp_all_required_available rep
             then [outln (check_mark @ '' All required system dependencies are available'')]
             else [outln (ballot_x @ '' Some required dependencies are missing''),
                   outln ''  Install them before using Fuji for mounting'']),
          Inr ()))"

section \<open>Batches\<close>

definition batch_execute :: "('d, 'f) cli_env \<Rightarrow> batch_operation \<Rightarrow> 'd cli_world \<Rightarrow> 'd ran" where
  "batch_execute env op w =
     (case op of
        Batch_Mount url point options disabled dry_run progress no_persist \<Rightarrow>
          cli_mount env url point options disabled dry_run progress no_persist w
      | Batch_Unmount i force \<Rightarrow> cli_unmount env i force w
      | Batch_Enable i \<Rightarrow> cli_enable env i w
      | Batch_Disable i \<Rightarrow> cli_disable env i w
      | Batch_Remove i \<Rightarrow> cli_remove env i w
      | Batch_Wait n \<Rightarrow> (w, [outln (''  Waiting '' @ show_nat (unat n) @ '' seconds...'')], Inr ())
      | Batch_Echo msg \<Rightarrow> (w, [outln (''  '' @ msg)], Inr ()))"

text \<open>The loop from the operation number \<open>index\<close> on; \<open>Inl\<close> is the early return, \<open>Inr\<close> the two counts.\<close>

fun batch_loop ::
    "('d, 'f) cli_env \<Rightarrow> bool \<Rightarrow> bool \<Rightarrow> nat \<Rightarrow> nat \<Rightarrow> batch_operation list \<Rightarrow> nat \<Rightarrow> nat \<Rightarrow> 'd cli_world \<Rightarrow>
     'd cli_world \<times> printed list \<times> (string + nat \<times> nat)" where
  "batch_loop env continue_on_error dry_run n index [] ok bad w = (w, [], Inr (ok, bad))"
| "batch_loop env continue_on_error dry_run n index (op # ops) ok bad w =
     (let heading = outln (nl @ ''['' @ show_nat (index + 1) @ ''/'' @ show_nat n @ ''] '' @ ce_debug env op)
      in if dry_run
         then (case batch_loop env continue_on_error dry_run n (index + 1) ops (ok + 1) bad w of
                 (w2, out, r) \<Rightarrow> (w2, heading # outln (''  Would execute: '' @ ce_debug env op) # out, r))
         else
           (case batch_execute env op w of
              (w1, out1, Inr _) \<Rightarrow>
                (case batch_loop env continue_on_error dry_run n (index + 1) ops (ok + 1) bad w1 of
                   (w2, out, r) \<Rightarrow> (w2, heading # out1 @ outln (''  '' @ check_mark @ '' Success'') # out, r))
            | (w1, out1, Inl e) \<Rightarrow>
                if continue_on_error
                then (case batch_loop env continue_on_error dry_run n (index + 1) ops ok (bad + 1) w1 of
                        (w2, out, r) \<Rightarrow> (w2, heading # out1 @ out, r))
                else (w1, heading # out1, Inl (''Batch operation '' @ show_nat (index + 1) @ '' failed: '' @ e))))"

text \<open>\<open>Path::extension\<close>: what follows the last dot of the last component, unless that is its first character.\<close>

definition path_extension :: "string \<Rightarrow> string option" where
  "path_extension p =
     (case rev (path_components p) of
        Normal name # _ \<Rightarrow>
          (let parts = split_on CHR ''.'' name
           in if length parts \<ge> 2 \<and> butlast parts \<noteq> [''''] then Some (List.last parts) else None)
      | _ \<Rightarrow> None)"

definition batch_parse :: "('d, 'f) cli_env \<Rightarrow> string \<Rightarrow> string \<Rightarrow> string + batch_config" where
  "batch_parse env path content =
     (if path_extension path = Some ''yaml'' \<or> path_extension path = Some ''yml''
      then map_err (\<lambda>e. ''Failed to parse YAML batch file: '' @ e) (ce_yaml env content)
      else map_err (\<lambda>e. ''Failed to parse JSON batch file: '' @ e) (ce_json env content))"

definition run_batch :: "('d, 'f) cli_env \<Rightarrow> bool \<Rightarrow> bool \<Rightarrow> batch_config \<Rightarrow> 'd cli_world \<Rightarrow> 'd ran" where
  "run_batch env continue_on_error dry_run b w =
     (let n = length (ba_operations b)
      in case batch_loop env continue_on_error dry_run n 0 (ba_operations b) 0 0 w of
           (w1, out, r) \<Rightarrow>
             (w1,
              outln (''Executing '' @ show_nat n @ '' batch operations...'')
              # (if dry_run then [outln ''DRY RUN MODE - No actual operations will be performed''] else [])
              @ out
              @ (case r of
                   Inl _ \<Rightarrow> []
                 | Inr (ok, bad) \<Rightarrow>
                     [outln (nl @ ''Batch execution complete:''), outln (''  Successful operations: '' @ show_nat ok),
                      outln (''  Failed operations: '' @ show_nat bad)]),
              case r of
                Inl e \<Rightarrow> Inl e
              | Inr (ok, bad) \<Rightarrow>
                  if bad > 0 then Inl (''Batch operation completed with '' @ show_nat bad @ '' errors'') else Inr ()))"

definition cli_batch :: "('d, 'f) cli_env \<Rightarrow> string \<Rightarrow> bool \<Rightarrow> bool \<Rightarrow> 'd cli_world \<Rightarrow> 'd ran" where
  "cli_batch env path continue_on_error dry_run w =
     (case read_file (ce_readable env) (cw_files w) path of
        None \<Rightarrow> (w, [], Inl (''Failed to read batch file '' @ [CHR 0x27] @ path @ [CHR 0x27] @ '': '' @ ce_read_error env path))
      | Some content \<Rightarrow>
          (case batch_parse env path content of
             Inl e \<Rightarrow> (w, [], Inl e)
           | Inr b \<Rightarrow> run_batch env continue_on_error dry_run b w))"

section \<open>Services\<close>

datatype service_command = Service_Generate "string option" "string option" "string option" "string option"

fun cli_service :: "('d, 'f) cli_env \<Rightarrow> service_command \<Rightarrow> 'd cli_world \<Rightarrow> 'd ran" where
  "cli_service env (Service_Generate destination service_name user work_dir) w =
     (let current_user = (case user of Some u \<Rightarrow> u | None \<Rightarrow> ce_username env)
      in case ce_current_exe env of
           None \<Rightarrow> (w, [], Inl ''Failed to get fuji executable path'')
         | Some exe \<Rightarrow>
             (let content = generate_systemd_service exe current_user current_user
                              (case work_dir of Some d \<Rightarrow> d | None \<Rightarrow> ''/'') ''/var/lib/fuji''
              in case destination of
                   None \<Rightarrow> (w, [outln content], Inr ())
                 | Some path \<Rightarrow>
                     (case write_file (ce_write env) path content (cw_files w) of
                        (fs, ok) \<Rightarrow>
                          (w\<lparr>cw_files := fs\<rparr>,
                           if ok then [outln (''Service file '' @ [CHR 0x27] @ path @ [CHR 0x27] @ '' written successfully'')] else [],
                           if ok then Inr () else Inl (''Failed to write to '' @ path)))))"

section \<open>Properties\<close>

lemma batch_loop_dry:
  "\<exists>out. batch_loop env continue_on_error True n index ops ok bad w = (w, out, Inr (ok + length ops, bad))"
proof (induction ops arbitrary: index ok)
  case (Cons op ops)
  then obtain out where "batch_loop env continue_on_error True n (index + 1) ops (ok + 1) bad w
      = (w, out, Inr (ok + 1 + length ops, bad))" by blast
  then show ?case by (simp add: Let_def)
qed simp

text \<open>a dry run of a batch sends nothing and counts every operation as a success.\<close>

theorem dry_batch_succeeds:
  "\<exists>out. run_batch env continue_on_error True b w = (w, out, Inr ())"
proof -
  from batch_loop_dry [of env continue_on_error "length (ba_operations b)" 0 "ba_operations b" 0 0 w] obtain out where
    "batch_loop env continue_on_error True (length (ba_operations b)) 0 (ba_operations b) 0 0 w
      = (w, out, Inr (length (ba_operations b), 0))" by auto
  then show ?thesis by (simp add: run_batch_def Let_def)
qed

text \<open>The worlds and results of a list of operations done one after the other.\<close>

fun batch_results :: "('d, 'f) cli_env \<Rightarrow> batch_operation list \<Rightarrow> 'd cli_world \<Rightarrow> ('d cli_world \<times> (string + unit)) list" where
  "batch_results env [] w = []"
| "batch_results env (op # ops) w =
     (case batch_execute env op w of (w1, _, r) \<Rightarrow> (w1, r) # batch_results env ops w1)"

definition world_after :: "'d cli_world \<Rightarrow> ('d cli_world \<times> (string + unit)) list \<Rightarrow> 'd cli_world" where
  "world_after w rs = (if rs = [] then w else fst (List.last rs))"

definition failures :: "('d cli_world \<times> (string + unit)) list \<Rightarrow> nat" where
  "failures rs = length (filter (\<lambda>(_, r). \<not> is_ok r) rs)"

lemma world_after_Cons [simp]: "world_after w ((w1, r) # rs) = world_after w1 rs"
  by (simp add: world_after_def)

lemma world_after_Nil [simp]: "world_after w [] = w"
  by (simp add: world_after_def)

lemma failures_simps [simp]:
  "failures [] = 0" "failures ((w, Inl e) # rs) = Suc (failures rs)" "failures ((w, Inr u) # rs) = failures rs"
  by (simp_all add: failures_def is_ok_def)

lemma batch_results_append:
  "batch_results env (xs @ ys) w = batch_results env xs w @ batch_results env ys (world_after w (batch_results env xs w))"
  by (induction xs arbitrary: w) (auto simp: world_after_def split: prod.split)

lemma batch_loop_continues:
  "\<exists>out. batch_loop env True False n index ops ok bad w =
     (world_after w (batch_results env ops w), out,
      Inr (ok + (length ops - failures (batch_results env ops w)), bad + failures (batch_results env ops w)))
   \<and> failures (batch_results env ops w) \<le> length ops"
proof (induction ops arbitrary: index ok bad w)
  case Nil
  show ?case by (simp add: world_after_def)
next
  case (Cons op ops)
  obtain w1 out1 r where step: "batch_execute env op w = (w1, out1, r)" by (cases "batch_execute env op w")
  show ?case
  proof (cases r)
    case (Inl e)
    with step Cons.IH [of "index + 1" ok "bad + 1" w1] show ?thesis by (auto simp: Let_def)
  next
    case (Inr u)
    with step Cons.IH [of "index + 1" "ok + 1" bad w1] show ?thesis by (auto simp: Let_def Suc_diff_le)
  qed
qed

text \<open>C39: with \<open>--continue-on-error\<close> every operation of a batch is done in its turn, and the batch ends with the
  number of those that failed.\<close>

theorem continued_batch_exact:
  "\<exists>out. run_batch env True False b w =
     (world_after w (batch_results env (ba_operations b) w), out,
      (let bad = failures (batch_results env (ba_operations b) w)
       in if bad = 0 then Inr () else Inl (''Batch operation completed with '' @ show_nat bad @ '' errors'')))"
proof -
  from batch_loop_continues [of env "length (ba_operations b)" 0 "ba_operations b" 0 0 w] obtain out ok where
    "batch_loop env True False (length (ba_operations b)) 0 (ba_operations b) 0 0 w =
       (world_after w (batch_results env (ba_operations b) w), out,
        Inr (ok, failures (batch_results env (ba_operations b) w)))" by auto
  then show ?thesis by (simp add: run_batch_def Let_def)
qed

lemma batch_loop_stops:
  assumes "failures (batch_results env earlier w) = 0"
    and "batch_execute env op (world_after w (batch_results env earlier w)) = (w', out', Inl e)"
  shows "\<exists>out. batch_loop env False False n index (earlier @ op # rest) ok bad w =
     (w', out, Inl (''Batch operation '' @ show_nat (index + length earlier + 1) @ '' failed: '' @ e))"
  using assms
proof (induction earlier arbitrary: index ok w)
  case Nil
  then show ?case by (simp add: Let_def world_after_def)
next
  case (Cons x xs)
  obtain w1 out1 r where step: "batch_execute env x w = (w1, out1, r)" by (cases "batch_execute env x w")
  then obtain u where r: "r = Inr u" using Cons.prems(1) by (cases r) simp_all
  from step r Cons.prems have "failures (batch_results env xs w1) = 0"
    "batch_execute env op (world_after w1 (batch_results env xs w1)) = (w', out', Inl e)" by simp_all
  from Cons.IH [OF this, of "index + 1" "ok + 1"] step r show ?case by (auto simp: Let_def)
qed

text \<open>without it the first operation that fails is the last one done: the batch leaves the world as that
  operation left it and names its position, counted from one.\<close>

theorem batch_stops_at_failure:
  assumes "ba_operations b = xs @ op # rest" and "failures (batch_results env xs w) = 0"
    and "batch_execute env op (world_after w (batch_results env xs w)) = (w', out', Inl e)"
  shows "\<exists>out. run_batch env False False b w =
     (w', out, Inl (''Batch operation '' @ show_nat (length xs + 1) @ '' failed: '' @ e))"
proof -
  from batch_loop_stops [OF assms(2,3), of "length (ba_operations b)" 0 rest 0 0] obtain out where
    "batch_loop env False False (length (ba_operations b)) 0 (ba_operations b) 0 0 w =
       (w', out, Inl (''Batch operation '' @ show_nat (length xs + 1) @ '' failed: '' @ e))"
    by (auto simp: assms(1))
  then show ?thesis by (simp add: run_batch_def Let_def)
qed

text \<open>the variables of a batch file are read and never substituted.\<close>

theorem batch_variables_unused:
  "run_batch env continue_on_error dry_run (b\<lparr>ba_variables := vs\<rparr>) w = run_batch env continue_on_error dry_run b w"
  by (simp add: run_batch_def)

text \<open>\<open>fuji status --json\<close> prints the lines about the daemon before the JSON, so what it prints is not JSON.\<close>

theorem json_status_has_heading:
  assumes "shown_status env verbose True (Status_Response mounts True (Some h)) = Some (out, Inr ())"
  shows "\<exists>js rest. out = health_lines env (nl @ ''Cluster:'') h @ [outln js] \<and> ce_pretty_status env mounts = Inr js
    \<and> health_lines env (nl @ ''Cluster:'') h = outln ((if dhi_healthy h then green else red) @ '' Daemon Status: '' @ rest)
        # tl (health_lines env (nl @ ''Cluster:'') h)"
  using assms by (auto simp: shown_status_def Let_def health_lines_def split: sum.splits)

end
