(* ===== verification/Cli_Cluster.thy ===== *)
theory Cli_Cluster
  imports Cli_Commands Sync_Coordinator Cluster_Discovery
begin

text \<open>
  The commands \<open>fuji cluster ...\<close> (\<open>src/cli/cluster.rs\<close>), which work on the configuration file and not through
  the daemon, except \<open>sync-force\<close>, and the dispatcher of all commands (\<open>run\<close> in \<open>src/cli/mod.rs\<close>).

  \<open>k_clock n\<close> is the \<open>n\<close>-th reading of the clock.  The text form of an invitation, debug output, the address
  parser and whether a connection and the listening socket succeed are fields of the environment.
\<close>

section \<open>The context\<close>

record cli_context =
  cx_config :: fuji_config
  cx_config_dir :: string
  cx_instance_id :: string

record 'j cluster_env =
  k_hmac :: "string \<Rightarrow> string \<Rightarrow> string"
  k_valid_date :: "instant \<Rightarrow> bool"
  k_local_ip :: "(string \<times> bool \<times> bool) option"
  k_psk :: string
  k_clock :: "nat \<Rightarrow> instant"
  k_to_text :: "invitation \<Rightarrow> string"
  k_of_text :: "string \<Rightarrow> string + invitation"
  k_write :: write_outcome
  k_dir_ok :: bool
  k_save :: write_outcome
  k_to_toml :: "fuji_config \<Rightarrow> string option"
  k_parse_addr :: "string \<Rightarrow> socket_addr option"
  k_connect_ok :: bool
  k_bind_ok :: bool
  k_any_addr :: "u16 \<Rightarrow> socket_addr"
  k_instance :: instance_env
  k_env :: "'j env"
  k_status :: "peer_status \<Rightarrow> string"
  k_conflict :: "conflict_type \<Rightarrow> string"
  k_resolution :: "conflict_resolution \<Rightarrow> string"
  k_duration :: "duration \<Rightarrow> string"
  k_instant :: "instant option \<Rightarrow> string"
  k_path :: "string \<Rightarrow> string"

definition store_message :: "store_error \<Rightarrow> string" where
  "store_message e =
     (case e of
        Dir_Error \<Rightarrow> ''Failed to create config directory''
      | Serialize_Error \<Rightarrow> ''Failed to serialize config''
      | Write_Error \<Rightarrow> ''Failed to write config file''
      | Rename_Error \<Rightarrow> ''Failed to rename config file''
      | Read_Error \<Rightarrow> ''Failed to read config file''
      | Parse_Error \<Rightarrow> ''Failed to parse config file''
      | Invalid_Config _ \<Rightarrow> ''Configuration validation failed'')"

definition context_new :: "('d, 'f) cli_env \<Rightarrow> 'j cluster_env \<Rightarrow> files \<Rightarrow> files \<times> (string + cli_context)" where
  "context_new env k fs =
     (case load_with_dir (ce_of_toml env) (ce_readable env) (ce_config_dir env) fs of
        Inl e \<Rightarrow> (fs, Inl (store_message e))
      | Inr config \<Rightarrow>
          (case load_or_create (k_instance k) (ce_config_dir env) fs of
             (fs1, info) \<Rightarrow>
               (fs1, Inr \<lparr> cx_config = config, cx_config_dir = ce_config_dir env, cx_instance_id = ii_id info \<rparr>)))"

definition save_context :: "'j cluster_env \<Rightarrow> cli_context \<Rightarrow> files \<Rightarrow> files \<times> (string + unit)" where
  "save_context k cx fs =
     (case save (k_to_toml k) (k_dir_ok k) (k_save k) (cx_config_dir cx) (cx_config cx) fs of
        (fs1, r) \<Rightarrow> (fs1, map_err store_message r))"

section \<open>Showing\<close>

definition peer_rows :: "('d, 'f) cli_env \<Rightarrow> 'j cluster_env \<Rightarrow> (peer_info \<Rightarrow> bool) \<Rightarrow> peer_info list \<Rightarrow> string" where
  "peer_rows env k now_seen ps =
     ce_table env [''Peer ID'', ''Address'', ''Status'', ''Last Seen'']
       (map (\<lambda>p. [pi_id p, pi_address p, k_status k (pi_status p),
                  if now_seen p then ''Now'' else ce_date env (pi_last_seen p)]) ps)"

text \<open>\<open>None\<close> is the panic of a clock outside the dates that the library represents.\<close>

definition cluster_info_command ::
    "('d, 'f) cli_env \<Rightarrow> 'j cluster_env \<Rightarrow> cli_context \<Rightarrow> files \<Rightarrow> (files \<times> printed list \<times> (string + unit)) option" where
  "cluster_info_command env k cx fs =
     (let intro =
        (case cfg_cluster (cx_config cx) of
           None \<Rightarrow> Inr [outln ''Not currently in a cluster. Generating invitation to create one...'']
         | Some cl \<Rightarrow>
             (if \<not> cc_enabled cl then Inl [outln ''Cluster mode is disabled in configuration'']
              else Inr ([outln (check_mark @ '' Already part of a cluster''),
                         outln (''Instance ID: '' @ cc_instance_id cl),
                         outln (''Peers: '' @ show_nat (length (cc_peers cl)))]
                        @ (if cc_peers cl = [] then []
                           else [outln (nl @ ''Current Peers:''), outln (peer_rows env k (\<lambda>_. False) (cc_peers cl))])
                        @ [outln (nl @ ''Generating invitation for new nodes to join...'')])))
      in case intro of
           Inl out \<Rightarrow> Some (fs, out, Inr ())
         | Inr out \<Rightarrow>
             (case generate_invitation (k_hmac k) (k_valid_date k) (k_local_ip k) (k_psk k) (k_clock k 0) (Some 24)
                     (discovery_new (cx_instance_id cx)) of
                None \<Rightarrow> None
              | Some (_, i) \<Rightarrow>
                  (let path = path_join (cx_config_dir cx) ''latest-invitation.txt'';
                       out1 = out @
                         [outln (nl @ ''=== Cluster Invitation ===''),
                          outln (nl @ ''Share this string with other Fuji nodes to join this cluster:''),
                          outln (nl @ k_to_text k i),
                          outln (nl @ ''Expiration: '' @ show_int (hours_until_expiration (k_clock k 1) i) @ '' hours''),
                          outln (''========================'' @ nl)]
                   in case write_file (k_write k) path (k_to_text k i) fs of
                        (fs1, True) \<Rightarrow> Some (fs1, out1 @ [outln (''Invitation also saved to: '' @ k_path k path)], Inr ())
                      | (fs1, False) \<Rightarrow> Some (fs1, out1, Inl ''write failed''))))"

text \<open>\<open>peer.last_seen == Utc::now()\<close> reads the clock once for every peer; \<open>seen\<close> says which comparison holds.\<close>

definition cluster_status_command ::
    "('d, 'f) cli_env \<Rightarrow> 'j cluster_env \<Rightarrow> (peer_info \<Rightarrow> bool) \<Rightarrow> cli_context \<Rightarrow> printed list" where
  "cluster_status_command env k seen cx =
     (case cfg_cluster (cx_config cx) of
        None \<Rightarrow>
          [outln ''Not part of any cluster'',
           outln (''Use '' @ [CHR 0x27] @ ''fuji cluster info'' @ [CHR 0x27] @ '' to create a new cluster or''),
           outln (''Use '' @ [CHR 0x27] @ ''fuji cluster join <invitation>'' @ [CHR 0x27] @ '' to join an existing one'')]
      | Some cl \<Rightarrow>
          (if \<not> cc_enabled cl then [outln ''Cluster mode: disabled'']
           else
             (let m = cc_sync_metadata cl
              in [outln ''Cluster Status:'', outln (''  Instance ID: '' @ cc_instance_id cl),
                  outln (''  Sync Interval: '' @ k_duration k (cc_sync_interval cl)),
                  outln (''  Sync Timeout: '' @ k_duration k (cc_sync_timeout cl)),
                  outln (case sm_last_sync_at m of Some t \<Rightarrow> ''  Last Sync: '' @ ce_date env t | None \<Rightarrow> ''  Last Sync: Never''),
                  outln (''  Sync Version: '' @ show_nat (unat (sm_sync_version m)))]
                 @ opt_line ''  Last Modified By: '' (sm_last_modified_by m)
                 @ [outln (nl @ ''Peers ('' @ show_nat (length (cc_peers cl)) @ '' total):'')]
                 @ (if cc_peers cl = [] then [outln ''  No peers connected''] else [outln (peer_rows env k seen (cc_peers cl))])
                 @ (if sm_pending_conflicts m = [] then []
                    else outln (nl @ warning_sign @ ''  Pending Conflicts:'')
                         # concat (map (\<lambda>c. [outln (''  - Mount: '' @ scf_mount_id c),
                                              outln (''    Type: '' @ k_conflict k (scf_conflict_type c)),
                                              outln (''    Resolution: '' @ k_resolution k (scf_resolution c))])
                                    (sm_pending_conflicts m))))))"

definition cluster_history_command :: "('d, 'f) cli_env \<Rightarrow> cli_context \<Rightarrow> printed list" where
  "cluster_history_command env cx =
     (case cfg_cluster (cx_config cx) of
        None \<Rightarrow> [outln ''Not part of any cluster'']
      | Some cl \<Rightarrow>
          (case sm_last_sync_at (cc_sync_metadata cl) of
             None \<Rightarrow> [outln ''No sync history available'']
           | Some t \<Rightarrow>
               [outln ''Sync History:'', outln (''  Last Sync: '' @ ce_date env t),
                outln (''  Sync Version: '' @ show_nat (unat (sm_sync_version (cc_sync_metadata cl))))]
               @ opt_line ''  Last Modified By: '' (sm_last_modified_by (cc_sync_metadata cl))
               @ [outln (nl @ ''Note: Detailed sync history tracking will be implemented in a future version'')]))"

section \<open>Joining and leaving\<close>

definition add_joined_peer :: "string \<Rightarrow> peer_info \<Rightarrow> fuji_config \<Rightarrow> fuji_config" where
  "add_joined_peer instance_id p c =
     (let c1 = (if cfg_cluster c = None then initialize_cluster instance_id c else c)
      in c1\<lparr>cfg_cluster := map_option (\<lambda>cl. cl\<lparr>cc_peers := cc_peers cl @ [p]\<rparr>) (cfg_cluster c1)\<rparr>)"

text \<open>The coordinator shares the configuration with the context; what it does to it stays in memory.\<close>

definition cluster_join_command ::
    "('d, 'f) cli_env \<Rightarrow> 'j cluster_env \<Rightarrow> string \<Rightarrow> cli_context \<Rightarrow> files \<Rightarrow>
     cli_context \<times> files \<times> printed list \<times> (string + unit)" where
  "cluster_join_command env k txt cx fs =
     (let hello = [outln ''Joining cluster with invitation...'']
      in case k_of_text k txt of
           Inl e \<Rightarrow> (cx, fs, hello, Inl e)
         | Inr i \<Rightarrow>
             if is_expired (k_clock k 0) i then (cx, fs, hello, Inl ''Invitation has expired'')
             else if \<not> verify (k_hmac k) i then (cx, fs, hello, Inl ''Invalid invitation signature'')
             else
               (let out = hello @
                      [outln ''Invitation verified successfully'', outln (''From instance: '' @ inv_instance_id i),
                       outln (''Address: '' @ inv_address i),
                       outln (''Expires in: '' @ show_int (hours_until_expiration (k_clock k 1) i) @ '' hours'')]
                in case accept_invitation (k_hmac k) (k_clock k 2) (k_clock k 3) i of
                     Inl InvalidSignature \<Rightarrow> (cx, fs, out, Inl ''Invalid invitation signature'')
                   | Inl InvitationExpired \<Rightarrow> (cx, fs, out, Inl ''Invitation has expired'')
                   | Inr p \<Rightarrow>
                       (let cx1 = cx\<lparr>cx_config := add_joined_peer (cx_instance_id cx) p (cx_config cx)\<rparr>
                        in case save_context k cx1 fs of
                             (fs1, Inl e) \<Rightarrow> (cx1, fs1, out, Inl e)
                           | (fs1, Inr _) \<Rightarrow>
                               (let port = (case cfg_cluster (cx_config cx1) of None \<Rightarrow> 10080 | Some cl \<Rightarrow> cc_port cl);
                                    co = coordinator_new (cx_instance_id cx) cluster_state_new
                                           (transport_new (k_any_addr k port)) (cx_config cx1)
                                in case join_cluster (k_hmac k) (k_parse_addr k) (k_connect_ok k) (k_env k) i co of
                                     (co1, Inl _) \<Rightarrow> (cx1\<lparr>cx_config := co_config co1\<rparr>, fs1, out, Inl ''join failed'')
                                   | (co1, Inr _) \<Rightarrow>
                                       (case start_server (k_bind_ok k) (co_transport co1) of
                                          (_, Inl _) \<Rightarrow> (cx1\<lparr>cx_config := co_config co1\<rparr>, fs1, out, Inl ''bind failed'')
                                        | (_, Inr _) \<Rightarrow>
                                            (cx1\<lparr>cx_config := co_config co1\<rparr>, fs1,
                                             out @ [outln (nl @ check_mark @ '' Successfully joined the cluster!''),
                                                    outln (''You are now connected to instance '' @ inv_instance_id i)],
                                             Inr ()))))))"

definition cluster_leave_command ::
    "'j cluster_env \<Rightarrow> cli_context \<Rightarrow> files \<Rightarrow> cli_context \<times> files \<times> printed list \<times> (string + unit)" where
  "cluster_leave_command k cx fs =
     (let c = cx_config cx;
          cx1 = cx\<lparr>cx_config := c\<lparr>cfg_cluster := map_option (\<lambda>cl. cl\<lparr>cc_enabled := False, cc_peers := []\<rparr>) (cfg_cluster c)\<rparr>\<rparr>
      in case save_context k cx1 fs of
           (fs1, Inl e) \<Rightarrow> (cx1, fs1, [outln ''Leaving cluster...''], Inl e)
         | (fs1, Inr _) \<Rightarrow>
             (cx1, fs1, [outln ''Leaving cluster...'', outln (check_mark @ '' Successfully left the cluster''),
                         outln ''Note: You may need to restart the daemon for changes to take effect''], Inr ()))"

section \<open>Forcing a synchronisation\<close>

definition in_progress_lines :: "'j cluster_env \<Rightarrow> force_sync_state \<Rightarrow> printed list" where
  "in_progress_lines k s =
     [outln ''A force sync is already in progress:'',
      outln (''  Initiated by: '' @ (case fs_initiated_by s of Some n \<Rightarrow> n | None \<Rightarrow> ''unknown'')),
      outln (''  Started at: '' @ k_instant k (fs_last_force_sync_at s)),
      outln (''  Reason: '' @ (case fs_last_force_sync_reason s of Some n \<Rightarrow> n | None \<Rightarrow> ''manual''))]
     @ (case fs_last_result s of
          Some (Force_InProgress _ attempted completed) \<Rightarrow>
            [outln (''  Progress: '' @ show_nat completed @ ''/'' @ show_nat attempted @ '' peers responded'')]
        | _ \<Rightarrow> [])"

definition last_result_lines :: "('d, 'f) cli_env \<Rightarrow> force_sync_state \<Rightarrow> printed list" where
  "last_result_lines env s =
     (case fs_last_result s of
        None \<Rightarrow> []
      | Some r \<Rightarrow>
          [outln ''Last force sync result:'']
          @ (case r of
               Force_Success completed_at peers_synced conflicts_resolved \<Rightarrow>
                 [outln (''  '' @ check_mark @ '' Succeeded at '' @ ce_date env completed_at),
                  outln (''  Peers synced: '' @ show_nat peers_synced),
                  outln (''  Conflicts resolved: '' @ show_nat conflicts_resolved)]
             | Force_Failed failed_at err peers_attempted \<Rightarrow>
                 [outln (''  '' @ ballot_x @ '' Failed at '' @ ce_date env failed_at),
                  outln (''  Error: '' @ err), outln (''  Peers attempted: '' @ show_nat peers_attempted)]
             | Force_InProgress _ _ _ \<Rightarrow> [])
          @ [outln ''''])"

text \<open>Here the path comes from the configuration alone and is not given to the platform a second time.\<close>

definition ask_at_configured ::
    "('d, 'f) cli_env \<Rightarrow> request \<Rightarrow> 'd cli_world \<Rightarrow> 'd cli_world \<times> (string + response)" where
  "ask_at_configured env req w =
     (let config = load (ce_of_toml env) (ce_readable env) (ce_config_dir env) (cw_files w);
          (fs1, path) = get_socket_path (ce_platform env) (pc_socket_path (cfg_platform config)) (cw_inodes w);
          (d, r) = ce_send env path req (cw_daemon w)
      in (w\<lparr>cw_inodes := fs1, cw_daemon := d\<rparr>, r))"

definition cluster_sync_force_command ::
    "('d, 'f) cli_env \<Rightarrow> 'j cluster_env \<Rightarrow> cli_context \<Rightarrow> 'd cli_world \<Rightarrow> 'd ran" where
  "cluster_sync_force_command env k cx w =
     (case cfg_cluster (cx_config cx) of
        None \<Rightarrow> (w, cluster_status_command env k (\<lambda>_. False) cx, Inr ())
      | Some cl \<Rightarrow>
          if \<not> cc_enabled cl then (w, [], Inl ''Cluster mode is disabled'')
          else if cc_peers cl = [] then (w, [outln ''No peers to sync with''], Inr ())
          else
            (let s = sm_force_sync_state (cc_sync_metadata cl)
             in if fs_sync_in_progress s then (w, in_progress_lines k s, Inr ())
                else
                  (let out = last_result_lines env s
                             @ [outln (''Forcing synchronization with '' @ show_nat (length (cc_peers cl)) @ '' peers...'')]
                   in case ask_at_configured env (ForceSync (Some ''Manual force sync via CLI'')) w of
                        (w1, Inr Success) \<Rightarrow>
                          (w1, out @ [outln (check_mark @ '' Force sync initiated successfully''),
                                      outln (''Use '' @ [CHR 0x27] @ ''fuji status'' @ [CHR 0x27] @ '' to monitor progress'')], Inr ())
                      | (w1, Inr (Error_Response msg)) \<Rightarrow>
                          (w1, out @ [outln (''Error: '' @ msg)], Inl (''Force sync failed: '' @ msg))
                      | (w1, Inl e) \<Rightarrow>
                          (w1, out @ [outln (''Failed to send force sync request: '' @ e)], Inl e)
                      | (w1, Inr _) \<Rightarrow>
                          (w1, out @ [outln ''Unexpected response from daemon''], Inl ''Unexpected response''))))"

section \<open>All commands\<close>

datatype cluster_command =
  Cluster_Info | Cluster_Join string | Cluster_Status | Cluster_Leave | Cluster_History | Cluster_Sync_Force

datatype cli_command =
  Cmd_Mount string "string option" "string list option" bool bool bool bool
| Cmd_Unmount string bool
| Cmd_Status bool bool "string option" "string option" "string option" "string option" bool
| Cmd_List bool bool "string option" "string option" "string option" bool
| Cmd_Daemon daemon_command
| Cmd_Discover string
| Cmd_Enable string
| Cmd_Disable string
| Cmd_Remove string
| Cmd_Remount string
| Cmd_Config config_command
| Cmd_Service service_command
| Cmd_Doctor
| Cmd_Batch string bool bool
| Cmd_Check_System "mount_type_arg option" bool bool
| Cmd_Cluster cluster_command

definition handle_cluster_command ::
    "('d, 'f) cli_env \<Rightarrow> 'j cluster_env \<Rightarrow> cluster_command \<Rightarrow> cli_context \<Rightarrow> 'd cli_world \<Rightarrow> 'd ran option" where
  "handle_cluster_command env k c cx w =
     (let fs = cw_files w
      in case c of
           Cluster_Info \<Rightarrow>
             map_option (\<lambda>(fs1, out, r). (w\<lparr>cw_files := fs1\<rparr>, out, r)) (cluster_info_command env k cx fs)
         | Cluster_Join txt \<Rightarrow>
             (case cluster_join_command env k txt cx fs of (_, fs1, out, r) \<Rightarrow> Some (w\<lparr>cw_files := fs1\<rparr>, out, r))
         | Cluster_Status \<Rightarrow> Some (w, cluster_status_command env k (\<lambda>p. pi_last_seen p = k_clock k 0) cx, Inr ())
         | Cluster_Leave \<Rightarrow>
             (case cluster_leave_command k cx fs of (_, fs1, out, r) \<Rightarrow> Some (w\<lparr>cw_files := fs1\<rparr>, out, r))
         | Cluster_History \<Rightarrow> Some (w, cluster_history_command env cx, Inr ())
         | Cluster_Sync_Force \<Rightarrow> Some (cluster_sync_force_command env k cx w))"

text \<open>\<open>None\<close> is a panic; \<open>rounds\<close> are the rounds of a watched status.\<close>

definition run_cli ::
    "('d, 'f) cli_env \<Rightarrow> 'j cluster_env \<Rightarrow> (instant \<times> instant) list \<Rightarrow> cli_command \<Rightarrow> 'd cli_world \<Rightarrow> 'd ran option" where
  "run_cli env k rounds c w =
     (case c of
        Cmd_Mount url point options disabled dry_run progress no_persist \<Rightarrow>
          Some (cli_mount env url point options disabled dry_run progress no_persist w)
      | Cmd_Unmount i force \<Rightarrow> Some (cli_unmount env i force w)
      | Cmd_Status verbose watch fp fu ft fst' json \<Rightarrow> Some (cli_status env verbose watch fp fu ft fst' json rounds w)
      | Cmd_List enabled disabled fp fu ft json \<Rightarrow> Some (cli_list env enabled disabled fp fu ft json w)
      | Cmd_Daemon dc \<Rightarrow> Some (cli_daemon env dc w)
      | Cmd_Discover url \<Rightarrow> Some (cli_discover env url w)
      | Cmd_Enable i \<Rightarrow> Some (cli_enable env i w)
      | Cmd_Disable i \<Rightarrow> Some (cli_disable env i w)
      | Cmd_Remove i \<Rightarrow> Some (cli_remove env i w)
      | Cmd_Remount i \<Rightarrow> Some (cli_remount env i w)
      | Cmd_Config cc \<Rightarrow> Some (cli_config env cc w)
      | Cmd_Service sc \<Rightarrow> Some (cli_service env sc w)
      | Cmd_Doctor \<Rightarrow> Some (cli_doctor env w)
      | Cmd_Batch path continue_on_error dry_run \<Rightarrow> Some (cli_batch env path continue_on_error dry_run w)
      | Cmd_Check_System ty required_only json \<Rightarrow> Some (cli_check_system env ty required_only json w)
      | Cmd_Cluster kc \<Rightarrow>
          (case context_new env k (cw_files w) of
             (fs, Inl e) \<Rightarrow> Some (w\<lparr>cw_files := fs\<rparr>, [], Inl e)
           | (fs, Inr cx) \<Rightarrow> handle_cluster_command env k kc cx (w\<lparr>cw_files := fs\<rparr>)))"

section \<open>Properties\<close>

text \<open>\<open>fuji config set\<close> and \<open>fuji config reset\<close> report what they do and change nothing: no request is sent and no
  file is written.\<close>

theorem config_set_changes_nothing:
  "(\<exists>out. run_cli env k rounds (Cmd_Config (Config_Set key v)) w = Some (w, out, Inr ()))
   \<and> (\<exists>out. run_cli env k rounds (Cmd_Config (Config_Reset True)) w = Some (w, out, Inr ()))
   \<and> (\<exists>out r. run_cli env k rounds (Cmd_Config (Config_Reset False)) w = Some (w, out, r))"
  by (simp add: run_cli_def cli_config_def config_set_def config_reset_def Let_def split: sum.split)

lemma load_cong:
  "fs (config_file d) = fs' (config_file d) \<Longrightarrow> load of_toml rd d fs = load of_toml rd d fs'"
  by (cases "fs' (config_file d)") (auto simp: load_def get_config_paths_def read_file_def config_file_def split: option.splits)

lemma save_context_ok:
  "save_context k cx fs = (fs1, Inr u) \<Longrightarrow>
     \<exists>t. k_to_toml k (cx_config cx) = Some t \<and> fs1 (config_file (cx_config_dir cx)) = Some t"
  by (auto simp: save_context_def save_def write_file_def split: if_splits option.splits write_outcome.splits)

lemma save_context_written:
  assumes "k_dir_ok k" and "k_save k = Written" and "k_to_toml k (cx_config cx) = Some t"
  shows "save_context k cx fs = (fs(config_file (cx_config_dir cx) := Some t), Inr ())"
  using assms by (simp add: save_context_def save_def write_file_def)

lemma join_saves:
  assumes "cluster_join_command env k txt cx fs = (cx2, fs2, out, Inr u)"
  shows "\<exists>p. save_context k (cx\<lparr>cx_config := add_joined_peer (cx_instance_id cx) p (cx_config cx)\<rparr>) fs = (fs2, Inr ())"
  using assms
  by (auto simp: cluster_join_command_def Let_def split: sum.splits if_splits invitation_error.splits prod.splits)


text \<open>\<open>fuji config edit\<close> opens a file that no part of the program reads: whatever the editor does to it, the
  configuration that is loaded afterwards is the one from before.\<close>

theorem edited_config_not_loaded:
  assumes "\<And>p. p \<noteq> path_join (ce_config_dir env) ''fuji.toml'' \<Longrightarrow>
      fst (ce_edit env editor (path_join (ce_config_dir env) ''fuji.toml'') (cw_files w)) p = cw_files w p"
    and "editor = (case pl_var (ce_platform env) ''EDITOR'' of Some e \<Rightarrow> e | None \<Rightarrow> ''vi'')"
  shows "\<exists>w' out r. run_cli env k rounds (Cmd_Config Config_Edit) w = Some (w', out, r)
    \<and> load (ce_of_toml env) (ce_readable env) (ce_config_dir env) (cw_files w')
        = load (ce_of_toml env) (ce_readable env) (ce_config_dir env) (cw_files w)"
proof -
  have ne: "path_join (ce_config_dir env) ''mounts.toml'' \<noteq> path_join (ce_config_dir env) ''fuji.toml''"
    by (auto simp: path_join_def dest: arg_cong [where f = "drop (length (ce_config_dir env))"] split: if_splits)
  obtain fs' r where edit: "ce_edit env editor (path_join (ce_config_dir env) ''fuji.toml'') (cw_files w) = (fs', r)"
    by (cases "ce_edit env editor (path_join (ce_config_dir env) ''fuji.toml'') (cw_files w)")
  have "fs' (config_file (ce_config_dir env)) = cw_files w (config_file (ce_config_dir env))"
    using assms(1) [OF ne] edit by (simp add: config_file_def)
  then show ?thesis
    using edit load_cong [of fs' "ce_config_dir env" "cw_files w"]
    by (simp add: run_cli_def cli_config_def config_edit_def assms(2) [symmetric])
qed

text \<open>leaving a cluster and joining it again ends with a success, and with a configuration on the disk in
  which the cluster is still disabled.\<close>

theorem rejoin_stays_disabled:
  assumes "cluster_leave_command k cx fs = (cx1, fs1, out1, Inr ())"
    and "cfg_cluster (cx_config cx) \<noteq> None"
    and "cluster_join_command env k' txt cx1 fs1 = (cx2, fs2, out2, Inr ())"
  shows "\<exists>c t. fs2 (config_file (cx_config_dir cx)) = Some t \<and> k_to_toml k' c = Some t
    \<and> \<not> is_cluster_enabled c \<and> (\<exists>cl p. cfg_cluster c = Some cl \<and> cc_peers cl = [p])"
proof -
  from assms(2) obtain cl where cl: "cfg_cluster (cx_config cx) = Some cl" by blast
  let ?cl = "cl\<lparr>cc_enabled := False, cc_peers := []\<rparr>"
  have cx1: "cx1 = cx\<lparr>cx_config := (cx_config cx)\<lparr>cfg_cluster := Some ?cl\<rparr>\<rparr>"
    using assms(1) cl by (auto simp: cluster_leave_command_def Let_def split: prod.splits sum.splits)
  from join_saves [OF assms(3)] obtain p where
    "save_context k' (cx1\<lparr>cx_config := add_joined_peer (cx_instance_id cx1) p (cx_config cx1)\<rparr>) fs1 = (fs2, Inr ())" ..
  from save_context_ok [OF this] obtain t where
    t: "k_to_toml k' (add_joined_peer (cx_instance_id cx1) p (cx_config cx1)) = Some t"
      "fs2 (config_file (cx_config_dir cx)) = Some t" by (auto simp: cx1)
  have "cfg_cluster (add_joined_peer (cx_instance_id cx1) p (cx_config cx1)) = Some (?cl\<lparr>cc_peers := [p]\<rparr>)"
    by (simp add: add_joined_peer_def cx1)
  with t show ?thesis by (auto simp: is_cluster_enabled_def intro!: exI)
qed

lemma unconnected_join_fails:
  assumes "\<not> connect_ok"
  shows "\<exists>co e. join_cluster hmac parse_addr connect_ok env i
     (coordinator_new n cluster_state_new (transport_new a) c) = (co, Inl e)"
proof -
  have "get_peer (update_peer q cluster_state_new) (pi_id q) = Some q" for q
    by (simp add: get_peer_def update_peer_def cluster_state_new_def hm.get_insert)
  note peer = this [of "\<lparr> pi_id = inv_instance_id i, pi_address = inv_address i, pi_psk = inv_psk i,
        pi_last_seen = e_clock env 1, pi_status = Peer_Disconnected \<rparr>", simplified]
  show ?thesis
    using assms peer
    by (simp add: join_cluster_def coordinator_new_def Let_def connect_to_peer_def transport_new_def
        hm_contains_key_def hm.get_empty split: option.split)
qed

text \<open>a join that cannot connect is an error, and the configuration on the disk has the peer all the same; a
  second attempt adds it a second time.\<close>

theorem failed_join_recorded:
  assumes "k_of_text k txt = Inr i" and "verify (k_hmac k) i"
    and "\<not> is_expired (k_clock k 0) i" and "\<not> is_expired (k_clock k 2) i"
    and "\<not> k_connect_ok k" and "k_dir_ok k" and "k_save k = Written" and "\<And>c. k_to_toml k c \<noteq> None"
    and "cfg_cluster (cx_config cx) = Some cl"
  shows "\<exists>cx' fs' out e c p. cluster_join_command env k txt cx fs = (cx', fs', out, Inl e)
    \<and> fs' (config_file (cx_config_dir cx)) = k_to_toml k c
    \<and> cfg_cluster c = Some (cl\<lparr>cc_peers := cc_peers cl @ [p]\<rparr>) \<and> pi_id p = inv_instance_id i"
proof -
  let ?p = "\<lparr> pi_id = inv_instance_id i, pi_address = inv_address i, pi_psk = inv_psk i,
              pi_last_seen = k_clock k 3, pi_status = Peer_Disconnected \<rparr>"
  let ?c = "add_joined_peer (cx_instance_id cx) ?p (cx_config cx)"
  obtain t where t: "k_to_toml k ?c = Some t" using assms(8) by blast
  have c: "cfg_cluster ?c = Some (cl\<lparr>cc_peers := cc_peers cl @ [?p]\<rparr>)" using assms(9) by (simp add: add_joined_peer_def)
  obtain co e where co: "join_cluster (k_hmac k) (k_parse_addr k) (k_connect_ok k) (k_env k) i
      (coordinator_new (cx_instance_id cx) cluster_state_new (transport_new (k_any_addr k (cc_port cl))) ?c) = (co, Inl e)"
    using unconnected_join_fails [OF assms(5)] by blast
  have saved: "save_context k (cx\<lparr>cx_config := ?c\<rparr>) fs = (fs(config_file (cx_config_dir cx) := Some t), Inr ())"
    using save_context_written [OF assms(6,7), of "cx\<lparr>cx_config := ?c\<rparr>"] t by simp
  have accepted: "accept_invitation (k_hmac k) (k_clock k 2) (k_clock k 3) i = Inr ?p"
    using assms(2,4) by (simp add: accept_invitation_def)
  obtain out where run: "cluster_join_command env k txt cx fs =
      (cx\<lparr>cx_config := co_config co\<rparr>, fs(config_file (cx_config_dir cx) := Some t), out, Inl ''join failed'')"
    using assms(1-3) accepted saved c co by (simp add: cluster_join_command_def Let_def)
  show ?thesis
    by (rule exI [of _ "cx\<lparr>cx_config := co_config co\<rparr>"], rule exI [of _ "fs(config_file (cx_config_dir cx) := Some t)"],
        rule exI [of _ out], rule exI [of _ "''join failed''"], rule exI [of _ ?c], rule exI [of _ ?p])
      (simp add: run t c)
qed

text \<open>the address in an invitation has the port 8080, and a configuration that joins or creates a cluster listens
  on port 10080.\<close>

theorem invitation_names_other_port:
  assumes "generate_invitation hmac valid ip psk now hours m = Some (m', i)"
  shows "inv_address i = get_local_ip ip @ '':8080''
    \<and> map_option cc_port (cfg_cluster (initialize_cluster n c)) = Some 10080"
proof -
  have "show_nat (unat cluster_port) = ''8080''"
    by (simp add: cluster_port_def show_nat.simps char_of_eq_iff)
  with assms show ?thesis
    by (auto simp: generate_invitation_def Let_def initialize_cluster_def dest!: invitation_new_fields split: option.splits)
qed

section \<open>Witnesses\<close>

definition sample_platform :: platform_env where
  "sample_platform =
     \<lparr> pl_uid = 0, pl_gid = 0, pl_pid = 1, pl_var = (\<lambda>_. None), pl_whoami = ''u'', pl_mkdir = (\<lambda>_ fs. (fs, True)),
       pl_chmod = (\<lambda>_. True), pl_remove = (\<lambda>_. True), pl_findmnt = (\<lambda>_. None), pl_proc_mounts = None,
       pl_kill = (\<lambda>_ _. True), pl_is_dir = (\<lambda>_. True), pl_config_dir = None \<rparr>"

text \<open>A daemon that knows the one mount \<open>m\<close> and counts the requests it gets.\<close>

definition sample_cli :: "(nat, nat) cli_env" where
  "sample_cli =
     \<lparr> ce_platform = sample_platform, ce_config_dir = ''/c'', ce_readable = (\<lambda>_. True), ce_of_toml = (\<lambda>_. None),
       ce_send = (\<lambda>_ req d. (Suc d, case req of
           Enable i \<Rightarrow> Inr (if i = ''m'' then Success else Error_Response ''unknown'') | _ \<Rightarrow> Inr Success)),
       ce_start = (\<lambda>_ _ _ d. (d, Inr ())), ce_date = (\<lambda>_. ''t''), ce_pretty_status = (\<lambda>_. Inr ''[]''),
       ce_pretty_mounts = (\<lambda>_. Inr ''[]''), ce_pretty_toml = (\<lambda>_. Inr ''{}''), ce_pretty_json = (\<lambda>_. Inr ''{}''),
       ce_pretty_report = (\<lambda>_. Inr ''{}''), ce_show_json = (\<lambda>_. ''v''), ce_toml = (\<lambda>_. Inl ''no''), ce_to_value = (\<lambda>_. Inr J_Null),
       ce_finite = (\<lambda>_. True), ce_parse_f64 = (\<lambda>_. None), ce_table = (\<lambda>_ _. ''table''), ce_run = (\<lambda>_ _. None),
       ce_stdin = Inr ''y'', ce_edit = (\<lambda>_ path fs. (fs(path := Some ''edited''), Inr True)), ce_read_error = (\<lambda>_. ''no''),
       ce_yaml = (\<lambda>_. Inl ''no''), ce_json = (\<lambda>_. Inl ''no''), ce_debug = (\<lambda>_. ''op''), ce_write = Written,
       ce_username = ''u'', ce_current_exe = Some ''/fuji'' \<rparr>"

definition sample_cluster_env :: "bool \<Rightarrow> unit cluster_env" where
  "sample_cluster_env connect_ok =
     \<lparr> k_hmac = (\<lambda>k d. k @ d), k_valid_date = (\<lambda>_. True), k_local_ip = None, k_psk = ''s'', k_clock = (\<lambda>_. 0),
       k_to_text = inv_instance_id,
       k_of_text = (\<lambda>n. Inr \<lparr> inv_version = ''1.0'', inv_instance_id = n, inv_address = ''a'', inv_psk = ''s'',
          inv_expires_at = 5, inv_signature = generate_signature (\<lambda>k d. k @ d) n ''a'' 5 \<rparr>),
       k_write = Written, k_dir_ok = True, k_save = Written, k_to_toml = (\<lambda>_. Some ''toml''),
       k_parse_addr = (\<lambda>_. Some \<lparr> sa_ip = ''a'', sa_port = 1 \<rparr>), k_connect_ok = connect_ok, k_bind_ok = True,
       k_any_addr = (\<lambda>p. \<lparr> sa_ip = ''0.0.0.0'', sa_port = p \<rparr>), k_instance = sample_instance_env ''id-1'' 0,
       k_env = sample_env, k_status = (\<lambda>_. ''s''), k_conflict = (\<lambda>_. ''c''), k_resolution = (\<lambda>_. ''r''),
       k_duration = (\<lambda>_. ''d''), k_instant = (\<lambda>_. ''i''), k_path = id \<rparr>"

definition sample_context :: cli_context where
  "sample_context =
     \<lparr> cx_config = initialize_cluster ''id-1'' config_default, cx_config_dir = ''/c'', cx_instance_id = ''id-1'' \<rparr>"

theorem rejoin_stays_disabled_witness:
  "\<exists>cx1 fs1 out1 cx2 fs2 out2 c.
     cluster_leave_command (sample_cluster_env True) sample_context (\<lambda>_. None) = (cx1, fs1, out1, Inr ())
     \<and> cluster_join_command sample_cli (sample_cluster_env True) ''peer'' cx1 fs1 = (cx2, fs2, out2, Inr ())
     \<and> fs2 (config_file ''/c'') = k_to_toml (sample_cluster_env True) c \<and> \<not> is_cluster_enabled c"
proof -
  let ?k = "sample_cluster_env True"
  obtain cx1 fs1 out1 where leave: "cluster_leave_command ?k sample_context (\<lambda>_. None) = (cx1, fs1, out1, Inr ())"
    by (simp add: cluster_leave_command_def save_context_def save_def write_file_def sample_cluster_env_def Let_def)
  have some: "cfg_cluster (cx_config sample_context) \<noteq> None" by (simp add: sample_context_def initialize_cluster_def)
  obtain cx2 fs2 out2 where join: "cluster_join_command sample_cli ?k ''peer'' cx1 fs1 = (cx2, fs2, out2, Inr ())"
    by (simp add: cluster_join_command_def sample_cluster_env_def is_expired_def verify_def accept_invitation_def
        save_context_def save_def write_file_def join_cluster_def coordinator_new_def sample_env_def Let_def
        get_peer_def update_peer_def hm.get_insert connect_to_peer_def transport_new_def hm_contains_key_def hm.get_empty
        start_server_def cluster_state_new_def)
  have dir: "cx_config_dir sample_context = ''/c''" by (simp add: sample_context_def)
  from rejoin_stays_disabled [OF leave some join] obtain c t where
    "fs2 (config_file ''/c'') = Some t" "k_to_toml ?k c = Some t" "\<not> is_cluster_enabled c" unfolding dir by blast
  then have "fs2 (config_file ''/c'') = k_to_toml ?k c \<and> \<not> is_cluster_enabled c" by simp
  with leave join show ?thesis by blast
qed

theorem failed_join_recorded_witness:
  "\<exists>cx' fs' out e. cluster_join_command sample_cli (sample_cluster_env False) ''peer'' sample_context (\<lambda>_. None)
     = (cx', fs', out, Inl e) \<and> fs' (config_file ''/c'') = Some ''toml''"
proof -
  let ?k = "sample_cluster_env False"
  obtain i where i: "k_of_text ?k ''peer'' = Inr i" "verify (k_hmac ?k) i"
      "\<not> is_expired (k_clock ?k 0) i" "\<not> is_expired (k_clock ?k 2) i"
    by (simp add: sample_cluster_env_def verify_def is_expired_def)
  have k: "\<not> k_connect_ok ?k" "k_dir_ok ?k" "k_save ?k = Written" "k_to_toml ?k c \<noteq> None" "k_to_toml ?k c = Some ''toml''" for c
    by (simp_all add: sample_cluster_env_def)
  obtain cl where cl: "cfg_cluster (cx_config sample_context) = Some cl"
    by (simp add: sample_context_def initialize_cluster_def)
  have dir: "cx_config_dir sample_context = ''/c''" by (simp add: sample_context_def)
  from failed_join_recorded [OF i k(1-4) cl, of sample_cli "\<lambda>_. None"] show ?thesis
    unfolding dir k(5) by blast
qed

theorem edited_config_not_loaded_witness:
  "\<exists>w' out r. run_cli sample_cli (sample_cluster_env True) [] (Cmd_Config Config_Edit)
       \<lparr> cw_inodes = (\<lambda>_. None), cw_files = (\<lambda>_. None), cw_daemon = 0 \<rparr> = Some (w', out, r)
     \<and> load (\<lambda>_. None) (\<lambda>_. True) ''/c'' (cw_files w') = load (\<lambda>_. None) (\<lambda>_. True) ''/c'' (\<lambda>_. None)"
  using edited_config_not_loaded [of sample_cli "''vi''" "\<lparr> cw_inodes = (\<lambda>_. None), cw_files = (\<lambda>_. None), cw_daemon = 0 \<rparr>"
      "sample_cluster_env True" "[]"]
  by (simp add: sample_cli_def sample_platform_def)

theorem invitation_names_other_port_witness:
  "\<exists>m' i. generate_invitation (\<lambda>k d. k @ d) (\<lambda>_. True) None ''s'' 0 None (discovery_new ''n'') = Some (m', i)
     \<and> inv_address i = ''127.0.0.1:8080''"
proof -
  obtain m' i where gen: "generate_invitation (\<lambda>k d. k @ d) (\<lambda>_. True) None ''s'' 0 None (discovery_new ''n'') = Some (m', i)"
    by (simp add: generate_invitation_def invitation_new_def duration_hours_def Let_def)
  from invitation_names_other_port [OF gen, of "''n''" config_default] gen show ?thesis by (simp add: get_local_ip_def)
qed

lemma sample_ask:
  "\<exists>w'. ask sample_cli (Enable i) w = (w', Inr (if i = ''m'' then Success else Error_Response ''unknown''))
     \<and> cw_daemon w' = Suc (cw_daemon w)"
  by (auto simp: ask_def create_socket_client_def sample_cli_def Let_def split: prod.split)

lemma sample_enable:
  "\<exists>w'. batch_execute sample_cli (Batch_Enable i) w = (w', if i = ''m'' then [outln ''Enabled mount''] else [],
       if i = ''m'' then Inr () else Inl ''unknown'') \<and> cw_daemon w' = Suc (cw_daemon w)"
  using sample_ask [of i w] by (auto simp: batch_execute_def cli_enable_def answered_def expect_success_def)

theorem batch_stops_at_failure_witness:
  "\<exists>w' out. run_batch sample_cli False False
       \<lparr> ba_operations = [Batch_Enable ''m'', Batch_Enable ''x'', Batch_Echo ''never''], ba_variables = [] \<rparr>
       \<lparr> cw_inodes = (\<lambda>_. None), cw_files = (\<lambda>_. None), cw_daemon = 0 \<rparr>
     = (w', out, Inl ''Batch operation 2 failed: unknown'') \<and> cw_daemon w' = 2"
proof -
  let ?w = "\<lparr> cw_inodes = (\<lambda>_. None), cw_files = (\<lambda>_. None), cw_daemon = 0 \<rparr> :: nat cli_world"
  obtain w1 where m: "batch_execute sample_cli (Batch_Enable ''m'') ?w = (w1, [outln ''Enabled mount''], Inr ())"
      "cw_daemon w1 = 1" using sample_enable [of "''m''" ?w] by auto
  obtain w2 where x: "batch_execute sample_cli (Batch_Enable ''x'') w1 = (w2, [], Inl ''unknown'')"
      "cw_daemon w2 = 2" using sample_enable [of "''x''" w1] m(2) by auto
  have two: "show_nat (Suc (Suc 0)) = ''2''" by (simp add: show_nat.simps char_of_eq_iff)
  show ?thesis
    using batch_stops_at_failure [of "\<lparr> ba_operations = [Batch_Enable ''m'', Batch_Enable ''x'', Batch_Echo ''never''],
          ba_variables = [] \<rparr>" "[Batch_Enable ''m'']" "Batch_Enable ''x''" "[Batch_Echo ''never'']" sample_cli ?w w2 "[]" "''unknown''"]
      m x by (auto simp: two)
qed

end
