(* ===== verification/Daemon_Start.thy ===== *)
theory Daemon_Start
  imports Daemon_Loop System_Deps
begin

text \<open>
  How the daemon is made, started and stopped (\<open>new\<close>, \<open>start\<close> and \<open>cleanup\<close> of \<open>src/daemon/mod.rs\<close>).

  A socket in the file system is a file with empty content.  What the socket server and the monitoring task do
  until the first of them ends or a signal arrives is a sequence of the steps of \<open>Daemon_Loop\<close>.  The platform
  is that for Linux; whether directories, sockets and signal handlers can be made are fields of the
  environment.
\<close>

section \<open>Making a daemon\<close>

record create_env =
  cr_of_toml :: "string \<Rightarrow> fuji_config option"
  cr_to_toml :: "fuji_config \<Rightarrow> string option"
  cr_readable :: "string \<Rightarrow> bool"
  cr_config_dir :: string
  cr_storage :: "bool \<times> write_outcome \<times> bool"
  cr_instance :: instance_env
  cr_now :: instant
  cr_now' :: instant

definition create_cluster_parts ::
    "create_env \<Rightarrow> fuji_config \<Rightarrow> cluster_config \<Rightarrow> files \<Rightarrow> files \<times> 'j coordinator" where
  "create_cluster_parts env c cl fs =
     (case load_or_create (cr_instance env) (cr_config_dir env) fs of
        (fs1, info) \<Rightarrow>
          (fs1, coordinator_new (ii_id info) cluster_state_new
                  (set_cluster_config cl (transport_new \<lparr> sa_ip = ''127.0.0.1'', sa_port = cc_port cl \<rparr>)) c))"

definition create_daemon ::
    "create_env \<Rightarrow> 'x mount_world \<Rightarrow> files \<Rightarrow> files \<times> (store_error + 'x daemon \<times> 'j coordinator option)" where
  "create_daemon env w fs =
     (let c = load (cr_of_toml env) (cr_readable env) (cr_config_dir env) fs;
          (dir_ok, written, rename_ok) = cr_storage env;
          (fs1, saved) = (if fs (config_file (cr_config_dir env)) = None
                          then save_atomic (cr_to_toml env) dir_ok written rename_ok (cr_config_dir env) c fs
                          else (fs, Inr ()))
      in case saved of
           Inl e \<Rightarrow> (fs1, Inl e)
         | Inr _ \<Rightarrow>
             (case cfg_cluster c of
                None \<Rightarrow> (fs1, Inr (daemon_new w (cr_now env) (cr_now' env) c fs1, None))
              | Some cl \<Rightarrow>
                  (case create_cluster_parts env c cl fs1 of
                     (fs2, co) \<Rightarrow> (fs2, Inr (daemon_new w (cr_now env) (cr_now' env) c fs2, Some co)))))"

section \<open>Starting and stopping\<close>

record start_env =
  se_platform :: platform_env
  se_dir_ok :: bool
  se_signals_ok :: bool
  se_pid_ok :: bool
  se_cluster_bind_ok :: bool
  se_remove_socket_ok :: bool
  se_bind_ok :: bool

datatype start_error =
  Start_No_Directory | Start_No_Signals | Start_No_Pid platform_error | Start_Not_Detached platform_error
| Start_No_Cluster transport_error | Start_No_Socket | Start_Not_Cleaned platform_error

text \<open>\<open>with_extension("pid")\<close> on a path whose last component is not empty.\<close>

definition with_extension_pid :: "string \<Rightarrow> string" where
  "with_extension_pid path =
     (let reversed = takeWhile (\<lambda>c. c \<noteq> CHR ''/'') (rev path);
          above = drop (length reversed) (rev path);
          stem = drop 1 (dropWhile (\<lambda>c. c \<noteq> CHR ''.'') reversed)
      in rev above @ rev (if stem = [] then reversed else stem) @ ''.pid'')"

text \<open>The cluster state takes the peers of the configuration, and the server of the transport starts.\<close>

definition start_cluster ::
    "start_env \<Rightarrow> fuji_config \<Rightarrow> 'j coordinator \<Rightarrow> 'j coordinator \<times> (transport_error + unit)" where
  "start_cluster env c co =
     (let co1 = (case cfg_cluster c of
                   Some cl \<Rightarrow> co\<lparr>co_cluster_state := cluster_initialize cl (co_cluster_state co)\<rparr>
                 | None \<Rightarrow> co)
      in case start_server (se_cluster_bind_ok env) (co_transport co1) of
           (tp, r) \<Rightarrow> (co1\<lparr>co_transport := tp\<rparr>, r))"

definition start_cluster_option ::
    "start_env \<Rightarrow> fuji_config \<Rightarrow> 'j coordinator option \<Rightarrow> 'j coordinator option \<times> (transport_error + unit)" where
  "start_cluster_option env c co =
     (case co of
        None \<Rightarrow> (None, Inr ())
      | Some k \<Rightarrow> (case start_cluster env c k of (k1, r) \<Rightarrow> (Some k1, r)))"

text \<open>\<open>SocketServer::new\<close>: a file at the path is removed, whoever listens there.\<close>

definition listen_at :: "start_env \<Rightarrow> string \<Rightarrow> files \<Rightarrow> files \<times> (start_error + unit)" where
  "listen_at env path fs =
     (if fs path \<noteq> None \<and> \<not> se_remove_socket_ok env then (fs, Inl Start_No_Socket)
      else let fs1 = fs(path := None)
           in if se_bind_ok env then (fs1(path := Some []), Inr ()) else (fs1, Inl Start_No_Socket))"

definition stop_daemon ::
    "start_env \<Rightarrow> 'x daemon_env \<Rightarrow> string \<Rightarrow> string \<Rightarrow> 'x daemon \<Rightarrow> 'x daemon \<times> (start_error + unit)" where
  "stop_daemon env de socket_path pid_file d =
     (let d1 = cleanup de d;
          fs = dm_files d1;
          fs1 = (if fs socket_path \<noteq> None \<and> se_remove_socket_ok env then fs(socket_path := None) else fs);
          (fs2, r) = remove_pid_file (se_platform env) pid_file fs1
      in (d1\<lparr>dm_files := fs2\<rparr>, map_err Start_Not_Cleaned r))"

text \<open>Everything up to the listening socket, then the tasks and the cleanup.\<close>

definition prepare_start ::
    "start_env \<Rightarrow> string \<Rightarrow> bool \<Rightarrow> 'x daemon \<times> 'j coordinator option \<Rightarrow>
     ('x daemon \<times> 'j coordinator option) \<times> (start_error + unit)" where
  "prepare_start env socket_path detach s =
     (case s of (d, co) \<Rightarrow>
        if path_parent socket_path \<noteq> None \<and> \<not> se_dir_ok env then ((d, co), Inl Start_No_Directory)
        else if \<not> se_signals_ok env then ((d, co), Inl Start_No_Signals)
        else
          (case write_pid_file (se_platform env) (se_dir_ok env) (se_pid_ok env) (with_extension_pid socket_path) (dm_files d) of
             (fs1, Inl e) \<Rightarrow> ((d\<lparr>dm_files := fs1\<rparr>, co), Inl (Start_No_Pid e))
           | (fs1, Inr _) \<Rightarrow>
               (case (if detach then daemonize else Inr ()) of
                  Inl e \<Rightarrow> ((d\<lparr>dm_files := fs1\<rparr>, co), Inl (Start_Not_Detached e))
                | Inr _ \<Rightarrow>
                    (case start_cluster_option env (config_of d) co of
                       (co1, Inl e) \<Rightarrow> ((d\<lparr>dm_files := fs1\<rparr>, co1), Inl (Start_No_Cluster e))
                     | (co1, Inr _) \<Rightarrow>
                         (case listen_at env socket_path fs1 of
                            (fs2, r) \<Rightarrow> ((d\<lparr>dm_files := fs2\<rparr>, co1), r))))))"

definition start_daemon ::
    "start_env \<Rightarrow> 'x daemon_env \<Rightarrow> string \<Rightarrow> bool \<Rightarrow> ('j, 'x) daemon_op list \<Rightarrow>
     'x daemon \<times> 'j coordinator option \<Rightarrow> ('x daemon \<times> 'j coordinator option) \<times> (start_error + unit)" where
  "start_daemon env de socket_path detach ops s =
     (case prepare_start env socket_path detach s of
        (s1, Inl e) \<Rightarrow> (s1, Inl e)
      | (s1, Inr _) \<Rightarrow>
          (case fold daemon_step ops s1 of
             (d, co) \<Rightarrow>
               (case stop_daemon env de socket_path (with_extension_pid socket_path) d of
                  (d', r) \<Rightarrow> ((d', co), r))))"

section \<open>Properties\<close>

text \<open>a start that fails after its first steps, because the daemon was to detach or because a socket cannot be
  bound, leaves the PID file with the number of a process that is about to end.\<close>

theorem failed_start_leaves_pid_file:
  assumes "start_daemon env de socket_path detach ops (d, co) = ((d', co'), Inl e)"
    and "se_dir_ok env" and "se_signals_ok env" and "se_pid_ok env"
    and "\<And>e'. e \<noteq> Start_Not_Cleaned e'" and "with_extension_pid socket_path \<noteq> socket_path"
  shows "dm_files d' (with_extension_pid socket_path) = Some (show_nat (unat (pl_pid (se_platform env))))"
proof -
  have stop: "\<exists>e'. e = Start_Not_Cleaned e'"
    if "stop_daemon env de socket_path pf x = (y, Inl e)" for pf x y
  proof -
    from that obtain r :: "platform_error + unit" where "map_err Start_Not_Cleaned r = Inl e" by (auto simp: stop_daemon_def Let_def split: prod.splits)
    then show ?thesis by (cases r) auto
  qed
  have "prepare_start env socket_path detach (d, co) = ((d', co'), Inl e)"
    using assms(1,5) stop by (auto simp: start_daemon_def split: prod.splits sum.splits)
  with assms(2-4,6) show ?thesis
    by (auto simp: prepare_start_def write_pid_file_def listen_at_def Let_def split: if_splits sum.splits prod.splits)
qed

text \<open>C34: a start does not look at the PID file: that of a daemon that is running is overwritten, its socket is removed,
  and when the new daemon ends both are gone.\<close>

theorem running_daemon_displaced:
  assumes "se_dir_ok env" and "se_signals_ok env" and "se_pid_ok env" and "se_cluster_bind_ok env"
    and "se_remove_socket_ok env" and "se_bind_ok env" and "\<And>p. pl_remove (se_platform env) p"
    and "with_extension_pid socket_path \<noteq> socket_path"
  shows "(\<exists>d1 co1. prepare_start env socket_path False (d, co) = ((d1, co1), Inr ())
      \<and> dm_files d1 (with_extension_pid socket_path) = Some (show_nat (unat (pl_pid (se_platform env))))
      \<and> dm_files d1 socket_path = Some [])
    \<and> (\<exists>d' co'. start_daemon env de socket_path False ops (d, co) = ((d', co'), Inr ())
      \<and> dm_files d' (with_extension_pid socket_path) = None \<and> dm_files d' socket_path = None)"
proof -
  have cluster: "snd (start_cluster_option env c k) = Inr ()" for c k
    using assms(4)
    by (auto simp: start_cluster_option_def start_cluster_def start_server_def Let_def split: option.split)
  have stop: "\<exists>d'. stop_daemon env de socket_path pf x = (d', Inr ()) \<and> dm_files d' pf = None \<and> dm_files d' socket_path = None"
    for pf x
    using assms(5,7) by (auto simp: stop_daemon_def remove_pid_file_def Let_def)
  have bind: "\<exists>fs'. listen_at env socket_path fs = (fs', Inr ()) \<and> fs' socket_path = Some [] \<and> (\<forall>q. q \<noteq> socket_path \<longrightarrow> fs' q = fs q)" for fs
    using assms(5,6) by (simp add: listen_at_def)
  obtain fs1 where p: "write_pid_file (se_platform env) (se_dir_ok env) (se_pid_ok env) (with_extension_pid socket_path)
      (dm_files d) = (fs1, Inr ())" "fs1 (with_extension_pid socket_path) = Some (show_nat (unat (pl_pid (se_platform env))))"
    using assms(1,3) by (auto simp: write_pid_file_def)
  obtain co1 where k: "start_cluster_option env (config_of d) co = (co1, Inr ())" using cluster by (metis prod.collapse)
  from bind obtain fs2 where b: "listen_at env socket_path fs1 = (fs2, Inr ())" "fs2 socket_path = Some []"
      "fs2 (with_extension_pid socket_path) = Some (show_nat (unat (pl_pid (se_platform env))))"
    using assms(8) p(2) by metis
  let ?s = "(d\<lparr>dm_files := fs2\<rparr>, co1)"
  have "prepare_start env socket_path False (d, co) = (?s, Inr ())"
    using assms(1,2) p(1) k b(1) by (simp add: prepare_start_def)
  moreover obtain d2 co2 where "fold daemon_step ops ?s = (d2, co2)" by (cases "fold daemon_step ops ?s")
  moreover from stop obtain d' where "stop_daemon env de socket_path (with_extension_pid socket_path) d2 = (d', Inr ())"
    "dm_files d' (with_extension_pid socket_path) = None" "dm_files d' socket_path = None" by blast
  ultimately show ?thesis using b(2,3)
    by (intro conjI exI [of _ "d\<lparr>dm_files := fs2\<rparr>"] exI [of _ co1] exI [of _ d'] exI [of _ co2]) (simp_all add: start_daemon_def)
qed

definition sample_start :: start_env where
  "sample_start =
     \<lparr> se_platform = \<lparr> pl_uid = 0, pl_gid = 0, pl_pid = 7, pl_var = (\<lambda>_. None), pl_whoami = ''u'', pl_mkdir = (\<lambda>_ fs. (fs, True)),
         pl_chmod = (\<lambda>_. True), pl_remove = (\<lambda>_. True), pl_findmnt = (\<lambda>_. None), pl_proc_mounts = None,
         pl_kill = (\<lambda>_ _. True), pl_is_dir = (\<lambda>_. True), pl_config_dir = None \<rparr>,
       se_dir_ok = True, se_signals_ok = True, se_pid_ok = True, se_cluster_bind_ok = True, se_remove_socket_ok = True,
       se_bind_ok = True \<rparr>"

theorem running_daemon_displaced_witness:
  "\<forall>(de :: nat daemon_env) (d :: nat daemon). \<exists>d' co'.
     start_daemon sample_start de ''/r/fuji.sock'' False [] (d, None :: nat coordinator option) = ((d', co'), Inr ())
     \<and> dm_files d' (with_extension_pid ''/r/fuji.sock'') = None"
proof (intro allI)
  fix de :: "nat daemon_env" and d :: "nat daemon"
  have "with_extension_pid ''/r/fuji.sock'' \<noteq> ''/r/fuji.sock''" by code_simp
  with running_daemon_displaced [where env = sample_start and de = de and socket_path = "''/r/fuji.sock''" and ops = "[]"
      and d = d and co = "None :: nat coordinator option"]
  show "\<exists>d' co'.
     start_daemon sample_start de ''/r/fuji.sock'' False [] (d, None :: nat coordinator option) = ((d', co'), Inr ())
     \<and> dm_files d' (with_extension_pid ''/r/fuji.sock'') = None"
    by (auto simp: sample_start_def)
qed

text \<open>the request to stop is answered with a success and changes nothing.\<close>

theorem stop_request_ignored:
  "handle_request e StopDaemon s = (s, Returned Success)"
  by (cases s) simp

text \<open>the transport of a daemon listens on the loopback address, whatever the address its invitations name.\<close>

theorem cluster_listens_on_loopback:
  assumes "create_daemon env w fs = (fs', Inr (d, Some co))"
  shows "sa_ip (tp_local_addr (co_transport co)) = ''127.0.0.1''
    \<and> tp_cluster_config (co_transport co) = cfg_cluster (co_config co)"
  using assms
  by (auto simp: create_daemon_def create_cluster_parts_def coordinator_new_def set_cluster_config_def transport_new_def Let_def
      split: prod.splits sum.splits option.splits)

end
