(* ===== verification/Cli_Daemon.thy ===== *)
theory Cli_Daemon
  imports Cli_Cluster Daemon_Start
begin

text \<open>
  The command line and the daemon together: the requests of \<open>src/cli\<close> answered by the handlers of
  \<open>src/daemon/mod.rs\<close>, and the configuration file that both write.
\<close>

text \<open>A request over the socket, from the side of the client: an answer that never comes is an error.\<close>

definition daemon_send ::
    "('j, 'x) request_env \<Rightarrow> string \<Rightarrow> request \<Rightarrow> 'x daemon \<times> 'j coordinator option \<Rightarrow>
     ('x daemon \<times> 'j coordinator option) \<times> (string + response)" where
  "daemon_send e path req s =
     (case handle_request e req s of
        (s', Returned r) \<Rightarrow> (s', Inr r)
      | (s', _) \<Rightarrow> (s', Inl ''Failed to read response''))"

text \<open>\<open>fuji daemon stop\<close> prints that the signal was sent, ends with a success, and the daemon goes on as it was.\<close>

theorem stop_command_stops_nothing:
  assumes "ce_send env = daemon_send e"
  shows "\<exists>w'. cli_daemon env Daemon_Stop w = (w', [outln ''Daemon stop signal sent''], Inr ())
    \<and> cw_daemon w' = cw_daemon w \<and> cw_files w' = cw_files w"
proof -
  obtain s where s: "cw_daemon w = s" by blast
  obtain d co where dc: "s = (d, co)" by (cases s)
  show ?thesis
    by (auto simp: cli_daemon_def ask_def create_socket_client_def answered_def expect_success_def daemon_send_def
        assms s dc Let_def split: prod.split)
qed

lemma saved_own_config:
  assumes "Daemon_State.save_config de d = (d', Inr u)"
  shows "dm_files d' (config_file (dv_config_dir de)) = dv_to_toml de (config_of d)"
  using assms
  by (auto simp: save_config_def save_atomic_def write_file_def rename_file_def Let_def
      split: prod.splits if_splits option.splits write_outcome.splits)


definition known_mount :: mount_config where
  "known_mount =
     \<lparr> mc_id = ''m'', mc_url = ''nfs://h/x'', mc_mount_point = ''/mnt/fuji/h/x'', mc_mount_type = Nfs ''h'' ''/x'' [],
       mc_enabled = False, mc_status = Status_Disabled, mc_created_at = 0, mc_updated_at = 0, mc_last_connected = None,
       mc_reconnect_attempts = 0, mc_metadata = [] \<rparr>"


end
