(* ===== verification/Security_Error.thy ===== *)
theory Security_Error
  imports Fuji_Prelude
begin

text \<open>
  The errors of the security modules (\<open>src/security/error.rs\<close>): what they print, how they are copied, the
  functions that add a context to a result, and the metrics that count them.

  A boxed source of an error is a type \<open>'s\<close>, an \<open>anyhow::Error\<close> a type \<open>'a\<close>; \<open>shown\<close> prints it and \<open>of_text\<close> is
  \<open>anyhow!\<close> of a text.  The counters are 64 bit words that wrap around.
\<close>

section \<open>Errors\<close>

datatype policy_severity = Policy_Info | Policy_Warning | Policy_Low | Policy_Medium | Policy_High | Policy_Critical

datatype ('s, 'a) security_error =
  Sec_Cryptographic string string "'s option"
| Sec_Authentication_Failed string "string option" u32
| Sec_Access_Denied string string "string option"
| Sec_Credential string string string
| Sec_Encryption string string "'s option"
| Sec_Key_Management string string "string option"
| Sec_Audit string string "string option"
| Sec_Intrusion_Detection string string "string option"
| Sec_System string string "'s option"
| Sec_Configuration string string "string option"
| Sec_Network string string "string option"
| Sec_File_System string string string
| Sec_Validation string string "string option"
| Sec_Resource_Limit string u64 u64
| Sec_Timeout string u64
| Sec_Hsm string string "'s option"
| Sec_Secure_Update string string "string option"
| Sec_Policy_Violation string string policy_severity
| Sec_Generic string 'a

definition labelled :: "string \<Rightarrow> string \<Rightarrow> string \<Rightarrow> string" where
  "labelled title what reason = title @ '': '' @ what @ '' - '' @ reason"

fun show_security_error :: "('a \<Rightarrow> string) \<Rightarrow> ('s, 'a) security_error \<Rightarrow> string" where
  "show_security_error shown (Sec_Cryptographic op reason src) = labelled ''Cryptographic error'' op reason"
| "show_security_error shown (Sec_Authentication_Failed details user n) = ''Authentication failed: '' @ details"
| "show_security_error shown (Sec_Access_Denied op reason p) = labelled ''Access denied'' op reason"
| "show_security_error shown (Sec_Credential op reason t) = labelled ''Credential error'' op reason"
| "show_security_error shown (Sec_Encryption alg reason src) = labelled ''Encryption error'' alg reason"
| "show_security_error shown (Sec_Key_Management op reason k) = labelled ''Key management error'' op reason"
| "show_security_error shown (Sec_Audit op reason e) = labelled ''Audit error'' op reason"
| "show_security_error shown (Sec_Intrusion_Detection c reason l) = labelled ''Intrusion detection error'' c reason"
| "show_security_error shown (Sec_System c reason src) = labelled ''System security error'' c reason"
| "show_security_error shown (Sec_Configuration setting reason f) = labelled ''Security configuration error'' setting reason"
| "show_security_error shown (Sec_Network proto reason a) = labelled ''Network security error'' proto reason"
| "show_security_error shown (Sec_File_System path reason op) = labelled ''File system security error'' path reason"
| "show_security_error shown (Sec_Validation field reason v) = labelled ''Security validation error'' field reason"
| "show_security_error shown (Sec_Resource_Limit resource current limit) =
     ''Security resource limit exceeded: '' @ resource @ '' - '' @ show_nat (unat current) @ ''/'' @ show_nat (unat limit)"
| "show_security_error shown (Sec_Timeout op ms) =
     ''Security operation timeout: '' @ op @ '' after '' @ show_nat (unat ms) @ ''ms''"
| "show_security_error shown (Sec_Hsm m reason src) = labelled ''HSM error'' m reason"
| "show_security_error shown (Sec_Secure_Update stage reason i) = labelled ''Secure update error'' stage reason"
| "show_security_error shown (Sec_Policy_Violation policy reason sev) = labelled ''Security policy violation'' policy reason"
| "show_security_error shown (Sec_Generic ctx src) = ctx @ '': '' @ shown src"

fun show_policy_severity :: "policy_severity \<Rightarrow> string" where
  "show_policy_severity Policy_Info = ''INFO''"
| "show_policy_severity Policy_Warning = ''WARNING''"
| "show_policy_severity Policy_Low = ''LOW''"
| "show_policy_severity Policy_Medium = ''MEDIUM''"
| "show_policy_severity Policy_High = ''HIGH''"
| "show_policy_severity Policy_Critical = ''CRITICAL''"

text \<open>\<open>Clone\<close>: a boxed source cannot be copied and is left out; the copy of a generic error keeps its text.\<close>

fun clone_error :: "('a \<Rightarrow> string) \<Rightarrow> (string \<Rightarrow> 'a) \<Rightarrow> ('s, 'a) security_error \<Rightarrow> ('s, 'a) security_error" where
  "clone_error shown of_text (Sec_Cryptographic op reason src) = Sec_Cryptographic op reason None"
| "clone_error shown of_text (Sec_Authentication_Failed details user n) = Sec_Authentication_Failed details user n"
| "clone_error shown of_text (Sec_Access_Denied op reason p) = Sec_Access_Denied op reason p"
| "clone_error shown of_text (Sec_Credential op reason t) = Sec_Credential op reason t"
| "clone_error shown of_text (Sec_Encryption alg reason src) = Sec_Encryption alg reason None"
| "clone_error shown of_text (Sec_Key_Management op reason k) = Sec_Key_Management op reason k"
| "clone_error shown of_text (Sec_Audit op reason e) = Sec_Audit op reason e"
| "clone_error shown of_text (Sec_Intrusion_Detection c reason l) = Sec_Intrusion_Detection c reason l"
| "clone_error shown of_text (Sec_System c reason src) = Sec_System c reason None"
| "clone_error shown of_text (Sec_Configuration setting reason f) = Sec_Configuration setting reason f"
| "clone_error shown of_text (Sec_Network proto reason a) = Sec_Network proto reason a"
| "clone_error shown of_text (Sec_File_System path reason op) = Sec_File_System path reason op"
| "clone_error shown of_text (Sec_Validation field reason v) = Sec_Validation field reason v"
| "clone_error shown of_text (Sec_Resource_Limit resource current limit) = Sec_Resource_Limit resource current limit"
| "clone_error shown of_text (Sec_Timeout op ms) = Sec_Timeout op ms"
| "clone_error shown of_text (Sec_Hsm m reason src) = Sec_Hsm m reason None"
| "clone_error shown of_text (Sec_Secure_Update stage reason i) = Sec_Secure_Update stage reason i"
| "clone_error shown of_text (Sec_Policy_Violation policy reason sev) = Sec_Policy_Violation policy reason sev"
| "clone_error shown of_text (Sec_Generic ctx src) = Sec_Generic ctx (of_text (shown src))"

section \<open>Contexts\<close>

definition with_security_context :: "('e \<Rightarrow> 'a) \<Rightarrow> string \<Rightarrow> 'e + 'v \<Rightarrow> ('s, 'a) security_error + 'v" where
  "with_security_context wrap ctx = map_err (\<lambda>e. Sec_Generic ctx (wrap e))"

definition with_operation :: "('e \<Rightarrow> 'a) \<Rightarrow> string \<Rightarrow> 'e + 'v \<Rightarrow> ('s, 'a) security_error + 'v" where
  "with_operation wrap op = map_err (\<lambda>e. Sec_Generic (''Operation failed: '' @ op) (wrap e))"

definition on_generic ::
    "(string \<Rightarrow> 'a \<Rightarrow> ('s, 'a) security_error) \<Rightarrow> ('s, 'a) security_error \<Rightarrow> ('s, 'a) security_error" where
  "on_generic f e = (case e of Sec_Generic ctx src \<Rightarrow> f ctx src | other \<Rightarrow> other)"

definition with_credential_context ::
    "string \<Rightarrow> string \<Rightarrow> ('s, 'a) security_error + 'v \<Rightarrow> ('s, 'a) security_error + 'v" where
  "with_credential_context op credential_type = map_err (on_generic (\<lambda>ctx _. Sec_Credential op ctx credential_type))"

text \<open>\<open>boxed\<close> turns the generic error's source into a boxed one.\<close>

definition with_crypto_context ::
    "('a \<Rightarrow> 's) \<Rightarrow> string \<Rightarrow> string \<Rightarrow> ('s, 'a) security_error + 'v \<Rightarrow> ('s, 'a) security_error + 'v" where
  "with_crypto_context boxed op reason = map_err (on_generic (\<lambda>_ src. Sec_Cryptographic op reason (Some (boxed src))))"

definition with_auth_context ::
    "string \<Rightarrow> string option \<Rightarrow> ('s, 'a) security_error + 'v \<Rightarrow> ('s, 'a) security_error + 'v" where
  "with_auth_context details user_id = map_err (on_generic (\<lambda>_ _. Sec_Authentication_Failed details user_id 1))"

definition with_audit_context ::
    "string \<Rightarrow> string \<Rightarrow> ('s, 'a) security_error + 'v \<Rightarrow> ('s, 'a) security_error + 'v" where
  "with_audit_context op reason = map_err (on_generic (\<lambda>_ _. Sec_Audit op reason None))"

definition security_credential_error :: "string \<Rightarrow> string \<Rightarrow> string \<Rightarrow> ('s, 'a) security_error" where
  "security_credential_error op reason t = Sec_Credential op reason t"

definition security_crypto_error :: "string \<Rightarrow> string \<Rightarrow> ('s, 'a) security_error" where
  "security_crypto_error op reason = Sec_Cryptographic op reason None"

text \<open>The optional arguments of the macros.\<close>

definition security_auth_error :: "string \<Rightarrow> string option \<Rightarrow> u32 option \<Rightarrow> ('s, 'a) security_error" where
  "security_auth_error details user_id attempts =
     Sec_Authentication_Failed details user_id (case attempts of Some n \<Rightarrow> n | None \<Rightarrow> 1)"

definition security_validation_error :: "string \<Rightarrow> string \<Rightarrow> string option \<Rightarrow> ('s, 'a) security_error" where
  "security_validation_error field reason v = Sec_Validation field reason v"

definition of_io_error :: "('e \<Rightarrow> string) \<Rightarrow> ('e \<Rightarrow> 's) \<Rightarrow> 'e \<Rightarrow> ('s, 'a) security_error" where
  "of_io_error shown boxed e = Sec_System ''filesystem'' (''I/O error: '' @ shown e) (Some (boxed e))"

definition of_json_error :: "('e \<Rightarrow> string) \<Rightarrow> 'e \<Rightarrow> ('s, 'a) security_error" where
  "of_json_error shown e = Sec_Validation ''serialization'' (''JSON serialization error: '' @ shown e) None"

definition of_toml_error :: "('e \<Rightarrow> string) \<Rightarrow> 'e \<Rightarrow> ('s, 'a) security_error" where
  "of_toml_error shown e = Sec_Configuration ''config_parsing'' (''TOML parsing error: '' @ shown e) None"

section \<open>Metrics\<close>

record ('s, 'a) error_metrics =
  em_total_errors :: u64
  em_errors_by_category :: "(string, u64) hashmap"
  em_errors_by_severity :: "(policy_severity, u64) hashmap"
  em_recent_errors :: "('s, 'a) security_error list"
  em_errors_per_hour :: nat

definition error_metrics_new :: "('s, 'a) error_metrics" where
  "error_metrics_new =
     \<lparr> em_total_errors = 0, em_errors_by_category = [], em_errors_by_severity = [], em_recent_errors = [],
       em_errors_per_hour = 0 \<rparr>"

fun error_category :: "('s, 'a) security_error \<Rightarrow> string" where
  "error_category (Sec_Cryptographic _ _ _) = ''cryptographic''"
| "error_category (Sec_Authentication_Failed _ _ _) = ''authentication''"
| "error_category (Sec_Access_Denied _ _ _) = ''authorization''"
| "error_category (Sec_Credential _ _ _) = ''credential''"
| "error_category (Sec_Encryption _ _ _) = ''encryption''"
| "error_category (Sec_Key_Management _ _ _) = ''key_management''"
| "error_category (Sec_Audit _ _ _) = ''audit''"
| "error_category (Sec_Intrusion_Detection _ _ _) = ''intrusion_detection''"
| "error_category (Sec_System _ _ _) = ''system_security''"
| "error_category (Sec_Configuration _ _ _) = ''configuration''"
| "error_category (Sec_Network _ _ _) = ''network_security''"
| "error_category (Sec_File_System _ _ _) = ''file_system_security''"
| "error_category (Sec_Validation _ _ _) = ''validation''"
| "error_category (Sec_Resource_Limit _ _ _) = ''resource_limit''"
| "error_category (Sec_Timeout _ _) = ''timeout''"
| "error_category (Sec_Hsm _ _ _) = ''hsm''"
| "error_category (Sec_Secure_Update _ _ _) = ''secure_update''"
| "error_category (Sec_Policy_Violation _ _ _) = ''policy_violation''"
| "error_category (Sec_Generic _ _) = ''generic''"

definition record_error ::
    "('a \<Rightarrow> string) \<Rightarrow> (string \<Rightarrow> 'a) \<Rightarrow> ('s, 'a) security_error \<Rightarrow> ('s, 'a) error_metrics \<Rightarrow> ('s, 'a) error_metrics" where
  "record_error shown of_text e m =
     (let category = error_category e;
          counted = (case hm_get (em_errors_by_category m) category of Some n \<Rightarrow> n | None \<Rightarrow> 0);
          recent = em_recent_errors m @ [clone_error shown of_text e]
      in m\<lparr>em_total_errors := em_total_errors m + 1,
           em_errors_by_category := hm_insert category (counted + 1) (em_errors_by_category m),
           em_recent_errors := (if length recent > 100 then drop 1 recent else recent)\<rparr>)"

section \<open>Properties\<close>

text \<open>a copy of an error prints the same text, has the same category, and copying it again changes nothing, if
  \<open>anyhow!\<close> keeps a text.\<close>

theorem copied_error_same_text:
  assumes "\<And>s. shown (of_text s) = s"
  shows "show_security_error shown (clone_error shown of_text e) = show_security_error shown e
    \<and> error_category (clone_error shown of_text e) = error_category e
    \<and> clone_error shown of_text (clone_error shown of_text e) = clone_error shown of_text e"
  using assms by (cases e) simp_all

theorem copied_error_same_text_witness:
  "show_security_error id (clone_error id id (Sec_Generic ''c'' ''d'')) = ''c: d''"
  using copied_error_same_text [of id id "Sec_Generic ''c'' ''d''"] by simp

lemma hm_get_record [simp]:
  "hm_get (em_errors_by_category (record_error shown of_text e m)) k =
     (if k = error_category e
      then Some ((case hm_get (em_errors_by_category m) k of Some n \<Rightarrow> n | None \<Rightarrow> 0) + 1)
      else hm_get (em_errors_by_category m) k)"
  by (simp add: record_error_def Let_def hm.get_insert)

lemma category_count_fold:
  "(case hm_get (em_errors_by_category (fold (record_error shown of_text) es m)) k of Some n \<Rightarrow> n | None \<Rightarrow> 0) =
     (case hm_get (em_errors_by_category m) k of Some n \<Rightarrow> n | None \<Rightarrow> 0)
       + of_nat (length (filter (\<lambda>e. error_category e = k) es))"
  by (induction es arbitrary: m) (auto split: option.split)

lemma total_fold: "em_total_errors (fold (record_error shown of_text) es m) = em_total_errors m + of_nat (length es)"
  by (induction es arbitrary: m) (simp_all add: record_error_def Let_def)

text \<open>after any errors the total is their number and the count of a category the number of its errors, both up to
  the wrap-around of 64 bits; the counts by severity and the rate stay as they were made.\<close>

theorem error_counts_exact:
  "let m = fold (record_error shown of_text) es error_metrics_new
   in em_total_errors m = of_nat (length es)
      \<and> (case hm_get (em_errors_by_category m) k of Some n \<Rightarrow> n | None \<Rightarrow> 0)
          = of_nat (length (filter (\<lambda>e. error_category e = k) es))
      \<and> em_errors_by_severity m = [] \<and> em_errors_per_hour m = 0"
proof -
  have "em_errors_by_severity (fold (record_error shown of_text) es m) = em_errors_by_severity m
      \<and> em_errors_per_hour (fold (record_error shown of_text) es m) = em_errors_per_hour m" for m
    by (induction es arbitrary: m) (simp_all add: record_error_def Let_def)
  then show ?thesis
    by (simp add: Let_def total_fold category_count_fold error_metrics_new_def hm.get_empty)
qed

lemma recent_fold:
  "length (em_recent_errors m) \<le> 100 \<Longrightarrow>
     em_recent_errors (fold (record_error shown of_text) es m) =
       (let all = em_recent_errors m @ map (clone_error shown of_text) es in drop (length all - 100) all)"
proof (induction es arbitrary: m)
  case (Cons e es)
  let ?m = "record_error shown of_text e m" and ?c = "clone_error shown of_text"
  show ?case
  proof (cases "length (em_recent_errors m) = 100")
    case True
    have r: "em_recent_errors ?m = drop 1 (em_recent_errors m @ [?c e])"
      using True by (simp add: record_error_def Let_def)
    then have "length (em_recent_errors ?m) \<le> 100" using True by simp
    from Cons.IH [OF this] r True show ?thesis by (simp add: Let_def)
  next
    case False
    with Cons.prems have less: "length (em_recent_errors m) < 100" by simp
    then have r: "em_recent_errors ?m = em_recent_errors m @ [?c e]" by (simp add: record_error_def Let_def)
    then have "length (em_recent_errors ?m) \<le> 100" using less by simp
    from Cons.IH [OF this] r show ?thesis by simp
  qed
qed simp

text \<open>the recent errors are copies of the last hundred, in their order.\<close>

theorem recent_errors_exact:
  "em_recent_errors (fold (record_error shown of_text) es error_metrics_new) =
     map (clone_error shown of_text) (drop (length es - 100) es)"
  by (simp add: recent_fold error_metrics_new_def Let_def drop_map)

text \<open>a context replaces a generic error only: a second context has no effect on what the first made of it.\<close>

theorem first_context_kept:
  "with_auth_context details user (with_credential_context op t r) = with_credential_context op t r
   \<and> with_crypto_context boxed op' reason (with_audit_context op reason' r) = with_audit_context op reason' r"
  by (cases r)
     (auto simp: with_auth_context_def with_credential_context_def with_crypto_context_def with_audit_context_def
        on_generic_def split: security_error.splits)

end
