(* ===== verification/Platform_Fallback.thy ===== *)
theory Platform_Fallback
  imports Platform_Linux
begin

text \<open>
  The platform layer for other Unix systems (\<open>src/platform/fallback.rs\<close>), over the file system and environment
  of \<open>Platform_Linux\<close>.

  \<open>mounts\<close> is what running \<open>mount\<close> gives: \<open>None\<close> if it cannot be started or fails, \<open>Some None\<close> for output that
  is not UTF-8.  \<open>entries\<close> tells whether a directory has an entry, if it can be read; \<open>alive\<close> whether signal 0
  can be sent to a process.
\<close>

section \<open>Files and the PID file\<close>

definition fb_create_dir :: "platform_env \<Rightarrow> string \<Rightarrow> inodes \<Rightarrow> inodes \<times> (platform_error + unit)" where
  "fb_create_dir env path fs = (case pl_mkdir env path fs of (fs1, ok) \<Rightarrow> (fs1, if ok then Inr () else Inl Io_Failed))"

definition fb_ensure_dir_exists :: "platform_env \<Rightarrow> string \<Rightarrow> inodes \<Rightarrow> inodes \<times> (platform_error + unit)" where
  "fb_ensure_dir_exists env path fs = (if \<not> path_exists fs path then fb_create_dir env path fs else (fs, Inr ()))"

definition fb_can_access_path :: "inodes \<Rightarrow> string \<Rightarrow> bool" where
  "fb_can_access_path fs path = (case path_parent path of Some parent \<Rightarrow> fs parent \<noteq> None | None \<Rightarrow> False)"

definition fb_remove_dir :: "platform_env \<Rightarrow> string \<Rightarrow> inodes \<Rightarrow> inodes \<times> (platform_error + unit)" where
  "fb_remove_dir env path fs =
     (if \<not> path_exists fs path then (fs, Inr ())
      else if \<not> pl_remove env path then (fs, Inl Io_Failed)
      else ((\<lambda>q. if path_starts_with q path then None else fs q), Inr ()))"

definition fb_get_current_user :: "platform_env \<Rightarrow> string option" where
  "fb_get_current_user env =
     (case pl_var env ''USER'' of Some u \<Rightarrow> Some u
      | None \<Rightarrow> (case pl_var env ''LOGNAME'' of Some u \<Rightarrow> Some u | None \<Rightarrow> pl_var env ''USERNAME''))"

definition fb_daemonize :: "platform_error + unit" where
  "fb_daemonize = Inl Not_Supported"

definition fb_write_pid_file ::
    "platform_env \<Rightarrow> bool \<Rightarrow> write_outcome \<Rightarrow> string \<Rightarrow> files \<Rightarrow> files \<times> (platform_error + unit)" where
  "fb_write_pid_file env dir_ok w pid_file fs =
     (if \<not> dir_ok then (fs, Inl Io_Failed)
      else case write_file w pid_file (show_nat (unat (pl_pid env))) fs of
             (fs1, ok) \<Rightarrow> (fs1, if ok then Inr () else Inl Io_Failed))"

definition fb_remove_pid_file :: "platform_env \<Rightarrow> string \<Rightarrow> files \<Rightarrow> files \<times> (platform_error + unit)" where
  "fb_remove_pid_file env pid_file fs =
     (if fs pid_file = None then (fs, Inr ())
      else if \<not> pl_remove env pid_file then (fs, Inl Io_Failed)
      else (fs(pid_file := None), Inr ()))"

definition fb_check_pid_file ::
    "platform_env \<Rightarrow> (string \<Rightarrow> bool) \<Rightarrow> (u32 \<Rightarrow> bool) \<Rightarrow> string \<Rightarrow> files \<Rightarrow> files \<times> (platform_error + u32 option)" where
  "fb_check_pid_file env readable alive pid_file fs =
     (if fs pid_file = None then (fs, Inr None)
      else case read_file readable fs pid_file of
             None \<Rightarrow> (fs, Inl Io_Failed)
           | Some s \<Rightarrow>
               (case parse_u32 (trim s) of
                  None \<Rightarrow> (fs, Inl Invalid_Pid)
                | Some pid \<Rightarrow>
                    if alive pid then (fs, Inr (Some pid))
                    else (case fb_remove_pid_file env pid_file fs of
                            (fs', Inl e) \<Rightarrow> (fs', Inl e)
                          | (fs', Inr _) \<Rightarrow> (fs', Inr None))))"

definition fb_send_signal :: "platform_env \<Rightarrow> u32 \<Rightarrow> signal \<Rightarrow> platform_error + unit" where
  "fb_send_signal env pid s = ensure (pl_kill env pid (unix_signal_of s)) (Kill_Failed pid)"

section \<open>Mounts\<close>

definition fb_get_mount_command :: "mount_type \<Rightarrow> platform_error + string list" where
  "fb_get_mount_command ty =
     (case ty of
        Nfs host share options' \<Rightarrow>
          Inr ([''mount'', ''-t'', ''nfs''] @ (if options' \<noteq> [] then [''-o'', join '','' options'] else [])
               @ [host @ '':'' @ share])
      | Smb _ _ _ _ _ _ \<Rightarrow> Inl Smb_Not_Implemented
      | Sshfs _ _ _ _ _ _ \<Rightarrow> Inl Sshfs_Not_Mount)"

definition fb_get_unmount_command :: "string list" where
  "fb_get_unmount_command = [''umount'']"

type_synonym mount_output = "string option option"

definition fb_is_mounted ::
    "mount_output \<Rightarrow> (string \<Rightarrow> bool option) \<Rightarrow> inodes \<Rightarrow> string \<Rightarrow> platform_error + bool" where
  "fb_is_mounted mounts entries fs mount_point =
     (case mounts of
        Some None \<Rightarrow> Inl Not_Utf8
      | Some (Some txt) \<Rightarrow> Inr (contains_str txt ('' on '' @ mount_point))
      | None \<Rightarrow> Inr (path_exists fs mount_point \<and> entries mount_point = Some True))"

definition fb_get_mount_info :: "mount_output \<Rightarrow> string \<Rightarrow> platform_error + mount_info option" where
  "fb_get_mount_info mounts path =
     (case mounts of
        Some None \<Rightarrow> Inl Not_Utf8
      | Some (Some txt) \<Rightarrow>
          Inr (case find (\<lambda>l. contains_str l ('' on '' @ path)) (lines_of txt) of
                 Some _ \<Rightarrow> Some \<lparr> mi_device = ''unknown'', mi_mount_point = path, mi_fs_type = ''unknown'', mi_options = [] \<rparr>
               | None \<Rightarrow> None)
      | None \<Rightarrow> Inr None)"

text \<open>\<open>str::find\<close>: the text before and after the first occurrence.\<close>

fun split_at_str :: "string \<Rightarrow> string \<Rightarrow> (string \<times> string) option" where
  "split_at_str pat [] = (if pat = [] then Some ([], []) else None)"
| "split_at_str pat (c # s) =
     (if starts_with (c # s) pat then Some ([], drop (length pat) (c # s))
      else map_option (\<lambda>(a, b). (c # a, b)) (split_at_str pat s))"

definition fb_mount_of_line :: "string \<Rightarrow> (string \<times> mount_info) option" where
  "fb_mount_of_line line =
     (case split_at_str '' on '' line of
        None \<Rightarrow> None
      | Some (device, rest) \<Rightarrow>
          (case split_once CHR '' '' rest of
             None \<Rightarrow> None
           | Some (point, _) \<Rightarrow>
               Some (point, \<lparr> mi_device = device, mi_mount_point = point, mi_fs_type = ''unknown'', mi_options = [] \<rparr>)))"

definition fb_list_system_mounts :: "mount_output \<Rightarrow> platform_error + (string \<times> mount_info) list" where
  "fb_list_system_mounts mounts =
     (case mounts of
        Some None \<Rightarrow> Inl Not_Utf8
      | Some (Some txt) \<Rightarrow> Inr (List.map_filter fb_mount_of_line (lines_of txt))
      | None \<Rightarrow> Inr [])"

section \<open>Directories\<close>

definition fb_get_socket_path :: "platform_env \<Rightarrow> inodes \<Rightarrow> string option \<Rightarrow> string" where
  "fb_get_socket_path env fs config_path =
     (let fallback =
        (case pl_var env ''XDG_RUNTIME_DIR'' of
           Some runtime_dir \<Rightarrow>
             (let path = path_join runtime_dir ''fuji.sock''
              in if fb_can_access_path fs path then path else ''/tmp/fuji.sock'')
         | None \<Rightarrow> ''/tmp/fuji.sock'')
      in case config_path of
           Some path \<Rightarrow> if fb_can_access_path fs path then path else fallback
         | None \<Rightarrow> fallback)"

definition fb_get_config_dir :: "platform_env \<Rightarrow> string" where
  "fb_get_config_dir env = path_join (case pl_config_dir env of Some d \<Rightarrow> d | None \<Rightarrow> ''~/.config'') ''fuji''"

definition fb_get_mount_dir :: string where
  "fb_get_mount_dir = ''/mnt/fuji''"

section \<open>Properties\<close>

text \<open>a mount point counts as mounted as soon as something is mounted at a path that begins with its name.\<close>

theorem longer_point_counts_as_mounted:
  "fb_is_mounted (Some (Some (before @ '' on '' @ point @ trailing))) entries fs point = Inr True"
proof -
  have "contains_str (xs @ pat @ ys) pat" for xs pat ys :: string
    by (simp add: contains_str_sublist sublist_appendI)
  from this [of before "'' on '' @ point" trailing] show ?thesis by (simp add: fb_is_mounted_def)
qed

text \<open>a PID file that names a running process to which no signal may be sent is removed, and the daemon counts
  as not running: signal 0 fails for a process of another user as it does for none.\<close>

theorem foreign_daemon_forgotten:
  assumes "fs pid_file = Some (show_nat (unat (pid :: u32)))" and "readable pid_file"
    and "\<not> alive pid" and "pl_remove env pid_file"
  shows "fb_check_pid_file env readable alive pid_file fs = (fs(pid_file := None), Inr None)"
proof -
  have t: "trim (show_nat n) = show_nat n" for n
  proof -
    have d: "\<not> is_whitespace c" if "c \<in> set (show_nat n)" for c
      using show_nat_digits [of n] that by (auto simp: is_ascii_digit_def is_whitespace_def char_code_def)
    have ne: "show_nat n \<noteq> []" using show_nat_hd by blast
    show ?thesis unfolding trim_def by (rule trim_both_id) (use d ne in auto)
  qed
  have "unat pid < 2 ^ 32" using unsigned_less [of pid] by simp
  then have "parse_u32 (show_nat (unat pid)) = Some pid" by (simp add: parse_u32_def parse_show_nat)
  with assms t show ?thesis by (simp add: fb_check_pid_file_def read_file_def fb_remove_pid_file_def)
qed

theorem foreign_daemon_forgotten_witness:
  "fb_check_pid_file \<lparr> pl_uid = 5, pl_gid = 5, pl_pid = 9, pl_var = (\<lambda>_. None), pl_whoami = ''u'', pl_mkdir = (\<lambda>_ fs. (fs, True)),
       pl_chmod = (\<lambda>_. True), pl_remove = (\<lambda>_. True), pl_findmnt = (\<lambda>_. None), pl_proc_mounts = None,
       pl_kill = (\<lambda>_ _. False), pl_is_dir = (\<lambda>_. True), pl_config_dir = None \<rparr>
     (\<lambda>_. True) (\<lambda>_. False) ''/p'' (\<lambda>_. Some (show_nat (unat (7 :: u32)))) = ((\<lambda>_. Some (show_nat 7))(''/p'' := None), Inr None)"
  by (subst foreign_daemon_forgotten [where pid = 7]) simp_all

text \<open>unlike the platform layer for Linux, this one gives a path that an existing directory holds without regard to
  the permissions of it.\<close>

theorem fallback_ignores_permissions:
  assumes "path_parent path = Some parent" and "fs parent = Some i"
  shows "fb_get_socket_path env fs (Some path) = path"
  using assms by (simp add: fb_get_socket_path_def fb_can_access_path_def)

theorem fallback_ignores_permissions_witness:
  "fb_get_socket_path \<lparr> pl_uid = 5, pl_gid = 5, pl_pid = 9, pl_var = (\<lambda>_. None), pl_whoami = ''u'', pl_mkdir = (\<lambda>_ fs. (fs, True)),
       pl_chmod = (\<lambda>_. True), pl_remove = (\<lambda>_. True), pl_findmnt = (\<lambda>_. None), pl_proc_mounts = None,
       pl_kill = (\<lambda>_ _. False), pl_is_dir = (\<lambda>_. True), pl_config_dir = None \<rparr>
     (\<lambda>_. Some \<lparr> in_uid = 0, in_gid = 0, in_mode = 0 \<rparr>) (Some ''/a/b'') = ''/a/b''"
  by (rule fallback_ignores_permissions) (code_simp, simp)

end
