(* ===== verification/Spec2Isabelle.thy ===== *)
theory Spec2Isabelle
  imports Mount_State_Machine Mount_Options Mount_Drivers Config_Access Sync_Coordinator Mount_Retry Monitoring_Manager
    Path_Report Resource_Limits Socket_Server Daemon_Behaviour Audit_Export Audit_Monitoring Access_Control
    System_Deps Intrusion_Behaviour Integrity_Runtime Credential_Manager Credential_Backup Secure_Updates
    Config_Security Seccomp_Filter Secure_Socket Process_Isolation Security_Dashboard Cli_Daemon Security_Error
    Platform_Fallback
begin

text \<open>
  A model of Fuji, a daemon that mounts network shares (NFS, SMB, SSHFS) and keeps them mounted, with the command line
  that drives it, the cluster that synchronises its configuration between machines, and its security modules.  Files
  are named relative to the crate: \<open>src/mount/mod.rs\<close> is the module \<open>mount\<close>.

  \<^bold>\<open>The program.\<close>  \<open>fuji\<close> (\<open>src/cli\<close>) sends one request over a Unix socket (\<open>src/socket\<close>) to the daemon
  (\<open>src/daemon\<close>) and prints its answer.  The daemon keeps the configuration (\<open>src/config\<close>), validates URLs, options and
  paths (\<open>src/mount\<close>, \<open>src/security/path_security.rs\<close>), takes a permit (\<open>src/security/resource_limits.rs\<close>), and lets
  one of three drivers (\<open>src/mount/drivers\<close>) run a command that the allow list accepts, with retries
  (\<open>src/monitoring\<close>).  A loop probes the mounts and reconnects those that failed.  A configuration with a cluster makes
  the daemon a node (\<open>src/cluster\<close>, \<open>src/network\<close>, \<open>src/sync\<close>) that exchanges configurations and merges them.  The
  modules of \<open>src/security\<close> (audit log and its monitors, credentials, integrity, intrusion detection, updates, secure
  sockets, isolation, dashboard) are libraries beside this path.

  \<^bold>\<open>Theories.\<close>  One theory models one part; its text block names the file.  Records have the fields of the source's
  structures with a prefix, datatypes its constructors, and each operation has the source's name (with a suffix
  where HOL has the name already).

  \<^item> \<open>Fuji_Prelude\<close>: results as sums, hash maps as association lists with their laws (locale \<open>hash_map\<close>), strings,
    paths, the locale \<open>component\<close> (an invariant kept by a step function holds after every
    run; \<open>guarded_component\<close> where a step has a condition) and the collection \<open>fuji_eval\<close>.
  \<^item> Mounts: \<open>Mount_Types\<close>, \<open>Mount_State_Machine\<close> (also two calls interleaved), \<open>Mount_Options\<close>, \<open>Options_Validator\<close>,
    \<open>Url_Validator\<close>, \<open>Command_Allowlist\<close>, \<open>Secure_Command\<close>, \<open>Mount_Drivers\<close> (the trait \<open>MountHandler\<close> as the locale
    \<open>mount_driver\<close>, interpreted for the three drivers).
  \<^item> Configuration: \<open>Fuji_Config\<close>, \<open>Config_Store\<close> (load, save, atomic save over a file map in which every call may fail),
    \<open>Config_Access\<close> (stored durations, chosen directories, invitations as text).
  \<^item> Cluster: \<open>Cluster_State\<close>, \<open>Cluster_Discovery\<close>, \<open>Cluster_Transport\<close>, \<open>Sync_Merge\<close>, \<open>Sync_Protocol\<close>,
    \<open>Sync_Coordinator\<close> (handlers and timers as steps, the lock that a handler holds across a wait as the outcome
    \<open>Blocked\<close>), \<open>System_Deps\<close> (with the identity of an instance).
  \<^item> Monitoring: \<open>Retry\<close>, \<open>Mount_Retry\<close>, \<open>Health_Monitor\<close>, \<open>Dependency_Graph\<close>, \<open>Monitoring_Manager\<close>.
  \<^item> Daemon: \<open>Socket_Protocol\<close>, \<open>Socket_Server\<close>, \<open>Progress\<close>, \<open>Daemon_Error\<close>, \<open>Daemon_Monitor\<close>, \<open>Daemon_State\<close>,
    \<open>Daemon_Requests\<close> and \<open>Daemon_Status\<close> (the handlers), \<open>Daemon_Loop\<close> (dispatch and loop), \<open>Daemon_Handling\<close> and
    \<open>Daemon_Behaviour\<close> (what they guarantee), \<open>Daemon_Start\<close> (new, start, cleanup).
  \<^item> Command line: \<open>Cli_Values\<close>, \<open>Cli_Commands\<close>, \<open>Cli_Cluster\<close>; \<open>Cli_Daemon\<close> composes it with the daemon's handlers.
  \<^item> Platform: \<open>Platform_Linux\<close>, \<open>Platform_Fallback\<close>, \<open>Access_Control\<close>.
  \<^item> Security: \<open>Path_Security\<close>, \<open>Path_Report\<close>, \<open>Resource_Limits\<close>, \<open>Audit_Log\<close>, \<open>Audit_Chain\<close>, \<open>Audit_Export\<close>, \<open>Audit_Monitoring\<close>,
    \<open>Intrusion_Detection\<close>, \<open>Intrusion_Behaviour\<close>, \<open>Integrity\<close>, \<open>Integrity_Runtime\<close>, \<open>Encryption\<close>,
    \<open>Credential_Interface\<close> (the trait as the locale \<open>credential_store\<close>), \<open>Credential_File\<close>, \<open>Credential_Manager\<close>,
    \<open>Credential_Backup\<close>, \<open>Secure_Updates\<close>, \<open>Config_Security\<close>, \<open>Seccomp_Filter\<close>, \<open>Secure_Socket\<close>,
    \<open>Process_Isolation\<close>, \<open>Security_Dashboard\<close>, \<open>Security_Error\<close>.

  \<^bold>\<open>What the lemmas show.\<close>  Invariants under any sequence of operations (the daemon's mounts and permits, the history of
  the state machine, the chain of the audit log, the spacing of alerts); refinements (the configuration and the
  credential file are maps from identifiers); exact outcomes of the handlers on every branch; what is left after a
  failure at any point of a save, a store or a start; confinement of paths, commands and URLs; round trips of
  configurations, tokens, messages, credentials and backups; bounds of retries, connections, buffers and histories;
  and where the code does not do what its comments promise, a theorem with the behaviour it has.

  \<^bold>\<open>Conventions.\<close>  Integers have the source's width as words and wrap around as in a release build; a slice or index out
  of range and a failed \<open>unwrap\<close> are the outcome \<open>Panicked\<close> where the source can reach them.  A string is its list of bytes, so case
  mapping and trimming are those of ASCII.  \<open>f32\<close> and \<open>f64\<close> are rationals, or a type parameter where only their
  printing matters.  A \<open>HashMap\<close> is an association list whose order stands for the unspecified one.  Clocks, random
  bytes and fresh identifiers are arguments of the call.  A handler is one step unless a wait inside it matters; then
  its locks are explicit and a wait that cannot end is \<open>Blocked\<close> (the server gives up on such a connection after 30 s).

  \<^bold>\<open>Parameters.\<close>  Code outside the crate is an argument, and a theorem that relies on its documented behaviour says so
  in a named hypothesis, with an instance that meets it: the URL parser, the regular expressions, the runner of
  processes, \<open>petgraph_ok\<close>, \<open>cron_ok\<close>, \<open>jwt_ok\<close>, \<open>findmnt_ok\<close>, \<open>crypto_ok\<close> (decryption undoes encryption, hashes have
  their length), \<open>codec_ok\<close>, \<open>enhanced_codec_ok\<close>, \<open>config_codec_ok\<close> and \<open>invitation_codec_ok\<close> (JSON
  and TOML read back what they printed),
  \<open>no_collision\<close> for hashes, \<open>mprotect_ok\<close>, \<open>setgid_needs_root\<close>, the calendar, the shell's lexer, the table printer.
  The machine that runs a kernel filter is defined as documented (\<open>bpf_run\<close>).

  \<^bold>\<open>Termination and fuel.\<close>  All definitions are total.  The retry loop recurses on the attempts left; the search of the
  dependency graph has as fuel one more than the number of nodes, which is enough because each call marks a node
  (shown where it is used); loops of the daemon are folds over the steps of a finite run.

  \<^bold>\<open>Not modelled.\<close>  The tests; most log output; the parsing of command lines (clap); the formats of
  JSON, TOML, base64 and PEM; the interior of hashes and ciphers; the entry point and module lists; \<open>src/constants.rs\<close>
  (its numbers appear where they are used); \<open>src/cluster/election.rs\<close> and \<open>src/cluster/fault_tolerance.rs\<close>, which hold
  empty structures; the handlers of signals, which only log; the variants for systems other than Linux of functions that
  have a variant for Linux; constructors without arguments, accessors and derived copies.  Preemption inside a handler is
  modelled only where a claim depends on it: the state machine, the audit log, the pending synchronisations and the connection limiter.
\<close>

end
